(* ===== verification/SPV_Prelude.thy ===== *)
theory SPV_Prelude
  imports Main "HOL-Library.Word" "HOL-Library.Sublist"
begin

text \<open>
  Shared ground of the development: the names of the machine types the C++ code uses, the
  collections the component proofs draw on, the outcome types that make every way a call can
  end a value, and the little-endian byte image of a machine word (the code casts object memory
  to bytes, on the little-endian hosts it supports).
\<close>

unbundle bit_operations_syntax

section \<open>Machine types\<close>

type_synonym u8 = "8 word"
type_synonym u16 = "16 word"
type_synonym u32 = "32 word"
type_synonym u64 = "64 word"
type_synonym uint128 = "128 word"
type_synonym uint160 = "160 word"
type_synonym uint168 = "168 word"
type_synonym uint256 = "256 word"
type_synonym uint512 = "512 word"
type_synonym bytes = "u8 list"

named_theorems transfer_intros \<open>rules that pair a writer with the reader of the same layout\<close>
named_theorems reader_intros \<open>rules for the footprint of a reader\<close>
named_theorems size_intros \<open>rules for the number of bytes a writer appends\<close>
named_theorems needs_intros \<open>rules for readers that cannot succeed on no input\<close>

section \<open>Outcomes\<close>

text \<open>
  \<open>error_code\<close> holds the codes of \<open>Error::Code\<close> (\<open>SDK/Common/ErrorChecker.h\<close>) the modelled code
  throws, with \<open>E_Json\<close> for an exception of the JSON library.  \<open>Undef\<close> is undefined behaviour: a read outside a buffer, a null dereference.
\<close>

datatype error_code =
    E_InvalidArgument | E_MultiSignersCount | E_Address | E_Transaction | E_Sign
  | E_InvalidTransaction | E_AlreadySigned | E_PrivateKeyNotFound | E_BalanceNotEnough
  | E_Key | E_Mnemonic | E_ProposalContentTooLarge | E_ProposalHashNotMatch
  | E_JsonFormatError | E_BigInt | E_InvalidMnemonicWordCount | E_MultiSign | E_PubKeyFormat
  | E_UnsupportOperation | E_InvalidPasswd | E_WrongPasswd | E_EncryptError | E_PubKeyLength
  | E_DepositAmountInsufficient | E_InvalidLocalStore | E_MasterWalletNotExist | E_KeyStore | E_InvalidChainID
  | E_CreateMasterWalletError | E_CreateSubWalletError | E_PathNotExist | E_PayloadRegisterID | E_Json | E_Other

datatype 'a outcome = Ret 'a | Throw error_code | Undef

fun obind :: "'a outcome \<Rightarrow> ('a \<Rightarrow> 'b outcome) \<Rightarrow> 'b outcome" where
  "obind (Ret x) f = f x"
| "obind (Throw e) f = Throw e"
| "obind Undef f = Undef"

lemma obind_Ret_right [simp]: "obind m Ret = m"
  by (cases m) simp_all

lemma obind_assoc: "obind (obind m f) g = obind m (\<lambda>x. obind (f x) g)"
  by (cases m) simp_all

lemma obind_eq_Ret: "obind m f = Ret y \<longleftrightarrow> (\<exists>x. m = Ret x \<and> f x = Ret y)"
  by (cases m) simp_all

definition omap :: "('a \<Rightarrow> 'b) \<Rightarrow> 'a outcome \<Rightarrow> 'b outcome" where
  "omap f m = obind m (\<lambda>x. Ret (f x))"

lemma omap_Ret [simp]: "omap f (Ret x) = Ret (f x)"
  by (simp add: omap_def)

section \<open>Little-endian bytes\<close>

lemma unat_bound: "unat (w :: 'a::len word) < 2 ^ LENGTH('a)"
  by (rule unsigned_less)

lemma unat_ucast: "unat (ucast (w :: 'a::len word) :: 'b::len word) = unat w mod 2 ^ LENGTH('b)"
  by (simp add: unsigned_ucast_eq unsigned_take_bit_eq take_bit_eq_mod)

lemma unat_u8_bound [simp]: "unat (b :: u8) < 256"
  using unat_bound [of b] by simp

primrec le_of_nat :: "nat \<Rightarrow> nat \<Rightarrow> bytes" where
  "le_of_nat 0 n = []"
| "le_of_nat (Suc k) n = word_of_nat n # le_of_nat k (n div 256)"

primrec nat_of_le :: "bytes \<Rightarrow> nat" where
  "nat_of_le [] = 0"
| "nat_of_le (b # bs) = unat b + 256 * nat_of_le bs"

definition le_bytes :: "nat \<Rightarrow> 'a::len word \<Rightarrow> bytes" where
  "le_bytes k w = le_of_nat k (unat w)"

definition of_le :: "bytes \<Rightarrow> 'a::len word" where
  "of_le bs = word_of_nat (nat_of_le bs)"

lemma length_le_of_nat [simp]: "length (le_of_nat k n) = k"
  by (induction k arbitrary: n) simp_all

lemma length_le_bytes [simp]: "length (le_bytes k w) = k"
  by (simp add: le_bytes_def)

lemma unat_word_of_nat_u8: "unat (word_of_nat n :: u8) = n mod 256"
  by (simp add: unat_of_nat)

lemma nat_of_le_of_nat: "nat_of_le (le_of_nat k n) = n mod 256 ^ k"
proof (induction k arbitrary: n)
  case 0
  then show ?case by simp
next
  case (Suc k)
  have "n mod 256 ^ Suc k = n mod 256 + 256 * (n div 256 mod 256 ^ k)"
    by (simp add: mod_mult2_eq)
  then show ?case by (simp add: Suc unat_word_of_nat_u8)
qed

lemma nat_of_le_bound: "nat_of_le bs < 256 ^ length bs"
proof (induction bs)
  case Nil
  then show ?case by simp
next
  case (Cons b bs)
  have "unat b + 256 * nat_of_le bs < 256 * (nat_of_le bs + 1)" by simp
  also have "\<dots> \<le> 256 * 256 ^ length bs" using Cons by (intro mult_le_mono2) simp
  finally show ?case by simp
qed

lemma le_of_nat_nat_of_le: "le_of_nat (length bs) (nat_of_le bs) = bs"
proof (induction bs)
  case Nil
  then show ?case by simp
next
  case (Cons b bs)
  have b: "unat b < 256" using unat_bound [of b] by simp
  then have "(unat b + 256 * nat_of_le bs) div 256 = nat_of_le bs" by simp
  moreover have "(word_of_nat (unat b + 256 * nat_of_le bs) :: u8) = b"
    by (rule word_unat_eq_iff [THEN iffD2]) (simp only: unat_word_of_nat_u8 mod_mult_self2 mod_less b)
  ultimately show ?case by (simp add: Cons)
qed

lemma nat_of_le_append: "nat_of_le (bs @ cs) = nat_of_le bs + 256 ^ length bs * nat_of_le cs"
  by (induction bs) (simp_all add: algebra_simps)

lemma of_le_le_bytes:
  assumes "LENGTH('a::len) \<le> 8 * k"
  shows "of_le (le_bytes k (w :: 'a word)) = w"
proof -
  have "unat w < 2 ^ LENGTH('a)" by (rule unat_bound)
  also have "(2::nat) ^ LENGTH('a) \<le> 2 ^ (8 * k)" using assms by (rule power_increasing) simp
  also have "\<dots> = 256 ^ k" by (simp add: power_mult)
  finally show ?thesis by (simp add: of_le_def le_bytes_def nat_of_le_of_nat)
qed

lemma le_bytes_of_le:
  assumes "8 * length bs \<le> LENGTH('a::len)"
  shows "le_bytes (length bs) (of_le bs :: 'a word) = bs"
proof -
  have "nat_of_le bs < 256 ^ length bs" by (rule nat_of_le_bound)
  also have "(256::nat) ^ length bs = 2 ^ (8 * length bs)" by (simp add: power_mult)
  also have "\<dots> \<le> 2 ^ LENGTH('a)" using assms by (rule power_increasing) simp
  finally have "unat (of_le bs :: 'a word) = nat_of_le bs"
    by (simp add: of_le_def unat_of_nat)
  then show ?thesis by (simp add: le_bytes_def le_of_nat_nat_of_le)
qed

lemma le_bytes_inject:
  assumes "LENGTH('a::len) \<le> 8 * k"
  shows "le_bytes k v = le_bytes k (w :: 'a word) \<longleftrightarrow> v = w"
  using of_le_le_bytes [OF assms] by metis

section \<open>Characters and bytes\<close>

text \<open>A \<open>std::string\<close> is a sequence of bytes: each \<open>char\<close> stands for its code.\<close>

definition byte_of_char :: "char \<Rightarrow> u8" where
  "byte_of_char c = word_of_nat (of_char c)"

definition char_of_byte :: "u8 \<Rightarrow> char" where
  "char_of_byte b = char_of (unat b)"

definition bytes_of_string :: "string \<Rightarrow> bytes" where
  "bytes_of_string s = map byte_of_char s"

definition string_of_bytes :: "bytes \<Rightarrow> string" where
  "string_of_bytes bs = map char_of_byte bs"

lemma char_of_byte_of_char [simp]: "char_of_byte (byte_of_char c) = c"
  by (simp add: char_of_byte_def byte_of_char_def unat_of_nat)

lemma byte_of_char_of_byte [simp]: "byte_of_char (char_of_byte b) = b"
proof -
  have "unat b < 256" using unat_bound [of b] by simp
  then show ?thesis by (simp add: char_of_byte_def byte_of_char_def)
qed

lemma string_of_bytes_of_string [simp]: "string_of_bytes (bytes_of_string s) = s"
  by (simp add: string_of_bytes_def bytes_of_string_def comp_def)

lemma bytes_of_string_of_bytes [simp]: "bytes_of_string (string_of_bytes bs) = bs"
  by (simp add: string_of_bytes_def bytes_of_string_def comp_def)

lemma length_bytes_of_string [simp]: "length (bytes_of_string s) = length s"
  by (simp add: bytes_of_string_def)

lemma length_string_of_bytes [simp]: "length (string_of_bytes bs) = length bs"
  by (simp add: string_of_bytes_def)

lemma bytes_of_string_inject [simp]: "bytes_of_string s = bytes_of_string t \<longleftrightarrow> s = t"
  by (metis string_of_bytes_of_string)

end
