(* ===== verification/ByteStream.thy ===== *)
theory ByteStream
  imports SPV_Prelude
begin

text \<open>
  The byte stream of \<open>SDK/Common/ByteStream.{h,cpp}\<close>, the buffer and read position every
  message of the SDK is written to and read from: its record, its write and read operations,
  and the calculus the component theories use to relate a \<open>Serialize\<close> to its \<open>Deserialize\<close>.

  A writer appends bytes.  A reader takes bytes at the read position and succeeds (\<open>ROk\<close>),
  returns \<open>false\<close> (\<open>RFail\<close>), or leaves the defined behaviour of C++ (\<open>RUndef\<close>).
\<close>

section \<open>State and outcomes\<close>

record ByteStream =
  rpos :: u64
  buf :: bytes

datatype 'a rres = ROk 'a ByteStream | RFail ByteStream | RUndef

type_synonym writer = "ByteStream \<Rightarrow> ByteStream outcome"
type_synonym 'a reader = "ByteStream \<Rightarrow> 'a rres"

definition empty_stream :: ByteStream where
  "empty_stream = \<lparr>rpos = 0, buf = []\<rparr>"

definition stream_of :: "bytes \<Rightarrow> ByteStream" where
  "stream_of bs = \<lparr>rpos = 0, buf = bs\<rparr>"

text \<open>
  \<open>ByteStream(const void *buf, size_t size)\<close> and \<open>WriteBytes(const void *buf, size_t len)\<close> go
  through the constructor \<open>uchar_vector(const void *array, unsigned int size)\<close>, whose size has
  32 bits: a longer buffer is cut to its length modulo \<open>2 ^ 32\<close>.
\<close>

definition bytes_from_ptr :: "bytes \<Rightarrow> u64 \<Rightarrow> bytes" where
  "bytes_from_ptr p len = take (unat (ucast len :: u32)) p"

definition stream_of_ptr :: "bytes \<Rightarrow> u64 \<Rightarrow> ByteStream" where
  "stream_of_ptr p len = \<lparr>rpos = 0, buf = bytes_from_ptr p len\<rparr>"

definition Reset :: "ByteStream \<Rightarrow> ByteStream" where
  "Reset s = s\<lparr>rpos := 0, buf := []\<rparr>"

definition stream_size :: "ByteStream \<Rightarrow> u64" where
  "stream_size s = word_of_nat (length (buf s))"

definition Skip :: "u64 \<Rightarrow> ByteStream \<Rightarrow> ByteStream" where
  "Skip n s = (if rpos s + n \<le> stream_size s then s\<lparr>rpos := rpos s + n\<rparr> else s)"

section \<open>Sequencing\<close>

text \<open>
  \<open>rbind r f\<close> is the pattern \<open>if (!r) return false; f\<close>, and \<open>wseq\<close> runs the statements of a
  \<open>Serialize\<close> in order.
\<close>

definition rret :: "'a \<Rightarrow> 'a reader" where
  "rret x s = ROk x s"

definition rfail :: "'a reader" where
  "rfail s = RFail s"

definition rundef :: "'a reader" where
  "rundef s = RUndef"

definition rbind :: "'a reader \<Rightarrow> ('a \<Rightarrow> 'b reader) \<Rightarrow> 'b reader" where
  "rbind r f s = (case r s of ROk x s' \<Rightarrow> f x s' | RFail s' \<Rightarrow> RFail s' | RUndef \<Rightarrow> RUndef)"

text \<open>A computation inside a read; the reads of the model only lift computations that return.\<close>

definition rlift :: "'a outcome \<Rightarrow> 'a reader" where
  "rlift m = (case m of Ret x \<Rightarrow> rret x | _ \<Rightarrow> rundef)"

primrec read_list :: "nat \<Rightarrow> 'a reader \<Rightarrow> 'a list reader" where
  "read_list 0 r = rret []"
| "read_list (Suc n) r = rbind r (\<lambda>x. rbind (read_list n r) (\<lambda>xs. rret (x # xs)))"

text \<open>
  \<open>read_each\<close> reads into the elements a vector already holds, and \<open>vec_resize\<close> is \<open>resize\<close>.
  \<open>rtry\<close> is a read whose failure is ignored.
\<close>

primrec read_each :: "('a \<Rightarrow> 'a reader) \<Rightarrow> 'a list \<Rightarrow> 'a list reader" where
  "read_each d [] = rret []"
| "read_each d (x # xs) = rbind (d x) (\<lambda>y. rbind (read_each d xs) (\<lambda>ys. rret (y # ys)))"

definition vec_resize :: "nat \<Rightarrow> 'a \<Rightarrow> 'a list \<Rightarrow> 'a list" where
  "vec_resize n x xs = take n xs @ replicate (n - length xs) x"

definition rtry :: "'a reader \<Rightarrow> 'a \<Rightarrow> 'a reader" where
  "rtry r x s = (case r s of RFail s' \<Rightarrow> ROk x s' | r' \<Rightarrow> r')"

lemma rbind_rret [simp]: "rbind (rret x) f = f x"
  by (rule ext) (simp add: rbind_def rret_def)

lemma rbind_assoc: "rbind (rbind r f) g = rbind r (\<lambda>x. rbind (f x) g)"
  by (rule ext) (simp add: rbind_def split: rres.splits)

lemma read_each_replicate: "read_each d (replicate n x) = read_list n (d x)"
  by (induction n) simp_all

lemma vec_resize_Nil: "vec_resize n x [] = replicate n x"
  by (simp add: vec_resize_def)

primrec wseq :: "writer list \<Rightarrow> writer" where
  "wseq [] = Ret"
| "wseq (w # ws) = (\<lambda>s. obind (w s) (wseq ws))"

section \<open>Write operations\<close>

definition WriteBytes :: "bytes \<Rightarrow> writer" where
  "WriteBytes bs s = Ret (s\<lparr>buf := buf s @ bs\<rparr>)"

definition WriteBytesPtr :: "bytes \<Rightarrow> u64 \<Rightarrow> writer" where
  "WriteBytesPtr p len = WriteBytes (bytes_from_ptr p len)"

definition WriteUint8 :: "u8 \<Rightarrow> writer" where
  "WriteUint8 v s = Ret (s\<lparr>buf := buf s @ [v]\<rparr>)"

definition WriteUint16 :: "u16 \<Rightarrow> writer" where
  "WriteUint16 v = WriteBytesPtr (le_bytes 2 v) 2"

definition WriteUint32 :: "u32 \<Rightarrow> writer" where
  "WriteUint32 v = WriteBytesPtr (le_bytes 4 v) 4"

definition WriteUint64 :: "u64 \<Rightarrow> writer" where
  "WriteUint64 v = WriteBytesPtr (le_bytes 8 v) 8"

definition WriteUint128 :: "uint128 \<Rightarrow> writer" where
  "WriteUint128 v = WriteBytes (le_bytes 16 v)"

definition WriteUint160 :: "uint160 \<Rightarrow> writer" where
  "WriteUint160 v = WriteBytes (le_bytes 20 v)"

definition WriteUint168 :: "uint168 \<Rightarrow> writer" where
  "WriteUint168 v = WriteBytes (le_bytes 21 v)"

definition WriteUint256 :: "uint256 \<Rightarrow> writer" where
  "WriteUint256 v = WriteBytes (le_bytes 32 v)"

text \<open>
  \<open>WriteVarUint\<close> writes a header byte and the integer in the least of four widths, and returns
  a count that, but for the one-byte form, leaves the header byte out.
\<close>

definition VarUint_bytes :: "u64 \<Rightarrow> bytes" where
  "VarUint_bytes len =
     (if len < 0xfd then [ucast len]
      else if len \<le> 0xffff then 0xfd # le_bytes 2 len
      else if len \<le> 0xffffffff then 0xfe # le_bytes 4 len
      else 0xff # le_bytes 8 len)"

definition WriteVarUint :: "u64 \<Rightarrow> writer" where
  "WriteVarUint len = WriteBytes (VarUint_bytes len)"

definition WriteVarUint_count :: "u64 \<Rightarrow> nat" where
  "WriteVarUint_count len =
     (if len < 0xfd then 1 else if len \<le> 0xffff then 2 else if len \<le> 0xffffffff then 4 else 8)"

definition WriteVarBytes :: "bytes \<Rightarrow> writer" where
  "WriteVarBytes bs = wseq [WriteVarUint (word_of_nat (length bs)), WriteBytes bs]"

definition WriteVarBytesPtr :: "bytes \<Rightarrow> u64 \<Rightarrow> writer" where
  "WriteVarBytesPtr p len = wseq [WriteVarUint len, WriteBytesPtr p len]"

definition WriteVarString :: "string \<Rightarrow> writer" where
  "WriteVarString str = WriteVarBytesPtr (bytes_of_string str) (word_of_nat (length str))"

section \<open>Read operations\<close>

text \<open>
  Every read guards with \<open>_rpos + len > _buf.size()\<close>, computed in \<open>size_t\<close>.  When the sum wraps,
  the guard passes and the copy leaves the buffer: that branch is \<open>RUndef\<close>.
\<close>

definition ReadBytes :: "u64 \<Rightarrow> bytes reader" where
  "ReadBytes len s =
     (if rpos s + len > stream_size s then RFail s
      else if unat (rpos s) + unat len \<le> length (buf s)
      then ROk (take (unat len) (drop (unat (rpos s)) (buf s))) (s\<lparr>rpos := rpos s + len\<rparr>)
      else RUndef)"

definition ReadUint8 :: "u8 reader" where
  "ReadUint8 = rbind (ReadBytes 1) (\<lambda>bs. rret (of_le bs))"

definition ReadUint16 :: "u16 reader" where
  "ReadUint16 = rbind (ReadBytes 2) (\<lambda>bs. rret (of_le bs))"

definition ReadUint32 :: "u32 reader" where
  "ReadUint32 = rbind (ReadBytes 4) (\<lambda>bs. rret (of_le bs))"

definition ReadUint64 :: "u64 reader" where
  "ReadUint64 = rbind (ReadBytes 8) (\<lambda>bs. rret (of_le bs))"

definition ReadUint128 :: "uint128 reader" where
  "ReadUint128 = rbind (ReadBytes 16) (\<lambda>bs. rret (of_le bs))"

definition ReadUint160 :: "uint160 reader" where
  "ReadUint160 = rbind (ReadBytes 20) (\<lambda>bs. rret (of_le bs))"

definition ReadUint168 :: "uint168 reader" where
  "ReadUint168 = rbind (ReadBytes 21) (\<lambda>bs. rret (of_le bs))"

definition ReadUint256 :: "uint256 reader" where
  "ReadUint256 = rbind (ReadBytes 32) (\<lambda>bs. rret (of_le bs))"

definition ReadVarUint :: "u64 reader" where
  "ReadVarUint = rbind ReadUint8 (\<lambda>h.
     if h = 0xfd then rbind (ReadBytes 2) (\<lambda>bs. rret (of_le bs))
     else if h = 0xfe then rbind (ReadBytes 4) (\<lambda>bs. rret (of_le bs))
     else if h = 0xff then rbind (ReadBytes 8) (\<lambda>bs. rret (of_le bs))
     else rret (ucast h))"

definition ReadVarBytes :: "bytes reader" where
  "ReadVarBytes = rbind ReadVarUint (\<lambda>len. ReadBytes len)"

definition ReadVarString :: "string reader" where
  "ReadVarString = rbind ReadVarBytes (\<lambda>bs. rret (string_of_bytes bs))"

section \<open>Well-formed streams\<close>

text \<open>
  The read position of a stream is inside its buffer, and the buffer is one the allocator can
  hold: \<open>std::vector\<close> bounds its size by \<open>PTRDIFF_MAX\<close>.
\<close>

definition wf_stream :: "ByteStream \<Rightarrow> bool" where
  "wf_stream s \<longleftrightarrow> unat (rpos s) \<le> length (buf s) \<and> length (buf s) < 2 ^ 63"

definition remaining :: "ByteStream \<Rightarrow> bytes" where
  "remaining s = drop (unat (rpos s)) (buf s)"

definition advance :: "nat \<Rightarrow> ByteStream \<Rightarrow> ByteStream" where
  "advance n s = s\<lparr>rpos := rpos s + word_of_nat n\<rparr>"

lemma length_remaining: "length (remaining s) = length (buf s) - unat (rpos s)"
  by (simp add: remaining_def)

lemma buf_advance [simp]: "buf (advance n s) = buf s"
  by (simp add: advance_def)

lemma advance_0 [simp]: "advance 0 s = s"
  by (simp add: advance_def)

lemma advance_advance [simp]: "advance m (advance n s) = advance (n + m) s"
  by (simp add: advance_def add.assoc)

lemma unat_rpos_advance:
  assumes "wf_stream s" and "n \<le> length (remaining s)"
  shows "unat (rpos (advance n s)) = unat (rpos s) + n"
proof -
  have "unat (rpos s) + n < 2 ^ 64"
    using assms by (auto simp: wf_stream_def length_remaining)
  moreover have "rpos s + word_of_nat n = word_of_nat (unat (rpos s) + n)" by simp
  ultimately show ?thesis
    by (simp add: advance_def unat_of_nat del: of_nat_add)
qed

lemma wf_stream_advance [simp]:
  "wf_stream s \<Longrightarrow> n \<le> length (remaining s) \<Longrightarrow> wf_stream (advance n s)"
  by (auto simp: wf_stream_def [of "advance n s"] unat_rpos_advance)
     (auto simp: wf_stream_def length_remaining)

lemma remaining_advance [simp]:
  "wf_stream s \<Longrightarrow> n \<le> length (remaining s) \<Longrightarrow> remaining (advance n s) = drop n (remaining s)"
  by (simp add: remaining_def [of "advance n s"] unat_rpos_advance)
     (simp add: remaining_def add.commute)

lemma advance_inject:
  assumes "wf_stream s" and "m \<le> length (remaining s)" and "n \<le> length (remaining s)"
  shows "advance m s = advance n s \<longleftrightarrow> m = n"
proof
  assume "advance m s = advance n s"
  then have "unat (rpos (advance m s)) = unat (rpos (advance n s))" by (rule arg_cong)
  then show "m = n"
    by (simp only: unat_rpos_advance [OF assms(1,2)] unat_rpos_advance [OF assms(1,3)] add_left_cancel)
qed (rule arg_cong)

lemma wf_stream_of [simp]: "wf_stream (stream_of bs) \<longleftrightarrow> length bs < 2 ^ 63"
  by (auto simp: wf_stream_def stream_of_def)

lemma remaining_stream_of [simp]: "remaining (stream_of bs) = bs"
  by (simp add: remaining_def stream_of_def)

lemma remaining_bound: "wf_stream s \<Longrightarrow> length (remaining s) < 2 ^ 63"
  by (auto simp: wf_stream_def length_remaining)

text \<open>What the guard of a read decides, for a request of any length.\<close>

lemma ReadBytes_cases:
  assumes "wf_stream s"
  shows "ReadBytes len s =
    (if unat len \<le> length (remaining s) then ROk (take (unat len) (remaining s)) (advance (unat len) s)
     else if unat (rpos s) + unat len < 2 ^ 64 then RFail s
     else RUndef)"
proof -
  have s: "unat (stream_size s) = length (buf s)"
    using assms by (simp add: wf_stream_def stream_size_def unat_of_nat)
  have len: "unat len < 2 ^ 64" using unat_bound [of len] by simp
  show ?thesis
  proof (cases "unat (rpos s) + unat len < 2 ^ 64")
    case True
    then have "unat (rpos s + len) = unat (rpos s) + unat len"
      by (simp add: unat_plus_if')
    then show ?thesis
      using True assms
      by (auto simp: ReadBytes_def word_less_nat_alt s length_remaining wf_stream_def
          remaining_def advance_def)
  next
    case False
    then have w: "unat (rpos s + len) = unat (rpos s) + unat len - 2 ^ 64"
      by (simp add: unat_plus_if')
    have "unat (rpos s) + unat len - 2 ^ 64 \<le> length (buf s)"
      using len assms by (auto simp: wf_stream_def)
    moreover have "\<not> unat len \<le> length (remaining s)"
      using False assms by (auto simp: wf_stream_def length_remaining)
    moreover have "\<not> unat (rpos s) + unat len \<le> length (buf s)"
      using False assms by (auto simp: wf_stream_def)
    ultimately show ?thesis
      using False by (simp add: ReadBytes_def word_less_nat_alt s w)
  qed
qed

end
