(* ===== verification/Codec.thy ===== *)
theory Codec
  imports ByteStream
begin

text \<open>
  The contract between a \<open>Serialize\<close> and its \<open>Deserialize\<close>, and the rules that establish it
  statement by statement:
  \<^item> \<open>transfers w r x\<close>: what \<open>w\<close> appends, \<open>r\<close> reads back as \<open>x\<close>, using up exactly those bytes;
  \<^item> \<open>local_reader r\<close>: a read that succeeds depends on the bytes it uses up and on nothing else,
    moves forward only, and stays inside the buffer;
  \<^item> \<open>needs_input r\<close>: no success without at least one byte.
  The locale \<open>codec\<close> is the interface between a message part and the messages that contain it.
\<close>

section \<open>What writers append\<close>

definition appends :: "writer \<Rightarrow> bytes \<Rightarrow> bool" where
  "appends w bs \<longleftrightarrow> (\<forall>s. w s = Ret (s\<lparr>buf := buf s @ bs\<rparr>))"

lemma appends_unique: "appends w bs \<Longrightarrow> appends w cs \<Longrightarrow> bs = cs"
  unfolding appends_def by (drule spec [of _ empty_stream])+ (simp add: empty_stream_def)

lemma appends_Nil: "appends (wseq []) []"
  by (simp add: appends_def)

lemma appends_Cons: "appends w bs \<Longrightarrow> appends (wseq ws) cs \<Longrightarrow> appends (wseq (w # ws)) (bs @ cs)"
  by (simp add: appends_def)

lemma appends_wseq_append:
  "appends (wseq us) bs \<Longrightarrow> appends (wseq vs) cs \<Longrightarrow> appends (wseq (us @ vs)) (bs @ cs)"
proof -
  have "wseq (us @ vs) s = obind (wseq us s) (wseq vs)" for s
  proof (induction us arbitrary: s)
    case Nil
    then show ?case by simp
  next
    case (Cons u us)
    have "wseq (us @ vs) = (\<lambda>s. obind (wseq us s) (wseq vs))" by (rule ext) (rule Cons)
    then show ?case by (simp add: obind_assoc)
  qed
  then show "appends (wseq us) bs \<Longrightarrow> appends (wseq vs) cs \<Longrightarrow> ?thesis"
    by (simp add: appends_def)
qed

lemma appends_WriteBytes: "appends (WriteBytes bs) bs"
  by (simp add: appends_def WriteBytes_def)

lemma appends_WriteBytesPtr:
  "length p < 2 ^ 32 \<Longrightarrow> appends (WriteBytesPtr p (word_of_nat (length p))) p"
proof -
  assume "length p < 2 ^ 32"
  then have "unat (ucast (word_of_nat (length p) :: u64) :: u32) = length p"
    by (simp add: unat_ucast unat_of_nat)
  then show ?thesis
    by (simp add: WriteBytesPtr_def bytes_from_ptr_def appends_WriteBytes)
qed

lemma appends_WriteUint8: "appends (WriteUint8 v) [v]"
  by (simp add: appends_def WriteUint8_def)

lemma appends_WriteUint16: "appends (WriteUint16 v) (le_bytes 2 v)"
  using appends_WriteBytesPtr [of "le_bytes 2 v"] by (simp add: WriteUint16_def)

lemma appends_WriteUint32: "appends (WriteUint32 v) (le_bytes 4 v)"
  using appends_WriteBytesPtr [of "le_bytes 4 v"] by (simp add: WriteUint32_def)

lemma appends_WriteUint64: "appends (WriteUint64 v) (le_bytes 8 v)"
  using appends_WriteBytesPtr [of "le_bytes 8 v"] by (simp add: WriteUint64_def)

lemma appends_WriteUint128: "appends (WriteUint128 v) (le_bytes 16 v)"
  by (simp add: WriteUint128_def appends_WriteBytes)

lemma appends_WriteUint160: "appends (WriteUint160 v) (le_bytes 20 v)"
  by (simp add: WriteUint160_def appends_WriteBytes)

lemma appends_WriteUint168: "appends (WriteUint168 v) (le_bytes 21 v)"
  by (simp add: WriteUint168_def appends_WriteBytes)

lemma appends_WriteUint256: "appends (WriteUint256 v) (le_bytes 32 v)"
  by (simp add: WriteUint256_def appends_WriteBytes)

lemma appends_WriteVarUint: "appends (WriteVarUint v) (VarUint_bytes v)"
  by (simp add: WriteVarUint_def appends_WriteBytes)

lemma appends_WriteVarBytes:
  "appends (WriteVarBytes bs) (VarUint_bytes (word_of_nat (length bs)) @ bs)"
  using appends_Cons [OF appends_WriteVarUint appends_Cons [OF appends_WriteBytes appends_Nil]]
  by (simp add: WriteVarBytes_def)

lemma appends_WriteVarString:
  "length str < 2 ^ 32 \<Longrightarrow>
   appends (WriteVarString str) (VarUint_bytes (word_of_nat (length str)) @ bytes_of_string str)"
  using appends_Cons [OF appends_WriteVarUint
      appends_Cons [OF appends_WriteBytesPtr [of "bytes_of_string str"] appends_Nil]]
  by (simp add: WriteVarString_def WriteVarBytesPtr_def)

lemmas appends_prims =
  appends_WriteBytes appends_WriteUint8 appends_WriteUint16 appends_WriteUint32
  appends_WriteUint64 appends_WriteUint128 appends_WriteUint160 appends_WriteUint168
  appends_WriteUint256 appends_WriteVarUint appends_WriteVarBytes appends_WriteVarString

declare wseq.simps [simp del]

section \<open>Reading back\<close>

definition decodes :: "'a reader \<Rightarrow> bytes \<Rightarrow> 'a \<Rightarrow> bool" where
  "decodes r bs x \<longleftrightarrow>
     (\<forall>s q. wf_stream s \<longrightarrow> remaining s = bs @ q \<longrightarrow> r s = ROk x (advance (length bs) s))"

lemma decodesI:
  "(\<And>s q. wf_stream s \<Longrightarrow> remaining s = bs @ q \<Longrightarrow> r s = ROk x (advance (length bs) s)) \<Longrightarrow>
   decodes r bs x"
  by (simp add: decodes_def)

lemma decodesD:
  "decodes r bs x \<Longrightarrow> wf_stream s \<Longrightarrow> remaining s = bs @ q \<Longrightarrow>
   r s = ROk x (advance (length bs) s)"
  by (auto simp: decodes_def)

lemma decodes_rret: "decodes (rret x) [] x"
  by (simp add: decodes_def rret_def)

lemma decodes_rbind:
  assumes "decodes r bs x" and "decodes (f x) cs y"
  shows "decodes (rbind r f) (bs @ cs) y"
proof (rule decodesI)
  fix s q
  assume s: "wf_stream s" "remaining s = (bs @ cs) @ q"
  then have "r s = ROk x (advance (length bs) s)"
    using assms(1) decodesD [of r bs x s "cs @ q"] by simp
  moreover have "f x (advance (length bs) s) = ROk y (advance (length cs) (advance (length bs) s))"
    using s assms(2) decodesD [of "f x" cs y _ q] by simp
  ultimately show "rbind r f s = ROk y (advance (length (bs @ cs)) s)"
    by (simp add: rbind_def)
qed

lemma decodes_ReadBytes:
  assumes "unat len = length bs"
  shows "decodes (ReadBytes len) bs bs"
  by (rule decodesI) (simp add: ReadBytes_cases assms)

lemma decodes_of_le:
  assumes "unat len = k" and "LENGTH('a::len) \<le> 8 * k"
  shows "decodes (rbind (ReadBytes len) (\<lambda>bs. rret (of_le bs))) (le_bytes k v) (v :: 'a word)"
  using decodes_rbind [OF decodes_ReadBytes decodes_rret, of len "le_bytes k v" "of_le :: bytes \<Rightarrow> 'a word"] assms
  by (simp add: of_le_le_bytes)

lemma decodes_ReadUint8: "decodes ReadUint8 [v] v"
proof -
  have "le_bytes 1 v = [v]" by (simp add: le_bytes_def)
  then show ?thesis using decodes_of_le [of 1 1 v] by (simp add: ReadUint8_def)
qed

lemma decodes_ReadUint16: "decodes ReadUint16 (le_bytes 2 v) v"
  unfolding ReadUint16_def by (rule decodes_of_le) simp_all

lemma decodes_ReadUint32: "decodes ReadUint32 (le_bytes 4 v) v"
  unfolding ReadUint32_def by (rule decodes_of_le) simp_all

lemma decodes_ReadUint64: "decodes ReadUint64 (le_bytes 8 v) v"
  unfolding ReadUint64_def by (rule decodes_of_le) simp_all

lemma decodes_ReadUint128: "decodes ReadUint128 (le_bytes 16 v) v"
  unfolding ReadUint128_def by (rule decodes_of_le) simp_all

lemma decodes_ReadUint160: "decodes ReadUint160 (le_bytes 20 v) v"
  unfolding ReadUint160_def by (rule decodes_of_le) simp_all

lemma decodes_ReadUint168: "decodes ReadUint168 (le_bytes 21 v) v"
  unfolding ReadUint168_def by (rule decodes_of_le) simp_all

lemma decodes_ReadUint256: "decodes ReadUint256 (le_bytes 32 v) v"
  unfolding ReadUint256_def by (rule decodes_of_le) simp_all

lemma of_le_le_bytes_small:
  "unat v < 256 ^ k \<Longrightarrow> of_le (le_bytes k v) = v"
  by (simp add: of_le_def le_bytes_def nat_of_le_of_nat)

lemma decodes_of_le_small:
  assumes "unat len = k" and "unat (v :: 'a::len word) < 256 ^ k"
  shows "decodes (rbind (ReadBytes len) (\<lambda>bs. rret (of_le bs))) (le_bytes k v) v"
  using decodes_rbind [OF decodes_ReadBytes decodes_rret, of len "le_bytes k v" "of_le :: bytes \<Rightarrow> 'a word"] assms
  by (simp add: of_le_le_bytes_small)

lemma decodes_ReadVarUint: "decodes ReadVarUint (VarUint_bytes v) v"
proof -
  have hd: "decodes ReadVarUint (h # cs) v"
    if "decodes (if h = 0xfd then rbind (ReadBytes 2) (\<lambda>bs. rret (of_le bs))
     else if h = 0xfe then rbind (ReadBytes 4) (\<lambda>bs. rret (of_le bs))
     else if h = 0xff then rbind (ReadBytes 8) (\<lambda>bs. rret (of_le bs))
     else rret (ucast h)) cs v" for h cs
    using decodes_rbind [where f = "\<lambda>h. if h = 0xfd then rbind (ReadBytes 2) (\<lambda>bs. rret (of_le bs))
     else if h = 0xfe then rbind (ReadBytes 4) (\<lambda>bs. rret (of_le bs))
     else if h = 0xff then rbind (ReadBytes 8) (\<lambda>bs. rret (of_le bs))
     else rret (ucast h)", OF decodes_ReadUint8 that] by (simp add: ReadVarUint_def)
  consider (a) "v < 0xfd" | (b) "\<not> v < 0xfd" "v \<le> 0xffff"
    | (c) "\<not> v \<le> 0xffff" "v \<le> 0xffffffff" | (d) "\<not> v \<le> 0xffffffff" by blast
  then show ?thesis
  proof cases
    case a
    then have v: "unat v < 253" by (simp add: word_less_nat_alt)
    then have "unat (ucast v :: u8) = unat v" by (simp add: unat_ucast)
    then have "(ucast v :: u8) \<noteq> 0xfd" "(ucast v :: u8) \<noteq> 0xfe" "(ucast v :: u8) \<noteq> 0xff"
      using v by (auto simp: word_unat_eq_iff)
    moreover have "ucast (ucast v :: u8) = v"
      using v by (simp add: word_unat_eq_iff unat_ucast)
    ultimately show ?thesis
      using a by (simp add: VarUint_bytes_def hd decodes_rret)
  next
    case b
    then have "unat v < 256 ^ 2" by (simp add: word_le_nat_alt)
    then show ?thesis
      using b by (simp add: VarUint_bytes_def hd decodes_of_le_small)
  next
    case c
    have n: "\<not> v < 0xfd" using c by (auto simp: word_le_nat_alt word_less_nat_alt)
    have "unat v < 256 ^ 4" using c by (simp add: word_le_nat_alt)
    then show ?thesis
      using c n by (simp add: VarUint_bytes_def hd decodes_of_le_small)
  next
    case d
    have n: "\<not> v < 0xfd" "\<not> v \<le> 0xffff"
      using d by (auto simp: word_le_nat_alt word_less_nat_alt)
    show ?thesis
      using d n by (simp add: VarUint_bytes_def hd decodes_of_le)
  qed
qed

lemma decodes_ReadVarBytes:
  "decodes ReadVarBytes (VarUint_bytes (word_of_nat (length bs)) @ bs) bs"
proof (rule decodesI)
  fix s q
  assume s: "wf_stream s" "remaining s = (VarUint_bytes (word_of_nat (length bs)) @ bs) @ q"
  then have "length bs < 2 ^ 63"
    using remaining_bound [of s] by simp
  then have "unat (word_of_nat (length bs) :: u64) = length bs"
    by (simp add: unat_of_nat)
  then have "decodes ReadVarBytes (VarUint_bytes (word_of_nat (length bs)) @ bs) bs"
    unfolding ReadVarBytes_def by (intro decodes_rbind [OF decodes_ReadVarUint] decodes_ReadBytes)
  then show "ReadVarBytes s =
      ROk bs (advance (length (VarUint_bytes (word_of_nat (length bs)) @ bs)) s)"
    using s by (rule decodesD)
qed

lemma decodes_ReadVarString:
  "decodes ReadVarString (VarUint_bytes (word_of_nat (length str)) @ bytes_of_string str) str"
  using decodes_rbind [OF decodes_ReadVarBytes [of "bytes_of_string str"] decodes_rret,
      of string_of_bytes]
  by (simp add: ReadVarString_def)

section \<open>Writers paired with readers\<close>

definition transfers :: "writer \<Rightarrow> 'a reader \<Rightarrow> 'a \<Rightarrow> bool" where
  "transfers w r x \<longleftrightarrow> (\<exists>bs. appends w bs \<and> decodes r bs x)"

lemma transfersI: "appends w bs \<Longrightarrow> decodes r bs x \<Longrightarrow> transfers w r x"
  by (auto simp: transfers_def)

lemma transfers_appends: "transfers w r x \<Longrightarrow> \<exists>bs. appends w bs"
  by (auto simp: transfers_def)

lemma transfers_decodes: "transfers w r x \<Longrightarrow> appends w bs \<Longrightarrow> decodes r bs x"
  by (auto simp: transfers_def dest: appends_unique)

lemma transfers_rret [transfer_intros]: "y = x \<Longrightarrow> transfers (wseq []) (rret y) x"
  using transfersI [OF appends_Nil decodes_rret] by simp

lemma transfers_rlift: "m = Ret x \<Longrightarrow> transfers (wseq []) (rlift m) x"
  by (simp add: rlift_def transfers_rret)

lemma transfers_rbind [transfer_intros]:
  assumes "transfers w r x" and "transfers (wseq ws) (f x) y"
  shows "transfers (wseq (w # ws)) (rbind r f) y"
proof -
  from assms obtain bs cs where "appends w bs" "decodes r bs x"
    "appends (wseq ws) cs" "decodes (f x) cs y"
    by (auto simp: transfers_def)
  then show ?thesis
    by (intro transfersI [of _ "bs @ cs"] appends_Cons decodes_rbind)
qed

lemma wseq_single: "wseq [w] = w"
  by (rule ext) (simp add: wseq.simps)

lemma transfers_single: "transfers (wseq [w]) r x \<longleftrightarrow> transfers w r x"
  by (simp add: wseq_single)

lemma transfers_map:
  assumes "transfers w r x"
  shows "transfers w (rbind r (\<lambda>x. rret (f x))) (f x)"
  using transfers_rbind [of w r x "[]" "\<lambda>x. rret (f x)" "f x"] assms transfers_rret [of "f x" "f x"]
  by (simp add: transfers_single)

lemma transfers_if [transfer_intros]:
  assumes "c \<Longrightarrow> transfers w r x" and "\<not> c \<Longrightarrow> transfers w' r' y"
  shows "transfers (if c then w else w') (if c then r else r') (if c then x else y)"
  using assms by simp

lemma transfers_WriteUint8 [transfer_intros]: "transfers (WriteUint8 v) ReadUint8 v"
  by (rule transfersI [OF appends_WriteUint8 decodes_ReadUint8])

lemma transfers_WriteUint16 [transfer_intros]: "transfers (WriteUint16 v) ReadUint16 v"
  by (rule transfersI [OF appends_WriteUint16 decodes_ReadUint16])

lemma transfers_WriteUint32 [transfer_intros]: "transfers (WriteUint32 v) ReadUint32 v"
  by (rule transfersI [OF appends_WriteUint32 decodes_ReadUint32])

lemma transfers_WriteUint64 [transfer_intros]: "transfers (WriteUint64 v) ReadUint64 v"
  by (rule transfersI [OF appends_WriteUint64 decodes_ReadUint64])

lemma transfers_WriteUint128 [transfer_intros]: "transfers (WriteUint128 v) ReadUint128 v"
  by (rule transfersI [OF appends_WriteUint128 decodes_ReadUint128])

lemma transfers_WriteUint160 [transfer_intros]: "transfers (WriteUint160 v) ReadUint160 v"
  by (rule transfersI [OF appends_WriteUint160 decodes_ReadUint160])

lemma transfers_WriteUint168 [transfer_intros]: "transfers (WriteUint168 v) ReadUint168 v"
  by (rule transfersI [OF appends_WriteUint168 decodes_ReadUint168])

lemma transfers_WriteUint256 [transfer_intros]: "transfers (WriteUint256 v) ReadUint256 v"
  by (rule transfersI [OF appends_WriteUint256 decodes_ReadUint256])

lemma transfers_WriteVarUint [transfer_intros]: "transfers (WriteVarUint v) ReadVarUint v"
  by (rule transfersI [OF appends_WriteVarUint decodes_ReadVarUint])

lemma transfers_WriteVarBytes [transfer_intros]: "transfers (WriteVarBytes bs) ReadVarBytes bs"
  by (rule transfersI [OF appends_WriteVarBytes decodes_ReadVarBytes])

lemma transfers_WriteVarString [transfer_intros]:
  "length str < 2 ^ 32 \<Longrightarrow> transfers (WriteVarString str) ReadVarString str"
  by (rule transfersI [OF appends_WriteVarString decodes_ReadVarString])

section \<open>The footprint of a reader\<close>

definition local_reader :: "'a reader \<Rightarrow> bool" where
  "local_reader r \<longleftrightarrow> (\<forall>s. wf_stream s \<longrightarrow>
     (case r s of
        ROk x s' \<Rightarrow> \<exists>n \<le> length (remaining s). s' = advance n s \<and>
          (\<forall>t. wf_stream t \<longrightarrow> take n (remaining t) = take n (remaining s) \<longrightarrow>
               r t = ROk x (advance n t))
      | RFail s' \<Rightarrow> \<exists>n \<le> length (remaining s). s' = advance n s
      | RUndef \<Rightarrow> True))"

lemma local_reader_ROk:
  assumes "local_reader r" and "wf_stream s" and "r s = ROk x s'"
  obtains n where "n \<le> length (remaining s)" and "s' = advance n s"
    and "\<And>t. wf_stream t \<Longrightarrow> take n (remaining t) = take n (remaining s) \<Longrightarrow> r t = ROk x (advance n t)"
proof -
  have "case r s of
        ROk x s' \<Rightarrow> \<exists>n \<le> length (remaining s). s' = advance n s \<and>
          (\<forall>t. wf_stream t \<longrightarrow> take n (remaining t) = take n (remaining s) \<longrightarrow>
               r t = ROk x (advance n t))
      | RFail s' \<Rightarrow> \<exists>n \<le> length (remaining s). s' = advance n s
      | RUndef \<Rightarrow> True"
    using assms(1,2) by (simp add: local_reader_def)
  with assms(3) show ?thesis by (auto intro: that)
qed

lemma local_reader_RFail:
  assumes "local_reader r" and "wf_stream s" and "r s = RFail s'"
  obtains n where "n \<le> length (remaining s)" and "s' = advance n s"
proof -
  have "case r s of
        ROk x s' \<Rightarrow> \<exists>n \<le> length (remaining s). s' = advance n s \<and>
          (\<forall>t. wf_stream t \<longrightarrow> take n (remaining t) = take n (remaining s) \<longrightarrow>
               r t = ROk x (advance n t))
      | RFail s' \<Rightarrow> \<exists>n \<le> length (remaining s). s' = advance n s
      | RUndef \<Rightarrow> True"
    using assms(1,2) by (simp add: local_reader_def)
  with assms(3) show ?thesis by (auto intro: that)
qed

lemma local_readerI:
  assumes "\<And>s x s'. wf_stream s \<Longrightarrow> r s = ROk x s' \<Longrightarrow>
      \<exists>n \<le> length (remaining s). s' = advance n s \<and>
        (\<forall>t. wf_stream t \<longrightarrow> take n (remaining t) = take n (remaining s) \<longrightarrow>
             r t = ROk x (advance n t))"
    and "\<And>s s'. wf_stream s \<Longrightarrow> r s = RFail s' \<Longrightarrow> \<exists>n \<le> length (remaining s). s' = advance n s"
  shows "local_reader r"
  unfolding local_reader_def using assms by (auto split: rres.splits)

lemma take_eq_prefix:
  assumes "take n xs = take n ys" and "m \<le> n"
  shows "take m xs = take m ys"
  using assms by (metis min.absorb1 take_take)

lemma take_eq_length:
  assumes "take n xs = take n ys" and "n \<le> length ys"
  shows "n \<le> length xs"
  using arg_cong [OF assms(1), of length] assms(2) by simp

lemma local_rret [reader_intros]: "local_reader (rret x)"
  by (rule local_readerI) (auto simp: rret_def intro!: exI [of _ 0])

lemma local_rfail [reader_intros]: "local_reader rfail"
  by (rule local_readerI) (auto simp: rfail_def intro!: exI [of _ 0])

lemma local_rundef [reader_intros]: "local_reader rundef"
  by (rule local_readerI) (auto simp: rundef_def)

lemma local_rlift [reader_intros]: "local_reader (rlift m)"
  by (cases m) (simp_all add: rlift_def local_rret local_rundef)

lemma local_if [reader_intros]:
  "(c \<Longrightarrow> local_reader r) \<Longrightarrow> (\<not> c \<Longrightarrow> local_reader r') \<Longrightarrow> local_reader (if c then r else r')"
  by simp

lemma local_ReadBytes [reader_intros]: "local_reader (ReadBytes len)"
proof (rule local_readerI)
  fix s x s'
  assume s: "wf_stream s" "ReadBytes len s = ROk x s'"
  then have n: "unat len \<le> length (remaining s)" "s' = advance (unat len) s"
    "x = take (unat len) (remaining s)"
    by (simp_all add: ReadBytes_cases split: if_splits)
  moreover have "ReadBytes len t = ROk x (advance (unat len) t)"
    if "wf_stream t" "take (unat len) (remaining t) = take (unat len) (remaining s)" for t
    using that n take_eq_length [OF that(2) n(1)] by (simp add: ReadBytes_cases)
  ultimately show "\<exists>n \<le> length (remaining s). s' = advance n s \<and>
        (\<forall>t. wf_stream t \<longrightarrow> take n (remaining t) = take n (remaining s) \<longrightarrow>
             ReadBytes len t = ROk x (advance n t))" by blast
next
  fix s s'
  assume "wf_stream s" "ReadBytes len s = RFail s'"
  then have "s' = advance 0 s" by (simp add: ReadBytes_cases split: if_splits)
  then show "\<exists>n \<le> length (remaining s). s' = advance n s" by blast
qed

lemma local_rbind [reader_intros]:
  assumes r: "local_reader r" and f: "\<And>x. local_reader (f x)"
  shows "local_reader (rbind r f)"
proof (rule local_readerI)
  fix s y s'
  assume s: "wf_stream s" and "rbind r f s = ROk y s'"
  then obtain x s1 where x: "r s = ROk x s1" and y: "f x s1 = ROk y s'"
    by (auto simp: rbind_def split: rres.splits)
  obtain m where m: "m \<le> length (remaining s)" "s1 = advance m s"
    and mt: "\<And>t. wf_stream t \<Longrightarrow> take m (remaining t) = take m (remaining s) \<Longrightarrow> r t = ROk x (advance m t)"
    using local_reader_ROk [OF r s x] by blast
  have s1: "wf_stream s1" "remaining s1 = drop m (remaining s)" using s m by simp_all
  obtain n where n: "n \<le> length (remaining s1)" "s' = advance n s1"
    and nt: "\<And>t. wf_stream t \<Longrightarrow> take n (remaining t) = take n (remaining s1) \<Longrightarrow> f x t = ROk y (advance n t)"
    using local_reader_ROk [OF f s1(1) y] by blast
  have mn: "m + n \<le> length (remaining s)" using n(1) m(1) s1(2) by simp
  have "rbind r f t = ROk y (advance (m + n) t)"
    if t: "wf_stream t" "take (m + n) (remaining t) = take (m + n) (remaining s)" for t
  proof -
    have lt: "m + n \<le> length (remaining t)" by (rule take_eq_length [OF t(2) mn])
    have "take m (remaining t) = take m (remaining s)" by (rule take_eq_prefix [OF t(2)]) simp
    moreover have "take n (drop m (remaining t)) = take n (drop m (remaining s))"
      using t(2) by (simp add: take_drop add.commute)
    ultimately show ?thesis
      using t(1) lt mt [of t] nt [of "advance m t"] s1(2) by (simp add: rbind_def)
  qed
  moreover have "s' = advance (m + n) s" using n m by simp
  ultimately show "\<exists>k \<le> length (remaining s). s' = advance k s \<and>
        (\<forall>t. wf_stream t \<longrightarrow> take k (remaining t) = take k (remaining s) \<longrightarrow>
             rbind r f t = ROk y (advance k t))" using mn by blast
next
  fix s s'
  assume s: "wf_stream s" and "rbind r f s = RFail s'"
  then consider (a) "r s = RFail s'" | (b) x s1 where "r s = ROk x s1" "f x s1 = RFail s'"
    by (auto simp: rbind_def split: rres.splits)
  then show "\<exists>n \<le> length (remaining s). s' = advance n s"
  proof cases
    case a
    then show ?thesis using local_reader_RFail [OF r s] by blast
  next
    case b
    obtain m where m: "m \<le> length (remaining s)" "s1 = advance m s"
      using local_reader_ROk [OF r s b(1)] by blast
    then have s1: "wf_stream s1" "remaining s1 = drop m (remaining s)" using s by simp_all
    obtain n where "n \<le> length (remaining s1)" "s' = advance n s1"
      using local_reader_RFail [OF f s1(1) b(2)] by blast
    then have "m + n \<le> length (remaining s) \<and> s' = advance (m + n) s"
      using m s1(2) by simp
    then show ?thesis by blast
  qed
qed

lemma local_read_list [reader_intros]: "local_reader r \<Longrightarrow> local_reader (read_list n r)"
  by (induction n) (auto intro!: reader_intros)

lemma local_read_each [reader_intros]:
  "(\<And>x. local_reader (d x)) \<Longrightarrow> local_reader (read_each d xs)"
  by (induction xs) (auto intro!: reader_intros)

lemma local_reader_cong:
  assumes "\<And>s. wf_stream s \<Longrightarrow> r s = r' s" and "local_reader r'"
  shows "local_reader r"
proof (rule local_readerI)
  fix s x s'
  assume s: "wf_stream s" and "r s = ROk x s'"
  then have "r' s = ROk x s'" by (simp add: assms(1))
  from local_reader_ROk [OF assms(2) s this] assms(1)
  show "\<exists>n \<le> length (remaining s). s' = advance n s \<and>
        (\<forall>t. wf_stream t \<longrightarrow> take n (remaining t) = take n (remaining s) \<longrightarrow>
             r t = ROk x (advance n t))" by metis
next
  fix s s'
  assume s: "wf_stream s" and "r s = RFail s'"
  then have "r' s = RFail s'" by (simp add: assms(1))
  from local_reader_RFail [OF assms(2) s this]
  show "\<exists>n \<le> length (remaining s). s' = advance n s" by blast
qed

lemma local_read_prims [reader_intros]:
  "local_reader ReadUint8" "local_reader ReadUint16" "local_reader ReadUint32"
  "local_reader ReadUint64" "local_reader ReadUint128" "local_reader ReadUint160"
  "local_reader ReadUint168" "local_reader ReadUint256"
  by (simp_all add: ReadUint8_def ReadUint16_def ReadUint32_def ReadUint64_def ReadUint128_def
      ReadUint160_def ReadUint168_def ReadUint256_def local_rbind local_ReadBytes local_rret)

lemma local_ReadVarUint [reader_intros]: "local_reader ReadVarUint"
  unfolding ReadVarUint_def by (intro reader_intros)

lemma local_ReadVarBytes [reader_intros]: "local_reader ReadVarBytes"
  unfolding ReadVarBytes_def by (intro reader_intros)

lemma local_ReadVarString [reader_intros]: "local_reader ReadVarString"
  unfolding ReadVarString_def by (intro reader_intros)


section \<open>Readers that need input\<close>

definition needs_input :: "'a reader \<Rightarrow> bool" where
  "needs_input r \<longleftrightarrow> (\<forall>s x s'. wf_stream s \<longrightarrow> remaining s = [] \<longrightarrow> r s \<noteq> ROk x s')"

lemma needs_ReadBytes: "len \<noteq> 0 \<Longrightarrow> needs_input (ReadBytes len)"
  by (simp add: needs_input_def ReadBytes_cases unat_eq_zero)

lemma needs_rbind [needs_intros]: "needs_input r \<Longrightarrow> needs_input (rbind r f)"
  by (auto simp: needs_input_def rbind_def split: rres.splits)

lemma needs_prims [needs_intros]:
  "needs_input ReadUint8" "needs_input ReadUint16" "needs_input ReadUint32"
  "needs_input ReadUint64" "needs_input ReadUint128" "needs_input ReadUint160"
  "needs_input ReadUint168" "needs_input ReadUint256"
  by (simp_all add: ReadUint8_def ReadUint16_def ReadUint32_def ReadUint64_def ReadUint128_def
      ReadUint160_def ReadUint168_def ReadUint256_def needs_rbind needs_ReadBytes)

lemma needs_ReadVarUint [needs_intros]: "needs_input ReadVarUint"
  unfolding ReadVarUint_def by (intro needs_intros)

lemma needs_ReadVarBytes [needs_intros]: "needs_input ReadVarBytes"
  unfolding ReadVarBytes_def by (intro needs_intros)

lemma needs_ReadVarString [needs_intros]: "needs_input ReadVarString"
  unfolding ReadVarString_def by (intro needs_intros)

lemma decodes_nonempty:
  assumes "needs_input r" and "decodes r bs x"
  shows "bs \<noteq> []"
proof
  assume "bs = []"
  then have "r (stream_of []) = ROk x (stream_of [])"
    using assms(2) decodesD [of r "[]" x "stream_of []" "[]"] by simp
  then show False using assms(1) by (auto simp: needs_input_def)
qed

section \<open>Runs of items\<close>

lemma appends_items:
  assumes "\<And>x. x \<in> set xs \<Longrightarrow> appends (w x) (f x)"
  shows "appends (wseq (map w xs)) (concat (map f xs))"
  using assms by (induction xs) (auto simp: appends_Nil simp del: wseq.simps intro!: appends_Cons)

lemma decodes_read_list:
  assumes "\<And>x. x \<in> set xs \<Longrightarrow> decodes r (f x) (g x)"
  shows "decodes (read_list (length xs) r) (concat (map f xs)) (map g xs)"
  using assms
proof (induction xs)
  case Nil
  then show ?case by (simp add: decodes_rret)
next
  case (Cons x xs)
  have "decodes (rbind (read_list (length xs) r) (\<lambda>ys. rret (g x # ys)))
      (concat (map f xs) @ []) (g x # map g xs)"
    by (rule decodes_rbind [OF Cons.IH decodes_rret]) (simp add: Cons.prems)
  moreover have "decodes r (f x) (g x)" by (simp add: Cons.prems)
  ultimately show ?case
    using decodes_rbind [of r "f x" "g x" "\<lambda>x. rbind (read_list (length xs) r) (\<lambda>ys. rret (x # ys))"]
    by simp
qed

lemma length_concat_ge:
  assumes "\<And>x. x \<in> set xs \<Longrightarrow> f x \<noteq> []"
  shows "length xs \<le> length (concat (map f xs))"
  using assms
proof (induction xs)
  case Nil
  then show ?case by simp
next
  case (Cons x xs)
  then have "0 < length (f x)" "length xs \<le> length (concat (map f xs))" by auto
  then show ?case by (simp add: Suc_le_eq del: length_greater_0_conv)
qed

definition write_items :: "('a \<Rightarrow> writer) \<Rightarrow> 'a list \<Rightarrow> writer" where
  "write_items w xs = wseq (WriteVarUint (word_of_nat (length xs)) # map w xs)"

definition read_items :: "'a reader \<Rightarrow> 'a list reader" where
  "read_items r = rbind ReadVarUint (\<lambda>n. read_list (unat n) r)"

lemma local_read_items [reader_intros]: "local_reader r \<Longrightarrow> local_reader (read_items r)"
  unfolding read_items_def by (intro reader_intros)

lemma needs_read_items [needs_intros]: "needs_input (read_items r)"
  unfolding read_items_def by (intro needs_intros)

lemma transfers_items:
  assumes need: "needs_input r" and items: "\<And>x. x \<in> set xs \<Longrightarrow> transfers (w x) r (g x)"
  shows "transfers (write_items w xs) (read_items r) (map g xs)"
proof -
  have "\<forall>x \<in> set xs. \<exists>bs. appends (w x) bs \<and> decodes r bs (g x)"
    using items by (simp add: transfers_def)
  then obtain f where f: "\<And>x. x \<in> set xs \<Longrightarrow> appends (w x) (f x) \<and> decodes r (f x) (g x)"
    by (metis (full_types))
  define n where "n = VarUint_bytes (word_of_nat (length xs))"
  have app: "appends (write_items w xs) (n @ concat (map f xs))"
    unfolding write_items_def n_def using f by (intro appends_Cons appends_WriteVarUint appends_items) auto
  moreover have "decodes (read_items r) (n @ concat (map f xs)) (map g xs)"
  proof (rule decodesI)
    fix s q
    assume s: "wf_stream s" "remaining s = (n @ concat (map f xs)) @ q"
    have "length xs \<le> length (concat (map f xs))"
      using f decodes_nonempty [OF need] by (intro length_concat_ge) blast
    then have "length xs < 2 ^ 63" using remaining_bound [OF s(1)] s(2) by simp
    then have "unat (word_of_nat (length xs) :: u64) = length xs" by (simp add: unat_of_nat)
    moreover have "decodes (read_list (length xs) r) (concat (map f xs)) (map g xs)"
      by (rule decodes_read_list) (simp add: f)
    ultimately have "decodes (read_items r) (n @ concat (map f xs)) (map g xs)"
      unfolding read_items_def n_def
      by (intro decodes_rbind [OF decodes_ReadVarUint]) simp
    then show "read_items r s = ROk (map g xs) (advance (length (n @ concat (map f xs))) s)"
      using s by (rule decodesD)
  qed
  ultimately show ?thesis by (rule transfersI)
qed

lemma transfers_items_id [transfer_intros]:
  assumes "needs_input r" and "\<And>x. x \<in> set xs \<Longrightarrow> transfers (w x) r x"
  shows "transfers (write_items w xs) (read_items r) xs"
  using transfers_items [OF assms(1), of xs w "\<lambda>x. x"] assms(2) by simp

section \<open>The interface of a message part\<close>

text \<open>
  A codec is a writer and a reader of one layout.  \<open>valid\<close> says which values the writer can
  encode (a string must fit the 32-bit length of a raw write, for instance), and \<open>canon\<close> is the
  value that comes back: a field the writer leaves out of a version comes back as its default.
\<close>

locale codec =
  fixes ser :: "'a \<Rightarrow> writer" and des :: "'a reader"
    and valid :: "'a \<Rightarrow> bool" and canon :: "'a \<Rightarrow> 'a"
  assumes transfer: "valid x \<Longrightarrow> transfers (ser x) des (canon x)"
    and local_des: "local_reader des"
begin

lemma total:
  assumes "valid x"
  obtains bs where "appends (ser x) bs" and "ser x s = Ret (s\<lparr>buf := buf s @ bs\<rparr>)"
  using transfers_appends [OF transfer [OF assms]] by (auto simp: appends_def)

lemma roundtrip:
  assumes "valid x" and "ser x empty_stream = Ret s" and "length (buf s) + length q < 2 ^ 63"
  shows "des (stream_of (buf s @ q)) = ROk (canon x) (advance (length (buf s)) (stream_of (buf s @ q)))"
proof -
  obtain bs where bs: "appends (ser x) bs" "ser x empty_stream = Ret (empty_stream\<lparr>buf := buf empty_stream @ bs\<rparr>)"
    using total [OF assms(1)] by blast
  then have "buf s = bs" using assms(2) by (auto simp: empty_stream_def)
  moreover have "decodes des bs (canon x)"
    by (rule transfers_decodes [OF transfer [OF assms(1)] bs(1)])
  ultimately show ?thesis
    using decodesD [of des bs "canon x" "stream_of (bs @ q)" q] assms(3) by simp
qed

lemma prefix_free:
  assumes "valid x" "valid y" and "ser x empty_stream = Ret s" "ser y empty_stream = Ret t"
    and "buf s @ p = buf t @ q" and "length (buf s) + length p < 2 ^ 63"
  shows "canon x = canon y \<and> buf s = buf t"
proof -
  have st: "des (stream_of (buf s @ p)) = ROk (canon x) (advance (length (buf s)) (stream_of (buf s @ p)))"
    using assms by (intro roundtrip)
  have "length (buf t) + length q < 2 ^ 63"
    using arg_cong [OF assms(5), of length] assms(6) by simp
  then have "des (stream_of (buf t @ q)) = ROk (canon y) (advance (length (buf t)) (stream_of (buf t @ q)))"
    using assms by (intro roundtrip)
  with st have "ROk (canon x) (advance (length (buf s)) (stream_of (buf t @ q))) =
      ROk (canon y) (advance (length (buf t)) (stream_of (buf t @ q)))"
    by (simp only: assms(5))
  then have "canon x = canon y"
    and adv: "advance (length (buf s)) (stream_of (buf t @ q)) = advance (length (buf t)) (stream_of (buf t @ q))"
    by (simp_all only: rres.inject)
  have "wf_stream (stream_of (buf t @ q))"
    using \<open>length (buf t) + length q < 2 ^ 63\<close> by simp
  moreover have "length (buf s) \<le> length (buf t @ q)"
    using arg_cong [OF assms(5), of length] by simp
  ultimately have "length (buf s) = length (buf t)"
    by (intro iffD1 [OF advance_inject adv]) simp_all
  then show ?thesis using \<open>canon x = canon y\<close> assms(5) by simp
qed

lemma truncated:
  assumes "valid x" and "ser x empty_stream = Ret s" and "length (buf s) < 2 ^ 63"
    and "strict_prefix p (buf s)"
  shows "des (stream_of p) \<noteq> ROk y t"
proof
  assume ok: "des (stream_of p) = ROk y t"
  have lp: "length p < length (buf s)" using assms(4) by (rule prefix_length_less)
  then have p: "wf_stream (stream_of p)" using assms(3) by simp
  obtain n where n: "n \<le> length p"
    and run: "\<And>t. wf_stream t \<Longrightarrow> take n (remaining t) = take n p \<Longrightarrow> des t = ROk y (advance n t)"
    using local_reader_ROk [OF local_des p ok] by auto
  obtain q where q: "buf s = p @ q" using assms(4) by (auto simp: strict_prefix_def elim: prefixE)
  have wf: "wf_stream (stream_of (buf s))" using assms(3) by simp
  have "des (stream_of (buf s)) = ROk y (advance n (stream_of (buf s)))"
    using n by (intro run wf) (simp add: q)
  moreover have "des (stream_of (buf s)) = ROk (canon x) (advance (length (buf s)) (stream_of (buf s)))"
    using roundtrip [OF assms(1,2), of "[]"] assms(3) by simp
  ultimately have "advance n (stream_of (buf s)) = advance (length (buf s)) (stream_of (buf s))"
    by (simp only: rres.inject)
  then have "n = length (buf s)"
    by (rule iffD1 [OF advance_inject [OF wf], rotated 2]) (use n lp in simp_all)
  then show False using n lp by simp
qed

end

text \<open>A codec whose encodings are never empty can stand in a counted list.\<close>

locale item_codec = codec +
  assumes needs: "needs_input des"
begin

lemma items_transfer:
  assumes "\<And>x. x \<in> set xs \<Longrightarrow> valid x"
  shows "transfers (write_items ser xs) (read_items des) (map canon xs)"
  using assms by (intro transfers_items [OF needs] transfer)

end

text \<open>The list of a codec is a codec again, with a count in front.\<close>

sublocale item_codec \<subseteq> items: codec "write_items ser" "read_items des" "\<lambda>xs. \<forall>x \<in> set xs. valid x" "map canon"
  by unfold_locales (auto intro: items_transfer local_read_items local_des)


text \<open>Readers that agree on well-formed streams are as good as equal.\<close>

lemma transfers_cong:
  assumes "\<And>s. wf_stream s \<Longrightarrow> r s = r' s" and "transfers w r' x"
  shows "transfers w r x"
  using assms by (fastforce simp: transfers_def decodes_def)

lemma needs_input_cong:
  assumes "\<And>s. wf_stream s \<Longrightarrow> r s = r' s" and "needs_input r'"
  shows "needs_input r"
  using assms by (simp add: needs_input_def)

text \<open>
  A byte whose absence is ignored is missed by the next read: nothing is left for that one either.
\<close>

lemma rtry_ReadUint8:
  assumes "wf_stream s"
  shows "rbind (rtry ReadUint8 x) (\<lambda>b. rbind ReadVarUint (f b)) s =
         rbind ReadUint8 (\<lambda>b. rbind ReadVarUint (f b)) s"
proof (cases "remaining s")
  case Nil
  then have "unat (rpos s) < 2 ^ 63" "length (remaining s) = 0"
    using assms by (simp_all add: wf_stream_def length_remaining)
  then have "ReadUint8 s = RFail s"
    using assms by (simp add: ReadUint8_def rbind_def ReadBytes_cases)
  then show ?thesis by (simp add: rtry_def rbind_def ReadVarUint_def)
next
  case (Cons b bs)
  then have "\<exists>c s'. ReadUint8 s = ROk c s'"
    using assms by (simp add: ReadUint8_def rbind_def ReadBytes_cases rret_def)
  then show ?thesis by (auto simp: rtry_def rbind_def)
qed

text \<open>
  A payload is read and written under a version.  \<open>equal\<close> is the \<open>Equal\<close> of its class: the value
  read back is equal to the value written in the sense the class itself gives to equality.
\<close>

locale versioned_codec =
  fixes ser :: "u8 \<Rightarrow> 'a \<Rightarrow> writer" and des :: "u8 \<Rightarrow> 'a reader"
    and valid :: "u8 \<Rightarrow> 'a \<Rightarrow> bool" and canon :: "u8 \<Rightarrow> 'a \<Rightarrow> 'a"
    and equal :: "u8 \<Rightarrow> 'a \<Rightarrow> 'a \<Rightarrow> bool"
  assumes transfer: "valid v x \<Longrightarrow> transfers (ser v x) (des v) (canon v x)"
    and local_des: "local_reader (des v)"
    and equal_canon: "valid v x \<Longrightarrow> equal v x (canon v x)"

sublocale versioned_codec \<subseteq> at_version: codec "ser v" "des v" "valid v" "canon v" for v
  by unfold_locales (rule transfer local_des, assumption?)+

section \<open>How much a writer appends\<close>

text \<open>
  \<open>EstimateSize\<close> adds up what \<open>WriteVarUint\<close> returns, which leaves out the header byte of the
  longer forms; \<open>varint_gap\<close> is that byte.
\<close>

definition varint_gap :: "u64 \<Rightarrow> nat" where
  "varint_gap n = (if n < 0xfd then 0 else 1)"

definition wsize :: "writer \<Rightarrow> nat \<Rightarrow> bool" where
  "wsize w n \<longleftrightarrow> (\<exists>bs. appends w bs \<and> length bs = n)"

lemma wsize_eq: "wsize w m \<Longrightarrow> m = n \<Longrightarrow> wsize w n"
  by simp

lemma wsize_buf: "wsize w n \<Longrightarrow> w s = Ret t \<Longrightarrow> length (buf t) = length (buf s) + n"
  by (auto simp: wsize_def appends_def)

lemma wsize_unique: "wsize w m \<Longrightarrow> wsize w n \<Longrightarrow> m = n"
  by (auto simp: wsize_def dest: appends_unique)

lemma length_VarUint_bytes: "length (VarUint_bytes v) = WriteVarUint_count v + varint_gap v"
  by (auto simp: VarUint_bytes_def WriteVarUint_count_def varint_gap_def word_less_nat_alt word_le_nat_alt)

lemma wsize_Nil [size_intros]: "wsize (wseq []) 0"
  using appends_Nil by (auto simp: wsize_def)

lemma wsize_Cons [size_intros]:
  "wsize w m \<Longrightarrow> wsize (wseq ws) n \<Longrightarrow> wsize (wseq (w # ws)) (m + n)"
  unfolding wsize_def using appends_Cons by fastforce

lemma wsize_if [size_intros]:
  "(c \<Longrightarrow> wsize w m) \<Longrightarrow> (\<not> c \<Longrightarrow> wsize w' n) \<Longrightarrow>
   wsize (if c then w else w') (if c then m else n)"
  by simp

lemma wsize_prims [size_intros]:
  "wsize (WriteBytes bs) (length bs)" "wsize (WriteUint8 a) 1" "wsize (WriteUint16 b) 2"
  "wsize (WriteUint32 c) 4" "wsize (WriteUint64 d) 8" "wsize (WriteUint128 e) 16"
  "wsize (WriteUint160 f) 20" "wsize (WriteUint168 g) 21" "wsize (WriteUint256 h) 32"
  unfolding wsize_def
  using appends_WriteBytes [of bs] appends_WriteUint8 [of a] appends_WriteUint16 [of b]
    appends_WriteUint32 [of c] appends_WriteUint64 [of d] appends_WriteUint128 [of e]
    appends_WriteUint160 [of f] appends_WriteUint168 [of g] appends_WriteUint256 [of h]
  by fastforce+

lemma wsize_WriteVarUint [size_intros]:
  "wsize (WriteVarUint v) (WriteVarUint_count v + varint_gap v)"
  unfolding wsize_def using appends_WriteVarUint length_VarUint_bytes by blast

lemma wsize_WriteVarBytes [size_intros]:
  "wsize (WriteVarBytes bs)
     (WriteVarUint_count (word_of_nat (length bs)) + varint_gap (word_of_nat (length bs)) + length bs)"
  unfolding wsize_def using appends_WriteVarBytes [of bs] by (fastforce simp: length_VarUint_bytes)

lemma wsize_WriteVarString [size_intros]:
  "length str < 2 ^ 32 \<Longrightarrow> wsize (WriteVarString str)
     (WriteVarUint_count (word_of_nat (length str)) + varint_gap (word_of_nat (length str)) + length str)"
  unfolding wsize_def using appends_WriteVarString [of str] by (fastforce simp: length_VarUint_bytes)

lemma wsize_map:
  assumes "\<And>x. x \<in> set xs \<Longrightarrow> wsize (w x) (n x)"
  shows "wsize (wseq (map w xs)) (sum_list (map n xs))"
  using assms by (induction xs) (auto intro!: size_intros simp del: wseq.simps)

lemma wsize_items:
  assumes "\<And>x. x \<in> set xs \<Longrightarrow> wsize (w x) (n x)"
  shows "wsize (write_items w xs)
     (WriteVarUint_count (word_of_nat (length xs)) + varint_gap (word_of_nat (length xs))
      + sum_list (map n xs))"
  unfolding write_items_def by (intro wsize_Cons wsize_map wsize_WriteVarUint assms)

text \<open>The estimate of one byte vector in a list of them, and what it leaves out.\<close>

definition bytes_EstimateSize :: "bytes \<Rightarrow> nat" where
  "bytes_EstimateSize bs = WriteVarUint_count (word_of_nat (length bs)) + length bs"

definition bytes_gap :: "bytes \<Rightarrow> nat" where
  "bytes_gap bs = varint_gap (word_of_nat (length bs))"

lemma wsize_items_bytes:
  "wsize (write_items WriteVarBytes xs)
     (WriteVarUint_count (word_of_nat (length xs)) + varint_gap (word_of_nat (length xs))
      + (sum_list (map bytes_EstimateSize xs) + sum_list (map bytes_gap xs)))"
proof -
  have "(\<Sum>x\<leftarrow>xs. WriteVarUint_count (word_of_nat (length x)) +
      varint_gap (word_of_nat (length x)) + length x) =
    sum_list (map bytes_EstimateSize xs) + sum_list (map bytes_gap xs)"
    by (induction xs) (simp_all add: bytes_EstimateSize_def bytes_gap_def)
  then show ?thesis
    using wsize_items [of xs WriteVarBytes, OF wsize_WriteVarBytes] by simp
qed


section \<open>What a writer starts with\<close>

definition starts :: "writer \<Rightarrow> bytes \<Rightarrow> bool" where
  "starts w bs \<longleftrightarrow> (\<exists>cs. appends w (bs @ cs))"

lemma starts_appends: "appends w bs \<Longrightarrow> starts w bs"
  unfolding starts_def by (intro exI [of _ "[]"]) simp

lemma starts_Cons: "starts w bs \<Longrightarrow> wsize (wseq ws) n \<Longrightarrow> starts (wseq (w # ws)) bs"
  unfolding starts_def wsize_def by (metis appends_Cons append.assoc)

text \<open>What follows a value that is known to be in front may assume that value.\<close>

lemma transfers_known:
  assumes "transfers w (rbind r f) x" and "starts w bs" and "decodes r bs t" and "g t = f t"
  shows "transfers w (rbind r g) x"
proof -
  obtain cs where cs: "appends w (bs @ cs)" using assms(2) by (auto simp: starts_def)
  have "decodes (rbind r g) (bs @ cs) x"
  proof (rule decodesI)
    fix s q
    assume s: "wf_stream s" "remaining s = (bs @ cs) @ q"
    have "r s = ROk t (advance (length bs) s)"
      using decodesD [OF assms(3) s(1), of "cs @ q"] s(2) by simp
    then have "rbind r g s = rbind r f s" by (simp add: rbind_def assms(4))
    then show "rbind r g s = ROk x (advance (length (bs @ cs)) s)"
      using decodesD [OF transfers_decodes [OF assms(1) cs] s] by simp
  qed
  then show ?thesis by (rule transfersI [OF cs])
qed

text \<open>A count that is checked before the items are read.\<close>

lemma transfers_items_checked:
  assumes need: "needs_input r" and items: "\<And>x. x \<in> set xs \<Longrightarrow> transfers (w x) r (g x)"
    and ok: "\<not> bad (word_of_nat (length xs))"
  shows "transfers (write_items w xs)
    (rbind ReadVarUint (\<lambda>n. if bad n then rfail else read_list (unat n) r)) (map g xs)"
proof (rule transfers_known [OF _ _ decodes_ReadVarUint])
  show "transfers (write_items w xs) (rbind ReadVarUint (\<lambda>n. read_list (unat n) r)) (map g xs)"
    using transfers_items [OF need items] by (simp add: read_items_def)
  have "\<forall>x \<in> set xs. \<exists>bs. appends (w x) bs" using items by (blast dest: transfers_appends)
  then obtain f where "\<And>x. x \<in> set xs \<Longrightarrow> appends (w x) (f x)" by metis
  then have "appends (wseq (map w xs)) (concat (map f xs))" by (rule appends_items)
  then have "wsize (wseq (map w xs)) (length (concat (map f xs)))" by (auto simp: wsize_def)
  then show "starts (write_items w xs) (VarUint_bytes (word_of_nat (length xs)))"
    unfolding write_items_def by (intro starts_Cons starts_appends appends_WriteVarUint)
qed (use ok in simp)

end
