(* ===== verification/TxItems.thy ===== *)
theory TxItems
  imports Codec
begin

text \<open>
  The small parts of a transaction: \<open>Attribute\<close> (\<open>Transaction/Attribute.{h,cpp}\<close>),
  \<open>TransactionInput\<close> (\<open>TransactionInput.{h,cpp}\<close>) and \<open>Asset\<close> (\<open>Asset.{h,cpp}\<close>): records,
  \<open>Serialize\<close>, \<open>Deserialize\<close>, \<open>EstimateSize\<close>, equality, and the interpretation of the codec
  interface for each.
\<close>

section \<open>Attribute\<close>

text \<open>The usage is the byte that travels: the enumerators of \<open>Attribute::Usage\<close> fit in one.\<close>

definition Usage_Nonce :: u8 where "Usage_Nonce = 0x00"
definition Usage_Script :: u8 where "Usage_Script = 0x20"
definition Usage_DescriptionUrl :: u8 where "Usage_DescriptionUrl = 0x91"
definition Usage_Description :: u8 where "Usage_Description = 0x90"
definition Usage_Memo :: u8 where "Usage_Memo = 0x81"
definition Usage_Confirmations :: u8 where "Usage_Confirmations = 0x92"

record Attribute =
  attr_usage :: u8
  attr_data :: bytes

definition Attribute_new :: Attribute where
  "Attribute_new = \<lparr>attr_usage = Usage_Nonce, attr_data = []\<rparr>"

definition Attribute_IsValid :: "Attribute \<Rightarrow> bool" where
  "Attribute_IsValid a \<longleftrightarrow>
     attr_usage a = Usage_Description \<or> attr_usage a = Usage_DescriptionUrl \<or>
     attr_usage a = Usage_Memo \<or> attr_usage a = Usage_Script \<or>
     attr_usage a = Usage_Nonce \<or> attr_usage a = Usage_Confirmations"

definition Attribute_EstimateSize :: "Attribute \<Rightarrow> nat" where
  "Attribute_EstimateSize a =
     1 + WriteVarUint_count (word_of_nat (length (attr_data a))) + length (attr_data a)"

definition Attribute_Serialize :: "Attribute \<Rightarrow> writer" where
  "Attribute_Serialize a = wseq [WriteUint8 (attr_usage a), WriteVarBytes (attr_data a)]"

definition Attribute_Deserialize :: "Attribute \<Rightarrow> Attribute reader" where
  "Attribute_Deserialize o1 =
     rbind ReadUint8 (\<lambda>usage.
       if \<not> Attribute_IsValid (o1\<lparr>attr_usage := usage\<rparr>) then rfail
       else rbind ReadVarBytes (\<lambda>data.
         rret (o1\<lparr>attr_usage := usage, attr_data := data\<rparr>)))"

definition Attribute_eq :: "Attribute \<Rightarrow> Attribute \<Rightarrow> bool" where
  "Attribute_eq a b \<longleftrightarrow> attr_usage a = attr_usage b \<and> attr_data a = attr_data b"

lemma Attribute_eq_iff: "Attribute_eq a b \<longleftrightarrow> a = b"
  by (cases a, cases b) (simp add: Attribute_eq_def)

lemma Attribute_IsValid_usage:
  "Attribute_IsValid (a\<lparr>attr_usage := u\<rparr>) = Attribute_IsValid (b\<lparr>attr_usage := u\<rparr>)"
  by (simp add: Attribute_IsValid_def)

lemma Attribute_transfers:
  assumes "Attribute_IsValid a"
  shows "transfers (Attribute_Serialize a) (Attribute_Deserialize o1) a"
proof -
  have "Attribute_IsValid (o1\<lparr>attr_usage := attr_usage a\<rparr>)"
    using assms by (simp add: Attribute_IsValid_def)
  then have "transfers (wseq [WriteVarBytes (attr_data a)])
      (if \<not> Attribute_IsValid (o1\<lparr>attr_usage := attr_usage a\<rparr>) then rfail
       else rbind ReadVarBytes (\<lambda>data. rret (o1\<lparr>attr_usage := attr_usage a, attr_data := data\<rparr>))) a"
    by (auto intro!: transfer_intros)
  then show ?thesis
    unfolding Attribute_Serialize_def Attribute_Deserialize_def
    by (rule transfers_rbind [OF transfers_WriteUint8])
qed

interpretation attribute: item_codec Attribute_Serialize "Attribute_Deserialize Attribute_new"
    Attribute_IsValid "\<lambda>a. a"
  by (unfold_locales, rule Attribute_transfers)
    (auto simp: Attribute_Deserialize_def intro!: reader_intros needs_intros)

lemma Attribute_Deserialize_valid:
  assumes "Attribute_Deserialize o1 s = ROk a s'"
  shows "Attribute_IsValid a"
  using assms
  by (auto simp: Attribute_Deserialize_def rbind_def rret_def rfail_def Attribute_IsValid_def
      split: rres.splits if_splits)

lemma Attribute_size:
  "wsize (Attribute_Serialize a)
     (Attribute_EstimateSize a + varint_gap (word_of_nat (length (attr_data a))))"
  unfolding Attribute_Serialize_def
  by (rule wsize_eq, (rule size_intros)+) (simp add: Attribute_EstimateSize_def)

section \<open>TransactionInput\<close>

record TransactionInput =
  in_txHash :: uint256
  in_index :: u16
  in_sequence :: u32

definition TransactionInput_new :: TransactionInput where
  "TransactionInput_new = \<lparr>in_txHash = 0, in_index = 0, in_sequence = 0\<rparr>"

definition TransactionInput_of :: "uint256 \<Rightarrow> u16 \<Rightarrow> TransactionInput" where
  "TransactionInput_of h i = \<lparr>in_txHash = h, in_index = i, in_sequence = 0\<rparr>"

definition TransactionInput_assign :: "TransactionInput \<Rightarrow> TransactionInput \<Rightarrow> TransactionInput" where
  "TransactionInput_assign this input =
     this\<lparr>in_txHash := in_txHash input, in_index := in_index input, in_sequence := in_sequence input\<rparr>"

definition TransactionInput_GetSize :: "TransactionInput \<Rightarrow> nat" where
  "TransactionInput_GetSize i = 32 + 2 + 4"

definition TransactionInput_eq :: "TransactionInput \<Rightarrow> TransactionInput \<Rightarrow> bool" where
  "TransactionInput_eq a b \<longleftrightarrow>
     in_txHash a = in_txHash b \<and> in_index a = in_index b \<and> in_sequence a = in_sequence b"

definition TransactionInput_EstimateSize :: "TransactionInput \<Rightarrow> nat" where
  "TransactionInput_EstimateSize i = 32 + 2 + 4"

definition TransactionInput_Serialize :: "TransactionInput \<Rightarrow> writer" where
  "TransactionInput_Serialize i =
     wseq [WriteUint256 (in_txHash i), WriteUint16 (in_index i), WriteUint32 (in_sequence i)]"

definition TransactionInput_Deserialize :: "TransactionInput \<Rightarrow> TransactionInput reader" where
  "TransactionInput_Deserialize o1 =
     rbind ReadUint256 (\<lambda>txHash.
     rbind ReadUint16 (\<lambda>index.
     rbind ReadUint32 (\<lambda>sequence.
       rret (o1\<lparr>in_txHash := txHash, in_index := index, in_sequence := sequence\<rparr>))))"

lemma TransactionInput_eq_iff: "TransactionInput_eq a b \<longleftrightarrow> a = b"
  by (cases a, cases b) (simp add: TransactionInput_eq_def)

lemma TransactionInput_assign_eq: "TransactionInput_assign this input = input"
  by (cases this, cases input) (simp add: TransactionInput_assign_def)

lemma TransactionInput_transfers:
  "transfers (TransactionInput_Serialize i) (TransactionInput_Deserialize o1) i"
  unfolding TransactionInput_Serialize_def TransactionInput_Deserialize_def
  by (rule transfer_intros | simp)+

interpretation tx_input: item_codec TransactionInput_Serialize
    "TransactionInput_Deserialize TransactionInput_new" "\<lambda>_. True" "\<lambda>i. i"
  by (unfold_locales, rule TransactionInput_transfers)
    (auto simp: TransactionInput_Deserialize_def intro!: reader_intros needs_intros)

lemma TransactionInput_size:
  "wsize (TransactionInput_Serialize i) (TransactionInput_EstimateSize i)"
  unfolding TransactionInput_Serialize_def
  by (rule wsize_eq, (rule size_intros)+) (simp add: TransactionInput_EstimateSize_def)

section \<open>Asset\<close>

text \<open>
  \<open>_hash\<close> caches the id of the asset: zero until \<open>GetHash\<close> computes it.  The double SHA-256 is
  the parameter \<open>sha256_2\<close>.  The id of ELA is written in the source as a hex string, most
  significant digit first.
\<close>

definition AssetType_Token :: u8 where "AssetType_Token = 0"
definition AssetType_Share :: u8 where "AssetType_Share = 1"
definition AssetRecordType_Unspent :: u8 where "AssetRecordType_Unspent = 0"
definition AssetRecordType_Balance :: u8 where "AssetRecordType_Balance = 1"
definition MaxPrecision :: u8 where "MaxPrecision = 18"

record Asset =
  asset_name :: string
  asset_description :: string
  asset_precision :: u8
  asset_assetType :: u8
  asset_recordType :: u8
  asset_hash :: uint256

definition GetELAAssetID :: uint256 where
  "GetELAAssetID = 0xa3d0eaa466df74983b5d7c543de6904f4c9418ead5ffd6d25814234a96db37b0"

definition Asset_of :: "string \<Rightarrow> string \<Rightarrow> u8 \<Rightarrow> u8 \<Rightarrow> u8 \<Rightarrow> Asset" where
  "Asset_of name desc precision assetType recordType =
     \<lparr>asset_name = name, asset_description = desc, asset_precision = precision,
      asset_assetType = assetType, asset_recordType = recordType, asset_hash = 0\<rparr>"

definition Asset_new :: Asset where
  "Asset_new =
     (Asset_of ''ELA'' '''' 8 AssetType_Token AssetRecordType_Unspent)\<lparr>asset_hash := GetELAAssetID\<rparr>"

definition Asset_EstimateSize :: "Asset \<Rightarrow> nat" where
  "Asset_EstimateSize a =
     WriteVarUint_count (word_of_nat (length (asset_name a))) + length (asset_name a) +
     WriteVarUint_count (word_of_nat (length (asset_description a))) +
     length (asset_description a) + 3"

definition Asset_Serialize :: "Asset \<Rightarrow> writer" where
  "Asset_Serialize a =
     wseq [WriteVarString (asset_name a), WriteVarString (asset_description a),
           WriteUint8 (asset_precision a), WriteUint8 (asset_assetType a),
           WriteUint8 (asset_recordType a)]"

text \<open>\<open>GetHash\<close> returns the id and the asset with the id cached.\<close>

definition Asset_GetHash :: "(bytes \<Rightarrow> uint256) \<Rightarrow> Asset \<Rightarrow> (uint256 \<times> Asset) outcome" where
  "Asset_GetHash sha256_2 a =
     (if asset_hash a = 0
      then obind (Asset_Serialize a empty_stream) (\<lambda>s.
        Ret (sha256_2 (buf s), a\<lparr>asset_hash := sha256_2 (buf s)\<rparr>))
      else Ret (asset_hash a, a))"

text \<open>
  What \<open>Deserialize\<close> and \<open>FromJson\<close> do once the fields are in place: the id of the asset named
  ELA is the fixed one, any other id is computed.
\<close>

definition Asset_renew_hash :: "(bytes \<Rightarrow> uint256) \<Rightarrow> Asset \<Rightarrow> Asset outcome" where
  "Asset_renew_hash sha256_2 a =
     (if asset_name a = ''ELA'' then Ret (a\<lparr>asset_hash := GetELAAssetID\<rparr>)
      else obind (Asset_GetHash sha256_2 (a\<lparr>asset_hash := 0\<rparr>)) (\<lambda>(_, a'). Ret a'))"

definition Asset_Deserialize :: "(bytes \<Rightarrow> uint256) \<Rightarrow> Asset \<Rightarrow> Asset reader" where
  "Asset_Deserialize sha256_2 o1 =
     rbind ReadVarString (\<lambda>name.
     rbind ReadVarString (\<lambda>desc.
     rbind ReadUint8 (\<lambda>precision.
     rbind ReadUint8 (\<lambda>assetType.
     rbind ReadUint8 (\<lambda>recordType.
       rlift (Asset_renew_hash sha256_2
         (o1\<lparr>asset_name := name, asset_description := desc, asset_precision := precision,
             asset_assetType := assetType, asset_recordType := recordType\<rparr>)))))))"

definition Asset_eq :: "Asset \<Rightarrow> Asset \<Rightarrow> bool" where
  "Asset_eq a b \<longleftrightarrow>
     asset_name a = asset_name b \<and> asset_description a = asset_description b \<and>
     asset_precision a = asset_precision b \<and> asset_assetType a = asset_assetType b \<and>
     asset_recordType a = asset_recordType b"

definition Asset_assign :: "Asset \<Rightarrow> Asset \<Rightarrow> Asset" where
  "Asset_assign this a =
     this\<lparr>asset_name := asset_name a, asset_description := asset_description a,
          asset_precision := asset_precision a, asset_assetType := asset_assetType a,
          asset_recordType := asset_recordType a, asset_hash := asset_hash a\<rparr>"

definition Asset_strings_fit :: "Asset \<Rightarrow> bool" where
  "Asset_strings_fit a \<longleftrightarrow> length (asset_name a) < 2 ^ 32 \<and> length (asset_description a) < 2 ^ 32"

lemma Asset_assign_eq: "Asset_assign this a = a"
  by (cases this, cases a) (simp add: Asset_assign_def)

lemma Asset_size:
  assumes "Asset_strings_fit a"
  shows "wsize (Asset_Serialize a) (Asset_EstimateSize a +
     varint_gap (word_of_nat (length (asset_name a))) +
     varint_gap (word_of_nat (length (asset_description a))))"
proof -
  have l: "length (asset_name a) < 2 ^ 32" "length (asset_description a) < 2 ^ 32"
    using assms by (simp_all add: Asset_strings_fit_def)
  show ?thesis
    unfolding Asset_Serialize_def
    by (rule wsize_eq, (rule size_intros l)+) (simp add: Asset_EstimateSize_def)
qed

lemma Asset_Serialize_Ret:
  assumes "Asset_strings_fit a"
  shows "\<exists>bs. appends (Asset_Serialize a) bs"
  using Asset_size [OF assms] by (auto simp: wsize_def)

text \<open>
  The bytes of an asset do not depend on its cached id, so the id that \<open>Deserialize\<close> computes is
  the one the sender computed.
\<close>

lemma Asset_Serialize_hash [simp]: "Asset_Serialize (a\<lparr>asset_hash := h\<rparr>) = Asset_Serialize a"
  by (simp add: Asset_Serialize_def)

definition Asset_id :: "(bytes \<Rightarrow> uint256) \<Rightarrow> Asset \<Rightarrow> uint256" where
  "Asset_id sha256_2 a =
     (if asset_name a = ''ELA'' then GetELAAssetID
      else sha256_2 (case Asset_Serialize a empty_stream of Ret s \<Rightarrow> buf s | _ \<Rightarrow> []))"

lemma Asset_renew_hash_id:
  assumes "Asset_strings_fit a"
  shows "Asset_renew_hash sha256_2 a = Ret (a\<lparr>asset_hash := Asset_id sha256_2 a\<rparr>)"
  using Asset_Serialize_Ret [OF assms]
  by (auto simp: Asset_renew_hash_def Asset_GetHash_def Asset_id_def appends_def empty_stream_def)

lemma Asset_transfers:
  assumes "Asset_strings_fit a"
  shows "transfers (Asset_Serialize a) (Asset_Deserialize sha256_2 o1)
           (a\<lparr>asset_hash := Asset_id sha256_2 a\<rparr>)"
proof -
  let ?a = "o1\<lparr>asset_name := asset_name a, asset_description := asset_description a,
      asset_precision := asset_precision a, asset_assetType := asset_assetType a,
      asset_recordType := asset_recordType a\<rparr>"
  have a: "?a = a\<lparr>asset_hash := asset_hash o1\<rparr>" by simp
  have "Asset_renew_hash sha256_2 ?a = Ret (a\<lparr>asset_hash := Asset_id sha256_2 a\<rparr>)"
    unfolding a using Asset_renew_hash_id [of "a\<lparr>asset_hash := asset_hash o1\<rparr>" sha256_2] assms
    by (simp add: Asset_strings_fit_def Asset_id_def)
  note fin = transfers_rlift [OF this]
  have l: "length (asset_name a) < 2 ^ 32" "length (asset_description a) < 2 ^ 32"
    using assms by (simp_all add: Asset_strings_fit_def)
  show ?thesis
    unfolding Asset_Serialize_def Asset_Deserialize_def by (rule transfer_intros l fin)+
qed

interpretation asset: item_codec Asset_Serialize "Asset_Deserialize sha256_2 Asset_new"
    Asset_strings_fit "\<lambda>a. a\<lparr>asset_hash := Asset_id sha256_2 a\<rparr>" for sha256_2
  by (unfold_locales, rule Asset_transfers)
    (auto simp: Asset_Deserialize_def intro!: reader_intros needs_intros)

lemma Asset_GetHash_stable:
  assumes "Asset_GetHash sha256_2 a = Ret (h, a')" and "h \<noteq> 0"
  shows "Asset_GetHash sha256_2 a' = Ret (h, a')"
  using assms by (auto simp: Asset_GetHash_def obind_eq_Ret split: if_splits)

end
