(* ===== verification/BigIntM.thy ===== *)
theory BigIntM
  imports SPV_Prelude "HOL-Library.Signed_Division"
begin

text \<open>
  The arbitrary-precision integer of \<open>SDK/Common/BigInt.{h,cpp}\<close>.  The class wraps a \<open>BIGNUM\<close> of
  the crypto library; its value is the HOL integer the number stands for, and the arithmetic of
  the library (\<open>BN_add\<close>, \<open>BN_sub\<close>, \<open>BN_mul\<close>, and \<open>BN_div\<close>, which truncates and fails on a zero
  divisor) is the arithmetic of that integer.  What the class itself does around it is modelled:
  the byte images in either order, the 64-bit image, and the positional notation over an alphabet
  that Base58 uses.  Allocation failure is left out.
\<close>

type_synonym BigInt = int

section \<open>Minimal byte images\<close>

function le_min :: "nat \<Rightarrow> bytes" where
  "le_min n = (if n = 0 then [] else word_of_nat n # le_min (n div 256))"
  by pat_completeness auto
termination by (relation "measure id") simp_all

declare le_min.simps [simp del]

lemma le_min_0 [simp]: "le_min 0 = []"
  by (simp add: le_min.simps)

lemma nat_of_le_le_min [simp]: "nat_of_le (le_min n) = n"
proof (induction n rule: le_min.induct)
  case (1 n)
  then show ?case
    by (cases "n = 0") (simp_all add: le_min.simps [of n] unat_word_of_nat_u8)
qed

lemma le_min_eq_Nil [simp]: "le_min n = [] \<longleftrightarrow> n = 0"
  by (subst le_min.simps) simp

lemma length_le_min: "length (le_min n) \<le> k \<longleftrightarrow> n < 256 ^ k"
proof
  assume "length (le_min n) \<le> k"
  then have "(256::nat) ^ length (le_min n) \<le> 256 ^ k" by (intro power_increasing) simp_all
  moreover have "n < 256 ^ length (le_min n)" using nat_of_le_bound [of "le_min n"] by simp
  ultimately show "n < 256 ^ k" by (rule less_le_trans [rotated])
next
  assume "n < 256 ^ k"
  then show "length (le_min n) \<le> k"
  proof (induction k arbitrary: n)
    case 0
    then show ?case by simp
  next
    case (Suc k)
    then have "n div 256 < 256 ^ k" by (simp add: less_mult_imp_div_less)
    then show ?case using Suc.IH by (subst le_min.simps) simp
  qed
qed

lemma last_le_min: "n \<noteq> 0 \<Longrightarrow> last (le_min n) \<noteq> 0"
proof (induction n rule: le_min.induct)
  case (1 n)
  show ?case
  proof (cases "n div 256 = 0")
    case True
    then have "n < 256" by simp
    then have "(word_of_nat n :: u8) \<noteq> 0" using "1.prems" by (auto simp: word_unat_eq_iff unat_of_nat)
    moreover have "le_min (n div 256) = []" using True by simp
    ultimately show ?thesis using "1.prems" by (subst le_min.simps) simp
  next
    case False
    then have "last (le_min (n div 256)) \<noteq> 0" using 1 by blast
    moreover have "le_min (n div 256) \<noteq> []" using False by simp
    ultimately show ?thesis using "1.prems" by (subst le_min.simps) simp
  qed
qed

lemma le_min_nat_of_le: "(bs \<noteq> [] \<Longrightarrow> last bs \<noteq> 0) \<Longrightarrow> le_min (nat_of_le bs) = bs"
proof (induction bs)
  case Nil
  then show ?case by simp
next
  case (Cons b bs)
  have b: "unat b < 256" by simp
  have "le_min (nat_of_le bs) = bs" using Cons by (cases "bs = []") auto
  moreover have "nat_of_le (b # bs) \<noteq> 0"
  proof (cases "bs = []")
    case True
    then show ?thesis using Cons.prems by (simp add: unat_eq_zero)
  next
    case False
    then have "le_min (nat_of_le bs) \<noteq> []" using \<open>le_min (nat_of_le bs) = bs\<close> by simp
    then show ?thesis by simp
  qed
  moreover have "(unat b + 256 * nat_of_le bs) div 256 = nat_of_le bs" using b by simp
  moreover have "(word_of_nat (unat b + 256 * nat_of_le bs) :: u8) = b"
    by (rule word_unat_eq_iff [THEN iffD2]) (simp only: unat_word_of_nat_u8 mod_mult_self2 mod_less b)
  ultimately show ?case by (subst le_min.simps) simp
qed

lemma nat_of_le_take: "nat_of_le (take k bs) = nat_of_le bs mod 256 ^ k"
proof (cases "length bs \<le> k")
  case True
  have "(256::nat) ^ length bs \<le> 256 ^ k" using True by (intro power_increasing) simp_all
  then have "nat_of_le bs < 256 ^ k" by (rule less_le_trans [OF nat_of_le_bound])
  then show ?thesis using True by simp
next
  case False
  then have k: "length (take k bs) = k" by simp
  have "nat_of_le bs = nat_of_le (take k bs) + 256 ^ k * nat_of_le (drop k bs)"
    using nat_of_le_append [of "take k bs" "drop k bs"] by (simp only: k append_take_drop_id)
  moreover have "nat_of_le (take k bs) < 256 ^ k" using nat_of_le_bound [of "take k bs"] by (simp only: k)
  ultimately show ?thesis by simp
qed

section \<open>Arithmetic\<close>

definition BigInt_div :: "BigInt \<Rightarrow> BigInt \<Rightarrow> BigInt outcome" where
  "BigInt_div a b = (if b = 0 then Throw E_BigInt else Ret (a sdiv b))"

definition BigInt_mod :: "BigInt \<Rightarrow> BigInt \<Rightarrow> BigInt outcome" where
  "BigInt_mod a b = (if b = 0 then Throw E_BigInt else Ret (a smod b))"

section \<open>Bytes\<close>

text \<open>
  \<open>getHexBytes\<close> goes through the hex text of the number.  The text of zero is one digit, padded
  to the byte 0; the sign of a negative number is padded to a byte of its own, which scans as 0.
  \<open>setHexBytes\<close> on no bytes hands an empty text to \<open>BN_hex2bn\<close>, which leaves the number alone.
\<close>

definition BigInt_getHexBytes :: "BigInt \<Rightarrow> bool \<Rightarrow> bytes" where
  "BigInt_getHexBytes n littleEndian =
     (let magnitude = rev (le_min (nat \<bar>n\<bar>));
          bs = (if n = 0 then [0] else if n < 0 then 0 # magnitude else magnitude)
      in if littleEndian then rev bs else bs)"

definition BigInt_setHexBytes :: "BigInt \<Rightarrow> bytes \<Rightarrow> bool \<Rightarrow> BigInt" where
  "BigInt_setHexBytes old bs littleEndian =
     (if bs = [] then old else int (nat_of_le (if littleEndian then bs else rev bs)))"

definition BigInt_getUint64 :: "BigInt \<Rightarrow> u64" where
  "BigInt_getUint64 n = of_le (take 8 (BigInt_getHexBytes n True))"

definition BigInt_setUint64 :: "u64 \<Rightarrow> BigInt" where
  "BigInt_setUint64 w = BigInt_setHexBytes 0 (le_bytes 8 w) True"

text \<open>
  \<open>getBytes\<close> and \<open>setBytes\<close> name their flag \<open>bigEndian\<close>, yet it is the value false that keeps the
  most significant byte first.
\<close>

definition BigInt_getBytes :: "BigInt \<Rightarrow> bool \<Rightarrow> bytes" where
  "BigInt_getBytes n bigEndian =
     (let bs = rev (le_min (nat \<bar>n\<bar>)) in if bigEndian then rev bs else bs)"

definition BigInt_setBytes :: "bytes \<Rightarrow> bool \<Rightarrow> BigInt" where
  "BigInt_setBytes bs bigEndian = int (nat_of_le (if bigEndian then bs else rev bs))"

lemma BigInt_getUint64_mod: "unat (BigInt_getUint64 n) = nat \<bar>n\<bar> mod 2 ^ 64"
proof -
  have "nat_of_le (BigInt_getHexBytes n True) = nat \<bar>n\<bar>"
    by (simp add: BigInt_getHexBytes_def Let_def nat_of_le_append)
  then show ?thesis
    by (simp add: BigInt_getUint64_def of_le_def nat_of_le_take unat_of_nat)
qed

lemma BigInt_setUint64_unat: "BigInt_setUint64 w = int (unat w)"
proof -
  have "le_bytes 8 w \<noteq> []" using length_le_bytes [of 8 w] by (metis list.size(3) zero_neq_numeral)
  moreover have "unat w < 2 ^ 64" using unat_bound [of w] by simp
  ultimately show ?thesis
    by (simp add: BigInt_setUint64_def BigInt_setHexBytes_def le_bytes_def nat_of_le_of_nat)
qed

lemma BigInt_get_setUint64 [simp]: "BigInt_getUint64 (BigInt_setUint64 w) = w"
  using unat_bound [of w]
  by (simp add: word_unat_eq_iff BigInt_getUint64_mod BigInt_setUint64_unat)

lemma BigInt_set_getUint64: "0 \<le> n \<Longrightarrow> n < 2 ^ 64 \<Longrightarrow> BigInt_setUint64 (BigInt_getUint64 n) = n"
  by (simp add: BigInt_setUint64_unat BigInt_getUint64_mod nat_mod_distrib)

lemma BigInt_set_getHexBytes: "0 \<le> n \<Longrightarrow> BigInt_setHexBytes old (BigInt_getHexBytes n le) le = n"
  by (cases "n = 0") (simp_all add: BigInt_setHexBytes_def BigInt_getHexBytes_def Let_def)

lemma BigInt_getHexBytes_nonempty: "BigInt_getHexBytes n le \<noteq> []"
  by (auto simp: BigInt_getHexBytes_def Let_def)

lemma BigInt_set_getBytes: "0 \<le> n \<Longrightarrow> BigInt_setBytes (BigInt_getBytes n be) be = n"
  by (simp add: BigInt_setBytes_def BigInt_getBytes_def Let_def)

section \<open>Positional notation\<close>

text \<open>
  The loop of \<open>getInBase\<close> takes the remainder as an index into the alphabet, a C string whose
  terminator can still be read.  It ends because the magnitude of the number falls, for a base of
  two and up; a base of zero fails at the first division.  Base one, which never ends, is left out.
\<close>

definition alphabet_at :: "string \<Rightarrow> nat \<Rightarrow> char outcome" where
  "alphabet_at alphabet i =
     (if i < length alphabet then Ret (alphabet ! i)
      else if i = length alphabet then Ret (CHR 0x00) else Undef)"

lemma div_base_less: "n div base \<noteq> 0 \<Longrightarrow> \<not> base \<le> 1 \<Longrightarrow> n div base < (n :: nat)"
  by (cases "n = 0") (simp_all add: div_less_dividend)

function getInBase_loop :: "nat \<Rightarrow> string \<Rightarrow> nat \<Rightarrow> string \<Rightarrow> string outcome" where
  "getInBase_loop base alphabet num inBase =
     obind (alphabet_at alphabet (num mod base)) (\<lambda>c.
       if num div base = 0 \<or> base \<le> 1 then Ret (c # inBase)
       else getInBase_loop base alphabet (num div base) (c # inBase))"
  by pat_completeness auto
termination
  by (relation "measure (\<lambda>(base, alphabet, num, inBase). num)") (auto intro!: div_base_less simp del: div_eq_0_iff)

declare getInBase_loop.simps [simp del]

definition BigInt_getInBase :: "BigInt \<Rightarrow> nat \<Rightarrow> string \<Rightarrow> string outcome" where
  "BigInt_getInBase n base alphabet =
     (if base = 0 then Throw E_BigInt
      else if base = 1 then Undef
      else getInBase_loop base alphabet (nat \<bar>n\<bar>) [])"

text \<open>\<open>strchr\<close> also finds the terminator, at the length of the alphabet.\<close>

fun strchr :: "string \<Rightarrow> char \<Rightarrow> nat option" where
  "strchr [] c = (if c = CHR 0x00 then Some 0 else None)"
| "strchr (a # as) c = (if a = c then Some 0 else map_option Suc (strchr as c))"

definition setInBase_step :: "nat \<Rightarrow> string \<Rightarrow> char \<Rightarrow> BigInt \<Rightarrow> BigInt" where
  "setInBase_step base alphabet c n =
     (case strchr alphabet c of None \<Rightarrow> n | Some d \<Rightarrow> n * int base + int d)"

definition BigInt_setInBase :: "string \<Rightarrow> nat \<Rightarrow> string \<Rightarrow> BigInt" where
  "BigInt_setInBase inBase base alphabet = fold (setInBase_step base alphabet) inBase 0"

lemma strchr_nth:
  assumes "distinct as" and "i < length as"
  shows "strchr as (as ! i) = Some i"
  using assms
proof (induction as arbitrary: i)
  case Nil
  then show ?case by simp
next
  case (Cons a as)
  then show ?case by (cases i) (auto simp: nth_mem)
qed

lemma BigInt_setInBase_snoc:
  "BigInt_setInBase (s @ [c]) base alphabet =
     setInBase_step base alphabet c (BigInt_setInBase s base alphabet)"
  by (simp add: BigInt_setInBase_def)

lemma fold_setInBase_digits:
  assumes "2 \<le> base" and "distinct alphabet" and "length alphabet = base"
    and "getInBase_loop base alphabet n acc = Ret s"
  shows "fold (setInBase_step base alphabet) s (int m) =
    fold (setInBase_step base alphabet) acc (int (m * base ^ (length s - length acc) + n))
    \<and> length acc < length s"
  using assms(4)
proof (induction n arbitrary: acc rule: less_induct)
  case (less n)
  have lt: "n mod base < length alphabet" using assms(1,3) by simp
  then have at: "alphabet_at alphabet (n mod base) = Ret (alphabet ! (n mod base))"
    by (simp add: alphabet_at_def)
  have step: "setInBase_step base alphabet (alphabet ! (n mod base)) (int k) = int (k * base + n mod base)" for k
    using strchr_nth [OF assms(2) lt] by (simp add: setInBase_step_def)
  show ?case
  proof (cases "n div base = 0")
    case True
    then have "n mod base = n" using assms(1) by (simp add: div_eq_0_iff)
    then have "s = alphabet ! n # acc"
      using less.prems at True by (subst (asm) getInBase_loop.simps) simp
    then show ?thesis using step [of m] \<open>n mod base = n\<close> by (simp add: mult.commute)
  next
    case False
    let ?c = "alphabet ! (n mod base)"
    have "n div base < n" using False assms(1) by (intro div_base_less) simp_all
    moreover have "getInBase_loop base alphabet (n div base) (?c # acc) = Ret s"
      using less.prems at False assms(1) by (subst (asm) getInBase_loop.simps) simp
    ultimately have ih: "fold (setInBase_step base alphabet) s (int m) =
        fold (setInBase_step base alphabet) (?c # acc)
          (int (m * base ^ (length s - length (?c # acc)) + n div base))"
      and len: "length (?c # acc) < length s"
      using less.IH by blast+
    define k where "k = length s - length (?c # acc)"
    have k: "length s - length acc = Suc k" using len by (simp add: k_def)
    have "(m * base ^ k + n div base) * base + n mod base = m * base ^ Suc k + n"
      by (simp add: algebra_simps)
    moreover have "length s - Suc (length acc) = k" by (simp add: k_def)
    ultimately show ?thesis using ih len
      by (simp only: k fold_simps step k_def [symmetric] list.size) simp
  qed
qed

lemma getInBase_loop_total:
  assumes "2 \<le> base" and "length alphabet = base"
  shows "\<exists>s. getInBase_loop base alphabet n acc = Ret s"
proof (induction n arbitrary: acc rule: less_induct)
  case (less n)
  have at: "alphabet_at alphabet (n mod base) = Ret (alphabet ! (n mod base))"
    using assms by (simp add: alphabet_at_def)
  show ?case
  proof (cases "n div base = 0")
    case True
    then show ?thesis using at by (subst getInBase_loop.simps) simp
  next
    case False
    then have "n div base < n" using assms(1) by (intro div_base_less) simp_all
    then show ?thesis using less at assms(1) by (subst getInBase_loop.simps) simp
  qed
qed

text \<open>Reading back the notation of a number gives the number, for any alphabet without repeats.\<close>

lemma BigInt_set_getInBase:
  assumes "2 \<le> base" and "distinct alphabet" and "length alphabet = base" and "0 \<le> n"
  obtains s where "BigInt_getInBase n base alphabet = Ret s" and "BigInt_setInBase s base alphabet = n"
proof -
  obtain s where s: "getInBase_loop base alphabet (nat n) [] = Ret s"
    using getInBase_loop_total [OF assms(1,3)] by blast
  then have "fold (setInBase_step base alphabet) s (int 0) = int (nat n)"
    using fold_setInBase_digits [OF assms(1-3) s, of 0] by simp
  then have "BigInt_setInBase s base alphabet = n"
    using assms(4) by (simp add: BigInt_setInBase_def)
  moreover have "BigInt_getInBase n base alphabet = Ret s"
    using s assms by (simp add: BigInt_getInBase_def)
  ultimately show ?thesis using that by blast
qed

text \<open>\<open>BN_dec2bn\<close>, a parameter, leaves the number as it is when the text is none.\<close>

definition BigInt_setDec :: "(string \<Rightarrow> int option) \<Rightarrow> string \<Rightarrow> BigInt \<Rightarrow> BigInt" where
  "BigInt_setDec dec2bn dec old = (case dec2bn dec of None \<Rightarrow> old | Some n \<Rightarrow> n)"

end
