(* ===== verification/ChainPayloads.thy ===== *)
theory ChainPayloads
  imports TxItems BigIntM
begin

text \<open>
  The payloads of base-layer and side-chain transactions, each from the file of its name under
  \<open>SDK/Plugin/Transaction/Payload/\<close>: \<open>CoinBase\<close>, \<open>RegisterAsset\<close>, \<open>TransferAsset\<close>, \<open>Record\<close>,
  \<open>SideChainPow\<close>, \<open>RechargeToSideChain\<close>, \<open>WithdrawFromSideChain\<close>, \<open>TransferCrossChainAsset\<close>.
  A \<open>Deserialize\<close> starts from the object it is called on (\<open>o1\<close>) and returns it with the fields
  that were read in place.  Each class interprets \<open>versioned_codec\<close>.
\<close>

section \<open>CoinBase\<close>

record CoinBase =
  coinBaseData :: bytes

definition CoinBase_new :: CoinBase where
  "CoinBase_new = \<lparr>coinBaseData = []\<rparr>"

definition CoinBase_EstimateSize :: "u8 \<Rightarrow> CoinBase \<Rightarrow> nat" where
  "CoinBase_EstimateSize version p =
     WriteVarUint_count (word_of_nat (length (coinBaseData p))) + length (coinBaseData p)"

definition CoinBase_Serialize :: "u8 \<Rightarrow> CoinBase \<Rightarrow> writer" where
  "CoinBase_Serialize version p = WriteVarBytes (coinBaseData p)"

definition CoinBase_Deserialize :: "u8 \<Rightarrow> CoinBase \<Rightarrow> CoinBase reader" where
  "CoinBase_Deserialize version o1 = rbind ReadVarBytes (\<lambda>d. rret (o1\<lparr>coinBaseData := d\<rparr>))"

definition CoinBase_assign :: "CoinBase \<Rightarrow> CoinBase \<Rightarrow> CoinBase" where
  "CoinBase_assign this p = this\<lparr>coinBaseData := coinBaseData p\<rparr>"

definition CoinBase_Equal :: "u8 \<Rightarrow> CoinBase \<Rightarrow> CoinBase \<Rightarrow> bool" where
  "CoinBase_Equal version this p \<longleftrightarrow> coinBaseData this = coinBaseData p"

lemma CoinBase_transfers: "transfers (CoinBase_Serialize v p) (CoinBase_Deserialize v o1) p"
proof -
  have "transfers (wseq [CoinBase_Serialize v p]) (CoinBase_Deserialize v o1) p"
    unfolding CoinBase_Serialize_def CoinBase_Deserialize_def by (rule transfer_intros | simp)+
  then show ?thesis by (simp only: transfers_single)
qed

interpretation coin_base: versioned_codec CoinBase_Serialize
    "\<lambda>v. CoinBase_Deserialize v CoinBase_new" "\<lambda>_ _. True" "\<lambda>_ p. p" CoinBase_Equal
  by (unfold_locales, rule CoinBase_transfers)
    (auto simp: CoinBase_Deserialize_def CoinBase_Equal_def intro!: reader_intros)

lemma CoinBase_size:
  "wsize (CoinBase_Serialize v p)
     (CoinBase_EstimateSize v p + varint_gap (word_of_nat (length (coinBaseData p))))"
  unfolding CoinBase_Serialize_def
  by (rule wsize_eq, (rule size_intros)+) (simp add: CoinBase_EstimateSize_def)

section \<open>RegisterAsset\<close>

record RegisterAsset =
  ra_asset :: Asset
  ra_amount :: u64
  ra_controller :: uint168

definition RegisterAsset_new :: RegisterAsset where
  "RegisterAsset_new = \<lparr>ra_asset = Asset_new, ra_amount = 0, ra_controller = 0\<rparr>"

definition RegisterAsset_IsValid :: "u8 \<Rightarrow> RegisterAsset \<Rightarrow> bool" where
  "RegisterAsset_IsValid version p \<longleftrightarrow> asset_precision (ra_asset p) \<le> MaxPrecision"

definition RegisterAsset_EstimateSize :: "u8 \<Rightarrow> RegisterAsset \<Rightarrow> nat" where
  "RegisterAsset_EstimateSize version p = Asset_EstimateSize (ra_asset p) + 8 + 21"

definition RegisterAsset_Serialize :: "u8 \<Rightarrow> RegisterAsset \<Rightarrow> writer" where
  "RegisterAsset_Serialize version p =
     wseq [Asset_Serialize (ra_asset p), WriteUint64 (ra_amount p), WriteUint168 (ra_controller p)]"

definition RegisterAsset_Deserialize ::
    "(bytes \<Rightarrow> uint256) \<Rightarrow> u8 \<Rightarrow> RegisterAsset \<Rightarrow> RegisterAsset reader" where
  "RegisterAsset_Deserialize sha256_2 version o1 =
     rbind (Asset_Deserialize sha256_2 (ra_asset o1)) (\<lambda>asset.
     rbind ReadUint64 (\<lambda>amount.
     rbind ReadUint168 (\<lambda>controller.
       rret (o1\<lparr>ra_asset := asset, ra_amount := amount, ra_controller := controller\<rparr>))))"

definition RegisterAsset_Equal :: "u8 \<Rightarrow> RegisterAsset \<Rightarrow> RegisterAsset \<Rightarrow> bool" where
  "RegisterAsset_Equal version this p \<longleftrightarrow>
     Asset_eq (ra_asset this) (ra_asset p) \<and> ra_amount this = ra_amount p \<and>
     ra_controller this = ra_controller p"

definition RegisterAsset_canon :: "(bytes \<Rightarrow> uint256) \<Rightarrow> RegisterAsset \<Rightarrow> RegisterAsset" where
  "RegisterAsset_canon sha256_2 p =
     p\<lparr>ra_asset := (ra_asset p)\<lparr>asset_hash := Asset_id sha256_2 (ra_asset p)\<rparr>\<rparr>"

lemma RegisterAsset_transfers:
  assumes "Asset_strings_fit (ra_asset p)"
  shows "transfers (RegisterAsset_Serialize v p) (RegisterAsset_Deserialize sha256_2 v o1)
           (RegisterAsset_canon sha256_2 p)"
  unfolding RegisterAsset_Serialize_def RegisterAsset_Deserialize_def RegisterAsset_canon_def
  by (rule Asset_transfers [OF assms] transfer_intros | simp)+

interpretation register_asset: versioned_codec RegisterAsset_Serialize
    "\<lambda>v. RegisterAsset_Deserialize sha256_2 v RegisterAsset_new"
    "\<lambda>_ p. Asset_strings_fit (ra_asset p)" "\<lambda>_. RegisterAsset_canon sha256_2"
    RegisterAsset_Equal for sha256_2
  by (unfold_locales, erule RegisterAsset_transfers)
    (auto simp: RegisterAsset_Deserialize_def Asset_Deserialize_def RegisterAsset_Equal_def
      RegisterAsset_canon_def Asset_eq_def intro!: reader_intros)

lemma RegisterAsset_size:
  assumes "Asset_strings_fit (ra_asset p)"
  shows "wsize (RegisterAsset_Serialize v p) (RegisterAsset_EstimateSize v p +
     varint_gap (word_of_nat (length (asset_name (ra_asset p)))) +
     varint_gap (word_of_nat (length (asset_description (ra_asset p)))))"
  unfolding RegisterAsset_Serialize_def
  by (rule wsize_eq, (rule size_intros Asset_size [OF assms])+)
    (simp add: RegisterAsset_EstimateSize_def)

section \<open>TransferAsset\<close>

text \<open>A payload without fields: nothing is written and nothing read.\<close>

datatype TransferAsset = TransferAsset_new

definition TransferAsset_EstimateSize :: "u8 \<Rightarrow> TransferAsset \<Rightarrow> nat" where
  "TransferAsset_EstimateSize version p = 0"

definition TransferAsset_Serialize :: "u8 \<Rightarrow> TransferAsset \<Rightarrow> writer" where
  "TransferAsset_Serialize version p = wseq []"

definition TransferAsset_Deserialize :: "u8 \<Rightarrow> TransferAsset \<Rightarrow> TransferAsset reader" where
  "TransferAsset_Deserialize version o1 = rret o1"

definition TransferAsset_Equal :: "u8 \<Rightarrow> TransferAsset \<Rightarrow> TransferAsset \<Rightarrow> bool" where
  "TransferAsset_Equal version this p \<longleftrightarrow> True"

lemma TransferAsset_transfers:
  "transfers (TransferAsset_Serialize v p) (TransferAsset_Deserialize v o1) p"
  unfolding TransferAsset_Serialize_def TransferAsset_Deserialize_def
  by (rule transfers_rret) (cases o1; cases p; simp)

interpretation transfer_asset: versioned_codec TransferAsset_Serialize
    "\<lambda>v. TransferAsset_Deserialize v TransferAsset_new" "\<lambda>_ _. True" "\<lambda>_ p. p" TransferAsset_Equal
  by (unfold_locales, rule TransferAsset_transfers)
    (auto simp: TransferAsset_Deserialize_def TransferAsset_Equal_def intro!: reader_intros)

section \<open>Record\<close>

record Record =
  rec_recordType :: string
  rec_recordData :: bytes

definition Record_new :: Record where
  "Record_new = \<lparr>rec_recordType = '''', rec_recordData = []\<rparr>"

definition Record_EstimateSize :: "u8 \<Rightarrow> Record \<Rightarrow> nat" where
  "Record_EstimateSize version p =
     WriteVarUint_count (word_of_nat (length (rec_recordType p))) + length (rec_recordType p) +
     WriteVarUint_count (word_of_nat (length (rec_recordData p))) + length (rec_recordData p)"

definition Record_Serialize :: "u8 \<Rightarrow> Record \<Rightarrow> writer" where
  "Record_Serialize version p =
     wseq [WriteVarString (rec_recordType p), WriteVarBytes (rec_recordData p)]"

definition Record_Deserialize :: "u8 \<Rightarrow> Record \<Rightarrow> Record reader" where
  "Record_Deserialize version o1 =
     rbind ReadVarString (\<lambda>recordType.
     rbind ReadVarBytes (\<lambda>recordData.
       rret (o1\<lparr>rec_recordType := recordType, rec_recordData := recordData\<rparr>)))"

definition Record_assign :: "Record \<Rightarrow> Record \<Rightarrow> Record" where
  "Record_assign this p =
     this\<lparr>rec_recordData := rec_recordData p, rec_recordType := rec_recordType p\<rparr>"

definition Record_Equal :: "u8 \<Rightarrow> Record \<Rightarrow> Record \<Rightarrow> bool" where
  "Record_Equal version this p \<longleftrightarrow>
     rec_recordData this = rec_recordData p \<and> rec_recordType this = rec_recordType p"

definition Record_fits :: "u8 \<Rightarrow> Record \<Rightarrow> bool" where
  "Record_fits version p \<longleftrightarrow> length (rec_recordType p) < 2 ^ 32"

lemma Record_transfers:
  assumes "Record_fits v p"
  shows "transfers (Record_Serialize v p) (Record_Deserialize v o1) p"
  unfolding Record_Serialize_def Record_Deserialize_def
  by (rule transfer_intros assms [unfolded Record_fits_def] | simp)+

interpretation record_payload: versioned_codec Record_Serialize
    "\<lambda>v. Record_Deserialize v Record_new" Record_fits "\<lambda>_ p. p" Record_Equal
  by (unfold_locales, erule Record_transfers)
    (auto simp: Record_Deserialize_def Record_Equal_def intro!: reader_intros)

lemma Record_size:
  assumes "Record_fits v p"
  shows "wsize (Record_Serialize v p) (Record_EstimateSize v p +
     varint_gap (word_of_nat (length (rec_recordType p))) +
     varint_gap (word_of_nat (length (rec_recordData p))))"
  unfolding Record_Serialize_def
  by (rule wsize_eq, (rule size_intros assms [unfolded Record_fits_def])+)
    (simp add: Record_EstimateSize_def)

section \<open>SideChainPow\<close>

record SideChainPow =
  pow_sideBlockHash :: uint256
  pow_sideGenesisHash :: uint256
  pow_blockHeight :: u32
  pow_signedData :: bytes

definition SideChainPow_new :: SideChainPow where
  "SideChainPow_new =
     \<lparr>pow_sideBlockHash = 0, pow_sideGenesisHash = 0, pow_blockHeight = 0, pow_signedData = []\<rparr>"

definition SideChainPow_EstimateSize :: "u8 \<Rightarrow> SideChainPow \<Rightarrow> nat" where
  "SideChainPow_EstimateSize version p =
     32 + 32 + 4 +
     WriteVarUint_count (word_of_nat (length (pow_signedData p))) + length (pow_signedData p)"

definition SideChainPow_Serialize :: "u8 \<Rightarrow> SideChainPow \<Rightarrow> writer" where
  "SideChainPow_Serialize version p =
     wseq [WriteUint256 (pow_sideBlockHash p), WriteUint256 (pow_sideGenesisHash p),
           WriteUint32 (pow_blockHeight p), WriteVarBytes (pow_signedData p)]"

definition SideChainPow_Deserialize :: "u8 \<Rightarrow> SideChainPow \<Rightarrow> SideChainPow reader" where
  "SideChainPow_Deserialize version o1 =
     rbind ReadUint256 (\<lambda>sideBlockHash.
     rbind ReadUint256 (\<lambda>sideGenesisHash.
     rbind ReadUint32 (\<lambda>blockHeight.
     rbind ReadVarBytes (\<lambda>signedData.
       rret (o1\<lparr>pow_sideBlockHash := sideBlockHash, pow_sideGenesisHash := sideGenesisHash,
               pow_blockHeight := blockHeight, pow_signedData := signedData\<rparr>)))))"

definition SideChainPow_assign :: "SideChainPow \<Rightarrow> SideChainPow \<Rightarrow> SideChainPow" where
  "SideChainPow_assign this p =
     this\<lparr>pow_sideBlockHash := pow_sideBlockHash p, pow_sideGenesisHash := pow_sideGenesisHash p,
          pow_blockHeight := pow_blockHeight p, pow_signedData := pow_signedData p\<rparr>"

definition SideChainPow_Equal :: "u8 \<Rightarrow> SideChainPow \<Rightarrow> SideChainPow \<Rightarrow> bool" where
  "SideChainPow_Equal version this p \<longleftrightarrow>
     pow_sideBlockHash this = pow_sideBlockHash p \<and>
     pow_sideGenesisHash this = pow_sideGenesisHash p \<and>
     pow_blockHeight this = pow_blockHeight p \<and> pow_signedData this = pow_signedData p"

lemma SideChainPow_transfers:
  "transfers (SideChainPow_Serialize v p) (SideChainPow_Deserialize v o1) p"
  unfolding SideChainPow_Serialize_def SideChainPow_Deserialize_def
  by (rule transfer_intros | simp)+

interpretation side_chain_pow: versioned_codec SideChainPow_Serialize
    "\<lambda>v. SideChainPow_Deserialize v SideChainPow_new" "\<lambda>_ _. True" "\<lambda>_ p. p" SideChainPow_Equal
  by (unfold_locales, rule SideChainPow_transfers)
    (auto simp: SideChainPow_Deserialize_def SideChainPow_Equal_def intro!: reader_intros)

lemma SideChainPow_size:
  "wsize (SideChainPow_Serialize v p)
     (SideChainPow_EstimateSize v p + varint_gap (word_of_nat (length (pow_signedData p))))"
  unfolding SideChainPow_Serialize_def
  by (rule wsize_eq, (rule size_intros)+) (simp add: SideChainPow_EstimateSize_def)

section \<open>RechargeToSideChain\<close>

definition RechargeToSideChain_V0 :: u8 where "RechargeToSideChain_V0 = 0x00"
definition RechargeToSideChain_V1 :: u8 where "RechargeToSideChain_V1 = 0x01"

record RechargeToSideChain =
  rech_merkeProof :: bytes
  rech_mainChainTransaction :: bytes
  rech_mainChainTxHash :: uint256

definition RechargeToSideChain_new :: RechargeToSideChain where
  "RechargeToSideChain_new =
     \<lparr>rech_merkeProof = [], rech_mainChainTransaction = [], rech_mainChainTxHash = 0\<rparr>"

definition RechargeToSideChain_EstimateSize :: "u8 \<Rightarrow> RechargeToSideChain \<Rightarrow> nat" where
  "RechargeToSideChain_EstimateSize version p =
     (if version = RechargeToSideChain_V0
      then WriteVarUint_count (word_of_nat (length (rech_merkeProof p))) + length (rech_merkeProof p) +
           WriteVarUint_count (word_of_nat (length (rech_mainChainTransaction p))) +
           length (rech_mainChainTransaction p)
      else if version = RechargeToSideChain_V1 then 32
      else 0)"

definition RechargeToSideChain_Serialize :: "u8 \<Rightarrow> RechargeToSideChain \<Rightarrow> writer" where
  "RechargeToSideChain_Serialize version p =
     (if version = RechargeToSideChain_V0
      then wseq [WriteVarBytes (rech_merkeProof p), WriteVarBytes (rech_mainChainTransaction p)]
      else if version = RechargeToSideChain_V1
      then wseq [WriteUint256 (rech_mainChainTxHash p)]
      else wseq [])"

definition RechargeToSideChain_Deserialize ::
    "u8 \<Rightarrow> RechargeToSideChain \<Rightarrow> RechargeToSideChain reader" where
  "RechargeToSideChain_Deserialize version o1 =
     (if version = RechargeToSideChain_V0
      then rbind ReadVarBytes (\<lambda>merkeProof.
           rbind ReadVarBytes (\<lambda>mainChainTransaction.
             rret (o1\<lparr>rech_merkeProof := merkeProof,
                     rech_mainChainTransaction := mainChainTransaction\<rparr>)))
      else if version = RechargeToSideChain_V1
      then rbind ReadUint256 (\<lambda>h. rret (o1\<lparr>rech_mainChainTxHash := h\<rparr>))
      else rfail)"

definition RechargeToSideChain_assign ::
    "RechargeToSideChain \<Rightarrow> RechargeToSideChain \<Rightarrow> RechargeToSideChain" where
  "RechargeToSideChain_assign this p =
     this\<lparr>rech_merkeProof := rech_merkeProof p,
          rech_mainChainTransaction := rech_mainChainTransaction p,
          rech_mainChainTxHash := rech_mainChainTxHash p\<rparr>"

definition RechargeToSideChain_Equal ::
    "u8 \<Rightarrow> RechargeToSideChain \<Rightarrow> RechargeToSideChain \<Rightarrow> bool" where
  "RechargeToSideChain_Equal version this p \<longleftrightarrow>
     (if version = RechargeToSideChain_V0
      then rech_merkeProof this = rech_merkeProof p \<and>
           rech_mainChainTransaction this = rech_mainChainTransaction p
      else if version = RechargeToSideChain_V1
      then rech_mainChainTxHash this = rech_mainChainTxHash p
      else False)"

text \<open>The fields of the other version come back as they were in the object read into.\<close>

definition RechargeToSideChain_canon ::
    "u8 \<Rightarrow> RechargeToSideChain \<Rightarrow> RechargeToSideChain \<Rightarrow> RechargeToSideChain" where
  "RechargeToSideChain_canon version o1 p =
     (if version = RechargeToSideChain_V0
      then p\<lparr>rech_mainChainTxHash := rech_mainChainTxHash o1\<rparr>
      else o1\<lparr>rech_mainChainTxHash := rech_mainChainTxHash p\<rparr>)"

lemma RechargeToSideChain_transfers:
  assumes "v = RechargeToSideChain_V0 \<or> v = RechargeToSideChain_V1"
  shows "transfers (RechargeToSideChain_Serialize v p) (RechargeToSideChain_Deserialize v o1)
           (RechargeToSideChain_canon v o1 p)"
proof (cases "v = RechargeToSideChain_V0")
  case True
  show ?thesis
    unfolding RechargeToSideChain_Serialize_def RechargeToSideChain_Deserialize_def
      RechargeToSideChain_canon_def if_P [OF True]
    by (rule transfer_intros | simp)+
next
  case False
  then have v: "v = RechargeToSideChain_V1" using assms by simp
  show ?thesis
    unfolding RechargeToSideChain_Serialize_def RechargeToSideChain_Deserialize_def
      RechargeToSideChain_canon_def if_not_P [OF False] if_P [OF v]
    by (rule transfer_intros | simp)+
qed

interpretation recharge: versioned_codec RechargeToSideChain_Serialize
    "\<lambda>v. RechargeToSideChain_Deserialize v RechargeToSideChain_new"
    "\<lambda>v _. v = RechargeToSideChain_V0 \<or> v = RechargeToSideChain_V1"
    "\<lambda>v. RechargeToSideChain_canon v RechargeToSideChain_new" RechargeToSideChain_Equal
  by (unfold_locales, erule RechargeToSideChain_transfers)
    (auto simp: RechargeToSideChain_Deserialize_def RechargeToSideChain_Equal_def
      RechargeToSideChain_canon_def intro!: reader_intros)

lemma RechargeToSideChain_size:
  "wsize (RechargeToSideChain_Serialize v p) (RechargeToSideChain_EstimateSize v p +
     (if v = RechargeToSideChain_V0
      then varint_gap (word_of_nat (length (rech_merkeProof p))) +
           varint_gap (word_of_nat (length (rech_mainChainTransaction p))) else 0))"
  unfolding RechargeToSideChain_Serialize_def
  by (rule wsize_eq, (rule size_intros)+) (simp add: RechargeToSideChain_EstimateSize_def)

section \<open>WithdrawFromSideChain\<close>

record WithdrawFromSideChain =
  wd_blockHeight :: u32
  wd_genesisBlockAddress :: string
  wd_sideChainTransactionHash :: "uint256 list"

definition WithdrawFromSideChain_new :: WithdrawFromSideChain where
  "WithdrawFromSideChain_new =
     \<lparr>wd_blockHeight = 0, wd_genesisBlockAddress = '''', wd_sideChainTransactionHash = []\<rparr>"

definition WithdrawFromSideChain_EstimateSize :: "u8 \<Rightarrow> WithdrawFromSideChain \<Rightarrow> nat" where
  "WithdrawFromSideChain_EstimateSize version p =
     4 + WriteVarUint_count (word_of_nat (length (wd_genesisBlockAddress p))) +
     length (wd_genesisBlockAddress p) +
     WriteVarUint_count (word_of_nat (length (wd_sideChainTransactionHash p))) +
     sum_list (map (\<lambda>_. 32) (wd_sideChainTransactionHash p))"

definition WithdrawFromSideChain_Serialize :: "u8 \<Rightarrow> WithdrawFromSideChain \<Rightarrow> writer" where
  "WithdrawFromSideChain_Serialize version p =
     wseq [WriteUint32 (wd_blockHeight p), WriteVarString (wd_genesisBlockAddress p),
           write_items WriteUint256 (wd_sideChainTransactionHash p)]"

definition WithdrawFromSideChain_Deserialize ::
    "u8 \<Rightarrow> WithdrawFromSideChain \<Rightarrow> WithdrawFromSideChain reader" where
  "WithdrawFromSideChain_Deserialize version o1 =
     rbind ReadUint32 (\<lambda>blockHeight.
     rbind ReadVarString (\<lambda>genesisBlockAddress.
     rbind (read_items ReadUint256) (\<lambda>hashes.
       rret (o1\<lparr>wd_blockHeight := blockHeight, wd_genesisBlockAddress := genesisBlockAddress,
               wd_sideChainTransactionHash := hashes\<rparr>))))"

definition WithdrawFromSideChain_assign ::
    "WithdrawFromSideChain \<Rightarrow> WithdrawFromSideChain \<Rightarrow> WithdrawFromSideChain" where
  "WithdrawFromSideChain_assign this p =
     this\<lparr>wd_blockHeight := wd_blockHeight p, wd_genesisBlockAddress := wd_genesisBlockAddress p,
          wd_sideChainTransactionHash := wd_sideChainTransactionHash p\<rparr>"

definition WithdrawFromSideChain_Equal ::
    "u8 \<Rightarrow> WithdrawFromSideChain \<Rightarrow> WithdrawFromSideChain \<Rightarrow> bool" where
  "WithdrawFromSideChain_Equal version this p \<longleftrightarrow>
     wd_blockHeight this = wd_blockHeight p \<and>
     wd_genesisBlockAddress this = wd_genesisBlockAddress p \<and>
     wd_sideChainTransactionHash this = wd_sideChainTransactionHash p"

definition WithdrawFromSideChain_fits :: "u8 \<Rightarrow> WithdrawFromSideChain \<Rightarrow> bool" where
  "WithdrawFromSideChain_fits version p \<longleftrightarrow> length (wd_genesisBlockAddress p) < 2 ^ 32"

lemma WithdrawFromSideChain_transfers:
  assumes "WithdrawFromSideChain_fits v p"
  shows "transfers (WithdrawFromSideChain_Serialize v p) (WithdrawFromSideChain_Deserialize v o1) p"
  unfolding WithdrawFromSideChain_Serialize_def WithdrawFromSideChain_Deserialize_def
  by (rule transfer_intros needs_intros assms [unfolded WithdrawFromSideChain_fits_def] | simp)+

interpretation withdraw: versioned_codec WithdrawFromSideChain_Serialize
    "\<lambda>v. WithdrawFromSideChain_Deserialize v WithdrawFromSideChain_new"
    WithdrawFromSideChain_fits "\<lambda>_ p. p" WithdrawFromSideChain_Equal
  by (unfold_locales, erule WithdrawFromSideChain_transfers)
    (auto simp: WithdrawFromSideChain_Deserialize_def WithdrawFromSideChain_Equal_def
      intro!: reader_intros)

lemma WithdrawFromSideChain_size:
  assumes "WithdrawFromSideChain_fits v p"
  shows "wsize (WithdrawFromSideChain_Serialize v p) (WithdrawFromSideChain_EstimateSize v p +
     varint_gap (word_of_nat (length (wd_genesisBlockAddress p))) +
     varint_gap (word_of_nat (length (wd_sideChainTransactionHash p))))"
  unfolding WithdrawFromSideChain_Serialize_def
  by (rule wsize_eq,
      (rule size_intros wsize_items assms [unfolded WithdrawFromSideChain_fits_def])+)
    (simp add: WithdrawFromSideChain_EstimateSize_def)

section \<open>TransferCrossChainAsset\<close>

text \<open>
  The output index has 16 bits and travels as a variable-length integer; reading casts it back.
  The amount is a big integer of which the low 64 bits of the magnitude travel.
\<close>

definition TransferCrossChainVersion :: u8 where "TransferCrossChainVersion = 0x00"
definition TransferCrossChainVersionV1 :: u8 where "TransferCrossChainVersionV1 = 0x01"

record TransferInfo =
  ti_crossChainAddress :: string
  ti_outputIndex :: u16
  ti_crossChainAmount :: BigInt

definition TransferInfo_eq :: "TransferInfo \<Rightarrow> TransferInfo \<Rightarrow> bool" where
  "TransferInfo_eq a b \<longleftrightarrow>
     ti_crossChainAddress a = ti_crossChainAddress b \<and> ti_outputIndex a = ti_outputIndex b \<and>
     ti_crossChainAmount a = ti_crossChainAmount b"

record TransferCrossChainAsset =
  tcc_info :: "TransferInfo list"

definition TransferCrossChainAsset_new :: TransferCrossChainAsset where
  "TransferCrossChainAsset_new = \<lparr>tcc_info = []\<rparr>"

text \<open>\<open>addressValid\<close> stands for \<open>Address(str).Valid()\<close>.\<close>

definition TransferCrossChainAsset_IsValid ::
    "(string \<Rightarrow> bool) \<Rightarrow> u8 \<Rightarrow> TransferCrossChainAsset \<Rightarrow> bool" where
  "TransferCrossChainAsset_IsValid addressValid version p \<longleftrightarrow>
     (if version = TransferCrossChainVersion
      then tcc_info p \<noteq> [] \<and>
           list_all (\<lambda>i. addressValid (ti_crossChainAddress i) \<and> ti_crossChainAmount i \<noteq> 0) (tcc_info p)
      else True)"

definition TransferInfo_EstimateSize :: "TransferInfo \<Rightarrow> nat" where
  "TransferInfo_EstimateSize i =
     WriteVarUint_count (word_of_nat (length (ti_crossChainAddress i))) +
     length (ti_crossChainAddress i) + WriteVarUint_count (ucast (ti_outputIndex i)) + 2"

definition TransferCrossChainAsset_EstimateSize :: "u8 \<Rightarrow> TransferCrossChainAsset \<Rightarrow> nat" where
  "TransferCrossChainAsset_EstimateSize version p =
     (if version = TransferCrossChainVersion
      then WriteVarUint_count (word_of_nat (length (tcc_info p))) +
           sum_list (map TransferInfo_EstimateSize (tcc_info p))
      else 0)"

definition TransferInfo_Serialize :: "TransferInfo \<Rightarrow> writer" where
  "TransferInfo_Serialize i =
     wseq [WriteVarString (ti_crossChainAddress i), WriteVarUint (ucast (ti_outputIndex i)),
           WriteUint64 (BigInt_getUint64 (ti_crossChainAmount i))]"

definition TransferCrossChainAsset_Serialize :: "u8 \<Rightarrow> TransferCrossChainAsset \<Rightarrow> writer" where
  "TransferCrossChainAsset_Serialize version p =
     (if version = TransferCrossChainVersion
      then write_items TransferInfo_Serialize (tcc_info p)
      else wseq [])"

definition TransferInfo_Deserialize :: "TransferInfo reader" where
  "TransferInfo_Deserialize =
     rbind ReadVarString (\<lambda>address.
     rbind ReadVarUint (\<lambda>index.
     rbind ReadUint64 (\<lambda>amount.
       rret \<lparr>ti_crossChainAddress = address, ti_outputIndex = ucast index,
             ti_crossChainAmount = BigInt_setUint64 amount\<rparr>)))"

definition TransferCrossChainAsset_Deserialize ::
    "u8 \<Rightarrow> TransferCrossChainAsset \<Rightarrow> TransferCrossChainAsset reader" where
  "TransferCrossChainAsset_Deserialize version o1 =
     (if version = TransferCrossChainVersion
      then rbind (read_items TransferInfo_Deserialize) (\<lambda>infos.
             rret (o1\<lparr>tcc_info := tcc_info o1 @ infos\<rparr>))
      else rret o1)"

definition TransferCrossChainAsset_Equal ::
    "u8 \<Rightarrow> TransferCrossChainAsset \<Rightarrow> TransferCrossChainAsset \<Rightarrow> bool" where
  "TransferCrossChainAsset_Equal version this p \<longleftrightarrow>
     (if version = TransferCrossChainVersion
      then list_all2 TransferInfo_eq (tcc_info this) (tcc_info p)
      else version = TransferCrossChainVersionV1)"

definition TransferInfo_fits :: "TransferInfo \<Rightarrow> bool" where
  "TransferInfo_fits i \<longleftrightarrow>
     length (ti_crossChainAddress i) < 2 ^ 32 \<and>
     0 \<le> ti_crossChainAmount i \<and> ti_crossChainAmount i < 2 ^ 64"

definition TransferCrossChainAsset_fits :: "u8 \<Rightarrow> TransferCrossChainAsset \<Rightarrow> bool" where
  "TransferCrossChainAsset_fits version p \<longleftrightarrow>
     (if version = TransferCrossChainVersion then \<forall>i \<in> set (tcc_info p). TransferInfo_fits i
      else version = TransferCrossChainVersionV1)"

lemma TransferInfo_eq_iff: "TransferInfo_eq a b \<longleftrightarrow> a = b"
  by (cases a, cases b) (simp add: TransferInfo_eq_def)

lemma ucast_u16_u64 [simp]: "ucast (ucast (w :: u16) :: u64) = w"
  using unat_bound [of w] by (simp add: word_unat_eq_iff unat_ucast)

lemma TransferInfo_transfers:
  assumes "TransferInfo_fits i"
  shows "transfers (TransferInfo_Serialize i) TransferInfo_Deserialize i"
proof -
  have l: "length (ti_crossChainAddress i) < 2 ^ 32"
    and a: "BigInt_setUint64 (BigInt_getUint64 (ti_crossChainAmount i)) = ti_crossChainAmount i"
    using assms by (simp_all add: TransferInfo_fits_def BigInt_set_getUint64)
  show ?thesis
    unfolding TransferInfo_Serialize_def TransferInfo_Deserialize_def
    by (rule transfer_intros l | simp add: a)+
qed

interpretation transfer_info: item_codec TransferInfo_Serialize TransferInfo_Deserialize
    TransferInfo_fits "\<lambda>i. i"
  by (unfold_locales, erule TransferInfo_transfers)
    (auto simp: TransferInfo_Deserialize_def intro!: reader_intros needs_intros)

text \<open>Reading appends to the infos the object already holds.\<close>

lemma TransferCrossChainAsset_transfers:
  assumes "TransferCrossChainAsset_fits v p"
  shows "transfers (TransferCrossChainAsset_Serialize v p) (TransferCrossChainAsset_Deserialize v o1)
    (if v = TransferCrossChainVersion then p\<lparr>tcc_info := tcc_info o1 @ tcc_info p\<rparr> else o1)"
proof (cases "v = TransferCrossChainVersion")
  case True
  then have "\<And>i. i \<in> set (tcc_info p) \<Longrightarrow> TransferInfo_fits i"
    using assms by (simp add: TransferCrossChainAsset_fits_def)
  note items = transfer_info.items_transfer [OF this]
  have "transfers (wseq [write_items TransferInfo_Serialize (tcc_info p)])
      (TransferCrossChainAsset_Deserialize v o1) (p\<lparr>tcc_info := tcc_info o1 @ tcc_info p\<rparr>)"
    unfolding TransferCrossChainAsset_Deserialize_def if_P [OF True]
    by (rule transfers_rbind items transfers_rret | assumption | simp)+
  then show ?thesis using True by (simp add: TransferCrossChainAsset_Serialize_def transfers_single)
next
  case False
  then show ?thesis
    by (simp add: TransferCrossChainAsset_Serialize_def TransferCrossChainAsset_Deserialize_def
        transfers_rret)
qed

interpretation transfer_cross_chain: versioned_codec TransferCrossChainAsset_Serialize
    "\<lambda>v. TransferCrossChainAsset_Deserialize v TransferCrossChainAsset_new"
    TransferCrossChainAsset_fits
    "\<lambda>v p. if v = TransferCrossChainVersion then p else TransferCrossChainAsset_new"
    TransferCrossChainAsset_Equal
proof unfold_locales
  fix v p
  assume p: "TransferCrossChainAsset_fits v p"
  show "transfers (TransferCrossChainAsset_Serialize v p)
      (TransferCrossChainAsset_Deserialize v TransferCrossChainAsset_new)
      (if v = TransferCrossChainVersion then p else TransferCrossChainAsset_new)"
    using TransferCrossChainAsset_transfers [OF p, of TransferCrossChainAsset_new]
    by (cases "v = TransferCrossChainVersion") (simp_all add: TransferCrossChainAsset_new_def)
  show "TransferCrossChainAsset_Equal v p
      (if v = TransferCrossChainVersion then p else TransferCrossChainAsset_new)"
    using p by (auto simp: TransferCrossChainAsset_Equal_def TransferCrossChainAsset_fits_def
        TransferInfo_eq_iff list_all2_refl)
qed (auto simp: TransferCrossChainAsset_Deserialize_def intro!: reader_intros transfer_info.local_des)

end
