(* ===== verification/DPoSPayloads.thy ===== *)
theory DPoSPayloads
  imports ChainPayloads
begin

text \<open>
  The payloads of the DPoS consensus, each from the file of its name under
  \<open>SDK/Plugin/Transaction/Payload/\<close>: \<open>ProducerInfo\<close> (register and update producer),
  \<open>CancelProducer\<close>, \<open>ReturnDepositCoin\<close> and \<open>NextTurnDPoSInfo\<close>.
\<close>

section \<open>ProducerInfo\<close>

text \<open>
  The unsigned part is what the owner signs; the signature follows it.
\<close>

record ProducerInfo =
  prod_ownerPublicKey :: bytes
  prod_nodePublicKey :: bytes
  prod_nickName :: string
  prod_url :: string
  prod_location :: u64
  prod_address :: string
  prod_signature :: bytes

definition ProducerInfo_new :: ProducerInfo where
  "ProducerInfo_new =
     \<lparr>prod_ownerPublicKey = [], prod_nodePublicKey = [], prod_nickName = '''',
      prod_url = '''', prod_location = 0, prod_address = '''', prod_signature = []\<rparr>"

definition ProducerInfo_EstimateSize :: "u8 \<Rightarrow> ProducerInfo \<Rightarrow> nat" where
  "ProducerInfo_EstimateSize version p =
     WriteVarUint_count (word_of_nat (length (prod_ownerPublicKey p))) +
     length (prod_ownerPublicKey p) +
     WriteVarUint_count (word_of_nat (length (prod_nodePublicKey p))) +
     length (prod_nodePublicKey p) +
     WriteVarUint_count (word_of_nat (length (prod_nickName p))) +
     length (prod_nickName p) + WriteVarUint_count (word_of_nat (length (prod_url p))) +
     length (prod_url p) + 8 + WriteVarUint_count (word_of_nat (length (prod_address p))) +
     length (prod_address p) +
     WriteVarUint_count (word_of_nat (length (prod_signature p))) +
     length (prod_signature p)"

definition ProducerInfo_SerializeUnsigned :: "u8 \<Rightarrow> ProducerInfo \<Rightarrow> writer" where
  "ProducerInfo_SerializeUnsigned version p =
     wseq [WriteVarBytes (prod_ownerPublicKey p), WriteVarBytes (prod_nodePublicKey p),
           WriteVarString (prod_nickName p), WriteVarString (prod_url p),
           WriteUint64 (prod_location p), WriteVarString (prod_address p)]"

definition ProducerInfo_DeserializeUnsigned ::
    "u8 \<Rightarrow> ProducerInfo \<Rightarrow> ProducerInfo reader" where
  "ProducerInfo_DeserializeUnsigned version o1 =
     rbind ReadVarBytes (\<lambda>ownerPublicKey.
     rbind ReadVarBytes (\<lambda>nodePublicKey.
     rbind ReadVarString (\<lambda>nickName.
     rbind ReadVarString (\<lambda>url.
     rbind ReadUint64 (\<lambda>location.
     rbind ReadVarString (\<lambda>address.
       rret (o1\<lparr>prod_ownerPublicKey := ownerPublicKey, prod_nodePublicKey := nodePublicKey,
               prod_nickName := nickName, prod_url := url, prod_location := location,
               prod_address := address\<rparr>)))))))"

definition ProducerInfo_Serialize :: "u8 \<Rightarrow> ProducerInfo \<Rightarrow> writer" where
  "ProducerInfo_Serialize version p =
     wseq [ProducerInfo_SerializeUnsigned version p, WriteVarBytes (prod_signature p)]"

definition ProducerInfo_Deserialize ::
    "u8 \<Rightarrow> ProducerInfo \<Rightarrow> ProducerInfo reader" where
  "ProducerInfo_Deserialize version o1 =
     rbind (ProducerInfo_DeserializeUnsigned version o1) (\<lambda>o2.
     rbind ReadVarBytes (\<lambda>signature.
       rret (o2\<lparr>prod_signature := signature\<rparr>)))"

definition ProducerInfo_assign :: "ProducerInfo \<Rightarrow> ProducerInfo \<Rightarrow> ProducerInfo" where
  "ProducerInfo_assign this p =
     this\<lparr>prod_ownerPublicKey := prod_ownerPublicKey p,
          prod_nodePublicKey := prod_nodePublicKey p, prod_nickName := prod_nickName p,
          prod_url := prod_url p, prod_location := prod_location p,
          prod_address := prod_address p, prod_signature := prod_signature p\<rparr>"

definition ProducerInfo_Equal :: "u8 \<Rightarrow> ProducerInfo \<Rightarrow> ProducerInfo \<Rightarrow> bool" where
  "ProducerInfo_Equal version this p \<longleftrightarrow>
     prod_ownerPublicKey this = prod_ownerPublicKey p \<and>
     prod_nodePublicKey this = prod_nodePublicKey p \<and>
     prod_nickName this = prod_nickName p \<and> prod_url this = prod_url p \<and>
     prod_location this = prod_location p \<and> prod_address this = prod_address p \<and>
     prod_signature this = prod_signature p"

definition ProducerInfo_fits :: "u8 \<Rightarrow> ProducerInfo \<Rightarrow> bool" where
  "ProducerInfo_fits version p \<longleftrightarrow>
     length (prod_nickName p) < 2 ^ 32 \<and> length (prod_url p) < 2 ^ 32 \<and>
     length (prod_address p) < 2 ^ 32"

lemma ProducerInfo_unsigned_transfers:
  assumes "ProducerInfo_fits v p"
  shows "transfers (ProducerInfo_SerializeUnsigned v p) (ProducerInfo_DeserializeUnsigned v o1) (p\<lparr>prod_signature := prod_signature o1\<rparr>)"
proof -
  have l: "length (prod_nickName p) < 2 ^ 32" "length (prod_url p) < 2 ^ 32" "length (prod_address p) < 2 ^ 32"
    using assms by (simp_all add: ProducerInfo_fits_def)
  show ?thesis
    unfolding ProducerInfo_SerializeUnsigned_def ProducerInfo_DeserializeUnsigned_def
      by (rule transfer_intros needs_intros l | simp)+
qed

lemma ProducerInfo_transfers:
  assumes "ProducerInfo_fits v p"
  shows "transfers (ProducerInfo_Serialize v p) (ProducerInfo_Deserialize v o1) (p)"
  unfolding ProducerInfo_Serialize_def ProducerInfo_Deserialize_def
  by (rule ProducerInfo_unsigned_transfers [OF assms] transfer_intros | simp)+

interpretation producer_info: versioned_codec ProducerInfo_Serialize
    "\<lambda>v. ProducerInfo_Deserialize v ProducerInfo_new" ProducerInfo_fits "\<lambda>_ p. p" ProducerInfo_Equal
  by (unfold_locales, erule ProducerInfo_transfers)
    (auto simp: ProducerInfo_Deserialize_def ProducerInfo_DeserializeUnsigned_def ProducerInfo_Equal_def intro!: reader_intros)

lemma ProducerInfo_size:
  assumes "ProducerInfo_fits v p"
  shows "wsize (ProducerInfo_Serialize v p)
    (ProducerInfo_EstimateSize v p +
     varint_gap (word_of_nat (length (prod_ownerPublicKey p))) +
     varint_gap (word_of_nat (length (prod_nodePublicKey p))) +
     varint_gap (word_of_nat (length (prod_nickName p))) +
     varint_gap (word_of_nat (length (prod_url p))) +
     varint_gap (word_of_nat (length (prod_address p))) +
     varint_gap (word_of_nat (length (prod_signature p))))"
proof -
  have l: "length (prod_nickName p) < 2 ^ 32" "length (prod_url p) < 2 ^ 32" "length (prod_address p) < 2 ^ 32"
    using assms by (simp_all add: ProducerInfo_fits_def)
  show ?thesis
    unfolding ProducerInfo_Serialize_def ProducerInfo_SerializeUnsigned_def
      by (rule wsize_eq, (rule size_intros l)+) (simp add: ProducerInfo_EstimateSize_def)
qed

section \<open>CancelProducer\<close>

record CancelProducer =
  cancelp_publicKey :: bytes
  cancelp_signature :: bytes

definition CancelProducer_new :: CancelProducer where
  "CancelProducer_new =
     \<lparr>cancelp_publicKey = [], cancelp_signature = []\<rparr>"

definition CancelProducer_EstimateSize :: "u8 \<Rightarrow> CancelProducer \<Rightarrow> nat" where
  "CancelProducer_EstimateSize version p =
     WriteVarUint_count (word_of_nat (length (cancelp_publicKey p))) +
     length (cancelp_publicKey p) +
     WriteVarUint_count (word_of_nat (length (cancelp_signature p))) +
     length (cancelp_signature p)"

definition CancelProducer_SerializeUnsigned :: "u8 \<Rightarrow> CancelProducer \<Rightarrow> writer" where
  "CancelProducer_SerializeUnsigned version p =
     wseq [WriteVarBytes (cancelp_publicKey p)]"

definition CancelProducer_DeserializeUnsigned ::
    "u8 \<Rightarrow> CancelProducer \<Rightarrow> CancelProducer reader" where
  "CancelProducer_DeserializeUnsigned version o1 =
     rbind ReadVarBytes (\<lambda>publicKey.
       rret (o1\<lparr>cancelp_publicKey := publicKey\<rparr>))"

definition CancelProducer_Serialize :: "u8 \<Rightarrow> CancelProducer \<Rightarrow> writer" where
  "CancelProducer_Serialize version p =
     wseq [CancelProducer_SerializeUnsigned version p, WriteVarBytes (cancelp_signature p)]"

definition CancelProducer_Deserialize ::
    "u8 \<Rightarrow> CancelProducer \<Rightarrow> CancelProducer reader" where
  "CancelProducer_Deserialize version o1 =
     rbind (CancelProducer_DeserializeUnsigned version o1) (\<lambda>o2.
     rbind ReadVarBytes (\<lambda>signature.
       rret (o2\<lparr>cancelp_signature := signature\<rparr>)))"

definition CancelProducer_assign :: "CancelProducer \<Rightarrow> CancelProducer \<Rightarrow> CancelProducer" where
  "CancelProducer_assign this p =
     this\<lparr>cancelp_publicKey := cancelp_publicKey p, cancelp_signature := cancelp_signature p\<rparr>"

definition CancelProducer_Equal :: "u8 \<Rightarrow> CancelProducer \<Rightarrow> CancelProducer \<Rightarrow> bool" where
  "CancelProducer_Equal version this p \<longleftrightarrow>
     cancelp_publicKey this = cancelp_publicKey p \<and>
     cancelp_signature this = cancelp_signature p"

lemma CancelProducer_unsigned_transfers:
  shows "transfers (CancelProducer_SerializeUnsigned v p) (CancelProducer_DeserializeUnsigned v o1) (p\<lparr>cancelp_signature := cancelp_signature o1\<rparr>)"
  unfolding CancelProducer_SerializeUnsigned_def CancelProducer_DeserializeUnsigned_def
    by (rule transfer_intros needs_intros | simp)+

lemma CancelProducer_transfers:
  shows "transfers (CancelProducer_Serialize v p) (CancelProducer_Deserialize v o1) (p)"
  unfolding CancelProducer_Serialize_def CancelProducer_Deserialize_def
  by (rule CancelProducer_unsigned_transfers transfer_intros | simp)+

interpretation cancel_producer: versioned_codec CancelProducer_Serialize
    "\<lambda>v. CancelProducer_Deserialize v CancelProducer_new" "\<lambda>_ _. True" "\<lambda>_ p. p" CancelProducer_Equal
  by (unfold_locales, rule CancelProducer_transfers)
    (auto simp: CancelProducer_Deserialize_def CancelProducer_DeserializeUnsigned_def CancelProducer_Equal_def intro!: reader_intros)

lemma CancelProducer_size:
  shows "wsize (CancelProducer_Serialize v p)
    (CancelProducer_EstimateSize v p +
     varint_gap (word_of_nat (length (cancelp_publicKey p))) +
     varint_gap (word_of_nat (length (cancelp_signature p))))"
  unfolding CancelProducer_Serialize_def CancelProducer_SerializeUnsigned_def
    by (rule wsize_eq, (rule size_intros)+) (simp add: CancelProducer_EstimateSize_def)

section \<open>ReturnDepositCoin\<close>

datatype ReturnDepositCoin = ReturnDepositCoin_new

definition ReturnDepositCoin_EstimateSize :: "u8 \<Rightarrow> ReturnDepositCoin \<Rightarrow> nat" where
  "ReturnDepositCoin_EstimateSize version p = 0"

definition ReturnDepositCoin_Serialize :: "u8 \<Rightarrow> ReturnDepositCoin \<Rightarrow> writer" where
  "ReturnDepositCoin_Serialize version p = wseq []"

definition ReturnDepositCoin_Deserialize ::
    "u8 \<Rightarrow> ReturnDepositCoin \<Rightarrow> ReturnDepositCoin reader" where
  "ReturnDepositCoin_Deserialize version o1 = rret o1"

definition ReturnDepositCoin_Equal :: "u8 \<Rightarrow> ReturnDepositCoin \<Rightarrow> ReturnDepositCoin \<Rightarrow> bool" where
  "ReturnDepositCoin_Equal version this p \<longleftrightarrow> True"

lemma ReturnDepositCoin_transfers:
  "transfers (ReturnDepositCoin_Serialize v p) (ReturnDepositCoin_Deserialize v o1) p"
  unfolding ReturnDepositCoin_Serialize_def ReturnDepositCoin_Deserialize_def
  by (rule transfers_rret) (cases o1; cases p; simp)

interpretation return_deposit: versioned_codec ReturnDepositCoin_Serialize
    "\<lambda>v. ReturnDepositCoin_Deserialize v ReturnDepositCoin_new" "\<lambda>_ _. True" "\<lambda>_ p. p"
    ReturnDepositCoin_Equal
  by (unfold_locales, rule ReturnDepositCoin_transfers)
    (auto simp: ReturnDepositCoin_Deserialize_def ReturnDepositCoin_Equal_def intro!: reader_intros)

section \<open>NextTurnDPoSInfo\<close>

text \<open>
  Reading appends to the key lists the object already holds.
\<close>

record NextTurnDPoSInfo =
  turn_workingHeight :: u32
  turn_crPublicKeys :: "bytes list"
  turn_dposPublicKeys :: "bytes list"

definition NextTurnDPoSInfo_new :: NextTurnDPoSInfo where
  "NextTurnDPoSInfo_new =
     \<lparr>turn_workingHeight = 0, turn_crPublicKeys = [], turn_dposPublicKeys = []\<rparr>"

definition NextTurnDPoSInfo_EstimateSize :: "u8 \<Rightarrow> NextTurnDPoSInfo \<Rightarrow> nat" where
  "NextTurnDPoSInfo_EstimateSize version p =
     4 + WriteVarUint_count (word_of_nat (length (turn_crPublicKeys p))) +
     sum_list (map bytes_EstimateSize (turn_crPublicKeys p)) +
     WriteVarUint_count (word_of_nat (length (turn_dposPublicKeys p))) +
     sum_list (map bytes_EstimateSize (turn_dposPublicKeys p))"

definition NextTurnDPoSInfo_Serialize :: "u8 \<Rightarrow> NextTurnDPoSInfo \<Rightarrow> writer" where
  "NextTurnDPoSInfo_Serialize version p =
     wseq [WriteUint32 (turn_workingHeight p),
           write_items WriteVarBytes (turn_crPublicKeys p),
           write_items WriteVarBytes (turn_dposPublicKeys p)]"

definition NextTurnDPoSInfo_Deserialize ::
    "u8 \<Rightarrow> NextTurnDPoSInfo \<Rightarrow> NextTurnDPoSInfo reader" where
  "NextTurnDPoSInfo_Deserialize version o1 =
     rbind ReadUint32 (\<lambda>workingHeight.
     rbind (read_items ReadVarBytes) (\<lambda>crPublicKeys.
     rbind (read_items ReadVarBytes) (\<lambda>dposPublicKeys.
       rret (o1\<lparr>turn_workingHeight := workingHeight,
               turn_crPublicKeys := turn_crPublicKeys o1 @ crPublicKeys,
               turn_dposPublicKeys := turn_dposPublicKeys o1 @ dposPublicKeys\<rparr>))))"

definition NextTurnDPoSInfo_assign :: "NextTurnDPoSInfo \<Rightarrow> NextTurnDPoSInfo \<Rightarrow> NextTurnDPoSInfo" where
  "NextTurnDPoSInfo_assign this p =
     this\<lparr>turn_workingHeight := turn_workingHeight p,
          turn_crPublicKeys := turn_crPublicKeys p,
          turn_dposPublicKeys := turn_dposPublicKeys p\<rparr>"

definition NextTurnDPoSInfo_Equal :: "u8 \<Rightarrow> NextTurnDPoSInfo \<Rightarrow> NextTurnDPoSInfo \<Rightarrow> bool" where
  "NextTurnDPoSInfo_Equal version this p \<longleftrightarrow>
     turn_workingHeight this = turn_workingHeight p \<and>
     turn_crPublicKeys this = turn_crPublicKeys p \<and>
     turn_dposPublicKeys this = turn_dposPublicKeys p"

lemma NextTurnDPoSInfo_transfers:
  shows "transfers (NextTurnDPoSInfo_Serialize v p) (NextTurnDPoSInfo_Deserialize v o1) (p\<lparr>turn_crPublicKeys := turn_crPublicKeys o1 @ turn_crPublicKeys p, turn_dposPublicKeys := turn_dposPublicKeys o1 @ turn_dposPublicKeys p\<rparr>)"
  unfolding NextTurnDPoSInfo_Serialize_def NextTurnDPoSInfo_Deserialize_def
    by (rule transfer_intros needs_intros | simp)+

interpretation next_turn: versioned_codec NextTurnDPoSInfo_Serialize
    "\<lambda>v. NextTurnDPoSInfo_Deserialize v NextTurnDPoSInfo_new" "\<lambda>_ _. True" "\<lambda>_ p. p" NextTurnDPoSInfo_Equal
  by (unfold_locales, use NextTurnDPoSInfo_transfers [where ?o1.0 = NextTurnDPoSInfo_new] in \<open>simp add: NextTurnDPoSInfo_new_def\<close>)
    (auto simp: NextTurnDPoSInfo_Deserialize_def NextTurnDPoSInfo_Equal_def intro!: reader_intros)

lemma NextTurnDPoSInfo_size:
  shows "wsize (NextTurnDPoSInfo_Serialize v p)
    (NextTurnDPoSInfo_EstimateSize v p +
     varint_gap (word_of_nat (length (turn_crPublicKeys p))) +
     sum_list (map bytes_gap (turn_crPublicKeys p)) +
     varint_gap (word_of_nat (length (turn_dposPublicKeys p))) +
     sum_list (map bytes_gap (turn_dposPublicKeys p)))"
  unfolding NextTurnDPoSInfo_Serialize_def
    by (rule wsize_eq, (rule size_intros wsize_items_bytes)+) (simp add: NextTurnDPoSInfo_EstimateSize_def)

end
