(* ===== verification/StakePayloads.thy ===== *)
theory StakePayloads
  imports ChainPayloads
begin

text \<open>
  The payloads of staking and of the second DPoS generation, each from the file of its name under
  \<open>SDK/Plugin/Transaction/Payload/\<close>: \<open>Stake\<close>, \<open>Unstake\<close>, \<open>UnstakeRealWithdraw\<close>, \<open>CancelVotes\<close>,
  \<open>DPoSV2ClaimReward\<close>, \<open>DPoSV2ClaimRewardRealWithdraw\<close> and \<open>Voting\<close>.  The SHA-256 of a digest is
  the parameter \<open>sha256\<close>.
\<close>

section \<open>Stake\<close>

datatype Stake = Stake_new

definition Stake_EstimateSize :: "u8 \<Rightarrow> Stake \<Rightarrow> nat" where
  "Stake_EstimateSize version p = 0"

definition Stake_Serialize :: "u8 \<Rightarrow> Stake \<Rightarrow> writer" where
  "Stake_Serialize version p = wseq []"

definition Stake_Deserialize :: "u8 \<Rightarrow> Stake \<Rightarrow> Stake reader" where
  "Stake_Deserialize version o1 = rret o1"

definition Stake_Equal :: "u8 \<Rightarrow> Stake \<Rightarrow> Stake \<Rightarrow> bool" where
  "Stake_Equal version this p \<longleftrightarrow> True"

lemma Stake_transfers: "transfers (Stake_Serialize v p) (Stake_Deserialize v o1) p"
  unfolding Stake_Serialize_def Stake_Deserialize_def
  by (rule transfers_rret) (cases o1; cases p; simp)

interpretation stake: versioned_codec Stake_Serialize
    "\<lambda>v. Stake_Deserialize v Stake_new" "\<lambda>_ _. True" "\<lambda>_ p. p" Stake_Equal
  by (unfold_locales, rule Stake_transfers)
    (auto simp: Stake_Deserialize_def Stake_Equal_def intro!: reader_intros)

section \<open>Unstake\<close>

record Unstake =
  unst_toAddr :: uint168
  unst_code :: bytes
  unst_value :: u64
  unst_signature :: bytes

definition Unstake_new :: Unstake where
  "Unstake_new =
     \<lparr>unst_toAddr = 0, unst_code = [], unst_value = 0, unst_signature = []\<rparr>"

definition Unstake_EstimateSize :: "u8 \<Rightarrow> Unstake \<Rightarrow> nat" where
  "Unstake_EstimateSize version p =
     21 + WriteVarUint_count (word_of_nat (length (unst_code p))) + length (unst_code p) +
     8 + WriteVarUint_count (word_of_nat (length (unst_signature p))) +
     length (unst_signature p)"

definition Unstake_SerializeUnsigned :: "u8 \<Rightarrow> Unstake \<Rightarrow> writer" where
  "Unstake_SerializeUnsigned version p =
     wseq [WriteUint168 (unst_toAddr p), WriteVarBytes (unst_code p),
           WriteUint64 (unst_value p)]"

definition Unstake_DeserializeUnsigned ::
    "u8 \<Rightarrow> Unstake \<Rightarrow> Unstake reader" where
  "Unstake_DeserializeUnsigned version o1 =
     rbind ReadUint168 (\<lambda>toAddr.
     rbind ReadVarBytes (\<lambda>code.
     rbind ReadUint64 (\<lambda>value.
       rret (o1\<lparr>unst_toAddr := toAddr, unst_code := code, unst_value := value\<rparr>))))"

definition Unstake_Serialize :: "u8 \<Rightarrow> Unstake \<Rightarrow> writer" where
  "Unstake_Serialize version p =
     wseq [Unstake_SerializeUnsigned version p, WriteVarBytes (unst_signature p)]"

definition Unstake_Deserialize ::
    "u8 \<Rightarrow> Unstake \<Rightarrow> Unstake reader" where
  "Unstake_Deserialize version o1 =
     rbind (Unstake_DeserializeUnsigned version o1) (\<lambda>o2.
     rbind ReadVarBytes (\<lambda>signature.
       rret (o2\<lparr>unst_signature := signature\<rparr>)))"

definition Unstake_assign :: "Unstake \<Rightarrow> Unstake \<Rightarrow> Unstake" where
  "Unstake_assign this p =
     this\<lparr>unst_toAddr := unst_toAddr p, unst_code := unst_code p,
          unst_value := unst_value p, unst_signature := unst_signature p\<rparr>"

definition Unstake_Equal :: "u8 \<Rightarrow> Unstake \<Rightarrow> Unstake \<Rightarrow> bool" where
  "Unstake_Equal version this p \<longleftrightarrow>
     unst_toAddr this = unst_toAddr p \<and> unst_code this = unst_code p \<and>
     unst_value this = unst_value p \<and> unst_signature this = unst_signature p"

lemma Unstake_unsigned_transfers:
  shows "transfers (Unstake_SerializeUnsigned v p) (Unstake_DeserializeUnsigned v o1) (p\<lparr>unst_signature := unst_signature o1\<rparr>)"
  unfolding Unstake_SerializeUnsigned_def Unstake_DeserializeUnsigned_def
    by (rule transfer_intros needs_intros | simp)+

lemma Unstake_transfers:
  shows "transfers (Unstake_Serialize v p) (Unstake_Deserialize v o1) (p)"
  unfolding Unstake_Serialize_def Unstake_Deserialize_def
  by (rule Unstake_unsigned_transfers transfer_intros | simp)+

interpretation unstake: versioned_codec Unstake_Serialize
    "\<lambda>v. Unstake_Deserialize v Unstake_new" "\<lambda>_ _. True" "\<lambda>_ p. p" Unstake_Equal
  by (unfold_locales, rule Unstake_transfers)
    (auto simp: Unstake_Deserialize_def Unstake_DeserializeUnsigned_def Unstake_Equal_def intro!: reader_intros)

lemma Unstake_size:
  shows "wsize (Unstake_Serialize v p)
    (Unstake_EstimateSize v p +
     varint_gap (word_of_nat (length (unst_code p))) +
     varint_gap (word_of_nat (length (unst_signature p))))"
  unfolding Unstake_Serialize_def Unstake_SerializeUnsigned_def
    by (rule wsize_eq, (rule size_intros)+) (simp add: Unstake_EstimateSize_def)

definition Unstake_DigestUnstake :: "(bytes \<Rightarrow> uint256) \<Rightarrow> u8 \<Rightarrow> Unstake \<Rightarrow> uint256 outcome" where
  "Unstake_DigestUnstake sha256 version p =
     obind (Unstake_SerializeUnsigned version p empty_stream) (\<lambda>s. Ret (sha256 (buf s)))"

text \<open>The digest does not cover the signature.\<close>

lemma Unstake_Digest_signature:
  "Unstake_DigestUnstake sha256 v (p\<lparr>unst_signature := s\<rparr>) = Unstake_DigestUnstake sha256 v p"
  by (simp add: Unstake_DigestUnstake_def Unstake_SerializeUnsigned_def)

section \<open>UnstakeRealWithdraw\<close>

record UnstakeRealWithdraw =
  usrw_retVotesTxHash :: uint256
  usrw_stakeAddress :: uint168
  usrw_value :: u64

definition UnstakeRealWithdraw_new :: UnstakeRealWithdraw where
  "UnstakeRealWithdraw_new =
     \<lparr>usrw_retVotesTxHash = 0, usrw_stakeAddress = 0, usrw_value = 0\<rparr>"

definition UnstakeRealWithdraw_EstimateSize :: "u8 \<Rightarrow> UnstakeRealWithdraw \<Rightarrow> nat" where
  "UnstakeRealWithdraw_EstimateSize version p =
     32 + 21 + 8"

definition UnstakeRealWithdraw_Serialize :: "u8 \<Rightarrow> UnstakeRealWithdraw \<Rightarrow> writer" where
  "UnstakeRealWithdraw_Serialize version p =
     wseq [WriteUint256 (usrw_retVotesTxHash p), WriteUint168 (usrw_stakeAddress p),
           WriteUint64 (usrw_value p)]"

definition UnstakeRealWithdraw_Deserialize ::
    "u8 \<Rightarrow> UnstakeRealWithdraw \<Rightarrow> UnstakeRealWithdraw reader" where
  "UnstakeRealWithdraw_Deserialize version o1 =
     rbind ReadUint256 (\<lambda>retVotesTxHash.
     rbind ReadUint168 (\<lambda>stakeAddress.
     rbind ReadUint64 (\<lambda>value.
       rret (o1\<lparr>usrw_retVotesTxHash := retVotesTxHash, usrw_stakeAddress := stakeAddress,
               usrw_value := value\<rparr>))))"

definition UnstakeRealWithdraw_assign :: "UnstakeRealWithdraw \<Rightarrow> UnstakeRealWithdraw \<Rightarrow> UnstakeRealWithdraw" where
  "UnstakeRealWithdraw_assign this p =
     this\<lparr>usrw_retVotesTxHash := usrw_retVotesTxHash p,
          usrw_stakeAddress := usrw_stakeAddress p, usrw_value := usrw_value p\<rparr>"

definition UnstakeRealWithdraw_Equal :: "u8 \<Rightarrow> UnstakeRealWithdraw \<Rightarrow> UnstakeRealWithdraw \<Rightarrow> bool" where
  "UnstakeRealWithdraw_Equal version this p \<longleftrightarrow>
     usrw_retVotesTxHash this = usrw_retVotesTxHash p \<and>
     usrw_stakeAddress this = usrw_stakeAddress p \<and> usrw_value this = usrw_value p"

lemma UnstakeRealWithdraw_transfers:
  shows "transfers (UnstakeRealWithdraw_Serialize v p) (UnstakeRealWithdraw_Deserialize v o1) (p)"
  unfolding UnstakeRealWithdraw_Serialize_def UnstakeRealWithdraw_Deserialize_def
    by (rule transfer_intros needs_intros | simp)+

interpretation unstake_real: versioned_codec UnstakeRealWithdraw_Serialize
    "\<lambda>v. UnstakeRealWithdraw_Deserialize v UnstakeRealWithdraw_new" "\<lambda>_ _. True" "\<lambda>_ p. p" UnstakeRealWithdraw_Equal
  by (unfold_locales, rule UnstakeRealWithdraw_transfers)
    (auto simp: UnstakeRealWithdraw_Deserialize_def UnstakeRealWithdraw_Equal_def intro!: reader_intros)

lemma UnstakeRealWithdraw_size:
  shows "wsize (UnstakeRealWithdraw_Serialize v p)
    (UnstakeRealWithdraw_EstimateSize v p)"
  unfolding UnstakeRealWithdraw_Serialize_def
    by (rule wsize_eq, (rule size_intros)+) (simp add: UnstakeRealWithdraw_EstimateSize_def)

section \<open>CancelVotes\<close>

record CancelVotes =
  cv_referKeys :: "uint256 list"

definition CancelVotes_new :: CancelVotes where
  "CancelVotes_new =
     \<lparr>cv_referKeys = []\<rparr>"

definition CancelVotes_EstimateSize :: "u8 \<Rightarrow> CancelVotes \<Rightarrow> nat" where
  "CancelVotes_EstimateSize version p =
     WriteVarUint_count (word_of_nat (length (cv_referKeys p))) +
     sum_list (map (\<lambda>_. 32) (cv_referKeys p))"

definition CancelVotes_Serialize :: "u8 \<Rightarrow> CancelVotes \<Rightarrow> writer" where
  "CancelVotes_Serialize version p =
     wseq [write_items WriteUint256 (cv_referKeys p)]"

definition CancelVotes_Deserialize ::
    "u8 \<Rightarrow> CancelVotes \<Rightarrow> CancelVotes reader" where
  "CancelVotes_Deserialize version o1 =
     rbind (read_items ReadUint256) (\<lambda>referKeys.
       rret (o1\<lparr>cv_referKeys := cv_referKeys o1 @ referKeys\<rparr>))"

definition CancelVotes_assign :: "CancelVotes \<Rightarrow> CancelVotes \<Rightarrow> CancelVotes" where
  "CancelVotes_assign this p =
     this\<lparr>cv_referKeys := cv_referKeys p\<rparr>"

definition CancelVotes_Equal :: "u8 \<Rightarrow> CancelVotes \<Rightarrow> CancelVotes \<Rightarrow> bool" where
  "CancelVotes_Equal version this p \<longleftrightarrow>
     cv_referKeys this = cv_referKeys p"

lemma CancelVotes_transfers:
  shows "transfers (CancelVotes_Serialize v p) (CancelVotes_Deserialize v o1) (p\<lparr>cv_referKeys := cv_referKeys o1 @ cv_referKeys p\<rparr>)"
  unfolding CancelVotes_Serialize_def CancelVotes_Deserialize_def
    by (rule transfer_intros needs_intros | simp)+

interpretation cancel_votes: versioned_codec CancelVotes_Serialize
    "\<lambda>v. CancelVotes_Deserialize v CancelVotes_new" "\<lambda>_ _. True" "\<lambda>_ p. p" CancelVotes_Equal
  by (unfold_locales, use CancelVotes_transfers [where ?o1.0 = CancelVotes_new] in \<open>simp add: CancelVotes_new_def\<close>)
    (auto simp: CancelVotes_Deserialize_def CancelVotes_Equal_def intro!: reader_intros)

lemma CancelVotes_size:
  shows "wsize (CancelVotes_Serialize v p)
    (CancelVotes_EstimateSize v p +
     varint_gap (word_of_nat (length (cv_referKeys p))))"
  unfolding CancelVotes_Serialize_def
    by (rule wsize_eq, (rule size_intros wsize_items)+) (simp add: CancelVotes_EstimateSize_def)

section \<open>DPoSV2ClaimReward\<close>

record DPoSV2ClaimReward =
  claim_amount :: u64
  claim_signature :: bytes

definition DPoSV2ClaimReward_new :: DPoSV2ClaimReward where
  "DPoSV2ClaimReward_new =
     \<lparr>claim_amount = 0, claim_signature = []\<rparr>"

definition DPoSV2ClaimReward_EstimateSize :: "u8 \<Rightarrow> DPoSV2ClaimReward \<Rightarrow> nat" where
  "DPoSV2ClaimReward_EstimateSize version p =
     8 + WriteVarUint_count (word_of_nat (length (claim_signature p))) +
     length (claim_signature p)"

definition DPoSV2ClaimReward_SerializeUnsigned :: "u8 \<Rightarrow> DPoSV2ClaimReward \<Rightarrow> writer" where
  "DPoSV2ClaimReward_SerializeUnsigned version p =
     wseq [WriteUint64 (claim_amount p)]"

definition DPoSV2ClaimReward_DeserializeUnsigned ::
    "u8 \<Rightarrow> DPoSV2ClaimReward \<Rightarrow> DPoSV2ClaimReward reader" where
  "DPoSV2ClaimReward_DeserializeUnsigned version o1 =
     rbind ReadUint64 (\<lambda>amount.
       rret (o1\<lparr>claim_amount := amount\<rparr>))"

definition DPoSV2ClaimReward_Serialize :: "u8 \<Rightarrow> DPoSV2ClaimReward \<Rightarrow> writer" where
  "DPoSV2ClaimReward_Serialize version p =
     wseq [DPoSV2ClaimReward_SerializeUnsigned version p, WriteVarBytes (claim_signature p)]"

definition DPoSV2ClaimReward_Deserialize ::
    "u8 \<Rightarrow> DPoSV2ClaimReward \<Rightarrow> DPoSV2ClaimReward reader" where
  "DPoSV2ClaimReward_Deserialize version o1 =
     rbind (DPoSV2ClaimReward_DeserializeUnsigned version o1) (\<lambda>o2.
     rbind ReadVarBytes (\<lambda>signature.
       rret (o2\<lparr>claim_signature := signature\<rparr>)))"

definition DPoSV2ClaimReward_assign :: "DPoSV2ClaimReward \<Rightarrow> DPoSV2ClaimReward \<Rightarrow> DPoSV2ClaimReward" where
  "DPoSV2ClaimReward_assign this p =
     this\<lparr>claim_amount := claim_amount p, claim_signature := claim_signature p\<rparr>"

definition DPoSV2ClaimReward_Equal :: "u8 \<Rightarrow> DPoSV2ClaimReward \<Rightarrow> DPoSV2ClaimReward \<Rightarrow> bool" where
  "DPoSV2ClaimReward_Equal version this p \<longleftrightarrow>
     claim_amount this = claim_amount p \<and> claim_signature this = claim_signature p"

lemma DPoSV2ClaimReward_unsigned_transfers:
  shows "transfers (DPoSV2ClaimReward_SerializeUnsigned v p) (DPoSV2ClaimReward_DeserializeUnsigned v o1) (p\<lparr>claim_signature := claim_signature o1\<rparr>)"
  unfolding DPoSV2ClaimReward_SerializeUnsigned_def DPoSV2ClaimReward_DeserializeUnsigned_def
    by (rule transfer_intros needs_intros | simp)+

lemma DPoSV2ClaimReward_transfers:
  shows "transfers (DPoSV2ClaimReward_Serialize v p) (DPoSV2ClaimReward_Deserialize v o1) (p)"
  unfolding DPoSV2ClaimReward_Serialize_def DPoSV2ClaimReward_Deserialize_def
  by (rule DPoSV2ClaimReward_unsigned_transfers transfer_intros | simp)+

interpretation claim_reward: versioned_codec DPoSV2ClaimReward_Serialize
    "\<lambda>v. DPoSV2ClaimReward_Deserialize v DPoSV2ClaimReward_new" "\<lambda>_ _. True" "\<lambda>_ p. p" DPoSV2ClaimReward_Equal
  by (unfold_locales, rule DPoSV2ClaimReward_transfers)
    (auto simp: DPoSV2ClaimReward_Deserialize_def DPoSV2ClaimReward_DeserializeUnsigned_def DPoSV2ClaimReward_Equal_def intro!: reader_intros)

lemma DPoSV2ClaimReward_size:
  shows "wsize (DPoSV2ClaimReward_Serialize v p)
    (DPoSV2ClaimReward_EstimateSize v p +
     varint_gap (word_of_nat (length (claim_signature p))))"
  unfolding DPoSV2ClaimReward_Serialize_def DPoSV2ClaimReward_SerializeUnsigned_def
    by (rule wsize_eq, (rule size_intros)+) (simp add: DPoSV2ClaimReward_EstimateSize_def)

definition DPoSV2ClaimReward_Digest ::
    "(bytes \<Rightarrow> uint256) \<Rightarrow> u8 \<Rightarrow> DPoSV2ClaimReward \<Rightarrow> uint256 outcome" where
  "DPoSV2ClaimReward_Digest sha256 version p =
     obind (DPoSV2ClaimReward_SerializeUnsigned version p empty_stream) (\<lambda>s. Ret (sha256 (buf s)))"

section \<open>DPoSV2ClaimRewardRealWithdraw\<close>

record DPoSV2ClaimRewardRealWithdraw =
  crw_withdrawTxHashes :: "uint256 list"

definition DPoSV2ClaimRewardRealWithdraw_new :: DPoSV2ClaimRewardRealWithdraw where
  "DPoSV2ClaimRewardRealWithdraw_new =
     \<lparr>crw_withdrawTxHashes = []\<rparr>"

definition DPoSV2ClaimRewardRealWithdraw_EstimateSize :: "u8 \<Rightarrow> DPoSV2ClaimRewardRealWithdraw \<Rightarrow> nat" where
  "DPoSV2ClaimRewardRealWithdraw_EstimateSize version p =
     WriteVarUint_count (word_of_nat (length (crw_withdrawTxHashes p))) +
     sum_list (map (\<lambda>_. 32) (crw_withdrawTxHashes p))"

definition DPoSV2ClaimRewardRealWithdraw_Serialize :: "u8 \<Rightarrow> DPoSV2ClaimRewardRealWithdraw \<Rightarrow> writer" where
  "DPoSV2ClaimRewardRealWithdraw_Serialize version p =
     wseq [write_items WriteUint256 (crw_withdrawTxHashes p)]"

definition DPoSV2ClaimRewardRealWithdraw_Deserialize ::
    "u8 \<Rightarrow> DPoSV2ClaimRewardRealWithdraw \<Rightarrow> DPoSV2ClaimRewardRealWithdraw reader" where
  "DPoSV2ClaimRewardRealWithdraw_Deserialize version o1 =
     rbind (read_items ReadUint256) (\<lambda>withdrawTxHashes.
       rret (o1\<lparr>crw_withdrawTxHashes := withdrawTxHashes\<rparr>))"

definition DPoSV2ClaimRewardRealWithdraw_assign :: "DPoSV2ClaimRewardRealWithdraw \<Rightarrow> DPoSV2ClaimRewardRealWithdraw \<Rightarrow> DPoSV2ClaimRewardRealWithdraw" where
  "DPoSV2ClaimRewardRealWithdraw_assign this p =
     this\<lparr>crw_withdrawTxHashes := crw_withdrawTxHashes p\<rparr>"

definition DPoSV2ClaimRewardRealWithdraw_Equal :: "u8 \<Rightarrow> DPoSV2ClaimRewardRealWithdraw \<Rightarrow> DPoSV2ClaimRewardRealWithdraw \<Rightarrow> bool" where
  "DPoSV2ClaimRewardRealWithdraw_Equal version this p \<longleftrightarrow>
     crw_withdrawTxHashes this = crw_withdrawTxHashes p"

lemma DPoSV2ClaimRewardRealWithdraw_transfers:
  shows "transfers (DPoSV2ClaimRewardRealWithdraw_Serialize v p) (DPoSV2ClaimRewardRealWithdraw_Deserialize v o1) (p)"
  unfolding DPoSV2ClaimRewardRealWithdraw_Serialize_def DPoSV2ClaimRewardRealWithdraw_Deserialize_def
    by (rule transfer_intros needs_intros | simp)+

interpretation claim_real: versioned_codec DPoSV2ClaimRewardRealWithdraw_Serialize
    "\<lambda>v. DPoSV2ClaimRewardRealWithdraw_Deserialize v DPoSV2ClaimRewardRealWithdraw_new" "\<lambda>_ _. True" "\<lambda>_ p. p" DPoSV2ClaimRewardRealWithdraw_Equal
  by (unfold_locales, rule DPoSV2ClaimRewardRealWithdraw_transfers)
    (auto simp: DPoSV2ClaimRewardRealWithdraw_Deserialize_def DPoSV2ClaimRewardRealWithdraw_Equal_def intro!: reader_intros)

lemma DPoSV2ClaimRewardRealWithdraw_size:
  shows "wsize (DPoSV2ClaimRewardRealWithdraw_Serialize v p)
    (DPoSV2ClaimRewardRealWithdraw_EstimateSize v p +
     varint_gap (word_of_nat (length (crw_withdrawTxHashes p))))"
  unfolding DPoSV2ClaimRewardRealWithdraw_Serialize_def
    by (rule wsize_eq, (rule size_intros wsize_items)+) (simp add: DPoSV2ClaimRewardRealWithdraw_EstimateSize_def)

section \<open>Voting\<close>

definition VoteVersion :: u8 where "VoteVersion = 0"
definition RenewalVoteVersion :: u8 where "RenewalVoteVersion = 1"

record VotesWithLockTime =
  vl_candidate :: bytes
  vl_votes :: u64
  vl_lockTime :: u32

definition VotesWithLockTime_new :: VotesWithLockTime where
  "VotesWithLockTime_new =
     \<lparr>vl_candidate = [], vl_votes = 0, vl_lockTime = 0\<rparr>"

definition VotesWithLockTime_EstimateSize :: "u8 \<Rightarrow> VotesWithLockTime \<Rightarrow> nat" where
  "VotesWithLockTime_EstimateSize version p =
     WriteVarUint_count (word_of_nat (length (vl_candidate p))) + length (vl_candidate p) +
     8 + 4"

definition VotesWithLockTime_Serialize :: "u8 \<Rightarrow> VotesWithLockTime \<Rightarrow> writer" where
  "VotesWithLockTime_Serialize version p =
     wseq [WriteVarBytes (vl_candidate p), WriteUint64 (vl_votes p),
           WriteUint32 (vl_lockTime p)]"

definition VotesWithLockTime_Deserialize ::
    "u8 \<Rightarrow> VotesWithLockTime \<Rightarrow> VotesWithLockTime reader" where
  "VotesWithLockTime_Deserialize version o1 =
     rbind ReadVarBytes (\<lambda>candidate.
     rbind ReadUint64 (\<lambda>votes.
     rbind ReadUint32 (\<lambda>lockTime.
       rret (o1\<lparr>vl_candidate := candidate, vl_votes := votes, vl_lockTime := lockTime\<rparr>))))"

definition VotesWithLockTime_Equal :: "u8 \<Rightarrow> VotesWithLockTime \<Rightarrow> VotesWithLockTime \<Rightarrow> bool" where
  "VotesWithLockTime_Equal version this p \<longleftrightarrow>
     vl_candidate this = vl_candidate p \<and> vl_votes this = vl_votes p \<and>
     vl_lockTime this = vl_lockTime p"

lemma VotesWithLockTime_transfers:
  shows "transfers (VotesWithLockTime_Serialize v p) (VotesWithLockTime_Deserialize v o1) (p)"
  unfolding VotesWithLockTime_Serialize_def VotesWithLockTime_Deserialize_def
    by (rule transfer_intros needs_intros | simp)+

interpretation votes_lock: versioned_codec VotesWithLockTime_Serialize
    "\<lambda>v. VotesWithLockTime_Deserialize v VotesWithLockTime_new" "\<lambda>_ _. True" "\<lambda>_ p. p" VotesWithLockTime_Equal
  by (unfold_locales, rule VotesWithLockTime_transfers)
    (auto simp: VotesWithLockTime_Deserialize_def VotesWithLockTime_Equal_def intro!: reader_intros)

lemma VotesWithLockTime_size:
  shows "wsize (VotesWithLockTime_Serialize v p)
    (VotesWithLockTime_EstimateSize v p +
     varint_gap (word_of_nat (length (vl_candidate p))))"
  unfolding VotesWithLockTime_Serialize_def
    by (rule wsize_eq, (rule size_intros)+) (simp add: VotesWithLockTime_EstimateSize_def)

record VotesContent =
  vc_voteType :: u8
  vc_votesInfo :: "VotesWithLockTime list"

definition VotesContent_new :: VotesContent where
  "VotesContent_new = \<lparr>vc_voteType = 0, vc_votesInfo = []\<rparr>"

definition VotesContent_EstimateSize :: "u8 \<Rightarrow> VotesContent \<Rightarrow> nat" where
  "VotesContent_EstimateSize version p =
     1 + WriteVarUint_count (word_of_nat (length (vc_votesInfo p))) +
     sum_list (map (VotesWithLockTime_EstimateSize version) (vc_votesInfo p))"

definition VotesContent_Serialize :: "u8 \<Rightarrow> VotesContent \<Rightarrow> writer" where
  "VotesContent_Serialize version p =
     wseq [WriteUint8 (vc_voteType p),
           write_items (VotesWithLockTime_Serialize version) (vc_votesInfo p)]"

definition VotesContent_Deserialize :: "u8 \<Rightarrow> VotesContent \<Rightarrow> VotesContent reader" where
  "VotesContent_Deserialize version o1 =
     rbind ReadUint8 (\<lambda>voteType.
     rbind (read_items (VotesWithLockTime_Deserialize version VotesWithLockTime_new)) (\<lambda>infos.
       rret (o1\<lparr>vc_voteType := voteType, vc_votesInfo := vc_votesInfo o1 @ infos\<rparr>)))"

definition VotesContent_Equal :: "u8 \<Rightarrow> VotesContent \<Rightarrow> VotesContent \<Rightarrow> bool" where
  "VotesContent_Equal version this vc \<longleftrightarrow>
     vc_voteType this = vc_voteType vc \<and>
     list_all2 (VotesWithLockTime_Equal version) (vc_votesInfo this) (vc_votesInfo vc)"

record RenewalVotesContent =
  rvc_referKey :: uint256
  rvc_voteInfo :: VotesWithLockTime

definition RenewalVotesContent_new :: RenewalVotesContent where
  "RenewalVotesContent_new = \<lparr>rvc_referKey = 0, rvc_voteInfo = VotesWithLockTime_new\<rparr>"

definition RenewalVotesContent_EstimateSize :: "u8 \<Rightarrow> RenewalVotesContent \<Rightarrow> nat" where
  "RenewalVotesContent_EstimateSize version p =
     32 + VotesWithLockTime_EstimateSize version (rvc_voteInfo p)"

definition RenewalVotesContent_Serialize :: "u8 \<Rightarrow> RenewalVotesContent \<Rightarrow> writer" where
  "RenewalVotesContent_Serialize version p =
     wseq [WriteUint256 (rvc_referKey p), VotesWithLockTime_Serialize version (rvc_voteInfo p)]"

definition RenewalVotesContent_Deserialize ::
    "u8 \<Rightarrow> RenewalVotesContent \<Rightarrow> RenewalVotesContent reader" where
  "RenewalVotesContent_Deserialize version o1 =
     rbind ReadUint256 (\<lambda>referKey.
     rbind (VotesWithLockTime_Deserialize version (rvc_voteInfo o1)) (\<lambda>voteInfo.
       rret (o1\<lparr>rvc_referKey := referKey, rvc_voteInfo := voteInfo\<rparr>)))"

definition RenewalVotesContent_Equal ::
    "u8 \<Rightarrow> RenewalVotesContent \<Rightarrow> RenewalVotesContent \<Rightarrow> bool" where
  "RenewalVotesContent_Equal version this rvc \<longleftrightarrow>
     rvc_referKey this = rvc_referKey rvc \<and>
     VotesWithLockTime_Equal version (rvc_voteInfo this) (rvc_voteInfo rvc)"

record Voting =
  voting_contents :: "VotesContent list"
  voting_renewal :: "RenewalVotesContent list"

definition Voting_new :: Voting where
  "Voting_new = \<lparr>voting_contents = [], voting_renewal = []\<rparr>"

definition Voting_EstimateSize :: "u8 \<Rightarrow> Voting \<Rightarrow> nat" where
  "Voting_EstimateSize version p =
     (if version = VoteVersion
      then WriteVarUint_count (word_of_nat (length (voting_contents p))) +
           sum_list (map (VotesContent_EstimateSize version) (voting_contents p))
      else if version = RenewalVoteVersion
      then WriteVarUint_count (word_of_nat (length (voting_renewal p))) +
           sum_list (map (RenewalVotesContent_EstimateSize version) (voting_renewal p))
      else 0)"

definition Voting_Serialize :: "u8 \<Rightarrow> Voting \<Rightarrow> writer" where
  "Voting_Serialize version p =
     (if version = VoteVersion
      then write_items (VotesContent_Serialize version) (voting_contents p)
      else if version = RenewalVoteVersion
      then write_items (RenewalVotesContent_Serialize version) (voting_renewal p)
      else wseq [])"

definition Voting_Deserialize :: "u8 \<Rightarrow> Voting \<Rightarrow> Voting reader" where
  "Voting_Deserialize version o1 =
     (if version = VoteVersion
      then rbind (read_items (VotesContent_Deserialize version VotesContent_new)) (\<lambda>vcs.
             rret (o1\<lparr>voting_contents := voting_contents o1 @ vcs\<rparr>))
      else if version = RenewalVoteVersion
      then rbind (read_items (RenewalVotesContent_Deserialize version RenewalVotesContent_new)) (\<lambda>rvcs.
             rret (o1\<lparr>voting_renewal := voting_renewal o1 @ rvcs\<rparr>))
      else rret o1)"

definition Voting_assign :: "Voting \<Rightarrow> Voting \<Rightarrow> Voting" where
  "Voting_assign this p =
     this\<lparr>voting_contents := voting_contents p, voting_renewal := voting_renewal p\<rparr>"

definition Voting_Equal :: "u8 \<Rightarrow> Voting \<Rightarrow> Voting \<Rightarrow> bool" where
  "Voting_Equal version this p \<longleftrightarrow>
     (if version = VoteVersion
      then list_all2 (VotesContent_Equal version) (voting_contents this) (voting_contents p)
      else if version = RenewalVoteVersion
      then list_all2 (RenewalVotesContent_Equal version) (voting_renewal this) (voting_renewal p)
      else True)"

text \<open>Each level is a codec of items, built on the level below.\<close>

interpretation votes_lock_item: item_codec "VotesWithLockTime_Serialize v"
    "VotesWithLockTime_Deserialize v VotesWithLockTime_new" "\<lambda>_. True" "\<lambda>p. p" for v
  by (unfold_locales, rule VotesWithLockTime_transfers)
    (auto simp: VotesWithLockTime_Deserialize_def intro!: reader_intros needs_intros)

lemma VotesContent_transfers:
  "transfers (VotesContent_Serialize v p) (VotesContent_Deserialize v VotesContent_new) p"
  unfolding VotesContent_Serialize_def VotesContent_Deserialize_def
  by (rule transfers_rbind [OF transfers_WriteUint8] transfers_rbind [OF transfers_items_id]
        votes_lock_item.needs VotesWithLockTime_transfers transfers_rret | simp add: VotesContent_new_def)+

interpretation votes_content_item: item_codec "VotesContent_Serialize v"
    "VotesContent_Deserialize v VotesContent_new" "\<lambda>_. True" "\<lambda>p. p" for v
  by (unfold_locales, rule VotesContent_transfers)
    (auto simp: VotesContent_Deserialize_def intro!: reader_intros needs_intros votes_lock.local_des)

lemma RenewalVotesContent_transfers:
  "transfers (RenewalVotesContent_Serialize v p) (RenewalVotesContent_Deserialize v o1) p"
  unfolding RenewalVotesContent_Serialize_def RenewalVotesContent_Deserialize_def
  by (rule transfer_intros VotesWithLockTime_transfers | simp)+

interpretation renewal_item: item_codec "RenewalVotesContent_Serialize v"
    "RenewalVotesContent_Deserialize v RenewalVotesContent_new" "\<lambda>_. True" "\<lambda>p. p" for v
  by (unfold_locales, rule RenewalVotesContent_transfers)
    (auto simp: RenewalVotesContent_Deserialize_def VotesWithLockTime_Deserialize_def
      intro!: reader_intros needs_intros)

text \<open>What a version writes comes back; the list of the other version does not travel.\<close>

definition Voting_canon :: "u8 \<Rightarrow> Voting \<Rightarrow> Voting" where
  "Voting_canon version p =
     (if version = VoteVersion then p\<lparr>voting_renewal := []\<rparr>
      else if version = RenewalVoteVersion then p\<lparr>voting_contents := []\<rparr> else Voting_new)"

lemma Voting_transfers:
  "transfers (Voting_Serialize v p) (Voting_Deserialize v Voting_new) (Voting_canon v p)"
proof -
  have c: "transfers (wseq [write_items (VotesContent_Serialize v) (voting_contents p)])
      (rbind (read_items (VotesContent_Deserialize v VotesContent_new)) (\<lambda>vcs.
         rret (Voting_new\<lparr>voting_contents := voting_contents Voting_new @ vcs\<rparr>)))
      (p\<lparr>voting_renewal := []\<rparr>)"
    by (rule transfers_rbind [OF transfers_items_id] transfers_rret votes_content_item.needs
          VotesContent_transfers | simp add: Voting_new_def)+
  have r: "transfers (wseq [write_items (RenewalVotesContent_Serialize v) (voting_renewal p)])
      (rbind (read_items (RenewalVotesContent_Deserialize v RenewalVotesContent_new)) (\<lambda>rvcs.
         rret (Voting_new\<lparr>voting_renewal := voting_renewal Voting_new @ rvcs\<rparr>)))
      (p\<lparr>voting_contents := []\<rparr>)"
    by (rule transfers_rbind [OF transfers_items_id] transfers_rret renewal_item.needs
          RenewalVotesContent_transfers | simp add: Voting_new_def)+
  show ?thesis
    unfolding Voting_Serialize_def Voting_Deserialize_def Voting_canon_def
    by (intro transfers_if c [unfolded transfers_single] r [unfolded transfers_single] transfers_rret refl)
qed

lemma VotesWithLockTime_Equal_iff: "VotesWithLockTime_Equal v a b \<longleftrightarrow> a = b"
  by (cases a, cases b) (simp add: VotesWithLockTime_Equal_def)

lemma VotesContent_Equal_iff: "VotesContent_Equal v a b \<longleftrightarrow> a = b"
proof -
  have "VotesWithLockTime_Equal v = (=)" by (intro ext) (rule VotesWithLockTime_Equal_iff)
  then show ?thesis by (cases a, cases b) (simp add: VotesContent_Equal_def list.rel_eq)
qed

lemma RenewalVotesContent_Equal_iff: "RenewalVotesContent_Equal v a b \<longleftrightarrow> a = b"
  by (cases a, cases b) (simp add: RenewalVotesContent_Equal_def VotesWithLockTime_Equal_iff)

interpretation voting: versioned_codec Voting_Serialize
    "\<lambda>v. Voting_Deserialize v Voting_new" "\<lambda>_ _. True" Voting_canon Voting_Equal
  by (unfold_locales, rule Voting_transfers)
    (auto simp: Voting_Deserialize_def Voting_Equal_def Voting_canon_def VotesContent_Equal_iff
      RenewalVotesContent_Equal_iff list_all2_refl
      intro!: reader_intros votes_content_item.local_des renewal_item.local_des)

end
