(* ===== verification/UcharVector.thy ===== *)
theory UcharVector
  imports SPV_Prelude "HOL-Library.Char_ord" "HOL-Library.List_Lexorder"
begin

text \<open>
  The byte vector of \<open>SDK/Common/uchar_vector.{h,cpp}\<close>: comparison, concatenation, padding, the
  hex text of a vector and back.  Vectors of \<open>2 ^ 32\<close> bytes and more, on which the 32-bit loop
  counters of the class do not stop, are outside the model.
\<close>

section \<open>Comparison, padding, reversal\<close>

text \<open>\<open>memcmp\<close> compares bytes as unsigned; a shorter vector is smaller than a longer one.\<close>

fun memcmp_less :: "bytes \<Rightarrow> bytes \<Rightarrow> bool" where
  "memcmp_less (a # as) (b # bs) = (if a = b then memcmp_less as bs else a < b)"
| "memcmp_less _ _ = False"

definition uchar_vector_less :: "bytes \<Rightarrow> bytes \<Rightarrow> bool" where
  "uchar_vector_less a b =
     (if length a < length b then True
      else if length a > length b then False
      else memcmp_less a b)"

definition uchar_vector_eq :: "bytes \<Rightarrow> bytes \<Rightarrow> bool" where
  "uchar_vector_eq a b \<longleftrightarrow> length a = length b \<and> list_all2 (=) a b"

definition padRight :: "u8 \<Rightarrow> nat \<Rightarrow> bytes \<Rightarrow> bytes" where
  "padRight pad total_length bs = bs @ replicate (total_length - length bs) pad"

definition padLeft :: "u8 \<Rightarrow> nat \<Rightarrow> bytes \<Rightarrow> bytes" where
  "padLeft pad total_length bs = rev (padRight pad total_length (rev bs))"

definition uchar_vector_isZero :: "bytes \<Rightarrow> bool" where
  "uchar_vector_isZero bs \<longleftrightarrow> list_all (\<lambda>b. b = 0) bs"

definition uchar_vector_clean :: "bytes \<Rightarrow> bytes" where
  "uchar_vector_clean bs = map (\<lambda>_. 0) bs"

definition getCharsAsString :: "bytes \<Rightarrow> string" where
  "getCharsAsString bs = map char_of_byte bs"

definition setCharsFromString :: "string \<Rightarrow> bytes" where
  "setCharsFromString s = map byte_of_char s"

lemma uchar_vector_eq_iff: "uchar_vector_eq a b \<longleftrightarrow> a = b"
  by (auto simp: uchar_vector_eq_def list.rel_eq)

lemma memcmp_less_irrefl: "\<not> memcmp_less a a"
  by (induction a) simp_all

lemma memcmp_less_trans:
  "length a = length b \<Longrightarrow> length b = length c \<Longrightarrow> memcmp_less a b \<Longrightarrow> memcmp_less b c \<Longrightarrow>
   memcmp_less a c"
proof (induction a arbitrary: b c)
  case Nil
  then show ?case by simp
next
  case (Cons x a)
  obtain y b' where b: "b = y # b'" using Cons.prems(1) by (cases b) simp_all
  obtain z c' where c: "c = z # c'" using Cons.prems(1,2) by (cases c) simp_all
  note bc = b c
  have IH: "memcmp_less a b' \<Longrightarrow> memcmp_less b' c' \<Longrightarrow> memcmp_less a c'"
    using Cons.IH [of b' c'] Cons.prems(1,2) by (simp add: bc)
  consider "x = y" "y = z" | "x = y" "y < z" | "x < y" "y = z" | "x < y" "y < z"
    using Cons.prems(3,4) by (simp add: bc split: if_splits)
  then show ?case
  proof cases
    case 1
    then show ?thesis using IH Cons.prems(3,4) by (simp add: bc)
  next
    case 4
    then have "x < z" by (rule less_trans)
    then show ?thesis by (simp add: bc order_less_imp_not_eq)
  qed (simp_all add: bc order_less_imp_not_eq)
qed

lemma memcmp_less_linear:
  "length a = length b \<Longrightarrow> memcmp_less a b \<or> a = b \<or> memcmp_less b a"
proof (induction a arbitrary: b)
  case Nil
  then show ?case by simp
next
  case (Cons x a)
  then obtain y b' where b: "b = y # b'" "length a = length b'" by (cases b) auto
  show ?case
  proof (cases "x = y")
    case True
    then show ?thesis using b Cons.IH [of b'] by auto
  next
    case False
    then show ?thesis using b less_linear [of x y] by auto
  qed
qed

text \<open>The order of the class is a strict linear order, as \<open>std::set\<close> and \<open>std::sort\<close> need.\<close>

lemma uchar_vector_less_irrefl: "\<not> uchar_vector_less a a"
  by (simp add: uchar_vector_less_def memcmp_less_irrefl)

lemma uchar_vector_less_trans:
  "uchar_vector_less a b \<Longrightarrow> uchar_vector_less b c \<Longrightarrow> uchar_vector_less a c"
  using memcmp_less_trans [of a b c] by (auto simp: uchar_vector_less_def split: if_splits)

lemma uchar_vector_less_linear: "uchar_vector_less a b \<or> a = b \<or> uchar_vector_less b a"
  using memcmp_less_linear [of a b] by (auto simp: uchar_vector_less_def)

lemma length_padRight: "length (padRight p n bs) = max n (length bs)"
  by (auto simp: padRight_def)

lemma padLeft_replicate: "padLeft p n bs = replicate (n - length bs) p @ bs"
  by (simp add: padLeft_def padRight_def)

lemma chars_round: "setCharsFromString (getCharsAsString bs) = bs"
  by (simp add: setCharsFromString_def getCharsAsString_def comp_def)

section \<open>Hex text\<close>

definition hex_digits :: string where
  "hex_digits = ''0123456789abcdef''"

definition hex_byte :: "u8 \<Rightarrow> string" where
  "hex_byte b = [hex_digits ! (unat b div 16), hex_digits ! (unat b mod 16)]"

fun getHex :: "bool \<Rightarrow> bytes \<Rightarrow> string" where
  "getHex spaceBytes [] = []"
| "getHex spaceBytes [b] = hex_byte b"
| "getHex spaceBytes (b # c # bs) =
     hex_byte b @ (if spaceBytes then '' '' else []) @ getHex spaceBytes (c # bs)"

abbreviation getHex0 :: "bytes \<Rightarrow> string" where
  "getHex0 \<equiv> getHex False"

text \<open>
  \<open>setHex\<close> scans two characters at a time with \<open>sscanf\<close> and \<open>%x\<close>: leading space or a sign is
  taken, a second character that is no digit ends the number, and where no number can be read the
  byte pushed is an uninitialised variable.  The prefix \<open>0x\<close> without digits is one of these.
\<close>

definition hex_value :: "char \<Rightarrow> nat option" where
  "hex_value c =
     (let n = of_char c :: nat in
      if 48 \<le> n \<and> n \<le> 57 then Some (n - 48)
      else if 97 \<le> n \<and> n \<le> 102 then Some (n - 87)
      else if 65 \<le> n \<and> n \<le> 70 then Some (n - 55)
      else None)"

definition is_space :: "char \<Rightarrow> bool" where
  "is_space c = (let n = of_char c :: nat in n = 32 \<or> (9 \<le> n \<and> n \<le> 13))"

definition scan_hex2 :: "char \<Rightarrow> char \<Rightarrow> u8 outcome" where
  "scan_hex2 c d =
     (case hex_value c of
        Some a \<Rightarrow>
          (case hex_value d of
             Some b \<Rightarrow> Ret (word_of_nat (16 * a + b))
           | None \<Rightarrow> if a = 0 \<and> (d = CHR ''x'' \<or> d = CHR ''X'') then Undef else Ret (word_of_nat a))
      | None \<Rightarrow>
          (case hex_value d of
             Some b \<Rightarrow>
               if is_space c \<or> c = CHR ''+'' then Ret (word_of_nat b)
               else if c = CHR ''-'' then Ret (- word_of_nat b)
               else Undef
           | None \<Rightarrow> Undef))"

fun scan_hex :: "string \<Rightarrow> bytes outcome" where
  "scan_hex (c # d # s) = obind (scan_hex2 c d) (\<lambda>b. obind (scan_hex s) (\<lambda>bs. Ret (b # bs)))"
| "scan_hex _ = Ret []"

definition setHex :: "string \<Rightarrow> bytes outcome" where
  "setHex hex = scan_hex (if length hex mod 2 = 1 then CHR ''0'' # hex else hex)"

lemma hex_value_digit: "i < 16 \<Longrightarrow> hex_value (hex_digits ! i) = Some i"
proof -
  have "\<forall>i \<in> {0..<16}. hex_value (hex_digits ! i) = Some i" by code_simp
  then show "i < 16 \<Longrightarrow> ?thesis" by simp
qed

lemma hex_digit_code:
  "i < 16 \<Longrightarrow> (of_char (hex_digits ! i) :: nat) = (if i < 10 then 48 + i else 87 + i)"
proof -
  have "\<forall>i \<in> {0..<16}. (of_char (hex_digits ! i) :: nat) = (if i < 10 then 48 + i else 87 + i)"
    by code_simp
  then show "i < 16 \<Longrightarrow> ?thesis" by simp
qed

lemma hex_digit_less:
  "i < 16 \<Longrightarrow> j < 16 \<Longrightarrow> hex_digits ! i < hex_digits ! j \<longleftrightarrow> i < j"
  by (simp add: less_char_def hex_digit_code)

lemma hex_digit_inject:
  assumes "i < 16" and "j < 16"
  shows "hex_digits ! i = hex_digits ! j \<longleftrightarrow> i = j"
  using hex_value_digit [OF assms(1)] hex_value_digit [OF assms(2)] by (metis option.inject)

lemma unat_div_16: "unat (b :: u8) div 16 < 16"
  using unat_u8_bound [of b] by (simp add: less_mult_imp_div_less)

lemma scan_hex_byte: "scan_hex2 (hex_digits ! (unat b div 16)) (hex_digits ! (unat b mod 16)) = Ret b"
proof -
  have "16 * (unat b div 16) + unat b mod 16 = unat b" by simp
  then have "(word_of_nat (16 * (unat b div 16) + unat b mod 16) :: u8) = b"
    by (simp only: of_nat_unat ucast_id)
  then show ?thesis
    by (simp add: scan_hex2_def hex_value_digit unat_div_16 del: of_nat_add of_nat_mult)
qed

lemma getHex0_concat: "getHex0 bs = concat (map hex_byte bs)"
  by (induction bs rule: getHex.induct [of "\<lambda>_ bs. getHex0 bs = concat (map hex_byte bs)"]) simp_all

lemma length_hex_byte [simp]: "length (hex_byte b) = 2"
  by (simp add: hex_byte_def)

lemma length_getHex0: "length (getHex0 bs) = 2 * length bs"
  unfolding getHex0_concat by (induction bs) simp_all

lemma scan_getHex0: "scan_hex (getHex0 bs) = Ret bs"
  unfolding getHex0_concat
  by (induction bs) (simp_all add: hex_byte_def scan_hex_byte)

lemma setHex_getHex: "setHex (getHex0 bs) = Ret bs"
  by (simp add: setHex_def length_getHex0 scan_getHex0)

lemma getHex0_inject: "getHex0 a = getHex0 b \<longleftrightarrow> a = b"
  using scan_getHex0 by (metis outcome.inject)

text \<open>
  The hex texts of two vectors compare as the vectors do byte by byte: what orders the public
  keys of a multi-signature script is the order of their bytes.
\<close>

lemma nat_less_digits:
  "x < y \<longleftrightarrow> x div 16 < y div 16 \<or> (x div 16 = y div 16 \<and> x mod 16 < (y mod 16 :: nat))"
proof -
  have "x = 16 * (x div 16) + x mod 16" "y = 16 * (y div 16) + y mod 16" by simp_all
  moreover have "x mod 16 < 16" "y mod 16 < 16" by simp_all
  ultimately show ?thesis by linarith
qed

lemma hex_byte_less:
  "hex_byte a @ s < hex_byte b @ t \<longleftrightarrow> a < b \<or> (a = b \<and> s < (t :: string))"
proof -
  have ab: "a < b \<longleftrightarrow> unat a div 16 < unat b div 16 \<or>
      (unat a div 16 = unat b div 16 \<and> unat a mod 16 < unat b mod 16)"
  proof -
    show ?thesis by (simp only: word_less_nat_alt) (rule nat_less_digits)
  qed
  have eq: "a = b \<longleftrightarrow> unat a div 16 = unat b div 16 \<and> unat a mod 16 = unat b mod 16"
    by (metis word_unat_eq_iff div_mult_mod_eq)
  have m: "unat a mod 16 < 16" "unat b mod 16 < 16" by simp_all
  show ?thesis
    unfolding ab eq
    by (simp add: hex_byte_def hex_digit_less [OF unat_div_16 unat_div_16] hex_digit_less [OF m]
        hex_digit_inject [OF unat_div_16 unat_div_16] hex_digit_inject [OF m]) blast
qed

lemma getHex0_less: "getHex0 a < getHex0 b \<longleftrightarrow> a < b"
proof (induction a arbitrary: b)
  case Nil
  show ?case
  proof (cases b)
    case (Cons y b')
    then show ?thesis by (simp add: getHex0_concat hex_byte_def)
  qed simp
next
  case (Cons x a)
  show ?case
  proof (cases b)
    case Nil
    then show ?thesis by (simp add: getHex0_concat)
  next
    case (Cons y b')
    then show ?thesis
      using Cons.IH [of b'] hex_byte_less [of x "getHex0 a" y "getHex0 b'"]
      by (simp add: getHex0_concat)
  qed
qed

end
