(* ===== verification/Base58.thy ===== *)
theory Base58
  imports BigIntM UcharVector
begin

text \<open>
  Base58 text of \<open>SDK/WalletCore/Base58.{h,cpp}\<close>: the long-division encoder over a byte buffer,
  the decoder through the big integer, and the checksummed forms.  The double SHA-256 is the
  parameter \<open>sha256_2\<close>; its 32 bytes are \<open>le_bytes 32\<close> of the value.
\<close>

definition pchars :: string where
  "pchars = ''123456789ABCDEFGHJKLMNPQRSTUVWXYZabcdefghijkmnopqrstuvwxyz''"

lemma length_pchars: "length pchars = 58"
  by code_simp

lemma distinct_pchars: "distinct pchars"
  by code_simp

section \<open>Operations\<close>

definition countLeading0s_bytes :: "bytes \<Rightarrow> nat" where
  "countLeading0s_bytes data = length (takeWhile (\<lambda>b. b = 0) data)"

definition countLeading0s_string :: "string \<Rightarrow> char \<Rightarrow> nat" where
  "countLeading0s_string str zeroSymbol = length (takeWhile (\<lambda>c. c = zeroSymbol) str)"

text \<open>
  One pass of the inner loop of \<open>Encode\<close> multiplies the buffer by 256 and adds a byte.  The loop
  runs from the last cell to the first, so the list here is the buffer from its last cell on; the
  carry stays far below \<open>2 ^ 32\<close> (\<open>Base58_carry_bound\<close>), so a natural number models it.
\<close>

fun Base58_carry :: "nat \<Rightarrow> nat list \<Rightarrow> nat list" where
  "Base58_carry carry [] = []"
| "Base58_carry carry (d # ds) =
     (carry + d * 256) mod 58 # Base58_carry ((carry + d * 256) div 58) ds"

definition Base58_buf_size :: "nat \<Rightarrow> nat" where
  "Base58_buf_size n = n * 138 div 100 + 1"

definition Base58_digits :: "bytes \<Rightarrow> nat list" where
  "Base58_digits bs =
     fold (\<lambda>b ds. Base58_carry (unat b) ds) bs (replicate (Base58_buf_size (length bs)) 0)"

definition Base58_Encode :: "bytes \<Rightarrow> string" where
  "Base58_Encode payload =
     (let zcount = countLeading0s_bytes payload;
          buf = rev (Base58_digits (drop zcount payload))
      in replicate zcount (pchars ! 0) @ map (\<lambda>d. pchars ! d) (dropWhile (\<lambda>d. d = 0) buf))"

definition Base58_Decode :: "string \<Rightarrow> bytes" where
  "Base58_Decode base58 = BigInt_getBytes (BigInt_setInBase base58 58 pchars) False"

definition checksum_of :: "(bytes \<Rightarrow> uint256) \<Rightarrow> bytes \<Rightarrow> bytes" where
  "checksum_of sha256_2 data = take 4 (le_bytes 32 (sha256_2 data))"

definition Base58_CheckEncode :: "(bytes \<Rightarrow> uint256) \<Rightarrow> bytes \<Rightarrow> bytes \<Rightarrow> string" where
  "Base58_CheckEncode sha256_2 payload version =
     (let data = version @ payload in Base58_Encode (data @ checksum_of sha256_2 data))"

text \<open>The overload with a version byte goes through the big integer.\<close>

definition Base58_CheckEncode_byte :: "(bytes \<Rightarrow> uint256) \<Rightarrow> bytes \<Rightarrow> u8 \<Rightarrow> string outcome" where
  "Base58_CheckEncode_byte sha256_2 payload version =
     (let body = version # payload; data = body @ checksum_of sha256_2 body in
      obind (BigInt_getInBase (BigInt_setBytes data False) 58 pchars) (\<lambda>base58check.
        Ret (replicate (countLeading0s_bytes data) (pchars ! 0) @ base58check)))"

text \<open>
  What the two forms of \<open>CheckDecode\<close> share: the bytes in front of the checksum with the leading
  zeros put back, if the checksum is right.
\<close>

definition Base58_checked :: "(bytes \<Rightarrow> uint256) \<Rightarrow> string \<Rightarrow> bytes option" where
  "Base58_checked sha256_2 base58check =
     (let bs = BigInt_getBytes (BigInt_setInBase base58check 58 pchars) False in
      if length bs < 4 then None
      else let checksum = drop (length bs - 4) bs;
               body = replicate (countLeading0s_string base58check (pchars ! 0)) 0 @
                      take (length bs - 4) bs
           in if checksum_of sha256_2 body \<noteq> checksum then None else Some body)"

definition Base58_CheckDecode :: "(bytes \<Rightarrow> uint256) \<Rightarrow> string \<Rightarrow> bytes option" where
  "Base58_CheckDecode sha256_2 base58check = Base58_checked sha256_2 base58check"

definition Base58_CheckDecode_version ::
    "(bytes \<Rightarrow> uint256) \<Rightarrow> string \<Rightarrow> (bytes \<times> u8) option outcome" where
  "Base58_CheckDecode_version sha256_2 base58check =
     (case Base58_checked sha256_2 base58check of
        None \<Rightarrow> Ret None
      | Some [] \<Rightarrow> Undef
      | Some (v # payload) \<Rightarrow> Ret (Some (payload, v)))"

text \<open>\<open>Valid\<close> takes the last four bytes without looking how many there are.\<close>

definition Base58_Valid :: "(bytes \<Rightarrow> uint256) \<Rightarrow> string \<Rightarrow> bool outcome" where
  "Base58_Valid sha256_2 base58check =
     (if length (BigInt_getBytes (BigInt_setInBase base58check 58 pchars) False) < 4 then Undef
      else Ret (Base58_checked sha256_2 base58check \<noteq> None))"

section \<open>The buffer of the encoder\<close>

primrec val58 :: "nat list \<Rightarrow> nat" where
  "val58 [] = 0"
| "val58 (d # ds) = d + 58 * val58 ds"

abbreviation be_value :: "bytes \<Rightarrow> nat" where
  "be_value bs \<equiv> nat_of_le (rev bs)"

lemma length_Base58_carry [simp]: "length (Base58_carry c ds) = length ds"
  by (induction c ds rule: Base58_carry.induct) simp_all

lemma Base58_carry_digits: "d \<in> set (Base58_carry c ds) \<Longrightarrow> d < 58"
  by (induction c ds rule: Base58_carry.induct) auto

lemma Base58_carry_bound:
  fixes c d :: nat
  assumes "c < 256" and "d < 58"
  shows "c + d * 256 < 58 * 256 \<and> (c + d * 256) div 58 < 256"
proof -
  have "c + d * 256 < 58 * 256" using assms by simp
  then show ?thesis by (simp add: less_mult_imp_div_less)
qed

lemma val58_carry: "val58 (Base58_carry c ds) = (c + 256 * val58 ds) mod 58 ^ length ds"
proof (induction c ds rule: Base58_carry.induct)
  case (1 c)
  then show ?case by simp
next
  case (2 c d ds)
  define x where "x = c + d * 256"
  have divmod: "(x + 58 * (256 * val58 ds)) div 58 = x div 58 + 256 * val58 ds"
    "(x + 58 * (256 * val58 ds)) mod 58 = x mod 58"
    by (simp, rule mod_mult_self2)
  have "val58 (Base58_carry c (d # ds)) = x mod 58 + 58 * ((x div 58 + 256 * val58 ds) mod 58 ^ length ds)"
    using 2 by (simp add: x_def)
  also have "\<dots> = (x + 58 * (256 * val58 ds)) mod (58 * 58 ^ length ds)"
    by (simp only: mod_mult2_eq divmod add.commute)
  also have "x + 58 * (256 * val58 ds) = c + 256 * val58 (d # ds)" by (simp add: x_def)
  finally show ?case by simp
qed

abbreviation Base58_run :: "bytes \<Rightarrow> nat list \<Rightarrow> nat list" where
  "Base58_run bs ds \<equiv> fold (\<lambda>b ds. Base58_carry (unat b) ds) bs ds"

lemma length_Base58_run: "length (Base58_run bs ds) = length ds"
  by (induction bs arbitrary: ds) simp_all

lemma Base58_run_digits: "\<forall>d \<in> set ds. d < 58 \<Longrightarrow> \<forall>d \<in> set (Base58_run bs ds). d < 58"
proof (induction bs arbitrary: ds)
  case (Cons b bs)
  have "\<forall>d \<in> set (Base58_carry (unat b) ds). d < 58" using Base58_carry_digits by blast
  then show ?case using Cons.IH by simp
qed simp

lemma val58_run:
  "val58 (Base58_run bs ds) mod 58 ^ length ds =
     (val58 ds * 256 ^ length bs + be_value bs) mod 58 ^ length ds"
proof (induction bs arbitrary: ds)
  case Nil
  then show ?case by simp
next
  case (Cons b bs)
  let ?ds = "Base58_carry (unat b) ds" and ?M = "58 ^ length ds :: nat"
  have v: "be_value (b # bs) = unat b * 256 ^ length bs + be_value bs"
    by (simp add: nat_of_le_append)
  have "val58 (Base58_run (b # bs) ds) mod ?M = (val58 ?ds * 256 ^ length bs + be_value bs) mod ?M"
    using Cons.IH [of ?ds] by simp
  also have "\<dots> = ((unat b + 256 * val58 ds) * 256 ^ length bs + be_value bs) mod ?M"
    unfolding val58_carry by (metis mod_add_left_eq mod_mult_left_eq)
  also have "(unat b + 256 * val58 ds) * 256 ^ length bs + be_value bs =
      val58 ds * 256 ^ length (b # bs) + be_value (b # bs)"
    by (simp only: v) (simp add: algebra_simps)
  finally show ?case .
qed

lemma val58_bound: "\<forall>d \<in> set ds. d < 58 \<Longrightarrow> val58 ds < 58 ^ length ds"
proof (induction ds)
  case Nil
  then show ?case by simp
next
  case (Cons d ds)
  then have "val58 ds + 1 \<le> 58 ^ length ds" by simp
  then have "58 * (val58 ds + 1) \<le> 58 * 58 ^ length ds" by (rule mult_le_mono2)
  then show ?case using Cons.prems by simp
qed

lemma val58_replicate_0 [simp]: "val58 (replicate n 0) = 0"
  by (induction n) simp_all

text \<open>
  The buffer has room: \<open>138/100\<close> is above \<open>log 256 / log 58\<close>, and rounding is made good by the
  extra cell.
\<close>

lemma Base58_room: "256 ^ n < (58 :: nat) ^ Base58_buf_size n"
proof -
  define m where "m = Base58_buf_size n"
  have "a < 100 * (a div 100 + 1)" for a :: nat by presburger
  from this [of "n * 138"]
  have "n * 138 < 100 * m" by (simp only: m_def Base58_buf_size_def)
  have "(256 :: nat) ^ 100 \<le> 58 ^ 138" by simp
  then have "((256 :: nat) ^ 100) ^ n \<le> (58 ^ 138) ^ n" by (rule power_mono) simp
  also have "(58 :: nat) ^ (138 * n) < 58 ^ (100 * m)"
    using \<open>n * 138 < 100 * m\<close> by (intro power_strict_increasing) (simp_all add: mult.commute)
  then have "((58 :: nat) ^ 138) ^ n < (58 ^ m) ^ 100"
    by (simp only: power_mult [symmetric] mult.commute)
  finally have "((256 :: nat) ^ n) ^ 100 < (58 ^ m) ^ 100"
    by (simp only: power_mult [symmetric] mult.commute)
  then show ?thesis unfolding m_def by (rule power_less_imp_less_base) simp
qed

lemma be_value_bound: "be_value bs < 256 ^ length bs"
  using nat_of_le_bound [of "rev bs"] by simp

lemma Base58_digits_less: "d \<in> set (Base58_digits bs) \<Longrightarrow> d < 58"
proof -
  have "\<forall>d \<in> set (replicate (Base58_buf_size (length bs)) 0 :: nat list). d < 58" by simp
  then have "\<forall>d \<in> set (Base58_digits bs). d < 58"
    unfolding Base58_digits_def by (rule Base58_run_digits)
  then show "d \<in> set (Base58_digits bs) \<Longrightarrow> d < 58" by blast
qed

lemma Base58_digits_value: "val58 (Base58_digits bs) = be_value bs"
proof -
  let ?M = "58 ^ Base58_buf_size (length bs) :: nat"
  have len: "length (Base58_digits bs) = Base58_buf_size (length bs)"
    by (simp add: Base58_digits_def length_Base58_run)
  have "val58 (Base58_digits bs) < ?M"
    using val58_bound [of "Base58_digits bs"] Base58_digits_less by (simp add: len)
  moreover have "be_value bs < ?M"
    using be_value_bound [of bs] Base58_room [of "length bs"] by simp
  ultimately show ?thesis
    using val58_run [of bs "replicate (Base58_buf_size (length bs)) 0"]
    by (simp add: Base58_digits_def)
qed

section \<open>Decoding what was encoded\<close>

lemma setInBase_digit:
  "d < 58 \<Longrightarrow> setInBase_step 58 pchars (pchars ! d) n = n * 58 + int d"
  using strchr_nth [OF distinct_pchars, of d] by (simp add: setInBase_step_def length_pchars)

lemma fold_setInBase_map:
  assumes "\<forall>d \<in> set ds. d < 58"
  shows "fold (setInBase_step 58 pchars) (map (\<lambda>d. pchars ! d) ds) n =
    n * 58 ^ length ds + int (val58 (rev ds))"
  using assms
proof (induction ds arbitrary: n)
  case Nil
  then show ?case by simp
next
  case (Cons d ds)
  have app: "val58 (xs @ [y]) = val58 xs + 58 ^ length xs * y" for xs y
    by (induction xs) (simp_all add: algebra_simps)
  show ?case using Cons by (simp add: setInBase_digit app algebra_simps)
qed

lemma val58_dropWhile: "val58 (rev (dropWhile (\<lambda>d. d = 0) ds)) = val58 (rev ds)"
proof (induction ds)
  case Nil
  then show ?case by simp
next
  case (Cons d ds)
  have "val58 (xs @ [0]) = val58 xs" for xs by (induction xs) simp_all
  then show ?case using Cons by simp
qed

lemma fold_setInBase_funpow:
  "(setInBase_step 58 pchars (pchars ! 0) ^^ k) 0 = 0"
  by (induction k) (simp_all add: setInBase_digit)

lemma drop_takeWhile: "drop (length (takeWhile P xs)) xs = dropWhile P xs"
  by (induction xs) simp_all

lemma be_value_dropWhile: "be_value (dropWhile (\<lambda>b. b = 0) bs) = be_value bs"
  by (induction bs) (simp_all add: nat_of_le_append)

text \<open>The number a Base58 text stands for is the number the bytes stand for.\<close>

lemma setInBase_Encode: "BigInt_setInBase (Base58_Encode p) 58 pchars = int (be_value p)"
proof -
  let ?p = "dropWhile (\<lambda>b. b = 0) p"
  have "\<forall>d \<in> set (dropWhile (\<lambda>d. d = 0) (rev (Base58_digits ?p))). d < 58"
    using Base58_digits_less by (auto dest: set_dropWhileD)
  then have "BigInt_setInBase (Base58_Encode p) 58 pchars = int (val58 (Base58_digits ?p))"
    by (simp add: BigInt_setInBase_def Base58_Encode_def Let_def countLeading0s_bytes_def
        drop_takeWhile fold_replicate fold_setInBase_funpow fold_setInBase_map val58_dropWhile)
  then show ?thesis by (simp add: Base58_digits_value be_value_dropWhile)
qed

lemma getBytes_be_value:
  "BigInt_getBytes (int (be_value p)) False = dropWhile (\<lambda>b. b = 0) p"
proof -
  let ?p = "dropWhile (\<lambda>b. b = 0) p"
  have "le_min (be_value ?p) = rev ?p"
  proof (rule le_min_nat_of_le)
    assume "rev ?p \<noteq> []"
    then show "last (rev ?p) \<noteq> 0" using hd_dropWhile [of "\<lambda>b. b = 0" p] by (simp add: last_rev)
  qed
  then show ?thesis
    by (simp add: BigInt_getBytes_def Let_def be_value_dropWhile)
qed

lemma Base58_Decode_Encode: "Base58_Decode (Base58_Encode p) = dropWhile (\<lambda>b. b = 0) p"
  by (simp add: Base58_Decode_def setInBase_Encode getBytes_be_value)

lemma countLeading0s_Encode:
  "countLeading0s_string (Base58_Encode p) (pchars ! 0) = countLeading0s_bytes p"
proof -
  let ?z = "countLeading0s_bytes p"
  let ?ds = "dropWhile (\<lambda>d. d = 0) (rev (Base58_digits (drop ?z p)))"
  have "takeWhile (\<lambda>c. c = pchars ! 0) (map (\<lambda>d. pchars ! d) ?ds) = []"
  proof (cases ?ds)
    case (Cons d ds)
    then have "d \<noteq> 0" using hd_dropWhile [of "\<lambda>d. d = 0" "rev (Base58_digits (drop ?z p))"] by auto
    moreover have "d < 58"
      using Base58_digits_less [of d "drop ?z p"] set_dropWhileD [of d "\<lambda>d. d = 0" "rev (Base58_digits (drop ?z p))"] Cons
      by auto
    ultimately have "pchars ! d \<noteq> pchars ! 0"
      using nth_eq_iff_index_eq [OF distinct_pchars, of d 0] by (simp add: length_pchars)
    then show ?thesis by (simp add: Cons)
  next
    case Nil
    then show ?thesis by (simp only: Nil list.map takeWhile.simps)
  qed
  moreover have "takeWhile (\<lambda>c. c = pchars ! 0) (replicate ?z (pchars ! 0) @ ys) =
      replicate ?z (pchars ! 0) @ takeWhile (\<lambda>c. c = pchars ! 0) ys" for ys
    by (rule takeWhile_append2) simp
  ultimately show ?thesis
    by (simp only: countLeading0s_string_def Base58_Encode_def Let_def length_append
        length_replicate list.size add_0_right)
qed

lemma length_checksum_of [simp]: "length (checksum_of sha256_2 data) = 4"
  by (simp add: checksum_of_def)

text \<open>
  A checksummed text decodes to its payload, unless the payload is all zeros and the checksum
  begins with a zero too: those zeros are then counted to the payload.
\<close>

lemma Base58_checked_Encode:
  assumes "(\<exists>b \<in> set data. b \<noteq> 0) \<or> hd (checksum_of sha256_2 data) \<noteq> 0"
  shows "Base58_checked sha256_2 (Base58_Encode (data @ checksum_of sha256_2 data)) = Some data"
proof -
  let ?c = "checksum_of sha256_2 data"
  have c: "?c \<noteq> []" using length_checksum_of [of sha256_2 data] by (metis list.size(3) zero_neq_numeral)
  have dw: "dropWhile (\<lambda>b. b = 0) (data @ ?c) = dropWhile (\<lambda>b. b = 0) data @ ?c
    \<and> countLeading0s_bytes (data @ ?c) = countLeading0s_bytes data"
  proof (cases "\<exists>b \<in> set data. b \<noteq> 0")
    case True
    then show ?thesis
      by (auto simp: countLeading0s_bytes_def)
  next
    case False
    then have "hd ?c \<noteq> 0" using assms by blast
    then obtain x xs where "?c = x # xs" "x \<noteq> 0" using c by (cases ?c) auto
    moreover have "takeWhile (\<lambda>b. b = 0) data = data" "dropWhile (\<lambda>b. b = 0) data = []"
      using False by (simp_all add: takeWhile_eq_all_conv)
    moreover have "takeWhile (\<lambda>b. b = 0) (data @ ys) = data @ takeWhile (\<lambda>b. b = 0) ys"
      "dropWhile (\<lambda>b. b = 0) (data @ ys) = dropWhile (\<lambda>b. b = 0) ys" for ys
      using False by (simp_all add: takeWhile_append2 dropWhile_append2)
    ultimately show ?thesis
      using \<open>?c = x # xs\<close> \<open>x \<noteq> 0\<close>
      by (simp only: countLeading0s_bytes_def dropWhile.simps takeWhile.simps if_False append_Nil append_Nil2 simp_thms)
  qed
  have z: "replicate (countLeading0s_bytes data) 0 @ dropWhile (\<lambda>b. b = 0) data = data"
  proof -
    have "takeWhile (\<lambda>b. b = 0) data = replicate (countLeading0s_bytes data) 0"
      unfolding countLeading0s_bytes_def
      by (rule replicate_length_same [symmetric]) (auto dest: set_takeWhileD)
    then show ?thesis by (metis takeWhile_dropWhile_id)
  qed
  have "BigInt_getBytes (BigInt_setInBase (Base58_Encode (data @ ?c)) 58 pchars) False =
      dropWhile (\<lambda>b. b = 0) data @ ?c"
    by (simp only: setInBase_Encode getBytes_be_value dw)
  moreover have "countLeading0s_string (Base58_Encode (data @ ?c)) (pchars ! 0) = countLeading0s_bytes data"
    by (simp only: countLeading0s_Encode dw)
  ultimately show ?thesis by (simp add: Base58_checked_def Let_def z)
qed

end
