(* ===== verification/AddressM.thy ===== *)
theory AddressM
  imports Base58 "HOL-Library.Multiset"
begin

text \<open>
  Addresses, \<open>SDK/WalletCore/Address.{h,cpp}\<close>, and the 21-byte program hash \<open>uint168\<close> of
  \<open>SDK/Common/uint256.{h,cpp}\<close>.  An address is a program hash with the redeem script it was made
  from, if known.  Parameters: \<open>sha256_2\<close> (Base58 checksum) and \<open>hash160\<close> (RIPEMD-160 of SHA-256).
\<close>

section \<open>Program hashes\<close>

text \<open>
  A \<open>uint168\<close> is kept as the word whose little-endian bytes are the vector \<open>_u168\<close>; its pfx is
  the first byte.  A vector of another size than the constructor expects gives 21 zero bytes.
\<close>

definition uint168_of_bytes :: "bytes \<Rightarrow> uint168" where
  "uint168_of_bytes vch = (if length vch = 21 then of_le vch else 0)"

definition uint168_of_prefix :: "u8 \<Rightarrow> bytes \<Rightarrow> uint168" where
  "uint168_of_prefix pfx vch = (if length vch = 20 then of_le (pfx # vch) else 0)"

definition uint168_bytes :: "uint168 \<Rightarrow> bytes" where
  "uint168_bytes u = le_bytes 21 u"

definition uint168_prefix :: "uint168 \<Rightarrow> u8" where
  "uint168_prefix u = uint168_bytes u ! 0"

definition uint168_less :: "uint168 \<Rightarrow> uint168 \<Rightarrow> bool" where
  "uint168_less a b = uchar_vector_less (uint168_bytes a) (uint168_bytes b)"

definition uint168_eq :: "uint168 \<Rightarrow> uint168 \<Rightarrow> bool" where
  "uint168_eq a b = uchar_vector_eq (uint168_bytes a) (uint168_bytes b)"

definition uint168_GetHex :: "uint168 \<Rightarrow> string" where
  "uint168_GetHex u = getHex0 (rev (uint168_bytes u))"

text \<open>\<open>resize\<close> pads with zero bytes or cuts.\<close>

definition uint168_SetHex :: "string \<Rightarrow> uint168 outcome" where
  "uint168_SetHex str =
     obind (setHex str) (\<lambda>bs. Ret (of_le (take 21 (rev bs @ replicate 21 0))))"

lemma length_uint168_bytes [simp]: "length (uint168_bytes u) = 21"
  by (simp add: uint168_bytes_def)

lemma uint168_of_bytes_bytes [simp]: "uint168_of_bytes (uint168_bytes u) = u"
  by (simp add: uint168_of_bytes_def uint168_bytes_def of_le_le_bytes)

lemma uint168_bytes_of_bytes: "length bs = 21 \<Longrightarrow> uint168_bytes (uint168_of_bytes bs) = bs"
  using le_bytes_of_le [of bs, where 'a = 168] by (simp add: uint168_of_bytes_def uint168_bytes_def)

lemma uint168_bytes_inject [simp]: "uint168_bytes a = uint168_bytes b \<longleftrightarrow> a = b"
  by (metis uint168_of_bytes_bytes)

lemma uint168_eq_iff: "uint168_eq a b \<longleftrightarrow> a = b"
  by (simp add: uint168_eq_def uchar_vector_eq_iff)

lemma uint168_prefix_of_prefix: "length h = 20 \<Longrightarrow> uint168_prefix (uint168_of_prefix p h) = p"
  using le_bytes_of_le [of "p # h", where 'a = 168]
  by (simp add: uint168_prefix_def uint168_bytes_def uint168_of_prefix_def)

lemma le_of_nat_hd: "0 < k \<Longrightarrow> le_of_nat k n ! 0 = word_of_nat n"
  by (cases k) simp_all

lemma uint168_prefix_0: "uint168_prefix 0 = 0"
  by (simp add: uint168_prefix_def uint168_bytes_def le_bytes_def le_of_nat_hd)

lemma uint168_less_linear: "uint168_less a b \<or> a = b \<or> uint168_less b a"
  using uchar_vector_less_linear [of "uint168_bytes a" "uint168_bytes b"]
  by (auto simp: uint168_less_def)

lemma uint168_less_irrefl: "\<not> uint168_less a a"
  by (simp add: uint168_less_def uchar_vector_less_irrefl)

lemma uint168_less_trans: "uint168_less a b \<Longrightarrow> uint168_less b c \<Longrightarrow> uint168_less a c"
  unfolding uint168_less_def by (rule uchar_vector_less_trans)

lemma uint168_Hex_round: "uint168_SetHex (uint168_GetHex u) = Ret u"
  by (simp add: uint168_SetHex_def uint168_GetHex_def setHex_getHex uint168_bytes_def of_le_le_bytes)

section \<open>Operations\<close>

definition OP_1 :: u8 where "OP_1 = 0x51"

definition SignTypeInvalid :: u8 where "SignTypeInvalid = 0"
definition SignTypeStandard :: u8 where "SignTypeStandard = 0xAC"
definition SignTypeDID :: u8 where "SignTypeDID = 0xAD"
definition SignTypeMultiSign :: u8 where "SignTypeMultiSign = 0xAE"
definition SignTypeCrossChain :: u8 where "SignTypeCrossChain = 0xAF"
definition SignTypeDestroy :: u8 where "SignTypeDestroy = 0xAA"

definition PrefixStandard :: u8 where "PrefixStandard = 0x21"
definition PrefixMultiSign :: u8 where "PrefixMultiSign = 0x12"
definition PrefixCrossChain :: u8 where "PrefixCrossChain = 0x4B"
definition PrefixCRExpenses :: u8 where "PrefixCRExpenses = 0x1C"
definition PrefixDeposit :: u8 where "PrefixDeposit = 0x1F"
definition PrefixIDChain :: u8 where "PrefixIDChain = 0x67"
definition PrefixDestroy :: u8 where "PrefixDestroy = 0"

lemmas sign_types =
  SignTypeInvalid_def SignTypeStandard_def SignTypeDID_def SignTypeMultiSign_def
  SignTypeCrossChain_def SignTypeDestroy_def

lemmas prefixes =
  PrefixStandard_def PrefixMultiSign_def PrefixCrossChain_def PrefixCRExpenses_def
  PrefixDeposit_def PrefixIDChain_def PrefixDestroy_def

record Address =
  addr_programHash :: uint168
  addr_code :: bytes
  addr_isValid :: bool

definition Address_new :: Address where
  "Address_new = \<lparr>addr_programHash = 0, addr_code = [], addr_isValid = False\<rparr>"

definition valid_prefix :: "u8 \<Rightarrow> bool" where
  "valid_prefix p \<longleftrightarrow>
     p = PrefixDeposit \<or> p = PrefixStandard \<or> p = PrefixCrossChain \<or> p = PrefixMultiSign \<or>
     p = PrefixIDChain \<or> p = PrefixDestroy \<or> p = PrefixCRExpenses"

definition Address_CheckValid :: "Address \<Rightarrow> Address" where
  "Address_CheckValid a = a\<lparr>addr_isValid := valid_prefix (uint168_prefix (addr_programHash a))\<rparr>"

definition Address_of_string :: "(bytes \<Rightarrow> uint256) \<Rightarrow> string \<Rightarrow> Address" where
  "Address_of_string sha256_2 address =
     (if address = [] then Address_new
      else case Base58_CheckDecode sha256_2 address of
             Some payload \<Rightarrow>
               Address_CheckValid (Address_new\<lparr>addr_programHash := uint168_of_bytes payload\<rparr>)
           | None \<Rightarrow> Address_new)"

definition Address_of_hash :: "uint168 \<Rightarrow> Address" where
  "Address_of_hash programHash =
     Address_CheckValid (Address_new\<lparr>addr_programHash := programHash\<rparr>)"

definition Address_PrefixToSignType :: "u8 \<Rightarrow> u8" where
  "Address_PrefixToSignType pfx =
     (if pfx = PrefixIDChain \<or> pfx = PrefixStandard \<or> pfx = PrefixDeposit
      then SignTypeStandard
      else if pfx = PrefixCrossChain then SignTypeCrossChain
      else if pfx = PrefixMultiSign then SignTypeMultiSign
      else if pfx = PrefixDestroy then SignTypeDestroy
      else SignTypeInvalid)"

text \<open>
  The bound on the number of signers is written \<open>sizeof(uint8_t) - OP_1\<close>, which is computed in
  \<open>size_t\<close> and wraps to almost \<open>2 ^ 64\<close>.
\<close>

definition Address_GenerateCode :: "u8 \<Rightarrow> bytes list \<Rightarrow> u8 \<Rightarrow> bool \<Rightarrow> bytes outcome" where
  "Address_GenerateCode pfx pubkeys m did =
     (if unat m > length pubkeys \<or> m = 0 then Throw E_MultiSignersCount
      else if m = 1 \<and> length pubkeys = 1
      then Ret (word_of_nat (length (pubkeys ! 0)) # pubkeys ! 0 @
                [if did then SignTypeDID else Address_PrefixToSignType pfx])
      else if (word_of_nat (length pubkeys) :: u64) > 1 - 0x51 then Throw E_MultiSignersCount
      else let sortedSigners = sort_key getHex0 pubkeys in
           Ret ((OP_1 + m - 1) #
                concat (map (\<lambda>k. word_of_nat (length k) # k) sortedSigners) @
                [OP_1 + word_of_nat (length sortedSigners) - 1, Address_PrefixToSignType pfx]))"

definition Address_GenerateProgramHash :: "(bytes \<Rightarrow> uint160) \<Rightarrow> u8 \<Rightarrow> Address \<Rightarrow> Address" where
  "Address_GenerateProgramHash hash160 pfx a =
     a\<lparr>addr_programHash := uint168_of_prefix pfx (le_bytes 20 (hash160 (addr_code a)))\<rparr>"

definition Address_of_pubkeys ::
    "(bytes \<Rightarrow> uint160) \<Rightarrow> u8 \<Rightarrow> bytes list \<Rightarrow> u8 \<Rightarrow> bool \<Rightarrow> Address outcome" where
  "Address_of_pubkeys hash160 pfx pubkeys m did =
     (if length pubkeys = 0 then Ret Address_new
      else obind (Address_GenerateCode pfx pubkeys m did) (\<lambda>code.
        Ret (Address_CheckValid (Address_GenerateProgramHash hash160 pfx
               (Address_new\<lparr>addr_code := code\<rparr>)))))"

definition Address_of_pubkey :: "(bytes \<Rightarrow> uint160) \<Rightarrow> u8 \<Rightarrow> bytes \<Rightarrow> bool \<Rightarrow> Address outcome" where
  "Address_of_pubkey hash160 pfx pubKey did = Address_of_pubkeys hash160 pfx [pubKey] 1 did"

definition Address_IsIDAddress :: "Address \<Rightarrow> bool" where
  "Address_IsIDAddress a \<longleftrightarrow> addr_isValid a \<and> uint168_prefix (addr_programHash a) = PrefixIDChain"

definition Address_String :: "(bytes \<Rightarrow> uint256) \<Rightarrow> Address \<Rightarrow> string" where
  "Address_String sha256_2 a = Base58_CheckEncode sha256_2 (uint168_bytes (addr_programHash a)) []"

definition Address_SetProgramHash :: "uint168 \<Rightarrow> Address \<Rightarrow> Address" where
  "Address_SetProgramHash programHash a = Address_CheckValid (a\<lparr>addr_programHash := programHash\<rparr>)"

text \<open>\<open>SetRedeemScript\<close> throws when the address it has built is not valid.\<close>

definition Address_SetRedeemScript ::
    "(bytes \<Rightarrow> uint160) \<Rightarrow> u8 \<Rightarrow> bytes \<Rightarrow> Address \<Rightarrow> Address outcome" where
  "Address_SetRedeemScript hash160 pfx code a =
     (let a' = Address_CheckValid (Address_GenerateProgramHash hash160 pfx (a\<lparr>addr_code := code\<rparr>))
      in if \<not> addr_isValid a' then Throw E_InvalidArgument else Ret a')"

definition Address_ChangePrefix :: "(bytes \<Rightarrow> uint160) \<Rightarrow> u8 \<Rightarrow> Address \<Rightarrow> Address outcome" where
  "Address_ChangePrefix hash160 pfx a =
     (if \<not> addr_isValid a then Throw E_Address
      else if addr_code a = [] then Undef
      else if last (addr_code a) = SignTypeMultiSign \<or>
              Address_PrefixToSignType pfx = SignTypeMultiSign
      then Throw E_Address
      else Ret (Address_GenerateProgramHash hash160 pfx a))"

definition Address_ConvertToDID :: "(bytes \<Rightarrow> uint160) \<Rightarrow> Address \<Rightarrow> Address" where
  "Address_ConvertToDID hash160 a =
     (if addr_code a \<noteq> [] \<and> uint168_prefix (addr_programHash a) = PrefixIDChain
      then Address_GenerateProgramHash hash160 PrefixIDChain
             (a\<lparr>addr_code := butlast (addr_code a) @ [SignTypeDID]\<rparr>)
      else a)"

definition Address_less :: "Address \<Rightarrow> Address \<Rightarrow> bool" where
  "Address_less a b = uint168_less (addr_programHash a) (addr_programHash b)"

definition Address_assign :: "Address \<Rightarrow> Address \<Rightarrow> Address" where
  "Address_assign this a =
     this\<lparr>addr_programHash := addr_programHash a, addr_code := addr_code a,
          addr_isValid := addr_isValid a\<rparr>"

definition Address_eq :: "Address \<Rightarrow> Address \<Rightarrow> bool" where
  "Address_eq a b \<longleftrightarrow>
     addr_isValid a = addr_isValid b \<and> uint168_eq (addr_programHash a) (addr_programHash b)"

definition Address_eq_string :: "(bytes \<Rightarrow> uint256) \<Rightarrow> Address \<Rightarrow> string \<Rightarrow> bool" where
  "Address_eq_string sha256_2 a address \<longleftrightarrow> addr_isValid a \<and> Address_String sha256_2 a = address"

definition Address_neq :: "Address \<Rightarrow> Address \<Rightarrow> bool" where
  "Address_neq a b \<longleftrightarrow> \<not> uint168_eq (addr_programHash a) (addr_programHash b)"

section \<open>Laws\<close>

lemma Address_CheckValid_simps [simp]:
  "addr_programHash (Address_CheckValid a) = addr_programHash a"
  "addr_code (Address_CheckValid a) = addr_code a"
  "Address_CheckValid (Address_CheckValid a) = Address_CheckValid a"
  by (simp_all add: Address_CheckValid_def)

text \<open>The validity flag of an address that was checked says what its prefix says.\<close>

definition Address_consistent :: "Address \<Rightarrow> bool" where
  "Address_consistent a \<longleftrightarrow> Address_CheckValid a = a"

lemma Address_assign_eq: "Address_assign this a = a"
  by (cases this, cases a) (simp add: Address_assign_def)

lemma Address_eq_refl: "Address_eq a a"
  by (simp add: Address_eq_def uint168_eq_iff)

lemma Address_isValid_CheckValid [simp]:
  "addr_isValid (Address_CheckValid a) = valid_prefix (uint168_prefix (addr_programHash a))"
  by (simp add: Address_CheckValid_def)

lemma Address_consistentD:
  "Address_consistent a \<Longrightarrow> addr_isValid a = valid_prefix (uint168_prefix (addr_programHash a))"
  unfolding Address_consistent_def by (metis Address_isValid_CheckValid)

lemma Address_eq_consistent:
  "Address_consistent a \<Longrightarrow> Address_consistent b \<Longrightarrow>
   Address_eq a b \<longleftrightarrow> addr_programHash a = addr_programHash b"
  by (auto simp: Address_eq_def uint168_eq_iff Address_consistentD)

lemma Address_of_hash_consistent: "Address_consistent (Address_of_hash h)"
  by (simp add: Address_consistent_def Address_of_hash_def)

lemma Address_of_hash_programHash [simp]: "addr_programHash (Address_of_hash h) = h"
  by (simp add: Address_of_hash_def)

lemma Address_of_hash_code [simp]: "addr_code (Address_of_hash h) = []"
  by (simp add: Address_of_hash_def Address_new_def)

lemma Address_less_irrefl: "\<not> Address_less a a"
  by (simp add: Address_less_def uint168_less_irrefl)

lemma Address_less_trans: "Address_less a b \<Longrightarrow> Address_less b c \<Longrightarrow> Address_less a c"
  unfolding Address_less_def by (rule uint168_less_trans)

lemma Address_less_total:
  "Address_less a b \<or> Address_less b a \<or> addr_programHash a = addr_programHash b"
  using uint168_less_linear [of "addr_programHash a" "addr_programHash b"]
  by (auto simp: Address_less_def)

lemma length_le_bytes_hash160: "length (le_bytes 20 (h :: uint160)) = 20"
  by simp

lemma Address_GenerateProgramHash_prefix [simp]:
  "uint168_prefix (addr_programHash (Address_GenerateProgramHash hash160 p a)) = p"
  by (simp add: Address_GenerateProgramHash_def uint168_prefix_of_prefix)

text \<open>Sorting by hex text gives the same script for every order of the signers.\<close>

lemma insort_key_getHex0: "insort_key getHex0 k ks = insort k ks"
proof (induction ks)
  case (Cons y ks)
  have "getHex0 k \<le> getHex0 y \<longleftrightarrow> k \<le> y"
    using getHex0_less [of y k] by (simp add: linorder_not_less [symmetric])
  then show ?case using Cons by simp
qed simp

lemma sort_key_getHex0: "sort_key getHex0 ks = sort ks"
  unfolding sort_key_def by (simp add: insort_key_getHex0 [abs_def] cong: foldr_cong)

lemma Address_GenerateCode_perm:
  assumes "mset ks = mset ks'"
  shows "Address_GenerateCode p ks m did = Address_GenerateCode p ks' m did"
proof -
  have len: "length ks = length ks'" using assms by (rule mset_eq_length)
  moreover have "sort ks = sort ks'" using assms by (metis sorted_list_of_multiset_mset)
  moreover have "ks ! 0 = ks' ! 0" if "length ks = 1"
    using that assms len by (cases ks; cases ks') auto
  ultimately show ?thesis
    by (auto simp: Address_GenerateCode_def sort_key_getHex0 Let_def)
qed


section \<open>Addresses and their text\<close>

lemma nat_of_le_zeros: "(\<forall>b \<in> set bs. b = 0) \<Longrightarrow> nat_of_le bs = 0"
  by (induction bs) simp_all

lemma uint168_bytes_nonzero:
  assumes "u \<noteq> 0"
  shows "\<exists>b \<in> set (uint168_bytes u). b \<noteq> 0"
proof (rule ccontr)
  assume "\<not> ?thesis"
  then have "nat_of_le (uint168_bytes u) = 0" by (intro nat_of_le_zeros) simp
  then have "uint168_of_bytes (uint168_bytes u) = 0" by (simp only: uint168_of_bytes_def of_le_def) simp
  then show False using assms by simp
qed

lemma Address_String_checked:
  assumes "addr_programHash a \<noteq> 0 \<or> hd (checksum_of sha256_2 (uint168_bytes 0)) \<noteq> 0"
  shows "Base58_CheckDecode sha256_2 (Address_String sha256_2 a) = Some (uint168_bytes (addr_programHash a))"
proof -
  have "(\<exists>b \<in> set (uint168_bytes (addr_programHash a)). b \<noteq> 0) \<or>
      hd (checksum_of sha256_2 (uint168_bytes (addr_programHash a))) \<noteq> 0"
    using assms uint168_bytes_nonzero [of "addr_programHash a"] by (cases "addr_programHash a = 0") auto
  then show ?thesis
    by (simp add: Address_String_def Base58_CheckEncode_def Base58_CheckDecode_def Base58_checked_Encode Let_def)
qed

lemma Address_of_string_String:
  assumes "addr_programHash a \<noteq> 0 \<or> hd (checksum_of sha256_2 (uint168_bytes 0)) \<noteq> 0"
  shows "Address_of_string sha256_2 (Address_String sha256_2 a) = Address_of_hash (addr_programHash a)"
proof -
  note dec = Address_String_checked [OF assms]
  have "Base58_CheckDecode sha256_2 [] = None"
    by (simp add: Base58_CheckDecode_def Base58_checked_def BigInt_setInBase_def BigInt_getBytes_def)
  then have "Address_String sha256_2 a \<noteq> []" using dec by auto
  then show ?thesis using dec by (simp add: Address_of_string_def Address_of_hash_def)
qed

lemma Address_String_inject:
  assumes "addr_programHash a \<noteq> 0" "addr_programHash b \<noteq> 0"
    and "Address_String sha256_2 a = Address_String sha256_2 b"
  shows "addr_programHash a = addr_programHash b"
  using Address_String_checked [of a sha256_2] Address_String_checked [of b sha256_2] assms by simp

lemma Address_of_pubkeys_prefix:
  assumes "Address_of_pubkeys hash160 pfx ks m did = Ret a" and "ks \<noteq> []"
  shows "uint168_prefix (addr_programHash a) = pfx" "addr_isValid a = valid_prefix pfx"
    "Address_GenerateCode pfx ks m did = Ret (addr_code a)"
  using assms
  by (auto simp: Address_of_pubkeys_def obind_eq_Ret Address_GenerateProgramHash_def
      uint168_prefix_of_prefix length_le_bytes_hash160)

end
