(* ===== verification/KeyM.thy ===== *)
theory KeyM
  imports SPV_Prelude
begin

text \<open>
  The part of \<open>SDK/WalletCore/Key.cpp\<close> the payloads and programs rely on: \<open>SetPubKey\<close> and
  \<open>Verify\<close>.  The curve is OpenSSL's: \<open>keyValid\<close> says which byte strings \<open>o2i_ECPublicKey\<close> and
  \<open>EC_KEY_check_key\<close> accept, and \<open>ecdsa\<close> is \<open>ECDSA_do_verify\<close> on a key, a digest and the numbers
  \<open>r\<close> and \<open>s\<close> of a signature.
\<close>

type_synonym key_check = "bytes \<Rightarrow> bool"
type_synonym ecdsa_check = "bytes \<Rightarrow> uint256 \<Rightarrow> bytes \<Rightarrow> bytes \<Rightarrow> bool"

definition Key_SetPubKey :: "key_check \<Rightarrow> bytes \<Rightarrow> bytes outcome" where
  "Key_SetPubKey keyValid pubkey =
     (if pubkey = [] then Throw E_Key
      else if \<not> keyValid pubkey then Throw E_Key
      else Ret pubkey)"

text \<open>\<open>r\<close> and \<open>s\<close> are read from the first 64 bytes of the signature, whatever its length.\<close>

definition Key_Verify :: "ecdsa_check \<Rightarrow> bytes \<Rightarrow> uint256 \<Rightarrow> bytes \<Rightarrow> bool outcome" where
  "Key_Verify ecdsa key digest signature =
     (if length signature < 64 then Undef
      else Ret (ecdsa key digest (take 32 signature) (take 32 (drop 32 signature))))"

text \<open>\<open>Key(CTElastos, pubkey).Verify(digest, signature)\<close>.\<close>

definition PubKey_Verify :: "key_check \<Rightarrow> ecdsa_check \<Rightarrow> bytes \<Rightarrow> uint256 \<Rightarrow> bytes \<Rightarrow> bool outcome" where
  "PubKey_Verify keyValid ecdsa pubkey digest signature =
     obind (Key_SetPubKey keyValid pubkey) (\<lambda>key. Key_Verify ecdsa key digest signature)"

text \<open>A block that catches every exception and returns false.\<close>

definition caught :: "bool outcome \<Rightarrow> bool outcome" where
  "caught m = (case m of Throw e \<Rightarrow> Ret False | r \<Rightarrow> r)"

text \<open>Whether the constructor \<open>Key(CTElastos, pubkey)\<close> returns.\<close>

definition Key_ok :: "key_check \<Rightarrow> bytes \<Rightarrow> bool" where
  "Key_ok keyValid pubkey \<longleftrightarrow>
     (case Key_SetPubKey keyValid pubkey of Ret key \<Rightarrow> True | _ \<Rightarrow> False)"

lemma Key_ok_iff [simp]: "Key_ok keyValid k \<longleftrightarrow> k \<noteq> [] \<and> keyValid k"
  by (simp add: Key_ok_def Key_SetPubKey_def)

lemma caught_simps [simp]:
  "caught (Ret b) = Ret b" "caught (Throw e) = Ret False" "caught Undef = Undef"
  by (simp_all add: caught_def)

lemma PubKey_Verify_cases:
  assumes "64 \<le> length sig"
  shows "caught (PubKey_Verify keyValid ecdsa k d sig) =
    Ret (k \<noteq> [] \<and> keyValid k \<and> ecdsa k d (take 32 sig) (take 32 (drop 32 sig)))"
  using assms by (simp add: PubKey_Verify_def Key_SetPubKey_def Key_Verify_def)

lemma PubKey_Verify_true:
  assumes "PubKey_Verify keyValid ecdsa k d sig = Ret True"
  shows "keyValid k" "64 \<le> length sig" "ecdsa k d (take 32 sig) (take 32 (drop 32 sig))"
  using assms
  by (auto simp: PubKey_Verify_def Key_SetPubKey_def Key_Verify_def obind_eq_Ret split: if_splits)

end
