(* ===== verification/CRPayloads.thy ===== *)
theory CRPayloads
  imports ChainPayloads AddressM KeyM
begin

text \<open>
  The payloads of the council (CR), each from the file of its name under
  \<open>SDK/Plugin/Transaction/Payload/\<close>: \<open>CRInfo\<close>, \<open>UnregisterCR\<close>, \<open>CRCAppropriation\<close>,
  \<open>CRCAssetsRectify\<close>, \<open>CRCProposalRealWithdraw\<close>, \<open>CRCouncilMemberClaimNode\<close>,
  \<open>CRCProposalReview\<close>, \<open>CRCProposalWithdraw\<close> and \<open>CRCProposalTracking\<close>.

  A payload that is signed in stages has a \<open>Serialize\<close> and a \<open>Deserialize\<close> per stage, each built
  on the one before.  An address travels as its program hash, so it comes back without its redeem
  script; an amount travels as the low 64 bits of its magnitude.  A \<open>canon\<close> function is the object
  that reading leaves behind: the object read into, with the fields that travel in a version.

  Parameters: \<open>sha256\<close>, and \<open>keyValid\<close> and \<open>ecdsa\<close> of \<open>KeyM\<close>.
\<close>

lemma Address_eq_of_hash:
  "Address_consistent a \<Longrightarrow> Address_eq a (Address_of_hash (addr_programHash a))"
  by (simp add: Address_eq_consistent Address_of_hash_consistent)

definition CRInfoVersion :: u8 where "CRInfoVersion = 0x00"
definition CRInfoDIDVersion :: u8 where "CRInfoDIDVersion = 0x01"

section \<open>CRInfo\<close>

text \<open>
  \<open>Equal\<close> looks at the DID from the version after \<open>CRInfoDIDVersion\<close> on, though it travels one
  version earlier.
\<close>

record CRInfo =
  cri_code :: bytes
  cri_cid :: uint168
  cri_did :: uint168
  cri_nickName :: string
  cri_url :: string
  cri_location :: u64
  cri_signature :: bytes

definition CRInfo_new :: CRInfo where
  "CRInfo_new =
     \<lparr>cri_code = [], cri_cid = 0, cri_did = 0, cri_nickName = '''', cri_url = '''',
      cri_location = 0, cri_signature = []\<rparr>"

definition CRInfo_EstimateSize :: "u8 \<Rightarrow> CRInfo \<Rightarrow> nat" where
  "CRInfo_EstimateSize version p =
     WriteVarUint_count (word_of_nat (length (cri_code p))) + length (cri_code p) + 21 +
     (if version > CRInfoVersion then 21 else 0) +
     WriteVarUint_count (word_of_nat (length (cri_nickName p))) + length (cri_nickName p) +
     WriteVarUint_count (word_of_nat (length (cri_url p))) + length (cri_url p) + 8 +
     WriteVarUint_count (word_of_nat (length (cri_signature p))) + length (cri_signature p)"

definition CRInfo_SerializeUnsigned :: "u8 \<Rightarrow> CRInfo \<Rightarrow> writer" where
  "CRInfo_SerializeUnsigned version p =
     wseq [WriteVarBytes (cri_code p), WriteUint168 (cri_cid p),
           (if version > CRInfoVersion then WriteUint168 (cri_did p) else wseq []),
           WriteVarString (cri_nickName p), WriteVarString (cri_url p),
           WriteUint64 (cri_location p)]"

definition CRInfo_DeserializeUnsigned :: "u8 \<Rightarrow> CRInfo \<Rightarrow> CRInfo reader" where
  "CRInfo_DeserializeUnsigned version o1 =
     rbind ReadVarBytes (\<lambda>code.
     rbind ReadUint168 (\<lambda>cid.
     rbind (if version > CRInfoVersion then ReadUint168 else rret (cri_did o1)) (\<lambda>did.
     rbind ReadVarString (\<lambda>nickName.
     rbind ReadVarString (\<lambda>url.
     rbind ReadUint64 (\<lambda>location.
       rret (o1\<lparr>cri_code := code, cri_cid := cid, cri_did := did, cri_nickName := nickName,
               cri_url := url, cri_location := location\<rparr>)))))))"

definition CRInfo_Serialize :: "u8 \<Rightarrow> CRInfo \<Rightarrow> writer" where
  "CRInfo_Serialize version p =
     wseq [CRInfo_SerializeUnsigned version p, WriteVarBytes (cri_signature p)]"

definition CRInfo_Deserialize :: "u8 \<Rightarrow> CRInfo \<Rightarrow> CRInfo reader" where
  "CRInfo_Deserialize version o1 =
     rbind (CRInfo_DeserializeUnsigned version o1) (\<lambda>o2.
     rbind ReadVarBytes (\<lambda>signature.
       rret (o2\<lparr>cri_signature := signature\<rparr>)))"

definition CRInfo_assign :: "CRInfo \<Rightarrow> CRInfo \<Rightarrow> CRInfo" where
  "CRInfo_assign this p =
     this\<lparr>cri_code := cri_code p, cri_cid := cri_cid p, cri_did := cri_did p,
          cri_nickName := cri_nickName p, cri_url := cri_url p,
          cri_location := cri_location p, cri_signature := cri_signature p\<rparr>"

definition CRInfo_Equal :: "u8 \<Rightarrow> CRInfo \<Rightarrow> CRInfo \<Rightarrow> bool" where
  "CRInfo_Equal version this p \<longleftrightarrow>
     cri_code this = cri_code p \<and> cri_cid this = cri_cid p \<and>
     (version > CRInfoDIDVersion \<longrightarrow> cri_did this = cri_did p) \<and>
     cri_nickName this = cri_nickName p \<and> cri_url this = cri_url p \<and>
     cri_location this = cri_location p \<and> cri_signature this = cri_signature p"

definition CRInfo_canonUnsigned :: "u8 \<Rightarrow> CRInfo \<Rightarrow> CRInfo \<Rightarrow> CRInfo" where
  "CRInfo_canonUnsigned version o1 p =
     o1\<lparr>cri_code := cri_code p, cri_cid := cri_cid p,
       cri_did := (if version > CRInfoVersion then cri_did p else cri_did o1),
       cri_nickName := cri_nickName p, cri_url := cri_url p, cri_location := cri_location p\<rparr>"

definition CRInfo_canon :: "u8 \<Rightarrow> CRInfo \<Rightarrow> CRInfo \<Rightarrow> CRInfo" where
  "CRInfo_canon version o1 p =
     (CRInfo_canonUnsigned version o1 p)\<lparr>cri_signature := cri_signature p\<rparr>"

lemma CRInfo_DID_versions: "v > CRInfoDIDVersion \<Longrightarrow> v > CRInfoVersion"
  by (auto simp: CRInfoDIDVersion_def CRInfoVersion_def word_less_nat_alt)

definition CRInfo_fits :: "u8 \<Rightarrow> CRInfo \<Rightarrow> bool" where
  "CRInfo_fits version p \<longleftrightarrow>
     length (cri_nickName p) < 2 ^ 32 \<and> length (cri_url p) < 2 ^ 32"

lemma CRInfoUnsigned_transfers:
  assumes "CRInfo_fits v p"
  shows "transfers (CRInfo_SerializeUnsigned v p) (CRInfo_DeserializeUnsigned v o1) (CRInfo_canonUnsigned v o1 p)"
proof -
  have l: "length (cri_nickName p) < 2 ^ 32" "length (cri_url p) < 2 ^ 32"
    using assms by (simp_all add: CRInfo_fits_def)
  show ?thesis
    unfolding CRInfo_SerializeUnsigned_def CRInfo_DeserializeUnsigned_def
      by (rule transfer_intros l | simp add: CRInfo_canonUnsigned_def)+
qed

lemma CRInfo_transfers:
  assumes "CRInfo_fits v p"
  shows "transfers (CRInfo_Serialize v p) (CRInfo_Deserialize v o1) (CRInfo_canon v o1 p)"
proof -
  have l: "length (cri_nickName p) < 2 ^ 32" "length (cri_url p) < 2 ^ 32"
    using assms by (simp_all add: CRInfo_fits_def)
  show ?thesis
    unfolding CRInfo_Serialize_def CRInfo_Deserialize_def
      by (rule transfer_intros CRInfoUnsigned_transfers [OF assms] l | simp add: CRInfo_canonUnsigned_def CRInfo_canon_def)+
qed

interpretation cr_info: versioned_codec CRInfo_Serialize
    "\<lambda>v. CRInfo_Deserialize v CRInfo_new" CRInfo_fits "\<lambda>v. CRInfo_canon v CRInfo_new" CRInfo_Equal
  by (unfold_locales, erule CRInfo_transfers)
    (auto simp: CRInfo_DeserializeUnsigned_def CRInfo_Deserialize_def CRInfo_Equal_def
      CRInfo_canonUnsigned_def CRInfo_canon_def CRInfo_fits_def CRInfo_DID_versions Address_eq_of_hash BigInt_set_getUint64 intro!: reader_intros)

lemma CRInfo_size:
  assumes "CRInfo_fits v p"
  shows "wsize (CRInfo_Serialize v p)
    (CRInfo_EstimateSize v p +
     varint_gap (word_of_nat (length (cri_code p))) +
     varint_gap (word_of_nat (length (cri_nickName p))) +
     varint_gap (word_of_nat (length (cri_url p))) +
     varint_gap (word_of_nat (length (cri_signature p))))"
proof -
  have l: "length (cri_nickName p) < 2 ^ 32" "length (cri_url p) < 2 ^ 32"
    using assms by (simp_all add: CRInfo_fits_def)
  show ?thesis
    unfolding CRInfo_SerializeUnsigned_def CRInfo_Serialize_def
      by (rule wsize_eq, (rule size_intros l)+) (simp add: CRInfo_EstimateSize_def)
qed

text \<open>
  \<open>IsValid\<close> takes the first data push of the code as the public key; where there is none the key
  stays empty, which \<open>SetPubKey\<close> refuses by throwing.
\<close>

definition CRInfo_IsValid ::
    "(bytes \<Rightarrow> uint256) \<Rightarrow> key_check \<Rightarrow> ecdsa_check \<Rightarrow> u8 \<Rightarrow> CRInfo \<Rightarrow> bool outcome" where
  "CRInfo_IsValid sha256 keyValid ecdsa version p =
     (case ReadVarBytes (stream_of (cri_code p)) of
        ROk pubKey _ \<Rightarrow>
          obind (CRInfo_SerializeUnsigned version p empty_stream) (\<lambda>s.
            PubKey_Verify keyValid ecdsa pubKey (sha256 (buf s)) (cri_signature p))
      | RFail _ \<Rightarrow> Throw E_Key
      | RUndef \<Rightarrow> Undef)"

section \<open>UnregisterCR\<close>

record UnregisterCR =
  ucr_cid :: uint168
  ucr_signature :: bytes

definition UnregisterCR_new :: UnregisterCR where
  "UnregisterCR_new =
     \<lparr>ucr_cid = 0, ucr_signature = []\<rparr>"

definition UnregisterCR_EstimateSize :: "u8 \<Rightarrow> UnregisterCR \<Rightarrow> nat" where
  "UnregisterCR_EstimateSize version p =
     21 + WriteVarUint_count (word_of_nat (length (ucr_signature p))) +
     length (ucr_signature p)"

definition UnregisterCR_SerializeUnsigned :: "u8 \<Rightarrow> UnregisterCR \<Rightarrow> writer" where
  "UnregisterCR_SerializeUnsigned version p =
     wseq [WriteUint168 (ucr_cid p)]"

definition UnregisterCR_DeserializeUnsigned :: "u8 \<Rightarrow> UnregisterCR \<Rightarrow> UnregisterCR reader" where
  "UnregisterCR_DeserializeUnsigned version o1 =
     rbind ReadUint168 (\<lambda>cid.
       rret (o1\<lparr>ucr_cid := cid\<rparr>))"

definition UnregisterCR_Serialize :: "u8 \<Rightarrow> UnregisterCR \<Rightarrow> writer" where
  "UnregisterCR_Serialize version p =
     wseq [UnregisterCR_SerializeUnsigned version p, WriteVarBytes (ucr_signature p)]"

definition UnregisterCR_Deserialize :: "u8 \<Rightarrow> UnregisterCR \<Rightarrow> UnregisterCR reader" where
  "UnregisterCR_Deserialize version o1 =
     rbind (UnregisterCR_DeserializeUnsigned version o1) (\<lambda>o2.
     rbind ReadVarBytes (\<lambda>signature.
       rret (o2\<lparr>ucr_signature := signature\<rparr>)))"

definition UnregisterCR_assign :: "UnregisterCR \<Rightarrow> UnregisterCR \<Rightarrow> UnregisterCR" where
  "UnregisterCR_assign this p =
     this\<lparr>ucr_cid := ucr_cid p, ucr_signature := ucr_signature p\<rparr>"

definition UnregisterCR_Equal :: "u8 \<Rightarrow> UnregisterCR \<Rightarrow> UnregisterCR \<Rightarrow> bool" where
  "UnregisterCR_Equal version this p \<longleftrightarrow>
     ucr_cid this = ucr_cid p \<and> ucr_signature this = ucr_signature p"

definition UnregisterCR_canonUnsigned :: "u8 \<Rightarrow> UnregisterCR \<Rightarrow> UnregisterCR \<Rightarrow> UnregisterCR" where
  "UnregisterCR_canonUnsigned version o1 p =
     o1\<lparr>ucr_cid := ucr_cid p\<rparr>"

definition UnregisterCR_canon :: "u8 \<Rightarrow> UnregisterCR \<Rightarrow> UnregisterCR \<Rightarrow> UnregisterCR" where
  "UnregisterCR_canon version o1 p =
     (UnregisterCR_canonUnsigned version o1 p)\<lparr>ucr_signature := ucr_signature p\<rparr>"

lemma UnregisterCRUnsigned_transfers:
  shows "transfers (UnregisterCR_SerializeUnsigned v p) (UnregisterCR_DeserializeUnsigned v o1) (UnregisterCR_canonUnsigned v o1 p)"
  unfolding UnregisterCR_SerializeUnsigned_def UnregisterCR_DeserializeUnsigned_def
    by (rule transfer_intros | simp add: UnregisterCR_canonUnsigned_def)+

lemma UnregisterCR_transfers:
  shows "transfers (UnregisterCR_Serialize v p) (UnregisterCR_Deserialize v o1) (UnregisterCR_canon v o1 p)"
  unfolding UnregisterCR_Serialize_def UnregisterCR_Deserialize_def
    by (rule transfer_intros UnregisterCRUnsigned_transfers | simp add: UnregisterCR_canonUnsigned_def UnregisterCR_canon_def)+

interpretation unregister_cr: versioned_codec UnregisterCR_Serialize
    "\<lambda>v. UnregisterCR_Deserialize v UnregisterCR_new" "\<lambda>_ _. True" "\<lambda>v. UnregisterCR_canon v UnregisterCR_new" UnregisterCR_Equal
  by (unfold_locales, rule UnregisterCR_transfers)
    (auto simp: UnregisterCR_DeserializeUnsigned_def UnregisterCR_Deserialize_def UnregisterCR_Equal_def
      UnregisterCR_canonUnsigned_def UnregisterCR_canon_def Address_eq_of_hash BigInt_set_getUint64 intro!: reader_intros)

lemma UnregisterCR_size:
  shows "wsize (UnregisterCR_Serialize v p)
    (UnregisterCR_EstimateSize v p +
     varint_gap (word_of_nat (length (ucr_signature p))))"
  unfolding UnregisterCR_SerializeUnsigned_def UnregisterCR_Serialize_def
    by (rule wsize_eq, (rule size_intros)+) (simp add: UnregisterCR_EstimateSize_def)

section \<open>CRCAppropriation\<close>

datatype CRCAppropriation = CRCAppropriation_new

definition CRCAppropriation_EstimateSize :: "u8 \<Rightarrow> CRCAppropriation \<Rightarrow> nat" where
  "CRCAppropriation_EstimateSize version p = 0"

definition CRCAppropriation_Serialize :: "u8 \<Rightarrow> CRCAppropriation \<Rightarrow> writer" where
  "CRCAppropriation_Serialize version p = wseq []"

definition CRCAppropriation_Deserialize :: "u8 \<Rightarrow> CRCAppropriation \<Rightarrow> CRCAppropriation reader" where
  "CRCAppropriation_Deserialize version o1 = rret o1"

definition CRCAppropriation_Equal :: "u8 \<Rightarrow> CRCAppropriation \<Rightarrow> CRCAppropriation \<Rightarrow> bool" where
  "CRCAppropriation_Equal version this p \<longleftrightarrow> True"

lemma CRCAppropriation_transfers:
  "transfers (CRCAppropriation_Serialize v p) (CRCAppropriation_Deserialize v o1) p"
  unfolding CRCAppropriation_Serialize_def CRCAppropriation_Deserialize_def
  by (rule transfers_rret) (cases o1; cases p; simp)

interpretation crc_appropriation: versioned_codec CRCAppropriation_Serialize
    "\<lambda>v. CRCAppropriation_Deserialize v CRCAppropriation_new" "\<lambda>_ _. True" "\<lambda>_ p. p" CRCAppropriation_Equal
  by (unfold_locales, rule CRCAppropriation_transfers)
    (auto simp: CRCAppropriation_Deserialize_def CRCAppropriation_Equal_def intro!: reader_intros)

section \<open>CRCAssetsRectify\<close>

datatype CRCAssetsRectify = CRCAssetsRectify_new

definition CRCAssetsRectify_EstimateSize :: "u8 \<Rightarrow> CRCAssetsRectify \<Rightarrow> nat" where
  "CRCAssetsRectify_EstimateSize version p = 0"

definition CRCAssetsRectify_Serialize :: "u8 \<Rightarrow> CRCAssetsRectify \<Rightarrow> writer" where
  "CRCAssetsRectify_Serialize version p = wseq []"

definition CRCAssetsRectify_Deserialize :: "u8 \<Rightarrow> CRCAssetsRectify \<Rightarrow> CRCAssetsRectify reader" where
  "CRCAssetsRectify_Deserialize version o1 = rret o1"

definition CRCAssetsRectify_Equal :: "u8 \<Rightarrow> CRCAssetsRectify \<Rightarrow> CRCAssetsRectify \<Rightarrow> bool" where
  "CRCAssetsRectify_Equal version this p \<longleftrightarrow> True"

lemma CRCAssetsRectify_transfers:
  "transfers (CRCAssetsRectify_Serialize v p) (CRCAssetsRectify_Deserialize v o1) p"
  unfolding CRCAssetsRectify_Serialize_def CRCAssetsRectify_Deserialize_def
  by (rule transfers_rret) (cases o1; cases p; simp)

interpretation crc_rectify: versioned_codec CRCAssetsRectify_Serialize
    "\<lambda>v. CRCAssetsRectify_Deserialize v CRCAssetsRectify_new" "\<lambda>_ _. True" "\<lambda>_ p. p" CRCAssetsRectify_Equal
  by (unfold_locales, rule CRCAssetsRectify_transfers)
    (auto simp: CRCAssetsRectify_Deserialize_def CRCAssetsRectify_Equal_def intro!: reader_intros)

section \<open>CRCProposalRealWithdraw\<close>

text \<open>
  \<open>EstimateSize\<close> counts two bytes that \<open>Serialize\<close> does not write.
\<close>

record CRCProposalRealWithdraw =
  prw_withdrawTxHashes :: "uint256 list"

definition CRCProposalRealWithdraw_new :: CRCProposalRealWithdraw where
  "CRCProposalRealWithdraw_new =
     \<lparr>prw_withdrawTxHashes = []\<rparr>"

definition CRCProposalRealWithdraw_EstimateSize :: "u8 \<Rightarrow> CRCProposalRealWithdraw \<Rightarrow> nat" where
  "CRCProposalRealWithdraw_EstimateSize version p =
     2 + WriteVarUint_count (word_of_nat (length (prw_withdrawTxHashes p))) +
     sum_list (map (\<lambda>_. 32) (prw_withdrawTxHashes p))"

definition CRCProposalRealWithdraw_Serialize :: "u8 \<Rightarrow> CRCProposalRealWithdraw \<Rightarrow> writer" where
  "CRCProposalRealWithdraw_Serialize version p =
     wseq [write_items WriteUint256 (prw_withdrawTxHashes p)]"

definition CRCProposalRealWithdraw_Deserialize ::
    "u8 \<Rightarrow> CRCProposalRealWithdraw \<Rightarrow> CRCProposalRealWithdraw reader" where
  "CRCProposalRealWithdraw_Deserialize version o1 =
     rbind (read_items ReadUint256) (\<lambda>withdrawTxHashes.
       rret (o1\<lparr>prw_withdrawTxHashes := prw_withdrawTxHashes o1 @ withdrawTxHashes\<rparr>))"

definition CRCProposalRealWithdraw_assign :: "CRCProposalRealWithdraw \<Rightarrow> CRCProposalRealWithdraw \<Rightarrow> CRCProposalRealWithdraw" where
  "CRCProposalRealWithdraw_assign this p =
     this\<lparr>prw_withdrawTxHashes := prw_withdrawTxHashes p\<rparr>"

definition CRCProposalRealWithdraw_Equal :: "u8 \<Rightarrow> CRCProposalRealWithdraw \<Rightarrow> CRCProposalRealWithdraw \<Rightarrow> bool" where
  "CRCProposalRealWithdraw_Equal version this p \<longleftrightarrow>
     prw_withdrawTxHashes this = prw_withdrawTxHashes p"

lemma CRCProposalRealWithdraw_transfers:
  shows "transfers (CRCProposalRealWithdraw_Serialize v p) (CRCProposalRealWithdraw_Deserialize v o1) (p\<lparr>prw_withdrawTxHashes := prw_withdrawTxHashes o1 @ prw_withdrawTxHashes p\<rparr>)"
  unfolding CRCProposalRealWithdraw_Serialize_def CRCProposalRealWithdraw_Deserialize_def
    by (rule transfer_intros needs_intros | simp)+

interpretation proposal_real: versioned_codec CRCProposalRealWithdraw_Serialize
    "\<lambda>v. CRCProposalRealWithdraw_Deserialize v CRCProposalRealWithdraw_new" "\<lambda>_ _. True" "\<lambda>_ p. p" CRCProposalRealWithdraw_Equal
  by (unfold_locales, use CRCProposalRealWithdraw_transfers [where ?o1.0 = CRCProposalRealWithdraw_new] in \<open>simp add: CRCProposalRealWithdraw_new_def\<close>)
    (auto simp: CRCProposalRealWithdraw_Deserialize_def CRCProposalRealWithdraw_Equal_def intro!: reader_intros)

lemma CRCProposalRealWithdraw_size:
  shows "wsize (CRCProposalRealWithdraw_Serialize v p)
    (CRCProposalRealWithdraw_EstimateSize v p - 2 +
     varint_gap (word_of_nat (length (prw_withdrawTxHashes p))))"
  unfolding CRCProposalRealWithdraw_Serialize_def
    by (rule wsize_eq, (rule size_intros wsize_items)+) (simp add: CRCProposalRealWithdraw_EstimateSize_def)

definition CRCProposalRealWithdraw_IsValid :: "u8 \<Rightarrow> CRCProposalRealWithdraw \<Rightarrow> bool" where
  "CRCProposalRealWithdraw_IsValid version p \<longleftrightarrow> prw_withdrawTxHashes p \<noteq> []"

section \<open>CRCouncilMemberClaimNode\<close>

record CRCouncilMemberClaimNode =
  cmcn_digestUnsigned :: uint256
  cmcn_nodePublicKey :: bytes
  cmcn_crCouncilMemberDID :: Address
  cmcn_crCouncilMemberSignature :: bytes

definition CRCouncilMemberClaimNode_new :: CRCouncilMemberClaimNode where
  "CRCouncilMemberClaimNode_new =
     \<lparr>cmcn_digestUnsigned = 0, cmcn_nodePublicKey = [],
      cmcn_crCouncilMemberDID = Address_new, cmcn_crCouncilMemberSignature = []\<rparr>"

definition CRCouncilMemberClaimNode_EstimateSize :: "u8 \<Rightarrow> CRCouncilMemberClaimNode \<Rightarrow> nat" where
  "CRCouncilMemberClaimNode_EstimateSize version p =
     WriteVarUint_count (word_of_nat (length (cmcn_nodePublicKey p))) +
     length (cmcn_nodePublicKey p) + 21 +
     WriteVarUint_count (word_of_nat (length (cmcn_crCouncilMemberSignature p))) +
     length (cmcn_crCouncilMemberSignature p)"

definition CRCouncilMemberClaimNode_SerializeUnsigned :: "u8 \<Rightarrow> CRCouncilMemberClaimNode \<Rightarrow> writer" where
  "CRCouncilMemberClaimNode_SerializeUnsigned version p =
     wseq [WriteVarBytes (cmcn_nodePublicKey p),
           WriteUint168 (addr_programHash (cmcn_crCouncilMemberDID p))]"

definition CRCouncilMemberClaimNode_DeserializeUnsigned :: "u8 \<Rightarrow> CRCouncilMemberClaimNode \<Rightarrow> CRCouncilMemberClaimNode reader" where
  "CRCouncilMemberClaimNode_DeserializeUnsigned version o1 =
     rbind ReadVarBytes (\<lambda>nodePublicKey.
     rbind ReadUint168 (\<lambda>crCouncilMemberDID.
       rret (o1\<lparr>cmcn_nodePublicKey := nodePublicKey,
               cmcn_crCouncilMemberDID := Address_of_hash crCouncilMemberDID\<rparr>)))"

definition CRCouncilMemberClaimNode_Serialize :: "u8 \<Rightarrow> CRCouncilMemberClaimNode \<Rightarrow> writer" where
  "CRCouncilMemberClaimNode_Serialize version p =
     wseq [CRCouncilMemberClaimNode_SerializeUnsigned version p,
           WriteVarBytes (cmcn_crCouncilMemberSignature p)]"

definition CRCouncilMemberClaimNode_Deserialize :: "u8 \<Rightarrow> CRCouncilMemberClaimNode \<Rightarrow> CRCouncilMemberClaimNode reader" where
  "CRCouncilMemberClaimNode_Deserialize version o1 =
     rbind (CRCouncilMemberClaimNode_DeserializeUnsigned version o1) (\<lambda>o2.
     rbind ReadVarBytes (\<lambda>crCouncilMemberSignature.
       rret (o2\<lparr>cmcn_crCouncilMemberSignature := crCouncilMemberSignature\<rparr>)))"

definition CRCouncilMemberClaimNode_assign :: "CRCouncilMemberClaimNode \<Rightarrow> CRCouncilMemberClaimNode \<Rightarrow> CRCouncilMemberClaimNode" where
  "CRCouncilMemberClaimNode_assign this p =
     this\<lparr>cmcn_digestUnsigned := cmcn_digestUnsigned p,
          cmcn_nodePublicKey := cmcn_nodePublicKey p,
          cmcn_crCouncilMemberDID := cmcn_crCouncilMemberDID p,
          cmcn_crCouncilMemberSignature := cmcn_crCouncilMemberSignature p\<rparr>"

definition CRCouncilMemberClaimNode_Equal :: "u8 \<Rightarrow> CRCouncilMemberClaimNode \<Rightarrow> CRCouncilMemberClaimNode \<Rightarrow> bool" where
  "CRCouncilMemberClaimNode_Equal version this p \<longleftrightarrow>
     cmcn_nodePublicKey this = cmcn_nodePublicKey p \<and>
     Address_eq (cmcn_crCouncilMemberDID this) (cmcn_crCouncilMemberDID p) \<and>
     cmcn_crCouncilMemberSignature this = cmcn_crCouncilMemberSignature p"

definition CRCouncilMemberClaimNode_canonUnsigned :: "u8 \<Rightarrow> CRCouncilMemberClaimNode \<Rightarrow> CRCouncilMemberClaimNode \<Rightarrow> CRCouncilMemberClaimNode" where
  "CRCouncilMemberClaimNode_canonUnsigned version o1 p =
     o1\<lparr>cmcn_nodePublicKey := cmcn_nodePublicKey p,
       cmcn_crCouncilMemberDID := Address_of_hash (addr_programHash (cmcn_crCouncilMemberDID p))\<rparr>"

definition CRCouncilMemberClaimNode_canon :: "u8 \<Rightarrow> CRCouncilMemberClaimNode \<Rightarrow> CRCouncilMemberClaimNode \<Rightarrow> CRCouncilMemberClaimNode" where
  "CRCouncilMemberClaimNode_canon version o1 p =
     (CRCouncilMemberClaimNode_canonUnsigned version o1 p)\<lparr>cmcn_crCouncilMemberSignature := cmcn_crCouncilMemberSignature p\<rparr>"

definition CRCouncilMemberClaimNode_fits :: "u8 \<Rightarrow> CRCouncilMemberClaimNode \<Rightarrow> bool" where
  "CRCouncilMemberClaimNode_fits version p \<longleftrightarrow>
     Address_consistent (cmcn_crCouncilMemberDID p)"

lemma CRCouncilMemberClaimNodeUnsigned_transfers:
  shows "transfers (CRCouncilMemberClaimNode_SerializeUnsigned v p) (CRCouncilMemberClaimNode_DeserializeUnsigned v o1) (CRCouncilMemberClaimNode_canonUnsigned v o1 p)"
  unfolding CRCouncilMemberClaimNode_SerializeUnsigned_def CRCouncilMemberClaimNode_DeserializeUnsigned_def
    by (rule transfer_intros | simp add: CRCouncilMemberClaimNode_canonUnsigned_def)+

lemma CRCouncilMemberClaimNode_transfers:
  shows "transfers (CRCouncilMemberClaimNode_Serialize v p) (CRCouncilMemberClaimNode_Deserialize v o1) (CRCouncilMemberClaimNode_canon v o1 p)"
  unfolding CRCouncilMemberClaimNode_Serialize_def CRCouncilMemberClaimNode_Deserialize_def
    by (rule transfer_intros CRCouncilMemberClaimNodeUnsigned_transfers | simp add: CRCouncilMemberClaimNode_canonUnsigned_def CRCouncilMemberClaimNode_canon_def)+

interpretation claim_node: versioned_codec CRCouncilMemberClaimNode_Serialize
    "\<lambda>v. CRCouncilMemberClaimNode_Deserialize v CRCouncilMemberClaimNode_new" CRCouncilMemberClaimNode_fits "\<lambda>v. CRCouncilMemberClaimNode_canon v CRCouncilMemberClaimNode_new" CRCouncilMemberClaimNode_Equal
  by (unfold_locales, rule CRCouncilMemberClaimNode_transfers)
    (auto simp: CRCouncilMemberClaimNode_DeserializeUnsigned_def CRCouncilMemberClaimNode_Deserialize_def CRCouncilMemberClaimNode_Equal_def
      CRCouncilMemberClaimNode_canonUnsigned_def CRCouncilMemberClaimNode_canon_def CRCouncilMemberClaimNode_fits_def Address_eq_of_hash BigInt_set_getUint64 intro!: reader_intros)

lemma CRCouncilMemberClaimNode_size:
  shows "wsize (CRCouncilMemberClaimNode_Serialize v p)
    (CRCouncilMemberClaimNode_EstimateSize v p +
     varint_gap (word_of_nat (length (cmcn_nodePublicKey p))) +
     varint_gap (word_of_nat (length (cmcn_crCouncilMemberSignature p))))"
  unfolding CRCouncilMemberClaimNode_SerializeUnsigned_def CRCouncilMemberClaimNode_Serialize_def
    by (rule wsize_eq, (rule size_intros)+) (simp add: CRCouncilMemberClaimNode_EstimateSize_def)

definition CRCouncilMemberClaimNode_DigestUnsigned :: "(bytes \<Rightarrow> uint256) \<Rightarrow> u8 \<Rightarrow> CRCouncilMemberClaimNode \<Rightarrow> (uint256 \<times> CRCouncilMemberClaimNode) outcome" where
  "CRCouncilMemberClaimNode_DigestUnsigned sha256 version p =
     (if cmcn_digestUnsigned p = 0
      then obind (CRCouncilMemberClaimNode_SerializeUnsigned version p empty_stream) (\<lambda>s.
        Ret (sha256 (buf s), p\<lparr>cmcn_digestUnsigned := sha256 (buf s)\<rparr>))
      else Ret (cmcn_digestUnsigned p, p))"

definition CRCouncilMemberClaimNode_IsValidUnsigned ::
    "key_check \<Rightarrow> u8 \<Rightarrow> CRCouncilMemberClaimNode \<Rightarrow> bool" where
  "CRCouncilMemberClaimNode_IsValidUnsigned keyValid version p \<longleftrightarrow>
     Key_ok keyValid (cmcn_nodePublicKey p) \<and> addr_isValid (cmcn_crCouncilMemberDID p)"

definition CRCouncilMemberClaimNode_IsValid ::
    "key_check \<Rightarrow> u8 \<Rightarrow> CRCouncilMemberClaimNode \<Rightarrow> bool" where
  "CRCouncilMemberClaimNode_IsValid keyValid version p \<longleftrightarrow>
     CRCouncilMemberClaimNode_IsValidUnsigned keyValid version p \<and>
     cmcn_crCouncilMemberSignature p \<noteq> []"

definition CRCProposalReviewVersion01 :: u8 where "CRCProposalReviewVersion01 = 0x01"
definition VoteResult_unknown :: u8 where "VoteResult_unknown = 0x03"

section \<open>CRCProposalReview\<close>

record CRCProposalReview =
  rev_digest :: uint256
  rev_proposalHash :: uint256
  rev_voteResult :: u8
  rev_opinionHash :: uint256
  rev_opinionData :: bytes
  rev_did :: Address
  rev_signature :: bytes

definition CRCProposalReview_new :: CRCProposalReview where
  "CRCProposalReview_new =
     \<lparr>rev_digest = 0, rev_proposalHash = 0, rev_voteResult = 0, rev_opinionHash = 0,
      rev_opinionData = [], rev_did = Address_new, rev_signature = []\<rparr>"

definition CRCProposalReview_EstimateSize :: "u8 \<Rightarrow> CRCProposalReview \<Rightarrow> nat" where
  "CRCProposalReview_EstimateSize version p =
     32 + 1 + 32 +
     (if CRCProposalReviewVersion01 \<le> version then WriteVarUint_count (word_of_nat (length (rev_opinionData p))) + length (rev_opinionData p) else 0) +
     21 + WriteVarUint_count (word_of_nat (length (rev_signature p))) +
     length (rev_signature p)"

definition CRCProposalReview_SerializeUnsigned :: "u8 \<Rightarrow> CRCProposalReview \<Rightarrow> writer" where
  "CRCProposalReview_SerializeUnsigned version p =
     wseq [WriteUint256 (rev_proposalHash p), WriteUint8 (rev_voteResult p),
           WriteUint256 (rev_opinionHash p),
           (if CRCProposalReviewVersion01 \<le> version then WriteVarBytes (rev_opinionData p) else wseq []),
           WriteUint168 (addr_programHash (rev_did p))]"

definition CRCProposalReview_DeserializeUnsigned :: "u8 \<Rightarrow> CRCProposalReview \<Rightarrow> CRCProposalReview reader" where
  "CRCProposalReview_DeserializeUnsigned version o1 =
     rbind ReadUint256 (\<lambda>proposalHash.
     rbind ReadUint8 (\<lambda>voteResult.
     rbind ReadUint256 (\<lambda>opinionHash.
     rbind (if CRCProposalReviewVersion01 \<le> version then ReadVarBytes else rret (rev_opinionData o1)) (\<lambda>opinionData.
     rbind ReadUint168 (\<lambda>did.
       rret (o1\<lparr>rev_proposalHash := proposalHash, rev_voteResult := voteResult,
               rev_opinionHash := opinionHash, rev_opinionData := opinionData,
               rev_did := Address_of_hash did\<rparr>))))))"

definition CRCProposalReview_Serialize :: "u8 \<Rightarrow> CRCProposalReview \<Rightarrow> writer" where
  "CRCProposalReview_Serialize version p =
     wseq [CRCProposalReview_SerializeUnsigned version p, WriteVarBytes (rev_signature p)]"

definition CRCProposalReview_Deserialize :: "u8 \<Rightarrow> CRCProposalReview \<Rightarrow> CRCProposalReview reader" where
  "CRCProposalReview_Deserialize version o1 =
     rbind (CRCProposalReview_DeserializeUnsigned version o1) (\<lambda>o2.
     rbind ReadVarBytes (\<lambda>signature.
       rret (o2\<lparr>rev_signature := signature\<rparr>)))"

definition CRCProposalReview_assign :: "CRCProposalReview \<Rightarrow> CRCProposalReview \<Rightarrow> CRCProposalReview" where
  "CRCProposalReview_assign this p =
     this\<lparr>rev_proposalHash := rev_proposalHash p, rev_voteResult := rev_voteResult p,
          rev_opinionHash := rev_opinionHash p, rev_opinionData := rev_opinionData p,
          rev_did := rev_did p, rev_signature := rev_signature p\<rparr>"

definition CRCProposalReview_Equal :: "u8 \<Rightarrow> CRCProposalReview \<Rightarrow> CRCProposalReview \<Rightarrow> bool" where
  "CRCProposalReview_Equal version this p \<longleftrightarrow>
     rev_proposalHash this = rev_proposalHash p \<and>
     rev_voteResult this = rev_voteResult p \<and>
     rev_opinionHash this = rev_opinionHash p \<and>
     (CRCProposalReviewVersion01 \<le> version \<longrightarrow> rev_opinionData this = rev_opinionData p) \<and>
     Address_eq (rev_did this) (rev_did p) \<and> rev_signature this = rev_signature p"

definition CRCProposalReview_canonUnsigned :: "u8 \<Rightarrow> CRCProposalReview \<Rightarrow> CRCProposalReview \<Rightarrow> CRCProposalReview" where
  "CRCProposalReview_canonUnsigned version o1 p =
     o1\<lparr>rev_proposalHash := rev_proposalHash p, rev_voteResult := rev_voteResult p,
       rev_opinionHash := rev_opinionHash p,
       rev_opinionData := (if CRCProposalReviewVersion01 \<le> version then rev_opinionData p else rev_opinionData o1),
       rev_did := Address_of_hash (addr_programHash (rev_did p))\<rparr>"

definition CRCProposalReview_canon :: "u8 \<Rightarrow> CRCProposalReview \<Rightarrow> CRCProposalReview \<Rightarrow> CRCProposalReview" where
  "CRCProposalReview_canon version o1 p =
     (CRCProposalReview_canonUnsigned version o1 p)\<lparr>rev_signature := rev_signature p\<rparr>"

definition CRCProposalReview_fits :: "u8 \<Rightarrow> CRCProposalReview \<Rightarrow> bool" where
  "CRCProposalReview_fits version p \<longleftrightarrow>
     Address_consistent (rev_did p)"

lemma CRCProposalReviewUnsigned_transfers:
  shows "transfers (CRCProposalReview_SerializeUnsigned v p) (CRCProposalReview_DeserializeUnsigned v o1) (CRCProposalReview_canonUnsigned v o1 p)"
  unfolding CRCProposalReview_SerializeUnsigned_def CRCProposalReview_DeserializeUnsigned_def
    by (rule transfer_intros | simp add: CRCProposalReview_canonUnsigned_def)+

lemma CRCProposalReview_transfers:
  shows "transfers (CRCProposalReview_Serialize v p) (CRCProposalReview_Deserialize v o1) (CRCProposalReview_canon v o1 p)"
  unfolding CRCProposalReview_Serialize_def CRCProposalReview_Deserialize_def
    by (rule transfer_intros CRCProposalReviewUnsigned_transfers | simp add: CRCProposalReview_canonUnsigned_def CRCProposalReview_canon_def)+

interpretation proposal_review: versioned_codec CRCProposalReview_Serialize
    "\<lambda>v. CRCProposalReview_Deserialize v CRCProposalReview_new" CRCProposalReview_fits "\<lambda>v. CRCProposalReview_canon v CRCProposalReview_new" CRCProposalReview_Equal
  by (unfold_locales, rule CRCProposalReview_transfers)
    (auto simp: CRCProposalReview_DeserializeUnsigned_def CRCProposalReview_Deserialize_def CRCProposalReview_Equal_def
      CRCProposalReview_canonUnsigned_def CRCProposalReview_canon_def CRCProposalReview_fits_def Address_eq_of_hash BigInt_set_getUint64 intro!: reader_intros)

lemma CRCProposalReview_size:
  shows "wsize (CRCProposalReview_Serialize v p)
    (CRCProposalReview_EstimateSize v p +
     (if CRCProposalReviewVersion01 \<le> v then varint_gap (word_of_nat (length (rev_opinionData p))) else 0) +
     varint_gap (word_of_nat (length (rev_signature p))))"
  unfolding CRCProposalReview_SerializeUnsigned_def CRCProposalReview_Serialize_def
    by (rule wsize_eq, (rule size_intros)+) (simp add: CRCProposalReview_EstimateSize_def)

definition CRCProposalReview_DigestUnsigned :: "(bytes \<Rightarrow> uint256) \<Rightarrow> u8 \<Rightarrow> CRCProposalReview \<Rightarrow> (uint256 \<times> CRCProposalReview) outcome" where
  "CRCProposalReview_DigestUnsigned sha256 version p =
     (if rev_digest p = 0
      then obind (CRCProposalReview_SerializeUnsigned version p empty_stream) (\<lambda>s.
        Ret (sha256 (buf s), p\<lparr>rev_digest := sha256 (buf s)\<rparr>))
      else Ret (rev_digest p, p))"

definition CRCProposalReview_IsValidUnsigned :: "u8 \<Rightarrow> CRCProposalReview \<Rightarrow> bool" where
  "CRCProposalReview_IsValidUnsigned version p \<longleftrightarrow>
     rev_voteResult p < VoteResult_unknown \<and> addr_isValid (rev_did p)"

definition CRCProposalReview_IsValid :: "u8 \<Rightarrow> CRCProposalReview \<Rightarrow> bool" where
  "CRCProposalReview_IsValid version p \<longleftrightarrow>
     CRCProposalReview_IsValidUnsigned version p \<and> rev_signature p \<noteq> []"

definition CRCProposalWithdrawVersion_01 :: u8 where "CRCProposalWithdrawVersion_01 = 0x01"

section \<open>CRCProposalWithdraw\<close>

text \<open>
  The recipient and the amount travel in version 1 only, while \<open>Equal\<close> compares them from version
  1 on: \<open>fits\<close> leaves out the versions in between.
\<close>

record CRCProposalWithdraw =
  pwd_digest :: uint256
  pwd_proposalHash :: uint256
  pwd_ownerPubkey :: bytes
  pwd_recipient :: Address
  pwd_amount :: BigInt
  pwd_signature :: bytes

definition CRCProposalWithdraw_new :: CRCProposalWithdraw where
  "CRCProposalWithdraw_new =
     \<lparr>pwd_digest = 0, pwd_proposalHash = 0, pwd_ownerPubkey = [],
      pwd_recipient = Address_new, pwd_amount = 0, pwd_signature = []\<rparr>"

definition CRCProposalWithdraw_EstimateSize :: "u8 \<Rightarrow> CRCProposalWithdraw \<Rightarrow> nat" where
  "CRCProposalWithdraw_EstimateSize version p =
     32 + WriteVarUint_count (word_of_nat (length (pwd_ownerPubkey p))) +
     length (pwd_ownerPubkey p) +
     (if version = CRCProposalWithdrawVersion_01 then 21 else 0) +
     (if version = CRCProposalWithdrawVersion_01 then 8 else 0) +
     WriteVarUint_count (word_of_nat (length (pwd_signature p))) + length (pwd_signature p)"

definition CRCProposalWithdraw_SerializeUnsigned :: "u8 \<Rightarrow> CRCProposalWithdraw \<Rightarrow> writer" where
  "CRCProposalWithdraw_SerializeUnsigned version p =
     wseq [WriteUint256 (pwd_proposalHash p), WriteVarBytes (pwd_ownerPubkey p),
           (if version = CRCProposalWithdrawVersion_01 then WriteUint168 (addr_programHash (pwd_recipient p)) else wseq []),
           (if version = CRCProposalWithdrawVersion_01 then WriteUint64 (BigInt_getUint64 (pwd_amount p)) else wseq [])]"

definition CRCProposalWithdraw_DeserializeUnsigned :: "u8 \<Rightarrow> CRCProposalWithdraw \<Rightarrow> CRCProposalWithdraw reader" where
  "CRCProposalWithdraw_DeserializeUnsigned version o1 =
     rbind ReadUint256 (\<lambda>proposalHash.
     rbind ReadVarBytes (\<lambda>ownerPubkey.
     rbind (if version = CRCProposalWithdrawVersion_01 then rbind ReadUint168 (\<lambda>x. rret (Address_of_hash x)) else rret (pwd_recipient o1)) (\<lambda>recipient.
     rbind (if version = CRCProposalWithdrawVersion_01 then rbind ReadUint64 (\<lambda>x. rret (BigInt_setUint64 x)) else rret (pwd_amount o1)) (\<lambda>amount.
       rret (o1\<lparr>pwd_proposalHash := proposalHash, pwd_ownerPubkey := ownerPubkey,
               pwd_recipient := recipient, pwd_amount := amount\<rparr>)))))"

definition CRCProposalWithdraw_Serialize :: "u8 \<Rightarrow> CRCProposalWithdraw \<Rightarrow> writer" where
  "CRCProposalWithdraw_Serialize version p =
     wseq [CRCProposalWithdraw_SerializeUnsigned version p, WriteVarBytes (pwd_signature p)]"

definition CRCProposalWithdraw_Deserialize :: "u8 \<Rightarrow> CRCProposalWithdraw \<Rightarrow> CRCProposalWithdraw reader" where
  "CRCProposalWithdraw_Deserialize version o1 =
     rbind (CRCProposalWithdraw_DeserializeUnsigned version o1) (\<lambda>o2.
     rbind ReadVarBytes (\<lambda>signature.
       rret (o2\<lparr>pwd_signature := signature\<rparr>)))"

definition CRCProposalWithdraw_assign :: "CRCProposalWithdraw \<Rightarrow> CRCProposalWithdraw \<Rightarrow> CRCProposalWithdraw" where
  "CRCProposalWithdraw_assign this p =
     this\<lparr>pwd_proposalHash := pwd_proposalHash p, pwd_ownerPubkey := pwd_ownerPubkey p,
          pwd_recipient := pwd_recipient p, pwd_amount := pwd_amount p,
          pwd_signature := pwd_signature p\<rparr>"

definition CRCProposalWithdraw_Equal :: "u8 \<Rightarrow> CRCProposalWithdraw \<Rightarrow> CRCProposalWithdraw \<Rightarrow> bool" where
  "CRCProposalWithdraw_Equal version this p \<longleftrightarrow>
     pwd_proposalHash this = pwd_proposalHash p \<and>
     pwd_ownerPubkey this = pwd_ownerPubkey p \<and>
     (CRCProposalWithdrawVersion_01 \<le> version \<longrightarrow> Address_eq (pwd_recipient this) (pwd_recipient p)) \<and>
     (CRCProposalWithdrawVersion_01 \<le> version \<longrightarrow> pwd_amount this = pwd_amount p) \<and>
     pwd_signature this = pwd_signature p"

definition CRCProposalWithdraw_canonUnsigned :: "u8 \<Rightarrow> CRCProposalWithdraw \<Rightarrow> CRCProposalWithdraw \<Rightarrow> CRCProposalWithdraw" where
  "CRCProposalWithdraw_canonUnsigned version o1 p =
     o1\<lparr>pwd_proposalHash := pwd_proposalHash p, pwd_ownerPubkey := pwd_ownerPubkey p,
       pwd_recipient := (if version = CRCProposalWithdrawVersion_01 then Address_of_hash (addr_programHash (pwd_recipient p)) else pwd_recipient o1),
       pwd_amount := (if version = CRCProposalWithdrawVersion_01 then BigInt_setUint64 (BigInt_getUint64 (pwd_amount p)) else pwd_amount o1)\<rparr>"

definition CRCProposalWithdraw_canon :: "u8 \<Rightarrow> CRCProposalWithdraw \<Rightarrow> CRCProposalWithdraw \<Rightarrow> CRCProposalWithdraw" where
  "CRCProposalWithdraw_canon version o1 p =
     (CRCProposalWithdraw_canonUnsigned version o1 p)\<lparr>pwd_signature := pwd_signature p\<rparr>"

definition CRCProposalWithdraw_fits :: "u8 \<Rightarrow> CRCProposalWithdraw \<Rightarrow> bool" where
  "CRCProposalWithdraw_fits version p \<longleftrightarrow>
     Address_consistent (pwd_recipient p) \<and>
     0 \<le> pwd_amount p \<and> pwd_amount p < 2 ^ 64 \<and>
     version \<le> CRCProposalWithdrawVersion_01"

lemma CRCProposalWithdrawUnsigned_transfers:
  shows "transfers (CRCProposalWithdraw_SerializeUnsigned v p) (CRCProposalWithdraw_DeserializeUnsigned v o1) (CRCProposalWithdraw_canonUnsigned v o1 p)"
  unfolding CRCProposalWithdraw_SerializeUnsigned_def CRCProposalWithdraw_DeserializeUnsigned_def
    by (rule transfer_intros transfers_map | simp add: CRCProposalWithdraw_canonUnsigned_def)+

lemma CRCProposalWithdraw_transfers:
  shows "transfers (CRCProposalWithdraw_Serialize v p) (CRCProposalWithdraw_Deserialize v o1) (CRCProposalWithdraw_canon v o1 p)"
  unfolding CRCProposalWithdraw_Serialize_def CRCProposalWithdraw_Deserialize_def
    by (rule transfer_intros CRCProposalWithdrawUnsigned_transfers | simp add: CRCProposalWithdraw_canonUnsigned_def CRCProposalWithdraw_canon_def)+

interpretation proposal_withdraw: versioned_codec CRCProposalWithdraw_Serialize
    "\<lambda>v. CRCProposalWithdraw_Deserialize v CRCProposalWithdraw_new" CRCProposalWithdraw_fits "\<lambda>v. CRCProposalWithdraw_canon v CRCProposalWithdraw_new" CRCProposalWithdraw_Equal
  by (unfold_locales, rule CRCProposalWithdraw_transfers)
    (auto simp: CRCProposalWithdraw_DeserializeUnsigned_def CRCProposalWithdraw_Deserialize_def CRCProposalWithdraw_Equal_def
      CRCProposalWithdraw_canonUnsigned_def CRCProposalWithdraw_canon_def CRCProposalWithdraw_fits_def Address_eq_of_hash BigInt_set_getUint64 intro!: reader_intros)

lemma CRCProposalWithdraw_size:
  shows "wsize (CRCProposalWithdraw_Serialize v p)
    (CRCProposalWithdraw_EstimateSize v p +
     varint_gap (word_of_nat (length (pwd_ownerPubkey p))) +
     varint_gap (word_of_nat (length (pwd_signature p))))"
  unfolding CRCProposalWithdraw_SerializeUnsigned_def CRCProposalWithdraw_Serialize_def
    by (rule wsize_eq, (rule size_intros)+) (simp add: CRCProposalWithdraw_EstimateSize_def)

definition CRCProposalWithdraw_DigestUnsigned :: "(bytes \<Rightarrow> uint256) \<Rightarrow> u8 \<Rightarrow> CRCProposalWithdraw \<Rightarrow> (uint256 \<times> CRCProposalWithdraw) outcome" where
  "CRCProposalWithdraw_DigestUnsigned sha256 version p =
     (if pwd_digest p = 0
      then obind (CRCProposalWithdraw_SerializeUnsigned version p empty_stream) (\<lambda>s.
        Ret (sha256 (buf s), p\<lparr>pwd_digest := sha256 (buf s)\<rparr>))
      else Ret (pwd_digest p, p))"

definition CRCProposalWithdraw_IsValidUnsigned ::
    "key_check \<Rightarrow> u8 \<Rightarrow> CRCProposalWithdraw \<Rightarrow> bool" where
  "CRCProposalWithdraw_IsValidUnsigned keyValid version p \<longleftrightarrow>
     Key_ok keyValid (pwd_ownerPubkey p) \<and>
     (version = CRCProposalWithdrawVersion_01 \<longrightarrow>
        addr_isValid (pwd_recipient p) \<and> 0 < pwd_amount p)"

definition CRCProposalWithdraw_IsValid ::
    "(bytes \<Rightarrow> uint256) \<Rightarrow> key_check \<Rightarrow> ecdsa_check \<Rightarrow> u8 \<Rightarrow>
     CRCProposalWithdraw \<Rightarrow> bool outcome" where
  "CRCProposalWithdraw_IsValid sha256 keyValid ecdsa version p =
     (if \<not> CRCProposalWithdraw_IsValidUnsigned keyValid version p then Ret False
      else obind (CRCProposalWithdraw_DigestUnsigned sha256 version p) (\<lambda>(digest, _).
        caught (PubKey_Verify keyValid ecdsa (pwd_ownerPubkey p) digest (pwd_signature p))))"

definition CRCProposalTrackingVersion01 :: u8 where "CRCProposalTrackingVersion01 = 0x01"
definition TrackingType_unknown :: u8 where "TrackingType_unknown = 0x06"

section \<open>CRCProposalTracking\<close>

record CRCProposalTracking =
  trk_digestOwnerUnsigned :: uint256
  trk_digestNewOwnerUnsigned :: uint256
  trk_digestSecretaryUnsigned :: uint256
  trk_proposalHash :: uint256
  trk_messageHash :: uint256
  trk_messageData :: bytes
  trk_stage :: u8
  trk_ownerPubKey :: bytes
  trk_newOwnerPubKey :: bytes
  trk_ownerSign :: bytes
  trk_newOwnerSign :: bytes
  trk_trackingType :: u8
  trk_secretaryGeneralOpinionHash :: uint256
  trk_secretaryGeneralOpinionData :: bytes
  trk_secretaryGeneralSignature :: bytes

definition CRCProposalTracking_new :: CRCProposalTracking where
  "CRCProposalTracking_new =
     \<lparr>trk_digestOwnerUnsigned = 0, trk_digestNewOwnerUnsigned = 0,
      trk_digestSecretaryUnsigned = 0, trk_proposalHash = 0, trk_messageHash = 0,
      trk_messageData = [], trk_stage = 0, trk_ownerPubKey = [], trk_newOwnerPubKey = [],
      trk_ownerSign = [], trk_newOwnerSign = [], trk_trackingType = 0,
      trk_secretaryGeneralOpinionHash = 0, trk_secretaryGeneralOpinionData = [],
      trk_secretaryGeneralSignature = []\<rparr>"

definition CRCProposalTracking_EstimateSize :: "u8 \<Rightarrow> CRCProposalTracking \<Rightarrow> nat" where
  "CRCProposalTracking_EstimateSize version p =
     32 + 32 +
     (if CRCProposalTrackingVersion01 \<le> version then WriteVarUint_count (word_of_nat (length (trk_messageData p))) + length (trk_messageData p) else 0) +
     1 + WriteVarUint_count (word_of_nat (length (trk_ownerPubKey p))) +
     length (trk_ownerPubKey p) +
     WriteVarUint_count (word_of_nat (length (trk_newOwnerPubKey p))) +
     length (trk_newOwnerPubKey p) +
     WriteVarUint_count (word_of_nat (length (trk_ownerSign p))) +
     length (trk_ownerSign p) +
     WriteVarUint_count (word_of_nat (length (trk_newOwnerSign p))) +
     length (trk_newOwnerSign p) + 1 + 32 +
     (if CRCProposalTrackingVersion01 \<le> version then WriteVarUint_count (word_of_nat (length (trk_secretaryGeneralOpinionData p))) + length (trk_secretaryGeneralOpinionData p) else 0) +
     WriteVarUint_count (word_of_nat (length (trk_secretaryGeneralSignature p))) +
     length (trk_secretaryGeneralSignature p)"

definition CRCProposalTracking_SerializeOwnerUnsigned :: "u8 \<Rightarrow> CRCProposalTracking \<Rightarrow> writer" where
  "CRCProposalTracking_SerializeOwnerUnsigned version p =
     wseq [WriteUint256 (trk_proposalHash p), WriteUint256 (trk_messageHash p),
           (if CRCProposalTrackingVersion01 \<le> version then WriteVarBytes (trk_messageData p) else wseq []),
           WriteUint8 (trk_stage p), WriteVarBytes (trk_ownerPubKey p),
           WriteVarBytes (trk_newOwnerPubKey p)]"

definition CRCProposalTracking_DeserializeOwnerUnsigned :: "u8 \<Rightarrow> CRCProposalTracking \<Rightarrow> CRCProposalTracking reader" where
  "CRCProposalTracking_DeserializeOwnerUnsigned version o1 =
     rbind ReadUint256 (\<lambda>proposalHash.
     rbind ReadUint256 (\<lambda>messageHash.
     rbind (if CRCProposalTrackingVersion01 \<le> version then ReadVarBytes else rret (trk_messageData o1)) (\<lambda>messageData.
     rbind ReadUint8 (\<lambda>stage.
     rbind ReadVarBytes (\<lambda>ownerPubKey.
     rbind ReadVarBytes (\<lambda>newOwnerPubKey.
       rret (o1\<lparr>trk_proposalHash := proposalHash, trk_messageHash := messageHash,
               trk_messageData := messageData, trk_stage := stage,
               trk_ownerPubKey := ownerPubKey, trk_newOwnerPubKey := newOwnerPubKey\<rparr>)))))))"

definition CRCProposalTracking_SerializeNewOwnerUnsigned :: "u8 \<Rightarrow> CRCProposalTracking \<Rightarrow> writer" where
  "CRCProposalTracking_SerializeNewOwnerUnsigned version p =
     wseq [CRCProposalTracking_SerializeOwnerUnsigned version p,
           WriteVarBytes (trk_ownerSign p)]"

definition CRCProposalTracking_DeserializeNewOwnerUnsigned :: "u8 \<Rightarrow> CRCProposalTracking \<Rightarrow> CRCProposalTracking reader" where
  "CRCProposalTracking_DeserializeNewOwnerUnsigned version o1 =
     rbind (CRCProposalTracking_DeserializeOwnerUnsigned version o1) (\<lambda>o2.
     rbind ReadVarBytes (\<lambda>ownerSign.
       rret (o2\<lparr>trk_ownerSign := ownerSign\<rparr>)))"

definition CRCProposalTracking_SerializeSecretaryUnsigned :: "u8 \<Rightarrow> CRCProposalTracking \<Rightarrow> writer" where
  "CRCProposalTracking_SerializeSecretaryUnsigned version p =
     wseq [CRCProposalTracking_SerializeNewOwnerUnsigned version p,
           WriteVarBytes (trk_newOwnerSign p), WriteUint8 (trk_trackingType p),
           WriteUint256 (trk_secretaryGeneralOpinionHash p),
           (if CRCProposalTrackingVersion01 \<le> version then WriteVarBytes (trk_secretaryGeneralOpinionData p) else wseq [])]"

definition CRCProposalTracking_DeserializeSecretaryUnsigned :: "u8 \<Rightarrow> CRCProposalTracking \<Rightarrow> CRCProposalTracking reader" where
  "CRCProposalTracking_DeserializeSecretaryUnsigned version o1 =
     rbind (CRCProposalTracking_DeserializeNewOwnerUnsigned version o1) (\<lambda>o2.
     rbind ReadVarBytes (\<lambda>newOwnerSign.
     rbind ReadUint8 (\<lambda>trackingType.
     rbind ReadUint256 (\<lambda>secretaryGeneralOpinionHash.
     rbind (if CRCProposalTrackingVersion01 \<le> version then ReadVarBytes else rret (trk_secretaryGeneralOpinionData o2)) (\<lambda>secretaryGeneralOpinionData.
       rret (o2\<lparr>trk_newOwnerSign := newOwnerSign, trk_trackingType := trackingType,
               trk_secretaryGeneralOpinionHash := secretaryGeneralOpinionHash,
               trk_secretaryGeneralOpinionData := secretaryGeneralOpinionData\<rparr>))))))"

definition CRCProposalTracking_Serialize :: "u8 \<Rightarrow> CRCProposalTracking \<Rightarrow> writer" where
  "CRCProposalTracking_Serialize version p =
     wseq [CRCProposalTracking_SerializeSecretaryUnsigned version p,
           WriteVarBytes (trk_secretaryGeneralSignature p)]"

definition CRCProposalTracking_Deserialize :: "u8 \<Rightarrow> CRCProposalTracking \<Rightarrow> CRCProposalTracking reader" where
  "CRCProposalTracking_Deserialize version o1 =
     rbind (CRCProposalTracking_DeserializeSecretaryUnsigned version o1) (\<lambda>o2.
     rbind ReadVarBytes (\<lambda>secretaryGeneralSignature.
       rret (o2\<lparr>trk_secretaryGeneralSignature := secretaryGeneralSignature\<rparr>)))"

definition CRCProposalTracking_assign :: "CRCProposalTracking \<Rightarrow> CRCProposalTracking \<Rightarrow> CRCProposalTracking" where
  "CRCProposalTracking_assign this p =
     this\<lparr>trk_proposalHash := trk_proposalHash p, trk_messageHash := trk_messageHash p,
          trk_messageData := trk_messageData p, trk_stage := trk_stage p,
          trk_ownerPubKey := trk_ownerPubKey p, trk_newOwnerPubKey := trk_newOwnerPubKey p,
          trk_ownerSign := trk_ownerSign p, trk_newOwnerSign := trk_newOwnerSign p,
          trk_trackingType := trk_trackingType p,
          trk_secretaryGeneralOpinionHash := trk_secretaryGeneralOpinionHash p,
          trk_secretaryGeneralOpinionData := trk_secretaryGeneralOpinionData p,
          trk_secretaryGeneralSignature := trk_secretaryGeneralSignature p\<rparr>"

definition CRCProposalTracking_Equal :: "u8 \<Rightarrow> CRCProposalTracking \<Rightarrow> CRCProposalTracking \<Rightarrow> bool" where
  "CRCProposalTracking_Equal version this p \<longleftrightarrow>
     trk_proposalHash this = trk_proposalHash p \<and>
     trk_messageHash this = trk_messageHash p \<and>
     (CRCProposalTrackingVersion01 \<le> version \<longrightarrow> trk_messageData this = trk_messageData p) \<and>
     trk_stage this = trk_stage p \<and> trk_ownerPubKey this = trk_ownerPubKey p \<and>
     trk_newOwnerPubKey this = trk_newOwnerPubKey p \<and>
     trk_ownerSign this = trk_ownerSign p \<and>
     trk_newOwnerSign this = trk_newOwnerSign p \<and>
     trk_trackingType this = trk_trackingType p \<and>
     trk_secretaryGeneralOpinionHash this = trk_secretaryGeneralOpinionHash p \<and>
     (CRCProposalTrackingVersion01 \<le> version \<longrightarrow> trk_secretaryGeneralOpinionData this = trk_secretaryGeneralOpinionData p) \<and>
     trk_secretaryGeneralSignature this = trk_secretaryGeneralSignature p"

definition CRCProposalTracking_canonOwnerUnsigned :: "u8 \<Rightarrow> CRCProposalTracking \<Rightarrow> CRCProposalTracking \<Rightarrow> CRCProposalTracking" where
  "CRCProposalTracking_canonOwnerUnsigned version o1 p =
     o1\<lparr>trk_proposalHash := trk_proposalHash p, trk_messageHash := trk_messageHash p,
       trk_messageData := (if CRCProposalTrackingVersion01 \<le> version then trk_messageData p else trk_messageData o1),
       trk_stage := trk_stage p, trk_ownerPubKey := trk_ownerPubKey p,
       trk_newOwnerPubKey := trk_newOwnerPubKey p\<rparr>"

definition CRCProposalTracking_canonNewOwnerUnsigned :: "u8 \<Rightarrow> CRCProposalTracking \<Rightarrow> CRCProposalTracking \<Rightarrow> CRCProposalTracking" where
  "CRCProposalTracking_canonNewOwnerUnsigned version o1 p =
     (CRCProposalTracking_canonOwnerUnsigned version o1 p)\<lparr>trk_ownerSign := trk_ownerSign p\<rparr>"

definition CRCProposalTracking_canonSecretaryUnsigned :: "u8 \<Rightarrow> CRCProposalTracking \<Rightarrow> CRCProposalTracking \<Rightarrow> CRCProposalTracking" where
  "CRCProposalTracking_canonSecretaryUnsigned version o1 p =
     (CRCProposalTracking_canonNewOwnerUnsigned version o1 p)\<lparr>trk_newOwnerSign := trk_newOwnerSign p, trk_trackingType := trk_trackingType p,
       trk_secretaryGeneralOpinionHash := trk_secretaryGeneralOpinionHash p,
       trk_secretaryGeneralOpinionData := (if CRCProposalTrackingVersion01 \<le> version then trk_secretaryGeneralOpinionData p else trk_secretaryGeneralOpinionData o1)\<rparr>"

definition CRCProposalTracking_canon :: "u8 \<Rightarrow> CRCProposalTracking \<Rightarrow> CRCProposalTracking \<Rightarrow> CRCProposalTracking" where
  "CRCProposalTracking_canon version o1 p =
     (CRCProposalTracking_canonSecretaryUnsigned version o1 p)\<lparr>trk_secretaryGeneralSignature := trk_secretaryGeneralSignature p\<rparr>"

lemma CRCProposalTrackingOwnerUnsigned_transfers:
  shows "transfers (CRCProposalTracking_SerializeOwnerUnsigned v p) (CRCProposalTracking_DeserializeOwnerUnsigned v o1) (CRCProposalTracking_canonOwnerUnsigned v o1 p)"
  unfolding CRCProposalTracking_SerializeOwnerUnsigned_def CRCProposalTracking_DeserializeOwnerUnsigned_def
    by (rule transfer_intros | simp add: CRCProposalTracking_canonOwnerUnsigned_def)+

lemma CRCProposalTrackingNewOwnerUnsigned_transfers:
  shows "transfers (CRCProposalTracking_SerializeNewOwnerUnsigned v p) (CRCProposalTracking_DeserializeNewOwnerUnsigned v o1) (CRCProposalTracking_canonNewOwnerUnsigned v o1 p)"
  unfolding CRCProposalTracking_SerializeNewOwnerUnsigned_def CRCProposalTracking_DeserializeNewOwnerUnsigned_def
    by (rule transfer_intros CRCProposalTrackingOwnerUnsigned_transfers | simp add: CRCProposalTracking_canonOwnerUnsigned_def CRCProposalTracking_canonNewOwnerUnsigned_def)+

lemma CRCProposalTrackingSecretaryUnsigned_transfers:
  shows "transfers (CRCProposalTracking_SerializeSecretaryUnsigned v p) (CRCProposalTracking_DeserializeSecretaryUnsigned v o1) (CRCProposalTracking_canonSecretaryUnsigned v o1 p)"
  unfolding CRCProposalTracking_SerializeSecretaryUnsigned_def CRCProposalTracking_DeserializeSecretaryUnsigned_def
    by (rule transfer_intros CRCProposalTrackingNewOwnerUnsigned_transfers | simp add: CRCProposalTracking_canonOwnerUnsigned_def CRCProposalTracking_canonNewOwnerUnsigned_def CRCProposalTracking_canonSecretaryUnsigned_def)+

lemma CRCProposalTracking_transfers:
  shows "transfers (CRCProposalTracking_Serialize v p) (CRCProposalTracking_Deserialize v o1) (CRCProposalTracking_canon v o1 p)"
  unfolding CRCProposalTracking_Serialize_def CRCProposalTracking_Deserialize_def
    by (rule transfer_intros CRCProposalTrackingSecretaryUnsigned_transfers | simp add: CRCProposalTracking_canonOwnerUnsigned_def CRCProposalTracking_canonNewOwnerUnsigned_def CRCProposalTracking_canonSecretaryUnsigned_def CRCProposalTracking_canon_def)+

interpretation proposal_tracking: versioned_codec CRCProposalTracking_Serialize
    "\<lambda>v. CRCProposalTracking_Deserialize v CRCProposalTracking_new" "\<lambda>_ _. True" "\<lambda>v. CRCProposalTracking_canon v CRCProposalTracking_new" CRCProposalTracking_Equal
  by (unfold_locales, rule CRCProposalTracking_transfers)
    (auto simp: CRCProposalTracking_DeserializeOwnerUnsigned_def CRCProposalTracking_DeserializeNewOwnerUnsigned_def CRCProposalTracking_DeserializeSecretaryUnsigned_def CRCProposalTracking_Deserialize_def CRCProposalTracking_Equal_def
      CRCProposalTracking_canonOwnerUnsigned_def CRCProposalTracking_canonNewOwnerUnsigned_def CRCProposalTracking_canonSecretaryUnsigned_def CRCProposalTracking_canon_def Address_eq_of_hash BigInt_set_getUint64 intro!: reader_intros)

lemma CRCProposalTracking_size:
  shows "wsize (CRCProposalTracking_Serialize v p)
    (CRCProposalTracking_EstimateSize v p +
     (if CRCProposalTrackingVersion01 \<le> v then varint_gap (word_of_nat (length (trk_messageData p))) else 0) +
     varint_gap (word_of_nat (length (trk_ownerPubKey p))) +
     varint_gap (word_of_nat (length (trk_newOwnerPubKey p))) +
     varint_gap (word_of_nat (length (trk_ownerSign p))) +
     varint_gap (word_of_nat (length (trk_newOwnerSign p))) +
     (if CRCProposalTrackingVersion01 \<le> v then varint_gap (word_of_nat (length (trk_secretaryGeneralOpinionData p))) else 0) +
     varint_gap (word_of_nat (length (trk_secretaryGeneralSignature p))))"
  unfolding CRCProposalTracking_SerializeOwnerUnsigned_def CRCProposalTracking_SerializeNewOwnerUnsigned_def CRCProposalTracking_SerializeSecretaryUnsigned_def CRCProposalTracking_Serialize_def
    by (rule wsize_eq, (rule size_intros)+) (simp add: CRCProposalTracking_EstimateSize_def)

definition CRCProposalTracking_DigestOwnerUnsigned :: "(bytes \<Rightarrow> uint256) \<Rightarrow> u8 \<Rightarrow> CRCProposalTracking \<Rightarrow> (uint256 \<times> CRCProposalTracking) outcome" where
  "CRCProposalTracking_DigestOwnerUnsigned sha256 version p =
     (if trk_digestOwnerUnsigned p = 0
      then obind (CRCProposalTracking_SerializeOwnerUnsigned version p empty_stream) (\<lambda>s.
        Ret (sha256 (buf s), p\<lparr>trk_digestOwnerUnsigned := sha256 (buf s)\<rparr>))
      else Ret (trk_digestOwnerUnsigned p, p))"


definition CRCProposalTracking_DigestNewOwnerUnsigned :: "(bytes \<Rightarrow> uint256) \<Rightarrow> u8 \<Rightarrow> CRCProposalTracking \<Rightarrow> (uint256 \<times> CRCProposalTracking) outcome" where
  "CRCProposalTracking_DigestNewOwnerUnsigned sha256 version p =
     (if trk_digestNewOwnerUnsigned p = 0
      then obind (CRCProposalTracking_SerializeNewOwnerUnsigned version p empty_stream) (\<lambda>s.
        Ret (sha256 (buf s), p\<lparr>trk_digestNewOwnerUnsigned := sha256 (buf s)\<rparr>))
      else Ret (trk_digestNewOwnerUnsigned p, p))"


definition CRCProposalTracking_DigestSecretaryUnsigned :: "(bytes \<Rightarrow> uint256) \<Rightarrow> u8 \<Rightarrow> CRCProposalTracking \<Rightarrow> (uint256 \<times> CRCProposalTracking) outcome" where
  "CRCProposalTracking_DigestSecretaryUnsigned sha256 version p =
     (if trk_digestSecretaryUnsigned p = 0
      then obind (CRCProposalTracking_SerializeSecretaryUnsigned version p empty_stream) (\<lambda>s.
        Ret (sha256 (buf s), p\<lparr>trk_digestSecretaryUnsigned := sha256 (buf s)\<rparr>))
      else Ret (trk_digestSecretaryUnsigned p, p))"

text \<open>
  Validity in stages: the owner's part, the owner's signature over it, the new owner's signature
  over both (when there is a new owner), the secretary's signature, which is not verified.
\<close>

definition CRCProposalTracking_IsValidOwnerUnsigned ::
    "key_check \<Rightarrow> u8 \<Rightarrow> CRCProposalTracking \<Rightarrow> bool" where
  "CRCProposalTracking_IsValidOwnerUnsigned keyValid version p \<longleftrightarrow>
     trk_stage p \<le> 127 \<and> Key_ok keyValid (trk_ownerPubKey p) \<and>
     (trk_newOwnerPubKey p \<noteq> [] \<longrightarrow> Key_ok keyValid (trk_newOwnerPubKey p))"

definition CRCProposalTracking_IsValidNewOwnerUnsigned ::
    "(bytes \<Rightarrow> uint256) \<Rightarrow> key_check \<Rightarrow> ecdsa_check \<Rightarrow> u8 \<Rightarrow>
     CRCProposalTracking \<Rightarrow> bool outcome" where
  "CRCProposalTracking_IsValidNewOwnerUnsigned sha256 keyValid ecdsa version p =
     (if \<not> CRCProposalTracking_IsValidOwnerUnsigned keyValid version p then Ret False
      else obind (CRCProposalTracking_DigestOwnerUnsigned sha256 version p) (\<lambda>(digest, _).
        caught (PubKey_Verify keyValid ecdsa (trk_ownerPubKey p) digest (trk_ownerSign p))))"

definition CRCProposalTracking_IsValidSecretaryUnsigned ::
    "(bytes \<Rightarrow> uint256) \<Rightarrow> key_check \<Rightarrow> ecdsa_check \<Rightarrow> u8 \<Rightarrow>
     CRCProposalTracking \<Rightarrow> bool outcome" where
  "CRCProposalTracking_IsValidSecretaryUnsigned sha256 keyValid ecdsa version p =
     obind (CRCProposalTracking_IsValidNewOwnerUnsigned sha256 keyValid ecdsa version p) (\<lambda>ok.
       if \<not> ok then Ret False
       else if trk_newOwnerPubKey p \<noteq> []
       then obind (CRCProposalTracking_DigestNewOwnerUnsigned sha256 version p) (\<lambda>(digest, _).
         obind (caught (PubKey_Verify keyValid ecdsa (trk_newOwnerPubKey p) digest (trk_newOwnerSign p)))
           (\<lambda>verified. Ret (verified \<and> trk_trackingType p < TrackingType_unknown)))
       else Ret (trk_trackingType p < TrackingType_unknown))"

definition CRCProposalTracking_IsValid ::
    "(bytes \<Rightarrow> uint256) \<Rightarrow> key_check \<Rightarrow> ecdsa_check \<Rightarrow> u8 \<Rightarrow>
     CRCProposalTracking \<Rightarrow> bool outcome" where
  "CRCProposalTracking_IsValid sha256 keyValid ecdsa version p =
     obind (CRCProposalTracking_IsValidSecretaryUnsigned sha256 keyValid ecdsa version p) (\<lambda>ok.
       Ret (ok \<and> trk_secretaryGeneralSignature p \<noteq> []))"

end
