(* ===== verification/CRCProposal.thy ===== *)
theory CRCProposal
  imports ChainPayloads AddressM KeyM
begin

text \<open>
  \<open>Payload/CRCProposal.{h,cpp}\<close>: the proposals to the council.  One class holds the fields of every
  kind of proposal; the type selects the layout, and each layout is signed in three stages (the
  owner's part, the council member's part over the owner's signature, the whole).  Its parts
  \<open>Budget\<close>, \<open>UpgradeCodeInfo\<close>, \<open>SideChainInfo\<close> and \<open>CustomIDFeeRateInfo\<close> come first.

  Parameters: \<open>sha256\<close>, and \<open>keyValid\<close> and \<open>ecdsa\<close> of \<open>KeyM\<close>.
\<close>

section \<open>The parts of a proposal\<close>

definition Budget_maxType :: u8 where "Budget_maxType = 0x03"

record Budget =
  bud_type :: u8
  bud_stage :: u8
  bud_amount :: BigInt

definition Budget_new :: Budget where
  "Budget_new = \<lparr>bud_type = 0, bud_stage = 0, bud_amount = 0\<rparr>"

definition Budget_Serialize :: "Budget \<Rightarrow> writer" where
  "Budget_Serialize b =
     wseq [WriteUint8 (bud_type b), WriteUint8 (bud_stage b),
           WriteUint64 (BigInt_getUint64 (bud_amount b))]"

definition Budget_Deserialize :: "Budget \<Rightarrow> Budget reader" where
  "Budget_Deserialize o1 =
     rbind ReadUint8 (\<lambda>ty.
     rbind ReadUint8 (\<lambda>stage.
     rbind ReadUint64 (\<lambda>amount.
       rret (o1\<lparr>bud_type := ty, bud_stage := stage, bud_amount := BigInt_setUint64 amount\<rparr>))))"

definition Budget_IsValid :: "Budget \<Rightarrow> bool" where
  "Budget_IsValid b \<longleftrightarrow> bud_type b < Budget_maxType \<and> bud_stage b \<le> 127"

definition Budget_eq :: "Budget \<Rightarrow> Budget \<Rightarrow> bool" where
  "Budget_eq a b \<longleftrightarrow>
     bud_type a = bud_type b \<and> bud_stage a = bud_stage b \<and> bud_amount a = bud_amount b"

record UpgradeCodeInfo =
  uci_workingHeight :: u32
  uci_nodeVersion :: string
  uci_nodeDownloadUrl :: string
  uci_nodeBinHash :: uint256
  uci_force :: bool

definition UpgradeCodeInfo_new :: UpgradeCodeInfo where
  "UpgradeCodeInfo_new =
     \<lparr>uci_workingHeight = 0, uci_nodeVersion = [], uci_nodeDownloadUrl = [], uci_nodeBinHash = 0,
      uci_force = False\<rparr>"

definition UpgradeCodeInfo_Serialize :: "u8 \<Rightarrow> UpgradeCodeInfo \<Rightarrow> writer" where
  "UpgradeCodeInfo_Serialize version i =
     wseq [WriteUint32 (uci_workingHeight i), WriteVarString (uci_nodeVersion i),
           WriteVarString (uci_nodeDownloadUrl i), WriteUint256 (uci_nodeBinHash i),
           WriteUint8 (if uci_force i then 0x01 else 0x00)]"

definition UpgradeCodeInfo_Deserialize :: "u8 \<Rightarrow> UpgradeCodeInfo \<Rightarrow> UpgradeCodeInfo reader" where
  "UpgradeCodeInfo_Deserialize version o1 =
     rbind ReadUint32 (\<lambda>workingHeight.
     rbind ReadVarString (\<lambda>nodeVersion.
     rbind ReadVarString (\<lambda>nodeDownloadUrl.
     rbind ReadUint256 (\<lambda>nodeBinHash.
     rbind ReadUint8 (\<lambda>force.
       rret (o1\<lparr>uci_workingHeight := workingHeight, uci_nodeVersion := nodeVersion,
               uci_nodeDownloadUrl := nodeDownloadUrl, uci_nodeBinHash := nodeBinHash,
               uci_force := (force \<noteq> 0)\<rparr>))))))"

definition UpgradeCodeInfo_IsValid :: "u8 \<Rightarrow> UpgradeCodeInfo \<Rightarrow> bool" where
  "UpgradeCodeInfo_IsValid version i = True"

record SideChainInfo =
  sci_sideChainName :: string
  sci_magicNumber :: u32
  sci_genesisHash :: uint256
  sci_exchangeRate :: u64
  sci_effectiveHeight :: u32
  sci_resourcePath :: string

definition SideChainInfo_new :: SideChainInfo where
  "SideChainInfo_new =
     \<lparr>sci_sideChainName = [], sci_magicNumber = 0, sci_genesisHash = 0, sci_exchangeRate = 0,
      sci_effectiveHeight = 0, sci_resourcePath = []\<rparr>"

definition SideChainInfo_Serialize :: "u8 \<Rightarrow> SideChainInfo \<Rightarrow> writer" where
  "SideChainInfo_Serialize version i =
     wseq [WriteVarString (sci_sideChainName i), WriteUint32 (sci_magicNumber i),
           WriteUint256 (sci_genesisHash i), WriteUint64 (sci_exchangeRate i),
           WriteUint32 (sci_effectiveHeight i), WriteVarString (sci_resourcePath i)]"

definition SideChainInfo_Deserialize :: "u8 \<Rightarrow> SideChainInfo \<Rightarrow> SideChainInfo reader" where
  "SideChainInfo_Deserialize version o1 =
     rbind ReadVarString (\<lambda>sideChainName.
     rbind ReadUint32 (\<lambda>magicNumber.
     rbind ReadUint256 (\<lambda>genesisHash.
     rbind ReadUint64 (\<lambda>exchangeRate.
     rbind ReadUint32 (\<lambda>effectiveHeight.
     rbind ReadVarString (\<lambda>resourcePath.
       rret (o1\<lparr>sci_sideChainName := sideChainName, sci_magicNumber := magicNumber,
               sci_genesisHash := genesisHash, sci_exchangeRate := exchangeRate,
               sci_effectiveHeight := effectiveHeight, sci_resourcePath := resourcePath\<rparr>)))))))"

definition SideChainInfo_IsValid :: "u8 \<Rightarrow> SideChainInfo \<Rightarrow> bool" where
  "SideChainInfo_IsValid version i = True"

definition SideChainInfo_eq :: "SideChainInfo \<Rightarrow> SideChainInfo \<Rightarrow> bool" where
  "SideChainInfo_eq a b \<longleftrightarrow>
     sci_sideChainName a = sci_sideChainName b \<and> sci_magicNumber a = sci_magicNumber b \<and>
     sci_genesisHash a = sci_genesisHash b \<and> sci_exchangeRate a = sci_exchangeRate b \<and>
     sci_effectiveHeight a = sci_effectiveHeight b \<and> sci_resourcePath a = sci_resourcePath b"

record CustomIDFeeRateInfo =
  cfi_rateOfCustomIDFee :: u64
  cfi_eIDEffectiveHeight :: u32

definition CustomIDFeeRateInfo_new :: CustomIDFeeRateInfo where
  "CustomIDFeeRateInfo_new = \<lparr>cfi_rateOfCustomIDFee = 0, cfi_eIDEffectiveHeight = 0\<rparr>"

definition CustomIDFeeRateInfo_Serialize :: "u8 \<Rightarrow> CustomIDFeeRateInfo \<Rightarrow> writer" where
  "CustomIDFeeRateInfo_Serialize version i =
     wseq [WriteUint64 (cfi_rateOfCustomIDFee i), WriteUint32 (cfi_eIDEffectiveHeight i)]"

definition CustomIDFeeRateInfo_Deserialize ::
    "u8 \<Rightarrow> CustomIDFeeRateInfo \<Rightarrow> CustomIDFeeRateInfo reader" where
  "CustomIDFeeRateInfo_Deserialize version o1 =
     rbind ReadUint64 (\<lambda>rateOfCustomIDFee.
     rbind ReadUint32 (\<lambda>eIDEffectiveHeight.
       rret (o1\<lparr>cfi_rateOfCustomIDFee := rateOfCustomIDFee,
               cfi_eIDEffectiveHeight := eIDEffectiveHeight\<rparr>)))"

definition CustomIDFeeRateInfo_eq :: "CustomIDFeeRateInfo \<Rightarrow> CustomIDFeeRateInfo \<Rightarrow> bool" where
  "CustomIDFeeRateInfo_eq a b \<longleftrightarrow>
     cfi_rateOfCustomIDFee a = cfi_rateOfCustomIDFee b \<and>
     cfi_eIDEffectiveHeight a = cfi_eIDEffectiveHeight b"

section \<open>The proposal\<close>

definition CRCProposalDefaultVersion :: u8 where "CRCProposalDefaultVersion = 0"
definition CRCProposalVersion01 :: u8 where "CRCProposalVersion01 = 0x01"

definition CRCProposal_normal :: u16 where "CRCProposal_normal = 0x0000"
definition CRCProposal_elip :: u16 where "CRCProposal_elip = 0x0100"
definition CRCProposal_mainChainUpgradeCode :: u16 where "CRCProposal_mainChainUpgradeCode = 0x0200"
definition CRCProposal_didUpdateCode :: u16 where "CRCProposal_didUpdateCode = 0x0201"
definition CRCProposal_ethUpdateCode :: u16 where "CRCProposal_ethUpdateCode = 0x0202"
definition CRCProposal_secretaryGeneralElection :: u16 where "CRCProposal_secretaryGeneralElection = 0x0400"
definition CRCProposal_changeProposalOwner :: u16 where "CRCProposal_changeProposalOwner = 0x0401"
definition CRCProposal_terminateProposal :: u16 where "CRCProposal_terminateProposal = 0x0402"
definition CRCProposal_registerSideChain :: u16 where "CRCProposal_registerSideChain = 0x0410"
definition CRCProposal_reserveCustomID :: u16 where "CRCProposal_reserveCustomID = 0x0500"
definition CRCProposal_receiveCustomID :: u16 where "CRCProposal_receiveCustomID = 0x0501"
definition CRCProposal_changeCustomIDFee :: u16 where "CRCProposal_changeCustomIDFee = 0x0502"
definition CRCProposal_maxType :: u16 where "CRCProposal_maxType = 0x0503"

lemmas proposal_types =
  CRCProposal_normal_def CRCProposal_elip_def CRCProposal_mainChainUpgradeCode_def
  CRCProposal_didUpdateCode_def CRCProposal_ethUpdateCode_def
  CRCProposal_secretaryGeneralElection_def CRCProposal_changeProposalOwner_def
  CRCProposal_terminateProposal_def CRCProposal_registerSideChain_def
  CRCProposal_reserveCustomID_def CRCProposal_receiveCustomID_def
  CRCProposal_changeCustomIDFee_def

record CRCProposal =
  crp_type :: u16
  crp_categoryData :: string
  crp_ownerPublicKey :: bytes
  crp_draftHash :: uint256
  crp_draftData :: bytes
  crp_budgets :: "Budget list"
  crp_recipient :: Address
  crp_targetProposalHash :: uint256
  crp_reservedCustomIDList :: "string list"
  crp_receivedCustomIDList :: "string list"
  crp_receiverDID :: Address
  crp_customIDFeeRateInfo :: CustomIDFeeRateInfo
  crp_newRecipient :: Address
  crp_newOwnerPublicKey :: bytes
  crp_secretaryPublicKey :: bytes
  crp_secretaryDID :: Address
  crp_signature :: bytes
  crp_newOwnerSignature :: bytes
  crp_secretarySignature :: bytes
  crp_upgradeCodeInfo :: UpgradeCodeInfo
  crp_sidechainInfo :: SideChainInfo
  crp_crCouncilMemberDID :: Address
  crp_crCouncilMemberSignature :: bytes

definition CRCProposal_new :: CRCProposal where
  "CRCProposal_new =
     \<lparr>crp_type = 0, crp_categoryData = '''', crp_ownerPublicKey = [], crp_draftHash = 0,
      crp_draftData = [], crp_budgets = [], crp_recipient = Address_new,
      crp_targetProposalHash = 0, crp_reservedCustomIDList = [],
      crp_receivedCustomIDList = [], crp_receiverDID = Address_new,
      crp_customIDFeeRateInfo = CustomIDFeeRateInfo_new, crp_newRecipient = Address_new,
      crp_newOwnerPublicKey = [], crp_secretaryPublicKey = [],
      crp_secretaryDID = Address_new, crp_signature = [], crp_newOwnerSignature = [],
      crp_secretarySignature = [], crp_upgradeCodeInfo = UpgradeCodeInfo_new,
      crp_sidechainInfo = SideChainInfo_new, crp_crCouncilMemberDID = Address_new,
      crp_crCouncilMemberSignature = []\<rparr>"

definition CRCProposal_assign :: "CRCProposal \<Rightarrow> CRCProposal \<Rightarrow> CRCProposal" where
  "CRCProposal_assign this p =
     this\<lparr>crp_type := crp_type p, crp_categoryData := crp_categoryData p,
          crp_ownerPublicKey := crp_ownerPublicKey p, crp_draftHash := crp_draftHash p,
          crp_draftData := crp_draftData p, crp_budgets := crp_budgets p,
          crp_recipient := crp_recipient p,
          crp_targetProposalHash := crp_targetProposalHash p,
          crp_reservedCustomIDList := crp_reservedCustomIDList p,
          crp_receivedCustomIDList := crp_receivedCustomIDList p,
          crp_receiverDID := crp_receiverDID p,
          crp_customIDFeeRateInfo := crp_customIDFeeRateInfo p,
          crp_newRecipient := crp_newRecipient p,
          crp_newOwnerPublicKey := crp_newOwnerPublicKey p,
          crp_secretaryPublicKey := crp_secretaryPublicKey p,
          crp_secretaryDID := crp_secretaryDID p, crp_signature := crp_signature p,
          crp_newOwnerSignature := crp_newOwnerSignature p,
          crp_secretarySignature := crp_secretarySignature p,
          crp_upgradeCodeInfo := crp_upgradeCodeInfo p,
          crp_sidechainInfo := crp_sidechainInfo p,
          crp_crCouncilMemberDID := crp_crCouncilMemberDID p,
          crp_crCouncilMemberSignature := crp_crCouncilMemberSignature p\<rparr>"

definition CRCProposal_EstimateSize :: "u8 \<Rightarrow> CRCProposal \<Rightarrow> nat" where
  "CRCProposal_EstimateSize version p =
     2 + bytes_EstimateSize (bytes_of_string (crp_categoryData p)) +
     bytes_EstimateSize (crp_ownerPublicKey p) +
     (if CRCProposalVersion01 \<le> version then bytes_EstimateSize (crp_draftData p) else 0) + 32 +
     (if crp_type p = CRCProposal_elip \<or> crp_type p = CRCProposal_normal
      then WriteVarUint_count (word_of_nat (length (crp_budgets p))) +
           (case wseq (map Budget_Serialize (crp_budgets p)) empty_stream of
              Ret s \<Rightarrow> length (buf s) | _ \<Rightarrow> 0) +
           21 + bytes_EstimateSize (crp_signature p)
      else if crp_type p = CRCProposal_secretaryGeneralElection
      then bytes_EstimateSize (crp_secretaryPublicKey p) + 21 +
           bytes_EstimateSize (crp_secretarySignature p) + bytes_EstimateSize (crp_signature p)
      else if crp_type p = CRCProposal_changeProposalOwner
      then 32 + 21 + bytes_EstimateSize (crp_newOwnerPublicKey p) +
           bytes_EstimateSize (crp_signature p) + bytes_EstimateSize (crp_newOwnerSignature p)
      else if crp_type p = CRCProposal_terminateProposal
      then bytes_EstimateSize (crp_signature p) + 32
      else 0) +
     21 + bytes_EstimateSize (crp_crCouncilMemberSignature p)"

section \<open>Normal\<close>

definition CRCProposal_SerializeOwnerUnsigned :: "u8 \<Rightarrow> CRCProposal \<Rightarrow> writer" where
  "CRCProposal_SerializeOwnerUnsigned version p =
     wseq [WriteUint16 (crp_type p), WriteVarString (crp_categoryData p),
           WriteVarBytes (crp_ownerPublicKey p), WriteUint256 (crp_draftHash p),
           (if CRCProposalVersion01 \<le> version then WriteVarBytes (crp_draftData p) else wseq []),
           write_items Budget_Serialize (crp_budgets p),
           WriteUint168 (addr_programHash (crp_recipient p))]"

definition CRCProposal_DeserializeOwnerUnsigned :: "u8 \<Rightarrow> CRCProposal \<Rightarrow> CRCProposal reader" where
  "CRCProposal_DeserializeOwnerUnsigned version o1 =
     rbind ReadVarString (\<lambda>categoryData.
     rbind ReadVarBytes (\<lambda>ownerPublicKey.
     rbind ReadUint256 (\<lambda>draftHash.
     rbind (if CRCProposalVersion01 \<le> version then ReadVarBytes else rret (crp_draftData o1)) (\<lambda>draftData.
     rbind (rbind ReadVarUint (\<lambda>n. read_each Budget_Deserialize (vec_resize (unat n) Budget_new (crp_budgets o1)))) (\<lambda>budgets.
     rbind ReadUint168 (\<lambda>recipient.
       rret (o1\<lparr>crp_categoryData := categoryData, crp_ownerPublicKey := ownerPublicKey,
               crp_draftHash := draftHash, crp_draftData := draftData,
               crp_budgets := budgets, crp_recipient := Address_of_hash recipient\<rparr>)))))))"

definition CRCProposal_SerializeCRCouncilMemberUnsigned :: "u8 \<Rightarrow> CRCProposal \<Rightarrow> writer" where
  "CRCProposal_SerializeCRCouncilMemberUnsigned version p =
     wseq [CRCProposal_SerializeOwnerUnsigned version p, WriteVarBytes (crp_signature p),
           WriteUint168 (addr_programHash (crp_crCouncilMemberDID p))]"

definition CRCProposal_DeserializeCRCouncilMemberUnsigned :: "u8 \<Rightarrow> CRCProposal \<Rightarrow> CRCProposal reader" where
  "CRCProposal_DeserializeCRCouncilMemberUnsigned version o1 =
     rbind (CRCProposal_DeserializeOwnerUnsigned version o1) (\<lambda>o2.
     rbind ReadVarBytes (\<lambda>signature.
     rbind ReadUint168 (\<lambda>crCouncilMemberDID.
       rret (o2\<lparr>crp_signature := signature,
               crp_crCouncilMemberDID := Address_of_hash crCouncilMemberDID\<rparr>))))"

definition CRCProposal_SerializeNormalOrELIP :: "u8 \<Rightarrow> CRCProposal \<Rightarrow> writer" where
  "CRCProposal_SerializeNormalOrELIP version p =
     wseq [CRCProposal_SerializeCRCouncilMemberUnsigned version p, WriteVarBytes (crp_crCouncilMemberSignature p)]"

definition CRCProposal_DeserializeNormalOrELIP :: "u8 \<Rightarrow> CRCProposal \<Rightarrow> CRCProposal reader" where
  "CRCProposal_DeserializeNormalOrELIP version o1 =
     rbind (CRCProposal_DeserializeCRCouncilMemberUnsigned version o1) (\<lambda>o2.
     rbind ReadVarBytes (\<lambda>crCouncilMemberSignature.
       rret (o2\<lparr>crp_crCouncilMemberSignature := crCouncilMemberSignature\<rparr>)))"

definition CRCProposal_DigestNormalOwnerUnsigned :: "(bytes \<Rightarrow> uint256) \<Rightarrow> u8 \<Rightarrow> CRCProposal \<Rightarrow> uint256 outcome" where
  "CRCProposal_DigestNormalOwnerUnsigned sha256 version p =
     obind (CRCProposal_SerializeOwnerUnsigned version p empty_stream) (\<lambda>s. Ret (sha256 (buf s)))"

definition CRCProposal_DigestNormalCRCouncilMemberUnsigned :: "(bytes \<Rightarrow> uint256) \<Rightarrow> u8 \<Rightarrow> CRCProposal \<Rightarrow> uint256 outcome" where
  "CRCProposal_DigestNormalCRCouncilMemberUnsigned sha256 version p =
     obind (CRCProposal_SerializeCRCouncilMemberUnsigned version p empty_stream) (\<lambda>s. Ret (sha256 (buf s)))"

definition CRCProposal_IsValidNormalOwnerUnsigned :: "key_check \<Rightarrow> u8 \<Rightarrow> CRCProposal \<Rightarrow> bool" where
  "CRCProposal_IsValidNormalOwnerUnsigned keyValid version p \<longleftrightarrow>
     crp_type p < CRCProposal_maxType \<and> length (crp_categoryData p) \<le> 4096 \<and>
     Key_ok keyValid (crp_ownerPublicKey p) \<and>
     list_all Budget_IsValid (crp_budgets p) \<and> addr_isValid (crp_recipient p)"

definition CRCProposal_IsValidNormalCRCouncilMemberUnsigned ::
    "(bytes \<Rightarrow> uint256) \<Rightarrow> key_check \<Rightarrow> ecdsa_check \<Rightarrow> u8 \<Rightarrow> CRCProposal \<Rightarrow> bool outcome" where
  "CRCProposal_IsValidNormalCRCouncilMemberUnsigned sha256 keyValid ecdsa version p =
     (if \<not> CRCProposal_IsValidNormalOwnerUnsigned keyValid version p then Ret False
      else obind (CRCProposal_DigestNormalOwnerUnsigned sha256 version p) (\<lambda>digest.
       obind (caught (PubKey_Verify keyValid ecdsa (crp_ownerPublicKey p) digest (crp_signature p))) (\<lambda>ok.
       if \<not> ok then Ret False else
       Ret (addr_isValid (crp_crCouncilMemberDID p)))))"

section \<open>ChangeOwner\<close>

definition CRCProposal_SerializeChangeOwnerUnsigned :: "u8 \<Rightarrow> CRCProposal \<Rightarrow> writer" where
  "CRCProposal_SerializeChangeOwnerUnsigned version p =
     wseq [WriteUint16 (crp_type p), WriteVarString (crp_categoryData p),
           WriteVarBytes (crp_ownerPublicKey p), WriteUint256 (crp_draftHash p),
           (if CRCProposalVersion01 \<le> version then WriteVarBytes (crp_draftData p) else wseq []),
           WriteUint256 (crp_targetProposalHash p),
           WriteUint168 (addr_programHash (crp_newRecipient p)),
           WriteVarBytes (crp_newOwnerPublicKey p)]"

definition CRCProposal_DeserializeChangeOwnerUnsigned :: "u8 \<Rightarrow> CRCProposal \<Rightarrow> CRCProposal reader" where
  "CRCProposal_DeserializeChangeOwnerUnsigned version o1 =
     rbind ReadVarString (\<lambda>categoryData.
     rbind ReadVarBytes (\<lambda>ownerPublicKey.
     rbind ReadUint256 (\<lambda>draftHash.
     rbind (if CRCProposalVersion01 \<le> version then ReadVarBytes else rret (crp_draftData o1)) (\<lambda>draftData.
     rbind ReadUint256 (\<lambda>targetProposalHash.
     rbind ReadUint168 (\<lambda>newRecipient.
     rbind ReadVarBytes (\<lambda>newOwnerPublicKey.
       rret (o1\<lparr>crp_categoryData := categoryData, crp_ownerPublicKey := ownerPublicKey,
               crp_draftHash := draftHash, crp_draftData := draftData,
               crp_targetProposalHash := targetProposalHash,
               crp_newRecipient := Address_of_hash newRecipient,
               crp_newOwnerPublicKey := newOwnerPublicKey\<rparr>))))))))"

definition CRCProposal_SerializeChangeOwnerCRCouncilMemberUnsigned :: "u8 \<Rightarrow> CRCProposal \<Rightarrow> writer" where
  "CRCProposal_SerializeChangeOwnerCRCouncilMemberUnsigned version p =
     wseq [CRCProposal_SerializeChangeOwnerUnsigned version p,
           WriteVarBytes (crp_signature p), WriteVarBytes (crp_newOwnerSignature p),
           WriteUint168 (addr_programHash (crp_crCouncilMemberDID p))]"

definition CRCProposal_DeserializeChangeOwnerCRCouncilMemberUnsigned :: "u8 \<Rightarrow> CRCProposal \<Rightarrow> CRCProposal reader" where
  "CRCProposal_DeserializeChangeOwnerCRCouncilMemberUnsigned version o1 =
     rbind (CRCProposal_DeserializeChangeOwnerUnsigned version o1) (\<lambda>o2.
     rbind ReadVarBytes (\<lambda>signature.
     rbind ReadVarBytes (\<lambda>newOwnerSignature.
     rbind ReadUint168 (\<lambda>crCouncilMemberDID.
       rret (o2\<lparr>crp_signature := signature, crp_newOwnerSignature := newOwnerSignature,
               crp_crCouncilMemberDID := Address_of_hash crCouncilMemberDID\<rparr>)))))"

definition CRCProposal_SerializeChangeOwner :: "u8 \<Rightarrow> CRCProposal \<Rightarrow> writer" where
  "CRCProposal_SerializeChangeOwner version p =
     wseq [CRCProposal_SerializeChangeOwnerCRCouncilMemberUnsigned version p, WriteVarBytes (crp_crCouncilMemberSignature p)]"

definition CRCProposal_DeserializeChangeOwner :: "u8 \<Rightarrow> CRCProposal \<Rightarrow> CRCProposal reader" where
  "CRCProposal_DeserializeChangeOwner version o1 =
     rbind (CRCProposal_DeserializeChangeOwnerCRCouncilMemberUnsigned version o1) (\<lambda>o2.
     rbind ReadVarBytes (\<lambda>crCouncilMemberSignature.
       rret (o2\<lparr>crp_crCouncilMemberSignature := crCouncilMemberSignature\<rparr>)))"

definition CRCProposal_DigestChangeOwnerUnsigned :: "(bytes \<Rightarrow> uint256) \<Rightarrow> u8 \<Rightarrow> CRCProposal \<Rightarrow> uint256 outcome" where
  "CRCProposal_DigestChangeOwnerUnsigned sha256 version p =
     obind (CRCProposal_SerializeChangeOwnerUnsigned version p empty_stream) (\<lambda>s. Ret (sha256 (buf s)))"

definition CRCProposal_DigestChangeOwnerCRCouncilMemberUnsigned :: "(bytes \<Rightarrow> uint256) \<Rightarrow> u8 \<Rightarrow> CRCProposal \<Rightarrow> uint256 outcome" where
  "CRCProposal_DigestChangeOwnerCRCouncilMemberUnsigned sha256 version p =
     obind (CRCProposal_SerializeChangeOwnerCRCouncilMemberUnsigned version p empty_stream) (\<lambda>s. Ret (sha256 (buf s)))"

definition CRCProposal_IsValidChangeOwnerUnsigned :: "key_check \<Rightarrow> u8 \<Rightarrow> CRCProposal \<Rightarrow> bool" where
  "CRCProposal_IsValidChangeOwnerUnsigned keyValid version p \<longleftrightarrow>
     crp_type p = CRCProposal_changeProposalOwner \<and>
     length (crp_categoryData p) \<le> 4096 \<and>
     Key_ok keyValid (crp_ownerPublicKey p) \<and>
     Key_ok keyValid (crp_newOwnerPublicKey p) \<and>
     crp_draftHash p \<noteq> 0 \<and> crp_targetProposalHash p \<noteq> 0 \<and> addr_isValid (crp_newRecipient p)"

definition CRCProposal_IsValidChangeOwnerCRCouncilMemberUnsigned ::
    "(bytes \<Rightarrow> uint256) \<Rightarrow> key_check \<Rightarrow> ecdsa_check \<Rightarrow> u8 \<Rightarrow> CRCProposal \<Rightarrow> bool outcome" where
  "CRCProposal_IsValidChangeOwnerCRCouncilMemberUnsigned sha256 keyValid ecdsa version p =
     (if \<not> CRCProposal_IsValidChangeOwnerUnsigned keyValid version p then Ret False
      else obind (CRCProposal_DigestChangeOwnerUnsigned sha256 version p) (\<lambda>digest.
       obind (caught (PubKey_Verify keyValid ecdsa (crp_ownerPublicKey p) digest (crp_signature p))) (\<lambda>ok.
       if \<not> ok then Ret False else
       obind (caught (PubKey_Verify keyValid ecdsa (crp_newOwnerPublicKey p) digest (crp_newOwnerSignature p))) (\<lambda>ok.
       if \<not> ok then Ret False else
       Ret (addr_isValid (crp_crCouncilMemberDID p))))))"

section \<open>TerminateProposal\<close>

definition CRCProposal_SerializeTerminateProposalUnsigned :: "u8 \<Rightarrow> CRCProposal \<Rightarrow> writer" where
  "CRCProposal_SerializeTerminateProposalUnsigned version p =
     wseq [WriteUint16 (crp_type p), WriteVarString (crp_categoryData p),
           WriteVarBytes (crp_ownerPublicKey p), WriteUint256 (crp_draftHash p),
           (if CRCProposalVersion01 \<le> version then WriteVarBytes (crp_draftData p) else wseq []),
           WriteUint256 (crp_targetProposalHash p)]"

definition CRCProposal_DeserializeTerminateProposalUnsigned :: "u8 \<Rightarrow> CRCProposal \<Rightarrow> CRCProposal reader" where
  "CRCProposal_DeserializeTerminateProposalUnsigned version o1 =
     rbind ReadVarString (\<lambda>categoryData.
     rbind ReadVarBytes (\<lambda>ownerPublicKey.
     rbind ReadUint256 (\<lambda>draftHash.
     rbind (if CRCProposalVersion01 \<le> version then ReadVarBytes else rret (crp_draftData o1)) (\<lambda>draftData.
     rbind ReadUint256 (\<lambda>targetProposalHash.
       rret (o1\<lparr>crp_categoryData := categoryData, crp_ownerPublicKey := ownerPublicKey,
               crp_draftHash := draftHash, crp_draftData := draftData,
               crp_targetProposalHash := targetProposalHash\<rparr>))))))"

definition CRCProposal_SerializeTerminateProposalCRCouncilMemberUnsigned :: "u8 \<Rightarrow> CRCProposal \<Rightarrow> writer" where
  "CRCProposal_SerializeTerminateProposalCRCouncilMemberUnsigned version p =
     wseq [CRCProposal_SerializeTerminateProposalUnsigned version p,
           WriteVarBytes (crp_signature p),
           WriteUint168 (addr_programHash (crp_crCouncilMemberDID p))]"

definition CRCProposal_DeserializeTerminateProposalCRCouncilMemberUnsigned :: "u8 \<Rightarrow> CRCProposal \<Rightarrow> CRCProposal reader" where
  "CRCProposal_DeserializeTerminateProposalCRCouncilMemberUnsigned version o1 =
     rbind (CRCProposal_DeserializeTerminateProposalUnsigned version o1) (\<lambda>o2.
     rbind ReadVarBytes (\<lambda>signature.
     rbind ReadUint168 (\<lambda>crCouncilMemberDID.
       rret (o2\<lparr>crp_signature := signature,
               crp_crCouncilMemberDID := Address_of_hash crCouncilMemberDID\<rparr>))))"

definition CRCProposal_SerializeTerminateProposal :: "u8 \<Rightarrow> CRCProposal \<Rightarrow> writer" where
  "CRCProposal_SerializeTerminateProposal version p =
     wseq [CRCProposal_SerializeTerminateProposalCRCouncilMemberUnsigned version p, WriteVarBytes (crp_crCouncilMemberSignature p)]"

definition CRCProposal_DeserializeTerminateProposal :: "u8 \<Rightarrow> CRCProposal \<Rightarrow> CRCProposal reader" where
  "CRCProposal_DeserializeTerminateProposal version o1 =
     rbind (CRCProposal_DeserializeTerminateProposalCRCouncilMemberUnsigned version o1) (\<lambda>o2.
     rbind ReadVarBytes (\<lambda>crCouncilMemberSignature.
       rret (o2\<lparr>crp_crCouncilMemberSignature := crCouncilMemberSignature\<rparr>)))"

definition CRCProposal_DigestTerminateProposalOwnerUnsigned :: "(bytes \<Rightarrow> uint256) \<Rightarrow> u8 \<Rightarrow> CRCProposal \<Rightarrow> uint256 outcome" where
  "CRCProposal_DigestTerminateProposalOwnerUnsigned sha256 version p =
     obind (CRCProposal_SerializeTerminateProposalUnsigned version p empty_stream) (\<lambda>s. Ret (sha256 (buf s)))"

definition CRCProposal_DigestTerminateProposalCRCouncilMemberUnsigned :: "(bytes \<Rightarrow> uint256) \<Rightarrow> u8 \<Rightarrow> CRCProposal \<Rightarrow> uint256 outcome" where
  "CRCProposal_DigestTerminateProposalCRCouncilMemberUnsigned sha256 version p =
     obind (CRCProposal_SerializeTerminateProposalCRCouncilMemberUnsigned version p empty_stream) (\<lambda>s. Ret (sha256 (buf s)))"

definition CRCProposal_IsValidTerminateProposalOwnerUnsigned :: "key_check \<Rightarrow> u8 \<Rightarrow> CRCProposal \<Rightarrow> bool" where
  "CRCProposal_IsValidTerminateProposalOwnerUnsigned keyValid version p \<longleftrightarrow>
     crp_type p = CRCProposal_terminateProposal \<and>
     length (crp_categoryData p) \<le> 4096 \<and>
     Key_ok keyValid (crp_ownerPublicKey p) \<and>
     crp_draftHash p \<noteq> 0 \<and> crp_targetProposalHash p \<noteq> 0"

definition CRCProposal_IsValidTerminateProposalCRCouncilMemberUnsigned ::
    "(bytes \<Rightarrow> uint256) \<Rightarrow> key_check \<Rightarrow> ecdsa_check \<Rightarrow> u8 \<Rightarrow> CRCProposal \<Rightarrow> bool outcome" where
  "CRCProposal_IsValidTerminateProposalCRCouncilMemberUnsigned sha256 keyValid ecdsa version p =
     (if \<not> CRCProposal_IsValidTerminateProposalOwnerUnsigned keyValid version p then Ret False
      else obind (CRCProposal_DigestTerminateProposalOwnerUnsigned sha256 version p) (\<lambda>digest.
       obind (caught (PubKey_Verify keyValid ecdsa (crp_ownerPublicKey p) digest (crp_signature p))) (\<lambda>ok.
       if \<not> ok then Ret False else
       Ret (addr_isValid (crp_crCouncilMemberDID p)))))"

section \<open>SecretaryElection\<close>

definition CRCProposal_SerializeSecretaryElectionUnsigned :: "u8 \<Rightarrow> CRCProposal \<Rightarrow> writer" where
  "CRCProposal_SerializeSecretaryElectionUnsigned version p =
     wseq [WriteUint16 (crp_type p), WriteVarString (crp_categoryData p),
           WriteVarBytes (crp_ownerPublicKey p), WriteUint256 (crp_draftHash p),
           (if CRCProposalVersion01 \<le> version then WriteVarBytes (crp_draftData p) else wseq []),
           WriteVarBytes (crp_secretaryPublicKey p),
           WriteUint168 (addr_programHash (crp_secretaryDID p))]"

definition CRCProposal_DeserializeSecretaryElectionUnsigned :: "u8 \<Rightarrow> CRCProposal \<Rightarrow> CRCProposal reader" where
  "CRCProposal_DeserializeSecretaryElectionUnsigned version o1 =
     rbind ReadVarString (\<lambda>categoryData.
     rbind ReadVarBytes (\<lambda>ownerPublicKey.
     rbind ReadUint256 (\<lambda>draftHash.
     rbind (if CRCProposalVersion01 \<le> version then ReadVarBytes else rret (crp_draftData o1)) (\<lambda>draftData.
     rbind ReadVarBytes (\<lambda>secretaryPublicKey.
     rbind ReadUint168 (\<lambda>secretaryDID.
       rret (o1\<lparr>crp_categoryData := categoryData, crp_ownerPublicKey := ownerPublicKey,
               crp_draftHash := draftHash, crp_draftData := draftData,
               crp_secretaryPublicKey := secretaryPublicKey,
               crp_secretaryDID := Address_of_hash secretaryDID\<rparr>)))))))"

definition CRCProposal_SerializeSecretaryElectionCRCouncilMemberUnsigned :: "u8 \<Rightarrow> CRCProposal \<Rightarrow> writer" where
  "CRCProposal_SerializeSecretaryElectionCRCouncilMemberUnsigned version p =
     wseq [CRCProposal_SerializeSecretaryElectionUnsigned version p,
           WriteVarBytes (crp_signature p), WriteVarBytes (crp_secretarySignature p),
           WriteUint168 (addr_programHash (crp_crCouncilMemberDID p))]"

definition CRCProposal_DeserializeSecretaryElectionCRCouncilMemberUnsigned :: "u8 \<Rightarrow> CRCProposal \<Rightarrow> CRCProposal reader" where
  "CRCProposal_DeserializeSecretaryElectionCRCouncilMemberUnsigned version o1 =
     rbind (CRCProposal_DeserializeSecretaryElectionUnsigned version o1) (\<lambda>o2.
     rbind ReadVarBytes (\<lambda>signature.
     rbind ReadVarBytes (\<lambda>secretarySignature.
     rbind ReadUint168 (\<lambda>crCouncilMemberDID.
       rret (o2\<lparr>crp_signature := signature, crp_secretarySignature := secretarySignature,
               crp_crCouncilMemberDID := Address_of_hash crCouncilMemberDID\<rparr>)))))"

definition CRCProposal_SerializeSecretaryElection :: "u8 \<Rightarrow> CRCProposal \<Rightarrow> writer" where
  "CRCProposal_SerializeSecretaryElection version p =
     wseq [CRCProposal_SerializeSecretaryElectionCRCouncilMemberUnsigned version p, WriteVarBytes (crp_crCouncilMemberSignature p)]"

definition CRCProposal_DeserializeSecretaryElection :: "u8 \<Rightarrow> CRCProposal \<Rightarrow> CRCProposal reader" where
  "CRCProposal_DeserializeSecretaryElection version o1 =
     rbind (CRCProposal_DeserializeSecretaryElectionCRCouncilMemberUnsigned version o1) (\<lambda>o2.
     rbind ReadVarBytes (\<lambda>crCouncilMemberSignature.
       rret (o2\<lparr>crp_crCouncilMemberSignature := crCouncilMemberSignature\<rparr>)))"

definition CRCProposal_DigestSecretaryElectionUnsigned :: "(bytes \<Rightarrow> uint256) \<Rightarrow> u8 \<Rightarrow> CRCProposal \<Rightarrow> uint256 outcome" where
  "CRCProposal_DigestSecretaryElectionUnsigned sha256 version p =
     obind (CRCProposal_SerializeSecretaryElectionUnsigned version p empty_stream) (\<lambda>s. Ret (sha256 (buf s)))"

definition CRCProposal_DigestSecretaryElectionCRCouncilMemberUnsigned :: "(bytes \<Rightarrow> uint256) \<Rightarrow> u8 \<Rightarrow> CRCProposal \<Rightarrow> uint256 outcome" where
  "CRCProposal_DigestSecretaryElectionCRCouncilMemberUnsigned sha256 version p =
     obind (CRCProposal_SerializeSecretaryElectionCRCouncilMemberUnsigned version p empty_stream) (\<lambda>s. Ret (sha256 (buf s)))"

definition CRCProposal_IsValidSecretaryElectionUnsigned :: "key_check \<Rightarrow> u8 \<Rightarrow> CRCProposal \<Rightarrow> bool" where
  "CRCProposal_IsValidSecretaryElectionUnsigned keyValid version p \<longleftrightarrow>
     crp_type p = CRCProposal_secretaryGeneralElection \<and>
     length (crp_categoryData p) \<le> 4096 \<and>
     Key_ok keyValid (crp_ownerPublicKey p) \<and>
     Key_ok keyValid (crp_secretaryPublicKey p) \<and> addr_isValid (crp_secretaryDID p)"

definition CRCProposal_IsValidSecretaryElectionCRCouncilMemberUnsigned ::
    "(bytes \<Rightarrow> uint256) \<Rightarrow> key_check \<Rightarrow> ecdsa_check \<Rightarrow> u8 \<Rightarrow> CRCProposal \<Rightarrow> bool outcome" where
  "CRCProposal_IsValidSecretaryElectionCRCouncilMemberUnsigned sha256 keyValid ecdsa version p =
     (if \<not> CRCProposal_IsValidSecretaryElectionUnsigned keyValid version p then Ret False
      else obind (CRCProposal_DigestSecretaryElectionUnsigned sha256 version p) (\<lambda>digest.
       obind (caught (PubKey_Verify keyValid ecdsa (crp_ownerPublicKey p) digest (crp_signature p))) (\<lambda>ok.
       if \<not> ok then Ret False else
       obind (caught (PubKey_Verify keyValid ecdsa (crp_secretaryPublicKey p) digest (crp_secretarySignature p))) (\<lambda>ok.
       if \<not> ok then Ret False else
       Ret (addr_isValid (crp_crCouncilMemberDID p))))))"

section \<open>ReserveCustomID\<close>

definition CRCProposal_SerializeReserveCustomIDUnsigned :: "u8 \<Rightarrow> CRCProposal \<Rightarrow> writer" where
  "CRCProposal_SerializeReserveCustomIDUnsigned version p =
     wseq [WriteUint16 (crp_type p), WriteVarString (crp_categoryData p),
           WriteVarBytes (crp_ownerPublicKey p), WriteUint256 (crp_draftHash p),
           (if CRCProposalVersion01 \<le> version then WriteVarBytes (crp_draftData p) else wseq []),
           write_items WriteVarString (crp_reservedCustomIDList p)]"

definition CRCProposal_DeserializeReserveCustomIDUnsigned :: "u8 \<Rightarrow> CRCProposal \<Rightarrow> CRCProposal reader" where
  "CRCProposal_DeserializeReserveCustomIDUnsigned version o1 =
     rbind ReadVarString (\<lambda>categoryData.
     rbind ReadVarBytes (\<lambda>ownerPublicKey.
     rbind ReadUint256 (\<lambda>draftHash.
     rbind (if CRCProposalVersion01 \<le> version then ReadVarBytes else rret (crp_draftData o1)) (\<lambda>draftData.
     rbind (read_items ReadVarString) (\<lambda>reservedCustomIDList.
       rret (o1\<lparr>crp_categoryData := categoryData, crp_ownerPublicKey := ownerPublicKey,
               crp_draftHash := draftHash, crp_draftData := draftData,
               crp_reservedCustomIDList := crp_reservedCustomIDList o1 @ reservedCustomIDList\<rparr>))))))"

definition CRCProposal_SerializeReserveCustomIDCRCouncilMemberUnsigned :: "u8 \<Rightarrow> CRCProposal \<Rightarrow> writer" where
  "CRCProposal_SerializeReserveCustomIDCRCouncilMemberUnsigned version p =
     wseq [CRCProposal_SerializeReserveCustomIDUnsigned version p,
           WriteVarBytes (crp_signature p),
           WriteUint168 (addr_programHash (crp_crCouncilMemberDID p))]"

definition CRCProposal_DeserializeReserveCustomIDCRCouncilMemberUnsigned :: "u8 \<Rightarrow> CRCProposal \<Rightarrow> CRCProposal reader" where
  "CRCProposal_DeserializeReserveCustomIDCRCouncilMemberUnsigned version o1 =
     rbind (CRCProposal_DeserializeReserveCustomIDUnsigned version o1) (\<lambda>o2.
     rbind ReadVarBytes (\<lambda>signature.
     rbind ReadUint168 (\<lambda>crCouncilMemberDID.
       rret (o2\<lparr>crp_signature := signature,
               crp_crCouncilMemberDID := Address_of_hash crCouncilMemberDID\<rparr>))))"

definition CRCProposal_SerializeReserveCustomID :: "u8 \<Rightarrow> CRCProposal \<Rightarrow> writer" where
  "CRCProposal_SerializeReserveCustomID version p =
     wseq [CRCProposal_SerializeReserveCustomIDCRCouncilMemberUnsigned version p, WriteVarBytes (crp_crCouncilMemberSignature p)]"

definition CRCProposal_DeserializeReserveCustomID :: "u8 \<Rightarrow> CRCProposal \<Rightarrow> CRCProposal reader" where
  "CRCProposal_DeserializeReserveCustomID version o1 =
     rbind (CRCProposal_DeserializeReserveCustomIDCRCouncilMemberUnsigned version o1) (\<lambda>o2.
     rbind ReadVarBytes (\<lambda>crCouncilMemberSignature.
       rret (o2\<lparr>crp_crCouncilMemberSignature := crCouncilMemberSignature\<rparr>)))"

definition CRCProposal_DigestReserveCustomIDOwnerUnsigned :: "(bytes \<Rightarrow> uint256) \<Rightarrow> u8 \<Rightarrow> CRCProposal \<Rightarrow> uint256 outcome" where
  "CRCProposal_DigestReserveCustomIDOwnerUnsigned sha256 version p =
     obind (CRCProposal_SerializeReserveCustomIDUnsigned version p empty_stream) (\<lambda>s. Ret (sha256 (buf s)))"

definition CRCProposal_DigestReserveCustomIDCRCouncilMemberUnsigned :: "(bytes \<Rightarrow> uint256) \<Rightarrow> u8 \<Rightarrow> CRCProposal \<Rightarrow> uint256 outcome" where
  "CRCProposal_DigestReserveCustomIDCRCouncilMemberUnsigned sha256 version p =
     obind (CRCProposal_SerializeReserveCustomIDCRCouncilMemberUnsigned version p empty_stream) (\<lambda>s. Ret (sha256 (buf s)))"

definition CRCProposal_IsValidReserveCustomIDOwnerUnsigned :: "key_check \<Rightarrow> u8 \<Rightarrow> CRCProposal \<Rightarrow> bool" where
  "CRCProposal_IsValidReserveCustomIDOwnerUnsigned keyValid version p \<longleftrightarrow>
     crp_type p = CRCProposal_reserveCustomID \<and>
     length (crp_categoryData p) \<le> 4096 \<and> Key_ok keyValid (crp_ownerPublicKey p)"

definition CRCProposal_IsValidReserveCustomIDCRCouncilMemberUnsigned ::
    "(bytes \<Rightarrow> uint256) \<Rightarrow> key_check \<Rightarrow> ecdsa_check \<Rightarrow> u8 \<Rightarrow> CRCProposal \<Rightarrow> bool outcome" where
  "CRCProposal_IsValidReserveCustomIDCRCouncilMemberUnsigned sha256 keyValid ecdsa version p =
     (if \<not> CRCProposal_IsValidReserveCustomIDOwnerUnsigned keyValid version p then Ret False
      else obind (CRCProposal_DigestReserveCustomIDOwnerUnsigned sha256 version p) (\<lambda>digest.
       obind (caught (PubKey_Verify keyValid ecdsa (crp_ownerPublicKey p) digest (crp_signature p))) (\<lambda>ok.
       if \<not> ok then Ret False else
       Ret (addr_isValid (crp_crCouncilMemberDID p)))))"

section \<open>ReceiveCustomID\<close>

definition CRCProposal_SerializeReceiveCustomIDUnsigned :: "u8 \<Rightarrow> CRCProposal \<Rightarrow> writer" where
  "CRCProposal_SerializeReceiveCustomIDUnsigned version p =
     wseq [WriteUint16 (crp_type p), WriteVarString (crp_categoryData p),
           WriteVarBytes (crp_ownerPublicKey p), WriteUint256 (crp_draftHash p),
           (if CRCProposalVersion01 \<le> version then WriteVarBytes (crp_draftData p) else wseq []),
           write_items WriteVarString (crp_receivedCustomIDList p),
           WriteUint168 (addr_programHash (crp_receiverDID p))]"

definition CRCProposal_DeserializeReceiveCustomIDUnsigned :: "u8 \<Rightarrow> CRCProposal \<Rightarrow> CRCProposal reader" where
  "CRCProposal_DeserializeReceiveCustomIDUnsigned version o1 =
     rbind ReadVarString (\<lambda>categoryData.
     rbind ReadVarBytes (\<lambda>ownerPublicKey.
     rbind ReadUint256 (\<lambda>draftHash.
     rbind (if CRCProposalVersion01 \<le> version then ReadVarBytes else rret (crp_draftData o1)) (\<lambda>draftData.
     rbind (read_items ReadVarString) (\<lambda>receivedCustomIDList.
     rbind ReadUint168 (\<lambda>receiverDID.
       rret (o1\<lparr>crp_categoryData := categoryData, crp_ownerPublicKey := ownerPublicKey,
               crp_draftHash := draftHash, crp_draftData := draftData,
               crp_receivedCustomIDList := crp_receivedCustomIDList o1 @ receivedCustomIDList,
               crp_receiverDID := Address_of_hash receiverDID\<rparr>)))))))"

definition CRCProposal_SerializeReceiveCustomIDCRCCouncilMemberUnsigned :: "u8 \<Rightarrow> CRCProposal \<Rightarrow> writer" where
  "CRCProposal_SerializeReceiveCustomIDCRCCouncilMemberUnsigned version p =
     wseq [CRCProposal_SerializeReceiveCustomIDUnsigned version p,
           WriteVarBytes (crp_signature p),
           WriteUint168 (addr_programHash (crp_crCouncilMemberDID p))]"

definition CRCProposal_DeserializeReceiveCustomIDCRCCouncilMemberUnsigned :: "u8 \<Rightarrow> CRCProposal \<Rightarrow> CRCProposal reader" where
  "CRCProposal_DeserializeReceiveCustomIDCRCCouncilMemberUnsigned version o1 =
     rbind (CRCProposal_DeserializeReceiveCustomIDUnsigned version o1) (\<lambda>o2.
     rbind ReadVarBytes (\<lambda>signature.
     rbind ReadUint168 (\<lambda>crCouncilMemberDID.
       rret (o2\<lparr>crp_signature := signature,
               crp_crCouncilMemberDID := Address_of_hash crCouncilMemberDID\<rparr>))))"

definition CRCProposal_SerializeReceiveCustomID :: "u8 \<Rightarrow> CRCProposal \<Rightarrow> writer" where
  "CRCProposal_SerializeReceiveCustomID version p =
     wseq [CRCProposal_SerializeReceiveCustomIDCRCCouncilMemberUnsigned version p, WriteVarBytes (crp_crCouncilMemberSignature p)]"

definition CRCProposal_DeserializeReceiveCustomID :: "u8 \<Rightarrow> CRCProposal \<Rightarrow> CRCProposal reader" where
  "CRCProposal_DeserializeReceiveCustomID version o1 =
     rbind (CRCProposal_DeserializeReceiveCustomIDCRCCouncilMemberUnsigned version o1) (\<lambda>o2.
     rbind ReadVarBytes (\<lambda>crCouncilMemberSignature.
       rret (o2\<lparr>crp_crCouncilMemberSignature := crCouncilMemberSignature\<rparr>)))"

definition CRCProposal_DigestReceiveCustomIDOwnerUnsigned :: "(bytes \<Rightarrow> uint256) \<Rightarrow> u8 \<Rightarrow> CRCProposal \<Rightarrow> uint256 outcome" where
  "CRCProposal_DigestReceiveCustomIDOwnerUnsigned sha256 version p =
     obind (CRCProposal_SerializeReceiveCustomIDUnsigned version p empty_stream) (\<lambda>s. Ret (sha256 (buf s)))"

definition CRCProposal_DigestReceiveCustomIDCRCouncilMemberUnsigned :: "(bytes \<Rightarrow> uint256) \<Rightarrow> u8 \<Rightarrow> CRCProposal \<Rightarrow> uint256 outcome" where
  "CRCProposal_DigestReceiveCustomIDCRCouncilMemberUnsigned sha256 version p =
     obind (CRCProposal_SerializeReceiveCustomIDCRCCouncilMemberUnsigned version p empty_stream) (\<lambda>s. Ret (sha256 (buf s)))"

definition CRCProposal_IsValidReceiveCustomIDOwnerUnsigned :: "key_check \<Rightarrow> u8 \<Rightarrow> CRCProposal \<Rightarrow> bool" where
  "CRCProposal_IsValidReceiveCustomIDOwnerUnsigned keyValid version p \<longleftrightarrow>
     crp_type p = CRCProposal_receiveCustomID \<and>
     length (crp_categoryData p) \<le> 4096 \<and> Key_ok keyValid (crp_ownerPublicKey p)"

definition CRCProposal_IsValidReceiveCustomIDCRCouncilMemberUnsigned ::
    "(bytes \<Rightarrow> uint256) \<Rightarrow> key_check \<Rightarrow> ecdsa_check \<Rightarrow> u8 \<Rightarrow> CRCProposal \<Rightarrow> bool outcome" where
  "CRCProposal_IsValidReceiveCustomIDCRCouncilMemberUnsigned sha256 keyValid ecdsa version p =
     (if \<not> CRCProposal_IsValidReceiveCustomIDOwnerUnsigned keyValid version p then Ret False
      else obind (CRCProposal_DigestReceiveCustomIDOwnerUnsigned sha256 version p) (\<lambda>digest.
       obind (caught (PubKey_Verify keyValid ecdsa (crp_ownerPublicKey p) digest (crp_signature p))) (\<lambda>ok.
       if \<not> ok then Ret False else
       Ret (addr_isValid (crp_crCouncilMemberDID p)))))"

section \<open>ChangeCustomIDFee\<close>

definition CRCProposal_SerializeChangeCustomIDFeeUnsigned :: "u8 \<Rightarrow> CRCProposal \<Rightarrow> writer" where
  "CRCProposal_SerializeChangeCustomIDFeeUnsigned version p =
     wseq [WriteUint16 (crp_type p), WriteVarString (crp_categoryData p),
           WriteVarBytes (crp_ownerPublicKey p), WriteUint256 (crp_draftHash p),
           (if CRCProposalVersion01 \<le> version then WriteVarBytes (crp_draftData p) else wseq []),
           CustomIDFeeRateInfo_Serialize version (crp_customIDFeeRateInfo p)]"

definition CRCProposal_DeserializeChangeCustomIDFeeUnsigned :: "u8 \<Rightarrow> CRCProposal \<Rightarrow> CRCProposal reader" where
  "CRCProposal_DeserializeChangeCustomIDFeeUnsigned version o1 =
     rbind ReadVarString (\<lambda>categoryData.
     rbind ReadVarBytes (\<lambda>ownerPublicKey.
     rbind ReadUint256 (\<lambda>draftHash.
     rbind (if CRCProposalVersion01 \<le> version then ReadVarBytes else rret (crp_draftData o1)) (\<lambda>draftData.
     rbind (CustomIDFeeRateInfo_Deserialize version (crp_customIDFeeRateInfo o1)) (\<lambda>customIDFeeRateInfo.
       rret (o1\<lparr>crp_categoryData := categoryData, crp_ownerPublicKey := ownerPublicKey,
               crp_draftHash := draftHash, crp_draftData := draftData,
               crp_customIDFeeRateInfo := customIDFeeRateInfo\<rparr>))))))"

definition CRCProposal_SerializeChangeCustomIDFeeCRCCouncilMemberUnsigned :: "u8 \<Rightarrow> CRCProposal \<Rightarrow> writer" where
  "CRCProposal_SerializeChangeCustomIDFeeCRCCouncilMemberUnsigned version p =
     wseq [CRCProposal_SerializeChangeCustomIDFeeUnsigned version p,
           WriteVarBytes (crp_signature p),
           WriteUint168 (addr_programHash (crp_crCouncilMemberDID p))]"

definition CRCProposal_DeserializeChangeCustomIDFeeCRCCouncilMemberUnsigned :: "u8 \<Rightarrow> CRCProposal \<Rightarrow> CRCProposal reader" where
  "CRCProposal_DeserializeChangeCustomIDFeeCRCCouncilMemberUnsigned version o1 =
     rbind (CRCProposal_DeserializeChangeCustomIDFeeUnsigned version o1) (\<lambda>o2.
     rbind ReadVarBytes (\<lambda>signature.
     rbind ReadUint168 (\<lambda>crCouncilMemberDID.
       rret (o2\<lparr>crp_signature := signature,
               crp_crCouncilMemberDID := Address_of_hash crCouncilMemberDID\<rparr>))))"

definition CRCProposal_SerializeChangeCustomIDFee :: "u8 \<Rightarrow> CRCProposal \<Rightarrow> writer" where
  "CRCProposal_SerializeChangeCustomIDFee version p =
     wseq [CRCProposal_SerializeChangeCustomIDFeeCRCCouncilMemberUnsigned version p, WriteVarBytes (crp_crCouncilMemberSignature p)]"

definition CRCProposal_DeserializeChangeCustomIDFee :: "u8 \<Rightarrow> CRCProposal \<Rightarrow> CRCProposal reader" where
  "CRCProposal_DeserializeChangeCustomIDFee version o1 =
     rbind (CRCProposal_DeserializeChangeCustomIDFeeCRCCouncilMemberUnsigned version o1) (\<lambda>o2.
     rbind ReadVarBytes (\<lambda>crCouncilMemberSignature.
       rret (o2\<lparr>crp_crCouncilMemberSignature := crCouncilMemberSignature\<rparr>)))"

definition CRCProposal_DigestChangeCustomIDFeeOwnerUnsigned :: "(bytes \<Rightarrow> uint256) \<Rightarrow> u8 \<Rightarrow> CRCProposal \<Rightarrow> uint256 outcome" where
  "CRCProposal_DigestChangeCustomIDFeeOwnerUnsigned sha256 version p =
     obind (CRCProposal_SerializeChangeCustomIDFeeUnsigned version p empty_stream) (\<lambda>s. Ret (sha256 (buf s)))"

definition CRCProposal_DigestChangeCustomIDFeeCRCouncilMemberUnsigned :: "(bytes \<Rightarrow> uint256) \<Rightarrow> u8 \<Rightarrow> CRCProposal \<Rightarrow> uint256 outcome" where
  "CRCProposal_DigestChangeCustomIDFeeCRCouncilMemberUnsigned sha256 version p =
     obind (CRCProposal_SerializeChangeCustomIDFeeCRCCouncilMemberUnsigned version p empty_stream) (\<lambda>s. Ret (sha256 (buf s)))"

definition CRCProposal_IsValidChangeCustomIDFeeOwnerUnsigned :: "key_check \<Rightarrow> u8 \<Rightarrow> CRCProposal \<Rightarrow> bool" where
  "CRCProposal_IsValidChangeCustomIDFeeOwnerUnsigned keyValid version p \<longleftrightarrow>
     crp_type p = CRCProposal_changeCustomIDFee \<and>
     length (crp_categoryData p) \<le> 4096 \<and> Key_ok keyValid (crp_ownerPublicKey p)"

definition CRCProposal_IsValidChangeCustomIDFeeCRCouncilMemberUnsigned ::
    "(bytes \<Rightarrow> uint256) \<Rightarrow> key_check \<Rightarrow> ecdsa_check \<Rightarrow> u8 \<Rightarrow> CRCProposal \<Rightarrow> bool outcome" where
  "CRCProposal_IsValidChangeCustomIDFeeCRCouncilMemberUnsigned sha256 keyValid ecdsa version p =
     (if \<not> CRCProposal_IsValidChangeCustomIDFeeOwnerUnsigned keyValid version p then Ret False
      else obind (CRCProposal_DigestChangeCustomIDFeeOwnerUnsigned sha256 version p) (\<lambda>digest.
       obind (caught (PubKey_Verify keyValid ecdsa (crp_ownerPublicKey p) digest (crp_signature p))) (\<lambda>ok.
       if \<not> ok then Ret False else
       Ret (addr_isValid (crp_crCouncilMemberDID p)))))"

section \<open>RegisterSidechain\<close>

definition CRCProposal_SerializeRegisterSidechainUnsigned :: "u8 \<Rightarrow> CRCProposal \<Rightarrow> writer" where
  "CRCProposal_SerializeRegisterSidechainUnsigned version p =
     wseq [WriteUint16 (crp_type p), WriteVarString (crp_categoryData p),
           WriteVarBytes (crp_ownerPublicKey p), WriteUint256 (crp_draftHash p),
           (if CRCProposalVersion01 \<le> version then WriteVarBytes (crp_draftData p) else wseq []),
           SideChainInfo_Serialize version (crp_sidechainInfo p)]"

definition CRCProposal_DeserializeRegisterSidechainUnsigned :: "u8 \<Rightarrow> CRCProposal \<Rightarrow> CRCProposal reader" where
  "CRCProposal_DeserializeRegisterSidechainUnsigned version o1 =
     rbind ReadVarString (\<lambda>categoryData.
     rbind ReadVarBytes (\<lambda>ownerPublicKey.
     rbind ReadUint256 (\<lambda>draftHash.
     rbind (if CRCProposalVersion01 \<le> version then ReadVarBytes else rret (crp_draftData o1)) (\<lambda>draftData.
     rbind (SideChainInfo_Deserialize version (crp_sidechainInfo o1)) (\<lambda>sidechainInfo.
       rret (o1\<lparr>crp_categoryData := categoryData, crp_ownerPublicKey := ownerPublicKey,
               crp_draftHash := draftHash, crp_draftData := draftData,
               crp_sidechainInfo := sidechainInfo\<rparr>))))))"

definition CRCProposal_SerializeRegisterSidechainCRCouncilMemberUnsigned :: "u8 \<Rightarrow> CRCProposal \<Rightarrow> writer" where
  "CRCProposal_SerializeRegisterSidechainCRCouncilMemberUnsigned version p =
     wseq [CRCProposal_SerializeRegisterSidechainUnsigned version p,
           WriteVarBytes (crp_signature p),
           WriteUint168 (addr_programHash (crp_crCouncilMemberDID p))]"

definition CRCProposal_DeserializeRegisterSidechainCRCouncilMemberUnsigned :: "u8 \<Rightarrow> CRCProposal \<Rightarrow> CRCProposal reader" where
  "CRCProposal_DeserializeRegisterSidechainCRCouncilMemberUnsigned version o1 =
     rbind (CRCProposal_DeserializeRegisterSidechainUnsigned version o1) (\<lambda>o2.
     rbind ReadVarBytes (\<lambda>signature.
     rbind ReadUint168 (\<lambda>crCouncilMemberDID.
       rret (o2\<lparr>crp_signature := signature,
               crp_crCouncilMemberDID := Address_of_hash crCouncilMemberDID\<rparr>))))"

definition CRCProposal_SerializeRegisterSidechain :: "u8 \<Rightarrow> CRCProposal \<Rightarrow> writer" where
  "CRCProposal_SerializeRegisterSidechain version p =
     wseq [CRCProposal_SerializeRegisterSidechainCRCouncilMemberUnsigned version p, WriteVarBytes (crp_crCouncilMemberSignature p)]"

definition CRCProposal_DeserializeRegisterSidechain :: "u8 \<Rightarrow> CRCProposal \<Rightarrow> CRCProposal reader" where
  "CRCProposal_DeserializeRegisterSidechain version o1 =
     rbind (CRCProposal_DeserializeRegisterSidechainCRCouncilMemberUnsigned version o1) (\<lambda>o2.
     rbind ReadVarBytes (\<lambda>crCouncilMemberSignature.
       rret (o2\<lparr>crp_crCouncilMemberSignature := crCouncilMemberSignature\<rparr>)))"

definition CRCProposal_DigestRegisterSidechainUnsigned :: "(bytes \<Rightarrow> uint256) \<Rightarrow> u8 \<Rightarrow> CRCProposal \<Rightarrow> uint256 outcome" where
  "CRCProposal_DigestRegisterSidechainUnsigned sha256 version p =
     obind (CRCProposal_SerializeRegisterSidechainUnsigned version p empty_stream) (\<lambda>s. Ret (sha256 (buf s)))"

definition CRCProposal_DigestRegisterSidechainCRCouncilMemberUnsigned :: "(bytes \<Rightarrow> uint256) \<Rightarrow> u8 \<Rightarrow> CRCProposal \<Rightarrow> uint256 outcome" where
  "CRCProposal_DigestRegisterSidechainCRCouncilMemberUnsigned sha256 version p =
     obind (CRCProposal_SerializeRegisterSidechainCRCouncilMemberUnsigned version p empty_stream) (\<lambda>s. Ret (sha256 (buf s)))"

definition CRCProposal_IsValidRegisterSidechainUnsigned :: "key_check \<Rightarrow> u8 \<Rightarrow> CRCProposal \<Rightarrow> bool" where
  "CRCProposal_IsValidRegisterSidechainUnsigned keyValid version p \<longleftrightarrow>
     crp_type p = CRCProposal_registerSideChain \<and>
     length (crp_categoryData p) \<le> 4096 \<and>
     Key_ok keyValid (crp_ownerPublicKey p) \<and>
     SideChainInfo_IsValid version (crp_sidechainInfo p)"

definition CRCProposal_IsValidRegisterSidechainCRCouncilMemberUnsigned ::
    "(bytes \<Rightarrow> uint256) \<Rightarrow> key_check \<Rightarrow> ecdsa_check \<Rightarrow> u8 \<Rightarrow> CRCProposal \<Rightarrow> bool outcome" where
  "CRCProposal_IsValidRegisterSidechainCRCouncilMemberUnsigned sha256 keyValid ecdsa version p =
     (if \<not> CRCProposal_IsValidRegisterSidechainUnsigned keyValid version p then Ret False
      else obind (CRCProposal_DigestRegisterSidechainUnsigned sha256 version p) (\<lambda>digest.
       obind (caught (PubKey_Verify keyValid ecdsa (crp_ownerPublicKey p) digest (crp_signature p))) (\<lambda>ok.
       if \<not> ok then Ret False else
       Ret (addr_isValid (crp_crCouncilMemberDID p)))))"

section \<open>UpgradeCode\<close>

definition CRCProposal_SerializeUpgradeCodeUnsigned :: "u8 \<Rightarrow> CRCProposal \<Rightarrow> writer" where
  "CRCProposal_SerializeUpgradeCodeUnsigned version p =
     wseq [WriteUint16 (crp_type p), WriteVarString (crp_categoryData p),
           WriteVarBytes (crp_ownerPublicKey p), WriteUint256 (crp_draftHash p),
           UpgradeCodeInfo_Serialize version (crp_upgradeCodeInfo p)]"

definition CRCProposal_DeserializeUpgradeCodeUnsigned :: "u8 \<Rightarrow> CRCProposal \<Rightarrow> CRCProposal reader" where
  "CRCProposal_DeserializeUpgradeCodeUnsigned version o1 =
     rbind ReadVarString (\<lambda>categoryData.
     rbind ReadVarBytes (\<lambda>ownerPublicKey.
     rbind ReadUint256 (\<lambda>draftHash.
     rbind (UpgradeCodeInfo_Deserialize version (crp_upgradeCodeInfo o1)) (\<lambda>upgradeCodeInfo.
       rret (o1\<lparr>crp_categoryData := categoryData, crp_ownerPublicKey := ownerPublicKey,
               crp_draftHash := draftHash, crp_upgradeCodeInfo := upgradeCodeInfo\<rparr>)))))"

definition CRCProposal_SerializeUpgradeCodeCRCouncilMemberUnsigned :: "u8 \<Rightarrow> CRCProposal \<Rightarrow> writer" where
  "CRCProposal_SerializeUpgradeCodeCRCouncilMemberUnsigned version p =
     wseq [CRCProposal_SerializeUpgradeCodeUnsigned version p,
           WriteVarBytes (crp_signature p),
           WriteUint168 (addr_programHash (crp_crCouncilMemberDID p))]"

definition CRCProposal_DeserializeUpgradeCodeCRCouncilMemberUnsigned :: "u8 \<Rightarrow> CRCProposal \<Rightarrow> CRCProposal reader" where
  "CRCProposal_DeserializeUpgradeCodeCRCouncilMemberUnsigned version o1 =
     rbind (CRCProposal_DeserializeUpgradeCodeUnsigned version o1) (\<lambda>o2.
     rbind ReadVarBytes (\<lambda>signature.
     rbind ReadUint168 (\<lambda>crCouncilMemberDID.
       rret (o2\<lparr>crp_signature := signature,
               crp_crCouncilMemberDID := Address_of_hash crCouncilMemberDID\<rparr>))))"

definition CRCProposal_SerializeUpgradeCode :: "u8 \<Rightarrow> CRCProposal \<Rightarrow> writer" where
  "CRCProposal_SerializeUpgradeCode version p =
     wseq [CRCProposal_SerializeUpgradeCodeCRCouncilMemberUnsigned version p, WriteVarBytes (crp_crCouncilMemberSignature p)]"

definition CRCProposal_DeserializeUpgradeCode :: "u8 \<Rightarrow> CRCProposal \<Rightarrow> CRCProposal reader" where
  "CRCProposal_DeserializeUpgradeCode version o1 =
     rbind (CRCProposal_DeserializeUpgradeCodeCRCouncilMemberUnsigned version o1) (\<lambda>o2.
     rbind ReadVarBytes (\<lambda>crCouncilMemberSignature.
       rret (o2\<lparr>crp_crCouncilMemberSignature := crCouncilMemberSignature\<rparr>)))"

definition CRCProposal_DigestUpgradeCodeUnsigned :: "(bytes \<Rightarrow> uint256) \<Rightarrow> u8 \<Rightarrow> CRCProposal \<Rightarrow> uint256 outcome" where
  "CRCProposal_DigestUpgradeCodeUnsigned sha256 version p =
     obind (CRCProposal_SerializeUpgradeCodeUnsigned version p empty_stream) (\<lambda>s. Ret (sha256 (buf s)))"

definition CRCProposal_DigestUpgradeCodeCRCouncilMemberUnsigned :: "(bytes \<Rightarrow> uint256) \<Rightarrow> u8 \<Rightarrow> CRCProposal \<Rightarrow> uint256 outcome" where
  "CRCProposal_DigestUpgradeCodeCRCouncilMemberUnsigned sha256 version p =
     obind (CRCProposal_SerializeUpgradeCodeCRCouncilMemberUnsigned version p empty_stream) (\<lambda>s. Ret (sha256 (buf s)))"

definition CRCProposal_IsValidUpgradeCodeUnsigned :: "key_check \<Rightarrow> u8 \<Rightarrow> CRCProposal \<Rightarrow> bool" where
  "CRCProposal_IsValidUpgradeCodeUnsigned keyValid version p \<longleftrightarrow>
     (crp_type p = CRCProposal_mainChainUpgradeCode \<or> crp_type p = CRCProposal_ethUpdateCode \<or>
      crp_type p = CRCProposal_didUpdateCode) \<and>
     length (crp_categoryData p) \<le> 4096 \<and>
     Key_ok keyValid (crp_ownerPublicKey p) \<and>
     UpgradeCodeInfo_IsValid version (crp_upgradeCodeInfo p)"

definition CRCProposal_IsValidUpgradeCodeCRCouncilMemberUnsigned ::
    "(bytes \<Rightarrow> uint256) \<Rightarrow> key_check \<Rightarrow> ecdsa_check \<Rightarrow> u8 \<Rightarrow> CRCProposal \<Rightarrow> bool outcome" where
  "CRCProposal_IsValidUpgradeCodeCRCouncilMemberUnsigned sha256 keyValid ecdsa version p =
     (if \<not> CRCProposal_IsValidUpgradeCodeUnsigned keyValid version p then Ret False
      else obind (CRCProposal_DigestUpgradeCodeUnsigned sha256 version p) (\<lambda>digest.
       obind (caught (PubKey_Verify keyValid ecdsa (crp_ownerPublicKey p) digest (crp_signature p))) (\<lambda>ok.
       if \<not> ok then Ret False else
       Ret (addr_isValid (crp_crCouncilMemberDID p)))))"

section \<open>The whole proposal\<close>

text \<open>
  \<open>Serialize\<close> has no case for the three code upgrades, which \<open>Deserialize\<close> reads: it writes
  nothing for them.
\<close>

definition CRCProposal_Serialize :: "u8 \<Rightarrow> CRCProposal \<Rightarrow> writer" where
  "CRCProposal_Serialize version p =
     (if crp_type p = CRCProposal_changeProposalOwner then CRCProposal_SerializeChangeOwner version p
      else if crp_type p = CRCProposal_terminateProposal then CRCProposal_SerializeTerminateProposal version p
      else if crp_type p = CRCProposal_secretaryGeneralElection then CRCProposal_SerializeSecretaryElection version p
      else if crp_type p = CRCProposal_reserveCustomID then CRCProposal_SerializeReserveCustomID version p
      else if crp_type p = CRCProposal_receiveCustomID then CRCProposal_SerializeReceiveCustomID version p
      else if crp_type p = CRCProposal_changeCustomIDFee then CRCProposal_SerializeChangeCustomIDFee version p
      else if crp_type p = CRCProposal_registerSideChain then CRCProposal_SerializeRegisterSidechain version p
      else if crp_type p = CRCProposal_normal \<or> crp_type p = CRCProposal_elip
      then CRCProposal_SerializeNormalOrELIP version p
      else wseq [])"

definition CRCProposal_Deserialize_typed :: "u8 \<Rightarrow> CRCProposal \<Rightarrow> CRCProposal reader" where
  "CRCProposal_Deserialize_typed version p =
     (if crp_type p = CRCProposal_changeProposalOwner then CRCProposal_DeserializeChangeOwner version p
      else if crp_type p = CRCProposal_terminateProposal then CRCProposal_DeserializeTerminateProposal version p
      else if crp_type p = CRCProposal_secretaryGeneralElection then CRCProposal_DeserializeSecretaryElection version p
      else if crp_type p = CRCProposal_reserveCustomID then CRCProposal_DeserializeReserveCustomID version p
      else if crp_type p = CRCProposal_receiveCustomID then CRCProposal_DeserializeReceiveCustomID version p
      else if crp_type p = CRCProposal_changeCustomIDFee then CRCProposal_DeserializeChangeCustomIDFee version p
      else if crp_type p = CRCProposal_registerSideChain then CRCProposal_DeserializeRegisterSidechain version p
      else if crp_type p = CRCProposal_mainChainUpgradeCode \<or> crp_type p = CRCProposal_didUpdateCode \<or>
              crp_type p = CRCProposal_ethUpdateCode
      then CRCProposal_DeserializeUpgradeCode version p
      else if crp_type p = CRCProposal_normal \<or> crp_type p = CRCProposal_elip
      then CRCProposal_DeserializeNormalOrELIP version p
      else rfail)"

definition CRCProposal_Deserialize :: "u8 \<Rightarrow> CRCProposal \<Rightarrow> CRCProposal reader" where
  "CRCProposal_Deserialize version o1 =
     rbind ReadUint16 (\<lambda>ty. CRCProposal_Deserialize_typed version (o1\<lparr>crp_type := ty\<rparr>))"

definition CRCProposal_IsValid ::
    "(bytes \<Rightarrow> uint256) \<Rightarrow> key_check \<Rightarrow> ecdsa_check \<Rightarrow> u8 \<Rightarrow> CRCProposal \<Rightarrow> bool outcome" where
  "CRCProposal_IsValid sha256 keyValid ecdsa version p =
     obind
       (if crp_type p = CRCProposal_normal \<or> crp_type p = CRCProposal_elip
        then CRCProposal_IsValidNormalCRCouncilMemberUnsigned sha256 keyValid ecdsa version p
        else if crp_type p = CRCProposal_secretaryGeneralElection
        then CRCProposal_IsValidSecretaryElectionCRCouncilMemberUnsigned sha256 keyValid ecdsa version p
        else if crp_type p = CRCProposal_changeProposalOwner
        then CRCProposal_IsValidChangeOwnerCRCouncilMemberUnsigned sha256 keyValid ecdsa version p
        else if crp_type p = CRCProposal_terminateProposal
        then CRCProposal_IsValidTerminateProposalCRCouncilMemberUnsigned sha256 keyValid ecdsa version p
        else if crp_type p = CRCProposal_reserveCustomID
        then CRCProposal_IsValidReserveCustomIDCRCouncilMemberUnsigned sha256 keyValid ecdsa version p
        else if crp_type p = CRCProposal_receiveCustomID
        then CRCProposal_IsValidReceiveCustomIDCRCouncilMemberUnsigned sha256 keyValid ecdsa version p
        else if crp_type p = CRCProposal_changeCustomIDFee
        then CRCProposal_IsValidChangeCustomIDFeeCRCouncilMemberUnsigned sha256 keyValid ecdsa version p
        else if crp_type p = CRCProposal_registerSideChain
        then CRCProposal_IsValidRegisterSidechainCRCouncilMemberUnsigned sha256 keyValid ecdsa version p
        else Ret False)
       (\<lambda>isValid. Ret (isValid \<and> crp_crCouncilMemberSignature p \<noteq> []))"

definition CRCProposal_Equal :: "u8 \<Rightarrow> CRCProposal \<Rightarrow> CRCProposal \<Rightarrow> bool" where
  "CRCProposal_Equal version this p \<longleftrightarrow>
     crp_type this = crp_type p \<and>
     crp_categoryData this = crp_categoryData p \<and>
     crp_ownerPublicKey this = crp_ownerPublicKey p \<and>
     crp_draftHash this = crp_draftHash p \<and>
     (if crp_type this = CRCProposal_normal \<or> crp_type this = CRCProposal_elip
      then list_all2 Budget_eq (crp_budgets this) (crp_budgets p) \<and>
           Address_eq (crp_recipient this) (crp_recipient p)
      else if crp_type this = CRCProposal_secretaryGeneralElection
      then crp_secretaryPublicKey this = crp_secretaryPublicKey p \<and>
           Address_eq (crp_secretaryDID this) (crp_secretaryDID p) \<and>
           crp_secretarySignature this = crp_secretarySignature p
      else if crp_type this = CRCProposal_changeProposalOwner
      then crp_targetProposalHash this = crp_targetProposalHash p \<and>
           Address_eq (crp_newRecipient this) (crp_newRecipient p) \<and>
           crp_newOwnerPublicKey this = crp_newOwnerPublicKey p \<and>
           crp_newOwnerSignature this = crp_newOwnerSignature p
      else if crp_type this = CRCProposal_terminateProposal
      then crp_targetProposalHash this = crp_targetProposalHash p
      else if crp_type this = CRCProposal_reserveCustomID
      then crp_reservedCustomIDList this = crp_reservedCustomIDList p
      else if crp_type this = CRCProposal_receiveCustomID
      then crp_receivedCustomIDList this = crp_receivedCustomIDList p \<and>
           Address_eq (crp_receiverDID this) (crp_receiverDID p)
      else if crp_type this = CRCProposal_changeCustomIDFee
      then CustomIDFeeRateInfo_eq (crp_customIDFeeRateInfo this) (crp_customIDFeeRateInfo p)
      else if crp_type this = CRCProposal_registerSideChain
      then SideChainInfo_eq (crp_sidechainInfo this) (crp_sidechainInfo p)
      else False) \<and>
     crp_signature this = crp_signature p \<and>
     Address_eq (crp_crCouncilMemberDID this) (crp_crCouncilMemberDID p) \<and>
     crp_crCouncilMemberSignature this = crp_crCouncilMemberSignature p \<and>
     (CRCProposalVersion01 \<le> version \<longrightarrow> crp_draftData this = crp_draftData p)"

section \<open>Every stage travels\<close>

definition SideChainInfo_fits :: "SideChainInfo \<Rightarrow> bool" where
  "SideChainInfo_fits i \<longleftrightarrow> length (sci_sideChainName i) < 2 ^ 32 \<and> length (sci_resourcePath i) < 2 ^ 32"

definition UpgradeCodeInfo_fits :: "UpgradeCodeInfo \<Rightarrow> bool" where
  "UpgradeCodeInfo_fits i \<longleftrightarrow>
     length (uci_nodeVersion i) < 2 ^ 32 \<and> length (uci_nodeDownloadUrl i) < 2 ^ 32"

definition Budget_canon :: "Budget \<Rightarrow> Budget" where
  "Budget_canon b = b\<lparr>bud_amount := BigInt_setUint64 (BigInt_getUint64 (bud_amount b))\<rparr>"

definition CRCProposal_fits :: "CRCProposal \<Rightarrow> bool" where
  "CRCProposal_fits p \<longleftrightarrow>
     length (crp_categoryData p) < 2 ^ 32 \<and>
     (\<forall>str \<in> set (crp_reservedCustomIDList p). length str < 2 ^ 32) \<and>
     (\<forall>str \<in> set (crp_receivedCustomIDList p). length str < 2 ^ 32) \<and>
     SideChainInfo_fits (crp_sidechainInfo p) \<and> UpgradeCodeInfo_fits (crp_upgradeCodeInfo p)"

lemma Budget_transfers: "transfers (Budget_Serialize b) (Budget_Deserialize o1) (Budget_canon b)"
  unfolding Budget_Serialize_def Budget_Deserialize_def
  by (rule transfer_intros | simp add: Budget_canon_def)+

lemma Budget_local: "local_reader (Budget_Deserialize o1)"
  unfolding Budget_Deserialize_def by (intro reader_intros)

interpretation budget: item_codec Budget_Serialize "Budget_Deserialize Budget_new" "\<lambda>_. True" Budget_canon
  by (unfold_locales, rule Budget_transfers, rule Budget_local)
    (auto simp: Budget_Deserialize_def intro!: needs_intros)

lemma budgets_transfers:
  "transfers (write_items Budget_Serialize bs)
     (rbind ReadVarUint (\<lambda>n. read_each Budget_Deserialize (vec_resize (unat n) Budget_new [])))
     (map Budget_canon bs)"
  using budget.items_transfer [of bs]
  by (simp add: read_items_def vec_resize_Nil read_each_replicate)

lemma CustomIDFeeRateInfo_transfers:
  "transfers (CustomIDFeeRateInfo_Serialize v i) (CustomIDFeeRateInfo_Deserialize v o1) i"
  unfolding CustomIDFeeRateInfo_Serialize_def CustomIDFeeRateInfo_Deserialize_def
  by (rule transfer_intros | simp)+

lemma CustomIDFeeRateInfo_local: "local_reader (CustomIDFeeRateInfo_Deserialize v o1)"
  unfolding CustomIDFeeRateInfo_Deserialize_def by (intro reader_intros)

lemma SideChainInfo_transfers:
  assumes "SideChainInfo_fits i"
  shows "transfers (SideChainInfo_Serialize v i) (SideChainInfo_Deserialize v o1) i"
proof -
  have l: "length (sci_sideChainName i) < 2 ^ 32" "length (sci_resourcePath i) < 2 ^ 32"
    using assms by (simp_all add: SideChainInfo_fits_def)
  show ?thesis
    unfolding SideChainInfo_Serialize_def SideChainInfo_Deserialize_def
    by (rule transfer_intros l | simp)+
qed

lemma SideChainInfo_local: "local_reader (SideChainInfo_Deserialize v o1)"
  unfolding SideChainInfo_Deserialize_def by (intro reader_intros)

lemma UpgradeCodeInfo_transfers:
  assumes "UpgradeCodeInfo_fits i"
  shows "transfers (UpgradeCodeInfo_Serialize v i) (UpgradeCodeInfo_Deserialize v o1) i"
proof -
  have l: "length (uci_nodeVersion i) < 2 ^ 32" "length (uci_nodeDownloadUrl i) < 2 ^ 32"
    using assms by (simp_all add: UpgradeCodeInfo_fits_def)
  show ?thesis
    unfolding UpgradeCodeInfo_Serialize_def UpgradeCodeInfo_Deserialize_def
    by (rule transfer_intros l | simp)+
qed

lemma UpgradeCodeInfo_local: "local_reader (UpgradeCodeInfo_Deserialize v o1)"
  unfolding UpgradeCodeInfo_Deserialize_def by (intro reader_intros)

definition CRCProposal_canonOwnerUnsigned :: "u8 \<Rightarrow> CRCProposal \<Rightarrow> CRCProposal" where
  "CRCProposal_canonOwnerUnsigned version p =
     CRCProposal_new\<lparr>crp_type := crp_type p, crp_categoryData := crp_categoryData p,
       crp_ownerPublicKey := crp_ownerPublicKey p, crp_draftHash := crp_draftHash p,
       crp_draftData := (if CRCProposalVersion01 \<le> version then crp_draftData p else []),
       crp_budgets := map Budget_canon (crp_budgets p),
       crp_recipient := Address_of_hash (addr_programHash (crp_recipient p))\<rparr>"

definition CRCProposal_canonCRCouncilMemberUnsigned :: "u8 \<Rightarrow> CRCProposal \<Rightarrow> CRCProposal" where
  "CRCProposal_canonCRCouncilMemberUnsigned version p =
     (CRCProposal_canonOwnerUnsigned version p)\<lparr>crp_signature := crp_signature p,
       crp_crCouncilMemberDID := Address_of_hash (addr_programHash (crp_crCouncilMemberDID p))\<rparr>"

definition CRCProposal_canonNormalOrELIP :: "u8 \<Rightarrow> CRCProposal \<Rightarrow> CRCProposal" where
  "CRCProposal_canonNormalOrELIP version p =
     (CRCProposal_canonCRCouncilMemberUnsigned version p)\<lparr>crp_crCouncilMemberSignature := crp_crCouncilMemberSignature p\<rparr>"

lemma CRCProposal_OwnerUnsigned_transfers:
  assumes "CRCProposal_fits p"
  shows "transfers (CRCProposal_SerializeOwnerUnsigned v p)
    (rbind ReadUint16 (\<lambda>ty. CRCProposal_DeserializeOwnerUnsigned v (CRCProposal_new\<lparr>crp_type := ty\<rparr>)))
    (CRCProposal_canonOwnerUnsigned v p)"
proof -
  have l: "length (crp_categoryData p) < 2 ^ 32" using assms by (simp add: CRCProposal_fits_def)
  have n: "crp_draftData CRCProposal_new = []" "crp_reservedCustomIDList CRCProposal_new = []"
    "crp_receivedCustomIDList CRCProposal_new = []" "crp_budgets CRCProposal_new = []"
    by (simp_all add: CRCProposal_new_def)
  show ?thesis
    unfolding CRCProposal_SerializeOwnerUnsigned_def CRCProposal_DeserializeOwnerUnsigned_def
    by (rule l budgets_transfers transfer_intros | simp add: n CRCProposal_canonOwnerUnsigned_def)+
qed

lemma CRCProposal_CRCouncilMemberUnsigned_transfers:
  assumes "CRCProposal_fits p"
  shows "transfers (CRCProposal_SerializeCRCouncilMemberUnsigned v p)
    (rbind ReadUint16 (\<lambda>ty. CRCProposal_DeserializeCRCouncilMemberUnsigned v (CRCProposal_new\<lparr>crp_type := ty\<rparr>)))
    (CRCProposal_canonCRCouncilMemberUnsigned v p)"
  unfolding CRCProposal_SerializeCRCouncilMemberUnsigned_def CRCProposal_DeserializeCRCouncilMemberUnsigned_def rbind_assoc [symmetric]
  by (rule CRCProposal_OwnerUnsigned_transfers [OF assms] transfer_intros | simp add: CRCProposal_canonCRCouncilMemberUnsigned_def)+

lemma CRCProposal_NormalOrELIP_transfers:
  assumes "CRCProposal_fits p"
  shows "transfers (CRCProposal_SerializeNormalOrELIP v p)
    (rbind ReadUint16 (\<lambda>ty. CRCProposal_DeserializeNormalOrELIP v (CRCProposal_new\<lparr>crp_type := ty\<rparr>)))
    (CRCProposal_canonNormalOrELIP v p)"
  unfolding CRCProposal_SerializeNormalOrELIP_def CRCProposal_DeserializeNormalOrELIP_def rbind_assoc [symmetric]
  by (rule CRCProposal_CRCouncilMemberUnsigned_transfers [OF assms] transfer_intros | simp add: CRCProposal_canonNormalOrELIP_def)+

lemma CRCProposal_NormalOrELIP_local: "local_reader (CRCProposal_DeserializeNormalOrELIP v o1)"
  by (auto simp: CRCProposal_DeserializeNormalOrELIP_def CRCProposal_DeserializeCRCouncilMemberUnsigned_def
      CRCProposal_DeserializeOwnerUnsigned_def intro!: reader_intros Budget_local)

definition CRCProposal_canonChangeOwnerUnsigned :: "u8 \<Rightarrow> CRCProposal \<Rightarrow> CRCProposal" where
  "CRCProposal_canonChangeOwnerUnsigned version p =
     CRCProposal_new\<lparr>crp_type := crp_type p, crp_categoryData := crp_categoryData p,
       crp_ownerPublicKey := crp_ownerPublicKey p, crp_draftHash := crp_draftHash p,
       crp_draftData := (if CRCProposalVersion01 \<le> version then crp_draftData p else []),
       crp_targetProposalHash := crp_targetProposalHash p,
       crp_newRecipient := Address_of_hash (addr_programHash (crp_newRecipient p)),
       crp_newOwnerPublicKey := crp_newOwnerPublicKey p\<rparr>"

definition CRCProposal_canonChangeOwnerCRCouncilMemberUnsigned :: "u8 \<Rightarrow> CRCProposal \<Rightarrow> CRCProposal" where
  "CRCProposal_canonChangeOwnerCRCouncilMemberUnsigned version p =
     (CRCProposal_canonChangeOwnerUnsigned version p)\<lparr>crp_signature := crp_signature p, crp_newOwnerSignature := crp_newOwnerSignature p,
       crp_crCouncilMemberDID := Address_of_hash (addr_programHash (crp_crCouncilMemberDID p))\<rparr>"

definition CRCProposal_canonChangeOwner :: "u8 \<Rightarrow> CRCProposal \<Rightarrow> CRCProposal" where
  "CRCProposal_canonChangeOwner version p =
     (CRCProposal_canonChangeOwnerCRCouncilMemberUnsigned version p)\<lparr>crp_crCouncilMemberSignature := crp_crCouncilMemberSignature p\<rparr>"

lemma CRCProposal_ChangeOwnerUnsigned_transfers:
  assumes "CRCProposal_fits p"
  shows "transfers (CRCProposal_SerializeChangeOwnerUnsigned v p)
    (rbind ReadUint16 (\<lambda>ty. CRCProposal_DeserializeChangeOwnerUnsigned v (CRCProposal_new\<lparr>crp_type := ty\<rparr>)))
    (CRCProposal_canonChangeOwnerUnsigned v p)"
proof -
  have l: "length (crp_categoryData p) < 2 ^ 32" using assms by (simp add: CRCProposal_fits_def)
  have n: "crp_draftData CRCProposal_new = []" "crp_reservedCustomIDList CRCProposal_new = []"
    "crp_receivedCustomIDList CRCProposal_new = []" "crp_budgets CRCProposal_new = []"
    by (simp_all add: CRCProposal_new_def)
  show ?thesis
    unfolding CRCProposal_SerializeChangeOwnerUnsigned_def CRCProposal_DeserializeChangeOwnerUnsigned_def
    by (rule l transfer_intros | simp add: n CRCProposal_canonChangeOwnerUnsigned_def)+
qed

lemma CRCProposal_ChangeOwnerCRCouncilMemberUnsigned_transfers:
  assumes "CRCProposal_fits p"
  shows "transfers (CRCProposal_SerializeChangeOwnerCRCouncilMemberUnsigned v p)
    (rbind ReadUint16 (\<lambda>ty. CRCProposal_DeserializeChangeOwnerCRCouncilMemberUnsigned v (CRCProposal_new\<lparr>crp_type := ty\<rparr>)))
    (CRCProposal_canonChangeOwnerCRCouncilMemberUnsigned v p)"
  unfolding CRCProposal_SerializeChangeOwnerCRCouncilMemberUnsigned_def CRCProposal_DeserializeChangeOwnerCRCouncilMemberUnsigned_def rbind_assoc [symmetric]
  by (rule CRCProposal_ChangeOwnerUnsigned_transfers [OF assms] transfer_intros | simp add: CRCProposal_canonChangeOwnerCRCouncilMemberUnsigned_def)+

lemma CRCProposal_ChangeOwner_transfers:
  assumes "CRCProposal_fits p"
  shows "transfers (CRCProposal_SerializeChangeOwner v p)
    (rbind ReadUint16 (\<lambda>ty. CRCProposal_DeserializeChangeOwner v (CRCProposal_new\<lparr>crp_type := ty\<rparr>)))
    (CRCProposal_canonChangeOwner v p)"
  unfolding CRCProposal_SerializeChangeOwner_def CRCProposal_DeserializeChangeOwner_def rbind_assoc [symmetric]
  by (rule CRCProposal_ChangeOwnerCRCouncilMemberUnsigned_transfers [OF assms] transfer_intros | simp add: CRCProposal_canonChangeOwner_def)+

lemma CRCProposal_ChangeOwner_local: "local_reader (CRCProposal_DeserializeChangeOwner v o1)"
  by (auto simp: CRCProposal_DeserializeChangeOwner_def CRCProposal_DeserializeChangeOwnerCRCouncilMemberUnsigned_def
      CRCProposal_DeserializeChangeOwnerUnsigned_def intro!: reader_intros)

definition CRCProposal_canonTerminateProposalUnsigned :: "u8 \<Rightarrow> CRCProposal \<Rightarrow> CRCProposal" where
  "CRCProposal_canonTerminateProposalUnsigned version p =
     CRCProposal_new\<lparr>crp_type := crp_type p, crp_categoryData := crp_categoryData p,
       crp_ownerPublicKey := crp_ownerPublicKey p, crp_draftHash := crp_draftHash p,
       crp_draftData := (if CRCProposalVersion01 \<le> version then crp_draftData p else []),
       crp_targetProposalHash := crp_targetProposalHash p\<rparr>"

definition CRCProposal_canonTerminateProposalCRCouncilMemberUnsigned :: "u8 \<Rightarrow> CRCProposal \<Rightarrow> CRCProposal" where
  "CRCProposal_canonTerminateProposalCRCouncilMemberUnsigned version p =
     (CRCProposal_canonTerminateProposalUnsigned version p)\<lparr>crp_signature := crp_signature p,
       crp_crCouncilMemberDID := Address_of_hash (addr_programHash (crp_crCouncilMemberDID p))\<rparr>"

definition CRCProposal_canonTerminateProposal :: "u8 \<Rightarrow> CRCProposal \<Rightarrow> CRCProposal" where
  "CRCProposal_canonTerminateProposal version p =
     (CRCProposal_canonTerminateProposalCRCouncilMemberUnsigned version p)\<lparr>crp_crCouncilMemberSignature := crp_crCouncilMemberSignature p\<rparr>"

lemma CRCProposal_TerminateProposalUnsigned_transfers:
  assumes "CRCProposal_fits p"
  shows "transfers (CRCProposal_SerializeTerminateProposalUnsigned v p)
    (rbind ReadUint16 (\<lambda>ty. CRCProposal_DeserializeTerminateProposalUnsigned v (CRCProposal_new\<lparr>crp_type := ty\<rparr>)))
    (CRCProposal_canonTerminateProposalUnsigned v p)"
proof -
  have l: "length (crp_categoryData p) < 2 ^ 32" using assms by (simp add: CRCProposal_fits_def)
  have n: "crp_draftData CRCProposal_new = []" "crp_reservedCustomIDList CRCProposal_new = []"
    "crp_receivedCustomIDList CRCProposal_new = []" "crp_budgets CRCProposal_new = []"
    by (simp_all add: CRCProposal_new_def)
  show ?thesis
    unfolding CRCProposal_SerializeTerminateProposalUnsigned_def CRCProposal_DeserializeTerminateProposalUnsigned_def
    by (rule l transfer_intros | simp add: n CRCProposal_canonTerminateProposalUnsigned_def)+
qed

lemma CRCProposal_TerminateProposalCRCouncilMemberUnsigned_transfers:
  assumes "CRCProposal_fits p"
  shows "transfers (CRCProposal_SerializeTerminateProposalCRCouncilMemberUnsigned v p)
    (rbind ReadUint16 (\<lambda>ty. CRCProposal_DeserializeTerminateProposalCRCouncilMemberUnsigned v (CRCProposal_new\<lparr>crp_type := ty\<rparr>)))
    (CRCProposal_canonTerminateProposalCRCouncilMemberUnsigned v p)"
  unfolding CRCProposal_SerializeTerminateProposalCRCouncilMemberUnsigned_def CRCProposal_DeserializeTerminateProposalCRCouncilMemberUnsigned_def rbind_assoc [symmetric]
  by (rule CRCProposal_TerminateProposalUnsigned_transfers [OF assms] transfer_intros | simp add: CRCProposal_canonTerminateProposalCRCouncilMemberUnsigned_def)+

lemma CRCProposal_TerminateProposal_transfers:
  assumes "CRCProposal_fits p"
  shows "transfers (CRCProposal_SerializeTerminateProposal v p)
    (rbind ReadUint16 (\<lambda>ty. CRCProposal_DeserializeTerminateProposal v (CRCProposal_new\<lparr>crp_type := ty\<rparr>)))
    (CRCProposal_canonTerminateProposal v p)"
  unfolding CRCProposal_SerializeTerminateProposal_def CRCProposal_DeserializeTerminateProposal_def rbind_assoc [symmetric]
  by (rule CRCProposal_TerminateProposalCRCouncilMemberUnsigned_transfers [OF assms] transfer_intros | simp add: CRCProposal_canonTerminateProposal_def)+

lemma CRCProposal_TerminateProposal_local: "local_reader (CRCProposal_DeserializeTerminateProposal v o1)"
  by (auto simp: CRCProposal_DeserializeTerminateProposal_def CRCProposal_DeserializeTerminateProposalCRCouncilMemberUnsigned_def
      CRCProposal_DeserializeTerminateProposalUnsigned_def intro!: reader_intros)

definition CRCProposal_canonSecretaryElectionUnsigned :: "u8 \<Rightarrow> CRCProposal \<Rightarrow> CRCProposal" where
  "CRCProposal_canonSecretaryElectionUnsigned version p =
     CRCProposal_new\<lparr>crp_type := crp_type p, crp_categoryData := crp_categoryData p,
       crp_ownerPublicKey := crp_ownerPublicKey p, crp_draftHash := crp_draftHash p,
       crp_draftData := (if CRCProposalVersion01 \<le> version then crp_draftData p else []),
       crp_secretaryPublicKey := crp_secretaryPublicKey p,
       crp_secretaryDID := Address_of_hash (addr_programHash (crp_secretaryDID p))\<rparr>"

definition CRCProposal_canonSecretaryElectionCRCouncilMemberUnsigned :: "u8 \<Rightarrow> CRCProposal \<Rightarrow> CRCProposal" where
  "CRCProposal_canonSecretaryElectionCRCouncilMemberUnsigned version p =
     (CRCProposal_canonSecretaryElectionUnsigned version p)\<lparr>crp_signature := crp_signature p, crp_secretarySignature := crp_secretarySignature p,
       crp_crCouncilMemberDID := Address_of_hash (addr_programHash (crp_crCouncilMemberDID p))\<rparr>"

definition CRCProposal_canonSecretaryElection :: "u8 \<Rightarrow> CRCProposal \<Rightarrow> CRCProposal" where
  "CRCProposal_canonSecretaryElection version p =
     (CRCProposal_canonSecretaryElectionCRCouncilMemberUnsigned version p)\<lparr>crp_crCouncilMemberSignature := crp_crCouncilMemberSignature p\<rparr>"

lemma CRCProposal_SecretaryElectionUnsigned_transfers:
  assumes "CRCProposal_fits p"
  shows "transfers (CRCProposal_SerializeSecretaryElectionUnsigned v p)
    (rbind ReadUint16 (\<lambda>ty. CRCProposal_DeserializeSecretaryElectionUnsigned v (CRCProposal_new\<lparr>crp_type := ty\<rparr>)))
    (CRCProposal_canonSecretaryElectionUnsigned v p)"
proof -
  have l: "length (crp_categoryData p) < 2 ^ 32" using assms by (simp add: CRCProposal_fits_def)
  have n: "crp_draftData CRCProposal_new = []" "crp_reservedCustomIDList CRCProposal_new = []"
    "crp_receivedCustomIDList CRCProposal_new = []" "crp_budgets CRCProposal_new = []"
    by (simp_all add: CRCProposal_new_def)
  show ?thesis
    unfolding CRCProposal_SerializeSecretaryElectionUnsigned_def CRCProposal_DeserializeSecretaryElectionUnsigned_def
    by (rule l transfer_intros | simp add: n CRCProposal_canonSecretaryElectionUnsigned_def)+
qed

lemma CRCProposal_SecretaryElectionCRCouncilMemberUnsigned_transfers:
  assumes "CRCProposal_fits p"
  shows "transfers (CRCProposal_SerializeSecretaryElectionCRCouncilMemberUnsigned v p)
    (rbind ReadUint16 (\<lambda>ty. CRCProposal_DeserializeSecretaryElectionCRCouncilMemberUnsigned v (CRCProposal_new\<lparr>crp_type := ty\<rparr>)))
    (CRCProposal_canonSecretaryElectionCRCouncilMemberUnsigned v p)"
  unfolding CRCProposal_SerializeSecretaryElectionCRCouncilMemberUnsigned_def CRCProposal_DeserializeSecretaryElectionCRCouncilMemberUnsigned_def rbind_assoc [symmetric]
  by (rule CRCProposal_SecretaryElectionUnsigned_transfers [OF assms] transfer_intros | simp add: CRCProposal_canonSecretaryElectionCRCouncilMemberUnsigned_def)+

lemma CRCProposal_SecretaryElection_transfers:
  assumes "CRCProposal_fits p"
  shows "transfers (CRCProposal_SerializeSecretaryElection v p)
    (rbind ReadUint16 (\<lambda>ty. CRCProposal_DeserializeSecretaryElection v (CRCProposal_new\<lparr>crp_type := ty\<rparr>)))
    (CRCProposal_canonSecretaryElection v p)"
  unfolding CRCProposal_SerializeSecretaryElection_def CRCProposal_DeserializeSecretaryElection_def rbind_assoc [symmetric]
  by (rule CRCProposal_SecretaryElectionCRCouncilMemberUnsigned_transfers [OF assms] transfer_intros | simp add: CRCProposal_canonSecretaryElection_def)+

lemma CRCProposal_SecretaryElection_local: "local_reader (CRCProposal_DeserializeSecretaryElection v o1)"
  by (auto simp: CRCProposal_DeserializeSecretaryElection_def CRCProposal_DeserializeSecretaryElectionCRCouncilMemberUnsigned_def
      CRCProposal_DeserializeSecretaryElectionUnsigned_def intro!: reader_intros)

definition CRCProposal_canonReserveCustomIDUnsigned :: "u8 \<Rightarrow> CRCProposal \<Rightarrow> CRCProposal" where
  "CRCProposal_canonReserveCustomIDUnsigned version p =
     CRCProposal_new\<lparr>crp_type := crp_type p, crp_categoryData := crp_categoryData p,
       crp_ownerPublicKey := crp_ownerPublicKey p, crp_draftHash := crp_draftHash p,
       crp_draftData := (if CRCProposalVersion01 \<le> version then crp_draftData p else []),
       crp_reservedCustomIDList := crp_reservedCustomIDList p\<rparr>"

definition CRCProposal_canonReserveCustomIDCRCouncilMemberUnsigned :: "u8 \<Rightarrow> CRCProposal \<Rightarrow> CRCProposal" where
  "CRCProposal_canonReserveCustomIDCRCouncilMemberUnsigned version p =
     (CRCProposal_canonReserveCustomIDUnsigned version p)\<lparr>crp_signature := crp_signature p,
       crp_crCouncilMemberDID := Address_of_hash (addr_programHash (crp_crCouncilMemberDID p))\<rparr>"

definition CRCProposal_canonReserveCustomID :: "u8 \<Rightarrow> CRCProposal \<Rightarrow> CRCProposal" where
  "CRCProposal_canonReserveCustomID version p =
     (CRCProposal_canonReserveCustomIDCRCouncilMemberUnsigned version p)\<lparr>crp_crCouncilMemberSignature := crp_crCouncilMemberSignature p\<rparr>"

lemma CRCProposal_ReserveCustomIDUnsigned_transfers:
  assumes "CRCProposal_fits p"
  shows "transfers (CRCProposal_SerializeReserveCustomIDUnsigned v p)
    (rbind ReadUint16 (\<lambda>ty. CRCProposal_DeserializeReserveCustomIDUnsigned v (CRCProposal_new\<lparr>crp_type := ty\<rparr>)))
    (CRCProposal_canonReserveCustomIDUnsigned v p)"
proof -
  have l: "length (crp_categoryData p) < 2 ^ 32" using assms by (simp add: CRCProposal_fits_def)
  have strs: "transfers (write_items WriteVarString (crp_reservedCustomIDList p)) (read_items ReadVarString) (crp_reservedCustomIDList p)"
    using assms by (intro transfers_items_id needs_ReadVarString transfers_WriteVarString) (auto simp: CRCProposal_fits_def)
  have n: "crp_draftData CRCProposal_new = []" "crp_reservedCustomIDList CRCProposal_new = []"
    "crp_receivedCustomIDList CRCProposal_new = []" "crp_budgets CRCProposal_new = []"
    by (simp_all add: CRCProposal_new_def)
  show ?thesis
    unfolding CRCProposal_SerializeReserveCustomIDUnsigned_def CRCProposal_DeserializeReserveCustomIDUnsigned_def
    by (rule l strs transfer_intros | simp add: n CRCProposal_canonReserveCustomIDUnsigned_def)+
qed

lemma CRCProposal_ReserveCustomIDCRCouncilMemberUnsigned_transfers:
  assumes "CRCProposal_fits p"
  shows "transfers (CRCProposal_SerializeReserveCustomIDCRCouncilMemberUnsigned v p)
    (rbind ReadUint16 (\<lambda>ty. CRCProposal_DeserializeReserveCustomIDCRCouncilMemberUnsigned v (CRCProposal_new\<lparr>crp_type := ty\<rparr>)))
    (CRCProposal_canonReserveCustomIDCRCouncilMemberUnsigned v p)"
  unfolding CRCProposal_SerializeReserveCustomIDCRCouncilMemberUnsigned_def CRCProposal_DeserializeReserveCustomIDCRCouncilMemberUnsigned_def rbind_assoc [symmetric]
  by (rule CRCProposal_ReserveCustomIDUnsigned_transfers [OF assms] transfer_intros | simp add: CRCProposal_canonReserveCustomIDCRCouncilMemberUnsigned_def)+

lemma CRCProposal_ReserveCustomID_transfers:
  assumes "CRCProposal_fits p"
  shows "transfers (CRCProposal_SerializeReserveCustomID v p)
    (rbind ReadUint16 (\<lambda>ty. CRCProposal_DeserializeReserveCustomID v (CRCProposal_new\<lparr>crp_type := ty\<rparr>)))
    (CRCProposal_canonReserveCustomID v p)"
  unfolding CRCProposal_SerializeReserveCustomID_def CRCProposal_DeserializeReserveCustomID_def rbind_assoc [symmetric]
  by (rule CRCProposal_ReserveCustomIDCRCouncilMemberUnsigned_transfers [OF assms] transfer_intros | simp add: CRCProposal_canonReserveCustomID_def)+

lemma CRCProposal_ReserveCustomID_local: "local_reader (CRCProposal_DeserializeReserveCustomID v o1)"
  by (auto simp: CRCProposal_DeserializeReserveCustomID_def CRCProposal_DeserializeReserveCustomIDCRCouncilMemberUnsigned_def
      CRCProposal_DeserializeReserveCustomIDUnsigned_def intro!: reader_intros)

definition CRCProposal_canonReceiveCustomIDUnsigned :: "u8 \<Rightarrow> CRCProposal \<Rightarrow> CRCProposal" where
  "CRCProposal_canonReceiveCustomIDUnsigned version p =
     CRCProposal_new\<lparr>crp_type := crp_type p, crp_categoryData := crp_categoryData p,
       crp_ownerPublicKey := crp_ownerPublicKey p, crp_draftHash := crp_draftHash p,
       crp_draftData := (if CRCProposalVersion01 \<le> version then crp_draftData p else []),
       crp_receivedCustomIDList := crp_receivedCustomIDList p,
       crp_receiverDID := Address_of_hash (addr_programHash (crp_receiverDID p))\<rparr>"

definition CRCProposal_canonReceiveCustomIDCRCCouncilMemberUnsigned :: "u8 \<Rightarrow> CRCProposal \<Rightarrow> CRCProposal" where
  "CRCProposal_canonReceiveCustomIDCRCCouncilMemberUnsigned version p =
     (CRCProposal_canonReceiveCustomIDUnsigned version p)\<lparr>crp_signature := crp_signature p,
       crp_crCouncilMemberDID := Address_of_hash (addr_programHash (crp_crCouncilMemberDID p))\<rparr>"

definition CRCProposal_canonReceiveCustomID :: "u8 \<Rightarrow> CRCProposal \<Rightarrow> CRCProposal" where
  "CRCProposal_canonReceiveCustomID version p =
     (CRCProposal_canonReceiveCustomIDCRCCouncilMemberUnsigned version p)\<lparr>crp_crCouncilMemberSignature := crp_crCouncilMemberSignature p\<rparr>"

lemma CRCProposal_ReceiveCustomIDUnsigned_transfers:
  assumes "CRCProposal_fits p"
  shows "transfers (CRCProposal_SerializeReceiveCustomIDUnsigned v p)
    (rbind ReadUint16 (\<lambda>ty. CRCProposal_DeserializeReceiveCustomIDUnsigned v (CRCProposal_new\<lparr>crp_type := ty\<rparr>)))
    (CRCProposal_canonReceiveCustomIDUnsigned v p)"
proof -
  have l: "length (crp_categoryData p) < 2 ^ 32" using assms by (simp add: CRCProposal_fits_def)
  have strs: "transfers (write_items WriteVarString (crp_receivedCustomIDList p)) (read_items ReadVarString) (crp_receivedCustomIDList p)"
    using assms by (intro transfers_items_id needs_ReadVarString transfers_WriteVarString) (auto simp: CRCProposal_fits_def)
  have n: "crp_draftData CRCProposal_new = []" "crp_reservedCustomIDList CRCProposal_new = []"
    "crp_receivedCustomIDList CRCProposal_new = []" "crp_budgets CRCProposal_new = []"
    by (simp_all add: CRCProposal_new_def)
  show ?thesis
    unfolding CRCProposal_SerializeReceiveCustomIDUnsigned_def CRCProposal_DeserializeReceiveCustomIDUnsigned_def
    by (rule l strs transfer_intros | simp add: n CRCProposal_canonReceiveCustomIDUnsigned_def)+
qed

lemma CRCProposal_ReceiveCustomIDCRCCouncilMemberUnsigned_transfers:
  assumes "CRCProposal_fits p"
  shows "transfers (CRCProposal_SerializeReceiveCustomIDCRCCouncilMemberUnsigned v p)
    (rbind ReadUint16 (\<lambda>ty. CRCProposal_DeserializeReceiveCustomIDCRCCouncilMemberUnsigned v (CRCProposal_new\<lparr>crp_type := ty\<rparr>)))
    (CRCProposal_canonReceiveCustomIDCRCCouncilMemberUnsigned v p)"
  unfolding CRCProposal_SerializeReceiveCustomIDCRCCouncilMemberUnsigned_def CRCProposal_DeserializeReceiveCustomIDCRCCouncilMemberUnsigned_def rbind_assoc [symmetric]
  by (rule CRCProposal_ReceiveCustomIDUnsigned_transfers [OF assms] transfer_intros | simp add: CRCProposal_canonReceiveCustomIDCRCCouncilMemberUnsigned_def)+

lemma CRCProposal_ReceiveCustomID_transfers:
  assumes "CRCProposal_fits p"
  shows "transfers (CRCProposal_SerializeReceiveCustomID v p)
    (rbind ReadUint16 (\<lambda>ty. CRCProposal_DeserializeReceiveCustomID v (CRCProposal_new\<lparr>crp_type := ty\<rparr>)))
    (CRCProposal_canonReceiveCustomID v p)"
  unfolding CRCProposal_SerializeReceiveCustomID_def CRCProposal_DeserializeReceiveCustomID_def rbind_assoc [symmetric]
  by (rule CRCProposal_ReceiveCustomIDCRCCouncilMemberUnsigned_transfers [OF assms] transfer_intros | simp add: CRCProposal_canonReceiveCustomID_def)+

lemma CRCProposal_ReceiveCustomID_local: "local_reader (CRCProposal_DeserializeReceiveCustomID v o1)"
  by (auto simp: CRCProposal_DeserializeReceiveCustomID_def CRCProposal_DeserializeReceiveCustomIDCRCCouncilMemberUnsigned_def
      CRCProposal_DeserializeReceiveCustomIDUnsigned_def intro!: reader_intros)

definition CRCProposal_canonChangeCustomIDFeeUnsigned :: "u8 \<Rightarrow> CRCProposal \<Rightarrow> CRCProposal" where
  "CRCProposal_canonChangeCustomIDFeeUnsigned version p =
     CRCProposal_new\<lparr>crp_type := crp_type p, crp_categoryData := crp_categoryData p,
       crp_ownerPublicKey := crp_ownerPublicKey p, crp_draftHash := crp_draftHash p,
       crp_draftData := (if CRCProposalVersion01 \<le> version then crp_draftData p else []),
       crp_customIDFeeRateInfo := crp_customIDFeeRateInfo p\<rparr>"

definition CRCProposal_canonChangeCustomIDFeeCRCCouncilMemberUnsigned :: "u8 \<Rightarrow> CRCProposal \<Rightarrow> CRCProposal" where
  "CRCProposal_canonChangeCustomIDFeeCRCCouncilMemberUnsigned version p =
     (CRCProposal_canonChangeCustomIDFeeUnsigned version p)\<lparr>crp_signature := crp_signature p,
       crp_crCouncilMemberDID := Address_of_hash (addr_programHash (crp_crCouncilMemberDID p))\<rparr>"

definition CRCProposal_canonChangeCustomIDFee :: "u8 \<Rightarrow> CRCProposal \<Rightarrow> CRCProposal" where
  "CRCProposal_canonChangeCustomIDFee version p =
     (CRCProposal_canonChangeCustomIDFeeCRCCouncilMemberUnsigned version p)\<lparr>crp_crCouncilMemberSignature := crp_crCouncilMemberSignature p\<rparr>"

lemma CRCProposal_ChangeCustomIDFeeUnsigned_transfers:
  assumes "CRCProposal_fits p"
  shows "transfers (CRCProposal_SerializeChangeCustomIDFeeUnsigned v p)
    (rbind ReadUint16 (\<lambda>ty. CRCProposal_DeserializeChangeCustomIDFeeUnsigned v (CRCProposal_new\<lparr>crp_type := ty\<rparr>)))
    (CRCProposal_canonChangeCustomIDFeeUnsigned v p)"
proof -
  have l: "length (crp_categoryData p) < 2 ^ 32" using assms by (simp add: CRCProposal_fits_def)
  have n: "crp_draftData CRCProposal_new = []" "crp_reservedCustomIDList CRCProposal_new = []"
    "crp_receivedCustomIDList CRCProposal_new = []" "crp_budgets CRCProposal_new = []"
    by (simp_all add: CRCProposal_new_def)
  show ?thesis
    unfolding CRCProposal_SerializeChangeCustomIDFeeUnsigned_def CRCProposal_DeserializeChangeCustomIDFeeUnsigned_def
    by (rule l CustomIDFeeRateInfo_transfers transfer_intros | simp add: n CRCProposal_canonChangeCustomIDFeeUnsigned_def)+
qed

lemma CRCProposal_ChangeCustomIDFeeCRCCouncilMemberUnsigned_transfers:
  assumes "CRCProposal_fits p"
  shows "transfers (CRCProposal_SerializeChangeCustomIDFeeCRCCouncilMemberUnsigned v p)
    (rbind ReadUint16 (\<lambda>ty. CRCProposal_DeserializeChangeCustomIDFeeCRCCouncilMemberUnsigned v (CRCProposal_new\<lparr>crp_type := ty\<rparr>)))
    (CRCProposal_canonChangeCustomIDFeeCRCCouncilMemberUnsigned v p)"
  unfolding CRCProposal_SerializeChangeCustomIDFeeCRCCouncilMemberUnsigned_def CRCProposal_DeserializeChangeCustomIDFeeCRCCouncilMemberUnsigned_def rbind_assoc [symmetric]
  by (rule CRCProposal_ChangeCustomIDFeeUnsigned_transfers [OF assms] transfer_intros | simp add: CRCProposal_canonChangeCustomIDFeeCRCCouncilMemberUnsigned_def)+

lemma CRCProposal_ChangeCustomIDFee_transfers:
  assumes "CRCProposal_fits p"
  shows "transfers (CRCProposal_SerializeChangeCustomIDFee v p)
    (rbind ReadUint16 (\<lambda>ty. CRCProposal_DeserializeChangeCustomIDFee v (CRCProposal_new\<lparr>crp_type := ty\<rparr>)))
    (CRCProposal_canonChangeCustomIDFee v p)"
  unfolding CRCProposal_SerializeChangeCustomIDFee_def CRCProposal_DeserializeChangeCustomIDFee_def rbind_assoc [symmetric]
  by (rule CRCProposal_ChangeCustomIDFeeCRCCouncilMemberUnsigned_transfers [OF assms] transfer_intros | simp add: CRCProposal_canonChangeCustomIDFee_def)+

lemma CRCProposal_ChangeCustomIDFee_local: "local_reader (CRCProposal_DeserializeChangeCustomIDFee v o1)"
  by (auto simp: CRCProposal_DeserializeChangeCustomIDFee_def CRCProposal_DeserializeChangeCustomIDFeeCRCCouncilMemberUnsigned_def
      CRCProposal_DeserializeChangeCustomIDFeeUnsigned_def intro!: reader_intros CustomIDFeeRateInfo_local)

definition CRCProposal_canonRegisterSidechainUnsigned :: "u8 \<Rightarrow> CRCProposal \<Rightarrow> CRCProposal" where
  "CRCProposal_canonRegisterSidechainUnsigned version p =
     CRCProposal_new\<lparr>crp_type := crp_type p, crp_categoryData := crp_categoryData p,
       crp_ownerPublicKey := crp_ownerPublicKey p, crp_draftHash := crp_draftHash p,
       crp_draftData := (if CRCProposalVersion01 \<le> version then crp_draftData p else []),
       crp_sidechainInfo := crp_sidechainInfo p\<rparr>"

definition CRCProposal_canonRegisterSidechainCRCouncilMemberUnsigned :: "u8 \<Rightarrow> CRCProposal \<Rightarrow> CRCProposal" where
  "CRCProposal_canonRegisterSidechainCRCouncilMemberUnsigned version p =
     (CRCProposal_canonRegisterSidechainUnsigned version p)\<lparr>crp_signature := crp_signature p,
       crp_crCouncilMemberDID := Address_of_hash (addr_programHash (crp_crCouncilMemberDID p))\<rparr>"

definition CRCProposal_canonRegisterSidechain :: "u8 \<Rightarrow> CRCProposal \<Rightarrow> CRCProposal" where
  "CRCProposal_canonRegisterSidechain version p =
     (CRCProposal_canonRegisterSidechainCRCouncilMemberUnsigned version p)\<lparr>crp_crCouncilMemberSignature := crp_crCouncilMemberSignature p\<rparr>"

lemma CRCProposal_RegisterSidechainUnsigned_transfers:
  assumes "CRCProposal_fits p"
  shows "transfers (CRCProposal_SerializeRegisterSidechainUnsigned v p)
    (rbind ReadUint16 (\<lambda>ty. CRCProposal_DeserializeRegisterSidechainUnsigned v (CRCProposal_new\<lparr>crp_type := ty\<rparr>)))
    (CRCProposal_canonRegisterSidechainUnsigned v p)"
proof -
  have l: "length (crp_categoryData p) < 2 ^ 32" using assms by (simp add: CRCProposal_fits_def)
  have side: "\<And>o1. transfers (SideChainInfo_Serialize v (crp_sidechainInfo p)) (SideChainInfo_Deserialize v o1) (crp_sidechainInfo p)"
    using assms by (intro SideChainInfo_transfers) (simp add: CRCProposal_fits_def)
  have n: "crp_draftData CRCProposal_new = []" "crp_reservedCustomIDList CRCProposal_new = []"
    "crp_receivedCustomIDList CRCProposal_new = []" "crp_budgets CRCProposal_new = []"
    by (simp_all add: CRCProposal_new_def)
  show ?thesis
    unfolding CRCProposal_SerializeRegisterSidechainUnsigned_def CRCProposal_DeserializeRegisterSidechainUnsigned_def
    by (rule l side transfer_intros | simp add: n CRCProposal_canonRegisterSidechainUnsigned_def)+
qed

lemma CRCProposal_RegisterSidechainCRCouncilMemberUnsigned_transfers:
  assumes "CRCProposal_fits p"
  shows "transfers (CRCProposal_SerializeRegisterSidechainCRCouncilMemberUnsigned v p)
    (rbind ReadUint16 (\<lambda>ty. CRCProposal_DeserializeRegisterSidechainCRCouncilMemberUnsigned v (CRCProposal_new\<lparr>crp_type := ty\<rparr>)))
    (CRCProposal_canonRegisterSidechainCRCouncilMemberUnsigned v p)"
  unfolding CRCProposal_SerializeRegisterSidechainCRCouncilMemberUnsigned_def CRCProposal_DeserializeRegisterSidechainCRCouncilMemberUnsigned_def rbind_assoc [symmetric]
  by (rule CRCProposal_RegisterSidechainUnsigned_transfers [OF assms] transfer_intros | simp add: CRCProposal_canonRegisterSidechainCRCouncilMemberUnsigned_def)+

lemma CRCProposal_RegisterSidechain_transfers:
  assumes "CRCProposal_fits p"
  shows "transfers (CRCProposal_SerializeRegisterSidechain v p)
    (rbind ReadUint16 (\<lambda>ty. CRCProposal_DeserializeRegisterSidechain v (CRCProposal_new\<lparr>crp_type := ty\<rparr>)))
    (CRCProposal_canonRegisterSidechain v p)"
  unfolding CRCProposal_SerializeRegisterSidechain_def CRCProposal_DeserializeRegisterSidechain_def rbind_assoc [symmetric]
  by (rule CRCProposal_RegisterSidechainCRCouncilMemberUnsigned_transfers [OF assms] transfer_intros | simp add: CRCProposal_canonRegisterSidechain_def)+

lemma CRCProposal_RegisterSidechain_local: "local_reader (CRCProposal_DeserializeRegisterSidechain v o1)"
  by (auto simp: CRCProposal_DeserializeRegisterSidechain_def CRCProposal_DeserializeRegisterSidechainCRCouncilMemberUnsigned_def
      CRCProposal_DeserializeRegisterSidechainUnsigned_def intro!: reader_intros SideChainInfo_local)

definition CRCProposal_canonUpgradeCodeUnsigned :: "u8 \<Rightarrow> CRCProposal \<Rightarrow> CRCProposal" where
  "CRCProposal_canonUpgradeCodeUnsigned version p =
     CRCProposal_new\<lparr>crp_type := crp_type p, crp_categoryData := crp_categoryData p,
       crp_ownerPublicKey := crp_ownerPublicKey p, crp_draftHash := crp_draftHash p,
       crp_upgradeCodeInfo := crp_upgradeCodeInfo p\<rparr>"

definition CRCProposal_canonUpgradeCodeCRCouncilMemberUnsigned :: "u8 \<Rightarrow> CRCProposal \<Rightarrow> CRCProposal" where
  "CRCProposal_canonUpgradeCodeCRCouncilMemberUnsigned version p =
     (CRCProposal_canonUpgradeCodeUnsigned version p)\<lparr>crp_signature := crp_signature p,
       crp_crCouncilMemberDID := Address_of_hash (addr_programHash (crp_crCouncilMemberDID p))\<rparr>"

definition CRCProposal_canonUpgradeCode :: "u8 \<Rightarrow> CRCProposal \<Rightarrow> CRCProposal" where
  "CRCProposal_canonUpgradeCode version p =
     (CRCProposal_canonUpgradeCodeCRCouncilMemberUnsigned version p)\<lparr>crp_crCouncilMemberSignature := crp_crCouncilMemberSignature p\<rparr>"

lemma CRCProposal_UpgradeCodeUnsigned_transfers:
  assumes "CRCProposal_fits p"
  shows "transfers (CRCProposal_SerializeUpgradeCodeUnsigned v p)
    (rbind ReadUint16 (\<lambda>ty. CRCProposal_DeserializeUpgradeCodeUnsigned v (CRCProposal_new\<lparr>crp_type := ty\<rparr>)))
    (CRCProposal_canonUpgradeCodeUnsigned v p)"
proof -
  have l: "length (crp_categoryData p) < 2 ^ 32" using assms by (simp add: CRCProposal_fits_def)
  have code: "\<And>o1. transfers (UpgradeCodeInfo_Serialize v (crp_upgradeCodeInfo p)) (UpgradeCodeInfo_Deserialize v o1) (crp_upgradeCodeInfo p)"
    using assms by (intro UpgradeCodeInfo_transfers) (simp add: CRCProposal_fits_def)
  have n: "crp_draftData CRCProposal_new = []" "crp_reservedCustomIDList CRCProposal_new = []"
    "crp_receivedCustomIDList CRCProposal_new = []" "crp_budgets CRCProposal_new = []"
    by (simp_all add: CRCProposal_new_def)
  show ?thesis
    unfolding CRCProposal_SerializeUpgradeCodeUnsigned_def CRCProposal_DeserializeUpgradeCodeUnsigned_def
    by (rule l code transfer_intros | simp add: n CRCProposal_canonUpgradeCodeUnsigned_def)+
qed

lemma CRCProposal_UpgradeCodeCRCouncilMemberUnsigned_transfers:
  assumes "CRCProposal_fits p"
  shows "transfers (CRCProposal_SerializeUpgradeCodeCRCouncilMemberUnsigned v p)
    (rbind ReadUint16 (\<lambda>ty. CRCProposal_DeserializeUpgradeCodeCRCouncilMemberUnsigned v (CRCProposal_new\<lparr>crp_type := ty\<rparr>)))
    (CRCProposal_canonUpgradeCodeCRCouncilMemberUnsigned v p)"
  unfolding CRCProposal_SerializeUpgradeCodeCRCouncilMemberUnsigned_def CRCProposal_DeserializeUpgradeCodeCRCouncilMemberUnsigned_def rbind_assoc [symmetric]
  by (rule CRCProposal_UpgradeCodeUnsigned_transfers [OF assms] transfer_intros | simp add: CRCProposal_canonUpgradeCodeCRCouncilMemberUnsigned_def)+

lemma CRCProposal_UpgradeCode_transfers:
  assumes "CRCProposal_fits p"
  shows "transfers (CRCProposal_SerializeUpgradeCode v p)
    (rbind ReadUint16 (\<lambda>ty. CRCProposal_DeserializeUpgradeCode v (CRCProposal_new\<lparr>crp_type := ty\<rparr>)))
    (CRCProposal_canonUpgradeCode v p)"
  unfolding CRCProposal_SerializeUpgradeCode_def CRCProposal_DeserializeUpgradeCode_def rbind_assoc [symmetric]
  by (rule CRCProposal_UpgradeCodeCRCouncilMemberUnsigned_transfers [OF assms] transfer_intros | simp add: CRCProposal_canonUpgradeCode_def)+

lemma CRCProposal_UpgradeCode_local: "local_reader (CRCProposal_DeserializeUpgradeCode v o1)"
  by (auto simp: CRCProposal_DeserializeUpgradeCode_def CRCProposal_DeserializeUpgradeCodeCRCouncilMemberUnsigned_def
      CRCProposal_DeserializeUpgradeCodeUnsigned_def intro!: reader_intros UpgradeCodeInfo_local)

section \<open>Sizes\<close>

definition bytes_head :: "nat \<Rightarrow> nat" where
  "bytes_head n = WriteVarUint_count (word_of_nat n) + varint_gap (word_of_nat n)"

definition bytes_size :: "bytes \<Rightarrow> nat" where
  "bytes_size bs = bytes_head (length bs) + length bs"

definition strings_size :: "string list \<Rightarrow> nat" where
  "strings_size xs = bytes_head (length xs) + (\<Sum>x\<leftarrow>xs. bytes_size (bytes_of_string x))"

definition SideChainInfo_size :: "SideChainInfo \<Rightarrow> nat" where
  "SideChainInfo_size i =
     bytes_size (bytes_of_string (sci_sideChainName i)) + 4 + 32 + 8 + 4 +
     bytes_size (bytes_of_string (sci_resourcePath i))"

text \<open>The fields every layout that carries the draft data has, the signatures of the owner and the member included.\<close>

definition CRCProposal_common_size :: "u8 \<Rightarrow> CRCProposal \<Rightarrow> nat" where
  "CRCProposal_common_size v p =
     2 + bytes_size (bytes_of_string (crp_categoryData p)) + bytes_size (crp_ownerPublicKey p) + 32 +
     (if CRCProposalVersion01 \<le> v then bytes_size (crp_draftData p) else 0) +
     bytes_size (crp_signature p) + 21 + bytes_size (crp_crCouncilMemberSignature p)"

lemma starts_WriteUint16: "starts (WriteUint16 v) (le_bytes 2 v)"
  by (rule starts_appends [OF appends_WriteUint16])

text \<open>A reader that is told apart by the type in front may be taken for the one of that type.\<close>

lemmas transfers_typed = transfers_known [OF _ _ decodes_ReadUint16]

lemma wsize_budgets:
  "wsize (write_items Budget_Serialize bs) (10 * length bs + bytes_head (length bs))"
proof -
  have b: "wsize (Budget_Serialize b) 10" for b
    unfolding Budget_Serialize_def by (rule wsize_eq, (rule size_intros)+) simp
  show ?thesis
    by (rule wsize_eq, rule wsize_items, rule b) (simp add: bytes_head_def sum_list_triv)
qed

lemma wsize_strings:
  assumes "\<forall>str \<in> set xs. length str < 2 ^ 32"
  shows "wsize (write_items WriteVarString xs) (strings_size xs)"
  by (rule wsize_eq, rule wsize_items, rule wsize_WriteVarString)
    (use assms in \<open>auto simp: strings_size_def bytes_size_def bytes_head_def intro!: arg_cong [of _ _ sum_list]\<close>)

lemma CustomIDFeeRateInfo_size: "wsize (CustomIDFeeRateInfo_Serialize v i) 12"
  unfolding CustomIDFeeRateInfo_Serialize_def by (rule wsize_eq, (rule size_intros)+) simp

lemma SideChainInfo_wsize:
  assumes "SideChainInfo_fits i"
  shows "wsize (SideChainInfo_Serialize v i) (SideChainInfo_size i)"
proof -
  have l: "length (sci_sideChainName i) < 2 ^ 32" "length (sci_resourcePath i) < 2 ^ 32"
    using assms by (simp_all add: SideChainInfo_fits_def)
  show ?thesis
    unfolding SideChainInfo_Serialize_def
    by (rule wsize_eq, (rule size_intros l)+) (simp add: SideChainInfo_size_def bytes_size_def bytes_head_def)
qed

lemma CRCProposal_NormalOrELIP_size:
  assumes "CRCProposal_fits p"
  shows "starts (CRCProposal_SerializeNormalOrELIP v p) (le_bytes 2 (crp_type p))"
    and "wsize (CRCProposal_SerializeNormalOrELIP v p) (CRCProposal_common_size v p + (10 * length (crp_budgets p) + bytes_head (length (crp_budgets p)) + 21))"
proof -
  have l: "length (crp_categoryData p) < 2 ^ 32" using assms by (simp add: CRCProposal_fits_def)
  show "starts (CRCProposal_SerializeNormalOrELIP v p) (le_bytes 2 (crp_type p))"
    unfolding CRCProposal_SerializeNormalOrELIP_def CRCProposal_SerializeCRCouncilMemberUnsigned_def CRCProposal_SerializeOwnerUnsigned_def
    by (rule starts_Cons starts_WriteUint16 l wsize_budgets size_intros)+
  show "wsize (CRCProposal_SerializeNormalOrELIP v p) (CRCProposal_common_size v p + (10 * length (crp_budgets p) + bytes_head (length (crp_budgets p)) + 21))"
    unfolding CRCProposal_SerializeNormalOrELIP_def CRCProposal_SerializeCRCouncilMemberUnsigned_def CRCProposal_SerializeOwnerUnsigned_def
    by (rule wsize_eq, (rule l wsize_budgets size_intros)+) (simp add: CRCProposal_common_size_def bytes_size_def bytes_head_def)
qed

lemma CRCProposal_ChangeOwner_size:
  assumes "CRCProposal_fits p"
  shows "starts (CRCProposal_SerializeChangeOwner v p) (le_bytes 2 (crp_type p))"
    and "wsize (CRCProposal_SerializeChangeOwner v p) (CRCProposal_common_size v p + (32 + 21 + bytes_size (crp_newOwnerPublicKey p)) + bytes_size (crp_newOwnerSignature p))"
proof -
  have l: "length (crp_categoryData p) < 2 ^ 32" using assms by (simp add: CRCProposal_fits_def)
  show "starts (CRCProposal_SerializeChangeOwner v p) (le_bytes 2 (crp_type p))"
    unfolding CRCProposal_SerializeChangeOwner_def CRCProposal_SerializeChangeOwnerCRCouncilMemberUnsigned_def CRCProposal_SerializeChangeOwnerUnsigned_def
    by (rule starts_Cons starts_WriteUint16 l size_intros)+
  show "wsize (CRCProposal_SerializeChangeOwner v p) (CRCProposal_common_size v p + (32 + 21 + bytes_size (crp_newOwnerPublicKey p)) + bytes_size (crp_newOwnerSignature p))"
    unfolding CRCProposal_SerializeChangeOwner_def CRCProposal_SerializeChangeOwnerCRCouncilMemberUnsigned_def CRCProposal_SerializeChangeOwnerUnsigned_def
    by (rule wsize_eq, (rule l size_intros)+) (simp add: CRCProposal_common_size_def bytes_size_def bytes_head_def)
qed

lemma CRCProposal_TerminateProposal_size:
  assumes "CRCProposal_fits p"
  shows "starts (CRCProposal_SerializeTerminateProposal v p) (le_bytes 2 (crp_type p))"
    and "wsize (CRCProposal_SerializeTerminateProposal v p) (CRCProposal_common_size v p + (32))"
proof -
  have l: "length (crp_categoryData p) < 2 ^ 32" using assms by (simp add: CRCProposal_fits_def)
  show "starts (CRCProposal_SerializeTerminateProposal v p) (le_bytes 2 (crp_type p))"
    unfolding CRCProposal_SerializeTerminateProposal_def CRCProposal_SerializeTerminateProposalCRCouncilMemberUnsigned_def CRCProposal_SerializeTerminateProposalUnsigned_def
    by (rule starts_Cons starts_WriteUint16 l size_intros)+
  show "wsize (CRCProposal_SerializeTerminateProposal v p) (CRCProposal_common_size v p + (32))"
    unfolding CRCProposal_SerializeTerminateProposal_def CRCProposal_SerializeTerminateProposalCRCouncilMemberUnsigned_def CRCProposal_SerializeTerminateProposalUnsigned_def
    by (rule wsize_eq, (rule l size_intros)+) (simp add: CRCProposal_common_size_def bytes_size_def bytes_head_def)
qed

lemma CRCProposal_SecretaryElection_size:
  assumes "CRCProposal_fits p"
  shows "starts (CRCProposal_SerializeSecretaryElection v p) (le_bytes 2 (crp_type p))"
    and "wsize (CRCProposal_SerializeSecretaryElection v p) (CRCProposal_common_size v p + (bytes_size (crp_secretaryPublicKey p) + 21) + bytes_size (crp_secretarySignature p))"
proof -
  have l: "length (crp_categoryData p) < 2 ^ 32" using assms by (simp add: CRCProposal_fits_def)
  show "starts (CRCProposal_SerializeSecretaryElection v p) (le_bytes 2 (crp_type p))"
    unfolding CRCProposal_SerializeSecretaryElection_def CRCProposal_SerializeSecretaryElectionCRCouncilMemberUnsigned_def CRCProposal_SerializeSecretaryElectionUnsigned_def
    by (rule starts_Cons starts_WriteUint16 l size_intros)+
  show "wsize (CRCProposal_SerializeSecretaryElection v p) (CRCProposal_common_size v p + (bytes_size (crp_secretaryPublicKey p) + 21) + bytes_size (crp_secretarySignature p))"
    unfolding CRCProposal_SerializeSecretaryElection_def CRCProposal_SerializeSecretaryElectionCRCouncilMemberUnsigned_def CRCProposal_SerializeSecretaryElectionUnsigned_def
    by (rule wsize_eq, (rule l size_intros)+) (simp add: CRCProposal_common_size_def bytes_size_def bytes_head_def)
qed

lemma CRCProposal_ReserveCustomID_size:
  assumes "CRCProposal_fits p"
  shows "starts (CRCProposal_SerializeReserveCustomID v p) (le_bytes 2 (crp_type p))"
    and "wsize (CRCProposal_SerializeReserveCustomID v p) (CRCProposal_common_size v p + (strings_size (crp_reservedCustomIDList p)))"
proof -
  have l: "length (crp_categoryData p) < 2 ^ 32" using assms by (simp add: CRCProposal_fits_def)
  have strs: "wsize (write_items WriteVarString (crp_reservedCustomIDList p)) (strings_size (crp_reservedCustomIDList p))"
    using assms by (intro wsize_strings) (simp add: CRCProposal_fits_def)
  show "starts (CRCProposal_SerializeReserveCustomID v p) (le_bytes 2 (crp_type p))"
    unfolding CRCProposal_SerializeReserveCustomID_def CRCProposal_SerializeReserveCustomIDCRCouncilMemberUnsigned_def CRCProposal_SerializeReserveCustomIDUnsigned_def
    by (rule starts_Cons starts_WriteUint16 l strs size_intros)+
  show "wsize (CRCProposal_SerializeReserveCustomID v p) (CRCProposal_common_size v p + (strings_size (crp_reservedCustomIDList p)))"
    unfolding CRCProposal_SerializeReserveCustomID_def CRCProposal_SerializeReserveCustomIDCRCouncilMemberUnsigned_def CRCProposal_SerializeReserveCustomIDUnsigned_def
    by (rule wsize_eq, (rule l strs size_intros)+) (simp add: CRCProposal_common_size_def bytes_size_def bytes_head_def)
qed

lemma CRCProposal_ReceiveCustomID_size:
  assumes "CRCProposal_fits p"
  shows "starts (CRCProposal_SerializeReceiveCustomID v p) (le_bytes 2 (crp_type p))"
    and "wsize (CRCProposal_SerializeReceiveCustomID v p) (CRCProposal_common_size v p + (strings_size (crp_receivedCustomIDList p) + 21))"
proof -
  have l: "length (crp_categoryData p) < 2 ^ 32" using assms by (simp add: CRCProposal_fits_def)
  have strs: "wsize (write_items WriteVarString (crp_receivedCustomIDList p)) (strings_size (crp_receivedCustomIDList p))"
    using assms by (intro wsize_strings) (simp add: CRCProposal_fits_def)
  show "starts (CRCProposal_SerializeReceiveCustomID v p) (le_bytes 2 (crp_type p))"
    unfolding CRCProposal_SerializeReceiveCustomID_def CRCProposal_SerializeReceiveCustomIDCRCCouncilMemberUnsigned_def CRCProposal_SerializeReceiveCustomIDUnsigned_def
    by (rule starts_Cons starts_WriteUint16 l strs size_intros)+
  show "wsize (CRCProposal_SerializeReceiveCustomID v p) (CRCProposal_common_size v p + (strings_size (crp_receivedCustomIDList p) + 21))"
    unfolding CRCProposal_SerializeReceiveCustomID_def CRCProposal_SerializeReceiveCustomIDCRCCouncilMemberUnsigned_def CRCProposal_SerializeReceiveCustomIDUnsigned_def
    by (rule wsize_eq, (rule l strs size_intros)+) (simp add: CRCProposal_common_size_def bytes_size_def bytes_head_def)
qed

lemma CRCProposal_ChangeCustomIDFee_size:
  assumes "CRCProposal_fits p"
  shows "starts (CRCProposal_SerializeChangeCustomIDFee v p) (le_bytes 2 (crp_type p))"
    and "wsize (CRCProposal_SerializeChangeCustomIDFee v p) (CRCProposal_common_size v p + (12))"
proof -
  have l: "length (crp_categoryData p) < 2 ^ 32" using assms by (simp add: CRCProposal_fits_def)
  show "starts (CRCProposal_SerializeChangeCustomIDFee v p) (le_bytes 2 (crp_type p))"
    unfolding CRCProposal_SerializeChangeCustomIDFee_def CRCProposal_SerializeChangeCustomIDFeeCRCCouncilMemberUnsigned_def CRCProposal_SerializeChangeCustomIDFeeUnsigned_def
    by (rule starts_Cons starts_WriteUint16 l CustomIDFeeRateInfo_size size_intros)+
  show "wsize (CRCProposal_SerializeChangeCustomIDFee v p) (CRCProposal_common_size v p + (12))"
    unfolding CRCProposal_SerializeChangeCustomIDFee_def CRCProposal_SerializeChangeCustomIDFeeCRCCouncilMemberUnsigned_def CRCProposal_SerializeChangeCustomIDFeeUnsigned_def
    by (rule wsize_eq, (rule l CustomIDFeeRateInfo_size size_intros)+) (simp add: CRCProposal_common_size_def bytes_size_def bytes_head_def)
qed

lemma CRCProposal_RegisterSidechain_size:
  assumes "CRCProposal_fits p"
  shows "starts (CRCProposal_SerializeRegisterSidechain v p) (le_bytes 2 (crp_type p))"
    and "wsize (CRCProposal_SerializeRegisterSidechain v p) (CRCProposal_common_size v p + (SideChainInfo_size (crp_sidechainInfo p)))"
proof -
  have l: "length (crp_categoryData p) < 2 ^ 32" using assms by (simp add: CRCProposal_fits_def)
  have side: "wsize (SideChainInfo_Serialize v (crp_sidechainInfo p)) (SideChainInfo_size (crp_sidechainInfo p))"
    using assms by (intro SideChainInfo_wsize) (simp add: CRCProposal_fits_def)
  show "starts (CRCProposal_SerializeRegisterSidechain v p) (le_bytes 2 (crp_type p))"
    unfolding CRCProposal_SerializeRegisterSidechain_def CRCProposal_SerializeRegisterSidechainCRCouncilMemberUnsigned_def CRCProposal_SerializeRegisterSidechainUnsigned_def
    by (rule starts_Cons starts_WriteUint16 l side size_intros)+
  show "wsize (CRCProposal_SerializeRegisterSidechain v p) (CRCProposal_common_size v p + (SideChainInfo_size (crp_sidechainInfo p)))"
    unfolding CRCProposal_SerializeRegisterSidechain_def CRCProposal_SerializeRegisterSidechainCRCouncilMemberUnsigned_def CRCProposal_SerializeRegisterSidechainUnsigned_def
    by (rule wsize_eq, (rule l side size_intros)+) (simp add: CRCProposal_common_size_def bytes_size_def bytes_head_def)
qed

section \<open>The proposal travels\<close>

definition CRCProposal_serializable :: "u16 \<Rightarrow> bool" where
  "CRCProposal_serializable ty \<longleftrightarrow>
     ty \<in> {CRCProposal_normal, CRCProposal_elip, CRCProposal_secretaryGeneralElection,
           CRCProposal_changeProposalOwner, CRCProposal_terminateProposal, CRCProposal_registerSideChain,
           CRCProposal_reserveCustomID, CRCProposal_receiveCustomID, CRCProposal_changeCustomIDFee}"

definition CRCProposal_canon :: "u8 \<Rightarrow> CRCProposal \<Rightarrow> CRCProposal" where
  "CRCProposal_canon v p =
     (if crp_type p = CRCProposal_changeProposalOwner then CRCProposal_canonChangeOwner v p
      else if crp_type p = CRCProposal_terminateProposal then CRCProposal_canonTerminateProposal v p
      else if crp_type p = CRCProposal_secretaryGeneralElection then CRCProposal_canonSecretaryElection v p
      else if crp_type p = CRCProposal_reserveCustomID then CRCProposal_canonReserveCustomID v p
      else if crp_type p = CRCProposal_receiveCustomID then CRCProposal_canonReceiveCustomID v p
      else if crp_type p = CRCProposal_changeCustomIDFee then CRCProposal_canonChangeCustomIDFee v p
      else if crp_type p = CRCProposal_registerSideChain then CRCProposal_canonRegisterSidechain v p
      else CRCProposal_canonNormalOrELIP v p)"

definition CRCProposal_valid :: "CRCProposal \<Rightarrow> bool" where
  "CRCProposal_valid p \<longleftrightarrow>
     CRCProposal_fits p \<and> CRCProposal_serializable (crp_type p) \<and>
     (\<forall>b \<in> set (crp_budgets p). 0 \<le> bud_amount b \<and> bud_amount b < 2 ^ 64) \<and>
     Address_consistent (crp_recipient p) \<and> Address_consistent (crp_newRecipient p) \<and>
     Address_consistent (crp_secretaryDID p) \<and> Address_consistent (crp_receiverDID p) \<and>
     Address_consistent (crp_crCouncilMemberDID p)"

lemma CRCProposal_transfers:
  assumes fits: "CRCProposal_fits p" and ser: "CRCProposal_serializable (crp_type p)"
  shows "transfers (CRCProposal_Serialize v p) (CRCProposal_Deserialize v CRCProposal_new)
    (CRCProposal_canon v p)"
proof -
  note t = CRCProposal_NormalOrELIP_transfers [OF fits] CRCProposal_ChangeOwner_transfers [OF fits]
    CRCProposal_TerminateProposal_transfers [OF fits] CRCProposal_SecretaryElection_transfers [OF fits]
    CRCProposal_ReserveCustomID_transfers [OF fits] CRCProposal_ReceiveCustomID_transfers [OF fits]
    CRCProposal_ChangeCustomIDFee_transfers [OF fits] CRCProposal_RegisterSidechain_transfers [OF fits]
  note st = CRCProposal_NormalOrELIP_size(1) [OF fits] CRCProposal_ChangeOwner_size(1) [OF fits]
    CRCProposal_TerminateProposal_size(1) [OF fits] CRCProposal_SecretaryElection_size(1) [OF fits]
    CRCProposal_ReserveCustomID_size(1) [OF fits] CRCProposal_ReceiveCustomID_size(1) [OF fits]
    CRCProposal_ChangeCustomIDFee_size(1) [OF fits] CRCProposal_RegisterSidechain_size(1) [OF fits]
  have use: "transfers (CRCProposal_Serialize v p) (CRCProposal_Deserialize v CRCProposal_new)
      (CRCProposal_canon v p)"
    if "transfers ser (rbind ReadUint16 f) x" "starts ser (le_bytes 2 (crp_type p))"
      "CRCProposal_Serialize v p = ser" "CRCProposal_canon v p = x"
      "CRCProposal_Deserialize_typed v (CRCProposal_new\<lparr>crp_type := crp_type p\<rparr>) = f (crp_type p)"
    for ser f x
    unfolding CRCProposal_Deserialize_def that(3,4)
    by (rule transfers_typed [where f = f and t = "crp_type p"]) (simp_all add: that(1,2,5))
  note defs = CRCProposal_Serialize_def CRCProposal_Deserialize_typed_def CRCProposal_canon_def proposal_types
  show ?thesis
    using ser unfolding CRCProposal_serializable_def
    by (elim insertE emptyE) ((rule use, rule t, rule st, simp_all add: defs; fail)[1])+
qed

lemma CRCProposal_local: "local_reader (CRCProposal_Deserialize v o1)"
  unfolding CRCProposal_Deserialize_def CRCProposal_Deserialize_typed_def
  by (intro reader_intros CRCProposal_ChangeOwner_local CRCProposal_TerminateProposal_local
      CRCProposal_SecretaryElection_local CRCProposal_ReserveCustomID_local
      CRCProposal_ReceiveCustomID_local CRCProposal_ChangeCustomIDFee_local
      CRCProposal_RegisterSidechain_local CRCProposal_UpgradeCode_local CRCProposal_NormalOrELIP_local)

lemma Address_eq_of_consistent:
  "Address_consistent a \<Longrightarrow> Address_eq a (Address_of_hash (addr_programHash a))"
  by (simp add: Address_eq_consistent Address_of_hash_consistent)

lemma Budget_eq_canon:
  assumes "\<forall>b \<in> set bs. 0 \<le> bud_amount b \<and> bud_amount b < 2 ^ 64"
  shows "list_all2 Budget_eq bs (map Budget_canon bs)"
  using assms by (induction bs) (simp_all add: Budget_eq_def Budget_canon_def BigInt_set_getUint64)

lemmas CRCProposal_canons =
  CRCProposal_canonNormalOrELIP_def CRCProposal_canonCRCouncilMemberUnsigned_def
  CRCProposal_canonOwnerUnsigned_def CRCProposal_canonChangeOwner_def
  CRCProposal_canonChangeOwnerCRCouncilMemberUnsigned_def CRCProposal_canonChangeOwnerUnsigned_def
  CRCProposal_canonTerminateProposal_def CRCProposal_canonTerminateProposalCRCouncilMemberUnsigned_def
  CRCProposal_canonTerminateProposalUnsigned_def CRCProposal_canonSecretaryElection_def
  CRCProposal_canonSecretaryElectionCRCouncilMemberUnsigned_def
  CRCProposal_canonSecretaryElectionUnsigned_def CRCProposal_canonReserveCustomID_def
  CRCProposal_canonReserveCustomIDCRCouncilMemberUnsigned_def
  CRCProposal_canonReserveCustomIDUnsigned_def CRCProposal_canonReceiveCustomID_def
  CRCProposal_canonReceiveCustomIDCRCCouncilMemberUnsigned_def
  CRCProposal_canonReceiveCustomIDUnsigned_def CRCProposal_canonChangeCustomIDFee_def
  CRCProposal_canonChangeCustomIDFeeCRCCouncilMemberUnsigned_def
  CRCProposal_canonChangeCustomIDFeeUnsigned_def CRCProposal_canonRegisterSidechain_def
  CRCProposal_canonRegisterSidechainCRCouncilMemberUnsigned_def
  CRCProposal_canonRegisterSidechainUnsigned_def

lemmas CRCProposal_sers =
  CRCProposal_SerializeNormalOrELIP_def
  CRCProposal_SerializeCRCouncilMemberUnsigned_def
  CRCProposal_SerializeOwnerUnsigned_def
  CRCProposal_SerializeChangeOwner_def
  CRCProposal_SerializeChangeOwnerCRCouncilMemberUnsigned_def
  CRCProposal_SerializeChangeOwnerUnsigned_def
  CRCProposal_SerializeTerminateProposal_def
  CRCProposal_SerializeTerminateProposalCRCouncilMemberUnsigned_def
  CRCProposal_SerializeTerminateProposalUnsigned_def
  CRCProposal_SerializeSecretaryElection_def
  CRCProposal_SerializeSecretaryElectionCRCouncilMemberUnsigned_def
  CRCProposal_SerializeSecretaryElectionUnsigned_def
  CRCProposal_SerializeReserveCustomID_def
  CRCProposal_SerializeReserveCustomIDCRCouncilMemberUnsigned_def
  CRCProposal_SerializeReserveCustomIDUnsigned_def
  CRCProposal_SerializeReceiveCustomID_def
  CRCProposal_SerializeReceiveCustomIDCRCCouncilMemberUnsigned_def
  CRCProposal_SerializeReceiveCustomIDUnsigned_def
  CRCProposal_SerializeChangeCustomIDFee_def
  CRCProposal_SerializeChangeCustomIDFeeCRCCouncilMemberUnsigned_def
  CRCProposal_SerializeChangeCustomIDFeeUnsigned_def
  CRCProposal_SerializeRegisterSidechain_def
  CRCProposal_SerializeRegisterSidechainCRCouncilMemberUnsigned_def
  CRCProposal_SerializeRegisterSidechainUnsigned_def

lemma CRCProposal_equal_canon:
  assumes "CRCProposal_valid p"
  shows "CRCProposal_Equal v p (CRCProposal_canon v p)"
proof -
  have a: "Address_eq (crp_recipient p) (Address_of_hash (addr_programHash (crp_recipient p)))"
    "Address_eq (crp_newRecipient p) (Address_of_hash (addr_programHash (crp_newRecipient p)))"
    "Address_eq (crp_secretaryDID p) (Address_of_hash (addr_programHash (crp_secretaryDID p)))"
    "Address_eq (crp_receiverDID p) (Address_of_hash (addr_programHash (crp_receiverDID p)))"
    "Address_eq (crp_crCouncilMemberDID p) (Address_of_hash (addr_programHash (crp_crCouncilMemberDID p)))"
    "list_all2 Budget_eq (crp_budgets p) (map Budget_canon (crp_budgets p))"
    using assms by (auto simp: CRCProposal_valid_def intro!: Address_eq_of_consistent Budget_eq_canon)
  have "CRCProposal_serializable (crp_type p)" using assms by (simp add: CRCProposal_valid_def)
  then show ?thesis
    unfolding CRCProposal_serializable_def
    by (elim insertE emptyE)
      (simp_all add: CRCProposal_Equal_def CRCProposal_canon_def CRCProposal_canons proposal_types a
        CustomIDFeeRateInfo_eq_def SideChainInfo_eq_def)
qed

interpretation crc_proposal: versioned_codec CRCProposal_Serialize
    "\<lambda>v. CRCProposal_Deserialize v CRCProposal_new" "\<lambda>_. CRCProposal_valid" CRCProposal_canon
    CRCProposal_Equal
  by unfold_locales
    (auto simp: CRCProposal_valid_def intro: CRCProposal_transfers CRCProposal_local CRCProposal_equal_canon)

text \<open>
  A proposal to upgrade code has a reader and no writer: no byte is written for it, and every
  stream that holds a proposal of that type was written by other code.
\<close>

definition CRCProposal_upgrade :: "u16 \<Rightarrow> bool" where
  "CRCProposal_upgrade ty \<longleftrightarrow>
     ty \<in> {CRCProposal_mainChainUpgradeCode, CRCProposal_didUpdateCode, CRCProposal_ethUpdateCode}"

lemma CRCProposal_upgrade_lost:
  assumes "CRCProposal_upgrade (crp_type p)"
  shows "CRCProposal_Serialize v p s = Ret s" and "CRCProposal_Equal v p p = False"
  using assms
  by (auto simp: CRCProposal_upgrade_def CRCProposal_Serialize_def CRCProposal_Equal_def proposal_types wseq.simps)

section \<open>What the estimate leaves out\<close>

text \<open>
  \<open>EstimateSize\<close> has cases for the budgeted proposals, the election and the two changes of an
  existing proposal; the owner's signature and the body of the other types are not counted.
\<close>

definition CRCProposal_gap :: "u8 \<Rightarrow> CRCProposal \<Rightarrow> nat" where
  "CRCProposal_gap v p =
     bytes_gap (bytes_of_string (crp_categoryData p)) + bytes_gap (crp_ownerPublicKey p) +
     (if CRCProposalVersion01 \<le> v then bytes_gap (crp_draftData p) else 0) +
     bytes_gap (crp_signature p) + bytes_gap (crp_crCouncilMemberSignature p) +
     (if crp_type p = CRCProposal_normal \<or> crp_type p = CRCProposal_elip
      then varint_gap (word_of_nat (length (crp_budgets p)))
      else if crp_type p = CRCProposal_secretaryGeneralElection
      then bytes_gap (crp_secretaryPublicKey p) + bytes_gap (crp_secretarySignature p)
      else if crp_type p = CRCProposal_changeProposalOwner
      then bytes_gap (crp_newOwnerPublicKey p) + bytes_gap (crp_newOwnerSignature p)
      else 0)"

definition CRCProposal_uncounted :: "CRCProposal \<Rightarrow> nat" where
  "CRCProposal_uncounted p =
     (if crp_type p = CRCProposal_reserveCustomID
      then bytes_EstimateSize (crp_signature p) + strings_size (crp_reservedCustomIDList p)
      else if crp_type p = CRCProposal_receiveCustomID
      then bytes_EstimateSize (crp_signature p) + strings_size (crp_receivedCustomIDList p) + 21
      else if crp_type p = CRCProposal_changeCustomIDFee
      then bytes_EstimateSize (crp_signature p) + 12
      else if crp_type p = CRCProposal_registerSideChain
      then bytes_EstimateSize (crp_signature p) + SideChainInfo_size (crp_sidechainInfo p)
      else 0)"

lemma Budget_bytes:
  "(case wseq (map Budget_Serialize bs) empty_stream of Ret s \<Rightarrow> length (buf s) | _ \<Rightarrow> 0) = 10 * length bs"
proof -
  have b: "wsize (Budget_Serialize b) 10" for b
    unfolding Budget_Serialize_def by (rule wsize_eq, (rule size_intros)+) simp
  have "wsize (wseq (map Budget_Serialize bs)) (sum_list (map (\<lambda>_. 10) bs))"
    by (rule wsize_map) (rule b)
  then show ?thesis
    by (auto simp: wsize_def appends_def empty_stream_def sum_list_triv)
qed

lemma CRCProposal_size:
  assumes "CRCProposal_fits p" and "CRCProposal_serializable (crp_type p)"
  shows "wsize (CRCProposal_Serialize v p)
    (CRCProposal_EstimateSize v p + CRCProposal_gap v p + CRCProposal_uncounted p)"
proof -
  note sz = CRCProposal_NormalOrELIP_size(2) [OF assms(1)] CRCProposal_ChangeOwner_size(2) [OF assms(1)]
    CRCProposal_TerminateProposal_size(2) [OF assms(1)] CRCProposal_SecretaryElection_size(2) [OF assms(1)]
    CRCProposal_ReserveCustomID_size(2) [OF assms(1)] CRCProposal_ReceiveCustomID_size(2) [OF assms(1)]
    CRCProposal_ChangeCustomIDFee_size(2) [OF assms(1)] CRCProposal_RegisterSidechain_size(2) [OF assms(1)]
  note defs = CRCProposal_Serialize_def CRCProposal_EstimateSize_def CRCProposal_gap_def
    CRCProposal_uncounted_def CRCProposal_common_size_def Budget_bytes bytes_size_def bytes_head_def
    bytes_EstimateSize_def bytes_gap_def proposal_types
  have use: "wsize (CRCProposal_Serialize v p) k"
    if "wsize ser n" "CRCProposal_Serialize v p = ser" "n = k" for ser n k
    using that by simp
  show ?thesis
    using assms(2) unfolding CRCProposal_serializable_def
    by (elim insertE emptyE) (rule use, rule sz, (simp add: defs), (simp add: defs))+
qed

end
