(* ===== verification/Payload.thy ===== *)
theory Payload
  imports ChainPayloads DPoSPayloads StakePayloads CRPayloads CRCProposal
begin

text \<open>
  \<open>PayloadPtr\<close>: the payload of a transaction as a tagged union of the classes behind the interface
  \<open>Payload/IPayload.h\<close>, with the virtual methods as functions that dispatch on the class, and
  \<open>Transaction::InitPayload\<close>, which picks the class for a transaction type.  Assignment from, and
  comparison with, another class is what the \<open>bad_cast\<close> handlers of the classes make of it:
  the object unchanged, and false.
\<close>

section \<open>The classes\<close>

datatype Payload =
    PL_CoinBase CoinBase
  | PL_RegisterAsset RegisterAsset
  | PL_TransferAsset TransferAsset
  | PL_Record Record
  | PL_SideChainPow SideChainPow
  | PL_RechargeToSideChain RechargeToSideChain
  | PL_WithdrawFromSideChain WithdrawFromSideChain
  | PL_TransferCrossChainAsset TransferCrossChainAsset
  | PL_ProducerInfo ProducerInfo
  | PL_CancelProducer CancelProducer
  | PL_ReturnDepositCoin ReturnDepositCoin
  | PL_NextTurnDPoSInfo NextTurnDPoSInfo
  | PL_CRInfo CRInfo
  | PL_UnregisterCR UnregisterCR
  | PL_CRCProposal CRCProposal
  | PL_CRCProposalReview CRCProposalReview
  | PL_CRCProposalTracking CRCProposalTracking
  | PL_CRCAppropriation CRCAppropriation
  | PL_CRCProposalWithdraw CRCProposalWithdraw
  | PL_CRCProposalRealWithdraw CRCProposalRealWithdraw
  | PL_CRCAssetsRectify CRCAssetsRectify
  | PL_CRCouncilMemberClaimNode CRCouncilMemberClaimNode
  | PL_DPoSV2ClaimReward DPoSV2ClaimReward
  | PL_DPoSV2ClaimRewardRealWithdraw DPoSV2ClaimRewardRealWithdraw
  | PL_Stake Stake
  | PL_Voting Voting
  | PL_CancelVotes CancelVotes
  | PL_Unstake Unstake
  | PL_UnstakeRealWithdraw UnstakeRealWithdraw

fun Payload_EstimateSize :: "u8 \<Rightarrow> Payload \<Rightarrow> nat" where
  "Payload_EstimateSize v (PL_CoinBase p) = CoinBase_EstimateSize v p"
| "Payload_EstimateSize v (PL_RegisterAsset p) = RegisterAsset_EstimateSize v p"
| "Payload_EstimateSize v (PL_TransferAsset p) = TransferAsset_EstimateSize v p"
| "Payload_EstimateSize v (PL_Record p) = Record_EstimateSize v p"
| "Payload_EstimateSize v (PL_SideChainPow p) = SideChainPow_EstimateSize v p"
| "Payload_EstimateSize v (PL_RechargeToSideChain p) = RechargeToSideChain_EstimateSize v p"
| "Payload_EstimateSize v (PL_WithdrawFromSideChain p) = WithdrawFromSideChain_EstimateSize v p"
| "Payload_EstimateSize v (PL_TransferCrossChainAsset p) = TransferCrossChainAsset_EstimateSize v p"
| "Payload_EstimateSize v (PL_ProducerInfo p) = ProducerInfo_EstimateSize v p"
| "Payload_EstimateSize v (PL_CancelProducer p) = CancelProducer_EstimateSize v p"
| "Payload_EstimateSize v (PL_ReturnDepositCoin p) = ReturnDepositCoin_EstimateSize v p"
| "Payload_EstimateSize v (PL_NextTurnDPoSInfo p) = NextTurnDPoSInfo_EstimateSize v p"
| "Payload_EstimateSize v (PL_CRInfo p) = CRInfo_EstimateSize v p"
| "Payload_EstimateSize v (PL_UnregisterCR p) = UnregisterCR_EstimateSize v p"
| "Payload_EstimateSize v (PL_CRCProposal p) = CRCProposal_EstimateSize v p"
| "Payload_EstimateSize v (PL_CRCProposalReview p) = CRCProposalReview_EstimateSize v p"
| "Payload_EstimateSize v (PL_CRCProposalTracking p) = CRCProposalTracking_EstimateSize v p"
| "Payload_EstimateSize v (PL_CRCAppropriation p) = CRCAppropriation_EstimateSize v p"
| "Payload_EstimateSize v (PL_CRCProposalWithdraw p) = CRCProposalWithdraw_EstimateSize v p"
| "Payload_EstimateSize v (PL_CRCProposalRealWithdraw p) = CRCProposalRealWithdraw_EstimateSize v p"
| "Payload_EstimateSize v (PL_CRCAssetsRectify p) = CRCAssetsRectify_EstimateSize v p"
| "Payload_EstimateSize v (PL_CRCouncilMemberClaimNode p) = CRCouncilMemberClaimNode_EstimateSize v p"
| "Payload_EstimateSize v (PL_DPoSV2ClaimReward p) = DPoSV2ClaimReward_EstimateSize v p"
| "Payload_EstimateSize v (PL_DPoSV2ClaimRewardRealWithdraw p) = DPoSV2ClaimRewardRealWithdraw_EstimateSize v p"
| "Payload_EstimateSize v (PL_Stake p) = Stake_EstimateSize v p"
| "Payload_EstimateSize v (PL_Voting p) = Voting_EstimateSize v p"
| "Payload_EstimateSize v (PL_CancelVotes p) = CancelVotes_EstimateSize v p"
| "Payload_EstimateSize v (PL_Unstake p) = Unstake_EstimateSize v p"
| "Payload_EstimateSize v (PL_UnstakeRealWithdraw p) = UnstakeRealWithdraw_EstimateSize v p"

fun Payload_Serialize :: "u8 \<Rightarrow> Payload \<Rightarrow> writer" where
  "Payload_Serialize v (PL_CoinBase p) = CoinBase_Serialize v p"
| "Payload_Serialize v (PL_RegisterAsset p) = RegisterAsset_Serialize v p"
| "Payload_Serialize v (PL_TransferAsset p) = TransferAsset_Serialize v p"
| "Payload_Serialize v (PL_Record p) = Record_Serialize v p"
| "Payload_Serialize v (PL_SideChainPow p) = SideChainPow_Serialize v p"
| "Payload_Serialize v (PL_RechargeToSideChain p) = RechargeToSideChain_Serialize v p"
| "Payload_Serialize v (PL_WithdrawFromSideChain p) = WithdrawFromSideChain_Serialize v p"
| "Payload_Serialize v (PL_TransferCrossChainAsset p) = TransferCrossChainAsset_Serialize v p"
| "Payload_Serialize v (PL_ProducerInfo p) = ProducerInfo_Serialize v p"
| "Payload_Serialize v (PL_CancelProducer p) = CancelProducer_Serialize v p"
| "Payload_Serialize v (PL_ReturnDepositCoin p) = ReturnDepositCoin_Serialize v p"
| "Payload_Serialize v (PL_NextTurnDPoSInfo p) = NextTurnDPoSInfo_Serialize v p"
| "Payload_Serialize v (PL_CRInfo p) = CRInfo_Serialize v p"
| "Payload_Serialize v (PL_UnregisterCR p) = UnregisterCR_Serialize v p"
| "Payload_Serialize v (PL_CRCProposal p) = CRCProposal_Serialize v p"
| "Payload_Serialize v (PL_CRCProposalReview p) = CRCProposalReview_Serialize v p"
| "Payload_Serialize v (PL_CRCProposalTracking p) = CRCProposalTracking_Serialize v p"
| "Payload_Serialize v (PL_CRCAppropriation p) = CRCAppropriation_Serialize v p"
| "Payload_Serialize v (PL_CRCProposalWithdraw p) = CRCProposalWithdraw_Serialize v p"
| "Payload_Serialize v (PL_CRCProposalRealWithdraw p) = CRCProposalRealWithdraw_Serialize v p"
| "Payload_Serialize v (PL_CRCAssetsRectify p) = CRCAssetsRectify_Serialize v p"
| "Payload_Serialize v (PL_CRCouncilMemberClaimNode p) = CRCouncilMemberClaimNode_Serialize v p"
| "Payload_Serialize v (PL_DPoSV2ClaimReward p) = DPoSV2ClaimReward_Serialize v p"
| "Payload_Serialize v (PL_DPoSV2ClaimRewardRealWithdraw p) = DPoSV2ClaimRewardRealWithdraw_Serialize v p"
| "Payload_Serialize v (PL_Stake p) = Stake_Serialize v p"
| "Payload_Serialize v (PL_Voting p) = Voting_Serialize v p"
| "Payload_Serialize v (PL_CancelVotes p) = CancelVotes_Serialize v p"
| "Payload_Serialize v (PL_Unstake p) = Unstake_Serialize v p"
| "Payload_Serialize v (PL_UnstakeRealWithdraw p) = UnstakeRealWithdraw_Serialize v p"

fun Payload_Deserialize :: "(bytes \<Rightarrow> uint256) \<Rightarrow> u8 \<Rightarrow> Payload \<Rightarrow> Payload reader" where
  "Payload_Deserialize sha256_2 v (PL_CoinBase o1) =
     rbind (CoinBase_Deserialize v o1) (\<lambda>p. rret (PL_CoinBase p))"
| "Payload_Deserialize sha256_2 v (PL_RegisterAsset o1) =
     rbind (RegisterAsset_Deserialize sha256_2 v o1) (\<lambda>p. rret (PL_RegisterAsset p))"
| "Payload_Deserialize sha256_2 v (PL_TransferAsset o1) =
     rbind (TransferAsset_Deserialize v o1) (\<lambda>p. rret (PL_TransferAsset p))"
| "Payload_Deserialize sha256_2 v (PL_Record o1) =
     rbind (Record_Deserialize v o1) (\<lambda>p. rret (PL_Record p))"
| "Payload_Deserialize sha256_2 v (PL_SideChainPow o1) =
     rbind (SideChainPow_Deserialize v o1) (\<lambda>p. rret (PL_SideChainPow p))"
| "Payload_Deserialize sha256_2 v (PL_RechargeToSideChain o1) =
     rbind (RechargeToSideChain_Deserialize v o1) (\<lambda>p. rret (PL_RechargeToSideChain p))"
| "Payload_Deserialize sha256_2 v (PL_WithdrawFromSideChain o1) =
     rbind (WithdrawFromSideChain_Deserialize v o1) (\<lambda>p. rret (PL_WithdrawFromSideChain p))"
| "Payload_Deserialize sha256_2 v (PL_TransferCrossChainAsset o1) =
     rbind (TransferCrossChainAsset_Deserialize v o1) (\<lambda>p. rret (PL_TransferCrossChainAsset p))"
| "Payload_Deserialize sha256_2 v (PL_ProducerInfo o1) =
     rbind (ProducerInfo_Deserialize v o1) (\<lambda>p. rret (PL_ProducerInfo p))"
| "Payload_Deserialize sha256_2 v (PL_CancelProducer o1) =
     rbind (CancelProducer_Deserialize v o1) (\<lambda>p. rret (PL_CancelProducer p))"
| "Payload_Deserialize sha256_2 v (PL_ReturnDepositCoin o1) =
     rbind (ReturnDepositCoin_Deserialize v o1) (\<lambda>p. rret (PL_ReturnDepositCoin p))"
| "Payload_Deserialize sha256_2 v (PL_NextTurnDPoSInfo o1) =
     rbind (NextTurnDPoSInfo_Deserialize v o1) (\<lambda>p. rret (PL_NextTurnDPoSInfo p))"
| "Payload_Deserialize sha256_2 v (PL_CRInfo o1) =
     rbind (CRInfo_Deserialize v o1) (\<lambda>p. rret (PL_CRInfo p))"
| "Payload_Deserialize sha256_2 v (PL_UnregisterCR o1) =
     rbind (UnregisterCR_Deserialize v o1) (\<lambda>p. rret (PL_UnregisterCR p))"
| "Payload_Deserialize sha256_2 v (PL_CRCProposal o1) =
     rbind (CRCProposal_Deserialize v o1) (\<lambda>p. rret (PL_CRCProposal p))"
| "Payload_Deserialize sha256_2 v (PL_CRCProposalReview o1) =
     rbind (CRCProposalReview_Deserialize v o1) (\<lambda>p. rret (PL_CRCProposalReview p))"
| "Payload_Deserialize sha256_2 v (PL_CRCProposalTracking o1) =
     rbind (CRCProposalTracking_Deserialize v o1) (\<lambda>p. rret (PL_CRCProposalTracking p))"
| "Payload_Deserialize sha256_2 v (PL_CRCAppropriation o1) =
     rbind (CRCAppropriation_Deserialize v o1) (\<lambda>p. rret (PL_CRCAppropriation p))"
| "Payload_Deserialize sha256_2 v (PL_CRCProposalWithdraw o1) =
     rbind (CRCProposalWithdraw_Deserialize v o1) (\<lambda>p. rret (PL_CRCProposalWithdraw p))"
| "Payload_Deserialize sha256_2 v (PL_CRCProposalRealWithdraw o1) =
     rbind (CRCProposalRealWithdraw_Deserialize v o1) (\<lambda>p. rret (PL_CRCProposalRealWithdraw p))"
| "Payload_Deserialize sha256_2 v (PL_CRCAssetsRectify o1) =
     rbind (CRCAssetsRectify_Deserialize v o1) (\<lambda>p. rret (PL_CRCAssetsRectify p))"
| "Payload_Deserialize sha256_2 v (PL_CRCouncilMemberClaimNode o1) =
     rbind (CRCouncilMemberClaimNode_Deserialize v o1) (\<lambda>p. rret (PL_CRCouncilMemberClaimNode p))"
| "Payload_Deserialize sha256_2 v (PL_DPoSV2ClaimReward o1) =
     rbind (DPoSV2ClaimReward_Deserialize v o1) (\<lambda>p. rret (PL_DPoSV2ClaimReward p))"
| "Payload_Deserialize sha256_2 v (PL_DPoSV2ClaimRewardRealWithdraw o1) =
     rbind (DPoSV2ClaimRewardRealWithdraw_Deserialize v o1) (\<lambda>p. rret (PL_DPoSV2ClaimRewardRealWithdraw p))"
| "Payload_Deserialize sha256_2 v (PL_Stake o1) =
     rbind (Stake_Deserialize v o1) (\<lambda>p. rret (PL_Stake p))"
| "Payload_Deserialize sha256_2 v (PL_Voting o1) =
     rbind (Voting_Deserialize v o1) (\<lambda>p. rret (PL_Voting p))"
| "Payload_Deserialize sha256_2 v (PL_CancelVotes o1) =
     rbind (CancelVotes_Deserialize v o1) (\<lambda>p. rret (PL_CancelVotes p))"
| "Payload_Deserialize sha256_2 v (PL_Unstake o1) =
     rbind (Unstake_Deserialize v o1) (\<lambda>p. rret (PL_Unstake p))"
| "Payload_Deserialize sha256_2 v (PL_UnstakeRealWithdraw o1) =
     rbind (UnstakeRealWithdraw_Deserialize v o1) (\<lambda>p. rret (PL_UnstakeRealWithdraw p))"

definition Payload_assign :: "Payload \<Rightarrow> Payload \<Rightarrow> Payload" where
  "Payload_assign r q =
     (case r of
        PL_CoinBase this \<Rightarrow> (case q of PL_CoinBase p \<Rightarrow> PL_CoinBase (CoinBase_assign this p) | _ \<Rightarrow> r)
      | PL_RegisterAsset this \<Rightarrow> (case q of PL_RegisterAsset p \<Rightarrow> PL_RegisterAsset (this\<lparr>ra_asset := ra_asset p, ra_amount := ra_amount p, ra_controller := ra_controller p\<rparr>) | _ \<Rightarrow> r)
      | PL_TransferAsset this \<Rightarrow> (case q of PL_TransferAsset p \<Rightarrow> PL_TransferAsset this | _ \<Rightarrow> r)
      | PL_Record this \<Rightarrow> (case q of PL_Record p \<Rightarrow> PL_Record (Record_assign this p) | _ \<Rightarrow> r)
      | PL_SideChainPow this \<Rightarrow> (case q of PL_SideChainPow p \<Rightarrow> PL_SideChainPow (SideChainPow_assign this p) | _ \<Rightarrow> r)
      | PL_RechargeToSideChain this \<Rightarrow> (case q of PL_RechargeToSideChain p \<Rightarrow> PL_RechargeToSideChain (RechargeToSideChain_assign this p) | _ \<Rightarrow> r)
      | PL_WithdrawFromSideChain this \<Rightarrow> (case q of PL_WithdrawFromSideChain p \<Rightarrow> PL_WithdrawFromSideChain (WithdrawFromSideChain_assign this p) | _ \<Rightarrow> r)
      | PL_TransferCrossChainAsset this \<Rightarrow> (case q of PL_TransferCrossChainAsset p \<Rightarrow> PL_TransferCrossChainAsset (this\<lparr>tcc_info := tcc_info p\<rparr>) | _ \<Rightarrow> r)
      | PL_ProducerInfo this \<Rightarrow> (case q of PL_ProducerInfo p \<Rightarrow> PL_ProducerInfo (ProducerInfo_assign this p) | _ \<Rightarrow> r)
      | PL_CancelProducer this \<Rightarrow> (case q of PL_CancelProducer p \<Rightarrow> PL_CancelProducer (CancelProducer_assign this p) | _ \<Rightarrow> r)
      | PL_ReturnDepositCoin this \<Rightarrow> (case q of PL_ReturnDepositCoin p \<Rightarrow> PL_ReturnDepositCoin this | _ \<Rightarrow> r)
      | PL_NextTurnDPoSInfo this \<Rightarrow> (case q of PL_NextTurnDPoSInfo p \<Rightarrow> PL_NextTurnDPoSInfo (NextTurnDPoSInfo_assign this p) | _ \<Rightarrow> r)
      | PL_CRInfo this \<Rightarrow> (case q of PL_CRInfo p \<Rightarrow> PL_CRInfo (CRInfo_assign this p) | _ \<Rightarrow> r)
      | PL_UnregisterCR this \<Rightarrow> (case q of PL_UnregisterCR p \<Rightarrow> PL_UnregisterCR (UnregisterCR_assign this p) | _ \<Rightarrow> r)
      | PL_CRCProposal this \<Rightarrow> (case q of PL_CRCProposal p \<Rightarrow> PL_CRCProposal (CRCProposal_assign this p) | _ \<Rightarrow> r)
      | PL_CRCProposalReview this \<Rightarrow> (case q of PL_CRCProposalReview p \<Rightarrow> PL_CRCProposalReview (CRCProposalReview_assign this p) | _ \<Rightarrow> r)
      | PL_CRCProposalTracking this \<Rightarrow> (case q of PL_CRCProposalTracking p \<Rightarrow> PL_CRCProposalTracking (CRCProposalTracking_assign this p) | _ \<Rightarrow> r)
      | PL_CRCAppropriation this \<Rightarrow> (case q of PL_CRCAppropriation p \<Rightarrow> PL_CRCAppropriation this | _ \<Rightarrow> r)
      | PL_CRCProposalWithdraw this \<Rightarrow> (case q of PL_CRCProposalWithdraw p \<Rightarrow> PL_CRCProposalWithdraw (CRCProposalWithdraw_assign this p) | _ \<Rightarrow> r)
      | PL_CRCProposalRealWithdraw this \<Rightarrow> (case q of PL_CRCProposalRealWithdraw p \<Rightarrow> PL_CRCProposalRealWithdraw (CRCProposalRealWithdraw_assign this p) | _ \<Rightarrow> r)
      | PL_CRCAssetsRectify this \<Rightarrow> (case q of PL_CRCAssetsRectify p \<Rightarrow> PL_CRCAssetsRectify this | _ \<Rightarrow> r)
      | PL_CRCouncilMemberClaimNode this \<Rightarrow> (case q of PL_CRCouncilMemberClaimNode p \<Rightarrow> PL_CRCouncilMemberClaimNode (CRCouncilMemberClaimNode_assign this p) | _ \<Rightarrow> r)
      | PL_DPoSV2ClaimReward this \<Rightarrow> (case q of PL_DPoSV2ClaimReward p \<Rightarrow> PL_DPoSV2ClaimReward (DPoSV2ClaimReward_assign this p) | _ \<Rightarrow> r)
      | PL_DPoSV2ClaimRewardRealWithdraw this \<Rightarrow> (case q of PL_DPoSV2ClaimRewardRealWithdraw p \<Rightarrow> PL_DPoSV2ClaimRewardRealWithdraw (DPoSV2ClaimRewardRealWithdraw_assign this p) | _ \<Rightarrow> r)
      | PL_Stake this \<Rightarrow> (case q of PL_Stake p \<Rightarrow> PL_Stake this | _ \<Rightarrow> r)
      | PL_Voting this \<Rightarrow> (case q of PL_Voting p \<Rightarrow> PL_Voting (Voting_assign this p) | _ \<Rightarrow> r)
      | PL_CancelVotes this \<Rightarrow> (case q of PL_CancelVotes p \<Rightarrow> PL_CancelVotes (CancelVotes_assign this p) | _ \<Rightarrow> r)
      | PL_Unstake this \<Rightarrow> (case q of PL_Unstake p \<Rightarrow> PL_Unstake (Unstake_assign this p) | _ \<Rightarrow> r)
      | PL_UnstakeRealWithdraw this \<Rightarrow> (case q of PL_UnstakeRealWithdraw p \<Rightarrow> PL_UnstakeRealWithdraw (UnstakeRealWithdraw_assign this p) | _ \<Rightarrow> r))"

definition Payload_Equal :: "u8 \<Rightarrow> Payload \<Rightarrow> Payload \<Rightarrow> bool" where
  "Payload_Equal v r q =
     (case r of
        PL_CoinBase this \<Rightarrow> (case q of PL_CoinBase p \<Rightarrow> CoinBase_Equal v this p | _ \<Rightarrow> False)
      | PL_RegisterAsset this \<Rightarrow> (case q of PL_RegisterAsset p \<Rightarrow> RegisterAsset_Equal v this p | _ \<Rightarrow> False)
      | PL_TransferAsset this \<Rightarrow> (case q of PL_TransferAsset p \<Rightarrow> TransferAsset_Equal v this p | _ \<Rightarrow> False)
      | PL_Record this \<Rightarrow> (case q of PL_Record p \<Rightarrow> Record_Equal v this p | _ \<Rightarrow> False)
      | PL_SideChainPow this \<Rightarrow> (case q of PL_SideChainPow p \<Rightarrow> SideChainPow_Equal v this p | _ \<Rightarrow> False)
      | PL_RechargeToSideChain this \<Rightarrow> (case q of PL_RechargeToSideChain p \<Rightarrow> RechargeToSideChain_Equal v this p | _ \<Rightarrow> False)
      | PL_WithdrawFromSideChain this \<Rightarrow> (case q of PL_WithdrawFromSideChain p \<Rightarrow> WithdrawFromSideChain_Equal v this p | _ \<Rightarrow> False)
      | PL_TransferCrossChainAsset this \<Rightarrow> (case q of PL_TransferCrossChainAsset p \<Rightarrow> TransferCrossChainAsset_Equal v this p | _ \<Rightarrow> False)
      | PL_ProducerInfo this \<Rightarrow> (case q of PL_ProducerInfo p \<Rightarrow> ProducerInfo_Equal v this p | _ \<Rightarrow> False)
      | PL_CancelProducer this \<Rightarrow> (case q of PL_CancelProducer p \<Rightarrow> CancelProducer_Equal v this p | _ \<Rightarrow> False)
      | PL_ReturnDepositCoin this \<Rightarrow> (case q of PL_ReturnDepositCoin p \<Rightarrow> ReturnDepositCoin_Equal v this p | _ \<Rightarrow> False)
      | PL_NextTurnDPoSInfo this \<Rightarrow> (case q of PL_NextTurnDPoSInfo p \<Rightarrow> NextTurnDPoSInfo_Equal v this p | _ \<Rightarrow> False)
      | PL_CRInfo this \<Rightarrow> (case q of PL_CRInfo p \<Rightarrow> CRInfo_Equal v this p | _ \<Rightarrow> False)
      | PL_UnregisterCR this \<Rightarrow> (case q of PL_UnregisterCR p \<Rightarrow> UnregisterCR_Equal v this p | _ \<Rightarrow> False)
      | PL_CRCProposal this \<Rightarrow> (case q of PL_CRCProposal p \<Rightarrow> CRCProposal_Equal v this p | _ \<Rightarrow> False)
      | PL_CRCProposalReview this \<Rightarrow> (case q of PL_CRCProposalReview p \<Rightarrow> CRCProposalReview_Equal v this p | _ \<Rightarrow> False)
      | PL_CRCProposalTracking this \<Rightarrow> (case q of PL_CRCProposalTracking p \<Rightarrow> CRCProposalTracking_Equal v this p | _ \<Rightarrow> False)
      | PL_CRCAppropriation this \<Rightarrow> (case q of PL_CRCAppropriation p \<Rightarrow> CRCAppropriation_Equal v this p | _ \<Rightarrow> False)
      | PL_CRCProposalWithdraw this \<Rightarrow> (case q of PL_CRCProposalWithdraw p \<Rightarrow> CRCProposalWithdraw_Equal v this p | _ \<Rightarrow> False)
      | PL_CRCProposalRealWithdraw this \<Rightarrow> (case q of PL_CRCProposalRealWithdraw p \<Rightarrow> CRCProposalRealWithdraw_Equal v this p | _ \<Rightarrow> False)
      | PL_CRCAssetsRectify this \<Rightarrow> (case q of PL_CRCAssetsRectify p \<Rightarrow> CRCAssetsRectify_Equal v this p | _ \<Rightarrow> False)
      | PL_CRCouncilMemberClaimNode this \<Rightarrow> (case q of PL_CRCouncilMemberClaimNode p \<Rightarrow> CRCouncilMemberClaimNode_Equal v this p | _ \<Rightarrow> False)
      | PL_DPoSV2ClaimReward this \<Rightarrow> (case q of PL_DPoSV2ClaimReward p \<Rightarrow> DPoSV2ClaimReward_Equal v this p | _ \<Rightarrow> False)
      | PL_DPoSV2ClaimRewardRealWithdraw this \<Rightarrow> (case q of PL_DPoSV2ClaimRewardRealWithdraw p \<Rightarrow> DPoSV2ClaimRewardRealWithdraw_Equal v this p | _ \<Rightarrow> False)
      | PL_Stake this \<Rightarrow> (case q of PL_Stake p \<Rightarrow> Stake_Equal v this p | _ \<Rightarrow> False)
      | PL_Voting this \<Rightarrow> (case q of PL_Voting p \<Rightarrow> Voting_Equal v this p | _ \<Rightarrow> False)
      | PL_CancelVotes this \<Rightarrow> (case q of PL_CancelVotes p \<Rightarrow> CancelVotes_Equal v this p | _ \<Rightarrow> False)
      | PL_Unstake this \<Rightarrow> (case q of PL_Unstake p \<Rightarrow> Unstake_Equal v this p | _ \<Rightarrow> False)
      | PL_UnstakeRealWithdraw this \<Rightarrow> (case q of PL_UnstakeRealWithdraw p \<Rightarrow> UnstakeRealWithdraw_Equal v this p | _ \<Rightarrow> False))"

text \<open>The classes that do not override \<open>IsValid\<close>, or override it so, are always valid.\<close>

fun Payload_IsValid :: "(bytes \<Rightarrow> uint256) \<Rightarrow> (bytes \<Rightarrow> uint256) \<Rightarrow> key_check \<Rightarrow> ecdsa_check \<Rightarrow> u8 \<Rightarrow> Payload \<Rightarrow> bool outcome" where
  "Payload_IsValid sha256_2 sha256 keyValid ecdsa v (PL_RegisterAsset p) = Ret (RegisterAsset_IsValid v p)"
| "Payload_IsValid sha256_2 sha256 keyValid ecdsa v (PL_TransferCrossChainAsset p) = Ret (TransferCrossChainAsset_IsValid (\<lambda>str. addr_isValid (Address_of_string sha256_2 str)) v p)"
| "Payload_IsValid sha256_2 sha256 keyValid ecdsa v (PL_CRInfo p) = CRInfo_IsValid sha256 keyValid ecdsa v p"
| "Payload_IsValid sha256_2 sha256 keyValid ecdsa v (PL_CRCProposal p) = CRCProposal_IsValid sha256 keyValid ecdsa v p"
| "Payload_IsValid sha256_2 sha256 keyValid ecdsa v (PL_CRCProposalReview p) = Ret (CRCProposalReview_IsValid v p)"
| "Payload_IsValid sha256_2 sha256 keyValid ecdsa v (PL_CRCProposalTracking p) = CRCProposalTracking_IsValid sha256 keyValid ecdsa v p"
| "Payload_IsValid sha256_2 sha256 keyValid ecdsa v (PL_CRCProposalWithdraw p) = CRCProposalWithdraw_IsValid sha256 keyValid ecdsa v p"
| "Payload_IsValid sha256_2 sha256 keyValid ecdsa v (PL_CRCProposalRealWithdraw p) = Ret (CRCProposalRealWithdraw_IsValid v p)"
| "Payload_IsValid sha256_2 sha256 keyValid ecdsa v (PL_CRCouncilMemberClaimNode p) = Ret (CRCouncilMemberClaimNode_IsValid keyValid v p)"
| "Payload_IsValid sha256_2 sha256 keyValid ecdsa v p = Ret True"

section \<open>The class of a transaction type\<close>

definition Tx_coinBase :: u8 where "Tx_coinBase = 0x00"
definition Tx_registerAsset :: u8 where "Tx_registerAsset = 0x01"
definition Tx_transferAsset :: u8 where "Tx_transferAsset = 0x02"
definition Tx_record :: u8 where "Tx_record = 0x03"
definition Tx_deploy :: u8 where "Tx_deploy = 0x04"
definition Tx_sideChainPow :: u8 where "Tx_sideChainPow = 0x05"
definition Tx_rechargeToSideChain :: u8 where "Tx_rechargeToSideChain = 0x06"
definition Tx_withdrawFromSideChain :: u8 where "Tx_withdrawFromSideChain = 0x07"
definition Tx_transferCrossChainAsset :: u8 where "Tx_transferCrossChainAsset = 0x08"
definition Tx_registerProducer :: u8 where "Tx_registerProducer = 0x09"
definition Tx_cancelProducer :: u8 where "Tx_cancelProducer = 0x0a"
definition Tx_updateProducer :: u8 where "Tx_updateProducer = 0x0b"
definition Tx_returnDepositCoin :: u8 where "Tx_returnDepositCoin = 0x0c"
definition Tx_activateProducer :: u8 where "Tx_activateProducer = 0x0d"
definition Tx_nextTurnDPOSInfo :: u8 where "Tx_nextTurnDPOSInfo = 0x14"
definition Tx_registerCR :: u8 where "Tx_registerCR = 0x21"
definition Tx_unregisterCR :: u8 where "Tx_unregisterCR = 0x22"
definition Tx_updateCR :: u8 where "Tx_updateCR = 0x23"
definition Tx_returnCRDepositCoin :: u8 where "Tx_returnCRDepositCoin = 0x24"
definition Tx_crcProposal :: u8 where "Tx_crcProposal = 0x25"
definition Tx_crcProposalReview :: u8 where "Tx_crcProposalReview = 0x26"
definition Tx_crcProposalTracking :: u8 where "Tx_crcProposalTracking = 0x27"
definition Tx_crcAppropriation :: u8 where "Tx_crcAppropriation = 0x28"
definition Tx_crcProposalWithdraw :: u8 where "Tx_crcProposalWithdraw = 0x29"
definition Tx_crcProposalRealWithdraw :: u8 where "Tx_crcProposalRealWithdraw = 0x2a"
definition Tx_crcAssetsRectify :: u8 where "Tx_crcAssetsRectify = 0x2b"
definition Tx_crCouncilMemberClaimNode :: u8 where "Tx_crCouncilMemberClaimNode = 0x31"
definition Tx_DposV2ClaimReward :: u8 where "Tx_DposV2ClaimReward = 0x60"
definition Tx_DposV2ClaimRewardRealWithdraw :: u8 where "Tx_DposV2ClaimRewardRealWithdraw = 0x61"
definition Tx_Stake :: u8 where "Tx_Stake = 0x62"
definition Tx_Voting :: u8 where "Tx_Voting = 0x63"
definition Tx_CancelVotes :: u8 where "Tx_CancelVotes = 0x64"
definition Tx_Unstake :: u8 where "Tx_Unstake = 0x65"
definition Tx_UnstakeRealWithdraw :: u8 where "Tx_UnstakeRealWithdraw = 0x66"

lemmas tx_types =
  Tx_coinBase_def Tx_registerAsset_def Tx_transferAsset_def Tx_record_def
  Tx_deploy_def Tx_sideChainPow_def Tx_rechargeToSideChain_def Tx_withdrawFromSideChain_def Tx_transferCrossChainAsset_def
  Tx_registerProducer_def Tx_cancelProducer_def Tx_updateProducer_def Tx_returnDepositCoin_def Tx_activateProducer_def Tx_nextTurnDPOSInfo_def
  Tx_registerCR_def Tx_unregisterCR_def Tx_updateCR_def Tx_returnCRDepositCoin_def Tx_crcProposal_def Tx_crcProposalReview_def
  Tx_crcProposalTracking_def Tx_crcAppropriation_def Tx_crcProposalWithdraw_def Tx_crcProposalRealWithdraw_def Tx_crcAssetsRectify_def Tx_crCouncilMemberClaimNode_def
  Tx_DposV2ClaimReward_def Tx_DposV2ClaimRewardRealWithdraw_def Tx_Stake_def Tx_Voting_def Tx_CancelVotes_def
  Tx_Unstake_def Tx_UnstakeRealWithdraw_def

text \<open>
  \<open>InitPayload\<close> has no case for the stake and vote transactions nor for \<open>crcAppropriation\<close>, whose
  classes exist: a null pointer for these, as for the types without a class.
\<close>

definition Transaction_InitPayload :: "u8 \<Rightarrow> Payload option" where
  "Transaction_InitPayload ty =
     (if ty = Tx_coinBase then Some (PL_CoinBase CoinBase_new)
      else if ty = Tx_registerAsset then Some (PL_RegisterAsset RegisterAsset_new)
      else if ty = Tx_transferAsset then Some (PL_TransferAsset TransferAsset_new)
      else if ty = Tx_record then Some (PL_Record Record_new)
      else if ty = Tx_deploy then None
      else if ty = Tx_sideChainPow then Some (PL_SideChainPow SideChainPow_new)
      else if ty = Tx_rechargeToSideChain then Some (PL_RechargeToSideChain RechargeToSideChain_new)
      else if ty = Tx_withdrawFromSideChain then Some (PL_WithdrawFromSideChain WithdrawFromSideChain_new)
      else if ty = Tx_transferCrossChainAsset then Some (PL_TransferCrossChainAsset TransferCrossChainAsset_new)
      else if ty = Tx_registerProducer \<or> ty = Tx_updateProducer then Some (PL_ProducerInfo ProducerInfo_new)
      else if ty = Tx_cancelProducer then Some (PL_CancelProducer CancelProducer_new)
      else if ty = Tx_returnDepositCoin then Some (PL_ReturnDepositCoin ReturnDepositCoin_new)
      else if ty = Tx_nextTurnDPOSInfo then Some (PL_NextTurnDPoSInfo NextTurnDPoSInfo_new)
      else if ty = Tx_registerCR \<or> ty = Tx_updateCR then Some (PL_CRInfo CRInfo_new)
      else if ty = Tx_unregisterCR then Some (PL_UnregisterCR UnregisterCR_new)
      else if ty = Tx_returnCRDepositCoin then Some (PL_ReturnDepositCoin ReturnDepositCoin_new)
      else if ty = Tx_crcProposal then Some (PL_CRCProposal CRCProposal_new)
      else if ty = Tx_crcProposalReview then Some (PL_CRCProposalReview CRCProposalReview_new)
      else if ty = Tx_crcProposalTracking then Some (PL_CRCProposalTracking CRCProposalTracking_new)
      else if ty = Tx_crcProposalWithdraw then Some (PL_CRCProposalWithdraw CRCProposalWithdraw_new)
      else if ty = Tx_crcProposalRealWithdraw then Some (PL_CRCProposalRealWithdraw CRCProposalRealWithdraw_new)
      else if ty = Tx_crcAssetsRectify then Some (PL_CRCAssetsRectify CRCAssetsRectify_new)
      else if ty = Tx_crCouncilMemberClaimNode then Some (PL_CRCouncilMemberClaimNode CRCouncilMemberClaimNode_new)
      else None)"

section \<open>Payloads travel\<close>

definition TransferCrossChainAsset_canon :: "u8 \<Rightarrow> TransferCrossChainAsset \<Rightarrow> TransferCrossChainAsset" where
  "TransferCrossChainAsset_canon v p =
     (if v = TransferCrossChainVersion then p else TransferCrossChainAsset_new)"

fun Payload_fits :: "u8 \<Rightarrow> Payload \<Rightarrow> bool" where
  "Payload_fits v (PL_RegisterAsset p) \<longleftrightarrow> Asset_strings_fit (ra_asset p)"
| "Payload_fits v (PL_Record p) \<longleftrightarrow> Record_fits v p"
| "Payload_fits v (PL_RechargeToSideChain p) \<longleftrightarrow> v = RechargeToSideChain_V0 \<or> v = RechargeToSideChain_V1"
| "Payload_fits v (PL_WithdrawFromSideChain p) \<longleftrightarrow> WithdrawFromSideChain_fits v p"
| "Payload_fits v (PL_TransferCrossChainAsset p) \<longleftrightarrow> TransferCrossChainAsset_fits v p"
| "Payload_fits v (PL_ProducerInfo p) \<longleftrightarrow> ProducerInfo_fits v p"
| "Payload_fits v (PL_CRInfo p) \<longleftrightarrow> CRInfo_fits v p"
| "Payload_fits v (PL_CRCProposal p) \<longleftrightarrow> CRCProposal_valid p"
| "Payload_fits v (PL_CRCProposalReview p) \<longleftrightarrow> CRCProposalReview_fits v p"
| "Payload_fits v (PL_CRCProposalWithdraw p) \<longleftrightarrow> CRCProposalWithdraw_fits v p"
| "Payload_fits v (PL_CRCouncilMemberClaimNode p) \<longleftrightarrow> CRCouncilMemberClaimNode_fits v p"
| "Payload_fits v p \<longleftrightarrow> True"

fun Payload_canon :: "(bytes \<Rightarrow> uint256) \<Rightarrow> u8 \<Rightarrow> Payload \<Rightarrow> Payload" where
  "Payload_canon sha256_2 v (PL_RegisterAsset p) = PL_RegisterAsset (RegisterAsset_canon sha256_2 p)"
| "Payload_canon sha256_2 v (PL_RechargeToSideChain p) = PL_RechargeToSideChain (RechargeToSideChain_canon v RechargeToSideChain_new p)"
| "Payload_canon sha256_2 v (PL_TransferCrossChainAsset p) = PL_TransferCrossChainAsset (TransferCrossChainAsset_canon v p)"
| "Payload_canon sha256_2 v (PL_CRInfo p) = PL_CRInfo (CRInfo_canon v CRInfo_new p)"
| "Payload_canon sha256_2 v (PL_UnregisterCR p) = PL_UnregisterCR (UnregisterCR_canon v UnregisterCR_new p)"
| "Payload_canon sha256_2 v (PL_CRCProposal p) = PL_CRCProposal (CRCProposal_canon v p)"
| "Payload_canon sha256_2 v (PL_CRCProposalReview p) = PL_CRCProposalReview (CRCProposalReview_canon v CRCProposalReview_new p)"
| "Payload_canon sha256_2 v (PL_CRCProposalTracking p) = PL_CRCProposalTracking (CRCProposalTracking_canon v CRCProposalTracking_new p)"
| "Payload_canon sha256_2 v (PL_CRCProposalWithdraw p) = PL_CRCProposalWithdraw (CRCProposalWithdraw_canon v CRCProposalWithdraw_new p)"
| "Payload_canon sha256_2 v (PL_CRCouncilMemberClaimNode p) = PL_CRCouncilMemberClaimNode (CRCouncilMemberClaimNode_canon v CRCouncilMemberClaimNode_new p)"
| "Payload_canon sha256_2 v (PL_Voting p) = PL_Voting (Voting_canon v p)"
| "Payload_canon sha256_2 v p = p"

fun Payload_fresh :: "Payload \<Rightarrow> Payload" where
  "Payload_fresh (PL_CoinBase p) = PL_CoinBase CoinBase_new"
| "Payload_fresh (PL_RegisterAsset p) = PL_RegisterAsset RegisterAsset_new"
| "Payload_fresh (PL_TransferAsset p) = PL_TransferAsset TransferAsset_new"
| "Payload_fresh (PL_Record p) = PL_Record Record_new"
| "Payload_fresh (PL_SideChainPow p) = PL_SideChainPow SideChainPow_new"
| "Payload_fresh (PL_RechargeToSideChain p) = PL_RechargeToSideChain RechargeToSideChain_new"
| "Payload_fresh (PL_WithdrawFromSideChain p) = PL_WithdrawFromSideChain WithdrawFromSideChain_new"
| "Payload_fresh (PL_TransferCrossChainAsset p) = PL_TransferCrossChainAsset TransferCrossChainAsset_new"
| "Payload_fresh (PL_ProducerInfo p) = PL_ProducerInfo ProducerInfo_new"
| "Payload_fresh (PL_CancelProducer p) = PL_CancelProducer CancelProducer_new"
| "Payload_fresh (PL_ReturnDepositCoin p) = PL_ReturnDepositCoin ReturnDepositCoin_new"
| "Payload_fresh (PL_NextTurnDPoSInfo p) = PL_NextTurnDPoSInfo NextTurnDPoSInfo_new"
| "Payload_fresh (PL_CRInfo p) = PL_CRInfo CRInfo_new"
| "Payload_fresh (PL_UnregisterCR p) = PL_UnregisterCR UnregisterCR_new"
| "Payload_fresh (PL_CRCProposal p) = PL_CRCProposal CRCProposal_new"
| "Payload_fresh (PL_CRCProposalReview p) = PL_CRCProposalReview CRCProposalReview_new"
| "Payload_fresh (PL_CRCProposalTracking p) = PL_CRCProposalTracking CRCProposalTracking_new"
| "Payload_fresh (PL_CRCAppropriation p) = PL_CRCAppropriation CRCAppropriation_new"
| "Payload_fresh (PL_CRCProposalWithdraw p) = PL_CRCProposalWithdraw CRCProposalWithdraw_new"
| "Payload_fresh (PL_CRCProposalRealWithdraw p) = PL_CRCProposalRealWithdraw CRCProposalRealWithdraw_new"
| "Payload_fresh (PL_CRCAssetsRectify p) = PL_CRCAssetsRectify CRCAssetsRectify_new"
| "Payload_fresh (PL_CRCouncilMemberClaimNode p) = PL_CRCouncilMemberClaimNode CRCouncilMemberClaimNode_new"
| "Payload_fresh (PL_DPoSV2ClaimReward p) = PL_DPoSV2ClaimReward DPoSV2ClaimReward_new"
| "Payload_fresh (PL_DPoSV2ClaimRewardRealWithdraw p) = PL_DPoSV2ClaimRewardRealWithdraw DPoSV2ClaimRewardRealWithdraw_new"
| "Payload_fresh (PL_Stake p) = PL_Stake Stake_new"
| "Payload_fresh (PL_Voting p) = PL_Voting Voting_new"
| "Payload_fresh (PL_CancelVotes p) = PL_CancelVotes CancelVotes_new"
| "Payload_fresh (PL_Unstake p) = PL_Unstake Unstake_new"
| "Payload_fresh (PL_UnstakeRealWithdraw p) = PL_UnstakeRealWithdraw UnstakeRealWithdraw_new"

lemmas payload_transfers =
  coin_base.transfer
  register_asset.transfer
  transfer_asset.transfer
  record_payload.transfer
  side_chain_pow.transfer
  recharge.transfer
  withdraw.transfer
  transfer_cross_chain.transfer [folded TransferCrossChainAsset_canon_def]
  producer_info.transfer
  cancel_producer.transfer
  return_deposit.transfer
  next_turn.transfer
  cr_info.transfer
  unregister_cr.transfer
  crc_proposal.transfer
  proposal_review.transfer
  proposal_tracking.transfer
  crc_appropriation.transfer
  proposal_withdraw.transfer
  proposal_real.transfer
  crc_rectify.transfer
  claim_node.transfer
  claim_reward.transfer
  claim_real.transfer
  stake.transfer
  voting.transfer
  cancel_votes.transfer
  unstake.transfer
  unstake_real.transfer

lemmas payload_equal =
  coin_base.equal_canon
  register_asset.equal_canon
  transfer_asset.equal_canon
  record_payload.equal_canon
  side_chain_pow.equal_canon
  recharge.equal_canon
  withdraw.equal_canon
  transfer_cross_chain.equal_canon [folded TransferCrossChainAsset_canon_def]
  producer_info.equal_canon
  cancel_producer.equal_canon
  return_deposit.equal_canon
  next_turn.equal_canon
  cr_info.equal_canon
  unregister_cr.equal_canon
  crc_proposal.equal_canon
  proposal_review.equal_canon
  proposal_tracking.equal_canon
  crc_appropriation.equal_canon
  proposal_withdraw.equal_canon
  proposal_real.equal_canon
  crc_rectify.equal_canon
  claim_node.equal_canon
  claim_reward.equal_canon
  claim_real.equal_canon
  stake.equal_canon
  voting.equal_canon
  cancel_votes.equal_canon
  unstake.equal_canon
  unstake_real.equal_canon

lemmas payload_local =
  coin_base.local_des
  register_asset.local_des
  transfer_asset.local_des
  record_payload.local_des
  side_chain_pow.local_des
  recharge.local_des
  withdraw.local_des
  transfer_cross_chain.local_des
  producer_info.local_des
  cancel_producer.local_des
  return_deposit.local_des
  next_turn.local_des
  cr_info.local_des
  unregister_cr.local_des
  crc_proposal.local_des
  proposal_review.local_des
  proposal_tracking.local_des
  crc_appropriation.local_des
  proposal_withdraw.local_des
  proposal_real.local_des
  crc_rectify.local_des
  claim_node.local_des
  claim_reward.local_des
  claim_real.local_des
  stake.local_des
  voting.local_des
  cancel_votes.local_des
  unstake.local_des
  unstake_real.local_des

lemma Payload_transfers:
  assumes "Payload_fits v p"
  shows "transfers (Payload_Serialize v p) (Payload_Deserialize sha256_2 v (Payload_fresh p))
    (Payload_canon sha256_2 v p)"
  using assms
  by (cases p) (simp_all, (rule transfers_map payload_transfers | assumption | simp; fail)+)

lemma Payload_equal_canon:
  assumes "Payload_fits v p"
  shows "Payload_Equal v p (Payload_canon sha256_2 v p)"
  using assms by (cases p) (simp_all add: Payload_Equal_def payload_equal)

lemma Payload_fresh_local: "local_reader (Payload_Deserialize sha256_2 v (Payload_fresh p))"
  by (cases p) (auto intro!: local_rbind local_rret payload_local)

text \<open>Writing what was read back gives the same bytes: the layout keeps everything that is written.\<close>

lemma payload_stable:
  "RegisterAsset_Serialize v (RegisterAsset_canon sha256_2 p1) = RegisterAsset_Serialize v p1"
  "RechargeToSideChain_Serialize v (RechargeToSideChain_canon v RechargeToSideChain_new p2) =
     RechargeToSideChain_Serialize v p2"
  "TransferCrossChainAsset_Serialize v (TransferCrossChainAsset_canon v p3) =
     TransferCrossChainAsset_Serialize v p3"
  "CRInfo_Serialize v (CRInfo_canon v CRInfo_new p4) = CRInfo_Serialize v p4"
  "UnregisterCR_Serialize v (UnregisterCR_canon v UnregisterCR_new p5) = UnregisterCR_Serialize v p5"
  "CRCProposalReview_Serialize v (CRCProposalReview_canon v CRCProposalReview_new p6) =
     CRCProposalReview_Serialize v p6"
  "CRCProposalTracking_Serialize v (CRCProposalTracking_canon v CRCProposalTracking_new p7) =
     CRCProposalTracking_Serialize v p7"
  "CRCProposalWithdraw_Serialize v (CRCProposalWithdraw_canon v CRCProposalWithdraw_new p8) =
     CRCProposalWithdraw_Serialize v p8"
  "CRCouncilMemberClaimNode_Serialize v (CRCouncilMemberClaimNode_canon v CRCouncilMemberClaimNode_new p9) =
     CRCouncilMemberClaimNode_Serialize v p9"
  "Voting_Serialize v (Voting_canon v p10) = Voting_Serialize v p10"
  by (auto simp: RegisterAsset_Serialize_def RegisterAsset_canon_def
      RechargeToSideChain_Serialize_def RechargeToSideChain_canon_def
      TransferCrossChainAsset_Serialize_def TransferCrossChainAsset_canon_def
      CRInfo_Serialize_def CRInfo_SerializeUnsigned_def CRInfo_canon_def CRInfo_canonUnsigned_def
      UnregisterCR_Serialize_def UnregisterCR_SerializeUnsigned_def UnregisterCR_canon_def
      UnregisterCR_canonUnsigned_def CRCProposalReview_Serialize_def
      CRCProposalReview_SerializeUnsigned_def CRCProposalReview_canon_def
      CRCProposalReview_canonUnsigned_def CRCProposalTracking_Serialize_def
      CRCProposalTracking_SerializeSecretaryUnsigned_def CRCProposalTracking_SerializeNewOwnerUnsigned_def
      CRCProposalTracking_SerializeOwnerUnsigned_def CRCProposalTracking_canon_def
      CRCProposalTracking_canonSecretaryUnsigned_def CRCProposalTracking_canonNewOwnerUnsigned_def
      CRCProposalTracking_canonOwnerUnsigned_def CRCProposalWithdraw_Serialize_def
      CRCProposalWithdraw_SerializeUnsigned_def CRCProposalWithdraw_canon_def
      CRCProposalWithdraw_canonUnsigned_def CRCouncilMemberClaimNode_Serialize_def
      CRCouncilMemberClaimNode_SerializeUnsigned_def CRCouncilMemberClaimNode_canon_def
      CRCouncilMemberClaimNode_canonUnsigned_def Voting_Serialize_def Voting_canon_def)

lemma budgets_stable: "write_items Budget_Serialize (map Budget_canon bs) = write_items Budget_Serialize bs"
proof -
  have "Budget_Serialize (Budget_canon b) = Budget_Serialize b" for b
    by (simp add: Budget_Serialize_def Budget_canon_def)
  then show ?thesis by (simp add: write_items_def comp_def)
qed

lemma CRCProposal_stable:
  assumes "CRCProposal_serializable (crp_type p)"
  shows "CRCProposal_Serialize v (CRCProposal_canon v p) = CRCProposal_Serialize v p"
  using assms unfolding CRCProposal_serializable_def
  by (elim insertE emptyE)
    (auto simp: CRCProposal_Serialize_def CRCProposal_canon_def CRCProposal_canons proposal_types
      CRCProposal_sers budgets_stable)

lemma Payload_Serialize_canon:
  assumes "Payload_fits v p"
  shows "Payload_Serialize v (Payload_canon sha256_2 v p) = Payload_Serialize v p"
  using assms by (cases p) (simp_all add: payload_stable CRCProposal_stable CRCProposal_valid_def)

end
