(* ===== verification/TxOutput.thy ===== *)
theory TxOutput
  imports TxItems AddressM
begin

text \<open>
  Transaction outputs: the output payloads of \<open>Transaction/Payload/OutputPayload/\<close>
  (\<open>PayloadDefault\<close>, \<open>PayloadVote\<close>, \<open>PayloadCrossChain\<close>, \<open>PayloadStake\<close>) and
  \<open>Transaction/TransactionOutput.{h,cpp}\<close>, which picks the payload class by the type of the output.
\<close>

section \<open>PayloadVote\<close>

definition VOTE_PRODUCER_CR_VERSION :: u8 where "VOTE_PRODUCER_CR_VERSION = 0x01"

record CandidateVotes =
  cand_candidate :: bytes
  cand_votes :: BigInt

definition CandidateVotes_new :: CandidateVotes where
  "CandidateVotes_new = \<lparr>cand_candidate = [], cand_votes = 0\<rparr>"

definition CandidateVotes_SetVotes :: "u64 \<Rightarrow> CandidateVotes \<Rightarrow> CandidateVotes" where
  "CandidateVotes_SetVotes votes c = c\<lparr>cand_votes := BigInt_setUint64 votes\<rparr>"

definition CandidateVotes_Serialize :: "u8 \<Rightarrow> CandidateVotes \<Rightarrow> writer" where
  "CandidateVotes_Serialize version c =
     wseq [WriteVarBytes (cand_candidate c),
           (if VOTE_PRODUCER_CR_VERSION \<le> version
            then WriteUint64 (BigInt_getUint64 (cand_votes c)) else wseq [])]"

definition CandidateVotes_Deserialize :: "u8 \<Rightarrow> CandidateVotes \<Rightarrow> CandidateVotes reader" where
  "CandidateVotes_Deserialize version o1 =
     rbind ReadVarBytes (\<lambda>candidate.
     rbind (if VOTE_PRODUCER_CR_VERSION \<le> version
            then rbind ReadUint64 (\<lambda>votes. rret (BigInt_setUint64 votes))
            else rret (cand_votes o1)) (\<lambda>votes.
       rret (o1\<lparr>cand_candidate := candidate, cand_votes := votes\<rparr>)))"

definition CandidateVotes_eq :: "CandidateVotes \<Rightarrow> CandidateVotes \<Rightarrow> bool" where
  "CandidateVotes_eq a b \<longleftrightarrow> cand_candidate a = cand_candidate b \<and> cand_votes a = cand_votes b"

definition VoteType_Delegate :: u8 where "VoteType_Delegate = 0"
definition VoteType_CRC :: u8 where "VoteType_CRC = 1"
definition VoteType_CRCProposal :: u8 where "VoteType_CRCProposal = 2"
definition VoteType_CRCImpeachment :: u8 where "VoteType_CRCImpeachment = 3"

record VoteContent =
  vote_type :: u8
  vote_candidates :: "CandidateVotes list"

definition VoteContent_new :: VoteContent where
  "VoteContent_new = \<lparr>vote_type = VoteType_Delegate, vote_candidates = []\<rparr>"

definition VoteContent_AddCandidate :: "CandidateVotes \<Rightarrow> VoteContent \<Rightarrow> VoteContent" where
  "VoteContent_AddCandidate c vc = vc\<lparr>vote_candidates := vote_candidates vc @ [c]\<rparr>"

definition VoteContent_GetTypeString :: "VoteContent \<Rightarrow> string" where
  "VoteContent_GetTypeString vc =
     (if vote_type vc = VoteType_CRC then ''CRC''
      else if vote_type vc = VoteType_Delegate then ''Delegate''
      else if vote_type vc = VoteType_CRCProposal then ''CRCProposal''
      else if vote_type vc = VoteType_CRCImpeachment then ''CRCImpeachment''
      else ''Unknow'')"

definition VoteContent_SetAllCandidateVotes :: "u64 \<Rightarrow> VoteContent \<Rightarrow> VoteContent" where
  "VoteContent_SetAllCandidateVotes votes vc =
     vc\<lparr>vote_candidates := map (CandidateVotes_SetVotes votes) (vote_candidates vc)\<rparr>"

definition VoteContent_GetMaxVoteAmount :: "VoteContent \<Rightarrow> BigInt" where
  "VoteContent_GetMaxVoteAmount vc =
     fold (\<lambda>c m. if m < cand_votes c then cand_votes c else m) (vote_candidates vc) 0"

definition VoteContent_GetTotalVoteAmount :: "VoteContent \<Rightarrow> BigInt" where
  "VoteContent_GetTotalVoteAmount vc = fold (\<lambda>c t. t + cand_votes c) (vote_candidates vc) 0"

definition VoteContent_Serialize :: "u8 \<Rightarrow> VoteContent \<Rightarrow> writer" where
  "VoteContent_Serialize version vc =
     wseq [WriteUint8 (vote_type vc),
           write_items (CandidateVotes_Serialize version) (vote_candidates vc)]"

text \<open>The failure to read the type is logged and ignored; the type is 0 then.\<close>

definition VoteContent_Deserialize :: "u8 \<Rightarrow> VoteContent \<Rightarrow> VoteContent reader" where
  "VoteContent_Deserialize version o1 =
     rbind (rtry ReadUint8 0) (\<lambda>ty.
     rbind ReadVarUint (\<lambda>n.
     rbind (read_each (CandidateVotes_Deserialize version)
              (vec_resize (unat n) CandidateVotes_new (vote_candidates o1))) (\<lambda>candidates.
       rret (o1\<lparr>vote_type := ty, vote_candidates := candidates\<rparr>))))"

definition VoteContent_eq :: "VoteContent \<Rightarrow> VoteContent \<Rightarrow> bool" where
  "VoteContent_eq a b \<longleftrightarrow>
     vote_type a = vote_type b \<and> list_all2 CandidateVotes_eq (vote_candidates a) (vote_candidates b)"

record PayloadVote =
  pv_version :: u8
  pv_content :: "VoteContent list"

definition PayloadVote_new :: PayloadVote where
  "PayloadVote_new = \<lparr>pv_version = 0, pv_content = []\<rparr>"

definition CandidateVotes_EstimateSize :: "u8 \<Rightarrow> CandidateVotes \<Rightarrow> nat" where
  "CandidateVotes_EstimateSize version c =
     WriteVarUint_count (word_of_nat (length (cand_candidate c))) + length (cand_candidate c) +
     (if VOTE_PRODUCER_CR_VERSION \<le> version
      then WriteVarUint_count (BigInt_getUint64 (cand_votes c)) else 0)"

definition PayloadVote_EstimateSize :: "PayloadVote \<Rightarrow> nat" where
  "PayloadVote_EstimateSize p =
     1 + WriteVarUint_count (word_of_nat (length (pv_content p))) +
     sum_list (map (\<lambda>vc. 1 + WriteVarUint_count (word_of_nat (length (vote_candidates vc))) +
       sum_list (map (CandidateVotes_EstimateSize (pv_version p)) (vote_candidates vc))) (pv_content p))"

definition PayloadVote_Serialize :: "PayloadVote \<Rightarrow> writer" where
  "PayloadVote_Serialize p =
     wseq [WriteUint8 (pv_version p),
           write_items (VoteContent_Serialize (pv_version p)) (pv_content p)]"

definition PayloadVote_Deserialize :: "PayloadVote \<Rightarrow> PayloadVote reader" where
  "PayloadVote_Deserialize o1 =
     rbind ReadUint8 (\<lambda>version.
     rbind ReadVarUint (\<lambda>n.
     rbind (read_each (VoteContent_Deserialize version)
              (vec_resize (unat n) VoteContent_new (pv_content o1))) (\<lambda>content.
       rret (o1\<lparr>pv_version := version, pv_content := content\<rparr>))))"

definition PayloadVote_assign :: "PayloadVote \<Rightarrow> PayloadVote \<Rightarrow> PayloadVote" where
  "PayloadVote_assign this p = this\<lparr>pv_version := pv_version p, pv_content := pv_content p\<rparr>"

definition PayloadVote_eq :: "PayloadVote \<Rightarrow> PayloadVote \<Rightarrow> bool" where
  "PayloadVote_eq a b \<longleftrightarrow>
     pv_version a = pv_version b \<and> list_all2 VoteContent_eq (pv_content a) (pv_content b)"

section \<open>PayloadCrossChain, PayloadStake, PayloadDefault\<close>

record PayloadCrossChain =
  pcc_version :: u8
  pcc_targetAddress :: string
  pcc_targetAmount :: BigInt
  pcc_targetData :: bytes

definition PayloadCrossChain_new :: PayloadCrossChain where
  "PayloadCrossChain_new =
     \<lparr>pcc_version = 0, pcc_targetAddress = '''', pcc_targetAmount = 0, pcc_targetData = []\<rparr>"

definition PayloadCrossChain_EstimateSize :: "PayloadCrossChain \<Rightarrow> nat" where
  "PayloadCrossChain_EstimateSize p =
     1 + WriteVarUint_count (word_of_nat (length (pcc_targetAddress p))) +
     length (pcc_targetAddress p) + 8 +
     WriteVarUint_count (word_of_nat (length (pcc_targetData p))) + length (pcc_targetData p)"

definition PayloadCrossChain_Serialize :: "PayloadCrossChain \<Rightarrow> writer" where
  "PayloadCrossChain_Serialize p =
     wseq [WriteUint8 (pcc_version p), WriteVarString (pcc_targetAddress p),
           WriteUint64 (BigInt_getUint64 (pcc_targetAmount p)), WriteVarBytes (pcc_targetData p)]"

definition PayloadCrossChain_Deserialize :: "PayloadCrossChain \<Rightarrow> PayloadCrossChain reader" where
  "PayloadCrossChain_Deserialize o1 =
     rbind ReadUint8 (\<lambda>version.
     rbind ReadVarString (\<lambda>targetAddress.
     rbind ReadUint64 (\<lambda>amount.
     rbind ReadVarBytes (\<lambda>targetData.
       rret (o1\<lparr>pcc_version := version, pcc_targetAddress := targetAddress,
               pcc_targetAmount := BigInt_setUint64 amount, pcc_targetData := targetData\<rparr>)))))"

definition PayloadCrossChain_assign ::
    "PayloadCrossChain \<Rightarrow> PayloadCrossChain \<Rightarrow> PayloadCrossChain" where
  "PayloadCrossChain_assign this p =
     this\<lparr>pcc_version := pcc_version p, pcc_targetAddress := pcc_targetAddress p,
          pcc_targetAmount := pcc_targetAmount p, pcc_targetData := pcc_targetData p\<rparr>"

definition PayloadCrossChain_eq :: "PayloadCrossChain \<Rightarrow> PayloadCrossChain \<Rightarrow> bool" where
  "PayloadCrossChain_eq a b \<longleftrightarrow>
     pcc_version a = pcc_version b \<and> pcc_targetAddress a = pcc_targetAddress b \<and>
     pcc_targetAmount a = pcc_targetAmount b \<and> pcc_targetData a = pcc_targetData b"

record PayloadStake =
  pst_version :: u8
  pst_stakeAddress :: uint168

definition PayloadStake_new :: PayloadStake where
  "PayloadStake_new = \<lparr>pst_version = 0, pst_stakeAddress = 0\<rparr>"

definition PayloadStake_EstimateSize :: "PayloadStake \<Rightarrow> nat" where
  "PayloadStake_EstimateSize p = 1 + 21"

definition PayloadStake_Serialize :: "PayloadStake \<Rightarrow> writer" where
  "PayloadStake_Serialize p = wseq [WriteUint8 (pst_version p), WriteUint168 (pst_stakeAddress p)]"

definition PayloadStake_Deserialize :: "PayloadStake \<Rightarrow> PayloadStake reader" where
  "PayloadStake_Deserialize o1 =
     rbind ReadUint8 (\<lambda>version.
     rbind ReadUint168 (\<lambda>stakeAddress.
       rret (o1\<lparr>pst_version := version, pst_stakeAddress := stakeAddress\<rparr>)))"

definition PayloadStake_assign :: "PayloadStake \<Rightarrow> PayloadStake \<Rightarrow> PayloadStake" where
  "PayloadStake_assign this p =
     this\<lparr>pst_version := pst_version p, pst_stakeAddress := pst_stakeAddress p\<rparr>"

definition PayloadStake_eq :: "PayloadStake \<Rightarrow> PayloadStake \<Rightarrow> bool" where
  "PayloadStake_eq a b \<longleftrightarrow>
     pst_version a = pst_version b \<and> pst_stakeAddress a = pst_stakeAddress b"

text \<open>The classes behind an \<open>OutputPayloadPtr\<close>, dispatched on as the virtual methods are.\<close>

datatype OutputPayload =
    OP_Default
  | OP_Vote PayloadVote
  | OP_CrossChain PayloadCrossChain
  | OP_Stake PayloadStake

fun OutputPayload_Serialize :: "OutputPayload \<Rightarrow> writer" where
  "OutputPayload_Serialize OP_Default = wseq []"
| "OutputPayload_Serialize (OP_Vote p) = PayloadVote_Serialize p"
| "OutputPayload_Serialize (OP_CrossChain p) = PayloadCrossChain_Serialize p"
| "OutputPayload_Serialize (OP_Stake p) = PayloadStake_Serialize p"

fun OutputPayload_Deserialize :: "OutputPayload \<Rightarrow> OutputPayload reader" where
  "OutputPayload_Deserialize OP_Default = rret OP_Default"
| "OutputPayload_Deserialize (OP_Vote o1) = rbind (PayloadVote_Deserialize o1) (\<lambda>p. rret (OP_Vote p))"
| "OutputPayload_Deserialize (OP_CrossChain o1) =
     rbind (PayloadCrossChain_Deserialize o1) (\<lambda>p. rret (OP_CrossChain p))"
| "OutputPayload_Deserialize (OP_Stake o1) = rbind (PayloadStake_Deserialize o1) (\<lambda>p. rret (OP_Stake p))"

text \<open>Assignment from another class leaves the object alone; comparison with one is false.\<close>

fun OutputPayload_assign :: "OutputPayload \<Rightarrow> OutputPayload \<Rightarrow> OutputPayload" where
  "OutputPayload_assign (OP_Vote this) (OP_Vote p) = OP_Vote (PayloadVote_assign this p)"
| "OutputPayload_assign (OP_CrossChain this) (OP_CrossChain p) =
     OP_CrossChain (PayloadCrossChain_assign this p)"
| "OutputPayload_assign (OP_Stake this) (OP_Stake p) = OP_Stake (PayloadStake_assign this p)"
| "OutputPayload_assign this p = this"

fun OutputPayload_eq :: "OutputPayload \<Rightarrow> OutputPayload \<Rightarrow> bool" where
  "OutputPayload_eq OP_Default OP_Default = True"
| "OutputPayload_eq (OP_Vote a) (OP_Vote b) = PayloadVote_eq a b"
| "OutputPayload_eq (OP_CrossChain a) (OP_CrossChain b) = PayloadCrossChain_eq a b"
| "OutputPayload_eq (OP_Stake a) (OP_Stake b) = PayloadStake_eq a b"
| "OutputPayload_eq _ _ = False"

section \<open>TransactionOutput\<close>

definition OutputType_Default :: u8 where "OutputType_Default = 0"
definition OutputType_VoteOutput :: u8 where "OutputType_VoteOutput = 1"
definition OutputType_Mapping :: u8 where "OutputType_Mapping = 2"
definition OutputType_CrossChain :: u8 where "OutputType_CrossChain = 3"
definition OutputType_WithdrawFromSideChain :: u8 where "OutputType_WithdrawFromSideChain = 4"
definition OutputType_ReturnSideChainDepositCoin :: u8 where "OutputType_ReturnSideChainDepositCoin = 5"
definition OutputType_DposV2Vote :: u8 where "OutputType_DposV2Vote = 6"
definition OutputType_Stake :: u8 where "OutputType_Stake = 7"

definition TxVersion_Default :: u8 where "TxVersion_Default = 0"
definition TxVersion_V09 :: u8 where "TxVersion_V09 = 9"

text \<open>\<open>GeneratePayload\<close> has a class for three of the eight types; the others get a null pointer.\<close>

definition TransactionOutput_GeneratePayload :: "u8 \<Rightarrow> OutputPayload option" where
  "TransactionOutput_GeneratePayload ty =
     (if ty = OutputType_Default then Some OP_Default
      else if ty = OutputType_VoteOutput then Some (OP_Vote PayloadVote_new)
      else if ty = OutputType_CrossChain then Some (OP_CrossChain PayloadCrossChain_new)
      else None)"

record TransactionOutput =
  out_amount :: BigInt
  out_assetID :: uint256
  out_outputLock :: u32
  out_address :: Address
  out_outputType :: u8
  out_payload :: "OutputPayload option"

definition TransactionOutput_new :: TransactionOutput where
  "TransactionOutput_new =
     \<lparr>out_amount = BigInt_setUint64 0, out_assetID = 0, out_outputLock = 0, out_address = Address_new,
      out_outputType = OutputType_Default,
      out_payload = TransactionOutput_GeneratePayload OutputType_Default\<rparr>"

definition TransactionOutput_of ::
    "BigInt \<Rightarrow> Address \<Rightarrow> uint256 \<Rightarrow> u8 \<Rightarrow> OutputPayload option \<Rightarrow> TransactionOutput" where
  "TransactionOutput_of a addr assetID ty payload =
     \<lparr>out_amount = a, out_assetID = assetID, out_outputLock = 0, out_address = addr,
      out_outputType = ty,
      out_payload = (if payload = None then TransactionOutput_GeneratePayload ty else payload)\<rparr>"

text \<open>Copying dereferences both payload pointers.\<close>

definition TransactionOutput_assign :: "TransactionOutput \<Rightarrow> TransactionOutput \<Rightarrow> TransactionOutput outcome" where
  "TransactionOutput_assign this src =
     (case (TransactionOutput_GeneratePayload (out_outputType src), out_payload src) of
        (Some p, Some q) \<Rightarrow>
          Ret (this\<lparr>out_amount := out_amount src, out_assetID := out_assetID src,
                    out_address := Address_assign (out_address this) (out_address src),
                    out_outputLock := out_outputLock src, out_outputType := out_outputType src,
                    out_payload := Some (OutputPayload_assign p q)\<rparr>)
      | _ \<Rightarrow> Undef)"

definition TransactionOutput_EstimateSize :: "TransactionOutput \<Rightarrow> nat" where
  "TransactionOutput_EstimateSize t =
     32 + (if out_assetID t = GetELAAssetID then 8
           else WriteVarUint_count (word_of_nat (length (BigInt_getHexBytes (out_amount t) False))) +
                length (BigInt_getHexBytes (out_amount t) False)) + 4 + 21"

definition TransactionOutput_Serialize :: "u8 \<Rightarrow> TransactionOutput \<Rightarrow> writer" where
  "TransactionOutput_Serialize txVersion t =
     wseq [WriteUint256 (out_assetID t),
           (if out_assetID t = GetELAAssetID
            then WriteUint64 (of_le (take 8 (BigInt_getHexBytes (out_amount t) True)))
            else WriteVarBytes (BigInt_getHexBytes (out_amount t) False)),
           WriteUint32 (out_outputLock t),
           WriteUint168 (addr_programHash (out_address t)),
           (if TxVersion_V09 \<le> txVersion
            then wseq [WriteUint8 (out_outputType t),
                       (case out_payload t of Some p \<Rightarrow> OutputPayload_Serialize p | None \<Rightarrow> (\<lambda>s. Undef))]
            else wseq [])]"

definition TransactionOutput_Deserialize :: "u8 \<Rightarrow> TransactionOutput \<Rightarrow> TransactionOutput reader" where
  "TransactionOutput_Deserialize txVersion o1 =
     rbind ReadUint256 (\<lambda>assetID.
     rbind (if assetID = GetELAAssetID
            then rbind ReadUint64 (\<lambda>amount. rret (BigInt_setHexBytes (out_amount o1) (le_bytes 8 amount) True))
            else rbind ReadVarBytes (\<lambda>bs. rret (BigInt_setHexBytes (out_amount o1) bs False))) (\<lambda>amount.
     rbind ReadUint32 (\<lambda>outputLock.
     rbind ReadUint168 (\<lambda>programHash.
     rbind (rret (o1\<lparr>out_assetID := assetID, out_amount := amount, out_outputLock := outputLock,
                     out_address := Address_SetProgramHash programHash (out_address o1)\<rparr>)) (\<lambda>o2.
       if TxVersion_V09 \<le> txVersion
       then rbind ReadUint8 (\<lambda>outputType.
              case TransactionOutput_GeneratePayload outputType of
                None \<Rightarrow> rundef
              | Some p \<Rightarrow> rbind (OutputPayload_Deserialize p) (\<lambda>payload.
                  rret (o2\<lparr>out_outputType := outputType, out_payload := Some payload\<rparr>)))
       else rret o2)))))"

definition TransactionOutput_eq :: "TransactionOutput \<Rightarrow> TransactionOutput \<Rightarrow> bool outcome" where
  "TransactionOutput_eq a b =
     (if out_assetID a = out_assetID b \<and> out_amount a = out_amount b \<and>
         out_outputLock a = out_outputLock b \<and> Address_eq (out_address a) (out_address b) \<and>
         out_outputType a = out_outputType b
      then (case (out_payload a, out_payload b) of
              (Some p, Some q) \<Rightarrow> Ret (OutputPayload_eq p q) | _ \<Rightarrow> Undef)
      else Ret False)"

section \<open>Output payloads travel\<close>

text \<open>What comes back: a field that does not travel in a version is the one of the object read into.\<close>

definition CandidateVotes_canon :: "u8 \<Rightarrow> CandidateVotes \<Rightarrow> CandidateVotes" where
  "CandidateVotes_canon version c =
     c\<lparr>cand_votes := (if VOTE_PRODUCER_CR_VERSION \<le> version
                     then BigInt_setUint64 (BigInt_getUint64 (cand_votes c)) else 0)\<rparr>"

definition VoteContent_canon :: "u8 \<Rightarrow> VoteContent \<Rightarrow> VoteContent" where
  "VoteContent_canon version vc =
     vc\<lparr>vote_candidates := map (CandidateVotes_canon version) (vote_candidates vc)\<rparr>"

definition PayloadVote_canon :: "PayloadVote \<Rightarrow> PayloadVote" where
  "PayloadVote_canon p = p\<lparr>pv_content := map (VoteContent_canon (pv_version p)) (pv_content p)\<rparr>"

definition PayloadCrossChain_canon :: "PayloadCrossChain \<Rightarrow> PayloadCrossChain" where
  "PayloadCrossChain_canon p =
     p\<lparr>pcc_targetAmount := BigInt_setUint64 (BigInt_getUint64 (pcc_targetAmount p))\<rparr>"

lemma CandidateVotes_transfers:
  "transfers (CandidateVotes_Serialize v c) (CandidateVotes_Deserialize v CandidateVotes_new)
     (CandidateVotes_canon v c)"
  unfolding CandidateVotes_Serialize_def CandidateVotes_Deserialize_def
  by (rule transfer_intros transfers_map
      | simp add: CandidateVotes_canon_def CandidateVotes_new_def)+

interpretation candidate_votes: item_codec "CandidateVotes_Serialize v"
    "CandidateVotes_Deserialize v CandidateVotes_new" "\<lambda>_. True" "CandidateVotes_canon v" for v
  by (unfold_locales, rule CandidateVotes_transfers)
    (auto simp: CandidateVotes_Deserialize_def intro!: reader_intros needs_intros)

text \<open>
  The type of a vote content is read without a check, which makes no difference: the count that
  follows is read with one.
\<close>

lemma VoteContent_Deserialize_checked:
  assumes "wf_stream s"
  shows "VoteContent_Deserialize v VoteContent_new s =
    rbind ReadUint8 (\<lambda>ty.
      rbind (read_items (CandidateVotes_Deserialize v CandidateVotes_new)) (\<lambda>candidates.
        rret (VoteContent_new\<lparr>vote_type := ty, vote_candidates := candidates\<rparr>))) s"
proof -
  have nil: "vote_candidates VoteContent_new = []" by (simp add: VoteContent_new_def)
  show ?thesis
    unfolding VoteContent_Deserialize_def read_items_def rbind_assoc nil vec_resize_Nil read_each_replicate
    by (rule rtry_ReadUint8 [OF assms])
qed

lemma VoteContent_transfers:
  "transfers (VoteContent_Serialize v vc) (VoteContent_Deserialize v VoteContent_new)
     (VoteContent_canon v vc)"
proof (rule transfers_cong [OF VoteContent_Deserialize_checked])
  have i: "transfers (write_items (CandidateVotes_Serialize v) (vote_candidates vc))
     (read_items (CandidateVotes_Deserialize v CandidateVotes_new))
     (map (CandidateVotes_canon v) (vote_candidates vc))"
    by (rule candidate_votes.items_transfer) simp
  show "transfers (VoteContent_Serialize v vc)
     (rbind ReadUint8 (\<lambda>ty.
      rbind (read_items (CandidateVotes_Deserialize v CandidateVotes_new)) (\<lambda>candidates.
        rret (VoteContent_new\<lparr>vote_type := ty, vote_candidates := candidates\<rparr>))))
     (VoteContent_canon v vc)"
    unfolding VoteContent_Serialize_def
    by (rule transfers_WriteUint8 i transfers_rbind transfers_rret | simp add: VoteContent_canon_def)+
qed

interpretation vote_content: item_codec "VoteContent_Serialize v"
    "VoteContent_Deserialize v VoteContent_new" "\<lambda>_. True" "VoteContent_canon v" for v
proof unfold_locales
  fix x
  show "transfers (VoteContent_Serialize v x) (VoteContent_Deserialize v VoteContent_new)
          (VoteContent_canon v x)"
    by (rule VoteContent_transfers)
next
  show "local_reader (VoteContent_Deserialize v VoteContent_new)"
    by (rule local_reader_cong [OF VoteContent_Deserialize_checked])
      (auto intro!: reader_intros candidate_votes.local_des)
next
  show "needs_input (VoteContent_Deserialize v VoteContent_new)"
    by (rule needs_input_cong [OF VoteContent_Deserialize_checked]) (auto intro!: needs_intros)
qed

lemma PayloadVote_Deserialize_items:
  "PayloadVote_Deserialize PayloadVote_new =
    rbind ReadUint8 (\<lambda>version.
      rbind (read_items (VoteContent_Deserialize version VoteContent_new)) (\<lambda>content.
        rret \<lparr>pv_version = version, pv_content = content\<rparr>))"
  by (rule ext) (simp add: PayloadVote_Deserialize_def read_items_def PayloadVote_new_def vec_resize_Nil
      read_each_replicate rbind_def split: rres.splits)

lemma PayloadVote_transfers:
  "transfers (PayloadVote_Serialize p) (PayloadVote_Deserialize PayloadVote_new) (PayloadVote_canon p)"
proof -
  have i: "transfers (write_items (VoteContent_Serialize (pv_version p)) (pv_content p))
     (read_items (VoteContent_Deserialize (pv_version p) VoteContent_new))
     (map (VoteContent_canon (pv_version p)) (pv_content p))"
    by (rule vote_content.items_transfer) simp
  show ?thesis
    unfolding PayloadVote_Serialize_def PayloadVote_Deserialize_items
    by (rule transfers_WriteUint8 i transfers_rbind transfers_rret | simp add: PayloadVote_canon_def)+
qed

lemma PayloadCrossChain_transfers:
  assumes l: "length (pcc_targetAddress p) < 2 ^ 32"
  shows "transfers (PayloadCrossChain_Serialize p) (PayloadCrossChain_Deserialize o1)
     (PayloadCrossChain_canon p)"
  unfolding PayloadCrossChain_Serialize_def PayloadCrossChain_Deserialize_def
  by (rule transfer_intros l | simp add: PayloadCrossChain_canon_def)+

lemma PayloadStake_transfers:
  "transfers (PayloadStake_Serialize p) (PayloadStake_Deserialize o1) p"
  unfolding PayloadStake_Serialize_def PayloadStake_Deserialize_def
  by (rule transfer_intros | simp)+

text \<open>
  A payload can travel in an output of type \<open>ty\<close> when it is of the class the reader makes for \<open>ty\<close>
  and its strings fit a raw write.
\<close>

fun OutputPayload_fits :: "u8 \<Rightarrow> OutputPayload \<Rightarrow> bool" where
  "OutputPayload_fits ty OP_Default \<longleftrightarrow> ty = OutputType_Default"
| "OutputPayload_fits ty (OP_Vote p) \<longleftrightarrow> ty = OutputType_VoteOutput"
| "OutputPayload_fits ty (OP_CrossChain p) \<longleftrightarrow>
     ty = OutputType_CrossChain \<and> length (pcc_targetAddress p) < 2 ^ 32"
| "OutputPayload_fits ty (OP_Stake p) \<longleftrightarrow> False"

fun OutputPayload_canon :: "OutputPayload \<Rightarrow> OutputPayload" where
  "OutputPayload_canon (OP_Vote p) = OP_Vote (PayloadVote_canon p)"
| "OutputPayload_canon (OP_CrossChain p) = OP_CrossChain (PayloadCrossChain_canon p)"
| "OutputPayload_canon p = p"

lemmas output_types =
  OutputType_Default_def OutputType_VoteOutput_def OutputType_Mapping_def OutputType_CrossChain_def
  OutputType_WithdrawFromSideChain_def OutputType_ReturnSideChainDepositCoin_def
  OutputType_DposV2Vote_def OutputType_Stake_def

lemma OutputPayload_transfers:
  assumes "OutputPayload_fits ty p"
  obtains p0 where "TransactionOutput_GeneratePayload ty = Some p0"
    and "transfers (OutputPayload_Serialize p) (OutputPayload_Deserialize p0) (OutputPayload_canon p)"
proof (cases p)
  case OP_Default
  then show ?thesis
    using assms transfers_rret [of OP_Default OP_Default]
    by (intro that [of OP_Default]) (simp_all add: TransactionOutput_GeneratePayload_def)
next
  case (OP_Vote x)
  then show ?thesis
    using assms transfers_map [OF PayloadVote_transfers [of x], of OP_Vote]
    by (intro that [of "OP_Vote PayloadVote_new"])
      (simp_all add: TransactionOutput_GeneratePayload_def output_types)
next
  case (OP_CrossChain x)
  then show ?thesis
    using assms transfers_map [OF PayloadCrossChain_transfers [of x PayloadCrossChain_new], of OP_CrossChain]
    by (intro that [of "OP_CrossChain PayloadCrossChain_new"])
      (simp_all add: TransactionOutput_GeneratePayload_def output_types)
next
  case (OP_Stake x)
  then show ?thesis using assms by simp
qed

section \<open>Outputs travel\<close>

definition TransactionOutput_fits :: "u8 \<Rightarrow> TransactionOutput \<Rightarrow> bool" where
  "TransactionOutput_fits txVersion t \<longleftrightarrow>
     0 \<le> out_amount t \<and>
     (TxVersion_V09 \<le> txVersion \<longrightarrow>
       (case out_payload t of Some p \<Rightarrow> OutputPayload_fits (out_outputType t) p | None \<Rightarrow> False))"

definition TransactionOutput_canon :: "u8 \<Rightarrow> TransactionOutput \<Rightarrow> TransactionOutput" where
  "TransactionOutput_canon txVersion t =
     \<lparr>out_amount = (if out_assetID t = GetELAAssetID
                    then BigInt_setUint64 (BigInt_getUint64 (out_amount t)) else out_amount t),
      out_assetID = out_assetID t, out_outputLock = out_outputLock t,
      out_address = Address_of_hash (addr_programHash (out_address t)),
      out_outputType = (if TxVersion_V09 \<le> txVersion then out_outputType t else OutputType_Default),
      out_payload = (if TxVersion_V09 \<le> txVersion then map_option OutputPayload_canon (out_payload t)
                     else Some OP_Default)\<rparr>"

lemma BigInt_setHexBytes_uint64: "BigInt_setHexBytes old (le_bytes 8 w) True = BigInt_setUint64 w"
proof -
  have "le_bytes 8 w \<noteq> []" using length_le_bytes [of 8 w] by (metis list.size(3) zero_neq_numeral)
  then show ?thesis by (simp add: BigInt_setUint64_def BigInt_setHexBytes_def)
qed

lemma TransactionOutput_amount_transfers:
  assumes "0 \<le> n"
  shows "transfers
    (if c then WriteUint64 (of_le (take 8 (BigInt_getHexBytes n True)))
     else WriteVarBytes (BigInt_getHexBytes n False))
    (if c then rbind ReadUint64 (\<lambda>amount. rret (BigInt_setHexBytes old (le_bytes 8 amount) True))
     else rbind ReadVarBytes (\<lambda>bs. rret (BigInt_setHexBytes old bs False)))
    (if c then BigInt_setUint64 (BigInt_getUint64 n) else n)"
proof (rule transfers_if)
  show "transfers (WriteUint64 (of_le (take 8 (BigInt_getHexBytes n True))))
     (rbind ReadUint64 (\<lambda>amount. rret (BigInt_setHexBytes old (le_bytes 8 amount) True)))
     (BigInt_setUint64 (BigInt_getUint64 n))"
    unfolding BigInt_setHexBytes_uint64 BigInt_getUint64_def
    by (rule transfers_map [OF transfers_WriteUint64])
  show "transfers (WriteVarBytes (BigInt_getHexBytes n False))
     (rbind ReadVarBytes (\<lambda>bs. rret (BigInt_setHexBytes old bs False))) n"
    using transfers_map [OF transfers_WriteVarBytes, of "BigInt_getHexBytes n False"
        "\<lambda>bs. BigInt_setHexBytes old bs False"]
    by (simp add: BigInt_set_getHexBytes [OF assms])
qed

lemma TransactionOutput_payload_transfers:
  assumes "TransactionOutput_fits txVersion t" and "out_address o2 = Address_of_hash (addr_programHash (out_address t))"
    and "out_amount o2 = out_amount (TransactionOutput_canon txVersion t)"
    and "out_assetID o2 = out_assetID t" and "out_outputLock o2 = out_outputLock t"
    and "out_outputType o2 = OutputType_Default" and "out_payload o2 = Some OP_Default"
  shows "transfers
    (if TxVersion_V09 \<le> txVersion
     then wseq [WriteUint8 (out_outputType t),
                (case out_payload t of Some p \<Rightarrow> OutputPayload_Serialize p | None \<Rightarrow> (\<lambda>s. Undef))]
     else wseq [])
    (if TxVersion_V09 \<le> txVersion
     then rbind ReadUint8 (\<lambda>outputType.
            case TransactionOutput_GeneratePayload outputType of
              None \<Rightarrow> rundef
            | Some p \<Rightarrow> rbind (OutputPayload_Deserialize p) (\<lambda>payload.
                rret (o2\<lparr>out_outputType := outputType, out_payload := Some payload\<rparr>)))
     else rret o2)
    (TransactionOutput_canon txVersion t)"
proof (cases "TxVersion_V09 \<le> txVersion")
  case True
  then obtain p where p: "out_payload t = Some p" "OutputPayload_fits (out_outputType t) p"
    using assms(1) by (auto simp: TransactionOutput_fits_def split: option.splits)
  obtain p0 where p0: "TransactionOutput_GeneratePayload (out_outputType t) = Some p0"
    and tr: "transfers (OutputPayload_Serialize p) (OutputPayload_Deserialize p0) (OutputPayload_canon p)"
    using OutputPayload_transfers [OF p(2)] by blast
  have "o2\<lparr>out_outputType := out_outputType t, out_payload := Some (OutputPayload_canon p)\<rparr> =
      TransactionOutput_canon txVersion t"
    using True p(1) assms(2-) by (simp add: TransactionOutput_canon_def)
  then have "transfers (OutputPayload_Serialize p)
      (rbind (OutputPayload_Deserialize p0) (\<lambda>payload.
         rret (o2\<lparr>out_outputType := out_outputType t, out_payload := Some payload\<rparr>)))
      (TransactionOutput_canon txVersion t)"
    using transfers_map [OF tr, of "\<lambda>x. o2\<lparr>out_outputType := out_outputType t, out_payload := Some x\<rparr>"] by simp
  then have "transfers (wseq [WriteUint8 (out_outputType t), OutputPayload_Serialize p])
      (rbind ReadUint8 (\<lambda>outputType.
            case TransactionOutput_GeneratePayload outputType of
              None \<Rightarrow> rundef
            | Some p \<Rightarrow> rbind (OutputPayload_Deserialize p) (\<lambda>payload.
                rret (o2\<lparr>out_outputType := outputType, out_payload := Some payload\<rparr>))))
      (TransactionOutput_canon txVersion t)"
    by (intro transfers_rbind [OF transfers_WriteUint8]) (simp add: p0 transfers_single)
  then show ?thesis using True p(1) by simp
next
  case False
  have "o2 = TransactionOutput_canon txVersion t"
    using False assms(2-) by (cases o2) (simp add: TransactionOutput_canon_def)
  then show ?thesis using False by (simp add: transfers_rret)
qed

lemma TransactionOutput_transfers:
  assumes "TransactionOutput_fits txVersion t"
  shows "transfers (TransactionOutput_Serialize txVersion t)
    (TransactionOutput_Deserialize txVersion TransactionOutput_new) (TransactionOutput_canon txVersion t)"
proof -
  note amt = TransactionOutput_amount_transfers [of "out_amount t" "out_assetID t = GetELAAssetID" "out_amount TransactionOutput_new"]
  have n: "0 \<le> out_amount t" using assms by (simp add: TransactionOutput_fits_def)
  show ?thesis
    unfolding TransactionOutput_Serialize_def TransactionOutput_Deserialize_def
    apply (rule transfers_rbind [OF transfers_WriteUint256])
    apply (rule transfers_rbind [OF amt [OF n]])
    apply (rule transfers_rbind [OF transfers_WriteUint32])
    apply (rule transfers_rbind [OF transfers_WriteUint168])
    apply (simp only: transfers_single rbind_rret)
    apply (rule TransactionOutput_payload_transfers [OF assms])
    apply (simp_all add: TransactionOutput_canon_def TransactionOutput_new_def Address_SetProgramHash_def
        Address_of_hash_def TransactionOutput_GeneratePayload_def)
    done
qed

lemma local_GeneratePayload:
  assumes "TransactionOutput_GeneratePayload ty = Some p"
  shows "local_reader (OutputPayload_Deserialize p)"
proof -
  consider "p = OP_Default" | "p = OP_Vote PayloadVote_new" | "p = OP_CrossChain PayloadCrossChain_new"
    using assms by (auto simp: TransactionOutput_GeneratePayload_def split: if_splits)
  then show ?thesis
    by cases (auto simp: PayloadVote_Deserialize_items PayloadCrossChain_Deserialize_def
        intro!: reader_intros vote_content.local_des)
qed

lemma local_TransactionOutput: "local_reader (TransactionOutput_Deserialize txVersion o1)"
  unfolding TransactionOutput_Deserialize_def
  by (auto intro!: reader_intros local_GeneratePayload split: option.split)

interpretation tx_output: item_codec "TransactionOutput_Serialize txVersion"
    "TransactionOutput_Deserialize txVersion TransactionOutput_new" "TransactionOutput_fits txVersion"
    "TransactionOutput_canon txVersion" for txVersion
  by (unfold_locales, erule TransactionOutput_transfers, rule local_TransactionOutput)
    (auto simp: TransactionOutput_Deserialize_def intro!: needs_intros)

text \<open>
  An output of a type without a payload class cannot be read: the type byte is enough to
  dereference the null pointer, whatever the bytes before and after it are.
\<close>

lemma TransactionOutput_null_payload:
  assumes v: "TxVersion_V09 \<le> txVersion" and c: "OutputType_CrossChain < ty \<or> ty = OutputType_Mapping"
    and s: "wf_stream s" "remaining s = le_bytes 32 GetELAAssetID @ le_bytes 8 (amount :: u64)
      @ le_bytes 4 (lock :: u32) @ le_bytes 21 (hash :: uint168) @ ty # q"
  shows "TransactionOutput_Deserialize txVersion o1 s = RUndef"
proof -
  have none: "TransactionOutput_GeneratePayload ty = None"
    using c by (auto simp: TransactionOutput_GeneratePayload_def output_types)
  note d = decodesD [OF decodes_ReadUint256, of s GetELAAssetID]
    decodesD [OF decodes_ReadUint64, of "advance 32 s" amount]
    decodesD [OF decodes_ReadUint32, of "advance 40 s" lock]
    decodesD [OF decodes_ReadUint168, of "advance 44 s" hash]
    decodesD [OF decodes_ReadUint8, of "advance 65 s" ty]
  show ?thesis
    using s v none
    by (simp add: TransactionOutput_Deserialize_def rbind_def rret_def rundef_def d)
qed

section \<open>Estimates and equality\<close>

definition TransactionOutput_amount_gap :: "TransactionOutput \<Rightarrow> nat" where
  "TransactionOutput_amount_gap t =
     (if out_assetID t = GetELAAssetID then 0 else bytes_gap (BigInt_getHexBytes (out_amount t) False))"

text \<open>
  The estimate of an output is the size of the layout before transaction version 9: the type byte and
  the payload of the later one are not counted.
\<close>

lemma TransactionOutput_size_old:
  assumes "\<not> TxVersion_V09 \<le> txVersion"
  shows "wsize (TransactionOutput_Serialize txVersion t)
    (TransactionOutput_EstimateSize t + TransactionOutput_amount_gap t)"
  unfolding TransactionOutput_Serialize_def if_not_P [OF assms]
  by (rule wsize_eq, (rule size_intros)+)
    (simp add: TransactionOutput_EstimateSize_def TransactionOutput_amount_gap_def bytes_gap_def)

lemma TransactionOutput_size_V09:
  assumes "TxVersion_V09 \<le> txVersion" and "out_payload t = Some p"
    and p: "wsize (OutputPayload_Serialize p) n"
  shows "wsize (TransactionOutput_Serialize txVersion t)
    (TransactionOutput_EstimateSize t + TransactionOutput_amount_gap t + 1 + n)"
  unfolding TransactionOutput_Serialize_def if_P [OF assms(1)] assms(2) option.case
  by (rule wsize_eq, (rule size_intros p)+)
    (simp add: TransactionOutput_EstimateSize_def TransactionOutput_amount_gap_def bytes_gap_def)

lemma PayloadStake_size: "wsize (PayloadStake_Serialize p) (PayloadStake_EstimateSize p)"
  unfolding PayloadStake_Serialize_def
  by (rule wsize_eq, (rule size_intros)+) (simp add: PayloadStake_EstimateSize_def)

lemma PayloadCrossChain_size:
  assumes l: "length (pcc_targetAddress p) < 2 ^ 32"
  shows "wsize (PayloadCrossChain_Serialize p) (PayloadCrossChain_EstimateSize p +
    varint_gap (word_of_nat (length (pcc_targetAddress p))) + bytes_gap (pcc_targetData p))"
  unfolding PayloadCrossChain_Serialize_def
  by (rule wsize_eq, (rule size_intros l)+) (simp add: PayloadCrossChain_EstimateSize_def bytes_gap_def)

text \<open>
  \<open>PayloadVote::EstimateSize\<close> counts the votes of a candidate as a variable-length integer, yet
  eight bytes travel.
\<close>

definition CandidateVotes_gap :: "u8 \<Rightarrow> CandidateVotes \<Rightarrow> nat" where
  "CandidateVotes_gap version c = bytes_gap (cand_candidate c) +
     (if VOTE_PRODUCER_CR_VERSION \<le> version
      then 8 - WriteVarUint_count (BigInt_getUint64 (cand_votes c)) else 0)"

lemma WriteVarUint_count_le: "WriteVarUint_count v \<le> 8"
  by (simp add: WriteVarUint_count_def)

lemma CandidateVotes_size:
  "wsize (CandidateVotes_Serialize v c) (CandidateVotes_EstimateSize v c + CandidateVotes_gap v c)"
  unfolding CandidateVotes_Serialize_def
  by (rule wsize_eq, (rule size_intros)+)
    (simp add: CandidateVotes_EstimateSize_def CandidateVotes_gap_def bytes_gap_def WriteVarUint_count_le)

text \<open>An output that can be copied is equal to its copy.\<close>

lemma PayloadVote_eq_refl: "PayloadVote_eq p p"
  by (simp add: PayloadVote_eq_def list_all2_refl VoteContent_eq_def CandidateVotes_eq_def)

lemma OutputPayload_eq_refl: "OutputPayload_eq p p"
  by (cases p) (simp_all add: PayloadVote_eq_refl PayloadCrossChain_eq_def PayloadStake_eq_def)

definition OutputPayload_typed :: "TransactionOutput \<Rightarrow> bool" where
  "OutputPayload_typed t \<longleftrightarrow>
     (case out_payload t of None \<Rightarrow> False
      | Some OP_Default \<Rightarrow> out_outputType t = OutputType_Default
      | Some (OP_Vote _) \<Rightarrow> out_outputType t = OutputType_VoteOutput
      | Some (OP_CrossChain _) \<Rightarrow> out_outputType t = OutputType_CrossChain
      | Some (OP_Stake _) \<Rightarrow> False)"

lemma TransactionOutput_assign_copies:
  assumes "OutputPayload_typed src"
  shows "TransactionOutput_assign this src = Ret src"
proof -
  obtain p where p: "out_payload src = Some p" using assms by (auto simp: OutputPayload_typed_def split: option.splits)
  obtain p0 where "TransactionOutput_GeneratePayload (out_outputType src) = Some p0"
    and "OutputPayload_assign p0 p = p"
  proof (cases p)
    case OP_Default
    then show ?thesis
      using assms p by (intro that [of OP_Default]) (simp_all add: OutputPayload_typed_def TransactionOutput_GeneratePayload_def)
  next
    case (OP_Vote x)
    then show ?thesis
      using assms p by (intro that [of "OP_Vote PayloadVote_new"])
        (simp_all add: OutputPayload_typed_def TransactionOutput_GeneratePayload_def output_types PayloadVote_assign_def)
  next
    case (OP_CrossChain x)
    then show ?thesis
      using assms p by (intro that [of "OP_CrossChain PayloadCrossChain_new"])
        (simp_all add: OutputPayload_typed_def TransactionOutput_GeneratePayload_def output_types
          PayloadCrossChain_assign_def)
  next
    case (OP_Stake x)
    then show ?thesis using assms p by (simp add: OutputPayload_typed_def)
  qed
  then show ?thesis using p by (simp add: TransactionOutput_assign_def Address_assign_eq)
qed

lemma TransactionOutput_eq_copy:
  assumes "OutputPayload_typed src" and "TransactionOutput_assign this src = Ret t"
  shows "TransactionOutput_eq src t = Ret True"
proof -
  have "t = src" using TransactionOutput_assign_copies [OF assms(1), of this] assms(2) by simp
  then show ?thesis
    using assms(1)
    by (auto simp: TransactionOutput_eq_def Address_eq_refl OutputPayload_eq_refl OutputPayload_typed_def
        split: option.splits)
qed

end
