(* ===== verification/Program.thy ===== *)
theory Program
  imports Codec AddressM KeyM
begin

text \<open>
  \<open>Transaction/Program.{h,cpp}\<close>: the redeem script of an input owner and the signatures that
  unlock it.  \<open>DecodePublicKey\<close> and \<open>VerifySignature\<close> read pushes from a byte string until a read
  fails: the loop is \<open>read_while\<close>, with the length of the byte string as fuel, which
  \<open>read_while_fuel\<close> shows to be enough.

  Parameters: \<open>keyValid\<close> and \<open>ecdsa\<close> of \<open>KeyM\<close>.
\<close>

section \<open>Reading until a read fails\<close>

fun read_while :: "nat \<Rightarrow> 'a reader \<Rightarrow> 'a list reader" where
  "read_while 0 r s = RUndef"
| "read_while (Suc n) r s =
     (case r s of
        ROk x s' \<Rightarrow> (case read_while n r s' of ROk xs t \<Rightarrow> ROk (x # xs) t | RFail t \<Rightarrow> RFail t | RUndef \<Rightarrow> RUndef)
      | RFail s' \<Rightarrow> ROk [] s'
      | RUndef \<Rightarrow> RUndef)"

lemma local_needs_progress:
  assumes "local_reader r" and "needs_input r" and "wf_stream s" and "r s = ROk x s'"
  obtains n where "0 < n" "n \<le> length (remaining s)" "s' = advance n s"
proof -
  obtain n where n: "n \<le> length (remaining s)" "s' = advance n s"
    and run: "\<And>t. wf_stream t \<Longrightarrow> take n (remaining t) = take n (remaining s) \<Longrightarrow> r t = ROk x (advance n t)"
    using local_reader_ROk [OF assms(1,3,4)] by blast
  have "n \<noteq> 0"
  proof
    assume "n = 0"
    then have "r (stream_of []) = ROk x (stream_of [])" using run [of "stream_of []"] by simp
    then show False using assms(2) by (auto simp: needs_input_def)
  qed
  then show ?thesis using n by (intro that) simp_all
qed

text \<open>Every read that succeeds uses up input, so more fuel than input changes nothing.\<close>

lemma read_while_fuel:
  assumes "local_reader r" and "needs_input r"
  shows "wf_stream s \<Longrightarrow> length (remaining s) < m \<Longrightarrow> length (remaining s) < n \<Longrightarrow>
    read_while m r s = read_while n r s"
proof (induction m arbitrary: n s)
  case 0
  then show ?case by simp
next
  case (Suc m)
  then obtain n' where n: "n = Suc n'" by (cases n) simp_all
  show ?case
  proof (cases "r s")
    case (ROk x s')
    obtain k where k: "0 < k" "k \<le> length (remaining s)" "s' = advance k s"
      using local_needs_progress [OF assms Suc.prems(1) ROk] by blast
    have "read_while m r s' = read_while n' r s'"
      using k Suc.prems n by (intro Suc.IH) simp_all
    then show ?thesis using ROk n by simp
  qed (simp_all add: n)
qed

text \<open>
  The loop as it runs, without fuel: it reads until a read fails, or breaks.  On a reader that consumes input
  it comes to an end, in one way, and the fuel of the model is enough to see it.
\<close>

fun push_read :: "'a \<Rightarrow> 'a list rres \<Rightarrow> 'a list rres" where
  "push_read x (ROk xs t) = ROk (x # xs) t"
| "push_read x (RFail t) = RFail t"
| "push_read x RUndef = RUndef"

inductive loop_run :: "'a reader \<Rightarrow> ByteStream \<Rightarrow> 'a list rres \<Rightarrow> bool" for r where
  loop_stops: "r s = RFail t \<Longrightarrow> loop_run r s (ROk [] t)"
| loop_breaks: "r s = RUndef \<Longrightarrow> loop_run r s RUndef"
| loop_goes_on: "r s = ROk x s' \<Longrightarrow> loop_run r s' res \<Longrightarrow> loop_run r s (push_read x res)"

inductive_cases loop_runE: "loop_run r s res"

lemma loop_run_unique: "loop_run r s res \<Longrightarrow> loop_run r s res' \<Longrightarrow> res' = res"
proof (induction arbitrary: res' rule: loop_run.induct)
  case (loop_goes_on s x s' res)
  from loop_goes_on.prems show ?case
  proof (rule loop_runE)
    fix y s2 res2
    assume "res' = push_read y res2" "r s = ROk y s2" "loop_run r s2 res2"
    then show ?thesis using loop_goes_on.hyps(1) loop_goes_on.IH by simp
  qed (use loop_goes_on.hyps(1) in simp_all)
next
  case (loop_stops s t)
  from loop_stops.prems show ?case by (rule loop_runE) (simp_all add: loop_stops.hyps)
next
  case (loop_breaks s)
  from loop_breaks.prems show ?case by (rule loop_runE) (simp_all add: loop_breaks.hyps)
qed

lemma loop_run_ends:
  assumes r: "local_reader r" "needs_input r"
  shows "wf_stream s \<Longrightarrow> length (remaining s) < n \<Longrightarrow> loop_run r s (read_while n r s)"
proof (induction n arbitrary: s)
  case (Suc n)
  show ?case
  proof (cases "r s")
    case (ROk x s')
    obtain k where k: "0 < k" "k \<le> length (remaining s)" "s' = advance k s"
      using local_needs_progress [OF r Suc.prems(1) ROk] by blast
    then have "loop_run r s' (read_while n r s')" using Suc.prems by (intro Suc.IH) simp_all
    then have "loop_run r s (push_read x (read_while n r s'))" by (rule loop_goes_on [of r s x s', OF ROk])
    moreover have "read_while (Suc n) r s = push_read x (read_while n r s')"
      using ROk by (cases "read_while n r s'") simp_all
    ultimately show ?thesis by simp
  qed (simp_all add: loop_stops loop_breaks)
qed simp

lemma loop_run_iff:
  assumes "local_reader r" "needs_input r" "wf_stream s" "length (remaining s) < n"
  shows "loop_run r s res \<longleftrightarrow> res = read_while n r s"
  using loop_run_ends [OF assms] loop_run_unique by blast

text \<open>A run of encodings followed by bytes on which the reader fails is read to its end.\<close>

lemma read_while_decodes:
  assumes items: "\<And>x. x \<in> set xs \<Longrightarrow> decodes r (f x) x"
    and stop: "\<And>t. wf_stream t \<Longrightarrow> remaining t = q \<Longrightarrow> \<exists>t'. r t = RFail t'"
  shows "wf_stream s \<Longrightarrow> remaining s = concat (map f xs) @ q \<Longrightarrow> length xs < n \<Longrightarrow>
    \<exists>t. read_while n r s = ROk xs t"
  using items
proof (induction xs arbitrary: s n)
  case Nil
  then obtain n' where "n = Suc n'" by (cases n) simp_all
  moreover obtain t where "r s = RFail t" using stop [of s] Nil by auto
  ultimately show ?case by simp
next
  case (Cons x xs)
  then obtain n' where n: "n = Suc n'" by (cases n) simp_all
  have "decodes r (f x) x" by (simp add: Cons.prems)
  then have x: "r s = ROk x (advance (length (f x)) s)"
    using Cons.prems by (intro decodesD [of r "f x" x s "concat (map f xs) @ q"]) simp_all
  have "\<exists>t. read_while n' r (advance (length (f x)) s) = ROk xs t"
    using Cons.prems n by (intro Cons.IH) simp_all
  then show ?case using x n by auto
qed

section \<open>The program\<close>

record Program =
  prog_code :: bytes
  prog_parameter :: bytes

definition Program_new :: Program where
  "Program_new = \<lparr>prog_code = [], prog_parameter = []\<rparr>"

definition Program_of :: "bytes \<Rightarrow> bytes \<Rightarrow> Program" where
  "Program_of code parameter = \<lparr>prog_code = code, prog_parameter = parameter\<rparr>"

definition Program_assign :: "Program \<Rightarrow> Program \<Rightarrow> Program" where
  "Program_assign this p = this\<lparr>prog_code := prog_code p, prog_parameter := prog_parameter p\<rparr>"

definition Program_eq :: "Program \<Rightarrow> Program \<Rightarrow> bool" where
  "Program_eq a b \<longleftrightarrow> prog_code a = prog_code b \<and> prog_parameter a = prog_parameter b"

definition Program_DecodePublicKey :: "Program \<Rightarrow> (u8 \<times> bytes list) outcome" where
  "Program_DecodePublicKey p =
     (if length (prog_code p) < 33 + 2 then Ret (SignTypeInvalid, [])
      else let signType = prog_code p ! (length (prog_code p) - 1) in
        if \<not> (signType = SignTypeMultiSign \<or> signType = SignTypeCrossChain) \<and>
           signType \<noteq> SignTypeStandard \<and> signType \<noteq> SignTypeDID
        then Ret (SignTypeInvalid, [])
        else let stream = (if signType = SignTypeMultiSign \<or> signType = SignTypeCrossChain
                           then Skip 1 (stream_of (prog_code p)) else stream_of (prog_code p))
          in case read_while (Suc (length (prog_code p))) ReadVarBytes stream of
               ROk pubkeys _ \<Rightarrow> Ret (signType, pubkeys) | _ \<Rightarrow> Undef)"

text \<open>One signature against the keys in order, up to the first that verifies it.\<close>

primrec Program_verify_any ::
    "key_check \<Rightarrow> ecdsa_check \<Rightarrow> uint256 \<Rightarrow> bytes \<Rightarrow> bytes list \<Rightarrow> bytes option outcome" where
  "Program_verify_any keyValid ecdsa md signature [] = Ret None"
| "Program_verify_any keyValid ecdsa md signature (key # keys) =
     obind (PubKey_Verify keyValid ecdsa key md signature) (\<lambda>verified.
       if verified then Ret (Some key) else Program_verify_any keyValid ecdsa md signature keys)"

text \<open>The loop over the signatures: the count, or nothing at the first one no key verifies.\<close>

fun Program_verify_loop ::
    "nat \<Rightarrow> key_check \<Rightarrow> ecdsa_check \<Rightarrow> uint256 \<Rightarrow> bytes list \<Rightarrow> u8 \<Rightarrow> ByteStream \<Rightarrow> u8 option outcome" where
  "Program_verify_loop 0 keyValid ecdsa md keys signatureCount stream = Undef"
| "Program_verify_loop (Suc n) keyValid ecdsa md keys signatureCount stream =
     (case ReadVarBytes stream of
        ROk signature stream' \<Rightarrow>
          obind (Program_verify_any keyValid ecdsa md signature keys) (\<lambda>verified.
            if verified = None then Ret None
            else Program_verify_loop n keyValid ecdsa md keys (signatureCount + 1) stream')
      | RFail _ \<Rightarrow> Ret (Some signatureCount)
      | RUndef \<Rightarrow> Undef)"

definition Program_VerifySignature ::
    "key_check \<Rightarrow> ecdsa_check \<Rightarrow> uint256 \<Rightarrow> Program \<Rightarrow> bool outcome" where
  "Program_VerifySignature keyValid ecdsa md p =
     obind (Program_DecodePublicKey p) (\<lambda>(type, publicKeys).
       if type = SignTypeInvalid then Ret False
       else obind (Program_verify_loop (Suc (length (prog_parameter p))) keyValid ecdsa md publicKeys 0
                     (stream_of (prog_parameter p))) (\<lambda>count.
         case count of None \<Rightarrow> Ret False
         | Some signatureCount \<Rightarrow>
           if last (prog_code p) = SignTypeMultiSign
           then let m = prog_code p ! 0 - OP_1 + 1;
                    n = prog_code p ! (length (prog_code p) - 2) - OP_1 + 1
                in Ret (\<not> signatureCount < m \<and> \<not> length publicKeys > unat n)
           else if last (prog_code p) = SignTypeStandard
           then Ret (length publicKeys = unat signatureCount)
           else Ret True))"

datatype SignedInfo = SI_None | SI_MultiSign u8 u8 "string list" | SI_Standard "string list"

fun Program_signers_loop ::
    "nat \<Rightarrow> key_check \<Rightarrow> ecdsa_check \<Rightarrow> uint256 \<Rightarrow> bytes list \<Rightarrow> ByteStream \<Rightarrow> string list outcome" where
  "Program_signers_loop 0 keyValid ecdsa md keys stream = Undef"
| "Program_signers_loop (Suc n) keyValid ecdsa md keys stream =
     (case ReadVarBytes stream of
        ROk signature stream' \<Rightarrow>
          obind (Program_verify_any keyValid ecdsa md signature keys) (\<lambda>verified.
          obind (Program_signers_loop n keyValid ecdsa md keys stream') (\<lambda>signers.
            Ret (case verified of None \<Rightarrow> signers | Some key \<Rightarrow> getHex0 key # signers)))
      | RFail _ \<Rightarrow> Ret []
      | RUndef \<Rightarrow> Undef)"

definition Program_GetSignedInfo ::
    "key_check \<Rightarrow> ecdsa_check \<Rightarrow> uint256 \<Rightarrow> Program \<Rightarrow> SignedInfo outcome" where
  "Program_GetSignedInfo keyValid ecdsa md p =
     obind (Program_DecodePublicKey p) (\<lambda>(type, publicKeys).
       if type = SignTypeInvalid then Ret SI_None
       else obind (Program_signers_loop (Suc (length (prog_parameter p))) keyValid ecdsa md publicKeys
                     (stream_of (prog_parameter p))) (\<lambda>signers.
         if last (prog_code p) = SignTypeMultiSign
         then Ret (SI_MultiSign (prog_code p ! 0 - OP_1 + 1)
                     (prog_code p ! (length (prog_code p) - 2) - OP_1 + 1) signers)
         else if last (prog_code p) = SignTypeStandard then Ret (SI_Standard signers)
         else Ret SI_None))"

text \<open>\<open>back\<close> on an empty code is undefined.\<close>

definition Program_EstimateSize :: "Program \<Rightarrow> nat outcome" where
  "Program_EstimateSize p =
     obind
       (if prog_parameter p = []
        then if prog_code p = [] then Undef
             else if last (prog_code p) = SignTypeMultiSign
             then let m = prog_code p ! 0 - OP_1 + 1; signLen = unat m * 64
                  in Ret (WriteVarUint_count (word_of_nat signLen) + signLen)
             else if last (prog_code p) = SignTypeStandard then Ret 65
             else Ret 0
        else Ret (WriteVarUint_count (word_of_nat (length (prog_parameter p))) + length (prog_parameter p)))
       (\<lambda>size. Ret (size + (WriteVarUint_count (word_of_nat (length (prog_code p))) + length (prog_code p))))"

definition Program_Serialize :: "Program \<Rightarrow> writer" where
  "Program_Serialize p = wseq [WriteVarBytes (prog_parameter p), WriteVarBytes (prog_code p)]"

definition Program_Deserialize :: "Program \<Rightarrow> Program reader" where
  "Program_Deserialize o1 =
     rbind ReadVarBytes (\<lambda>parameter.
     rbind ReadVarBytes (\<lambda>code.
       rret (o1\<lparr>prog_parameter := parameter, prog_code := code\<rparr>)))"

lemma Program_transfers: "transfers (Program_Serialize p) (Program_Deserialize o1) p"
  unfolding Program_Serialize_def Program_Deserialize_def
  by (rule transfer_intros | simp)+

interpretation program: item_codec Program_Serialize "Program_Deserialize Program_new" "\<lambda>_. True" "\<lambda>p. p"
  by (unfold_locales, rule Program_transfers)
    (auto simp: Program_Deserialize_def intro!: reader_intros needs_intros)

lemma Program_eq_iff: "Program_eq a b \<longleftrightarrow> a = b"
  by (cases a, cases b) (simp add: Program_eq_def conj_commute)

lemma Program_assign_eq: "Program_assign this p = p"
  by (cases this, cases p) (simp add: Program_assign_def)

text \<open>A signed program is estimated to its size; an unsigned one to the size it is meant to have.\<close>

lemma Program_size:
  "wsize (Program_Serialize p)
     (bytes_EstimateSize (prog_parameter p) + bytes_gap (prog_parameter p) +
      bytes_EstimateSize (prog_code p) + bytes_gap (prog_code p))"
  unfolding Program_Serialize_def
  by (rule wsize_eq, (rule size_intros)+) (simp add: bytes_EstimateSize_def bytes_gap_def)

lemma Program_EstimateSize_signed:
  assumes "prog_parameter p \<noteq> []"
  shows "Program_EstimateSize p =
    Ret (bytes_EstimateSize (prog_parameter p) + bytes_EstimateSize (prog_code p))"
  using assms by (simp add: Program_EstimateSize_def bytes_EstimateSize_def)

lemma Program_EstimateSize_Undef:
  "Program_EstimateSize p = Undef \<longleftrightarrow> prog_parameter p = [] \<and> prog_code p = []"
  by (auto simp: Program_EstimateSize_def Let_def)

section \<open>The script of a set of signers\<close>

lemma VarUint_bytes_small:
  assumes "n < 0xfd"
  shows "VarUint_bytes (word_of_nat n) = [word_of_nat n]"
proof -
  have u: "unat (word_of_nat n :: u64) = n" using assms by (simp add: unat_of_nat)
  then have "(word_of_nat n :: u64) < 0xfd" using assms by (simp add: word_less_nat_alt)
  moreover have "(ucast (word_of_nat n :: u64) :: u8) = word_of_nat n"
    using assms by (simp add: word_unat_eq_iff unat_ucast u unat_of_nat)
  ultimately show ?thesis by (simp add: VarUint_bytes_def)
qed

lemma decodes_push:
  assumes "length k < 0xfd"
  shows "decodes ReadVarBytes (word_of_nat (length k) # k) k"
  using decodes_ReadVarBytes [of k] by (simp add: VarUint_bytes_small [OF assms])

text \<open>What follows the keys is too short to be a push: there the loop ends.\<close>

lemma ReadVarBytes_stop:
  assumes t: "wf_stream t" "remaining t = b # cs" and "length cs < 2" "length cs < unat b"
  shows "\<exists>t'. ReadVarBytes t = RFail t'"
proof -
  have hd: "ReadUint8 t = ROk b (advance 1 t)"
    using decodesD [OF decodes_ReadUint8 t(1), of b cs] t(2) by simp
  have t1: "wf_stream (advance 1 t)" "remaining (advance 1 t) = cs" using t by simp_all
  have pos: "unat (rpos (advance 1 t)) < 2 ^ 63" using t1(1) by (simp add: wf_stream_def)
  have short: "ReadBytes len (advance 1 t) = RFail (advance 1 t)"
    if "length cs < unat len" "unat len < 2 ^ 63" for len
    using that t1 pos by (simp add: ReadBytes_cases)
  show ?thesis
  proof (cases "b = 0xfd \<or> b = 0xfe \<or> b = 0xff")
    case True
    then show ?thesis
      using assms(3) short [of 2] short [of 4] short [of 8]
      by (auto simp: ReadVarBytes_def ReadVarUint_def rbind_def [of ReadUint8] hd rbind_def)
  next
    case False
    have "unat b < 2 ^ 64" by (rule less_trans [OF unat_u8_bound]) simp
    then have "unat (ucast b :: u64) = unat b" by (simp add: unat_ucast)
    then have "ReadBytes (ucast b) (advance 1 t) = RFail (advance 1 t)"
      using assms(4) less_trans [OF unat_u8_bound [of b], of "2 ^ 63"] by (intro short) simp_all
    then show ?thesis
      using False by (simp add: ReadVarBytes_def ReadVarUint_def rbind_def hd rret_def)
  qed
qed

lemma Skip_advance:
  assumes "wf_stream s" and "unat n \<le> length (remaining s)"
  shows "Skip n s = advance (unat n) s"
proof -
  have "unat (rpos s) + unat n < 2 ^ 64" using assms by (auto simp: wf_stream_def length_remaining)
  then have "unat (rpos s + n) = unat (rpos s) + unat n" by (simp add: unat_plus_if')
  moreover have "unat (stream_size s) = length (buf s)"
    using assms(1) by (simp add: wf_stream_def stream_size_def unat_of_nat)
  ultimately have "rpos s + n \<le> stream_size s"
    using assms by (simp add: word_le_nat_alt length_remaining wf_stream_def) linarith
  then show ?thesis by (simp add: Skip_def advance_def)
qed

definition pubkeys33 :: "bytes list \<Rightarrow> bool" where
  "pubkeys33 ks \<longleftrightarrow> (\<forall>k \<in> set ks. length k = 33)"

lemma pubkeys33_sort: "pubkeys33 (sort_key getHex0 ks) = pubkeys33 ks"
  by (simp add: pubkeys33_def)

lemma read_pushes:
  assumes "pubkeys33 ks" and "wf_stream s"
    and "remaining s = concat (map (\<lambda>k. word_of_nat (length k) # k) ks) @ b # cs"
    and "length cs < 2" "length cs < unat b" and "length ks < n"
  shows "\<exists>t. read_while n ReadVarBytes s = ROk ks t"
proof (rule read_while_decodes [where q = "b # cs"])
  show "decodes ReadVarBytes (word_of_nat (length k) # k) k" if "k \<in> set ks" for k
    using that assms(1) by (intro decodes_push) (simp add: pubkeys33_def)
  show "\<exists>t'. ReadVarBytes t = RFail t'" if "wf_stream t" "remaining t = b # cs" for t
    using that assms(4,5) by (rule ReadVarBytes_stop)
qed (use assms in simp_all)

lemma length_pushes:
  "pubkeys33 ks \<Longrightarrow> length (concat (map (\<lambda>k. word_of_nat (length k) # k) ks)) = 34 * length ks"
  by (induction ks) (simp_all add: pubkeys33_def)

lemma OP_1_sum:
  assumes "n < 0xaf" "0 < n"
  shows "unat (OP_1 + word_of_nat n - 1 :: u8) = 0x50 + n"
proof -
  have "(OP_1 + word_of_nat n - 1 :: u8) = word_of_nat (0x50 + n)" by (simp add: OP_1_def)
  then show ?thesis using assms by (simp add: unat_of_nat del: of_nat_add)
qed

lemma OP_1_cancel: "(OP_1 + m - 1) - OP_1 + 1 = (m :: u8)"
  by simp

lemma Program_DecodePublicKey_multi:
  assumes "Address_GenerateCode pfx ks m did = Ret code" and "pubkeys33 ks"
    and "1 < length ks" "length ks < 0xaf"
    and "Address_PrefixToSignType pfx = SignTypeMultiSign \<or> Address_PrefixToSignType pfx = SignTypeCrossChain"
  shows "Program_DecodePublicKey (Program_of code parameter) =
      Ret (Address_PrefixToSignType pfx, sort_key getHex0 ks)"
    and "code ! 0 - OP_1 + 1 = m" and "unat (code ! (length code - 2) - OP_1 + 1) = length ks"
    and "last code = Address_PrefixToSignType pfx" and "code \<noteq> []"
proof -
  let ?ks = "sort_key getHex0 ks"
  let ?n = "OP_1 + word_of_nat (length ks) - 1 :: u8"
  let ?body = "concat (map (\<lambda>k. word_of_nat (length k) # k) ?ks)"
  have code: "code = (OP_1 + m - 1) # ?body @ [?n, Address_PrefixToSignType pfx]"
    using assms(1,3) by (auto simp: Address_GenerateCode_def Let_def split: if_splits)
  have ks: "pubkeys33 ?ks" using assms(2) by (simp only: pubkeys33_sort)
  have len: "length code = 34 * length ks + 3" using length_pushes [OF ks] by (simp add: code)
  have n: "unat ?n = 0x50 + length ks" using assms(3,4) by (intro OP_1_sum) linarith+
  have wf: "wf_stream (stream_of code)" using len assms(4) by simp
  have skip: "Skip 1 (stream_of code) = advance 1 (stream_of code)"
    using Skip_advance [OF wf, of 1] len by simp
  have "\<exists>t. read_while (Suc (length code)) ReadVarBytes (advance 1 (stream_of code)) = ROk ?ks t"
    using len n wf
    by (intro read_pushes [OF ks, where b = ?n and cs = "[Address_PrefixToSignType pfx]"])
      (simp_all add: code)
  then obtain t where "read_while (Suc (length code)) ReadVarBytes (Skip 1 (stream_of code)) = ROk ?ks t"
    unfolding skip by blast
  moreover have l: "code ! (length code - 1) = Address_PrefixToSignType pfx"
    by (simp add: code nth_append)
  ultimately show "Program_DecodePublicKey (Program_of code parameter) = Ret (Address_PrefixToSignType pfx, ?ks)"
    using len assms(3,5) by (auto simp: Program_DecodePublicKey_def Program_of_def Let_def)
  show "code ! 0 - OP_1 + 1 = m" by (simp add: code)
  have "code ! (length code - 2) = ?n" by (simp add: code nth_append)
  then show "unat (code ! (length code - 2) - OP_1 + 1) = length ks"
    using assms(4) by (simp add: unat_of_nat)
  show "last code = Address_PrefixToSignType pfx" "code \<noteq> []" by (simp_all add: code)
qed

lemma Program_DecodePublicKey_single:
  assumes "Address_GenerateCode pfx [k] 1 False = Ret code" and "length k = 33"
    and "Address_PrefixToSignType pfx = SignTypeStandard"
  shows "Program_DecodePublicKey (Program_of code parameter) = Ret (SignTypeStandard, [k])"
proof -
  have code: "code = word_of_nat (length k) # k @ [SignTypeStandard]"
    using assms(1,3) by (simp add: Address_GenerateCode_def)
  have len: "length code = 35" by (simp add: code assms(2))
  have "\<exists>t. read_while (Suc (length code)) ReadVarBytes (stream_of code) = ROk [k] t"
    using len assms(2)
    by (intro read_pushes [where b = SignTypeStandard and cs = "[]"])
      (simp_all add: pubkeys33_def code sign_types)
  moreover have "code ! (length code - 1) = SignTypeStandard" by (simp add: code nth_append)
  ultimately show ?thesis
    using len by (auto simp: Program_DecodePublicKey_def Program_of_def Let_def sign_types)
qed

section \<open>What a verified program has\<close>

primrec Program_verify_sigs ::
    "key_check \<Rightarrow> ecdsa_check \<Rightarrow> uint256 \<Rightarrow> bytes list \<Rightarrow> bytes list \<Rightarrow> u8 \<Rightarrow> u8 option outcome" where
  "Program_verify_sigs keyValid ecdsa md keys [] c = Ret (Some c)"
| "Program_verify_sigs keyValid ecdsa md keys (sig # sigs) c =
     obind (Program_verify_any keyValid ecdsa md sig keys) (\<lambda>verified.
       if verified = None then Ret None
       else Program_verify_sigs keyValid ecdsa md keys sigs (c + 1))"

lemma Program_verify_loop_read:
  assumes "read_while n ReadVarBytes s = ROk sigs t"
  shows "Program_verify_loop n kv ec md keys c s = Program_verify_sigs kv ec md keys sigs c"
  using assms
proof (induction n arbitrary: s sigs c)
  case 0
  then show ?case by simp
next
  case (Suc n)
  show ?case
  proof (cases "ReadVarBytes s")
    case (ROk sig s')
    then obtain ss where "read_while n ReadVarBytes s' = ROk ss t" "sigs = sig # ss"
      using Suc.prems by (auto split: rres.splits)
    then show ?thesis using ROk Suc.IH by (simp cong: if_cong)
  qed (use Suc.prems in simp_all)
qed

lemma Program_verify_loop_Some:
  assumes "Program_verify_loop n kv ec md keys c s = Ret (Some c')"
  obtains sigs t where "read_while n ReadVarBytes s = ROk sigs t"
proof -
  have "\<exists>sigs t. read_while n ReadVarBytes s = ROk sigs t"
    using assms
  proof (induction n arbitrary: s c)
    case 0
    then show ?case by simp
  next
    case (Suc n)
    show ?case
    proof (cases "ReadVarBytes s")
      case (ROk sig s')
      then obtain c1 where "Program_verify_loop n kv ec md keys c1 s' = Ret (Some c')"
        using Suc.prems by (auto simp: obind_eq_Ret split: if_splits)
      then obtain ss t where "read_while n ReadVarBytes s' = ROk ss t" using Suc.IH by blast
      then show ?thesis using ROk by simp
    qed (use Suc.prems in simp_all)
  qed
  then show ?thesis using that by blast
qed

lemma Program_verify_any_Some:
  assumes "Program_verify_any kv ec md sig keys = Ret (Some key)"
  shows "key \<in> set keys \<and> PubKey_Verify kv ec key md sig = Ret True"
  using assms by (induction keys) (auto simp: obind_eq_Ret split: if_splits)

lemma Program_verify_sigs_Some:
  assumes "Program_verify_sigs kv ec md keys sigs c = Ret (Some c')"
  shows "c' = c + word_of_nat (length sigs) \<and>
    (\<forall>sig \<in> set sigs. \<exists>key \<in> set keys. PubKey_Verify kv ec key md sig = Ret True)"
  using assms
proof (induction sigs arbitrary: c)
  case Nil
  then show ?case by simp
next
  case (Cons sig sigs)
  then obtain key where "Program_verify_any kv ec md sig keys = Ret (Some key)"
    and r: "Program_verify_sigs kv ec md keys sigs (c + 1) = Ret (Some c')"
    by (auto simp: obind_eq_Ret split: if_splits)
  then have "\<exists>key \<in> set keys. PubKey_Verify kv ec key md sig = Ret True"
    using Program_verify_any_Some by blast
  then show ?case using Cons.IH [OF r] by (simp add: algebra_simps)
qed

lemma Program_VerifySignature_multi:
  assumes "Program_VerifySignature kv ec md p = Ret True" and "last (prog_code p) = SignTypeMultiSign"
  shows "\<exists>keys sigs t. Program_DecodePublicKey p = Ret (SignTypeMultiSign, keys) \<and>
    read_while (Suc (length (prog_parameter p))) ReadVarBytes (stream_of (prog_parameter p)) = ROk sigs t \<and>
    prog_code p ! 0 - OP_1 + 1 \<le> word_of_nat (length sigs) \<and>
    (\<forall>sig \<in> set sigs. \<exists>key \<in> set keys. PubKey_Verify kv ec key md sig = Ret True)"
proof -
  obtain ty keys c where d: "Program_DecodePublicKey p = Ret (ty, keys)" "ty \<noteq> SignTypeInvalid"
    and l: "Program_verify_loop (Suc (length (prog_parameter p))) kv ec md keys 0
      (stream_of (prog_parameter p)) = Ret (Some c)"
    and m: "prog_code p ! 0 - OP_1 + 1 \<le> c"
    using assms
    by (auto simp: Program_VerifySignature_def obind_eq_Ret Let_def split: if_splits option.splits)
  have "prog_code p \<noteq> []" using d by (auto simp: Program_DecodePublicKey_def)
  then have "prog_code p ! (length (prog_code p) - 1) = SignTypeMultiSign"
    using assms(2) by (simp add: last_conv_nth)
  then have ty: "ty = SignTypeMultiSign"
    using d by (auto simp: Program_DecodePublicKey_def Let_def split: if_splits rres.splits)
  obtain sigs t where r: "read_while (Suc (length (prog_parameter p))) ReadVarBytes
      (stream_of (prog_parameter p)) = ROk sigs t"
    using Program_verify_loop_Some [OF l] by blast
  have "Program_verify_sigs kv ec md keys sigs 0 = Ret (Some c)"
    using l Program_verify_loop_read [OF r] by simp
  then show ?thesis
    using Program_verify_sigs_Some d(1) r m ty by fastforce
qed

section \<open>What a program of valid signatures gives\<close>

definition pushed_sigs :: "bytes list \<Rightarrow> bytes" where
  "pushed_sigs sigs = concat (map (\<lambda>k. word_of_nat (length k) # k) sigs)"

lemma length_concat_pushes: "length xs \<le> length (pushed_sigs xs)"
  by (induction xs) (simp_all add: pushed_sigs_def)

lemma ReadVarBytes_empty:
  assumes "wf_stream t" "remaining t = []"
  shows "\<exists>t'. ReadVarBytes t = RFail t'"
proof -
  have "unat (rpos t) < 2 ^ 63" using assms(1) by (simp add: wf_stream_def)
  then have "ReadUint8 t = RFail t"
    using assms by (simp add: ReadUint8_def rbind_def ReadBytes_cases)
  then show ?thesis by (simp add: ReadVarBytes_def ReadVarUint_def rbind_def)
qed

lemma read_pushed_sigs:
  assumes "\<forall>sig \<in> set sigs. length sig = 64" and "length (pushed_sigs sigs) < 2 ^ 63"
  shows "\<exists>t. read_while (Suc (length (pushed_sigs sigs))) ReadVarBytes (stream_of (pushed_sigs sigs)) = ROk sigs t"
proof (rule read_while_decodes [where q = "[]"])
  show "decodes ReadVarBytes (word_of_nat (length k) # k) k" if "k \<in> set sigs" for k
    using that assms(1) by (intro decodes_push) simp
  show "\<exists>t'. ReadVarBytes t = RFail t'" if "wf_stream t" "remaining t = []" for t
    using that by (rule ReadVarBytes_empty)
  show "length sigs < Suc (length (pushed_sigs sigs))"
    using length_concat_pushes [of sigs] by simp
qed (use assms(2) in \<open>simp_all add: pushed_sigs_def\<close>)

lemma Program_verify_any_total:
  assumes "\<forall>k \<in> set keys. k \<noteq> [] \<and> kv k" and "length sig = 64"
    and "\<exists>k \<in> set keys. ec k md (take 32 sig) (drop 32 sig)"
  shows "\<exists>k. Program_verify_any kv ec md sig keys = Ret (Some k)"
  using assms by (induction keys) (auto simp: PubKey_Verify_def Key_SetPubKey_def Key_Verify_def)

lemma Program_verify_sigs_total:
  assumes "\<forall>k \<in> set keys. k \<noteq> [] \<and> kv k"
    and "\<forall>sig \<in> set sigs. length sig = 64 \<and> (\<exists>k \<in> set keys. ec k md (take 32 sig) (drop 32 sig))"
  shows "Program_verify_sigs kv ec md keys sigs c = Ret (Some (c + word_of_nat (length sigs)))"
  using assms(2)
proof (induction sigs arbitrary: c)
  case Nil
  then show ?case by simp
next
  case (Cons sig sigs)
  have "\<exists>k. Program_verify_any kv ec md sig keys = Ret (Some k)"
    using Cons.prems by (intro Program_verify_any_total assms(1)) simp_all
  then show ?case using Cons by (auto simp: algebra_simps)
qed

text \<open>
  A script made for its signers, and at least \<open>m\<close> signatures of them: the program verifies.  The
  signatures need not be of different signers, so \<open>m\<close> times the same one will do.
\<close>

lemma Program_VerifySignature_complete:
  assumes code: "Address_GenerateCode pfx ks m did = Ret code"
    and pfx: "Address_PrefixToSignType pfx = SignTypeMultiSign"
    and keys: "pubkeys33 ks" "1 < length ks" "length ks < 0xaf" "\<forall>k \<in> set ks. kv k"
    and sigs: "\<forall>sig \<in> set sigs. length sig = 64 \<and> (\<exists>k \<in> set ks. ec k md (take 32 sig) (drop 32 sig))"
    and count: "unat m \<le> length sigs" "length sigs < 256"
  shows "Program_VerifySignature kv ec md (Program_of code (pushed_sigs sigs)) = Ret True"
proof -
  note dec = Program_DecodePublicKey_multi [OF code keys(1,2,3)]
  have len: "length (pushed_sigs sigs) = 65 * length sigs"
    using sigs by (induction sigs) (auto simp: pushed_sigs_def)
  then obtain t where r: "read_while (Suc (length (pushed_sigs sigs))) ReadVarBytes
      (stream_of (pushed_sigs sigs)) = ROk sigs t"
    using read_pushed_sigs [of sigs] sigs count by auto
  have k: "\<forall>k \<in> set (sort_key getHex0 ks). k \<noteq> [] \<and> kv k"
    using keys(1,4) by (auto simp: pubkeys33_def)
  have "Program_verify_sigs kv ec md (sort_key getHex0 ks) sigs 0 = Ret (Some (0 + word_of_nat (length sigs)))"
    using sigs by (intro Program_verify_sigs_total k) simp
  then have loop: "Program_verify_loop (Suc (length (pushed_sigs sigs))) kv ec md (sort_key getHex0 ks) 0
      (stream_of (pushed_sigs sigs)) = Ret (Some (word_of_nat (length sigs)))"
    using Program_verify_loop_read [OF r] by simp
  have "m \<le> word_of_nat (length sigs)"
    using count by (simp add: word_le_nat_alt unat_of_nat)
  then show ?thesis
    using dec loop pfx by (simp add: Program_VerifySignature_def Program_of_def sign_types Let_def not_less)
qed

end
