(* ===== verification/TransactionM.thy ===== *)
theory TransactionM
  imports Payload TxOutput Program
begin

text \<open>
  \<open>Transaction/Transaction.{h,cpp}\<close>, the message of the wallet: its record, \<open>Serialize\<close> and
  \<open>Deserialize\<close>, the cached hash, signature and validity checks, size estimate and fee, and the
  type byte of \<open>IDTransaction\<close>.  Outputs, inputs, attributes and programs are held by shared
  pointers in the code and by value here: \<open>RemoveOutput\<close>, which compares pointers, is left out.

  Parameters: \<open>sha256\<close> and \<open>sha256_2\<close>, and \<open>keyValid\<close> and \<open>ecdsa\<close> of \<open>KeyM\<close>.
\<close>

section \<open>State\<close>

record Transaction =
  tx_isRegistered :: bool
  tx_txHash :: uint256
  tx_version :: u8
  tx_lockTime :: u32
  tx_blockHeight :: u32
  tx_timestamp :: int
  tx_type :: u8
  tx_payloadVersion :: u8
  tx_fee :: u64
  tx_payload :: "Payload option"
  tx_outputs :: "TransactionOutput list"
  tx_inputs :: "TransactionInput list"
  tx_attributes :: "Attribute list"
  tx_programs :: "Program list"

definition TX_LOCKTIME :: u32 where "TX_LOCKTIME = 0"
definition TX_UNCONFIRMED :: u32 where "TX_UNCONFIRMED = 0x7fffffff"
definition DEFAULT_PAYLOAD_TYPE :: u8 where "DEFAULT_PAYLOAD_TYPE = Tx_transferAsset"

definition Transaction_of :: "u8 \<Rightarrow> Payload option \<Rightarrow> Transaction" where
  "Transaction_of ty payload =
     \<lparr>tx_isRegistered = False, tx_txHash = 0, tx_version = TxVersion_Default, tx_lockTime = TX_LOCKTIME,
      tx_blockHeight = TX_UNCONFIRMED, tx_timestamp = 0, tx_type = ty, tx_payloadVersion = 0, tx_fee = 0,
      tx_payload = payload, tx_outputs = [], tx_inputs = [], tx_attributes = [], tx_programs = []\<rparr>"

definition Transaction_new :: Transaction where
  "Transaction_new = Transaction_of DEFAULT_PAYLOAD_TYPE (Transaction_InitPayload DEFAULT_PAYLOAD_TYPE)"

definition Transaction_Cleanup :: "Transaction \<Rightarrow> Transaction" where
  "Transaction_Cleanup t =
     t\<lparr>tx_inputs := [], tx_outputs := [], tx_attributes := [], tx_programs := [], tx_payload := None\<rparr>"

text \<open>\<open>Reinit\<close> leaves the cached hash and the timestamp of the object in place.\<close>

definition Transaction_Reinit :: "Transaction \<Rightarrow> Transaction" where
  "Transaction_Reinit t =
     (Transaction_Cleanup t)\<lparr>tx_type := DEFAULT_PAYLOAD_TYPE,
       tx_payload := Transaction_InitPayload DEFAULT_PAYLOAD_TYPE, tx_version := TxVersion_Default,
       tx_lockTime := TX_LOCKTIME, tx_blockHeight := TX_UNCONFIRMED, tx_payloadVersion := 0, tx_fee := 0\<rparr>"

definition Transaction_SetVersion :: "u8 \<Rightarrow> Transaction \<Rightarrow> Transaction" where
  "Transaction_SetVersion version t = t\<lparr>tx_version := version\<rparr>"

definition Transaction_SetLockTime :: "u32 \<Rightarrow> Transaction \<Rightarrow> Transaction" where
  "Transaction_SetLockTime lockTime t = t\<lparr>tx_lockTime := lockTime\<rparr>"

definition Transaction_SetBlockHeight :: "u32 \<Rightarrow> Transaction \<Rightarrow> Transaction" where
  "Transaction_SetBlockHeight height t = t\<lparr>tx_blockHeight := height\<rparr>"

definition Transaction_ResetHash :: "Transaction \<Rightarrow> Transaction" where
  "Transaction_ResetHash t = t\<lparr>tx_txHash := 0\<rparr>"

definition Transaction_SetOutputs :: "TransactionOutput list \<Rightarrow> Transaction \<Rightarrow> Transaction" where
  "Transaction_SetOutputs outputs t = t\<lparr>tx_outputs := outputs\<rparr>"

definition Transaction_SetFee :: "u64 \<Rightarrow> Transaction \<Rightarrow> Transaction" where
  "Transaction_SetFee f t = t\<lparr>tx_fee := f\<rparr>"

definition Transaction_AddOutput :: "TransactionOutput \<Rightarrow> Transaction \<Rightarrow> Transaction" where
  "Transaction_AddOutput out t = t\<lparr>tx_outputs := tx_outputs t @ [out]\<rparr>"

definition Transaction_AddInput :: "TransactionInput \<Rightarrow> Transaction \<Rightarrow> Transaction" where
  "Transaction_AddInput input t = t\<lparr>tx_inputs := tx_inputs t @ [input]\<rparr>"

definition Transaction_AddAttribute :: "Attribute \<Rightarrow> Transaction \<Rightarrow> Transaction" where
  "Transaction_AddAttribute attribute t = t\<lparr>tx_attributes := tx_attributes t @ [attribute]\<rparr>"

definition Transaction_AddProgram :: "Program \<Rightarrow> Transaction \<Rightarrow> Transaction" where
  "Transaction_AddProgram program t = t\<lparr>tx_programs := tx_programs t @ [program]\<rparr>"

definition Transaction_ClearPrograms :: "Transaction \<Rightarrow> Transaction" where
  "Transaction_ClearPrograms t = t\<lparr>tx_programs := []\<rparr>"

definition Transaction_AddUniqueProgram :: "Program \<Rightarrow> Transaction \<Rightarrow> bool \<times> Transaction" where
  "Transaction_AddUniqueProgram program t =
     (if \<exists>p \<in> set (tx_programs t). prog_code p = prog_code program then (False, t)
      else (True, t\<lparr>tx_programs := tx_programs t @ [program]\<rparr>))"

definition Transaction_ContainInput :: "uint256 \<Rightarrow> u32 \<Rightarrow> Transaction \<Rightarrow> bool" where
  "Transaction_ContainInput hash n t \<longleftrightarrow>
     (\<exists>i \<in> set (tx_inputs t). in_txHash i = hash \<and> n = ucast (in_index i))"

definition Transaction_IsCoinBase :: "Transaction \<Rightarrow> bool" where
  "Transaction_IsCoinBase t \<longleftrightarrow> tx_type t = Tx_coinBase"

definition Transaction_IsUnconfirmed :: "Transaction \<Rightarrow> bool" where
  "Transaction_IsUnconfirmed t \<longleftrightarrow> tx_blockHeight t = TX_UNCONFIRMED"

definition Transaction_GetConfirms :: "u32 \<Rightarrow> Transaction \<Rightarrow> u32" where
  "Transaction_GetConfirms walletBlockHeight t =
     (if tx_blockHeight t = TX_UNCONFIRMED then 0
      else if walletBlockHeight \<ge> tx_blockHeight t then walletBlockHeight - tx_blockHeight t + 1 else 0)"

definition Transaction_GetConfirmStatus :: "u32 \<Rightarrow> Transaction \<Rightarrow> string" where
  "Transaction_GetConfirmStatus walletBlockHeight t =
     (let confirm = Transaction_GetConfirms walletBlockHeight t in
      if Transaction_IsCoinBase t then if confirm \<le> 100 then ''Pending'' else ''Confirmed''
      else if confirm < 2 then ''Pending'' else ''Confirmed'')"

definition Transaction_GetDPoSTxTypes :: "u8 list" where
  "Transaction_GetDPoSTxTypes =
     [Tx_registerProducer, Tx_cancelProducer, Tx_updateProducer, Tx_returnDepositCoin, Tx_activateProducer]"

definition Transaction_GetCRCTxTypes :: "u8 list" where
  "Transaction_GetCRCTxTypes =
     [Tx_registerCR, Tx_unregisterCR, Tx_updateCR, Tx_returnCRDepositCoin, Tx_crCouncilMemberClaimNode]"

definition Transaction_GetProposalTypes :: "u8 list" where
  "Transaction_GetProposalTypes =
     [Tx_crcProposal, Tx_crcProposalReview, Tx_crcProposalTracking, Tx_crcAppropriation,
      Tx_crcProposalWithdraw]"

section \<open>Bytes\<close>

definition Transaction_SerializeUnsigned :: "Transaction \<Rightarrow> writer" where
  "Transaction_SerializeUnsigned t =
     wseq [(if TxVersion_V09 \<le> tx_version t then WriteUint8 (tx_version t) else wseq []),
           WriteUint8 (tx_type t), WriteUint8 (tx_payloadVersion t),
           (case tx_payload t of
              None \<Rightarrow> (\<lambda>s. Throw E_Transaction)
            | Some p \<Rightarrow> Payload_Serialize (tx_payloadVersion t) p),
           write_items Attribute_Serialize (tx_attributes t),
           write_items TransactionInput_Serialize (tx_inputs t),
           write_items (TransactionOutput_Serialize (tx_version t)) (tx_outputs t),
           WriteUint32 (tx_lockTime t)]"

definition Transaction_Serialize :: "Transaction \<Rightarrow> writer" where
  "Transaction_Serialize t =
     wseq [Transaction_SerializeUnsigned t, write_items Program_Serialize (tx_programs t)]"

definition Transaction_DeserializeType :: "Transaction \<Rightarrow> Transaction reader" where
  "Transaction_DeserializeType o1 =
     rbind ReadUint8 (\<lambda>flagByte.
       if TxVersion_V09 \<le> flagByte
       then rbind ReadUint8 (\<lambda>ty. rret (o1\<lparr>tx_version := flagByte, tx_type := ty\<rparr>))
       else rret (o1\<lparr>tx_version := TxVersion_Default, tx_type := flagByte\<rparr>))"

definition IDTransaction_DeserializeType :: "Transaction \<Rightarrow> Transaction reader" where
  "IDTransaction_DeserializeType o1 =
     rbind ReadUint8 (\<lambda>ty. rret (o1\<lparr>tx_type := ty, tx_version := TxVersion_Default\<rparr>))"

definition Transaction_rehash :: "(bytes \<Rightarrow> uint256) \<Rightarrow> Transaction \<Rightarrow> Transaction outcome" where
  "Transaction_rehash sha256_2 t =
     obind (Transaction_SerializeUnsigned t empty_stream) (\<lambda>s. Ret (t\<lparr>tx_txHash := sha256_2 (buf s)\<rparr>))"

text \<open>
  What follows the type bytes.  The attributes, inputs, outputs and programs are appended to the
  vectors \<open>Reinit\<close> has emptied; more than 65535 outputs are refused.  The hash is left alone: the lines that
  recompute it are switched off in the source.
\<close>

definition Transaction_DeserializeBody :: "(bytes \<Rightarrow> uint256) \<Rightarrow> Transaction \<Rightarrow> Transaction reader" where
  "Transaction_DeserializeBody sha256_2 o1 =
     rbind ReadUint8 (\<lambda>payloadVersion.
       case Transaction_InitPayload (tx_type o1) of
         None \<Rightarrow> rfail
       | Some p0 \<Rightarrow>
         rbind (Payload_Deserialize sha256_2 payloadVersion p0) (\<lambda>payload.
         rbind (read_items (Attribute_Deserialize Attribute_new)) (\<lambda>attributes.
         rbind (read_items (TransactionInput_Deserialize TransactionInput_new)) (\<lambda>inputs.
         rbind (rbind ReadVarUint (\<lambda>outputLength.
           if outputLength > 65535 then rfail
           else read_list (unat outputLength)
                  (TransactionOutput_Deserialize (tx_version o1) TransactionOutput_new))) (\<lambda>outputs.
         rbind ReadUint32 (\<lambda>lockTime.
         rbind (read_items (Program_Deserialize Program_new)) (\<lambda>programs.
           rret (o1\<lparr>tx_payloadVersion := payloadVersion, tx_payload := Some payload,
                     tx_attributes := tx_attributes o1 @ attributes, tx_inputs := tx_inputs o1 @ inputs,
                     tx_outputs := tx_outputs o1 @ outputs, tx_lockTime := lockTime,
                     tx_programs := tx_programs o1 @ programs\<rparr>))))))))"

definition Transaction_Deserialize :: "(bytes \<Rightarrow> uint256) \<Rightarrow> Transaction \<Rightarrow> Transaction reader" where
  "Transaction_Deserialize sha256_2 o1 =
     rbind (Transaction_DeserializeType (Transaction_Reinit o1)) (Transaction_DeserializeBody sha256_2)"

section \<open>Hashes, signatures, validity\<close>

text \<open>\<open>GetHash\<close> returns the hash and the transaction with the hash cached.\<close>

definition Transaction_GetHash :: "(bytes \<Rightarrow> uint256) \<Rightarrow> Transaction \<Rightarrow> (uint256 \<times> Transaction) outcome" where
  "Transaction_GetHash sha256_2 t =
     (if tx_txHash t = 0
      then obind (Transaction_rehash sha256_2 t) (\<lambda>t'. Ret (tx_txHash t', t'))
      else Ret (tx_txHash t, t))"

definition Transaction_GetShaData :: "(bytes \<Rightarrow> uint256) \<Rightarrow> Transaction \<Rightarrow> uint256 outcome" where
  "Transaction_GetShaData sha256 t =
     obind (Transaction_SerializeUnsigned t empty_stream) (\<lambda>s. Ret (sha256 (buf s)))"

definition Transaction_IsEqual :: "(bytes \<Rightarrow> uint256) \<Rightarrow> Transaction \<Rightarrow> Transaction \<Rightarrow> bool outcome" where
  "Transaction_IsEqual sha256_2 a b =
     obind (Transaction_GetHash sha256_2 a) (\<lambda>(h, _).
     obind (Transaction_GetHash sha256_2 b) (\<lambda>(k, _). Ret (h = k)))"

primrec all_outcome :: "('a \<Rightarrow> bool outcome) \<Rightarrow> 'a list \<Rightarrow> bool outcome" where
  "all_outcome f [] = Ret True"
| "all_outcome f (x # xs) = obind (f x) (\<lambda>ok. if ok then all_outcome f xs else Ret False)"

definition Transaction_IsSigned ::
    "(bytes \<Rightarrow> uint256) \<Rightarrow> key_check \<Rightarrow> ecdsa_check \<Rightarrow> Transaction \<Rightarrow> bool outcome" where
  "Transaction_IsSigned sha256 keyValid ecdsa t =
     (if tx_type t = Tx_rechargeToSideChain \<or> tx_type t = Tx_coinBase then Ret True
      else if tx_programs t = [] then Ret False
      else obind (Transaction_GetShaData sha256 t) (\<lambda>md.
        all_outcome (Program_VerifySignature keyValid ecdsa md) (tx_programs t)))"

primrec map_outcome :: "('a \<Rightarrow> 'b outcome) \<Rightarrow> 'a list \<Rightarrow> 'b list outcome" where
  "map_outcome f [] = Ret []"
| "map_outcome f (x # xs) = obind (f x) (\<lambda>y. obind (map_outcome f xs) (\<lambda>ys. Ret (y # ys)))"

definition Transaction_GetSignedInfo ::
    "(bytes \<Rightarrow> uint256) \<Rightarrow> key_check \<Rightarrow> ecdsa_check \<Rightarrow> Transaction \<Rightarrow> SignedInfo list outcome" where
  "Transaction_GetSignedInfo sha256 keyValid ecdsa t =
     obind (Transaction_GetShaData sha256 t) (\<lambda>md.
       map_outcome (Program_GetSignedInfo keyValid ecdsa md) (tx_programs t))"

text \<open>\<open>TransactionOutput::IsValid\<close> is always true.\<close>

definition Transaction_IsValid ::
    "(bytes \<Rightarrow> uint256) \<Rightarrow> (bytes \<Rightarrow> uint256) \<Rightarrow> key_check \<Rightarrow> ecdsa_check \<Rightarrow> Transaction \<Rightarrow> bool outcome" where
  "Transaction_IsValid sha256_2 sha256 keyValid ecdsa t =
     obind (Transaction_IsSigned sha256 keyValid ecdsa t) (\<lambda>isSigned.
       if \<not> isSigned then Ret False
       else if \<not> list_all Attribute_IsValid (tx_attributes t) then Ret False
       else obind (case tx_payload t of None \<Rightarrow> Ret False
                   | Some p \<Rightarrow> Payload_IsValid sha256_2 sha256 keyValid ecdsa (tx_payloadVersion t) p) (\<lambda>ok.
         if \<not> ok then Ret False
         else Ret (tx_outputs t \<noteq> [])))"

text \<open>The copy of a payload is made by the class \<open>InitPayload\<close> picks for the type.\<close>

definition Transaction_assign ::
    "(bytes \<Rightarrow> uint256) \<Rightarrow> Transaction \<Rightarrow> Transaction \<Rightarrow> Transaction outcome" where
  "Transaction_assign sha256_2 this orig =
     obind (Transaction_GetHash sha256_2 orig) (\<lambda>(hash, _).
       case (Transaction_InitPayload (tx_type orig), tx_payload orig) of
         (Some p, Some q) \<Rightarrow>
           obind (map_outcome (TransactionOutput_assign TransactionOutput_new) (tx_outputs orig)) (\<lambda>outputs.
             Ret (this\<lparr>tx_isRegistered := tx_isRegistered orig, tx_txHash := hash,
               tx_version := tx_version orig, tx_lockTime := tx_lockTime orig,
               tx_blockHeight := tx_blockHeight orig, tx_timestamp := tx_timestamp orig,
               tx_type := tx_type orig, tx_payloadVersion := tx_payloadVersion orig, tx_fee := tx_fee orig,
               tx_payload := Some (Payload_assign p q),
               tx_inputs := map (TransactionInput_assign TransactionInput_new) (tx_inputs orig),
               tx_outputs := outputs, tx_attributes := tx_attributes orig,
               tx_programs := map (Program_assign Program_new) (tx_programs orig)\<rparr>))
       | _ \<Rightarrow> Undef)"

fun eq_all :: "('a \<Rightarrow> 'a \<Rightarrow> bool outcome) \<Rightarrow> 'a list \<Rightarrow> 'a list \<Rightarrow> bool outcome" where
  "eq_all f (x # xs) (y # ys) = obind (f x y) (\<lambda>ok. if ok then eq_all f xs ys else Ret False)"
| "eq_all f _ _ = Ret True"

definition Transaction_eq :: "Transaction \<Rightarrow> Transaction \<Rightarrow> bool outcome" where
  "Transaction_eq a b =
     (if \<not> (tx_version a = tx_version b \<and> tx_lockTime a = tx_lockTime b \<and>
            tx_blockHeight a = tx_blockHeight b \<and> tx_timestamp a = tx_timestamp b \<and>
            tx_type a = tx_type b \<and> tx_payloadVersion a = tx_payloadVersion b \<and>
            length (tx_outputs a) = length (tx_outputs b) \<and> length (tx_inputs a) = length (tx_inputs b) \<and>
            length (tx_attributes a) = length (tx_attributes b) \<and>
            length (tx_programs a) = length (tx_programs b)) then Ret False
      else case (tx_payload a, tx_payload b) of
        (Some p, Some q) \<Rightarrow>
          if \<not> Payload_Equal (tx_payloadVersion a) p q then Ret False
          else obind (eq_all TransactionOutput_eq (tx_outputs a) (tx_outputs b)) (\<lambda>ok.
            Ret (ok \<and> list_all2 TransactionInput_eq (tx_inputs a) (tx_inputs b) \<and>
                 list_all2 Attribute_eq (tx_attributes a) (tx_attributes b) \<and>
                 list_all2 Program_eq (tx_programs a) (tx_programs b)))
      | _ \<Rightarrow> Undef)"

section \<open>Size and fee\<close>

definition Transaction_EstimateSize :: "Transaction \<Rightarrow> nat outcome" where
  "Transaction_EstimateSize t =
     (case tx_payload t of None \<Rightarrow> Undef
      | Some p \<Rightarrow>
        obind (map_outcome Program_EstimateSize (tx_programs t)) (\<lambda>programs.
          Ret ((if TxVersion_V09 \<le> tx_version t then 1 else 0) + 2 +
               Payload_EstimateSize (tx_payloadVersion t) p +
               WriteVarUint_count (word_of_nat (length (tx_attributes t))) +
               sum_list (map Attribute_EstimateSize (tx_attributes t)) +
               WriteVarUint_count (word_of_nat (length (tx_inputs t))) +
               sum_list (map TransactionInput_EstimateSize (tx_inputs t)) +
               WriteVarUint_count (word_of_nat (length (tx_outputs t))) +
               sum_list (map TransactionOutput_EstimateSize (tx_outputs t)) + 4 +
               WriteVarUint_count (word_of_nat (length (tx_programs t))) + sum_list programs)))"

text \<open>The fee is computed in 64 bits.\<close>

definition Transaction_CalculateFee :: "u64 \<Rightarrow> Transaction \<Rightarrow> u64 outcome" where
  "Transaction_CalculateFee feePerKb t =
     obind (Transaction_EstimateSize t) (\<lambda>size. Ret (((word_of_nat size + 999) div 1000) * feePerKb))"

section \<open>Outputs are stable\<close>

lemma CandidateVotes_stable:
  "CandidateVotes_Serialize v (CandidateVotes_canon v c) = CandidateVotes_Serialize v c"
  by (auto simp: CandidateVotes_Serialize_def CandidateVotes_canon_def)

lemma VoteContent_stable: "VoteContent_Serialize v (VoteContent_canon v c) = VoteContent_Serialize v c"
  by (simp add: VoteContent_Serialize_def VoteContent_canon_def write_items_def comp_def CandidateVotes_stable)

lemma OutputPayload_stable: "OutputPayload_Serialize (OutputPayload_canon p) = OutputPayload_Serialize p"
  by (cases p) (simp_all add: PayloadVote_Serialize_def PayloadVote_canon_def write_items_def comp_def
      VoteContent_stable PayloadCrossChain_Serialize_def PayloadCrossChain_canon_def)

lemma TransactionOutput_stable:
  assumes "TransactionOutput_fits v t"
  shows "TransactionOutput_Serialize v (TransactionOutput_canon v t) = TransactionOutput_Serialize v t"
proof -
  have "of_le (take 8 (BigInt_getHexBytes n True)) = BigInt_getUint64 n" for n
    by (simp add: BigInt_getUint64_def)
  then show ?thesis
    using assms
    by (auto simp: TransactionOutput_Serialize_def TransactionOutput_canon_def TransactionOutput_fits_def
        OutputPayload_stable split: option.splits)
qed

section \<open>Transactions travel\<close>

definition Transaction_fits :: "Transaction \<Rightarrow> bool" where
  "Transaction_fits t \<longleftrightarrow>
     (TxVersion_V09 \<le> tx_version t \<or> tx_version t = TxVersion_Default \<and> tx_type t < TxVersion_V09) \<and>
     (case tx_payload t of None \<Rightarrow> False
      | Some p \<Rightarrow> Transaction_InitPayload (tx_type t) = Some (Payload_fresh p) \<and>
                  Payload_fits (tx_payloadVersion t) p) \<and>
     list_all Attribute_IsValid (tx_attributes t) \<and>
     list_all (TransactionOutput_fits (tx_version t)) (tx_outputs t) \<and>
     length (tx_outputs t) \<le> 65535"

definition Transaction_unsigned_bytes :: "Transaction \<Rightarrow> bytes" where
  "Transaction_unsigned_bytes t =
     (case Transaction_SerializeUnsigned t empty_stream of Ret s \<Rightarrow> buf s | _ \<Rightarrow> [])"

definition Transaction_canon :: "(bytes \<Rightarrow> uint256) \<Rightarrow> Transaction \<Rightarrow> Transaction \<Rightarrow> Transaction" where
  "Transaction_canon sha256_2 o1 t =
     \<lparr>tx_isRegistered = tx_isRegistered o1, tx_txHash = tx_txHash o1,
      tx_version = tx_version t, tx_lockTime = tx_lockTime t, tx_blockHeight = TX_UNCONFIRMED,
      tx_timestamp = tx_timestamp o1, tx_type = tx_type t, tx_payloadVersion = tx_payloadVersion t,
      tx_fee = 0, tx_payload = map_option (Payload_canon sha256_2 (tx_payloadVersion t)) (tx_payload t),
      tx_outputs = map (TransactionOutput_canon (tx_version t)) (tx_outputs t),
      tx_inputs = tx_inputs t, tx_attributes = tx_attributes t, tx_programs = tx_programs t\<rparr>"

lemma ex_appends_Cons:
  "\<exists>bs. appends w bs \<Longrightarrow> \<exists>bs. appends (wseq ws) bs \<Longrightarrow> \<exists>bs. appends (wseq (w # ws)) bs"
  using appends_Cons by blast

lemma ex_appends_prims:
  "\<exists>bs. appends (wseq []) bs" "\<exists>bs. appends (WriteUint8 a) bs" "\<exists>bs. appends (WriteUint32 b) bs"
  using appends_Nil appends_WriteUint8 appends_WriteUint32 by blast+

lemma ex_appends_items:
  assumes "\<And>x. x \<in> set xs \<Longrightarrow> \<exists>bs. appends (w x) bs"
  shows "\<exists>bs. appends (write_items w xs) bs"
proof -
  obtain f where "\<And>x. x \<in> set xs \<Longrightarrow> appends (w x) (f x)" using assms by metis
  then have "appends (wseq (map w xs)) (concat (map f xs))" by (rule appends_items)
  then show ?thesis unfolding write_items_def using appends_Cons [OF appends_WriteVarUint] by blast
qed

lemma Transaction_parts:
  assumes "Transaction_fits t"
  obtains p where "tx_payload t = Some p" "Transaction_InitPayload (tx_type t) = Some (Payload_fresh p)"
    "Payload_fits (tx_payloadVersion t) p"
  using assms by (auto simp: Transaction_fits_def split: option.splits)

lemma Transaction_SerializeUnsigned_appends:
  assumes "Transaction_fits t"
  shows "appends (Transaction_SerializeUnsigned t) (Transaction_unsigned_bytes t)"
proof -
  obtain p where p: "tx_payload t = Some p" "Payload_fits (tx_payloadVersion t) p"
    using Transaction_parts [OF assms] by blast
  have outs: "\<exists>bs. appends (TransactionOutput_Serialize (tx_version t) x) bs" if "x \<in> set (tx_outputs t)" for x
    using that assms
    by (intro transfers_appends [OF TransactionOutput_transfers]) (simp add: Transaction_fits_def list_all_iff)
  have attrs: "\<exists>bs. appends (Attribute_Serialize x) bs" if "x \<in> set (tx_attributes t)" for x
    using that assms
    by (intro transfers_appends [OF Attribute_transfers]) (simp add: Transaction_fits_def list_all_iff)
  have pl: "\<exists>bs. appends (Payload_Serialize (tx_payloadVersion t) p) bs"
    by (rule transfers_appends [OF Payload_transfers [OF p(2)]])
  have "\<exists>bs. appends (if TxVersion_V09 \<le> tx_version t then WriteUint8 (tx_version t) else wseq []) bs"
    using appends_WriteUint8 appends_Nil by auto
  then have "\<exists>bs. appends (Transaction_SerializeUnsigned t) bs"
    unfolding Transaction_SerializeUnsigned_def p(1) option.case
    using ex_appends_prims
    by (intro ex_appends_Cons ex_appends_items outs attrs pl transfers_appends [OF TransactionInput_transfers])
  then obtain bs where "appends (Transaction_SerializeUnsigned t) bs" by blast
  moreover from this have "Transaction_unsigned_bytes t = bs"
    by (simp add: Transaction_unsigned_bytes_def appends_def empty_stream_def)
  ultimately show ?thesis by simp
qed

lemma Transaction_stable:
  assumes "Transaction_fits t" and "tx_version t' = tx_version t" "tx_type t' = tx_type t"
    "tx_payloadVersion t' = tx_payloadVersion t"
    "tx_payload t' = map_option (Payload_canon sha256_2 (tx_payloadVersion t)) (tx_payload t)"
    "tx_attributes t' = tx_attributes t" "tx_inputs t' = tx_inputs t"
    "tx_outputs t' = map (TransactionOutput_canon (tx_version t)) (tx_outputs t)"
    "tx_lockTime t' = tx_lockTime t"
  shows "Transaction_SerializeUnsigned t' = Transaction_SerializeUnsigned t"
proof -
  obtain p where p: "tx_payload t = Some p" "Payload_fits (tx_payloadVersion t) p"
    using Transaction_parts [OF assms(1)] by blast
  have "map (TransactionOutput_Serialize (tx_version t)) (map (TransactionOutput_canon (tx_version t)) (tx_outputs t)) =
      map (TransactionOutput_Serialize (tx_version t)) (tx_outputs t)"
    using assms(1) by (simp add: Transaction_fits_def list_all_iff TransactionOutput_stable)
  then have m: "map (TransactionOutput_Serialize (tx_version t) \<circ> TransactionOutput_canon (tx_version t))
      (tx_outputs t) = map (TransactionOutput_Serialize (tx_version t)) (tx_outputs t)"
    by (simp only: map_map)
  have "write_items (TransactionOutput_Serialize (tx_version t))
      (map (TransactionOutput_canon (tx_version t)) (tx_outputs t)) =
    write_items (TransactionOutput_Serialize (tx_version t)) (tx_outputs t)"
    by (simp only: write_items_def length_map map_map m)
  then show ?thesis
    using assms p by (simp add: Transaction_SerializeUnsigned_def Payload_Serialize_canon)
qed

lemma Transaction_rehash_canon:
  assumes "Transaction_fits t" "Transaction_SerializeUnsigned t' = Transaction_SerializeUnsigned t"
  shows "Transaction_rehash sha256_2 t' =
    Ret (t'\<lparr>tx_txHash := sha256_2 (Transaction_unsigned_bytes t)\<rparr>)"
  using Transaction_SerializeUnsigned_appends [OF assms(1)] assms(2)
  by (simp add: Transaction_rehash_def appends_def empty_stream_def)

lemma wseq_Nil_Cons: "wseq (wseq [] # ws) = wseq ws"
  by (rule ext) (simp add: wseq.simps)

lemma wseq_append: "wseq (us @ vs) = (\<lambda>s. obind (wseq us s) (wseq vs))"
  by (induction us) (simp_all add: wseq.simps obind_assoc)

lemma wseq_snoc: "wseq [wseq ws, w] = wseq (ws @ [w])"
  by (simp add: wseq_append wseq.simps(2) [of "wseq ws"])

lemma Transaction_body_transfers:
  assumes fits: "Transaction_fits t" and o1: "tx_version o1 = tx_version t" "tx_type o1 = tx_type t"
    "tx_outputs o1 = []" "tx_inputs o1 = []" "tx_attributes o1 = []" "tx_programs o1 = []"
    "tx_blockHeight o1 = TX_UNCONFIRMED" "tx_fee o1 = 0"
    and p: "tx_payload t = Some p"
  shows "transfers
    (wseq [WriteUint8 (tx_payloadVersion t), Payload_Serialize (tx_payloadVersion t) p,
           write_items Attribute_Serialize (tx_attributes t),
           write_items TransactionInput_Serialize (tx_inputs t),
           write_items (TransactionOutput_Serialize (tx_version t)) (tx_outputs t),
           WriteUint32 (tx_lockTime t), write_items Program_Serialize (tx_programs t)])
    (Transaction_DeserializeBody sha256_2 o1) (Transaction_canon sha256_2 o1 t)"
proof -
  have init: "Transaction_InitPayload (tx_type o1) = Some (Payload_fresh p)"
    and pf: "Payload_fits (tx_payloadVersion t) p"
    using Transaction_parts [OF fits] p o1(2) by auto
  have attrs: "transfers (write_items Attribute_Serialize (tx_attributes t))
      (read_items (Attribute_Deserialize Attribute_new)) (tx_attributes t)"
    using attribute.items_transfer [of "tx_attributes t"] fits by (simp add: Transaction_fits_def list_all_iff)
  have ins: "transfers (write_items TransactionInput_Serialize (tx_inputs t))
      (read_items (TransactionInput_Deserialize TransactionInput_new)) (tx_inputs t)"
    using tx_input.items_transfer [of "tx_inputs t"] by simp
  have progs: "transfers (write_items Program_Serialize (tx_programs t))
      (read_items (Program_Deserialize Program_new)) (tx_programs t)"
    using program.items_transfer [of "tx_programs t"] by simp
  have outs: "transfers (write_items (TransactionOutput_Serialize (tx_version t)) (tx_outputs t))
      (rbind ReadVarUint (\<lambda>n. if n > 65535 then rfail
         else read_list (unat n) (TransactionOutput_Deserialize (tx_version o1) TransactionOutput_new)))
      (map (TransactionOutput_canon (tx_version t)) (tx_outputs t))"
    unfolding o1(1)
  proof (rule transfers_items_checked [OF tx_output.needs])
    show "transfers (TransactionOutput_Serialize (tx_version t) x)
        (TransactionOutput_Deserialize (tx_version t) TransactionOutput_new)
        (TransactionOutput_canon (tx_version t) x)" if "x \<in> set (tx_outputs t)" for x
      using that fits by (intro TransactionOutput_transfers) (simp add: Transaction_fits_def list_all_iff)
    have n: "length (tx_outputs t) \<le> 65535" using fits by (simp add: Transaction_fits_def)
    then have "unat (word_of_nat (length (tx_outputs t)) :: u64) = length (tx_outputs t)"
      by (simp add: unat_of_nat)
    then show "\<not> 65535 < (word_of_nat (length (tx_outputs t)) :: u64)"
      using n by (simp add: word_less_nat_alt)
  qed
  let ?t = "o1\<lparr>tx_payloadVersion := tx_payloadVersion t,
      tx_payload := Some (Payload_canon sha256_2 (tx_payloadVersion t) p), tx_attributes := tx_attributes t,
      tx_inputs := tx_inputs t, tx_outputs := map (TransactionOutput_canon (tx_version t)) (tx_outputs t),
      tx_lockTime := tx_lockTime t, tx_programs := tx_programs t\<rparr>"
  have "?t = Transaction_canon sha256_2 o1 t" by (simp add: Transaction_canon_def o1 p)
  then have fin: "transfers (wseq []) (rret ?t) (Transaction_canon sha256_2 o1 t)"
    by (rule transfers_rret)
  show ?thesis
    unfolding Transaction_DeserializeBody_def o1 append_Nil init [unfolded o1(2)] option.case
    by (rule transfers_rbind transfers_WriteUint8 Payload_transfers [OF pf] attrs ins
        outs [unfolded o1(1)] transfers_WriteUint32 progs fin)+
qed

lemma Transaction_transfers:
  assumes "Transaction_fits t"
  shows "transfers (Transaction_Serialize t) (Transaction_Deserialize sha256_2 o1)
    (Transaction_canon sha256_2 o1 t)"
proof -
  obtain p where p: "tx_payload t = Some p" using Transaction_parts [OF assms] by blast
  let ?o = "\<lambda>v ty. (Transaction_Reinit o1)\<lparr>tx_version := v, tx_type := ty\<rparr>"
  let ?o1 = "?o (tx_version t) (tx_type t)"
  let ?rest = "[WriteUint8 (tx_payloadVersion t), Payload_Serialize (tx_payloadVersion t) p,
           write_items Attribute_Serialize (tx_attributes t),
           write_items TransactionInput_Serialize (tx_inputs t),
           write_items (TransactionOutput_Serialize (tx_version t)) (tx_outputs t),
           WriteUint32 (tx_lockTime t), write_items Program_Serialize (tx_programs t)]"
  have c: "Transaction_canon sha256_2 ?o1 t = Transaction_canon sha256_2 o1 t"
    by (simp add: Transaction_canon_def Transaction_Reinit_def Transaction_Cleanup_def)
  have b: "transfers (wseq ?rest) (Transaction_DeserializeBody sha256_2 ?o1) (Transaction_canon sha256_2 o1 t)"
    using Transaction_body_transfers [OF assms, of ?o1 p sha256_2] p
    unfolding c by (simp add: Transaction_Reinit_def Transaction_Cleanup_def)
  have des: "Transaction_Deserialize sha256_2 o1 = rbind ReadUint8 (\<lambda>flagByte.
      if TxVersion_V09 \<le> flagByte
      then rbind ReadUint8 (\<lambda>ty. Transaction_DeserializeBody sha256_2 (?o flagByte ty))
      else Transaction_DeserializeBody sha256_2 (?o TxVersion_Default flagByte))"
    unfolding Transaction_Deserialize_def Transaction_DeserializeType_def rbind_assoc
    by (rule arg_cong [where f = "rbind ReadUint8"]) (rule ext, simp add: rbind_assoc)
  show ?thesis
  proof (cases "TxVersion_V09 \<le> tx_version t")
    case True
    have "transfers (wseq (WriteUint8 (tx_type t) # ?rest))
        (rbind ReadUint8 (\<lambda>ty. Transaction_DeserializeBody sha256_2 (?o (tx_version t) ty)))
        (Transaction_canon sha256_2 o1 t)"
      by (rule transfers_rbind [OF transfers_WriteUint8]) (rule b)
    then have "transfers (wseq (WriteUint8 (tx_version t) # WriteUint8 (tx_type t) # ?rest))
        (Transaction_Deserialize sha256_2 o1) (Transaction_canon sha256_2 o1 t)"
      unfolding des using True by (intro transfers_rbind [OF transfers_WriteUint8]) simp
    then show ?thesis
      using True by (simp add: Transaction_Serialize_def Transaction_SerializeUnsigned_def p wseq_snoc)
  next
    case False
    then have v: "tx_version t = TxVersion_Default" "\<not> TxVersion_V09 \<le> tx_type t"
      using assms by (auto simp: Transaction_fits_def not_le)
    have "transfers (wseq (WriteUint8 (tx_type t) # ?rest))
        (Transaction_Deserialize sha256_2 o1) (Transaction_canon sha256_2 o1 t)"
      unfolding des using b v by (intro transfers_rbind [OF transfers_WriteUint8]) simp
    then show ?thesis
      using False
      by (simp add: Transaction_Serialize_def Transaction_SerializeUnsigned_def p wseq_Nil_Cons wseq_snoc)
  qed
qed


lemma Transaction_InitPayload_fresh:
  assumes "Transaction_InitPayload ty = Some p"
  shows "Payload_fresh p = p"
  using assms by (auto simp: Transaction_InitPayload_def split: if_splits)

lemma local_Transaction: "local_reader (Transaction_Deserialize sha256_2 o1)"
proof -
  have p: "local_reader (Payload_Deserialize sha256_2 v p)" if "Transaction_InitPayload ty = Some p" for v ty p
    using Payload_fresh_local [of sha256_2 v p] Transaction_InitPayload_fresh [OF that] by simp
  show ?thesis
    unfolding Transaction_Deserialize_def Transaction_DeserializeType_def Transaction_DeserializeBody_def
    by (auto intro!: reader_intros attribute.local_des tx_input.local_des program.local_des
        local_TransactionOutput dest: p split: option.split)
qed

interpretation transaction: item_codec Transaction_Serialize "Transaction_Deserialize sha256_2 o1"
    Transaction_fits "Transaction_canon sha256_2 o1" for sha256_2 o1
  by (unfold_locales, erule Transaction_transfers, rule local_Transaction)
    (auto simp: Transaction_Deserialize_def Transaction_DeserializeType_def intro!: needs_intros)

section \<open>The hash of a transaction\<close>

text \<open>
  The reader keeps the hash its object has cached.  A fresh object has none, and computes the hash of
  the sender; an object that has answered \<open>GetHash\<close> before answers the old hash for what it has
  read.
\<close>

lemma Transaction_GetHash_unsigned:
  assumes "Transaction_fits t" and "tx_txHash t = 0"
  shows "Transaction_GetHash sha256_2 t =
    Ret (sha256_2 (Transaction_unsigned_bytes t), t\<lparr>tx_txHash := sha256_2 (Transaction_unsigned_bytes t)\<rparr>)"
  using assms Transaction_rehash_canon [OF assms(1), of t sha256_2]
  by (simp add: Transaction_GetHash_def)

lemma Transaction_canon_unsigned:
  assumes "Transaction_fits t"
  shows "Transaction_SerializeUnsigned (Transaction_canon sha256_2 o1 t) = Transaction_SerializeUnsigned t"
  by (rule Transaction_stable [OF assms, where ?sha256_2.0 = sha256_2]) (simp_all add: Transaction_canon_def)

lemma Transaction_GetHash_cached:
  assumes "Transaction_GetHash sha256_2 t = Ret (h, t')" and "h \<noteq> 0"
  shows "Transaction_GetHash sha256_2 t' = Ret (h, t')"
  using assms
  by (auto simp: Transaction_GetHash_def Transaction_rehash_def obind_eq_Ret split: if_splits)

lemma Transaction_GetHash_read:
  assumes "Transaction_fits t" and "tx_txHash o1 = 0" and "tx_txHash t = 0"
  shows "omap fst (Transaction_GetHash sha256_2 (Transaction_canon sha256_2 o1 t)) =
    omap fst (Transaction_GetHash sha256_2 t)"
proof -
  have "tx_txHash (Transaction_canon sha256_2 o1 t) = 0" using assms(2) by (simp add: Transaction_canon_def)
  then show ?thesis
    using Transaction_rehash_canon [OF assms(1) Transaction_canon_unsigned [OF assms(1)],
        of sha256_2 sha256_2 o1] Transaction_rehash_canon [OF assms(1) refl, of sha256_2] assms(3)
    by (simp add: Transaction_GetHash_def)
qed

lemma Transaction_GetHash_stale:
  assumes "tx_txHash o1 \<noteq> 0"
  shows "Transaction_GetHash sha256_2 (Transaction_canon sha256_2 o1 t) =
    Ret (tx_txHash o1, Transaction_canon sha256_2 o1 t)"
  using assms by (simp add: Transaction_GetHash_def Transaction_canon_def)

text \<open>The programs are outside the signed bytes: signing keeps the digest and the hash.\<close>

lemma Transaction_unsigned_programs [simp]:
  "Transaction_SerializeUnsigned (t\<lparr>tx_programs := ps\<rparr>) = Transaction_SerializeUnsigned t"
  "Transaction_SerializeUnsigned (t\<lparr>tx_txHash := h\<rparr>) = Transaction_SerializeUnsigned t"
  by (cases "tx_payload t"; simp add: Transaction_SerializeUnsigned_def)+

lemma Transaction_AddUniqueProgram_unsigned:
  "Transaction_GetShaData sha256 (snd (Transaction_AddUniqueProgram p t)) = Transaction_GetShaData sha256 t"
  by (simp add: Transaction_AddUniqueProgram_def Transaction_GetShaData_def)

section \<open>Programs of a transaction\<close>

lemma Transaction_AddUniqueProgram_distinct:
  assumes "distinct (map prog_code (tx_programs t))"
  shows "distinct (map prog_code (tx_programs (snd (Transaction_AddUniqueProgram p t))))"
  using assms by (auto simp: Transaction_AddUniqueProgram_def)

lemma all_outcome_True: "all_outcome f xs = Ret True \<longleftrightarrow> (\<forall>x \<in> set xs. f x = Ret True)"
  by (induction xs) (auto simp: obind_eq_Ret split: if_splits)

lemma Transaction_IsSigned_iff:
  assumes "Transaction_fits t" and "\<not> (tx_type t = Tx_rechargeToSideChain \<or> tx_type t = Tx_coinBase)"
  shows "Transaction_IsSigned sha256 kv ec t = Ret True \<longleftrightarrow>
    tx_programs t \<noteq> [] \<and> (\<forall>p \<in> set (tx_programs t).
      Program_VerifySignature kv ec (sha256 (Transaction_unsigned_bytes t)) p = Ret True)"
proof -
  have "Transaction_GetShaData sha256 t = Ret (sha256 (Transaction_unsigned_bytes t))"
    using Transaction_SerializeUnsigned_appends [OF assms(1)]
    by (simp add: Transaction_GetShaData_def appends_def empty_stream_def)
  then show ?thesis using assms(2) by (auto simp: Transaction_IsSigned_def all_outcome_True)
qed

section \<open>Confirmations\<close>

text \<open>The count of blocks, the one of the transaction included, below \<open>2 ^ 31\<close> always.\<close>

lemma Transaction_GetConfirms_count:
  assumes "tx_blockHeight t \<noteq> TX_UNCONFIRMED" and "unat h < 2 ^ 32 - 1"
  shows "unat (Transaction_GetConfirms h t) =
    (if unat (tx_blockHeight t) \<le> unat h then unat h - unat (tx_blockHeight t) + 1 else 0)"
proof (cases "unat (tx_blockHeight t) \<le> unat h")
  case True
  have s: "unat (h - tx_blockHeight t) = unat h - unat (tx_blockHeight t)"
    using True by (simp add: unat_sub word_le_nat_alt)
  then have "unat (h - tx_blockHeight t) + 1 < 2 ^ 32" using assms(2) by simp
  then have "unat (h - tx_blockHeight t + 1) = unat (h - tx_blockHeight t) + 1"
    by (simp add: unat_plus_if')
  then show ?thesis
    using True assms(1) s by (simp add: Transaction_GetConfirms_def word_le_nat_alt)
next
  case False
  then show ?thesis using assms(1) by (simp add: Transaction_GetConfirms_def word_le_nat_alt)
qed

section \<open>Types without a reader\<close>

text \<open>
  Votes, stakes and appropriations are written by the wallet, and refused when read back: after the
  type and the payload version nothing is read.
\<close>

lemma Transaction_InitPayload_None:
  "Transaction_InitPayload ty = None" if
    "ty \<in> {Tx_crcAppropriation, Tx_DposV2ClaimReward, Tx_DposV2ClaimRewardRealWithdraw, Tx_Stake,
           Tx_Voting, Tx_CancelVotes, Tx_Unstake, Tx_UnstakeRealWithdraw}"
  using that by (auto simp: Transaction_InitPayload_def tx_types)

lemma ReadUint8_Cons:
  assumes "wf_stream s" and "remaining s = b # q"
  shows "ReadUint8 s = ROk b (advance 1 s)"
  using decodesD [OF decodes_ReadUint8 assms(1), of b q] assms(2) by simp

lemma Transaction_Deserialize_refuses:
  assumes s: "wf_stream s" "remaining s = ver # ty # pv # q" and v: "TxVersion_V09 \<le> ver"
    and none: "Transaction_InitPayload ty = None"
  shows "Transaction_Deserialize sha256_2 o1 s = RFail (advance 3 s)"
proof -
  have d: "ReadUint8 s = ROk ver (advance 1 s)" "ReadUint8 (advance 1 s) = ROk ty (advance 2 s)"
    "ReadUint8 (advance 2 s) = ROk pv (advance 3 s)"
    using ReadUint8_Cons [of s ver] ReadUint8_Cons [of "advance 1 s" ty]
      ReadUint8_Cons [of "advance 2 s" pv] s by (simp_all add: numeral_2_eq_2 numeral_3_eq_3)
  show ?thesis
    unfolding Transaction_Deserialize_def Transaction_DeserializeType_def
      Transaction_DeserializeBody_def
    using v none by (simp add: rbind_def d(1) d(2) [unfolded One_nat_def] d(3) rret_def rfail_def)
qed

text \<open>
  A type byte of 9 and more is taken for a version: an old-style transaction of such a type is
  not what is read back.
\<close>

lemma Transaction_Deserialize_version:
  assumes "wf_stream s" and "remaining s = ty # pv # q" and "TxVersion_V09 \<le> ty"
    and "Transaction_Deserialize sha256_2 o1 s = ROk t s'"
  shows "tx_version t = ty" "tx_type t = pv"
  using assms decodesD [OF decodes_ReadUint8, of s ty "pv # q"]
    decodesD [OF decodes_ReadUint8, of "advance 1 s" pv q]
  by (auto simp: Transaction_Deserialize_def Transaction_DeserializeType_def
      Transaction_DeserializeBody_def rbind_def rret_def rfail_def
      split: option.splits rres.splits)

section \<open>How much of a transaction the estimate counts\<close>

definition OutputPayload_bytes :: "OutputPayload \<Rightarrow> bytes" where
  "OutputPayload_bytes p = (case OutputPayload_Serialize p empty_stream of Ret s \<Rightarrow> buf s | _ \<Rightarrow> [])"

text \<open>
  Lengths and counts that one byte of a variable-length integer holds, and programs that are signed:
  then all the estimate leaves out are the types and payloads of the outputs from version 9 on.
\<close>

definition Transaction_short :: "Transaction \<Rightarrow> bool" where
  "Transaction_short t \<longleftrightarrow>
     length (tx_attributes t) < 0xfd \<and> length (tx_inputs t) < 0xfd \<and> length (tx_outputs t) < 0xfd \<and>
     length (tx_programs t) < 0xfd \<and>
     list_all (\<lambda>a. length (attr_data a) < 0xfd) (tx_attributes t) \<and>
     list_all (\<lambda>out. TransactionOutput_amount_gap out = 0) (tx_outputs t) \<and>
     list_all (\<lambda>p. prog_parameter p \<noteq> [] \<and> length (prog_parameter p) < 0xfd \<and>
                   length (prog_code p) < 0xfd) (tx_programs t)"

definition Transaction_uncounted :: "Transaction \<Rightarrow> nat" where
  "Transaction_uncounted t =
     (if TxVersion_V09 \<le> tx_version t
      then sum_list (map (\<lambda>out. 1 + (case out_payload out of Some p \<Rightarrow> length (OutputPayload_bytes p) | None \<Rightarrow> 0))
             (tx_outputs t))
      else 0)"

lemma varint_gap_short: "n < 0xfd \<Longrightarrow> varint_gap (word_of_nat n) = 0"
  by (simp add: varint_gap_def word_less_nat_alt unat_of_nat)

lemma OutputPayload_wsize:
  assumes "OutputPayload_fits ty p"
  shows "wsize (OutputPayload_Serialize p) (length (OutputPayload_bytes p))"
proof -
  obtain p0 where "transfers (OutputPayload_Serialize p) (OutputPayload_Deserialize p0) (OutputPayload_canon p)"
    using OutputPayload_transfers [OF assms] by blast
  then obtain bs where "appends (OutputPayload_Serialize p) bs"
    by (auto dest: transfers_appends)
  then show ?thesis by (auto simp: wsize_def OutputPayload_bytes_def appends_def empty_stream_def)
qed

lemma TransactionOutput_short_size:
  assumes "TransactionOutput_fits v out" and "TransactionOutput_amount_gap out = 0"
  shows "wsize (TransactionOutput_Serialize v out) (TransactionOutput_EstimateSize out +
    (if TxVersion_V09 \<le> v
     then 1 + (case out_payload out of Some p \<Rightarrow> length (OutputPayload_bytes p) | None \<Rightarrow> 0) else 0))"
proof (cases "TxVersion_V09 \<le> v")
  case True
  then obtain p where "out_payload out = Some p" "OutputPayload_fits (out_outputType out) p"
    using assms(1) by (auto simp: TransactionOutput_fits_def split: option.splits)
  then show ?thesis
    using TransactionOutput_size_V09 [OF True _ OutputPayload_wsize, of out p] True assms(2) by simp
next
  case False
  then show ?thesis using TransactionOutput_size_old [OF False, of out] assms(2) by simp
qed

lemma map_outcome_Ret: "(\<And>x. x \<in> set xs \<Longrightarrow> f x = Ret (g x)) \<Longrightarrow> map_outcome f xs = Ret (map g xs)"
  by (induction xs) simp_all

lemma wsize_items_short:
  assumes "\<And>x. x \<in> set xs \<Longrightarrow> wsize (w x) (n x)" and "length xs < 0xfd"
  shows "wsize (write_items w xs) (WriteVarUint_count (word_of_nat (length xs)) + sum_list (map n xs))"
  using wsize_items [of xs w n, OF assms(1)] varint_gap_short [OF assms(2)] by simp

lemma sum_list_if: "sum_list (map (\<lambda>x. f x + (if c then g x else 0)) xs) =
    sum_list (map f xs) + (if c then sum_list (map g xs) else (0 :: nat))"
  by (induction xs) simp_all

lemma Transaction_size:
  assumes fits: "Transaction_fits t" and short: "Transaction_short t"
    and p: "tx_payload t = Some p" "wsize (Payload_Serialize (tx_payloadVersion t) p) n"
  shows "\<exists>size. Transaction_EstimateSize t = Ret size \<and>
    wsize (Transaction_Serialize t)
      (size - Payload_EstimateSize (tx_payloadVersion t) p + n + Transaction_uncounted t)"
proof -
  let ?ps = "map (\<lambda>p. bytes_EstimateSize (prog_parameter p) + bytes_EstimateSize (prog_code p)) (tx_programs t)"
  have progs: "map_outcome Program_EstimateSize (tx_programs t) = Ret ?ps"
    using short by (intro map_outcome_Ret Program_EstimateSize_signed) (auto simp: Transaction_short_def list_all_iff)
  have a: "wsize (write_items Attribute_Serialize (tx_attributes t))
      (WriteVarUint_count (word_of_nat (length (tx_attributes t))) +
       sum_list (map Attribute_EstimateSize (tx_attributes t)))"
    using short Attribute_size varint_gap_short
    by (intro wsize_items_short) (fastforce simp: Transaction_short_def list_all_iff intro: wsize_eq)+
  have i: "wsize (write_items TransactionInput_Serialize (tx_inputs t))
      (WriteVarUint_count (word_of_nat (length (tx_inputs t))) +
       sum_list (map TransactionInput_EstimateSize (tx_inputs t)))"
    using short by (intro wsize_items_short TransactionInput_size) (simp add: Transaction_short_def)
  have o: "wsize (write_items (TransactionOutput_Serialize (tx_version t)) (tx_outputs t))
      (WriteVarUint_count (word_of_nat (length (tx_outputs t))) +
       sum_list (map (\<lambda>out. TransactionOutput_EstimateSize out + (if TxVersion_V09 \<le> tx_version t
         then 1 + (case out_payload out of Some p \<Rightarrow> length (OutputPayload_bytes p) | None \<Rightarrow> 0) else 0))
         (tx_outputs t)))"
    using short fits
    by (intro wsize_items_short TransactionOutput_short_size)
      (auto simp: Transaction_short_def Transaction_fits_def list_all_iff)
  have g: "wsize (write_items Program_Serialize (tx_programs t))
      (WriteVarUint_count (word_of_nat (length (tx_programs t))) + sum_list ?ps)"
    using short
    by (intro wsize_items_short wsize_eq [OF Program_size])
      (auto simp: Transaction_short_def list_all_iff bytes_gap_def varint_gap_short)
  let ?size = "(if TxVersion_V09 \<le> tx_version t then 1 else 0) + 2 +
               Payload_EstimateSize (tx_payloadVersion t) p +
               WriteVarUint_count (word_of_nat (length (tx_attributes t))) +
               sum_list (map Attribute_EstimateSize (tx_attributes t)) +
               WriteVarUint_count (word_of_nat (length (tx_inputs t))) +
               sum_list (map TransactionInput_EstimateSize (tx_inputs t)) +
               WriteVarUint_count (word_of_nat (length (tx_outputs t))) +
               sum_list (map TransactionOutput_EstimateSize (tx_outputs t)) + 4 +
               WriteVarUint_count (word_of_nat (length (tx_programs t))) + sum_list ?ps"
  have est: "Transaction_EstimateSize t = Ret ?size"
    by (simp only: Transaction_EstimateSize_def p(1) option.case progs obind.simps)
  have w: "wsize (Transaction_Serialize t)
      ((if TxVersion_V09 \<le> tx_version t then 1 else 0) + 2 + n +
        (WriteVarUint_count (word_of_nat (length (tx_attributes t))) +
           sum_list (map Attribute_EstimateSize (tx_attributes t))) +
        (WriteVarUint_count (word_of_nat (length (tx_inputs t))) +
           sum_list (map TransactionInput_EstimateSize (tx_inputs t))) +
        (WriteVarUint_count (word_of_nat (length (tx_outputs t))) +
           sum_list (map TransactionOutput_EstimateSize (tx_outputs t)) + Transaction_uncounted t) + 4 +
        (WriteVarUint_count (word_of_nat (length (tx_programs t))) + sum_list ?ps))"
    unfolding Transaction_Serialize_def Transaction_SerializeUnsigned_def p(1) option.case
    by (rule wsize_eq, (rule a i o g p(2) size_intros)+)
      (simp add: sum_list_if Transaction_uncounted_def)
  have "wsize (Transaction_Serialize t)
      (?size - Payload_EstimateSize (tx_payloadVersion t) p + n + Transaction_uncounted t)"
    by (rule wsize_eq [OF w]) linarith
  with est show ?thesis by blast
qed

end
