(* ===== verification/HDKeychainM.thy ===== *)
theory HDKeychainM
  imports BigIntM UcharVector
begin

text \<open>
  Hierarchical keys: \<open>SDK/WalletCore/HDKeychain.cpp\<close>.  The curve arithmetic and the hashes are
  OpenSSL's and come in as the fields of \<open>hd_lib\<close>: \<open>ec_pubkey\<close> is \<open>secp256k1_key::setPrivKey\<close>
  followed by \<open>getPubKey\<close> (nothing when the library refuses the key), \<open>ec_point\<close> says which bytes
  \<open>EC_POINT_bn2point\<close> accepts, \<open>ec_add_base\<close> is the point \<open>n * G + K\<close> of \<open>generator_mul\<close> (nothing
  for the point at infinity), and the two version numbers are the static members \<open>setVersions\<close> sets.
  The theory shows that a public keychain derives the public keys of the private one, that the
  78-byte form holds the whole keychain, and that a path text stands for its numbers.
\<close>

datatype CoinType = CTElastos | CTBitcoin | CTUnknown

record hd_lib =
  ec_pubkey :: "CoinType \<Rightarrow> bytes \<Rightarrow> bytes option"
  ec_point :: "CoinType \<Rightarrow> bytes \<Rightarrow> bool"
  ec_add_base :: "CoinType \<Rightarrow> bytes \<Rightarrow> bytes \<Rightarrow> bytes option"
  hmac_sha512 :: "bytes \<Rightarrow> bytes \<Rightarrow> bytes"
  ripemd160_sha256 :: "bytes \<Rightarrow> bytes"
  priv_version :: u32
  pub_version :: u32

record HDKeychain =
  hd_type :: CoinType
  hd_valid :: bool
  hd_version :: u32
  hd_depth :: u8
  hd_parent_fp :: u32
  hd_child_num :: u32
  hd_chain_code :: bytes
  hd_key :: bytes
  hd_pubkey :: bytes

definition Elastos_CURVE_ORDER :: BigInt where
  "Elastos_CURVE_ORDER = 0xFFFFFFFF00000000FFFFFFFFFFFFFFFFBCE6FAADA7179E84F3B9CAC2FC632551"

definition Bitcoin_CURVE_ORDER :: BigInt where
  "Bitcoin_CURVE_ORDER = 0xFFFFFFFFFFFFFFFFFFFFFFFFFFFFFFFEBAAEDCE6AF48A03BBFD25E8CD0364141"

text \<open>\<open>_CURVE_ORDER\<close> is a function of the type of coin in every keychain that is made.\<close>

definition HDKeychain_FixCurveOrder :: "CoinType \<Rightarrow> BigInt" where
  "HDKeychain_FixCurveOrder type =
     (case type of CTElastos \<Rightarrow> Elastos_CURVE_ORDER | CTBitcoin \<Rightarrow> Bitcoin_CURVE_ORDER | CTUnknown \<Rightarrow> 0)"

text \<open>The members the default constructor leaves alone are zero here; an invalid keychain shows none.\<close>

definition HDKeychain_new :: HDKeychain where
  "HDKeychain_new = \<lparr>hd_type = CTElastos, hd_valid = False, hd_version = 0, hd_depth = 0, hd_parent_fp = 0,
     hd_child_num = 0, hd_chain_code = [], hd_key = [], hd_pubkey = []\<rparr>"

definition HDKeychain_isPrivate :: "HDKeychain \<Rightarrow> bool" where
  "HDKeychain_isPrivate k \<longleftrightarrow> length (hd_key k) = 33 \<and> hd_key k ! 0 = 0"

definition HDKeychain_updatePubkey :: "hd_lib \<Rightarrow> HDKeychain \<Rightarrow> HDKeychain outcome" where
  "HDKeychain_updatePubkey lib k =
     (if HDKeychain_isPrivate k
      then (case ec_pubkey lib (hd_type k) (drop 1 (hd_key k)) of
              None \<Rightarrow> Throw E_Key
            | Some pubkey \<Rightarrow> Ret (k\<lparr>hd_pubkey := pubkey\<rparr>))
      else Ret (k\<lparr>hd_pubkey := hd_key k\<rparr>))"

definition HDKeychain_of_key ::
    "hd_lib \<Rightarrow> CoinType \<Rightarrow> bytes \<Rightarrow> bytes \<Rightarrow> u32 \<Rightarrow> u32 \<Rightarrow> u32 \<Rightarrow> HDKeychain outcome" where
  "HDKeychain_of_key lib type key chain_code child_num parent_fp depth =
     (if length chain_code \<noteq> 32 then Throw E_Key
      else if length key = 32 \<and>
              (BigInt_setBytes key False \<ge> HDKeychain_FixCurveOrder type \<or> BigInt_setBytes key False = 0)
      then Throw E_Key
      else if length key = 33 \<and> \<not> ec_point lib type key then Throw E_Key
      else if length key \<noteq> 32 \<and> length key \<noteq> 33 then Throw E_Key
      else let key' = if length key = 32 then 0 # key else key;
               k = \<lparr>hd_type = type, hd_valid = True, hd_version = 0, hd_depth = ucast depth,
                    hd_parent_fp = parent_fp, hd_child_num = child_num, hd_chain_code = chain_code,
                    hd_key = key', hd_pubkey = []\<rparr>
           in HDKeychain_updatePubkey lib
                (k\<lparr>hd_version := if HDKeychain_isPrivate k then priv_version lib else pub_version lib\<rparr>))"

text \<open>Big-endian 32-bit numbers: what the shifts and masks of the code spell out.\<close>

definition be32_bytes :: "u32 \<Rightarrow> bytes" where
  "be32_bytes w = rev (le_bytes 4 w)"

definition be32_at :: "bytes \<Rightarrow> nat \<Rightarrow> u32" where
  "be32_at bs i = of_le (rev (take 4 (drop i bs)))"

definition HDKeychain_of_extkey :: "hd_lib \<Rightarrow> CoinType \<Rightarrow> bytes \<Rightarrow> HDKeychain outcome" where
  "HDKeychain_of_extkey lib type extkey =
     (if length extkey \<noteq> 78 then Throw E_Key
      else HDKeychain_updatePubkey lib
        \<lparr>hd_type = type, hd_valid = True, hd_version = be32_at extkey 0, hd_depth = extkey ! 4,
         hd_parent_fp = be32_at extkey 5, hd_child_num = be32_at extkey 9,
         hd_chain_code = take 32 (drop 13 extkey), hd_key = take 33 (drop 45 extkey), hd_pubkey = []\<rparr>)"

definition HDKeychain_extkey :: "HDKeychain \<Rightarrow> bytes" where
  "HDKeychain_extkey k =
     be32_bytes (hd_version k) @ [hd_depth k] @ be32_bytes (hd_parent_fp k) @ be32_bytes (hd_child_num k) @
     hd_chain_code k @ hd_key k"

text \<open>Assignment copies the members of a valid keychain and computes the public key again.\<close>

definition HDKeychain_assign :: "hd_lib \<Rightarrow> HDKeychain \<Rightarrow> HDKeychain \<Rightarrow> HDKeychain outcome" where
  "HDKeychain_assign lib this rhs =
     (let k = this\<lparr>hd_valid := hd_valid rhs, hd_type := hd_type rhs\<rparr> in
      if hd_valid rhs
      then HDKeychain_updatePubkey lib (k\<lparr>hd_version := hd_version rhs, hd_depth := hd_depth rhs,
             hd_parent_fp := hd_parent_fp rhs, hd_child_num := hd_child_num rhs,
             hd_chain_code := hd_chain_code rhs, hd_key := hd_key rhs\<rparr>)
      else Ret k)"

definition HDKeychain_eq :: "HDKeychain \<Rightarrow> HDKeychain \<Rightarrow> bool" where
  "HDKeychain_eq a b \<longleftrightarrow>
     hd_type a = hd_type b \<and> hd_valid a \<and> hd_valid b \<and> hd_version a = hd_version b \<and>
     hd_depth a = hd_depth b \<and> hd_parent_fp a = hd_parent_fp b \<and> hd_child_num a = hd_child_num b \<and>
     hd_chain_code a = hd_chain_code b \<and> hd_key a = hd_key b"

definition HDKeychain_privkey :: "HDKeychain \<Rightarrow> bytes" where
  "HDKeychain_privkey k = (if HDKeychain_isPrivate k then drop 1 (hd_key k) else [])"

definition HDKeychain_hash :: "hd_lib \<Rightarrow> HDKeychain \<Rightarrow> bytes" where
  "HDKeychain_hash lib k = ripemd160_sha256 lib (hd_pubkey k)"

definition HDKeychain_full_hash :: "hd_lib \<Rightarrow> HDKeychain \<Rightarrow> bytes" where
  "HDKeychain_full_hash lib k = ripemd160_sha256 lib (hd_pubkey k @ hd_chain_code k)"

definition HDKeychain_fp :: "hd_lib \<Rightarrow> HDKeychain \<Rightarrow> u32" where
  "HDKeychain_fp lib k = be32_at (HDKeychain_hash lib k) 0"

definition HDKeychain_getPublic :: "hd_lib \<Rightarrow> HDKeychain \<Rightarrow> HDKeychain outcome" where
  "HDKeychain_getPublic lib k =
     (if \<not> hd_valid k then Throw E_Key
      else Ret (k\<lparr>hd_version := pub_version lib, hd_key := hd_pubkey k\<rparr>))"

definition HDKeychain_getChild :: "hd_lib \<Rightarrow> HDKeychain \<Rightarrow> u32 \<Rightarrow> HDKeychain outcome" where
  "HDKeychain_getChild lib k i =
     (if \<not> hd_valid k then Throw E_Key
      else let priv_derivation = (0x80000000 AND i \<noteq> 0) in
      if \<not> HDKeychain_isPrivate k \<and> priv_derivation then Throw E_Key
      else let data = (if priv_derivation then hd_key k else hd_pubkey k) @ be32_bytes i;
               digest = hmac_sha512 lib (hd_chain_code k) data;
               left32 = take 32 digest;
               Il = BigInt_setBytes left32 False;
               order = HDKeychain_FixCurveOrder (hd_type k);
               child = \<lparr>hd_type = hd_type k, hd_valid = True, hd_version = hd_version k,
                        hd_depth = hd_depth k + 1, hd_parent_fp = HDKeychain_fp lib k, hd_child_num = i,
                        hd_chain_code = drop 32 digest, hd_key = [], hd_pubkey = []\<rparr>
           in if Il \<ge> order then Throw E_Key
              else if HDKeychain_isPrivate k
              then obind (BigInt_mod (BigInt_setBytes (hd_key k) False + Il) order) (\<lambda>n.
                if n = 0 then Throw E_Key
                else let child_key = BigInt_getBytes n False in
                     HDKeychain_updatePubkey lib
                       (child\<lparr>hd_key := replicate (33 - length child_key) 0 @ child_key\<rparr>))
              else (case ec_add_base lib (hd_type k) (hd_pubkey k) left32 of
                      None \<Rightarrow> Throw E_Key
                    | Some K \<Rightarrow> Ret (child\<lparr>hd_key := K, hd_pubkey := K\<rparr>)))"

definition HDKeychain_getChildNode :: "hd_lib \<Rightarrow> HDKeychain \<Rightarrow> u32 \<Rightarrow> bool \<Rightarrow> HDKeychain outcome" where
  "HDKeychain_getChildNode lib k i private_derivation =
     obind (HDKeychain_getChild lib k (if private_derivation then 0x80000000 else 0)) (\<lambda>c.
       HDKeychain_getChild lib c i)"

section \<open>Paths\<close>

text \<open>
  The loop over a path text; \<open>n\<close> is the number read so far, kept below \<open>2 ^ 31\<close> by the check, so the
  64-bit variable of the code never wraps.  A mark takes the slash behind it along.
\<close>

definition is_digit :: "char \<Rightarrow> bool" where
  "is_digit c \<longleftrightarrow> of_char CHR ''0'' \<le> (of_char c :: nat) \<and> of_char c \<le> (of_char CHR ''9'' :: nat)"

definition digit_value :: "char \<Rightarrow> nat" where
  "digit_value c = of_char c - of_char CHR ''0''"

function path_loop :: "string \<Rightarrow> nat \<Rightarrow> u32 list \<Rightarrow> u32 list outcome" where
  "path_loop [] n path_vector = Ret path_vector"
| "path_loop (c # cs) n path_vector =
     (if is_digit c
      then let n' = n * 10 + digit_value c in
           if n' \<ge> 0x80000000 then Throw E_Key
           else path_loop cs n' (if cs = [] then path_vector @ [word_of_nat n'] else path_vector)
      else if c = CHR 0x27
      then if cs \<noteq> [] \<and> (length cs < 2 \<or> cs ! 0 \<noteq> CHR ''/'' \<or> \<not> is_digit (cs ! 1)) then Throw E_Key
           else path_loop (drop 1 cs) 0 (path_vector @ [word_of_nat n OR 0x80000000])
      else if c = CHR ''/''
      then if cs = [] \<or> \<not> is_digit (cs ! 0) then Throw E_Key
           else path_loop cs 0 (path_vector @ [word_of_nat n])
      else Throw E_Key)"
  by pat_completeness auto
termination
  by (relation "measure (\<lambda>(cs, n, p). length cs)") (auto simp: less_Suc_eq_le)

declare path_loop.simps [simp del]

text \<open>The walk starts from a copy of the keychain and assigns each child in turn.\<close>

definition HDKeychain_copy :: "hd_lib \<Rightarrow> HDKeychain \<Rightarrow> HDKeychain outcome" where
  "HDKeychain_copy lib source = HDKeychain_assign lib HDKeychain_new source"

primrec getChild_loop :: "hd_lib \<Rightarrow> u32 list \<Rightarrow> HDKeychain \<Rightarrow> HDKeychain outcome" where
  "getChild_loop lib [] k = Ret k"
| "getChild_loop lib (n # ns) k =
     obind (HDKeychain_getChild lib k n) (\<lambda>c. obind (HDKeychain_assign lib k c) (getChild_loop lib ns))"

definition HDKeychain_getChild_path :: "hd_lib \<Rightarrow> HDKeychain \<Rightarrow> string \<Rightarrow> HDKeychain outcome" where
  "HDKeychain_getChild_path lib k path =
     (if path = [] then Throw E_Key
      else obind (path_loop path 0 []) (\<lambda>path_vector.
        obind (HDKeychain_copy lib k) (getChild_loop lib path_vector)))"

section \<open>Seeds\<close>

record HDSeed =
  seed_seed :: bytes
  seed_master_key :: bytes
  seed_chain_code :: bytes

definition BITCOIN_SEED :: bytes where
  "BITCOIN_SEED = [0x42, 0x69, 0x74, 0x63, 0x6f, 0x69, 0x6e, 0x20, 0x73, 0x65, 0x65, 0x64]"

definition HDSeed_of :: "hd_lib \<Rightarrow> bytes \<Rightarrow> HDSeed" where
  "HDSeed_of lib seed =
     (let hmac = hmac_sha512 lib BITCOIN_SEED seed
      in \<lparr>seed_seed = seed, seed_master_key = take 32 hmac, seed_chain_code = drop 32 hmac\<rparr>)"

definition HDSeed_getExtendedKey :: "hd_lib \<Rightarrow> HDSeed \<Rightarrow> CoinType \<Rightarrow> bool \<Rightarrow> bytes outcome" where
  "HDSeed_getExtendedKey lib s type bPrivate =
     obind (HDKeychain_of_key lib type (seed_master_key s) (seed_chain_code s) 0 0 0) (\<lambda>keychain.
       if \<not> bPrivate then obind (HDKeychain_getPublic lib keychain) (\<lambda>p. Ret (HDKeychain_extkey p))
       else Ret (HDKeychain_extkey keychain))"

section \<open>What the library promises\<close>

text \<open>
  \<open>be_pad\<close> is a number in a fixed count of big-endian bytes, as \<open>getChild\<close> pads it.  \<open>hd_lib_ok\<close>
  collects what the curve library is documented to do: digests of 64 bytes, compressed points of 33
  bytes that do not start with a zero, and a public key of a sum that is the sum of the points.
\<close>

definition be_pad :: "nat \<Rightarrow> BigInt \<Rightarrow> bytes" where
  "be_pad m n = replicate (m - length (BigInt_getBytes n False)) 0 @ BigInt_getBytes n False"

definition hd_lib_ok :: "hd_lib \<Rightarrow> bool" where
  "hd_lib_ok lib \<longleftrightarrow>
     (\<forall>key data. length (hmac_sha512 lib key data) = 64) \<and>
     (\<forall>t p K. ec_pubkey lib t p = Some K \<longrightarrow> length K = 33 \<and> K ! 0 \<noteq> 0) \<and>
     (\<forall>t K n K'. ec_add_base lib t K n = Some K' \<longrightarrow> length K' = 33 \<and> K' ! 0 \<noteq> 0) \<and>
     (\<forall>t p n K. t \<noteq> CTUnknown \<longrightarrow> length p = 32 \<longrightarrow> length n = 32 \<longrightarrow> ec_pubkey lib t p = Some K \<longrightarrow>
        ec_add_base lib t K n =
          (let s = (BigInt_setBytes p False + BigInt_setBytes n False) mod HDKeychain_FixCurveOrder t
           in if s = 0 then None else ec_pubkey lib t (be_pad 32 s)))"

text \<open>A keychain as the operations keep it.\<close>

definition hd_wf :: "hd_lib \<Rightarrow> HDKeychain \<Rightarrow> bool" where
  "hd_wf lib k \<longleftrightarrow>
     hd_valid k \<and> length (hd_key k) = 33 \<and> length (hd_chain_code k) = 32 \<and> length (hd_pubkey k) = 33 \<and>
     hd_pubkey k ! 0 \<noteq> 0 \<and> HDKeychain_updatePubkey lib k = Ret k"

lemma hd_lib_okD:
  assumes "hd_lib_ok lib"
  shows "length (hmac_sha512 lib key data) = 64"
    and "ec_pubkey lib t p = Some K \<Longrightarrow> length K = 33 \<and> K ! 0 \<noteq> 0"
    and "ec_add_base lib t K n = Some K' \<Longrightarrow> length K' = 33 \<and> K' ! 0 \<noteq> 0"
    and "t \<noteq> CTUnknown \<Longrightarrow> length p = 32 \<Longrightarrow> length n = 32 \<Longrightarrow> ec_pubkey lib t p = Some K \<Longrightarrow>
      ec_add_base lib t K n =
        (let s = (BigInt_setBytes p False + BigInt_setBytes n False) mod HDKeychain_FixCurveOrder t
         in if s = 0 then None else ec_pubkey lib t (be_pad 32 s))"
  using assms unfolding hd_lib_ok_def by blast+

lemma BigInt_setBytes_0: "BigInt_setBytes (0 # p) False = BigInt_setBytes p False"
  by (simp add: BigInt_setBytes_def nat_of_le_append)

lemma curve_order_pos: "t \<noteq> CTUnknown \<Longrightarrow> 0 < HDKeychain_FixCurveOrder t \<and> HDKeychain_FixCurveOrder t < 2 ^ 256"
  by (cases t) (simp_all add: HDKeychain_FixCurveOrder_def Elastos_CURVE_ORDER_def Bitcoin_CURVE_ORDER_def)

lemma length_getBytes:
  assumes "0 \<le> n" "n < 2 ^ 256"
  shows "length (BigInt_getBytes n False) \<le> 32"
proof -
  have "nat n < 256 ^ 32" using assms by simp
  then show ?thesis using assms(1) length_le_min [of "nat n" 32] by (simp add: BigInt_getBytes_def Let_def)
qed

lemma be_pad_33:
  assumes "0 \<le> n" "n < 2 ^ 256"
  shows "be_pad 33 n = 0 # be_pad 32 n" and "length (be_pad 32 n) = 32"
  using length_getBytes [OF assms] by (simp_all add: be_pad_def Suc_diff_le flip: replicate_Suc)

lemma BigInt_setBytes_pad:
  assumes "0 \<le> n"
  shows "BigInt_setBytes (be_pad m n) False = n"
proof -
  have z: "nat_of_le (replicate j 0) = 0" for j by (induction j) simp_all
  have "BigInt_setBytes (be_pad m n) False = BigInt_setBytes (BigInt_getBytes n False) False"
    by (simp add: be_pad_def BigInt_setBytes_def nat_of_le_append z)
  then show ?thesis using BigInt_set_getBytes [OF assms] by simp
qed


section \<open>Derivation keeps keychains well formed\<close>

lemma updatePubkey_private:
  assumes "HDKeychain_isPrivate k"
  shows "HDKeychain_updatePubkey lib k =
    (case ec_pubkey lib (hd_type k) (drop 1 (hd_key k)) of None \<Rightarrow> Throw E_Key
     | Some pubkey \<Rightarrow> Ret (k\<lparr>hd_pubkey := pubkey\<rparr>))"
  using assms by (simp add: HDKeychain_updatePubkey_def)

lemma isPrivate_simps [simp]:
  "HDKeychain_isPrivate (k\<lparr>hd_pubkey := p\<rparr>) = HDKeychain_isPrivate k"
  "HDKeychain_isPrivate (k\<lparr>hd_version := v\<rparr>) = HDKeychain_isPrivate k"
  by (simp_all add: HDKeychain_isPrivate_def)

lemma updatePubkey_wf:
  assumes lib: "hd_lib_ok lib" and k: "hd_valid k" "length (hd_key k) = 33" "length (hd_chain_code k) = 32"
    and u: "HDKeychain_updatePubkey lib k = Ret k'"
  shows "hd_wf lib k'"
proof (cases "HDKeychain_isPrivate k")
  case True
  then obtain pk where pk: "ec_pubkey lib (hd_type k) (drop 1 (hd_key k)) = Some pk" "k' = k\<lparr>hd_pubkey := pk\<rparr>"
    using u by (auto simp: updatePubkey_private split: option.splits)
  have "length pk = 33 \<and> pk ! 0 \<noteq> 0" by (rule hd_lib_okD(2) [OF lib pk(1)])
  then show ?thesis using k pk True by (simp add: hd_wf_def updatePubkey_private)
next
  case False
  then have "k' = k\<lparr>hd_pubkey := hd_key k\<rparr>" "hd_key k ! 0 \<noteq> 0"
    using u k(2) by (auto simp: HDKeychain_updatePubkey_def HDKeychain_isPrivate_def)
  then show ?thesis using k False by (simp add: hd_wf_def HDKeychain_updatePubkey_def)
qed

lemma hd_wf_private:
  assumes "hd_wf lib k" "HDKeychain_isPrivate k"
  shows "ec_pubkey lib (hd_type k) (drop 1 (hd_key k)) = Some (hd_pubkey k)"
proof (cases "ec_pubkey lib (hd_type k) (drop 1 (hd_key k))")
  case (Some pk)
  then have "k\<lparr>hd_pubkey := pk\<rparr> = k" using assms by (simp add: hd_wf_def updatePubkey_private)
  then have "hd_pubkey k = pk" by (metis HDKeychain.select_convs(9) HDKeychain.surjective HDKeychain.update_convs(9))
  then show ?thesis using Some by simp
qed (use assms in \<open>simp add: hd_wf_def updatePubkey_private\<close>)

lemma hd_wf_public:
  assumes "hd_wf lib k" "\<not> HDKeychain_isPrivate k"
  shows "hd_pubkey k = hd_key k"
  using assms
  by (simp add: hd_wf_def HDKeychain_updatePubkey_def)
    (metis HDKeychain.select_convs(9) HDKeychain.surjective HDKeychain.update_convs(9))

lemma HDKeychain_getPublic_wf:
  assumes "hd_wf lib k" "HDKeychain_getPublic lib k = Ret p"
  shows "hd_wf lib p" "\<not> HDKeychain_isPrivate p" "hd_pubkey p = hd_pubkey k"
  using assms
  by (auto simp: hd_wf_def HDKeychain_getPublic_def HDKeychain_isPrivate_def HDKeychain_updatePubkey_def)

lemma HDKeychain_assign_wf:
  assumes "hd_wf lib c"
  shows "HDKeychain_assign lib k c = Ret c"
proof -
  have "HDKeychain_assign lib k c = HDKeychain_updatePubkey lib (c\<lparr>hd_pubkey := hd_pubkey k\<rparr>)"
    using assms by (cases c, cases k) (simp add: HDKeychain_assign_def hd_wf_def)
  also have "\<dots> = Ret c"
  proof (cases "HDKeychain_isPrivate c")
    case True
    then show ?thesis using hd_wf_private [OF assms True] by (simp add: updatePubkey_private)
  next
    case False
    then have "HDKeychain_updatePubkey lib (c\<lparr>hd_pubkey := hd_pubkey k\<rparr>) = Ret (c\<lparr>hd_pubkey := hd_pubkey c\<rparr>)"
      using hd_wf_public [OF assms False] by (simp add: HDKeychain_updatePubkey_def)
    then show ?thesis by simp
  qed
  finally show ?thesis .
qed

text \<open>The steps of \<open>getChild\<close> on a private and on a public keychain.\<close>

lemma getChild_private:
  assumes wf: "hd_wf lib k" and priv: "HDKeychain_isPrivate k" and t: "hd_type k \<noteq> CTUnknown"
  defines "order \<equiv> HDKeychain_FixCurveOrder (hd_type k)"
  defines "digest i \<equiv> hmac_sha512 lib (hd_chain_code k)
    ((if 0x80000000 AND i \<noteq> 0 then hd_key k else hd_pubkey k) @ be32_bytes i)"
  defines "Il i \<equiv> BigInt_setBytes (take 32 (digest i)) False"
  defines "n i \<equiv> (BigInt_setBytes (drop 1 (hd_key k)) False + Il i) mod order"
  shows "HDKeychain_getChild lib k i =
    (if Il i \<ge> order \<or> n i = 0 then Throw E_Key
     else case ec_pubkey lib (hd_type k) (be_pad 32 (n i)) of None \<Rightarrow> Throw E_Key
       | Some K \<Rightarrow> Ret \<lparr>hd_type = hd_type k, hd_valid = True, hd_version = hd_version k,
           hd_depth = hd_depth k + 1, hd_parent_fp = HDKeychain_fp lib k, hd_child_num = i,
           hd_chain_code = drop 32 (digest i), hd_key = 0 # be_pad 32 (n i), hd_pubkey = K\<rparr>)"
proof -
  have o: "0 < order" "order < 2 ^ 256" using curve_order_pos [OF t] by (simp_all add: order_def)
  have n: "0 \<le> n i" "n i < 2 ^ 256"
    using o pos_mod_bound [OF o(1), of "BigInt_setBytes (drop 1 (hd_key k)) False + Il i"]
    by (auto simp: n_def simp del: pos_mod_bound)
  obtain ks where k: "hd_key k = 0 # ks"
    using priv by (cases "hd_key k") (auto simp: HDKeychain_isPrivate_def)
  have "0 \<le> BigInt_setBytes (hd_key k) False + Il i" by (simp add: Il_def BigInt_setBytes_def)
  then have "BigInt_mod (BigInt_setBytes (hd_key k) False + Il i) order = Ret (n i)"
    using o(1) by (auto simp: BigInt_mod_def n_def k BigInt_setBytes_0 signed_modulo_int_def sgn_if)
  moreover have "replicate (33 - length (BigInt_getBytes (n i) False)) 0 @ BigInt_getBytes (n i) False = 0 # be_pad 32 (n i)"
    using be_pad_33 [OF n] by (simp add: be_pad_def)
  ultimately show ?thesis
    using priv wf be_pad_33(2) [OF n]
    by (auto simp: HDKeychain_getChild_def Let_def hd_wf_def order_def digest_def Il_def HDKeychain_updatePubkey_def
        HDKeychain_isPrivate_def split: option.split)
qed

lemma getChild_public:
  assumes wf: "hd_wf lib k" and pub: "\<not> HDKeychain_isPrivate k"
  shows "HDKeychain_getChild lib k i =
    (if 0x80000000 AND i \<noteq> 0 \<or> BigInt_setBytes (take 32 (hmac_sha512 lib (hd_chain_code k) (hd_pubkey k @ be32_bytes i))) False
        \<ge> HDKeychain_FixCurveOrder (hd_type k) then Throw E_Key
     else case ec_add_base lib (hd_type k) (hd_pubkey k)
                 (take 32 (hmac_sha512 lib (hd_chain_code k) (hd_pubkey k @ be32_bytes i))) of
       None \<Rightarrow> Throw E_Key
     | Some K \<Rightarrow> Ret \<lparr>hd_type = hd_type k, hd_valid = True, hd_version = hd_version k,
         hd_depth = hd_depth k + 1, hd_parent_fp = HDKeychain_fp lib k, hd_child_num = i,
         hd_chain_code = drop 32 (hmac_sha512 lib (hd_chain_code k) (hd_pubkey k @ be32_bytes i)),
         hd_key = K, hd_pubkey = K\<rparr>)"
  using assms by (auto simp: HDKeychain_getChild_def Let_def hd_wf_def split: option.split)


lemma getChild_wf:
  assumes lib: "hd_lib_ok lib" and wf: "hd_wf lib k" and t: "hd_type k \<noteq> CTUnknown"
    and c: "HDKeychain_getChild lib k i = Ret c"
  shows "hd_wf lib c" "HDKeychain_isPrivate c = HDKeychain_isPrivate k" "hd_type c = hd_type k"
    "hd_depth c = hd_depth k + 1" "hd_child_num c = i" "hd_parent_fp c = HDKeychain_fp lib k"
proof -
  have len: "length (hmac_sha512 lib a b) = 64" for a b by (rule hd_lib_okD(1) [OF lib])
  have "hd_wf lib c \<and> HDKeychain_isPrivate c = HDKeychain_isPrivate k \<and> hd_type c = hd_type k \<and>
      hd_depth c = hd_depth k + 1 \<and> hd_child_num c = i \<and> hd_parent_fp c = HDKeychain_fp lib k"
  proof (cases "HDKeychain_isPrivate k")
    case True
    have "length (be_pad 32 (x mod HDKeychain_FixCurveOrder (hd_type k))) = 32" for x
      using curve_order_pos [OF t] pos_mod_bound [of "HDKeychain_FixCurveOrder (hd_type k)" x]
      by (intro be_pad_33) (auto simp del: pos_mod_bound)
    then show ?thesis
      using c True [unfolded HDKeychain_isPrivate_def] hd_lib_okD(2) [OF lib] unfolding getChild_private [OF wf True t]
      by (auto simp: True hd_wf_def updatePubkey_private HDKeychain_isPrivate_def len split: if_splits option.splits)
  next
    case False
    then show ?thesis
      using c hd_lib_okD(3) [OF lib] unfolding getChild_public [OF wf False]
      by (auto simp: hd_wf_def HDKeychain_updatePubkey_def HDKeychain_isPrivate_def len split: if_splits option.splits)
  qed
  then show "hd_wf lib c" "HDKeychain_isPrivate c = HDKeychain_isPrivate k" "hd_type c = hd_type k"
    "hd_depth c = hd_depth k + 1" "hd_child_num c = i" "hd_parent_fp c = HDKeychain_fp lib k" by blast+
qed

text \<open>
  A watch-only keychain follows the private one: for an index below \<open>2 ^ 31\<close> the public part of the
  child is the child of the public part, and both derivations fail together.
\<close>

lemma getChild_getPublic:
  assumes lib: "hd_lib_ok lib" and wf: "hd_wf lib k" and priv: "HDKeychain_isPrivate k"
    and t: "hd_type k \<noteq> CTUnknown" and i: "0x80000000 AND i = 0"
  shows "obind (HDKeychain_getChild lib k i) (HDKeychain_getPublic lib) =
    obind (HDKeychain_getPublic lib k) (\<lambda>p. HDKeychain_getChild lib p i)"
proof -
  let ?n = "take 32 (hmac_sha512 lib (hd_chain_code k) (hd_pubkey k @ be32_bytes i))"
  obtain p where p: "HDKeychain_getPublic lib k = Ret p"
    "p = k\<lparr>hd_version := pub_version lib, hd_key := hd_pubkey k\<rparr>"
    using wf by (simp add: HDKeychain_getPublic_def hd_wf_def)
  note pw = HDKeychain_getPublic_wf [OF wf p(1)]
  have "length (drop 1 (hd_key k)) = 32" "length ?n = 32"
    using wf hd_lib_okD(1) [OF lib] by (simp_all add: hd_wf_def)
  from hd_lib_okD(4) [OF lib t this hd_wf_private [OF wf priv]]
  show ?thesis
    unfolding p(1) obind.simps getChild_public [OF pw(1,2)] getChild_private [OF wf priv t]
    using i by (auto simp: p(2) HDKeychain_getPublic_def HDKeychain_fp_def HDKeychain_hash_def Let_def
        split: option.splits)
qed

lemma getChild_hardened_public:
  assumes "\<not> HDKeychain_isPrivate k" and "0x80000000 AND i \<noteq> 0"
  shows "HDKeychain_getChild lib k i = Throw E_Key"
  using assms by (simp add: HDKeychain_getChild_def Let_def)

section \<open>Walks\<close>

lemma getChild_loop_wf:
  assumes lib: "hd_lib_ok lib"
  shows "hd_wf lib k \<Longrightarrow> hd_type k \<noteq> CTUnknown \<Longrightarrow> getChild_loop lib ns k = Ret c \<Longrightarrow>
    hd_wf lib c \<and> HDKeychain_isPrivate c = HDKeychain_isPrivate k \<and> hd_type c = hd_type k"
proof (induction ns arbitrary: k)
  case (Cons n ns)
  then obtain d where d: "HDKeychain_getChild lib k n = Ret d"
    and r: "obind (HDKeychain_assign lib k d) (getChild_loop lib ns) = Ret c"
    by (auto simp: obind_eq_Ret)
  note w = getChild_wf [OF lib Cons.prems(1,2) d]
  have "getChild_loop lib ns d = Ret c" using r HDKeychain_assign_wf [OF w(1)] by simp
  then show ?case using Cons.IH [OF w(1)] w Cons.prems(2) by simp
qed simp

text \<open>A path without hardened steps: the public part of the end is the end of the public walk.\<close>

lemma getChild_loop_getPublic:
  assumes lib: "hd_lib_ok lib"
  shows "hd_wf lib k \<Longrightarrow> HDKeychain_isPrivate k \<Longrightarrow> hd_type k \<noteq> CTUnknown \<Longrightarrow>
    list_all (\<lambda>i. 0x80000000 AND i = 0) ns \<Longrightarrow>
    obind (getChild_loop lib ns k) (HDKeychain_getPublic lib) =
    obind (HDKeychain_getPublic lib k) (getChild_loop lib ns)"
proof (induction ns arbitrary: k)
  case Nil
  then show ?case by (cases "HDKeychain_getPublic lib k") auto
next
  case (Cons n ns)
  obtain p where p: "HDKeychain_getPublic lib k = Ret p" "hd_type p = hd_type k"
    using Cons.prems(1) by (simp add: HDKeychain_getPublic_def hd_wf_def)
  note pw = HDKeychain_getPublic_wf [OF Cons.prems(1) p(1)]
  have n: "0x80000000 AND n = 0" "list_all (\<lambda>i. 0x80000000 AND i = 0) ns" using Cons.prems(4) by simp_all
  have "HDKeychain_getChild lib p n = obind (HDKeychain_getChild lib k n) (HDKeychain_getPublic lib)"
    using getChild_getPublic [OF lib Cons.prems(1-3) n(1)] p(1) by simp
  moreover have "\<exists>q. HDKeychain_getPublic lib d = Ret q \<and>
      obind (obind (HDKeychain_assign lib k d) (getChild_loop lib ns)) (HDKeychain_getPublic lib) =
      obind (HDKeychain_assign lib p q) (getChild_loop lib ns)"
    if d: "HDKeychain_getChild lib k n = Ret d" for d
  proof -
    note w = getChild_wf [OF lib Cons.prems(1,3) d]
    obtain q where q: "HDKeychain_getPublic lib d = Ret q"
      using w(1) by (simp add: HDKeychain_getPublic_def hd_wf_def)
    have "obind (getChild_loop lib ns d) (HDKeychain_getPublic lib) = getChild_loop lib ns q"
      using Cons.IH [of d] w Cons.prems(2,3) n(2) q by simp
    then show ?thesis
      using q HDKeychain_assign_wf [OF w(1)] HDKeychain_assign_wf [OF HDKeychain_getPublic_wf(1) [OF w(1) q]] by simp
  qed
  ultimately show ?case
    using p(1) by (cases "HDKeychain_getChild lib k n") auto
qed

lemma getChild_loop_append:
  "getChild_loop lib (ms @ ns) k = obind (getChild_loop lib ms k) (getChild_loop lib ns)"
proof (induction ms arbitrary: k)
  case (Cons a ms)
  have "getChild_loop lib (ms @ ns) = (\<lambda>k. obind (getChild_loop lib ms k) (getChild_loop lib ns))"
    by (rule ext) (rule Cons.IH)
  then show ?case by (simp add: obind_assoc)
qed simp

lemma getChild_path_eq:
  assumes "hd_wf lib k" and "path \<noteq> []"
  shows "HDKeychain_getChild_path lib k path = obind (path_loop path 0 []) (\<lambda>ns. getChild_loop lib ns k)"
  using assms HDKeychain_assign_wf [OF assms(1)] by (simp add: HDKeychain_getChild_path_def HDKeychain_copy_def)

lemma getChild_single:
  assumes lib: "hd_lib_ok lib" and wf: "hd_wf lib k" and t: "hd_type k \<noteq> CTUnknown"
  shows "getChild_loop lib [n] k = HDKeychain_getChild lib k n"
proof (cases "HDKeychain_getChild lib k n")
  case (Ret c)
  then show ?thesis using HDKeychain_assign_wf [OF getChild_wf(1) [OF lib wf t Ret]] by simp
qed simp_all

section \<open>The 78-byte form\<close>

lemma length_be32 [simp]: "length (be32_bytes w) = 4"
  by (simp add: be32_bytes_def)

lemma be32_at_bytes:
  assumes "take 4 (drop i bs) = be32_bytes w"
  shows "be32_at bs i = w"
  using assms by (simp add: be32_at_def be32_bytes_def of_le_le_bytes)

lemma HDKeychain_extkey_roundtrip:
  assumes "hd_wf lib k"
  shows "HDKeychain_of_extkey lib (hd_type k) (HDKeychain_extkey k) = Ret k"
proof -
  define x where "x = HDKeychain_extkey k"
  have len: "length (hd_chain_code k) = 32" "length (hd_key k) = 33" using assms by (simp_all add: hd_wf_def)
  have "be32_at x 0 = hd_version k" "be32_at x 5 = hd_parent_fp k" "be32_at x 9 = hd_child_num k"
    by (rule be32_at_bytes, simp add: HDKeychain_extkey_def x_def)+
  moreover have "x ! 4 = hd_depth k" "take 32 (drop 13 x) = hd_chain_code k" "drop 45 x = hd_key k"
    "length x = 78"
    using len by (simp_all add: HDKeychain_extkey_def nth_append x_def)
  ultimately have "HDKeychain_of_extkey lib (hd_type k) x = HDKeychain_assign lib
      (HDKeychain_new\<lparr>hd_pubkey := []\<rparr>) k"
    using assms len(2)
    by (simp add: HDKeychain_of_extkey_def HDKeychain_assign_def HDKeychain_new_def hd_wf_def)
  then show ?thesis using HDKeychain_assign_wf [OF assms] by (simp add: x_def)
qed

lemma HDKeychain_of_key_wf:
  assumes lib: "hd_lib_ok lib" and k: "HDKeychain_of_key lib type key chain_code n fp d = Ret k"
  shows "hd_wf lib k" "hd_type k = type" "length key = 32 \<Longrightarrow> HDKeychain_isPrivate k"
proof -
  obtain k0 where k0: "HDKeychain_updatePubkey lib k0 = Ret k" "hd_valid k0" "length (hd_key k0) = 33"
    "length (hd_chain_code k0) = 32" "hd_type k0 = type" "length key = 32 \<Longrightarrow> HDKeychain_isPrivate k0"
    using k by (auto simp: HDKeychain_of_key_def Let_def HDKeychain_isPrivate_def split: if_splits)
  then show "hd_wf lib k" by (intro updatePubkey_wf [OF lib])
  show "hd_type k = type" "length key = 32 \<Longrightarrow> HDKeychain_isPrivate k"
    using k0 by (auto simp: HDKeychain_updatePubkey_def HDKeychain_isPrivate_def split: if_splits option.splits)
qed


section \<open>The text of a path\<close>

text \<open>The text that names a list of child numbers: decimals, a mark behind the hardened ones.\<close>

fun dec_text :: "nat \<Rightarrow> string" where
  "dec_text n = (if n < 10 then [char_of (48 + n)] else dec_text (n div 10) @ [char_of (48 + n mod 10)])"

declare dec_text.simps [simp del]

definition path_item :: "u32 \<Rightarrow> string" where
  "path_item w = dec_text (unat w mod 2 ^ 31) @ (if 0x80000000 AND w \<noteq> 0 then [CHR 0x27] else [])"

fun path_text :: "u32 list \<Rightarrow> string" where
  "path_text [] = []"
| "path_text [w] = path_item w"
| "path_text (w # ws) = path_item w @ CHR ''/'' # path_text ws"

definition digits_value :: "nat \<Rightarrow> string \<Rightarrow> nat" where
  "digits_value m ds = foldl (\<lambda>v c. v * 10 + digit_value c) m ds"

lemma digit_char:
  assumes "d < 10"
  shows "is_digit (char_of (48 + d :: nat))" "digit_value (char_of (48 + d)) = d"
  using assms by (simp_all add: is_digit_def digit_value_def)

lemma digits_value_ge: "m \<le> digits_value m ds"
proof (induction ds arbitrary: m)
  case (Cons c ds)
  have "m \<le> m * 10 + digit_value c" by simp
  then show ?case using Cons [of "m * 10 + digit_value c"] by (simp add: digits_value_def)
qed (simp add: digits_value_def)

lemma dec_text_digits:
  "dec_text n \<noteq> [] \<and> list_all is_digit (dec_text n) \<and> digits_value 0 (dec_text n) = n"
proof (induction n rule: dec_text.induct)
  case (1 n)
  show ?case
  proof (cases "n < 10")
    case True
    then show ?thesis using digit_char [OF True] by (simp add: dec_text.simps [of n] digits_value_def)
  next
    case False
    have d: "n mod 10 < 10" by simp
    show ?thesis
      using 1 [OF False] digit_char [OF d] False
      by (simp add: dec_text.simps [of n] digits_value_def)
  qed
qed

lemma path_loop_digits:
  assumes "list_all is_digit ds" "ds \<noteq> []" "digits_value m ds < 2 ^ 31"
  shows "path_loop (ds @ rest) m acc =
    (if rest = [] then Ret (acc @ [word_of_nat (digits_value m ds)]) else path_loop rest (digits_value m ds) acc)"
  using assms
proof (induction ds arbitrary: m)
  case (Cons c ds)
  let ?m = "m * 10 + digit_value c"
  have v: "digits_value m (c # ds) = digits_value ?m ds" by (simp add: digits_value_def)
  then have le: "?m < 2 ^ 31" using Cons.prems(3) digits_value_ge [of ?m ds] by simp
  show ?case
  proof (cases "ds = []")
    case True
    then show ?thesis using Cons.prems le v by (auto simp: path_loop.simps Let_def digits_value_def)
  next
    case False
    then have "path_loop ((c # ds) @ rest) m acc = path_loop (ds @ rest) ?m acc"
      using Cons.prems(1) le by (simp add: path_loop.simps Let_def)
    then show ?thesis using Cons.IH [of ?m] Cons.prems False v by simp
  qed
qed simp

lemma is_digit_sep: "\<not> is_digit CHR 0x27" "\<not> is_digit CHR ''/''"
  by (simp_all add: is_digit_def)

lemma u32_hardened:
  fixes w :: u32
  shows "0x80000000 AND w \<noteq> 0 \<longleftrightarrow> 2 ^ 31 \<le> unat w"
    and "2 ^ 31 \<le> unat w \<Longrightarrow> word_of_nat (unat w mod 2 ^ 31) OR 0x80000000 = w"
proof -
  have e: "(0x80000000 :: u32) = 2 ^ 31" by simp
  have b: "bit w 31 \<longleftrightarrow> 2 ^ 31 \<le> unat w"
  proof -
    have "bit w 31 \<longleftrightarrow> bit (unat w) 31" by (simp add: bit_unsigned_iff)
    then have "bit w 31 \<longleftrightarrow> odd (unat w div 2 ^ 31)" by (simp only: bit_iff_odd)
    moreover have "unat w div 2 ^ 31 < 2" using unat_bound [of w] by (simp add: less_mult_imp_div_less)
    ultimately show ?thesis by (auto simp: less_2_cases_iff div_eq_0_iff) 
  qed
  show "0x80000000 AND w \<noteq> 0 \<longleftrightarrow> 2 ^ 31 \<le> unat w"
    unfolding b [symmetric] e using and_exp_eq_0_iff_not_bit [of w 31] by (simp only: and.commute) simp
  show "word_of_nat (unat w mod 2 ^ 31) OR 0x80000000 = w" if "2 ^ 31 \<le> unat w"
  proof (rule bit_word_eqI)
    fix n assume n: "n < LENGTH(32)"
    have t: "(word_of_nat (unat w mod 2 ^ 31) :: u32) = take_bit 31 w"
      unfolding take_bit_eq_mod [symmetric] by (simp add: of_nat_take_bit)
    have "bit (2 ^ 31 :: u32) n \<longleftrightarrow> n = 31" using n by (auto simp only: bit_exp_iff) simp
    moreover have "n < 31 \<or> n = 31" using n by (simp, linarith)
    ultimately show "bit (word_of_nat (unat w mod 2 ^ 31) OR 0x80000000 :: u32) n \<longleftrightarrow> bit w n"
      unfolding t e bit_or_iff bit_take_bit_iff using that b by blast
  qed
qed

lemma path_item_loop:
  assumes "rest = [] \<or> (\<exists>c r. rest = CHR ''/'' # c # r \<and> is_digit c)"
  shows "path_loop (path_item w @ rest) 0 acc =
    (if rest = [] then Ret (acc @ [w]) else path_loop (drop 1 rest) 0 (acc @ [w]))"
proof -
  define v where "v = unat w mod 2 ^ 31"
  have v: "v < 2 ^ 31" by (simp add: v_def)
  note t = dec_text_digits [of v]
  note d = path_loop_digits [of "dec_text v" 0 _ acc]
  show ?thesis
  proof (cases "2 ^ 31 \<le> unat w")
    case True
    have h: "word_of_nat v OR 0x80000000 = w" unfolding v_def by (rule u32_hardened(2) [OF True])
    have "path_loop (path_item w @ rest) 0 acc = path_loop (CHR 0x27 # rest) v acc"
      using d [of "CHR 0x27 # rest"] t v True u32_hardened(1) [of w] by (simp add: path_item_def v_def)
    also have "\<dots> = path_loop (drop 1 rest) 0 (acc @ [w])"
      using assms h is_digit_sep by (auto simp: path_loop.simps(2) [of "CHR 0x27"])
    finally show ?thesis by (simp add: path_loop.simps)
  next
    case False
    then have u: "unat w = v" by (simp add: v_def)
    then have i: "word_of_nat v = w" by (simp flip: u)
    have e: "path_loop (path_item w @ rest) 0 acc = path_loop (dec_text v @ rest) 0 acc"
      using False u32_hardened(1) [of w] by (simp add: path_item_def v_def)
    show ?thesis
    proof (cases "rest = []")
      case True
      then show ?thesis unfolding e using d [of "[]"] t v i by simp
    next
      case False
      then obtain c r where r: "rest = CHR ''/'' # c # r" "is_digit c" using assms by blast
      have "path_loop (dec_text v @ rest) 0 acc = path_loop rest v acc" using d [of rest] t v False by simp
      also have "\<dots> = path_loop (c # r) 0 (acc @ [w])"
        using r is_digit_sep i by (simp add: path_loop.simps(2) [of "CHR ''/''"])
      finally show ?thesis unfolding e using r by simp
    qed
  qed
qed

lemma path_text_digit: "ns \<noteq> [] \<Longrightarrow> \<exists>c r. path_text ns = c # r \<and> is_digit c"
proof (cases ns rule: path_text.cases)
  case (2 w)
  then show ?thesis using dec_text_digits [of "unat w mod 2 ^ 31"]
    by (cases "dec_text (unat w mod 2 ^ 31)") (auto simp: path_item_def)
next
  case (3 w x ws)
  then show ?thesis using dec_text_digits [of "unat w mod 2 ^ 31"]
    by (cases "dec_text (unat w mod 2 ^ 31)") (auto simp: path_item_def)
qed simp

lemma path_loop_text: "ns \<noteq> [] \<Longrightarrow> path_loop (path_text ns) 0 acc = Ret (acc @ ns)"
proof (induction ns arbitrary: acc rule: path_text.induct)
  case (2 w)
  then show ?case using path_item_loop [of "[]" w acc] by simp
next
  case (3 w x ws)
  obtain c r where t: "path_text (x # ws) = c # r" "is_digit c" using path_text_digit [of "x # ws"] by auto
  have "path_loop (path_text (w # x # ws)) 0 acc = path_loop (path_text (x # ws)) 0 (acc @ [w])"
    using path_item_loop [of "CHR ''/'' # path_text (x # ws)" w acc] t by simp
  then show ?case using "3.IH" [of "acc @ [w]"] by simp
qed simp

end
