(* ===== verification/MnemonicM.thy ===== *)
theory MnemonicM
  imports HDKeychainM
begin

text \<open>
  Mnemonic sentences: \<open>SDK/WalletCore/Mnemonic.cpp\<close>.  The word lists (\<open>Dictionary*.cpp\<close>, data of
  exactly \<open>DictionarySize\<close> words) are an argument, as they are in the code; SHA-256 and HMAC come from
  OpenSSL, the Unicode normal form from utf8proc, splitting and joining from boost: they are
  parameters.  \<open>Undef\<close> stands for a read behind the end of a buffer and for a loop that does nothing
  but go on for ever.  The theory shows that a sentence stands for its entropy and that a sentence is
  valid exactly when its entropy spells it.
\<close>

type_synonym Dictionary = "string list"

definition MnemonicSeedMultiple :: nat where "MnemonicSeedMultiple = 4"
definition ByteBits :: nat where "ByteBits = 8"
definition EntropyBitDivisor :: nat where "EntropyBitDivisor = 32"
definition BitsPerWord :: nat where "BitsPerWord = 11"
definition MnemonicWordMultiple :: nat where "MnemonicWordMultiple = 3"
definition DictionarySize :: nat where "DictionarySize = 2048"

lemmas mnemonic_sizes =
  MnemonicSeedMultiple_def ByteBits_def EntropyBitDivisor_def BitsPerWord_def MnemonicWordMultiple_def
  DictionarySize_def

definition Bip39Shift :: "nat \<Rightarrow> u8" where
  "Bip39Shift b = push_bit (ByteBits - b mod ByteBits - 1) 1"

section \<open>From entropy to words\<close>

text \<open>The inner loop: \<open>n\<close> bits of \<open>data\<close> from bit \<open>b\<close> on, the first one the most significant.\<close>

primrec position_loop :: "bytes \<Rightarrow> nat \<Rightarrow> nat \<Rightarrow> nat \<Rightarrow> nat outcome" where
  "position_loop data b 0 position = Ret position"
| "position_loop data b (Suc n) position =
     (let byte = b div ByteBits in
      if length data \<le> byte then Undef
      else position_loop data (Suc b) n
             (push_bit 1 position + (if data ! byte AND Bip39Shift b > 0 then 1 else 0)))"

text \<open>The outer loop; \<open>None\<close> is the early return of the empty list.\<close>

primrec Create_loop :: "Dictionary \<Rightarrow> bytes \<Rightarrow> nat list \<Rightarrow> string list \<Rightarrow> string list option outcome" where
  "Create_loop lexicon data [] words = Ret (Some words)"
| "Create_loop lexicon data (word # ws) words =
     obind (position_loop data (word * BitsPerWord) BitsPerWord 0) (\<lambda>position.
       if position \<ge> DictionarySize then Ret None
       else Create_loop lexicon data ws (words @ [lexicon ! position]))"

definition Mnemonic_Create :: "(bytes \<Rightarrow> bytes) \<Rightarrow> bytes \<Rightarrow> Dictionary \<Rightarrow> string list outcome" where
  "Mnemonic_Create sha256 entropy lexicon =
     (if length entropy mod MnemonicSeedMultiple \<noteq> 0 then Ret []
      else let entropyBits = length entropy * ByteBits;
               checkBits = entropyBits div EntropyBitDivisor;
               totalBits = entropyBits + checkBits;
               wordCount = totalBits div BitsPerWord
           in if totalBits mod BitsPerWord \<noteq> 0 \<or> wordCount mod MnemonicWordMultiple \<noteq> 0 then Ret []
              else obind (Create_loop lexicon (entropy @ sha256 entropy) [0..<wordCount] []) (\<lambda>r.
                case r of None \<Rightarrow> Ret []
                | Some words \<Rightarrow>
                    (let last_bit = wordCount * BitsPerWord - 1
                     in if length words \<noteq> (last_bit + 1) div BitsPerWord then Ret [] else Ret words)))"

section \<open>From words to entropy\<close>

definition INT32_MAX :: nat where "INT32_MAX = 2147483647"

definition FindPosition :: "string list \<Rightarrow> string \<Rightarrow> int" where
  "FindPosition xs v =
     (if v \<notin> set xs then - 1
      else if length xs > INT32_MAX then - 1
      else int (length (takeWhile (\<lambda>x. x \<noteq> v) xs)))"

primrec Entropy_bits :: "int \<Rightarrow> nat list \<Rightarrow> nat \<Rightarrow> bytes \<Rightarrow> bytes" where
  "Entropy_bits position [] b data = data"
| "Entropy_bits position (loop # loops) b data =
     Entropy_bits position loops (Suc b)
       (if position AND push_bit (BitsPerWord - loop - 1) 1 \<noteq> 0
        then data[b div ByteBits := data ! (b div ByteBits) OR Bip39Shift b] else data)"

primrec Entropy_loop :: "Dictionary \<Rightarrow> string list \<Rightarrow> nat \<Rightarrow> bytes \<Rightarrow> bytes option" where
  "Entropy_loop lexicon [] b data = Some data"
| "Entropy_loop lexicon (word # words) b data =
     (let position = FindPosition lexicon word in
      if position = - 1 then None
      else Entropy_loop lexicon words (b + BitsPerWord)
             (Entropy_bits position [0..<BitsPerWord] b data))"

definition Mnemonic_Entropy :: "string list \<Rightarrow> Dictionary \<Rightarrow> bytes" where
  "Mnemonic_Entropy words lexicon =
     (let wordCount = length words in
      if wordCount mod MnemonicWordMultiple \<noteq> 0 then []
      else let totalBits = BitsPerWord * wordCount;
               checkBits = totalBits div (EntropyBitDivisor + 1);
               entropyBits = totalBits - checkBits
           in if entropyBits mod ByteBits \<noteq> 0 then []
              else case Entropy_loop lexicon words 0 (replicate ((totalBits + ByteBits - 1) div ByteBits) 0) of
                     None \<Rightarrow> []
                   | Some data \<Rightarrow> take (entropyBits div ByteBits) data)"

section \<open>Validation\<close>

text \<open>\<open>std::equal\<close> over the first range: the second one is read as far as the first one goes.\<close>

fun std_equal :: "'a list \<Rightarrow> 'a list \<Rightarrow> bool outcome" where
  "std_equal [] ys = Ret True"
| "std_equal (x # xs) [] = Undef"
| "std_equal (x # xs) (y # ys) = (if x = y then std_equal xs ys else Ret False)"

definition Mnemonic_Validate :: "(bytes \<Rightarrow> bytes) \<Rightarrow> string list \<Rightarrow> Dictionary \<Rightarrow> bool outcome" where
  "Mnemonic_Validate sha256 words lexicon =
     (let entropy = Mnemonic_Entropy words lexicon in
      if entropy = [] then Ret False
      else obind (Mnemonic_Create sha256 entropy lexicon) (\<lambda>mnemonic. std_equal mnemonic words))"

primrec Mnemonic_Validate_any ::
    "(bytes \<Rightarrow> bytes) \<Rightarrow> string list \<Rightarrow> (string \<times> Dictionary) list \<Rightarrow> bool outcome" where
  "Mnemonic_Validate_any sha256 words [] = Ret False"
| "Mnemonic_Validate_any sha256 words (lexicon # lexicons) =
     obind (Mnemonic_Validate sha256 words (snd lexicon)) (\<lambda>b.
       if b then Ret True else Mnemonic_Validate_any sha256 words lexicons)"

section \<open>Sentences and seeds\<close>

text \<open>
  \<open>text_split\<close> is \<open>split\<close> at blanks and line ends with the empty tokens erased, \<open>text_join\<close> is
  \<open>join\<close> with a blank, \<open>text_nfkd\<close> the compatibility normal form.
\<close>

record text_lib =
  text_nfkd :: "string \<Rightarrow> string"
  text_split :: "string \<Rightarrow> string list"
  text_join :: "string list \<Rightarrow> string"
  text_sha256 :: "bytes \<Rightarrow> bytes"
  text_hmac512 :: "bytes \<Rightarrow> bytes \<Rightarrow> bytes"
  text_lexicons :: "(string \<times> Dictionary) list"

definition to_lower :: "char \<Rightarrow> char" where
  "to_lower c = (if of_char c \<in> {65..90 :: nat} then char_of (of_char c + 32 :: nat) else c)"

definition Mnemonic_generate :: "text_lib \<Rightarrow> (nat \<Rightarrow> bytes) \<Rightarrow> string \<Rightarrow> nat \<Rightarrow> string outcome" where
  "Mnemonic_generate lib GetRandom language wordCount =
     (if wordCount \<notin> {12, 15, 18, 21, 24} then Throw E_InvalidMnemonicWordCount
      else let entropyBits = (if wordCount = 12 then 128 else if wordCount = 15 then 160
                              else if wordCount = 18 then 192 else if wordCount = 21 then 224 else 256);
               entropy = GetRandom (entropyBits div 8)
           in case map_of (text_lexicons lib) (map to_lower language) of
                None \<Rightarrow> Throw E_InvalidArgument
              | Some lexicon \<Rightarrow>
                  omap (text_join lib) (Mnemonic_Create (text_sha256 lib) entropy lexicon))"

definition Mnemonic_Entropy_text :: "text_lib \<Rightarrow> string \<Rightarrow> Dictionary \<Rightarrow> bytes" where
  "Mnemonic_Entropy_text lib mnemonic lexicon =
     Mnemonic_Entropy (text_split lib (text_nfkd lib mnemonic)) lexicon"

definition Mnemonic_Validate_text :: "text_lib \<Rightarrow> string \<Rightarrow> bool outcome" where
  "Mnemonic_Validate_text lib mnemonic =
     Mnemonic_Validate_any (text_sha256 lib) (text_split lib (text_nfkd lib mnemonic)) (text_lexicons lib)"

definition uint512_of_bytes :: "bytes \<Rightarrow> uint512" where
  "uint512_of_bytes vch = (if length vch = 64 then of_le vch else 0)"

text \<open>The rounds of one block, and the loop over the blocks.\<close>

primrec PBKDF2_rounds :: "(bytes \<Rightarrow> bytes \<Rightarrow> bytes) \<Rightarrow> bytes \<Rightarrow> nat \<Rightarrow> bytes \<Rightarrow> bytes \<Rightarrow> bytes" where
  "PBKDF2_rounds hmac pw 0 U T = T"
| "PBKDF2_rounds hmac pw (Suc r) U T =
     (let U' = hmac pw U in PBKDF2_rounds hmac pw r U' (map2 (XOR) T U'))"

definition PBKDF2_block :: "(bytes \<Rightarrow> bytes \<Rightarrow> bytes) \<Rightarrow> bytes \<Rightarrow> bytes \<Rightarrow> nat \<Rightarrow> u32 \<Rightarrow> bytes" where
  "PBKDF2_block hmac pw salt rounds i =
     (let U = hmac pw (salt @ be32_bytes (i + 1)) in PBKDF2_rounds hmac pw (rounds - 1) U U)"

function PBKDF2_loop ::
    "(bytes \<Rightarrow> bytes \<Rightarrow> bytes) \<Rightarrow> bytes \<Rightarrow> bytes \<Rightarrow> nat \<Rightarrow> u32 \<Rightarrow> nat \<Rightarrow> bytes \<Rightarrow> bytes outcome" where
  "PBKDF2_loop hmac pw salt rounds i keyLen k =
     (if keyLen = 0 then Ret k
      else let T = PBKDF2_block hmac pw salt rounds i in
           if T = [] then Undef
           else PBKDF2_loop hmac pw salt rounds (i + 1)
                  (keyLen - (if keyLen < length T then keyLen else length T)) (k @ T))"
  by pat_completeness auto
termination
  by (relation "measure (\<lambda>(hmac, pw, salt, rounds, i, keyLen, k). keyLen)") auto

declare PBKDF2_loop.simps [simp del]

definition PBKDF2 :: "(bytes \<Rightarrow> bytes \<Rightarrow> bytes) \<Rightarrow> bytes \<Rightarrow> bytes \<Rightarrow> nat \<Rightarrow> uint512 outcome" where
  "PBKDF2 hmac pw salt rounds = omap uint512_of_bytes (PBKDF2_loop hmac pw salt rounds 0 64 [])"

definition Mnemonic_DeriveSeed :: "text_lib \<Rightarrow> string \<Rightarrow> string \<Rightarrow> uint512 outcome" where
  "Mnemonic_DeriveSeed lib mnemonic passphrase =
     (let words = text_split lib (text_nfkd lib mnemonic) in
      obind (Mnemonic_Validate_any (text_sha256 lib) words (text_lexicons lib)) (\<lambda>valid.
        if \<not> valid then Throw E_Mnemonic
        else PBKDF2 (text_hmac512 lib) (setCharsFromString (text_join lib words))
               (setCharsFromString (''mnemonic'' @ text_nfkd lib passphrase)) 2048))"

section \<open>Bits of a byte string\<close>

definition dbit :: "bytes \<Rightarrow> nat \<Rightarrow> bool" where
  "dbit data b = bit (data ! (b div 8)) (7 - b mod 8)"

lemma Bip39Shift_exp: "Bip39Shift b = 2 ^ (7 - b mod 8)"
  by (simp add: Bip39Shift_def ByteBits_def push_bit_eq_mult)

lemma Bip39Shift_test: "x AND Bip39Shift b > 0 \<longleftrightarrow> bit x (7 - b mod 8)"
  using and_exp_eq_0_iff_not_bit [of x "7 - b mod 8"] by (auto simp: Bip39Shift_exp word_gt_0)

lemma dbit_ext:
  assumes "length xs = length ys" and "\<And>b. b < 8 * length xs \<Longrightarrow> dbit xs b = dbit ys b"
  shows "xs = ys"
proof (rule nth_equalityI)
  fix i assume i: "i < length xs"
  show "xs ! i = ys ! i"
  proof (rule bit_word_eqI)
    fix j assume j: "j < LENGTH(8)"
    define k where "k = 7 - j"
    have k: "k < 8" "7 - k = j" using j by (simp_all add: k_def)
    have "8 * i + k < 8 * length xs" using i k(1) by simp
    moreover have "(8 * i + k) div 8 = i" "(8 * i + k) mod 8 = k" using k(1) by simp_all
    ultimately show "bit (xs ! i) j = bit (ys ! i) j"
      using assms(2) [of "8 * i + k"] by (simp only: dbit_def k(2))
  qed
qed (rule assms(1))

lemma dbit_take: "b < 8 * n \<Longrightarrow> dbit (take n data) b = dbit data b"
  by (simp add: dbit_def less_mult_imp_div_less mult.commute)

lemma dbit_append: "b < 8 * length xs \<Longrightarrow> dbit (xs @ ys) b = dbit xs b"
  by (simp add: dbit_def nth_append less_mult_imp_div_less mult.commute)

lemma dbit_zero: "b < 8 * n \<Longrightarrow> \<not> dbit (replicate n 0) b"
  by (simp add: dbit_def less_mult_imp_div_less mult.commute)

lemma dbit_set:
  assumes "b < 8 * length data"
  shows "dbit (data[b div 8 := data ! (b div 8) OR Bip39Shift b]) i \<longleftrightarrow> i = b \<or> dbit data i"
proof (cases "i div 8 = b div 8")
  case True
  have "b div 8 < length data" using assms by (simp add: less_mult_imp_div_less mult.commute)
  moreover have "7 - i mod 8 = 7 - b mod 8 \<longleftrightarrow> i = b"
    using True div_mult_mod_eq [of i 8] div_mult_mod_eq [of b 8] by (auto, linarith)
  moreover have "7 - i mod 8 < 8" by simp
  ultimately show ?thesis using True
    by (auto simp: dbit_def Bip39Shift_exp bit_or_iff bit_exp_iff)
qed (auto simp: dbit_def)

section \<open>Positions\<close>

lemma position_loop_bits:
  "b + n \<le> 8 * length data \<Longrightarrow> \<exists>q. position_loop data b n p = Ret q \<and> q < (p + 1) * 2 ^ n \<and>
     (\<forall>j. bit q j = (if j < n then dbit data (b + n - 1 - j) else bit p (j - n)))"
proof (induction n arbitrary: b p)
  case (Suc n)
  define d :: nat where "d = (if dbit data b then 1 else 0)"
  have i: "b div 8 < length data" using Suc.prems by (simp add: less_mult_imp_div_less mult.commute)
  then have "position_loop data b (Suc n) p = position_loop data (Suc b) n (2 * p + d)"
    by (simp add: ByteBits_def Bip39Shift_test d_def dbit_def Let_def push_bit_eq_mult mult.commute not_le)
  moreover obtain q where q: "position_loop data (Suc b) n (2 * p + d) = Ret q"
      "q < (2 * p + d + 1) * 2 ^ n"
      "\<And>j. bit q j = (if j < n then dbit data (Suc b + n - 1 - j) else bit (2 * p + d) (j - n))"
    using Suc.IH [of "Suc b" "2 * p + d"] Suc.prems by auto
  moreover have "q < (p + 1) * 2 ^ Suc n"
  proof -
    have "(2 * p + d + 1) * 2 ^ n \<le> (2 * (p + 1)) * 2 ^ n" by (rule mult_le_mono1) (simp add: d_def)
    then show ?thesis using q(2) by (simp add: mult.assoc mult.left_commute)
  qed
  moreover have "bit q j = (if j < Suc n then dbit data (b + Suc n - 1 - j) else bit p (j - Suc n))" for j
  proof (cases "j < n")
    case True
    then show ?thesis by (simp add: q(3))
  next
    case False
    have b0: "bit (2 * p + d) 0 = dbit data b" by (simp add: d_def bit_0)
    have bS: "bit (2 * p + d) (Suc k) = bit p k" for k by (simp add: d_def bit_Suc)
    show ?thesis
    proof (cases "j = n")
      case True then show ?thesis using q(3) [of j] b0 by simp
    next
      case n: False
      then obtain k where "j = Suc (n + k)" using False less_iff_Suc_add [of n j] by auto
      then show ?thesis using q(3) [of j] bS [of k] by (simp add: Suc_diff_le)
    qed
  qed
  ultimately show ?case by auto
qed simp

lemma position_loop_Undef:
  "8 * length data < b + n \<Longrightarrow> b \<le> 8 * length data \<Longrightarrow> position_loop data b n p = Undef"
proof (induction n arbitrary: b p)
  case (Suc n)
  show ?case
  proof (cases "b = 8 * length data")
    case False
    then have "b div 8 < length data" using Suc.prems by (simp add: less_mult_imp_div_less mult.commute)
    then show ?thesis using Suc False by (simp add: ByteBits_def Let_def)
  qed (simp add: ByteBits_def)
qed simp

definition word_position :: "bytes \<Rightarrow> nat \<Rightarrow> nat" where
  "word_position data w =
     (case position_loop data (w * BitsPerWord) BitsPerWord 0 of Ret q \<Rightarrow> q | _ \<Rightarrow> 0)"

lemma word_position:
  assumes "11 * (w + 1) \<le> 8 * length data"
  shows "position_loop data (w * BitsPerWord) BitsPerWord 0 = Ret (word_position data w)"
    and "word_position data w < DictionarySize"
    and "j < 11 \<Longrightarrow> bit (word_position data w) j = dbit data (11 * w + 10 - j)"
  using position_loop_bits [of "w * 11" 11 data 0] assms
  by (auto simp: word_position_def BitsPerWord_def DictionarySize_def mult.commute add.commute)

lemma Create_loop_Ret:
  assumes "\<forall>w \<in> set ws. 11 * (w + 1) \<le> 8 * length data"
  shows "Create_loop lexicon data ws words =
    Ret (Some (words @ map (\<lambda>w. lexicon ! word_position data w) ws))"
  using assms
proof (induction ws arbitrary: words)
  case (Cons w ws)
  have w: "11 * (w + 1) \<le> 8 * length data" using Cons.prems by simp
  show ?case
    using Cons word_position(1,2) [OF w] by (simp add: not_le)
qed simp

lemma Create_loop_Undef:
  "8 * length data < 11 * (m + d) \<Longrightarrow> 11 * m \<le> 8 * length data \<Longrightarrow>
   Create_loop lexicon data [m..<m + d] words = Undef"
proof (induction d arbitrary: m words)
  case (Suc d)
  have c: "[m..<m + Suc d] = m # [Suc m..<Suc m + d]" by (simp add: upt_conv_Cons)
  show ?case
  proof (cases "11 * (m + 1) \<le> 8 * length data")
    case True
    have "Create_loop lexicon data [Suc m..<Suc m + d] (words @ [lexicon ! word_position data m]) = Undef"
      by (rule Suc.IH) (use Suc.prems True in simp_all)
    then show ?thesis unfolding c using word_position(1,2) [OF True] by (simp add: not_le)
  next
    case False
    have "position_loop data (m * BitsPerWord) BitsPerWord 0 = Undef"
      using False Suc.prems by (intro position_loop_Undef) (simp_all add: BitsPerWord_def mult.commute)
    then show ?thesis unfolding c by simp
  qed
qed simp

text \<open>What \<open>Create\<close> makes of \<open>4 * k\<close> bytes.\<close>

lemma Mnemonic_Create_words:
  assumes e: "length e = 4 * k" and sha: "length (sha256 e) = 32" and k: "k \<le> 256"
  shows "Mnemonic_Create sha256 e lexicon =
    Ret (map (\<lambda>w. lexicon ! word_position (e @ sha256 e) w) [0..<3 * k])"
proof -
  have t: "4 * k * 8 + 4 * k * 8 div 32 = 33 * k" by simp
  have l: "(3 * k * 11 - 1 + 1) div 11 = 3 * k" by (cases "k = 0") simp_all
  have "\<forall>w \<in> set [0..<3 * k]. 11 * (w + 1) \<le> 8 * length (e @ sha256 e)"
    using e sha k by auto
  note c = Create_loop_Ret [OF this, of lexicon "[]"]
  show ?thesis
    using c l unfolding Mnemonic_Create_def mnemonic_sizes Let_def e t by simp
qed

lemma Mnemonic_Create_Undef:
  assumes e: "length e = 4 * k" and sha: "length (sha256 e) = 32" and k: "256 < k"
  shows "Mnemonic_Create sha256 e lexicon = Undef"
proof -
  have t: "4 * k * 8 + 4 * k * 8 div 32 = 33 * k" by simp
  have "Create_loop lexicon (e @ sha256 e) [0..<3 * k] [] = Undef"
    using Create_loop_Undef [of "e @ sha256 e" 0 "3 * k"] e sha k by simp
  then show ?thesis unfolding Mnemonic_Create_def mnemonic_sizes Let_def e t by simp
qed

section \<open>The bits a sentence spells\<close>

lemma FindPosition_nth:
  assumes "distinct xs" "length xs = DictionarySize" "i < length xs"
  shows "FindPosition xs (xs ! i) = int i"
proof -
  have "takeWhile (\<lambda>x. x \<noteq> xs ! i) xs = take i xs"
    by (rule takeWhile_eq_take_P_nth) (use assms in \<open>auto simp: nth_eq_iff_index_eq\<close>)
  then show ?thesis
    using assms by (simp add: FindPosition_def DictionarySize_def INT32_MAX_def)
qed

lemma FindPosition_range:
  assumes "length xs = DictionarySize"
  shows "FindPosition xs v = - 1 \<or> (\<exists>i < length xs. FindPosition xs v = int i \<and> xs ! i = v)"
proof (cases "v \<in> set xs")
  case True
  have "length (takeWhile (\<lambda>x. x \<noteq> v) xs) < length xs"
  proof (rule ccontr)
    assume "\<not> length (takeWhile (\<lambda>x. x \<noteq> v) xs) < length xs"
    then have "takeWhile (\<lambda>x. x \<noteq> v) xs = xs"
      by (metis length_takeWhile_le le_antisym not_le takeWhile_eq_take take_all_iff)
    then show False using True takeWhile_eq_all_conv [of "\<lambda>x. x \<noteq> v" xs] by blast
  qed
  moreover from this have "xs ! length (takeWhile (\<lambda>x. x \<noteq> v) xs) = v"
    using nth_length_takeWhile [of "\<lambda>x. x \<noteq> v" xs] by simp
  ultimately show ?thesis using True by (simp add: FindPosition_def)
qed (simp add: FindPosition_def)

lemma position_test: "(int p AND push_bit n 1 \<noteq> 0) = bit p n"
  using and_exp_eq_0_iff_not_bit [of "int p" n] by (simp add: push_bit_eq_mult bit_of_nat_iff)

lemma length_Entropy_bits [simp]: "length (Entropy_bits position ls b data) = length data"
  by (induction ls arbitrary: b data) simp_all

lemma Entropy_bits_dbit:
  "l + n = 11 \<Longrightarrow> b + n \<le> 8 * length data \<Longrightarrow>
   dbit (Entropy_bits (int p) [l..<11] b data) i \<longleftrightarrow>
     (b \<le> i \<and> i < b + n \<and> bit p (10 - (l + (i - b)))) \<or> dbit data i"
proof (induction n arbitrary: l b data)
  case (Suc n)
  define data' where "data' = (if bit p (10 - l)
    then data[b div 8 := data ! (b div 8) OR Bip39Shift b] else data)"
  have c: "[l..<11] = l # [Suc l..<11]" using Suc.prems(1) by (simp add: upt_conv_Cons)
  have "Entropy_bits (int p) [l..<11] b data = Entropy_bits (int p) [Suc l..<11] (Suc b) data'"
    unfolding c using position_test [of p "10 - l"]
    by (simp add: BitsPerWord_def ByteBits_def data'_def del: push_bit_of_1)
  moreover have "dbit data' i \<longleftrightarrow> (i = b \<and> bit p (10 - l)) \<or> dbit data i"
    using Suc.prems(2) dbit_set [of b data i] by (auto simp: data'_def)
  moreover have "length data' = length data" by (simp add: data'_def)
  moreover have "dbit (Entropy_bits (int p) [Suc l..<11] (Suc b) data') i \<longleftrightarrow>
      (Suc b \<le> i \<and> i < Suc b + n \<and> bit p (10 - (Suc l + (i - Suc b)))) \<or> dbit data' i"
    by (rule Suc.IH) (use Suc.prems calculation(3) in simp_all)
  moreover have "Suc b \<le> i \<Longrightarrow> Suc l + (i - Suc b) = l + (i - b)" by simp
  moreover have "b \<le> i \<longleftrightarrow> i = b \<or> Suc b \<le> i" by auto
  ultimately show ?case by (auto simp del: diff_diff_left)
qed auto

lemma Entropy_loop_dbit:
  assumes lex: "length lexicon = DictionarySize"
  shows "b + 11 * length ps \<le> 8 * length data \<Longrightarrow>
     list_all2 (\<lambda>w p. FindPosition lexicon w = int p) words ps \<Longrightarrow>
     \<exists>data'. Entropy_loop lexicon words b data = Some data' \<and> length data' = length data \<and>
       (\<forall>i. dbit data' i \<longleftrightarrow>
         (b \<le> i \<and> i < b + 11 * length ps \<and> bit (ps ! ((i - b) div 11)) (10 - (i - b) mod 11)) \<or> dbit data i)"
proof (induction ps arbitrary: words b data)
  case (Cons p ps)
  obtain w ws where w: "words = w # ws" "FindPosition lexicon w = int p"
      "list_all2 (\<lambda>w p. FindPosition lexicon w = int p) ws ps"
    using Cons.prems(2) by (auto simp: list_all2_Cons2)
  let ?d = "Entropy_bits (int p) [0..<11] b data"
  obtain data' where d: "Entropy_loop lexicon ws (b + 11) ?d = Some data'" "length data' = length data"
    and bits: "\<And>i. dbit data' i \<longleftrightarrow> (b + 11 \<le> i \<and> i < b + 11 + 11 * length ps \<and>
       bit (ps ! ((i - (b + 11)) div 11)) (10 - (i - (b + 11)) mod 11)) \<or> dbit ?d i"
    using Cons.IH [of "b + 11" ?d ws] Cons.prems(1) w(3) by auto
  have e: "dbit ?d i \<longleftrightarrow> (b \<le> i \<and> i < b + 11 \<and> bit p (10 - (i - b))) \<or> dbit data i" for i
    using Entropy_bits_dbit [of 0 11 b data p i] Cons.prems(1) by simp
  have "dbit data' i \<longleftrightarrow> (b \<le> i \<and> i < b + 11 * length (p # ps) \<and>
      bit ((p # ps) ! ((i - b) div 11)) (10 - (i - b) mod 11)) \<or> dbit data i" for i
  proof (cases "i < b + 11")
    case True
    then show ?thesis using bits [of i] e [of i] by auto
  next
    case False
    then obtain m where m: "i = b + 11 + m" by (metis le_add_diff_inverse not_less)
    then have "(i - b) div 11 = Suc (m div 11)" "(i - b) mod 11 = m mod 11" by simp_all
    then show ?thesis using bits [of i] e [of i] m by auto
  qed
  then show ?case using d w(1,2) by (auto simp: BitsPerWord_def)
qed auto

lemma Entropy_loop_None:
  assumes "length lexicon = DictionarySize" "Entropy_loop lexicon words b data = Some data'"
  shows "\<exists>ps. list_all2 (\<lambda>w p. FindPosition lexicon w = int p) words ps"
  using assms(2)
proof (induction words arbitrary: b data)
  case (Cons w words)
  then obtain p where "FindPosition lexicon w = int p"
    using FindPosition_range [OF assms(1), of w] by auto
  moreover from Cons obtain ps where "list_all2 (\<lambda>w p. FindPosition lexicon w = int p) words ps"
    by (auto simp: Let_def split: if_splits)
  ultimately show ?case by (intro exI [of _ "p # ps"]) simp
qed auto

lemma Mnemonic_Entropy_bits:
  assumes lex: "length lexicon = DictionarySize" and ps: "list_all2 (\<lambda>w p. FindPosition lexicon w = int p) words ps"
    and k: "length words = 3 * k"
  shows "length (Mnemonic_Entropy words lexicon) = 4 * k"
    and "i < 32 * k \<Longrightarrow> dbit (Mnemonic_Entropy words lexicon) i \<longleftrightarrow> bit (ps ! (i div 11)) (10 - i mod 11)"
proof -
  define n where "n = (33 * k + 8 - 1) div 8"
  have n: "33 * k \<le> 8 * n" unfolding n_def by linarith
  have l: "length ps = 3 * k" using ps k by (simp add: list_all2_lengthD)
  have t: "11 * (3 * k) = 33 * k" "33 * k div (32 + 1) = k" "33 * k - k = 32 * k" "32 * k div 8 = 4 * k"
    by simp_all
  obtain data where d: "Entropy_loop lexicon words 0 (replicate n 0) = Some data" "length data = n"
    and b: "\<And>i. dbit data i \<longleftrightarrow> (i < 33 * k \<and> bit (ps ! (i div 11)) (10 - i mod 11)) \<or> dbit (replicate n 0) i"
    using Entropy_loop_dbit [OF lex _ ps, of 0 "replicate n 0"] n l by auto
  have e: "Mnemonic_Entropy words lexicon = take (4 * k) data"
    using d(1) unfolding Mnemonic_Entropy_def mnemonic_sizes Let_def k t n_def by simp
  show "length (Mnemonic_Entropy words lexicon) = 4 * k" using n d(2) by (simp add: e)
  show "dbit (Mnemonic_Entropy words lexicon) i \<longleftrightarrow> bit (ps ! (i div 11)) (10 - i mod 11)" if "i < 32 * k"
    using that b [of i] n dbit_zero [of i n] by (simp add: e dbit_take)
qed

lemma Mnemonic_Entropy_Create:
  assumes lex: "length lexicon = DictionarySize" "distinct lexicon"
    and e: "length e = 4 * k" and sha: "length (sha256 e) = 32" and k: "k \<le> 256"
    and c: "Mnemonic_Create sha256 e lexicon = Ret words"
  shows "Mnemonic_Entropy words lexicon = e" and "length words = 3 * k"
proof -
  define ps where "ps = map (word_position (e @ sha256 e)) [0..<3 * k]"
  have w: "words = map (\<lambda>w. lexicon ! word_position (e @ sha256 e) w) [0..<3 * k]"
    using c Mnemonic_Create_words [where ?sha256.0 = sha256, OF e sha k, of lexicon] by simp
  then show n: "length words = 3 * k" by simp
  have in_range: "11 * (w + 1) \<le> 8 * length (e @ sha256 e)" if "w < 3 * k" for w
    using that e sha k by simp
  have ps: "list_all2 (\<lambda>w p. FindPosition lexicon w = int p) words ps"
    unfolding w ps_def list_all2_conv_all_nth
    using word_position(2) [OF in_range] lex FindPosition_nth [OF lex(2,1)] by simp
  note en = Mnemonic_Entropy_bits [OF lex(1) ps n]
  show "Mnemonic_Entropy words lexicon = e"
  proof (rule dbit_ext)
    show "length (Mnemonic_Entropy words lexicon) = length e" using en(1) e by simp
    fix i assume "i < 8 * length (Mnemonic_Entropy words lexicon)"
    then have i: "i < 32 * k" using en(1) by simp
    then have q: "i div 11 < 3 * k" by (simp add: less_mult_imp_div_less)
    have "dbit (Mnemonic_Entropy words lexicon) i = bit (word_position (e @ sha256 e) (i div 11)) (10 - i mod 11)"
      using en(2) [OF i] q by (simp add: ps_def)
    also have "\<dots> = dbit (e @ sha256 e) (11 * (i div 11) + 10 - (10 - i mod 11))"
      by (rule word_position(3) [OF in_range [OF q]]) simp
    also have "11 * (i div 11) + 10 - (10 - i mod 11) = i"
      using mod_less_divisor [of 11 i] mult_div_mod_eq [of 11 i] by linarith
    also have "dbit (e @ sha256 e) i = dbit e i" using i e by (intro dbit_append) simp
    finally show "dbit (Mnemonic_Entropy words lexicon) i = dbit e i" .
  qed
qed

lemma std_equal_lengths: "length xs = length ys \<Longrightarrow> std_equal xs ys = Ret (xs = ys)"
  by (induction xs ys rule: list_induct2) simp_all

lemma Mnemonic_Entropy_length:
  assumes "length lexicon = DictionarySize" "Mnemonic_Entropy words lexicon \<noteq> []"
  shows "\<exists>k. 0 < k \<and> length words = 3 * k \<and> length (Mnemonic_Entropy words lexicon) = 4 * k"
proof -
  obtain k where k: "length words = 3 * k"
    using assms(2) by (auto simp: Mnemonic_Entropy_def MnemonicWordMultiple_def Let_def split: if_splits)
  obtain b data where "Entropy_loop lexicon words 0 b = Some data"
    using assms(2) by (auto simp: Mnemonic_Entropy_def Let_def split: if_splits option.splits)
  from Entropy_loop_None [OF assms(1) this] obtain ps
    where "list_all2 (\<lambda>w p. FindPosition lexicon w = int p) words ps" by blast
  from Mnemonic_Entropy_bits(1) [OF assms(1) this k] show ?thesis using assms(2) k by (cases "k = 0") auto
qed

text \<open>
  A sentence of up to 768 words is valid exactly when some entropy spells it, and then that entropy
  is the one the sentence stands for; a longer one makes \<open>Create\<close> read behind the digest.
\<close>

lemma Mnemonic_Validate_iff:
  assumes lex: "length lexicon = DictionarySize" "distinct lexicon" and sha: "\<And>x. length (sha256 x) = 32"
    and n: "length words \<le> 768"
  shows "Mnemonic_Validate sha256 words lexicon =
    Ret (Mnemonic_Entropy words lexicon \<noteq> [] \<and>
         Mnemonic_Create sha256 (Mnemonic_Entropy words lexicon) lexicon = Ret words)"
proof (cases "Mnemonic_Entropy words lexicon = []")
  case False
  then obtain k where k: "length words = 3 * k" "length (Mnemonic_Entropy words lexicon) = 4 * k"
    using Mnemonic_Entropy_length [OF lex(1)] by blast
  have "k \<le> 256" using n k(1) by simp
  from Mnemonic_Create_words [where ?sha256.0 = sha256, OF k(2) sha this]
  obtain m where "Mnemonic_Create sha256 (Mnemonic_Entropy words lexicon) lexicon = Ret m" "length m = 3 * k"
    by simp
  then show ?thesis using False std_equal_lengths [of m words] k(1) by (simp add: Mnemonic_Validate_def)
qed (simp add: Mnemonic_Validate_def)

lemma Mnemonic_Validate_spelled:
  assumes lex: "length lexicon = DictionarySize" "distinct lexicon" and sha: "\<And>x. length (sha256 x) = 32"
    and n: "length words \<le> 768"
  shows "Mnemonic_Validate sha256 words lexicon = Ret True \<longleftrightarrow>
    (\<exists>k e. 0 < k \<and> length e = 4 * k \<and> Mnemonic_Create sha256 e lexicon = Ret words)"
proof
  assume "Mnemonic_Validate sha256 words lexicon = Ret True"
  then show "\<exists>k e. 0 < k \<and> length e = 4 * k \<and> Mnemonic_Create sha256 e lexicon = Ret words"
    using Mnemonic_Entropy_length [OF lex(1), of words]
    by (auto simp: Mnemonic_Validate_iff [OF lex sha n])
next
  assume "\<exists>k e. 0 < k \<and> length e = 4 * k \<and> Mnemonic_Create sha256 e lexicon = Ret words"
  then obtain k e where e: "0 < k" "length e = 4 * k" "Mnemonic_Create sha256 e lexicon = Ret words" by blast
  have "k \<le> 256" using Mnemonic_Create_Undef [where ?sha256.0 = sha256, OF e(2) sha, of lexicon] e(3) by (cases "256 < k") auto
  from Mnemonic_Entropy_Create(1) [OF lex e(2) sha this e(3)] e(1,2)
  show "Mnemonic_Validate sha256 words lexicon = Ret True"
    using e(3) by (auto simp: Mnemonic_Validate_iff [OF lex sha n])
qed

lemma Mnemonic_Validate_long:
  assumes lex: "length lexicon = DictionarySize" and sha: "\<And>x. length (sha256 x) = 32"
    and n: "768 < length words" and e: "Mnemonic_Entropy words lexicon \<noteq> []"
  shows "Mnemonic_Validate sha256 words lexicon = Undef"
proof -
  obtain k where k: "length words = 3 * k" "length (Mnemonic_Entropy words lexicon) = 4 * k"
    using Mnemonic_Entropy_length [OF lex e] by blast
  have "256 < k" using n k(1) by simp
  then show ?thesis using Mnemonic_Create_Undef [where ?sha256.0 = sha256, OF k(2) sha] e by (simp add: Mnemonic_Validate_def)
qed

section \<open>The seed\<close>

lemma PBKDF2_one_block:
  assumes "\<And>key data. length (hmac key data) = 64"
  shows "PBKDF2 hmac pw salt rounds = Ret (of_le (PBKDF2_block hmac pw salt rounds 0))"
proof -
  have "length (PBKDF2_rounds hmac pw r U T) = length T" if "length T = 64" for r U T
    using that assms by (induction r arbitrary: U T) (simp_all add: Let_def)
  then have l: "length (PBKDF2_block hmac pw salt rounds 0) = 64"
    using assms by (simp add: PBKDF2_block_def Let_def)
  then have "PBKDF2_loop hmac pw salt rounds 0 64 [] = Ret (PBKDF2_block hmac pw salt rounds 0)"
    by (subst PBKDF2_loop.simps, subst PBKDF2_loop.simps) (auto simp: Let_def)
  then show ?thesis using l by (simp add: PBKDF2_def uint512_of_bytes_def)
qed

end
