(* ===== verification/Base64M.thy ===== *)
theory Base64M
  imports UcharVector
begin

text \<open>
  The Base64 form of a byte vector, \<open>getBase64\<close> and \<open>setBase64\<close> of \<open>SDK/Common/uchar_vector.cpp\<close>.
  The groups are kept in 32-bit words, with the masks and shifts of the code.  The theory shows that
  decoding an encoded vector gives it back, and that a group that starts with a character outside the
  alphabet makes the decoder drop more bytes than it has added.
\<close>

definition base64chars :: string where
  "base64chars = ''ABCDEFGHIJKLMNOPQRSTUVWXYZabcdefghijklmnopqrstuvwxyz0123456789+/''"

lemma length_base64chars: "length base64chars = 64"
  by code_simp

lemma distinct_base64chars: "distinct base64chars"
  by code_simp

definition base64_char :: "u32 \<Rightarrow> char" where
  "base64_char w = base64chars ! unat w"

definition base64_triple :: "u8 \<Rightarrow> u8 \<Rightarrow> u8 \<Rightarrow> string" where
  "base64_triple a b c =
     (let triple = push_bit 16 (ucast a) OR push_bit 8 (ucast b) OR ucast c in
      [base64_char (drop_bit 18 (triple AND 0x00fc0000)),
       base64_char (drop_bit 12 (triple AND 0x0003f000)),
       base64_char (drop_bit 6 (triple AND 0x00000fc0)),
       base64_char (triple AND 0x0000003f)])"

fun base64_groups :: "bytes \<Rightarrow> string" where
  "base64_groups (a # b # c # bs) = base64_triple a b c @ base64_groups bs"
| "base64_groups bs = []"

definition getBase64 :: "bytes \<Rightarrow> string" where
  "getBase64 bs =
     (let padding = (3 - length bs mod 3) mod 3;
          base64 = base64_groups (bs @ replicate padding 0)
      in take (length base64 - padding) base64 @ replicate padding CHR ''='')"

text \<open>\<open>strchr\<close> finds the terminating zero of the alphabet as well.\<close>

definition base64_find :: "char \<Rightarrow> nat option" where
  "base64_find c =
     (if c \<in> set base64chars then Some (length (takeWhile (\<lambda>x. x \<noteq> c) base64chars))
      else if c = CHR 0x00 then Some 64 else None)"

text \<open>The four digits of a group, the number of missing ones, and whether the end was seen.\<close>

fun base64_digits :: "string \<Rightarrow> bool \<Rightarrow> u32 list \<times> nat \<times> bool" where
  "base64_digits [] bEnd = ([], 0, bEnd)"
| "base64_digits (c # cs) bEnd =
     (case (if bEnd then None else base64_find c) of
        None \<Rightarrow> (let (ds, padding, e) = base64_digits cs True in (0 # ds, Suc padding, e))
      | Some d \<Rightarrow> (let (ds, padding, e) = base64_digits cs False in (word_of_nat d # ds, padding, e)))"

definition base64_quadruple :: "u32 \<Rightarrow> u32 \<Rightarrow> u32 \<Rightarrow> u32 \<Rightarrow> bytes" where
  "base64_quadruple d0 d1 d2 d3 =
     (let quadruple = push_bit 18 d0 OR push_bit 12 d1 OR push_bit 6 d2 OR d3 in
      [ucast (drop_bit 16 (quadruple AND 0x00ff0000)), ucast (drop_bit 8 (quadruple AND 0x0000ff00)),
       ucast (quadruple AND 0x000000ff)])"

fun base64_decode :: "string \<Rightarrow> bytes \<Rightarrow> bytes \<times> nat" where
  "base64_decode (c0 # c1 # c2 # c3 # cs) bs =
     (let (ds, padding, bEnd) = base64_digits [c0, c1, c2, c3] False;
          bs' = bs @ base64_quadruple (ds ! 0) (ds ! 1) (ds ! 2) (ds ! 3)
      in if bEnd then (bs', padding) else base64_decode cs bs')"
| "base64_decode cs bs = (bs, 0)"

definition setBase64 :: "string \<Rightarrow> bytes outcome" where
  "setBase64 base64 =
     (let (bs, padding) = base64_decode (base64 @ replicate ((4 - length base64 mod 4) mod 4) CHR ''='') []
      in if length bs < padding then Undef else Ret (take (length bs - padding) bs))"

section \<open>Round trip\<close>

lemma base64_masks:
  "(0x00fc0000 :: u32) = push_bit 18 (mask 6)" "(0x0003f000 :: u32) = push_bit 12 (mask 6)"
  "(0x00000fc0 :: u32) = push_bit 6 (mask 6)" "(0x0000003f :: u32) = mask 6"
  "(0x00ff0000 :: u32) = push_bit 16 (mask 8)" "(0x0000ff00 :: u32) = push_bit 8 (mask 8)"
  "(0x000000ff :: u32) = mask 8"
  by (simp_all add: mask_eq_exp_minus_1 push_bit_eq_mult)

lemma base64_find_char:
  assumes "unat w < 64"
  shows "base64_find (base64_char w) = Some (unat w)"
proof -
  have "takeWhile (\<lambda>x. x \<noteq> base64chars ! unat w) base64chars = take (unat w) base64chars"
    by (rule takeWhile_eq_take_P_nth)
      (use assms length_base64chars distinct_base64chars in \<open>auto simp: nth_eq_iff_index_eq\<close>)
  then show ?thesis using assms length_base64chars by (simp add: base64_find_def base64_char_def)
qed

lemma unat_six: "unat (drop_bit n (w AND push_bit n (mask 6)) :: u32) < 64"
proof -
  have "drop_bit n (w AND push_bit n (mask 6)) = take_bit 6 (drop_bit n w)"
    by (rule bit_word_eqI) (auto simp: bit_simps dest: bit_imp_le_length)
  then show ?thesis using take_bit_nat_less_exp [of 6 "unat (drop_bit n w)"] by (simp add: unsigned_take_bit_eq)
qed

lemma unat_six0: "unat (w AND mask 6 :: u32) < 64"
  using unat_six [of 0 w] by simp

lemma base64_quadruple_triple:
  fixes a b c :: u8
  defines "t \<equiv> push_bit 16 (ucast a) OR push_bit 8 (ucast b) OR ucast c :: u32"
  shows "base64_quadruple (drop_bit 18 (t AND 0x00fc0000)) (drop_bit 12 (t AND 0x0003f000))
    (drop_bit 6 (t AND 0x00000fc0)) (t AND 0x0000003f) = [a, b, c]"
proof -
  have t: "bit t n \<Longrightarrow> n < 24" for n
    by (auto simp: t_def bit_simps dest: bit_imp_le_length)
  have q: "push_bit 18 (drop_bit 18 (t AND push_bit 18 (mask 6))) OR push_bit 12 (drop_bit 12 (t AND push_bit 12 (mask 6))) OR
      push_bit 6 (drop_bit 6 (t AND push_bit 6 (mask 6))) OR (t AND mask 6) = t"
  proof (rule bit_word_eqI)
    fix n assume "n < LENGTH(32)"
    consider "n < 6" | "6 \<le> n" "n < 12" | "12 \<le> n" "n < 18" | "18 \<le> n" "n < 24" | "24 \<le> n" by linarith
    then show "bit (push_bit 18 (drop_bit 18 (t AND push_bit 18 (mask 6))) OR push_bit 12 (drop_bit 12 (t AND push_bit 12 (mask 6))) OR
        push_bit 6 (drop_bit 6 (t AND push_bit 6 (mask 6))) OR (t AND mask 6)) n \<longleftrightarrow> bit t n"
      using t [of n] \<open>n < LENGTH(32)\<close> by cases (auto simp: bit_simps)
  qed
  have "ucast (drop_bit 16 (t AND push_bit 16 (mask 8))) = a"
    by (rule bit_word_eqI) (auto simp: t_def bit_simps dest: bit_imp_le_length)
  moreover have "ucast (drop_bit 8 (t AND push_bit 8 (mask 8))) = b"
    by (rule bit_word_eqI) (auto simp: t_def bit_simps dest: bit_imp_le_length)
  moreover have "ucast (t AND mask 8) = c"
    by (rule bit_word_eqI) (auto simp: t_def bit_simps dest: bit_imp_le_length)
  ultimately show ?thesis unfolding base64_quadruple_def base64_masks q Let_def by simp
qed

lemma base64_find_pad: "base64_find CHR ''='' = None"
  by code_simp

definition base64_bits :: "u8 \<Rightarrow> u8 \<Rightarrow> u8 \<Rightarrow> u32 list" where
  "base64_bits a b c =
     (let t = push_bit 16 (ucast a) OR push_bit 8 (ucast b) OR ucast c :: u32 in
      [drop_bit 18 (t AND 0x00fc0000), drop_bit 12 (t AND 0x0003f000), drop_bit 6 (t AND 0x00000fc0),
       t AND 0x0000003f])"

lemma base64_bits_cases:
  obtains d0 d1 d2 d3 where "base64_bits a b c = [d0, d1, d2, d3]"
    and "base64_triple a b c = [base64_char d0, base64_char d1, base64_char d2, base64_char d3]"
    and "base64_quadruple d0 d1 d2 d3 = [a, b, c]"
    and "unat d0 < 64" "unat d1 < 64" "unat d2 < 64" "unat d3 < 64"
    and "c = 0 \<Longrightarrow> d3 = 0" "b = 0 \<Longrightarrow> c = 0 \<Longrightarrow> d2 = 0"
proof -
  define t :: u32 where "t = push_bit 16 (ucast a) OR push_bit 8 (ucast b) OR ucast c"
  have z3: "t AND mask 6 = 0" if "c = 0" unfolding t_def that
    by (rule bit_word_eqI) (auto simp: bit_simps)
  have z2: "drop_bit 6 (t AND push_bit 6 (mask 6)) = 0" if "b = 0" "c = 0" unfolding t_def that
    by (rule bit_word_eqI) (auto simp: bit_simps)
  show ?thesis
    by (rule that [of "drop_bit 18 (t AND 0x00fc0000)" "drop_bit 12 (t AND 0x0003f000)"
        "drop_bit 6 (t AND 0x00000fc0)" "t AND 0x0000003f"])
      (use base64_quadruple_triple [of a b c] z2 z3 unat_six [of 18 t] unat_six [of 12 t] unat_six [of 6 t] unat_six0 [of t] in
        \<open>simp_all add: base64_bits_def base64_triple_def Let_def flip: t_def base64_masks\<close>)
qed

lemma base64_decode_triple:
  "base64_decode (base64_triple a b c @ cs) bs = base64_decode cs (bs @ [a, b, c])"
proof -
  obtain d0 d1 d2 d3 where d: "base64_triple a b c = [base64_char d0, base64_char d1, base64_char d2, base64_char d3]"
    "base64_quadruple d0 d1 d2 d3 = [a, b, c]" "unat d0 < 64" "unat d1 < 64" "unat d2 < 64" "unat d3 < 64"
    by (rule base64_bits_cases [of a b c])
  then show ?thesis by (simp add: base64_find_char)
qed

lemma base64_decode_last:
  "base64_decode (take 3 (base64_triple a b 0) @ ''='') bs = (bs @ [a, b, 0], 1)"
  "base64_decode (take 2 (base64_triple a 0 0) @ ''=='') bs = (bs @ [a, 0, 0], 2)"
proof -
  obtain d0 d1 d2 d3 where d: "base64_triple a b 0 = [base64_char d0, base64_char d1, base64_char d2, base64_char d3]"
    "base64_quadruple d0 d1 d2 d3 = [a, b, 0]" "unat d0 < 64" "unat d1 < 64" "unat d2 < 64" "d3 = 0"
    by (rule base64_bits_cases [of a b 0]) auto
  then show "base64_decode (take 3 (base64_triple a b 0) @ ''='') bs = (bs @ [a, b, 0], 1)"
    by (simp add: base64_find_char base64_find_pad)
  obtain e0 e1 e2 e3 where e: "base64_triple a 0 0 = [base64_char e0, base64_char e1, base64_char e2, base64_char e3]"
    "base64_quadruple e0 e1 e2 e3 = [a, 0, 0]" "unat e0 < 64" "unat e1 < 64" "e2 = 0" "e3 = 0"
    by (rule base64_bits_cases [of a 0 0]) auto
  then show "base64_decode (take 2 (base64_triple a 0 0) @ ''=='') bs = (bs @ [a, 0, 0], 2)"
    by (simp add: base64_find_char base64_find_pad)
qed

lemma length_base64_triple [simp]: "length (base64_triple a b c) = 4"
  by (simp add: base64_triple_def Let_def)

lemma base64_groups_append:
  "length xs mod 3 = 0 \<Longrightarrow> base64_groups (xs @ ys) = base64_groups xs @ base64_groups ys"
  by (induction xs rule: base64_groups.induct) (simp_all add: mod_Suc split: if_splits)

lemma length_base64_groups: "length (base64_groups xs) = 4 * (length xs div 3)"
  by (induction xs rule: base64_groups.induct) (simp_all add: div_add_self1)

lemma base64_decode_groups:
  "length xs mod 3 = 0 \<Longrightarrow> base64_decode (base64_groups xs @ cs) bs = base64_decode cs (bs @ xs)"
  by (induction xs arbitrary: bs rule: base64_groups.induct)
    (simp_all add: base64_decode_triple mod_Suc del: base64_decode.simps split: if_splits)

lemma getBase64_cases:
  assumes "length xs mod 3 = 0"
  shows "getBase64 xs = base64_groups xs"
    and "getBase64 (xs @ [a]) = base64_groups xs @ take 2 (base64_triple a 0 0) @ ''==''"
    and "getBase64 (xs @ [a, b]) = base64_groups xs @ take 3 (base64_triple a b 0) @ ''=''"
proof -
  have r: "replicate 2 x = [x, x]" "replicate 1 x = [x]" for x :: u8 by (simp_all add: numeral_2_eq_2)
  have r': "replicate 2 x = [x, x]" "replicate 1 x = [x]" for x :: char by (simp_all add: numeral_2_eq_2)
  have p: "(3 - length (xs @ [a]) mod 3) mod 3 = 2" "(3 - length (xs @ [a, b]) mod 3) mod 3 = 1"
    using assms by (simp_all add: mod_Suc)
  show "getBase64 xs = base64_groups xs" using assms by (simp add: getBase64_def)
  show "getBase64 (xs @ [a]) = base64_groups xs @ take 2 (base64_triple a 0 0) @ ''==''"
    using base64_groups_append [OF assms, of "[a, 0, 0]"]
    unfolding getBase64_def p Let_def r r' by simp
  show "getBase64 (xs @ [a, b]) = base64_groups xs @ take 3 (base64_triple a b 0) @ ''=''"
    using base64_groups_append [OF assms, of "[a, b, 0]"]
    unfolding getBase64_def p Let_def r r' by simp
qed

lemma setBase64_getBase64: "setBase64 (getBase64 bs) = Ret bs"
proof -
  define xs where "xs = take (3 * (length bs div 3)) bs"
  define r where "r = drop (3 * (length bs div 3)) bs"
  have bs: "bs = xs @ r" by (simp add: xs_def r_def)
  have x: "length xs mod 3 = 0" by (simp add: xs_def min_absorb2)
  have "length r = length bs mod 3" by (simp add: r_def minus_mult_div_eq_mod)
  then have "length r < 3" by simp
  then consider "r = []" | a where "r = [a]" | a b where "r = [a, b]"
    by (cases r rule: remdups_adj.cases) (auto simp: length_Suc_conv less_Suc_eq numeral_3_eq_3)
  then show ?thesis
  proof cases
    case 1
    then show ?thesis
      using base64_decode_groups [OF x, of "[]" "[]"]
      by (simp add: bs getBase64_cases(1) [OF x] setBase64_def length_base64_groups)
  next
    case (2 a)
    then show ?thesis
      using base64_decode_groups [OF x, of "take 2 (base64_triple a 0 0) @ ''==''" "[]"]
      by (simp add: bs getBase64_cases(2) [OF x] setBase64_def length_base64_groups base64_decode_last)
  next
    case (3 a b)
    then show ?thesis
      using base64_decode_groups [OF x, of "take 3 (base64_triple a b 0) @ ''=''" "[]"]
      by (simp add: bs getBase64_cases(3) [OF x] setBase64_def length_base64_groups base64_decode_last)
  qed
qed

text \<open>A text that starts outside the alphabet takes four bytes off the three it has added.\<close>

lemma setBase64_junk:
  assumes "base64_find c = None"
  shows "setBase64 (c # cs) = Undef"
proof -
  obtain c1 c2 c3 rest where t: "(c # cs) @ replicate ((4 - length (c # cs) mod 4) mod 4) CHR ''='' = c # c1 # c2 # c3 # rest"
  proof -
    let ?t = "(c # cs) @ replicate ((4 - length (c # cs) mod 4) mod 4) CHR ''=''"
    have "4 \<le> length ?t"
    proof (cases "length (c # cs) mod 4 = 0")
      case True
      then obtain k where "length (c # cs) = 4 * k" by auto
      then show ?thesis by (cases k) auto
    next
      case False
      have "length ?t = length (c # cs) + (4 - length (c # cs) mod 4)" using False by simp
      also have "\<dots> = 4 * (length (c # cs) div 4) + 4"
        using mult_div_mod_eq [of 4 "length (c # cs)"] mod_less_divisor [of 4 "length (c # cs)"] by linarith
      finally show ?thesis by simp
    qed
    then have "4 \<le> length (tl ?t) + 1" by simp
    then obtain c1 c2 c3 rest where "tl ?t = c1 # c2 # c3 # rest"
      by (cases "tl ?t" rule: remdups_adj.cases; cases "tl (tl (tl ?t))") auto
    then show ?thesis using that by simp
  qed
  show ?thesis unfolding setBase64_def t using assms
    by (simp add: base64_quadruple_def Let_def)
qed

end
