(* ===== verification/KeySignM.thy ===== *)
theory KeySignM
  imports HDKeychainM KeyM
begin

text \<open>
  Keys that sign: the rest of \<open>SDK/WalletCore/Key.cpp\<close>.  A key is what OpenSSL keeps of it: the curve,
  the private number if there is one, and the compressed point.  OpenSSL comes in as the fields of
  \<open>key_lib\<close>: \<open>kl_valid\<close> says which bytes \<open>o2i_ECPublicKey\<close> and \<open>EC_KEY_check_key\<close> accept,
  \<open>kl_sign\<close> is \<open>ECDSA_do_sign\<close> (nothing when it fails), \<open>kl_verify\<close> is \<open>ECDSA_do_verify\<close> and
  \<open>kl_uncompressed\<close> the long form of a point.
\<close>

record key_lib =
  kl_hd :: hd_lib
  kl_valid :: "CoinType \<Rightarrow> bytes \<Rightarrow> bool"
  kl_sign :: "CoinType \<Rightarrow> bytes \<Rightarrow> uint256 \<Rightarrow> (nat \<times> nat) option"
  kl_verify :: "CoinType \<Rightarrow> bytes \<Rightarrow> uint256 \<Rightarrow> bytes \<Rightarrow> bytes \<Rightarrow> bool"
  kl_uncompressed :: "CoinType \<Rightarrow> bytes \<Rightarrow> bytes option"
  kl_sha256 :: "bytes \<Rightarrow> bytes"

record Key =
  key_type :: CoinType
  key_prv :: "bytes option"
  key_pub :: bytes

definition Key_SetPrvKey :: "key_lib \<Rightarrow> CoinType \<Rightarrow> bytes \<Rightarrow> Key outcome" where
  "Key_SetPrvKey lib type prv =
     (case ec_pubkey (kl_hd lib) type prv of
        None \<Rightarrow> Throw E_Key
      | Some pub \<Rightarrow> Ret \<lparr>key_type = type, key_prv = Some prv, key_pub = pub\<rparr>)"

definition Key_of_public :: "key_lib \<Rightarrow> CoinType \<Rightarrow> bytes \<Rightarrow> Key outcome" where
  "Key_of_public lib type pub =
     omap (\<lambda>p. \<lparr>key_type = type, key_prv = None, key_pub = p\<rparr>) (Key_SetPubKey (kl_valid lib type) pub)"

definition Key_of :: "key_lib \<Rightarrow> CoinType \<Rightarrow> bytes \<Rightarrow> Key outcome" where
  "Key_of lib type key =
     (if length key = 32 then Key_SetPrvKey lib type key
      else if length key = 33 then Key_of_public lib type key
      else Throw E_Key)"

definition Key_of_keychain :: "key_lib \<Rightarrow> HDKeychain \<Rightarrow> Key outcome" where
  "Key_of_keychain lib keychain =
     (if \<not> hd_valid keychain then Throw E_Key
      else if HDKeychain_isPrivate keychain
      then Key_SetPrvKey lib (hd_type keychain) (HDKeychain_privkey keychain)
      else Key_of_public lib (hd_type keychain) (hd_pubkey keychain))"

definition Key_PubKey :: "key_lib \<Rightarrow> Key \<Rightarrow> bool \<Rightarrow> bytes outcome" where
  "Key_PubKey lib key compress =
     (if compress then Ret (key_pub key)
      else case kl_uncompressed lib (key_type key) (key_pub key) of
             None \<Rightarrow> Throw E_Key | Some pub \<Rightarrow> Ret pub)"

text \<open>A key without a private number gives 32 zero bytes.\<close>

definition Key_PrvKey :: "Key \<Rightarrow> bytes" where
  "Key_PrvKey key = (case key_prv key of None \<Rightarrow> replicate 32 0 | Some prv \<Rightarrow> prv)"

text \<open>The two numbers of a signature fill 32 bytes each, from the right.\<close>

definition Key_Sign :: "key_lib \<Rightarrow> Key \<Rightarrow> uint256 \<Rightarrow> bytes outcome" where
  "Key_Sign lib key digest =
     (case Option.bind (key_prv key) (\<lambda>prv. kl_sign lib (key_type key) prv digest) of
        None \<Rightarrow> Throw E_Sign
      | Some (r, s) \<Rightarrow>
          if r < 2 ^ 256 \<and> s < 2 ^ 256 then Ret (be_pad 32 (int r) @ be_pad 32 (int s))
          else Throw E_Sign)"

definition uint256_of_bytes :: "bytes \<Rightarrow> uint256" where
  "uint256_of_bytes vch = (if length vch = 32 then of_le vch else 0)"

definition Key_Sign_bytes :: "key_lib \<Rightarrow> Key \<Rightarrow> bytes \<Rightarrow> bytes outcome" where
  "Key_Sign_bytes lib key message = Key_Sign lib key (uint256_of_bytes (kl_sha256 lib message))"

definition Key_Verify_digest :: "key_lib \<Rightarrow> Key \<Rightarrow> uint256 \<Rightarrow> bytes \<Rightarrow> bool outcome" where
  "Key_Verify_digest lib key digest signature =
     Key_Verify (kl_verify lib (key_type key)) (key_pub key) digest signature"

definition Key_Verify_bytes :: "key_lib \<Rightarrow> Key \<Rightarrow> bytes \<Rightarrow> bytes \<Rightarrow> bool outcome" where
  "Key_Verify_bytes lib key message signature =
     Key_Verify_digest lib key (uint256_of_bytes (kl_sha256 lib message)) signature"

section \<open>What a key that signs promises\<close>

text \<open>
  \<open>key_lib_ok\<close>: what OpenSSL is documented to do.  A private number of the right range signs, both
  numbers of the signature are below the order of the curve, and the public key takes the signature.
\<close>

definition key_lib_ok :: "key_lib \<Rightarrow> bool" where
  "key_lib_ok lib \<longleftrightarrow>
     hd_lib_ok (kl_hd lib) \<and>
     (\<forall>t prv pub digest. ec_pubkey (kl_hd lib) t prv = Some pub \<longrightarrow> kl_valid lib t pub \<and>
        (\<exists>r s. kl_sign lib t prv digest = Some (r, s) \<and> r < 2 ^ 256 \<and> s < 2 ^ 256 \<and>
               kl_verify lib t pub digest (be_pad 32 (int r)) (be_pad 32 (int s))))"

lemma key_lib_okD:
  assumes "key_lib_ok lib"
  shows "hd_lib_ok (kl_hd lib)"
    and "ec_pubkey (kl_hd lib) t prv = Some pub \<Longrightarrow> kl_valid lib t pub"
    and "ec_pubkey (kl_hd lib) t prv = Some pub \<Longrightarrow>
      \<exists>r s. kl_sign lib t prv digest = Some (r, s) \<and> r < 2 ^ 256 \<and> s < 2 ^ 256 \<and>
        kl_verify lib t pub digest (be_pad 32 (int r)) (be_pad 32 (int s))"
  using assms unfolding key_lib_ok_def by blast+

text \<open>A key of a private keychain signs, and its public key verifies what it signs.\<close>

lemma Key_of_keychain_private:
  assumes "hd_wf (kl_hd lib) k" and "HDKeychain_isPrivate k"
  shows "Key_of_keychain lib k =
    Ret \<lparr>key_type = hd_type k, key_prv = Some (HDKeychain_privkey k), key_pub = hd_pubkey k\<rparr>"
    and "ec_pubkey (kl_hd lib) (hd_type k) (HDKeychain_privkey k) = Some (hd_pubkey k)"
proof -
  have "HDKeychain_updatePubkey (kl_hd lib) k = Ret k" using assms(1) by (simp add: hd_wf_def)
  then show e: "ec_pubkey (kl_hd lib) (hd_type k) (HDKeychain_privkey k) = Some (hd_pubkey k)"
    using assms(2)
    by (auto simp: HDKeychain_updatePubkey_def HDKeychain_privkey_def split: option.splits)
      (metis HDKeychain.select_convs(9) HDKeychain.surjective HDKeychain.update_convs(9))
  show "Key_of_keychain lib k =
    Ret \<lparr>key_type = hd_type k, key_prv = Some (HDKeychain_privkey k), key_pub = hd_pubkey k\<rparr>"
    using assms e by (simp add: Key_of_keychain_def Key_SetPrvKey_def hd_wf_def)
qed

lemma Key_Sign_verifies:
  assumes lib: "key_lib_ok lib"
    and key: "key_prv key = Some prv" "ec_pubkey (kl_hd lib) (key_type key) prv = Some (key_pub key)"
  shows "\<exists>signature. Key_Sign lib key digest = Ret signature \<and> length signature = 64 \<and>
    Key_Verify_digest lib key digest signature = Ret True"
proof -
  obtain r s where rs: "kl_sign lib (key_type key) prv digest = Some (r, s)" "r < 2 ^ 256" "s < 2 ^ 256"
    "kl_verify lib (key_type key) (key_pub key) digest (be_pad 32 (int r)) (be_pad 32 (int s))"
    using key_lib_okD(3) [OF lib key(2)] by blast
  have l: "length (be_pad 32 (int r)) = 32" "length (be_pad 32 (int s)) = 32"
    by (rule be_pad_33(2); use rs(2,3) in simp)+
  show ?thesis
    using key rs l by (intro exI [of _ "be_pad 32 (int r) @ be_pad 32 (int s)"])
      (simp add: Key_Sign_def Key_Verify_digest_def Key_Verify_def)
qed

end
