(* ===== verification/AccountM.thy ===== *)
theory AccountM
  imports MnemonicM Base64M AddressM KeySignM
begin

text \<open>
  Accounts: \<open>SDK/Account/Account.cpp\<close> over the store of \<open>SDK/SpvService/LocalStore.cpp\<close> and the
  password wrapper of \<open>SDK/WalletCore/AES.cpp\<close>.  An account is its store with what \<open>Init\<close> makes of
  it; the methods that are declared \<open>const\<close> and still call \<open>Init\<close> through mutable members return the
  account they leave.  The file the store is saved to is the field \<open>acc_disk\<close>; its JSON form and
  the file itself are in \<open>StoreJson\<close>.  Parameters, the fields of \<open>account_lib\<close>: the key library of \<open>KeySignM\<close>, the text
  library of \<open>MnemonicM\<close>, the digests of Base58Check and of addresses and the CCM cipher (nothing when OpenSSL reports an
  error).
\<close>

record account_lib =
  al_key :: key_lib
  al_text :: text_lib
  al_sha256_2 :: "bytes \<Rightarrow> uint256"
  al_hash160 :: "bytes \<Rightarrow> uint160"
  al_ccm_encrypt :: "bytes \<Rightarrow> string \<Rightarrow> bytes option"
  al_ccm_decrypt :: "bytes \<Rightarrow> string \<Rightarrow> bytes option"

abbreviation al_hd :: "account_lib \<Rightarrow> hd_lib" where
  "al_hd lib \<equiv> kl_hd (al_key lib)"

section \<open>Secrets under a password\<close>

definition AES_EncryptCCM :: "account_lib \<Rightarrow> bytes \<Rightarrow> string \<Rightarrow> string outcome" where
  "AES_EncryptCCM lib plaintext passwd =
     (if plaintext = [] then Ret (getBase64 [])
      else case al_ccm_encrypt lib plaintext passwd of
             None \<Rightarrow> Throw E_EncryptError
           | Some ciphertext \<Rightarrow> Ret (getBase64 ciphertext))"

definition AES_DecryptCCM :: "account_lib \<Rightarrow> string \<Rightarrow> string \<Rightarrow> bytes outcome" where
  "AES_DecryptCCM lib ciphertext passwd =
     obind (setBase64 ciphertext) (\<lambda>ct.
       if ct = [] then Ret []
       else if length ct < 8 then Throw E_WrongPasswd
       else case al_ccm_decrypt lib ct passwd of
              None \<Rightarrow> Throw E_WrongPasswd
            | Some plaintext \<Rightarrow> Ret plaintext)"

section \<open>The store\<close>

record PublicKeyRing =
  pkr_requestPubKey :: string
  pkr_xPubKey :: string

definition PublicKeyRing_of :: "string \<Rightarrow> string \<Rightarrow> PublicKeyRing" where
  "PublicKeyRing_of pubkey xpub = \<lparr>pkr_requestPubKey = pubkey, pkr_xPubKey = xpub\<rparr>"

record CoinInfo =
  ci_chainID :: string

record LocalStore =
  ls_xPrivKey :: string
  ls_requestPrivKey :: string
  ls_mnemonic :: string
  ls_passphrase :: string
  ls_singlePrivateKey :: string
  ls_seed :: string
  ls_xPubKey :: string
  ls_xPubKeyHDPM :: string
  ls_requestPubKey :: string
  ls_ownerPubKey :: string
  ls_derivationStrategy :: string
  ls_publicKeyRing :: "PublicKeyRing list"
  ls_m :: int
  ls_n :: int
  ls_account :: int
  ls_hasPassphrase :: bool
  ls_singleAddress :: bool
  ls_readonly :: bool
  ls_ethscPrimaryPubKey :: string
  ls_ripplePrimaryPubKey :: string
  ls_xPubKeyBitcoin :: string
  ls_subWallets :: "CoinInfo list"
  ls_path :: string

text \<open>The members the constructor leaves alone are zero here; every use of it sets them.\<close>

definition LocalStore_of_path :: "string \<Rightarrow> LocalStore" where
  "LocalStore_of_path path =
     \<lparr>ls_xPrivKey = [], ls_requestPrivKey = [], ls_mnemonic = [], ls_passphrase = [],
      ls_singlePrivateKey = [], ls_seed = [], ls_xPubKey = [], ls_xPubKeyHDPM = [],
      ls_requestPubKey = [], ls_ownerPubKey = [], ls_derivationStrategy = [], ls_publicKeyRing = [],
      ls_m = 0, ls_n = 0, ls_account = 0, ls_hasPassphrase = False, ls_singleAddress = False,
      ls_readonly = False, ls_ethscPrimaryPubKey = [], ls_ripplePrimaryPubKey = [],
      ls_xPubKeyBitcoin = [], ls_subWallets = [], ls_path = path\<rparr>"

definition AES_recrypt :: "account_lib \<Rightarrow> string \<Rightarrow> string \<Rightarrow> string \<Rightarrow> string outcome" where
  "AES_recrypt lib oldPasswd newPasswd ct =
     obind (AES_DecryptCCM lib ct oldPasswd) (\<lambda>bytes. AES_EncryptCCM lib bytes newPasswd)"

definition LocalStore_ChangePasswd ::
    "account_lib \<Rightarrow> string \<Rightarrow> string \<Rightarrow> LocalStore \<Rightarrow> LocalStore outcome" where
  "LocalStore_ChangePasswd lib oldPasswd newPasswd s =
     (let re = AES_recrypt lib oldPasswd newPasswd in
      obind (re (ls_mnemonic s)) (\<lambda>m.
      obind (re (ls_xPrivKey s)) (\<lambda>x.
      obind (re (ls_requestPrivKey s)) (\<lambda>r.
      obind (re (ls_seed s)) (\<lambda>d.
      obind (re (ls_singlePrivateKey s)) (\<lambda>k.
        Ret (s\<lparr>ls_mnemonic := m, ls_xPrivKey := x, ls_requestPrivKey := r, ls_seed := d,
               ls_singlePrivateKey := k\<rparr>)))))))"

definition LocalStore_AddPublicKeyRing :: "PublicKeyRing \<Rightarrow> LocalStore \<Rightarrow> LocalStore" where
  "LocalStore_AddPublicKeyRing ring s = s\<lparr>ls_publicKeyRing := ls_publicKeyRing s @ [ring]\<rparr>"

definition LocalStore_AddSubWalletInfoList :: "CoinInfo \<Rightarrow> LocalStore \<Rightarrow> LocalStore" where
  "LocalStore_AddSubWalletInfoList info s = s\<lparr>ls_subWallets := ls_subWallets s @ [info]\<rparr>"

primrec remove_first :: "('a \<Rightarrow> bool) \<Rightarrow> 'a list \<Rightarrow> 'a list" where
  "remove_first P [] = []"
| "remove_first P (x # xs) = (if P x then xs else x # remove_first P xs)"

definition LocalStore_RemoveSubWalletInfo :: "string \<Rightarrow> LocalStore \<Rightarrow> LocalStore" where
  "LocalStore_RemoveSubWalletInfo chainID s =
     s\<lparr>ls_subWallets := remove_first (\<lambda>c. chainID = ci_chainID c) (ls_subWallets s)\<rparr>"

definition LocalStore_ClearSubWalletInfoList :: "LocalStore \<Rightarrow> LocalStore" where
  "LocalStore_ClearSubWalletInfoList s = s\<lparr>ls_subWallets := []\<rparr>"

section \<open>Accounts\<close>

datatype AccountSignType = Standard | MultiSign

record Account =
  acc_localstore :: LocalStore
  acc_xpub :: "HDKeychain option"
  acc_btcMasterPubKey :: "HDKeychain option"
  acc_cosignerIndex :: int
  acc_curMultiSigner :: "HDKeychain option"
  acc_allMultiSigners :: "HDKeychain list"
  acc_ownerPubKey :: bytes
  acc_requestPubKey :: bytes
  acc_disk :: "LocalStore option"

definition MAX_MULTISIGN_COSIGNERS :: nat where "MAX_MULTISIGN_COSIGNERS = 6"

text \<open>An account before \<open>Init\<close>.\<close>

definition Account_raw :: "LocalStore \<Rightarrow> Account" where
  "Account_raw s = \<lparr>acc_localstore = s, acc_xpub = None, acc_btcMasterPubKey = None, acc_cosignerIndex = 0,
     acc_curMultiSigner = None, acc_allMultiSigners = [], acc_ownerPubKey = [], acc_requestPubKey = [],
     acc_disk = None\<rparr>"

text \<open>A stored hexadecimal member, and a stored extended key; the empty text stands for none.\<close>

definition read_hex :: "string \<Rightarrow> bytes \<Rightarrow> bytes outcome" where
  "read_hex text old = (if text \<noteq> [] then setHex text else Ret old)"

definition read_xpub :: "account_lib \<Rightarrow> CoinType \<Rightarrow> string \<Rightarrow> HDKeychain outcome" where
  "read_xpub lib type text =
     (case Base58_CheckDecode (al_sha256_2 lib) text of
        None \<Rightarrow> Throw E_PubKeyFormat
      | Some bytes \<Rightarrow> HDKeychain_of_extkey (al_hd lib) type bytes)"

definition read_xpub_option ::
    "account_lib \<Rightarrow> CoinType \<Rightarrow> string \<Rightarrow> HDKeychain option \<Rightarrow> HDKeychain option outcome" where
  "read_xpub_option lib type text none =
     (if text \<noteq> [] then omap Some (read_xpub lib type text) else Ret none)"

primrec read_ring :: "account_lib \<Rightarrow> PublicKeyRing list \<Rightarrow> HDKeychain list outcome" where
  "read_ring lib [] = Ret []"
| "read_ring lib (r # rs) =
     obind (read_xpub lib CTElastos (pkr_xPubKey r)) (\<lambda>k. omap (Cons k) (read_ring lib rs))"

primrec bip45_loop :: "account_lib \<Rightarrow> HDKeychain list \<Rightarrow> nat \<Rightarrow> Account \<Rightarrow> Account outcome" where
  "bip45_loop lib [] i a = Ret a"
| "bip45_loop lib (s # ss) i a =
     obind (HDKeychain_getChild (al_hd lib) s (word_of_nat i)) (\<lambda>c.
     obind (HDKeychain_copy (al_hd lib) c) (\<lambda>tmp.
       let mine = (case acc_curMultiSigner a of
                     Some cur \<Rightarrow> acc_cosignerIndex a = - 1 \<and> HDKeychain_eq cur s | None \<Rightarrow> False);
           a1 = (if mine then a\<lparr>acc_curMultiSigner := Some tmp, acc_cosignerIndex := int i\<rparr> else a)
       in bip45_loop lib ss (Suc i) (a1\<lparr>acc_allMultiSigners := acc_allMultiSigners a1 @ [tmp]\<rparr>)))"

text \<open>\<open>std::sort\<close> by the hexadecimal text of the public key, which is the order of the bytes.\<close>

definition Account_Init_signers :: "account_lib \<Rightarrow> Account \<Rightarrow> Account outcome" where
  "Account_Init_signers lib a =
     (let s = acc_localstore a in
      if ls_n s > 1
      then if ls_derivationStrategy s = ''BIP44''
           then omap (\<lambda>ks. a\<lparr>acc_curMultiSigner := acc_xpub a,
                            acc_allMultiSigners := acc_allMultiSigners a @ ks\<rparr>)
                     (read_ring lib (ls_publicKeyRing s))
           else if ls_derivationStrategy s = ''BIP45''
           then obind (read_ring lib (ls_publicKeyRing s)) (\<lambda>ks.
                  bip45_loop lib (sort_key (\<lambda>k. getHex0 (hd_pubkey k)) ks) 0 a)
           else Ret a
      else Ret a)"

definition Account_Init :: "account_lib \<Rightarrow> Account \<Rightarrow> Account outcome" where
  "Account_Init lib a =
     (let s = acc_localstore a in
      obind (read_hex (ls_ownerPubKey s) (acc_ownerPubKey a)) (\<lambda>owner.
      obind (read_hex (ls_requestPubKey s) (acc_requestPubKey a)) (\<lambda>request.
        if \<not> distinct (map pkr_xPubKey (ls_publicKeyRing s)) then Throw E_PubKeyFormat
        else
      obind (read_xpub_option lib CTElastos (ls_xPubKey s) None) (\<lambda>xpub.
      obind (read_xpub_option lib CTBitcoin (ls_xPubKeyBitcoin s) None) (\<lambda>btc.
      obind (read_xpub_option lib CTElastos (ls_xPubKeyHDPM s) (acc_curMultiSigner a)) (\<lambda>cur.
        Account_Init_signers lib
          (a\<lparr>acc_cosignerIndex := - 1, acc_ownerPubKey := owner, acc_requestPubKey := request,
             acc_xpub := xpub, acc_btcMasterPubKey := btc, acc_curMultiSigner := cur\<rparr>)))))))"

definition Account_of_store :: "account_lib \<Rightarrow> LocalStore \<Rightarrow> Account outcome" where
  "Account_of_store lib store = Account_Init lib (Account_raw store)"

definition Account_Save :: "Account \<Rightarrow> Account" where
  "Account_Save a =
     (if ls_path (acc_localstore a) \<noteq> [] then a\<lparr>acc_disk := Some (acc_localstore a)\<rparr> else a)"

definition Account_Remove :: "Account \<Rightarrow> Account" where
  "Account_Remove a = a\<lparr>acc_disk := None\<rparr>"

section \<open>Keys of an account\<close>

text \<open>
  A path text; \<open>h\<close> stands for the mark of a hardened number, which a string literal here cannot
  end in.
\<close>

definition hd_path :: "string \<Rightarrow> string" where
  "hd_path s = map (\<lambda>c. if c = CHR ''h'' then CHR 0x27 else c) s"

definition hd_child :: "account_lib \<Rightarrow> HDKeychain \<Rightarrow> string \<Rightarrow> HDKeychain outcome" where
  "hd_child lib k path = HDKeychain_getChild_path (al_hd lib) k (hd_path path)"

definition hd_public_text :: "account_lib \<Rightarrow> HDKeychain \<Rightarrow> string \<Rightarrow> string outcome" where
  "hd_public_text lib k path =
     obind (hd_child lib k path) (\<lambda>c.
       omap (\<lambda>p. Base58_CheckEncode (al_sha256_2 lib) (HDKeychain_extkey p) [])
            (HDKeychain_getPublic (al_hd lib) c))"

definition hd_uncompressed_text :: "account_lib \<Rightarrow> HDKeychain \<Rightarrow> string outcome" where
  "hd_uncompressed_text lib k =
     (case kl_uncompressed (al_key lib) (hd_type k) (hd_pubkey k) of
        None \<Rightarrow> Throw E_Key | Some pubkey \<Rightarrow> Ret (getHex0 pubkey))"

definition root_of_seed :: "account_lib \<Rightarrow> CoinType \<Rightarrow> uint512 \<Rightarrow> HDKeychain outcome" where
  "root_of_seed lib type seed =
     obind (HDSeed_getExtendedKey (al_hd lib) (HDSeed_of (al_hd lib) (le_bytes 64 seed)) type True)
       (HDKeychain_of_extkey (al_hd lib) type)"

section \<open>Constructors\<close>

definition Account_of_cosigners ::
    "account_lib \<Rightarrow> string \<Rightarrow> PublicKeyRing list \<Rightarrow> int \<Rightarrow> bool \<Rightarrow> bool \<Rightarrow> Account outcome" where
  "Account_of_cosigners lib path cosigners m singleAddress compatible =
     (if length cosigners > MAX_MULTISIGN_COSIGNERS then Throw E_MultiSign
      else Account_Init lib (Account_raw ((LocalStore_of_path path)
             \<lparr>ls_m := m, ls_n := int (length cosigners), ls_singleAddress := singleAddress,
              ls_readonly := True, ls_publicKeyRing := cosigners,
              ls_derivationStrategy := (if compatible then ''BIP44'' else ''BIP45'')\<rparr>)))"

text \<open>What both constructors of a signing cosigner do with the root key.\<close>

definition cosigner_store ::
    "account_lib \<Rightarrow> HDKeychain \<Rightarrow> PublicKeyRing list \<Rightarrow> int \<Rightarrow> bool \<Rightarrow> bool \<Rightarrow> string \<Rightarrow> string \<Rightarrow> string \<Rightarrow>
     LocalStore \<Rightarrow> LocalStore outcome" where
  "cosigner_store lib rootkey cosigners m singleAddress compatible xPubKey requestPubKey encRequest s =
     (let s1 = s\<lparr>ls_m := m, ls_n := int (length cosigners) + 1, ls_singleAddress := singleAddress,
                ls_readonly := False, ls_publicKeyRing := cosigners, ls_xPubKey := xPubKey,
                ls_requestPubKey := requestPubKey, ls_requestPrivKey := encRequest\<rparr>
      in if compatible
         then Ret ((LocalStore_AddPublicKeyRing (PublicKeyRing_of [] xPubKey)
                     (s1\<lparr>ls_derivationStrategy := ''BIP44''\<rparr>))\<lparr>ls_xPubKeyHDPM := xPubKey\<rparr>)
         else obind (hd_public_text lib rootkey ''45h'') (\<lambda>xpubPurpose.
                Ret ((LocalStore_AddPublicKeyRing (PublicKeyRing_of requestPubKey xpubPurpose)
                       (s1\<lparr>ls_derivationStrategy := ''BIP45''\<rparr>))\<lparr>ls_xPubKeyHDPM := xpubPurpose\<rparr>)))"

definition Account_of_xprv ::
    "account_lib \<Rightarrow> string \<Rightarrow> string \<Rightarrow> string \<Rightarrow> PublicKeyRing list \<Rightarrow> int \<Rightarrow> bool \<Rightarrow> bool \<Rightarrow> Account outcome" where
  "Account_of_xprv lib path xprv payPasswd cosigners m singleAddress compatible =
     (if length cosigners + 1 > MAX_MULTISIGN_COSIGNERS then Throw E_MultiSign
      else case Base58_CheckDecode (al_sha256_2 lib) xprv of
        None \<Rightarrow> Throw E_InvalidArgument
      | Some bytes \<Rightarrow>
          obind (HDKeychain_of_extkey (al_hd lib) CTElastos bytes) (\<lambda>rootkey.
          obind (AES_EncryptCCM lib bytes payPasswd) (\<lambda>encPrv.
          obind (hd_public_text lib rootkey ''44h/0h/0h'') (\<lambda>xPubKey.
          obind (hd_child lib rootkey ''1h/0'') (\<lambda>requestKey.
          obind (AES_EncryptCCM lib (HDKeychain_privkey requestKey) payPasswd) (\<lambda>encRequest.
          obind (cosigner_store lib rootkey cosigners m singleAddress compatible xPubKey
                   (getHex0 (hd_pubkey requestKey)) encRequest
                   ((LocalStore_of_path path)\<lparr>ls_xPrivKey := encPrv\<rparr>)) (\<lambda>s.
            Account_Init lib (Account_raw s))))))))"

text \<open>The members every account with a mnemonic sets from its two root keys.\<close>

definition seed_store ::
    "account_lib \<Rightarrow> string \<Rightarrow> HDKeychain \<Rightarrow> HDKeychain \<Rightarrow> uint512 \<Rightarrow> string \<Rightarrow> string \<Rightarrow> string \<Rightarrow>
     LocalStore outcome" where
  "seed_store lib path rootkey stdrootkey seed mnemonic passphrase payPasswd =
     obind (hd_child lib stdrootkey ''44h/60h/0h/0/0'') (\<lambda>ethkey.
     obind (AES_EncryptCCM lib (le_bytes 64 seed) payPasswd) (\<lambda>encSeed.
     obind (AES_EncryptCCM lib (HDKeychain_privkey ethkey) payPasswd) (\<lambda>encEth.
     obind (hd_uncompressed_text lib ethkey) (\<lambda>ethscPubKey.
     obind (hd_child lib stdrootkey ''44h/144h/0h/0/0'') (\<lambda>ripple.
     obind (AES_EncryptCCM lib (setCharsFromString mnemonic) payPasswd) (\<lambda>encMnemonic.
     obind (AES_EncryptCCM lib (HDKeychain_extkey rootkey) payPasswd) (\<lambda>encPrv.
     obind (hd_public_text lib stdrootkey ''44h/0h/0h'') (\<lambda>xpubBitcoin.
       Ret ((LocalStore_of_path path)
            \<lparr>ls_hasPassphrase := passphrase \<noteq> [], ls_mnemonic := encMnemonic, ls_xPrivKey := encPrv,
             ls_seed := encSeed, ls_ethscPrimaryPubKey := ethscPubKey,
             ls_xPubKeyBitcoin := xpubBitcoin, ls_singlePrivateKey := encEth,
             ls_ripplePrimaryPubKey := getHex0 (hd_pubkey ripple)\<rparr>)))))))))"

definition Account_of_mnemonic_cosigner ::
    "account_lib \<Rightarrow> string \<Rightarrow> string \<Rightarrow> string \<Rightarrow> string \<Rightarrow> PublicKeyRing list \<Rightarrow> int \<Rightarrow> bool \<Rightarrow> bool \<Rightarrow>
     Account outcome" where
  "Account_of_mnemonic_cosigner lib path mnemonic passphrase payPasswd cosigners m singleAddress compatible =
     (if length cosigners + 1 > MAX_MULTISIGN_COSIGNERS then Throw E_MultiSign
      else
        obind (Mnemonic_DeriveSeed (al_text lib) mnemonic passphrase) (\<lambda>seed.
        obind (root_of_seed lib CTElastos seed) (\<lambda>rootkey.
        obind (root_of_seed lib CTBitcoin seed) (\<lambda>stdrootkey.
        obind (seed_store lib path rootkey stdrootkey seed mnemonic passphrase payPasswd) (\<lambda>s0.
        obind (hd_public_text lib rootkey ''44h/0h/0h'') (\<lambda>xPubKey.
        obind (hd_child lib rootkey ''1h/0'') (\<lambda>requestKey.
        obind (AES_EncryptCCM lib (HDKeychain_privkey requestKey) payPasswd) (\<lambda>encRequest.
        obind (cosigner_store lib rootkey cosigners m singleAddress compatible xPubKey
                 (getHex0 (hd_pubkey requestKey)) encRequest s0) (\<lambda>s.
          Account_Init lib (Account_raw s))))))))))"

definition Account_of_seed ::
    "account_lib \<Rightarrow> string \<Rightarrow> uint512 \<Rightarrow> string \<Rightarrow> bool \<Rightarrow> string \<Rightarrow> string \<Rightarrow> Account outcome" where
  "Account_of_seed lib path seed payPasswd singleAddress mnemonic passphrase =
     obind (root_of_seed lib CTElastos seed) (\<lambda>rootkey.
     obind (root_of_seed lib CTBitcoin seed) (\<lambda>stdrootkey.
     obind (seed_store lib path rootkey stdrootkey seed mnemonic passphrase payPasswd) (\<lambda>s.
     obind (hd_public_text lib rootkey ''44h/0h/0h'') (\<lambda>xPubKey.
     obind (hd_public_text lib rootkey ''45h'') (\<lambda>xpubHDPM.
     obind (hd_child lib rootkey ''1h/0'') (\<lambda>requestKey.
     obind (AES_EncryptCCM lib (HDKeychain_privkey requestKey) payPasswd) (\<lambda>encRequest.
     obind (hd_child lib rootkey ''44h/0h/1h/0/0'') (\<lambda>owner.
       Account_Init lib (Account_raw (s
         \<lparr>ls_derivationStrategy := ''BIP44'', ls_m := 1, ls_n := 1, ls_singleAddress := singleAddress,
          ls_readonly := False,
          ls_publicKeyRing := [PublicKeyRing_of (getHex0 (hd_pubkey requestKey)) xpubHDPM],
          ls_xPubKey := xPubKey, ls_xPubKeyHDPM := xpubHDPM,
          ls_requestPubKey := getHex0 (hd_pubkey requestKey), ls_requestPrivKey := encRequest,
          ls_ownerPubKey := getHex0 (hd_pubkey owner)\<rparr>))))))))))"

definition Account_of_mnemonic ::
    "account_lib \<Rightarrow> string \<Rightarrow> string \<Rightarrow> string \<Rightarrow> string \<Rightarrow> bool \<Rightarrow> Account outcome" where
  "Account_of_mnemonic lib path mnemonic passphrase payPasswd singleAddress =
     obind (Mnemonic_DeriveSeed (al_text lib) mnemonic passphrase) (\<lambda>seed.
       Account_of_seed lib path seed payPasswd singleAddress mnemonic passphrase)"

text \<open>An account for the Ethereum side chain alone: a single private key of the Bitcoin curve.\<close>

definition Account_of_single_key :: "account_lib \<Rightarrow> string \<Rightarrow> string \<Rightarrow> string \<Rightarrow> Account outcome" where
  "Account_of_single_key lib path singlePrivateKey passwd =
     obind (setHex singlePrivateKey) (\<lambda>singlePrvKey.
     obind (AES_EncryptCCM lib singlePrvKey passwd) (\<lambda>encSingle.
     obind (Key_of (al_key lib) CTBitcoin singlePrvKey) (\<lambda>k.
     obind (Key_PubKey (al_key lib) k False) (\<lambda>pubkey.
       Account_Init lib (Account_raw ((LocalStore_of_path path)
         \<lparr>ls_derivationStrategy := ''BIP44'', ls_m := 1, ls_n := 1, ls_singleAddress := True,
          ls_readonly := False, ls_ethscPrimaryPubKey := getHex0 pubkey,
          ls_singlePrivateKey := encSingle\<rparr>))))))"

section \<open>Missing members of an old store\<close>

text \<open>
  \<open>RegenerateKey\<close>, step by step in the order of the code; each step takes the store and gives it
  back.  \<open>fill\<close> computes a member that is empty.
\<close>

definition regenerate_seed ::
    "account_lib \<Rightarrow> string \<Rightarrow> LocalStore \<Rightarrow> (LocalStore \<times> uint512 option) outcome" where
  "regenerate_seed lib payPasswd s =
     (if ls_seed s = [] \<and> ls_mnemonic s \<noteq> [] \<and>
         (\<not> ls_hasPassphrase s \<or> ls_hasPassphrase s \<and> ls_passphrase s \<noteq> [])
      then obind (AES_DecryptCCM lib (ls_mnemonic s) payPasswd) (\<lambda>mnemonic.
           obind (AES_DecryptCCM lib (ls_passphrase s) payPasswd) (\<lambda>passphrase.
           obind (Mnemonic_DeriveSeed (al_text lib) (getCharsAsString mnemonic)
                    (getCharsAsString passphrase)) (\<lambda>seed.
           obind (AES_EncryptCCM lib (le_bytes 64 seed) payPasswd) (\<lambda>enc.
             Ret (s\<lparr>ls_seed := enc, ls_hasPassphrase := ls_hasPassphrase s \<or> ls_passphrase s \<noteq> [],
                    ls_passphrase := []\<rparr>, Some seed)))))
      else if ls_seed s \<noteq> []
      then obind (AES_DecryptCCM lib (ls_seed s) payPasswd) (\<lambda>bytes.
             Ret (s, Some (uint512_of_bytes bytes)))
      else Ret (s, None))"

definition regenerate_root ::
    "account_lib \<Rightarrow> string \<Rightarrow> LocalStore \<Rightarrow> uint512 option \<Rightarrow> (LocalStore \<times> HDKeychain option) outcome" where
  "regenerate_root lib payPasswd s seed =
     (if ls_xPrivKey s \<noteq> []
      then obind (AES_DecryptCCM lib (ls_xPrivKey s) payPasswd) (\<lambda>bytes.
           obind (HDKeychain_of_extkey (al_hd lib) CTElastos bytes) (\<lambda>k.
           obind (HDKeychain_assign (al_hd lib) HDKeychain_new k) (\<lambda>rootkey. Ret (s, Some rootkey))))
      else case seed of
             None \<Rightarrow> Ret (s, None)
           | Some sd \<Rightarrow>
               obind (root_of_seed lib CTElastos sd) (\<lambda>k.
               obind (HDKeychain_assign (al_hd lib) HDKeychain_new k) (\<lambda>rootkey.
               obind (AES_EncryptCCM lib (HDKeychain_extkey rootkey) payPasswd) (\<lambda>enc.
                 Ret (s\<lparr>ls_xPrivKey := enc\<rparr>, Some rootkey)))))"

definition regenerate_request ::
    "account_lib \<Rightarrow> string \<Rightarrow> HDKeychain option \<Rightarrow> LocalStore \<Rightarrow> LocalStore outcome" where
  "regenerate_request lib payPasswd rootkey s =
     (case rootkey of
        Some k \<Rightarrow>
          if ls_requestPrivKey s = []
          then obind (hd_child lib k ''1h/0'') (\<lambda>requestKey.
               obind (AES_EncryptCCM lib (HDKeychain_privkey requestKey) payPasswd) (\<lambda>enc.
                 Ret (s\<lparr>ls_requestPrivKey := enc, ls_requestPubKey := getHex0 (hd_pubkey requestKey)\<rparr>)))
          else Ret s
      | None \<Rightarrow> Ret s)"

definition fill ::
    "string \<Rightarrow> HDKeychain option \<Rightarrow> (HDKeychain \<Rightarrow> string outcome) \<Rightarrow> string outcome" where
  "fill member key compute =
     (case key of Some k \<Rightarrow> if member = [] then compute k else Ret member | None \<Rightarrow> Ret member)"

definition regenerate_eth ::
    "account_lib \<Rightarrow> string \<Rightarrow> HDKeychain option \<Rightarrow> LocalStore \<Rightarrow> LocalStore outcome" where
  "regenerate_eth lib payPasswd stdrootkey s =
     (case stdrootkey of
        Some k \<Rightarrow>
          if ls_ethscPrimaryPubKey s = [] \<or> ls_singlePrivateKey s = []
          then obind (hd_child lib k ''44h/60h/0h/0/0'') (\<lambda>ethkey.
               obind (hd_uncompressed_text lib ethkey) (\<lambda>pub.
               obind (AES_EncryptCCM lib (HDKeychain_privkey ethkey) payPasswd) (\<lambda>enc.
                 Ret (s\<lparr>ls_ethscPrimaryPubKey := pub, ls_singlePrivateKey := enc\<rparr>))))
          else Ret s
      | None \<Rightarrow> Ret s)"

definition regenerate_ring :: "PublicKeyRing list \<Rightarrow> LocalStore \<Rightarrow> LocalStore" where
  "regenerate_ring pubkeyRing s =
     (if ls_n s > 1 \<and> ls_xPubKey s \<noteq> []
      then s\<lparr>ls_publicKeyRing :=
               remove_first (\<lambda>r. ls_xPubKey s = pkr_xPubKey r \<or> ls_xPubKeyHDPM s = pkr_xPubKey r) pubkeyRing @
               [PublicKeyRing_of (ls_requestPubKey s)
                  (if ls_derivationStrategy s = ''BIP44'' then ls_xPubKey s else ls_xPubKeyHDPM s)]\<rparr>
      else s)"

definition regenerate_store :: "account_lib \<Rightarrow> string \<Rightarrow> LocalStore \<Rightarrow> LocalStore outcome" where
  "regenerate_store lib payPasswd s =
     obind (regenerate_seed lib payPasswd s) (\<lambda>(s1, seed).
     obind (regenerate_root lib payPasswd s1 seed) (\<lambda>(s2, rootkey).
     obind (regenerate_request lib payPasswd rootkey s2) (\<lambda>s3.
     obind (fill (ls_xPubKey s3) rootkey (\<lambda>k. hd_public_text lib k ''44h/0h/0h'')) (\<lambda>xpub.
     obind (case seed of None \<Rightarrow> Ret None | Some sd \<Rightarrow>
              obind (root_of_seed lib CTBitcoin sd) (\<lambda>k.
                omap Some (HDKeychain_assign (al_hd lib) HDKeychain_new k))) (\<lambda>stdrootkey.
     obind (fill (ls_xPubKeyBitcoin s3) stdrootkey (\<lambda>k. hd_public_text lib k ''44h/0h/0h'')) (\<lambda>btc.
     obind (regenerate_eth lib payPasswd stdrootkey (s3\<lparr>ls_xPubKey := xpub, ls_xPubKeyBitcoin := btc\<rparr>)) (\<lambda>s4.
     obind (fill (ls_ripplePrimaryPubKey s4) stdrootkey
              (\<lambda>k. omap (\<lambda>c. getHex0 (hd_pubkey c)) (hd_child lib k ''44h/144h/0h/0/0''))) (\<lambda>ripple.
     obind (fill (ls_xPubKeyHDPM s4) rootkey (\<lambda>k. hd_public_text lib k ''45h'')) (\<lambda>hdpm.
     obind (fill (ls_ownerPubKey s4) rootkey
              (\<lambda>k. omap (\<lambda>c. getHex0 (hd_pubkey c)) (hd_child lib k ''44h/0h/1h/0/0''))) (\<lambda>owner.
       Ret (regenerate_ring (ls_publicKeyRing s)
              (s4\<lparr>ls_ripplePrimaryPubKey := ripple, ls_xPubKeyHDPM := hdpm, ls_ownerPubKey := owner\<rparr>))))))))))))"

definition Account_RegenerateKey :: "account_lib \<Rightarrow> string \<Rightarrow> Account \<Rightarrow> Account outcome" where
  "Account_RegenerateKey lib payPasswd a =
     obind (regenerate_store lib payPasswd (acc_localstore a)) (\<lambda>s.
       Ret (Account_Save (a\<lparr>acc_localstore := s\<rparr>)))"

text \<open>The lines that open every method that needs a private key.\<close>

definition Account_refresh :: "account_lib \<Rightarrow> string \<Rightarrow> Account \<Rightarrow> Account outcome" where
  "Account_refresh lib payPasswd a =
     (if ls_xPubKeyBitcoin (acc_localstore a) = []
      then obind (Account_RegenerateKey lib payPasswd a) (Account_Init lib)
      else Ret a)"

section \<open>Operations\<close>

definition Account_OwnerPubKey :: "Account \<Rightarrow> bytes outcome" where
  "Account_OwnerPubKey a = (if acc_ownerPubKey a = [] then Throw E_Key else Ret (acc_ownerPubKey a))"

definition Account_GetSignType :: "Account \<Rightarrow> AccountSignType" where
  "Account_GetSignType a = (if ls_n (acc_localstore a) > 1 then MultiSign else Standard)"

definition Account_MultiSignSigner :: "Account \<Rightarrow> HDKeychain option outcome" where
  "Account_MultiSignSigner a =
     (if acc_xpub a = None then Throw E_Key else Ret (acc_curMultiSigner a))"

definition Account_RootKey :: "account_lib \<Rightarrow> string \<Rightarrow> Account \<Rightarrow> (HDKeychain \<times> Account) outcome" where
  "Account_RootKey lib payPasswd a =
     (if ls_readonly (acc_localstore a) then Throw E_Key
      else obind (Account_refresh lib payPasswd a) (\<lambda>a1.
           obind (AES_DecryptCCM lib (ls_xPrivKey (acc_localstore a1)) payPasswd) (\<lambda>extkey.
           obind (HDKeychain_of_extkey (al_hd lib) CTElastos extkey) (\<lambda>key. Ret (key, a1)))))"

definition Account_RequestPrivKey :: "account_lib \<Rightarrow> string \<Rightarrow> Account \<Rightarrow> (Key \<times> Account) outcome" where
  "Account_RequestPrivKey lib payPasswd a =
     (if ls_readonly (acc_localstore a) then Throw E_Key
      else obind (Account_refresh lib payPasswd a) (\<lambda>a1.
           obind (AES_DecryptCCM lib (ls_requestPrivKey (acc_localstore a1)) payPasswd) (\<lambda>bytes.
           obind (Key_SetPrvKey (al_key lib) CTElastos bytes) (\<lambda>key. Ret (key, a1)))))"

definition Account_GetxPrvKeyString :: "account_lib \<Rightarrow> string \<Rightarrow> Account \<Rightarrow> (string \<times> Account) outcome" where
  "Account_GetxPrvKeyString lib payPasswd a =
     (if ls_readonly (acc_localstore a) then Throw E_UnsupportOperation
      else obind (Account_refresh lib payPasswd a) (\<lambda>a1.
           obind (AES_DecryptCCM lib (ls_xPrivKey (acc_localstore a1)) payPasswd) (\<lambda>bytes.
             Ret (Base58_CheckEncode (al_sha256_2 lib) bytes [], a1))))"

definition CheckPassword :: "string \<Rightarrow> unit outcome" where
  "CheckPassword passwd =
     (if length passwd < 8 \<or> length passwd > 128 then Throw E_InvalidPasswd else Ret ())"

definition Account_ChangePassword :: "account_lib \<Rightarrow> string \<Rightarrow> string \<Rightarrow> Account \<Rightarrow> Account outcome" where
  "Account_ChangePassword lib oldPasswd newPasswd a =
     (if ls_readonly (acc_localstore a) then Ret a
      else obind (CheckPassword newPasswd) (\<lambda>_.
           obind (Account_refresh lib oldPasswd a) (\<lambda>a1.
           obind (LocalStore_ChangePasswd lib oldPasswd newPasswd (acc_localstore a1)) (\<lambda>s.
             Ret (Account_Save (a1\<lparr>acc_localstore := s\<rparr>))))))"

definition Account_ResetPassword ::
    "account_lib \<Rightarrow> string \<Rightarrow> string \<Rightarrow> string \<Rightarrow> Account \<Rightarrow> Account outcome" where
  "Account_ResetPassword lib mnemonic passphrase newPasswd a =
     (if ls_readonly (acc_localstore a) then Ret a
      else obind (CheckPassword newPasswd) (\<lambda>_.
           obind (Mnemonic_DeriveSeed (al_text lib) mnemonic passphrase) (\<lambda>seed.
           obind (root_of_seed lib CTElastos seed) (\<lambda>rootkey.
           obind (root_of_seed lib CTBitcoin seed) (\<lambda>stdrootkey.
           obind (hd_child lib stdrootkey ''44h/60h/0h/0/0'') (\<lambda>ethkey.
           obind (hd_public_text lib rootkey ''44h/0h/0h'') (\<lambda>xPubKey.
             if xPubKey \<noteq> ls_xPubKey (acc_localstore a) then Throw E_InvalidArgument
             else
           obind (AES_EncryptCCM lib (HDKeychain_privkey ethkey) newPasswd) (\<lambda>encSingle.
           obind (AES_EncryptCCM lib (le_bytes 64 seed) newPasswd) (\<lambda>encSeed.
           obind (AES_EncryptCCM lib (setCharsFromString mnemonic) newPasswd) (\<lambda>encMnemonic.
           obind (AES_EncryptCCM lib (HDKeychain_extkey rootkey) newPasswd) (\<lambda>encPrv.
           obind (hd_child lib rootkey ''1h/0'') (\<lambda>requestKey.
           obind (AES_EncryptCCM lib (HDKeychain_privkey requestKey) newPasswd) (\<lambda>encRequest.
             Ret (Account_Save (a\<lparr>acc_localstore := (acc_localstore a)
               \<lparr>ls_seed := encSeed, ls_mnemonic := encMnemonic, ls_xPrivKey := encPrv,
                ls_requestPrivKey := encRequest, ls_singlePrivateKey := encSingle\<rparr>\<rparr>)))))))))))))))"

definition Account_GetSeed :: "account_lib \<Rightarrow> string \<Rightarrow> Account \<Rightarrow> uint512 outcome" where
  "Account_GetSeed lib payPasswd a =
     omap (\<lambda>bytes. of_le (take 64 (bytes @ replicate 64 0)))
          (AES_DecryptCCM lib (ls_seed (acc_localstore a)) payPasswd)"

definition Account_GetETHSCPubKey :: "Account \<Rightarrow> bytes outcome" where
  "Account_GetETHSCPubKey a = setHex (ls_ethscPrimaryPubKey (acc_localstore a))"

definition Account_GetRipplePubKey :: "Account \<Rightarrow> bytes outcome" where
  "Account_GetRipplePubKey a = setHex (ls_ripplePrimaryPubKey (acc_localstore a))"

definition Account_GetSinglePrivateKey :: "account_lib \<Rightarrow> string \<Rightarrow> Account \<Rightarrow> bytes outcome" where
  "Account_GetSinglePrivateKey lib passwd a =
     AES_DecryptCCM lib (ls_singlePrivateKey (acc_localstore a)) passwd"

definition Account_HasMnemonic :: "Account \<Rightarrow> bool" where
  "Account_HasMnemonic a \<longleftrightarrow> ls_mnemonic (acc_localstore a) \<noteq> []"

definition Account_Equal :: "Account \<Rightarrow> Account \<Rightarrow> bool outcome" where
  "Account_Equal a b =
     (if Account_GetSignType a \<noteq> Account_GetSignType b then Ret False
      else case (acc_xpub a, acc_xpub b) of
        (None, Some y) \<Rightarrow> Ret False
      | (Some x, None) \<Rightarrow> Ret False
      | (None, None) \<Rightarrow>
          obind (Account_GetETHSCPubKey a) (\<lambda>p. omap (\<lambda>q. p = q) (Account_GetETHSCPubKey b))
      | (Some x, Some y) \<Rightarrow>
          if Account_GetSignType a = MultiSign
          then Ret (length (acc_allMultiSigners a) = length (acc_allMultiSigners b) \<and>
                    list_all2 HDKeychain_eq (acc_allMultiSigners a) (acc_allMultiSigners b))
          else Ret (HDKeychain_eq x y))"

definition Account_VerifyPrivateKey ::
    "account_lib \<Rightarrow> string \<Rightarrow> string \<Rightarrow> Account \<Rightarrow> bool outcome" where
  "Account_VerifyPrivateKey lib mnemonic passphrase a =
     (case acc_xpub a of
        Some xpub \<Rightarrow>
          if ls_readonly (acc_localstore a) then Ret False
          else obind (Mnemonic_DeriveSeed (al_text lib) mnemonic passphrase) (\<lambda>seed.
               obind (root_of_seed lib CTElastos seed) (\<lambda>rootkey.
               obind (hd_child lib rootkey ''44h/0h/0h'') (\<lambda>c.
               obind (HDKeychain_getPublic (al_hd lib) c) (\<lambda>p.
                 Ret (hd_pubkey p = hd_pubkey xpub)))))
      | None \<Rightarrow> Ret False)"

text \<open>The key that is compared with is the one \<open>Init\<close> has left in the refreshed account.\<close>

definition Account_VerifyPassPhrase ::
    "account_lib \<Rightarrow> string \<Rightarrow> string \<Rightarrow> Account \<Rightarrow> (bool \<times> Account) outcome" where
  "Account_VerifyPassPhrase lib passphrase payPasswd a =
     (if ls_readonly (acc_localstore a) \<or> acc_xpub a = None then Ret (False, a)
      else obind (Account_refresh lib payPasswd a) (\<lambda>a1.
           obind (AES_DecryptCCM lib (ls_mnemonic (acc_localstore a1)) payPasswd) (\<lambda>bytes.
           obind (Mnemonic_DeriveSeed (al_text lib) (getCharsAsString bytes) passphrase) (\<lambda>seed.
           obind (root_of_seed lib CTElastos seed) (\<lambda>rootkey.
           obind (hd_child lib rootkey ''44h/0h/0h'') (\<lambda>c.
           obind (HDKeychain_getPublic (al_hd lib) c) (\<lambda>p.
             case acc_xpub a1 of
               None \<Rightarrow> Undef
             | Some xpub \<Rightarrow> Ret (hd_pubkey p = hd_pubkey xpub, a1))))))))"

definition Account_VerifyPayPassword :: "account_lib \<Rightarrow> string \<Rightarrow> Account \<Rightarrow> (bool \<times> Account) outcome" where
  "Account_VerifyPayPassword lib payPasswd a =
     (if ls_readonly (acc_localstore a) then Ret (False, a)
      else obind (Account_refresh lib payPasswd a) (\<lambda>a1.
        let s = acc_localstore a1 in
        obind (if ls_requestPrivKey s \<noteq> [] then AES_DecryptCCM lib (ls_requestPrivKey s) payPasswd
               else if ls_seed s \<noteq> [] then AES_DecryptCCM lib (ls_seed s) payPasswd
               else if ls_mnemonic s \<noteq> [] then AES_DecryptCCM lib (ls_mnemonic s) payPasswd
               else if ls_singlePrivateKey s \<noteq> [] then AES_DecryptCCM lib (ls_singlePrivateKey s) payPasswd
               else if ls_xPrivKey s \<noteq> [] then AES_DecryptCCM lib (ls_xPrivKey s) payPasswd
               else Ret []) (\<lambda>_. Ret (True, a1))))"

definition Account_ExportMnemonic :: "account_lib \<Rightarrow> string \<Rightarrow> Account \<Rightarrow> (string \<times> Account) outcome" where
  "Account_ExportMnemonic lib payPasswd a =
     (if ls_readonly (acc_localstore a) then Throw E_UnsupportOperation
      else obind (Account_refresh lib payPasswd a) (\<lambda>a1.
        if ls_mnemonic (acc_localstore a1) \<noteq> []
        then obind (AES_DecryptCCM lib (ls_mnemonic (acc_localstore a1)) payPasswd) (\<lambda>bytes.
               Ret (getCharsAsString bytes, a1))
        else Ret ([], a1)))"

section \<open>Key stores\<close>

text \<open>The members of \<open>ElaNewWalletJson\<close> and its bases that accounts set and read.\<close>

record ElaNewWalletJson =
  js_xPrivKey :: string
  js_mnemonic :: string
  js_requestPrivKey :: string
  js_seed :: string
  js_singlePrivateKey :: string
  js_xPubKeyBitcoin :: string
  js_xPubKey :: string
  js_requestPubKey :: string
  js_publicKeyRing :: "PublicKeyRing list"
  js_m :: int
  js_n :: int
  js_hasPassphrase :: bool
  js_singleAddress :: bool
  js_derivationStrategy :: string
  js_xPubKeyHDPM :: string
  js_ownerPubKey :: string
  js_coinInfoList :: "CoinInfo list"
  js_ethscPrimaryPubKey :: string
  js_ripplePrimaryPubKey :: string

text \<open>The secrets of a store in the clear; none for a read-only account.\<close>

definition export_secrets ::
    "account_lib \<Rightarrow> string \<Rightarrow> LocalStore \<Rightarrow> (string \<times> string \<times> string \<times> string \<times> string) outcome" where
  "export_secrets lib payPasswd s =
     (if ls_readonly s then Ret ([], [], [], [], [])
      else obind (AES_DecryptCCM lib (ls_xPrivKey s) payPasswd) (\<lambda>x.
           obind (AES_DecryptCCM lib (ls_mnemonic s) payPasswd) (\<lambda>m.
           obind (AES_DecryptCCM lib (ls_requestPrivKey s) payPasswd) (\<lambda>r.
           obind (AES_DecryptCCM lib (ls_seed s) payPasswd) (\<lambda>d.
           obind (AES_DecryptCCM lib (ls_singlePrivateKey s) payPasswd) (\<lambda>k.
             Ret (if x = [] then [] else Base58_CheckEncode (al_sha256_2 lib) x [],
                  getCharsAsString m, getHex0 r, getHex0 d, getHex0 k)))))))"

definition keystore_of :: "LocalStore \<Rightarrow> string \<times> string \<times> string \<times> string \<times> string \<Rightarrow> ElaNewWalletJson" where
  "keystore_of s = (\<lambda>(x, m, r, d, k).
     \<lparr>js_xPrivKey = x, js_mnemonic = m, js_requestPrivKey = r, js_seed = d, js_singlePrivateKey = k,
      js_xPubKeyBitcoin = ls_xPubKeyBitcoin s, js_xPubKey = ls_xPubKey s,
      js_requestPubKey = ls_requestPubKey s, js_publicKeyRing = ls_publicKeyRing s,
      js_m = ls_m s, js_n = ls_n s, js_hasPassphrase = ls_hasPassphrase s,
      js_singleAddress = ls_singleAddress s, js_derivationStrategy = ls_derivationStrategy s,
      js_xPubKeyHDPM = ls_xPubKeyHDPM s, js_ownerPubKey = ls_ownerPubKey s,
      js_coinInfoList = ls_subWallets s, js_ethscPrimaryPubKey = ls_ethscPrimaryPubKey s,
      js_ripplePrimaryPubKey = ls_ripplePrimaryPubKey s\<rparr>)"

definition Account_ExportKeystore ::
    "account_lib \<Rightarrow> string \<Rightarrow> Account \<Rightarrow> (ElaNewWalletJson \<times> Account) outcome" where
  "Account_ExportKeystore lib payPasswd a =
     obind (if \<not> ls_readonly (acc_localstore a) then Account_refresh lib payPasswd a else Ret a) (\<lambda>a1.
     obind (export_secrets lib payPasswd (acc_localstore a1)) (\<lambda>secrets.
       Ret (keystore_of (acc_localstore a1) secrets, a1)))"

text \<open>
  A member of the key store that is there is encrypted for the store.  The result of decoding
  \<open>xPrivKey\<close> is not looked at; what fails to decode leaves the buffer empty, which no extended key is.
\<close>

definition import_hex :: "account_lib \<Rightarrow> string \<Rightarrow> string \<Rightarrow> string outcome" where
  "import_hex lib payPasswd text =
     (if text \<noteq> [] then obind (setHex text) (\<lambda>bytes. AES_EncryptCCM lib bytes payPasswd) else Ret [])"

definition keystore_store ::
    "account_lib \<Rightarrow> string \<Rightarrow> ElaNewWalletJson \<Rightarrow> string \<Rightarrow> LocalStore outcome" where
  "keystore_store lib path json payPasswd =
     obind (if js_xPrivKey json \<noteq> []
            then (case Base58_CheckDecode (al_sha256_2 lib) (js_xPrivKey json) of
                    None \<Rightarrow> Throw E_Key
                  | Some bytes \<Rightarrow>
                      obind (HDKeychain_of_extkey (al_hd lib) CTElastos bytes) (\<lambda>rootkey.
                        AES_EncryptCCM lib bytes payPasswd))
            else Ret []) (\<lambda>x.
     obind (if js_mnemonic json \<noteq> []
            then AES_EncryptCCM lib (setCharsFromString (js_mnemonic json)) payPasswd else Ret []) (\<lambda>m.
     obind (import_hex lib payPasswd (js_requestPrivKey json)) (\<lambda>r.
     obind (import_hex lib payPasswd (js_seed json)) (\<lambda>d.
     obind (import_hex lib payPasswd (js_singlePrivateKey json)) (\<lambda>k.
       Ret ((LocalStore_of_path path)
         \<lparr>ls_readonly := js_xPrivKey json = [] \<and> js_mnemonic json = [] \<and> js_requestPrivKey json = [] \<and>
            js_seed json = [] \<and> js_singlePrivateKey json = [],
          ls_xPrivKey := x, ls_mnemonic := m, ls_requestPrivKey := r, ls_seed := d, ls_singlePrivateKey := k,
          ls_xPubKeyBitcoin := js_xPubKeyBitcoin json, ls_xPubKey := js_xPubKey json,
          ls_requestPubKey := js_requestPubKey json, ls_publicKeyRing := js_publicKeyRing json,
          ls_m := js_m json, ls_n := js_n json, ls_hasPassphrase := js_hasPassphrase json,
          ls_singleAddress := js_singleAddress json, ls_derivationStrategy := js_derivationStrategy json,
          ls_xPubKeyHDPM := js_xPubKeyHDPM json, ls_ownerPubKey := js_ownerPubKey json,
          ls_subWallets := js_coinInfoList json, ls_ethscPrimaryPubKey := js_ethscPrimaryPubKey json,
          ls_ripplePrimaryPubKey := js_ripplePrimaryPubKey json\<rparr>))))))"

definition Account_of_keystore ::
    "account_lib \<Rightarrow> string \<Rightarrow> ElaNewWalletJson \<Rightarrow> string \<Rightarrow> Account outcome" where
  "Account_of_keystore lib path json payPasswd =
     obind (keystore_store lib path json payPasswd) (\<lambda>s. Account_Init lib (Account_raw s))"

section \<open>Passwords\<close>

text \<open>\<open>aes_ok\<close>: what the cipher is documented to do.  A ciphertext ends in an eight-byte tag.\<close>

definition aes_ok :: "account_lib \<Rightarrow> bool" where
  "aes_ok lib \<longleftrightarrow>
     (\<forall>plaintext passwd. plaintext \<noteq> [] \<longrightarrow>
        (\<exists>c. al_ccm_encrypt lib plaintext passwd = Some c \<and> 8 \<le> length c \<and>
             al_ccm_decrypt lib c passwd = Some plaintext))"

lemma getBase64_Nil [simp]: "getBase64 [] = []"
  by (simp add: getBase64_def)

lemma AES_DecryptCCM_Nil [simp]: "AES_DecryptCCM lib [] passwd = Ret []"
  using setBase64_getBase64 [of "[]"] by (simp add: AES_DecryptCCM_def)

lemma AES_roundtrip:
  assumes "aes_ok lib"
  shows "\<exists>ct. AES_EncryptCCM lib p passwd = Ret ct \<and> AES_DecryptCCM lib ct passwd = Ret p \<and> (ct = [] \<longleftrightarrow> p = [])"
proof (cases "p = []")
  case False
  then obtain c where c: "al_ccm_encrypt lib p passwd = Some c" "8 \<le> length c" "al_ccm_decrypt lib c passwd = Some p"
    using assms unfolding aes_ok_def by blast
  have "getBase64 c \<noteq> []" using setBase64_getBase64 [of c] c(2) setBase64_getBase64 [of "[]"] by force
  then show ?thesis
    using False c by (auto simp: AES_EncryptCCM_def AES_DecryptCCM_def setBase64_getBase64)
qed (simp add: AES_EncryptCCM_def)

lemma AES_recrypt:
  assumes "aes_ok lib" and "AES_DecryptCCM lib ct oldPasswd = Ret p"
  shows "\<exists>ct'. AES_recrypt lib oldPasswd newPasswd ct = Ret ct' \<and> AES_DecryptCCM lib ct' newPasswd = Ret p"
  using AES_roundtrip [OF assms(1), of p newPasswd] assms(2) by (auto simp: AES_recrypt_def)

text \<open>The secrets of a store, as the password opens them.\<close>

definition LocalStore_secrets :: "account_lib \<Rightarrow> string \<Rightarrow> LocalStore \<Rightarrow> bytes outcome list" where
  "LocalStore_secrets lib passwd s =
     map (\<lambda>ct. AES_DecryptCCM lib ct passwd)
       [ls_mnemonic s, ls_xPrivKey s, ls_requestPrivKey s, ls_seed s, ls_singlePrivateKey s]"

definition is_Ret :: "'a outcome \<Rightarrow> bool" where
  "is_Ret m \<longleftrightarrow> (case m of Ret x \<Rightarrow> True | _ \<Rightarrow> False)"

lemma is_RetD: "is_Ret m \<Longrightarrow> \<exists>x. m = Ret x"
  by (cases m) (simp_all add: is_Ret_def)

text \<open>The members that are not secrets.\<close>

definition LocalStore_public :: "LocalStore \<Rightarrow> LocalStore" where
  "LocalStore_public s =
     s\<lparr>ls_mnemonic := [], ls_xPrivKey := [], ls_requestPrivKey := [], ls_seed := [], ls_singlePrivateKey := []\<rparr>"

lemma LocalStore_ChangePasswd:
  assumes aes: "aes_ok lib" and s: "list_all is_Ret (LocalStore_secrets lib oldPasswd s)"
  shows "\<exists>s'. LocalStore_ChangePasswd lib oldPasswd newPasswd s = Ret s' \<and>
    LocalStore_secrets lib newPasswd s' = LocalStore_secrets lib oldPasswd s \<and>
    LocalStore_public s' = LocalStore_public s"
proof -
  have ex: "\<exists>ct'. AES_recrypt lib oldPasswd newPasswd ct = Ret ct' \<and>
      AES_DecryptCCM lib ct' newPasswd = AES_DecryptCCM lib ct oldPasswd"
    if "is_Ret (AES_DecryptCCM lib ct oldPasswd)" for ct
    using AES_recrypt [OF aes] is_RetD [OF that] by fastforce
  from s obtain m x r d k where
    "AES_recrypt lib oldPasswd newPasswd (ls_mnemonic s) = Ret m \<and>
       AES_DecryptCCM lib m newPasswd = AES_DecryptCCM lib (ls_mnemonic s) oldPasswd"
    "AES_recrypt lib oldPasswd newPasswd (ls_xPrivKey s) = Ret x \<and>
       AES_DecryptCCM lib x newPasswd = AES_DecryptCCM lib (ls_xPrivKey s) oldPasswd"
    "AES_recrypt lib oldPasswd newPasswd (ls_requestPrivKey s) = Ret r \<and>
       AES_DecryptCCM lib r newPasswd = AES_DecryptCCM lib (ls_requestPrivKey s) oldPasswd"
    "AES_recrypt lib oldPasswd newPasswd (ls_seed s) = Ret d \<and>
       AES_DecryptCCM lib d newPasswd = AES_DecryptCCM lib (ls_seed s) oldPasswd"
    "AES_recrypt lib oldPasswd newPasswd (ls_singlePrivateKey s) = Ret k \<and>
       AES_DecryptCCM lib k newPasswd = AES_DecryptCCM lib (ls_singlePrivateKey s) oldPasswd"
    using ex by (simp add: LocalStore_secrets_def) metis
  then show ?thesis
    by (simp add: LocalStore_ChangePasswd_def LocalStore_secrets_def LocalStore_public_def Let_def)
qed

lemma Account_ChangePassword:
  assumes aes: "aes_ok lib" and s: "list_all is_Ret (LocalStore_secrets lib oldPasswd (acc_localstore a))"
    and new: "ls_xPubKeyBitcoin (acc_localstore a) \<noteq> []" and len: "8 \<le> length newPasswd" "length newPasswd \<le> 128"
    and rw: "\<not> ls_readonly (acc_localstore a)" and path: "ls_path (acc_localstore a) \<noteq> []"
  shows "\<exists>a'. Account_ChangePassword lib oldPasswd newPasswd a = Ret a' \<and>
    LocalStore_secrets lib newPasswd (acc_localstore a') = LocalStore_secrets lib oldPasswd (acc_localstore a) \<and>
    LocalStore_public (acc_localstore a') = LocalStore_public (acc_localstore a) \<and>
    acc_disk a' = Some (acc_localstore a')"
proof -
  obtain s' where s': "LocalStore_ChangePasswd lib oldPasswd newPasswd (acc_localstore a) = Ret s'"
    "LocalStore_secrets lib newPasswd s' = LocalStore_secrets lib oldPasswd (acc_localstore a)"
    "LocalStore_public s' = LocalStore_public (acc_localstore a)"
    using LocalStore_ChangePasswd [OF aes s] by blast
  have "ls_path s' = ls_path (acc_localstore a)"
    using arg_cong [OF s'(3), of ls_path] by (simp add: LocalStore_public_def)
  then show ?thesis
    using s' new len rw path
    by (simp add: Account_ChangePassword_def CheckPassword_def Account_refresh_def Account_Save_def)
qed

section \<open>The signers of an account\<close>

primrec sorted_children :: "account_lib \<Rightarrow> HDKeychain list \<Rightarrow> nat \<Rightarrow> HDKeychain list outcome" where
  "sorted_children lib [] i = Ret []"
| "sorted_children lib (s # ss) i =
     obind (obind (HDKeychain_getChild (al_hd lib) s (word_of_nat i)) (HDKeychain_copy (al_hd lib))) (\<lambda>k.
       omap (Cons k) (sorted_children lib ss (Suc i)))"

definition Account_signers :: "account_lib \<Rightarrow> LocalStore \<Rightarrow> HDKeychain list outcome" where
  "Account_signers lib s =
     (if ls_n s > 1 \<and> ls_derivationStrategy s = ''BIP44'' then read_ring lib (ls_publicKeyRing s)
      else if ls_n s > 1 \<and> ls_derivationStrategy s = ''BIP45''
      then obind (read_ring lib (ls_publicKeyRing s)) (\<lambda>ks.
             sorted_children lib (sort_key (\<lambda>k. getHex0 (hd_pubkey k)) ks) 0)
      else Ret [])"

lemma bip45_loop_signers:
  "bip45_loop lib ss i a = Ret a' \<Longrightarrow> \<exists>ks. sorted_children lib ss i = Ret ks \<and>
     acc_allMultiSigners a' = acc_allMultiSigners a @ ks \<and> acc_localstore a' = acc_localstore a"
proof (induction ss arbitrary: i a)
  case (Cons s ss)
  then obtain c tmp where k: "HDKeychain_getChild (al_hd lib) s (word_of_nat i) = Ret c"
    "HDKeychain_copy (al_hd lib) c = Ret tmp" by (auto simp: obind_eq_Ret)
  define a1 where "a1 = (if (case acc_curMultiSigner a of
      Some cur \<Rightarrow> acc_cosignerIndex a = - 1 \<and> HDKeychain_eq cur s | None \<Rightarrow> False)
    then a\<lparr>acc_curMultiSigner := Some tmp, acc_cosignerIndex := int i\<rparr> else a)"
  have same: "acc_allMultiSigners a1 = acc_allMultiSigners a" "acc_localstore a1 = acc_localstore a"
    by (simp_all add: a1_def)
  have "bip45_loop lib ss (Suc i) (a1\<lparr>acc_allMultiSigners := acc_allMultiSigners a1 @ [tmp]\<rparr>) = Ret a'"
    using Cons.prems k by (simp add: a1_def Let_def)
  from Cons.IH [OF this] show ?case using k same by auto
qed simp

lemma Account_Init_signers:
  assumes "Account_Init lib a = Ret a'"
  shows "\<exists>ks. Account_signers lib (acc_localstore a) = Ret ks \<and>
    acc_allMultiSigners a' = acc_allMultiSigners a @ ks \<and> acc_localstore a' = acc_localstore a"
proof -
  obtain a1 where a1: "Account_Init_signers lib a1 = Ret a'" "acc_localstore a1 = acc_localstore a"
    "acc_allMultiSigners a1 = acc_allMultiSigners a"
    using assms by (fastforce simp: Account_Init_def Let_def obind_eq_Ret split: if_splits)
  show ?thesis
  proof (cases "ls_n (acc_localstore a) > 1 \<and> ls_derivationStrategy (acc_localstore a) = ''BIP44''")
    case True
    then show ?thesis using a1
      by (auto simp: Account_Init_signers_def Account_signers_def Let_def omap_def obind_eq_Ret)
  next
    case False
    then show ?thesis using a1 bip45_loop_signers [of lib _ 0 a1 a']
      by (auto simp: Account_Init_signers_def Account_signers_def Let_def obind_eq_Ret split: if_splits)
  qed
qed

lemma read_ring_length: "read_ring lib rs = Ret ks \<Longrightarrow> length ks = length rs"
  by (induction rs arbitrary: ks) (auto simp: obind_eq_Ret omap_def)

lemma sorted_children_length: "sorted_children lib ss i = Ret ks \<Longrightarrow> length ks = length ss"
  by (induction ss arbitrary: i ks) (auto simp: obind_eq_Ret omap_def)

lemma Account_signers_length:
  assumes "Account_signers lib s = Ret ks" "ls_n s > 1"
    and "ls_derivationStrategy s = ''BIP44'' \<or> ls_derivationStrategy s = ''BIP45''"
  shows "length ks = length (ls_publicKeyRing s)"
  using assms read_ring_length [of lib "ls_publicKeyRing s"]
  by (auto simp: Account_signers_def obind_eq_Ret split: if_splits dest!: sorted_children_length)

text \<open>
  A store without seed and mnemonic never gets its Bitcoin key, so every call that wants a private
  key runs \<open>Init\<close> once more, and \<open>Init\<close> appends the signers to the ones that are there.
\<close>

definition no_seed :: "LocalStore \<Rightarrow> bool" where
  "no_seed s \<longleftrightarrow> ls_seed s = [] \<and> ls_mnemonic s = [] \<and> ls_xPubKeyBitcoin s = [] \<and> \<not> ls_readonly s \<and>
     ls_n s > 1 \<and> (ls_derivationStrategy s = ''BIP44'' \<or> ls_derivationStrategy s = ''BIP45'')"

lemma length_remove_first: "length xs \<le> Suc (length (remove_first P xs))"
  by (induction xs) auto

lemma regenerate_ring_keeps:
  "no_seed (regenerate_ring ring s) = no_seed s"
  "length (ls_publicKeyRing s) = length ring \<Longrightarrow> length ring \<le> length (ls_publicKeyRing (regenerate_ring ring s))"
  using length_remove_first [of ring "\<lambda>r. ls_xPubKey s = pkr_xPubKey r \<or> ls_xPubKeyHDPM s = pkr_xPubKey r"]
  by (simp_all add: regenerate_ring_def no_seed_def)

lemma regenerate_no_seed:
  assumes "regenerate_store lib payPasswd s = Ret s'" and s: "no_seed s"
  shows "no_seed s' \<and> length (ls_publicKeyRing s) \<le> length (ls_publicKeyRing s')"
proof -
  have seed: "regenerate_seed lib payPasswd s = Ret (s, None)"
    using s by (simp add: regenerate_seed_def no_seed_def)
  have root: "s2 = s" if "regenerate_root lib payPasswd s None = Ret (s2, k)" for s2 k
    using that by (auto simp: regenerate_root_def obind_eq_Ret split: if_splits)
  have request: "no_seed s3 \<and> ls_publicKeyRing s3 = ls_publicKeyRing s"
    if "regenerate_request lib payPasswd k s = Ret s3" for k s3
    using that s by (auto simp: regenerate_request_def obind_eq_Ret no_seed_def split: if_splits option.splits)
  obtain s2 k where k: "regenerate_root lib payPasswd s None = Ret (s2, k)"
    using assms(1) by (fastforce simp: regenerate_store_def seed obind_eq_Ret)
  then have s2: "s2 = s" by (rule root)
  obtain s3 x h w where s3: "regenerate_request lib payPasswd k s = Ret s3"
    and s': "s' = regenerate_ring (ls_publicKeyRing s)
      (s3\<lparr>ls_xPubKey := x, ls_xPubKeyHDPM := h, ls_ownerPubKey := w\<rparr>)"
    using assms(1) k unfolding s2
    by (auto simp: regenerate_store_def seed obind_eq_Ret fill_def regenerate_eth_def)
  show ?thesis unfolding s'
    using request [OF s3] regenerate_ring_keeps [where s = "s3\<lparr>ls_xPubKey := x, ls_xPubKeyHDPM := h, ls_ownerPubKey := w\<rparr>"]
    by (simp add: no_seed_def)
qed

lemma Account_RootKey_signers:
  assumes "Account_RootKey lib payPasswd a = Ret (key, a')" and s: "no_seed (acc_localstore a)"
  shows "no_seed (acc_localstore a')"
    and "length (acc_allMultiSigners a) + length (ls_publicKeyRing (acc_localstore a)) \<le> length (acc_allMultiSigners a')"
proof -
  obtain s' where s': "regenerate_store lib payPasswd (acc_localstore a) = Ret s'"
    and i: "Account_Init lib (Account_Save (a\<lparr>acc_localstore := s'\<rparr>)) = Ret a'"
    using assms by (auto simp: Account_RootKey_def Account_refresh_def Account_RegenerateKey_def
        obind_eq_Ret no_seed_def split: if_splits)
  have store: "acc_localstore (Account_Save (a\<lparr>acc_localstore := s'\<rparr>)) = s'"
    and all: "acc_allMultiSigners (Account_Save (a\<lparr>acc_localstore := s'\<rparr>)) = acc_allMultiSigners a"
    by (simp_all add: Account_Save_def)
  note r = regenerate_no_seed [OF s' s]
  obtain ks where ks: "Account_signers lib s' = Ret ks" "acc_allMultiSigners a' = acc_allMultiSigners a @ ks"
    "acc_localstore a' = s'"
    using Account_Init_signers [OF i] store all by auto
  show "no_seed (acc_localstore a')" using r ks(3) by simp
  have "length ks = length (ls_publicKeyRing s')"
    using r by (intro Account_signers_length [OF ks(1)]) (auto simp: no_seed_def)
  then show "length (acc_allMultiSigners a) + length (ls_publicKeyRing (acc_localstore a)) \<le> length (acc_allMultiSigners a')"
    using r ks(2) by simp
qed

section \<open>Key stores\<close>

definition some_nonzero :: "bytes \<Rightarrow> bool" where
  "some_nonzero bs \<longleftrightarrow> (\<exists>b \<in> set bs. b \<noteq> 0)"

lemma import_hex_getHex0:
  assumes "aes_ok lib"
  shows "\<exists>ct. import_hex lib passwd (getHex0 bs) = Ret ct \<and> AES_DecryptCCM lib ct passwd = Ret bs"
proof (cases "bs = []")
  case False
  then have "getHex0 bs \<noteq> []" using length_getHex0 [of bs] by auto
  then show ?thesis using AES_roundtrip [OF assms, of bs passwd] by (auto simp: import_hex_def setHex_getHex)
qed (simp add: import_hex_def)

lemma getHex0_Nil_iff: "getHex0 bs = [] \<longleftrightarrow> bs = []"
  using length_getHex0 [of bs] by (cases bs) auto

lemma Base58_text_nonempty:
  assumes "some_nonzero data"
  shows "Base58_CheckEncode sha256_2 data [] \<noteq> []"
    and "Base58_CheckDecode sha256_2 (Base58_CheckEncode sha256_2 data []) = Some data"
proof -
  show d: "Base58_CheckDecode sha256_2 (Base58_CheckEncode sha256_2 data []) = Some data"
    using Base58_checked_Encode [of data sha256_2] assms
    by (simp add: Base58_CheckDecode_def Base58_CheckEncode_def some_nonzero_def Let_def)
  have "Base58_CheckDecode sha256_2 [] = None"
    by (simp add: Base58_CheckDecode_def Base58_checked_def BigInt_setInBase_def BigInt_getBytes_def Let_def)
  then show "Base58_CheckEncode sha256_2 data [] \<noteq> []" using d by auto
qed

lemma keystore_roundtrip:
  assumes aes: "aes_ok lib"
    and rw: "\<not> ls_readonly (acc_localstore a)" and new: "ls_xPubKeyBitcoin (acc_localstore a) \<noteq> []"
    and secrets: "LocalStore_secrets lib passwd (acc_localstore a) = [Ret m, Ret x, Ret r, Ret d, Ret k]"
    and some: "m \<noteq> [] \<or> x \<noteq> [] \<or> r \<noteq> [] \<or> d \<noteq> [] \<or> k \<noteq> []"
    and root: "x \<noteq> [] \<Longrightarrow> some_nonzero x \<and> is_Ret (HDKeychain_of_extkey (al_hd lib) CTElastos x)"
  shows "\<exists>json s. Account_ExportKeystore lib passwd a = Ret (json, a) \<and>
    keystore_store lib path json passwd' = Ret s \<and>
    LocalStore_secrets lib passwd' s = LocalStore_secrets lib passwd (acc_localstore a) \<and>
    LocalStore_public s =
      (LocalStore_public (acc_localstore a))\<lparr>ls_path := path, ls_account := 0, ls_passphrase := []\<rparr>"
proof -
  let ?s = "acc_localstore a"
  have dec: "AES_DecryptCCM lib (ls_mnemonic ?s) passwd = Ret m" "AES_DecryptCCM lib (ls_xPrivKey ?s) passwd = Ret x"
    "AES_DecryptCCM lib (ls_requestPrivKey ?s) passwd = Ret r" "AES_DecryptCCM lib (ls_seed ?s) passwd = Ret d"
    "AES_DecryptCCM lib (ls_singlePrivateKey ?s) passwd = Ret k"
    using secrets by (simp_all add: LocalStore_secrets_def)
  define xt where "xt = (if x = [] then [] else Base58_CheckEncode (al_sha256_2 lib) x [])"
  have xt: "xt = [] \<longleftrightarrow> x = []" "xt \<noteq> [] \<Longrightarrow> Base58_CheckDecode (al_sha256_2 lib) xt = Some x"
    using Base58_text_nonempty [of x "al_sha256_2 lib"] root by (auto simp: xt_def)
  have mt: "getCharsAsString m = [] \<longleftrightarrow> m = []" by (simp add: getCharsAsString_def)
  define json where "json = keystore_of ?s (xt, getCharsAsString m, getHex0 r, getHex0 d, getHex0 k)"
  have "export_secrets lib passwd ?s = Ret (xt, getCharsAsString m, getHex0 r, getHex0 d, getHex0 k)"
    using dec rw by (simp add: export_secrets_def xt_def)
  then have e: "Account_ExportKeystore lib passwd a = Ret (json, a)"
    using rw new by (simp add: Account_ExportKeystore_def Account_refresh_def json_def)
  have json: "js_xPrivKey json = xt" "js_mnemonic json = getCharsAsString m" "js_requestPrivKey json = getHex0 r"
    "js_seed json = getHex0 d" "js_singlePrivateKey json = getHex0 k"
    by (simp_all add: json_def keystore_of_def)
  obtain x' where x': "AES_EncryptCCM lib x passwd' = Ret x'" "AES_DecryptCCM lib x' passwd' = Ret x"
    using AES_roundtrip [OF aes] by blast
  obtain m' where m': "AES_EncryptCCM lib m passwd' = Ret m'" "AES_DecryptCCM lib m' passwd' = Ret m"
    using AES_roundtrip [OF aes] by blast
  obtain r' d' k' where h': "import_hex lib passwd' (getHex0 r) = Ret r'" "AES_DecryptCCM lib r' passwd' = Ret r"
    "import_hex lib passwd' (getHex0 d) = Ret d'" "AES_DecryptCCM lib d' passwd' = Ret d"
    "import_hex lib passwd' (getHex0 k) = Ret k'" "AES_DecryptCCM lib k' passwd' = Ret k"
    using import_hex_getHex0 [OF aes, of passwd'] by metis
  obtain root where root': "x \<noteq> [] \<Longrightarrow> HDKeychain_of_extkey (al_hd lib) CTElastos x = Ret root"
    using root is_RetD by metis
  let ?x = "if x = [] then [] else x'" and ?m = "if m = [] then [] else m'"
  have parts: "(if js_xPrivKey json \<noteq> []
      then (case Base58_CheckDecode (al_sha256_2 lib) (js_xPrivKey json) of
              None \<Rightarrow> Throw E_Key
            | Some bytes \<Rightarrow>
                obind (HDKeychain_of_extkey (al_hd lib) CTElastos bytes) (\<lambda>rootkey.
                  AES_EncryptCCM lib bytes passwd'))
      else Ret []) = Ret ?x"
    "(if js_mnemonic json \<noteq> [] then AES_EncryptCCM lib (setCharsFromString (js_mnemonic json)) passwd' else Ret []) = Ret ?m"
    using xt x' m' mt root' by (auto simp: json chars_round)
  have ro: "(xt = [] \<and> getCharsAsString m = [] \<and> getHex0 r = [] \<and> getHex0 d = [] \<and> getHex0 k = []) = False"
    using some xt(1) mt by (simp add: getHex0_Nil_iff)
  define s where "s = (LocalStore_public ?s)\<lparr>ls_path := path, ls_account := 0, ls_passphrase := [],
    ls_mnemonic := ?m, ls_xPrivKey := ?x, ls_requestPrivKey := r', ls_seed := d', ls_singlePrivateKey := k'\<rparr>"
  have "keystore_store lib path json passwd' = Ret s"
    unfolding keystore_store_def parts unfolding json h' obind.simps ro
    using rw by (simp add: s_def json_def keystore_of_def LocalStore_public_def LocalStore_of_path_def)
  moreover have "LocalStore_secrets lib passwd' s = [Ret m, Ret x, Ret r, Ret d, Ret k]"
    using x' m' h' by (simp add: s_def LocalStore_secrets_def)
  moreover have "LocalStore_public s = (LocalStore_public ?s)\<lparr>ls_path := path, ls_account := 0, ls_passphrase := []\<rparr>"
    by (simp add: s_def LocalStore_public_def)
  ultimately show ?thesis using e secrets by auto
qed

end
