(* ===== verification/SubAccountM.thy ===== *)
theory SubAccountM
  imports AccountM TransactionM
begin

text \<open>
  Sub-accounts: \<open>SDK/Account/SubAccount.cpp\<close>.  A sub-account derives the addresses of its parent on
  the external and the internal chain, keeps the ones it has derived, finds the private key of a
  public one and signs transactions.  The methods change the cache and, through \<open>RootKey\<close>, the
  parent, so they return the sub-account they leave.  A null extended key makes the code dereference
  a null pointer: \<open>Undef\<close>.
\<close>

definition SEQUENCE_EXTERNAL_CHAIN :: u32 where "SEQUENCE_EXTERNAL_CHAIN = 0"
definition SEQUENCE_INTERNAL_CHAIN :: u32 where "SEQUENCE_INTERNAL_CHAIN = 1"

record SubAccount =
  sa_external :: "Address list"
  sa_internal :: "Address list"
  sa_depositAddress :: Address
  sa_ownerAddress :: Address
  sa_crDepositAddress :: Address
  sa_parent :: Account

definition sa_chain :: "bool \<Rightarrow> u32" where
  "sa_chain internal = (if internal then SEQUENCE_INTERNAL_CHAIN else SEQUENCE_EXTERNAL_CHAIN)"

definition sa_cached :: "bool \<Rightarrow> SubAccount \<Rightarrow> Address list" where
  "sa_cached internal sa = (if internal then sa_internal sa else sa_external sa)"

definition sa_set_cached :: "bool \<Rightarrow> Address list \<Rightarrow> SubAccount \<Rightarrow> SubAccount" where
  "sa_set_cached internal addrs sa =
     (if internal then sa\<lparr>sa_internal := addrs\<rparr> else sa\<lparr>sa_external := addrs\<rparr>)"

definition master_key :: "Account \<Rightarrow> HDKeychain outcome" where
  "master_key a = (case acc_xpub a of None \<Rightarrow> Undef | Some k \<Rightarrow> Ret k)"

definition SubAccount_DIDPubKey :: "account_lib \<Rightarrow> SubAccount \<Rightarrow> bytes outcome" where
  "SubAccount_DIDPubKey lib sa =
     obind (master_key (sa_parent sa)) (\<lambda>mpk.
     obind (HDKeychain_getChild (al_hd lib) mpk 0) (\<lambda>c.
     omap hd_pubkey (HDKeychain_getChild (al_hd lib) c 0)))"

definition SubAccount_OwnerPubKey :: "SubAccount \<Rightarrow> bytes outcome" where
  "SubAccount_OwnerPubKey sa = Account_OwnerPubKey (sa_parent sa)"

definition SubAccount_of :: "account_lib \<Rightarrow> Account \<Rightarrow> SubAccount outcome" where
  "SubAccount_of lib parent =
     (let sa = \<lparr>sa_external = [], sa_internal = [], sa_depositAddress = Address_new,
                sa_ownerAddress = Address_new, sa_crDepositAddress = Address_new, sa_parent = parent\<rparr>
      in if Account_GetSignType parent = MultiSign then Ret sa
         else obind (Account_OwnerPubKey parent) (\<lambda>ownerPubKey.
              obind (Address_of_pubkey (al_hash160 lib) PrefixDeposit ownerPubKey False) (\<lambda>deposit.
              obind (Address_of_pubkey (al_hash160 lib) PrefixStandard ownerPubKey False) (\<lambda>owner.
              obind (SubAccount_DIDPubKey lib sa) (\<lambda>did.
              obind (Address_of_pubkey (al_hash160 lib) PrefixDeposit did False) (\<lambda>crDeposit.
                Ret (sa\<lparr>sa_depositAddress := deposit, sa_ownerAddress := owner,
                        sa_crDepositAddress := crDeposit\<rparr>)))))))"

definition SubAccount_IsProducerDepositAddress :: "SubAccount \<Rightarrow> Address \<Rightarrow> bool" where
  "SubAccount_IsProducerDepositAddress sa address \<longleftrightarrow>
     addr_isValid (sa_depositAddress sa) \<and> Address_eq (sa_depositAddress sa) address"

definition SubAccount_IsOwnerAddress :: "SubAccount \<Rightarrow> Address \<Rightarrow> bool" where
  "SubAccount_IsOwnerAddress sa address \<longleftrightarrow>
     addr_isValid (sa_ownerAddress sa) \<and> Address_eq (sa_ownerAddress sa) address"

definition SubAccount_IsCRDepositAddress :: "SubAccount \<Rightarrow> Address \<Rightarrow> bool" where
  "SubAccount_IsCRDepositAddress sa address \<longleftrightarrow>
     addr_isValid (sa_crDepositAddress sa) \<and> Address_eq (sa_crDepositAddress sa) address"

section \<open>Deriving addresses\<close>

text \<open>One step of each loop of \<open>GetAddresses\<close>: the address of the next index.\<close>

primrec multi_pubkeys :: "account_lib \<Rightarrow> HDKeychain list \<Rightarrow> u32 \<Rightarrow> bytes list outcome" where
  "multi_pubkeys lib [] i = Ret []"
| "multi_pubkeys lib (signer # signers) i =
     obind (HDKeychain_getChild (al_hd lib) signer i) (\<lambda>c.
       omap (Cons (hd_pubkey c)) (multi_pubkeys lib signers i))"

definition multi_address :: "account_lib \<Rightarrow> int \<Rightarrow> HDKeychain list \<Rightarrow> nat \<Rightarrow> Address outcome" where
  "multi_address lib m signers n =
     obind (multi_pubkeys lib signers (word_of_nat n)) (\<lambda>pubkeys.
       Address_of_pubkeys (al_hash160 lib) PrefixMultiSign pubkeys (word_of_int m) False)"

definition standard_address :: "account_lib \<Rightarrow> HDKeychain \<Rightarrow> nat \<Rightarrow> Address outcome" where
  "standard_address lib keychain n =
     obind (HDKeychain_getChild (al_hd lib) keychain (word_of_nat n)) (\<lambda>c.
       Address_of_pubkey (al_hash160 lib) PrefixStandard (hd_pubkey c) False)"

primrec derive_loop :: "(nat \<Rightarrow> Address outcome) \<Rightarrow> nat \<Rightarrow> Address list \<Rightarrow> Address list outcome" where
  "derive_loop mk 0 addrs = Ret addrs"
| "derive_loop mk (Suc k) addrs =
     obind (mk (length addrs)) (\<lambda>addr.
       if \<not> addr_isValid addr then Ret addrs else derive_loop mk k (addrs @ [addr]))"

primrec children :: "account_lib \<Rightarrow> HDKeychain list \<Rightarrow> u32 \<Rightarrow> HDKeychain list outcome" where
  "children lib [] i = Ret []"
| "children lib (k # ks) i =
     obind (HDKeychain_getChild (al_hd lib) k i) (\<lambda>c. omap (Cons c) (children lib ks i))"

text \<open>
  The number of addresses to derive is computed in 32 bits; the range that is returned is not, and
  \<open>assign\<close> reads behind the end of the vector when the loop has stopped short of it.
\<close>

definition SubAccount_GetAddresses ::
    "account_lib \<Rightarrow> u32 \<Rightarrow> u32 \<Rightarrow> bool \<Rightarrow> SubAccount \<Rightarrow> (Address list \<times> SubAccount) outcome" where
  "SubAccount_GetAddresses lib index0 count0 internal0 sa =
     (let single = ls_singleAddress (acc_localstore (sa_parent sa));
          index = (if single then 0 else index0); cnt = (if single then 1 else count0);
          internal = (\<not> single \<and> internal0);
          chain = sa_chain internal; addrChain = sa_cached internal sa;
          derivateCount = (if unat (index + cnt) > length addrChain
                           then unat (index + cnt) - length addrChain else 0)
      in obind
          (if Account_GetSignType (sa_parent sa) = MultiSign
           then obind (if derivateCount > 0 then children lib (acc_allMultiSigners (sa_parent sa)) chain else Ret [])
                  (\<lambda>keychains.
                    derive_loop (multi_address lib (ls_m (acc_localstore (sa_parent sa))) keychains)
                      (if keychains = [] then 0 else derivateCount) addrChain)
           else obind (master_key (sa_parent sa)) (\<lambda>mpk.
                obind (HDKeychain_getChild (al_hd lib) mpk chain) (\<lambda>keychain.
                  derive_loop (standard_address lib keychain) derivateCount addrChain)))
          (\<lambda>addrs.
            if unat index + unat cnt > length addrs then Undef
            else Ret (take (unat cnt) (drop (unat index) addrs), sa_set_cached internal addrs sa)))"

definition SubAccount_GetCID ::
    "account_lib \<Rightarrow> u32 \<Rightarrow> u64 \<Rightarrow> bool \<Rightarrow> SubAccount \<Rightarrow> (Address list \<times> SubAccount) outcome" where
  "SubAccount_GetCID lib index cnt internal sa =
     (if Account_GetSignType (sa_parent sa) = MultiSign then Ret ([], sa)
      else obind (SubAccount_GetAddresses lib index (ucast cnt) internal sa) (\<lambda>(addresses, sa').
           omap (\<lambda>cids. (cids, sa'))
             (map_outcome (Address_ChangePrefix (al_hash160 lib) PrefixIDChain) addresses)))"

section \<open>Finding keys\<close>

text \<open>From the last index of a chain down to the first.\<close>

primrec find_index :: "account_lib \<Rightarrow> HDKeychain \<Rightarrow> bytes list \<Rightarrow> nat \<Rightarrow> HDKeychain option outcome" where
  "find_index lib k pubkeys 0 = Ret None"
| "find_index lib k pubkeys (Suc n) =
     obind (HDKeychain_getChild (al_hd lib) k (word_of_nat n)) (\<lambda>c.
       if hd_pubkey c \<in> set pubkeys then Ret (Some c) else find_index lib k pubkeys n)"

primrec find_chains ::
    "account_lib \<Rightarrow> HDKeychain \<Rightarrow> bytes list \<Rightarrow> (u32 \<times> nat) list \<Rightarrow> HDKeychain option outcome" where
  "find_chains lib k pubkeys [] = Ret None"
| "find_chains lib k pubkeys (cn # cns) =
     obind (HDKeychain_getChild (al_hd lib) k (fst cn)) (\<lambda>c.
     obind (find_index lib c pubkeys (snd cn)) (\<lambda>r.
       if r = None then find_chains lib k pubkeys cns else Ret r))"

primrec find_bipkeys ::
    "account_lib \<Rightarrow> bytes list \<Rightarrow> (u32 \<times> nat) list \<Rightarrow> HDKeychain list \<Rightarrow> HDKeychain option outcome" where
  "find_bipkeys lib pubkeys cns [] = Ret None"
| "find_bipkeys lib pubkeys cns (k # ks) =
     obind (find_chains lib k pubkeys cns) (\<lambda>r.
       if r = None then find_bipkeys lib pubkeys cns ks else Ret r)"

text \<open>The owner key is compared first; asking for it throws when the account has none.\<close>

primrec find_owner :: "Account \<Rightarrow> bytes list \<Rightarrow> bool outcome" where
  "find_owner a [] = Ret False"
| "find_owner a (pubkey # pubkeys) =
     obind (Account_OwnerPubKey a) (\<lambda>owner. if pubkey = owner then Ret True else find_owner a pubkeys)"

definition bip45_keys :: "account_lib \<Rightarrow> HDKeychain \<Rightarrow> Account \<Rightarrow> HDKeychain list outcome" where
  "bip45_keys lib root a =
     obind (hd_child lib root ''45h'') (\<lambda>bip45.
       map_outcome (HDKeychain_getChild (al_hd lib) bip45)
         (if Account_GetSignType a = MultiSign then [word_of_int (acc_cosignerIndex a)]
          else map word_of_nat [0..<MAX_MULTISIGN_COSIGNERS]))"

definition SubAccount_FindPrivateKey ::
    "account_lib \<Rightarrow> u8 \<Rightarrow> bytes list \<Rightarrow> string \<Rightarrow> SubAccount \<Rightarrow> (Key option \<times> SubAccount) outcome" where
  "SubAccount_FindPrivateKey lib type pubkeys payPasswd sa =
     obind (Account_RootKey lib payPasswd (sa_parent sa)) (\<lambda>(root, parent).
     let sa1 = sa\<lparr>sa_parent := parent\<rparr> in
     obind (if Account_GetSignType parent \<noteq> MultiSign then find_owner parent pubkeys else Ret False) (\<lambda>owner.
       if owner
       then obind (hd_child lib root ''44h/0h/1h/0/0'') (\<lambda>k.
              omap (\<lambda>key. (Some key, sa1)) (Key_of_keychain (al_key lib) k))
       else
         obind (hd_child lib root ''44h/0h/0h'') (\<lambda>bip44.
         obind (if type = SignTypeMultiSign then bip45_keys lib root parent else Ret []) (\<lambda>bip45s.
         obind (find_bipkeys lib pubkeys
                  [(SEQUENCE_EXTERNAL_CHAIN, length (sa_external sa)), (SEQUENCE_INTERNAL_CHAIN, length (sa_internal sa))]
                  (bip44 # bip45s)) (\<lambda>found.
           case found of
             None \<Rightarrow> Ret (None, sa1)
           | Some k \<Rightarrow> omap (\<lambda>key. (Some key, sa1)) (Key_of_keychain (al_key lib) k))))))"

section \<open>Signing\<close>

text \<open>The signatures a program has are read until a read fails; the parameter is the fuel.\<close>

fun already_signed :: "nat \<Rightarrow> key_lib \<Rightarrow> Key \<Rightarrow> uint256 \<Rightarrow> ByteStream \<Rightarrow> unit outcome" where
  "already_signed 0 lib key md stream = Undef"
| "already_signed (Suc n) lib key md stream =
     (case ReadVarBytes stream of
        ROk signature stream' \<Rightarrow>
          obind (Key_Verify_digest lib key md signature) (\<lambda>verified.
            if verified then Throw E_AlreadySigned else already_signed n lib key md stream')
      | RFail _ \<Rightarrow> Ret ()
      | RUndef \<Rightarrow> Undef)"

definition sign_parameter :: "key_lib \<Rightarrow> Key \<Rightarrow> uint256 \<Rightarrow> bytes \<Rightarrow> bytes outcome" where
  "sign_parameter lib key md parameter =
     obind (if parameter \<noteq> []
            then obind (already_signed (Suc (length parameter)) lib key md (stream_of parameter)) (\<lambda>_.
                   WriteBytes parameter empty_stream)
            else Ret empty_stream) (\<lambda>stream.
     obind (Key_Sign lib key md) (\<lambda>signature.
       omap buf (WriteVarBytes signature stream)))"

primrec sign_programs ::
    "account_lib \<Rightarrow> uint256 \<Rightarrow> string \<Rightarrow> Program list \<Rightarrow> SubAccount \<Rightarrow> (Program list \<times> SubAccount) outcome" where
  "sign_programs lib md payPasswd [] sa = Ret ([], sa)"
| "sign_programs lib md payPasswd (p # ps) sa =
     obind (Program_DecodePublicKey p) (\<lambda>(type, publicKeys).
       if type \<noteq> SignTypeMultiSign \<and> type \<noteq> SignTypeStandard then Throw E_InvalidArgument
       else
     obind (SubAccount_FindPrivateKey lib type publicKeys payPasswd sa) (\<lambda>(found, sa1).
       case found of
         None \<Rightarrow> Throw E_PrivateKeyNotFound
       | Some key \<Rightarrow>
           obind (sign_parameter (al_key lib) key md (prog_parameter p)) (\<lambda>parameter.
           obind (sign_programs lib md payPasswd ps sa1) (\<lambda>(ps', sa2).
             Ret (p\<lparr>prog_parameter := parameter\<rparr> # ps', sa2)))))"

definition SubAccount_SignTransaction ::
    "account_lib \<Rightarrow> (bytes \<Rightarrow> uint256) \<Rightarrow> Transaction \<Rightarrow> string \<Rightarrow> SubAccount \<Rightarrow>
     (Transaction \<times> SubAccount) outcome" where
  "SubAccount_SignTransaction lib sha256 tx payPasswd sa =
     (if ls_readonly (acc_localstore (sa_parent sa)) then Throw E_Sign
      else obind (Transaction_IsSigned sha256 (kl_valid (al_key lib) CTElastos)
                    (kl_verify (al_key lib) CTElastos) tx) (\<lambda>signed.
        if signed then Throw E_AlreadySigned
        else if tx_programs tx = [] then Throw E_InvalidTransaction
        else obind (Transaction_GetShaData sha256 tx) (\<lambda>md.
             obind (sign_programs lib md payPasswd (tx_programs tx) sa) (\<lambda>(ps, sa').
               Ret (tx\<lparr>tx_programs := ps\<rparr>, sa')))))"

section \<open>Keys and scripts of an address\<close>

text \<open>The chain and index of the first cached address that is \<open>addr\<close> in one of its three forms.\<close>

definition address_forms :: "account_lib \<Rightarrow> Address \<Rightarrow> (Address \<times> Address) outcome" where
  "address_forms lib a =
     omap (\<lambda>cid. (cid, Address_ConvertToDID (al_hash160 lib) cid))
       (Address_ChangePrefix (al_hash160 lib) PrefixIDChain a)"

primrec key_index :: "account_lib \<Rightarrow> Address \<Rightarrow> Address list \<Rightarrow> nat \<Rightarrow> nat option outcome" where
  "key_index lib addr [] i = Ret None"
| "key_index lib addr (a # as) i =
     obind (address_forms lib a) (\<lambda>(cid, did).
       if Address_eq addr a \<or> Address_eq addr cid \<or> Address_eq addr did then Ret (Some i)
       else key_index lib addr as (Suc i))"

definition key_at ::
    "account_lib \<Rightarrow> string \<Rightarrow> SubAccount \<Rightarrow> u32 \<Rightarrow> nat \<Rightarrow> (Key \<times> SubAccount) outcome" where
  "key_at lib payPasswd sa chain i =
     obind (Account_RootKey lib payPasswd (sa_parent sa)) (\<lambda>(root, parent).
     obind (hd_child lib root ''44h/0h/0h'') (\<lambda>k.
     obind (HDKeychain_getChild (al_hd lib) k chain) (\<lambda>c.
     obind (HDKeychain_getChild (al_hd lib) c (word_of_nat i)) (\<lambda>d.
       omap (\<lambda>key. (key, sa\<lparr>sa_parent := parent\<rparr>)) (Key_of_keychain (al_key lib) d)))))"

definition SubAccount_GetKeyWithAddress ::
    "account_lib \<Rightarrow> Address \<Rightarrow> string \<Rightarrow> SubAccount \<Rightarrow> (Key \<times> SubAccount) outcome" where
  "SubAccount_GetKeyWithAddress lib addr payPasswd sa =
     (if Account_GetSignType (sa_parent sa) = MultiSign then Throw E_PrivateKeyNotFound
      else obind (key_index lib addr (sa_external sa) 0) (\<lambda>e.
        case e of
          Some i \<Rightarrow> key_at lib payPasswd sa SEQUENCE_EXTERNAL_CHAIN i
        | None \<Rightarrow>
            obind (key_index lib addr (sa_internal sa) 0) (\<lambda>n.
              case n of
                Some i \<Rightarrow> key_at lib payPasswd sa SEQUENCE_INTERNAL_CHAIN i
              | None \<Rightarrow> Throw E_PrivateKeyNotFound)))"

definition derive_key :: "account_lib \<Rightarrow> string \<Rightarrow> string \<Rightarrow> SubAccount \<Rightarrow> (Key \<times> SubAccount) outcome" where
  "derive_key lib path payPasswd sa =
     obind (Account_RootKey lib payPasswd (sa_parent sa)) (\<lambda>(root, parent).
     obind (hd_child lib root path) (\<lambda>k.
       omap (\<lambda>key. (key, sa\<lparr>sa_parent := parent\<rparr>)) (Key_of_keychain (al_key lib) k)))"

definition SubAccount_DeriveOwnerKey :: "account_lib \<Rightarrow> string \<Rightarrow> SubAccount \<Rightarrow> (Key \<times> SubAccount) outcome" where
  "SubAccount_DeriveOwnerKey lib = derive_key lib ''44h/0h/1h/0/0''"

definition SubAccount_DeriveDIDKey :: "account_lib \<Rightarrow> string \<Rightarrow> SubAccount \<Rightarrow> (Key \<times> SubAccount) outcome" where
  "SubAccount_DeriveDIDKey lib = derive_key lib ''44h/0h/0h/0/0''"

text \<open>The script of an address among the cached ones, from the last to the first.\<close>

primrec code_of :: "account_lib \<Rightarrow> bool \<Rightarrow> Address \<Rightarrow> Address list \<Rightarrow> bytes option outcome" where
  "code_of lib multi addr [] = Ret None"
| "code_of lib multi addr (a # as) =
     (if Address_eq a addr then Ret (Some (addr_code a))
      else if multi then code_of lib multi addr as
      else obind (address_forms lib a) (\<lambda>(cid, did).
             if Address_eq addr cid then Ret (Some (addr_code cid))
             else if Address_eq addr did then Ret (Some (addr_code did))
             else code_of lib multi addr as))"

definition SubAccount_GetCode :: "account_lib \<Rightarrow> Address \<Rightarrow> SubAccount \<Rightarrow> bytes option outcome" where
  "SubAccount_GetCode lib addr sa =
     (if SubAccount_IsProducerDepositAddress sa addr then Ret (Some (addr_code (sa_depositAddress sa)))
      else if SubAccount_IsOwnerAddress sa addr then Ret (Some (addr_code (sa_ownerAddress sa)))
      else if SubAccount_IsCRDepositAddress sa addr then Ret (Some (addr_code (sa_crDepositAddress sa)))
      else let multi = (Account_GetSignType (sa_parent sa) = MultiSign) in
           obind (code_of lib multi addr (rev (sa_external sa))) (\<lambda>e.
             case e of Some code \<Rightarrow> Ret (Some code)
             | None \<Rightarrow> code_of lib multi addr (rev (sa_internal sa))))"

text \<open>The public keys of a range; the index is a 32-bit number, the count is not.\<close>

datatype PubKeyInfo = PubKeys "string list" | MultiPubKeys int "(string \<times> string list) list"

definition pubkey_text :: "account_lib \<Rightarrow> HDKeychain \<Rightarrow> u32 \<Rightarrow> string outcome" where
  "pubkey_text lib k i = omap (\<lambda>c. getHex0 (hd_pubkey c)) (HDKeychain_getChild (al_hd lib) k i)"

definition SubAccount_GetPublickeys ::
    "account_lib \<Rightarrow> u32 \<Rightarrow> nat \<Rightarrow> bool \<Rightarrow> SubAccount \<Rightarrow> PubKeyInfo outcome" where
  "SubAccount_GetPublickeys lib index0 count0 internal0 sa =
     (let a = sa_parent sa; single = ls_singleAddress (acc_localstore a);
          index = (if single then 0 else index0); cnt = (if single then 1 else count0);
          chain = sa_chain (\<not> single \<and> internal0);
          range = map (\<lambda>i. index + word_of_nat i) [0..<cnt]
      in if Account_GetSignType a = MultiSign
         then obind (if cnt > 0
                     then obind (children lib (acc_allMultiSigners a) chain) (\<lambda>allKeychains.
                          obind (Account_MultiSignSigner a) (\<lambda>signer.
                            case signer of None \<Rightarrow> Undef
                            | Some k \<Rightarrow> omap (\<lambda>mine. (allKeychains, Some mine)) (HDKeychain_getChild (al_hd lib) k chain)))
                     else Ret ([], None)) (\<lambda>(allKeychains, mine).
                case mine of
                  None \<Rightarrow> Ret (MultiPubKeys (ls_m (acc_localstore a)) [])
                | Some me \<Rightarrow>
                    if allKeychains = [] then Ret (MultiPubKeys (ls_m (acc_localstore a)) [])
                    else omap (MultiPubKeys (ls_m (acc_localstore a)))
                      (map_outcome (\<lambda>i.
                         obind (map_outcome (\<lambda>signer. pubkey_text lib signer i) allKeychains) (\<lambda>pubkeys.
                           omap (\<lambda>m. (m, pubkeys)) (pubkey_text lib me i))) range))
         else obind (master_key a) (\<lambda>mpk.
              obind (HDKeychain_getChild (al_hd lib) mpk chain) (\<lambda>keychain.
                omap PubKeys (map_outcome (pubkey_text lib keychain) range))))"

section \<open>The cache\<close>

text \<open>The address of an index, computed from the parent alone.\<close>

definition sa_address :: "account_lib \<Rightarrow> Account \<Rightarrow> bool \<Rightarrow> nat \<Rightarrow> Address outcome" where
  "sa_address lib a internal n =
     (if Account_GetSignType a = MultiSign
      then obind (children lib (acc_allMultiSigners a) (sa_chain internal)) (\<lambda>keychains.
             multi_address lib (ls_m (acc_localstore a)) keychains n)
      else obind (master_key a) (\<lambda>mpk.
           obind (HDKeychain_getChild (al_hd lib) mpk (sa_chain internal)) (\<lambda>keychain.
             standard_address lib keychain n)))"

text \<open>What is cached is what is derived, and valid.\<close>

definition cache_ok :: "account_lib \<Rightarrow> Account \<Rightarrow> bool \<Rightarrow> Address list \<Rightarrow> bool" where
  "cache_ok lib a internal addrs \<longleftrightarrow>
     (\<forall>i < length addrs. sa_address lib a internal i = Ret (addrs ! i) \<and> addr_isValid (addrs ! i))"

definition sa_ok :: "account_lib \<Rightarrow> SubAccount \<Rightarrow> bool" where
  "sa_ok lib sa \<longleftrightarrow>
     cache_ok lib (sa_parent sa) False (sa_external sa) \<and> cache_ok lib (sa_parent sa) True (sa_internal sa)"

lemma sa_ok_cached: "sa_ok lib sa \<longleftrightarrow> (\<forall>internal. cache_ok lib (sa_parent sa) internal (sa_cached internal sa))"
  unfolding sa_ok_def sa_cached_def by (metis (full_types))

lemma sa_set_cached_simps [simp]:
  "sa_parent (sa_set_cached internal addrs sa) = sa_parent sa"
  "sa_cached i (sa_set_cached internal addrs sa) = (if i = internal then addrs else sa_cached i sa)"
  by (simp_all add: sa_set_cached_def sa_cached_def)

lemma derive_loop_cache:
  "derive_loop mk k addrs = Ret addrs' \<Longrightarrow> (\<And>i. 0 < k \<Longrightarrow> sa_address lib a internal i = mk i) \<Longrightarrow>
   cache_ok lib a internal addrs \<Longrightarrow> cache_ok lib a internal addrs' \<and> length addrs' \<le> length addrs + k"
proof (induction k arbitrary: addrs)
  case (Suc k)
  obtain addr where addr: "mk (length addrs) = Ret addr"
    using Suc.prems(1) by (auto simp: obind_eq_Ret)
  show ?case
  proof (cases "addr_isValid addr")
    case True
    have "cache_ok lib a internal (addrs @ [addr])"
      using Suc.prems(2) [of "length addrs"] Suc.prems(3) addr True
      by (auto simp: cache_ok_def nth_append less_Suc_eq)
    then show ?thesis using Suc.IH [of "addrs @ [addr]"] Suc.prems addr True by auto
  next
    case False
    then show ?thesis using Suc.prems addr by simp
  qed
qed simp

lemma children_Nil: "children lib ks i = Ret [] \<Longrightarrow> ks = []"
  by (cases ks) (auto simp: obind_eq_Ret omap_def)

text \<open>
  A call runs one of the two loops on the cache of the chain it ends up with; an account with a
  single address replaces the range it was asked for.
\<close>

lemma SubAccount_GetAddresses_run:
  assumes g: "SubAccount_GetAddresses lib index0 count0 internal0 sa = Ret (addrs, sa')"
  obtains index cnt internal mk k all where
    "derive_loop mk k (sa_cached internal sa) = Ret all"
    "\<And>i. 0 < k \<Longrightarrow> sa_address lib (sa_parent sa) internal i = mk i"
    "unat index + unat cnt \<le> length all" "addrs = take (unat cnt) (drop (unat index) all)"
    "sa' = sa_set_cached internal all sa"
    "\<not> ls_singleAddress (acc_localstore (sa_parent sa)) \<Longrightarrow> index = index0 \<and> cnt = count0 \<and> internal = internal0"
proof -
  define index where "index = (if ls_singleAddress (acc_localstore (sa_parent sa)) then 0 else index0)"
  define cnt where "cnt = (if ls_singleAddress (acc_localstore (sa_parent sa)) then 1 else count0)"
  define internal where "internal = (\<not> ls_singleAddress (acc_localstore (sa_parent sa)) \<and> internal0)"
  have s: "index = index0 \<and> cnt = count0 \<and> internal = internal0"
    if "\<not> ls_singleAddress (acc_localstore (sa_parent sa))"
    using that by (simp add: index_def cnt_def internal_def)
  define n where "n = (if unat (index + cnt) > length (sa_cached internal sa)
    then unat (index + cnt) - length (sa_cached internal sa) else 0)"
  note g = g [unfolded SubAccount_GetAddresses_def Let_def, folded index_def cnt_def internal_def, folded n_def]
  show thesis
  proof (cases "Account_GetSignType (sa_parent sa) = MultiSign")
    case True
    obtain ks all where ks: "(if n > 0 then children lib (acc_allMultiSigners (sa_parent sa)) (sa_chain internal) else Ret []) = Ret ks"
      and "derive_loop (multi_address lib (ls_m (acc_localstore (sa_parent sa))) ks) (if ks = [] then 0 else n)
        (sa_cached internal sa) = Ret all"
      and "unat index + unat cnt \<le> length all" "addrs = take (unat cnt) (drop (unat index) all)"
        "sa' = sa_set_cached internal all sa"
      using g True by (auto simp: obind_eq_Ret split: if_splits)
    then show ?thesis
      by (intro that [of "multi_address lib (ls_m (acc_localstore (sa_parent sa))) ks" "if ks = [] then 0 else n" internal all index cnt])
        (use ks True s in \<open>auto simp: sa_address_def split: if_splits\<close>)
  next
    case False
    then obtain mpk kc all where "master_key (sa_parent sa) = Ret mpk"
      "HDKeychain_getChild (al_hd lib) mpk (sa_chain internal) = Ret kc"
      "derive_loop (standard_address lib kc) n (sa_cached internal sa) = Ret all"
      "unat index + unat cnt \<le> length all" "addrs = take (unat cnt) (drop (unat index) all)"
      "sa' = sa_set_cached internal all sa"
      using g by (auto simp: obind_eq_Ret split: if_splits)
    then show ?thesis
      by (intro that [of "standard_address lib kc" n internal all index cnt]) (use False s in \<open>auto simp: sa_address_def\<close>)
  qed
qed

lemma derive_loop_prefix: "derive_loop mk k addrs = Ret addrs' \<Longrightarrow> prefix addrs addrs'"
proof (induction k arbitrary: addrs)
  case (Suc k)
  then obtain addr where "mk (length addrs) = Ret addr" by (auto simp: obind_eq_Ret)
  then show ?case
    using Suc.prems Suc.IH [of "addrs @ [addr]"] by (auto dest: append_prefixD split: if_splits)
qed simp

text \<open>The caches stay right and only grow; the range that is returned is the range of derived addresses.\<close>

lemma SubAccount_GetAddresses_keeps:
  assumes "SubAccount_GetAddresses lib index cnt internal sa = Ret (addrs, sa')"
  shows "sa_parent sa' = sa_parent sa" "sa_ok lib sa \<Longrightarrow> sa_ok lib sa'"
    and "prefix (sa_cached i sa) (sa_cached i sa')"
    and "sa_depositAddress sa' = sa_depositAddress sa" "sa_ownerAddress sa' = sa_ownerAddress sa"
      "sa_crDepositAddress sa' = sa_crDepositAddress sa"
proof -
  obtain chain mk k all where r: "derive_loop mk k (sa_cached chain sa) = Ret all"
    "\<And>i. 0 < k \<Longrightarrow> sa_address lib (sa_parent sa) chain i = mk i" "sa' = sa_set_cached chain all sa"
    using SubAccount_GetAddresses_run [OF assms] by metis
  show "sa_parent sa' = sa_parent sa" using r(3) by simp
  show "sa_ok lib sa'" if "sa_ok lib sa"
    using that r derive_loop_cache [OF r(1,2)] by (auto simp: sa_ok_cached)
  show "prefix (sa_cached i sa) (sa_cached i sa')" using derive_loop_prefix [OF r(1)] r(3) by simp
  show "sa_depositAddress sa' = sa_depositAddress sa" "sa_ownerAddress sa' = sa_ownerAddress sa"
      "sa_crDepositAddress sa' = sa_crDepositAddress sa"
    using r(3) by (simp_all add: sa_set_cached_def)
qed

lemma SubAccount_GetAddresses_ok:
  assumes ok: "sa_ok lib sa" and g: "SubAccount_GetAddresses lib index cnt internal sa = Ret (addrs, sa')"
    and s: "\<not> ls_singleAddress (acc_localstore (sa_parent sa))"
  shows "sa_ok lib sa'" "sa_parent sa' = sa_parent sa" "length addrs = unat cnt"
    and "j < unat cnt \<Longrightarrow> sa_address lib (sa_parent sa) internal (unat index + j) = Ret (addrs ! j) \<and> addr_isValid (addrs ! j)"
proof -
  show "sa_ok lib sa'" "sa_parent sa' = sa_parent sa" using SubAccount_GetAddresses_keeps [OF g] ok by blast+
  obtain mk k all where r: "derive_loop mk k (sa_cached internal sa) = Ret all"
    "\<And>i. 0 < k \<Longrightarrow> sa_address lib (sa_parent sa) internal i = mk i"
    "unat index + unat cnt \<le> length all" "addrs = take (unat cnt) (drop (unat index) all)"
    by (rule SubAccount_GetAddresses_run [OF g]) (use s in blast)
  have "cache_ok lib (sa_parent sa) internal (sa_cached internal sa)" using ok by (simp add: sa_ok_cached)
  then have all: "cache_ok lib (sa_parent sa) internal all" using derive_loop_cache [OF r(1,2)] by blast
  show "length addrs = unat cnt" using r(3,4) by simp
  show "sa_address lib (sa_parent sa) internal (unat index + j) = Ret (addrs ! j) \<and> addr_isValid (addrs ! j)"
    if "j < unat cnt"
    using that all r(3,4) by (simp add: cache_ok_def)
qed

text \<open>A range that is derivable is returned.\<close>

lemma derive_loop_total:
  "(\<And>i. i < n \<Longrightarrow> \<exists>a. mk i = Ret a \<and> addr_isValid a) \<Longrightarrow> length addrs + k \<le> n \<Longrightarrow>
   \<exists>addrs'. derive_loop mk k addrs = Ret addrs' \<and> length addrs' = length addrs + k"
proof (induction k arbitrary: addrs)
  case (Suc k)
  have "length addrs < n" using Suc.prems(2) by simp
  then obtain a where "mk (length addrs) = Ret a" "addr_isValid a" using Suc.prems(1) by blast
  then show ?case using Suc.IH [of "addrs @ [a]"] Suc.prems by auto
qed simp

lemma SubAccount_GetAddresses_total:
  assumes st: "Account_GetSignType (sa_parent sa) = Standard"
    and s: "\<not> ls_singleAddress (acc_localstore (sa_parent sa))"
    and w: "unat index + unat cnt < 2 ^ 32" and n: "0 < unat index + unat cnt"
    and a: "\<And>i. i < unat index + unat cnt \<Longrightarrow> \<exists>a. sa_address lib (sa_parent sa) internal i = Ret a \<and> addr_isValid a"
  shows "\<exists>addrs sa'. SubAccount_GetAddresses lib index cnt internal sa = Ret (addrs, sa')"
proof -
  obtain mpk kc where k: "master_key (sa_parent sa) = Ret mpk"
    "HDKeychain_getChild (al_hd lib) mpk (sa_chain internal) = Ret kc"
    using a [OF n] st by (auto simp: sa_address_def obind_eq_Ret)
  have mk: "\<exists>a. standard_address lib kc i = Ret a \<and> addr_isValid a" if "i < unat index + unat cnt" for i
    using a [OF that] st k by (simp add: sa_address_def)
  have u: "unat (index + cnt) = unat index + unat cnt"
    using w by (simp add: unat_add_lem [symmetric])
  define m where "m = (if unat (index + cnt) > length (sa_cached internal sa)
    then unat (index + cnt) - length (sa_cached internal sa) else 0)"
  obtain all where "derive_loop (standard_address lib kc) m (sa_cached internal sa) = Ret all"
    "length all = length (sa_cached internal sa) + m"
  proof (cases "unat (index + cnt) > length (sa_cached internal sa)")
    case True
    then show ?thesis
      using derive_loop_total [of "unat index + unat cnt" "standard_address lib kc" "sa_cached internal sa" m] mk that u
      by (auto simp: m_def)
  qed (use that in \<open>simp add: m_def\<close>)
  then show ?thesis
    using k st s u by (auto simp: SubAccount_GetAddresses_def Let_def m_def split: if_splits)
qed

text \<open>A range that passes \<open>2 ^ 32\<close> wraps the number to derive, and the vector is read behind its end.\<close>

lemma derive_loop_length: "derive_loop mk k addrs = Ret addrs' \<Longrightarrow> length addrs' \<le> length addrs + k"
  by (induction k arbitrary: addrs) (fastforce simp: obind_eq_Ret split: if_splits)+

lemma SubAccount_GetAddresses_wrap:
  assumes s: "\<not> ls_singleAddress (acc_localstore (sa_parent sa))"
    and w: "2 ^ 32 \<le> unat index + unat cnt" and c: "length (sa_cached internal sa) < unat index + unat cnt"
  shows "SubAccount_GetAddresses lib index cnt internal sa \<noteq> Ret r"
proof
  assume g: "SubAccount_GetAddresses lib index cnt internal sa = Ret r"
  have t: "unat (index + cnt) < unat index + unat cnt"
    using unat_bound [of "index + cnt"] w by simp
  define n where "n = (if unat (index + cnt) > length (sa_cached internal sa)
    then unat (index + cnt) - length (sa_cached internal sa) else 0)"
  obtain mk k all where "derive_loop mk k (sa_cached internal sa) = Ret all" "k \<le> n"
    "unat index + unat cnt \<le> length all"
    using g s unfolding SubAccount_GetAddresses_def Let_def
    by (auto simp: obind_eq_Ret n_def split: if_splits)
  then have "unat index + unat cnt \<le> length (sa_cached internal sa) + n"
    using derive_loop_length by fastforce
  then show False using t c by (auto simp: n_def split: if_splits)
qed

section \<open>Scripts\<close>

text \<open>An address that was made from its script.\<close>

definition Address_hashed :: "(bytes \<Rightarrow> uint160) \<Rightarrow> Address \<Rightarrow> bool" where
  "Address_hashed hash160 a \<longleftrightarrow>
     addr_programHash a = uint168_of_prefix (uint168_prefix (addr_programHash a)) (le_bytes 20 (hash160 (addr_code a)))"

lemma GenerateProgramHash_hashed: "Address_hashed hash160 (Address_GenerateProgramHash hash160 pfx a)"
  by (simp add: Address_hashed_def Address_GenerateProgramHash_def uint168_prefix_of_prefix)

lemma CheckValid_hashed: "Address_hashed hash160 (Address_CheckValid a) = Address_hashed hash160 a"
  by (simp only: Address_hashed_def Address_CheckValid_simps)

lemma Address_of_pubkeys_hashed:
  assumes "Address_of_pubkeys hash160 pfx ks m did = Ret a" and "addr_isValid a"
  shows "Address_hashed hash160 a"
proof (cases "ks = []")
  case False
  then obtain code where "a = Address_CheckValid (Address_GenerateProgramHash hash160 pfx (Address_new\<lparr>addr_code := code\<rparr>))"
    using assms(1) by (auto simp: Address_of_pubkeys_def obind_eq_Ret)
  then show ?thesis using GenerateProgramHash_hashed by (simp only: CheckValid_hashed)
qed (use assms in \<open>auto simp: Address_of_pubkeys_def Address_new_def\<close>)

lemma sa_address_hashed:
  assumes "sa_address lib a internal n = Ret addr" "addr_isValid addr"
  shows "Address_hashed (al_hash160 lib) addr"
  using assms Address_of_pubkeys_hashed
  by (auto simp: sa_address_def multi_address_def standard_address_def Address_of_pubkey_def
      obind_eq_Ret split: if_splits)

lemma cache_hashed:
  assumes "cache_ok lib a internal addrs" "addr \<in> set addrs"
  shows "Address_hashed (al_hash160 lib) addr"
  using assms sa_address_hashed by (force simp: cache_ok_def in_set_conv_nth)

lemma address_forms_hashed:
  assumes "address_forms lib a = Ret (cid, did)"
  shows "Address_hashed (al_hash160 lib) cid" "Address_hashed (al_hash160 lib) did"
proof -
  show "Address_hashed (al_hash160 lib) cid"
    using assms GenerateProgramHash_hashed
    by (auto simp: address_forms_def omap_def obind_eq_Ret Address_ChangePrefix_def split: if_splits)
  then show "Address_hashed (al_hash160 lib) did"
    using assms GenerateProgramHash_hashed
    by (auto simp: address_forms_def omap_def obind_eq_Ret Address_ConvertToDID_def)
qed

lemma hashed_eq:
  assumes "Address_hashed hash160 a" "Address_eq a addr \<or> Address_eq addr a"
  shows "addr_programHash addr = uint168_of_prefix (uint168_prefix (addr_programHash addr)) (le_bytes 20 (hash160 (addr_code a)))"
  using assms by (auto simp: Address_hashed_def Address_eq_def uint168_eq_iff)

lemma code_of_hashed:
  assumes "\<forall>a \<in> set as. Address_hashed (al_hash160 lib) a" "code_of lib multi addr as = Ret (Some code)"
  shows "addr_programHash addr = uint168_of_prefix (uint168_prefix (addr_programHash addr)) (le_bytes 20 (al_hash160 lib code))"
  using assms
proof (induction as)
  case (Cons a as)
  show ?case
  proof (cases "Address_eq a addr")
    case True
    then show ?thesis using Cons.prems hashed_eq [of "al_hash160 lib" a addr] by auto
  next
    case n: False
    show ?thesis
    proof (cases multi)
      case False
      then obtain cid did where f: "address_forms lib a = Ret (cid, did)"
        using Cons.prems(2) n by (auto simp: obind_eq_Ret)
      note h = address_forms_hashed [OF f]
      show ?thesis
        using hashed_eq [OF h(1), of addr] hashed_eq [OF h(2), of addr] Cons n f False
        by (auto split: if_splits)
    qed (use Cons n in auto)
  qed
qed simp

definition specials_ok :: "account_lib \<Rightarrow> SubAccount \<Rightarrow> bool" where
  "specials_ok lib sa \<longleftrightarrow>
     (\<forall>a \<in> {sa_depositAddress sa, sa_ownerAddress sa, sa_crDepositAddress sa}.
        addr_isValid a \<longrightarrow> Address_hashed (al_hash160 lib) a)"

text \<open>The script a sub-account gives for an address is the one the address was hashed from.\<close>

lemma SubAccount_GetCode_hashed:
  assumes "sa_ok lib sa" "specials_ok lib sa" "SubAccount_GetCode lib addr sa = Ret (Some code)"
  shows "addr_programHash addr = uint168_of_prefix (uint168_prefix (addr_programHash addr)) (le_bytes 20 (al_hash160 lib code))"
proof -
  have c: "\<forall>a \<in> set (rev (sa_external sa)). Address_hashed (al_hash160 lib) a"
    "\<forall>a \<in> set (rev (sa_internal sa)). Address_hashed (al_hash160 lib) a"
    using assms(1) cache_hashed by (auto simp: sa_ok_def)
  show ?thesis
    using assms(2,3) code_of_hashed [OF c(1)] code_of_hashed [OF c(2)] hashed_eq [of "al_hash160 lib" _ addr]
    by (auto simp: SubAccount_GetCode_def SubAccount_IsProducerDepositAddress_def SubAccount_IsOwnerAddress_def
        SubAccount_IsCRDepositAddress_def specials_ok_def Let_def obind_eq_Ret split: if_splits option.splits)
qed

lemma SubAccount_of_ok:
  assumes "SubAccount_of lib parent = Ret sa"
  shows "sa_ok lib sa" "specials_ok lib sa" "sa_parent sa = parent"
proof -
  have new: "\<not> addr_isValid Address_new" by (simp add: Address_new_def)
  have h: "Address_hashed (al_hash160 lib) a"
    if "Address_of_pubkey (al_hash160 lib) pfx k False = Ret a" "addr_isValid a" for pfx k a
    using that Address_of_pubkeys_hashed by (auto simp: Address_of_pubkey_def)
  show "sa_ok lib sa" "sa_parent sa = parent"
    using assms by (auto simp: SubAccount_of_def Let_def sa_ok_def cache_ok_def obind_eq_Ret split: if_splits)
  show "specials_ok lib sa"
    using assms new h by (auto simp: SubAccount_of_def Let_def specials_ok_def obind_eq_Ret split: if_splits)
qed

end
