(* ===== verification/SigningM.thy ===== *)
theory SigningM
  imports SubAccountM
begin

text \<open>
  What the parts of a signing account do together.  An account that \<open>opens\<close> under a password finds
  the private key of every address it has handed out, and the transaction it signs is signed: the
  chain from the derivation of a public key to the verification of the signature.
\<close>

section \<open>Private and public derivation\<close>

text \<open>A private keychain of the Elastos curve as the operations keep it.\<close>

definition good_private :: "account_lib \<Rightarrow> HDKeychain \<Rightarrow> bool" where
  "good_private lib k \<longleftrightarrow> hd_wf (al_hd lib) k \<and> HDKeychain_isPrivate k \<and> hd_type k = CTElastos"

lemma private_of_public_child:
  assumes lib: "hd_lib_ok (al_hd lib)" and k: "good_private lib k"
    and p: "HDKeychain_getPublic (al_hd lib) k = Ret p" and c: "HDKeychain_getChild (al_hd lib) p i = Ret c"
  shows "\<exists>d. HDKeychain_getChild (al_hd lib) k i = Ret d \<and> good_private lib d \<and>
    HDKeychain_getPublic (al_hd lib) d = Ret c \<and> hd_pubkey d = hd_pubkey c"
proof -
  have wf: "hd_wf (al_hd lib) k" and priv: "HDKeychain_isPrivate k" and t: "hd_type k \<noteq> CTUnknown"
    using k by (simp_all add: good_private_def)
  have "\<not> HDKeychain_isPrivate p" using HDKeychain_getPublic_wf [OF wf p] by blast
  then have i: "0x80000000 AND i = 0" using getChild_hardened_public [of p i "al_hd lib"] c by auto
  obtain d where d: "HDKeychain_getChild (al_hd lib) k i = Ret d" "HDKeychain_getPublic (al_hd lib) d = Ret c"
    using getChild_getPublic [OF lib wf priv t i] p c by (auto simp: obind_eq_Ret)
  note w = getChild_wf [OF lib wf t d(1)]
  have "hd_pubkey d = hd_pubkey c" using d(2) by (auto simp: HDKeychain_getPublic_def split: if_splits)
  then show ?thesis using d w k by (auto simp: good_private_def)
qed

section \<open>The account that opens\<close>

text \<open>
  \<open>opens\<close>: under the password the store gives the root key, the account key derived from it is the
  private side of the extended key the account derives its addresses with, and both chains exist.
\<close>

definition opens :: "account_lib \<Rightarrow> string \<Rightarrow> Account \<Rightarrow> bool" where
  "opens lib passwd a \<longleftrightarrow>
     \<not> ls_readonly (acc_localstore a) \<and> \<not> ls_n (acc_localstore a) > 1 \<and>
     ls_xPubKeyBitcoin (acc_localstore a) \<noteq> [] \<and>
     (\<exists>ext root account xpub.
        AES_DecryptCCM lib (ls_xPrivKey (acc_localstore a)) passwd = Ret ext \<and>
        HDKeychain_of_extkey (al_hd lib) CTElastos ext = Ret root \<and>
        hd_child lib root ''44h/0h/0h'' = Ret account \<and> good_private lib account \<and>
        HDKeychain_getPublic (al_hd lib) account = Ret xpub \<and> acc_xpub a = Some xpub \<and>
        (\<forall>internal. is_Ret (HDKeychain_getChild (al_hd lib) xpub (sa_chain internal))))"

lemma opensD:
  assumes "opens lib passwd a"
  obtains root account xpub where "Account_RootKey lib passwd a = Ret (root, a)"
    and "hd_child lib root ''44h/0h/0h'' = Ret account" and "good_private lib account"
    and "HDKeychain_getPublic (al_hd lib) account = Ret xpub" and "acc_xpub a = Some xpub"
    and "\<And>internal. \<exists>c. HDKeychain_getChild (al_hd lib) xpub (sa_chain internal) = Ret c"
    and "Account_GetSignType a = Standard"
  using assms is_RetD unfolding opens_def
  by (fastforce simp: Account_RootKey_def Account_refresh_def Account_GetSignType_def)

text \<open>The public key of an index.\<close>

definition sa_pubkey :: "account_lib \<Rightarrow> Account \<Rightarrow> bool \<Rightarrow> nat \<Rightarrow> bytes outcome" where
  "sa_pubkey lib a internal i =
     obind (master_key a) (\<lambda>mpk.
     obind (HDKeychain_getChild (al_hd lib) mpk (sa_chain internal)) (\<lambda>keychain.
       omap hd_pubkey (HDKeychain_getChild (al_hd lib) keychain (word_of_nat i))))"

lemma sa_address_pubkey:
  assumes "Account_GetSignType a = Standard"
  shows "sa_address lib a internal i =
    obind (sa_pubkey lib a internal i) (\<lambda>k. Address_of_pubkey (al_hash160 lib) PrefixStandard k False)"
  using assms by (simp add: sa_address_def sa_pubkey_def standard_address_def omap_def obind_assoc)

section \<open>The search\<close>

lemma find_index_total:
  "(\<And>j. j < n \<Longrightarrow> \<exists>d. HDKeychain_getChild (al_hd lib) k (word_of_nat j) = Ret d \<and> good_private lib d) \<Longrightarrow>
   \<exists>r. find_index lib k ks n = Ret r \<and>
     (case r of None \<Rightarrow> \<forall>j < n. \<forall>d. HDKeychain_getChild (al_hd lib) k (word_of_nat j) = Ret d \<longrightarrow> hd_pubkey d \<notin> set ks
      | Some d \<Rightarrow> good_private lib d \<and> hd_pubkey d \<in> set ks)"
proof (induction n)
  case (Suc n)
  obtain d where d: "HDKeychain_getChild (al_hd lib) k (word_of_nat n) = Ret d" "good_private lib d"
    using Suc.prems [of n] by auto
  show ?case
  proof (cases "hd_pubkey d \<in> set ks")
    case False
    obtain r where "find_index lib k ks n = Ret r"
      "case r of None \<Rightarrow> \<forall>j < n. \<forall>d. HDKeychain_getChild (al_hd lib) k (word_of_nat j) = Ret d \<longrightarrow> hd_pubkey d \<notin> set ks
        | Some d \<Rightarrow> good_private lib d \<and> hd_pubkey d \<in> set ks"
      using Suc by auto
    then show ?thesis using d False by (auto simp: less_Suc_eq split: option.splits)
  qed (use d in auto)
qed simp

text \<open>Every cached index of a chain has its private key, and the one public key it stands for.\<close>

lemma cached_private:
  assumes lib: "hd_lib_ok (al_hd lib)" and o: "opens lib passwd a" and ok: "cache_ok lib a internal addrs"
  obtains root account kc where "Account_RootKey lib passwd a = Ret (root, a)"
    and "hd_child lib root ''44h/0h/0h'' = Ret account"
    and "HDKeychain_getChild (al_hd lib) account (sa_chain internal) = Ret kc"
    and "\<And>j. j < length addrs \<Longrightarrow> \<exists>d. HDKeychain_getChild (al_hd lib) kc (word_of_nat j) = Ret d \<and>
      good_private lib d \<and> sa_pubkey lib a internal j = Ret (hd_pubkey d)"
proof -
  obtain root account xpub where r: "Account_RootKey lib passwd a = Ret (root, a)"
    "hd_child lib root ''44h/0h/0h'' = Ret account" "good_private lib account"
    "HDKeychain_getPublic (al_hd lib) account = Ret xpub" "acc_xpub a = Some xpub"
    "\<And>internal. \<exists>c. HDKeychain_getChild (al_hd lib) xpub (sa_chain internal) = Ret c"
    "Account_GetSignType a = Standard"
    using opensD [OF o] by metis
  obtain c where c: "HDKeychain_getChild (al_hd lib) xpub (sa_chain internal) = Ret c" using r(6) by blast
  obtain kc where kc: "HDKeychain_getChild (al_hd lib) account (sa_chain internal) = Ret kc" "good_private lib kc"
    "HDKeychain_getPublic (al_hd lib) kc = Ret c"
    using private_of_public_child [OF lib r(3,4) c] by blast
  show ?thesis
  proof (rule that [OF r(1,2) kc(1)])
    fix j assume "j < length addrs"
    then have "is_Ret (sa_address lib a internal j)" using ok by (simp add: cache_ok_def is_Ret_def)
    then obtain e where e: "HDKeychain_getChild (al_hd lib) c (word_of_nat j) = Ret e"
      using r(5) c is_RetD unfolding sa_address_pubkey [OF r(7)] sa_pubkey_def
      by (fastforce simp: master_key_def obind_eq_Ret omap_def)
    then show "\<exists>d. HDKeychain_getChild (al_hd lib) kc (word_of_nat j) = Ret d \<and>
        good_private lib d \<and> sa_pubkey lib a internal j = Ret (hd_pubkey d)"
      using private_of_public_child [OF lib kc(2,3) e] r(5) c
      by (auto simp: sa_pubkey_def master_key_def)
  qed
qed

lemma find_chains_cached:
  assumes lib: "hd_lib_ok (al_hd lib)" and o: "opens lib passwd (sa_parent sa)" and ok: "sa_ok lib sa"
    and r: "Account_RootKey lib passwd (sa_parent sa) = Ret (root, sa_parent sa)"
    and b: "hd_child lib root ''44h/0h/0h'' = Ret account"
    and i: "i < length (sa_cached internal sa)" "sa_pubkey lib (sa_parent sa) internal i = Ret pub"
  shows "\<exists>d. find_chains lib account [pub]
      [(SEQUENCE_EXTERNAL_CHAIN, length (sa_external sa)), (SEQUENCE_INTERNAL_CHAIN, length (sa_internal sa))] =
      Ret (Some d) \<and> good_private lib d \<and> hd_pubkey d = pub"
proof -
  have step: "\<exists>kc res. HDKeychain_getChild (al_hd lib) account (sa_chain c) = Ret kc \<and>
      find_index lib kc [pub] (length (sa_cached c sa)) = Ret res \<and>
      (case res of None \<Rightarrow> c \<noteq> internal | Some d \<Rightarrow> good_private lib d \<and> hd_pubkey d = pub)" for c
  proof -
    have cc: "cache_ok lib (sa_parent sa) c (sa_cached c sa)" using ok by (simp add: sa_ok_cached)
    obtain root' account' kc where k: "Account_RootKey lib passwd (sa_parent sa) = Ret (root', sa_parent sa)"
      "hd_child lib root' ''44h/0h/0h'' = Ret account'"
      "HDKeychain_getChild (al_hd lib) account' (sa_chain c) = Ret kc"
      and ch: "\<And>j. j < length (sa_cached c sa) \<Longrightarrow> \<exists>d. HDKeychain_getChild (al_hd lib) kc (word_of_nat j) = Ret d \<and>
        good_private lib d \<and> sa_pubkey lib (sa_parent sa) c j = Ret (hd_pubkey d)"
      using cached_private [OF lib o cc] by metis
    have kc: "HDKeychain_getChild (al_hd lib) account (sa_chain c) = Ret kc" using k r b by simp
    obtain res where res: "find_index lib kc [pub] (length (sa_cached c sa)) = Ret res"
      and cases: "case res of None \<Rightarrow> \<forall>j < length (sa_cached c sa). \<forall>d.
          HDKeychain_getChild (al_hd lib) kc (word_of_nat j) = Ret d \<longrightarrow> hd_pubkey d \<notin> set [pub]
        | Some d \<Rightarrow> good_private lib d \<and> hd_pubkey d \<in> set [pub]"
      using find_index_total [of "length (sa_cached c sa)" lib kc "[pub]"] ch by blast
    have "case res of None \<Rightarrow> c \<noteq> internal | Some d \<Rightarrow> good_private lib d \<and> hd_pubkey d = pub"
    proof (cases res)
      case None
      have "c \<noteq> internal"
      proof
        assume "c = internal"
        then obtain d where "HDKeychain_getChild (al_hd lib) kc (word_of_nat i) = Ret d" "hd_pubkey d = pub"
          using ch [of i] i by auto
        then show False using cases None i(1) \<open>c = internal\<close> by auto
      qed
      then show ?thesis using None by simp
    qed (use cases in simp)
    then show ?thesis using kc res by blast
  qed
  show ?thesis
    using step [of False] step [of True]
    by (cases internal) (auto simp: sa_chain_def sa_cached_def split: option.splits)
qed

text \<open>The key of an address: the one whose public key the address was made of.\<close>

definition key_for :: "account_lib \<Rightarrow> bytes \<Rightarrow> Key \<Rightarrow> bool" where
  "key_for lib pub key \<longleftrightarrow>
     key_type key = CTElastos \<and> key_pub key = pub \<and>
     (\<exists>prv. key_prv key = Some prv \<and> ec_pubkey (al_hd lib) CTElastos prv = Some pub)"

lemma SubAccount_FindPrivateKey_cached:
  assumes lib: "hd_lib_ok (al_hd lib)" and o: "opens lib passwd (sa_parent sa)" and ok: "sa_ok lib sa"
    and i: "i < length (sa_cached internal sa)" "sa_pubkey lib (sa_parent sa) internal i = Ret pub"
    and owner: "acc_ownerPubKey (sa_parent sa) \<noteq> []" "acc_ownerPubKey (sa_parent sa) \<noteq> pub"
  shows "\<exists>key. SubAccount_FindPrivateKey lib SignTypeStandard [pub] passwd sa = Ret (Some key, sa) \<and> key_for lib pub key"
proof -
  obtain root account xpub where r: "Account_RootKey lib passwd (sa_parent sa) = Ret (root, sa_parent sa)"
    "hd_child lib root ''44h/0h/0h'' = Ret account" and st: "Account_GetSignType (sa_parent sa) = Standard"
    using opensD [OF o] by metis
  obtain d where d: "find_chains lib account [pub]
      [(SEQUENCE_EXTERNAL_CHAIN, length (sa_external sa)), (SEQUENCE_INTERNAL_CHAIN, length (sa_internal sa))] = Ret (Some d)"
    "good_private lib d" "hd_pubkey d = pub"
    using find_chains_cached [OF lib o ok r i] by blast
  have key: "Key_of_keychain (al_key lib) d =
      Ret \<lparr>key_type = hd_type d, key_prv = Some (HDKeychain_privkey d), key_pub = hd_pubkey d\<rparr>"
    "ec_pubkey (al_hd lib) (hd_type d) (HDKeychain_privkey d) = Some (hd_pubkey d)"
    using Key_of_keychain_private [of "al_key lib" d] d(2) by (auto simp: good_private_def)
  have own: "find_owner (sa_parent sa) [pub] = Ret False"
    using owner by (simp add: Account_OwnerPubKey_def)
  have ty: "SignTypeStandard \<noteq> SignTypeMultiSign" by (simp add: sign_types)
  show ?thesis
    using d key
    by (simp add: SubAccount_FindPrivateKey_def r st own ty Let_def key_for_def good_private_def
        del: find_chains.simps find_owner.simps)
qed

section \<open>Signatures\<close>

lemma sign_parameter_fresh:
  assumes lib: "key_lib_ok lib" and key: "key_type key = t" "key_prv key = Some prv"
    "ec_pubkey (kl_hd lib) t prv = Some (key_pub key)"
  shows "\<exists>sig. sign_parameter lib key md [] = Ret (pushed_sigs [sig]) \<and> length sig = 64 \<and>
    kl_verify lib t (key_pub key) md (take 32 sig) (drop 32 sig)"
proof -
  obtain sig where sig: "Key_Sign lib key md = Ret sig" "length sig = 64"
    "Key_Verify_digest lib key md sig = Ret True"
    using Key_Sign_verifies [OF lib key(2)] key by auto
  have "VarUint_bytes (word_of_nat (length sig)) = [word_of_nat (length sig)]"
    by (rule VarUint_bytes_small) (simp add: sig(2))
  then have "sign_parameter lib key md [] = Ret (pushed_sigs [sig])"
    using sig(1) by (simp add: sign_parameter_def WriteVarBytes_def WriteVarUint_def WriteBytes_def
        wseq.simps empty_stream_def pushed_sigs_def)
  moreover have "kl_verify lib t (key_pub key) md (take 32 sig) (drop 32 sig)"
    using sig key by (simp add: Key_Verify_digest_def Key_Verify_def split: if_splits)
  ultimately show ?thesis using sig(2) by blast
qed

lemma Program_VerifySignature_single:
  assumes code: "Address_GenerateCode PrefixStandard [k] 1 False = Ret code" and k: "length k = 33" "kv k"
    and sig: "length sig = 64" "ec k md (take 32 sig) (drop 32 sig)"
  shows "Program_VerifySignature kv ec md (Program_of code (pushed_sigs [sig])) = Ret True"
proof -
  have ty: "Address_PrefixToSignType PrefixStandard = SignTypeStandard"
    by (simp add: Address_PrefixToSignType_def)
  note dec = Program_DecodePublicKey_single [OF code k(1) ty, of "pushed_sigs [sig]"]
  have last: "last code = SignTypeStandard" using code ty by (auto simp: Address_GenerateCode_def)
  have len: "length (pushed_sigs [sig]) = 65" using sig by (simp add: pushed_sigs_def)
  then obtain t where r: "read_while (Suc (length (pushed_sigs [sig]))) ReadVarBytes
      (stream_of (pushed_sigs [sig])) = ROk [sig] t"
    using read_pushed_sigs [of "[sig]"] sig by auto
  have "Program_verify_sigs kv ec md [k] [sig] 0 = Ret (Some (0 + word_of_nat (length [sig])))"
    by (rule Program_verify_sigs_total) (use k sig in auto)
  then have "Program_verify_loop (Suc (length (pushed_sigs [sig]))) kv ec md [k] 0
      (stream_of (pushed_sigs [sig])) = Ret (Some 1)"
    using Program_verify_loop_read [OF r] by simp
  then show ?thesis
    using dec last by (simp add: Program_VerifySignature_def Program_of_def sign_types Let_def)
qed

lemma Program_VerifySignature_unsigned:
  assumes code: "Address_GenerateCode PrefixStandard [k] 1 False = Ret code" and k: "length k = 33"
  shows "Program_VerifySignature kv ec md (Program_of code []) = Ret False"
proof -
  have ty: "Address_PrefixToSignType PrefixStandard = SignTypeStandard"
    by (simp add: Address_PrefixToSignType_def)
  note dec = Program_DecodePublicKey_single [OF code k(1) ty, of "[]"]
  have last: "last code = SignTypeStandard" using code ty by (auto simp: Address_GenerateCode_def)
  obtain t where "ReadVarBytes (stream_of []) = RFail t" using ReadVarBytes_empty [of "stream_of []"] by auto
  then show ?thesis
    using dec last by (simp add: Program_VerifySignature_def Program_of_def sign_types Let_def)
qed

section \<open>Signing a transaction\<close>

text \<open>A program an address of the sub-account unlocks: the script of a cached public key, not signed yet.\<close>

definition own_program :: "account_lib \<Rightarrow> SubAccount \<Rightarrow> Program \<Rightarrow> bool" where
  "own_program lib sa p \<longleftrightarrow>
     prog_parameter p = [] \<and>
     (\<exists>internal i pub. i < length (sa_cached internal sa) \<and> sa_pubkey lib (sa_parent sa) internal i = Ret pub \<and>
        length pub = 33 \<and> acc_ownerPubKey (sa_parent sa) \<noteq> pub \<and>
        Address_GenerateCode PrefixStandard [pub] 1 False = Ret (prog_code p))"

lemma Program_of_eq: "p = Program_of (prog_code p) (prog_parameter p)" "p\<lparr>prog_parameter := x\<rparr> = Program_of (prog_code p) x"
  by (cases p, simp add: Program_of_def)+

lemma sign_programs_total:
  assumes lib: "key_lib_ok (al_key lib)" and o: "opens lib passwd (sa_parent sa)" and ok: "sa_ok lib sa"
    and owner: "acc_ownerPubKey (sa_parent sa) \<noteq> []" and ps: "\<forall>p \<in> set ps. own_program lib sa p"
  shows "\<exists>ps'. sign_programs lib md passwd ps sa = Ret (ps', sa) \<and> map prog_code ps' = map prog_code ps \<and>
    (\<forall>p \<in> set ps'. Program_VerifySignature (kl_valid (al_key lib) CTElastos) (kl_verify (al_key lib) CTElastos) md p = Ret True)"
  using ps
proof (induction ps)
  case (Cons p ps)
  obtain internal i pub where p: "prog_parameter p = []" "i < length (sa_cached internal sa)"
    "sa_pubkey lib (sa_parent sa) internal i = Ret pub" "length pub = 33" "acc_ownerPubKey (sa_parent sa) \<noteq> pub"
    "Address_GenerateCode PrefixStandard [pub] 1 False = Ret (prog_code p)"
    using Cons.prems by (auto simp: own_program_def)
  have ty: "Address_PrefixToSignType PrefixStandard = SignTypeStandard"
    by (simp add: Address_PrefixToSignType_def)
  have dec: "Program_DecodePublicKey p = Ret (SignTypeStandard, [pub])"
    using Program_DecodePublicKey_single [OF p(6,4) ty, of "[]"] Program_of_eq(1) [of p] p(1) by simp
  obtain key where key: "SubAccount_FindPrivateKey lib SignTypeStandard [pub] passwd sa = Ret (Some key, sa)"
    "key_for lib pub key"
    using SubAccount_FindPrivateKey_cached [OF key_lib_okD(1) [OF lib] o ok p(2,3) owner p(5)] by blast
  then obtain prv where prv: "key_type key = CTElastos" "key_pub key = pub" "key_prv key = Some prv"
    "ec_pubkey (al_hd lib) CTElastos prv = Some pub"
    by (auto simp: key_for_def)
  obtain sig where sig: "sign_parameter (al_key lib) key md [] = Ret (pushed_sigs [sig])" "length sig = 64"
    "kl_verify (al_key lib) CTElastos pub md (take 32 sig) (drop 32 sig)"
    using sign_parameter_fresh [OF lib prv(1,3), of md] prv by auto
  have "Program_VerifySignature (kl_valid (al_key lib) CTElastos) (kl_verify (al_key lib) CTElastos) md
      (Program_of (prog_code p) (pushed_sigs [sig])) = Ret True"
    using key_lib_okD(2) [OF lib prv(4)] sig p(4,6) by (intro Program_VerifySignature_single)
  moreover obtain ps' where "sign_programs lib md passwd ps sa = Ret (ps', sa)" "map prog_code ps' = map prog_code ps"
    "\<forall>p \<in> set ps'. Program_VerifySignature (kl_valid (al_key lib) CTElastos) (kl_verify (al_key lib) CTElastos) md p = Ret True"
    using Cons by auto
  moreover have "prog_code (Program_of (prog_code p) x) = prog_code p" for x by (simp add: Program_of_def)
  moreover have "SignTypeStandard \<noteq> SignTypeInvalid" by (simp add: sign_types)
  ultimately show ?case using dec key(1) sig(1) p(1) by (simp add: Program_of_eq(2))
qed simp

lemma SubAccount_SignTransaction_signs:
  assumes lib: "key_lib_ok (al_key lib)" and o: "opens lib passwd (sa_parent sa)" and ok: "sa_ok lib sa"
    and owner: "acc_ownerPubKey (sa_parent sa) \<noteq> []"
    and ps: "\<forall>p \<in> set (tx_programs tx). own_program lib sa p" "tx_programs tx \<noteq> []"
    and ty: "tx_type tx \<noteq> Tx_rechargeToSideChain" "tx_type tx \<noteq> Tx_coinBase"
    and md: "Transaction_GetShaData sha256 tx = Ret md"
  shows "\<exists>ps'. SubAccount_SignTransaction lib sha256 tx passwd sa = Ret (tx\<lparr>tx_programs := ps'\<rparr>, sa) \<and>
    map prog_code ps' = map prog_code (tx_programs tx) \<and>
    Transaction_IsSigned sha256 (kl_valid (al_key lib) CTElastos) (kl_verify (al_key lib) CTElastos)
      (tx\<lparr>tx_programs := ps'\<rparr>) = Ret True"
proof -
  let ?kv = "kl_valid (al_key lib) CTElastos" and ?ec = "kl_verify (al_key lib) CTElastos"
  obtain ps' where s: "sign_programs lib md passwd (tx_programs tx) sa = Ret (ps', sa)"
    "map prog_code ps' = map prog_code (tx_programs tx)"
    "\<forall>p \<in> set ps'. Program_VerifySignature ?kv ?ec md p = Ret True"
    using sign_programs_total [OF lib o ok owner ps(1)] by blast
  obtain p ps0 where p: "tx_programs tx = p # ps0" using ps(2) by (cases "tx_programs tx") auto
  then have "own_program lib sa p" using ps(1) by simp
  then obtain pub where "Address_GenerateCode PrefixStandard [pub] 1 False = Ret (prog_code p)"
    "length pub = 33" "prog_parameter p = []" by (auto simp: own_program_def)
  then have "Program_VerifySignature ?kv ?ec md p = Ret False"
    using Program_VerifySignature_unsigned Program_of_eq(1) [of p] by metis
  then have "Transaction_IsSigned sha256 ?kv ?ec tx = Ret False"
    using ty md p by (simp add: Transaction_IsSigned_def)
  moreover have "\<not> ls_readonly (acc_localstore (sa_parent sa))" using o by (simp add: opens_def)
  ultimately have sign: "SubAccount_SignTransaction lib sha256 tx passwd sa = Ret (tx\<lparr>tx_programs := ps'\<rparr>, sa)"
    using md s(1) ps(2) by (simp add: SubAccount_SignTransaction_def)
  have ne: "ps' \<noteq> []" using s(2) ps(2) by auto
  have "Transaction_GetShaData sha256 (tx\<lparr>tx_programs := ps'\<rparr>) = Ret md"
    using md by (simp add: Transaction_GetShaData_def)
  then have "Transaction_IsSigned sha256 ?kv ?ec (tx\<lparr>tx_programs := ps'\<rparr>) = Ret True"
    using s(3) ne ty by (simp add: Transaction_IsSigned_def all_outcome_True)
  then show ?thesis using sign s(2) by blast
qed

end
