(* ===== verification/SeedAccountM.thy ===== *)
theory SeedAccountM
  imports SigningM
begin

text \<open>
  What the constructors of \<open>Account\<close> promise to those who sign with it: an account made from a seed
  opens under the password it was made with.
\<close>

lemma root_of_seed_wf:
  assumes lib: "hd_lib_ok (al_hd lib)" and r: "root_of_seed lib t seed = Ret root"
  shows "hd_wf (al_hd lib) root" "HDKeychain_isPrivate root" "hd_type root = t"
proof -
  let ?s = "HDSeed_of (al_hd lib) (le_bytes 64 seed)"
  obtain k where k: "HDKeychain_of_key (al_hd lib) t (seed_master_key ?s) (seed_chain_code ?s) 0 0 0 = Ret k"
    and e: "HDKeychain_of_extkey (al_hd lib) t (HDKeychain_extkey k) = Ret root"
    using r by (auto simp: root_of_seed_def HDSeed_getExtendedKey_def obind_eq_Ret split: if_splits)
  have l: "length (seed_master_key ?s) = 32"
    using hd_lib_okD(1) [OF lib] by (simp add: HDSeed_of_def Let_def)
  note w = HDKeychain_of_key_wf [OF lib k]
  have "root = k" using HDKeychain_extkey_roundtrip [OF w(1)] e w(2) by simp
  then show "hd_wf (al_hd lib) root" "HDKeychain_isPrivate root" "hd_type root = t" using w l by simp_all
qed

lemma hd_child_wf:
  assumes lib: "hd_lib_ok (al_hd lib)" and k: "hd_wf (al_hd lib) k" "hd_type k \<noteq> CTUnknown"
    and c: "hd_child lib k path = Ret c"
  shows "hd_wf (al_hd lib) c" "HDKeychain_isPrivate c = HDKeychain_isPrivate k" "hd_type c = hd_type k"
proof -
  have "hd_path path \<noteq> []" using c by (auto simp: hd_child_def HDKeychain_getChild_path_def split: if_splits)
  then obtain ns where "getChild_loop (al_hd lib) ns k = Ret c"
    using c getChild_path_eq [OF k(1)] by (auto simp: hd_child_def obind_eq_Ret)
  then show "hd_wf (al_hd lib) c" "HDKeychain_isPrivate c = HDKeychain_isPrivate k" "hd_type c = hd_type k"
    using getChild_loop_wf [OF lib k] by blast+
qed

lemma public_extkey_nonzero:
  assumes "hd_wf lib k" "\<not> HDKeychain_isPrivate k"
  shows "some_nonzero (HDKeychain_extkey k)"
proof -
  have "hd_key k = hd_pubkey k" "hd_pubkey k \<noteq> []" "hd_pubkey k ! 0 \<noteq> 0"
    using hd_wf_public [OF assms] assms(1) by (auto simp: hd_wf_def)
  then have "hd_key k ! 0 \<in> set (hd_key k)" "hd_key k ! 0 \<noteq> 0" by simp_all
  then show ?thesis by (auto simp: some_nonzero_def HDKeychain_extkey_def)
qed

lemma hd_public_text_read:
  assumes lib: "hd_lib_ok (al_hd lib)" and k: "hd_wf (al_hd lib) k" "hd_type k \<noteq> CTUnknown"
    and t: "hd_public_text lib k path = Ret base58"
  obtains c p where "hd_child lib k path = Ret c" and "HDKeychain_getPublic (al_hd lib) c = Ret p"
    and "base58 \<noteq> []" and "read_xpub lib (hd_type k) base58 = Ret p"
proof -
  obtain c p where c: "hd_child lib k path = Ret c" and p: "HDKeychain_getPublic (al_hd lib) c = Ret p"
    and base58: "base58 = Base58_CheckEncode (al_sha256_2 lib) (HDKeychain_extkey p) []"
    using t by (auto simp: hd_public_text_def obind_eq_Ret omap_def)
  note wc = hd_child_wf [OF lib k c]
  note wp = HDKeychain_getPublic_wf [OF wc(1) p]
  have ty: "hd_type p = hd_type k" using p wc(3) by (auto simp: HDKeychain_getPublic_def split: if_splits)
  note b = Base58_text_nonempty [OF public_extkey_nonzero [OF wp(1,2)], of "al_sha256_2 lib"]
  show thesis
  proof (rule that [OF c p])
    show "base58 \<noteq> []" using b(1) base58 by simp
    show "read_xpub lib (hd_type k) base58 = Ret p"
      using b(2) base58 HDKeychain_extkey_roundtrip [OF wp(1)] ty by (simp add: read_xpub_def)
  qed
qed

lemma hd_public_text_total:
  assumes lib: "hd_lib_ok (al_hd lib)" and k: "hd_wf (al_hd lib) k" "hd_type k \<noteq> CTUnknown"
    and c: "is_Ret (hd_child lib k path)"
  shows "\<exists>base58. hd_public_text lib k path = Ret base58"
proof -
  obtain d where d: "hd_child lib k path = Ret d" using is_RetD [OF c] by blast
  then have "hd_valid d" using hd_child_wf(1) [OF lib k] by (simp add: hd_wf_def)
  then show ?thesis using d by (simp add: hd_public_text_def HDKeychain_getPublic_def omap_def)
qed

text \<open>What \<open>Init\<close> makes of a store with the members every account from a seed has.\<close>

definition single_store :: "LocalStore \<Rightarrow> bool \<Rightarrow> bytes \<Rightarrow> string \<Rightarrow> string \<Rightarrow> string \<Rightarrow> bytes \<Rightarrow> LocalStore" where
  "single_store s single request xPubKey xpubHDPM encRequest owner =
     s\<lparr>ls_derivationStrategy := ''BIP44'', ls_m := 1, ls_n := 1, ls_singleAddress := single,
       ls_readonly := False, ls_publicKeyRing := [PublicKeyRing_of (getHex0 request) xpubHDPM],
       ls_xPubKey := xPubKey, ls_xPubKeyHDPM := xpubHDPM, ls_requestPubKey := getHex0 request,
       ls_requestPrivKey := encRequest, ls_ownerPubKey := getHex0 owner\<rparr>"

lemma read_hex_getHex0: "read_hex (getHex0 bs) [] = Ret bs"
  by (cases "bs = []") (auto simp: read_hex_def setHex_getHex getHex0_Nil_iff)

lemma Account_Init_single:
  assumes "xPubKey \<noteq> []" "read_xpub lib CTElastos xPubKey = Ret p"
    and "xpubHDPM \<noteq> []" "read_xpub lib CTElastos xpubHDPM = Ret q"
    and "ls_xPubKeyBitcoin s \<noteq> []" "read_xpub lib CTBitcoin (ls_xPubKeyBitcoin s) = Ret b"
  shows "Account_Init lib (Account_raw (single_store s single request xPubKey xpubHDPM encRequest owner)) =
    Ret ((Account_raw (single_store s single request xPubKey xpubHDPM encRequest owner))
      \<lparr>acc_cosignerIndex := - 1, acc_ownerPubKey := owner, acc_requestPubKey := request,
       acc_xpub := Some p, acc_btcMasterPubKey := Some b, acc_curMultiSigner := Some q\<rparr>)"
  using assms
  by (simp add: Account_Init_def Account_Init_signers_def Account_raw_def single_store_def read_xpub_option_def
      read_hex_getHex0 omap_def Let_def)

text \<open>
  The derivations a seed has to allow.  All of them are steps of \<open>getChild\<close>, which fails for a
  negligible share of the digests.
\<close>

definition seed_derives :: "account_lib \<Rightarrow> HDKeychain \<Rightarrow> HDKeychain \<Rightarrow> bool" where
  "seed_derives lib root std \<longleftrightarrow>
     list_all (\<lambda>path. is_Ret (hd_child lib root path)) [''44h/0h/0h'', ''45h'', ''1h/0'', ''44h/0h/1h/0/0''] \<and>
     list_all (\<lambda>path. is_Ret (hd_child lib std path)) [''44h/60h/0h/0/0'', ''44h/144h/0h/0/0'', ''44h/0h/0h''] \<and>
     (\<forall>t K. kl_uncompressed (al_key lib) t K \<noteq> None)"

lemma is_Ret_iff: "is_Ret m \<longleftrightarrow> (\<exists>x. m = Ret x)"
  by (cases m) (simp_all add: is_Ret_def)

lemma seed_derivesD:
  assumes "seed_derives lib root std"
  shows "is_Ret (hd_child lib root ''44h/0h/0h'')" "is_Ret (hd_child lib root ''45h'')"
    and "\<exists>c. hd_child lib root ''1h/0'' = Ret c" "\<exists>c. hd_child lib root ''44h/0h/1h/0/0'' = Ret c"
    and "\<exists>c. hd_child lib std ''44h/60h/0h/0/0'' = Ret c" "\<exists>c. hd_child lib std ''44h/144h/0h/0/0'' = Ret c"
    and "is_Ret (hd_child lib std ''44h/0h/0h'')" "\<exists>u. kl_uncompressed (al_key lib) t K = Some u"
  using assms by (simp_all add: seed_derives_def is_Ret_iff)

lemma seed_store_total:
  assumes lib: "hd_lib_ok (al_hd lib)" and aes: "aes_ok lib" and d: "seed_derives lib root std"
    and std: "hd_wf (al_hd lib) std" "hd_type std = CTBitcoin"
  obtains s where "seed_store lib path root std seed mnemonic passphrase passwd = Ret s"
    and "AES_DecryptCCM lib (ls_xPrivKey s) passwd = Ret (HDKeychain_extkey root)"
    and "ls_xPubKeyBitcoin s \<noteq> []" and "\<exists>b. read_xpub lib CTBitcoin (ls_xPubKeyBitcoin s) = Ret b"
proof -
  have enc: "\<exists>ct. AES_EncryptCCM lib p passwd = Ret ct" for p using AES_roundtrip [OF aes, of p passwd] by blast
  obtain ethkey ripple where k: "hd_child lib std ''44h/60h/0h/0/0'' = Ret ethkey"
    "hd_child lib std ''44h/144h/0h/0/0'' = Ret ripple"
    using seed_derivesD(5,6) [OF d] by blast
  obtain c1 c2 c3 where c: "AES_EncryptCCM lib (le_bytes 64 seed) passwd = Ret c1"
    "AES_EncryptCCM lib (HDKeychain_privkey ethkey) passwd = Ret c2"
    "AES_EncryptCCM lib (setCharsFromString mnemonic) passwd = Ret c3"
    using enc by metis
  obtain c4 where c4: "AES_EncryptCCM lib (HDKeychain_extkey root) passwd = Ret c4"
    "AES_DecryptCCM lib c4 passwd = Ret (HDKeychain_extkey root)"
    using AES_roundtrip [OF aes] by blast
  obtain u where u: "hd_uncompressed_text lib ethkey = Ret u"
    using seed_derivesD(8) [OF d, of "hd_type ethkey" "hd_pubkey ethkey"] by (auto simp: hd_uncompressed_text_def)
  have t: "hd_type std \<noteq> CTUnknown" using std(2) by simp
  obtain btc where btc: "hd_public_text lib std ''44h/0h/0h'' = Ret btc"
    using hd_public_text_total [OF lib std(1) t seed_derivesD(7) [OF d]] by blast
  obtain b where b: "btc \<noteq> []" "read_xpub lib CTBitcoin btc = Ret b"
    using hd_public_text_read [OF lib std(1) t btc] std(2) by metis
  define s where "s = (LocalStore_of_path path)
      \<lparr>ls_hasPassphrase := passphrase \<noteq> [], ls_mnemonic := c3, ls_xPrivKey := c4, ls_seed := c1,
       ls_ethscPrimaryPubKey := u, ls_xPubKeyBitcoin := btc, ls_singlePrivateKey := c2,
       ls_ripplePrimaryPubKey := getHex0 (hd_pubkey ripple)\<rparr>"
  have f: "ls_xPrivKey s = c4" "ls_xPubKeyBitcoin s = btc" by (simp_all add: s_def)
  have "seed_store lib path root std seed mnemonic passphrase passwd = Ret s"
    using k c c4(1) u btc by (simp add: seed_store_def s_def)
  then show thesis by (rule that) (use c4(2) b f in simp_all)
qed

lemma Account_of_seed_returns:
  assumes lib: "hd_lib_ok (al_hd lib)" and aes: "aes_ok lib"
    and r: "root_of_seed lib CTElastos seed = Ret root" "root_of_seed lib CTBitcoin seed = Ret std"
    and d: "seed_derives lib root std"
  obtains a account p owner where
    "Account_of_seed lib path seed passwd single mnemonic passphrase = Ret a"
    "hd_child lib root ''44h/0h/0h'' = Ret account" "HDKeychain_getPublic (al_hd lib) account = Ret p"
    "acc_xpub a = Some p" "hd_child lib root ''44h/0h/1h/0/0'' = Ret owner" "acc_ownerPubKey a = hd_pubkey owner"
    "ls_singleAddress (acc_localstore a) = single"
    "(\<forall>internal. is_Ret (HDKeychain_getChild (al_hd lib) p (sa_chain internal))) \<Longrightarrow> opens lib passwd a"
proof -
  note root = root_of_seed_wf [OF lib r(1)] and std = root_of_seed_wf [OF lib r(2)]
  have t: "hd_type root \<noteq> CTUnknown" using root(3) by simp
  obtain s where s: "seed_store lib path root std seed mnemonic passphrase passwd = Ret s"
    "AES_DecryptCCM lib (ls_xPrivKey s) passwd = Ret (HDKeychain_extkey root)" "ls_xPubKeyBitcoin s \<noteq> []"
    and "\<exists>b. read_xpub lib CTBitcoin (ls_xPubKeyBitcoin s) = Ret b"
    using seed_store_total [OF lib aes d std(1,3)] by metis
  then obtain b where b: "read_xpub lib CTBitcoin (ls_xPubKeyBitcoin s) = Ret b" by blast
  obtain xPubKey xpubHDPM where x: "hd_public_text lib root ''44h/0h/0h'' = Ret xPubKey"
    "hd_public_text lib root ''45h'' = Ret xpubHDPM"
    using hd_public_text_total [OF lib root(1) t seed_derivesD(1) [OF d]]
      hd_public_text_total [OF lib root(1) t seed_derivesD(2) [OF d]] by blast
  obtain requestKey owner where k: "hd_child lib root ''1h/0'' = Ret requestKey" "hd_child lib root ''44h/0h/1h/0/0'' = Ret owner"
    using seed_derivesD(3,4) [OF d] by blast
  obtain enc where enc: "AES_EncryptCCM lib (HDKeychain_privkey requestKey) passwd = Ret enc"
    using AES_roundtrip [OF aes] by blast
  obtain account p where c: "hd_child lib root ''44h/0h/0h'' = Ret account" "HDKeychain_getPublic (al_hd lib) account = Ret p"
    "xPubKey \<noteq> []" "read_xpub lib CTElastos xPubKey = Ret p"
    using hd_public_text_read [OF lib root(1) t x(1)] root(3) by metis
  obtain q where q: "xpubHDPM \<noteq> []" "read_xpub lib CTElastos xpubHDPM = Ret q"
    using hd_public_text_read [OF lib root(1) t x(2)] root(3) by metis
  let ?s = "single_store s single (hd_pubkey requestKey) xPubKey xpubHDPM enc (hd_pubkey owner)"
  define a where "a = (Account_raw ?s)
      \<lparr>acc_cosignerIndex := - 1, acc_ownerPubKey := hd_pubkey owner, acc_requestPubKey := hd_pubkey requestKey,
       acc_xpub := Some p, acc_btcMasterPubKey := Some b, acc_curMultiSigner := Some q\<rparr>"
  have "Account_Init lib (Account_raw ?s) = Ret a"
    unfolding a_def by (rule Account_Init_single [OF c(3,4) q s(3) b])
  then have made: "Account_of_seed lib path seed passwd single mnemonic passphrase = Ret a"
    using r s(1) x k enc by (simp add: Account_of_seed_def single_store_def)
  have good: "good_private lib account"
    using hd_child_wf [OF lib root(1) t c(1)] root(2,3) by (simp add: good_private_def)
  have ext: "HDKeychain_of_extkey (al_hd lib) CTElastos (HDKeychain_extkey root) = Ret root"
    using HDKeychain_extkey_roundtrip [OF root(1)] root(3) by simp
  show thesis
  proof (rule that [OF made c(1,2) _ k(2)])
    show "opens lib passwd a" if "\<forall>internal. is_Ret (HDKeychain_getChild (al_hd lib) p (sa_chain internal))"
      using s(2,3) ext c good that unfolding opens_def by (auto simp: a_def single_store_def Account_raw_def)
  qed (simp_all add: a_def single_store_def Account_raw_def)
qed

end
