(* ===== verification/WalletM.thy ===== *)
theory WalletM
  imports SigningM
begin

text \<open>
  Unspent outputs and the wallet: \<open>SDK/Wallet/UTXO.{h,cpp}\<close> and \<open>SDK/Wallet/Wallet.cpp\<close>.  A wallet is a
  sub-account under a chain identifier.  \<open>CreateTransaction\<close> spends all the unspent outputs it is given
  and pays the rest back as change.  The mutex and the database are not modelled; \<open>std::rand\<close> is a
  parameter.
\<close>

section \<open>Unspent outputs\<close>

record UTXO =
  utxo_address :: Address
  utxo_amount :: BigInt
  utxo_hash :: uint256
  utxo_n :: u16

definition UTXO_of :: "uint256 \<Rightarrow> u16 \<Rightarrow> Address \<Rightarrow> BigInt \<Rightarrow> UTXO" where
  "UTXO_of hash n address amount =
     \<lparr>utxo_address = address, utxo_amount = amount, utxo_hash = hash, utxo_n = n\<rparr>"

definition UTXO_assign :: "UTXO \<Rightarrow> UTXO \<Rightarrow> UTXO" where
  "UTXO_assign this u =
     this\<lparr>utxo_address := utxo_address u, utxo_amount := utxo_amount u, utxo_hash := utxo_hash u,
          utxo_n := utxo_n u\<rparr>"

definition UTXO_eq :: "UTXO \<Rightarrow> UTXO \<Rightarrow> bool" where
  "UTXO_eq a b \<longleftrightarrow> utxo_hash a = utxo_hash b \<and> utxo_n a = utxo_n b"

definition UTXO_Equal :: "UTXO \<Rightarrow> TransactionInput \<Rightarrow> bool" where
  "UTXO_Equal u input \<longleftrightarrow> utxo_hash u = in_txHash input \<and> utxo_n u = in_index input"

definition UTXO_Equal_at :: "UTXO \<Rightarrow> uint256 \<Rightarrow> u16 \<Rightarrow> bool" where
  "UTXO_Equal_at u hash index \<longleftrightarrow> utxo_hash u = hash \<and> index = utxo_n u"

definition UTXOCompare :: "UTXO \<Rightarrow> UTXO \<Rightarrow> bool" where
  "UTXOCompare x y =
     (if utxo_hash x = utxo_hash y then utxo_n x < utxo_n y else utxo_hash x < utxo_hash y)"

text \<open>
  What the comparison orders is the place of an output in the chain.  The places are a linear order
  and \<open>UTXOSet\<close>, a \<open>std::set\<close> under the comparison, is a list that strictly ascends: inserting what
  is equivalent to an element changes nothing.
\<close>

datatype Outpoint = Outpoint uint256 u16

definition outpoint :: "UTXO \<Rightarrow> Outpoint" where
  "outpoint u = Outpoint (utxo_hash u) (utxo_n u)"

instantiation Outpoint :: linorder
begin

fun less_Outpoint :: "Outpoint \<Rightarrow> Outpoint \<Rightarrow> bool" where
  "Outpoint h n < Outpoint k m \<longleftrightarrow> (if h = k then n < m else h < k)"

definition less_eq_Outpoint :: "Outpoint \<Rightarrow> Outpoint \<Rightarrow> bool" where
  "a \<le> b \<longleftrightarrow> a = b \<or> a < (b :: Outpoint)"

instance
proof
  fix x y z :: Outpoint
  show "x < y \<longleftrightarrow> x \<le> y \<and> \<not> y \<le> x"
    by (cases x; cases y) (auto simp: less_eq_Outpoint_def split: if_splits)
  show "x \<le> x" by (simp add: less_eq_Outpoint_def)
  show "x \<le> y \<Longrightarrow> y \<le> z \<Longrightarrow> x \<le> z"
    by (cases x; cases y; cases z) (auto simp: less_eq_Outpoint_def split: if_splits)
  show "x \<le> y \<Longrightarrow> y \<le> x \<Longrightarrow> x = y"
    by (cases x; cases y) (auto simp: less_eq_Outpoint_def split: if_splits)
  show "x \<le> y \<or> y \<le> x"
    by (cases x; cases y) (auto simp: less_eq_Outpoint_def split: if_splits)
qed

end

lemma UTXOCompare_outpoint: "UTXOCompare x y \<longleftrightarrow> outpoint x < outpoint y"
  by (simp add: UTXOCompare_def outpoint_def)

lemma UTXO_eq_outpoint: "UTXO_eq x y \<longleftrightarrow> outpoint x = outpoint y"
  by (simp add: UTXO_eq_def outpoint_def)

fun UTXOSet_insert :: "UTXO \<Rightarrow> UTXO list \<Rightarrow> UTXO list" where
  "UTXOSet_insert u [] = [u]"
| "UTXOSet_insert u (v # vs) =
     (if UTXOCompare u v then u # v # vs
      else if UTXOCompare v u then v # UTXOSet_insert u vs
      else v # vs)"

definition UTXOSet_ok :: "UTXO list \<Rightarrow> bool" where
  "UTXOSet_ok utxos \<longleftrightarrow> sorted_wrt UTXOCompare utxos"

lemma UTXOSet_ok_sorted: "UTXOSet_ok us \<longleftrightarrow> sorted_wrt (<) (map outpoint us)"
proof -
  have "UTXOCompare = (\<lambda>x y. outpoint x < outpoint y)" by (intro ext) (rule UTXOCompare_outpoint)
  then show ?thesis by (simp add: UTXOSet_ok_def sorted_wrt_map)
qed

lemma UTXOSet_ok_distinct: "UTXOSet_ok us \<Longrightarrow> distinct (map outpoint us)"
  by (simp add: UTXOSet_ok_sorted strict_sorted_iff)

lemma UTXOSet_insert_outpoints:
  "set (map outpoint (UTXOSet_insert u us)) = insert (outpoint u) (set (map outpoint us))"
  by (induction us) (auto simp: UTXOCompare_outpoint)

lemma UTXOSet_insert_ok: "UTXOSet_ok us \<Longrightarrow> UTXOSet_ok (UTXOSet_insert u us)"
proof (induction us)
  case (Cons v vs)
  have "\<forall>w \<in> set vs. outpoint v < outpoint w" and vs: "UTXOSet_ok vs"
    using Cons.prems by (simp_all add: UTXOSet_ok_sorted)
  moreover have "outpoint v < outpoint w" if "outpoint v < outpoint u" "w \<in> set (UTXOSet_insert u vs)" for w
  proof -
    have "outpoint w \<in> insert (outpoint u) (set (map outpoint vs))"
      using that(2) UTXOSet_insert_outpoints [of u vs] by force
    then show ?thesis using that(1) calculation(1) by auto
  qed
  ultimately show ?case
    using Cons.IH by (auto simp: UTXOSet_ok_sorted UTXOCompare_outpoint)
qed (simp add: UTXOSet_ok_def)

lemma UTXOSet_insert_again: "UTXOSet_ok us \<Longrightarrow> outpoint u \<in> set (map outpoint us) \<Longrightarrow> UTXOSet_insert u us = us"
  by (induction us) (auto simp: UTXOCompare_outpoint UTXOSet_ok_sorted)

section \<open>The wallet\<close>

definition CHAINID_MAINCHAIN :: string where "CHAINID_MAINCHAIN = ''ELA''"
definition CHAINID_IDCHAIN :: string where "CHAINID_IDCHAIN = ''IDChain''"
definition CHAINID_TOKENCHAIN :: string where "CHAINID_TOKENCHAIN = ''TokenChain''"

record Wallet =
  w_walletID :: string
  w_chainID :: string
  w_subAccount :: SubAccount

definition Wallet_of :: "string \<Rightarrow> string \<Rightarrow> SubAccount \<Rightarrow> Wallet" where
  "Wallet_of walletID chainID subAccount =
     \<lparr>w_walletID = walletID @ '':'' @ chainID, w_chainID = chainID, w_subAccount = subAccount\<rparr>"

definition with_sub :: "Wallet \<Rightarrow> ('a \<times> SubAccount) outcome \<Rightarrow> ('a \<times> Wallet) outcome" where
  "with_sub w m = omap (\<lambda>(r, sa). (r, w\<lparr>w_subAccount := sa\<rparr>)) m"

definition Wallet_GetPublickeys :: "account_lib \<Rightarrow> u32 \<Rightarrow> nat \<Rightarrow> bool \<Rightarrow> Wallet \<Rightarrow> PubKeyInfo outcome" where
  "Wallet_GetPublickeys lib index cnt internal w =
     SubAccount_GetPublickeys lib index cnt internal (w_subAccount w)"

definition Wallet_GetAddresses ::
    "account_lib \<Rightarrow> u32 \<Rightarrow> u32 \<Rightarrow> bool \<Rightarrow> Wallet \<Rightarrow> (Address list \<times> Wallet) outcome" where
  "Wallet_GetAddresses lib index cnt internal w =
     with_sub w (SubAccount_GetAddresses lib index cnt internal (w_subAccount w))"

text \<open>The chain that is asked for is not looked at.\<close>

definition Wallet_GetCID ::
    "account_lib \<Rightarrow> u32 \<Rightarrow> u64 \<Rightarrow> bool \<Rightarrow> Wallet \<Rightarrow> (Address list \<times> Wallet) outcome" where
  "Wallet_GetCID lib index cnt internal w =
     with_sub w (SubAccount_GetCID lib index cnt False (w_subAccount w))"

definition Wallet_GetOwnerPublilcKey :: "Wallet \<Rightarrow> bytes outcome" where
  "Wallet_GetOwnerPublilcKey w = SubAccount_OwnerPubKey (w_subAccount w)"

definition Wallet_GetOwnerDepositAddress :: "account_lib \<Rightarrow> Wallet \<Rightarrow> Address outcome" where
  "Wallet_GetOwnerDepositAddress lib w =
     obind (SubAccount_OwnerPubKey (w_subAccount w)) (\<lambda>k. Address_of_pubkey (al_hash160 lib) PrefixDeposit k False)"

definition Wallet_GetCROwnerDepositAddress :: "account_lib \<Rightarrow> Wallet \<Rightarrow> Address outcome" where
  "Wallet_GetCROwnerDepositAddress lib w =
     obind (SubAccount_DIDPubKey lib (w_subAccount w)) (\<lambda>k. Address_of_pubkey (al_hash160 lib) PrefixDeposit k False)"

definition Wallet_GetOwnerAddress :: "account_lib \<Rightarrow> Wallet \<Rightarrow> Address outcome" where
  "Wallet_GetOwnerAddress lib w =
     obind (SubAccount_OwnerPubKey (w_subAccount w)) (\<lambda>k. Address_of_pubkey (al_hash160 lib) PrefixStandard k False)"

definition Wallet_GetAllSpecialAddresses :: "account_lib \<Rightarrow> Wallet \<Rightarrow> Address list outcome" where
  "Wallet_GetAllSpecialAddresses lib w =
     (if Account_GetSignType (sa_parent (w_subAccount w)) \<noteq> MultiSign
      then obind (Wallet_GetOwnerAddress lib w) (\<lambda>owner.
           obind (Wallet_GetOwnerDepositAddress lib w) (\<lambda>deposit.
           obind (Wallet_GetCROwnerDepositAddress lib w) (\<lambda>crDeposit. Ret [owner, deposit, crDeposit])))
      else Ret [])"

definition Wallet_IsDepositAddress :: "Wallet \<Rightarrow> Address \<Rightarrow> bool" where
  "Wallet_IsDepositAddress w addr \<longleftrightarrow>
     SubAccount_IsProducerDepositAddress (w_subAccount w) addr \<or> SubAccount_IsCRDepositAddress (w_subAccount w) addr"

section \<open>Creating a transaction\<close>

text \<open>
  The nonce is the hexadecimal reading of a decimal text: the constructor of \<open>bytes_t\<close> from a string
  is \<open>setHex\<close>.
\<close>

definition Wallet_attributes :: "string \<Rightarrow> u32 \<Rightarrow> Transaction \<Rightarrow> Transaction outcome" where
  "Wallet_attributes memo random tx =
     (let tx1 = (if memo \<noteq> []
                 then Transaction_AddAttribute
                        \<lparr>attr_usage = Usage_Memo, attr_data = setCharsFromString (''type:text,msg:'' @ memo)\<rparr> tx
                 else tx)
      in obind (setHex (dec_text (unat random))) (\<lambda>nonce.
           Ret (Transaction_AddAttribute \<lparr>attr_usage = Usage_Nonce, attr_data = nonce\<rparr> tx1)))"

primrec Wallet_inputs ::
    "account_lib \<Rightarrow> SubAccount \<Rightarrow> UTXO list \<Rightarrow> Transaction \<Rightarrow> BigInt \<Rightarrow> (Transaction \<times> BigInt) outcome" where
  "Wallet_inputs lib sa [] tx spent = Ret (tx, spent)"
| "Wallet_inputs lib sa (u # us) tx spent =
     (let tx1 = Transaction_AddInput (TransactionInput_of (utxo_hash u) (utxo_n u)) tx
      in obind (SubAccount_GetCode lib (utxo_address u) sa) (\<lambda>found.
           case found of
             None \<Rightarrow> Throw E_Address
           | Some code \<Rightarrow>
               Wallet_inputs lib sa us (snd (Transaction_AddUniqueProgram (Program_of code []) tx1))
                 (spent + utxo_amount u)))"

definition Wallet_change_address ::
    "account_lib \<Rightarrow> bool \<Rightarrow> UTXO list \<Rightarrow> SubAccount \<Rightarrow> (Address \<times> SubAccount) outcome" where
  "Wallet_change_address lib changeBack2FirstInput utxos sa =
     (if changeBack2FirstInput
      then case utxos of [] \<Rightarrow> Undef | u # _ \<Rightarrow> Ret (utxo_address u, sa)
      else obind (SubAccount_GetAddresses lib 0 1 False sa) (\<lambda>(addresses, sa').
             case addresses of [] \<Rightarrow> Undef | a # _ \<Rightarrow> Ret (a, sa')))"

definition Wallet_change ::
    "account_lib \<Rightarrow> bool \<Rightarrow> UTXO list \<Rightarrow> BigInt \<Rightarrow> BigInt \<Rightarrow> BigInt \<Rightarrow> Transaction \<Rightarrow> SubAccount \<Rightarrow>
     (Transaction \<times> SubAccount) outcome" where
  "Wallet_change lib changeBack2FirstInput utxos totalInputAmount totalOutputAmount fee tx sa =
     (if totalInputAmount < totalOutputAmount + fee then Throw E_BalanceNotEnough
      else if totalInputAmount > totalOutputAmount + fee
      then let changeAmount = totalInputAmount - totalOutputAmount - fee in
           obind (Wallet_change_address lib changeBack2FirstInput utxos sa) (\<lambda>(changeAddress, sa').
             if \<not> addr_isValid changeAddress then Throw E_Address
             else Ret (Transaction_AddOutput
                         (TransactionOutput_of changeAmount changeAddress GetELAAssetID OutputType_Default None) tx, sa'))
      else Ret (tx, sa))"

definition Wallet_CreateTransaction ::
    "account_lib \<Rightarrow> u32 \<Rightarrow> u8 \<Rightarrow> Payload option \<Rightarrow> UTXO list \<Rightarrow> TransactionOutput list \<Rightarrow> string \<Rightarrow> BigInt \<Rightarrow> bool \<Rightarrow>
     Wallet \<Rightarrow> (Transaction \<times> Wallet) outcome" where
  "Wallet_CreateTransaction lib random type payload utxos outputs memo fee changeBack2FirstInput w =
     obind (Wallet_attributes memo random (Transaction_of type payload)) (\<lambda>tx0.
     let totalOutputAmount = sum_list (map out_amount outputs);
         tx1 = (if outputs \<noteq> [] then Transaction_SetOutputs outputs tx0 else tx0)
     in obind (Wallet_inputs lib (w_subAccount w) utxos tx1 0) (\<lambda>(tx2, totalInputAmount).
        obind (Wallet_change lib changeBack2FirstInput utxos totalInputAmount totalOutputAmount fee tx2
                 (w_subAccount w)) (\<lambda>(tx3, sa').
          if tx_outputs tx3 = [] then Throw E_InvalidArgument
          else let tx4 = Transaction_SetFee (BigInt_getUint64 fee) tx3;
                   tx5 = (if w_chainID w = CHAINID_MAINCHAIN then Transaction_SetVersion TxVersion_V09 tx4 else tx4)
               in Ret (tx5, w\<lparr>w_subAccount := sa'\<rparr>))))"

section \<open>Signing\<close>

definition Wallet_SignTransaction ::
    "account_lib \<Rightarrow> (bytes \<Rightarrow> uint256) \<Rightarrow> Transaction \<Rightarrow> string \<Rightarrow> Wallet \<Rightarrow> (Transaction \<times> Wallet) outcome" where
  "Wallet_SignTransaction lib sha256 tx payPassword w =
     with_sub w (SubAccount_SignTransaction lib sha256 tx payPassword (w_subAccount w))"

text \<open>\<open>key.Sign(msg)\<close> takes the characters of the message as bytes.\<close>

definition Wallet_SignWithAddress ::
    "account_lib \<Rightarrow> Address \<Rightarrow> string \<Rightarrow> string \<Rightarrow> Wallet \<Rightarrow> (string \<times> Wallet) outcome" where
  "Wallet_SignWithAddress lib addr msg payPasswd w =
     with_sub w (obind (SubAccount_GetKeyWithAddress lib addr payPasswd (w_subAccount w)) (\<lambda>(key, sa).
       omap (\<lambda>sig. (getHex0 sig, sa)) (Key_Sign_bytes (al_key lib) key (setCharsFromString msg))))"

definition Wallet_SignDigestWithAddress ::
    "account_lib \<Rightarrow> Address \<Rightarrow> uint256 \<Rightarrow> string \<Rightarrow> Wallet \<Rightarrow> (string \<times> Wallet) outcome" where
  "Wallet_SignDigestWithAddress lib addr digest payPasswd w =
     with_sub w (obind (SubAccount_GetKeyWithAddress lib addr payPasswd (w_subAccount w)) (\<lambda>(key, sa).
       omap (\<lambda>sig. (getHex0 sig, sa)) (Key_Sign (al_key lib) key digest)))"

definition Wallet_SignWithOwnerKey ::
    "account_lib \<Rightarrow> bytes \<Rightarrow> string \<Rightarrow> Wallet \<Rightarrow> (bytes \<times> Wallet) outcome" where
  "Wallet_SignWithOwnerKey lib msg payPasswd w =
     with_sub w (obind (SubAccount_DeriveOwnerKey lib payPasswd (w_subAccount w)) (\<lambda>(key, sa).
       omap (\<lambda>sig. (sig, sa)) (Key_Sign_bytes (al_key lib) key msg)))"

section \<open>What is created\<close>

text \<open>
  The loop over the inputs: one input for every output that is spent, a program for every script, and
  the sum of the amounts.
\<close>

definition program_for :: "account_lib \<Rightarrow> Transaction \<Rightarrow> Address \<Rightarrow> bool" where
  "program_for lib tx addr \<longleftrightarrow> (\<exists>p \<in> set (tx_programs tx). prog_parameter p = [] \<and>
     addr_programHash addr =
       uint168_of_prefix (uint168_prefix (addr_programHash addr)) (le_bytes 20 (al_hash160 lib (prog_code p))))"

definition utxo_input :: "UTXO \<Rightarrow> TransactionInput" where
  "utxo_input u = TransactionInput_of (utxo_hash u) (utxo_n u)"

lemma AddUniqueProgram_fields [simp]:
  "tx_inputs (snd (Transaction_AddUniqueProgram p t)) = tx_inputs t"
  "tx_outputs (snd (Transaction_AddUniqueProgram p t)) = tx_outputs t"
  "tx_attributes (snd (Transaction_AddUniqueProgram p t)) = tx_attributes t"
  "tx_type (snd (Transaction_AddUniqueProgram p t)) = tx_type t"
  "tx_payload (snd (Transaction_AddUniqueProgram p t)) = tx_payload t"
  "tx_version (snd (Transaction_AddUniqueProgram p t)) = tx_version t"
  by (simp_all add: Transaction_AddUniqueProgram_def)

lemma AddUniqueProgram_codes:
  "set (map prog_code (tx_programs (snd (Transaction_AddUniqueProgram p t)))) =
     insert (prog_code p) (set (map prog_code (tx_programs t)))"
  by (auto simp: Transaction_AddUniqueProgram_def image_iff eq_commute [of _ "prog_code p"])

lemma Wallet_inputs_fields:
  "Wallet_inputs lib sa us tx spent = Ret (tx', spent') \<Longrightarrow>
   tx_inputs tx' = tx_inputs tx @ map utxo_input us \<and> tx_outputs tx' = tx_outputs tx \<and>
   tx_attributes tx' = tx_attributes tx \<and> tx_type tx' = tx_type tx \<and> tx_payload tx' = tx_payload tx \<and>
   tx_version tx' = tx_version tx \<and> spent' = spent + sum_list (map utxo_amount us)"
proof (induction us arbitrary: tx spent)
  case (Cons u us)
  obtain code where "SubAccount_GetCode lib (utxo_address u) sa = Ret (Some code)"
    and r: "Wallet_inputs lib sa us (snd (Transaction_AddUniqueProgram (Program_of code [])
      (Transaction_AddInput (utxo_input u) tx))) (spent + utxo_amount u) = Ret (tx', spent')"
    using Cons.prems by (auto simp: obind_eq_Ret Let_def utxo_input_def split: option.splits)
  show ?case using Cons.IH [OF r] by (simp add: Transaction_AddInput_def)
qed simp

lemma Wallet_inputs_programs:
  "Wallet_inputs lib sa us tx spent = Ret (tx', spent') \<Longrightarrow>
   (\<forall>u \<in> set us. \<exists>p \<in> set (tx_programs tx'). SubAccount_GetCode lib (utxo_address u) sa = Ret (Some (prog_code p))) \<and>
   set (map prog_code (tx_programs tx)) \<subseteq> set (map prog_code (tx_programs tx')) \<and>
   (\<forall>p \<in> set (tx_programs tx'). p \<in> set (tx_programs tx) \<or>
      prog_parameter p = [] \<and> (\<exists>u \<in> set us. SubAccount_GetCode lib (utxo_address u) sa = Ret (Some (prog_code p)))) \<and>
   (distinct (map prog_code (tx_programs tx)) \<longrightarrow> distinct (map prog_code (tx_programs tx')))"
proof (induction us arbitrary: tx spent)
  case (Cons u us)
  obtain code where code: "SubAccount_GetCode lib (utxo_address u) sa = Ret (Some code)"
    and r: "Wallet_inputs lib sa us (snd (Transaction_AddUniqueProgram (Program_of code [])
      (Transaction_AddInput (utxo_input u) tx))) (spent + utxo_amount u) = Ret (tx', spent')"
    using Cons.prems by (auto simp: obind_eq_Ret Let_def utxo_input_def split: option.splits)
  let ?t = "snd (Transaction_AddUniqueProgram (Program_of code []) (Transaction_AddInput (utxo_input u) tx))"
  have t: "set (map prog_code (tx_programs ?t)) = insert code (set (map prog_code (tx_programs tx)))"
    "\<forall>p \<in> set (tx_programs ?t). p \<in> set (tx_programs tx) \<or> p = Program_of code []"
    "distinct (map prog_code (tx_programs tx)) \<longrightarrow> distinct (map prog_code (tx_programs ?t))"
    unfolding AddUniqueProgram_codes
    by (auto simp: Transaction_AddUniqueProgram_def Transaction_AddInput_def Program_of_def)
  note IH = Cons.IH [OF r]
  have "\<exists>p \<in> set (tx_programs tx'). SubAccount_GetCode lib (utxo_address u) sa = Ret (Some (prog_code p))"
    using IH t(1) code by auto
  moreover have "set (map prog_code (tx_programs tx)) \<subseteq> set (map prog_code (tx_programs tx'))"
    using IH t(1) by blast
  moreover have "\<forall>p \<in> set (tx_programs tx'). p \<in> set (tx_programs tx) \<or> prog_parameter p = [] \<and>
      (\<exists>u \<in> set (u # us). SubAccount_GetCode lib (utxo_address u) sa = Ret (Some (prog_code p)))"
    using IH t(2) code by (fastforce simp: Program_of_def)
  ultimately show ?case using IH t(3) by simp
qed auto

lemma Wallet_attributes_Ret:
  assumes "Wallet_attributes memo random tx = Ret tx'"
  shows "tx_inputs tx' = tx_inputs tx" "tx_outputs tx' = tx_outputs tx" "tx_programs tx' = tx_programs tx"
    "tx_type tx' = tx_type tx" "tx_payload tx' = tx_payload tx" "tx_version tx' = tx_version tx"
  using assms by (auto simp: Wallet_attributes_def Let_def obind_eq_Ret Transaction_AddAttribute_def)

lemma Wallet_change_Ret:
  assumes "Wallet_change lib back utxos totalIn totalOut fee tx sa = Ret (tx', sa')"
  shows "\<exists>change. tx' = tx\<lparr>tx_outputs := tx_outputs tx @ change\<rparr> \<and> length change \<le> 1 \<and>
    (\<forall>c \<in> set change. 0 < out_amount c \<and> addr_isValid (out_address c) \<and> out_assetID c = GetELAAssetID) \<and>
    sum_list (map out_amount change) + totalOut + fee = totalIn"
proof (cases "totalIn > totalOut + fee")
  case True
  then obtain a where "Wallet_change_address lib back utxos sa = Ret (a, sa')" "addr_isValid a"
    "tx' = Transaction_AddOutput (TransactionOutput_of (totalIn - totalOut - fee) a GetELAAssetID OutputType_Default None) tx"
    using assms by (auto simp: Wallet_change_def obind_eq_Ret Let_def split: if_splits)
  then show ?thesis
    using True by (intro exI [of _ "[TransactionOutput_of (totalIn - totalOut - fee) a GetELAAssetID OutputType_Default None]"])
      (simp add: Transaction_AddOutput_def TransactionOutput_of_def)
next
  case False
  then have "tx' = tx" "totalIn = totalOut + fee" using assms by (auto simp: Wallet_change_def split: if_splits)
  then show ?thesis by (intro exI [of _ "[]"]) simp
qed

lemma Wallet_CreateTransaction_Ret:
  assumes "Wallet_CreateTransaction lib random type payload utxos outputs memo fee back w = Ret (tx, w')"
  obtains tx0 tx1 tx2 sa' change where
    "Wallet_attributes memo random (Transaction_of type payload) = Ret tx0"
    "tx1 = (if outputs \<noteq> [] then Transaction_SetOutputs outputs tx0 else tx0)"
    "Wallet_inputs lib (w_subAccount w) utxos tx1 0 = Ret (tx2, sum_list (map utxo_amount utxos))"
    "w' = w\<lparr>w_subAccount := sa'\<rparr>"
    "Wallet_change lib back utxos (sum_list (map utxo_amount utxos)) (sum_list (map out_amount outputs)) fee tx2
       (w_subAccount w) = Ret (tx2\<lparr>tx_outputs := tx_outputs tx2 @ change\<rparr>, sa')"
    "tx = tx2\<lparr>tx_outputs := tx_outputs tx2 @ change, tx_fee := BigInt_getUint64 fee,
       tx_version := (if w_chainID w = CHAINID_MAINCHAIN then TxVersion_V09 else tx_version tx2)\<rparr>"
    "tx_outputs tx \<noteq> []"
proof -
  define start where "start tx0 = (if outputs \<noteq> [] then Transaction_SetOutputs outputs tx0 else tx0)" for tx0
  define finish where "finish tx3 = (if w_chainID w = CHAINID_MAINCHAIN
      then Transaction_SetVersion TxVersion_V09 (Transaction_SetFee (BigInt_getUint64 fee) tx3)
      else Transaction_SetFee (BigInt_getUint64 fee) tx3)" for tx3
  obtain tx0 tx2 spent tx3 sa' where a: "Wallet_attributes memo random (Transaction_of type payload) = Ret tx0"
    and i: "Wallet_inputs lib (w_subAccount w) utxos (start tx0) 0 = Ret (tx2, spent)"
    and c: "Wallet_change lib back utxos spent (sum_list (map out_amount outputs)) fee tx2 (w_subAccount w) = Ret (tx3, sa')"
    and t: "tx_outputs tx3 \<noteq> []" "w' = w\<lparr>w_subAccount := sa'\<rparr>" "tx = finish tx3"
    using assms unfolding Wallet_CreateTransaction_def Let_def start_def [symmetric] finish_def [symmetric]
    by (auto simp: obind_eq_Ret split: if_splits)
  have spent: "spent = sum_list (map utxo_amount utxos)" using Wallet_inputs_fields [OF i] by simp
  obtain change where ch: "tx3 = tx2\<lparr>tx_outputs := tx_outputs tx2 @ change\<rparr>"
    using Wallet_change_Ret [OF c] by blast
  show ?thesis
    by (rule that [OF a start_def i [unfolded spent] t(2) c [unfolded spent ch]])
      (use t ch in \<open>auto simp: finish_def Transaction_SetVersion_def Transaction_SetFee_def\<close>)
qed

text \<open>What a created transaction is: it spends what it was given, pays what it was told to and loses nothing.\<close>

lemma Wallet_CreateTransaction_balanced:
  assumes "Wallet_CreateTransaction lib random type payload utxos outputs memo fee back w = Ret (tx, w')"
  shows "sum_list (map out_amount (tx_outputs tx)) + fee = sum_list (map utxo_amount utxos)"
    and "tx_inputs tx = map utxo_input utxos"
    and "\<exists>change. tx_outputs tx = outputs @ change \<and> length change \<le> 1 \<and>
      (\<forall>c \<in> set change. 0 < out_amount c \<and> addr_isValid (out_address c) \<and> out_assetID c = GetELAAssetID)"
    and "tx_type tx = type" "tx_payload tx = payload"
    and "tx_version tx = (if w_chainID w = CHAINID_MAINCHAIN then TxVersion_V09 else TxVersion_Default)"
proof -
  obtain tx0 tx1 tx2 sa' change where
    a: "Wallet_attributes memo random (Transaction_of type payload) = Ret tx0"
    and t1: "tx1 = (if outputs \<noteq> [] then Transaction_SetOutputs outputs tx0 else tx0)"
    and i: "Wallet_inputs lib (w_subAccount w) utxos tx1 0 = Ret (tx2, sum_list (map utxo_amount utxos))"
    and c: "Wallet_change lib back utxos (sum_list (map utxo_amount utxos)) (sum_list (map out_amount outputs)) fee tx2
       (w_subAccount w) = Ret (tx2\<lparr>tx_outputs := tx_outputs tx2 @ change\<rparr>, sa')"
    and t: "tx = tx2\<lparr>tx_outputs := tx_outputs tx2 @ change, tx_fee := BigInt_getUint64 fee,
       tx_version := (if w_chainID w = CHAINID_MAINCHAIN then TxVersion_V09 else tx_version tx2)\<rparr>"
    using Wallet_CreateTransaction_Ret [OF assms] by metis
  have o: "tx_outputs tx2 = outputs" "tx_inputs tx2 = map utxo_input utxos" "tx_type tx2 = type"
    "tx_payload tx2 = payload" "tx_version tx2 = TxVersion_Default"
    using Wallet_inputs_fields [OF i] Wallet_attributes_Ret [OF a] t1
    by (simp_all add: Transaction_SetOutputs_def Transaction_of_def)
  obtain ch where ch: "tx2\<lparr>tx_outputs := tx_outputs tx2 @ change\<rparr> = tx2\<lparr>tx_outputs := tx_outputs tx2 @ ch\<rparr>" "length ch \<le> 1"
    "\<forall>c \<in> set ch. 0 < out_amount c \<and> addr_isValid (out_address c) \<and> out_assetID c = GetELAAssetID"
    "sum_list (map out_amount ch) + sum_list (map out_amount outputs) + fee = sum_list (map utxo_amount utxos)"
    using Wallet_change_Ret [OF c] by blast
  from ch(1) have "ch = change"
    by (metis Transaction.select_convs(11) Transaction.surjective Transaction.update_convs(11) same_append_eq)
  then show "sum_list (map out_amount (tx_outputs tx)) + fee = sum_list (map utxo_amount utxos)"
    "tx_inputs tx = map utxo_input utxos"
    "\<exists>change. tx_outputs tx = outputs @ change \<and> length change \<le> 1 \<and>
      (\<forall>c \<in> set change. 0 < out_amount c \<and> addr_isValid (out_address c) \<and> out_assetID c = GetELAAssetID)"
    "tx_type tx = type" "tx_payload tx = payload"
    "tx_version tx = (if w_chainID w = CHAINID_MAINCHAIN then TxVersion_V09 else TxVersion_Default)"
    using t o ch by auto
qed

lemma Wallet_CreateTransaction_programs:
  assumes "Wallet_CreateTransaction lib random type payload utxos outputs memo fee back w = Ret (tx, w')"
  shows "\<forall>u \<in> set utxos. \<exists>p \<in> set (tx_programs tx).
      SubAccount_GetCode lib (utxo_address u) (w_subAccount w) = Ret (Some (prog_code p))"
    and "\<forall>p \<in> set (tx_programs tx). prog_parameter p = [] \<and>
      (\<exists>u \<in> set utxos. SubAccount_GetCode lib (utxo_address u) (w_subAccount w) = Ret (Some (prog_code p)))"
    and "distinct (map prog_code (tx_programs tx))"
proof -
  obtain tx0 tx1 tx2 sa' change where
    a: "Wallet_attributes memo random (Transaction_of type payload) = Ret tx0"
    and t1: "tx1 = (if outputs \<noteq> [] then Transaction_SetOutputs outputs tx0 else tx0)"
    and i: "Wallet_inputs lib (w_subAccount w) utxos tx1 0 = Ret (tx2, sum_list (map utxo_amount utxos))"
    and t: "tx = tx2\<lparr>tx_outputs := tx_outputs tx2 @ change, tx_fee := BigInt_getUint64 fee,
       tx_version := (if w_chainID w = CHAINID_MAINCHAIN then TxVersion_V09 else tx_version tx2)\<rparr>"
    using Wallet_CreateTransaction_Ret [OF assms] by metis
  have "tx_programs tx1 = []"
    using Wallet_attributes_Ret [OF a] t1 by (simp add: Transaction_SetOutputs_def Transaction_of_def)
  then show "\<forall>u \<in> set utxos. \<exists>p \<in> set (tx_programs tx).
      SubAccount_GetCode lib (utxo_address u) (w_subAccount w) = Ret (Some (prog_code p))"
    "\<forall>p \<in> set (tx_programs tx). prog_parameter p = [] \<and>
      (\<exists>u \<in> set utxos. SubAccount_GetCode lib (utxo_address u) (w_subAccount w) = Ret (Some (prog_code p)))"
    "distinct (map prog_code (tx_programs tx))"
    using Wallet_inputs_programs [OF i] t by auto
qed

text \<open>Too little is refused, whatever the sub-account and the memo are.\<close>

lemma scan_hex_digits: "list_all is_digit s \<Longrightarrow> \<exists>bs. scan_hex s = Ret bs"
  by (induction s rule: scan_hex.induct) (auto simp: scan_hex2_def hex_value_def is_digit_def Let_def)

lemma Wallet_attributes_total: "\<exists>tx'. Wallet_attributes memo random tx = Ret tx'"
proof -
  have "is_digit CHR ''0''" by (simp add: is_digit_def)
  then have "\<exists>bs. setHex (dec_text (unat random)) = Ret bs"
    using dec_text_digits [of "unat random"] by (auto simp: setHex_def intro: scan_hex_digits)
  then show ?thesis by (auto simp: Wallet_attributes_def Let_def)
qed

lemma Wallet_inputs_total:
  "\<forall>u \<in> set us. \<exists>code. SubAccount_GetCode lib (utxo_address u) sa = Ret (Some code) \<Longrightarrow>
   \<exists>tx'. Wallet_inputs lib sa us tx spent = Ret (tx', spent + sum_list (map utxo_amount us))"
proof (induction us arbitrary: tx spent)
  case (Cons u us)
  obtain code where "SubAccount_GetCode lib (utxo_address u) sa = Ret (Some code)" using Cons.prems by auto
  then show ?case
    using Cons.IH [of "snd (Transaction_AddUniqueProgram (Program_of code []) (Transaction_AddInput (utxo_input u) tx))"
        "spent + utxo_amount u"] Cons.prems
    by (auto simp: utxo_input_def Let_def add.assoc)
qed simp

lemma Wallet_CreateTransaction_short:
  assumes codes: "\<forall>u \<in> set utxos. \<exists>code. SubAccount_GetCode lib (utxo_address u) (w_subAccount w) = Ret (Some code)"
    and short: "sum_list (map utxo_amount utxos) < sum_list (map out_amount outputs) + fee"
  shows "Wallet_CreateTransaction lib random type payload utxos outputs memo fee back w = Throw E_BalanceNotEnough"
proof -
  obtain tx0 where "Wallet_attributes memo random (Transaction_of type payload) = Ret tx0"
    using Wallet_attributes_total by blast
  moreover obtain tx2 where "Wallet_inputs lib (w_subAccount w) utxos
      (if outputs \<noteq> [] then Transaction_SetOutputs outputs tx0 else tx0) 0 = Ret (tx2, 0 + sum_list (map utxo_amount utxos))"
    using Wallet_inputs_total [OF codes] by blast
  ultimately show ?thesis
    using short by (simp add: Wallet_CreateTransaction_def Wallet_change_def Let_def del: if_split)
qed

section \<open>Created and signed\<close>

text \<open>
  The unspent outputs of an account that holds its own keys: none lies on one of its three special
  addresses or on an address of the ID chain, and none of the derived keys is the owner key.
\<close>

definition own_address :: "SubAccount \<Rightarrow> Address \<Rightarrow> bool" where
  "own_address sa addr \<longleftrightarrow>
     \<not> SubAccount_IsProducerDepositAddress sa addr \<and> \<not> SubAccount_IsOwnerAddress sa addr \<and>
     \<not> SubAccount_IsCRDepositAddress sa addr \<and> uint168_prefix (addr_programHash addr) \<noteq> PrefixIDChain"

definition owner_apart :: "account_lib \<Rightarrow> SubAccount \<Rightarrow> bool" where
  "owner_apart lib sa \<longleftrightarrow> acc_ownerPubKey (sa_parent sa) \<noteq> [] \<and>
     (\<forall>internal i. i < length (sa_cached internal sa) \<longrightarrow>
        sa_pubkey lib (sa_parent sa) internal i \<noteq> Ret (acc_ownerPubKey (sa_parent sa)))"

lemma address_forms_prefix:
  assumes "address_forms lib a = Ret (cid, did)"
  shows "uint168_prefix (addr_programHash cid) = PrefixIDChain" "uint168_prefix (addr_programHash did) = PrefixIDChain"
proof -
  show cid: "uint168_prefix (addr_programHash cid) = PrefixIDChain"
    using assms
    by (auto simp: address_forms_def omap_def obind_eq_Ret Address_ChangePrefix_def
        Address_GenerateProgramHash_def uint168_prefix_of_prefix split: if_splits)
  have "did = Address_ConvertToDID (al_hash160 lib) cid"
    using assms by (auto simp: address_forms_def omap_def obind_eq_Ret)
  then show "uint168_prefix (addr_programHash did) = PrefixIDChain"
    using cid by (simp add: Address_ConvertToDID_def Address_GenerateProgramHash_def uint168_prefix_of_prefix)
qed

lemma code_of_member:
  assumes "uint168_prefix (addr_programHash addr) \<noteq> PrefixIDChain"
  shows "code_of lib multi addr as = Ret (Some code) \<Longrightarrow> \<exists>a \<in> set as. addr_code a = code"
proof (induction as)
  case (Cons a as)
  have n: "\<not> Address_eq addr cid \<and> \<not> Address_eq addr did" if "address_forms lib a = Ret (cid, did)" for cid did
    using address_forms_prefix [OF that] assms by (auto simp: Address_eq_def uint168_eq_iff)
  show ?case
  proof (cases "Address_eq a addr")
    case False
    then have "code_of lib multi addr as = Ret (Some code)"
      using Cons.prems n by (auto simp: obind_eq_Ret split: if_splits)
    then show ?thesis using Cons.IH by simp
  qed (use Cons.prems in simp)
qed simp

lemma own_code:
  assumes lib: "key_lib_ok (al_key lib)" and o: "opens lib passwd (sa_parent sa)" and ok: "sa_ok lib sa"
    and apart: "owner_apart lib sa" and own: "own_address sa addr"
    and code: "SubAccount_GetCode lib addr sa = Ret (Some (prog_code p))" and p: "prog_parameter p = []"
  shows "own_program lib sa p"
proof -
  obtain internal a where a: "a \<in> set (sa_cached internal sa)" "addr_code a = prog_code p"
  proof -
    have "(\<exists>a \<in> set (sa_external sa). addr_code a = prog_code p) \<or> (\<exists>a \<in> set (sa_internal sa). addr_code a = prog_code p)"
    proof -
      have n: "uint168_prefix (addr_programHash addr) \<noteq> PrefixIDChain" using own by (simp add: own_address_def)
      obtain multi where "code_of lib multi addr (rev (sa_external sa)) = Ret (Some (prog_code p)) \<or>
          code_of lib multi addr (rev (sa_internal sa)) = Ret (Some (prog_code p))"
        using code own by (auto simp: SubAccount_GetCode_def own_address_def Let_def obind_eq_Ret split: option.splits)
      then show ?thesis using code_of_member [OF n] by fastforce
    qed
    then show ?thesis
      using that [of _ False] that [of _ True] by (auto simp: sa_cached_def)
  qed
  then obtain i where i: "i < length (sa_cached internal sa)" "sa_cached internal sa ! i = a"
    by (auto simp: in_set_conv_nth)
  have cc: "cache_ok lib (sa_parent sa) internal (sa_cached internal sa)" using ok by (simp add: sa_ok_cached)
  then have addr: "sa_address lib (sa_parent sa) internal i = Ret a" "addr_isValid a"
    using i by (auto simp: cache_ok_def)
  have st: "Account_GetSignType (sa_parent sa) = Standard"
    using o by (simp add: opens_def Account_GetSignType_def)
  obtain pub where pub: "sa_pubkey lib (sa_parent sa) internal i = Ret pub"
    "Address_of_pubkey (al_hash160 lib) PrefixStandard pub False = Ret a"
    using addr(1) unfolding sa_address_pubkey [OF st] by (auto simp: obind_eq_Ret)
  obtain d where "good_private lib d" "sa_pubkey lib (sa_parent sa) internal i = Ret (hd_pubkey d)"
    using cached_private [OF key_lib_okD(1) [OF lib] o cc] i(1) by metis
  then have len: "length pub = 33" using pub(1) by (simp add: good_private_def hd_wf_def)
  have "Address_GenerateCode PrefixStandard [pub] 1 False = Ret (addr_code a)"
    using pub(2) addr(2)
    by (auto simp: Address_of_pubkey_def Address_of_pubkeys_def obind_eq_Ret Address_new_def
        Address_GenerateProgramHash_def split: if_splits)
  moreover have "acc_ownerPubKey (sa_parent sa) \<noteq> pub" using apart i(1) pub(1) by (auto simp: owner_apart_def)
  ultimately show ?thesis using p i(1) pub(1) len a(2) by (auto simp: own_program_def)
qed

text \<open>What the wallet creates from its own outputs, it signs.\<close>

lemma Wallet_creates_signed:
  assumes lib: "key_lib_ok (al_key lib)" and o: "opens lib passwd (sa_parent (w_subAccount w))"
    and ok: "sa_ok lib (w_subAccount w)" and apart: "owner_apart lib (w_subAccount w)"
    and own: "\<forall>u \<in> set utxos. own_address (w_subAccount w) (utxo_address u)" "utxos \<noteq> []"
    and c: "Wallet_CreateTransaction lib random type payload utxos outputs memo fee back w = Ret (tx, w')"
    and ty: "type \<noteq> Tx_rechargeToSideChain" "type \<noteq> Tx_coinBase"
    and md: "Transaction_GetShaData sha256 tx = Ret md"
  shows "\<exists>tx'. Wallet_SignTransaction lib sha256 tx passwd w = Ret (tx', w) \<and>
    tx_outputs tx' = tx_outputs tx \<and> tx_inputs tx' = tx_inputs tx \<and>
    map prog_code (tx_programs tx') = map prog_code (tx_programs tx) \<and>
    Transaction_IsSigned sha256 (kl_valid (al_key lib) CTElastos) (kl_verify (al_key lib) CTElastos) tx' = Ret True"
proof -
  note ps = Wallet_CreateTransaction_programs [OF c]
  have "\<forall>p \<in> set (tx_programs tx). own_program lib (w_subAccount w) p"
    using ps(2) own(1) own_code [OF lib o ok apart] by blast
  moreover have "tx_programs tx \<noteq> []" using ps(1) own(2) by (cases utxos) auto
  moreover have "tx_type tx \<noteq> Tx_rechargeToSideChain" "tx_type tx \<noteq> Tx_coinBase"
    using Wallet_CreateTransaction_balanced(4) [OF c] ty by simp_all
  moreover have "acc_ownerPubKey (sa_parent (w_subAccount w)) \<noteq> []" using apart by (simp add: owner_apart_def)
  ultimately obtain ps' where
    "SubAccount_SignTransaction lib sha256 tx passwd (w_subAccount w) = Ret (tx\<lparr>tx_programs := ps'\<rparr>, w_subAccount w)"
    "map prog_code ps' = map prog_code (tx_programs tx)"
    "Transaction_IsSigned sha256 (kl_valid (al_key lib) CTElastos) (kl_verify (al_key lib) CTElastos)
      (tx\<lparr>tx_programs := ps'\<rparr>) = Ret True"
    using SubAccount_SignTransaction_signs [OF lib o ok _ _ _ _ _ md] by blast
  then show ?thesis
    by (intro exI [of _ "tx\<lparr>tx_programs := ps'\<rparr>"]) (simp add: Wallet_SignTransaction_def with_sub_def)
qed

end
