(* ===== verification/Uint256M.thy ===== *)
theory Uint256M
  imports AddressM
begin

text \<open>
  The hexadecimal text of a 256-bit number, \<open>base_uint::GetHex\<close> and \<open>SetHex\<close> of
  \<open>SDK/Common/uint256.h\<close>: the reader takes the digits it finds behind leading space and \<open>0x\<close>, fills
  the bytes from the last digit on and drops what does not fit.
\<close>

definition uint256_GetHex :: "uint256 \<Rightarrow> string" where
  "uint256_GetHex u = getHex0 (rev (le_bytes 32 u))"

definition skip_0x :: "string \<Rightarrow> string" where
  "skip_0x s = (case s of c # d # r \<Rightarrow> if c = CHR ''0'' \<and> (d = CHR ''x'' \<or> d = CHR ''X'') then r else s | _ \<Rightarrow> s)"

fun hex_fill :: "nat list \<Rightarrow> bytes" where
  "hex_fill [] = []"
| "hex_fill [a] = [word_of_nat a]"
| "hex_fill (a # b # ds) = (word_of_nat a OR push_bit 4 (word_of_nat b)) # hex_fill ds"

definition uint256_SetHex :: "string \<Rightarrow> uint256" where
  "uint256_SetHex str =
     (let digits = takeWhile (\<lambda>c. hex_value c \<noteq> None) (skip_0x (dropWhile is_space str))
      in of_le (take 32 (hex_fill (map (\<lambda>c. the (hex_value c)) (rev digits)))))"

lemma nibbles: "(word_of_nat (unat b mod 16) OR push_bit 4 (word_of_nat (unat b div 16)) :: u8) = b"
proof -
  have u: "unat (b mod 16) = unat b mod 16" "unat (b div 16) = unat b div 16"
    by (simp_all add: unat_mod_distrib unat_div_distrib)
  have "(word_of_nat (unat (b mod 16)) :: u8) = take_bit 4 b" "(word_of_nat (unat (b div 16)) :: u8) = drop_bit 4 b"
    by (simp_all add: take_bit_eq_mod drop_bit_eq_div)
  then have "(word_of_nat (unat b mod 16) :: u8) = take_bit 4 b" "(word_of_nat (unat b div 16) :: u8) = drop_bit 4 b"
    by (simp_all only: u)
  then show ?thesis
    by (auto simp: bit_eq_iff bit_simps)
qed

lemma hex_fill_bytes: "hex_fill (concat (map (\<lambda>b. [unat b mod 16, unat b div 16]) bs)) = bs"
  by (induction bs) (simp_all add: nibbles)

lemma getHex0_digits: "list_all (\<lambda>c. hex_value c \<noteq> None) (getHex0 bs)"
  unfolding getHex0_concat
  by (induction bs) (simp_all add: hex_byte_def hex_value_digit unat_div_16)

lemma rev_getHex0:
  "map (\<lambda>c. the (hex_value c)) (rev (getHex0 (rev bs))) = concat (map (\<lambda>b. [unat b mod 16, unat b div 16]) bs)"
  unfolding getHex0_concat
  by (induction bs) (simp_all add: hex_byte_def hex_value_digit unat_div_16)

lemma hex_digit_no_space: "hex_value c \<noteq> None \<Longrightarrow> \<not> is_space c"
  by (auto simp: hex_value_def is_space_def Let_def split: if_splits)

lemma hex_digit_no_x: "hex_value CHR ''x'' = None" "hex_value CHR ''X'' = None"
  by (simp_all add: hex_value_def)

lemma skip_0x_digits: "list_all (\<lambda>c. hex_value c \<noteq> None) s \<Longrightarrow> skip_0x s = s"
  by (auto simp: skip_0x_def hex_digit_no_x split: list.splits)

text \<open>The text of a number is read back as that number.\<close>

lemma uint256_SetHex_GetHex: "uint256_SetHex (uint256_GetHex u) = u"
proof -
  let ?s = "uint256_GetHex u"
  have d: "list_all (\<lambda>c. hex_value c \<noteq> None) ?s" by (simp only: uint256_GetHex_def getHex0_digits)
  then have "dropWhile is_space ?s = ?s" "takeWhile (\<lambda>c. hex_value c \<noteq> None) ?s = ?s"
    using hex_digit_no_space by (cases ?s; auto simp: list_all_iff takeWhile_eq_all_conv)+
  then have "uint256_SetHex ?s = of_le (take 32 (hex_fill (map (\<lambda>c. the (hex_value c)) (rev ?s))))"
    by (simp only: uint256_SetHex_def Let_def skip_0x_digits [OF d])
  also have "\<dots> = u"
    by (simp add: uint256_GetHex_def rev_getHex0 hex_fill_bytes of_le_le_bytes)
  finally show ?thesis .
qed

end
