(* ===== verification/SubWalletM.thy ===== *)
theory SubWalletM
  imports WalletM Uint256M Base64M Payload
begin

text \<open>
  The interface of a sub-wallet of the main chain: \<open>SDK/Implement/ElastosBaseSubWallet.cpp\<close> where
  \<open>GetChainID\<close> is \<open>ELA\<close>.  Requests and answers are JSON objects: the members the code looks at are
  the fields of a record, each absent, of another type, or there.  A member of another type makes the
  JSON library throw.  \<open>BN_dec2bn\<close> is a parameter.
\<close>

section \<open>Requests and answers\<close>

datatype 'a member = Absent | Wrong_type | Has 'a

record TxJson =
  tj_Algorithm :: "string member"
  tj_ID :: "string member"
  tj_Data :: "string member"
  tj_ChainID :: "string member"
  tj_Fee :: "u64 member"

record UTXOJson =
  uj_TxHash :: "string member"
  uj_Index :: "u16 member"
  uj_Address :: "string member"
  uj_Amount :: "string member"

record OutputJson =
  oj_Address :: "string member"
  oj_Amount :: "string member"

text \<open>\<open>get\<close> after the member was found, and \<open>operator[]\<close> of a constant object, which needs it.\<close>

definition member_get :: "'a member \<Rightarrow> 'a outcome" where
  "member_get m = (case m of Has x \<Rightarrow> Ret x | Wrong_type \<Rightarrow> Throw E_Json | Absent \<Rightarrow> Undef)"

definition EncodeTx ::
    "(bytes \<Rightarrow> uint256) \<Rightarrow> string \<Rightarrow> Transaction \<Rightarrow> TxJson outcome" where
  "EncodeTx sha256_2 chainID tx =
     obind (Transaction_Serialize tx empty_stream) (\<lambda>stream.
     obind (Transaction_GetHash sha256_2 tx) (\<lambda>(hash, _).
       Ret \<lparr>tj_Algorithm = Has ''base64'', tj_ID = Has (take 8 (uint256_GetHex hash)),
            tj_Data = Has (getBase64 (buf stream)), tj_ChainID = Has chainID, tj_Fee = Has (tx_fee tx)\<rparr>))"

definition DecodeTx :: "(bytes \<Rightarrow> uint256) \<Rightarrow> TxJson \<Rightarrow> Transaction outcome" where
  "DecodeTx sha256_2 encodedTx =
     (if tj_Algorithm encodedTx = Absent \<or> tj_Data encodedTx = Absent \<or> tj_ChainID encodedTx = Absent
      then Throw E_InvalidArgument
      else case (tj_Algorithm encodedTx, tj_Data encodedTx, tj_ChainID encodedTx, tj_Fee encodedTx) of
        (Has algorithm, Has data, Has chainID, jfee) \<Rightarrow>
          (case jfee of Wrong_type \<Rightarrow> Throw E_InvalidArgument
           | _ \<Rightarrow>
             let fee = (case jfee of Has f \<Rightarrow> f | _ \<Rightarrow> 0) in
             if chainID \<noteq> CHAINID_MAINCHAIN then Throw E_InvalidArgument
             else if algorithm \<noteq> ''base64'' then Throw E_InvalidArgument
             else obind (setBase64 data) (\<lambda>rawHex.
               case Transaction_Deserialize sha256_2 Transaction_new (stream_of rawHex) of
                 ROk tx _ \<Rightarrow> Ret (Transaction_SetFee fee tx)
               | RFail _ \<Rightarrow> Throw E_InvalidArgument
               | RUndef \<Rightarrow> Undef))
      | _ \<Rightarrow> Throw E_InvalidArgument)"

primrec UTXOFromJson ::
    "(bytes \<Rightarrow> uint256) \<Rightarrow> (string \<Rightarrow> int option) \<Rightarrow> UTXOJson list \<Rightarrow> UTXO list \<Rightarrow> UTXO list outcome" where
  "UTXOFromJson sha256_2 dec2bn [] utxo = Ret utxo"
| "UTXOFromJson sha256_2 dec2bn (j # js) utxo =
     (if uj_TxHash j = Absent \<or> uj_Index j = Absent \<or> uj_Address j = Absent \<or> uj_Amount j = Absent
      then Throw E_InvalidArgument
      else obind (member_get (uj_TxHash j)) (\<lambda>txHash.
           obind (member_get (uj_Index j)) (\<lambda>n.
           obind (member_get (uj_Address j)) (\<lambda>a.
           let address = Address_of_string sha256_2 a in
           if \<not> addr_isValid address then Throw E_InvalidArgument
           else obind (member_get (uj_Amount j)) (\<lambda>d.
                let amount = BigInt_setDec dec2bn d 0 in
                if amount < 0 then Throw E_InvalidArgument
                else UTXOFromJson sha256_2 dec2bn js
                       (UTXOSet_insert (UTXO_of (uint256_SetHex txHash) n address amount) utxo))))))"

primrec OutputsFromJson ::
    "(bytes \<Rightarrow> uint256) \<Rightarrow> (string \<Rightarrow> int option) \<Rightarrow> OutputJson list \<Rightarrow> TransactionOutput list \<Rightarrow>
     TransactionOutput list outcome" where
  "OutputsFromJson sha256_2 dec2bn [] outputs = Ret outputs"
| "OutputsFromJson sha256_2 dec2bn (j # js) outputs =
     obind (member_get (oj_Amount j)) (\<lambda>d.
       let amount = BigInt_setDec dec2bn d 0 in
       if amount < 0 then Throw E_InvalidArgument
       else obind (member_get (oj_Address j)) (\<lambda>a.
         let address = Address_of_string sha256_2 a in
         if \<not> addr_isValid address then Throw E_InvalidArgument
         else obind (TransactionOutput_assign TransactionOutput_new
                       (TransactionOutput_of amount address GetELAAssetID OutputType_Default None)) (\<lambda>output.
                OutputsFromJson sha256_2 dec2bn js (outputs @ [output]))))"

section \<open>Operations\<close>

definition SubWallet_GetAddresses ::
    "account_lib \<Rightarrow> u32 \<Rightarrow> u32 \<Rightarrow> bool \<Rightarrow> Wallet \<Rightarrow> (string list \<times> Wallet) outcome" where
  "SubWallet_GetAddresses lib index cnt internal w =
     (if index + cnt \<le> index then Throw E_InvalidArgument
      else omap (\<lambda>(addresses, w'). (map (Address_String (al_sha256_2 lib)) addresses, w'))
             (Wallet_GetAddresses lib index cnt internal w))"

definition SubWallet_GetPublicKeys ::
    "account_lib \<Rightarrow> u32 \<Rightarrow> u32 \<Rightarrow> bool \<Rightarrow> Wallet \<Rightarrow> PubKeyInfo outcome" where
  "SubWallet_GetPublicKeys lib index cnt internal w =
     (if index + cnt \<le> index then Throw E_InvalidArgument
      else Wallet_GetPublickeys lib index (unat cnt) internal w)"

definition SubWallet_CreateTransaction ::
    "account_lib \<Rightarrow> (string \<Rightarrow> int option) \<Rightarrow> u32 \<Rightarrow> UTXOJson list \<Rightarrow> OutputJson list \<Rightarrow> string \<Rightarrow> string \<Rightarrow>
     Wallet \<Rightarrow> (TxJson \<times> Wallet) outcome" where
  "SubWallet_CreateTransaction lib dec2bn random inputsJson outputsJson fee memo w =
     obind (UTXOFromJson (al_sha256_2 lib) dec2bn inputsJson []) (\<lambda>utxos.
     obind (OutputsFromJson (al_sha256_2 lib) dec2bn outputsJson []) (\<lambda>outputs.
     obind (Wallet_CreateTransaction lib random Tx_transferAsset (Some (PL_TransferAsset TransferAsset_new))
              utxos outputs memo (BigInt_setDec dec2bn fee 0) False w) (\<lambda>(tx, w').
       omap (\<lambda>result. (result, w')) (EncodeTx (al_sha256_2 lib) CHAINID_MAINCHAIN tx))))"

definition SubWallet_SignTransaction ::
    "account_lib \<Rightarrow> (bytes \<Rightarrow> uint256) \<Rightarrow> TxJson \<Rightarrow> string \<Rightarrow> Wallet \<Rightarrow> (TxJson \<times> Wallet) outcome" where
  "SubWallet_SignTransaction lib sha256 tx payPassword w =
     obind (DecodeTx (al_sha256_2 lib) tx) (\<lambda>txn.
     obind (Wallet_SignTransaction lib sha256 txn payPassword w) (\<lambda>(txn', w').
       omap (\<lambda>result. (result, w')) (EncodeTx (al_sha256_2 lib) CHAINID_MAINCHAIN txn')))"

definition SubWallet_SignDigest ::
    "account_lib \<Rightarrow> string \<Rightarrow> string \<Rightarrow> string \<Rightarrow> Wallet \<Rightarrow> (string \<times> Wallet) outcome" where
  "SubWallet_SignDigest lib address digest payPassword w =
     (if length digest \<noteq> 64 then Throw E_InvalidArgument
      else Wallet_SignDigestWithAddress lib (Address_of_string (al_sha256_2 lib) address)
             (uint256_SetHex digest) payPassword w)"

definition SubWallet_VerifyDigest :: "key_lib \<Rightarrow> string \<Rightarrow> string \<Rightarrow> string \<Rightarrow> bool outcome" where
  "SubWallet_VerifyDigest lib publicKey digest signature =
     obind (setHex publicKey) (\<lambda>pubkey.
     obind (Key_of lib CTElastos pubkey) (\<lambda>k.
     obind (setHex signature) (\<lambda>sig. Key_Verify_digest lib k (uint256_SetHex digest) sig)))"

definition SubWallet_GetTransactionSignedInfo ::
    "account_lib \<Rightarrow> (bytes \<Rightarrow> uint256) \<Rightarrow> TxJson \<Rightarrow> SignedInfo list outcome" where
  "SubWallet_GetTransactionSignedInfo lib sha256 encodedTx =
     obind (DecodeTx (al_sha256_2 lib) encodedTx) (\<lambda>tx.
       Transaction_GetSignedInfo sha256 (kl_valid (al_key lib) CTElastos) (kl_verify (al_key lib) CTElastos) tx)"

definition SubWallet_ConvertToRawTransaction :: "account_lib \<Rightarrow> TxJson \<Rightarrow> string outcome" where
  "SubWallet_ConvertToRawTransaction lib tx =
     obind (DecodeTx (al_sha256_2 lib) tx) (\<lambda>txn.
     obind (Transaction_Serialize txn empty_stream) (\<lambda>stream. Ret (getHex0 (buf stream))))"

section \<open>Transactions as text\<close>

definition Transaction_wire_short :: "Transaction \<Rightarrow> bool" where
  "Transaction_wire_short t \<longleftrightarrow> (\<forall>s. Transaction_Serialize t empty_stream = Ret s \<longrightarrow> length (buf s) < 2 ^ 63)"

definition decoded :: "(bytes \<Rightarrow> uint256) \<Rightarrow> Transaction \<Rightarrow> Transaction" where
  "decoded sha256_2 t = Transaction_SetFee (tx_fee t) (Transaction_canon sha256_2 Transaction_new t)"

text \<open>What a sub-wallet hands out, it takes back: all that travels, and the fee.\<close>

lemma DecodeTx_EncodeTx_same:
  assumes fits: "Transaction_fits t" and short: "Transaction_wire_short t"
    and same: "Transaction_SerializeUnsigned t' = Transaction_SerializeUnsigned t" "tx_programs t' = tx_programs t"
      "tx_fee t' = tx_fee t"
  obtains j where "EncodeTx sha256_2 CHAINID_MAINCHAIN t' = Ret j" and "DecodeTx sha256_2 j = Ret (decoded sha256_2 t)"
proof -
  obtain s where s: "Transaction_Serialize t empty_stream = Ret s"
    using transaction.total [OF fits, of empty_stream] by metis
  have s': "Transaction_Serialize t' empty_stream = Ret s"
    using s same by (simp add: Transaction_Serialize_def)
  have len: "length (buf s) < 2 ^ 63" using short s by (simp add: Transaction_wire_short_def)
  obtain h t'' where h: "Transaction_GetHash sha256_2 t' = Ret (h, t'')"
    using Transaction_rehash_canon [OF fits same(1), of sha256_2]
    by (cases "tx_txHash t' = 0") (simp_all add: Transaction_GetHash_def)
  have d: "Transaction_Deserialize sha256_2 Transaction_new (stream_of (buf s)) =
      ROk (Transaction_canon sha256_2 Transaction_new t) (advance (length (buf s)) (stream_of (buf s)))"
    using transaction.roundtrip [OF fits s, of "[]"] len by simp
  define j where "j = \<lparr>tj_Algorithm = Has ''base64'', tj_ID = Has (take 8 (uint256_GetHex h)),
    tj_Data = Has (getBase64 (buf s)), tj_ChainID = Has CHAINID_MAINCHAIN, tj_Fee = Has (tx_fee t)\<rparr>"
  have "EncodeTx sha256_2 CHAINID_MAINCHAIN t' = Ret j" using s' h same(3) by (simp add: EncodeTx_def j_def)
  moreover have "DecodeTx sha256_2 j = Ret (decoded sha256_2 t)"
    using d by (simp add: DecodeTx_def decoded_def setBase64_getBase64 j_def)
  ultimately show ?thesis by (rule that)
qed

lemmas DecodeTx_EncodeTx = DecodeTx_EncodeTx_same [OF _ _ refl refl refl]

lemma decoded_fields:
  "tx_programs (decoded sha256_2 t) = tx_programs t" "tx_type (decoded sha256_2 t) = tx_type t"
  "tx_inputs (decoded sha256_2 t) = tx_inputs t" "tx_fee (decoded sha256_2 t) = tx_fee t"
  "tx_outputs (decoded sha256_2 t) = map (TransactionOutput_canon (tx_version t)) (tx_outputs t)"
  by (simp_all add: decoded_def Transaction_SetFee_def Transaction_canon_def)

lemma SetFee_unsigned:
  "Transaction_SerializeUnsigned (Transaction_SetFee f t) = Transaction_SerializeUnsigned t"
  by (cases "tx_payload t"; simp add: Transaction_SerializeUnsigned_def Transaction_SetFee_def)

lemma decoded_unsigned:
  assumes "Transaction_fits t"
  shows "Transaction_SerializeUnsigned (decoded sha256_2 t) = Transaction_SerializeUnsigned t"
  by (simp add: decoded_def SetFee_unsigned Transaction_canon_unsigned [OF assms])

lemma Transaction_IsSigned_cong:
  assumes "Transaction_SerializeUnsigned t' = Transaction_SerializeUnsigned t" "tx_programs t' = tx_programs t"
    "tx_type t' = tx_type t"
  shows "Transaction_IsSigned sha256 kv ec t' = Transaction_IsSigned sha256 kv ec t"
  using assms by (simp add: Transaction_IsSigned_def Transaction_GetShaData_def)

lemma decoded_IsSigned:
  assumes "Transaction_fits t"
  shows "Transaction_IsSigned sha256 kv ec (decoded sha256_2 t) = Transaction_IsSigned sha256 kv ec t"
    and "Transaction_GetShaData sha256 (decoded sha256_2 t) = Transaction_GetShaData sha256 t"
  using decoded_unsigned [OF assms, of sha256_2]
  by (simp_all add: Transaction_IsSigned_def Transaction_GetShaData_def decoded_fields)

section \<open>What a request is turned into\<close>

lemma UTXOFromJson_ok:
  "UTXOFromJson sha256_2 dec2bn js utxo = Ret utxo' \<Longrightarrow> UTXOSet_ok utxo \<Longrightarrow>
   \<forall>u \<in> set utxo. addr_isValid (utxo_address u) \<and> 0 \<le> utxo_amount u \<Longrightarrow>
   UTXOSet_ok utxo' \<and> (\<forall>u \<in> set utxo'. addr_isValid (utxo_address u) \<and> 0 \<le> utxo_amount u)"
proof (induction js arbitrary: utxo)
  case (Cons j js)
  obtain u where u: "UTXOFromJson sha256_2 dec2bn js (UTXOSet_insert u utxo) = Ret utxo'"
    "addr_isValid (utxo_address u)" "0 \<le> utxo_amount u"
    using Cons.prems(1) by (fastforce simp: obind_eq_Ret Let_def UTXO_of_def split: if_splits)
  have "set (UTXOSet_insert u utxo) \<subseteq> insert u (set utxo)" by (induction utxo) auto
  then show ?case using Cons.IH [OF u(1)] u(2,3) Cons.prems(2,3) UTXOSet_insert_ok by blast
qed simp

lemma OutputsFromJson_ok:
  "OutputsFromJson sha256_2 dec2bn js outputs = Ret outputs' \<Longrightarrow>
   \<exists>new. outputs' = outputs @ new \<and> length new = length js \<and>
     (\<forall>c \<in> set new. 0 \<le> out_amount c \<and> addr_isValid (out_address c) \<and> out_assetID c = GetELAAssetID \<and>
        out_outputType c = OutputType_Default)"
proof (induction js arbitrary: outputs)
  case (Cons j js)
  obtain amount address c where c: "0 \<le> amount" "addr_isValid address"
    "TransactionOutput_assign TransactionOutput_new
       (TransactionOutput_of amount address GetELAAssetID OutputType_Default None) = Ret c"
    "OutputsFromJson sha256_2 dec2bn js (outputs @ [c]) = Ret outputs'"
    using Cons.prems unfolding OutputsFromJson.simps Let_def obind_eq_Ret
    by (auto simp: obind_eq_Ret not_less split: if_splits)
  have "out_amount c = amount" "out_address c = address" "out_assetID c = GetELAAssetID"
    "out_outputType c = OutputType_Default"
    using c(3) by (auto simp: TransactionOutput_assign_def TransactionOutput_of_def Address_assign_def split: option.splits)
  then show ?case using Cons.IH [OF c(4)] c(1,2) by fastforce
qed simp

lemma SubWallet_CreateTransaction_Ret:
  assumes "SubWallet_CreateTransaction lib dec2bn random inputsJson outputsJson fee memo w = Ret (j, w')"
  obtains utxos outputs tx where
    "UTXOFromJson (al_sha256_2 lib) dec2bn inputsJson [] = Ret utxos"
    "OutputsFromJson (al_sha256_2 lib) dec2bn outputsJson [] = Ret outputs"
    "Wallet_CreateTransaction lib random Tx_transferAsset (Some (PL_TransferAsset TransferAsset_new))
       utxos outputs memo (BigInt_setDec dec2bn fee 0) False w = Ret (tx, w')"
    "EncodeTx (al_sha256_2 lib) CHAINID_MAINCHAIN tx = Ret j"
  using assms by (auto simp: SubWallet_CreateTransaction_def obind_eq_Ret omap_def)

section \<open>Signing\<close>

text \<open>
  A transaction that is handed over as text, with unsigned programs of the account, comes back as the
  text of a signed one.
\<close>

lemma SubWallet_SignTransaction_signs:
  assumes lib: "key_lib_ok (al_key lib)" and o: "opens lib passwd (sa_parent (w_subAccount w))"
    and ok: "sa_ok lib (w_subAccount w)" and owner: "acc_ownerPubKey (sa_parent (w_subAccount w)) \<noteq> []"
    and ps: "\<forall>p \<in> set (tx_programs tx). own_program lib (w_subAccount w) p" "tx_programs tx \<noteq> []"
    and ty: "tx_type tx \<noteq> Tx_rechargeToSideChain" "tx_type tx \<noteq> Tx_coinBase"
    and fits: "Transaction_fits tx" and short: "Transaction_wire_short tx"
    and j: "EncodeTx (al_sha256_2 lib) CHAINID_MAINCHAIN tx = Ret j"
  shows "\<exists>ps. map prog_code ps = map prog_code (tx_programs tx) \<and>
    (Transaction_wire_short (tx\<lparr>tx_programs := ps\<rparr>) \<longrightarrow>
     (\<exists>j' tx'. SubWallet_SignTransaction lib sha256 j passwd w = Ret (j', w) \<and>
        DecodeTx (al_sha256_2 lib) j' = Ret tx' \<and>
        Transaction_SerializeUnsigned tx' = Transaction_SerializeUnsigned tx \<and> tx_programs tx' = ps \<and>
        Transaction_IsSigned sha256 (kl_valid (al_key lib) CTElastos) (kl_verify (al_key lib) CTElastos) tx' = Ret True))"
proof -
  let ?t = "decoded (al_sha256_2 lib) tx"
  have d: "DecodeTx (al_sha256_2 lib) j = Ret ?t"
    using DecodeTx_EncodeTx [OF fits short, of "al_sha256_2 lib"] j by auto
  have fits': "Transaction_fits (tx\<lparr>tx_programs := ps\<rparr>)" for ps
    using fits by (cases "tx_payload tx") (simp_all add: Transaction_fits_def)
  obtain md where md: "Transaction_GetShaData sha256 ?t = Ret md"
    using Transaction_SerializeUnsigned_appends [OF fits] decoded_IsSigned(2) [OF fits]
    by (auto simp: Transaction_GetShaData_def appends_def)
  obtain ps' where s: "SubAccount_SignTransaction lib sha256 ?t passwd (w_subAccount w) = Ret (?t\<lparr>tx_programs := ps'\<rparr>, w_subAccount w)"
    "map prog_code ps' = map prog_code (tx_programs tx)"
    "Transaction_IsSigned sha256 (kl_valid (al_key lib) CTElastos) (kl_verify (al_key lib) CTElastos)
      (?t\<lparr>tx_programs := ps'\<rparr>) = Ret True"
    using SubAccount_SignTransaction_signs [OF lib o ok owner, of ?t sha256 md] ps ty md
    by (auto simp: decoded_fields)
  have w: "Wallet_SignTransaction lib sha256 ?t passwd w = Ret (?t\<lparr>tx_programs := ps'\<rparr>, w)"
    using s(1) by (simp add: Wallet_SignTransaction_def with_sub_def)
  have "\<exists>j' tx'. SubWallet_SignTransaction lib sha256 j passwd w = Ret (j', w) \<and>
        DecodeTx (al_sha256_2 lib) j' = Ret tx' \<and>
        Transaction_SerializeUnsigned tx' = Transaction_SerializeUnsigned tx \<and> tx_programs tx' = ps' \<and>
        Transaction_IsSigned sha256 (kl_valid (al_key lib) CTElastos) (kl_verify (al_key lib) CTElastos) tx' = Ret True"
    if sh: "Transaction_wire_short (tx\<lparr>tx_programs := ps'\<rparr>)"
  proof -
    let ?d = "decoded (al_sha256_2 lib) (tx\<lparr>tx_programs := ps'\<rparr>)"
    have u: "Transaction_SerializeUnsigned (?t\<lparr>tx_programs := ps'\<rparr>) =
        Transaction_SerializeUnsigned (tx\<lparr>tx_programs := ps'\<rparr>)"
      using decoded_unsigned [OF fits] by simp
    obtain j' where j': "EncodeTx (al_sha256_2 lib) CHAINID_MAINCHAIN (?t\<lparr>tx_programs := ps'\<rparr>) = Ret j'"
      "DecodeTx (al_sha256_2 lib) j' = Ret ?d"
      by (rule DecodeTx_EncodeTx_same [OF fits' sh u, where ?sha256_2.0 = "al_sha256_2 lib"])
        (simp_all add: decoded_fields)
    have unsigned: "Transaction_SerializeUnsigned ?d = Transaction_SerializeUnsigned tx"
      using decoded_unsigned [OF fits', of "al_sha256_2 lib" ps'] by simp
    have "Transaction_IsSigned sha256 (kl_valid (al_key lib) CTElastos) (kl_verify (al_key lib) CTElastos) ?d = Ret True"
      using s(3) Transaction_IsSigned_cong [OF u, of sha256] decoded_IsSigned(1) [OF fits', of sha256 _ _ "al_sha256_2 lib" ps']
      by (simp add: decoded_fields)
    then show ?thesis
      using d w j' unsigned by (intro exI [of _ j'] exI [of _ ?d])
        (simp add: SubWallet_SignTransaction_def decoded_fields)
  qed
  then show ?thesis using s(2) by blast
qed

end
