(* ===== verification/UtxoBook.thy ===== *)
theory UtxoBook
  imports SubWalletM
begin

text \<open>
  What a set of unspent outputs promises its users: it is a book in which every outpoint has at most one
  entry, and the entry that was made first stays.  The promise is the locale \<open>first_entry_book\<close>;
  \<open>std::set\<close> under \<open>UTXOCompare\<close>, as \<open>UTXOSet_insert\<close> has it, keeps it.  What a request lists is
  read item by item (\<open>UTXO_read\<close>), so that reading a request is entering the items in a book.
\<close>

section \<open>Books\<close>

locale first_entry_book =
  fixes empty :: 's
    and enter :: "'v \<Rightarrow> 's \<Rightarrow> 's"
    and key :: "'v \<Rightarrow> 'k"
    and look :: "'s \<Rightarrow> 'k \<rightharpoonup> 'v"
    and ok :: "'s \<Rightarrow> bool"
  assumes empty_ok: "ok empty"
    and look_empty: "look empty = Map.empty"
    and enter_ok: "ok s \<Longrightarrow> ok (enter v s)"
    and look_enter: "ok s \<Longrightarrow> look (enter v s) = (if key v \<in> dom (look s) then look s else (look s)(key v \<mapsto> v))"
begin

lemma fold_ok: "ok s \<Longrightarrow> ok (fold enter vs s)"
  by (induction vs arbitrary: s) (simp_all add: enter_ok)

lemma look_fold:
  "ok s \<Longrightarrow> look (fold enter vs s) k = (case look s k of Some v \<Rightarrow> Some v | None \<Rightarrow> find (\<lambda>v. key v = k) vs)"
  by (induction vs arbitrary: s) (auto simp: enter_ok look_enter split: option.splits)

lemma entered_first: "look (fold enter vs empty) k = find (\<lambda>v. key v = k) vs"
  using look_fold [OF empty_ok] by (simp add: look_empty)

lemma dom_fold: "ok s \<Longrightarrow> dom (look (fold enter vs s)) = dom (look s) \<union> set (map key vs)"
  by (induction vs arbitrary: s) (auto simp: enter_ok look_enter split: if_splits)

end

section \<open>The set of unspent outputs\<close>

definition utxo_book :: "UTXO list \<Rightarrow> Outpoint \<rightharpoonup> UTXO" where
  "utxo_book us = map_of (map (\<lambda>u. (outpoint u, u)) us)"

lemma utxo_book_insert:
  "UTXOSet_ok us \<Longrightarrow>
   utxo_book (UTXOSet_insert u us) =
     (if outpoint u \<in> dom (utxo_book us) then utxo_book us else (utxo_book us)(outpoint u \<mapsto> u))"
proof (induction us)
  case (Cons v vs)
  have ok: "UTXOSet_ok vs" and lt: "\<forall>w \<in> set vs. outpoint v < outpoint w"
    using Cons.prems by (simp_all add: UTXOSet_ok_sorted)
  have dom: "dom (utxo_book ws) = set (map outpoint ws)" for ws
    by (simp add: utxo_book_def dom_map_of_conv_image_fst image_image)
  have book: "utxo_book (w # ws) = (utxo_book ws)(outpoint w \<mapsto> w)" for w ws by (simp add: utxo_book_def)
  consider "outpoint u < outpoint v" | "outpoint u = outpoint v" | "outpoint v < outpoint u"
    using less_linear by blast
  then show ?case
  proof cases
    case 1
    then have "outpoint u \<notin> dom (utxo_book (v # vs))" using lt by (auto simp: dom)
    then show ?thesis using 1 by (simp only: UTXOSet_insert.simps UTXOCompare_outpoint if_True if_False book)
  next
    case 3
    then have "outpoint u \<noteq> outpoint v" "\<not> outpoint u < outpoint v" by auto
    then show ?thesis using 3 Cons.IH [OF ok] by (auto simp: UTXOCompare_outpoint book fun_upd_twist)
  qed (simp add: UTXOCompare_outpoint dom)
qed (simp add: utxo_book_def)

interpretation utxos: first_entry_book "[]" UTXOSet_insert outpoint utxo_book UTXOSet_ok
  by unfold_locales (simp_all add: UTXOSet_insert_ok utxo_book_insert, simp_all add: UTXOSet_ok_def utxo_book_def)

lemma dom_utxo_book: "dom (utxo_book us) = set (map outpoint us)"
  by (simp add: utxo_book_def dom_map_of_conv_image_fst image_image)

section \<open>Reading a request\<close>

text \<open>One round of the loop of \<open>UTXOFromJson\<close>, without the set.\<close>

definition UTXO_read :: "(bytes \<Rightarrow> uint256) \<Rightarrow> (string \<Rightarrow> int option) \<Rightarrow> UTXOJson \<Rightarrow> UTXO outcome" where
  "UTXO_read sha256_2 dec2bn j =
     (if uj_TxHash j = Absent \<or> uj_Index j = Absent \<or> uj_Address j = Absent \<or> uj_Amount j = Absent
      then Throw E_InvalidArgument
      else obind (member_get (uj_TxHash j)) (\<lambda>txHash.
           obind (member_get (uj_Index j)) (\<lambda>n.
           obind (member_get (uj_Address j)) (\<lambda>a.
           let address = Address_of_string sha256_2 a in
           if \<not> addr_isValid address then Throw E_InvalidArgument
           else obind (member_get (uj_Amount j)) (\<lambda>d.
                let amount = BigInt_setDec dec2bn d 0 in
                if amount < 0 then Throw E_InvalidArgument
                else Ret (UTXO_of (uint256_SetHex txHash) n address amount))))))"

lemma UTXOFromJson_reads:
  "UTXOFromJson sha256_2 dec2bn js us =
     obind (map_outcome (UTXO_read sha256_2 dec2bn) js) (\<lambda>vs. Ret (fold UTXOSet_insert vs us))"
proof (induction js arbitrary: us)
  case (Cons j js)
  have "UTXOFromJson sha256_2 dec2bn (j # js) us =
      obind (UTXO_read sha256_2 dec2bn j) (\<lambda>u. UTXOFromJson sha256_2 dec2bn js (UTXOSet_insert u us))"
    by (simp add: UTXO_read_def Let_def obind_assoc if_distrib [of "\<lambda>m. obind m _"] cong: if_cong)
  then show ?case by (simp add: Cons.IH obind_assoc)
qed simp

lemma inputs_of_outpoints:
  "map (\<lambda>i. Outpoint (in_txHash i) (in_index i)) (map utxo_input us) = map outpoint us"
  by (simp add: utxo_input_def outpoint_def TransactionInput_of_def)

end
