(* ===== verification/WalletSteps.thy ===== *)
theory WalletSteps
  imports SubWalletM
begin

text \<open>
  The life of a wallet: every method of \<open>Wallet\<close> that can change the wallet as a step of a relation,
  the states a wallet can get to, and what holds in all of them.
\<close>

section \<open>What an operation leaves alone\<close>

text \<open>An account whose store is complete is not written again when its root key is asked for.\<close>

definition acc_complete :: "Account \<Rightarrow> bool" where
  "acc_complete a \<longleftrightarrow> ls_xPubKeyBitcoin (acc_localstore a) \<noteq> []"

lemma Account_RootKey_same:
  "acc_complete a \<Longrightarrow> Account_RootKey lib passwd a = Ret (k, a') \<Longrightarrow> a' = a"
  by (auto simp: acc_complete_def Account_RootKey_def Account_refresh_def obind_eq_Ret split: if_splits)

lemma SubAccount_FindPrivateKey_same:
  assumes "acc_complete (sa_parent sa)" and "SubAccount_FindPrivateKey lib ty ks passwd sa = Ret (r, sa')"
  shows "sa' = sa"
proof -
  obtain root a where r: "Account_RootKey lib passwd (sa_parent sa) = Ret (root, a)"
    and "sa' = sa\<lparr>sa_parent := a\<rparr>"
    using assms(2)
    by (auto simp: SubAccount_FindPrivateKey_def obind_eq_Ret Let_def omap_def split: if_splits option.splits)
  then show ?thesis using Account_RootKey_same [OF assms(1) r] by simp
qed

lemma sign_programs_same:
  "acc_complete (sa_parent sa) \<Longrightarrow> sign_programs lib md passwd ps sa = Ret (ps', sa') \<Longrightarrow> sa' = sa"
proof (induction ps arbitrary: ps')
  case (Cons p ps)
  obtain ty ks key sa1 ps1 where "SubAccount_FindPrivateKey lib ty ks passwd sa = Ret (Some key, sa1)"
    "sign_programs lib md passwd ps sa1 = Ret (ps1, sa')"
    using Cons.prems(2) by (auto simp: obind_eq_Ret split: if_splits option.splits)
  then show ?case using Cons SubAccount_FindPrivateKey_same by metis
qed simp

lemma SubAccount_SignTransaction_same:
  "acc_complete (sa_parent sa) \<Longrightarrow> SubAccount_SignTransaction lib sha256 tx passwd sa = Ret (tx', sa') \<Longrightarrow> sa' = sa"
  by (auto simp: SubAccount_SignTransaction_def obind_eq_Ret dest: sign_programs_same split: if_splits)

lemma key_at_same: "acc_complete (sa_parent sa) \<Longrightarrow> key_at lib passwd sa chain i = Ret (k, sa') \<Longrightarrow> sa' = sa"
  by (auto simp: key_at_def obind_eq_Ret omap_def dest: Account_RootKey_same)

lemma SubAccount_GetKeyWithAddress_same:
  "acc_complete (sa_parent sa) \<Longrightarrow> SubAccount_GetKeyWithAddress lib addr passwd sa = Ret (k, sa') \<Longrightarrow> sa' = sa"
  by (auto simp: SubAccount_GetKeyWithAddress_def obind_eq_Ret dest: key_at_same split: if_splits option.splits)

lemma SubAccount_DeriveOwnerKey_same:
  "acc_complete (sa_parent sa) \<Longrightarrow> SubAccount_DeriveOwnerKey lib passwd sa = Ret (k, sa') \<Longrightarrow> sa' = sa"
  by (auto simp: SubAccount_DeriveOwnerKey_def derive_key_def obind_eq_Ret omap_def dest: Account_RootKey_same)

text \<open>The sub-account after an operation: the one before it, or the one a range of addresses was asked of.\<close>

definition sa_grows :: "account_lib \<Rightarrow> SubAccount \<Rightarrow> SubAccount \<Rightarrow> bool" where
  "sa_grows lib sa sa' \<longleftrightarrow>
     sa_parent sa' = sa_parent sa \<and> sa_depositAddress sa' = sa_depositAddress sa \<and>
     sa_ownerAddress sa' = sa_ownerAddress sa \<and> sa_crDepositAddress sa' = sa_crDepositAddress sa \<and>
     (\<forall>i. prefix (sa_cached i sa) (sa_cached i sa')) \<and> (sa_ok lib sa \<longrightarrow> sa_ok lib sa')"

lemma sa_grows_refl: "sa_grows lib sa sa"
  by (simp add: sa_grows_def)

lemma sa_grows_trans: "sa_grows lib a b \<Longrightarrow> sa_grows lib b c \<Longrightarrow> sa_grows lib a c"
  unfolding sa_grows_def by (metis prefix_order.trans)

lemma SubAccount_GetAddresses_grows:
  "SubAccount_GetAddresses lib index cnt internal sa = Ret (r, sa') \<Longrightarrow> sa_grows lib sa sa'"
  unfolding sa_grows_def by (intro conjI allI impI) (erule SubAccount_GetAddresses_keeps; assumption)+

lemma SubAccount_GetCID_grows:
  "SubAccount_GetCID lib index cnt internal sa = Ret (r, sa') \<Longrightarrow> sa_grows lib sa sa'"
  by (auto simp: SubAccount_GetCID_def obind_eq_Ret omap_def sa_grows_refl dest: SubAccount_GetAddresses_grows
      split: if_splits)

lemma Wallet_change_address_grows:
  assumes "Wallet_change_address lib back utxos sa = Ret (a, sa')"
  shows "sa_grows lib sa sa'"
proof (cases "back")
  case True
  then show ?thesis using assms by (cases utxos) (auto simp: Wallet_change_address_def sa_grows_refl)
next
  case False
  then obtain addrs s where g: "SubAccount_GetAddresses lib 0 1 False sa = Ret (addrs, s)"
    using assms by (auto simp: Wallet_change_address_def obind_eq_Ret)
  then have "s = sa'" using assms False by (cases addrs) (simp_all add: Wallet_change_address_def)
  then show ?thesis using SubAccount_GetAddresses_grows [OF g] by simp
qed

lemma Wallet_CreateTransaction_grows:
  assumes "Wallet_CreateTransaction lib random type payload utxos outputs memo fee back w = Ret (tx, w')"
  shows "w' = w\<lparr>w_subAccount := w_subAccount w'\<rparr> \<and> sa_grows lib (w_subAccount w) (w_subAccount w')"
proof -
  obtain tx2 change sa' where w: "w' = w\<lparr>w_subAccount := sa'\<rparr>"
    and c: "Wallet_change lib back utxos (sum_list (map utxo_amount utxos)) (sum_list (map out_amount outputs)) fee tx2
       (w_subAccount w) = Ret (tx2\<lparr>tx_outputs := tx_outputs tx2 @ change\<rparr>, sa')"
    using Wallet_CreateTransaction_Ret [OF assms] by metis
  have "sa_grows lib (w_subAccount w) sa'"
    using c by (auto simp: Wallet_change_def obind_eq_Ret Let_def sa_grows_refl
        dest: Wallet_change_address_grows split: if_splits)
  then show ?thesis using w by simp
qed

section \<open>The steps\<close>

inductive wallet_step :: "account_lib \<Rightarrow> (bytes \<Rightarrow> uint256) \<Rightarrow> Wallet \<Rightarrow> Wallet \<Rightarrow> bool"
  for lib :: account_lib and sha256 :: "bytes \<Rightarrow> uint256" where
  get_addresses: "Wallet_GetAddresses lib index cnt internal w = Ret (addrs, w') \<Longrightarrow> wallet_step lib sha256 w w'"
| get_cid: "Wallet_GetCID lib index n internal w = Ret (addrs, w') \<Longrightarrow> wallet_step lib sha256 w w'"
| create: "Wallet_CreateTransaction lib random type payload utxos outputs memo fee back w = Ret (tx, w') \<Longrightarrow>
    wallet_step lib sha256 w w'"
| sign: "Wallet_SignTransaction lib sha256 tx passwd w = Ret (tx', w') \<Longrightarrow> wallet_step lib sha256 w w'"
| sign_message: "Wallet_SignWithAddress lib addr msg passwd w = Ret (sig, w') \<Longrightarrow> wallet_step lib sha256 w w'"
| sign_digest: "Wallet_SignDigestWithAddress lib addr digest passwd w = Ret (sig, w') \<Longrightarrow> wallet_step lib sha256 w w'"
| sign_owner: "Wallet_SignWithOwnerKey lib bs passwd w = Ret (signature, w') \<Longrightarrow> wallet_step lib sha256 w w'"

inductive_cases wallet_stepE: "wallet_step lib sha256 w w'"

inductive wallet_reachable :: "account_lib \<Rightarrow> (bytes \<Rightarrow> uint256) \<Rightarrow> Wallet \<Rightarrow> Wallet \<Rightarrow> bool"
  for lib :: account_lib and sha256 :: "bytes \<Rightarrow> uint256" and w0 :: Wallet where
  start: "wallet_reachable lib sha256 w0 w0"
| step: "wallet_reachable lib sha256 w0 w \<Longrightarrow> wallet_step lib sha256 w w' \<Longrightarrow> wallet_reachable lib sha256 w0 w'"

lemma with_sub_Ret:
  "with_sub w m = Ret (r, w') \<longleftrightarrow> (\<exists>sa. m = Ret (r, sa) \<and> w' = w\<lparr>w_subAccount := sa\<rparr>)"
  by (cases m) (auto simp: with_sub_def omap_def)

lemma wallet_step_grows:
  assumes "wallet_step lib sha256 w w'" and "acc_complete (sa_parent (w_subAccount w))"
  shows "w_walletID w' = w_walletID w \<and> w_chainID w' = w_chainID w \<and> sa_grows lib (w_subAccount w) (w_subAccount w')"
  using assms
proof (cases rule: wallet_step.cases)
  case create
  then show ?thesis
    by (metis Wallet.select_convs(1,2) Wallet.surjective Wallet.update_convs(3) Wallet_CreateTransaction_grows)
qed (auto simp: Wallet_GetAddresses_def Wallet_GetCID_def Wallet_SignTransaction_def Wallet_SignWithAddress_def
    Wallet_SignDigestWithAddress_def Wallet_SignWithOwnerKey_def with_sub_Ret obind_eq_Ret omap_def sa_grows_refl
    dest: SubAccount_GetAddresses_grows SubAccount_GetCID_grows SubAccount_SignTransaction_same
      SubAccount_GetKeyWithAddress_same SubAccount_DeriveOwnerKey_same)

text \<open>
  Whatever the calls and their order: the account and the special addresses stay, both caches hold what
  is derived, and an address that was handed out keeps its place.
\<close>

lemma wallet_reachable_ok:
  assumes "wallet_reachable lib sha256 w0 w" and "acc_complete (sa_parent (w_subAccount w0))"
  shows "w_walletID w = w_walletID w0 \<and> w_chainID w = w_chainID w0 \<and> sa_grows lib (w_subAccount w0) (w_subAccount w)"
  using assms
proof (induction rule: wallet_reachable.induct)
  case (step w w')
  then have "acc_complete (sa_parent (w_subAccount w))" by (simp add: sa_grows_def)
  then show ?case using step wallet_step_grows sa_grows_trans by metis
qed (simp add: sa_grows_refl)

lemma wallet_reachable_trans:
  "wallet_reachable lib sha256 w1 w2 \<Longrightarrow> wallet_reachable lib sha256 w0 w1 \<Longrightarrow> wallet_reachable lib sha256 w0 w2"
  by (induction rule: wallet_reachable.induct) (auto intro: wallet_reachable.step)

text \<open>A program of the wallet stays one, and a signing account stays complete.\<close>

lemma own_program_grows:
  assumes "sa_grows lib sa sa'" and "own_program lib sa p"
  shows "own_program lib sa' p"
proof -
  have len: "length (sa_cached i sa) \<le> length (sa_cached i sa')" for i
    using assms(1) by (simp add: sa_grows_def prefix_length_le)
  have "sa_parent sa' = sa_parent sa" using assms(1) by (simp add: sa_grows_def)
  then show ?thesis using assms(2) len unfolding own_program_def by (metis order_less_le_trans)
qed

lemma opens_complete: "opens lib passwd a \<Longrightarrow> acc_complete a"
  by (simp add: opens_def acc_complete_def)

text \<open>
  What a wallet has created from its own outputs it signs in every state it gets to, and signing changes
  nothing of the wallet.
\<close>

lemma Wallet_signs_later:
  assumes lib: "key_lib_ok (al_key lib)" and o: "opens lib passwd (sa_parent (w_subAccount w))"
    and ok: "sa_ok lib (w_subAccount w)" and apart: "owner_apart lib (w_subAccount w)"
    and own: "\<forall>u \<in> set utxos. own_address (w_subAccount w) (utxo_address u)" "utxos \<noteq> []"
    and c: "Wallet_CreateTransaction lib random type payload utxos outputs memo fee back w = Ret (tx, w')"
    and ty: "type \<noteq> Tx_rechargeToSideChain" "type \<noteq> Tx_coinBase"
    and md: "Transaction_GetShaData sha256 tx = Ret md" and r: "wallet_reachable lib sha256 w' w''"
  shows "\<exists>ps. Wallet_SignTransaction lib sha256 tx passwd w'' = Ret (tx\<lparr>tx_programs := ps\<rparr>, w'') \<and>
    map prog_code ps = map prog_code (tx_programs tx) \<and>
    Transaction_IsSigned sha256 (kl_valid (al_key lib) CTElastos) (kl_verify (al_key lib) CTElastos)
      (tx\<lparr>tx_programs := ps\<rparr>) = Ret True"
proof -
  have g': "sa_grows lib (w_subAccount w) (w_subAccount w')" using Wallet_CreateTransaction_grows [OF c] by simp
  then have "acc_complete (sa_parent (w_subAccount w'))" using opens_complete [OF o] by (simp add: sa_grows_def)
  then have g: "sa_grows lib (w_subAccount w) (w_subAccount w'')"
    using wallet_reachable_ok [OF r] g' sa_grows_trans by blast
  note ps = Wallet_CreateTransaction_programs [OF c]
  have "\<forall>p \<in> set (tx_programs tx). own_program lib (w_subAccount w) p"
    using ps(2) own(1) own_code [OF lib o ok apart] by blast
  then have p: "\<forall>p \<in> set (tx_programs tx). own_program lib (w_subAccount w'') p"
    using own_program_grows [OF g] by blast
  have ne: "tx_programs tx \<noteq> []" using ps(1) own(2) by (cases utxos) auto
  have t: "tx_type tx \<noteq> Tx_rechargeToSideChain" "tx_type tx \<noteq> Tx_coinBase"
    using Wallet_CreateTransaction_balanced(4) [OF c] ty by simp_all
  have a: "opens lib passwd (sa_parent (w_subAccount w''))" "sa_ok lib (w_subAccount w'')"
    "acc_ownerPubKey (sa_parent (w_subAccount w'')) \<noteq> []"
    using g o ok apart by (simp_all add: sa_grows_def owner_apart_def)
  show ?thesis
    using SubAccount_SignTransaction_signs [OF lib a p ne t md] by (auto simp: Wallet_SignTransaction_def with_sub_def)
qed

section \<open>Addresses that can be asked for\<close>

text \<open>The check of the sub-wallet is exactly the one the derivation needs.\<close>

lemma range_guard: "(index + cnt \<le> index) \<longleftrightarrow> (cnt = 0 \<or> 2 ^ 32 \<le> unat index + unat (cnt :: u32))"
proof -
  have b: "unat index < 2 ^ 32" "unat cnt < 2 ^ 32" using unat_bound [of index] unat_bound [of cnt] by simp_all
  show ?thesis
  proof (cases "unat index + unat cnt < 2 ^ 32")
    case True
    then have "unat (index + cnt) = unat index + unat cnt" by (simp add: unat_add_lem [symmetric])
    then show ?thesis using True by (auto simp: word_le_nat_alt unat_eq_0)
  next
    case False
    then have "unat (index + cnt) = unat index + unat cnt - 2 ^ 32"
      using b by (simp add: unat_word_ariths mod_if)
    then show ?thesis using False b by (simp add: word_le_nat_alt)
  qed
qed

lemma SubWallet_GetAddresses_returns:
  assumes st: "Account_GetSignType (sa_parent (w_subAccount w)) = Standard"
    and s: "\<not> ls_singleAddress (acc_localstore (sa_parent (w_subAccount w)))" and ok: "sa_ok lib (w_subAccount w)"
    and r: "cnt \<noteq> 0" "unat index + unat cnt < 2 ^ 32"
    and a: "\<And>i. i < unat index + unat cnt \<Longrightarrow>
      \<exists>a. sa_address lib (sa_parent (w_subAccount w)) internal i = Ret a \<and> addr_isValid a"
  shows "\<exists>texts w'. SubWallet_GetAddresses lib index cnt internal w = Ret (texts, w') \<and> length texts = unat cnt \<and>
    (\<forall>j < unat cnt. \<exists>a. sa_address lib (sa_parent (w_subAccount w)) internal (unat index + j) = Ret a \<and>
       texts ! j = Address_String (al_sha256_2 lib) a)"
proof -
  have pos: "0 < unat index + unat cnt" using r(1) by (simp add: unat_gt_0)
  obtain addrs sa' where g: "SubAccount_GetAddresses lib index cnt internal (w_subAccount w) = Ret (addrs, sa')"
    using SubAccount_GetAddresses_total [OF st s r(2) pos a] by blast
  note ok' = SubAccount_GetAddresses_ok [OF ok g s]
  have "SubWallet_GetAddresses lib index cnt internal w =
      Ret (map (Address_String (al_sha256_2 lib)) addrs, w\<lparr>w_subAccount := sa'\<rparr>)"
    using g r range_guard [of index cnt]
    by (simp add: SubWallet_GetAddresses_def Wallet_GetAddresses_def with_sub_def omap_def)
  then show ?thesis using ok'(3,4) by auto
qed

section \<open>Created transactions travel\<close>

definition plain_output :: "TransactionOutput \<Rightarrow> bool" where
  "plain_output c \<longleftrightarrow> 0 \<le> out_amount c \<and> out_outputType c = OutputType_Default \<and> out_payload c = Some OP_Default"

lemma Wallet_inputs_attributes:
  assumes "Wallet_inputs lib sa us tx spent = Ret (tx', spent')"
  shows "tx_attributes tx' = tx_attributes tx" "tx_payloadVersion tx' = tx_payloadVersion tx"
proof -
  have "tx_attributes tx' = tx_attributes tx \<and> tx_payloadVersion tx' = tx_payloadVersion tx"
    using assms
    by (induction us arbitrary: tx spent)
      (fastforce simp: obind_eq_Ret Let_def Transaction_AddUniqueProgram_def Transaction_AddInput_def split: option.splits)+
  then show "tx_attributes tx' = tx_attributes tx" "tx_payloadVersion tx' = tx_payloadVersion tx" by simp_all
qed

lemma Wallet_attributes_valid:
  assumes "Wallet_attributes memo random (Transaction_of type payload) = Ret tx"
  shows "list_all Attribute_IsValid (tx_attributes tx)"
  using assms
  by (auto simp: Wallet_attributes_def Let_def obind_eq_Ret Transaction_AddAttribute_def Transaction_of_def
      Attribute_IsValid_def Usage_Memo_def Usage_Nonce_def split: if_splits)

lemma Wallet_change_plain:
  assumes "Wallet_change lib back utxos spent paid fee tx sa = Ret (tx', sa')"
  shows "\<exists>change. tx_outputs tx' = tx_outputs tx @ change \<and> length change \<le> 1 \<and> list_all plain_output change"
proof (cases "spent > paid + fee")
  case True
  then obtain a where "tx' = Transaction_AddOutput
      (TransactionOutput_of (spent - paid - fee) a GetELAAssetID OutputType_Default None) tx"
    using assms by (auto simp: Wallet_change_def obind_eq_Ret Let_def split: if_splits)
  then show ?thesis
    using True by (simp add: Transaction_AddOutput_def plain_output_def TransactionOutput_of_def
        TransactionOutput_GeneratePayload_def)
next
  case False
  then have "tx' = tx" using assms by (auto simp: Wallet_change_def split: if_splits)
  then show ?thesis by simp
qed

lemma Wallet_CreateTransaction_fits:
  assumes c: "Wallet_CreateTransaction lib random Tx_transferAsset (Some (PL_TransferAsset TransferAsset_new))
      utxos outputs memo fee back w = Ret (tx, w')"
    and o: "list_all plain_output outputs" "length outputs < 65535"
  shows "Transaction_fits tx"
proof -
  obtain tx0 tx1 tx2 sa' change where
    a: "Wallet_attributes memo random (Transaction_of Tx_transferAsset (Some (PL_TransferAsset TransferAsset_new))) = Ret tx0"
    and t1: "tx1 = (if outputs \<noteq> [] then Transaction_SetOutputs outputs tx0 else tx0)"
    and i: "Wallet_inputs lib (w_subAccount w) utxos tx1 0 = Ret (tx2, sum_list (map utxo_amount utxos))"
    and ch: "Wallet_change lib back utxos (sum_list (map utxo_amount utxos)) (sum_list (map out_amount outputs)) fee tx2
       (w_subAccount w) = Ret (tx2\<lparr>tx_outputs := tx_outputs tx2 @ change\<rparr>, sa')"
    and t: "tx = tx2\<lparr>tx_outputs := tx_outputs tx2 @ change, tx_fee := BigInt_getUint64 fee,
       tx_version := (if w_chainID w = CHAINID_MAINCHAIN then TxVersion_V09 else tx_version tx2)\<rparr>"
    using Wallet_CreateTransaction_Ret [OF c] by metis
  note f = Wallet_inputs_fields [OF i] Wallet_inputs_attributes [OF i] Wallet_attributes_Ret [OF a]
  have attrs: "list_all Attribute_IsValid (tx_attributes tx)"
    using Wallet_attributes_valid [OF a] f t t1 by (simp add: Transaction_SetOutputs_def)
  have outs: "tx_outputs tx = outputs @ change" "length change \<le> 1" "list_all plain_output change"
    using Wallet_change_plain [OF ch] f t t1 by (auto simp: Transaction_SetOutputs_def Transaction_of_def split: if_splits)
  have pl: "tx_payload tx = Some (PL_TransferAsset TransferAsset_new)" "tx_type tx = Tx_transferAsset"
    and v: "tx_version tx = (if w_chainID w = CHAINID_MAINCHAIN then TxVersion_V09 else TxVersion_Default)"
    using Wallet_CreateTransaction_balanced(4-6) [OF c] by simp_all
  have "Transaction_InitPayload Tx_transferAsset = Some (Payload_fresh (PL_TransferAsset TransferAsset_new))"
    by code_simp
  moreover have "list_all (TransactionOutput_fits v) (outputs @ change)" for v
    using o(1) outs(3) by (auto simp: list_all_iff plain_output_def TransactionOutput_fits_def)
  moreover have "Tx_transferAsset < TxVersion_V09" by (simp add: TxVersion_V09_def Tx_transferAsset_def)
  ultimately show ?thesis
    using attrs outs(1,2) pl v o(2) by (auto simp: Transaction_fits_def)
qed

end
