(* ===== verification/SampleM.thy ===== *)
theory SampleM
  imports SeedAccountM WalletSteps
begin

text \<open>
  A library that keeps the laws: small functions that stand for the curve, the digests and the cipher
  where a theorem with laws among its hypotheses is applied to concrete values.  The public key of a
  number is a 2 before its bytes, the digest of a derivation is the index behind a one, a signature
  is the number of the signer and the digest.
\<close>

section \<open>The library\<close>

definition last4 :: "bytes \<Rightarrow> bytes" where
  "last4 bs = drop (length bs) (replicate 4 0 @ bs)"

definition sample_pub :: "bytes \<Rightarrow> bytes option" where
  "sample_pub p = (if length p = 32 then Some (2 # p) else None)"

definition sample_hd :: hd_lib where
  "sample_hd = \<lparr>ec_pubkey = \<lambda>t p. sample_pub p, ec_point = \<lambda>t K. length K = 33,
     ec_add_base = \<lambda>t K n.
       (let s = (BigInt_setBytes (drop 1 K) False + BigInt_setBytes n False) mod HDKeychain_FixCurveOrder t
        in if s = 0 then None else sample_pub (be_pad 32 s)),
     hmac_sha512 = \<lambda>key data. replicate 27 0 @ [1] @ last4 data @ replicate 32 7,
     ripemd160_sha256 = \<lambda>bs. replicate 20 9, priv_version = 0x0488ADE4, pub_version = 0x0488B21E\<rparr>"

definition sample_key :: key_lib where
  "sample_key = \<lparr>kl_hd = sample_hd, kl_valid = \<lambda>t K. length K = 33,
     kl_sign = \<lambda>t p d. if length p = 32 then Some (nat (BigInt_setBytes p False), unat d) else None,
     kl_verify = \<lambda>t K d r s. r = be_pad 32 (BigInt_setBytes (drop 1 K) False) \<and> s = be_pad 32 (int (unat d)),
     kl_uncompressed = \<lambda>t K. Some (4 # K), kl_sha256 = \<lambda>bs. take 32 (bs @ replicate 32 0)\<rparr>"

definition sample_text :: text_lib where
  "sample_text = \<lparr>text_nfkd = \<lambda>s. s, text_split = \<lambda>s. [s], text_join = concat,
     text_sha256 = \<lambda>bs. take 32 (bs @ replicate 32 0), text_hmac512 = \<lambda>k d. replicate 64 1, text_lexicons = []\<rparr>"

definition sample_lib :: account_lib where
  "sample_lib = \<lparr>al_key = sample_key, al_text = sample_text, al_sha256_2 = \<lambda>bs. of_le (take 32 bs) + 1,
     al_hash160 = \<lambda>bs. of_le (rev bs), al_ccm_encrypt = \<lambda>p pw. Some (replicate 8 0 @ p),
     al_ccm_decrypt = \<lambda>c pw. Some (drop 8 c)\<rparr>"

lemma length_last4 [simp]: "length (last4 bs) = 4"
  by (simp add: last4_def)

lemma last4_append: "length i = 4 \<Longrightarrow> last4 (bs @ i) = i"
  by (simp add: last4_def)

lemma be_pad_mod: "t \<noteq> CTUnknown \<Longrightarrow> length (be_pad 32 (n mod HDKeychain_FixCurveOrder t)) = 32"
  using curve_order_pos [of t] pos_mod_bound [of "HDKeychain_FixCurveOrder t" n]
  by (intro be_pad_33) (auto simp del: pos_mod_bound)

lemma sample_hd_ok: "hd_lib_ok sample_hd"
  by (auto simp: hd_lib_ok_def sample_hd_def sample_pub_def Let_def split: if_splits)

lemma sample_simps [simp]:
  "al_key sample_lib = sample_key" "kl_hd sample_key = sample_hd" "al_text sample_lib = sample_text"
  by (simp_all add: sample_lib_def sample_key_def)

lemma BigInt_setBytes_bound: "length p = 32 \<Longrightarrow> nat (BigInt_setBytes p False) < 2 ^ 256"
  using nat_of_le_bound [of "rev p"] by (simp add: BigInt_setBytes_def)

lemma sample_key_ok: "key_lib_ok sample_key"
proof -
  have "length p = 32 \<Longrightarrow> 0 \<le> BigInt_setBytes p False" for p by (simp add: BigInt_setBytes_def)
  moreover have "unat d < 2 ^ 256" for d :: uint256 using unat_bound [of d] by simp
  ultimately show ?thesis
    using sample_hd_ok BigInt_setBytes_bound
    by (auto simp: key_lib_ok_def sample_key_def sample_hd_def sample_pub_def split: if_splits)
qed

lemma sample_aes_ok: "aes_ok sample_lib"
  by (simp add: aes_ok_def sample_lib_def)

section \<open>Derivation in it\<close>

definition key_value :: "HDKeychain \<Rightarrow> int" where
  "key_value k = BigInt_setBytes (drop 1 (hd_key k)) False"

lemma curve_order_big: "t \<noteq> CTUnknown \<Longrightarrow> 2 ^ 255 < HDKeychain_FixCurveOrder t"
  by (cases t) (simp_all add: HDKeychain_FixCurveOrder_def Elastos_CURVE_ORDER_def Bitcoin_CURVE_ORDER_def)

lemma sample_digest:
  "take 32 (hmac_sha512 sample_hd c (bs @ be32_bytes i)) = replicate 27 0 @ 1 # be32_bytes i"
proof -
  have l: "length (be32_bytes i) = 4" by simp
  have "hmac_sha512 sample_hd c (bs @ be32_bytes i) = (replicate 27 0 @ 1 # be32_bytes i) @ replicate 32 7"
    by (simp add: sample_hd_def last4_append)
  moreover have "length (replicate 27 0 @ 1 # be32_bytes i) = 32" by simp
  moreover have "take n (xs @ ys) = xs" if "length xs = n" for n and xs ys :: bytes using that by simp
  ultimately show ?thesis by metis
qed

lemma sample_Il:
  "BigInt_setBytes (take 32 (hmac_sha512 sample_hd c (bs @ be32_bytes i))) False = 2 ^ 32 + uint i"
proof -
  have z: "nat_of_le (replicate j 0) = 0" for j by (induction j) simp_all
  have r: "rev (replicate 27 0 @ 1 # be32_bytes i) = le_bytes 4 i @ 1 # replicate 27 0"
    by (simp only: rev_append rev.simps rev_replicate be32_bytes_def rev_rev_ident append_assoc append.simps)
  have n: "nat_of_le (le_bytes 4 i) = unat i"
    using unat_bound [of i] by (simp only: le_bytes_def nat_of_le_of_nat) simp
  have o: "nat_of_le (1 # replicate 27 0) = 1" by (simp only: nat_of_le.simps z) simp
  have len: "length (le_bytes 4 i) = 4" by (simp add: le_bytes_def)
  have e: "nat_of_le (le_bytes 4 i @ 1 # replicate 27 0) = unat i + 256 ^ 4 * 1"
    unfolding nat_of_le_append n o len ..
  have "(2 :: int) ^ 32 = int (256 ^ 4 * 1)" by simp
  then show ?thesis unfolding sample_digest BigInt_setBytes_def if_False r e by (simp only: uint_nat of_nat_add add.commute)
qed

lemma key_value_pad:
  "0 \<le> n \<Longrightarrow> key_value \<lparr>hd_type = t, hd_valid = v, hd_version = r, hd_depth = d, hd_parent_fp = f, hd_child_num = i,
     hd_chain_code = c, hd_key = 0 # be_pad 32 n, hd_pubkey = K\<rparr> = n"
  by (simp add: key_value_def BigInt_setBytes_pad)

lemma sample_child:
  assumes wf: "hd_wf sample_hd k" and priv: "HDKeychain_isPrivate k" and t: "hd_type k \<noteq> CTUnknown"
    and v: "key_value k + 2 ^ 32 + uint i < 2 ^ 255"
  shows "\<exists>c. HDKeychain_getChild sample_hd k i = Ret c \<and> key_value c = key_value k + 2 ^ 32 + uint i \<and>
    hd_pubkey c = 2 # be_pad 32 (key_value c)"
proof -
  have p: "0 \<le> key_value k" by (simp add: key_value_def BigInt_setBytes_def)
  have o: "key_value k + (2 ^ 32 + uint i) < HDKeychain_FixCurveOrder (hd_type k)"
    using curve_order_big [OF t] v by linarith
  then have m: "(key_value k + (2 ^ 32 + uint i)) mod HDKeychain_FixCurveOrder (hd_type k) = key_value k + (2 ^ 32 + uint i)"
    using p by (intro mod_pos_pos_trivial) auto
  have "length (be_pad 32 (key_value k + (2 ^ 32 + uint i))) = 32"
    using be_pad_mod [OF t, of "key_value k + (2 ^ 32 + uint i)"] m by simp
  then have "ec_pubkey sample_hd (hd_type k) (be_pad 32 (key_value k + (2 ^ 32 + uint i))) =
      Some (2 # be_pad 32 (key_value k + (2 ^ 32 + uint i)))"
    by (simp add: sample_hd_def sample_pub_def)
  moreover have "key_value k + (2 ^ 32 + uint i) \<noteq> 0" "2 ^ 32 + uint i < HDKeychain_FixCurveOrder (hd_type k)"
    using p o by (auto simp: add_nonneg_eq_0_iff)
  ultimately show ?thesis
    unfolding getChild_private [OF wf priv t] sample_Il key_value_def [symmetric]
    using m p by (simp add: key_value_pad)
qed

text \<open>Along a path the indices add up.\<close>

definition path_sum :: "u32 list \<Rightarrow> int" where
  "path_sum ns = sum_list (map (\<lambda>i. 2 ^ 32 + uint i) ns)"

lemma path_sum_simps: "path_sum [] = 0" "path_sum (i # ns) = 2 ^ 32 + uint i + path_sum ns"
  by (simp_all add: path_sum_def)

lemma path_sum_nonneg: "0 \<le> path_sum ns"
  unfolding path_sum_def by (rule sum_list_nonneg) auto

lemma path_sum_bound: "path_sum ns \<le> int (length ns) * 2 ^ 33"
proof (induction ns)
  case (Cons i ns)
  have "uint i < 2 ^ 32" using uint_lt2p [of i] by simp
  then show ?case using Cons by (simp add: path_sum_simps algebra_simps)
qed (simp add: path_sum_simps)

lemma sample_loop:
  "hd_wf sample_hd k \<Longrightarrow> HDKeychain_isPrivate k \<Longrightarrow> hd_type k \<noteq> CTUnknown \<Longrightarrow> hd_pubkey k = 2 # be_pad 32 (key_value k) \<Longrightarrow>
   key_value k + path_sum ns < 2 ^ 255 \<Longrightarrow>
   \<exists>c. getChild_loop sample_hd ns k = Ret c \<and> key_value c = key_value k + path_sum ns \<and> hd_pubkey c = 2 # be_pad 32 (key_value c)"
proof (induction ns arbitrary: k)
  case (Cons i ns)
  have "key_value k + 2 ^ 32 + uint i < 2 ^ 255"
    using Cons.prems(5) path_sum_nonneg [of ns] by (simp add: path_sum_simps)
  then obtain c where c: "HDKeychain_getChild sample_hd k i = Ret c" "key_value c = key_value k + 2 ^ 32 + uint i"
    "hd_pubkey c = 2 # be_pad 32 (key_value c)"
    using sample_child [OF Cons.prems(1-3)] by blast
  note w = getChild_wf [OF sample_hd_ok Cons.prems(1,3) c(1)]
  show ?case
    using Cons.IH [of c] w Cons.prems c HDKeychain_assign_wf [OF w(1)] by (simp add: path_sum_simps add.assoc)
qed (simp add: path_sum_simps)

definition sample_good :: "HDKeychain \<Rightarrow> bool" where
  "sample_good k \<longleftrightarrow> hd_wf sample_hd k \<and> HDKeychain_isPrivate k \<and> hd_type k \<noteq> CTUnknown \<and>
     hd_pubkey k = 2 # be_pad 32 (key_value k)"

lemma sample_hd_child:
  assumes k: "sample_good k" and path: "hd_path path = path_text ns" "ns \<noteq> []"
    and v: "key_value k + path_sum ns < 2 ^ 255"
  shows "\<exists>c. hd_child sample_lib k path = Ret c \<and> key_value c = key_value k + path_sum ns \<and> sample_good c \<and> hd_type c = hd_type k"
proof -
  have k': "hd_wf sample_hd k" "HDKeychain_isPrivate k" "hd_type k \<noteq> CTUnknown" "hd_pubkey k = 2 # be_pad 32 (key_value k)"
    using k by (simp_all add: sample_good_def)
  obtain c where c: "getChild_loop sample_hd ns k = Ret c" "key_value c = key_value k + path_sum ns"
    "hd_pubkey c = 2 # be_pad 32 (key_value c)"
    using sample_loop [OF k' v] by blast
  have "hd_path path \<noteq> []" using path path_text_digit by fastforce
  then have h: "hd_child sample_lib k path = Ret c"
    using getChild_path_eq [OF k'(1), of "hd_path path"] path_loop_text [OF path(2), of "[]"] c(1) path(1)
    by (simp add: hd_child_def)
  have lib: "hd_lib_ok (al_hd sample_lib)" by (simp add: sample_hd_ok)
  have "sample_good c"
    using hd_child_wf [OF lib _ k'(3) h] k' c(3) by (simp add: sample_good_def)
  moreover have "hd_type c = hd_type k" using hd_child_wf(3) [OF lib _ k'(3) h] k'(1) by simp
  ultimately show ?thesis using h c(2) by blast
qed

lemma digit_chars:
  "char_of (48 :: nat) = CHR ''0''" "char_of (49 :: nat) = CHR ''1''" "char_of (52 :: nat) = CHR ''4''"
  "char_of (53 :: nat) = CHR ''5''" "char_of (54 :: nat) = CHR ''6''"
  by code_simp+

lemma sample_path_texts:
  "hd_path ''44h/0h/0h'' = path_text [0x8000002C, 0x80000000, 0x80000000]"
  "hd_path ''45h'' = path_text [0x8000002D]"
  "hd_path ''1h/0'' = path_text [0x80000001, 0]"
  "hd_path ''44h/0h/1h/0/0'' = path_text [0x8000002C, 0x80000000, 0x80000001, 0, 0]"
  "hd_path ''44h/60h/0h/0/0'' = path_text [0x8000002C, 0x8000003C, 0x80000000, 0, 0]"
  "hd_path ''44h/144h/0h/0/0'' = path_text [0x8000002C, 0x80000090, 0x80000000, 0, 0]"
  by (simp_all add: hd_path_def path_item_def dec_text.simps digit_chars)

lemma sample_root:
  assumes t: "t \<noteq> CTUnknown"
  shows "\<exists>root. root_of_seed sample_lib t 0 = Ret root \<and> key_value root = 2 ^ 32 \<and> sample_good root \<and> hd_type root = t"
proof -
  have z: "le_bytes 64 (0 :: uint512) = replicate 60 0 @ be32_bytes 0" by code_simp
  let ?s = "HDSeed_of sample_hd (le_bytes 64 (0 :: uint512))"
  have key: "BigInt_setBytes (seed_master_key ?s) False = 2 ^ 32"
    using sample_Il [of BITCOIN_SEED "replicate 60 0" 0] by (simp only: HDSeed_of_def Let_def z HDSeed.select_convs) simp
  have len: "length (seed_master_key ?s) = 32" "length (seed_chain_code ?s) = 32"
    using hd_lib_okD(1) [OF sample_hd_ok] by (simp_all add: HDSeed_of_def Let_def)
  define k where "k = \<lparr>hd_type = t, hd_valid = True, hd_version = priv_version sample_hd, hd_depth = 0,
    hd_parent_fp = 0, hd_child_num = 0, hd_chain_code = seed_chain_code ?s, hd_key = 0 # seed_master_key ?s,
    hd_pubkey = 2 # seed_master_key ?s\<rparr>"
  have "be_pad 32 (2 ^ 32) = replicate 27 0 @ [1, 0, 0, 0, 0]"
    by (simp add: be_pad_def BigInt_getBytes_def Let_def le_min.simps)
  moreover have "be32_bytes 0 = [0, 0, 0, 0]" by code_simp
  ultimately have m: "seed_master_key ?s = be_pad 32 (2 ^ 32)"
    using sample_digest [of BITCOIN_SEED "replicate 60 0" 0]
    by (simp only: HDSeed_of_def Let_def z HDSeed.select_convs)
  have o: "\<not> HDKeychain_FixCurveOrder t \<le> 2 ^ 32" using curve_order_big [OF t] by simp
  have made: "HDKeychain_of_key sample_hd t (seed_master_key ?s) (seed_chain_code ?s) 0 0 0 = Ret k"
    using key len o
    by (simp add: HDKeychain_of_key_def HDKeychain_isPrivate_def HDKeychain_updatePubkey_def Let_def k_def
        sample_pub_def del: HDSeed.simps) (simp add: sample_hd_def sample_pub_def)
  note w = HDKeychain_of_key_wf [OF sample_hd_ok made]
  have "root_of_seed sample_lib t 0 = Ret k"
    using made HDKeychain_extkey_roundtrip [OF w(1)] w(2) by (simp add: root_of_seed_def HDSeed_getExtendedKey_def)
  moreover have v: "key_value k = 2 ^ 32" using key by (simp add: key_value_def k_def)
  moreover have "sample_good k"
    using w len(1) t v m by (simp add: sample_good_def k_def)
  ultimately show ?thesis using w(2) by blast
qed

section \<open>An account in it\<close>

lemma sample_child_public:
  assumes k: "sample_good k" and p: "HDKeychain_getPublic sample_hd k = Ret p"
    and i: "unat i < 2 ^ 31" and v: "key_value k < 2 ^ 254"
  obtains c q where "sample_good c" "HDKeychain_getPublic sample_hd c = Ret q"
    "HDKeychain_getChild sample_hd p i = Ret q" "key_value c = key_value k + 2 ^ 32 + uint i"
proof -
  have k': "hd_wf sample_hd k" "HDKeychain_isPrivate k" "hd_type k \<noteq> CTUnknown"
    using k by (simp_all add: sample_good_def)
  have "int (unat i) < int (2 ^ 31)" using i by (simp only: of_nat_less_iff)
  then have "uint i < 2 ^ 31" by (simp only: uint_nat of_nat_power of_nat_numeral)
  moreover have "(2 :: int) ^ 254 + 2 ^ 32 + 2 ^ 31 < 2 ^ 255" by simp
  ultimately have "key_value k + 2 ^ 32 + uint i < 2 ^ 255" using v by linarith
  then obtain c where c: "HDKeychain_getChild sample_hd k i = Ret c" "key_value c = key_value k + 2 ^ 32 + uint i"
    "hd_pubkey c = 2 # be_pad 32 (key_value c)"
    using sample_child [OF k'] by blast
  note w = getChild_wf [OF sample_hd_ok k'(1,3) c(1)]
  obtain q where q: "HDKeychain_getPublic sample_hd c = Ret q"
    using w(1) by (simp add: HDKeychain_getPublic_def hd_wf_def)
  have "0x80000000 AND i = 0" using u32_hardened [of i] i by simp
  then have "HDKeychain_getChild sample_hd p i = Ret q"
    using getChild_getPublic [OF sample_hd_ok k', of i] c(1) p q by simp
  moreover have "sample_good c" using w k' c(3) by (simp add: sample_good_def)
  ultimately show ?thesis using that q c(2) by blast
qed

definition sample_passwd :: string where "sample_passwd = ''password''"

text \<open>The value of the key of the account, \<open>44h/0h/0h\<close>.\<close>

definition account_value :: int where
  "account_value = 2 ^ 32 + path_sum [0x8000002C, 0x80000000, 0x80000000]"

lemma sample_derives:
  obtains root std account owner p where
    "root_of_seed sample_lib CTElastos 0 = Ret root" "root_of_seed sample_lib CTBitcoin 0 = Ret std"
    "seed_derives sample_lib root std"
    "hd_child sample_lib root ''44h/0h/0h'' = Ret account" "sample_good account" "key_value account = account_value"
    "HDKeychain_getPublic sample_hd account = Ret p"
    "\<forall>internal. is_Ret (HDKeychain_getChild sample_hd p (sa_chain internal))"
    "hd_child sample_lib root ''44h/0h/1h/0/0'' = Ret owner" "hd_pubkey owner = 2 # be_pad 32 (account_value + 2 ^ 33 + 1)"
proof -
  obtain root where root: "root_of_seed sample_lib CTElastos 0 = Ret root" "key_value root = 2 ^ 32" "sample_good root"
    using sample_root [of CTElastos] by auto
  obtain std where std: "root_of_seed sample_lib CTBitcoin 0 = Ret std" "key_value std = 2 ^ 32" "sample_good std"
    using sample_root [of CTBitcoin] by auto
  have r: "\<exists>c. hd_child sample_lib root path = Ret c \<and> key_value c = 2 ^ 32 + path_sum ns \<and> sample_good c"
    if "hd_path path = path_text ns" "ns \<noteq> []" "2 ^ 32 + path_sum ns < 2 ^ 255" for path ns
    using sample_hd_child [OF root(3) that(1,2)] that(3) root(2) by auto
  have s: "is_Ret (hd_child sample_lib std path)"
    if "hd_path path = path_text ns" "ns \<noteq> []" "2 ^ 32 + path_sum ns < 2 ^ 255" for path ns
    using sample_hd_child [OF std(3) that(1,2)] that(3) std(2) by (auto simp: is_Ret_def)
  have sums: "2 ^ 32 + path_sum ns < 2 ^ 255" if "length ns \<le> 5" for ns
  proof -
    have "int (length ns) * 2 ^ 33 \<le> 5 * 2 ^ 33" using that by simp
    moreover have "(2 :: int) ^ 32 + 5 * 2 ^ 33 < 2 ^ 255" by simp
    ultimately show ?thesis using path_sum_bound [of ns] by linarith
  qed
  have "is_Ret (hd_child sample_lib root path)"
    if "hd_path path = path_text ns" "ns \<noteq> []" "length ns \<le> 5" for path ns
    using r [OF that(1,2) sums [OF that(3)]] by (auto simp: is_Ret_def)
  note R = this [OF sample_path_texts(1)] this [OF sample_path_texts(2)] this [OF sample_path_texts(3)]
    this [OF sample_path_texts(4)]
  note S = s [OF sample_path_texts(5)] s [OF sample_path_texts(6)] s [OF sample_path_texts(1)]
  have d: "seed_derives sample_lib root std"
    using R S sums by (simp add: seed_derives_def sample_key_def)
  obtain account where account: "hd_child sample_lib root ''44h/0h/0h'' = Ret account" "sample_good account"
    "key_value account = account_value"
    using r [OF sample_path_texts(1)] sums by (auto simp: account_value_def)
  obtain owner where owner: "hd_child sample_lib root ''44h/0h/1h/0/0'' = Ret owner" "sample_good owner"
    "key_value owner = 2 ^ 32 + path_sum [0x8000002C, 0x80000000, 0x80000001, 0, 0]"
    using r [OF sample_path_texts(4)] sums by auto
  have "2 ^ 32 + path_sum [0x8000002C, 0x80000000, 0x80000001, 0, 0] = account_value + 2 ^ 33 + 1"
    by (simp add: account_value_def path_sum_simps)
  then have own: "hd_pubkey owner = 2 # be_pad 32 (account_value + 2 ^ 33 + 1)"
    using owner by (simp add: sample_good_def)
  obtain p where p: "HDKeychain_getPublic sample_hd account = Ret p"
    using account(2) by (simp add: HDKeychain_getPublic_def hd_wf_def sample_good_def)
  have "account_value < 2 ^ 254" by (simp add: account_value_def path_sum_simps)
  then have "is_Ret (HDKeychain_getChild sample_hd p (sa_chain internal))" for internal
    using sample_child_public [OF account(2) p, of "sa_chain internal"] account(3)
    by (force simp: is_Ret_def sa_chain_def SEQUENCE_EXTERNAL_CHAIN_def SEQUENCE_INTERNAL_CHAIN_def)
  then show ?thesis using that root(1) std(1) d account p owner(1) own by blast
qed

lemma sample_account:
  obtains a account p where
    "Account_of_seed sample_lib ''w'' 0 sample_passwd False [] [] = Ret a" "opens sample_lib sample_passwd a"
    "sample_good account" "HDKeychain_getPublic sample_hd account = Ret p" "acc_xpub a = Some p"
    "key_value account = account_value" "acc_ownerPubKey a = 2 # be_pad 32 (account_value + 2 ^ 33 + 1)"
    "\<not> ls_singleAddress (acc_localstore a)"
proof -
  obtain root std account owner p where d: "root_of_seed sample_lib CTElastos 0 = Ret root"
    "root_of_seed sample_lib CTBitcoin 0 = Ret std" "seed_derives sample_lib root std"
    "hd_child sample_lib root ''44h/0h/0h'' = Ret account" "sample_good account" "key_value account = account_value"
    "HDKeychain_getPublic sample_hd account = Ret p"
    "\<forall>internal. is_Ret (HDKeychain_getChild sample_hd p (sa_chain internal))"
    "hd_child sample_lib root ''44h/0h/1h/0/0'' = Ret owner" "hd_pubkey owner = 2 # be_pad 32 (account_value + 2 ^ 33 + 1)"
    using sample_derives by metis
  have lib: "hd_lib_ok (al_hd sample_lib)" by (simp add: sample_hd_ok)
  show ?thesis
    using Account_of_seed_returns [OF lib sample_aes_ok d(1-3), of "''w''" sample_passwd False "[]" "[]"] d that
    by (metis outcome.inject sample_simps(1,2))
qed

section \<open>A wallet in it\<close>

lemma Address_of_pubkey_standard:
  "\<exists>a. Address_of_pubkey hash160 PrefixStandard k False = Ret a \<and> addr_isValid a \<and>
     uint168_prefix (addr_programHash a) = PrefixStandard"
  by (simp add: Address_of_pubkey_def Address_of_pubkeys_def Address_GenerateCode_def Address_GenerateProgramHash_def
      uint168_prefix_of_prefix valid_prefix_def)

definition sample_pubkey :: bytes where
  "sample_pubkey = 2 # be_pad 32 (account_value + 2 ^ 33)"

definition sample_wallet :: "Account \<Rightarrow> Address \<Rightarrow> Wallet" where
  "sample_wallet a addr = Wallet_of ''id'' CHAINID_MAINCHAIN
     \<lparr>sa_external = [addr], sa_internal = [], sa_depositAddress = Address_new, sa_ownerAddress = Address_new,
      sa_crDepositAddress = Address_new, sa_parent = a\<rparr>"

lemma sample_address:
  obtains a addr where
    "Account_of_seed sample_lib ''w'' 0 sample_passwd False [] [] = Ret a" "opens sample_lib sample_passwd a"
    "sa_pubkey sample_lib a False 0 = Ret sample_pubkey" "sa_address sample_lib a False 0 = Ret addr"
    "addr_isValid addr" "uint168_prefix (addr_programHash addr) = PrefixStandard"
    "acc_ownerPubKey a = 2 # be_pad 32 (account_value + 2 ^ 33 + 1)" "\<not> ls_singleAddress (acc_localstore a)"
proof -
  obtain a account p where a: "Account_of_seed sample_lib ''w'' 0 sample_passwd False [] [] = Ret a"
    "opens sample_lib sample_passwd a" "sample_good account" "HDKeychain_getPublic sample_hd account = Ret p"
    "acc_xpub a = Some p" "key_value account = account_value"
    "acc_ownerPubKey a = 2 # be_pad 32 (account_value + 2 ^ 33 + 1)" "\<not> ls_singleAddress (acc_localstore a)"
    using sample_account by metis
  have small: "account_value < 2 ^ 254 - 2 ^ 33" by (simp add: account_value_def path_sum_simps)
  then have "key_value account < 2 ^ 254" using a(6) by simp
  then obtain c q where c: "sample_good c" "HDKeychain_getPublic sample_hd c = Ret q"
    "HDKeychain_getChild sample_hd p SEQUENCE_EXTERNAL_CHAIN = Ret q" "key_value c = account_value + 2 ^ 32"
    using sample_child_public [OF a(3,4), of SEQUENCE_EXTERNAL_CHAIN] a(6) by (auto simp: SEQUENCE_EXTERNAL_CHAIN_def)
  have "key_value c < 2 ^ 254" using c(4) small by simp
  then obtain d r where d: "sample_good d" "HDKeychain_getPublic sample_hd d = Ret r"
    "HDKeychain_getChild sample_hd q 0 = Ret r" "key_value d = account_value + 2 ^ 33"
    using sample_child_public [OF c(1,2), of 0] c(4) by (auto simp: add.commute)
  have "hd_pubkey r = sample_pubkey"
    using d HDKeychain_getPublic_wf(3) [of sample_hd d r] by (simp add: sample_good_def sample_pubkey_def)
  then have k: "sa_pubkey sample_lib a False 0 = Ret sample_pubkey"
    using a(5) c(3) d(3) by (simp add: sa_pubkey_def master_key_def sa_chain_def omap_def)
  have "Account_GetSignType a = Standard" using a(2) by (simp add: opens_def Account_GetSignType_def)
  then show ?thesis
    using Address_of_pubkey_standard [of "al_hash160 sample_lib" sample_pubkey] a k that
    by (auto simp: sa_address_pubkey)
qed

lemma sample_wallet_ok:
  assumes k: "sa_pubkey sample_lib a False 0 = Ret sample_pubkey" and addr: "sa_address sample_lib a False 0 = Ret addr"
    "addr_isValid addr" "uint168_prefix (addr_programHash addr) = PrefixStandard"
    and own: "acc_ownerPubKey a = 2 # be_pad 32 (account_value + 2 ^ 33 + 1)"
  shows "sa_parent (w_subAccount (sample_wallet a addr)) = a" "sa_ok sample_lib (w_subAccount (sample_wallet a addr))"
    "specials_ok sample_lib (w_subAccount (sample_wallet a addr))"
    "owner_apart sample_lib (w_subAccount (sample_wallet a addr))" "own_address (w_subAccount (sample_wallet a addr)) addr"
    "SubAccount_GetCode sample_lib addr (w_subAccount (sample_wallet a addr)) = Ret (Some (addr_code addr))"
proof -
  have new: "\<not> addr_isValid Address_new" by (simp add: Address_new_def)
  show "sa_parent (w_subAccount (sample_wallet a addr)) = a" by (simp add: sample_wallet_def Wallet_of_def)
  show "sa_ok sample_lib (w_subAccount (sample_wallet a addr))"
    using addr by (simp add: sa_ok_def cache_ok_def sample_wallet_def Wallet_of_def)
  show "specials_ok sample_lib (w_subAccount (sample_wallet a addr))"
    using new by (simp add: specials_ok_def sample_wallet_def Wallet_of_def)
  have v: "0 \<le> account_value" by (simp add: account_value_def path_sum_simps)
  have "be_pad 32 (account_value + 2 ^ 33) \<noteq> be_pad 32 (account_value + 2 ^ 33 + 1)"
    using BigInt_setBytes_pad [of "account_value + 2 ^ 33" 32] BigInt_setBytes_pad [of "account_value + 2 ^ 33 + 1" 32] v
    by auto
  then show "owner_apart sample_lib (w_subAccount (sample_wallet a addr))"
    using k own by (auto simp: owner_apart_def sample_wallet_def Wallet_of_def sa_cached_def sample_pubkey_def)
  show "own_address (w_subAccount (sample_wallet a addr)) addr"
    using new addr(3) by (simp add: own_address_def sample_wallet_def Wallet_of_def PrefixStandard_def PrefixIDChain_def
        SubAccount_IsProducerDepositAddress_def SubAccount_IsOwnerAddress_def SubAccount_IsCRDepositAddress_def)
  show "SubAccount_GetCode sample_lib addr (w_subAccount (sample_wallet a addr)) = Ret (Some (addr_code addr))"
    using new by (simp add: SubAccount_GetCode_def sample_wallet_def Wallet_of_def Address_eq_refl
        SubAccount_IsProducerDepositAddress_def SubAccount_IsOwnerAddress_def SubAccount_IsCRDepositAddress_def)
qed

text \<open>Ten units on the first address, five of them to be spent at a fee of one.\<close>

definition sample_utxo :: "Address \<Rightarrow> UTXO" where
  "sample_utxo addr = UTXO_of 1 0 addr 10"

definition sample_payment :: "Address \<Rightarrow> TransactionOutput" where
  "sample_payment addr = TransactionOutput_of 5 addr GetELAAssetID OutputType_Default None"

lemma sample_create:
  assumes code: "SubAccount_GetCode sample_lib addr (w_subAccount w) = Ret (Some c)" and valid: "addr_isValid addr"
  shows "\<exists>tx w'. Wallet_CreateTransaction sample_lib 7 Tx_transferAsset (Some (PL_TransferAsset TransferAsset_new))
    [sample_utxo addr] [sample_payment addr] ''hi'' 1 True w = Ret (tx, w')"
proof -
  obtain tx0 where "Wallet_attributes ''hi'' 7 (Transaction_of Tx_transferAsset (Some (PL_TransferAsset TransferAsset_new))) = Ret tx0"
    using Wallet_attributes_total by blast
  then show ?thesis
    using code valid
    by (simp add: Wallet_CreateTransaction_def Wallet_change_def Wallet_change_address_def sample_utxo_def sample_payment_def
        UTXO_of_def TransactionOutput_of_def Let_def Transaction_AddOutput_def)
qed

lemma sample_payment_plain: "plain_output (sample_payment addr)"
  by (simp add: plain_output_def sample_payment_def TransactionOutput_of_def TransactionOutput_GeneratePayload_def)

lemma GetShaData_total:
  assumes "Transaction_fits t"
  shows "\<exists>md. Transaction_GetShaData sha256 t = Ret md"
  using Transaction_SerializeUnsigned_appends [OF assms] by (auto simp: Transaction_GetShaData_def appends_def)

lemma sample_spend:
  obtains a addr w tx w' where
    "opens sample_lib sample_passwd (sa_parent (w_subAccount w))" "sa_ok sample_lib (w_subAccount w)"
    "specials_ok sample_lib (w_subAccount w)" "owner_apart sample_lib (w_subAccount w)"
    "own_address (w_subAccount w) addr" "sa_parent (w_subAccount w) = a" "\<not> ls_singleAddress (acc_localstore a)"
    "sa_address sample_lib a False 0 = Ret addr" "addr_isValid addr" "w_chainID w = CHAINID_MAINCHAIN"
    "SubAccount_GetCode sample_lib addr (w_subAccount w) = Ret (Some (addr_code addr))"
    "Wallet_CreateTransaction sample_lib 7 Tx_transferAsset (Some (PL_TransferAsset TransferAsset_new))
       [sample_utxo addr] [sample_payment addr] ''hi'' 1 True w = Ret (tx, w')"
proof -
  obtain a addr where a: "opens sample_lib sample_passwd a" "sa_pubkey sample_lib a False 0 = Ret sample_pubkey"
    "sa_address sample_lib a False 0 = Ret addr" "addr_isValid addr"
    "uint168_prefix (addr_programHash addr) = PrefixStandard"
    "acc_ownerPubKey a = 2 # be_pad 32 (account_value + 2 ^ 33 + 1)" "\<not> ls_singleAddress (acc_localstore a)"
    using sample_address by metis
  note w = sample_wallet_ok [OF a(2-6)]
  have "w_chainID (sample_wallet a addr) = CHAINID_MAINCHAIN" by (simp add: sample_wallet_def Wallet_of_def)
  then show ?thesis using sample_create [OF w(6) a(4)] w a that by metis
qed

text \<open>The sub-account the constructor makes of the account.\<close>

lemma sample_sub:
  obtains a addr sa where
    "opens sample_lib sample_passwd a" "\<not> ls_singleAddress (acc_localstore a)" "SubAccount_of sample_lib a = Ret sa"
    "sa_address sample_lib a False 0 = Ret addr" "addr_isValid addr"
proof -
  obtain a addr where a: "opens sample_lib sample_passwd a" "sa_pubkey sample_lib a False 0 = Ret sample_pubkey"
    "sa_address sample_lib a False 0 = Ret addr" "addr_isValid addr"
    "acc_ownerPubKey a = 2 # be_pad 32 (account_value + 2 ^ 33 + 1)" "\<not> ls_singleAddress (acc_localstore a)"
    using sample_address by metis
  have made: "\<exists>x. Address_of_pubkey (al_hash160 sample_lib) pfx k False = Ret x" for pfx k
    by (auto simp: Address_of_pubkey_def Address_of_pubkeys_def Address_GenerateCode_def)
  obtain xpub where x: "acc_xpub a = Some xpub" using opensD [OF a(1)] by metis
  have did: "SubAccount_DIDPubKey sample_lib sa = Ret sample_pubkey" if "sa_parent sa = a" for sa
    using a(2) x that by (simp add: SubAccount_DIDPubKey_def sa_pubkey_def master_key_def sa_chain_def omap_def
        SEQUENCE_EXTERNAL_CHAIN_def)
  have st: "Account_GetSignType a = Standard" using a(1) by (simp add: opens_def Account_GetSignType_def)
  define own where "own = acc_ownerPubKey a"
  have own: "Account_OwnerPubKey a = Ret own" using a(5) by (simp add: Account_OwnerPubKey_def own_def)
  obtain d o1 c where "Address_of_pubkey (al_hash160 sample_lib) PrefixDeposit own False = Ret d"
    "Address_of_pubkey (al_hash160 sample_lib) PrefixStandard own False = Ret o1"
    "Address_of_pubkey (al_hash160 sample_lib) PrefixDeposit sample_pubkey False = Ret c"
    using made by metis
  then have "\<exists>sa. SubAccount_of sample_lib a = Ret sa" using own st did by (simp add: SubAccount_of_def Let_def)
  then show ?thesis using that a by blast
qed

end
