(* ===== verification/JsonM.thy ===== *)
theory JsonM
  imports AddressM Uint256M HDKeychainM TransactionM
begin

text \<open>
  The JSON values the classes of \<open>src/SDK\<close> are turned into and read from.  The library (nlohmann::json) and
  the decimal conversions of OpenSSL are not in the repository: they are the members of a record, with what
  their documentation says of them as the hypothesis \<open>json_env_ok\<close>.  Here are the accesses the code is
  written with, and the laws a value that was built by assignments obeys.
\<close>

section \<open>The library\<close>

text \<open>
  \<open>je_set\<close> is the assignment \<open>j[key] = value\<close>, \<open>je_find\<close> the member of an object.  A conversion with
  \<open>get\<close> to another type than the value has is an exception: \<open>None\<close>.  \<open>je_elems\<close> is what a loop from
  \<open>begin\<close> to \<open>end\<close> meets, and \<open>je_members\<close> the same with the keys, in an object.
\<close>

record 'j json_env =
  je_null :: 'j
  je_str :: "string \<Rightarrow> 'j"
  je_num :: "int \<Rightarrow> 'j"
  je_bool :: "bool \<Rightarrow> 'j"
  je_arr :: "'j list \<Rightarrow> 'j"
  je_set :: "'j \<Rightarrow> string \<Rightarrow> 'j \<Rightarrow> 'j"
  je_find :: "'j \<Rightarrow> string \<Rightarrow> 'j option"
  je_is_null :: "'j \<Rightarrow> bool"
  je_is_object :: "'j \<Rightarrow> bool"
  je_is_array :: "'j \<Rightarrow> bool"
  je_get_str :: "'j \<Rightarrow> string option"
  je_get_num :: "'j \<Rightarrow> int option"
  je_get_bool :: "'j \<Rightarrow> bool option"
  je_get_arr :: "'j \<Rightarrow> 'j list option"
  je_elems :: "'j \<Rightarrow> 'j list"
  je_members :: "'j \<Rightarrow> (string \<times> 'j) list"
  je_bn2dec :: "BigInt \<Rightarrow> string"
  je_dec2bn :: "string \<Rightarrow> BigInt option"
  je_sha256_2 :: "bytes \<Rightarrow> uint256"

definition je_open :: "'j json_env \<Rightarrow> 'j \<Rightarrow> bool" where
  "je_open E j \<longleftrightarrow> je_is_null E j \<or> je_is_object E j"

text \<open>
  What is documented of them: an assignment to null or an object gives an object with that member and the
  other members it had; what a value was made of comes back from it; the decimal text of a number reads back
  as the number.  The checksum of the zero hash does not begin with a zero byte (it is 94 a0 09 11).
\<close>

definition json_env_ok :: "'j json_env \<Rightarrow> bool" where
  "json_env_ok E \<longleftrightarrow>
     je_is_null E (je_null E) \<and> (\<forall>k. je_find E (je_null E) k = None) \<and>
     (\<forall>j k v. je_open E j \<longrightarrow> je_is_object E (je_set E j k v) \<and>
        (\<forall>k'. je_find E (je_set E j k v) k' = (if k' = k then Some v else je_find E j k'))) \<and>
     (\<forall>s. je_get_str E (je_str E s) = Some s) \<and> (\<forall>n. - (2 ^ 63) \<le> n \<and> n < 2 ^ 64 \<longrightarrow> je_get_num E (je_num E n) = Some n) \<and>
     (\<forall>b. je_get_bool E (je_bool E b) = Some b) \<and>
     (\<forall>xs. je_get_arr E (je_arr E xs) = Some xs \<and> je_is_array E (je_arr E xs) \<and> je_elems E (je_arr E xs) = xs) \<and>
     je_elems E (je_null E) = [] \<and> (\<forall>n. je_dec2bn E (je_bn2dec E n) = Some n) \<and>
     (\<forall>n. je_dec2bn E (dec_text n) = Some (int n)) \<and>
     hd (checksum_of (je_sha256_2 E) (uint168_bytes 0)) \<noteq> 0"

section \<open>Access\<close>

text \<open>The \<open>operator[]\<close> of a constant object needs the member; \<open>at\<close> throws when there is none.\<close>

definition json_index :: "'j json_env \<Rightarrow> 'j \<Rightarrow> string \<Rightarrow> 'j outcome" where
  "json_index E j k =
     (case je_find E j k of Some v \<Rightarrow> Ret v | None \<Rightarrow> if je_is_object E j then Undef else Throw E_Json)"

definition json_at :: "'j json_env \<Rightarrow> 'j \<Rightarrow> string \<Rightarrow> 'j outcome" where
  "json_at E j k = (case je_find E j k of Some v \<Rightarrow> Ret v | None \<Rightarrow> Throw E_Json)"

definition json_contains :: "'j json_env \<Rightarrow> 'j \<Rightarrow> string \<Rightarrow> bool" where
  "json_contains E j k \<longleftrightarrow> je_find E j k \<noteq> None"

definition json_get :: "'a option \<Rightarrow> 'a outcome" where
  "json_get v = (case v of Some x \<Rightarrow> Ret x | None \<Rightarrow> Throw E_Json)"

definition json_as_str :: "'j json_env \<Rightarrow> 'j \<Rightarrow> string outcome" where
  "json_as_str E v = json_get (je_get_str E v)"

text \<open>A number is cast to the type that is asked for.\<close>

definition json_as_word :: "'j json_env \<Rightarrow> 'j \<Rightarrow> 'a::len word outcome" where
  "json_as_word E v = omap word_of_int (json_get (je_get_num E v))"

definition json_as_bool :: "'j json_env \<Rightarrow> 'j \<Rightarrow> bool outcome" where
  "json_as_bool E v = json_get (je_get_bool E v)"

definition json_as_arr :: "'j json_env \<Rightarrow> 'j \<Rightarrow> 'j list outcome" where
  "json_as_arr E v = json_get (je_get_arr E v)"

definition json_as_bytes :: "'j json_env \<Rightarrow> 'j \<Rightarrow> bytes outcome" where
  "json_as_bytes E v = obind (json_as_str E v) setHex"

definition json_as_u256 :: "'j json_env \<Rightarrow> 'j \<Rightarrow> uint256 outcome" where
  "json_as_u256 E v = omap uint256_SetHex (json_as_str E v)"

definition json_as_u168 :: "'j json_env \<Rightarrow> 'j \<Rightarrow> uint168 outcome" where
  "json_as_u168 E v = obind (json_as_str E v) uint168_SetHex"

definition json_as_address :: "'j json_env \<Rightarrow> 'j \<Rightarrow> Address outcome" where
  "json_as_address E v = omap (Address_of_string (je_sha256_2 E)) (json_as_str E v)"

definition json_as_dec :: "'j json_env \<Rightarrow> BigInt \<Rightarrow> 'j \<Rightarrow> BigInt outcome" where
  "json_as_dec E old v = omap (\<lambda>s. BigInt_setDec (je_dec2bn E) s old) (json_as_str E v)"

abbreviation "json_str E j k \<equiv> obind (json_index E j k) (json_as_str E)"
abbreviation "json_word E j k \<equiv> obind (json_index E j k) (json_as_word E)"
abbreviation "json_bool E j k \<equiv> obind (json_index E j k) (json_as_bool E)"
abbreviation "json_arr E j k \<equiv> obind (json_index E j k) (json_as_arr E)"
abbreviation "json_bytes E j k \<equiv> obind (json_index E j k) (json_as_bytes E)"
abbreviation "json_u256 E j k \<equiv> obind (json_index E j k) (json_as_u256 E)"
abbreviation "json_u168 E j k \<equiv> obind (json_index E j k) (json_as_u168 E)"
abbreviation "json_address E j k \<equiv> obind (json_index E j k) (json_as_address E)"
abbreviation "json_dec E j k old \<equiv> obind (json_index E j k) (json_as_dec E old)"

text \<open>\<open>j[key] = value\<close> where \<open>j\<close> may be neither null nor an object: the library throws.\<close>

definition json_assign :: "'j json_env \<Rightarrow> 'j \<Rightarrow> string \<Rightarrow> 'j \<Rightarrow> 'j outcome" where
  "json_assign E j k v = (if je_open E j then Ret (je_set E j k v) else Throw E_Json)"

text \<open>\<open>push_back\<close> on null makes an array, so that a loop without a round leaves null.\<close>

definition json_pushed :: "'j json_env \<Rightarrow> 'j list \<Rightarrow> 'j" where
  "json_pushed E xs = (if xs = [] then je_null E else je_arr E xs)"

definition je_word :: "'j json_env \<Rightarrow> 'a::len word \<Rightarrow> 'j" where
  "je_word E w = je_num E (uint w)"

definition je_bytes :: "'j json_env \<Rightarrow> bytes \<Rightarrow> 'j" where
  "je_bytes E bs = je_str E (getHex0 bs)"

definition je_u256 :: "'j json_env \<Rightarrow> uint256 \<Rightarrow> 'j" where
  "je_u256 E u = je_str E (uint256_GetHex u)"

definition je_u168 :: "'j json_env \<Rightarrow> uint168 \<Rightarrow> 'j" where
  "je_u168 E u = je_str E (uint168_GetHex u)"

definition je_address :: "'j json_env \<Rightarrow> Address \<Rightarrow> 'j" where
  "je_address E a = je_str E (Address_String (je_sha256_2 E) a)"

definition je_dec :: "'j json_env \<Rightarrow> BigInt \<Rightarrow> 'j" where
  "je_dec E n = je_str E (je_bn2dec E n)"

section \<open>Laws\<close>

lemma json_env_okD:
  assumes "json_env_ok E"
  shows "je_is_null E (je_null E)" "je_find E (je_null E) k = None"
    "je_open E j \<Longrightarrow> je_is_object E (je_set E j k v)"
    "je_open E j \<Longrightarrow> je_find E (je_set E j k v) k' = (if k' = k then Some v else je_find E j k')"
    "je_get_str E (je_str E s) = Some s" "- (2 ^ 63) \<le> n \<Longrightarrow> n < 2 ^ 64 \<Longrightarrow> je_get_num E (je_num E n) = Some n"
    "je_get_bool E (je_bool E b) = Some b" "je_get_arr E (je_arr E xs) = Some xs" "je_is_array E (je_arr E xs)"
    "je_elems E (je_arr E xs) = xs" "je_elems E (je_null E) = []" "je_dec2bn E (je_bn2dec E i) = Some i"
    "je_dec2bn E (dec_text m) = Some (int m)"
    "hd (checksum_of (je_sha256_2 E) (uint168_bytes 0)) \<noteq> 0"
  using assms unfolding json_env_ok_def by blast+

lemma je_open_null [simp]: "json_env_ok E \<Longrightarrow> je_open E (je_null E)"
  by (simp add: je_open_def json_env_okD(1))

lemma je_open_set [simp]: "json_env_ok E \<Longrightarrow> je_open E j \<Longrightarrow> je_open E (je_set E j k v)"
  unfolding je_open_def [of E "je_set E j k v"] by (rule disjI2) (rule json_env_okD(3))

lemmas je_find_null [simp] = json_env_okD(2)
lemmas je_find_set [simp] = json_env_okD(4)
lemmas json_get_made [simp] = json_env_okD(5,7-10,12,13)

lemma je_elems_pushed [simp]: "json_env_ok E \<Longrightarrow> je_elems E (json_pushed E xs) = xs"
  by (simp add: json_pushed_def json_env_okD(11))

lemma json_get_Some [simp]: "json_get (Some x) = Ret x"
  by (simp add: json_get_def)

lemma json_found [simp]:
  assumes "je_find E j k = Some v"
  shows "json_index E j k = Ret v" "json_at E j k = Ret v" "json_contains E j k"
  using assms by (simp_all add: json_index_def json_at_def json_contains_def)

lemma json_as_made [simp]:
  assumes "json_env_ok E"
  shows "json_as_str E (je_str E s) = Ret s" "json_as_bool E (je_bool E b) = Ret b" "json_as_arr E (je_arr E xs) = Ret xs"
    "json_as_bytes E (je_bytes E bs) = Ret bs" "json_as_u256 E (je_u256 E u) = Ret u" "json_as_u168 E (je_u168 E h) = Ret h"
    "json_as_dec E old (je_dec E n) = Ret n" "json_as_address E (je_address E a) = Ret (Address_of_hash (addr_programHash a))"
  using assms json_env_okD(14) [OF assms]
  by (simp_all add: json_as_str_def json_as_bool_def json_as_arr_def json_as_bytes_def json_as_u256_def json_as_u168_def
      json_as_dec_def json_as_address_def je_bytes_def je_u256_def je_u168_def je_dec_def je_address_def setHex_getHex
      uint256_SetHex_GetHex uint168_Hex_round BigInt_setDec_def Address_of_string_String)

lemma json_as_num:
  assumes "json_env_ok E" and "- (2 ^ 63) \<le> n" and "n < 2 ^ 64"
  shows "json_as_word E (je_num E n) = Ret (word_of_int n)"
  using json_env_okD(6) [OF assms] by (simp add: json_as_word_def)

lemma json_as_word_made [simp]:
  assumes "json_env_ok E" and "LENGTH('a) \<le> 64"
  shows "json_as_word E (je_word E (w :: 'a::len word)) = Ret w"
proof -
  have "uint w < 2 ^ LENGTH('a)" by (rule uint_bounded)
  also have "(2 :: int) ^ LENGTH('a) \<le> 2 ^ 64" using assms(2) by (rule power_increasing) simp
  finally have "uint w < 2 ^ 64" .
  moreover have "- (2 ^ 63) \<le> uint w" by (rule order_trans [OF _ uint_nonnegative]) simp
  ultimately show ?thesis using json_as_num [OF assms(1), of "uint w", where 'b = 'a] by (simp add: je_word_def)
qed

lemma Address_hash_same [simp]: "addr_programHash (Address_of_hash h) = h"
  by (simp add: Address_of_hash_def Address_CheckValid_def Address_new_def)

section \<open>Lists\<close>

lemma map_outcome_made:
  assumes "\<And>x. x \<in> set xs \<Longrightarrow> f (g x) = Ret (h x)"
  shows "map_outcome f (map g xs) = Ret (map h xs)"
  using assms by (induction xs) simp_all

lemma map_outcome_same: "(\<And>x. x \<in> set xs \<Longrightarrow> f (g x) = Ret x) \<Longrightarrow> map_outcome f (map g xs) = Ret xs"
  using map_outcome_made [of xs f g "\<lambda>x. x"] by simp

section \<open>The contract of a JSON form\<close>

text \<open>
  A class that goes through JSON and through bytes keeps to this: reading its JSON form into a new object gives an
  object that is written to the same bytes.  \<open>valid\<close> is what the reader checks.
\<close>

locale json_form =
  fixes ser :: "'v \<Rightarrow> 'a \<Rightarrow> writer" and to_json :: "'v \<Rightarrow> 'a \<Rightarrow> 'j"
    and from_json :: "'v \<Rightarrow> 'j \<Rightarrow> 'a \<Rightarrow> 'a outcome" and new :: 'a and valid :: "'v \<Rightarrow> 'a \<Rightarrow> bool"
  assumes reread: "valid v p \<Longrightarrow> \<exists>p'. from_json v (to_json v p) new = Ret p' \<and> ser v p' = ser v p"
begin

lemma wire: "valid v p \<Longrightarrow> from_json v (to_json v p) new = Ret p' \<Longrightarrow> ser v p' = ser v p"
  using reread by fastforce

lemma items:
  assumes "\<And>p. p \<in> set ps \<Longrightarrow> valid v p"
  shows "\<exists>ps'. map_outcome (\<lambda>j. from_json v j new) (map (to_json v) ps) = Ret ps' \<and> map (ser v) ps' = map (ser v) ps"
  using assms
proof (induction ps)
  case (Cons p ps)
  obtain p' where "from_json v (to_json v p) new = Ret p'" "ser v p' = ser v p" using reread Cons.prems by fastforce
  moreover obtain ps' where "map_outcome (\<lambda>j. from_json v j new) (map (to_json v) ps) = Ret ps'"
    "map (ser v) ps' = map (ser v) ps" using Cons by fastforce
  ultimately show ?case by simp
qed simp

end

end
