(* ===== verification/TxItemsJson.thy ===== *)
theory TxItemsJson
  imports JsonM
begin

text \<open>
  The JSON forms of what a transaction is made of: attributes, inputs, assets, programs, and outputs with their
  payloads (\<open>ToJson\<close> and \<open>FromJson\<close> of the classes under \<open>Plugin/Transaction\<close>).  Each lemma says
  that what was turned into JSON is read back, up to what the wire form does not have either.
\<close>

section \<open>Attributes, inputs, programs\<close>

definition Attribute_ToJson :: "'j json_env \<Rightarrow> Attribute \<Rightarrow> 'j" where
  "Attribute_ToJson E a =
     (let j = je_null E;
          j = je_set E j ''Usage'' (je_word E (attr_usage a));
          j = je_set E j ''Data'' (je_bytes E (attr_data a))
      in j)"

definition Attribute_FromJson :: "'j json_env \<Rightarrow> 'j \<Rightarrow> Attribute \<Rightarrow> Attribute outcome" where
  "Attribute_FromJson E j a =
     obind (json_word E j ''Usage'') (\<lambda>usage.
     obind (json_bytes E j ''Data'') (\<lambda>data.
       Ret (a\<lparr>attr_usage := usage, attr_data := data\<rparr>)))"

definition TransactionInput_ToJson :: "'j json_env \<Rightarrow> TransactionInput \<Rightarrow> 'j" where
  "TransactionInput_ToJson E i =
     (let j = je_null E;
          j = je_set E j ''TxHash'' (je_u256 E (in_txHash i));
          j = je_set E j ''Index'' (je_word E (in_index i));
          j = je_set E j ''Sequence'' (je_word E (in_sequence i))
      in j)"

definition TransactionInput_FromJson :: "'j json_env \<Rightarrow> 'j \<Rightarrow> TransactionInput \<Rightarrow> TransactionInput outcome" where
  "TransactionInput_FromJson E j i =
     obind (json_u256 E j ''TxHash'') (\<lambda>txHash.
     obind (json_word E j ''Index'') (\<lambda>index.
     obind (json_word E j ''Sequence'') (\<lambda>sequence.
       Ret (i\<lparr>in_txHash := txHash, in_index := index, in_sequence := sequence\<rparr>))))"

definition Program_ToJson :: "'j json_env \<Rightarrow> Program \<Rightarrow> 'j" where
  "Program_ToJson E p =
     (let j = je_null E;
          j = je_set E j ''Parameter'' (je_bytes E (prog_parameter p));
          j = je_set E j ''Code'' (je_bytes E (prog_code p))
      in j)"

definition Program_FromJson :: "'j json_env \<Rightarrow> 'j \<Rightarrow> Program \<Rightarrow> Program outcome" where
  "Program_FromJson E j p =
     obind (json_bytes E j ''Parameter'') (\<lambda>parameter.
     obind (json_bytes E j ''Code'') (\<lambda>code.
       Ret (p\<lparr>prog_parameter := parameter, prog_code := code\<rparr>)))"

definition Asset_ToJson :: "'j json_env \<Rightarrow> Asset \<Rightarrow> 'j" where
  "Asset_ToJson E a =
     (let j = je_null E;
          j = je_set E j ''Name'' (je_str E (asset_name a));
          j = je_set E j ''Description'' (je_str E (asset_description a));
          j = je_set E j ''Precision'' (je_word E (asset_precision a));
          j = je_set E j ''AssetType'' (je_word E (asset_assetType a));
          j = je_set E j ''RecordType'' (je_word E (asset_recordType a))
      in j)"

definition Asset_FromJson :: "'j json_env \<Rightarrow> 'j \<Rightarrow> Asset \<Rightarrow> Asset outcome" where
  "Asset_FromJson E j a =
     obind (json_str E j ''Name'') (\<lambda>name.
     obind (json_str E j ''Description'') (\<lambda>description.
     obind (json_word E j ''Precision'') (\<lambda>precision.
     obind (json_word E j ''AssetType'') (\<lambda>assetType.
     obind (json_word E j ''RecordType'') (\<lambda>recordType.
       Asset_renew_hash (je_sha256_2 E)
         (a\<lparr>asset_name := name, asset_description := description, asset_precision := precision,
            asset_assetType := assetType, asset_recordType := recordType\<rparr>))))))"

lemma Attribute_json: "json_env_ok E \<Longrightarrow> Attribute_FromJson E (Attribute_ToJson E a) old = Ret a"
  by (simp add: Attribute_FromJson_def Attribute_ToJson_def Let_def)

lemma TransactionInput_json: "json_env_ok E \<Longrightarrow> TransactionInput_FromJson E (TransactionInput_ToJson E i) old = Ret i"
  by (simp add: TransactionInput_FromJson_def TransactionInput_ToJson_def Let_def)

lemma Program_json: "json_env_ok E \<Longrightarrow> Program_FromJson E (Program_ToJson E p) old = Ret p"
  by (simp add: Program_FromJson_def Program_ToJson_def Let_def)

lemma Asset_json:
  assumes "json_env_ok E" and "Asset_strings_fit a"
  shows "Asset_FromJson E (Asset_ToJson E a) old = Ret (a\<lparr>asset_hash := Asset_id (je_sha256_2 E) a\<rparr>)"
proof -
  have "Asset_FromJson E (Asset_ToJson E a) old = Asset_renew_hash (je_sha256_2 E)
      (old\<lparr>asset_name := asset_name a, asset_description := asset_description a, asset_precision := asset_precision a,
        asset_assetType := asset_assetType a, asset_recordType := asset_recordType a\<rparr>)"
    using assms(1) by (simp add: Asset_FromJson_def Asset_ToJson_def Let_def)
  also have "old\<lparr>asset_name := asset_name a, asset_description := asset_description a, asset_precision := asset_precision a,
      asset_assetType := asset_assetType a, asset_recordType := asset_recordType a\<rparr> = a\<lparr>asset_hash := asset_hash old\<rparr>"
    by simp
  finally show ?thesis
    using Asset_renew_hash_id [of "a\<lparr>asset_hash := asset_hash old\<rparr>" "je_sha256_2 E"] assms(2)
    by (simp add: Asset_strings_fit_def Asset_id_def)
qed

section \<open>Output payloads\<close>

text \<open>The loops read into the elements a resized vector already has.\<close>

definition json_each :: "('j \<Rightarrow> 'a \<Rightarrow> 'a outcome) \<Rightarrow> 'a \<Rightarrow> 'j list \<Rightarrow> 'a list \<Rightarrow> 'a list outcome" where
  "json_each f new js old = map_outcome (\<lambda>(j, x). f j x) (zip js (vec_resize (length js) new old))"

definition CandidateVotes_ToJson :: "'j json_env \<Rightarrow> u8 \<Rightarrow> CandidateVotes \<Rightarrow> 'j" where
  "CandidateVotes_ToJson E version c =
     (let j = je_null E;
          j = je_set E j ''Candidate'' (je_bytes E (cand_candidate c));
          j = (if VOTE_PRODUCER_CR_VERSION \<le> version then je_set E j ''Votes'' (je_dec E (cand_votes c)) else j)
      in j)"

definition CandidateVotes_FromJson :: "'j json_env \<Rightarrow> u8 \<Rightarrow> 'j \<Rightarrow> CandidateVotes \<Rightarrow> CandidateVotes outcome" where
  "CandidateVotes_FromJson E version j c =
     obind (json_bytes E j ''Candidate'') (\<lambda>candidate.
     obind (if VOTE_PRODUCER_CR_VERSION \<le> version then json_dec E j ''Votes'' (cand_votes c) else Ret (cand_votes c)) (\<lambda>votes.
       Ret (c\<lparr>cand_candidate := candidate, cand_votes := votes\<rparr>)))"

definition VoteContent_ToJson :: "'j json_env \<Rightarrow> u8 \<Rightarrow> VoteContent \<Rightarrow> 'j" where
  "VoteContent_ToJson E version vc =
     (let j = je_null E;
          j = je_set E j ''Type'' (je_word E (vote_type vc));
          j = je_set E j ''Candidates'' (je_arr E (map (CandidateVotes_ToJson E version) (vote_candidates vc)))
      in j)"

definition VoteContent_FromJson :: "'j json_env \<Rightarrow> u8 \<Rightarrow> 'j \<Rightarrow> VoteContent \<Rightarrow> VoteContent outcome" where
  "VoteContent_FromJson E version j vc =
     obind (json_word E j ''Type'') (\<lambda>type.
     obind (json_arr E j ''Candidates'') (\<lambda>js.
     obind (json_each (CandidateVotes_FromJson E version) CandidateVotes_new js (vote_candidates vc)) (\<lambda>candidates.
       Ret (vc\<lparr>vote_type := type, vote_candidates := candidates\<rparr>))))"

definition PayloadVote_ToJson :: "'j json_env \<Rightarrow> PayloadVote \<Rightarrow> 'j" where
  "PayloadVote_ToJson E p =
     (let j = je_null E;
          j = je_set E j ''Version'' (je_word E (pv_version p));
          j = je_set E j ''VoteContent'' (je_arr E (map (VoteContent_ToJson E (pv_version p)) (pv_content p)))
      in j)"

definition PayloadVote_FromJson :: "'j json_env \<Rightarrow> 'j \<Rightarrow> PayloadVote \<Rightarrow> PayloadVote outcome" where
  "PayloadVote_FromJson E j p =
     obind (json_word E j ''Version'') (\<lambda>version.
     obind (json_arr E j ''VoteContent'') (\<lambda>js.
     obind (json_each (VoteContent_FromJson E version) VoteContent_new js (pv_content p)) (\<lambda>content.
       Ret (p\<lparr>pv_version := version, pv_content := content\<rparr>))))"

definition PayloadCrossChain_ToJson :: "'j json_env \<Rightarrow> PayloadCrossChain \<Rightarrow> 'j" where
  "PayloadCrossChain_ToJson E p =
     (let j = je_null E;
          j = je_set E j ''Version'' (je_word E (pcc_version p));
          j = je_set E j ''TargetAddress'' (je_str E (pcc_targetAddress p));
          j = je_set E j ''TargetAmount'' (je_dec E (pcc_targetAmount p));
          j = je_set E j ''TargetData'' (je_bytes E (pcc_targetData p))
      in j)"

definition PayloadCrossChain_FromJson :: "'j json_env \<Rightarrow> 'j \<Rightarrow> PayloadCrossChain \<Rightarrow> PayloadCrossChain outcome" where
  "PayloadCrossChain_FromJson E j p =
     obind (json_word E j ''Version'') (\<lambda>version.
     obind (json_str E j ''TargetAddress'') (\<lambda>address.
     obind (json_dec E j ''TargetAmount'' (pcc_targetAmount p)) (\<lambda>amount.
     obind (json_bytes E j ''TargetData'') (\<lambda>data.
       Ret (p\<lparr>pcc_version := version, pcc_targetAddress := address, pcc_targetAmount := amount,
              pcc_targetData := data\<rparr>)))))"

definition PayloadStake_ToJson :: "'j json_env \<Rightarrow> PayloadStake \<Rightarrow> 'j" where
  "PayloadStake_ToJson E p =
     (let j = je_null E;
          j = je_set E j ''Version'' (je_word E (pst_version p));
          j = je_set E j ''StakeAddress'' (je_address E (Address_of_hash (pst_stakeAddress p)))
      in j)"

definition PayloadStake_FromJson :: "'j json_env \<Rightarrow> 'j \<Rightarrow> PayloadStake \<Rightarrow> PayloadStake outcome" where
  "PayloadStake_FromJson E j p =
     obind (json_word E j ''Version'') (\<lambda>version.
     obind (json_address E j ''StakeAddress'') (\<lambda>a.
       Ret (p\<lparr>pst_version := version, pst_stakeAddress := addr_programHash a\<rparr>)))"

fun OutputPayload_ToJson :: "'j json_env \<Rightarrow> OutputPayload \<Rightarrow> 'j" where
  "OutputPayload_ToJson E OP_Default = je_null E"
| "OutputPayload_ToJson E (OP_Vote p) = PayloadVote_ToJson E p"
| "OutputPayload_ToJson E (OP_CrossChain p) = PayloadCrossChain_ToJson E p"
| "OutputPayload_ToJson E (OP_Stake p) = PayloadStake_ToJson E p"

fun OutputPayload_FromJson :: "'j json_env \<Rightarrow> 'j \<Rightarrow> OutputPayload \<Rightarrow> OutputPayload outcome" where
  "OutputPayload_FromJson E j OP_Default = Ret OP_Default"
| "OutputPayload_FromJson E j (OP_Vote p) = omap OP_Vote (PayloadVote_FromJson E j p)"
| "OutputPayload_FromJson E j (OP_CrossChain p) = omap OP_CrossChain (PayloadCrossChain_FromJson E j p)"
| "OutputPayload_FromJson E j (OP_Stake p) = omap OP_Stake (PayloadStake_FromJson E j p)"

section \<open>Outputs\<close>

definition TransactionOutput_ToJson :: "'j json_env \<Rightarrow> TransactionOutput \<Rightarrow> 'j outcome" where
  "TransactionOutput_ToJson E t =
     (case out_payload t of None \<Rightarrow> Undef
      | Some p \<Rightarrow>
        let j = je_null E;
            j = je_set E j ''Amount'' (je_dec E (out_amount t));
            j = je_set E j ''AssetId'' (je_u256 E (out_assetID t));
            j = je_set E j ''OutputLock'' (je_word E (out_outputLock t));
            j = je_set E j ''ProgramHash'' (je_u168 E (addr_programHash (out_address t)));
            j = je_set E j ''Address'' (je_address E (out_address t));
            j = je_set E j ''OutputType'' (je_word E (out_outputType t));
            j = je_set E j ''Payload'' (OutputPayload_ToJson E p)
        in Ret j)"

definition TransactionOutput_FromJson ::
    "'j json_env \<Rightarrow> 'j \<Rightarrow> TransactionOutput \<Rightarrow> TransactionOutput outcome" where
  "TransactionOutput_FromJson E j t =
     obind (json_dec E j ''Amount'' (out_amount t)) (\<lambda>amount.
     obind (json_u256 E j ''AssetId'') (\<lambda>assetID.
     obind (json_word E j ''OutputLock'') (\<lambda>outputLock.
     obind (json_u168 E j ''ProgramHash'') (\<lambda>programHash.
     obind (json_word E j ''OutputType'') (\<lambda>outputType.
     case TransactionOutput_GeneratePayload outputType of None \<Rightarrow> Undef
     | Some p \<Rightarrow>
       obind (json_index E j ''Payload'') (\<lambda>jp.
       obind (OutputPayload_FromJson E jp p) (\<lambda>payload.
         Ret (t\<lparr>out_amount := amount, out_assetID := assetID, out_outputLock := outputLock,
                out_address := Address_SetProgramHash programHash (out_address t),
                out_outputType := outputType, out_payload := Some payload\<rparr>))))))))"

section \<open>What is read back\<close>

lemma json_each_fresh: "json_each f new js [] = map_outcome (\<lambda>j. f j new) js"
proof -
  have "map_outcome (\<lambda>(j, x). f j x) (zip js (replicate (length js) new)) = map_outcome (\<lambda>j. f j new) js"
    by (induction js) simp_all
  then show ?thesis by (simp add: json_each_def vec_resize_def)
qed

text \<open>Before the version that has votes, the votes of a candidate are not read and not written on the wire.\<close>

definition CandidateVotes_kept :: "u8 \<Rightarrow> CandidateVotes \<Rightarrow> CandidateVotes" where
  "CandidateVotes_kept version c = (if VOTE_PRODUCER_CR_VERSION \<le> version then c else c\<lparr>cand_votes := 0\<rparr>)"

lemma CandidateVotes_json:
  "json_env_ok E \<Longrightarrow> CandidateVotes_FromJson E v (CandidateVotes_ToJson E v c) CandidateVotes_new = Ret (CandidateVotes_kept v c)"
  by (simp add: CandidateVotes_FromJson_def CandidateVotes_ToJson_def CandidateVotes_kept_def CandidateVotes_new_def Let_def)

definition VoteContent_kept :: "u8 \<Rightarrow> VoteContent \<Rightarrow> VoteContent" where
  "VoteContent_kept version vc = vc\<lparr>vote_candidates := map (CandidateVotes_kept version) (vote_candidates vc)\<rparr>"

definition PayloadVote_kept :: "PayloadVote \<Rightarrow> PayloadVote" where
  "PayloadVote_kept p = p\<lparr>pv_content := map (VoteContent_kept (pv_version p)) (pv_content p)\<rparr>"

lemma VoteContent_json:
  "json_env_ok E \<Longrightarrow> VoteContent_FromJson E v (VoteContent_ToJson E v c) VoteContent_new = Ret (VoteContent_kept v c)"
  by (simp add: VoteContent_FromJson_def VoteContent_ToJson_def VoteContent_kept_def VoteContent_new_def Let_def
      json_each_fresh CandidateVotes_json map_outcome_made)

lemma PayloadVote_json:
  "json_env_ok E \<Longrightarrow> PayloadVote_FromJson E (PayloadVote_ToJson E p) PayloadVote_new = Ret (PayloadVote_kept p)"
  by (simp add: PayloadVote_FromJson_def PayloadVote_ToJson_def PayloadVote_kept_def PayloadVote_new_def Let_def
      json_each_fresh VoteContent_json map_outcome_made)

lemma PayloadVote_kept_wire: "PayloadVote_Serialize (PayloadVote_kept p) = PayloadVote_Serialize p"
proof -
  have "CandidateVotes_Serialize v (CandidateVotes_kept v c) = CandidateVotes_Serialize v c" for v c
    by (simp add: CandidateVotes_Serialize_def CandidateVotes_kept_def)
  then have candidates: "map (CandidateVotes_Serialize v \<circ> CandidateVotes_kept v) cs = map (CandidateVotes_Serialize v) cs"
    for v cs by simp
  have "VoteContent_Serialize v (VoteContent_kept v c) = VoteContent_Serialize v c" for v c
    by (simp add: VoteContent_Serialize_def VoteContent_kept_def write_items_def candidates)
  then have contents: "map (VoteContent_Serialize v \<circ> VoteContent_kept v) cs = map (VoteContent_Serialize v) cs"
    for v cs by simp
  show ?thesis by (simp add: PayloadVote_Serialize_def PayloadVote_kept_def write_items_def contents)
qed

lemma PayloadCrossChain_json:
  "json_env_ok E \<Longrightarrow> PayloadCrossChain_FromJson E (PayloadCrossChain_ToJson E p) old = Ret p"
  by (simp add: PayloadCrossChain_FromJson_def PayloadCrossChain_ToJson_def Let_def)

lemma PayloadStake_json: "json_env_ok E \<Longrightarrow> PayloadStake_FromJson E (PayloadStake_ToJson E p) old = Ret p"
  by (simp add: PayloadStake_FromJson_def PayloadStake_ToJson_def Let_def)

lemma OutputPayload_json:
  assumes "json_env_ok E" and "OutputPayload_typed t" and "out_payload t = Some p"
  shows "\<exists>q p'. TransactionOutput_GeneratePayload (out_outputType t) = Some q \<and>
    OutputPayload_FromJson E (OutputPayload_ToJson E p) q = Ret p' \<and> OutputPayload_Serialize p' = OutputPayload_Serialize p"
  using assms
  by (cases p) (simp_all add: OutputPayload_typed_def TransactionOutput_GeneratePayload_def output_types PayloadVote_json
      PayloadCrossChain_json PayloadVote_kept_wire)

lemma TransactionOutput_json:
  assumes "json_env_ok E" and "OutputPayload_typed t"
  shows "\<exists>j t'. TransactionOutput_ToJson E t = Ret j \<and> TransactionOutput_FromJson E j old = Ret t' \<and>
    (\<forall>v. TransactionOutput_Serialize v t' = TransactionOutput_Serialize v t) \<and> out_amount t' = out_amount t"
proof -
  obtain p where p: "out_payload t = Some p" using assms(2) by (auto simp: OutputPayload_typed_def split: option.splits)
  obtain q p' where q: "TransactionOutput_GeneratePayload (out_outputType t) = Some q"
    "OutputPayload_FromJson E (OutputPayload_ToJson E p) q = Ret p'" "OutputPayload_Serialize p' = OutputPayload_Serialize p"
    using OutputPayload_json [OF assms p] by blast
  show ?thesis
    using assms(1) p q
    by (simp add: TransactionOutput_ToJson_def TransactionOutput_FromJson_def Let_def TransactionOutput_Serialize_def
        Address_SetProgramHash_def Address_CheckValid_def)
qed

end
