(* ===== verification/PayloadJson.thy ===== *)
theory PayloadJson
  imports TxItemsJson Payload
begin

text \<open>
  The JSON forms of the payload classes under \<open>Plugin/Transaction/Payload\<close>, the CRC proposal apart.  Every class
  is shown to be a \<open>json_form\<close>: what is read back is written to the same bytes.
\<close>

section \<open>Payloads of the chain\<close>

definition TransferAsset_ToJson :: "'j json_env \<Rightarrow> u8 \<Rightarrow> TransferAsset \<Rightarrow> 'j" where
  "TransferAsset_ToJson E version p = je_null E"

definition TransferAsset_FromJson :: "'j json_env \<Rightarrow> u8 \<Rightarrow> 'j \<Rightarrow> TransferAsset \<Rightarrow> TransferAsset outcome" where
  "TransferAsset_FromJson E version j p = Ret p"

interpretation transfer_asset_json: json_form TransferAsset_Serialize "TransferAsset_ToJson E" "TransferAsset_FromJson E" TransferAsset_new "\<lambda>_ _. True" for E
  by unfold_locales (simp add: TransferAsset_FromJson_def, metis (full_types) TransferAsset.exhaust)

definition CoinBase_ToJson :: "'j json_env \<Rightarrow> u8 \<Rightarrow> CoinBase \<Rightarrow> 'j" where
  "CoinBase_ToJson E version p =
     (let j = je_null E;
          j = je_set E j ''CoinBaseData'' (je_bytes E (coinBaseData p))
      in j)"

definition CoinBase_FromJson :: "'j json_env \<Rightarrow> u8 \<Rightarrow> 'j \<Rightarrow> CoinBase \<Rightarrow> CoinBase outcome" where
  "CoinBase_FromJson E version j p =
     obind (json_bytes E j ''CoinBaseData'') (\<lambda>coinBaseData.
       Ret (p\<lparr>coinBaseData := coinBaseData\<rparr>))"

interpretation coin_base_json: json_form CoinBase_Serialize "CoinBase_ToJson E" "CoinBase_FromJson E" CoinBase_new "\<lambda>_ _. json_env_ok E" for E
  by unfold_locales (simp add: CoinBase_ToJson_def CoinBase_FromJson_def Let_def CoinBase_Serialize_def)

definition Record_ToJson :: "'j json_env \<Rightarrow> u8 \<Rightarrow> Record \<Rightarrow> 'j" where
  "Record_ToJson E version p =
     (let j = je_null E;
          j = je_set E j ''RecordType'' (je_str E (rec_recordType p));
          j = je_set E j ''RecordData'' (je_bytes E (rec_recordData p))
      in j)"

definition Record_FromJson :: "'j json_env \<Rightarrow> u8 \<Rightarrow> 'j \<Rightarrow> Record \<Rightarrow> Record outcome" where
  "Record_FromJson E version j p =
     obind (json_str E j ''RecordType'') (\<lambda>recordType.
     obind (json_bytes E j ''RecordData'') (\<lambda>recordData.
       Ret (p\<lparr>rec_recordType := recordType, rec_recordData := recordData\<rparr>)))"

interpretation record_json: json_form Record_Serialize "Record_ToJson E" "Record_FromJson E" Record_new "\<lambda>_ _. json_env_ok E" for E
  by unfold_locales (simp add: Record_ToJson_def Record_FromJson_def Let_def Record_Serialize_def)

definition SideChainPow_ToJson :: "'j json_env \<Rightarrow> u8 \<Rightarrow> SideChainPow \<Rightarrow> 'j" where
  "SideChainPow_ToJson E version p =
     (let j = je_null E;
          j = je_set E j ''SideBlockHash'' (je_u256 E (pow_sideBlockHash p));
          j = je_set E j ''SideGenesisHash'' (je_u256 E (pow_sideGenesisHash p));
          j = je_set E j ''BlockHeight'' (je_word E (pow_blockHeight p));
          j = je_set E j ''SignedData'' (je_bytes E (pow_signedData p))
      in j)"

definition SideChainPow_FromJson :: "'j json_env \<Rightarrow> u8 \<Rightarrow> 'j \<Rightarrow> SideChainPow \<Rightarrow> SideChainPow outcome" where
  "SideChainPow_FromJson E version j p =
     obind (json_u256 E j ''SideBlockHash'') (\<lambda>sideBlockHash.
     obind (json_u256 E j ''SideGenesisHash'') (\<lambda>sideGenesisHash.
     obind (json_word E j ''BlockHeight'') (\<lambda>blockHeight.
     obind (json_bytes E j ''SignedData'') (\<lambda>signedData.
       Ret (p\<lparr>pow_sideBlockHash := sideBlockHash, pow_sideGenesisHash := sideGenesisHash,
          pow_blockHeight := blockHeight, pow_signedData := signedData\<rparr>)))))"

interpretation side_chain_pow_json: json_form SideChainPow_Serialize "SideChainPow_ToJson E" "SideChainPow_FromJson E" SideChainPow_new "\<lambda>_ _. json_env_ok E" for E
  by unfold_locales (simp add: SideChainPow_ToJson_def SideChainPow_FromJson_def Let_def SideChainPow_Serialize_def)

definition RegisterAsset_ToJson :: "'j json_env \<Rightarrow> u8 \<Rightarrow> RegisterAsset \<Rightarrow> 'j" where
  "RegisterAsset_ToJson E version p =
     (let j = je_null E;
          j = je_set E j ''Asset'' (Asset_ToJson E (ra_asset p));
          j = je_set E j ''Amount'' (je_word E (ra_amount p));
          j = je_set E j ''Controller'' (je_u168 E (ra_controller p))
      in j)"

definition RegisterAsset_FromJson :: "'j json_env \<Rightarrow> u8 \<Rightarrow> 'j \<Rightarrow> RegisterAsset \<Rightarrow> RegisterAsset outcome" where
  "RegisterAsset_FromJson E version j p =
     obind (json_index E j ''Asset'') (\<lambda>ja.
     obind (Asset_FromJson E ja (ra_asset p)) (\<lambda>asset.
     obind (json_word E j ''Amount'') (\<lambda>amount.
     obind (json_u168 E j ''Controller'') (\<lambda>controller.
       Ret (p\<lparr>ra_asset := asset, ra_amount := amount, ra_controller := controller\<rparr>)))))"

interpretation register_asset_json: json_form RegisterAsset_Serialize "RegisterAsset_ToJson E" "RegisterAsset_FromJson E"
    RegisterAsset_new "\<lambda>_ p. json_env_ok E \<and> Asset_strings_fit (ra_asset p)" for E
  by unfold_locales (simp add: RegisterAsset_ToJson_def RegisterAsset_FromJson_def Asset_json RegisterAsset_Serialize_def Let_def)

text \<open>A version the class does not know makes an empty object; nothing is read under it.\<close>

definition RechargeToSideChain_ToJson :: "'j json_env \<Rightarrow> u8 \<Rightarrow> RechargeToSideChain \<Rightarrow> 'j" where
  "RechargeToSideChain_ToJson E version p =
     (let j = je_null E
      in if version = RechargeToSideChain_V0
         then let j = je_set E j ''MerkleProof'' (je_bytes E (rech_merkeProof p));
                  j = je_set E j ''MainChainTransaction'' (je_bytes E (rech_mainChainTransaction p))
              in j
         else if version = RechargeToSideChain_V1
         then je_set E j ''MainChainTxHash'' (je_u256 E (rech_mainChainTxHash p))
         else j)"

definition RechargeToSideChain_FromJson ::
    "'j json_env \<Rightarrow> u8 \<Rightarrow> 'j \<Rightarrow> RechargeToSideChain \<Rightarrow> RechargeToSideChain outcome" where
  "RechargeToSideChain_FromJson E version j p =
     (if version = RechargeToSideChain_V0
      then obind (json_bytes E j ''MerkleProof'') (\<lambda>merkeProof.
           obind (json_bytes E j ''MainChainTransaction'') (\<lambda>mainChainTransaction.
             Ret (p\<lparr>rech_merkeProof := merkeProof, rech_mainChainTransaction := mainChainTransaction\<rparr>)))
      else if version = RechargeToSideChain_V1
      then obind (json_u256 E j ''MainChainTxHash'') (\<lambda>mainChainTxHash. Ret (p\<lparr>rech_mainChainTxHash := mainChainTxHash\<rparr>))
      else Ret p)"

interpretation recharge_json: json_form RechargeToSideChain_Serialize "RechargeToSideChain_ToJson E"
    "RechargeToSideChain_FromJson E" RechargeToSideChain_new "\<lambda>_ _. json_env_ok E" for E
  by unfold_locales (simp add: RechargeToSideChain_ToJson_def RechargeToSideChain_FromJson_def
      RechargeToSideChain_Serialize_def Let_def)

definition WithdrawFromSideChain_ToJson :: "'j json_env \<Rightarrow> u8 \<Rightarrow> WithdrawFromSideChain \<Rightarrow> 'j" where
  "WithdrawFromSideChain_ToJson E version p =
     (let j = je_null E;
          j = je_set E j ''BlockHeight'' (je_word E (wd_blockHeight p));
          j = je_set E j ''GenesisBlockAddress'' (je_str E (wd_genesisBlockAddress p));
          hashes = json_pushed E (map (je_u256 E) (wd_sideChainTransactionHash p));
          j = je_set E j ''SideChainTransactionHash'' hashes
      in j)"

definition WithdrawFromSideChain_FromJson ::
    "'j json_env \<Rightarrow> u8 \<Rightarrow> 'j \<Rightarrow> WithdrawFromSideChain \<Rightarrow> WithdrawFromSideChain outcome" where
  "WithdrawFromSideChain_FromJson E version j p =
     obind (json_word E j ''BlockHeight'') (\<lambda>blockHeight.
     obind (json_str E j ''GenesisBlockAddress'') (\<lambda>genesisBlockAddress.
     obind (json_index E j ''SideChainTransactionHash'') (\<lambda>hashes.
     obind (map_outcome (json_as_u256 E) (je_elems E hashes)) (\<lambda>sideChainTransactionHash.
       Ret (p\<lparr>wd_blockHeight := blockHeight, wd_genesisBlockAddress := genesisBlockAddress,
              wd_sideChainTransactionHash := sideChainTransactionHash\<rparr>)))))"

interpretation withdraw_json: json_form WithdrawFromSideChain_Serialize "WithdrawFromSideChain_ToJson E"
    "WithdrawFromSideChain_FromJson E" WithdrawFromSideChain_new "\<lambda>_ _. json_env_ok E" for E
  by unfold_locales (simp add: WithdrawFromSideChain_ToJson_def WithdrawFromSideChain_FromJson_def Let_def map_outcome_same
      WithdrawFromSideChain_Serialize_def)

definition TransferInfo_new :: TransferInfo where
  "TransferInfo_new = \<lparr>ti_crossChainAddress = [], ti_outputIndex = 0, ti_crossChainAmount = 0\<rparr>"

definition TransferInfo_ToJson :: "'j json_env \<Rightarrow> u8 \<Rightarrow> TransferInfo \<Rightarrow> 'j" where
  "TransferInfo_ToJson E version p =
     (let j = je_null E
      in if version = TransferCrossChainVersion
         then let j = je_set E j ''CrossChainAddress'' (je_str E (ti_crossChainAddress p));
                  j = je_set E j ''OutputIndex'' (je_word E (ti_outputIndex p));
                  j = je_set E j ''CrossChainAmount'' (je_dec E (ti_crossChainAmount p))
              in j
         else j)"

definition TransferInfo_FromJson :: "'j json_env \<Rightarrow> u8 \<Rightarrow> 'j \<Rightarrow> TransferInfo \<Rightarrow> TransferInfo outcome" where
  "TransferInfo_FromJson E version j p =
     (if version = TransferCrossChainVersion
      then obind (json_str E j ''CrossChainAddress'') (\<lambda>crossChainAddress.
           obind (json_word E j ''OutputIndex'') (\<lambda>outputIndex.
           obind (json_dec E j ''CrossChainAmount'' (ti_crossChainAmount p)) (\<lambda>crossChainAmount.
             Ret (p\<lparr>ti_crossChainAddress := crossChainAddress, ti_outputIndex := outputIndex,
                    ti_crossChainAmount := crossChainAmount\<rparr>))))
      else Ret p)"

definition TransferCrossChainAsset_ToJson :: "'j json_env \<Rightarrow> u8 \<Rightarrow> TransferCrossChainAsset \<Rightarrow> 'j" where
  "TransferCrossChainAsset_ToJson E version p =
     (if version = TransferCrossChainVersion then json_pushed E (map (TransferInfo_ToJson E version) (tcc_info p))
      else je_null E)"

text \<open>What is not an array is logged and left.\<close>

definition TransferCrossChainAsset_FromJson ::
    "'j json_env \<Rightarrow> u8 \<Rightarrow> 'j \<Rightarrow> TransferCrossChainAsset \<Rightarrow> TransferCrossChainAsset outcome" where
  "TransferCrossChainAsset_FromJson E version j p =
     (if version = TransferCrossChainVersion
      then if \<not> je_is_array E j then Ret p
           else obind (map_outcome (\<lambda>ji. TransferInfo_FromJson E version ji TransferInfo_new) (je_elems E j)) (\<lambda>info.
                  Ret (p\<lparr>tcc_info := info\<rparr>))
      else Ret p)"

lemma TransferInfo_json:
  "json_env_ok E \<Longrightarrow> TransferInfo_FromJson E TransferCrossChainVersion (TransferInfo_ToJson E TransferCrossChainVersion i) old = Ret i"
  by (simp add: TransferInfo_FromJson_def TransferInfo_ToJson_def Let_def)

interpretation transfer_cross_chain_json: json_form TransferCrossChainAsset_Serialize "TransferCrossChainAsset_ToJson E"
    "TransferCrossChainAsset_FromJson E" TransferCrossChainAsset_new "\<lambda>_ _. json_env_ok E" for E
proof unfold_locales
  fix v :: u8 and p :: TransferCrossChainAsset
  assume E: "json_env_ok E"
  show "\<exists>p'. TransferCrossChainAsset_FromJson E v (TransferCrossChainAsset_ToJson E v p) TransferCrossChainAsset_new = Ret p' \<and>
    TransferCrossChainAsset_Serialize v p' = TransferCrossChainAsset_Serialize v p"
  proof (cases "tcc_info p = []")
    case True
    then have "p = TransferCrossChainAsset_new" by (simp add: TransferCrossChainAsset_new_def)
    then show ?thesis using E
      by (simp add: TransferCrossChainAsset_FromJson_def TransferCrossChainAsset_ToJson_def json_pushed_def map_outcome_same
          TransferCrossChainAsset_new_def json_env_okD(11))
  next
    case False
    then show ?thesis using E
      by (simp add: TransferCrossChainAsset_FromJson_def TransferCrossChainAsset_ToJson_def json_pushed_def
          map_outcome_same TransferInfo_json TransferCrossChainAsset_Serialize_def)
  qed
qed

section \<open>Payloads of the block producers\<close>

definition ProducerInfo_ToJson :: "'j json_env \<Rightarrow> u8 \<Rightarrow> ProducerInfo \<Rightarrow> 'j" where
  "ProducerInfo_ToJson E version p =
     (let j = je_null E;
          j = je_set E j ''OwnerPublicKey'' (je_bytes E (prod_ownerPublicKey p));
          j = je_set E j ''NodePublicKey'' (je_bytes E (prod_nodePublicKey p));
          j = je_set E j ''NickName'' (je_str E (prod_nickName p));
          j = je_set E j ''Url'' (je_str E (prod_url p));
          j = je_set E j ''Location'' (je_word E (prod_location p));
          j = je_set E j ''Address'' (je_str E (prod_address p));
          j = je_set E j ''Signature'' (je_bytes E (prod_signature p))
      in j)"

definition ProducerInfo_FromJson :: "'j json_env \<Rightarrow> u8 \<Rightarrow> 'j \<Rightarrow> ProducerInfo \<Rightarrow> ProducerInfo outcome" where
  "ProducerInfo_FromJson E version j p =
     obind (json_bytes E j ''OwnerPublicKey'') (\<lambda>ownerPublicKey.
     obind (json_bytes E j ''NodePublicKey'') (\<lambda>nodePublicKey.
     obind (json_str E j ''NickName'') (\<lambda>nickName.
     obind (json_str E j ''Url'') (\<lambda>url.
     obind (json_word E j ''Location'') (\<lambda>location.
     obind (json_str E j ''Address'') (\<lambda>address.
     obind (json_bytes E j ''Signature'') (\<lambda>signature.
       Ret (p\<lparr>prod_ownerPublicKey := ownerPublicKey, prod_nodePublicKey := nodePublicKey,
          prod_nickName := nickName, prod_url := url, prod_location := location,
          prod_address := address, prod_signature := signature\<rparr>))))))))"

interpretation producer_info_json: json_form ProducerInfo_Serialize "ProducerInfo_ToJson E" "ProducerInfo_FromJson E" ProducerInfo_new "\<lambda>_ _. json_env_ok E" for E
  by unfold_locales (simp add: ProducerInfo_ToJson_def ProducerInfo_FromJson_def Let_def ProducerInfo_Serialize_def ProducerInfo_SerializeUnsigned_def)

definition CancelProducer_ToJson :: "'j json_env \<Rightarrow> u8 \<Rightarrow> CancelProducer \<Rightarrow> 'j" where
  "CancelProducer_ToJson E version p =
     (let j = je_null E;
          j = je_set E j ''PublicKey'' (je_bytes E (cancelp_publicKey p));
          j = je_set E j ''Signature'' (je_bytes E (cancelp_signature p))
      in j)"

definition CancelProducer_FromJson :: "'j json_env \<Rightarrow> u8 \<Rightarrow> 'j \<Rightarrow> CancelProducer \<Rightarrow> CancelProducer outcome" where
  "CancelProducer_FromJson E version j p =
     obind (json_bytes E j ''PublicKey'') (\<lambda>publicKey.
     obind (json_bytes E j ''Signature'') (\<lambda>signature.
       Ret (p\<lparr>cancelp_publicKey := publicKey, cancelp_signature := signature\<rparr>)))"

interpretation cancel_producer_json: json_form CancelProducer_Serialize "CancelProducer_ToJson E" "CancelProducer_FromJson E" CancelProducer_new "\<lambda>_ _. json_env_ok E" for E
  by unfold_locales (simp add: CancelProducer_ToJson_def CancelProducer_FromJson_def Let_def CancelProducer_Serialize_def CancelProducer_SerializeUnsigned_def)

definition ReturnDepositCoin_ToJson :: "'j json_env \<Rightarrow> u8 \<Rightarrow> ReturnDepositCoin \<Rightarrow> 'j" where
  "ReturnDepositCoin_ToJson E version p = je_null E"

definition ReturnDepositCoin_FromJson :: "'j json_env \<Rightarrow> u8 \<Rightarrow> 'j \<Rightarrow> ReturnDepositCoin \<Rightarrow> ReturnDepositCoin outcome" where
  "ReturnDepositCoin_FromJson E version j p = Ret p"

interpretation return_deposit_json: json_form ReturnDepositCoin_Serialize "ReturnDepositCoin_ToJson E" "ReturnDepositCoin_FromJson E" ReturnDepositCoin_new "\<lambda>_ _. True" for E
  by unfold_locales (simp add: ReturnDepositCoin_FromJson_def, metis (full_types) ReturnDepositCoin.exhaust)

definition NextTurnDPoSInfo_ToJson :: "'j json_env \<Rightarrow> u8 \<Rightarrow> NextTurnDPoSInfo \<Rightarrow> 'j" where
  "NextTurnDPoSInfo_ToJson E version p =
     (let crPubKeys = je_arr E (map (je_bytes E) (turn_crPublicKeys p));
          dposPubKeys = je_arr E (map (je_bytes E) (turn_dposPublicKeys p));
          j = je_null E;
          j = je_set E j ''WorkingHeight'' (je_word E (turn_workingHeight p));
          j = je_set E j ''CRPublicKeys'' crPubKeys;
          j = je_set E j ''DPoSPublicKeys'' dposPubKeys
      in j)"

definition NextTurnDPoSInfo_FromJson :: "'j json_env \<Rightarrow> u8 \<Rightarrow> 'j \<Rightarrow> NextTurnDPoSInfo \<Rightarrow> NextTurnDPoSInfo outcome" where
  "NextTurnDPoSInfo_FromJson E version j p =
     obind (json_word E j ''WorkingHeight'') (\<lambda>workingHeight.
     obind (json_index E j ''CRPublicKeys'') (\<lambda>crPubKeys.
     obind (json_index E j ''DPoSPublicKeys'') (\<lambda>dposPubKeys.
     obind (map_outcome (json_as_bytes E) (je_elems E crPubKeys)) (\<lambda>crPublicKeys.
     obind (map_outcome (json_as_bytes E) (je_elems E dposPubKeys)) (\<lambda>dposPublicKeys.
       Ret (p\<lparr>turn_workingHeight := workingHeight, turn_crPublicKeys := crPublicKeys,
              turn_dposPublicKeys := dposPublicKeys\<rparr>))))))"

interpretation next_turn_json: json_form NextTurnDPoSInfo_Serialize "NextTurnDPoSInfo_ToJson E" "NextTurnDPoSInfo_FromJson E"
    NextTurnDPoSInfo_new "\<lambda>_ _. json_env_ok E" for E
  by unfold_locales (simp add: NextTurnDPoSInfo_ToJson_def NextTurnDPoSInfo_FromJson_def Let_def map_outcome_same
      NextTurnDPoSInfo_Serialize_def)

section \<open>Payloads of stakes and votes\<close>

definition Stake_ToJson :: "'j json_env \<Rightarrow> u8 \<Rightarrow> Stake \<Rightarrow> 'j" where
  "Stake_ToJson E version p = je_null E"

definition Stake_FromJson :: "'j json_env \<Rightarrow> u8 \<Rightarrow> 'j \<Rightarrow> Stake \<Rightarrow> Stake outcome" where
  "Stake_FromJson E version j p = Ret p"

interpretation stake_json: json_form Stake_Serialize "Stake_ToJson E" "Stake_FromJson E" Stake_new "\<lambda>_ _. True" for E
  by unfold_locales (simp add: Stake_FromJson_def, metis (full_types) Stake.exhaust)

text \<open>Amounts are decimal texts: \<open>std::to_string\<close> on the way out, \<open>BN_dec2bn\<close> and 64 bits on the way in.\<close>

definition json_as_value :: "'j json_env \<Rightarrow> 'j \<Rightarrow> u64 outcome" where
  "json_as_value E v = omap BigInt_getUint64 (json_as_dec E 0 v)"

lemma json_as_value_made:
  assumes "json_env_ok E"
  shows "json_as_value E (je_str E (dec_text (unat w))) = Ret w" and "json_as_value E (je_dec E (BigInt_setUint64 w)) = Ret w"
proof -
  have "BigInt_getUint64 (uint w) = w" using BigInt_get_setUint64 [of w] by (simp add: BigInt_setUint64_unat)
  then show "json_as_value E (je_str E (dec_text (unat w))) = Ret w" "json_as_value E (je_dec E (BigInt_setUint64 w)) = Ret w"
    using assms by (simp_all add: json_as_value_def json_as_dec_def json_as_str_def BigInt_setDec_def je_dec_def
        BigInt_setUint64_unat)
qed

definition Unstake_ToJsonUnsigned :: "'j json_env \<Rightarrow> u8 \<Rightarrow> Unstake \<Rightarrow> 'j" where
  "Unstake_ToJsonUnsigned E version p =
     (let j = je_null E;
          j = je_set E j ''ToAddress'' (je_address E (Address_of_hash (unst_toAddr p)));
          j = je_set E j ''Code'' (je_bytes E (unst_code p));
          j = je_set E j ''Value'' (je_str E (dec_text (unat (unst_value p))))
      in j)"

definition Unstake_FromJsonUnsigned :: "'j json_env \<Rightarrow> u8 \<Rightarrow> 'j \<Rightarrow> Unstake \<Rightarrow> Unstake outcome" where
  "Unstake_FromJsonUnsigned E version j p =
     obind (obind (json_at E j ''ToAddress'') (json_as_address E)) (\<lambda>a.
     obind (obind (json_at E j ''Code'') (json_as_bytes E)) (\<lambda>code.
     obind (obind (json_at E j ''Value'') (json_as_value E)) (\<lambda>value.
       Ret (p\<lparr>unst_toAddr := addr_programHash a, unst_code := code, unst_value := value\<rparr>))))"

definition Unstake_ToJson :: "'j json_env \<Rightarrow> u8 \<Rightarrow> Unstake \<Rightarrow> 'j" where
  "Unstake_ToJson E version p = je_set E (Unstake_ToJsonUnsigned E version p) ''Signature'' (je_bytes E (unst_signature p))"

definition Unstake_FromJson :: "'j json_env \<Rightarrow> u8 \<Rightarrow> 'j \<Rightarrow> Unstake \<Rightarrow> Unstake outcome" where
  "Unstake_FromJson E version j old =
     obind (Unstake_FromJsonUnsigned E version j old) (\<lambda>p.
     obind (obind (json_at E j ''Signature'') (json_as_bytes E)) (\<lambda>signature. Ret (p\<lparr>unst_signature := signature\<rparr>)))"

interpretation unstake_json: json_form Unstake_Serialize "Unstake_ToJson E" "Unstake_FromJson E" Unstake_new
    "\<lambda>_ _. json_env_ok E" for E
  by unfold_locales (simp add: Unstake_ToJson_def Unstake_FromJson_def Unstake_ToJsonUnsigned_def Unstake_FromJsonUnsigned_def
      Let_def json_as_value_made Unstake_Serialize_def Unstake_SerializeUnsigned_def)

definition UnstakeRealWithdraw_ToJson :: "'j json_env \<Rightarrow> u8 \<Rightarrow> UnstakeRealWithdraw \<Rightarrow> 'j" where
  "UnstakeRealWithdraw_ToJson E version p =
     (let j = je_null E;
          j = je_set E j ''RetVotesTxHash'' (je_u256 E (usrw_retVotesTxHash p));
          j = je_set E j ''StakeAddress'' (je_address E (Address_of_hash (usrw_stakeAddress p)));
          j = je_set E j ''Value'' (je_str E (dec_text (unat (usrw_value p))))
      in j)"

definition UnstakeRealWithdraw_FromJson ::
    "'j json_env \<Rightarrow> u8 \<Rightarrow> 'j \<Rightarrow> UnstakeRealWithdraw \<Rightarrow> UnstakeRealWithdraw outcome" where
  "UnstakeRealWithdraw_FromJson E version j p =
     obind (obind (json_at E j ''RetVotesTxHash'') (json_as_u256 E)) (\<lambda>retVotesTxHash.
     obind (obind (json_at E j ''StakeAddress'') (json_as_address E)) (\<lambda>a.
     obind (obind (json_at E j ''Value'') (json_as_value E)) (\<lambda>value.
       Ret (p\<lparr>usrw_retVotesTxHash := retVotesTxHash, usrw_stakeAddress := addr_programHash a, usrw_value := value\<rparr>))))"

interpretation unstake_real_json: json_form UnstakeRealWithdraw_Serialize "UnstakeRealWithdraw_ToJson E"
    "UnstakeRealWithdraw_FromJson E" UnstakeRealWithdraw_new "\<lambda>_ _. json_env_ok E" for E
  by unfold_locales (simp add: UnstakeRealWithdraw_ToJson_def UnstakeRealWithdraw_FromJson_def Let_def json_as_value_made
      UnstakeRealWithdraw_Serialize_def)

definition CancelVotes_ToJson :: "'j json_env \<Rightarrow> u8 \<Rightarrow> CancelVotes \<Rightarrow> 'j" where
  "CancelVotes_ToJson E version p =
     je_set E (je_null E) ''ReferKeys'' (je_arr E (map (je_u256 E) (cv_referKeys p)))"

definition CancelVotes_FromJson :: "'j json_env \<Rightarrow> u8 \<Rightarrow> 'j \<Rightarrow> CancelVotes \<Rightarrow> CancelVotes outcome" where
  "CancelVotes_FromJson E version j p =
     obind (obind (json_at E j ''ReferKeys'') (json_as_arr E)) (\<lambda>keys.
     obind (map_outcome (json_as_u256 E) keys) (\<lambda>referKeys. Ret (p\<lparr>cv_referKeys := referKeys\<rparr>)))"

interpretation cancel_votes_json: json_form CancelVotes_Serialize "CancelVotes_ToJson E" "CancelVotes_FromJson E" CancelVotes_new
    "\<lambda>_ _. json_env_ok E" for E
  by unfold_locales (simp add: CancelVotes_ToJson_def CancelVotes_FromJson_def map_outcome_same CancelVotes_Serialize_def)

definition DPoSV2ClaimReward_ToJsonUnsigned :: "'j json_env \<Rightarrow> u8 \<Rightarrow> DPoSV2ClaimReward \<Rightarrow> 'j" where
  "DPoSV2ClaimReward_ToJsonUnsigned E version p =
     je_set E (je_null E) ''Amount'' (je_dec E (BigInt_setUint64 (claim_amount p)))"

definition DPoSV2ClaimReward_FromJsonUnsigned ::
    "'j json_env \<Rightarrow> u8 \<Rightarrow> 'j \<Rightarrow> DPoSV2ClaimReward \<Rightarrow> DPoSV2ClaimReward outcome" where
  "DPoSV2ClaimReward_FromJsonUnsigned E version j p =
     obind (obind (json_index E j ''Amount'') (json_as_value E)) (\<lambda>amount. Ret (p\<lparr>claim_amount := amount\<rparr>))"

definition DPoSV2ClaimReward_ToJson :: "'j json_env \<Rightarrow> u8 \<Rightarrow> DPoSV2ClaimReward \<Rightarrow> 'j" where
  "DPoSV2ClaimReward_ToJson E version p =
     je_set E (DPoSV2ClaimReward_ToJsonUnsigned E version p) ''Signature'' (je_bytes E (claim_signature p))"

definition DPoSV2ClaimReward_FromJson ::
    "'j json_env \<Rightarrow> u8 \<Rightarrow> 'j \<Rightarrow> DPoSV2ClaimReward \<Rightarrow> DPoSV2ClaimReward outcome" where
  "DPoSV2ClaimReward_FromJson E version j old =
     obind (DPoSV2ClaimReward_FromJsonUnsigned E version j old) (\<lambda>p.
     obind (json_bytes E j ''Signature'') (\<lambda>signature. Ret (p\<lparr>claim_signature := signature\<rparr>)))"

interpretation claim_reward_json: json_form DPoSV2ClaimReward_Serialize "DPoSV2ClaimReward_ToJson E"
    "DPoSV2ClaimReward_FromJson E" DPoSV2ClaimReward_new "\<lambda>_ _. json_env_ok E" for E
  by unfold_locales (simp add: DPoSV2ClaimReward_ToJson_def DPoSV2ClaimReward_FromJson_def DPoSV2ClaimReward_ToJsonUnsigned_def
      DPoSV2ClaimReward_FromJsonUnsigned_def json_as_value_made DPoSV2ClaimReward_Serialize_def
      DPoSV2ClaimReward_SerializeUnsigned_def)

definition DPoSV2ClaimRewardRealWithdraw_ToJson :: "'j json_env \<Rightarrow> u8 \<Rightarrow> DPoSV2ClaimRewardRealWithdraw \<Rightarrow> 'j" where
  "DPoSV2ClaimRewardRealWithdraw_ToJson E version p =
     je_set E (je_null E) ''WithdrawTxHashes'' (json_pushed E (map (je_u256 E) (crw_withdrawTxHashes p)))"

definition DPoSV2ClaimRewardRealWithdraw_FromJson ::
    "'j json_env \<Rightarrow> u8 \<Rightarrow> 'j \<Rightarrow> DPoSV2ClaimRewardRealWithdraw \<Rightarrow> DPoSV2ClaimRewardRealWithdraw outcome" where
  "DPoSV2ClaimRewardRealWithdraw_FromJson E version j p =
     obind (json_index E j ''WithdrawTxHashes'') (\<lambda>hashes.
     obind (map_outcome (json_as_u256 E) (je_elems E hashes)) (\<lambda>withdrawTxHashes.
       Ret (p\<lparr>crw_withdrawTxHashes := withdrawTxHashes\<rparr>)))"

interpretation claim_real_json: json_form DPoSV2ClaimRewardRealWithdraw_Serialize "DPoSV2ClaimRewardRealWithdraw_ToJson E"
    "DPoSV2ClaimRewardRealWithdraw_FromJson E" DPoSV2ClaimRewardRealWithdraw_new "\<lambda>_ _. json_env_ok E" for E
  by unfold_locales (simp add: DPoSV2ClaimRewardRealWithdraw_ToJson_def DPoSV2ClaimRewardRealWithdraw_FromJson_def map_outcome_same
      DPoSV2ClaimRewardRealWithdraw_Serialize_def)

definition VotesWithLockTime_ToJson :: "'j json_env \<Rightarrow> VotesWithLockTime \<Rightarrow> 'j" where
  "VotesWithLockTime_ToJson E v =
     (let j = je_null E;
          j = je_set E j ''Candidate'' (je_bytes E (vl_candidate v));
          j = je_set E j ''Votes'' (je_word E (vl_votes v));
          j = je_set E j ''Locktime'' (je_word E (vl_lockTime v))
      in j)"

definition VotesWithLockTime_FromJson :: "'j json_env \<Rightarrow> 'j \<Rightarrow> VotesWithLockTime \<Rightarrow> VotesWithLockTime outcome" where
  "VotesWithLockTime_FromJson E j v =
     obind (obind (json_at E j ''Candidate'') (json_as_bytes E)) (\<lambda>candidate.
     obind (obind (json_at E j ''Votes'') (json_as_word E)) (\<lambda>votes.
     obind (obind (json_at E j ''Locktime'') (json_as_word E)) (\<lambda>lockTime.
       Ret (v\<lparr>vl_candidate := candidate, vl_votes := votes, vl_lockTime := lockTime\<rparr>))))"

definition VotesContent_ToJson :: "'j json_env \<Rightarrow> VotesContent \<Rightarrow> 'j" where
  "VotesContent_ToJson E vc =
     (let j = je_null E;
          j = je_set E j ''VoteType'' (je_word E (vc_voteType vc));
          j = je_set E j ''VotesInfo'' (je_arr E (map (VotesWithLockTime_ToJson E) (vc_votesInfo vc)))
      in j)"

definition VotesContent_FromJson :: "'j json_env \<Rightarrow> 'j \<Rightarrow> VotesContent \<Rightarrow> VotesContent outcome" where
  "VotesContent_FromJson E j vc =
     obind (obind (json_at E j ''VoteType'') (json_as_word E)) (\<lambda>voteType.
     obind (obind (json_at E j ''VotesInfo'') (json_as_arr E)) (\<lambda>js.
     obind (map_outcome (\<lambda>j. VotesWithLockTime_FromJson E j VotesWithLockTime_new) js) (\<lambda>votesInfo.
       Ret (vc\<lparr>vc_voteType := voteType, vc_votesInfo := votesInfo\<rparr>))))"

definition RenewalVotesContent_ToJson :: "'j json_env \<Rightarrow> RenewalVotesContent \<Rightarrow> 'j" where
  "RenewalVotesContent_ToJson E rvc =
     (let j = je_null E;
          j = je_set E j ''ReferKey'' (je_u256 E (rvc_referKey rvc));
          j = je_set E j ''VoteInfo'' (VotesWithLockTime_ToJson E (rvc_voteInfo rvc))
      in j)"

definition RenewalVotesContent_FromJson :: "'j json_env \<Rightarrow> 'j \<Rightarrow> RenewalVotesContent \<Rightarrow> RenewalVotesContent outcome" where
  "RenewalVotesContent_FromJson E j rvc =
     obind (obind (json_at E j ''ReferKey'') (json_as_u256 E)) (\<lambda>referKey.
     obind (json_at E j ''VoteInfo'') (\<lambda>jv.
     obind (VotesWithLockTime_FromJson E jv (rvc_voteInfo rvc)) (\<lambda>voteInfo.
       Ret (rvc\<lparr>rvc_referKey := referKey, rvc_voteInfo := voteInfo\<rparr>))))"

definition Voting_ToJson :: "'j json_env \<Rightarrow> u8 \<Rightarrow> Voting \<Rightarrow> 'j" where
  "Voting_ToJson E version p =
     (if version = VoteVersion
      then je_set E (je_null E) ''Contents'' (je_arr E (map (VotesContent_ToJson E) (voting_contents p)))
      else if version = RenewalVoteVersion
      then je_set E (je_null E) ''RenewalVotesContent'' (je_arr E (map (RenewalVotesContent_ToJson E) (voting_renewal p)))
      else je_null E)"

definition Voting_FromJson :: "'j json_env \<Rightarrow> u8 \<Rightarrow> 'j \<Rightarrow> Voting \<Rightarrow> Voting outcome" where
  "Voting_FromJson E version j p =
     (if version = VoteVersion
      then obind (obind (json_at E j ''Contents'') (json_as_arr E)) (\<lambda>js.
           obind (map_outcome (\<lambda>j. VotesContent_FromJson E j VotesContent_new) js) (\<lambda>contents.
             Ret (p\<lparr>voting_contents := contents\<rparr>)))
      else if version = RenewalVoteVersion
      then obind (obind (json_at E j ''RenewalVotesContent'') (json_as_arr E)) (\<lambda>js.
           obind (map_outcome (\<lambda>j. RenewalVotesContent_FromJson E j RenewalVotesContent_new) js) (\<lambda>renewal.
             Ret (p\<lparr>voting_renewal := renewal\<rparr>)))
      else Ret p)"

lemma VotesWithLockTime_json: "json_env_ok E \<Longrightarrow> VotesWithLockTime_FromJson E (VotesWithLockTime_ToJson E v) old = Ret v"
  by (simp add: VotesWithLockTime_FromJson_def VotesWithLockTime_ToJson_def Let_def)

lemma VotesContent_json: "json_env_ok E \<Longrightarrow> VotesContent_FromJson E (VotesContent_ToJson E v) old = Ret v"
  by (simp add: VotesContent_FromJson_def VotesContent_ToJson_def Let_def map_outcome_same VotesWithLockTime_json)

lemma RenewalVotesContent_json: "json_env_ok E \<Longrightarrow> RenewalVotesContent_FromJson E (RenewalVotesContent_ToJson E v) old = Ret v"
  by (simp add: RenewalVotesContent_FromJson_def RenewalVotesContent_ToJson_def Let_def VotesWithLockTime_json)

interpretation voting_json: json_form Voting_Serialize "Voting_ToJson E" "Voting_FromJson E" Voting_new
    "\<lambda>_ _. json_env_ok E" for E
  by unfold_locales (simp add: Voting_ToJson_def Voting_FromJson_def map_outcome_same VotesContent_json RenewalVotesContent_json
      Voting_Serialize_def)

section \<open>Payloads of the council\<close>

definition CRInfo_ToJson :: "'j json_env \<Rightarrow> u8 \<Rightarrow> CRInfo \<Rightarrow> 'j" where
  "CRInfo_ToJson E version p =
     (let j = je_null E;
          j = je_set E j ''Code'' (je_bytes E (cri_code p));
          j = je_set E j ''CID'' (je_address E (Address_of_hash (cri_cid p)));
          j = je_set E j ''DID'' (je_address E (Address_of_hash (cri_did p)));
          j = je_set E j ''NickName'' (je_str E (cri_nickName p));
          j = je_set E j ''Url'' (je_str E (cri_url p));
          j = je_set E j ''Location'' (je_word E (cri_location p));
          j = je_set E j ''Signature'' (je_bytes E (cri_signature p))
      in j)"

definition CRInfo_FromJson :: "'j json_env \<Rightarrow> u8 \<Rightarrow> 'j \<Rightarrow> CRInfo \<Rightarrow> CRInfo outcome" where
  "CRInfo_FromJson E version j p =
     obind (json_bytes E j ''Code'') (\<lambda>code.
     obind (json_address E j ''CID'') (\<lambda>cid.
     obind (json_address E j ''DID'') (\<lambda>did.
     obind (json_str E j ''NickName'') (\<lambda>nickName.
     obind (json_str E j ''Url'') (\<lambda>url.
     obind (json_word E j ''Location'') (\<lambda>location.
     obind (json_bytes E j ''Signature'') (\<lambda>signature.
       Ret (p\<lparr>cri_code := code, cri_cid := addr_programHash cid, cri_did := addr_programHash did,
          cri_nickName := nickName, cri_url := url, cri_location := location,
          cri_signature := signature\<rparr>))))))))"

interpretation cr_info_json: json_form CRInfo_Serialize "CRInfo_ToJson E" "CRInfo_FromJson E" CRInfo_new "\<lambda>_ _. json_env_ok E" for E
  by unfold_locales (simp add: CRInfo_ToJson_def CRInfo_FromJson_def Let_def CRInfo_Serialize_def CRInfo_SerializeUnsigned_def)

definition UnregisterCR_ToJson :: "'j json_env \<Rightarrow> u8 \<Rightarrow> UnregisterCR \<Rightarrow> 'j" where
  "UnregisterCR_ToJson E version p =
     (let j = je_null E;
          j = je_set E j ''CID'' (je_address E (Address_of_hash (ucr_cid p)));
          j = je_set E j ''Signature'' (je_bytes E (ucr_signature p))
      in j)"

definition UnregisterCR_FromJson :: "'j json_env \<Rightarrow> u8 \<Rightarrow> 'j \<Rightarrow> UnregisterCR \<Rightarrow> UnregisterCR outcome" where
  "UnregisterCR_FromJson E version j p =
     obind (json_address E j ''CID'') (\<lambda>cid.
     obind (json_bytes E j ''Signature'') (\<lambda>signature.
       Ret (p\<lparr>ucr_cid := addr_programHash cid, ucr_signature := signature\<rparr>)))"

interpretation unregister_cr_json: json_form UnregisterCR_Serialize "UnregisterCR_ToJson E" "UnregisterCR_FromJson E" UnregisterCR_new "\<lambda>_ _. json_env_ok E" for E
  by unfold_locales (simp add: UnregisterCR_ToJson_def UnregisterCR_FromJson_def Let_def UnregisterCR_Serialize_def UnregisterCR_SerializeUnsigned_def)

definition CRCAppropriation_ToJson :: "'j json_env \<Rightarrow> u8 \<Rightarrow> CRCAppropriation \<Rightarrow> 'j" where
  "CRCAppropriation_ToJson E version p = je_null E"

definition CRCAppropriation_FromJson :: "'j json_env \<Rightarrow> u8 \<Rightarrow> 'j \<Rightarrow> CRCAppropriation \<Rightarrow> CRCAppropriation outcome" where
  "CRCAppropriation_FromJson E version j p = Ret p"

interpretation crc_appropriation_json: json_form CRCAppropriation_Serialize "CRCAppropriation_ToJson E" "CRCAppropriation_FromJson E" CRCAppropriation_new "\<lambda>_ _. True" for E
  by unfold_locales (simp add: CRCAppropriation_FromJson_def, metis (full_types) CRCAppropriation.exhaust)

definition CRCAssetsRectify_ToJson :: "'j json_env \<Rightarrow> u8 \<Rightarrow> CRCAssetsRectify \<Rightarrow> 'j" where
  "CRCAssetsRectify_ToJson E version p = je_null E"

definition CRCAssetsRectify_FromJson :: "'j json_env \<Rightarrow> u8 \<Rightarrow> 'j \<Rightarrow> CRCAssetsRectify \<Rightarrow> CRCAssetsRectify outcome" where
  "CRCAssetsRectify_FromJson E version j p = Ret p"

interpretation crc_rectify_json: json_form CRCAssetsRectify_Serialize "CRCAssetsRectify_ToJson E" "CRCAssetsRectify_FromJson E" CRCAssetsRectify_new "\<lambda>_ _. True" for E
  by unfold_locales (simp add: CRCAssetsRectify_FromJson_def, metis (full_types) CRCAssetsRectify.exhaust)

text \<open>Here a value that is not an array is refused in silence.\<close>

definition CRCProposalRealWithdraw_ToJson :: "'j json_env \<Rightarrow> u8 \<Rightarrow> CRCProposalRealWithdraw \<Rightarrow> 'j" where
  "CRCProposalRealWithdraw_ToJson E version p =
     je_set E (je_null E) ''WithdrawTxHashes'' (je_arr E (map (je_u256 E) (prw_withdrawTxHashes p)))"

definition CRCProposalRealWithdraw_FromJson ::
    "'j json_env \<Rightarrow> u8 \<Rightarrow> 'j \<Rightarrow> CRCProposalRealWithdraw \<Rightarrow> CRCProposalRealWithdraw outcome" where
  "CRCProposalRealWithdraw_FromJson E version j p =
     obind (json_index E j ''WithdrawTxHashes'') (\<lambda>jarray.
       if \<not> je_is_array E jarray then Ret p
       else obind (map_outcome (json_as_u256 E) (je_elems E jarray)) (\<lambda>withdrawTxHashes.
              Ret (p\<lparr>prw_withdrawTxHashes := withdrawTxHashes\<rparr>)))"

interpretation proposal_real_json: json_form CRCProposalRealWithdraw_Serialize "CRCProposalRealWithdraw_ToJson E"
    "CRCProposalRealWithdraw_FromJson E" CRCProposalRealWithdraw_new "\<lambda>_ _. json_env_ok E" for E
  by unfold_locales (simp add: CRCProposalRealWithdraw_ToJson_def CRCProposalRealWithdraw_FromJson_def map_outcome_same
      CRCProposalRealWithdraw_Serialize_def)

definition CRCouncilMemberClaimNode_ToJsonUnsigned :: "'j json_env \<Rightarrow> u8 \<Rightarrow> CRCouncilMemberClaimNode \<Rightarrow> 'j" where
  "CRCouncilMemberClaimNode_ToJsonUnsigned E version p =
     (let j = je_null E;
          j = je_set E j ''NodePublicKey'' (je_bytes E (cmcn_nodePublicKey p));
          j = je_set E j ''CRCouncilMemberDID'' (je_address E (cmcn_crCouncilMemberDID p))
      in j)"

definition CRCouncilMemberClaimNode_FromJsonUnsigned :: "'j json_env \<Rightarrow> u8 \<Rightarrow> 'j \<Rightarrow> CRCouncilMemberClaimNode \<Rightarrow> CRCouncilMemberClaimNode outcome" where
  "CRCouncilMemberClaimNode_FromJsonUnsigned E version j p =
     obind (json_bytes E j ''NodePublicKey'') (\<lambda>nodePublicKey.
     obind (json_address E j ''CRCouncilMemberDID'') (\<lambda>crCouncilMemberDID.
       Ret (p\<lparr>cmcn_nodePublicKey := nodePublicKey, cmcn_crCouncilMemberDID := crCouncilMemberDID\<rparr>)))"

definition CRCouncilMemberClaimNode_ToJson :: "'j json_env \<Rightarrow> u8 \<Rightarrow> CRCouncilMemberClaimNode \<Rightarrow> 'j" where
  "CRCouncilMemberClaimNode_ToJson E version p =
     (let j = CRCouncilMemberClaimNode_ToJsonUnsigned E version p;
          j = je_set E j ''CRCouncilMemberSignature'' (je_bytes E (cmcn_crCouncilMemberSignature p))
      in j)"

definition CRCouncilMemberClaimNode_FromJson :: "'j json_env \<Rightarrow> u8 \<Rightarrow> 'j \<Rightarrow> CRCouncilMemberClaimNode \<Rightarrow> CRCouncilMemberClaimNode outcome" where
  "CRCouncilMemberClaimNode_FromJson E version j old =
     obind (CRCouncilMemberClaimNode_FromJsonUnsigned E version j old) (\<lambda>p.
     obind (json_bytes E j ''CRCouncilMemberSignature'') (\<lambda>crCouncilMemberSignature.
       Ret (p\<lparr>cmcn_crCouncilMemberSignature := crCouncilMemberSignature\<rparr>)))"

lemmas claim_node_json_defs = CRCouncilMemberClaimNode_ToJson_def CRCouncilMemberClaimNode_FromJson_def
  CRCouncilMemberClaimNode_ToJsonUnsigned_def CRCouncilMemberClaimNode_FromJsonUnsigned_def

interpretation claim_node_json: json_form CRCouncilMemberClaimNode_Serialize "CRCouncilMemberClaimNode_ToJson E"
    "CRCouncilMemberClaimNode_FromJson E" CRCouncilMemberClaimNode_new "\<lambda>_ _. json_env_ok E" for E
  by unfold_locales (simp add: claim_node_json_defs Let_def CRCouncilMemberClaimNode_Serialize_def
      CRCouncilMemberClaimNode_SerializeUnsigned_def)

text \<open>
  Texts that travel in full are checked against their hash when they are read: \<open>json_checked\<close> is the pair of
  \<open>CheckParam\<close> calls behind each of them.
\<close>

definition json_checked :: "'j json_env \<Rightarrow> nat \<Rightarrow> uint256 \<Rightarrow> bytes \<Rightarrow> bytes outcome" where
  "json_checked E limit hash data =
     (if length data > limit then Throw E_ProposalContentTooLarge
      else if je_sha256_2 E data \<noteq> hash then Throw E_ProposalHashNotMatch
      else Ret data)"

definition json_matches :: "'j json_env \<Rightarrow> nat \<Rightarrow> uint256 \<Rightarrow> bytes \<Rightarrow> bool" where
  "json_matches E limit hash data \<longleftrightarrow> length data \<le> limit \<and> je_sha256_2 E data = hash"

lemma json_checked_Ret [simp]: "json_checked E limit hash data = Ret data' \<longleftrightarrow> data' = data \<and> json_matches E limit hash data"
  by (auto simp: json_checked_def json_matches_def)

definition OPINION_DATA_MAX_SIZE :: nat where "OPINION_DATA_MAX_SIZE = 1024 * 1024"
definition MESSAGE_DATA_MAX_SIZE :: nat where "MESSAGE_DATA_MAX_SIZE = 800 * 1024"
definition TRACKING_OPINION_DATA_MAX_SIZE :: nat where "TRACKING_OPINION_DATA_MAX_SIZE = 200 * 1024"

definition CRCProposalReview_ToJsonUnsigned :: "'j json_env \<Rightarrow> u8 \<Rightarrow> CRCProposalReview \<Rightarrow> 'j" where
  "CRCProposalReview_ToJsonUnsigned E version p =
     (let j = je_null E;
          j = je_set E j ''ProposalHash'' (je_u256 E (rev_proposalHash p));
          j = je_set E j ''VoteResult'' (je_word E (rev_voteResult p));
          j = je_set E j ''OpinionHash'' (je_u256 E (rev_opinionHash p));
          j = (if CRCProposalReviewVersion01 \<le> version then je_set E j ''OpinionData'' (je_bytes E (rev_opinionData p)) else j);
          j = je_set E j ''DID'' (je_address E (rev_did p))
      in j)"

definition CRCProposalReview_FromJsonUnsigned ::
    "'j json_env \<Rightarrow> u8 \<Rightarrow> 'j \<Rightarrow> CRCProposalReview \<Rightarrow> CRCProposalReview outcome" where
  "CRCProposalReview_FromJsonUnsigned E version j p =
     obind (json_u256 E j ''ProposalHash'') (\<lambda>proposalHash.
     obind (json_word E j ''VoteResult'') (\<lambda>voteResult.
     obind (json_u256 E j ''OpinionHash'') (\<lambda>opinionHash.
     obind (if CRCProposalReviewVersion01 \<le> version
            then obind (json_bytes E j ''OpinionData'') (json_checked E OPINION_DATA_MAX_SIZE opinionHash)
            else Ret (rev_opinionData p)) (\<lambda>opinionData.
     obind (json_address E j ''DID'') (\<lambda>did.
       Ret (p\<lparr>rev_proposalHash := proposalHash, rev_voteResult := voteResult, rev_opinionHash := opinionHash,
              rev_opinionData := opinionData, rev_did := did\<rparr>))))))"

definition CRCProposalReview_ToJson :: "'j json_env \<Rightarrow> u8 \<Rightarrow> CRCProposalReview \<Rightarrow> 'j" where
  "CRCProposalReview_ToJson E version p =
     (let j = CRCProposalReview_ToJsonUnsigned E version p;
          j = je_set E j ''Signature'' (je_bytes E (rev_signature p))
      in j)"

definition CRCProposalReview_FromJson :: "'j json_env \<Rightarrow> u8 \<Rightarrow> 'j \<Rightarrow> CRCProposalReview \<Rightarrow> CRCProposalReview outcome" where
  "CRCProposalReview_FromJson E version j old =
     obind (CRCProposalReview_FromJsonUnsigned E version j old) (\<lambda>p.
     obind (json_bytes E j ''Signature'') (\<lambda>signature.
       Ret (p\<lparr>rev_signature := signature\<rparr>)))"

lemmas proposal_review_json_defs = CRCProposalReview_ToJson_def CRCProposalReview_FromJson_def
  CRCProposalReview_ToJsonUnsigned_def CRCProposalReview_FromJsonUnsigned_def

interpretation proposal_review_json: json_form CRCProposalReview_Serialize "CRCProposalReview_ToJson E"
    "CRCProposalReview_FromJson E" CRCProposalReview_new
    "\<lambda>v p. json_env_ok E \<and> (CRCProposalReviewVersion01 \<le> v \<longrightarrow>
       json_matches E OPINION_DATA_MAX_SIZE (rev_opinionHash p) (rev_opinionData p))" for E
proof unfold_locales
  fix v :: u8 and p :: CRCProposalReview
  assume v: "json_env_ok E \<and> (CRCProposalReviewVersion01 \<le> v \<longrightarrow>
    json_matches E OPINION_DATA_MAX_SIZE (rev_opinionHash p) (rev_opinionData p))"
  then have "json_checked E OPINION_DATA_MAX_SIZE (rev_opinionHash p) (rev_opinionData p) = Ret (rev_opinionData p)"
    if "CRCProposalReviewVersion01 \<le> v" using that by simp
  with v show "\<exists>p'. CRCProposalReview_FromJson E v (CRCProposalReview_ToJson E v p) CRCProposalReview_new = Ret p' \<and>
    CRCProposalReview_Serialize v p' = CRCProposalReview_Serialize v p"
    by (simp add: proposal_review_json_defs Let_def CRCProposalReview_Serialize_def CRCProposalReview_SerializeUnsigned_def
        del: json_checked_Ret)
qed

definition CRCProposalWithdraw_ToJsonUnsigned :: "'j json_env \<Rightarrow> u8 \<Rightarrow> CRCProposalWithdraw \<Rightarrow> 'j" where
  "CRCProposalWithdraw_ToJsonUnsigned E version p =
     (let j = je_null E;
          j = je_set E j ''ProposalHash'' (je_u256 E (pwd_proposalHash p));
          j = je_set E j ''OwnerPublicKey'' (je_bytes E (pwd_ownerPubkey p))
      in if version = CRCProposalWithdrawVersion_01
         then let j = je_set E j ''Recipient'' (je_address E (pwd_recipient p));
                  j = je_set E j ''Amount'' (je_dec E (pwd_amount p))
              in j
         else j)"

definition CRCProposalWithdraw_FromJsonUnsigned ::
    "'j json_env \<Rightarrow> u8 \<Rightarrow> 'j \<Rightarrow> CRCProposalWithdraw \<Rightarrow> CRCProposalWithdraw outcome" where
  "CRCProposalWithdraw_FromJsonUnsigned E version j p =
     obind (json_u256 E j ''ProposalHash'') (\<lambda>proposalHash.
     obind (json_bytes E j ''OwnerPublicKey'') (\<lambda>ownerPubkey.
     let p = p\<lparr>pwd_proposalHash := proposalHash, pwd_ownerPubkey := ownerPubkey\<rparr>
     in if version = CRCProposalWithdrawVersion_01
        then obind (json_address E j ''Recipient'') (\<lambda>recipient.
             obind (json_dec E j ''Amount'' (pwd_amount p)) (\<lambda>amount.
               Ret (p\<lparr>pwd_recipient := recipient, pwd_amount := amount\<rparr>)))
        else Ret p))"

definition CRCProposalWithdraw_ToJson :: "'j json_env \<Rightarrow> u8 \<Rightarrow> CRCProposalWithdraw \<Rightarrow> 'j" where
  "CRCProposalWithdraw_ToJson E version p =
     (let j = CRCProposalWithdraw_ToJsonUnsigned E version p;
          j = je_set E j ''Signature'' (je_bytes E (pwd_signature p))
      in j)"

definition CRCProposalWithdraw_FromJson :: "'j json_env \<Rightarrow> u8 \<Rightarrow> 'j \<Rightarrow> CRCProposalWithdraw \<Rightarrow> CRCProposalWithdraw outcome" where
  "CRCProposalWithdraw_FromJson E version j old =
     obind (CRCProposalWithdraw_FromJsonUnsigned E version j old) (\<lambda>p.
     obind (json_bytes E j ''Signature'') (\<lambda>signature.
       Ret (p\<lparr>pwd_signature := signature\<rparr>)))"

lemmas proposal_withdraw_json_defs = CRCProposalWithdraw_ToJson_def CRCProposalWithdraw_FromJson_def
  CRCProposalWithdraw_ToJsonUnsigned_def CRCProposalWithdraw_FromJsonUnsigned_def

interpretation proposal_withdraw_json: json_form CRCProposalWithdraw_Serialize "CRCProposalWithdraw_ToJson E"
    "CRCProposalWithdraw_FromJson E" CRCProposalWithdraw_new "\<lambda>_ _. json_env_ok E" for E
  by unfold_locales (simp add: proposal_withdraw_json_defs Let_def CRCProposalWithdraw_Serialize_def
      CRCProposalWithdraw_SerializeUnsigned_def)

definition CRCProposalTracking_ToJsonOwnerUnsigned :: "'j json_env \<Rightarrow> u8 \<Rightarrow> CRCProposalTracking \<Rightarrow> 'j" where
  "CRCProposalTracking_ToJsonOwnerUnsigned E version p =
     (let j = je_null E;
          j = je_set E j ''ProposalHash'' (je_u256 E (trk_proposalHash p));
          j = je_set E j ''MessageHash'' (je_u256 E (trk_messageHash p));
          j = (if CRCProposalTrackingVersion01 \<le> version then je_set E j ''MessageData'' (je_bytes E (trk_messageData p)) else j);
          j = je_set E j ''Stage'' (je_word E (trk_stage p));
          j = je_set E j ''OwnerPublicKey'' (je_bytes E (trk_ownerPubKey p));
          j = je_set E j ''NewOwnerPublicKey'' (je_bytes E (trk_newOwnerPubKey p))
      in j)"

definition CRCProposalTracking_FromJsonOwnerUnsigned ::
    "'j json_env \<Rightarrow> u8 \<Rightarrow> 'j \<Rightarrow> CRCProposalTracking \<Rightarrow> CRCProposalTracking outcome" where
  "CRCProposalTracking_FromJsonOwnerUnsigned E version j p =
     obind (json_u256 E j ''ProposalHash'') (\<lambda>proposalHash.
     obind (json_u256 E j ''MessageHash'') (\<lambda>messageHash.
     obind (if CRCProposalTrackingVersion01 \<le> version
            then obind (json_bytes E j ''MessageData'') (json_checked E MESSAGE_DATA_MAX_SIZE messageHash)
            else Ret (trk_messageData p)) (\<lambda>messageData.
     obind (json_word E j ''Stage'') (\<lambda>stage.
     obind (json_bytes E j ''OwnerPublicKey'') (\<lambda>ownerPubKey.
     obind (json_bytes E j ''NewOwnerPublicKey'') (\<lambda>newOwnerPubKey.
       Ret (p\<lparr>trk_proposalHash := proposalHash, trk_messageHash := messageHash, trk_messageData := messageData,
              trk_stage := stage, trk_ownerPubKey := ownerPubKey, trk_newOwnerPubKey := newOwnerPubKey\<rparr>)))))))"

definition CRCProposalTracking_ToJsonNewOwnerUnsigned :: "'j json_env \<Rightarrow> u8 \<Rightarrow> CRCProposalTracking \<Rightarrow> 'j" where
  "CRCProposalTracking_ToJsonNewOwnerUnsigned E version p =
     (let j = CRCProposalTracking_ToJsonOwnerUnsigned E version p;
          j = je_set E j ''OwnerSignature'' (je_bytes E (trk_ownerSign p))
      in j)"

definition CRCProposalTracking_FromJsonNewOwnerUnsigned :: "'j json_env \<Rightarrow> u8 \<Rightarrow> 'j \<Rightarrow> CRCProposalTracking \<Rightarrow> CRCProposalTracking outcome" where
  "CRCProposalTracking_FromJsonNewOwnerUnsigned E version j old =
     obind (CRCProposalTracking_FromJsonOwnerUnsigned E version j old) (\<lambda>p.
     obind (json_bytes E j ''OwnerSignature'') (\<lambda>ownerSign.
       Ret (p\<lparr>trk_ownerSign := ownerSign\<rparr>)))"

definition CRCProposalTracking_ToJsonSecretaryUnsigned :: "'j json_env \<Rightarrow> u8 \<Rightarrow> CRCProposalTracking \<Rightarrow> 'j" where
  "CRCProposalTracking_ToJsonSecretaryUnsigned E version p =
     (let j = CRCProposalTracking_ToJsonNewOwnerUnsigned E version p;
          j = je_set E j ''NewOwnerSignature'' (je_bytes E (trk_newOwnerSign p));
          j = je_set E j ''Type'' (je_word E (trk_trackingType p));
          j = je_set E j ''SecretaryGeneralOpinionHash'' (je_u256 E (trk_secretaryGeneralOpinionHash p));
          j = (if CRCProposalTrackingVersion01 \<le> version
               then je_set E j ''SecretaryGeneralOpinionData'' (je_bytes E (trk_secretaryGeneralOpinionData p)) else j)
      in j)"

definition CRCProposalTracking_FromJsonSecretaryUnsigned ::
    "'j json_env \<Rightarrow> u8 \<Rightarrow> 'j \<Rightarrow> CRCProposalTracking \<Rightarrow> CRCProposalTracking outcome" where
  "CRCProposalTracking_FromJsonSecretaryUnsigned E version j old =
     obind (CRCProposalTracking_FromJsonNewOwnerUnsigned E version j old) (\<lambda>p.
     obind (json_bytes E j ''NewOwnerSignature'') (\<lambda>newOwnerSign.
     obind (json_word E j ''Type'') (\<lambda>type.
     obind (json_u256 E j ''SecretaryGeneralOpinionHash'') (\<lambda>opinionHash.
     obind (if CRCProposalTrackingVersion01 \<le> version
            then obind (json_bytes E j ''SecretaryGeneralOpinionData'')
                   (json_checked E TRACKING_OPINION_DATA_MAX_SIZE opinionHash)
            else Ret (trk_secretaryGeneralOpinionData p)) (\<lambda>opinionData.
       Ret (p\<lparr>trk_newOwnerSign := newOwnerSign, trk_trackingType := type,
              trk_secretaryGeneralOpinionHash := opinionHash, trk_secretaryGeneralOpinionData := opinionData\<rparr>))))))"

definition CRCProposalTracking_ToJson :: "'j json_env \<Rightarrow> u8 \<Rightarrow> CRCProposalTracking \<Rightarrow> 'j" where
  "CRCProposalTracking_ToJson E version p =
     (let j = CRCProposalTracking_ToJsonSecretaryUnsigned E version p;
          j = je_set E j ''SecretaryGeneralSignature'' (je_bytes E (trk_secretaryGeneralSignature p))
      in j)"

definition CRCProposalTracking_FromJson :: "'j json_env \<Rightarrow> u8 \<Rightarrow> 'j \<Rightarrow> CRCProposalTracking \<Rightarrow> CRCProposalTracking outcome" where
  "CRCProposalTracking_FromJson E version j old =
     obind (CRCProposalTracking_FromJsonSecretaryUnsigned E version j old) (\<lambda>p.
     obind (json_bytes E j ''SecretaryGeneralSignature'') (\<lambda>secretaryGeneralSignature.
       Ret (p\<lparr>trk_secretaryGeneralSignature := secretaryGeneralSignature\<rparr>)))"

lemmas proposal_tracking_json_defs = CRCProposalTracking_ToJson_def CRCProposalTracking_FromJson_def
  CRCProposalTracking_ToJsonSecretaryUnsigned_def CRCProposalTracking_FromJsonSecretaryUnsigned_def
  CRCProposalTracking_ToJsonNewOwnerUnsigned_def CRCProposalTracking_FromJsonNewOwnerUnsigned_def
  CRCProposalTracking_ToJsonOwnerUnsigned_def CRCProposalTracking_FromJsonOwnerUnsigned_def

lemmas proposal_tracking_wire_defs = CRCProposalTracking_Serialize_def CRCProposalTracking_SerializeSecretaryUnsigned_def
  CRCProposalTracking_SerializeNewOwnerUnsigned_def CRCProposalTracking_SerializeOwnerUnsigned_def

interpretation proposal_tracking_json: json_form CRCProposalTracking_Serialize "CRCProposalTracking_ToJson E"
    "CRCProposalTracking_FromJson E" CRCProposalTracking_new
    "\<lambda>v p. json_env_ok E \<and> (CRCProposalTrackingVersion01 \<le> v \<longrightarrow>
       json_matches E MESSAGE_DATA_MAX_SIZE (trk_messageHash p) (trk_messageData p) \<and>
       json_matches E TRACKING_OPINION_DATA_MAX_SIZE (trk_secretaryGeneralOpinionHash p)
         (trk_secretaryGeneralOpinionData p))" for E
proof unfold_locales
  fix v :: u8 and p :: CRCProposalTracking
  assume v: "json_env_ok E \<and> (CRCProposalTrackingVersion01 \<le> v \<longrightarrow>
    json_matches E MESSAGE_DATA_MAX_SIZE (trk_messageHash p) (trk_messageData p) \<and>
    json_matches E TRACKING_OPINION_DATA_MAX_SIZE (trk_secretaryGeneralOpinionHash p) (trk_secretaryGeneralOpinionData p))"
  then have "json_checked E MESSAGE_DATA_MAX_SIZE (trk_messageHash p) (trk_messageData p) = Ret (trk_messageData p)"
    and "json_checked E TRACKING_OPINION_DATA_MAX_SIZE (trk_secretaryGeneralOpinionHash p)
      (trk_secretaryGeneralOpinionData p) = Ret (trk_secretaryGeneralOpinionData p)"
    if "CRCProposalTrackingVersion01 \<le> v" using that by simp_all
  with v show "\<exists>p'. CRCProposalTracking_FromJson E v (CRCProposalTracking_ToJson E v p) CRCProposalTracking_new = Ret p' \<and>
    CRCProposalTracking_Serialize v p' = CRCProposalTracking_Serialize v p"
    by (simp add: proposal_tracking_json_defs Let_def proposal_tracking_wire_defs del: json_checked_Ret)
qed

end
