(* ===== verification/CRCProposalJson.thy ===== *)
theory CRCProposalJson
  imports PayloadJson
begin

text \<open>
  The JSON forms of \<open>Payload/CRCProposal.cpp\<close>: what an owner and a council member of every kind of proposal
  sign, and the whole payload.  The draft travels in hexadecimal from the first version on and is checked against
  its hash when it is read.
\<close>

section \<open>The parts\<close>

definition Budget_ToJson :: "'j json_env \<Rightarrow> Budget \<Rightarrow> 'j" where
  "Budget_ToJson E p =
     (let j = je_null E;
          j = je_set E j ''Type'' (je_word E (bud_type p));
          j = je_set E j ''Stage'' (je_word E (bud_stage p));
          j = je_set E j ''Amount'' (je_dec E (bud_amount p))
      in j)"

definition Budget_FromJson :: "'j json_env \<Rightarrow> 'j \<Rightarrow> Budget \<Rightarrow> Budget outcome" where
  "Budget_FromJson E j p =
     obind (json_word E j ''Type'') (\<lambda>type.
     obind (json_word E j ''Stage'') (\<lambda>stage.
     obind (json_dec E j ''Amount'' (bud_amount p)) (\<lambda>amount.
       Ret (p\<lparr>bud_type := type, bud_stage := stage, bud_amount := amount\<rparr>))))"

definition UpgradeCodeInfo_ToJson :: "'j json_env \<Rightarrow> u8 \<Rightarrow> UpgradeCodeInfo \<Rightarrow> 'j" where
  "UpgradeCodeInfo_ToJson E version p =
     (let j = je_null E;
          j = je_set E j ''WorkingHeight'' (je_word E (uci_workingHeight p));
          j = je_set E j ''NodeVersion'' (je_str E (uci_nodeVersion p));
          j = je_set E j ''NodeDownloadUrl'' (je_str E (uci_nodeDownloadUrl p));
          j = je_set E j ''NodeBinHash'' (je_u256 E (uci_nodeBinHash p));
          j = je_set E j ''Force'' (je_bool E (uci_force p))
      in j)"

definition UpgradeCodeInfo_FromJson :: "'j json_env \<Rightarrow> u8 \<Rightarrow> 'j \<Rightarrow> UpgradeCodeInfo \<Rightarrow> UpgradeCodeInfo outcome" where
  "UpgradeCodeInfo_FromJson E version j p =
     obind (json_word E j ''WorkingHeight'') (\<lambda>workingHeight.
     obind (json_str E j ''NodeVersion'') (\<lambda>nodeVersion.
     obind (json_str E j ''NodeDownloadUrl'') (\<lambda>nodeDownloadUrl.
     obind (json_u256 E j ''NodeBinHash'') (\<lambda>nodeBinHash.
     obind (json_bool E j ''Force'') (\<lambda>force.
       Ret (p\<lparr>uci_workingHeight := workingHeight, uci_nodeVersion := nodeVersion,
          uci_nodeDownloadUrl := nodeDownloadUrl, uci_nodeBinHash := nodeBinHash,
          uci_force := force\<rparr>))))))"

definition SideChainInfo_ToJson :: "'j json_env \<Rightarrow> u8 \<Rightarrow> SideChainInfo \<Rightarrow> 'j" where
  "SideChainInfo_ToJson E version p =
     (let j = je_null E;
          j = je_set E j ''SideChainName'' (je_str E (sci_sideChainName p));
          j = je_set E j ''MagicNumber'' (je_word E (sci_magicNumber p));
          j = je_set E j ''GenesisHash'' (je_u256 E (sci_genesisHash p));
          j = je_set E j ''ExchangeRate'' (je_word E (sci_exchangeRate p));
          j = je_set E j ''EffectiveHeight'' (je_word E (sci_effectiveHeight p));
          j = je_set E j ''ResourcePath'' (je_str E (sci_resourcePath p))
      in j)"

definition SideChainInfo_FromJson :: "'j json_env \<Rightarrow> u8 \<Rightarrow> 'j \<Rightarrow> SideChainInfo \<Rightarrow> SideChainInfo outcome" where
  "SideChainInfo_FromJson E version j p =
     obind (json_str E j ''SideChainName'') (\<lambda>sideChainName.
     obind (json_word E j ''MagicNumber'') (\<lambda>magicNumber.
     obind (json_u256 E j ''GenesisHash'') (\<lambda>genesisHash.
     obind (json_word E j ''ExchangeRate'') (\<lambda>exchangeRate.
     obind (json_word E j ''EffectiveHeight'') (\<lambda>effectiveHeight.
     obind (json_str E j ''ResourcePath'') (\<lambda>resourcePath.
       Ret (p\<lparr>sci_sideChainName := sideChainName, sci_magicNumber := magicNumber,
          sci_genesisHash := genesisHash, sci_exchangeRate := exchangeRate,
          sci_effectiveHeight := effectiveHeight, sci_resourcePath := resourcePath\<rparr>)))))))"

definition CustomIDFeeRateInfo_ToJson :: "'j json_env \<Rightarrow> u8 \<Rightarrow> CustomIDFeeRateInfo \<Rightarrow> 'j" where
  "CustomIDFeeRateInfo_ToJson E version p =
     (let j = je_null E;
          j = je_set E j ''RateOfCustomIDFee'' (je_word E (cfi_rateOfCustomIDFee p));
          j = je_set E j ''EIDEffectiveHeight'' (je_word E (cfi_eIDEffectiveHeight p))
      in j)"

definition CustomIDFeeRateInfo_FromJson :: "'j json_env \<Rightarrow> u8 \<Rightarrow> 'j \<Rightarrow> CustomIDFeeRateInfo \<Rightarrow> CustomIDFeeRateInfo outcome" where
  "CustomIDFeeRateInfo_FromJson E version j p =
     obind (json_word E j ''RateOfCustomIDFee'') (\<lambda>rateOfCustomIDFee.
     obind (json_word E j ''EIDEffectiveHeight'') (\<lambda>eIDEffectiveHeight.
       Ret (p\<lparr>cfi_rateOfCustomIDFee := rateOfCustomIDFee, cfi_eIDEffectiveHeight := eIDEffectiveHeight\<rparr>)))"

lemma Budget_json: "json_env_ok E \<Longrightarrow> Budget_FromJson E (Budget_ToJson E b) old = Ret b"
  by (simp add: Budget_FromJson_def Budget_ToJson_def Let_def)

lemma UpgradeCodeInfo_json: "json_env_ok E \<Longrightarrow> UpgradeCodeInfo_FromJson E v (UpgradeCodeInfo_ToJson E v i) old = Ret i"
  by (simp add: UpgradeCodeInfo_FromJson_def UpgradeCodeInfo_ToJson_def Let_def)

lemma SideChainInfo_json: "json_env_ok E \<Longrightarrow> SideChainInfo_FromJson E v (SideChainInfo_ToJson E v i) old = Ret i"
  by (simp add: SideChainInfo_FromJson_def SideChainInfo_ToJson_def Let_def)

lemma CustomIDFeeRateInfo_json:
  "json_env_ok E \<Longrightarrow> CustomIDFeeRateInfo_FromJson E v (CustomIDFeeRateInfo_ToJson E v i) old = Ret i"
  by (simp add: CustomIDFeeRateInfo_FromJson_def CustomIDFeeRateInfo_ToJson_def Let_def)

definition DRAFT_DATA_MAX_SIZE :: nat where "DRAFT_DATA_MAX_SIZE = 1024 * 1024"

definition CRCProposal_CheckAndDecodeDraftData :: "'j json_env \<Rightarrow> string \<Rightarrow> uint256 \<Rightarrow> bytes outcome" where
  "CRCProposal_CheckAndDecodeDraftData E draftData draftHash =
     obind (setHex draftData) (\<lambda>draftDataDecoded.
       if length draftDataDecoded > DRAFT_DATA_MAX_SIZE then Throw E_ProposalContentTooLarge
       else if draftHash \<noteq> je_sha256_2 E draftDataDecoded then Throw E_ProposalHashNotMatch
       else Ret draftDataDecoded)"

lemma CheckAndDecode_made:
  "json_matches E DRAFT_DATA_MAX_SIZE hash data \<Longrightarrow> CRCProposal_CheckAndDecodeDraftData E (getHex0 data) hash = Ret data"
  by (simp add: CRCProposal_CheckAndDecodeDraftData_def json_matches_def setHex_getHex)

text \<open>What a reader of the draft asks of a payload.\<close>

definition CRCProposal_draft_ok :: "'j json_env \<Rightarrow> u8 \<Rightarrow> CRCProposal \<Rightarrow> bool" where
  "CRCProposal_draft_ok E version p \<longleftrightarrow>
     (CRCProposalVersion01 \<le> version \<longrightarrow> json_matches E DRAFT_DATA_MAX_SIZE (crp_draftHash p) (crp_draftData p))"

lemma draft_found:
  assumes "json_env_ok E" and "CRCProposal_draft_ok E version p"
  shows "CRCProposalVersion01 \<le> version \<Longrightarrow> obind (json_as_str E (je_bytes E (crp_draftData p)))
    (\<lambda>draftData. CRCProposal_CheckAndDecodeDraftData E draftData (crp_draftHash p)) = Ret (crp_draftData p)"
  using assms by (simp add: CRCProposal_draft_ok_def je_bytes_def CheckAndDecode_made)

lemmas proposal_part_json = Budget_json UpgradeCodeInfo_json SideChainInfo_json CustomIDFeeRateInfo_json map_outcome_same

section \<open>Normal\<close>

definition CRCProposal_ToJsonNormalOwnerUnsigned :: "'j json_env \<Rightarrow> u8 \<Rightarrow> CRCProposal \<Rightarrow> 'j" where
  "CRCProposal_ToJsonNormalOwnerUnsigned E version p =
     (let j = je_null E;
          j = je_set E j ''Type'' (je_word E (crp_type p));
          j = je_set E j ''CategoryData'' (je_str E (crp_categoryData p));
          j = je_set E j ''OwnerPublicKey'' (je_bytes E (crp_ownerPublicKey p));
          j = je_set E j ''DraftHash'' (je_u256 E (crp_draftHash p));
          j = (if CRCProposalVersion01 \<le> version then je_set E j ''DraftData'' (je_bytes E (crp_draftData p)) else j);
          j = je_set E j ''Budgets'' (je_arr E (map (Budget_ToJson E) (crp_budgets p)));
          j = je_set E j ''Recipient'' (je_address E (crp_recipient p))
      in j)"

definition CRCProposal_FromJsonNormalOwnerUnsigned :: "'j json_env \<Rightarrow> u8 \<Rightarrow> 'j \<Rightarrow> CRCProposal \<Rightarrow> CRCProposal outcome" where
  "CRCProposal_FromJsonNormalOwnerUnsigned E version j p =
     obind (json_word E j ''Type'') (\<lambda>type.
     obind (json_str E j ''CategoryData'') (\<lambda>categoryData.
     obind (json_bytes E j ''OwnerPublicKey'') (\<lambda>ownerPublicKey.
     obind (json_u256 E j ''DraftHash'') (\<lambda>draftHash.
     obind (if CRCProposalVersion01 \<le> version
            then obind (json_str E j ''DraftData'') (\<lambda>draftData. CRCProposal_CheckAndDecodeDraftData E draftData draftHash)
            else Ret (crp_draftData p)) (\<lambda>draftData.
     obind (json_arr E j ''Budgets'') (\<lambda>js.
     obind (map_outcome (\<lambda>j. Budget_FromJson E j Budget_new) js) (\<lambda>budgets.
     obind (json_address E j ''Recipient'') (\<lambda>recipient.
       Ret (p\<lparr>crp_type := type, crp_categoryData := categoryData, crp_ownerPublicKey := ownerPublicKey,
              crp_draftHash := draftHash, crp_draftData := draftData, crp_budgets := budgets,
              crp_recipient := recipient\<rparr>)))))))))"

definition CRCProposal_ToJsonNormalCRCouncilMemberUnsigned :: "'j json_env \<Rightarrow> u8 \<Rightarrow> CRCProposal \<Rightarrow> 'j" where
  "CRCProposal_ToJsonNormalCRCouncilMemberUnsigned E version p =
     (let j = CRCProposal_ToJsonNormalOwnerUnsigned E version p;
          j = je_set E j ''Signature'' (je_bytes E (crp_signature p));
          j = je_set E j ''CRCouncilMemberDID'' (je_address E (crp_crCouncilMemberDID p))
      in j)"

definition CRCProposal_FromJsonNormalCRCouncilMemberUnsigned :: "'j json_env \<Rightarrow> u8 \<Rightarrow> 'j \<Rightarrow> CRCProposal \<Rightarrow> CRCProposal outcome" where
  "CRCProposal_FromJsonNormalCRCouncilMemberUnsigned E version j old =
     obind (CRCProposal_FromJsonNormalOwnerUnsigned E version j old) (\<lambda>p.
     obind (json_bytes E j ''Signature'') (\<lambda>signature.
     obind (json_address E j ''CRCouncilMemberDID'') (\<lambda>crCouncilMemberDID.
       Ret (p\<lparr>crp_signature := signature, crp_crCouncilMemberDID := crCouncilMemberDID\<rparr>))))"

lemma CRCProposal_Normal_json:
  fixes E :: "'j json_env" and x :: 'j and v :: u8 and p :: CRCProposal
  assumes "json_env_ok E" and "CRCProposal_draft_ok E v p"
  defines "j \<equiv> je_set E (CRCProposal_ToJsonNormalCRCouncilMemberUnsigned E v p) ''CRCouncilMemberSignature'' x"
  shows "\<exists>q. CRCProposal_FromJsonNormalCRCouncilMemberUnsigned E v j old = Ret q \<and> crp_type q = crp_type p \<and>
      (\<forall>s. CRCProposal_SerializeNormalOrELIP v (q\<lparr>crp_crCouncilMemberSignature := s\<rparr>) =
        CRCProposal_SerializeNormalOrELIP v (p\<lparr>crp_crCouncilMemberSignature := s\<rparr>))"
    and "json_index E j ''Type'' = Ret (je_word E (crp_type p))" "json_index E j ''CRCouncilMemberSignature'' = Ret x"
proof -
  note defs = CRCProposal_ToJsonNormalCRCouncilMemberUnsigned_def CRCProposal_FromJsonNormalCRCouncilMemberUnsigned_def CRCProposal_ToJsonNormalOwnerUnsigned_def CRCProposal_FromJsonNormalOwnerUnsigned_def
  show "json_index E j ''Type'' = Ret (je_word E (crp_type p))" "json_index E j ''CRCouncilMemberSignature'' = Ret x"
    using assms(1) by (simp_all add: j_def defs Let_def)
  show "\<exists>q. CRCProposal_FromJsonNormalCRCouncilMemberUnsigned E v j old = Ret q \<and> crp_type q = crp_type p \<and>
      (\<forall>s. CRCProposal_SerializeNormalOrELIP v (q\<lparr>crp_crCouncilMemberSignature := s\<rparr>) =
        CRCProposal_SerializeNormalOrELIP v (p\<lparr>crp_crCouncilMemberSignature := s\<rparr>))"
    using assms(1) draft_found [OF assms(1,2)]
    by (simp add: j_def defs Let_def proposal_part_json CRCProposal_SerializeNormalOrELIP_def CRCProposal_SerializeCRCouncilMemberUnsigned_def CRCProposal_SerializeOwnerUnsigned_def)
qed

section \<open>ChangeOwner\<close>

definition CRCProposal_ToJsonChangeOwnerUnsigned :: "'j json_env \<Rightarrow> u8 \<Rightarrow> CRCProposal \<Rightarrow> 'j" where
  "CRCProposal_ToJsonChangeOwnerUnsigned E version p =
     (let j = je_null E;
          j = je_set E j ''Type'' (je_word E (crp_type p));
          j = je_set E j ''CategoryData'' (je_str E (crp_categoryData p));
          j = je_set E j ''OwnerPublicKey'' (je_bytes E (crp_ownerPublicKey p));
          j = je_set E j ''DraftHash'' (je_u256 E (crp_draftHash p));
          j = (if CRCProposalVersion01 \<le> version then je_set E j ''DraftData'' (je_bytes E (crp_draftData p)) else j);
          j = je_set E j ''TargetProposalHash'' (je_u256 E (crp_targetProposalHash p));
          j = je_set E j ''NewRecipient'' (je_address E (crp_newRecipient p));
          j = je_set E j ''NewOwnerPublicKey'' (je_bytes E (crp_newOwnerPublicKey p))
      in j)"

definition CRCProposal_FromJsonChangeOwnerUnsigned :: "'j json_env \<Rightarrow> u8 \<Rightarrow> 'j \<Rightarrow> CRCProposal \<Rightarrow> CRCProposal outcome" where
  "CRCProposal_FromJsonChangeOwnerUnsigned E version j p =
     obind (json_word E j ''Type'') (\<lambda>type.
     obind (json_str E j ''CategoryData'') (\<lambda>categoryData.
     obind (json_bytes E j ''OwnerPublicKey'') (\<lambda>ownerPublicKey.
     obind (json_u256 E j ''DraftHash'') (\<lambda>draftHash.
     obind (if CRCProposalVersion01 \<le> version
            then obind (json_str E j ''DraftData'') (\<lambda>draftData. CRCProposal_CheckAndDecodeDraftData E draftData draftHash)
            else Ret (crp_draftData p)) (\<lambda>draftData.
     obind (json_u256 E j ''TargetProposalHash'') (\<lambda>targetProposalHash.
     obind (json_address E j ''NewRecipient'') (\<lambda>newRecipient.
     obind (json_bytes E j ''NewOwnerPublicKey'') (\<lambda>newOwnerPublicKey.
       Ret (p\<lparr>crp_type := type, crp_categoryData := categoryData, crp_ownerPublicKey := ownerPublicKey,
              crp_draftHash := draftHash, crp_draftData := draftData,
              crp_targetProposalHash := targetProposalHash, crp_newRecipient := newRecipient,
              crp_newOwnerPublicKey := newOwnerPublicKey\<rparr>)))))))))"

definition CRCProposal_ToJsonChangeOwnerCRCouncilMemberUnsigned :: "'j json_env \<Rightarrow> u8 \<Rightarrow> CRCProposal \<Rightarrow> 'j" where
  "CRCProposal_ToJsonChangeOwnerCRCouncilMemberUnsigned E version p =
     (let j = CRCProposal_ToJsonChangeOwnerUnsigned E version p;
          j = je_set E j ''Signature'' (je_bytes E (crp_signature p));
          j = je_set E j ''NewOwnerSignature'' (je_bytes E (crp_newOwnerSignature p));
          j = je_set E j ''CRCouncilMemberDID'' (je_address E (crp_crCouncilMemberDID p))
      in j)"

definition CRCProposal_FromJsonChangeOwnerCRCouncilMemberUnsigned :: "'j json_env \<Rightarrow> u8 \<Rightarrow> 'j \<Rightarrow> CRCProposal \<Rightarrow> CRCProposal outcome" where
  "CRCProposal_FromJsonChangeOwnerCRCouncilMemberUnsigned E version j old =
     obind (CRCProposal_FromJsonChangeOwnerUnsigned E version j old) (\<lambda>p.
     obind (json_bytes E j ''Signature'') (\<lambda>signature.
     obind (json_bytes E j ''NewOwnerSignature'') (\<lambda>newOwnerSignature.
     obind (json_address E j ''CRCouncilMemberDID'') (\<lambda>crCouncilMemberDID.
       Ret (p\<lparr>crp_signature := signature, crp_newOwnerSignature := newOwnerSignature,
          crp_crCouncilMemberDID := crCouncilMemberDID\<rparr>)))))"

lemma CRCProposal_ChangeOwner_json:
  fixes E :: "'j json_env" and x :: 'j and v :: u8 and p :: CRCProposal
  assumes "json_env_ok E" and "CRCProposal_draft_ok E v p"
  defines "j \<equiv> je_set E (CRCProposal_ToJsonChangeOwnerCRCouncilMemberUnsigned E v p) ''CRCouncilMemberSignature'' x"
  shows "\<exists>q. CRCProposal_FromJsonChangeOwnerCRCouncilMemberUnsigned E v j old = Ret q \<and> crp_type q = crp_type p \<and>
      (\<forall>s. CRCProposal_SerializeChangeOwner v (q\<lparr>crp_crCouncilMemberSignature := s\<rparr>) =
        CRCProposal_SerializeChangeOwner v (p\<lparr>crp_crCouncilMemberSignature := s\<rparr>))"
    and "json_index E j ''Type'' = Ret (je_word E (crp_type p))" "json_index E j ''CRCouncilMemberSignature'' = Ret x"
proof -
  note defs = CRCProposal_ToJsonChangeOwnerCRCouncilMemberUnsigned_def CRCProposal_FromJsonChangeOwnerCRCouncilMemberUnsigned_def CRCProposal_ToJsonChangeOwnerUnsigned_def CRCProposal_FromJsonChangeOwnerUnsigned_def
  show "json_index E j ''Type'' = Ret (je_word E (crp_type p))" "json_index E j ''CRCouncilMemberSignature'' = Ret x"
    using assms(1) by (simp_all add: j_def defs Let_def)
  show "\<exists>q. CRCProposal_FromJsonChangeOwnerCRCouncilMemberUnsigned E v j old = Ret q \<and> crp_type q = crp_type p \<and>
      (\<forall>s. CRCProposal_SerializeChangeOwner v (q\<lparr>crp_crCouncilMemberSignature := s\<rparr>) =
        CRCProposal_SerializeChangeOwner v (p\<lparr>crp_crCouncilMemberSignature := s\<rparr>))"
    using assms(1) draft_found [OF assms(1,2)]
    by (simp add: j_def defs Let_def proposal_part_json CRCProposal_SerializeChangeOwner_def CRCProposal_SerializeChangeOwnerCRCouncilMemberUnsigned_def CRCProposal_SerializeChangeOwnerUnsigned_def)
qed

section \<open>TerminateProposal\<close>

definition CRCProposal_ToJsonTerminateProposalOwnerUnsigned :: "'j json_env \<Rightarrow> u8 \<Rightarrow> CRCProposal \<Rightarrow> 'j" where
  "CRCProposal_ToJsonTerminateProposalOwnerUnsigned E version p =
     (let j = je_null E;
          j = je_set E j ''Type'' (je_word E (crp_type p));
          j = je_set E j ''CategoryData'' (je_str E (crp_categoryData p));
          j = je_set E j ''OwnerPublicKey'' (je_bytes E (crp_ownerPublicKey p));
          j = je_set E j ''DraftHash'' (je_u256 E (crp_draftHash p));
          j = (if CRCProposalVersion01 \<le> version then je_set E j ''DraftData'' (je_bytes E (crp_draftData p)) else j);
          j = je_set E j ''TargetProposalHash'' (je_u256 E (crp_targetProposalHash p))
      in j)"

definition CRCProposal_FromJsonTerminateProposalOwnerUnsigned :: "'j json_env \<Rightarrow> u8 \<Rightarrow> 'j \<Rightarrow> CRCProposal \<Rightarrow> CRCProposal outcome" where
  "CRCProposal_FromJsonTerminateProposalOwnerUnsigned E version j p =
     obind (json_word E j ''Type'') (\<lambda>type.
     obind (json_str E j ''CategoryData'') (\<lambda>categoryData.
     obind (json_bytes E j ''OwnerPublicKey'') (\<lambda>ownerPublicKey.
     obind (json_u256 E j ''DraftHash'') (\<lambda>draftHash.
     obind (if CRCProposalVersion01 \<le> version
            then obind (json_str E j ''DraftData'') (\<lambda>draftData. CRCProposal_CheckAndDecodeDraftData E draftData draftHash)
            else Ret (crp_draftData p)) (\<lambda>draftData.
     obind (json_u256 E j ''TargetProposalHash'') (\<lambda>targetProposalHash.
       Ret (p\<lparr>crp_type := type, crp_categoryData := categoryData, crp_ownerPublicKey := ownerPublicKey,
              crp_draftHash := draftHash, crp_draftData := draftData,
              crp_targetProposalHash := targetProposalHash\<rparr>)))))))"

definition CRCProposal_ToJsonTerminateProposalCRCouncilMemberUnsigned :: "'j json_env \<Rightarrow> u8 \<Rightarrow> CRCProposal \<Rightarrow> 'j" where
  "CRCProposal_ToJsonTerminateProposalCRCouncilMemberUnsigned E version p =
     (let j = CRCProposal_ToJsonTerminateProposalOwnerUnsigned E version p;
          j = je_set E j ''Signature'' (je_bytes E (crp_signature p));
          j = je_set E j ''CRCouncilMemberDID'' (je_address E (crp_crCouncilMemberDID p))
      in j)"

definition CRCProposal_FromJsonTerminateProposalCRCouncilMemberUnsigned :: "'j json_env \<Rightarrow> u8 \<Rightarrow> 'j \<Rightarrow> CRCProposal \<Rightarrow> CRCProposal outcome" where
  "CRCProposal_FromJsonTerminateProposalCRCouncilMemberUnsigned E version j old =
     obind (CRCProposal_FromJsonTerminateProposalOwnerUnsigned E version j old) (\<lambda>p.
     obind (json_bytes E j ''Signature'') (\<lambda>signature.
     obind (json_address E j ''CRCouncilMemberDID'') (\<lambda>crCouncilMemberDID.
       Ret (p\<lparr>crp_signature := signature, crp_crCouncilMemberDID := crCouncilMemberDID\<rparr>))))"

lemma CRCProposal_TerminateProposal_json:
  fixes E :: "'j json_env" and x :: 'j and v :: u8 and p :: CRCProposal
  assumes "json_env_ok E" and "CRCProposal_draft_ok E v p"
  defines "j \<equiv> je_set E (CRCProposal_ToJsonTerminateProposalCRCouncilMemberUnsigned E v p) ''CRCouncilMemberSignature'' x"
  shows "\<exists>q. CRCProposal_FromJsonTerminateProposalCRCouncilMemberUnsigned E v j old = Ret q \<and> crp_type q = crp_type p \<and>
      (\<forall>s. CRCProposal_SerializeTerminateProposal v (q\<lparr>crp_crCouncilMemberSignature := s\<rparr>) =
        CRCProposal_SerializeTerminateProposal v (p\<lparr>crp_crCouncilMemberSignature := s\<rparr>))"
    and "json_index E j ''Type'' = Ret (je_word E (crp_type p))" "json_index E j ''CRCouncilMemberSignature'' = Ret x"
proof -
  note defs = CRCProposal_ToJsonTerminateProposalCRCouncilMemberUnsigned_def CRCProposal_FromJsonTerminateProposalCRCouncilMemberUnsigned_def CRCProposal_ToJsonTerminateProposalOwnerUnsigned_def CRCProposal_FromJsonTerminateProposalOwnerUnsigned_def
  show "json_index E j ''Type'' = Ret (je_word E (crp_type p))" "json_index E j ''CRCouncilMemberSignature'' = Ret x"
    using assms(1) by (simp_all add: j_def defs Let_def)
  show "\<exists>q. CRCProposal_FromJsonTerminateProposalCRCouncilMemberUnsigned E v j old = Ret q \<and> crp_type q = crp_type p \<and>
      (\<forall>s. CRCProposal_SerializeTerminateProposal v (q\<lparr>crp_crCouncilMemberSignature := s\<rparr>) =
        CRCProposal_SerializeTerminateProposal v (p\<lparr>crp_crCouncilMemberSignature := s\<rparr>))"
    using assms(1) draft_found [OF assms(1,2)]
    by (simp add: j_def defs Let_def proposal_part_json CRCProposal_SerializeTerminateProposal_def CRCProposal_SerializeTerminateProposalCRCouncilMemberUnsigned_def CRCProposal_SerializeTerminateProposalUnsigned_def)
qed

section \<open>SecretaryElection\<close>

definition CRCProposal_ToJsonSecretaryElectionUnsigned :: "'j json_env \<Rightarrow> u8 \<Rightarrow> CRCProposal \<Rightarrow> 'j" where
  "CRCProposal_ToJsonSecretaryElectionUnsigned E version p =
     (let j = je_null E;
          j = je_set E j ''Type'' (je_word E (crp_type p));
          j = je_set E j ''CategoryData'' (je_str E (crp_categoryData p));
          j = je_set E j ''OwnerPublicKey'' (je_bytes E (crp_ownerPublicKey p));
          j = je_set E j ''DraftHash'' (je_u256 E (crp_draftHash p));
          j = (if CRCProposalVersion01 \<le> version then je_set E j ''DraftData'' (je_bytes E (crp_draftData p)) else j);
          j = je_set E j ''SecretaryGeneralPublicKey'' (je_bytes E (crp_secretaryPublicKey p));
          j = je_set E j ''SecretaryGeneralDID'' (je_address E (crp_secretaryDID p))
      in j)"

definition CRCProposal_FromJsonSecretaryElectionUnsigned :: "'j json_env \<Rightarrow> u8 \<Rightarrow> 'j \<Rightarrow> CRCProposal \<Rightarrow> CRCProposal outcome" where
  "CRCProposal_FromJsonSecretaryElectionUnsigned E version j p =
     obind (json_word E j ''Type'') (\<lambda>type.
     obind (json_str E j ''CategoryData'') (\<lambda>categoryData.
     obind (json_bytes E j ''OwnerPublicKey'') (\<lambda>ownerPublicKey.
     obind (json_u256 E j ''DraftHash'') (\<lambda>draftHash.
     obind (if CRCProposalVersion01 \<le> version
            then obind (json_str E j ''DraftData'') (\<lambda>draftData. CRCProposal_CheckAndDecodeDraftData E draftData draftHash)
            else Ret (crp_draftData p)) (\<lambda>draftData.
     obind (json_bytes E j ''SecretaryGeneralPublicKey'') (\<lambda>secretaryPublicKey.
     obind (json_address E j ''SecretaryGeneralDID'') (\<lambda>secretaryDID.
       Ret (p\<lparr>crp_type := type, crp_categoryData := categoryData, crp_ownerPublicKey := ownerPublicKey,
              crp_draftHash := draftHash, crp_draftData := draftData,
              crp_secretaryPublicKey := secretaryPublicKey, crp_secretaryDID := secretaryDID\<rparr>))))))))"

definition CRCProposal_ToJsonSecretaryElectionCRCouncilMemberUnsigned :: "'j json_env \<Rightarrow> u8 \<Rightarrow> CRCProposal \<Rightarrow> 'j" where
  "CRCProposal_ToJsonSecretaryElectionCRCouncilMemberUnsigned E version p =
     (let j = CRCProposal_ToJsonSecretaryElectionUnsigned E version p;
          j = je_set E j ''Signature'' (je_bytes E (crp_signature p));
          j = je_set E j ''SecretaryGeneralSignature'' (je_bytes E (crp_secretarySignature p));
          j = je_set E j ''CRCouncilMemberDID'' (je_address E (crp_crCouncilMemberDID p))
      in j)"

definition CRCProposal_FromJsonSecretaryElectionCRCouncilMemberUnsigned :: "'j json_env \<Rightarrow> u8 \<Rightarrow> 'j \<Rightarrow> CRCProposal \<Rightarrow> CRCProposal outcome" where
  "CRCProposal_FromJsonSecretaryElectionCRCouncilMemberUnsigned E version j old =
     obind (CRCProposal_FromJsonSecretaryElectionUnsigned E version j old) (\<lambda>p.
     obind (json_bytes E j ''Signature'') (\<lambda>signature.
     obind (json_bytes E j ''SecretaryGeneralSignature'') (\<lambda>secretarySignature.
     obind (json_address E j ''CRCouncilMemberDID'') (\<lambda>crCouncilMemberDID.
       Ret (p\<lparr>crp_signature := signature, crp_secretarySignature := secretarySignature,
          crp_crCouncilMemberDID := crCouncilMemberDID\<rparr>)))))"

lemma CRCProposal_SecretaryElection_json:
  fixes E :: "'j json_env" and x :: 'j and v :: u8 and p :: CRCProposal
  assumes "json_env_ok E" and "CRCProposal_draft_ok E v p"
  defines "j \<equiv> je_set E (CRCProposal_ToJsonSecretaryElectionCRCouncilMemberUnsigned E v p) ''CRCouncilMemberSignature'' x"
  shows "\<exists>q. CRCProposal_FromJsonSecretaryElectionCRCouncilMemberUnsigned E v j old = Ret q \<and> crp_type q = crp_type p \<and>
      (\<forall>s. CRCProposal_SerializeSecretaryElection v (q\<lparr>crp_crCouncilMemberSignature := s\<rparr>) =
        CRCProposal_SerializeSecretaryElection v (p\<lparr>crp_crCouncilMemberSignature := s\<rparr>))"
    and "json_index E j ''Type'' = Ret (je_word E (crp_type p))" "json_index E j ''CRCouncilMemberSignature'' = Ret x"
proof -
  note defs = CRCProposal_ToJsonSecretaryElectionCRCouncilMemberUnsigned_def CRCProposal_FromJsonSecretaryElectionCRCouncilMemberUnsigned_def CRCProposal_ToJsonSecretaryElectionUnsigned_def CRCProposal_FromJsonSecretaryElectionUnsigned_def
  show "json_index E j ''Type'' = Ret (je_word E (crp_type p))" "json_index E j ''CRCouncilMemberSignature'' = Ret x"
    using assms(1) by (simp_all add: j_def defs Let_def)
  show "\<exists>q. CRCProposal_FromJsonSecretaryElectionCRCouncilMemberUnsigned E v j old = Ret q \<and> crp_type q = crp_type p \<and>
      (\<forall>s. CRCProposal_SerializeSecretaryElection v (q\<lparr>crp_crCouncilMemberSignature := s\<rparr>) =
        CRCProposal_SerializeSecretaryElection v (p\<lparr>crp_crCouncilMemberSignature := s\<rparr>))"
    using assms(1) draft_found [OF assms(1,2)]
    by (simp add: j_def defs Let_def proposal_part_json CRCProposal_SerializeSecretaryElection_def CRCProposal_SerializeSecretaryElectionCRCouncilMemberUnsigned_def CRCProposal_SerializeSecretaryElectionUnsigned_def)
qed

section \<open>ReserveCustomID\<close>

definition CRCProposal_ToJsonReserveCustomIDOwnerUnsigned :: "'j json_env \<Rightarrow> u8 \<Rightarrow> CRCProposal \<Rightarrow> 'j" where
  "CRCProposal_ToJsonReserveCustomIDOwnerUnsigned E version p =
     (let j = je_null E;
          j = je_set E j ''Type'' (je_word E (crp_type p));
          j = je_set E j ''CategoryData'' (je_str E (crp_categoryData p));
          j = je_set E j ''OwnerPublicKey'' (je_bytes E (crp_ownerPublicKey p));
          j = je_set E j ''DraftHash'' (je_u256 E (crp_draftHash p));
          j = (if CRCProposalVersion01 \<le> version then je_set E j ''DraftData'' (je_bytes E (crp_draftData p)) else j);
          j = je_set E j ''ReservedCustomIDList'' (je_arr E (map (je_str E) (crp_reservedCustomIDList p)))
      in j)"

definition CRCProposal_FromJsonReserveCustomIDOwnerUnsigned :: "'j json_env \<Rightarrow> u8 \<Rightarrow> 'j \<Rightarrow> CRCProposal \<Rightarrow> CRCProposal outcome" where
  "CRCProposal_FromJsonReserveCustomIDOwnerUnsigned E version j p =
     obind (json_word E j ''Type'') (\<lambda>type.
     obind (json_str E j ''CategoryData'') (\<lambda>categoryData.
     obind (json_bytes E j ''OwnerPublicKey'') (\<lambda>ownerPublicKey.
     obind (json_u256 E j ''DraftHash'') (\<lambda>draftHash.
     obind (if CRCProposalVersion01 \<le> version
            then obind (json_str E j ''DraftData'') (\<lambda>draftData. CRCProposal_CheckAndDecodeDraftData E draftData draftHash)
            else Ret (crp_draftData p)) (\<lambda>draftData.
     obind (json_arr E j ''ReservedCustomIDList'') (\<lambda>js.
     obind (map_outcome (json_as_str E) js) (\<lambda>reservedCustomIDList.
       Ret (p\<lparr>crp_type := type, crp_categoryData := categoryData, crp_ownerPublicKey := ownerPublicKey,
              crp_draftHash := draftHash, crp_draftData := draftData,
              crp_reservedCustomIDList := reservedCustomIDList\<rparr>))))))))"

definition CRCProposal_ToJsonReserveCustomIDCRCouncilMemberUnsigned :: "'j json_env \<Rightarrow> u8 \<Rightarrow> CRCProposal \<Rightarrow> 'j" where
  "CRCProposal_ToJsonReserveCustomIDCRCouncilMemberUnsigned E version p =
     (let j = CRCProposal_ToJsonReserveCustomIDOwnerUnsigned E version p;
          j = je_set E j ''Signature'' (je_bytes E (crp_signature p));
          j = je_set E j ''CRCouncilMemberDID'' (je_address E (crp_crCouncilMemberDID p))
      in j)"

definition CRCProposal_FromJsonReserveCustomIDCRCouncilMemberUnsigned :: "'j json_env \<Rightarrow> u8 \<Rightarrow> 'j \<Rightarrow> CRCProposal \<Rightarrow> CRCProposal outcome" where
  "CRCProposal_FromJsonReserveCustomIDCRCouncilMemberUnsigned E version j old =
     obind (CRCProposal_FromJsonReserveCustomIDOwnerUnsigned E version j old) (\<lambda>p.
     obind (json_bytes E j ''Signature'') (\<lambda>signature.
     obind (json_address E j ''CRCouncilMemberDID'') (\<lambda>crCouncilMemberDID.
       Ret (p\<lparr>crp_signature := signature, crp_crCouncilMemberDID := crCouncilMemberDID\<rparr>))))"

lemma CRCProposal_ReserveCustomID_json:
  fixes E :: "'j json_env" and x :: 'j and v :: u8 and p :: CRCProposal
  assumes "json_env_ok E" and "CRCProposal_draft_ok E v p"
  defines "j \<equiv> je_set E (CRCProposal_ToJsonReserveCustomIDCRCouncilMemberUnsigned E v p) ''CRCouncilMemberSignature'' x"
  shows "\<exists>q. CRCProposal_FromJsonReserveCustomIDCRCouncilMemberUnsigned E v j old = Ret q \<and> crp_type q = crp_type p \<and>
      (\<forall>s. CRCProposal_SerializeReserveCustomID v (q\<lparr>crp_crCouncilMemberSignature := s\<rparr>) =
        CRCProposal_SerializeReserveCustomID v (p\<lparr>crp_crCouncilMemberSignature := s\<rparr>))"
    and "json_index E j ''Type'' = Ret (je_word E (crp_type p))" "json_index E j ''CRCouncilMemberSignature'' = Ret x"
proof -
  note defs = CRCProposal_ToJsonReserveCustomIDCRCouncilMemberUnsigned_def CRCProposal_FromJsonReserveCustomIDCRCouncilMemberUnsigned_def CRCProposal_ToJsonReserveCustomIDOwnerUnsigned_def CRCProposal_FromJsonReserveCustomIDOwnerUnsigned_def
  show "json_index E j ''Type'' = Ret (je_word E (crp_type p))" "json_index E j ''CRCouncilMemberSignature'' = Ret x"
    using assms(1) by (simp_all add: j_def defs Let_def)
  show "\<exists>q. CRCProposal_FromJsonReserveCustomIDCRCouncilMemberUnsigned E v j old = Ret q \<and> crp_type q = crp_type p \<and>
      (\<forall>s. CRCProposal_SerializeReserveCustomID v (q\<lparr>crp_crCouncilMemberSignature := s\<rparr>) =
        CRCProposal_SerializeReserveCustomID v (p\<lparr>crp_crCouncilMemberSignature := s\<rparr>))"
    using assms(1) draft_found [OF assms(1,2)]
    by (simp add: j_def defs Let_def proposal_part_json CRCProposal_SerializeReserveCustomID_def CRCProposal_SerializeReserveCustomIDCRCouncilMemberUnsigned_def CRCProposal_SerializeReserveCustomIDUnsigned_def)
qed

section \<open>ReceiveCustomID\<close>

definition CRCProposal_ToJsonReceiveCustomIDOwnerUnsigned :: "'j json_env \<Rightarrow> u8 \<Rightarrow> CRCProposal \<Rightarrow> 'j" where
  "CRCProposal_ToJsonReceiveCustomIDOwnerUnsigned E version p =
     (let j = je_null E;
          j = je_set E j ''Type'' (je_word E (crp_type p));
          j = je_set E j ''CategoryData'' (je_str E (crp_categoryData p));
          j = je_set E j ''OwnerPublicKey'' (je_bytes E (crp_ownerPublicKey p));
          j = je_set E j ''DraftHash'' (je_u256 E (crp_draftHash p));
          j = (if CRCProposalVersion01 \<le> version then je_set E j ''DraftData'' (je_bytes E (crp_draftData p)) else j);
          j = je_set E j ''ReceivedCustomIDList'' (je_arr E (map (je_str E) (crp_receivedCustomIDList p)));
          j = je_set E j ''ReceiverDID'' (je_address E (crp_receiverDID p))
      in j)"

definition CRCProposal_FromJsonReceiveCustomIDOwnerUnsigned :: "'j json_env \<Rightarrow> u8 \<Rightarrow> 'j \<Rightarrow> CRCProposal \<Rightarrow> CRCProposal outcome" where
  "CRCProposal_FromJsonReceiveCustomIDOwnerUnsigned E version j p =
     obind (json_word E j ''Type'') (\<lambda>type.
     obind (json_str E j ''CategoryData'') (\<lambda>categoryData.
     obind (json_bytes E j ''OwnerPublicKey'') (\<lambda>ownerPublicKey.
     obind (json_u256 E j ''DraftHash'') (\<lambda>draftHash.
     obind (if CRCProposalVersion01 \<le> version
            then obind (json_str E j ''DraftData'') (\<lambda>draftData. CRCProposal_CheckAndDecodeDraftData E draftData draftHash)
            else Ret (crp_draftData p)) (\<lambda>draftData.
     obind (json_arr E j ''ReceivedCustomIDList'') (\<lambda>js.
     obind (map_outcome (json_as_str E) js) (\<lambda>receivedCustomIDList.
     obind (json_address E j ''ReceiverDID'') (\<lambda>receiverDID.
       Ret (p\<lparr>crp_type := type, crp_categoryData := categoryData, crp_ownerPublicKey := ownerPublicKey,
              crp_draftHash := draftHash, crp_draftData := draftData,
              crp_receivedCustomIDList := receivedCustomIDList, crp_receiverDID := receiverDID\<rparr>)))))))))"

definition CRCProposal_ToJsonReceiveCustomIDCRCouncilMemberUnsigned :: "'j json_env \<Rightarrow> u8 \<Rightarrow> CRCProposal \<Rightarrow> 'j" where
  "CRCProposal_ToJsonReceiveCustomIDCRCouncilMemberUnsigned E version p =
     (let j = CRCProposal_ToJsonReceiveCustomIDOwnerUnsigned E version p;
          j = je_set E j ''Signature'' (je_bytes E (crp_signature p));
          j = je_set E j ''CRCouncilMemberDID'' (je_address E (crp_crCouncilMemberDID p))
      in j)"

definition CRCProposal_FromJsonReceiveCustomIDCRCouncilMemberUnsigned :: "'j json_env \<Rightarrow> u8 \<Rightarrow> 'j \<Rightarrow> CRCProposal \<Rightarrow> CRCProposal outcome" where
  "CRCProposal_FromJsonReceiveCustomIDCRCouncilMemberUnsigned E version j old =
     obind (CRCProposal_FromJsonReceiveCustomIDOwnerUnsigned E version j old) (\<lambda>p.
     obind (json_bytes E j ''Signature'') (\<lambda>signature.
     obind (json_address E j ''CRCouncilMemberDID'') (\<lambda>crCouncilMemberDID.
       Ret (p\<lparr>crp_signature := signature, crp_crCouncilMemberDID := crCouncilMemberDID\<rparr>))))"

lemma CRCProposal_ReceiveCustomID_json:
  fixes E :: "'j json_env" and x :: 'j and v :: u8 and p :: CRCProposal
  assumes "json_env_ok E" and "CRCProposal_draft_ok E v p"
  defines "j \<equiv> je_set E (CRCProposal_ToJsonReceiveCustomIDCRCouncilMemberUnsigned E v p) ''CRCouncilMemberSignature'' x"
  shows "\<exists>q. CRCProposal_FromJsonReceiveCustomIDCRCouncilMemberUnsigned E v j old = Ret q \<and> crp_type q = crp_type p \<and>
      (\<forall>s. CRCProposal_SerializeReceiveCustomID v (q\<lparr>crp_crCouncilMemberSignature := s\<rparr>) =
        CRCProposal_SerializeReceiveCustomID v (p\<lparr>crp_crCouncilMemberSignature := s\<rparr>))"
    and "json_index E j ''Type'' = Ret (je_word E (crp_type p))" "json_index E j ''CRCouncilMemberSignature'' = Ret x"
proof -
  note defs = CRCProposal_ToJsonReceiveCustomIDCRCouncilMemberUnsigned_def CRCProposal_FromJsonReceiveCustomIDCRCouncilMemberUnsigned_def CRCProposal_ToJsonReceiveCustomIDOwnerUnsigned_def CRCProposal_FromJsonReceiveCustomIDOwnerUnsigned_def
  show "json_index E j ''Type'' = Ret (je_word E (crp_type p))" "json_index E j ''CRCouncilMemberSignature'' = Ret x"
    using assms(1) by (simp_all add: j_def defs Let_def)
  show "\<exists>q. CRCProposal_FromJsonReceiveCustomIDCRCouncilMemberUnsigned E v j old = Ret q \<and> crp_type q = crp_type p \<and>
      (\<forall>s. CRCProposal_SerializeReceiveCustomID v (q\<lparr>crp_crCouncilMemberSignature := s\<rparr>) =
        CRCProposal_SerializeReceiveCustomID v (p\<lparr>crp_crCouncilMemberSignature := s\<rparr>))"
    using assms(1) draft_found [OF assms(1,2)]
    by (simp add: j_def defs Let_def proposal_part_json CRCProposal_SerializeReceiveCustomID_def CRCProposal_SerializeReceiveCustomIDCRCCouncilMemberUnsigned_def CRCProposal_SerializeReceiveCustomIDUnsigned_def)
qed

section \<open>ChangeCustomIDFee\<close>

definition CRCProposal_ToJsonChangeCustomIDFeeOwnerUnsigned :: "'j json_env \<Rightarrow> u8 \<Rightarrow> CRCProposal \<Rightarrow> 'j" where
  "CRCProposal_ToJsonChangeCustomIDFeeOwnerUnsigned E version p =
     (let j = je_null E;
          j = je_set E j ''Type'' (je_word E (crp_type p));
          j = je_set E j ''CategoryData'' (je_str E (crp_categoryData p));
          j = je_set E j ''OwnerPublicKey'' (je_bytes E (crp_ownerPublicKey p));
          j = je_set E j ''DraftHash'' (je_u256 E (crp_draftHash p));
          j = (if CRCProposalVersion01 \<le> version then je_set E j ''DraftData'' (je_bytes E (crp_draftData p)) else j);
          j = je_set E j ''CustomIDFeeRateInfo'' (CustomIDFeeRateInfo_ToJson E version (crp_customIDFeeRateInfo p))
      in j)"

definition CRCProposal_FromJsonChangeCustomIDFeeOwnerUnsigned :: "'j json_env \<Rightarrow> u8 \<Rightarrow> 'j \<Rightarrow> CRCProposal \<Rightarrow> CRCProposal outcome" where
  "CRCProposal_FromJsonChangeCustomIDFeeOwnerUnsigned E version j p =
     obind (json_word E j ''Type'') (\<lambda>type.
     obind (json_str E j ''CategoryData'') (\<lambda>categoryData.
     obind (json_bytes E j ''OwnerPublicKey'') (\<lambda>ownerPublicKey.
     obind (json_u256 E j ''DraftHash'') (\<lambda>draftHash.
     obind (if CRCProposalVersion01 \<le> version
            then obind (json_str E j ''DraftData'') (\<lambda>draftData. CRCProposal_CheckAndDecodeDraftData E draftData draftHash)
            else Ret (crp_draftData p)) (\<lambda>draftData.
     obind (json_index E j ''CustomIDFeeRateInfo'') (\<lambda>j'.
     obind (CustomIDFeeRateInfo_FromJson E version j' (crp_customIDFeeRateInfo p)) (\<lambda>customIDFeeRateInfo.
       Ret (p\<lparr>crp_type := type, crp_categoryData := categoryData, crp_ownerPublicKey := ownerPublicKey,
              crp_draftHash := draftHash, crp_draftData := draftData,
              crp_customIDFeeRateInfo := customIDFeeRateInfo\<rparr>))))))))"

definition CRCProposal_ToJsonChangeCustomIDFeeCRCouncilMemberUnsigned :: "'j json_env \<Rightarrow> u8 \<Rightarrow> CRCProposal \<Rightarrow> 'j" where
  "CRCProposal_ToJsonChangeCustomIDFeeCRCouncilMemberUnsigned E version p =
     (let j = CRCProposal_ToJsonChangeCustomIDFeeOwnerUnsigned E version p;
          j = je_set E j ''Signature'' (je_bytes E (crp_signature p));
          j = je_set E j ''CRCouncilMemberDID'' (je_address E (crp_crCouncilMemberDID p))
      in j)"

definition CRCProposal_FromJsonChangeCustomIDFeeCRCouncilMemberUnsigned :: "'j json_env \<Rightarrow> u8 \<Rightarrow> 'j \<Rightarrow> CRCProposal \<Rightarrow> CRCProposal outcome" where
  "CRCProposal_FromJsonChangeCustomIDFeeCRCouncilMemberUnsigned E version j old =
     obind (CRCProposal_FromJsonChangeCustomIDFeeOwnerUnsigned E version j old) (\<lambda>p.
     obind (json_bytes E j ''Signature'') (\<lambda>signature.
     obind (json_address E j ''CRCouncilMemberDID'') (\<lambda>crCouncilMemberDID.
       Ret (p\<lparr>crp_signature := signature, crp_crCouncilMemberDID := crCouncilMemberDID\<rparr>))))"

lemma CRCProposal_ChangeCustomIDFee_json:
  fixes E :: "'j json_env" and x :: 'j and v :: u8 and p :: CRCProposal
  assumes "json_env_ok E" and "CRCProposal_draft_ok E v p"
  defines "j \<equiv> je_set E (CRCProposal_ToJsonChangeCustomIDFeeCRCouncilMemberUnsigned E v p) ''CRCouncilMemberSignature'' x"
  shows "\<exists>q. CRCProposal_FromJsonChangeCustomIDFeeCRCouncilMemberUnsigned E v j old = Ret q \<and> crp_type q = crp_type p \<and>
      (\<forall>s. CRCProposal_SerializeChangeCustomIDFee v (q\<lparr>crp_crCouncilMemberSignature := s\<rparr>) =
        CRCProposal_SerializeChangeCustomIDFee v (p\<lparr>crp_crCouncilMemberSignature := s\<rparr>))"
    and "json_index E j ''Type'' = Ret (je_word E (crp_type p))" "json_index E j ''CRCouncilMemberSignature'' = Ret x"
proof -
  note defs = CRCProposal_ToJsonChangeCustomIDFeeCRCouncilMemberUnsigned_def CRCProposal_FromJsonChangeCustomIDFeeCRCouncilMemberUnsigned_def CRCProposal_ToJsonChangeCustomIDFeeOwnerUnsigned_def CRCProposal_FromJsonChangeCustomIDFeeOwnerUnsigned_def
  show "json_index E j ''Type'' = Ret (je_word E (crp_type p))" "json_index E j ''CRCouncilMemberSignature'' = Ret x"
    using assms(1) by (simp_all add: j_def defs Let_def)
  show "\<exists>q. CRCProposal_FromJsonChangeCustomIDFeeCRCouncilMemberUnsigned E v j old = Ret q \<and> crp_type q = crp_type p \<and>
      (\<forall>s. CRCProposal_SerializeChangeCustomIDFee v (q\<lparr>crp_crCouncilMemberSignature := s\<rparr>) =
        CRCProposal_SerializeChangeCustomIDFee v (p\<lparr>crp_crCouncilMemberSignature := s\<rparr>))"
    using assms(1) draft_found [OF assms(1,2)]
    by (simp add: j_def defs Let_def proposal_part_json CRCProposal_SerializeChangeCustomIDFee_def CRCProposal_SerializeChangeCustomIDFeeCRCCouncilMemberUnsigned_def CRCProposal_SerializeChangeCustomIDFeeUnsigned_def)
qed

section \<open>RegisterSidechain\<close>

definition CRCProposal_ToJsonRegisterSidechainUnsigned :: "'j json_env \<Rightarrow> u8 \<Rightarrow> CRCProposal \<Rightarrow> 'j" where
  "CRCProposal_ToJsonRegisterSidechainUnsigned E version p =
     (let j = je_null E;
          j = je_set E j ''Type'' (je_word E (crp_type p));
          j = je_set E j ''CategoryData'' (je_str E (crp_categoryData p));
          j = je_set E j ''OwnerPublicKey'' (je_bytes E (crp_ownerPublicKey p));
          j = je_set E j ''DraftHash'' (je_u256 E (crp_draftHash p));
          j = (if CRCProposalVersion01 \<le> version then je_set E j ''DraftData'' (je_bytes E (crp_draftData p)) else j);
          j = je_set E j ''SidechainInfo'' (SideChainInfo_ToJson E version (crp_sidechainInfo p))
      in j)"

definition CRCProposal_FromJsonRegisterSidechainUnsigned :: "'j json_env \<Rightarrow> u8 \<Rightarrow> 'j \<Rightarrow> CRCProposal \<Rightarrow> CRCProposal outcome" where
  "CRCProposal_FromJsonRegisterSidechainUnsigned E version j p =
     obind (json_word E j ''Type'') (\<lambda>type.
     obind (json_str E j ''CategoryData'') (\<lambda>categoryData.
     obind (json_bytes E j ''OwnerPublicKey'') (\<lambda>ownerPublicKey.
     obind (json_u256 E j ''DraftHash'') (\<lambda>draftHash.
     obind (if CRCProposalVersion01 \<le> version
            then obind (json_str E j ''DraftData'') (\<lambda>draftData. CRCProposal_CheckAndDecodeDraftData E draftData draftHash)
            else Ret (crp_draftData p)) (\<lambda>draftData.
     obind (json_index E j ''SidechainInfo'') (\<lambda>j'.
     obind (SideChainInfo_FromJson E version j' (crp_sidechainInfo p)) (\<lambda>sidechainInfo.
       Ret (p\<lparr>crp_type := type, crp_categoryData := categoryData, crp_ownerPublicKey := ownerPublicKey,
              crp_draftHash := draftHash, crp_draftData := draftData, crp_sidechainInfo := sidechainInfo\<rparr>))))))))"

definition CRCProposal_ToJsonRegisterSidechainCRCouncilMemberUnsigned :: "'j json_env \<Rightarrow> u8 \<Rightarrow> CRCProposal \<Rightarrow> 'j" where
  "CRCProposal_ToJsonRegisterSidechainCRCouncilMemberUnsigned E version p =
     (let j = CRCProposal_ToJsonRegisterSidechainUnsigned E version p;
          j = je_set E j ''Signature'' (je_bytes E (crp_signature p));
          j = je_set E j ''CRCouncilMemberDID'' (je_address E (crp_crCouncilMemberDID p))
      in j)"

definition CRCProposal_FromJsonRegisterSidechainCRCouncilMemberUnsigned :: "'j json_env \<Rightarrow> u8 \<Rightarrow> 'j \<Rightarrow> CRCProposal \<Rightarrow> CRCProposal outcome" where
  "CRCProposal_FromJsonRegisterSidechainCRCouncilMemberUnsigned E version j old =
     obind (CRCProposal_FromJsonRegisterSidechainUnsigned E version j old) (\<lambda>p.
     obind (json_bytes E j ''Signature'') (\<lambda>signature.
     obind (json_address E j ''CRCouncilMemberDID'') (\<lambda>crCouncilMemberDID.
       Ret (p\<lparr>crp_signature := signature, crp_crCouncilMemberDID := crCouncilMemberDID\<rparr>))))"

lemma CRCProposal_RegisterSidechain_json:
  fixes E :: "'j json_env" and x :: 'j and v :: u8 and p :: CRCProposal
  assumes "json_env_ok E" and "CRCProposal_draft_ok E v p"
  defines "j \<equiv> je_set E (CRCProposal_ToJsonRegisterSidechainCRCouncilMemberUnsigned E v p) ''CRCouncilMemberSignature'' x"
  shows "\<exists>q. CRCProposal_FromJsonRegisterSidechainCRCouncilMemberUnsigned E v j old = Ret q \<and> crp_type q = crp_type p \<and>
      (\<forall>s. CRCProposal_SerializeRegisterSidechain v (q\<lparr>crp_crCouncilMemberSignature := s\<rparr>) =
        CRCProposal_SerializeRegisterSidechain v (p\<lparr>crp_crCouncilMemberSignature := s\<rparr>))"
    and "json_index E j ''Type'' = Ret (je_word E (crp_type p))" "json_index E j ''CRCouncilMemberSignature'' = Ret x"
proof -
  note defs = CRCProposal_ToJsonRegisterSidechainCRCouncilMemberUnsigned_def CRCProposal_FromJsonRegisterSidechainCRCouncilMemberUnsigned_def CRCProposal_ToJsonRegisterSidechainUnsigned_def CRCProposal_FromJsonRegisterSidechainUnsigned_def
  show "json_index E j ''Type'' = Ret (je_word E (crp_type p))" "json_index E j ''CRCouncilMemberSignature'' = Ret x"
    using assms(1) by (simp_all add: j_def defs Let_def)
  show "\<exists>q. CRCProposal_FromJsonRegisterSidechainCRCouncilMemberUnsigned E v j old = Ret q \<and> crp_type q = crp_type p \<and>
      (\<forall>s. CRCProposal_SerializeRegisterSidechain v (q\<lparr>crp_crCouncilMemberSignature := s\<rparr>) =
        CRCProposal_SerializeRegisterSidechain v (p\<lparr>crp_crCouncilMemberSignature := s\<rparr>))"
    using assms(1) draft_found [OF assms(1,2)]
    by (simp add: j_def defs Let_def proposal_part_json CRCProposal_SerializeRegisterSidechain_def CRCProposal_SerializeRegisterSidechainCRCouncilMemberUnsigned_def CRCProposal_SerializeRegisterSidechainUnsigned_def)
qed

section \<open>UpgradeCode\<close>

definition CRCProposal_ToJsonUpgradeCodeUnsigned :: "'j json_env \<Rightarrow> u8 \<Rightarrow> CRCProposal \<Rightarrow> 'j" where
  "CRCProposal_ToJsonUpgradeCodeUnsigned E version p =
     (let j = je_null E;
          j = je_set E j ''Type'' (je_word E (crp_type p));
          j = je_set E j ''CategoryData'' (je_str E (crp_categoryData p));
          j = je_set E j ''OwnerPublicKey'' (je_bytes E (crp_ownerPublicKey p));
          j = je_set E j ''DraftHash'' (je_u256 E (crp_draftHash p));
          j = je_set E j ''UpgradeCodeInfo'' (UpgradeCodeInfo_ToJson E version (crp_upgradeCodeInfo p))
      in j)"

definition CRCProposal_FromJsonUpgradeCode :: "'j json_env \<Rightarrow> u8 \<Rightarrow> 'j \<Rightarrow> CRCProposal \<Rightarrow> CRCProposal outcome" where
  "CRCProposal_FromJsonUpgradeCode E version j p =
     obind (json_word E j ''Type'') (\<lambda>type.
     obind (json_str E j ''CategoryData'') (\<lambda>categoryData.
     obind (json_bytes E j ''OwnerPublicKey'') (\<lambda>ownerPublicKey.
     obind (json_u256 E j ''DraftHash'') (\<lambda>draftHash.
     obind (json_index E j ''UpgradeCodeInfo'') (\<lambda>j'.
     obind (UpgradeCodeInfo_FromJson E version j' (crp_upgradeCodeInfo p)) (\<lambda>upgradeCodeInfo.
       Ret (p\<lparr>crp_type := type, crp_categoryData := categoryData, crp_ownerPublicKey := ownerPublicKey,
              crp_draftHash := draftHash, crp_upgradeCodeInfo := upgradeCodeInfo\<rparr>)))))))"

definition CRCProposal_ToJsonUpgradeCodeCRCouncilMemberUnsigned :: "'j json_env \<Rightarrow> u8 \<Rightarrow> CRCProposal \<Rightarrow> 'j" where
  "CRCProposal_ToJsonUpgradeCodeCRCouncilMemberUnsigned E version p =
     (let j = CRCProposal_ToJsonUpgradeCodeUnsigned E version p;
          j = je_set E j ''Signature'' (je_bytes E (crp_signature p));
          j = je_set E j ''CRCouncilMemberDID'' (je_address E (crp_crCouncilMemberDID p))
      in j)"

definition CRCProposal_FromJsonUpgradeCodeCRCouncilMemberUnsigned :: "'j json_env \<Rightarrow> u8 \<Rightarrow> 'j \<Rightarrow> CRCProposal \<Rightarrow> CRCProposal outcome" where
  "CRCProposal_FromJsonUpgradeCodeCRCouncilMemberUnsigned E version j old =
     obind (CRCProposal_FromJsonUpgradeCode E version j old) (\<lambda>p.
     obind (json_bytes E j ''Signature'') (\<lambda>signature.
     obind (json_address E j ''CRCouncilMemberDID'') (\<lambda>crCouncilMemberDID.
       Ret (p\<lparr>crp_signature := signature, crp_crCouncilMemberDID := crCouncilMemberDID\<rparr>))))"

lemma CRCProposal_UpgradeCode_json:
  fixes E :: "'j json_env" and x :: 'j and v :: u8 and p :: CRCProposal
  assumes "json_env_ok E"
  defines "j \<equiv> je_set E (CRCProposal_ToJsonUpgradeCodeCRCouncilMemberUnsigned E v p) ''CRCouncilMemberSignature'' x"
  shows "\<exists>q. CRCProposal_FromJsonUpgradeCodeCRCouncilMemberUnsigned E v j old = Ret q \<and> crp_type q = crp_type p \<and>
      (\<forall>s. CRCProposal_SerializeUpgradeCode v (q\<lparr>crp_crCouncilMemberSignature := s\<rparr>) =
        CRCProposal_SerializeUpgradeCode v (p\<lparr>crp_crCouncilMemberSignature := s\<rparr>))"
    and "json_index E j ''Type'' = Ret (je_word E (crp_type p))" "json_index E j ''CRCouncilMemberSignature'' = Ret x"
proof -
  note defs = CRCProposal_ToJsonUpgradeCodeCRCouncilMemberUnsigned_def CRCProposal_FromJsonUpgradeCodeCRCouncilMemberUnsigned_def CRCProposal_ToJsonUpgradeCodeUnsigned_def CRCProposal_FromJsonUpgradeCode_def
  show "json_index E j ''Type'' = Ret (je_word E (crp_type p))" "json_index E j ''CRCouncilMemberSignature'' = Ret x"
    using assms(1) by (simp_all add: j_def defs Let_def)
  show "\<exists>q. CRCProposal_FromJsonUpgradeCodeCRCouncilMemberUnsigned E v j old = Ret q \<and> crp_type q = crp_type p \<and>
      (\<forall>s. CRCProposal_SerializeUpgradeCode v (q\<lparr>crp_crCouncilMemberSignature := s\<rparr>) =
        CRCProposal_SerializeUpgradeCode v (p\<lparr>crp_crCouncilMemberSignature := s\<rparr>))"
    using assms(1)
    by (simp add: j_def defs Let_def proposal_part_json CRCProposal_SerializeUpgradeCode_def CRCProposal_SerializeUpgradeCodeCRCouncilMemberUnsigned_def CRCProposal_SerializeUpgradeCodeUnsigned_def)
qed

section \<open>The payload\<close>

text \<open>A proposal of a type without a case is an empty value, to which nothing is added; nothing of it is read.\<close>

definition CRCProposal_ToJson :: "'j json_env \<Rightarrow> u8 \<Rightarrow> CRCProposal \<Rightarrow> 'j" where
  "CRCProposal_ToJson E version p =
     (let signed = (\<lambda>j. je_set E j ''CRCouncilMemberSignature'' (je_bytes E (crp_crCouncilMemberSignature p)))
      in if crp_type p = CRCProposal_normal \<or> crp_type p = CRCProposal_elip
         then signed (CRCProposal_ToJsonNormalCRCouncilMemberUnsigned E version p)
         else if crp_type p = CRCProposal_secretaryGeneralElection
         then signed (CRCProposal_ToJsonSecretaryElectionCRCouncilMemberUnsigned E version p)
         else if crp_type p = CRCProposal_changeProposalOwner
         then signed (CRCProposal_ToJsonChangeOwnerCRCouncilMemberUnsigned E version p)
         else if crp_type p = CRCProposal_terminateProposal
         then signed (CRCProposal_ToJsonTerminateProposalCRCouncilMemberUnsigned E version p)
         else if crp_type p = CRCProposal_reserveCustomID
         then signed (CRCProposal_ToJsonReserveCustomIDCRCouncilMemberUnsigned E version p)
         else if crp_type p = CRCProposal_receiveCustomID
         then signed (CRCProposal_ToJsonReceiveCustomIDCRCouncilMemberUnsigned E version p)
         else if crp_type p = CRCProposal_changeCustomIDFee
         then signed (CRCProposal_ToJsonChangeCustomIDFeeCRCouncilMemberUnsigned E version p)
         else if crp_type p = CRCProposal_registerSideChain
         then signed (CRCProposal_ToJsonRegisterSidechainCRCouncilMemberUnsigned E version p)
         else je_null E)"

definition CRCProposal_FromJson :: "'j json_env \<Rightarrow> u8 \<Rightarrow> 'j \<Rightarrow> CRCProposal \<Rightarrow> CRCProposal outcome" where
  "CRCProposal_FromJson E version j old =
     obind (json_word E j ''Type'') (\<lambda>type.
     let p = old\<lparr>crp_type := type\<rparr>;
         signed = (\<lambda>m. obind m (\<lambda>q. obind (json_bytes E j ''CRCouncilMemberSignature'') (\<lambda>signature.
           Ret (q\<lparr>crp_crCouncilMemberSignature := signature\<rparr>))))
     in if type = CRCProposal_normal \<or> type = CRCProposal_elip
        then signed (CRCProposal_FromJsonNormalCRCouncilMemberUnsigned E version j p)
        else if type = CRCProposal_secretaryGeneralElection
        then signed (CRCProposal_FromJsonSecretaryElectionCRCouncilMemberUnsigned E version j p)
        else if type = CRCProposal_changeProposalOwner
        then signed (CRCProposal_FromJsonChangeOwnerCRCouncilMemberUnsigned E version j p)
        else if type = CRCProposal_terminateProposal
        then signed (CRCProposal_FromJsonTerminateProposalCRCouncilMemberUnsigned E version j p)
        else if type = CRCProposal_reserveCustomID
        then signed (CRCProposal_FromJsonReserveCustomIDCRCouncilMemberUnsigned E version j p)
        else if type = CRCProposal_receiveCustomID
        then signed (CRCProposal_FromJsonReceiveCustomIDCRCouncilMemberUnsigned E version j p)
        else if type = CRCProposal_changeCustomIDFee
        then signed (CRCProposal_FromJsonChangeCustomIDFeeCRCouncilMemberUnsigned E version j p)
        else if type = CRCProposal_registerSideChain
        then signed (CRCProposal_FromJsonRegisterSidechainCRCouncilMemberUnsigned E version j p)
        else Ret p)"

interpretation crc_proposal_json: json_form CRCProposal_Serialize "CRCProposal_ToJson E" "CRCProposal_FromJson E"
    CRCProposal_new "\<lambda>v p. json_env_ok E \<and> CRCProposal_draft_ok E v p \<and> CRCProposal_serializable (crp_type p)" for E
proof unfold_locales
  fix v :: u8 and p :: CRCProposal
  let ?x = "je_bytes E (crp_crCouncilMemberSignature p)"
  let ?old = "CRCProposal_new\<lparr>crp_type := crp_type p\<rparr>"
  let ?goal = "\<exists>p'. CRCProposal_FromJson E v (CRCProposal_ToJson E v p) CRCProposal_new = Ret p' \<and>
    CRCProposal_Serialize v p' = CRCProposal_Serialize v p"
  assume a: "json_env_ok E \<and> CRCProposal_draft_ok E v p \<and> CRCProposal_serializable (crp_type p)"
  then have E: "json_env_ok E" and d: "CRCProposal_draft_ok E v p" by simp_all
  have same: "(p\<lparr>crp_crCouncilMemberSignature := crp_crCouncilMemberSignature p\<rparr>) = p" by simp
  consider "crp_type p = CRCProposal_normal \<or> crp_type p = CRCProposal_elip"
    | "crp_type p = CRCProposal_secretaryGeneralElection"
    | "crp_type p = CRCProposal_changeProposalOwner"
    | "crp_type p = CRCProposal_terminateProposal"
    | "crp_type p = CRCProposal_reserveCustomID"
    | "crp_type p = CRCProposal_receiveCustomID"
    | "crp_type p = CRCProposal_changeCustomIDFee"
    | "crp_type p = CRCProposal_registerSideChain"
    using a by (auto simp: CRCProposal_serializable_def)
  then show ?goal
  proof cases
    case 1
    obtain q where "CRCProposal_FromJsonNormalCRCouncilMemberUnsigned E v
        (je_set E (CRCProposal_ToJsonNormalCRCouncilMemberUnsigned E v p) ''CRCouncilMemberSignature'' ?x) ?old = Ret q"
      "crp_type q = crp_type p" "\<forall>s. CRCProposal_SerializeNormalOrELIP v (q\<lparr>crp_crCouncilMemberSignature := s\<rparr>) =
        CRCProposal_SerializeNormalOrELIP v (p\<lparr>crp_crCouncilMemberSignature := s\<rparr>)"
      using CRCProposal_Normal_json(1) [OF E d, of ?x ?old] by blast
    then show ?thesis using 1 E CRCProposal_Normal_json(2,3) [OF E d, of ?x]
      by (auto simp: CRCProposal_ToJson_def CRCProposal_FromJson_def CRCProposal_Serialize_def Let_def same proposal_types)
  next
    case 2
    obtain q where "CRCProposal_FromJsonSecretaryElectionCRCouncilMemberUnsigned E v
        (je_set E (CRCProposal_ToJsonSecretaryElectionCRCouncilMemberUnsigned E v p) ''CRCouncilMemberSignature'' ?x) ?old = Ret q"
      "crp_type q = crp_type p" "\<forall>s. CRCProposal_SerializeSecretaryElection v (q\<lparr>crp_crCouncilMemberSignature := s\<rparr>) =
        CRCProposal_SerializeSecretaryElection v (p\<lparr>crp_crCouncilMemberSignature := s\<rparr>)"
      using CRCProposal_SecretaryElection_json(1) [OF E d, of ?x ?old] by blast
    then show ?thesis using 2 E CRCProposal_SecretaryElection_json(2,3) [OF E d, of ?x]
      by (simp add: CRCProposal_ToJson_def CRCProposal_FromJson_def CRCProposal_Serialize_def Let_def same proposal_types)
  next
    case 3
    obtain q where "CRCProposal_FromJsonChangeOwnerCRCouncilMemberUnsigned E v
        (je_set E (CRCProposal_ToJsonChangeOwnerCRCouncilMemberUnsigned E v p) ''CRCouncilMemberSignature'' ?x) ?old = Ret q"
      "crp_type q = crp_type p" "\<forall>s. CRCProposal_SerializeChangeOwner v (q\<lparr>crp_crCouncilMemberSignature := s\<rparr>) =
        CRCProposal_SerializeChangeOwner v (p\<lparr>crp_crCouncilMemberSignature := s\<rparr>)"
      using CRCProposal_ChangeOwner_json(1) [OF E d, of ?x ?old] by blast
    then show ?thesis using 3 E CRCProposal_ChangeOwner_json(2,3) [OF E d, of ?x]
      by (simp add: CRCProposal_ToJson_def CRCProposal_FromJson_def CRCProposal_Serialize_def Let_def same proposal_types)
  next
    case 4
    obtain q where "CRCProposal_FromJsonTerminateProposalCRCouncilMemberUnsigned E v
        (je_set E (CRCProposal_ToJsonTerminateProposalCRCouncilMemberUnsigned E v p) ''CRCouncilMemberSignature'' ?x) ?old = Ret q"
      "crp_type q = crp_type p" "\<forall>s. CRCProposal_SerializeTerminateProposal v (q\<lparr>crp_crCouncilMemberSignature := s\<rparr>) =
        CRCProposal_SerializeTerminateProposal v (p\<lparr>crp_crCouncilMemberSignature := s\<rparr>)"
      using CRCProposal_TerminateProposal_json(1) [OF E d, of ?x ?old] by blast
    then show ?thesis using 4 E CRCProposal_TerminateProposal_json(2,3) [OF E d, of ?x]
      by (simp add: CRCProposal_ToJson_def CRCProposal_FromJson_def CRCProposal_Serialize_def Let_def same proposal_types)
  next
    case 5
    obtain q where "CRCProposal_FromJsonReserveCustomIDCRCouncilMemberUnsigned E v
        (je_set E (CRCProposal_ToJsonReserveCustomIDCRCouncilMemberUnsigned E v p) ''CRCouncilMemberSignature'' ?x) ?old = Ret q"
      "crp_type q = crp_type p" "\<forall>s. CRCProposal_SerializeReserveCustomID v (q\<lparr>crp_crCouncilMemberSignature := s\<rparr>) =
        CRCProposal_SerializeReserveCustomID v (p\<lparr>crp_crCouncilMemberSignature := s\<rparr>)"
      using CRCProposal_ReserveCustomID_json(1) [OF E d, of ?x ?old] by blast
    then show ?thesis using 5 E CRCProposal_ReserveCustomID_json(2,3) [OF E d, of ?x]
      by (simp add: CRCProposal_ToJson_def CRCProposal_FromJson_def CRCProposal_Serialize_def Let_def same proposal_types)
  next
    case 6
    obtain q where "CRCProposal_FromJsonReceiveCustomIDCRCouncilMemberUnsigned E v
        (je_set E (CRCProposal_ToJsonReceiveCustomIDCRCouncilMemberUnsigned E v p) ''CRCouncilMemberSignature'' ?x) ?old = Ret q"
      "crp_type q = crp_type p" "\<forall>s. CRCProposal_SerializeReceiveCustomID v (q\<lparr>crp_crCouncilMemberSignature := s\<rparr>) =
        CRCProposal_SerializeReceiveCustomID v (p\<lparr>crp_crCouncilMemberSignature := s\<rparr>)"
      using CRCProposal_ReceiveCustomID_json(1) [OF E d, of ?x ?old] by blast
    then show ?thesis using 6 E CRCProposal_ReceiveCustomID_json(2,3) [OF E d, of ?x]
      by (simp add: CRCProposal_ToJson_def CRCProposal_FromJson_def CRCProposal_Serialize_def Let_def same proposal_types)
  next
    case 7
    obtain q where "CRCProposal_FromJsonChangeCustomIDFeeCRCouncilMemberUnsigned E v
        (je_set E (CRCProposal_ToJsonChangeCustomIDFeeCRCouncilMemberUnsigned E v p) ''CRCouncilMemberSignature'' ?x) ?old = Ret q"
      "crp_type q = crp_type p" "\<forall>s. CRCProposal_SerializeChangeCustomIDFee v (q\<lparr>crp_crCouncilMemberSignature := s\<rparr>) =
        CRCProposal_SerializeChangeCustomIDFee v (p\<lparr>crp_crCouncilMemberSignature := s\<rparr>)"
      using CRCProposal_ChangeCustomIDFee_json(1) [OF E d, of ?x ?old] by blast
    then show ?thesis using 7 E CRCProposal_ChangeCustomIDFee_json(2,3) [OF E d, of ?x]
      by (simp add: CRCProposal_ToJson_def CRCProposal_FromJson_def CRCProposal_Serialize_def Let_def same proposal_types)
  next
    case 8
    obtain q where "CRCProposal_FromJsonRegisterSidechainCRCouncilMemberUnsigned E v
        (je_set E (CRCProposal_ToJsonRegisterSidechainCRCouncilMemberUnsigned E v p) ''CRCouncilMemberSignature'' ?x) ?old = Ret q"
      "crp_type q = crp_type p" "\<forall>s. CRCProposal_SerializeRegisterSidechain v (q\<lparr>crp_crCouncilMemberSignature := s\<rparr>) =
        CRCProposal_SerializeRegisterSidechain v (p\<lparr>crp_crCouncilMemberSignature := s\<rparr>)"
      using CRCProposal_RegisterSidechain_json(1) [OF E d, of ?x ?old] by blast
    then show ?thesis using 8 E CRCProposal_RegisterSidechain_json(2,3) [OF E d, of ?x]
      by (simp add: CRCProposal_ToJson_def CRCProposal_FromJson_def CRCProposal_Serialize_def Let_def same proposal_types)
  qed
qed

end
