(* ===== verification/TransactionJson.thy ===== *)
theory TransactionJson
  imports PayloadJson CRCProposalJson
begin

text \<open>
  \<open>Transaction::ToJson\<close> and \<open>FromJson\<close>, the form a transaction is shown and exchanged in, with the
  virtual \<open>ToJson\<close> and \<open>FromJson\<close> of the payload classes as functions that dispatch on the class.
\<close>

section \<open>Payloads\<close>

fun Payload_ToJson :: "'j json_env \<Rightarrow> u8 \<Rightarrow> Payload \<Rightarrow> 'j" where
  "Payload_ToJson E v (PL_CoinBase p) = CoinBase_ToJson E v p"
| "Payload_ToJson E v (PL_RegisterAsset p) = RegisterAsset_ToJson E v p"
| "Payload_ToJson E v (PL_TransferAsset p) = TransferAsset_ToJson E v p"
| "Payload_ToJson E v (PL_Record p) = Record_ToJson E v p"
| "Payload_ToJson E v (PL_SideChainPow p) = SideChainPow_ToJson E v p"
| "Payload_ToJson E v (PL_RechargeToSideChain p) = RechargeToSideChain_ToJson E v p"
| "Payload_ToJson E v (PL_WithdrawFromSideChain p) = WithdrawFromSideChain_ToJson E v p"
| "Payload_ToJson E v (PL_TransferCrossChainAsset p) = TransferCrossChainAsset_ToJson E v p"
| "Payload_ToJson E v (PL_ProducerInfo p) = ProducerInfo_ToJson E v p"
| "Payload_ToJson E v (PL_CancelProducer p) = CancelProducer_ToJson E v p"
| "Payload_ToJson E v (PL_ReturnDepositCoin p) = ReturnDepositCoin_ToJson E v p"
| "Payload_ToJson E v (PL_NextTurnDPoSInfo p) = NextTurnDPoSInfo_ToJson E v p"
| "Payload_ToJson E v (PL_CRInfo p) = CRInfo_ToJson E v p"
| "Payload_ToJson E v (PL_UnregisterCR p) = UnregisterCR_ToJson E v p"
| "Payload_ToJson E v (PL_CRCProposal p) = CRCProposal_ToJson E v p"
| "Payload_ToJson E v (PL_CRCProposalReview p) = CRCProposalReview_ToJson E v p"
| "Payload_ToJson E v (PL_CRCProposalTracking p) = CRCProposalTracking_ToJson E v p"
| "Payload_ToJson E v (PL_CRCAppropriation p) = CRCAppropriation_ToJson E v p"
| "Payload_ToJson E v (PL_CRCProposalWithdraw p) = CRCProposalWithdraw_ToJson E v p"
| "Payload_ToJson E v (PL_CRCProposalRealWithdraw p) = CRCProposalRealWithdraw_ToJson E v p"
| "Payload_ToJson E v (PL_CRCAssetsRectify p) = CRCAssetsRectify_ToJson E v p"
| "Payload_ToJson E v (PL_CRCouncilMemberClaimNode p) = CRCouncilMemberClaimNode_ToJson E v p"
| "Payload_ToJson E v (PL_DPoSV2ClaimReward p) = DPoSV2ClaimReward_ToJson E v p"
| "Payload_ToJson E v (PL_DPoSV2ClaimRewardRealWithdraw p) = DPoSV2ClaimRewardRealWithdraw_ToJson E v p"
| "Payload_ToJson E v (PL_Stake p) = Stake_ToJson E v p"
| "Payload_ToJson E v (PL_Voting p) = Voting_ToJson E v p"
| "Payload_ToJson E v (PL_CancelVotes p) = CancelVotes_ToJson E v p"
| "Payload_ToJson E v (PL_Unstake p) = Unstake_ToJson E v p"
| "Payload_ToJson E v (PL_UnstakeRealWithdraw p) = UnstakeRealWithdraw_ToJson E v p"

fun Payload_FromJson :: "'j json_env \<Rightarrow> u8 \<Rightarrow> 'j \<Rightarrow> Payload \<Rightarrow> Payload outcome" where
  "Payload_FromJson E v j (PL_CoinBase p) = omap PL_CoinBase (CoinBase_FromJson E v j p)"
| "Payload_FromJson E v j (PL_RegisterAsset p) = omap PL_RegisterAsset (RegisterAsset_FromJson E v j p)"
| "Payload_FromJson E v j (PL_TransferAsset p) = omap PL_TransferAsset (TransferAsset_FromJson E v j p)"
| "Payload_FromJson E v j (PL_Record p) = omap PL_Record (Record_FromJson E v j p)"
| "Payload_FromJson E v j (PL_SideChainPow p) = omap PL_SideChainPow (SideChainPow_FromJson E v j p)"
| "Payload_FromJson E v j (PL_RechargeToSideChain p) = omap PL_RechargeToSideChain (RechargeToSideChain_FromJson E v j p)"
| "Payload_FromJson E v j (PL_WithdrawFromSideChain p) = omap PL_WithdrawFromSideChain (WithdrawFromSideChain_FromJson E v j p)"
| "Payload_FromJson E v j (PL_TransferCrossChainAsset p) = omap PL_TransferCrossChainAsset (TransferCrossChainAsset_FromJson E v j p)"
| "Payload_FromJson E v j (PL_ProducerInfo p) = omap PL_ProducerInfo (ProducerInfo_FromJson E v j p)"
| "Payload_FromJson E v j (PL_CancelProducer p) = omap PL_CancelProducer (CancelProducer_FromJson E v j p)"
| "Payload_FromJson E v j (PL_ReturnDepositCoin p) = omap PL_ReturnDepositCoin (ReturnDepositCoin_FromJson E v j p)"
| "Payload_FromJson E v j (PL_NextTurnDPoSInfo p) = omap PL_NextTurnDPoSInfo (NextTurnDPoSInfo_FromJson E v j p)"
| "Payload_FromJson E v j (PL_CRInfo p) = omap PL_CRInfo (CRInfo_FromJson E v j p)"
| "Payload_FromJson E v j (PL_UnregisterCR p) = omap PL_UnregisterCR (UnregisterCR_FromJson E v j p)"
| "Payload_FromJson E v j (PL_CRCProposal p) = omap PL_CRCProposal (CRCProposal_FromJson E v j p)"
| "Payload_FromJson E v j (PL_CRCProposalReview p) = omap PL_CRCProposalReview (CRCProposalReview_FromJson E v j p)"
| "Payload_FromJson E v j (PL_CRCProposalTracking p) = omap PL_CRCProposalTracking (CRCProposalTracking_FromJson E v j p)"
| "Payload_FromJson E v j (PL_CRCAppropriation p) = omap PL_CRCAppropriation (CRCAppropriation_FromJson E v j p)"
| "Payload_FromJson E v j (PL_CRCProposalWithdraw p) = omap PL_CRCProposalWithdraw (CRCProposalWithdraw_FromJson E v j p)"
| "Payload_FromJson E v j (PL_CRCProposalRealWithdraw p) = omap PL_CRCProposalRealWithdraw (CRCProposalRealWithdraw_FromJson E v j p)"
| "Payload_FromJson E v j (PL_CRCAssetsRectify p) = omap PL_CRCAssetsRectify (CRCAssetsRectify_FromJson E v j p)"
| "Payload_FromJson E v j (PL_CRCouncilMemberClaimNode p) = omap PL_CRCouncilMemberClaimNode (CRCouncilMemberClaimNode_FromJson E v j p)"
| "Payload_FromJson E v j (PL_DPoSV2ClaimReward p) = omap PL_DPoSV2ClaimReward (DPoSV2ClaimReward_FromJson E v j p)"
| "Payload_FromJson E v j (PL_DPoSV2ClaimRewardRealWithdraw p) = omap PL_DPoSV2ClaimRewardRealWithdraw (DPoSV2ClaimRewardRealWithdraw_FromJson E v j p)"
| "Payload_FromJson E v j (PL_Stake p) = omap PL_Stake (Stake_FromJson E v j p)"
| "Payload_FromJson E v j (PL_Voting p) = omap PL_Voting (Voting_FromJson E v j p)"
| "Payload_FromJson E v j (PL_CancelVotes p) = omap PL_CancelVotes (CancelVotes_FromJson E v j p)"
| "Payload_FromJson E v j (PL_Unstake p) = omap PL_Unstake (Unstake_FromJson E v j p)"
| "Payload_FromJson E v j (PL_UnstakeRealWithdraw p) = omap PL_UnstakeRealWithdraw (UnstakeRealWithdraw_FromJson E v j p)"

text \<open>What the readers check: the hash of the data a proposal, an opinion or a message carries, and the texts of an asset.\<close>

fun Payload_json_ok :: "'j json_env \<Rightarrow> u8 \<Rightarrow> Payload \<Rightarrow> bool" where
  "Payload_json_ok E v (PL_RegisterAsset p) \<longleftrightarrow> Asset_strings_fit (ra_asset p)"
| "Payload_json_ok E v (PL_CRCProposal p) \<longleftrightarrow> CRCProposal_draft_ok E v p \<and> CRCProposal_serializable (crp_type p)"
| "Payload_json_ok E v (PL_CRCProposalReview p) \<longleftrightarrow> (CRCProposalReviewVersion01 \<le> v \<longrightarrow> json_matches E OPINION_DATA_MAX_SIZE (rev_opinionHash p) (rev_opinionData p))"
| "Payload_json_ok E v (PL_CRCProposalTracking p) \<longleftrightarrow> (CRCProposalTrackingVersion01 \<le> v \<longrightarrow> json_matches E MESSAGE_DATA_MAX_SIZE (trk_messageHash p) (trk_messageData p) \<and> json_matches E TRACKING_OPINION_DATA_MAX_SIZE (trk_secretaryGeneralOpinionHash p) (trk_secretaryGeneralOpinionData p))"
| "Payload_json_ok E v _ \<longleftrightarrow> True"

lemmas payload_reread =
  coin_base_json.reread
  register_asset_json.reread
  transfer_asset_json.reread
  record_json.reread
  side_chain_pow_json.reread
  recharge_json.reread
  withdraw_json.reread
  transfer_cross_chain_json.reread
  producer_info_json.reread
  cancel_producer_json.reread
  return_deposit_json.reread
  next_turn_json.reread
  cr_info_json.reread
  unregister_cr_json.reread
  crc_proposal_json.reread
  proposal_review_json.reread
  proposal_tracking_json.reread
  crc_appropriation_json.reread
  proposal_withdraw_json.reread
  proposal_real_json.reread
  crc_rectify_json.reread
  claim_node_json.reread
  claim_reward_json.reread
  claim_real_json.reread
  stake_json.reread
  voting_json.reread
  cancel_votes_json.reread
  unstake_json.reread
  unstake_real_json.reread

lemma reread_lift:
  assumes "\<exists>q'. m = Ret q' \<and> s q' = w" and "\<And>x. S (K x) = s x"
  shows "\<exists>p'. omap K m = Ret p' \<and> S p' = w"
  using assms by auto

lemma Payload_json:
  assumes "json_env_ok E" and "Payload_json_ok E v p"
  shows "\<exists>p'. Payload_FromJson E v (Payload_ToJson E v p) (Payload_fresh p) = Ret p' \<and>
    Payload_Serialize v p' = Payload_Serialize v p"
  using assms
  by (cases p) (simp_all, (rule reread_lift, rule payload_reread, simp, simp; fail)+)

section \<open>Transactions\<close>

text \<open>
  \<open>GetHash\<close> computes the hash when none is cached, and caches it, although \<open>ToJson\<close> is const: the transaction is
  returned beside the value.  A transaction without a payload is dereferenced all the same.
\<close>

definition Transaction_ToJson :: "'j json_env \<Rightarrow> Transaction \<Rightarrow> ('j \<times> Transaction) outcome" where
  "Transaction_ToJson E t =
     obind (Transaction_GetHash (je_sha256_2 E) t) (\<lambda>(hash, t').
     case tx_payload t of None \<Rightarrow> Undef
     | Some p \<Rightarrow>
       obind (map_outcome (TransactionOutput_ToJson E) (tx_outputs t)) (\<lambda>outputs.
         let j = je_null E;
             j = je_set E j ''IsRegistered'' (je_bool E (tx_isRegistered t));
             j = je_set E j ''TxHash'' (je_u256 E hash);
             j = je_set E j ''Version'' (je_word E (tx_version t));
             j = je_set E j ''LockTime'' (je_word E (tx_lockTime t));
             j = je_set E j ''BlockHeight'' (je_word E (tx_blockHeight t));
             j = je_set E j ''Timestamp'' (je_num E (tx_timestamp t));
             j = je_set E j ''Inputs'' (je_arr E (map (TransactionInput_ToJson E) (tx_inputs t)));
             j = je_set E j ''Type'' (je_word E (tx_type t));
             j = je_set E j ''PayloadVersion'' (je_word E (tx_payloadVersion t));
             j = je_set E j ''PayLoad'' (Payload_ToJson E (tx_payloadVersion t) p);
             j = je_set E j ''Attributes'' (je_arr E (map (Attribute_ToJson E) (tx_attributes t)));
             j = je_set E j ''Programs'' (je_arr E (map (Program_ToJson E) (tx_programs t)));
             j = je_set E j ''Outputs'' (je_arr E outputs);
             j = je_set E j ''Fee'' (je_word E (tx_fee t))
         in Ret (j, t')))"

text \<open>An exception of the JSON library becomes \<open>JsonFormatError\<close>; the exceptions of the SDK pass.\<close>

definition json_caught :: "'a outcome \<Rightarrow> 'a outcome" where
  "json_caught r = (case r of Throw e \<Rightarrow> Throw (if e = E_Json then E_JsonFormatError else e) | _ \<Rightarrow> r)"

text \<open>
  A type without a payload class leaves the payload empty: \<open>InitPayload\<close> has overwritten it, and only a message is logged.
\<close>

definition Transaction_FromJson :: "'j json_env \<Rightarrow> 'j \<Rightarrow> Transaction \<Rightarrow> Transaction outcome" where
  "Transaction_FromJson E j old =
     (let t = Transaction_Reinit old in
      json_caught (
        obind (json_bool E j ''IsRegistered'') (\<lambda>isRegistered.
        obind (json_word E j ''Version'') (\<lambda>version.
        obind (json_word E j ''LockTime'') (\<lambda>lockTime.
        obind (json_word E j ''BlockHeight'') (\<lambda>blockHeight.
        obind (json_word E j ''Timestamp'') (\<lambda>timestamp.
        obind (json_arr E j ''Inputs'') (\<lambda>ji.
        obind (map_outcome (\<lambda>x. TransactionInput_FromJson E x TransactionInput_new) ji) (\<lambda>inputs.
        obind (json_word E j ''Type'') (\<lambda>type.
        obind (json_word E j ''PayloadVersion'') (\<lambda>payloadVersion.
        obind (case Transaction_InitPayload type of
                 None \<Rightarrow> Ret None
               | Some p \<Rightarrow> obind (json_index E j ''PayLoad'') (\<lambda>jp. omap Some (Payload_FromJson E payloadVersion jp p)))
          (\<lambda>payload.
        obind (json_arr E j ''Attributes'') (\<lambda>ja.
        obind (map_outcome (\<lambda>x. Attribute_FromJson E x Attribute_new) ja) (\<lambda>attributes.
        obind (json_arr E j ''Programs'') (\<lambda>jp.
        obind (map_outcome (\<lambda>x. Program_FromJson E x Program_new) jp) (\<lambda>programs.
        obind (json_arr E j ''Outputs'') (\<lambda>jo.
        obind (map_outcome (\<lambda>x. TransactionOutput_FromJson E x TransactionOutput_new) jo) (\<lambda>outputs.
        obind (json_word E j ''Fee'') (\<lambda>fee.
        obind (json_u256 E j ''TxHash'') (\<lambda>txHash.
          Ret (t\<lparr>tx_isRegistered := isRegistered, tx_version := version, tx_lockTime := lockTime,
                 tx_blockHeight := blockHeight, tx_timestamp := uint (timestamp :: u32), tx_inputs := inputs,
                 tx_type := type, tx_payloadVersion := payloadVersion, tx_payload := payload,
                 tx_attributes := attributes, tx_programs := programs, tx_outputs := outputs,
                 tx_fee := fee, tx_txHash := txHash\<rparr>)))))))))))))))))))))"

section \<open>What is read back\<close>

lemma json_caught_Ret [simp]: "json_caught (Ret x) = Ret x"
  by (simp add: json_caught_def)

lemma json_caught_Undef [simp]: "json_caught Undef = Undef"
  by (simp add: json_caught_def)

text \<open>No exception of the library leaves the reader.\<close>

lemma json_caught_no_library [simp]: "json_caught r \<noteq> Throw E_Json"
  by (simp add: json_caught_def split: outcome.splits)

lemma outputs_json:
  assumes "json_env_ok E" and "list_all OutputPayload_typed outs"
  shows "\<exists>js outs'. map_outcome (TransactionOutput_ToJson E) outs = Ret js \<and>
    map_outcome (\<lambda>x. TransactionOutput_FromJson E x TransactionOutput_new) js = Ret outs' \<and>
    map (TransactionOutput_Serialize v) outs' = map (TransactionOutput_Serialize v) outs \<and>
    map out_amount outs' = map out_amount outs"
  using assms(2)
proof (induction outs)
  case (Cons o1 outs)
  obtain j t' where "TransactionOutput_ToJson E o1 = Ret j" "TransactionOutput_FromJson E j TransactionOutput_new = Ret t'"
    "TransactionOutput_Serialize v t' = TransactionOutput_Serialize v o1" "out_amount t' = out_amount o1"
    using TransactionOutput_json [OF assms(1), of o1 TransactionOutput_new] Cons.prems by auto
  moreover obtain js outs' where "map_outcome (TransactionOutput_ToJson E) outs = Ret js"
    "map_outcome (\<lambda>x. TransactionOutput_FromJson E x TransactionOutput_new) js = Ret outs'"
    "map (TransactionOutput_Serialize v) outs' = map (TransactionOutput_Serialize v) outs"
    "map out_amount outs' = map out_amount outs" using Cons by auto
  ultimately show ?case by simp
qed simp

text \<open>A transaction a JSON form is made of: what the readers of its parts ask for.\<close>

definition Transaction_json_ok :: "'j json_env \<Rightarrow> Transaction \<Rightarrow> bool" where
  "Transaction_json_ok E t \<longleftrightarrow>
     (case tx_payload t of None \<Rightarrow> False
      | Some p \<Rightarrow> Transaction_InitPayload (tx_type t) = Some (Payload_fresh p) \<and>
                  Payload_json_ok E (tx_payloadVersion t) p) \<and>
     list_all OutputPayload_typed (tx_outputs t) \<and> 0 \<le> tx_timestamp t \<and> tx_timestamp t < 2 ^ 32"

lemma Transaction_json:
  assumes "json_env_ok E" and "Transaction_json_ok E t" and "Transaction_GetHash (je_sha256_2 E) t = Ret (h, th)"
  shows "\<exists>j t'. Transaction_ToJson E t = Ret (j, th) \<and> Transaction_FromJson E j old = Ret t' \<and>
    Transaction_Serialize t' = Transaction_Serialize t \<and> tx_txHash t' = h \<and> tx_fee t' = tx_fee t \<and>
    tx_blockHeight t' = tx_blockHeight t \<and> tx_timestamp t' = tx_timestamp t \<and> tx_isRegistered t' = tx_isRegistered t"
proof -
  obtain p where p: "tx_payload t = Some p" "Transaction_InitPayload (tx_type t) = Some (Payload_fresh p)"
    "Payload_json_ok E (tx_payloadVersion t) p" and outs: "list_all OutputPayload_typed (tx_outputs t)"
    and time: "0 \<le> tx_timestamp t" "tx_timestamp t < 2 ^ 32"
    using assms(2) by (auto simp: Transaction_json_ok_def split: option.splits)
  obtain p' where p': "Payload_FromJson E (tx_payloadVersion t) (Payload_ToJson E (tx_payloadVersion t) p) (Payload_fresh p) = Ret p'"
    "Payload_Serialize (tx_payloadVersion t) p' = Payload_Serialize (tx_payloadVersion t) p"
    using Payload_json [OF assms(1) p(3)] by blast
  obtain js outs' where o: "map_outcome (TransactionOutput_ToJson E) (tx_outputs t) = Ret js"
    "map_outcome (\<lambda>x. TransactionOutput_FromJson E x TransactionOutput_new) js = Ret outs'"
    "map (TransactionOutput_Serialize (tx_version t)) outs' = map (TransactionOutput_Serialize (tx_version t)) (tx_outputs t)"
    using outputs_json [OF assms(1) outs] by blast
  have "length outs' = length (tx_outputs t)" using arg_cong [OF o(3), of length] by simp
  then have wo: "write_items (TransactionOutput_Serialize (tx_version t)) outs' =
      write_items (TransactionOutput_Serialize (tx_version t)) (tx_outputs t)"
    using o(3) by (simp add: write_items_def)
  have "json_as_word E (je_num E (tx_timestamp t)) = Ret (word_of_int (tx_timestamp t) :: u32)"
    using json_as_num [OF assms(1), of "tx_timestamp t"] time by simp
  moreover have "uint (word_of_int (tx_timestamp t) :: u32) = tx_timestamp t" using time by (simp add: uint_word_of_int)
  ultimately show ?thesis
    using assms(1,3) p(1,2) p' o(1,2) wo
    by (simp add: Transaction_ToJson_def Transaction_FromJson_def Let_def map_outcome_same TransactionInput_json Attribute_json
        Program_json omap_def Transaction_Serialize_def Transaction_SerializeUnsigned_def)
qed

section \<open>What is checked on the way in\<close>

text \<open>
  Whatever the JSON value is: a draft, an opinion or a message that was read is no longer than its limit and
  hashes to the hash that stands beside it.
\<close>

lemma CheckAndDecode_Ret:
  "CRCProposal_CheckAndDecodeDraftData E s hash = Ret d \<Longrightarrow> json_matches E DRAFT_DATA_MAX_SIZE hash d"
  by (auto simp: CRCProposal_CheckAndDecodeDraftData_def json_matches_def obind_eq_Ret split: if_splits)

lemma owner_drafts:
  "CRCProposal_FromJsonNormalOwnerUnsigned E v j old = Ret p \<Longrightarrow> CRCProposal_draft_ok E v p"
  "CRCProposal_FromJsonSecretaryElectionUnsigned E v j old = Ret p \<Longrightarrow> CRCProposal_draft_ok E v p"
  "CRCProposal_FromJsonChangeOwnerUnsigned E v j old = Ret p \<Longrightarrow> CRCProposal_draft_ok E v p"
  "CRCProposal_FromJsonTerminateProposalOwnerUnsigned E v j old = Ret p \<Longrightarrow> CRCProposal_draft_ok E v p"
  "CRCProposal_FromJsonReserveCustomIDOwnerUnsigned E v j old = Ret p \<Longrightarrow> CRCProposal_draft_ok E v p"
  "CRCProposal_FromJsonReceiveCustomIDOwnerUnsigned E v j old = Ret p \<Longrightarrow> CRCProposal_draft_ok E v p"
  "CRCProposal_FromJsonChangeCustomIDFeeOwnerUnsigned E v j old = Ret p \<Longrightarrow> CRCProposal_draft_ok E v p"
  "CRCProposal_FromJsonRegisterSidechainUnsigned E v j old = Ret p \<Longrightarrow> CRCProposal_draft_ok E v p"
  by (auto simp: obind_eq_Ret CRCProposal_draft_ok_def CRCProposal_FromJsonNormalOwnerUnsigned_def
      CRCProposal_FromJsonSecretaryElectionUnsigned_def CRCProposal_FromJsonChangeOwnerUnsigned_def
      CRCProposal_FromJsonTerminateProposalOwnerUnsigned_def CRCProposal_FromJsonReserveCustomIDOwnerUnsigned_def
      CRCProposal_FromJsonReceiveCustomIDOwnerUnsigned_def CRCProposal_FromJsonChangeCustomIDFeeOwnerUnsigned_def
      CRCProposal_FromJsonRegisterSidechainUnsigned_def dest: CheckAndDecode_Ret)

lemma CRCProposal_draft_ok_council [simp]:
  "CRCProposal_draft_ok E v (p\<lparr>crp_signature := s\<rparr>) = CRCProposal_draft_ok E v p"
  "CRCProposal_draft_ok E v (p\<lparr>crp_crCouncilMemberDID := a\<rparr>) = CRCProposal_draft_ok E v p"
  "CRCProposal_draft_ok E v (p\<lparr>crp_newOwnerSignature := s\<rparr>) = CRCProposal_draft_ok E v p"
  "CRCProposal_draft_ok E v (p\<lparr>crp_secretarySignature := s\<rparr>) = CRCProposal_draft_ok E v p"
  "CRCProposal_draft_ok E v (p\<lparr>crp_crCouncilMemberSignature := s\<rparr>) = CRCProposal_draft_ok E v p"
  by (simp_all add: CRCProposal_draft_ok_def)

lemma council_drafts:
  "CRCProposal_FromJsonNormalCRCouncilMemberUnsigned E v j old = Ret p \<Longrightarrow> CRCProposal_draft_ok E v p"
  "CRCProposal_FromJsonSecretaryElectionCRCouncilMemberUnsigned E v j old = Ret p \<Longrightarrow> CRCProposal_draft_ok E v p"
  "CRCProposal_FromJsonChangeOwnerCRCouncilMemberUnsigned E v j old = Ret p \<Longrightarrow> CRCProposal_draft_ok E v p"
  "CRCProposal_FromJsonTerminateProposalCRCouncilMemberUnsigned E v j old = Ret p \<Longrightarrow> CRCProposal_draft_ok E v p"
  "CRCProposal_FromJsonReserveCustomIDCRCouncilMemberUnsigned E v j old = Ret p \<Longrightarrow> CRCProposal_draft_ok E v p"
  "CRCProposal_FromJsonReceiveCustomIDCRCouncilMemberUnsigned E v j old = Ret p \<Longrightarrow> CRCProposal_draft_ok E v p"
  "CRCProposal_FromJsonChangeCustomIDFeeCRCouncilMemberUnsigned E v j old = Ret p \<Longrightarrow> CRCProposal_draft_ok E v p"
  "CRCProposal_FromJsonRegisterSidechainCRCouncilMemberUnsigned E v j old = Ret p \<Longrightarrow> CRCProposal_draft_ok E v p"
  by (auto simp: obind_eq_Ret CRCProposal_FromJsonNormalCRCouncilMemberUnsigned_def
      CRCProposal_FromJsonSecretaryElectionCRCouncilMemberUnsigned_def
      CRCProposal_FromJsonChangeOwnerCRCouncilMemberUnsigned_def
      CRCProposal_FromJsonTerminateProposalCRCouncilMemberUnsigned_def
      CRCProposal_FromJsonReserveCustomIDCRCouncilMemberUnsigned_def
      CRCProposal_FromJsonReceiveCustomIDCRCouncilMemberUnsigned_def
      CRCProposal_FromJsonChangeCustomIDFeeCRCouncilMemberUnsigned_def
      CRCProposal_FromJsonRegisterSidechainCRCouncilMemberUnsigned_def dest: owner_drafts)

lemma CRCProposal_FromJson_draft:
  assumes "CRCProposal_FromJson E v j old = Ret p" and "CRCProposal_serializable (crp_type p)"
  shows "CRCProposal_draft_ok E v p"
  using assms
  by (auto simp: CRCProposal_FromJson_def obind_eq_Ret Let_def CRCProposal_serializable_def
      split: if_splits dest!: council_drafts)

lemma Payload_FromJson_checked:
  assumes "Payload_FromJson E v j (Payload_fresh q) = Ret p"
    and "\<And>c. p = PL_CRCProposal c \<Longrightarrow> CRCProposal_serializable (crp_type c)"
    and "\<And>r. p = PL_RegisterAsset r \<Longrightarrow> Asset_strings_fit (ra_asset r)"
  shows "Payload_json_ok E v p"
proof (cases q)
  case (PL_CRCProposal c)
  then obtain c' where "p = PL_CRCProposal c'" "CRCProposal_FromJson E v j CRCProposal_new = Ret c'"
    using assms(1) by (auto simp: omap_def obind_eq_Ret)
  then show ?thesis using assms(2) by (simp add: CRCProposal_FromJson_draft)
next
  case (PL_CRCProposalReview c)
  then show ?thesis using assms(1)
    by (auto simp: omap_def obind_eq_Ret CRCProposalReview_FromJson_def CRCProposalReview_FromJsonUnsigned_def)
next
  case (PL_CRCProposalTracking c)
  then show ?thesis using assms(1)
    by (auto simp: omap_def obind_eq_Ret CRCProposalTracking_FromJson_def CRCProposalTracking_FromJsonSecretaryUnsigned_def
        CRCProposalTracking_FromJsonNewOwnerUnsigned_def CRCProposalTracking_FromJsonOwnerUnsigned_def)
qed (use assms in \<open>auto simp: omap_def obind_eq_Ret\<close>)


end
