(* ===== verification/MainchainM.thy ===== *)
theory MainchainM
  imports SubWalletM TransactionJson
begin

text \<open>
  \<open>SDK/Implement/MainchainSubWallet.cpp\<close>: the requests of a sub-wallet of the main chain that pay into a side chain,
  register and cancel producers and council members, vote and stake.  The proposals of the council are in
  \<open>MainchainProposal\<close>.  What a request logs is left out.
\<close>

section \<open>What the requests share\<close>

text \<open>
  The libraries of the wallet, the JSON library, and SHA-256.  The two double hashes are one function of the code.
\<close>

record 'j mainchain_env =
  mc_lib :: account_lib
  mc_json :: "'j json_env"
  mc_sha256 :: "bytes \<Rightarrow> uint256"

definition mainchain_env_ok :: "'j mainchain_env \<Rightarrow> bool" where
  "mainchain_env_ok M \<longleftrightarrow> json_env_ok (mc_json M) \<and> je_sha256_2 (mc_json M) = al_sha256_2 (mc_lib M)"

abbreviation "mc_sha256_2 M \<equiv> al_sha256_2 (mc_lib M)"
abbreviation "mc_hash160 M \<equiv> al_hash160 (mc_lib M)"
abbreviation "mc_keyValid M \<equiv> kl_valid (al_key (mc_lib M)) CTElastos"
abbreviation "mc_ecdsa M \<equiv> kl_verify (al_key (mc_lib M)) CTElastos"

text \<open>A \<open>catch\<close> of the exceptions of the library, and one of every exception, that throws \<open>InvalidArgument\<close>.\<close>

definition json_argument :: "'a outcome \<Rightarrow> 'a outcome" where
  "json_argument r = (case r of Throw e \<Rightarrow> Throw (if e = E_Json then E_InvalidArgument else e) | _ \<Rightarrow> r)"

definition any_argument :: "'a outcome \<Rightarrow> 'a outcome" where
  "any_argument r = (case r of Throw e \<Rightarrow> Throw E_InvalidArgument | _ \<Rightarrow> r)"

lemma json_argument_Ret [simp]: "json_argument r = Ret x \<longleftrightarrow> r = Ret x"
  by (cases r) (simp_all add: json_argument_def)

lemma any_argument_Ret [simp]: "any_argument r = Ret x \<longleftrightarrow> r = Ret x"
  by (cases r) (simp_all add: any_argument_def)

definition json_member :: "'j json_env \<Rightarrow> ('j \<Rightarrow> 'a option) \<Rightarrow> 'j \<Rightarrow> string \<Rightarrow> 'a member" where
  "json_member E get j k =
     (case je_find E j k of None \<Rightarrow> Absent
      | Some v \<Rightarrow> (case get v of None \<Rightarrow> Wrong_type | Some x \<Rightarrow> Has x))"

definition UTXOJson_of :: "'j json_env \<Rightarrow> 'j \<Rightarrow> UTXOJson" where
  "UTXOJson_of E j =
     \<lparr>uj_TxHash = json_member E (je_get_str E) j ''TxHash'',
      uj_Index = json_member E (\<lambda>v. map_option word_of_int (je_get_num E v)) j ''Index'',
      uj_Address = json_member E (je_get_str E) j ''Address'',
      uj_Amount = json_member E (je_get_str E) j ''Amount''\<rparr>"

definition mainchain_inputs :: "'j mainchain_env \<Rightarrow> 'j \<Rightarrow> UTXO list outcome" where
  "mainchain_inputs M inputsJson =
     UTXOFromJson (mc_sha256_2 M) (je_dec2bn (mc_json M))
       (map (UTXOJson_of (mc_json M)) (je_elems (mc_json M) inputsJson)) []"

definition mainchain_dec :: "'j mainchain_env \<Rightarrow> string \<Rightarrow> BigInt" where
  "mainchain_dec M s = BigInt_setDec (je_dec2bn (mc_json M)) s 0"

definition Transaction_SetPayloadVersion :: "u8 \<Rightarrow> Transaction \<Rightarrow> Transaction" where
  "Transaction_SetPayloadVersion version t = t\<lparr>tx_payloadVersion := version\<rparr>"

text \<open>
  How a request ends: the wallet creates the transaction, its payload version is set, and it is encoded.  A new
  transaction has the payload version 0, which is what the requests without \<open>SetPayloadVersion\<close> leave.
\<close>

definition create_encoded ::
    "'j mainchain_env \<Rightarrow> u32 \<Rightarrow> u8 \<Rightarrow> Payload \<Rightarrow> u8 \<Rightarrow> UTXO list \<Rightarrow> TransactionOutput list \<Rightarrow> string \<Rightarrow> string \<Rightarrow> bool \<Rightarrow>
     Wallet \<Rightarrow> (TxJson \<times> Wallet) outcome" where
  "create_encoded M random type payload version utxo outputs memo fee back2FirstInput w =
     obind (Wallet_CreateTransaction (mc_lib M) random type (Some payload) utxo outputs memo (mainchain_dec M fee)
              back2FirstInput w) (\<lambda>(tx, w').
       omap (\<lambda>result. (result, w'))
         (EncodeTx (mc_sha256_2 M) CHAINID_MAINCHAIN (Transaction_SetPayloadVersion version tx)))"

definition CheckBigIntAmount :: "string \<Rightarrow> unit outcome" where
  "CheckBigIntAmount s = (if list_all is_digit s then Ret () else Throw E_InvalidArgument)"

definition SELA_PER_ELA :: BigInt where "SELA_PER_ELA = 100000000"
definition DEPOSIT_OR_WITHDRAW_FEE :: BigInt where "DEPOSIT_OR_WITHDRAW_FEE = 10000"
definition DEPOSIT_MIN_ELA :: BigInt where "DEPOSIT_MIN_ELA = 5000"

section \<open>Paying into a side chain\<close>

text \<open>\<open>addressValidateString\<close> and \<open>encodeHexValidate\<close> of breadwallet, on the C string.\<close>

definition is_xdigit :: "char \<Rightarrow> bool" where
  "is_xdigit c \<longleftrightarrow> is_digit c \<or>
     (of_char CHR ''a'' \<le> (of_char c :: nat) \<and> of_char c \<le> (of_char CHR ''f'' :: nat)) \<or>
     (of_char CHR ''A'' \<le> (of_char c :: nat) \<and> of_char c \<le> (of_char CHR ''F'' :: nat))"

definition encodeHexValidate :: "string \<Rightarrow> bool" where
  "encodeHexValidate number \<longleftrightarrow> number \<noteq> [] \<and> even (length number) \<and> list_all is_xdigit number"

definition addressValidateString :: "string \<Rightarrow> bool" where
  "addressValidateString s \<longleftrightarrow>
     (let s = takeWhile (\<lambda>c. c \<noteq> CHR 0x00) s
      in length s = 42 \<and> s ! 0 = CHR ''0'' \<and> s ! 1 = CHR ''x'' \<and> encodeHexValidate (drop 2 s))"

primrec contains_string :: "string \<Rightarrow> string \<Rightarrow> bool" where
  "contains_string p [] \<longleftrightarrow> p = []"
| "contains_string p (c # cs) \<longleftrightarrow> take (length p) (c # cs) = p \<or> contains_string p cs"

text \<open>The lock address is not checked: \<open>Address\<close> makes the zero hash of a text that is none.\<close>

definition MainchainSubWallet_CreateDepositTransaction ::
    "'j mainchain_env \<Rightarrow> u32 \<Rightarrow> u8 \<Rightarrow> 'j \<Rightarrow> string \<Rightarrow> string \<Rightarrow> string \<Rightarrow> string \<Rightarrow> string \<Rightarrow> string \<Rightarrow>
     Wallet \<Rightarrow> (TxJson \<times> Wallet) outcome" where
  "MainchainSubWallet_CreateDepositTransaction M random version inputsJson sideChainID amount sideChainAddress lockAddress
     fee memo w =
     obind (mainchain_inputs M inputsJson) (\<lambda>utxos.
     if version \<noteq> TransferCrossChainVersion \<and> version \<noteq> TransferCrossChainVersionV1 then Throw E_InvalidArgument
     else obind (CheckBigIntAmount amount) (\<lambda>_.
     if sideChainID = CHAINID_MAINCHAIN then Throw E_InvalidArgument
     else let bgAmount = mainchain_dec M amount in
     obind (if sideChainID = CHAINID_IDCHAIN \<or> sideChainID = CHAINID_TOKENCHAIN
            then if addr_isValid (Address_of_string (mc_sha256_2 M) sideChainAddress) then Ret () else Throw E_Address
            else if contains_string ''ETH'' sideChainID
            then if addressValidateString sideChainAddress then Ret () else Throw E_Address
            else Throw E_InvalidArgument) (\<lambda>_.
     let receiveAddr = Address_of_string (mc_sha256_2 M) lockAddress;
         paid = bgAmount + DEPOSIT_OR_WITHDRAW_FEE
     in if version = TransferCrossChainVersion
        then create_encoded M random Tx_transferCrossChainAsset
               (PL_TransferCrossChainAsset \<lparr>tcc_info =
                  [\<lparr>ti_crossChainAddress = sideChainAddress, ti_outputIndex = 0, ti_crossChainAmount = bgAmount\<rparr>]\<rparr>)
               version utxos [TransactionOutput_of paid receiveAddr GetELAAssetID OutputType_Default None] memo fee False w
        else create_encoded M random Tx_transferCrossChainAsset
               (PL_TransferCrossChainAsset TransferCrossChainAsset_new) version utxos
               [TransactionOutput_of paid receiveAddr GetELAAssetID OutputType_CrossChain
                  (Some (OP_CrossChain \<lparr>pcc_version = 0, pcc_targetAddress = sideChainAddress, pcc_targetAmount = bgAmount,
                                        pcc_targetData = []\<rparr>))] memo fee False w)))"

definition MainchainSubWallet_GetDepositAddress :: "'j mainchain_env \<Rightarrow> string \<Rightarrow> string outcome" where
  "MainchainSubWallet_GetDepositAddress M pubkey =
     obind (setHex pubkey) (\<lambda>pub.
     obind (Address_of_pubkey (mc_hash160 M) PrefixDeposit pub False) (\<lambda>depositAddress.
       Ret (Address_String (mc_sha256_2 M) depositAddress)))"

section \<open>Producers\<close>

text \<open>What \<open>GetBytes\<close> returns after a \<open>SerializeUnsigned\<close> into a new stream.\<close>

definition written_bytes :: "writer \<Rightarrow> bytes outcome" where
  "written_bytes m = obind (m empty_stream) (\<lambda>ostream. Ret (buf ostream))"

definition MainchainSubWallet_GenerateProducerPayload ::
    "'j mainchain_env \<Rightarrow> string \<Rightarrow> string \<Rightarrow> string \<Rightarrow> string \<Rightarrow> string \<Rightarrow> u64 \<Rightarrow> string \<Rightarrow> Wallet \<Rightarrow> ('j \<times> Wallet) outcome" where
  "MainchainSubWallet_GenerateProducerPayload M ownerPublicKey nodePublicKey nickName url ipAddress location payPasswd w =
     obind (CheckPassword payPasswd) (\<lambda>_.
     obind (setHex ownerPublicKey) (\<lambda>ownerPubKey.
     obind (Key_SetPubKey (mc_keyValid M) ownerPubKey) (\<lambda>_.
     obind (setHex nodePublicKey) (\<lambda>nodePubKey.
     obind (Key_SetPubKey (mc_keyValid M) nodePubKey) (\<lambda>_.
     let pr = ProducerInfo_new\<lparr>prod_ownerPublicKey := ownerPubKey, prod_nodePublicKey := nodePubKey,
                prod_nickName := nickName, prod_url := url, prod_address := ipAddress, prod_location := location\<rparr>
     in obind (written_bytes (ProducerInfo_SerializeUnsigned 0 pr)) (\<lambda>prUnsigned.
        obind (Wallet_SignWithOwnerKey (mc_lib M) prUnsigned payPasswd w) (\<lambda>(signature, w').
          Ret (ProducerInfo_ToJson (mc_json M) 0 (pr\<lparr>prod_signature := signature\<rparr>), w'))))))))"

definition MainchainSubWallet_GenerateCancelProducerPayload ::
    "'j mainchain_env \<Rightarrow> string \<Rightarrow> string \<Rightarrow> Wallet \<Rightarrow> ('j \<times> Wallet) outcome" where
  "MainchainSubWallet_GenerateCancelProducerPayload M ownerPublicKey payPasswd w =
     obind (CheckPassword payPasswd) (\<lambda>_.
     let pubKeyLen = length ownerPublicKey div 2
     in if pubKeyLen \<noteq> 33 \<and> pubKeyLen \<noteq> 65 then Throw E_PubKeyLength
        else obind (setHex ownerPublicKey) (\<lambda>publicKey.
          let pc = CancelProducer_new\<lparr>cancelp_publicKey := publicKey\<rparr>
          in obind (written_bytes (CancelProducer_SerializeUnsigned 0 pc)) (\<lambda>pcUnsigned.
             obind (Wallet_SignWithOwnerKey (mc_lib M) pcUnsigned payPasswd w) (\<lambda>(signature, w').
               Ret (CancelProducer_ToJson (mc_json M) 0 (pc\<lparr>cancelp_signature := signature\<rparr>), w')))))"

definition MainchainSubWallet_CreateRegisterProducerTransaction ::
    "'j mainchain_env \<Rightarrow> u32 \<Rightarrow> 'j \<Rightarrow> 'j \<Rightarrow> string \<Rightarrow> string \<Rightarrow> string \<Rightarrow> Wallet \<Rightarrow> (TxJson \<times> Wallet) outcome" where
  "MainchainSubWallet_CreateRegisterProducerTransaction M random inputsJson payloadJson amount fee memo w =
     obind (mainchain_inputs M inputsJson) (\<lambda>utxo.
     obind (CheckBigIntAmount amount) (\<lambda>_.
     let bgAmount = mainchain_dec M amount
     in if bgAmount < DEPOSIT_MIN_ELA * SELA_PER_ELA then Throw E_DepositAmountInsufficient
        else obind (json_caught (ProducerInfo_FromJson (mc_json M) 0 payloadJson ProducerInfo_new)) (\<lambda>payload.
             obind (Address_of_pubkey (mc_hash160 M) PrefixDeposit (prod_ownerPublicKey payload) False) (\<lambda>receiveAddr.
               create_encoded M random Tx_registerProducer (PL_ProducerInfo payload) 0 utxo
                 [TransactionOutput_of bgAmount receiveAddr GetELAAssetID OutputType_Default None] memo fee False w))))"

definition MainchainSubWallet_CreateUpdateProducerTransaction ::
    "'j mainchain_env \<Rightarrow> u32 \<Rightarrow> 'j \<Rightarrow> 'j \<Rightarrow> string \<Rightarrow> string \<Rightarrow> Wallet \<Rightarrow> (TxJson \<times> Wallet) outcome" where
  "MainchainSubWallet_CreateUpdateProducerTransaction M random inputsJson payloadJson fee memo w =
     obind (mainchain_inputs M inputsJson) (\<lambda>utxo.
     obind (json_caught (ProducerInfo_FromJson (mc_json M) 0 payloadJson ProducerInfo_new)) (\<lambda>payload.
       create_encoded M random Tx_updateProducer (PL_ProducerInfo payload) 0 utxo [] memo fee False w))"

definition MainchainSubWallet_CreateCancelProducerTransaction ::
    "'j mainchain_env \<Rightarrow> u32 \<Rightarrow> 'j \<Rightarrow> 'j \<Rightarrow> string \<Rightarrow> string \<Rightarrow> Wallet \<Rightarrow> (TxJson \<times> Wallet) outcome" where
  "MainchainSubWallet_CreateCancelProducerTransaction M random inputsJson payloadJson fee memo w =
     obind (mainchain_inputs M inputsJson) (\<lambda>utxo.
     obind (json_caught (CancelProducer_FromJson (mc_json M) 0 payloadJson CancelProducer_new)) (\<lambda>payload.
       create_encoded M random Tx_cancelProducer (PL_CancelProducer payload) 0 utxo [] memo fee False w))"

text \<open>The deposit comes back, less the fee, to the first address of the wallet; the change to the first input.\<close>

definition MainchainSubWallet_CreateRetrieveDepositTransaction ::
    "'j mainchain_env \<Rightarrow> u32 \<Rightarrow> 'j \<Rightarrow> string \<Rightarrow> string \<Rightarrow> string \<Rightarrow> Wallet \<Rightarrow> (TxJson \<times> Wallet) outcome" where
  "MainchainSubWallet_CreateRetrieveDepositTransaction M random inputsJson amount fee memo w =
     obind (mainchain_inputs M inputsJson) (\<lambda>utxo.
     obind (Wallet_GetAddresses (mc_lib M) 0 1 False w) (\<lambda>(addresses, w').
       case addresses of [] \<Rightarrow> Throw E_Address
       | receiveAddr # _ \<Rightarrow>
         create_encoded M random Tx_returnDepositCoin (PL_ReturnDepositCoin ReturnDepositCoin_new) 0 utxo
           [TransactionOutput_of (mainchain_dec M amount - mainchain_dec M fee) receiveAddr GetELAAssetID
              OutputType_Default None] memo fee True w'))"

definition MainchainSubWallet_GetOwnerPublicKey :: "Wallet \<Rightarrow> string outcome" where
  "MainchainSubWallet_GetOwnerPublicKey w = omap getHex0 (Wallet_GetOwnerPublilcKey w)"

definition MainchainSubWallet_GetOwnerAddress :: "'j mainchain_env \<Rightarrow> Wallet \<Rightarrow> string outcome" where
  "MainchainSubWallet_GetOwnerAddress M w = omap (Address_String (mc_sha256_2 M)) (Wallet_GetOwnerAddress (mc_lib M) w)"

definition MainchainSubWallet_GetOwnerDepositAddress :: "'j mainchain_env \<Rightarrow> Wallet \<Rightarrow> string outcome" where
  "MainchainSubWallet_GetOwnerDepositAddress M w =
     omap (Address_String (mc_sha256_2 M)) (Wallet_GetOwnerDepositAddress (mc_lib M) w)"

section \<open>Votes\<close>

definition MainchainSubWallet_VoteAmountFromJson :: "'j json_env \<Rightarrow> 'j \<Rightarrow> BigInt outcome" where
  "MainchainSubWallet_VoteAmountFromJson E j =
     (case je_get_str E j of None \<Rightarrow> Throw E_InvalidArgument
      | Some s \<Rightarrow>
        obind (CheckBigIntAmount s) (\<lambda>_.
          let voteAmount = BigInt_setDec (je_dec2bn E) s 0
          in if voteAmount \<le> 0 then Throw E_InvalidArgument else Ret voteAmount))"

text \<open>A loop with an iterator that is asked for its key: only the iterators of an object have one.\<close>

definition json_items :: "'j json_env \<Rightarrow> 'j \<Rightarrow> (string option \<times> 'j) list" where
  "json_items E j =
     (if je_is_object E j then map (\<lambda>(k, v). (Some k, v)) (je_members E j)
      else map (\<lambda>v. (None, v)) (je_elems E j))"

primrec votes_from_items ::
    "'j json_env \<Rightarrow> (string \<Rightarrow> bytes outcome) \<Rightarrow> (string option \<times> 'j) list \<Rightarrow> VoteContent \<Rightarrow> VoteContent outcome" where
  "votes_from_items E candidate [] vc = Ret vc"
| "votes_from_items E candidate (item # items) vc =
     obind (MainchainSubWallet_VoteAmountFromJson E (snd item)) (\<lambda>voteAmount.
     obind (json_get (fst item)) (\<lambda>key.
     obind (candidate key) (\<lambda>c.
       votes_from_items E candidate items
         (VoteContent_AddCandidate \<lparr>cand_candidate = c, cand_votes = voteAmount\<rparr> vc))))"

definition cid_candidate :: "'j json_env \<Rightarrow> string \<Rightarrow> bytes outcome" where
  "cid_candidate E key =
     (let cid = Address_of_string (je_sha256_2 E) key
      in if addr_isValid cid then Ret (uint168_bytes (addr_programHash cid)) else Throw E_InvalidArgument)"

text \<open>\<open>SetHex\<close> of the hash of a proposal takes any text, and \<open>size\<close> is 32 whatever was set.\<close>

definition vote_kind ::
    "'j json_env \<Rightarrow> string \<Rightarrow> (u8 \<times> (string \<Rightarrow> bytes outcome) \<times> (VoteContent \<Rightarrow> BigInt)) option" where
  "vote_kind E type =
     (if type = ''CRC'' then Some (VoteType_CRC, cid_candidate E, VoteContent_GetTotalVoteAmount)
      else if type = ''CRCProposal''
      then Some (VoteType_CRCProposal, \<lambda>key. Ret (le_bytes 32 (uint256_SetHex key)), VoteContent_GetMaxVoteAmount)
      else if type = ''CRCImpeachment'' then Some (VoteType_CRCImpeachment, cid_candidate E, VoteContent_GetTotalVoteAmount)
      else if type = ''Delegate'' then Some (VoteType_Delegate, setHex, VoteContent_GetMaxVoteAmount)
      else None)"

primrec MainchainSubWallet_VoteContentFromJson ::
    "'j json_env \<Rightarrow> 'j list \<Rightarrow> VoteContent list \<Rightarrow> BigInt \<Rightarrow> (VoteContent list \<times> BigInt) outcome" where
  "MainchainSubWallet_VoteContentFromJson E [] voteContents maxAmount = Ret (voteContents, maxAmount)"
| "MainchainSubWallet_VoteContentFromJson E (it # its) voteContents maxAmount =
     obind (json_str E it ''Type'') (\<lambda>type.
     case vote_kind E type of
       None \<Rightarrow> MainchainSubWallet_VoteContentFromJson E its voteContents maxAmount
     | Some (ty, candidate, amount) \<Rightarrow>
       obind (json_index E it ''Candidates'') (\<lambda>candidateVotesJson.
       obind (votes_from_items E candidate (json_items E candidateVotesJson) \<lparr>vote_type = ty, vote_candidates = []\<rparr>) (\<lambda>vc.
         MainchainSubWallet_VoteContentFromJson E its (voteContents @ [vc])
           (if amount vc > maxAmount then amount vc else maxAmount))))"

text \<open>The output goes back to the address of the first input, which is dereferenced without a look.\<close>

definition MainchainSubWallet_CreateVoteTransaction ::
    "'j mainchain_env \<Rightarrow> u32 \<Rightarrow> 'j \<Rightarrow> 'j \<Rightarrow> string \<Rightarrow> string \<Rightarrow> Wallet \<Rightarrow> (TxJson \<times> Wallet) outcome" where
  "MainchainSubWallet_CreateVoteTransaction M random inputsJson voteContentsJson fee memo w =
     obind (mainchain_inputs M inputsJson) (\<lambda>utxos.
     obind (MainchainSubWallet_VoteContentFromJson (mc_json M) (je_elems (mc_json M) voteContentsJson) [] 0)
       (\<lambda>(voteContents, outputAmount).
     case utxos of [] \<Rightarrow> Undef
     | u # _ \<Rightarrow>
       obind (TransactionOutput_assign TransactionOutput_new
               (TransactionOutput_of outputAmount (utxo_address u) GetELAAssetID OutputType_VoteOutput
                  (Some (OP_Vote \<lparr>pv_version = VOTE_PRODUCER_CR_VERSION, pv_content = voteContents\<rparr>)))) (\<lambda>output.
         create_encoded M random Tx_transferAsset (PL_TransferAsset TransferAsset_new) 0 utxos [output] memo fee True w)))"

section \<open>Council members\<close>

definition MainchainSubWallet_GetCRDepositAddress :: "'j mainchain_env \<Rightarrow> Wallet \<Rightarrow> string outcome" where
  "MainchainSubWallet_GetCRDepositAddress M w =
     omap (Address_String (mc_sha256_2 M)) (Wallet_GetCROwnerDepositAddress (mc_lib M) w)"

definition MainchainSubWallet_GenerateCRInfoPayload ::
    "'j mainchain_env \<Rightarrow> string \<Rightarrow> string \<Rightarrow> string \<Rightarrow> string \<Rightarrow> u64 \<Rightarrow> 'j outcome" where
  "MainchainSubWallet_GenerateCRInfoPayload M crPublicKey did nickName url location =
     (let pubKeyLen = length crPublicKey div 2
      in if pubKeyLen \<noteq> 33 \<and> pubKeyLen \<noteq> 65 then Throw E_PubKeyLength
         else obind (setHex crPublicKey) (\<lambda>pubkey.
         obind (Address_of_pubkey (mc_hash160 M) PrefixStandard pubkey False) (\<lambda>address.
         let crInfo = CRInfo_new\<lparr>cri_code := addr_code address,
               cri_did := addr_programHash (Address_of_string (mc_sha256_2 M) did),
               cri_nickName := nickName, cri_url := url, cri_location := location\<rparr>
         in obind (Address_SetRedeemScript (mc_hash160 M) PrefixIDChain (cri_code crInfo) Address_new) (\<lambda>cid.
         let crInfo = crInfo\<lparr>cri_cid := addr_programHash cid\<rparr>
         in obind (written_bytes (CRInfo_SerializeUnsigned CRInfoDIDVersion crInfo)) (\<lambda>ostream.
            json_assign (mc_json M) (CRInfo_ToJson (mc_json M) CRInfoDIDVersion crInfo) ''Digest''
              (je_u256 (mc_json M) (mc_sha256 M ostream)))))))"

definition MainchainSubWallet_GenerateUnregisterCRPayload :: "'j mainchain_env \<Rightarrow> string \<Rightarrow> 'j outcome" where
  "MainchainSubWallet_GenerateUnregisterCRPayload M CID =
     (let cid = Address_of_string (mc_sha256_2 M) CID
      in if \<not> addr_isValid cid then Throw E_InvalidArgument
         else let unregisterCR = UnregisterCR_new\<lparr>ucr_cid := addr_programHash cid\<rparr>
              in obind (written_bytes (UnregisterCR_SerializeUnsigned 0 unregisterCR)) (\<lambda>ostream.
                 json_assign (mc_json M) (UnregisterCR_ToJson (mc_json M) 0 unregisterCR) ''Digest''
                   (je_u256 (mc_json M) (mc_sha256 M ostream))))"

definition MainchainSubWallet_CreateRegisterCRTransaction ::
    "'j mainchain_env \<Rightarrow> u32 \<Rightarrow> 'j \<Rightarrow> 'j \<Rightarrow> string \<Rightarrow> string \<Rightarrow> string \<Rightarrow> Wallet \<Rightarrow> (TxJson \<times> Wallet) outcome" where
  "MainchainSubWallet_CreateRegisterCRTransaction M random inputsJson payloadJSON amount fee memo w =
     obind (mainchain_inputs M inputsJson) (\<lambda>utxo.
     obind (CheckBigIntAmount amount) (\<lambda>_.
     let bgAmount = mainchain_dec M amount
     in if bgAmount < DEPOSIT_MIN_ELA * SELA_PER_ELA then Throw E_DepositAmountInsufficient
        else if je_find (mc_json M) payloadJSON ''Signature'' = None then Throw E_InvalidArgument
        else obind (json_caught (CRInfo_FromJson (mc_json M) CRInfoDIDVersion payloadJSON CRInfo_new)) (\<lambda>payload.
             obind (CRInfo_IsValid (mc_sha256 M) (mc_keyValid M) (mc_ecdsa M) CRInfoDIDVersion payload) (\<lambda>isValid.
             if \<not> isValid then Throw E_InvalidArgument
             else obind (Address_SetRedeemScript (mc_hash160 M) PrefixDeposit (cri_code payload) Address_new) (\<lambda>receiveAddr.
               create_encoded M random Tx_registerCR (PL_CRInfo payload) CRInfoDIDVersion utxo
                 [TransactionOutput_of bgAmount receiveAddr GetELAAssetID OutputType_Default None] memo fee False w)))))"

definition MainchainSubWallet_CreateUpdateCRTransaction ::
    "'j mainchain_env \<Rightarrow> u32 \<Rightarrow> 'j \<Rightarrow> 'j \<Rightarrow> string \<Rightarrow> string \<Rightarrow> Wallet \<Rightarrow> (TxJson \<times> Wallet) outcome" where
  "MainchainSubWallet_CreateUpdateCRTransaction M random inputsJson payloadJSON fee memo w =
     obind (mainchain_inputs M inputsJson) (\<lambda>utxo.
     obind (json_caught (CRInfo_FromJson (mc_json M) CRInfoDIDVersion payloadJSON CRInfo_new)) (\<lambda>payload.
       create_encoded M random Tx_updateCR (PL_CRInfo payload) CRInfoDIDVersion utxo [] memo fee False w))"

definition MainchainSubWallet_CreateUnregisterCRTransaction ::
    "'j mainchain_env \<Rightarrow> u32 \<Rightarrow> 'j \<Rightarrow> 'j \<Rightarrow> string \<Rightarrow> string \<Rightarrow> Wallet \<Rightarrow> (TxJson \<times> Wallet) outcome" where
  "MainchainSubWallet_CreateUnregisterCRTransaction M random inputsJson payloadJSON fee memo w =
     obind (mainchain_inputs M inputsJson) (\<lambda>utxo.
     obind (case je_find (mc_json M) payloadJSON ''Signature'' of None \<Rightarrow> Ret True
            | Some v \<Rightarrow> omap (\<lambda>s. s = []) (json_as_str (mc_json M) v)) (\<lambda>unsigned.
     if unsigned then Throw E_InvalidArgument
     else obind (json_caught (UnregisterCR_FromJson (mc_json M) 0 payloadJSON UnregisterCR_new)) (\<lambda>payload.
       create_encoded M random Tx_unregisterCR (PL_UnregisterCR payload) 0 utxo [] memo fee False w)))"

definition MainchainSubWallet_CreateRetrieveCRDepositTransaction ::
    "'j mainchain_env \<Rightarrow> u32 \<Rightarrow> 'j \<Rightarrow> string \<Rightarrow> string \<Rightarrow> string \<Rightarrow> Wallet \<Rightarrow> (TxJson \<times> Wallet) outcome" where
  "MainchainSubWallet_CreateRetrieveCRDepositTransaction M random inputsJson amount fee memo w =
     obind (mainchain_inputs M inputsJson) (\<lambda>utxo.
     case utxo of [] \<Rightarrow> Undef
     | u # _ \<Rightarrow>
       create_encoded M random Tx_returnCRDepositCoin (PL_ReturnDepositCoin ReturnDepositCoin_new) 0 utxo
         [TransactionOutput_of (mainchain_dec M amount - mainchain_dec M fee) (utxo_address u) GetELAAssetID
            OutputType_Default None] memo fee True w)"

section \<open>Stakes and rewards\<close>

definition MainchainSubWallet_CreateStakeTransaction ::
    "'j mainchain_env \<Rightarrow> u32 \<Rightarrow> 'j \<Rightarrow> 'j \<Rightarrow> string \<Rightarrow> string \<Rightarrow> string \<Rightarrow> string \<Rightarrow> Wallet \<Rightarrow> (TxJson \<times> Wallet) outcome" where
  "MainchainSubWallet_CreateStakeTransaction M random inputs payload lockAddress amount fee memo w =
     obind (mainchain_inputs M inputs) (\<lambda>utxo.
     obind (json_argument (PayloadStake_FromJson (mc_json M) payload PayloadStake_new)) (\<lambda>outputpayload.
       create_encoded M random Tx_Stake (PL_Stake Stake_new) 0 utxo
         [TransactionOutput_of (mainchain_dec M amount) (Address_of_string (mc_sha256_2 M) lockAddress) GetELAAssetID
            OutputType_Stake (Some (OP_Stake outputpayload))] memo fee False w))"

definition MainchainSubWallet_CreateDPoSV2VoteTransaction ::
    "'j mainchain_env \<Rightarrow> u32 \<Rightarrow> 'j \<Rightarrow> 'j \<Rightarrow> string \<Rightarrow> string \<Rightarrow> Wallet \<Rightarrow> (TxJson \<times> Wallet) outcome" where
  "MainchainSubWallet_CreateDPoSV2VoteTransaction M random inputs payload fee memo w =
     obind (mainchain_inputs M inputs) (\<lambda>utxo.
     obind (json_argument (
              obind (obind (json_at (mc_json M) payload ''Version'') (json_as_word (mc_json M))) (\<lambda>version.
                omap (\<lambda>p. (version, p)) (Voting_FromJson (mc_json M) version payload Voting_new)))) (\<lambda>(version, p).
       create_encoded M random Tx_Voting (PL_Voting p) version utxo [] memo fee False w))"

definition DPoSV2ClaimRewardVersion :: u8 where "DPoSV2ClaimRewardVersion = 0"

definition MainchainSubWallet_DPoSV2ClaimRewardDigest :: "'j mainchain_env \<Rightarrow> 'j \<Rightarrow> string outcome" where
  "MainchainSubWallet_DPoSV2ClaimRewardDigest M payload =
     obind (json_argument (DPoSV2ClaimReward_FromJsonUnsigned (mc_json M) DPoSV2ClaimRewardVersion payload DPoSV2ClaimReward_new))
       (\<lambda>p. omap uint256_GetHex (DPoSV2ClaimReward_Digest (mc_sha256 M) DPoSV2ClaimRewardVersion p))"

definition MainchainSubWallet_CreateDPoSV2ClaimRewardTransaction ::
    "'j mainchain_env \<Rightarrow> u32 \<Rightarrow> 'j \<Rightarrow> 'j \<Rightarrow> string \<Rightarrow> string \<Rightarrow> Wallet \<Rightarrow> (TxJson \<times> Wallet) outcome" where
  "MainchainSubWallet_CreateDPoSV2ClaimRewardTransaction M random inputs payload fee memo w =
     obind (mainchain_inputs M inputs) (\<lambda>utxo.
     obind (json_argument (DPoSV2ClaimReward_FromJson (mc_json M) DPoSV2ClaimRewardVersion payload DPoSV2ClaimReward_new)) (\<lambda>p.
       create_encoded M random Tx_DposV2ClaimReward (PL_DPoSV2ClaimReward p) DPoSV2ClaimRewardVersion utxo [] memo fee False w))"

definition MainchainSubWallet_CreateCancelVotesTransaction ::
    "'j mainchain_env \<Rightarrow> u32 \<Rightarrow> 'j \<Rightarrow> 'j \<Rightarrow> string \<Rightarrow> string \<Rightarrow> Wallet \<Rightarrow> (TxJson \<times> Wallet) outcome" where
  "MainchainSubWallet_CreateCancelVotesTransaction M random inputs payload fee memo w =
     obind (mainchain_inputs M inputs) (\<lambda>utxo.
     obind (json_argument (CancelVotes_FromJson (mc_json M) 0 payload CancelVotes_new)) (\<lambda>p.
       create_encoded M random Tx_CancelVotes (PL_CancelVotes p) 0 utxo [] memo fee False w))"

definition MainchainSubWallet_UnstakeDigest :: "'j mainchain_env \<Rightarrow> 'j \<Rightarrow> string outcome" where
  "MainchainSubWallet_UnstakeDigest M payload =
     obind (json_argument (Unstake_FromJsonUnsigned (mc_json M) 0 payload Unstake_new))
       (\<lambda>p. omap uint256_GetHex (Unstake_DigestUnstake (mc_sha256 M) 0 p))"

text \<open>The type of the transaction is that of cancelled votes, as it is written.\<close>

definition MainchainSubWallet_CreateUnstakeTransaction ::
    "'j mainchain_env \<Rightarrow> u32 \<Rightarrow> 'j \<Rightarrow> 'j \<Rightarrow> string \<Rightarrow> string \<Rightarrow> Wallet \<Rightarrow> (TxJson \<times> Wallet) outcome" where
  "MainchainSubWallet_CreateUnstakeTransaction M random inputs payload fee memo w =
     obind (mainchain_inputs M inputs) (\<lambda>utxo.
     obind (json_argument (Unstake_FromJson (mc_json M) 0 payload Unstake_new)) (\<lambda>p.
       create_encoded M random Tx_CancelVotes (PL_Unstake p) 0 utxo [] memo fee False w))"

end
