(* ===== verification/MainchainProposal.thy ===== *)
theory MainchainProposal
  imports MainchainM
begin

text \<open>
  The proposals of the council in \<open>SDK/Implement/MainchainSubWallet.cpp\<close>: for each of them the digests the owner, the
  secretary and the council member sign, stage by stage, and the request that makes the transaction.
\<close>

section \<open>What the requests share\<close>

definition CRCouncilMemberClaimNodeVersion :: u8 where "CRCouncilMemberClaimNodeVersion = 0"
definition CRCProposalReviewDefaultVersion :: u8 where "CRCProposalReviewDefaultVersion = 0"
definition CRCProposalTrackingDefaultVersion :: u8 where "CRCProposalTrackingDefaultVersion = 0"

text \<open>The version is that of the texts in full when they are there.\<close>

definition proposal_version :: "'j json_env \<Rightarrow> 'j \<Rightarrow> u8" where
  "proposal_version E payload =
     (if json_contains E payload ''DraftData'' then CRCProposalVersion01 else CRCProposalDefaultVersion)"

definition review_version :: "'j json_env \<Rightarrow> 'j \<Rightarrow> u8" where
  "review_version E payload =
     (if json_contains E payload ''OpinionData'' then CRCProposalReviewVersion01 else CRCProposalReviewDefaultVersion)"

definition tracking_version :: "'j json_env \<Rightarrow> 'j \<Rightarrow> u8" where
  "tracking_version E payload =
     (if json_contains E payload ''MessageData'' then CRCProposalTrackingVersion01 else CRCProposalTrackingDefaultVersion)"

definition tracking_full_version :: "'j json_env \<Rightarrow> 'j \<Rightarrow> u8" where
  "tracking_full_version E payload =
     (if json_contains E payload ''MessageData'' \<and> json_contains E payload ''SecretaryGeneralOpinionData''
      then CRCProposalTrackingVersion01 else CRCProposalTrackingDefaultVersion)"

text \<open>The type of the proposal is set in a copy of the request, whatever the request says.\<close>

definition payload_fixed :: "'j json_env \<Rightarrow> u16 \<Rightarrow> 'j \<Rightarrow> 'j outcome" where
  "payload_fixed E type payload = json_assign E payload ''Type'' (je_word E type)"

text \<open>A payload that was read is asked whether it is valid.\<close>

definition when_valid :: "bool outcome \<Rightarrow> 'a outcome \<Rightarrow> 'a outcome" where
  "when_valid isValid r = obind isValid (\<lambda>ok. if ok then r else Throw E_InvalidArgument)"

section \<open>Nodes of council members\<close>

definition MainchainSubWallet_CRCouncilMemberClaimNodeDigest :: "'j mainchain_env \<Rightarrow> 'j \<Rightarrow> string outcome" where
  "MainchainSubWallet_CRCouncilMemberClaimNodeDigest M payload =
     (let version = CRCouncilMemberClaimNodeVersion in
      obind (any_argument (
        CRCouncilMemberClaimNode_FromJsonUnsigned (mc_json M) version payload CRCouncilMemberClaimNode_new)) (\<lambda>p.
        when_valid (Ret (CRCouncilMemberClaimNode_IsValidUnsigned (mc_keyValid M) version p))
          (omap (\<lambda>(digest, _). uint256_GetHex digest) (CRCouncilMemberClaimNode_DigestUnsigned (mc_sha256 M) version p))))"

definition MainchainSubWallet_CreateCRCouncilMemberClaimNodeTransaction ::
    "'j mainchain_env \<Rightarrow> u32 \<Rightarrow> 'j \<Rightarrow> 'j \<Rightarrow> string \<Rightarrow> string \<Rightarrow> Wallet \<Rightarrow> (TxJson \<times> Wallet) outcome" where
  "MainchainSubWallet_CreateCRCouncilMemberClaimNodeTransaction M random inputsJson payload fee memo w =
     obind (mainchain_inputs M inputsJson) (\<lambda>utxo.
     let version = CRCProposalDefaultVersion in
     obind (any_argument (
       CRCouncilMemberClaimNode_FromJson (mc_json M) version payload CRCouncilMemberClaimNode_new)) (\<lambda>p.
       when_valid (Payload_IsValid (mc_sha256_2 M) (mc_sha256 M) (mc_keyValid M) (mc_ecdsa M) version (PL_CRCouncilMemberClaimNode p))
         (create_encoded M random Tx_crCouncilMemberClaimNode (PL_CRCouncilMemberClaimNode p) version utxo [] memo fee False w)))"

section \<open>Proposals\<close>

definition MainchainSubWallet_ProposalOwnerDigest :: "'j mainchain_env \<Rightarrow> 'j \<Rightarrow> string outcome" where
  "MainchainSubWallet_ProposalOwnerDigest M payload =
     (let version = proposal_version (mc_json M) payload in
      obind (json_argument (
        CRCProposal_FromJsonNormalOwnerUnsigned (mc_json M) version payload CRCProposal_new)) (\<lambda>p.
        when_valid (Ret (CRCProposal_IsValidNormalOwnerUnsigned (mc_keyValid M) version p))
          (omap uint256_GetHex (CRCProposal_DigestNormalOwnerUnsigned (mc_sha256 M) version p))))"

definition MainchainSubWallet_ProposalCRCouncilMemberDigest :: "'j mainchain_env \<Rightarrow> 'j \<Rightarrow> string outcome" where
  "MainchainSubWallet_ProposalCRCouncilMemberDigest M payload =
     (let version = proposal_version (mc_json M) payload in
      obind (json_argument (
        CRCProposal_FromJsonNormalCRCouncilMemberUnsigned (mc_json M) version payload CRCProposal_new)) (\<lambda>p.
        when_valid (CRCProposal_IsValidNormalCRCouncilMemberUnsigned (mc_sha256 M) (mc_keyValid M) (mc_ecdsa M) version p)
          (omap uint256_GetHex (CRCProposal_DigestNormalCRCouncilMemberUnsigned (mc_sha256 M) version p))))"

definition MainchainSubWallet_CalculateProposalHash :: "'j mainchain_env \<Rightarrow> 'j \<Rightarrow> string outcome" where
  "MainchainSubWallet_CalculateProposalHash M payload =
     (let version = proposal_version (mc_json M) payload in
      obind (json_argument (CRCProposal_FromJson (mc_json M) version payload CRCProposal_new)) (\<lambda>p.
        when_valid (CRCProposal_IsValid (mc_sha256 M) (mc_keyValid M) (mc_ecdsa M) version p)
          (omap (\<lambda>bs. uint256_GetHex (mc_sha256_2 M bs)) (written_bytes (CRCProposal_Serialize version p)))))"

definition MainchainSubWallet_CreateProposalTransaction ::
    "'j mainchain_env \<Rightarrow> u32 \<Rightarrow> 'j \<Rightarrow> 'j \<Rightarrow> string \<Rightarrow> string \<Rightarrow> Wallet \<Rightarrow> (TxJson \<times> Wallet) outcome" where
  "MainchainSubWallet_CreateProposalTransaction M random inputsJson payload fee memo w =
     obind (mainchain_inputs M inputsJson) (\<lambda>utxo.
     let version = proposal_version (mc_json M) payload in
     obind (json_argument (
       CRCProposal_FromJson (mc_json M) version payload CRCProposal_new)) (\<lambda>p.
       when_valid (Payload_IsValid (mc_sha256_2 M) (mc_sha256 M) (mc_keyValid M) (mc_ecdsa M) version (PL_CRCProposal p))
         (create_encoded M random Tx_crcProposal (PL_CRCProposal p) version utxo [] memo fee False w)))"

section \<open>Reviews and tracking\<close>

definition MainchainSubWallet_ProposalReviewDigest :: "'j mainchain_env \<Rightarrow> 'j \<Rightarrow> string outcome" where
  "MainchainSubWallet_ProposalReviewDigest M payload =
     (let version = review_version (mc_json M) payload in
      obind (json_argument (
        CRCProposalReview_FromJsonUnsigned (mc_json M) version payload CRCProposalReview_new)) (\<lambda>p.
        when_valid (Ret (CRCProposalReview_IsValidUnsigned version p))
          (omap (\<lambda>(digest, _). uint256_GetHex digest) (CRCProposalReview_DigestUnsigned (mc_sha256 M) version p))))"

definition MainchainSubWallet_CreateProposalReviewTransaction ::
    "'j mainchain_env \<Rightarrow> u32 \<Rightarrow> 'j \<Rightarrow> 'j \<Rightarrow> string \<Rightarrow> string \<Rightarrow> Wallet \<Rightarrow> (TxJson \<times> Wallet) outcome" where
  "MainchainSubWallet_CreateProposalReviewTransaction M random inputsJson payload fee memo w =
     obind (mainchain_inputs M inputsJson) (\<lambda>utxo.
     let version = review_version (mc_json M) payload in
     obind (json_argument (
       CRCProposalReview_FromJson (mc_json M) version payload CRCProposalReview_new)) (\<lambda>p.
       when_valid (Payload_IsValid (mc_sha256_2 M) (mc_sha256 M) (mc_keyValid M) (mc_ecdsa M) version (PL_CRCProposalReview p))
         (create_encoded M random Tx_crcProposalReview (PL_CRCProposalReview p) version utxo [] memo fee False w)))"

definition MainchainSubWallet_ProposalTrackingOwnerDigest :: "'j mainchain_env \<Rightarrow> 'j \<Rightarrow> string outcome" where
  "MainchainSubWallet_ProposalTrackingOwnerDigest M payload =
     (let version = tracking_version (mc_json M) payload in
      obind (json_argument (
        CRCProposalTracking_FromJsonOwnerUnsigned (mc_json M) version payload CRCProposalTracking_new)) (\<lambda>p.
        when_valid (Ret (CRCProposalTracking_IsValidOwnerUnsigned (mc_keyValid M) version p))
          (omap (\<lambda>(digest, _). uint256_GetHex digest) (CRCProposalTracking_DigestOwnerUnsigned (mc_sha256 M) version p))))"

definition MainchainSubWallet_ProposalTrackingNewOwnerDigest :: "'j mainchain_env \<Rightarrow> 'j \<Rightarrow> string outcome" where
  "MainchainSubWallet_ProposalTrackingNewOwnerDigest M payload =
     (let version = tracking_version (mc_json M) payload in
      obind (json_argument (
        CRCProposalTracking_FromJsonNewOwnerUnsigned (mc_json M) version payload CRCProposalTracking_new)) (\<lambda>p.
        when_valid (CRCProposalTracking_IsValidNewOwnerUnsigned (mc_sha256 M) (mc_keyValid M) (mc_ecdsa M) version p)
          (omap (\<lambda>(digest, _). uint256_GetHex digest) (CRCProposalTracking_DigestNewOwnerUnsigned (mc_sha256 M) version p))))"

definition MainchainSubWallet_ProposalTrackingSecretaryDigest :: "'j mainchain_env \<Rightarrow> 'j \<Rightarrow> string outcome" where
  "MainchainSubWallet_ProposalTrackingSecretaryDigest M payload =
     (let version = tracking_full_version (mc_json M) payload in
      obind (json_argument (
        CRCProposalTracking_FromJsonSecretaryUnsigned (mc_json M) version payload CRCProposalTracking_new)) (\<lambda>p.
        when_valid (CRCProposalTracking_IsValidSecretaryUnsigned (mc_sha256 M) (mc_keyValid M) (mc_ecdsa M) version p)
          (omap (\<lambda>(digest, _). uint256_GetHex digest) (CRCProposalTracking_DigestSecretaryUnsigned (mc_sha256 M) version p))))"

definition MainchainSubWallet_CreateProposalTrackingTransaction ::
    "'j mainchain_env \<Rightarrow> u32 \<Rightarrow> 'j \<Rightarrow> 'j \<Rightarrow> string \<Rightarrow> string \<Rightarrow> Wallet \<Rightarrow> (TxJson \<times> Wallet) outcome" where
  "MainchainSubWallet_CreateProposalTrackingTransaction M random inputsJson payload fee memo w =
     obind (mainchain_inputs M inputsJson) (\<lambda>utxo.
     let version = tracking_full_version (mc_json M) payload in
     obind (json_argument (
       CRCProposalTracking_FromJson (mc_json M) version payload CRCProposalTracking_new)) (\<lambda>p.
       when_valid (Payload_IsValid (mc_sha256_2 M) (mc_sha256 M) (mc_keyValid M) (mc_ecdsa M) version (PL_CRCProposalTracking p))
         (create_encoded M random Tx_crcProposalTracking (PL_CRCProposalTracking p) version utxo [] memo fee False w)))"

section \<open>The election of a secretary general\<close>

definition MainchainSubWallet_ProposalSecretaryGeneralElectionDigest :: "'j mainchain_env \<Rightarrow> 'j \<Rightarrow> string outcome" where
  "MainchainSubWallet_ProposalSecretaryGeneralElectionDigest M payload =
     (let version = proposal_version (mc_json M) payload in
      obind (json_argument (
        obind (payload_fixed (mc_json M) CRCProposal_secretaryGeneralElection payload) (\<lambda>payloadFixed.
                CRCProposal_FromJsonSecretaryElectionUnsigned (mc_json M) version payloadFixed CRCProposal_new))) (\<lambda>p.
        when_valid (Ret (CRCProposal_IsValidSecretaryElectionUnsigned (mc_keyValid M) version p))
          (omap uint256_GetHex (CRCProposal_DigestSecretaryElectionUnsigned (mc_sha256 M) version p))))"

definition MainchainSubWallet_ProposalSecretaryGeneralElectionCRCouncilMemberDigest :: "'j mainchain_env \<Rightarrow> 'j \<Rightarrow> string outcome" where
  "MainchainSubWallet_ProposalSecretaryGeneralElectionCRCouncilMemberDigest M payload =
     (let version = proposal_version (mc_json M) payload in
      obind (json_argument (
        obind (payload_fixed (mc_json M) CRCProposal_secretaryGeneralElection payload) (\<lambda>payloadFixed.
                CRCProposal_FromJsonSecretaryElectionCRCouncilMemberUnsigned (mc_json M) version payloadFixed CRCProposal_new))) (\<lambda>p.
        when_valid (CRCProposal_IsValidSecretaryElectionCRCouncilMemberUnsigned (mc_sha256 M) (mc_keyValid M) (mc_ecdsa M) version p)
          (omap uint256_GetHex (CRCProposal_DigestSecretaryElectionCRCouncilMemberUnsigned (mc_sha256 M) version p))))"

definition MainchainSubWallet_CreateSecretaryGeneralElectionTransaction ::
    "'j mainchain_env \<Rightarrow> u32 \<Rightarrow> 'j \<Rightarrow> 'j \<Rightarrow> string \<Rightarrow> string \<Rightarrow> Wallet \<Rightarrow> (TxJson \<times> Wallet) outcome" where
  "MainchainSubWallet_CreateSecretaryGeneralElectionTransaction M random inputsJson payload fee memo w =
     obind (mainchain_inputs M inputsJson) (\<lambda>utxo.
     let version = proposal_version (mc_json M) payload in
     obind (json_argument (
       obind (payload_fixed (mc_json M) CRCProposal_secretaryGeneralElection payload) (\<lambda>payloadFixed.
          CRCProposal_FromJson (mc_json M) version payloadFixed CRCProposal_new))) (\<lambda>p.
       when_valid (Payload_IsValid (mc_sha256_2 M) (mc_sha256 M) (mc_keyValid M) (mc_ecdsa M) version (PL_CRCProposal p))
         (create_encoded M random Tx_crcProposal (PL_CRCProposal p) version utxo [] memo fee False w)))"

section \<open>A new owner of a proposal\<close>

definition MainchainSubWallet_ProposalChangeOwnerDigest :: "'j mainchain_env \<Rightarrow> 'j \<Rightarrow> string outcome" where
  "MainchainSubWallet_ProposalChangeOwnerDigest M payload =
     (let version = proposal_version (mc_json M) payload in
      obind (json_argument (
        obind (payload_fixed (mc_json M) CRCProposal_changeProposalOwner payload) (\<lambda>payloadFixed.
                CRCProposal_FromJsonChangeOwnerUnsigned (mc_json M) version payloadFixed CRCProposal_new))) (\<lambda>p.
        when_valid (Ret (CRCProposal_IsValidChangeOwnerUnsigned (mc_keyValid M) version p))
          (omap uint256_GetHex (CRCProposal_DigestChangeOwnerUnsigned (mc_sha256 M) version p))))"

definition MainchainSubWallet_ProposalChangeOwnerCRCouncilMemberDigest :: "'j mainchain_env \<Rightarrow> 'j \<Rightarrow> string outcome" where
  "MainchainSubWallet_ProposalChangeOwnerCRCouncilMemberDigest M payload =
     (let version = proposal_version (mc_json M) payload in
      obind (json_argument (
        obind (payload_fixed (mc_json M) CRCProposal_changeProposalOwner payload) (\<lambda>payloadFixed.
                CRCProposal_FromJsonChangeOwnerCRCouncilMemberUnsigned (mc_json M) version payloadFixed CRCProposal_new))) (\<lambda>p.
        when_valid (CRCProposal_IsValidChangeOwnerCRCouncilMemberUnsigned (mc_sha256 M) (mc_keyValid M) (mc_ecdsa M) version p)
          (omap uint256_GetHex (CRCProposal_DigestChangeOwnerCRCouncilMemberUnsigned (mc_sha256 M) version p))))"

definition MainchainSubWallet_CreateProposalChangeOwnerTransaction ::
    "'j mainchain_env \<Rightarrow> u32 \<Rightarrow> 'j \<Rightarrow> 'j \<Rightarrow> string \<Rightarrow> string \<Rightarrow> Wallet \<Rightarrow> (TxJson \<times> Wallet) outcome" where
  "MainchainSubWallet_CreateProposalChangeOwnerTransaction M random inputsJson payload fee memo w =
     obind (mainchain_inputs M inputsJson) (\<lambda>utxo.
     let version = proposal_version (mc_json M) payload in
     obind (json_argument (
       obind (payload_fixed (mc_json M) CRCProposal_changeProposalOwner payload) (\<lambda>payloadFixed.
          CRCProposal_FromJson (mc_json M) version payloadFixed CRCProposal_new))) (\<lambda>p.
       when_valid (Payload_IsValid (mc_sha256_2 M) (mc_sha256 M) (mc_keyValid M) (mc_ecdsa M) version (PL_CRCProposal p))
         (create_encoded M random Tx_crcProposal (PL_CRCProposal p) version utxo [] memo fee False w)))"

section \<open>The end of a proposal\<close>

definition MainchainSubWallet_TerminateProposalOwnerDigest :: "'j mainchain_env \<Rightarrow> 'j \<Rightarrow> string outcome" where
  "MainchainSubWallet_TerminateProposalOwnerDigest M payload =
     (let version = proposal_version (mc_json M) payload in
      obind (json_argument (
        obind (payload_fixed (mc_json M) CRCProposal_terminateProposal payload) (\<lambda>payloadFixed.
                CRCProposal_FromJsonTerminateProposalOwnerUnsigned (mc_json M) version payloadFixed CRCProposal_new))) (\<lambda>p.
        when_valid (Ret (CRCProposal_IsValidTerminateProposalOwnerUnsigned (mc_keyValid M) version p))
          (omap uint256_GetHex (CRCProposal_DigestTerminateProposalOwnerUnsigned (mc_sha256 M) version p))))"

definition MainchainSubWallet_TerminateProposalCRCouncilMemberDigest :: "'j mainchain_env \<Rightarrow> 'j \<Rightarrow> string outcome" where
  "MainchainSubWallet_TerminateProposalCRCouncilMemberDigest M payload =
     (let version = proposal_version (mc_json M) payload in
      obind (json_argument (
        obind (payload_fixed (mc_json M) CRCProposal_terminateProposal payload) (\<lambda>payloadFixed.
                CRCProposal_FromJsonTerminateProposalCRCouncilMemberUnsigned (mc_json M) version payloadFixed CRCProposal_new))) (\<lambda>p.
        when_valid (CRCProposal_IsValidTerminateProposalCRCouncilMemberUnsigned (mc_sha256 M) (mc_keyValid M) (mc_ecdsa M) version p)
          (omap uint256_GetHex (CRCProposal_DigestTerminateProposalCRCouncilMemberUnsigned (mc_sha256 M) version p))))"

definition MainchainSubWallet_CreateTerminateProposalTransaction ::
    "'j mainchain_env \<Rightarrow> u32 \<Rightarrow> 'j \<Rightarrow> 'j \<Rightarrow> string \<Rightarrow> string \<Rightarrow> Wallet \<Rightarrow> (TxJson \<times> Wallet) outcome" where
  "MainchainSubWallet_CreateTerminateProposalTransaction M random inputsJson payload fee memo w =
     obind (mainchain_inputs M inputsJson) (\<lambda>utxo.
     let version = proposal_version (mc_json M) payload in
     obind (json_argument (
       obind (payload_fixed (mc_json M) CRCProposal_terminateProposal payload) (\<lambda>payloadFixed.
          CRCProposal_FromJson (mc_json M) version payloadFixed CRCProposal_new))) (\<lambda>p.
       when_valid (Payload_IsValid (mc_sha256_2 M) (mc_sha256 M) (mc_keyValid M) (mc_ecdsa M) version (PL_CRCProposal p))
         (create_encoded M random Tx_crcProposal (PL_CRCProposal p) version utxo [] memo fee False w)))"

section \<open>Reserved identifiers\<close>

definition MainchainSubWallet_ReserveCustomIDOwnerDigest :: "'j mainchain_env \<Rightarrow> 'j \<Rightarrow> string outcome" where
  "MainchainSubWallet_ReserveCustomIDOwnerDigest M payload =
     (let version = proposal_version (mc_json M) payload in
      obind (json_argument (
        obind (payload_fixed (mc_json M) CRCProposal_reserveCustomID payload) (\<lambda>payloadFixed.
                CRCProposal_FromJsonReserveCustomIDOwnerUnsigned (mc_json M) version payloadFixed CRCProposal_new))) (\<lambda>p.
        when_valid (Ret (CRCProposal_IsValidReserveCustomIDOwnerUnsigned (mc_keyValid M) version p))
          (omap uint256_GetHex (CRCProposal_DigestReserveCustomIDOwnerUnsigned (mc_sha256 M) version p))))"

definition MainchainSubWallet_ReserveCustomIDCRCouncilMemberDigest :: "'j mainchain_env \<Rightarrow> 'j \<Rightarrow> string outcome" where
  "MainchainSubWallet_ReserveCustomIDCRCouncilMemberDigest M payload =
     (let version = proposal_version (mc_json M) payload in
      obind (json_argument (
        obind (payload_fixed (mc_json M) CRCProposal_reserveCustomID payload) (\<lambda>payloadFixed.
                CRCProposal_FromJsonReserveCustomIDCRCouncilMemberUnsigned (mc_json M) version payloadFixed CRCProposal_new))) (\<lambda>p.
        when_valid (CRCProposal_IsValidReserveCustomIDCRCouncilMemberUnsigned (mc_sha256 M) (mc_keyValid M) (mc_ecdsa M) version p)
          (omap uint256_GetHex (CRCProposal_DigestReserveCustomIDCRCouncilMemberUnsigned (mc_sha256 M) version p))))"

definition MainchainSubWallet_CreateReserveCustomIDTransaction ::
    "'j mainchain_env \<Rightarrow> u32 \<Rightarrow> 'j \<Rightarrow> 'j \<Rightarrow> string \<Rightarrow> string \<Rightarrow> Wallet \<Rightarrow> (TxJson \<times> Wallet) outcome" where
  "MainchainSubWallet_CreateReserveCustomIDTransaction M random inputsJson payload fee memo w =
     obind (mainchain_inputs M inputsJson) (\<lambda>utxo.
     let version = proposal_version (mc_json M) payload in
     obind (json_argument (
       obind (payload_fixed (mc_json M) CRCProposal_reserveCustomID payload) (\<lambda>payloadFixed.
          CRCProposal_FromJson (mc_json M) version payloadFixed CRCProposal_new))) (\<lambda>p.
       when_valid (Payload_IsValid (mc_sha256_2 M) (mc_sha256 M) (mc_keyValid M) (mc_ecdsa M) version (PL_CRCProposal p))
         (create_encoded M random Tx_crcProposal (PL_CRCProposal p) version utxo [] memo fee False w)))"

section \<open>Received identifiers\<close>

definition MainchainSubWallet_ReceiveCustomIDOwnerDigest :: "'j mainchain_env \<Rightarrow> 'j \<Rightarrow> string outcome" where
  "MainchainSubWallet_ReceiveCustomIDOwnerDigest M payload =
     (let version = proposal_version (mc_json M) payload in
      obind (json_argument (
        obind (payload_fixed (mc_json M) CRCProposal_receiveCustomID payload) (\<lambda>payloadFixed.
                CRCProposal_FromJsonReceiveCustomIDOwnerUnsigned (mc_json M) version payloadFixed CRCProposal_new))) (\<lambda>p.
        when_valid (Ret (CRCProposal_IsValidReceiveCustomIDOwnerUnsigned (mc_keyValid M) version p))
          (omap uint256_GetHex (CRCProposal_DigestReceiveCustomIDOwnerUnsigned (mc_sha256 M) version p))))"

definition MainchainSubWallet_ReceiveCustomIDCRCouncilMemberDigest :: "'j mainchain_env \<Rightarrow> 'j \<Rightarrow> string outcome" where
  "MainchainSubWallet_ReceiveCustomIDCRCouncilMemberDigest M payload =
     (let version = proposal_version (mc_json M) payload in
      obind (json_argument (
        obind (payload_fixed (mc_json M) CRCProposal_receiveCustomID payload) (\<lambda>payloadFixed.
                CRCProposal_FromJsonReceiveCustomIDCRCouncilMemberUnsigned (mc_json M) version payloadFixed CRCProposal_new))) (\<lambda>p.
        when_valid (CRCProposal_IsValidReceiveCustomIDCRCouncilMemberUnsigned (mc_sha256 M) (mc_keyValid M) (mc_ecdsa M) version p)
          (omap uint256_GetHex (CRCProposal_DigestReceiveCustomIDCRCouncilMemberUnsigned (mc_sha256 M) version p))))"

definition MainchainSubWallet_CreateReceiveCustomIDTransaction ::
    "'j mainchain_env \<Rightarrow> u32 \<Rightarrow> 'j \<Rightarrow> 'j \<Rightarrow> string \<Rightarrow> string \<Rightarrow> Wallet \<Rightarrow> (TxJson \<times> Wallet) outcome" where
  "MainchainSubWallet_CreateReceiveCustomIDTransaction M random inputsJson payload fee memo w =
     obind (mainchain_inputs M inputsJson) (\<lambda>utxo.
     let version = proposal_version (mc_json M) payload in
     obind (json_argument (
       obind (payload_fixed (mc_json M) CRCProposal_receiveCustomID payload) (\<lambda>payloadFixed.
          CRCProposal_FromJson (mc_json M) version payloadFixed CRCProposal_new))) (\<lambda>p.
       when_valid (Payload_IsValid (mc_sha256_2 M) (mc_sha256 M) (mc_keyValid M) (mc_ecdsa M) version (PL_CRCProposal p))
         (create_encoded M random Tx_crcProposal (PL_CRCProposal p) version utxo [] memo fee False w)))"

section \<open>The fee of identifiers\<close>

definition MainchainSubWallet_ChangeCustomIDFeeOwnerDigest :: "'j mainchain_env \<Rightarrow> 'j \<Rightarrow> string outcome" where
  "MainchainSubWallet_ChangeCustomIDFeeOwnerDigest M payload =
     (let version = proposal_version (mc_json M) payload in
      obind (json_argument (
        obind (payload_fixed (mc_json M) CRCProposal_changeCustomIDFee payload) (\<lambda>payloadFixed.
                CRCProposal_FromJsonChangeCustomIDFeeOwnerUnsigned (mc_json M) version payloadFixed CRCProposal_new))) (\<lambda>p.
        when_valid (Ret (CRCProposal_IsValidChangeCustomIDFeeOwnerUnsigned (mc_keyValid M) version p))
          (omap uint256_GetHex (CRCProposal_DigestChangeCustomIDFeeOwnerUnsigned (mc_sha256 M) version p))))"

definition MainchainSubWallet_ChangeCustomIDFeeCRCouncilMemberDigest :: "'j mainchain_env \<Rightarrow> 'j \<Rightarrow> string outcome" where
  "MainchainSubWallet_ChangeCustomIDFeeCRCouncilMemberDigest M payload =
     (let version = proposal_version (mc_json M) payload in
      obind (json_argument (
        obind (payload_fixed (mc_json M) CRCProposal_changeCustomIDFee payload) (\<lambda>payloadFixed.
                CRCProposal_FromJsonChangeCustomIDFeeCRCouncilMemberUnsigned (mc_json M) version payloadFixed CRCProposal_new))) (\<lambda>p.
        when_valid (CRCProposal_IsValidChangeCustomIDFeeCRCouncilMemberUnsigned (mc_sha256 M) (mc_keyValid M) (mc_ecdsa M) version p)
          (omap uint256_GetHex (CRCProposal_DigestChangeCustomIDFeeCRCouncilMemberUnsigned (mc_sha256 M) version p))))"

definition MainchainSubWallet_CreateChangeCustomIDFeeTransaction ::
    "'j mainchain_env \<Rightarrow> u32 \<Rightarrow> 'j \<Rightarrow> 'j \<Rightarrow> string \<Rightarrow> string \<Rightarrow> Wallet \<Rightarrow> (TxJson \<times> Wallet) outcome" where
  "MainchainSubWallet_CreateChangeCustomIDFeeTransaction M random inputsJson payload fee memo w =
     obind (mainchain_inputs M inputsJson) (\<lambda>utxo.
     let version = proposal_version (mc_json M) payload in
     obind (json_argument (
       obind (payload_fixed (mc_json M) CRCProposal_changeCustomIDFee payload) (\<lambda>payloadFixed.
          CRCProposal_FromJson (mc_json M) version payloadFixed CRCProposal_new))) (\<lambda>p.
       when_valid (Payload_IsValid (mc_sha256_2 M) (mc_sha256 M) (mc_keyValid M) (mc_ecdsa M) version (PL_CRCProposal p))
         (create_encoded M random Tx_crcProposal (PL_CRCProposal p) version utxo [] memo fee False w)))"

section \<open>Withdrawals\<close>

definition MainchainSubWallet_ProposalWithdrawDigest :: "'j mainchain_env \<Rightarrow> 'j \<Rightarrow> string outcome" where
  "MainchainSubWallet_ProposalWithdrawDigest M payload =
     (let version = CRCProposalWithdrawVersion_01 in
      obind (any_argument (
        CRCProposalWithdraw_FromJsonUnsigned (mc_json M) version payload CRCProposalWithdraw_new)) (\<lambda>p.
        when_valid (Ret (CRCProposalWithdraw_IsValidUnsigned (mc_keyValid M) version p))
          (omap (\<lambda>(digest, _). uint256_GetHex digest) (CRCProposalWithdraw_DigestUnsigned (mc_sha256 M) version p))))"

definition MainchainSubWallet_CreateProposalWithdrawTransaction ::
    "'j mainchain_env \<Rightarrow> u32 \<Rightarrow> 'j \<Rightarrow> 'j \<Rightarrow> string \<Rightarrow> string \<Rightarrow> Wallet \<Rightarrow> (TxJson \<times> Wallet) outcome" where
  "MainchainSubWallet_CreateProposalWithdrawTransaction M random inputsJson payload fee memo w =
     obind (mainchain_inputs M inputsJson) (\<lambda>utxo.
     let version = CRCProposalWithdrawVersion_01 in
     obind (any_argument (
       CRCProposalWithdraw_FromJson (mc_json M) version payload CRCProposalWithdraw_new)) (\<lambda>p.
       when_valid (Payload_IsValid (mc_sha256_2 M) (mc_sha256 M) (mc_keyValid M) (mc_ecdsa M) version (PL_CRCProposalWithdraw p))
         (create_encoded M random Tx_crcProposalWithdraw (PL_CRCProposalWithdraw p) version utxo [] memo fee False w)))"

section \<open>Side chains\<close>

definition MainchainSubWallet_RegisterSidechainOwnerDigest :: "'j mainchain_env \<Rightarrow> 'j \<Rightarrow> string outcome" where
  "MainchainSubWallet_RegisterSidechainOwnerDigest M payload =
     (let version = proposal_version (mc_json M) payload in
      obind (json_argument (
        obind (payload_fixed (mc_json M) CRCProposal_registerSideChain payload) (\<lambda>payloadFixed.
                CRCProposal_FromJsonRegisterSidechainUnsigned (mc_json M) version payloadFixed CRCProposal_new))) (\<lambda>p.
        when_valid (Ret (CRCProposal_IsValidRegisterSidechainUnsigned (mc_keyValid M) version p))
          (omap uint256_GetHex (CRCProposal_DigestRegisterSidechainUnsigned (mc_sha256 M) version p))))"

definition MainchainSubWallet_RegisterSidechainCRCouncilMemberDigest :: "'j mainchain_env \<Rightarrow> 'j \<Rightarrow> string outcome" where
  "MainchainSubWallet_RegisterSidechainCRCouncilMemberDigest M payload =
     (let version = proposal_version (mc_json M) payload in
      obind (json_argument (
        obind (payload_fixed (mc_json M) CRCProposal_registerSideChain payload) (\<lambda>payloadFixed.
                CRCProposal_FromJsonRegisterSidechainCRCouncilMemberUnsigned (mc_json M) version payloadFixed CRCProposal_new))) (\<lambda>p.
        when_valid (CRCProposal_IsValidRegisterSidechainCRCouncilMemberUnsigned (mc_sha256 M) (mc_keyValid M) (mc_ecdsa M) version p)
          (omap uint256_GetHex (CRCProposal_DigestRegisterSidechainCRCouncilMemberUnsigned (mc_sha256 M) version p))))"

definition MainchainSubWallet_CreateRegisterSidechainTransaction ::
    "'j mainchain_env \<Rightarrow> u32 \<Rightarrow> 'j \<Rightarrow> 'j \<Rightarrow> string \<Rightarrow> string \<Rightarrow> Wallet \<Rightarrow> (TxJson \<times> Wallet) outcome" where
  "MainchainSubWallet_CreateRegisterSidechainTransaction M random inputsJson payload fee memo w =
     obind (mainchain_inputs M inputsJson) (\<lambda>utxo.
     let version = proposal_version (mc_json M) payload in
     obind (json_argument (
       obind (payload_fixed (mc_json M) CRCProposal_registerSideChain payload) (\<lambda>payloadFixed.
          CRCProposal_FromJson (mc_json M) version payloadFixed CRCProposal_new))) (\<lambda>p.
       when_valid (Payload_IsValid (mc_sha256_2 M) (mc_sha256 M) (mc_keyValid M) (mc_ecdsa M) version (PL_CRCProposal p))
         (create_encoded M random Tx_crcProposal (PL_CRCProposal p) version utxo [] memo fee False w)))"

lemma when_valid_Ret [simp]: "when_valid v r = Ret x \<longleftrightarrow> v = Ret True \<and> r = Ret x"
  by (auto simp: when_valid_def obind_eq_Ret)

end
