(* ===== verification/WriterLaws.thy ===== *)
theory WriterLaws
  imports TransactionM
begin

text \<open>
  What every writer of the wire format does, whether or not what it writes can be read again: it only appends to the
  buffer, and, where no payload pointer is null, it returns.
\<close>

section \<open>Writers that only append\<close>

definition grows :: "writer \<Rightarrow> bool" where
  "grows w \<longleftrightarrow> (\<forall>s s'. w s = Ret s' \<longrightarrow> (\<exists>bs. buf s' = buf s @ bs))"

lemma growsD: "grows w \<Longrightarrow> w s = Ret s' \<Longrightarrow> \<exists>bs. buf s' = buf s @ bs"
  unfolding grows_def by blast

lemma grows_appends: "appends w bs \<Longrightarrow> grows w"
  by (auto simp: grows_def appends_def)

lemma grows_fails [simp, intro]: "grows (\<lambda>s. Undef)" "grows (\<lambda>s. Throw e)"
  by (simp_all add: grows_def)

lemma grows_wseq [intro]: "(\<And>w. w \<in> set ws \<Longrightarrow> grows w) \<Longrightarrow> grows (wseq ws)"
proof (induction ws)
  case (Cons w ws)
  then have w: "grows w" and ws: "grows (wseq ws)" by simp_all
  show ?case unfolding grows_def
  proof (intro allI impI)
    fix s s' assume "wseq (w # ws) s = Ret s'"
    then obtain s1 where "w s = Ret s1" "wseq ws s1 = Ret s'" by (auto simp: obind_eq_Ret wseq.simps)
    then show "\<exists>bs. buf s' = buf s @ bs" using growsD [OF w] growsD [OF ws] by fastforce
  qed
qed (simp add: grows_def wseq.simps)

lemma grows_wseq_iff [simp]:
  "grows (wseq [])" "grows w \<Longrightarrow> grows (wseq ws) \<Longrightarrow> grows (wseq (w # ws))"
proof -
  show "grows (wseq [])" by (rule grows_wseq) simp
  assume "grows w" "grows (wseq ws)"
  then show "grows (wseq (w # ws))" unfolding grows_def wseq.simps obind_eq_Ret by (metis append.assoc)
qed

lemma grows_prims [simp, intro]:
  "grows (WriteUint8 a)" "grows (WriteUint16 b)" "grows (WriteUint32 c)" "grows (WriteUint64 d)" "grows (WriteUint168 e)"
  "grows (WriteUint256 f)" "grows (WriteVarBytes g)" "grows (WriteVarUint i)" "grows (WriteBytes b')"
  by (rule grows_appends, rule appends_prims appends_WriteVarUint appends_WriteBytes)+

lemma grows_WriteVarString [simp, intro]: "grows (WriteVarString h)"
proof -
  have "grows (WriteBytesPtr p n)" for p n
    by (simp add: WriteBytesPtr_def)
  then show ?thesis by (simp add: WriteVarString_def WriteVarBytesPtr_def)
qed

lemma grows_cases [intro]:
  "grows v \<Longrightarrow> grows w \<Longrightarrow> grows (if c then v else w)"
  "grows v \<Longrightarrow> (\<And>x. grows (f x)) \<Longrightarrow> grows (case y of None \<Rightarrow> v | Some x \<Rightarrow> f x)"
  by (simp_all split: option.split)

lemma grows_items [simp, intro]: "(\<And>x. grows (w x)) \<Longrightarrow> grows (write_items w xs)"
  unfolding write_items_def by (rule grows_wseq) auto

lemma grows_parts [simp, intro]:
  "grows (Attribute_Serialize a)" "grows (TransactionInput_Serialize i)" "grows (Program_Serialize p)"
  "grows (VotesWithLockTime_Serialize v l)" "grows (VoteContent_Serialize v c)" "grows (PayloadCrossChain_Serialize pcc)"
  "grows (PayloadStake_Serialize ps)"
proof -
  have "grows (CandidateVotes_Serialize v c)" for v c
    by (simp add: CandidateVotes_Serialize_def)
  then show "grows (VoteContent_Serialize v c)" unfolding VoteContent_Serialize_def by (intro grows_wseq) auto
qed (unfold Attribute_Serialize_def TransactionInput_Serialize_def Program_Serialize_def VotesWithLockTime_Serialize_def
    PayloadCrossChain_Serialize_def PayloadStake_Serialize_def, auto)

lemma grows_OutputPayload [simp, intro]: "grows (OutputPayload_Serialize p)"
  by (cases p) (simp_all add: PayloadVote_Serialize_def)

lemma grows_TransactionOutput [simp, intro]: "grows (TransactionOutput_Serialize v t)"
  unfolding TransactionOutput_Serialize_def by (rule grows_wseq) (auto split: option.split)

text \<open>The payload classes that \<open>InitPayload\<close> does not know.\<close>

lemma grows_unread_payload:
  "grows (Payload_Serialize v (PL_Stake s))" "grows (Payload_Serialize v (PL_Voting vt))"
  "grows (Payload_Serialize v (PL_DPoSV2ClaimReward c))" "grows (Payload_Serialize v (PL_CancelVotes cv))"
  "grows (Payload_Serialize v (PL_Unstake u))"
  by (simp_all add: Stake_Serialize_def Voting_Serialize_def VotesContent_Serialize_def RenewalVotesContent_Serialize_def
      DPoSV2ClaimReward_Serialize_def DPoSV2ClaimReward_SerializeUnsigned_def CancelVotes_Serialize_def
      Unstake_Serialize_def Unstake_SerializeUnsigned_def)

section \<open>Writers that return\<close>

definition returns :: "writer \<Rightarrow> bool" where
  "returns w \<longleftrightarrow> (\<forall>s. \<exists>s'. w s = Ret s')"

lemma returns_appends: "appends w bs \<Longrightarrow> returns w"
  by (simp add: returns_def appends_def)

lemma returns_prims [simp]:
  "returns (WriteUint8 a)" "returns (WriteUint16 b)" "returns (WriteUint32 c)" "returns (WriteUint64 d)"
  "returns (WriteUint168 e)" "returns (WriteUint256 f)" "returns (WriteVarBytes g)" "returns (WriteVarUint i)"
  "returns (WriteBytes b')"
  by (rule returns_appends, rule appends_prims appends_WriteVarUint appends_WriteBytes)+

lemma returns_wseq [simp]:
  "returns (wseq [])" "returns w \<Longrightarrow> returns (wseq ws) \<Longrightarrow> returns (wseq (w # ws))"
  by (auto simp: returns_def wseq.simps) (metis obind.simps(1))

lemma returns_all: "(\<And>w. w \<in> set ws \<Longrightarrow> returns w) \<Longrightarrow> returns (wseq ws)"
  by (induction ws) simp_all

lemma returns_WriteVarString [simp]: "returns (WriteVarString h)"
  by (simp add: WriteVarString_def WriteVarBytesPtr_def WriteBytesPtr_def)

lemma returns_items [simp]: "(\<And>x. returns (w x)) \<Longrightarrow> returns (write_items w xs)"
  unfolding write_items_def by (rule returns_all) auto

lemma returns_parts [simp]:
  "returns (Budget_Serialize b)" "returns (SideChainInfo_Serialize v s)" "returns (CustomIDFeeRateInfo_Serialize v c)"
  by (simp_all add: Budget_Serialize_def SideChainInfo_Serialize_def CustomIDFeeRateInfo_Serialize_def)

lemma returns_OutputPayload [simp]: "returns (OutputPayload_Serialize p)"
proof -
  have "returns (CandidateVotes_Serialize v c)" for v c by (simp add: CandidateVotes_Serialize_def)
  then have "returns (VoteContent_Serialize v c)" for v c by (simp add: VoteContent_Serialize_def)
  then show ?thesis
    by (cases p) (simp_all add: PayloadVote_Serialize_def PayloadCrossChain_Serialize_def PayloadStake_Serialize_def)
qed

lemma returns_Transaction:
  assumes "tx_payload t = Some p" and "returns (Payload_Serialize (tx_payloadVersion t) p)"
    and "\<And>x. x \<in> set (tx_outputs t) \<Longrightarrow> out_payload x \<noteq> None"
  shows "returns (Transaction_Serialize t)" and "returns (Transaction_SerializeUnsigned t)"
proof -
  have "returns (TransactionOutput_Serialize v x)" if "out_payload x \<noteq> None" for v x
    using that by (auto simp: TransactionOutput_Serialize_def)
  then have "returns (write_items (TransactionOutput_Serialize (tx_version t)) (tx_outputs t))"
    using assms(3) unfolding write_items_def by (intro returns_all) auto
  moreover have "returns (Attribute_Serialize a)" "returns (TransactionInput_Serialize i)" "returns (Program_Serialize pr)" for a i pr
    by (simp_all add: Attribute_Serialize_def TransactionInput_Serialize_def Program_Serialize_def)
  ultimately show "returns (Transaction_SerializeUnsigned t)" "returns (Transaction_Serialize t)"
    using assms(1,2) by (simp_all add: Transaction_SerializeUnsigned_def Transaction_Serialize_def)
qed

end
