(* ===== verification/MainchainRequests.thy ===== *)
theory MainchainRequests
  imports MainchainProposal UtxoBook WriterLaws
begin

text \<open>
  The requests of a main-chain sub-wallet that end in a transaction, as one type, and what they have in common: what is
  spent, what is paid, what was checked before, and which of the replies can be signed at all.
\<close>

section \<open>The requests\<close>

text \<open>The transaction-creating methods of \<open>IMainchainSubWallet\<close>, with their arguments but the inputs, the fee and the memo.\<close>

datatype 'j request =
    RQ_Deposit u8 string string string string
  | RQ_RegisterProducer 'j string
  | RQ_UpdateProducer 'j
  | RQ_CancelProducer 'j
  | RQ_RetrieveDeposit string
  | RQ_Vote 'j
  | RQ_RegisterCR 'j string
  | RQ_UpdateCR 'j
  | RQ_UnregisterCR 'j
  | RQ_RetrieveCRDeposit string
  | RQ_ClaimNode 'j
  | RQ_Proposal 'j
  | RQ_Review 'j
  | RQ_Tracking 'j
  | RQ_SecretaryGeneralElection 'j
  | RQ_ChangeOwner 'j
  | RQ_TerminateProposal 'j
  | RQ_ReserveCustomID 'j
  | RQ_ReceiveCustomID 'j
  | RQ_ChangeCustomIDFee 'j
  | RQ_Withdraw 'j
  | RQ_RegisterSidechain 'j
  | RQ_Stake 'j string string
  | RQ_DPoSV2Vote 'j
  | RQ_DPoSV2ClaimReward 'j
  | RQ_CancelVotes 'j
  | RQ_Unstake 'j

fun mainchain_create ::
    "'j mainchain_env \<Rightarrow> u32 \<Rightarrow> 'j \<Rightarrow> string \<Rightarrow> string \<Rightarrow> Wallet \<Rightarrow> 'j request \<Rightarrow> (TxJson \<times> Wallet) outcome" where
  "mainchain_create M random inputs fee memo w (RQ_Deposit version sideChainID amount sideChainAddress lockAddress) =
     MainchainSubWallet_CreateDepositTransaction M random version inputs sideChainID amount sideChainAddress lockAddress fee memo w"
| "mainchain_create M random inputs fee memo w (RQ_RegisterProducer payload amount) =
     MainchainSubWallet_CreateRegisterProducerTransaction M random inputs payload amount fee memo w"
| "mainchain_create M random inputs fee memo w (RQ_UpdateProducer payload) =
     MainchainSubWallet_CreateUpdateProducerTransaction M random inputs payload fee memo w"
| "mainchain_create M random inputs fee memo w (RQ_CancelProducer payload) =
     MainchainSubWallet_CreateCancelProducerTransaction M random inputs payload fee memo w"
| "mainchain_create M random inputs fee memo w (RQ_RetrieveDeposit amount) =
     MainchainSubWallet_CreateRetrieveDepositTransaction M random inputs amount fee memo w"
| "mainchain_create M random inputs fee memo w (RQ_Vote contents) =
     MainchainSubWallet_CreateVoteTransaction M random inputs contents fee memo w"
| "mainchain_create M random inputs fee memo w (RQ_RegisterCR payload amount) =
     MainchainSubWallet_CreateRegisterCRTransaction M random inputs payload amount fee memo w"
| "mainchain_create M random inputs fee memo w (RQ_UpdateCR payload) =
     MainchainSubWallet_CreateUpdateCRTransaction M random inputs payload fee memo w"
| "mainchain_create M random inputs fee memo w (RQ_UnregisterCR payload) =
     MainchainSubWallet_CreateUnregisterCRTransaction M random inputs payload fee memo w"
| "mainchain_create M random inputs fee memo w (RQ_RetrieveCRDeposit amount) =
     MainchainSubWallet_CreateRetrieveCRDepositTransaction M random inputs amount fee memo w"
| "mainchain_create M random inputs fee memo w (RQ_ClaimNode payload) =
     MainchainSubWallet_CreateCRCouncilMemberClaimNodeTransaction M random inputs payload fee memo w"
| "mainchain_create M random inputs fee memo w (RQ_Proposal payload) =
     MainchainSubWallet_CreateProposalTransaction M random inputs payload fee memo w"
| "mainchain_create M random inputs fee memo w (RQ_Review payload) =
     MainchainSubWallet_CreateProposalReviewTransaction M random inputs payload fee memo w"
| "mainchain_create M random inputs fee memo w (RQ_Tracking payload) =
     MainchainSubWallet_CreateProposalTrackingTransaction M random inputs payload fee memo w"
| "mainchain_create M random inputs fee memo w (RQ_SecretaryGeneralElection payload) =
     MainchainSubWallet_CreateSecretaryGeneralElectionTransaction M random inputs payload fee memo w"
| "mainchain_create M random inputs fee memo w (RQ_ChangeOwner payload) =
     MainchainSubWallet_CreateProposalChangeOwnerTransaction M random inputs payload fee memo w"
| "mainchain_create M random inputs fee memo w (RQ_TerminateProposal payload) =
     MainchainSubWallet_CreateTerminateProposalTransaction M random inputs payload fee memo w"
| "mainchain_create M random inputs fee memo w (RQ_ReserveCustomID payload) =
     MainchainSubWallet_CreateReserveCustomIDTransaction M random inputs payload fee memo w"
| "mainchain_create M random inputs fee memo w (RQ_ReceiveCustomID payload) =
     MainchainSubWallet_CreateReceiveCustomIDTransaction M random inputs payload fee memo w"
| "mainchain_create M random inputs fee memo w (RQ_ChangeCustomIDFee payload) =
     MainchainSubWallet_CreateChangeCustomIDFeeTransaction M random inputs payload fee memo w"
| "mainchain_create M random inputs fee memo w (RQ_Withdraw payload) =
     MainchainSubWallet_CreateProposalWithdrawTransaction M random inputs payload fee memo w"
| "mainchain_create M random inputs fee memo w (RQ_RegisterSidechain payload) =
     MainchainSubWallet_CreateRegisterSidechainTransaction M random inputs payload fee memo w"
| "mainchain_create M random inputs fee memo w (RQ_Stake payload lockAddress amount) =
     MainchainSubWallet_CreateStakeTransaction M random inputs payload lockAddress amount fee memo w"
| "mainchain_create M random inputs fee memo w (RQ_DPoSV2Vote payload) =
     MainchainSubWallet_CreateDPoSV2VoteTransaction M random inputs payload fee memo w"
| "mainchain_create M random inputs fee memo w (RQ_DPoSV2ClaimReward payload) =
     MainchainSubWallet_CreateDPoSV2ClaimRewardTransaction M random inputs payload fee memo w"
| "mainchain_create M random inputs fee memo w (RQ_CancelVotes payload) =
     MainchainSubWallet_CreateCancelVotesTransaction M random inputs payload fee memo w"
| "mainchain_create M random inputs fee memo w (RQ_Unstake payload) =
     MainchainSubWallet_CreateUnstakeTransaction M random inputs payload fee memo w"

lemmas mainchain_create_defs =
  MainchainSubWallet_CreateDepositTransaction_def MainchainSubWallet_CreateRegisterProducerTransaction_def
  MainchainSubWallet_CreateUpdateProducerTransaction_def MainchainSubWallet_CreateCancelProducerTransaction_def
  MainchainSubWallet_CreateRetrieveDepositTransaction_def MainchainSubWallet_CreateVoteTransaction_def
  MainchainSubWallet_CreateRegisterCRTransaction_def MainchainSubWallet_CreateUpdateCRTransaction_def
  MainchainSubWallet_CreateUnregisterCRTransaction_def MainchainSubWallet_CreateRetrieveCRDepositTransaction_def
  MainchainSubWallet_CreateCRCouncilMemberClaimNodeTransaction_def MainchainSubWallet_CreateProposalTransaction_def
  MainchainSubWallet_CreateProposalReviewTransaction_def MainchainSubWallet_CreateProposalTrackingTransaction_def
  MainchainSubWallet_CreateSecretaryGeneralElectionTransaction_def MainchainSubWallet_CreateProposalChangeOwnerTransaction_def
  MainchainSubWallet_CreateTerminateProposalTransaction_def MainchainSubWallet_CreateReserveCustomIDTransaction_def
  MainchainSubWallet_CreateReceiveCustomIDTransaction_def MainchainSubWallet_CreateChangeCustomIDFeeTransaction_def
  MainchainSubWallet_CreateProposalWithdrawTransaction_def MainchainSubWallet_CreateRegisterSidechainTransaction_def
  MainchainSubWallet_CreateStakeTransaction_def MainchainSubWallet_CreateDPoSV2VoteTransaction_def
  MainchainSubWallet_CreateDPoSV2ClaimRewardTransaction_def MainchainSubWallet_CreateCancelVotesTransaction_def
  MainchainSubWallet_CreateUnstakeTransaction_def

text \<open>The transaction type a request is meant for, as the code has it.\<close>

fun request_type :: "'j request \<Rightarrow> u8" where
  "request_type (RQ_Deposit _ _ _ _ _) = Tx_transferCrossChainAsset"
| "request_type (RQ_RegisterProducer _ _) = Tx_registerProducer"
| "request_type (RQ_UpdateProducer _) = Tx_updateProducer"
| "request_type (RQ_CancelProducer _) = Tx_cancelProducer"
| "request_type (RQ_RetrieveDeposit _) = Tx_returnDepositCoin"
| "request_type (RQ_Vote _) = Tx_transferAsset"
| "request_type (RQ_RegisterCR _ _) = Tx_registerCR"
| "request_type (RQ_UpdateCR _) = Tx_updateCR"
| "request_type (RQ_UnregisterCR _) = Tx_unregisterCR"
| "request_type (RQ_RetrieveCRDeposit _) = Tx_returnCRDepositCoin"
| "request_type (RQ_ClaimNode _) = Tx_crCouncilMemberClaimNode"
| "request_type (RQ_Review _) = Tx_crcProposalReview"
| "request_type (RQ_Tracking _) = Tx_crcProposalTracking"
| "request_type (RQ_Withdraw _) = Tx_crcProposalWithdraw"
| "request_type (RQ_Stake _ _ _) = Tx_Stake"
| "request_type (RQ_DPoSV2Vote _) = Tx_Voting"
| "request_type (RQ_DPoSV2ClaimReward _) = Tx_DposV2ClaimReward"
| "request_type (RQ_CancelVotes _) = Tx_CancelVotes"
| "request_type (RQ_Unstake _) = Tx_CancelVotes"
| "request_type _ = Tx_crcProposal"

text \<open>Whatever the request is, it reads the inputs and ends in \<open>create_encoded\<close>, with the wallet it was given up to the addresses it keeps.\<close>

definition ends_in ::
    "'j mainchain_env \<Rightarrow> u32 \<Rightarrow> 'j \<Rightarrow> string \<Rightarrow> string \<Rightarrow> Wallet \<Rightarrow> 'j request \<Rightarrow> TxJson \<times> Wallet \<Rightarrow> bool" where
  "ends_in M random inputs fee memo w rq r \<longleftrightarrow>
     (\<exists>utxos payload version outs back w0. mainchain_inputs M inputs = Ret utxos \<and> w_chainID w0 = w_chainID w \<and>
        create_encoded M random (request_type rq) payload version utxos outs memo fee back w0 = Ret r)"

lemma ends_inI:
  "mainchain_inputs M inputs = Ret utxos \<Longrightarrow> w_chainID w0 = w_chainID w \<Longrightarrow>
   create_encoded M random (request_type rq) payload version utxos outs memo fee back w0 = Ret r \<Longrightarrow>
   ends_in M random inputs fee memo w rq r"
  unfolding ends_in_def by blast

lemma Wallet_GetAddresses_chain: "Wallet_GetAddresses lib i n internal w = Ret (as, w') \<Longrightarrow> w_chainID w' = w_chainID w"
  by (auto simp: Wallet_GetAddresses_def with_sub_def omap_def obind_eq_Ret)

lemma first_of_Ret:
  "(case xs of [] \<Rightarrow> Undef | x # ys \<Rightarrow> f x ys) = Ret r \<longleftrightarrow> (\<exists>x ys. xs = x # ys \<and> f x ys = Ret r)"
  "(case xs of [] \<Rightarrow> Throw e | x # ys \<Rightarrow> f x ys) = Ret r \<longleftrightarrow> (\<exists>x ys. xs = x # ys \<and> f x ys = Ret r)"
  by (cases xs; simp)+

lemma mainchain_create_ends:
  assumes "mainchain_create M random inputs fee memo w rq = Ret r"
  shows "ends_in M random inputs fee memo w rq r"
  using assms
  by (cases rq)
    (auto simp: mainchain_create_defs obind_eq_Ret first_of_Ret Let_def dest: Wallet_GetAddresses_chain intro: ends_inI
      split: if_splits)

lemma create_encoded_Ret:
  assumes "create_encoded M random type payload version utxos outs memo fee back w0 = Ret (j, w')"
  obtains tx where
    "Wallet_CreateTransaction (mc_lib M) random type (Some payload) utxos outs memo (mainchain_dec M fee) back w0 = Ret (tx, w')"
    "EncodeTx (mc_sha256_2 M) CHAINID_MAINCHAIN (tx\<lparr>tx_payloadVersion := version\<rparr>) = Ret j"
  using assms by (auto simp: create_encoded_def obind_eq_Ret omap_def Transaction_SetPayloadVersion_def)

lemma mainchain_create_spends:
  assumes "mainchain_create M random inputs fee memo w rq = Ret (j, w')"
  shows "\<exists>utxos tx. mainchain_inputs M inputs = Ret utxos \<and> EncodeTx (mc_sha256_2 M) CHAINID_MAINCHAIN tx = Ret j \<and>
    tx_inputs tx = map utxo_input utxos \<and> tx_type tx = request_type rq \<and>
    sum_list (map out_amount (tx_outputs tx)) + mainchain_dec M fee = sum_list (map utxo_amount utxos) \<and>
    tx_version tx = (if w_chainID w = CHAINID_MAINCHAIN then TxVersion_V09 else TxVersion_Default)"
proof -
  obtain utxos payload version outs to_first w0 where u: "mainchain_inputs M inputs = Ret utxos" "w_chainID w0 = w_chainID w"
    and e: "create_encoded M random (request_type rq) payload version utxos outs memo fee to_first w0 = Ret (j, w')"
    using mainchain_create_ends [OF assms] unfolding ends_in_def by blast
  obtain tx where c: "Wallet_CreateTransaction (mc_lib M) random (request_type rq) (Some payload) utxos outs memo
      (mainchain_dec M fee) to_first w0 = Ret (tx, w')"
    and j: "EncodeTx (mc_sha256_2 M) CHAINID_MAINCHAIN (tx\<lparr>tx_payloadVersion := version\<rparr>) = Ret j"
    using create_encoded_Ret [OF e] by metis
  show ?thesis
    using u j Wallet_CreateTransaction_balanced [OF c] by (intro exI [of _ utxos] exI [of _ "tx\<lparr>tx_payloadVersion := version\<rparr>"]) simp
qed

section \<open>What was checked\<close>

lemma payload_fixed_type:
  assumes "json_env_ok E" and "payload_fixed E type payload = Ret j"
  shows "json_word E j ''Type'' = Ret type"
  using assms by (auto simp: payload_fixed_def json_assign_def split: if_splits)

text \<open>The type a proposal is read with is the type its JSON form says.\<close>

lemma CRCProposal_FromJson_type:
  assumes "CRCProposal_FromJson E v j old = Ret p"
  shows "json_word E j ''Type'' = Ret (crp_type p)"
  using assms unfolding CRCProposal_FromJson_def obind_eq_Ret Let_def
  by (elim exE conjE, split if_splits)
    (auto simp: obind_eq_Ret CRCProposal_FromJsonNormalCRCouncilMemberUnsigned_def CRCProposal_FromJsonNormalOwnerUnsigned_def
      CRCProposal_FromJsonSecretaryElectionCRCouncilMemberUnsigned_def CRCProposal_FromJsonSecretaryElectionUnsigned_def
      CRCProposal_FromJsonChangeOwnerCRCouncilMemberUnsigned_def CRCProposal_FromJsonChangeOwnerUnsigned_def
      CRCProposal_FromJsonTerminateProposalCRCouncilMemberUnsigned_def CRCProposal_FromJsonTerminateProposalOwnerUnsigned_def
      CRCProposal_FromJsonReserveCustomIDCRCouncilMemberUnsigned_def CRCProposal_FromJsonReserveCustomIDOwnerUnsigned_def
      CRCProposal_FromJsonReceiveCustomIDCRCouncilMemberUnsigned_def CRCProposal_FromJsonReceiveCustomIDOwnerUnsigned_def
      CRCProposal_FromJsonChangeCustomIDFeeCRCouncilMemberUnsigned_def CRCProposal_FromJsonChangeCustomIDFeeOwnerUnsigned_def
      CRCProposal_FromJsonRegisterSidechainCRCouncilMemberUnsigned_def CRCProposal_FromJsonRegisterSidechainUnsigned_def
      split: if_splits)

lemma CRCProposal_IsValid_serializable:
  "CRCProposal_IsValid sha256 keyValid ecdsa v p = Ret True \<Longrightarrow> CRCProposal_serializable (crp_type p)"
  by (auto simp: CRCProposal_IsValid_def CRCProposal_serializable_def split: if_splits)

text \<open>The proposal a request is for, and what it says of the type: \<open>None\<close> where the payload says it.\<close>

fun request_proposal :: "'j request \<Rightarrow> u16 option option" where
  "request_proposal (RQ_Proposal _) = Some None"
| "request_proposal (RQ_SecretaryGeneralElection _) = Some (Some CRCProposal_secretaryGeneralElection)"
| "request_proposal (RQ_ChangeOwner _) = Some (Some CRCProposal_changeProposalOwner)"
| "request_proposal (RQ_TerminateProposal _) = Some (Some CRCProposal_terminateProposal)"
| "request_proposal (RQ_ReserveCustomID _) = Some (Some CRCProposal_reserveCustomID)"
| "request_proposal (RQ_ReceiveCustomID _) = Some (Some CRCProposal_receiveCustomID)"
| "request_proposal (RQ_ChangeCustomIDFee _) = Some (Some CRCProposal_changeCustomIDFee)"
| "request_proposal (RQ_RegisterSidechain _) = Some (Some CRCProposal_registerSideChain)"
| "request_proposal _ = None"

lemma proposal_request_created:
  assumes "mainchain_create M random inputs fee memo w rq = Ret (j, w')" and "request_proposal rq = Some forced"
  shows "\<exists>utxos v j0 p. CRCProposal_FromJson (mc_json M) v j0 CRCProposal_new = Ret p \<and>
    (\<forall>ty. forced = Some ty \<longrightarrow> (\<exists>payload. payload_fixed (mc_json M) ty payload = Ret j0)) \<and>
    CRCProposal_IsValid (mc_sha256 M) (mc_keyValid M) (mc_ecdsa M) v p = Ret True \<and>
    create_encoded M random Tx_crcProposal (PL_CRCProposal p) v utxos [] memo fee False w = Ret (j, w')"
  using assms by (cases rq) (auto simp: mainchain_create_defs obind_eq_Ret Let_def, blast+)

lemma proposal_request_checked:
  assumes M: "json_env_ok (mc_json M)" and c: "mainchain_create M random inputs fee memo w rq = Ret (j, w')"
    and rq: "request_proposal rq = Some forced"
  shows "\<exists>tx p. EncodeTx (mc_sha256_2 M) CHAINID_MAINCHAIN tx = Ret j \<and> tx_payload tx = Some (PL_CRCProposal p) \<and>
    (\<forall>ty. forced = Some ty \<longrightarrow> crp_type p = ty) \<and>
    CRCProposal_IsValid (mc_sha256 M) (mc_keyValid M) (mc_ecdsa M) (tx_payloadVersion tx) p = Ret True \<and>
    CRCProposal_draft_ok (mc_json M) (tx_payloadVersion tx) p"
proof -
  obtain utxos v j0 p where f: "CRCProposal_FromJson (mc_json M) v j0 CRCProposal_new = Ret p"
    "\<forall>ty. forced = Some ty \<longrightarrow> (\<exists>payload. payload_fixed (mc_json M) ty payload = Ret j0)"
    "CRCProposal_IsValid (mc_sha256 M) (mc_keyValid M) (mc_ecdsa M) v p = Ret True"
    "create_encoded M random Tx_crcProposal (PL_CRCProposal p) v utxos [] memo fee False w = Ret (j, w')"
    using proposal_request_created [OF c rq] by blast
  obtain tx where t: "Wallet_CreateTransaction (mc_lib M) random Tx_crcProposal (Some (PL_CRCProposal p)) utxos [] memo
      (mainchain_dec M fee) False w = Ret (tx, w')"
    "EncodeTx (mc_sha256_2 M) CHAINID_MAINCHAIN (tx\<lparr>tx_payloadVersion := v\<rparr>) = Ret j"
    using create_encoded_Ret [OF f(4)] by metis
  have "crp_type p = ty" if "forced = Some ty" for ty
    using f(2) that payload_fixed_type [OF M] CRCProposal_FromJson_type [OF f(1)] by fastforce
  then show ?thesis
    using t f(3) Wallet_CreateTransaction_balanced(5) [OF t(1)]
      CRCProposal_FromJson_draft [OF f(1) CRCProposal_IsValid_serializable [OF f(3)]]
    by (intro exI [of _ "tx\<lparr>tx_payloadVersion := v\<rparr>"] exI [of _ p]) simp
qed

section \<open>Deposits\<close>

text \<open>A deposit is at least the minimum, goes to the deposit address of the script in the payload, and is the first output.\<close>

lemma create_encoded_pays:
  assumes "create_encoded M random type payload version utxos [out] memo fee to_first w0 = Ret (j, w')"
  shows "\<exists>tx change. EncodeTx (mc_sha256_2 M) CHAINID_MAINCHAIN tx = Ret j \<and> tx_outputs tx = out # change \<and>
    length change \<le> 1 \<and> tx_payload tx = Some payload"
proof -
  obtain tx where c: "Wallet_CreateTransaction (mc_lib M) random type (Some payload) utxos [out] memo (mainchain_dec M fee)
      to_first w0 = Ret (tx, w')"
    and j: "EncodeTx (mc_sha256_2 M) CHAINID_MAINCHAIN (tx\<lparr>tx_payloadVersion := version\<rparr>) = Ret j"
    using create_encoded_Ret [OF assms] by metis
  show ?thesis
    using j Wallet_CreateTransaction_balanced(3,5) [OF c] by (intro exI [of _ "tx\<lparr>tx_payloadVersion := version\<rparr>"]) auto
qed

lemma register_producer_deposits:
  assumes "MainchainSubWallet_CreateRegisterProducerTransaction M random inputs payload amount fee memo w = Ret (j, w')"
  shows "\<exists>tx out change p addr. EncodeTx (mc_sha256_2 M) CHAINID_MAINCHAIN tx = Ret j \<and> tx_outputs tx = out # change \<and>
    length change \<le> 1 \<and> tx_payload tx = Some (PL_ProducerInfo p) \<and>
    500000000000 \<le> out_amount out \<and> out_amount out = mainchain_dec M amount \<and>
    Address_of_pubkey (mc_hash160 M) PrefixDeposit (prod_ownerPublicKey p) False = Ret addr \<and> out_address out = addr"
proof -
  obtain utxos p addr where "500000000000 \<le> mainchain_dec M amount"
    and a: "Address_of_pubkey (mc_hash160 M) PrefixDeposit (prod_ownerPublicKey p) False = Ret addr"
    and c: "create_encoded M random Tx_registerProducer (PL_ProducerInfo p) 0 utxos
      [TransactionOutput_of (mainchain_dec M amount) addr GetELAAssetID OutputType_Default None] memo fee False w = Ret (j, w')"
    using assms by (auto simp: MainchainSubWallet_CreateRegisterProducerTransaction_def obind_eq_Ret Let_def
        DEPOSIT_MIN_ELA_def SELA_PER_ELA_def not_less split: if_splits)
  with create_encoded_pays [OF c] show ?thesis by (fastforce simp: TransactionOutput_of_def)
qed

text \<open>What is locked for a side chain is the amount and the fee of the exchange.  A lock address that is none is the zero hash.\<close>

lemma deposit_pays:
  assumes "MainchainSubWallet_CreateDepositTransaction M random version inputs sideChainID amount target lockAddress fee memo w
      = Ret (j, w')"
  shows "\<exists>tx out change. EncodeTx (mc_sha256_2 M) CHAINID_MAINCHAIN tx = Ret j \<and> tx_outputs tx = out # change \<and>
    length change \<le> 1 \<and> out_amount out = mainchain_dec M amount + 10000 \<and>
    out_address out = Address_of_string (mc_sha256_2 M) lockAddress"
proof -
  obtain payload utxos ty op where
    c: "create_encoded M random Tx_transferCrossChainAsset payload version utxos
      [TransactionOutput_of (mainchain_dec M amount + 10000) (Address_of_string (mc_sha256_2 M) lockAddress) GetELAAssetID ty op]
      memo fee False w = Ret (j, w')"
    using assms by (auto simp: MainchainSubWallet_CreateDepositTransaction_def obind_eq_Ret Let_def DEPOSIT_OR_WITHDRAW_FEE_def
        split: if_splits)
  with create_encoded_pays [OF c] show ?thesis by (fastforce simp: TransactionOutput_of_def)
qed

section \<open>Replies nobody can sign\<close>

lemma Transaction_Serialize_head:
  assumes "Transaction_Serialize t empty_stream = Ret s" and "TxVersion_V09 \<le> tx_version t"
    and "tx_payload t = Some p" and "grows (Payload_Serialize (tx_payloadVersion t) p)"
  shows "\<exists>q. buf s = tx_version t # tx_type t # tx_payloadVersion t # q"
proof -
  define rest where "rest = wseq [Payload_Serialize (tx_payloadVersion t) p,
    write_items Attribute_Serialize (tx_attributes t), write_items TransactionInput_Serialize (tx_inputs t),
    write_items (TransactionOutput_Serialize (tx_version t)) (tx_outputs t), WriteUint32 (tx_lockTime t)]"
  define whole where "whole = wseq [rest, write_items Program_Serialize (tx_programs t)]"
  have "grows rest" unfolding rest_def using assms(4) by (intro grows_wseq) auto
  then have g: "grows whole" unfolding whole_def by (intro grows_wseq) auto
  have "Transaction_Serialize t empty_stream = whole (empty_stream\<lparr>buf := [tx_version t, tx_type t, tx_payloadVersion t]\<rparr>)"
    using assms(2,3) appends_WriteUint8
    by (simp add: wseq.simps Transaction_Serialize_def Transaction_SerializeUnsigned_def whole_def rest_def appends_def obind_assoc empty_stream_def)
  with assms(1) growsD [OF g] show ?thesis by fastforce
qed

text \<open>A byte is read or it is not, whatever the length of the buffer.\<close>

lemma ReadUint8_or_fails:
  assumes "rpos s < 3"
  shows "(\<exists>s'. ReadUint8 s = RFail s') \<or>
    ReadUint8 s = ROk (buf s ! unat (rpos s)) (s\<lparr>rpos := rpos s + 1\<rparr>)"
proof (cases "rpos s + 1 > stream_size s")
  case True
  then show ?thesis by (simp add: ReadUint8_def rbind_def ReadBytes_def)
next
  case False
  have n: "unat (rpos s + 1) = unat (rpos s) + 1" using assms by (simp add: word_less_nat_alt unat_word_ariths)
  then have "unat (rpos s) + 1 \<le> unat (stream_size s)" using False by (simp add: word_not_simps(1) word_le_nat_alt not_less)
  also have "\<dots> \<le> length (buf s)" by (simp add: stream_size_def unat_of_nat)
  finally have l: "unat (rpos s) < length (buf s)" by simp
  then have "take (Suc 0) (drop (unat (rpos s)) (buf s)) = [buf s ! unat (rpos s)]"
    by (metis Cons_nth_drop_Suc take0 take_Suc_Cons)
  then show ?thesis using False l by (simp add: ReadUint8_def rbind_def ReadBytes_def rret_def of_le_def)
qed

lemma Transaction_Deserialize_refuses_any:
  assumes v: "TxVersion_V09 \<le> ver" and none: "Transaction_InitPayload ty = None"
  shows "\<exists>s'. Transaction_Deserialize sha256_2 old (stream_of (ver # ty # pv # q)) = RFail s'"
proof -
  let ?s = "stream_of (ver # ty # pv # q)"
  have s: "buf ?s = ver # ty # pv # q" "rpos ?s = 0" by (simp_all add: stream_of_def)
  show ?thesis
    using ReadUint8_or_fails [of ?s] ReadUint8_or_fails [of "?s\<lparr>rpos := 1\<rparr>"] ReadUint8_or_fails [of "?s\<lparr>rpos := 2\<rparr>"]
      v none s
    unfolding Transaction_Deserialize_def Transaction_DeserializeType_def Transaction_DeserializeBody_def
    by (auto simp: rbind_def rret_def rfail_def)
qed

lemma EncodeTx_unread:
  assumes e: "EncodeTx sha256_2 CHAINID_MAINCHAIN t = Ret j"
    and v: "TxVersion_V09 \<le> tx_version t" and none: "Transaction_InitPayload (tx_type t) = None"
    and p: "tx_payload t = Some p" "grows (Payload_Serialize (tx_payloadVersion t) p)"
  shows "DecodeTx sha256_2 j = Throw E_InvalidArgument"
proof -
  obtain s h where s: "Transaction_Serialize t empty_stream = Ret s"
    and j: "j = \<lparr>tj_Algorithm = Has ''base64'', tj_ID = Has h, tj_Data = Has (getBase64 (buf s)),
      tj_ChainID = Has CHAINID_MAINCHAIN, tj_Fee = Has (tx_fee t)\<rparr>"
    using e by (auto simp: EncodeTx_def obind_eq_Ret)
  obtain q where q: "buf s = tx_version t # tx_type t # tx_payloadVersion t # q"
    using Transaction_Serialize_head [OF s v p] by blast
  obtain s' where "Transaction_Deserialize sha256_2 Transaction_new (stream_of (buf s)) = RFail s'"
    using Transaction_Deserialize_refuses_any [OF v none] unfolding q by blast
  then show ?thesis by (simp add: DecodeTx_def j setBase64_getBase64)
qed

definition unread_payload :: "Payload \<Rightarrow> bool" where
  "unread_payload p \<longleftrightarrow>
     (case p of PL_Stake _ \<Rightarrow> True | PL_Voting _ \<Rightarrow> True | PL_DPoSV2ClaimReward _ \<Rightarrow> True | PL_CancelVotes _ \<Rightarrow> True
      | PL_Unstake _ \<Rightarrow> True | _ \<Rightarrow> False)"

lemma unread_request:
  assumes "mainchain_create M random inputs fee memo w rq = Ret r"
    and "request_type rq \<in> {Tx_Stake, Tx_Voting, Tx_DposV2ClaimReward, Tx_CancelVotes}"
  shows "\<exists>utxos payload version outs. unread_payload payload \<and>
    create_encoded M random (request_type rq) payload version utxos outs memo fee False w = Ret r"
  using assms by (cases rq) (auto simp: mainchain_create_defs obind_eq_Ret unread_payload_def tx_types, force+)

lemma unread_reply:
  assumes c: "mainchain_create M random inputs fee memo w rq = Ret (j, w')"
    and ty: "request_type rq \<in> {Tx_Stake, Tx_Voting, Tx_DposV2ClaimReward, Tx_CancelVotes}"
    and chain: "w_chainID w = CHAINID_MAINCHAIN"
  shows "DecodeTx (mc_sha256_2 M) j = Throw E_InvalidArgument"
proof -
  obtain utxos p v outs where p: "unread_payload p"
    and e: "create_encoded M random (request_type rq) p v utxos outs memo fee False w = Ret (j, w')"
    using unread_request [OF c ty] by blast
  obtain tx where t: "Wallet_CreateTransaction (mc_lib M) random (request_type rq) (Some p) utxos outs memo (mainchain_dec M fee)
      False w = Ret (tx, w')"
    "EncodeTx (mc_sha256_2 M) CHAINID_MAINCHAIN (tx\<lparr>tx_payloadVersion := v\<rparr>) = Ret j"
    using create_encoded_Ret [OF e] by metis
  have "grows (Payload_Serialize v p)" using p grows_unread_payload by (cases p) (simp_all add: unread_payload_def)
  moreover have "Transaction_InitPayload (request_type rq) = None" using ty by (intro Transaction_InitPayload_None) auto
  ultimately show ?thesis
    using EncodeTx_unread [OF t(2)] Wallet_CreateTransaction_balanced(4-6) [OF t(1)] chain by simp
qed

end
