(* ===== verification/ProposalStages.thy ===== *)
theory ProposalStages
  imports MainchainProposal WriterLaws
begin

text \<open>
  How a proposal is signed in stages: the owner signs a digest, the signature goes into the request beside the
  identifier of a council member, who signs the next digest.  The locale states what the two stages of one kind of
  proposal owe each other; each kind of \<open>CRCProposal.cpp\<close> that has an owner and a council stage keeps to it.
\<close>

section \<open>The contract of two stages\<close>

text \<open>The members that are added after the owner has signed.\<close>

definition signing_keys :: "string list" where
  "signing_keys = [''Signature'', ''CRCouncilMemberDID'', ''CRCouncilMemberSignature'']"

definition same_content :: "'j json_env \<Rightarrow> 'j \<Rightarrow> 'j \<Rightarrow> bool" where
  "same_content E j j' \<longleftrightarrow> (\<forall>k. k \<notin> set signing_keys \<longrightarrow> json_index E j k = json_index E j' k)"

locale staged_proposal =
  fixes E :: "'j json_env" and keyValid :: key_check and ecdsa :: ecdsa_check
    and owner_from council_from :: "u8 \<Rightarrow> 'j \<Rightarrow> CRCProposal \<Rightarrow> CRCProposal outcome"
    and owner_valid :: "u8 \<Rightarrow> CRCProposal \<Rightarrow> bool" and council_valid :: "u8 \<Rightarrow> CRCProposal \<Rightarrow> bool outcome"
    and owner_digest council_digest :: "u8 \<Rightarrow> CRCProposal \<Rightarrow> uint256 outcome"
  assumes content: "same_content E j j' \<Longrightarrow> owner_from v j old = owner_from v j' old"
    and owner_key: "owner_from v j old = Ret p \<Longrightarrow> json_bytes E j ''OwnerPublicKey'' = Ret (crp_ownerPublicKey p)"
    and council_reads: "council_from v j old = obind (owner_from v j old) (\<lambda>p.
      obind (json_bytes E j ''Signature'') (\<lambda>signature.
      obind (json_address E j ''CRCouncilMemberDID'') (\<lambda>did.
        Ret (p\<lparr>crp_signature := signature, crp_crCouncilMemberDID := did\<rparr>))))"
    and council_checks: "council_valid v p = (if \<not> owner_valid v p then Ret False
      else obind (owner_digest v p) (\<lambda>digest.
        obind (caught (PubKey_Verify keyValid ecdsa (crp_ownerPublicKey p) digest (crp_signature p))) (\<lambda>ok.
          if \<not> ok then Ret False else Ret (addr_isValid (crp_crCouncilMemberDID p)))))"
    and unsigned: "owner_valid v (p\<lparr>crp_signature := s, crp_crCouncilMemberDID := a\<rparr>) = owner_valid v p"
      "owner_digest v (p\<lparr>crp_signature := s, crp_crCouncilMemberDID := a\<rparr>) = owner_digest v p"
    and council_total: "\<exists>d. council_digest v p = Ret d"
begin

text \<open>A signature of the owner over the digest of the first stage takes the request through the second.\<close>

lemma owner_signature_accepted:
  assumes "same_content E j j'" and "owner_from v j old = Ret p" and "owner_valid v p" and "owner_digest v p = Ret digest"
    and "json_bytes E j' ''Signature'' = Ret signature" and "json_address E j' ''CRCouncilMemberDID'' = Ret did"
    and "PubKey_Verify keyValid ecdsa (crp_ownerPublicKey p) digest signature = Ret True" and "addr_isValid did"
  shows "\<exists>p' d. council_from v j' old = Ret p' \<and> council_valid v p' = Ret True \<and> council_digest v p' = Ret d"
proof -
  let ?p = "p\<lparr>crp_signature := signature, crp_crCouncilMemberDID := did\<rparr>"
  have "council_from v j' old = Ret ?p"
    using assms(2,5,6) content [OF assms(1), of v old] by (simp add: council_reads)
  moreover have "council_valid v ?p = Ret True" using assms(3,4,7,8) by (simp add: council_checks unsigned)
  ultimately show ?thesis using council_total by blast
qed

text \<open>The same of the requests: the digest of the first one, signed, is what the second one asks for.\<close>

lemma requests_accepted:
  assumes d: "obind (json_argument (owner_from v j old)) (\<lambda>p. when_valid (Ret (owner_valid v p))
      (omap uint256_GetHex (owner_digest v p))) = Ret d"
    and j: "same_content E j j'" "json_bytes E j ''OwnerPublicKey'' = Ret key" "json_bytes E j' ''Signature'' = Ret signature"
      "json_address E j' ''CRCouncilMemberDID'' = Ret did"
    and sig: "PubKey_Verify keyValid ecdsa key (uint256_SetHex d) signature = Ret True" and did: "addr_isValid did"
  shows "\<exists>d'. obind (json_argument (council_from v j' old)) (\<lambda>p. when_valid (council_valid v p)
      (omap uint256_GetHex (council_digest v p))) = Ret d'"
proof -
  obtain p digest where p: "owner_from v j old = Ret p" "owner_valid v p" "owner_digest v p = Ret digest"
    and g: "d = uint256_GetHex digest"
    using d by (auto simp: obind_eq_Ret omap_def when_valid_def split: if_splits)
  have "crp_ownerPublicKey p = key" using owner_key [OF p(1)] j(2) by simp
  with owner_signature_accepted [OF j(1) p j(3,4) _ did] sig g show ?thesis
    by (auto simp: uint256_SetHex_GetHex json_argument_def when_valid_def omap_def)
qed

text \<open>Another digest, or another key, and the signature is refused.\<close>

lemma only_owner_signature:
  assumes "council_from v j old = Ret p" and "council_valid v p = Ret True"
  shows "\<exists>digest. owner_digest v p = Ret digest \<and> addr_isValid (crp_crCouncilMemberDID p) \<and>
    json_bytes E j ''OwnerPublicKey'' = Ret (crp_ownerPublicKey p) \<and>
    PubKey_Verify keyValid ecdsa (crp_ownerPublicKey p) digest (crp_signature p) = Ret True"
proof -
  obtain q s a where q: "owner_from v j old = Ret q" "p = q\<lparr>crp_signature := s, crp_crCouncilMemberDID := a\<rparr>"
    using assms(1) by (auto simp: council_reads obind_eq_Ret)
  have c: "caught r = Ret True \<longleftrightarrow> r = Ret True" for r by (cases r) simp_all
  show ?thesis using assms(2) owner_key [OF q(1)] q(2) by (auto simp: council_checks obind_eq_Ret c split: if_splits)
qed

end

section \<open>The kinds\<close>

lemma digest_returns: "returns w \<Longrightarrow> \<exists>d. obind (w empty_stream) (\<lambda>s. Ret (sha256 (buf s))) = Ret (d :: uint256)"
  unfolding returns_def by (metis obind.simps(1))

lemma same_contentD: "same_content E j j' \<Longrightarrow> k \<notin> set signing_keys \<Longrightarrow> json_index E j k = json_index E j' k"
  by (simp add: same_content_def)

interpretation normal_stages: staged_proposal E keyValid ecdsa "CRCProposal_FromJsonNormalOwnerUnsigned E" "CRCProposal_FromJsonNormalCRCouncilMemberUnsigned E"
    "CRCProposal_IsValidNormalOwnerUnsigned keyValid" "CRCProposal_IsValidNormalCRCouncilMemberUnsigned sha256 keyValid ecdsa"
    "CRCProposal_DigestNormalOwnerUnsigned sha256" "CRCProposal_DigestNormalCRCouncilMemberUnsigned sha256" for E :: "'j json_env" and keyValid ecdsa sha256
proof unfold_locales
  fix j j' :: 'j and v :: u8 and old :: CRCProposal
  assume "same_content E j j'"
  then show "CRCProposal_FromJsonNormalOwnerUnsigned E v j old = CRCProposal_FromJsonNormalOwnerUnsigned E v j' old"
    by (simp add: CRCProposal_FromJsonNormalOwnerUnsigned_def same_contentD signing_keys_def cong: if_cong)
next
  fix v :: u8 and p :: CRCProposal
  show "\<exists>d. CRCProposal_DigestNormalCRCouncilMemberUnsigned sha256 v p = Ret d"
    unfolding CRCProposal_DigestNormalCRCouncilMemberUnsigned_def
    by (rule digest_returns) (simp add: CRCProposal_SerializeCRCouncilMemberUnsigned_def CRCProposal_SerializeOwnerUnsigned_def)
qed (auto simp: CRCProposal_FromJsonNormalOwnerUnsigned_def CRCProposal_FromJsonNormalCRCouncilMemberUnsigned_def obind_eq_Ret
    CRCProposal_IsValidNormalCRCouncilMemberUnsigned_def CRCProposal_IsValidNormalOwnerUnsigned_def
    CRCProposal_DigestNormalOwnerUnsigned_def CRCProposal_SerializeOwnerUnsigned_def)

interpretation terminate_stages: staged_proposal E keyValid ecdsa "CRCProposal_FromJsonTerminateProposalOwnerUnsigned E" "CRCProposal_FromJsonTerminateProposalCRCouncilMemberUnsigned E"
    "CRCProposal_IsValidTerminateProposalOwnerUnsigned keyValid" "CRCProposal_IsValidTerminateProposalCRCouncilMemberUnsigned sha256 keyValid ecdsa"
    "CRCProposal_DigestTerminateProposalOwnerUnsigned sha256" "CRCProposal_DigestTerminateProposalCRCouncilMemberUnsigned sha256" for E :: "'j json_env" and keyValid ecdsa sha256
proof unfold_locales
  fix j j' :: 'j and v :: u8 and old :: CRCProposal
  assume "same_content E j j'"
  then show "CRCProposal_FromJsonTerminateProposalOwnerUnsigned E v j old = CRCProposal_FromJsonTerminateProposalOwnerUnsigned E v j' old"
    by (simp add: CRCProposal_FromJsonTerminateProposalOwnerUnsigned_def same_contentD signing_keys_def cong: if_cong)
next
  fix v :: u8 and p :: CRCProposal
  show "\<exists>d. CRCProposal_DigestTerminateProposalCRCouncilMemberUnsigned sha256 v p = Ret d"
    unfolding CRCProposal_DigestTerminateProposalCRCouncilMemberUnsigned_def
    by (rule digest_returns) (simp add: CRCProposal_SerializeTerminateProposalCRCouncilMemberUnsigned_def CRCProposal_SerializeTerminateProposalUnsigned_def)
qed (auto simp: CRCProposal_FromJsonTerminateProposalOwnerUnsigned_def CRCProposal_FromJsonTerminateProposalCRCouncilMemberUnsigned_def obind_eq_Ret
    CRCProposal_IsValidTerminateProposalCRCouncilMemberUnsigned_def CRCProposal_IsValidTerminateProposalOwnerUnsigned_def
    CRCProposal_DigestTerminateProposalOwnerUnsigned_def CRCProposal_SerializeTerminateProposalUnsigned_def)

interpretation reserve_stages: staged_proposal E keyValid ecdsa "CRCProposal_FromJsonReserveCustomIDOwnerUnsigned E" "CRCProposal_FromJsonReserveCustomIDCRCouncilMemberUnsigned E"
    "CRCProposal_IsValidReserveCustomIDOwnerUnsigned keyValid" "CRCProposal_IsValidReserveCustomIDCRCouncilMemberUnsigned sha256 keyValid ecdsa"
    "CRCProposal_DigestReserveCustomIDOwnerUnsigned sha256" "CRCProposal_DigestReserveCustomIDCRCouncilMemberUnsigned sha256" for E :: "'j json_env" and keyValid ecdsa sha256
proof unfold_locales
  fix j j' :: 'j and v :: u8 and old :: CRCProposal
  assume "same_content E j j'"
  then show "CRCProposal_FromJsonReserveCustomIDOwnerUnsigned E v j old = CRCProposal_FromJsonReserveCustomIDOwnerUnsigned E v j' old"
    by (simp add: CRCProposal_FromJsonReserveCustomIDOwnerUnsigned_def same_contentD signing_keys_def cong: if_cong)
next
  fix v :: u8 and p :: CRCProposal
  show "\<exists>d. CRCProposal_DigestReserveCustomIDCRCouncilMemberUnsigned sha256 v p = Ret d"
    unfolding CRCProposal_DigestReserveCustomIDCRCouncilMemberUnsigned_def
    by (rule digest_returns) (simp add: CRCProposal_SerializeReserveCustomIDCRCouncilMemberUnsigned_def CRCProposal_SerializeReserveCustomIDUnsigned_def)
qed (auto simp: CRCProposal_FromJsonReserveCustomIDOwnerUnsigned_def CRCProposal_FromJsonReserveCustomIDCRCouncilMemberUnsigned_def obind_eq_Ret
    CRCProposal_IsValidReserveCustomIDCRCouncilMemberUnsigned_def CRCProposal_IsValidReserveCustomIDOwnerUnsigned_def
    CRCProposal_DigestReserveCustomIDOwnerUnsigned_def CRCProposal_SerializeReserveCustomIDUnsigned_def)

interpretation receive_stages: staged_proposal E keyValid ecdsa "CRCProposal_FromJsonReceiveCustomIDOwnerUnsigned E" "CRCProposal_FromJsonReceiveCustomIDCRCouncilMemberUnsigned E"
    "CRCProposal_IsValidReceiveCustomIDOwnerUnsigned keyValid" "CRCProposal_IsValidReceiveCustomIDCRCouncilMemberUnsigned sha256 keyValid ecdsa"
    "CRCProposal_DigestReceiveCustomIDOwnerUnsigned sha256" "CRCProposal_DigestReceiveCustomIDCRCouncilMemberUnsigned sha256" for E :: "'j json_env" and keyValid ecdsa sha256
proof unfold_locales
  fix j j' :: 'j and v :: u8 and old :: CRCProposal
  assume "same_content E j j'"
  then show "CRCProposal_FromJsonReceiveCustomIDOwnerUnsigned E v j old = CRCProposal_FromJsonReceiveCustomIDOwnerUnsigned E v j' old"
    by (simp add: CRCProposal_FromJsonReceiveCustomIDOwnerUnsigned_def same_contentD signing_keys_def cong: if_cong)
next
  fix v :: u8 and p :: CRCProposal
  show "\<exists>d. CRCProposal_DigestReceiveCustomIDCRCouncilMemberUnsigned sha256 v p = Ret d"
    unfolding CRCProposal_DigestReceiveCustomIDCRCouncilMemberUnsigned_def
    by (rule digest_returns) (simp add: CRCProposal_SerializeReceiveCustomIDCRCCouncilMemberUnsigned_def CRCProposal_SerializeReceiveCustomIDUnsigned_def)
qed (auto simp: CRCProposal_FromJsonReceiveCustomIDOwnerUnsigned_def CRCProposal_FromJsonReceiveCustomIDCRCouncilMemberUnsigned_def obind_eq_Ret
    CRCProposal_IsValidReceiveCustomIDCRCouncilMemberUnsigned_def CRCProposal_IsValidReceiveCustomIDOwnerUnsigned_def
    CRCProposal_DigestReceiveCustomIDOwnerUnsigned_def CRCProposal_SerializeReceiveCustomIDUnsigned_def)

interpretation fee_stages: staged_proposal E keyValid ecdsa "CRCProposal_FromJsonChangeCustomIDFeeOwnerUnsigned E" "CRCProposal_FromJsonChangeCustomIDFeeCRCouncilMemberUnsigned E"
    "CRCProposal_IsValidChangeCustomIDFeeOwnerUnsigned keyValid" "CRCProposal_IsValidChangeCustomIDFeeCRCouncilMemberUnsigned sha256 keyValid ecdsa"
    "CRCProposal_DigestChangeCustomIDFeeOwnerUnsigned sha256" "CRCProposal_DigestChangeCustomIDFeeCRCouncilMemberUnsigned sha256" for E :: "'j json_env" and keyValid ecdsa sha256
proof unfold_locales
  fix j j' :: 'j and v :: u8 and old :: CRCProposal
  assume "same_content E j j'"
  then show "CRCProposal_FromJsonChangeCustomIDFeeOwnerUnsigned E v j old = CRCProposal_FromJsonChangeCustomIDFeeOwnerUnsigned E v j' old"
    by (simp add: CRCProposal_FromJsonChangeCustomIDFeeOwnerUnsigned_def same_contentD signing_keys_def cong: if_cong)
next
  fix v :: u8 and p :: CRCProposal
  show "\<exists>d. CRCProposal_DigestChangeCustomIDFeeCRCouncilMemberUnsigned sha256 v p = Ret d"
    unfolding CRCProposal_DigestChangeCustomIDFeeCRCouncilMemberUnsigned_def
    by (rule digest_returns) (simp add: CRCProposal_SerializeChangeCustomIDFeeCRCCouncilMemberUnsigned_def CRCProposal_SerializeChangeCustomIDFeeUnsigned_def)
qed (auto simp: CRCProposal_FromJsonChangeCustomIDFeeOwnerUnsigned_def CRCProposal_FromJsonChangeCustomIDFeeCRCouncilMemberUnsigned_def obind_eq_Ret
    CRCProposal_IsValidChangeCustomIDFeeCRCouncilMemberUnsigned_def CRCProposal_IsValidChangeCustomIDFeeOwnerUnsigned_def
    CRCProposal_DigestChangeCustomIDFeeOwnerUnsigned_def CRCProposal_SerializeChangeCustomIDFeeUnsigned_def)

interpretation sidechain_stages: staged_proposal E keyValid ecdsa "CRCProposal_FromJsonRegisterSidechainUnsigned E" "CRCProposal_FromJsonRegisterSidechainCRCouncilMemberUnsigned E"
    "CRCProposal_IsValidRegisterSidechainUnsigned keyValid" "CRCProposal_IsValidRegisterSidechainCRCouncilMemberUnsigned sha256 keyValid ecdsa"
    "CRCProposal_DigestRegisterSidechainUnsigned sha256" "CRCProposal_DigestRegisterSidechainCRCouncilMemberUnsigned sha256" for E :: "'j json_env" and keyValid ecdsa sha256
proof unfold_locales
  fix j j' :: 'j and v :: u8 and old :: CRCProposal
  assume "same_content E j j'"
  then show "CRCProposal_FromJsonRegisterSidechainUnsigned E v j old = CRCProposal_FromJsonRegisterSidechainUnsigned E v j' old"
    by (simp add: CRCProposal_FromJsonRegisterSidechainUnsigned_def same_contentD signing_keys_def cong: if_cong)
next
  fix v :: u8 and p :: CRCProposal
  show "\<exists>d. CRCProposal_DigestRegisterSidechainCRCouncilMemberUnsigned sha256 v p = Ret d"
    unfolding CRCProposal_DigestRegisterSidechainCRCouncilMemberUnsigned_def
    by (rule digest_returns) (simp add: CRCProposal_SerializeRegisterSidechainCRCouncilMemberUnsigned_def CRCProposal_SerializeRegisterSidechainUnsigned_def)
qed (auto simp: CRCProposal_FromJsonRegisterSidechainUnsigned_def CRCProposal_FromJsonRegisterSidechainCRCouncilMemberUnsigned_def obind_eq_Ret
    CRCProposal_IsValidRegisterSidechainCRCouncilMemberUnsigned_def CRCProposal_IsValidRegisterSidechainUnsigned_def
    CRCProposal_DigestRegisterSidechainUnsigned_def CRCProposal_SerializeRegisterSidechainUnsigned_def)

section \<open>The requests\<close>

datatype proposal_kind = PK_Normal | PK_Terminate | PK_Reserve | PK_Receive | PK_Fee | PK_Sidechain

fun owner_digest_of :: "'j mainchain_env \<Rightarrow> proposal_kind \<Rightarrow> 'j \<Rightarrow> string outcome" where
  "owner_digest_of M PK_Normal payload = MainchainSubWallet_ProposalOwnerDigest M payload"
| "owner_digest_of M PK_Terminate payload = MainchainSubWallet_TerminateProposalOwnerDigest M payload"
| "owner_digest_of M PK_Reserve payload = MainchainSubWallet_ReserveCustomIDOwnerDigest M payload"
| "owner_digest_of M PK_Receive payload = MainchainSubWallet_ReceiveCustomIDOwnerDigest M payload"
| "owner_digest_of M PK_Fee payload = MainchainSubWallet_ChangeCustomIDFeeOwnerDigest M payload"
| "owner_digest_of M PK_Sidechain payload = MainchainSubWallet_RegisterSidechainOwnerDigest M payload"

fun council_digest_of :: "'j mainchain_env \<Rightarrow> proposal_kind \<Rightarrow> 'j \<Rightarrow> string outcome" where
  "council_digest_of M PK_Normal payload = MainchainSubWallet_ProposalCRCouncilMemberDigest M payload"
| "council_digest_of M PK_Terminate payload = MainchainSubWallet_TerminateProposalCRCouncilMemberDigest M payload"
| "council_digest_of M PK_Reserve payload = MainchainSubWallet_ReserveCustomIDCRCouncilMemberDigest M payload"
| "council_digest_of M PK_Receive payload = MainchainSubWallet_ReceiveCustomIDCRCouncilMemberDigest M payload"
| "council_digest_of M PK_Fee payload = MainchainSubWallet_ChangeCustomIDFeeCRCouncilMemberDigest M payload"
| "council_digest_of M PK_Sidechain payload = MainchainSubWallet_RegisterSidechainCRCouncilMemberDigest M payload"

text \<open>What the owner adds to the request: the signature and the council member it is for.\<close>

definition signed_payload :: "'j json_env \<Rightarrow> bytes \<Rightarrow> string \<Rightarrow> 'j \<Rightarrow> 'j" where
  "signed_payload E signature did payload =
     je_set E (je_set E payload ''Signature'' (je_bytes E signature)) ''CRCouncilMemberDID'' (je_str E did)"

lemma json_index_set:
  assumes "json_env_ok E" and "je_is_object E j"
  shows "json_index E (je_set E j k v) k' = (if k' = k then Ret v else json_index E j k')"
proof -
  have o: "je_open E j" using assms(2) by (simp add: je_open_def)
  show ?thesis using assms json_env_okD(3,4) [OF assms(1) o] by (simp add: json_index_def)
qed

lemma je_is_object_set [simp]: "json_env_ok E \<Longrightarrow> je_is_object E j \<Longrightarrow> je_is_object E (je_set E j k v)"
  by (rule json_env_okD(3)) (simp_all add: je_open_def)

lemma signed_payload_parts:
  assumes "json_env_ok E" and "je_is_object E payload"
  shows "je_is_object E (signed_payload E signature did payload)"
    and "same_content E payload (signed_payload E signature did payload)"
    and "json_bytes E (signed_payload E signature did payload) ''Signature'' = Ret signature"
    and "json_address E (signed_payload E signature did payload) ''CRCouncilMemberDID'' =
      Ret (Address_of_string (je_sha256_2 E) did)"
    and "proposal_version E (signed_payload E signature did payload) = proposal_version E payload"
  using assms
  by (simp_all add: signed_payload_def same_content_def signing_keys_def json_index_set json_as_address_def omap_def
      proposal_version_def json_contains_def je_open_def json_env_okD(4))

lemma signed_payload_fixed:
  assumes "json_env_ok E" and "je_is_object E payload"
  shows "payload_fixed E ty payload = Ret (je_set E payload ''Type'' (je_word E ty))"
    and "payload_fixed E ty (signed_payload E signature did payload) =
      Ret (je_set E (signed_payload E signature did payload) ''Type'' (je_word E ty))"
    and "same_content E (je_set E payload ''Type'' (je_word E ty))
      (je_set E (signed_payload E signature did payload) ''Type'' (je_word E ty))"
    and "json_bytes E (je_set E (signed_payload E signature did payload) ''Type'' (je_word E ty)) ''Signature'' = Ret signature"
    and "json_address E (je_set E (signed_payload E signature did payload) ''Type'' (je_word E ty)) ''CRCouncilMemberDID'' =
      Ret (Address_of_string (je_sha256_2 E) did)"
    and "json_index E (je_set E payload ''Type'' (je_word E ty)) ''OwnerPublicKey'' = json_index E payload ''OwnerPublicKey''"
  using assms signed_payload_parts [OF assms, of signature did]
  by (simp_all add: payload_fixed_def json_assign_def je_open_def json_index_set same_content_def signing_keys_def)

text \<open>Who signs the digest of the first stage can go on to the second, whatever the kind is.\<close>

lemma stage_accepted:
  assumes M: "json_env_ok (mc_json M)" and o: "je_is_object (mc_json M) payload"
    and d: "owner_digest_of M kind payload = Ret d" and key: "json_bytes (mc_json M) payload ''OwnerPublicKey'' = Ret key"
    and sig: "PubKey_Verify (mc_keyValid M) (mc_ecdsa M) key (uint256_SetHex d) signature = Ret True"
    and did: "addr_isValid (Address_of_string (je_sha256_2 (mc_json M)) did)"
  shows "\<exists>d'. council_digest_of M kind (signed_payload (mc_json M) signature did payload) = Ret d'"
proof -
  note fixed = signed_payload_fixed [OF M o] and same = signed_payload_parts [OF M o]
  have key': "json_bytes (mc_json M) (je_set (mc_json M) payload ''Type'' (je_word (mc_json M) ty)) ''OwnerPublicKey'' = Ret key" for ty :: u16
    using key fixed(6) by simp
  show ?thesis
  proof (cases kind)
    case PK_Normal
    show ?thesis using d unfolding PK_Normal
      by (simp add: MainchainSubWallet_ProposalOwnerDigest_def MainchainSubWallet_ProposalCRCouncilMemberDigest_def Let_def same(5))
        (erule normal_stages.requests_accepted [OF _ same(2) key same(3,4) sig did])
  next
    case PK_Terminate
    show ?thesis using d unfolding PK_Terminate
      by (simp add: MainchainSubWallet_TerminateProposalOwnerDigest_def MainchainSubWallet_TerminateProposalCRCouncilMemberDigest_def Let_def same(5) fixed(1,2))
        (erule terminate_stages.requests_accepted [OF _ fixed(3) key' fixed(4,5) sig did])
  next
    case PK_Reserve
    show ?thesis using d unfolding PK_Reserve
      by (simp add: MainchainSubWallet_ReserveCustomIDOwnerDigest_def MainchainSubWallet_ReserveCustomIDCRCouncilMemberDigest_def Let_def same(5) fixed(1,2))
        (erule reserve_stages.requests_accepted [OF _ fixed(3) key' fixed(4,5) sig did])
  next
    case PK_Receive
    show ?thesis using d unfolding PK_Receive
      by (simp add: MainchainSubWallet_ReceiveCustomIDOwnerDigest_def MainchainSubWallet_ReceiveCustomIDCRCouncilMemberDigest_def Let_def same(5) fixed(1,2))
        (erule receive_stages.requests_accepted [OF _ fixed(3) key' fixed(4,5) sig did])
  next
    case PK_Fee
    show ?thesis using d unfolding PK_Fee
      by (simp add: MainchainSubWallet_ChangeCustomIDFeeOwnerDigest_def MainchainSubWallet_ChangeCustomIDFeeCRCouncilMemberDigest_def Let_def same(5) fixed(1,2))
        (erule fee_stages.requests_accepted [OF _ fixed(3) key' fixed(4,5) sig did])
  next
    case PK_Sidechain
    show ?thesis using d unfolding PK_Sidechain
      by (simp add: MainchainSubWallet_RegisterSidechainOwnerDigest_def MainchainSubWallet_RegisterSidechainCRCouncilMemberDigest_def Let_def same(5) fixed(1,2))
        (erule sidechain_stages.requests_accepted [OF _ fixed(3) key' fixed(4,5) sig did])
  qed
qed

end
