(* ===== verification/JsonSampleM.thy ===== *)
theory JsonSampleM
  imports TransactionJson SampleM "HOL-Library.AList"
begin

text \<open>
  JSON values as a datatype, with the operations of \<open>json_env\<close> on it: a library that keeps the laws, for the theorems
  that have them among their hypotheses.
\<close>

datatype jval =
    JNull | JStr string | JNum int | JBool bool | JArr "jval list" | JObj "(string \<times> jval) list"

definition jval_dec2bn :: "string \<Rightarrow> BigInt option" where
  "jval_dec2bn s =
     (case s of [] \<Rightarrow> None
      | c # r \<Rightarrow> if c = CHR ''-'' then Some (- int (digits_value 0 r))
                 else if list_all is_digit s then Some (int (digits_value 0 s)) else None)"

definition jval_env :: "(bytes \<Rightarrow> uint256) \<Rightarrow> jval json_env" where
  "jval_env sha256_2 =
     \<lparr>je_null = JNull, je_str = JStr, je_num = JNum, je_bool = JBool, je_arr = JArr,
      je_set = (\<lambda>j k v. case j of JObj ms \<Rightarrow> JObj ((k, v) # ms) | _ \<Rightarrow> JObj [(k, v)]),
      je_find = (\<lambda>j k. case j of JObj ms \<Rightarrow> map_of ms k | _ \<Rightarrow> None),
      je_is_null = (\<lambda>j. j = JNull), je_is_object = (\<lambda>j. case j of JObj _ \<Rightarrow> True | _ \<Rightarrow> False),
      je_is_array = (\<lambda>j. case j of JArr _ \<Rightarrow> True | _ \<Rightarrow> False),
      je_get_str = (\<lambda>j. case j of JStr s \<Rightarrow> Some s | _ \<Rightarrow> None),
      je_get_num = (\<lambda>j. case j of JNum n \<Rightarrow> Some n | _ \<Rightarrow> None),
      je_get_bool = (\<lambda>j. case j of JBool b \<Rightarrow> Some b | _ \<Rightarrow> None),
      je_get_arr = (\<lambda>j. case j of JArr xs \<Rightarrow> Some xs | _ \<Rightarrow> None),
      je_elems = (\<lambda>j. case j of JArr xs \<Rightarrow> xs | JObj ms \<Rightarrow> map snd ms | JNull \<Rightarrow> [] | _ \<Rightarrow> [j]),
      je_members = (\<lambda>j. case j of JObj ms \<Rightarrow> AList.clearjunk ms | _ \<Rightarrow> []),
      je_bn2dec = (\<lambda>n. if n < 0 then CHR ''-'' # dec_text (nat (- n)) else dec_text (nat n)),
      je_dec2bn = jval_dec2bn, je_sha256_2 = sha256_2\<rparr>"

lemma jval_dec2bn_text: "jval_dec2bn (dec_text n) = Some (int n)"
proof -
  obtain c r where t: "dec_text n = c # r" "is_digit c"
    using dec_text_digits [of n] by (cases "dec_text n") auto
  moreover have "c \<noteq> CHR ''-''" using t(2) by (auto simp: is_digit_def)
  ultimately show ?thesis using dec_text_digits [of n] by (simp add: jval_dec2bn_def)
qed

lemma jval_dec2bn_minus: "jval_dec2bn (CHR ''-'' # dec_text n) = Some (- int n)"
  using dec_text_digits [of n] by (simp add: jval_dec2bn_def)

lemma jval_env_ok:
  assumes "hd (checksum_of sha256_2 (uint168_bytes 0)) \<noteq> 0"
  shows "json_env_ok (jval_env sha256_2)"
  using assms
  by (auto simp: json_env_ok_def je_open_def jval_env_def jval_dec2bn_text jval_dec2bn_minus split: jval.splits)

definition sample_json :: "jval json_env" where
  "sample_json = jval_env (\<lambda>bs. of_le (take 32 bs) + 1)"

lemma sample_json_ok: "json_env_ok sample_json"
  unfolding sample_json_def by (rule jval_env_ok) code_simp

end
