(* ===== verification/MainSampleM.thy ===== *)
theory MainSampleM
  imports JsonSampleM MainchainRequests ProposalStages
begin

text \<open>
  Requests to a main-chain sub-wallet of the sample account over the sample JSON values, for the witnesses.
\<close>

section \<open>The environment and the inputs\<close>

definition sample_mc :: "jval mainchain_env" where
  "sample_mc = \<lparr>mc_lib = sample_lib, mc_json = sample_json, mc_sha256 = \<lambda>_. 5\<rparr>"

lemma sample_mc_simps [simp]:
  "mc_lib sample_mc = sample_lib" "mc_json sample_mc = sample_json" "mc_sha256 sample_mc = (\<lambda>_. 5)"
  by (simp_all add: sample_mc_def)

lemma sample_json_simps [simp]:
  "je_sha256_2 sample_json = al_sha256_2 sample_lib" "je_dec2bn sample_json = jval_dec2bn" "je_elems sample_json (JArr js) = js"
  "je_find sample_json (JObj ms) k = map_of ms k" "je_get_str sample_json (JStr s) = Some s"
  "je_get_num sample_json (JNum n) = Some n"
  by (simp_all add: sample_json_def jval_env_def sample_lib_def)

lemma sample_mc_ok: "mainchain_env_ok sample_mc"
  by (simp add: mainchain_env_ok_def sample_json_ok)

definition sample_coins :: "Address \<Rightarrow> string \<Rightarrow> jval" where
  "sample_coins addr amount = JArr [JObj [(''TxHash'', JStr (uint256_GetHex 1)), (''Index'', JNum 0),
     (''Address'', JStr (Address_String (al_sha256_2 sample_lib) addr)), (''Amount'', JStr amount)]]"

lemma sample_coins_read:
  assumes p: "uint168_prefix (addr_programHash addr) = PrefixStandard" and a: "jval_dec2bn amount = Some n" "0 \<le> n"
  shows "mainchain_inputs sample_mc (sample_coins addr amount) = Ret [UTXO_of 1 0 (Address_of_hash (addr_programHash addr)) n]"
proof -
  have "uint168_prefix 0 \<noteq> PrefixStandard" by code_simp
  then have "addr_programHash addr \<noteq> 0" using p by auto
  then have t: "Address_of_string (al_sha256_2 sample_lib) (Address_String (al_sha256_2 sample_lib) addr) =
      Address_of_hash (addr_programHash addr)"
    by (intro Address_of_string_String) simp
  have v: "addr_isValid (Address_of_hash (addr_programHash addr))"
    using p by (simp add: Address_of_hash_def Address_CheckValid_def valid_prefix_def)
  show ?thesis
    using t v a
    by (simp add: mainchain_inputs_def sample_coins_def UTXOJson_of_def json_member_def member_get_def BigInt_setDec_def
        uint256_SetHex_GetHex)
qed

lemma sample_account_wallet:
  obtains addr and w :: Wallet where "addr_isValid addr" "uint168_prefix (addr_programHash addr) = PrefixStandard"
    "w_chainID w = CHAINID_MAINCHAIN"
    "\<exists>sa'. SubAccount_GetAddresses sample_lib 0 1 False (w_subAccount w) = Ret ([addr], sa')"
    "SubAccount_GetCode sample_lib (Address_of_hash (addr_programHash addr)) (w_subAccount w) = Ret (Some (addr_code addr))"
proof -
  obtain a addr where a: "opens sample_lib sample_passwd a" "sa_pubkey sample_lib a False 0 = Ret sample_pubkey"
    "sa_address sample_lib a False 0 = Ret addr" "addr_isValid addr"
    "uint168_prefix (addr_programHash addr) = PrefixStandard"
    "acc_ownerPubKey a = 2 # be_pad 32 (account_value + 2 ^ 33 + 1)" "\<not> ls_singleAddress (acc_localstore a)"
    using sample_address by metis
  let ?w = "sample_wallet a addr" and ?addr = "Address_of_hash (addr_programHash addr)"
  have st: "Account_GetSignType a = Standard" using a(1) by (simp add: opens_def Account_GetSignType_def)
  have same: "addr_programHash ?addr = addr_programHash addr" "addr_isValid ?addr"
    using a(5) by (simp_all add: Address_of_hash_def Address_CheckValid_def valid_prefix_def)
  have "\<not> addr_isValid Address_new" "uint168_eq (addr_programHash addr) (addr_programHash addr)"
    using Address_eq_refl [of addr] by (simp_all add: Address_new_def Address_eq_def)
  then have code: "SubAccount_GetCode sample_lib ?addr (w_subAccount ?w) = Ret (Some (addr_code addr))"
    using a(4) same by (simp add: SubAccount_GetCode_def SubAccount_IsProducerDepositAddress_def SubAccount_IsOwnerAddress_def
        SubAccount_IsCRDepositAddress_def Address_eq_def sample_wallet_def Wallet_of_def Let_def)
  obtain mpk k where "master_key a = Ret mpk" "HDKeychain_getChild (al_hd sample_lib) mpk (sa_chain False) = Ret k"
    using a(3) st by (auto simp: sa_address_def obind_eq_Ret)
  then have "\<exists>sa'. SubAccount_GetAddresses sample_lib 0 1 False (w_subAccount ?w) = Ret ([addr], sa')"
    using st a(7) by (simp add: SubAccount_GetAddresses_def sample_wallet_def Wallet_of_def Let_def sa_cached_def)
  moreover have "w_chainID ?w = CHAINID_MAINCHAIN" by (simp add: sample_wallet_def Wallet_of_def)
  ultimately show ?thesis using that [of addr ?w] a(4,5) code by blast
qed

text \<open>A request for a payload that is written comes back when the coins are more than what is paid.\<close>

lemma sample_created:
  assumes addr: "addr_isValid addr" "uint168_prefix (addr_programHash addr) = PrefixStandard"
    and w: "\<exists>sa'. SubAccount_GetAddresses sample_lib 0 1 False (w_subAccount w) = Ret ([addr], sa')"
      "SubAccount_GetCode sample_lib (Address_of_hash (addr_programHash addr)) (w_subAccount w) = Ret (Some c)"
    and p: "returns (Payload_Serialize v p)" and outs: "\<And>x. x \<in> set outs \<Longrightarrow> out_payload x \<noteq> None"
    and amount: "sum_list (map out_amount outs) + mainchain_dec sample_mc fee < n"
  shows "\<exists>r. create_encoded sample_mc 7 ty p v [UTXO_of 1 0 (Address_of_hash (addr_programHash addr)) n] outs memo fee False w = Ret r"
proof -
  let ?addr = "Address_of_hash (addr_programHash addr)" and ?utxos = "[UTXO_of 1 0 (Address_of_hash (addr_programHash addr)) n]"
  obtain tx0 where tx0: "Wallet_attributes memo 7 (Transaction_of ty (Some p)) = Ret tx0"
    using Wallet_attributes_total by blast
  obtain sa' where sa: "SubAccount_GetAddresses sample_lib 0 1 False (w_subAccount w) = Ret ([addr], sa')" using w(1) by blast
  have "\<exists>tx w'. Wallet_CreateTransaction sample_lib 7 ty (Some p) ?utxos outs memo (mainchain_dec sample_mc fee) False w = Ret (tx, w')"
    using tx0 sa w(2) amount addr(1)
    by (simp add: Wallet_CreateTransaction_def Wallet_change_def Wallet_change_address_def UTXO_of_def Let_def
        Transaction_AddOutput_def)
  then obtain tx w' where c: "Wallet_CreateTransaction sample_lib 7 ty (Some p) ?utxos outs memo (mainchain_dec sample_mc fee)
      False w = Ret (tx, w')" by blast
  have ch: "tx_outputs tx = outs \<or> (\<exists>m. tx_outputs tx = outs @ [TransactionOutput_of m addr GetELAAssetID OutputType_Default None])"
  proof -
    obtain tx0 tx1 tx2 sa' change where
      a: "Wallet_attributes memo 7 (Transaction_of ty (Some p)) = Ret tx0"
      and t1: "tx1 = (if outs \<noteq> [] then Transaction_SetOutputs outs tx0 else tx0)"
      and i: "Wallet_inputs sample_lib (w_subAccount w) ?utxos tx1 0 = Ret (tx2, sum_list (map utxo_amount ?utxos))"
      and ch: "Wallet_change sample_lib False ?utxos (sum_list (map utxo_amount ?utxos)) (sum_list (map out_amount outs))
         (mainchain_dec sample_mc fee) tx2 (w_subAccount w) = Ret (tx2\<lparr>tx_outputs := tx_outputs tx2 @ change\<rparr>, sa')"
      and t: "tx = tx2\<lparr>tx_outputs := tx_outputs tx2 @ change, tx_fee := BigInt_getUint64 (mainchain_dec sample_mc fee),
         tx_version := (if w_chainID w = CHAINID_MAINCHAIN then TxVersion_V09 else tx_version tx2)\<rparr>"
      using Wallet_CreateTransaction_Ret [OF c] by metis
    have o: "tx_outputs tx2 = outs"
      using Wallet_inputs_fields [OF i] Wallet_attributes_Ret [OF a] t1
      by (simp add: Transaction_SetOutputs_def Transaction_of_def)
    have "tx2\<lparr>tx_outputs := tx_outputs tx2 @ change\<rparr> = Transaction_AddOutput
        (TransactionOutput_of (n - sum_list (map out_amount outs) - mainchain_dec sample_mc fee) addr GetELAAssetID
          OutputType_Default None) tx2"
      using ch sa addr(1) amount by (simp add: Wallet_change_def Wallet_change_address_def UTXO_of_def Let_def)
    then have "tx_outputs (tx2\<lparr>tx_outputs := tx_outputs tx2 @ change\<rparr>) = outs @
        [TransactionOutput_of (n - sum_list (map out_amount outs) - mainchain_dec sample_mc fee) addr GetELAAssetID
          OutputType_Default None]"
      using o by (simp add: Transaction_AddOutput_def)
    then show ?thesis using o t by auto
  qed
  let ?tx = "tx\<lparr>tx_payloadVersion := v\<rparr>"
  have pay: "tx_payload ?tx = Some p" "tx_type tx = ty" using Wallet_CreateTransaction_balanced(4,5) [OF c] by simp_all
  have typed: "out_payload x \<noteq> None" if "x \<in> set (tx_outputs ?tx)" for x
    using ch that outs by (auto simp: TransactionOutput_of_def TransactionOutput_GeneratePayload_def)
  have r: "returns (Transaction_Serialize ?tx)" "returns (Transaction_SerializeUnsigned ?tx)"
    using returns_Transaction [OF pay(1) _ typed] p by simp_all
  obtain s1 s2 where s: "Transaction_Serialize ?tx empty_stream = Ret s1" "Transaction_SerializeUnsigned ?tx empty_stream = Ret s2"
    using r unfolding returns_def by blast
  have "\<exists>j. EncodeTx (al_sha256_2 sample_lib) CHAINID_MAINCHAIN ?tx = Ret j"
    by (cases "tx_txHash ?tx = 0") (simp_all add: EncodeTx_def Transaction_GetHash_def Transaction_rehash_def s del: Transaction.update_convs)
  then show ?thesis using c by (auto simp: create_encoded_def omap_def Transaction_SetPayloadVersion_def)
qed

section \<open>Payloads\<close>

definition sample_owner :: bytes where
  "sample_owner = 2 # be_pad 32 7"

text \<open>What the sample library signs for the key above: its number, and the digest.\<close>

definition sample_owner_sig :: bytes where
  "sample_owner_sig = be_pad 32 7 @ be_pad 32 5"

lemma sample_owner_verifies:
  "PubKey_Verify (mc_keyValid sample_mc) (mc_ecdsa sample_mc) sample_owner 5 sample_owner_sig = Ret True"
proof -
  have "BigInt_setBytes (be_pad 32 7) False = 7" by (rule BigInt_setBytes_pad) simp
  moreover have "length (be_pad 32 5) = 32" "length (be_pad 32 7) = 32" by (rule be_pad_33; simp)+
  ultimately show ?thesis
    by (simp add: PubKey_Verify_def Key_SetPubKey_def Key_Verify_def sample_owner_def sample_owner_sig_def sample_key_def)
qed

definition sample_did :: Address where
  "sample_did = Address_of_hash (uint168_of_prefix PrefixIDChain (replicate 20 9))"

lemma sample_did_valid: "addr_isValid sample_did" "Address_of_hash (addr_programHash sample_did) = sample_did"
  by (simp_all add: sample_did_def Address_of_hash_def Address_CheckValid_def Address_new_def uint168_prefix_of_prefix valid_prefix_def)

definition sample_end :: CRCProposal where
  "sample_end = CRCProposal_new\<lparr>crp_type := CRCProposal_terminateProposal, crp_categoryData := ''end'',
     crp_ownerPublicKey := sample_owner, crp_draftHash := 3, crp_targetProposalHash := 4, crp_signature := sample_owner_sig,
     crp_crCouncilMemberDID := sample_did, crp_crCouncilMemberSignature := [1]\<rparr>"

text \<open>The request names another type: the one of the method is put in its place.\<close>

definition sample_end_payload :: jval where
  "sample_end_payload = je_set sample_json (CRCProposal_ToJson sample_json 0 sample_end) ''Type'' (JNum 0)"

lemmas sample_end_defs = sample_end_payload_def CRCProposal_ToJson_def CRCProposal_ToJsonTerminateProposalCRCouncilMemberUnsigned_def
  CRCProposal_ToJsonTerminateProposalOwnerUnsigned_def

lemma sample_end_version: "proposal_version sample_json sample_end_payload = 0"
  using sample_json_ok
  by (simp add: proposal_version_def json_contains_def sample_end_defs sample_end_def proposal_types Let_def
      CRCProposalVersion01_def CRCProposalDefaultVersion_def)

lemma sample_end_open: "je_is_object sample_json sample_end_payload"
  using sample_json_ok by (simp add: sample_end_defs sample_end_def proposal_types Let_def json_env_okD(3))

lemma sample_end_read:
  "\<exists>j. payload_fixed sample_json CRCProposal_terminateProposal sample_end_payload = Ret j \<and>
    CRCProposal_FromJson sample_json 0 j CRCProposal_new = Ret sample_end"
  using sample_json_ok sample_did_valid
  by (simp add: payload_fixed_def json_assign_def sample_end_open sample_end_defs CRCProposal_FromJson_def Let_def
      CRCProposal_FromJsonTerminateProposalCRCouncilMemberUnsigned_def
      CRCProposal_FromJsonTerminateProposalOwnerUnsigned_def CRCProposalVersion01_def sample_end_def proposal_types)

lemma sample_end_valid:
  "CRCProposal_IsValid (mc_sha256 sample_mc) (mc_keyValid sample_mc) (mc_ecdsa sample_mc) 0 sample_end = Ret True"
proof -
  have "returns (CRCProposal_SerializeTerminateProposalUnsigned 0 sample_end)"
    by (simp add: CRCProposal_SerializeTerminateProposalUnsigned_def)
  then obtain s where "CRCProposal_SerializeTerminateProposalUnsigned 0 sample_end empty_stream = Ret s"
    unfolding returns_def by blast
  moreover have "length (be_pad 32 7) = 32" by (rule be_pad_33; simp)
  ultimately show ?thesis
    using sample_owner_verifies sample_did_valid
    by (simp add: CRCProposal_IsValid_def CRCProposal_IsValidTerminateProposalCRCouncilMemberUnsigned_def
        CRCProposal_IsValidTerminateProposalOwnerUnsigned_def CRCProposal_DigestTerminateProposalOwnerUnsigned_def
        sample_end_def proposal_types sample_owner_def sample_key_def)
qed

lemma sample_end_created:
  "\<exists>inputs a w j w'. mainchain_create sample_mc 7 inputs ''1'' ''hi'' w (RQ_TerminateProposal sample_end_payload) = Ret (j, w') \<and>
    mainchain_inputs sample_mc inputs = Ret [UTXO_of 1 0 a 10] \<and> w_chainID w = CHAINID_MAINCHAIN"
proof -
  obtain addr and w :: Wallet where a: "addr_isValid addr" "uint168_prefix (addr_programHash addr) = PrefixStandard"
    "w_chainID w = CHAINID_MAINCHAIN"
    "\<exists>sa'. SubAccount_GetAddresses sample_lib 0 1 False (w_subAccount w) = Ret ([addr], sa')"
    "SubAccount_GetCode sample_lib (Address_of_hash (addr_programHash addr)) (w_subAccount w) = Ret (Some (addr_code addr))"
    using sample_account_wallet by metis
  have ten: "jval_dec2bn ''10'' = Some 10" and one: "jval_dec2bn ''1'' = Some 1" by code_simp+
  have i: "mainchain_inputs sample_mc (sample_coins addr ''10'') = Ret [UTXO_of 1 0 (Address_of_hash (addr_programHash addr)) 10]"
    by (rule sample_coins_read [OF a(2) ten]) simp
  obtain pj where p: "payload_fixed sample_json CRCProposal_terminateProposal sample_end_payload = Ret pj"
    "CRCProposal_FromJson sample_json 0 pj CRCProposal_new = Ret sample_end" using sample_end_read by blast
  have "returns (Payload_Serialize 0 (PL_CRCProposal sample_end))"
    by (simp add: CRCProposal_Serialize_def CRCProposal_SerializeTerminateProposal_def sample_end_def proposal_types
        CRCProposal_SerializeTerminateProposalCRCouncilMemberUnsigned_def CRCProposal_SerializeTerminateProposalUnsigned_def)
  then obtain j w' where "create_encoded sample_mc 7 Tx_crcProposal (PL_CRCProposal sample_end) 0
      [UTXO_of 1 0 (Address_of_hash (addr_programHash addr)) 10] [] ''hi'' ''1'' False w = Ret (j, w')"
    using sample_created [OF a(1,2,4,5), of 0 "PL_CRCProposal sample_end" "[]" "''1''" 10] one
    by (fastforce simp: mainchain_dec_def BigInt_setDec_def)
  then have "mainchain_create sample_mc 7 (sample_coins addr ''10'') ''1'' ''hi'' w (RQ_TerminateProposal sample_end_payload) = Ret (j, w')"
    using i p sample_end_valid
    by (simp add: MainchainSubWallet_CreateTerminateProposalTransaction_def json_argument_def Let_def sample_end_version)
  then show ?thesis using i a(3) by blast
qed

section \<open>Producers, stakes\<close>

definition sample_producer_payload :: jval where
  "sample_producer_payload = ProducerInfo_ToJson sample_json 0 (ProducerInfo_new\<lparr>prod_ownerPublicKey := sample_owner\<rparr>)"

lemma sample_producer_read:
  "ProducerInfo_FromJson sample_json 0 sample_producer_payload ProducerInfo_new =
    Ret (ProducerInfo_new\<lparr>prod_ownerPublicKey := sample_owner\<rparr>)"
  using sample_json_ok
  by (simp add: sample_producer_payload_def ProducerInfo_ToJson_def ProducerInfo_FromJson_def Let_def ProducerInfo_new_def)

lemma sample_producer_created:
  "\<exists>inputs w j w'. MainchainSubWallet_CreateRegisterProducerTransaction sample_mc 7 inputs sample_producer_payload
    (dec_text 500000000000) ''1'' ''hi'' w = Ret (j, w')"
proof -
  obtain addr and w :: Wallet where a: "addr_isValid addr" "uint168_prefix (addr_programHash addr) = PrefixStandard"
    "\<exists>sa'. SubAccount_GetAddresses sample_lib 0 1 False (w_subAccount w) = Ret ([addr], sa')"
    "SubAccount_GetCode sample_lib (Address_of_hash (addr_programHash addr)) (w_subAccount w) = Ret (Some (addr_code addr))"
    using sample_account_wallet by metis
  have n: "jval_dec2bn (dec_text 600000000000) = Some 600000000000" "jval_dec2bn (dec_text 500000000000) = Some 500000000000"
    "list_all is_digit (dec_text 500000000000)"
    by (simp_all only: jval_dec2bn_text dec_text_digits of_nat_numeral)
  have one: "jval_dec2bn ''1'' = Some 1" by code_simp
  let ?p = "ProducerInfo_new\<lparr>prod_ownerPublicKey := sample_owner\<rparr>"
  obtain d where d: "Address_of_pubkey (al_hash160 sample_lib) PrefixDeposit sample_owner False = Ret d"
    by (auto simp: Address_of_pubkey_def Address_of_pubkeys_def Address_GenerateCode_def)
  let ?out = "TransactionOutput_of 500000000000 d GetELAAssetID OutputType_Default None"
  have i: "mainchain_inputs sample_mc (sample_coins addr (dec_text 600000000000)) =
      Ret [UTXO_of 1 0 (Address_of_hash (addr_programHash addr)) 600000000000]"
    by (rule sample_coins_read [OF a(2) n(1)]) simp
  have "returns (Payload_Serialize 0 (PL_ProducerInfo ?p))"
    by (simp add: ProducerInfo_Serialize_def ProducerInfo_SerializeUnsigned_def)
  then obtain j w' where "create_encoded sample_mc 7 Tx_registerProducer (PL_ProducerInfo ?p) 0
      [UTXO_of 1 0 (Address_of_hash (addr_programHash addr)) 600000000000] [?out] ''hi'' ''1'' False w = Ret (j, w')"
    using sample_created [OF a, of 0 "PL_ProducerInfo ?p" "[?out]" "''1''" 600000000000] one
    by (fastforce simp: mainchain_dec_def BigInt_setDec_def TransactionOutput_of_def TransactionOutput_GeneratePayload_def)
  then show ?thesis
    using i d n sample_producer_read
    by (intro exI [of _ "sample_coins addr (dec_text 600000000000)"] exI [of _ w] exI [of _ j] exI [of _ w'])
      (simp add: MainchainSubWallet_CreateRegisterProducerTransaction_def CheckBigIntAmount_def mainchain_dec_def
        BigInt_setDec_def DEPOSIT_MIN_ELA_def SELA_PER_ELA_def)
qed

lemma sample_cancel_created:
  "\<exists>inputs w j w'. mainchain_create sample_mc 7 inputs ''1'' ''hi'' w
    (RQ_CancelVotes (CancelVotes_ToJson sample_json 0 CancelVotes_new)) = Ret (j, w') \<and>
    w_chainID w = CHAINID_MAINCHAIN"
proof -
  obtain addr and w :: Wallet where a: "addr_isValid addr" "uint168_prefix (addr_programHash addr) = PrefixStandard"
    "w_chainID w = CHAINID_MAINCHAIN"
    "\<exists>sa'. SubAccount_GetAddresses sample_lib 0 1 False (w_subAccount w) = Ret ([addr], sa')"
    "SubAccount_GetCode sample_lib (Address_of_hash (addr_programHash addr)) (w_subAccount w) = Ret (Some (addr_code addr))"
    using sample_account_wallet by metis
  have ten: "jval_dec2bn ''10'' = Some 10" and one: "jval_dec2bn ''1'' = Some 1" by code_simp+
  have i: "mainchain_inputs sample_mc (sample_coins addr ''10'') = Ret [UTXO_of 1 0 (Address_of_hash (addr_programHash addr)) 10]"
    by (rule sample_coins_read [OF a(2) ten]) simp
  obtain p where p: "CancelVotes_FromJson sample_json 0 (CancelVotes_ToJson sample_json 0 CancelVotes_new) CancelVotes_new = Ret p"
    using cancel_votes_json.reread [OF sample_json_ok] by blast
  have "returns (Payload_Serialize 0 (PL_CancelVotes p))" by (simp add: CancelVotes_Serialize_def)
  then obtain j w' where "create_encoded sample_mc 7 Tx_CancelVotes (PL_CancelVotes p) 0
      [UTXO_of 1 0 (Address_of_hash (addr_programHash addr)) 10] [] ''hi'' ''1'' False w = Ret (j, w')"
    using sample_created [OF a(1,2,4,5), of 0 "PL_CancelVotes p" "[]" "''1''" 10] one
    by (fastforce simp: mainchain_dec_def BigInt_setDec_def)
  then have "mainchain_create sample_mc 7 (sample_coins addr ''10'') ''1'' ''hi'' w
      (RQ_CancelVotes (CancelVotes_ToJson sample_json 0 CancelVotes_new)) = Ret (j, w')"
    using i p by (simp add: MainchainSubWallet_CreateCancelVotesTransaction_def json_argument_def)
  then show ?thesis using a(3) by blast
qed

section \<open>The first stage of the sample proposal\<close>

lemma sample_end_owner: "json_bytes sample_json sample_end_payload ''OwnerPublicKey'' = Ret sample_owner"
  using sample_json_ok by (simp add: sample_end_defs sample_end_def proposal_types Let_def)

lemma sample_end_digest: "CRCProposal_DigestTerminateProposalOwnerUnsigned (\<lambda>_. 5) v p = Ret 5"
proof -
  have "returns (CRCProposal_SerializeTerminateProposalUnsigned v p)"
    by (simp add: CRCProposal_SerializeTerminateProposalUnsigned_def)
  then obtain s where "CRCProposal_SerializeTerminateProposalUnsigned v p empty_stream = Ret s"
    unfolding returns_def by blast
  then show ?thesis by (simp add: CRCProposal_DigestTerminateProposalOwnerUnsigned_def)
qed

lemma sample_end_stage_read:
  "\<exists>j p. payload_fixed sample_json CRCProposal_terminateProposal sample_end_payload = Ret j \<and>
    CRCProposal_FromJsonTerminateProposalOwnerUnsigned sample_json 0 j CRCProposal_new = Ret p \<and>
    CRCProposal_IsValidTerminateProposalOwnerUnsigned (mc_keyValid sample_mc) 0 p \<and>
    CRCProposal_DigestTerminateProposalOwnerUnsigned (mc_sha256 sample_mc) 0 p = Ret 5"
proof -
  have "length (be_pad 32 7) = 32" by (rule be_pad_33; simp)
  then show ?thesis
    using sample_json_ok
    by (simp add: payload_fixed_def json_assign_def sample_end_open sample_end_defs Let_def
        CRCProposal_FromJsonTerminateProposalOwnerUnsigned_def CRCProposalVersion01_def sample_end_def proposal_types
        CRCProposal_IsValidTerminateProposalOwnerUnsigned_def sample_end_digest sample_owner_def sample_key_def)
qed

lemma sample_end_owner_digest: "owner_digest_of sample_mc PK_Terminate sample_end_payload = Ret (uint256_GetHex 5)"
  using sample_end_stage_read
  by (auto simp: MainchainSubWallet_TerminateProposalOwnerDigest_def sample_end_version Let_def json_argument_def when_valid_def
      omap_def)

lemma sample_did_text:
  "Address_of_string (al_sha256_2 sample_lib) (Address_String (al_sha256_2 sample_lib) sample_did) = sample_did"
proof -
  have "addr_programHash sample_did \<noteq> 0"
  proof
    assume "addr_programHash sample_did = 0"
    then have "uint168_prefix 0 = PrefixIDChain"
      by (simp add: sample_did_def Address_of_hash_def) (metis length_replicate uint168_prefix_of_prefix)
    moreover have "uint168_prefix 0 \<noteq> PrefixIDChain" by code_simp
    ultimately show False by simp
  qed
  then show ?thesis using sample_did_valid(2) by (subst Address_of_string_String) simp_all
qed

end
