(* ===== verification/StoreJson.thy ===== *)
theory StoreJson
  imports JsonM AccountM
begin

text \<open>
  The store of an account as JSON and as a file: \<open>ToJson\<close>, \<open>FromJson\<close>, \<open>Load\<close>, \<open>Save\<close> and \<open>Remove\<close> of
  \<open>SDK/SpvService/LocalStore.cpp\<close> with \<open>PublicKeyRing\<close> and \<open>CoinInfo\<close>.  Both formats are read; what is saved in the new
  one is loaded again.
\<close>

section \<open>JSON texts\<close>

text \<open>
  What files and encrypted texts need of the library beside \<open>json_env\<close>: \<open>dump\<close>, which throws when a string is not
  UTF-8, what a stream has been given when it does, \<open>parse\<close>, and \<open>erase\<close>.
\<close>

record 'j json_text =
  jt_env :: "'j json_env"
  jt_dump :: "'j \<Rightarrow> string option"
  jt_written :: "'j \<Rightarrow> string"
  jt_parse :: "string \<Rightarrow> 'j option"
  jt_erase :: "'j \<Rightarrow> string \<Rightarrow> 'j"

text \<open>
  What is documented of them: what was dumped is what a stream gets and parses as the same value, an object without a member has the other ones,
  an object is neither null nor an array, and one with a member is not empty.
\<close>

definition json_text_ok :: "'j json_text \<Rightarrow> bool" where
  "json_text_ok T \<longleftrightarrow> json_env_ok (jt_env T) \<and>
     (\<forall>j t. jt_dump T j = Some t \<longrightarrow> jt_parse T t = Some j \<and> jt_written T j = t) \<and>
     (\<forall>j k. je_is_object (jt_env T) j \<longrightarrow> je_is_object (jt_env T) (jt_erase T j k) \<and>
        (\<forall>k'. je_find (jt_env T) (jt_erase T j k) k' = (if k' = k then None else je_find (jt_env T) j k'))) \<and>
     (\<forall>j. je_is_object (jt_env T) j \<longrightarrow> \<not> je_is_null (jt_env T) j \<and> \<not> je_is_array (jt_env T) j) \<and>
     (\<forall>j k v. je_open (jt_env T) j \<longrightarrow> je_members (jt_env T) (je_set (jt_env T) j k v) \<noteq> [])"

lemma json_text_okD:
  assumes "json_text_ok T"
  shows "json_env_ok (jt_env T)" "jt_dump T j = Some t \<Longrightarrow> jt_parse T t = Some j \<and> jt_written T j = t"
    "je_is_object (jt_env T) j \<Longrightarrow> je_is_object (jt_env T) (jt_erase T j k)"
    "je_is_object (jt_env T) j \<Longrightarrow> je_find (jt_env T) (jt_erase T j k) k' = (if k' = k then None else je_find (jt_env T) j k')"
    "je_is_object (jt_env T) j \<Longrightarrow> \<not> je_is_null (jt_env T) j" "je_is_object (jt_env T) j \<Longrightarrow> \<not> je_is_array (jt_env T) j"
    "je_open (jt_env T) j \<Longrightarrow> je_members (jt_env T) (je_set (jt_env T) j k v) \<noteq> []"
  using assms unfolding json_text_ok_def by blast+

definition json_dump :: "'j json_text \<Rightarrow> 'j \<Rightarrow> string outcome" where
  "json_dump T j = json_get (jt_dump T j)"

definition json_parse :: "'j json_text \<Rightarrow> string \<Rightarrow> 'j outcome" where
  "json_parse T t = json_get (jt_parse T t)"

lemma json_parse_dump: "json_text_ok T \<Longrightarrow> json_dump T j = Ret t \<Longrightarrow> json_parse T t = Ret j"
  by (auto simp: json_dump_def json_parse_def json_get_def json_text_okD(2) split: option.splits)

text \<open>\<open>empty\<close> of an object, which null counts for, too.\<close>

definition json_empty :: "'j json_env \<Rightarrow> 'j \<Rightarrow> bool" where
  "json_empty E j \<longleftrightarrow> je_is_null E j \<or> je_is_object E j \<and> je_members E j = [] \<or> je_is_array E j \<and> je_elems E j = []"

lemma json_set_not_empty [simp]:
  assumes "json_text_ok T" and "je_open (jt_env T) j"
  shows "\<not> json_empty (jt_env T) (je_set (jt_env T) j k v)"
  using assms json_text_okD(5-7) [OF assms(1)] json_env_okD(3) [OF json_text_okD(1) [OF assms(1)] assms(2)]
  by (simp add: json_empty_def)

text \<open>A number that is read into an \<open>int\<close>, and the member that may be missing.\<close>

definition json_as_int :: "'j json_env \<Rightarrow> 'j \<Rightarrow> int outcome" where
  "json_as_int E v = omap (\<lambda>n. sint (word_of_int n :: u32)) (json_get (je_get_num E v))"

abbreviation "json_int E j k \<equiv> obind (json_index E j k) (json_as_int E)"

definition json_or :: "'j json_env \<Rightarrow> 'j \<Rightarrow> string \<Rightarrow> 'a \<Rightarrow> ('j \<Rightarrow> 'a outcome) \<Rightarrow> 'a outcome" where
  "json_or E j k absent as = (if json_contains E j k then obind (json_index E j k) as else Ret absent)"

definition int32 :: "int \<Rightarrow> bool" where
  "int32 n \<longleftrightarrow> - (2 ^ 31) \<le> n \<and> n < 2 ^ 31"

lemma sint_int32: "int32 n \<Longrightarrow> sint (word_of_int n :: u32) = n"
  by (simp add: int32_def signed_of_int signed_take_bit_int_eq_self)

lemma json_as_int_made [simp]:
  assumes "json_env_ok E" and "int32 n"
  shows "json_as_int E (je_num E n) = Ret n"
proof -
  have "- (2 ^ 63) \<le> n" "n < 2 ^ 64" using assms(2) by (auto simp: int32_def)
  then show ?thesis using assms json_env_okD(6) [OF assms(1)] by (simp add: json_as_int_def sint_int32)
qed

lemma json_or_found [simp]: "je_find E j k = Some v \<Longrightarrow> json_or E j k d as = as v"
  by (simp add: json_or_def)

lemma json_or_missing [simp]: "je_find E j k = None \<Longrightarrow> json_or E j k d as = Ret d"
  by (simp add: json_or_def json_contains_def)

text \<open>An object as the list of its members, in the order they are assigned.\<close>

primrec json_sets :: "'j json_env \<Rightarrow> 'j \<Rightarrow> (string \<times> 'j) list \<Rightarrow> 'j" where
  "json_sets E j [] = j"
| "json_sets E j (m # ms) = json_sets E (je_set E j (fst m) (snd m)) ms"

lemma json_sets_find:
  assumes "json_env_ok E" and "je_open E j" and "distinct (map fst ms)"
  shows "je_find E (json_sets E j ms) k = (case map_of ms k of Some v \<Rightarrow> Some v | None \<Rightarrow> je_find E j k)"
  using assms(2,3)
proof (induction ms arbitrary: j)
  case (Cons m ms)
  have "map_of ms k = None" if "k = fst m" using Cons.prems(2) that by (simp add: map_of_eq_None_iff)
  then show ?case using Cons assms(1) by (cases m) (auto split: option.splits)
qed simp

lemma json_sets_object:
  assumes "json_env_ok E" and "je_open E j" and "ms \<noteq> []"
  shows "je_is_object E (json_sets E j ms)"
  using assms(2,3)
proof (induction ms arbitrary: j)
  case (Cons m ms)
  then show ?case using json_env_okD(3) [OF assms(1)] assms(1) by (cases "ms = []") simp_all
qed simp

section \<open>The members\<close>

definition PublicKeyRing_ToJson :: "'j json_env \<Rightarrow> PublicKeyRing \<Rightarrow> 'j" where
  "PublicKeyRing_ToJson E r =
     (let j = je_null E;
          j = je_set E j ''xPubKey'' (je_str E (pkr_xPubKey r));
          j = je_set E j ''requestPubKey'' (je_str E (pkr_requestPubKey r))
      in j)"

definition PublicKeyRing_FromJson :: "'j json_env \<Rightarrow> 'j \<Rightarrow> PublicKeyRing outcome" where
  "PublicKeyRing_FromJson E j =
     obind (json_str E j ''xPubKey'') (\<lambda>xPubKey.
     obind (json_str E j ''requestPubKey'') (\<lambda>requestPubKey.
       Ret \<lparr>pkr_requestPubKey = requestPubKey, pkr_xPubKey = xPubKey\<rparr>))"

definition CoinInfo_ToJson :: "'j json_env \<Rightarrow> CoinInfo \<Rightarrow> 'j" where
  "CoinInfo_ToJson E c = je_set E (je_null E) ''ChainID'' (je_str E (ci_chainID c))"

definition CoinInfo_FromJson :: "'j json_env \<Rightarrow> 'j \<Rightarrow> CoinInfo outcome" where
  "CoinInfo_FromJson E j =
     obind (json_str E j ''ChainID'') (\<lambda>chainID.
       Ret \<lparr>ci_chainID = (if chainID = ''IdChain'' then ''IDChain'' else chainID)\<rparr>)"

lemma PublicKeyRing_json: "json_env_ok E \<Longrightarrow> PublicKeyRing_FromJson E (PublicKeyRing_ToJson E r) = Ret r"
  by (simp add: PublicKeyRing_FromJson_def PublicKeyRing_ToJson_def Let_def)

lemma CoinInfo_json:
  "json_env_ok E \<Longrightarrow> ci_chainID c \<noteq> ''IdChain'' \<Longrightarrow> CoinInfo_FromJson E (CoinInfo_ToJson E c) = Ret c"
  by (simp add: CoinInfo_FromJson_def CoinInfo_ToJson_def)

text \<open>The vectors of the two.\<close>

definition je_rings :: "'j json_env \<Rightarrow> PublicKeyRing list \<Rightarrow> 'j" where
  "je_rings E rs = je_arr E (map (PublicKeyRing_ToJson E) rs)"

definition json_as_rings :: "'j json_env \<Rightarrow> 'j \<Rightarrow> PublicKeyRing list outcome" where
  "json_as_rings E v = obind (json_as_arr E v) (map_outcome (PublicKeyRing_FromJson E))"

definition je_coins :: "'j json_env \<Rightarrow> CoinInfo list \<Rightarrow> 'j" where
  "je_coins E cs = je_arr E (map (CoinInfo_ToJson E) cs)"

definition json_as_coins :: "'j json_env \<Rightarrow> 'j \<Rightarrow> CoinInfo list outcome" where
  "json_as_coins E v = obind (json_as_arr E v) (map_outcome (CoinInfo_FromJson E))"

text \<open>No chain has the name that is rewritten when it is read.\<close>

definition coins_ok :: "CoinInfo list \<Rightarrow> bool" where
  "coins_ok cs \<longleftrightarrow> (\<forall>c \<in> set cs. ci_chainID c \<noteq> ''IdChain'')"

lemma json_as_rings_made [simp]: "json_env_ok E \<Longrightarrow> json_as_rings E (je_rings E rs) = Ret rs"
  by (simp add: json_as_rings_def je_rings_def map_outcome_same PublicKeyRing_json)

section \<open>The store\<close>

definition LocalStore_ToJson :: "'j json_env \<Rightarrow> LocalStore \<Rightarrow> 'j" where
  "LocalStore_ToJson E s =
     (let j = je_null E;
          j = je_set E j ''xPrivKey'' (je_str E (ls_xPrivKey s));
          j = je_set E j ''xPubKey'' (je_str E (ls_xPubKey s));
          j = je_set E j ''xPubKeyHDPM'' (je_str E (ls_xPubKeyHDPM s));
          j = je_set E j ''requestPrivKey'' (je_str E (ls_requestPrivKey s));
          j = je_set E j ''requestPubKey'' (je_str E (ls_requestPubKey s));
          j = je_set E j ''publicKeyRing'' (je_rings E (ls_publicKeyRing s));
          j = je_set E j ''m'' (je_num E (ls_m s));
          j = je_set E j ''n'' (je_num E (ls_n s));
          j = je_set E j ''mnemonicHasPassphrase'' (je_bool E (ls_hasPassphrase s));
          j = je_set E j ''derivationStrategy'' (je_str E (ls_derivationStrategy s));
          j = je_set E j ''account'' (je_num E (ls_account s));
          j = je_set E j ''mnemonic'' (je_str E (ls_mnemonic s));
          j = je_set E j ''passphrase'' (je_str E (ls_passphrase s));
          j = je_set E j ''ownerPubKey'' (je_str E (ls_ownerPubKey s));
          j = je_set E j ''singleAddress'' (je_bool E (ls_singleAddress s));
          j = je_set E j ''readonly'' (je_bool E (ls_readonly s));
          j = je_set E j ''coinInfo'' (je_coins E (ls_subWallets s));
          j = je_set E j ''seed'' (je_str E (ls_seed s));
          j = je_set E j ''ethscPrimaryPubKey'' (je_str E (ls_ethscPrimaryPubKey s));
          j = je_set E j ''ripplePrimaryPubKey'' (je_str E (ls_ripplePrimaryPubKey s));
          j = je_set E j ''xPubKeyBitcoin'' (je_str E (ls_xPubKeyBitcoin s));
          j = je_set E j ''SinglePrivateKey'' (je_str E (ls_singlePrivateKey s))
      in j)"

text \<open>An Ethereum key that is not an uncompressed point is dropped, to be derived again.\<close>

definition eth_key_kept :: "string \<Rightarrow> string" where
  "eth_key_kept key =
     (let isEmpty = list_all (\<lambda>c. c = CHR ''0'') (drop 2 key)
      in if isEmpty \<or> key ! 0 \<noteq> CHR ''0'' \<or> key ! 1 \<noteq> CHR ''4'' then [] else key)"

definition LocalStore_FromJson_new :: "'j json_env \<Rightarrow> 'j \<Rightarrow> LocalStore \<Rightarrow> LocalStore outcome" where
  "LocalStore_FromJson_new E j s =
     obind (json_str E j ''xPrivKey'') (\<lambda>xPrivKey.
     obind (json_str E j ''mnemonic'') (\<lambda>mnemonic.
     obind (json_str E j ''xPubKey'') (\<lambda>xPubKey.
     obind (json_str E j ''requestPrivKey'') (\<lambda>requestPrivKey.
     obind (json_str E j ''requestPubKey'') (\<lambda>requestPubKey.
     obind (obind (json_index E j ''publicKeyRing'') (json_as_rings E)) (\<lambda>publicKeyRing.
     obind (json_int E j ''m'') (\<lambda>m.
     obind (json_int E j ''n'') (\<lambda>n.
     obind (json_bool E j ''mnemonicHasPassphrase'') (\<lambda>hasPassphrase.
     obind (json_str E j ''derivationStrategy'') (\<lambda>derivationStrategy.
     obind (json_int E j ''account'') (\<lambda>account.
     obind (json_str E j ''passphrase'') (\<lambda>passphrase.
     obind (json_str E j ''ownerPubKey'') (\<lambda>ownerPubKey.
     obind (json_bool E j ''singleAddress'') (\<lambda>singleAddress.
     obind (json_bool E j ''readonly'') (\<lambda>readonly.
     obind (json_or E j ''xPubKeyHDPM'' [] (json_as_str E)) (\<lambda>xPubKeyHDPM.
     obind (json_or E j ''seed'' [] (json_as_str E)) (\<lambda>seed.
     obind (json_or E j ''SinglePrivateKey'' [] (json_as_str E)) (\<lambda>singlePrivateKey.
     obind (json_or E j ''ethscPrimaryPubKey'' [] (\<lambda>v. omap eth_key_kept (json_as_str E v))) (\<lambda>ethscPrimaryPubKey.
     obind (json_or E j ''ripplePrimaryPubKey'' [] (json_as_str E)) (\<lambda>ripplePrimaryPubKey.
     obind (json_or E j ''xPubKeyBitcoin'' [] (json_as_str E)) (\<lambda>xPubKeyBitcoin.
     obind (obind (json_index E j ''coinInfo'') (json_as_coins E)) (\<lambda>coinInfo.
       Ret (s\<lparr>ls_xPrivKey := xPrivKey, ls_mnemonic := mnemonic, ls_xPubKey := xPubKey,
         ls_requestPrivKey := requestPrivKey, ls_requestPubKey := requestPubKey, ls_publicKeyRing := publicKeyRing,
         ls_m := m, ls_n := n, ls_hasPassphrase := hasPassphrase, ls_derivationStrategy := derivationStrategy,
         ls_account := account, ls_passphrase := passphrase, ls_ownerPubKey := ownerPubKey,
         ls_singleAddress := singleAddress, ls_readonly := readonly, ls_xPubKeyHDPM := xPubKeyHDPM, ls_seed := seed,
         ls_singlePrivateKey := singlePrivateKey, ls_ethscPrimaryPubKey := ethscPrimaryPubKey,
         ls_ripplePrimaryPubKey := ripplePrimaryPubKey, ls_xPubKeyBitcoin := xPubKeyBitcoin,
         ls_subWallets := coinInfo\<rparr>)))))))))))))))))))))))"

text \<open>
  The old format.  The public part of the master key is two fields behind four bytes; a read that fails leaves its field
  empty.  The values that are copied out of the constant value are not constant: a member they do not have is null.
\<close>

definition old_xPubKey :: "account_lib \<Rightarrow> 'j json_env \<Rightarrow> 'j \<Rightarrow> string outcome" where
  "old_xPubKey lib E mpk =
     (if je_is_object E mpk
      then obind (obind (json_at E mpk ''ELA'') (json_as_str E)) (\<lambda>text.
           obind (setHex text) (\<lambda>bytes.
             if \<not> uchar_vector_isZero bytes
             then let stream = Skip 4 (stream_of bytes);
                      field = (\<lambda>n stream. case ReadBytes n stream of ROk bs s' \<Rightarrow> Ret (bs, s')
                        | RFail s' \<Rightarrow> Ret ([], s') | RUndef \<Rightarrow> Undef)
                  in obind (field 32 stream) (\<lambda>(chainCode, stream).
                     obind (field 33 stream) (\<lambda>(pubKey, stream).
                     obind (HDKeychain_of_key (al_hd lib) CTElastos pubKey chainCode 0 0 0) (\<lambda>k.
                       Ret (Base58_CheckEncode (al_sha256_2 lib) (HDKeychain_extkey k) []))))
             else Ret []))
      else Ret [])"

definition LocalStore_FromJson_old :: "account_lib \<Rightarrow> 'j json_env \<Rightarrow> 'j \<Rightarrow> LocalStore \<Rightarrow> LocalStore outcome" where
  "LocalStore_FromJson_old lib E j s =
     obind (json_index E j ''MasterPubKey'') (\<lambda>mpk.
     obind (old_xPubKey lib E mpk) (\<lambda>xPubKey.
     obind (json_index E j ''Account'') (\<lambda>jaccount.
     obind (json_or E j ''SubWallets'' (ls_subWallets s) (json_as_coins E)) (\<lambda>subWallets.
     if json_contains E jaccount ''CoSigners'' then Throw E_InvalidLocalStore
     else
       obind (obind (json_at E jaccount ''Mnemonic'') (json_as_str E)) (\<lambda>mnemonic.
       obind (obind (json_at E jaccount ''PhrasePassword'') (json_as_str E)) (\<lambda>passphrase.
       obind (setBase64 passphrase) (\<lambda>bytes.
       let hasPassphrase = length bytes > 8;
           passphrase = (if hasPassphrase then passphrase else [])
       in
       obind (obind (json_at E jaccount ''PublicKey'') (json_as_str E)) (\<lambda>requestPubKey.
       obind (json_index E j ''VotePublicKey'') (\<lambda>votePubkey.
       obind (if je_is_object E votePubkey then obind (json_at E votePubkey ''ELA'') (json_as_str E) else Ret [])
         (\<lambda>ownerPubKey.
       obind (json_bool E j ''IsSingleAddress'') (\<lambda>singleAddress.
         Ret (s\<lparr>ls_derivationStrategy := ''BIP44'', ls_account := 0, ls_xPrivKey := [], ls_requestPrivKey := [],
           ls_xPubKeyHDPM := [], ls_seed := [], ls_ethscPrimaryPubKey := [], ls_ripplePrimaryPubKey := [],
           ls_xPubKey := xPubKey, ls_subWallets := subWallets, ls_readonly := False, ls_mnemonic := mnemonic,
           ls_passphrase := passphrase, ls_hasPassphrase := hasPassphrase, ls_m := 1, ls_n := 1,
           ls_requestPubKey := requestPubKey,
           ls_publicKeyRing := ls_publicKeyRing s @
             (if xPubKey \<noteq> [] then [PublicKeyRing_of requestPubKey xPubKey] else []),
           ls_ownerPubKey := ownerPubKey, ls_singleAddress := singleAddress\<rparr>))))))))))))"

text \<open>Only the exceptions of the library are turned into \<open>InvalidLocalStore\<close>.\<close>

definition library_caught :: "error_code \<Rightarrow> 'a outcome \<Rightarrow> 'a outcome" where
  "library_caught e r = (case r of Throw e' \<Rightarrow> Throw (if e' = E_Json then e else e') | _ \<Rightarrow> r)"

lemma library_caught_Ret [simp]: "library_caught e r = Ret x \<longleftrightarrow> r = Ret x"
  by (cases r) (simp_all add: library_caught_def)

definition LocalStore_FromJson :: "account_lib \<Rightarrow> 'j json_env \<Rightarrow> 'j \<Rightarrow> LocalStore \<Rightarrow> LocalStore outcome" where
  "LocalStore_FromJson lib E j s =
     library_caught E_InvalidLocalStore
       (if json_contains E j ''publicKeyRing'' then LocalStore_FromJson_new E j s else LocalStore_FromJson_old lib E j s)"

section \<open>What is written is read\<close>

text \<open>
  The numbers of a store have the width of an \<open>int\<close>.  What comes back is the store, but for an Ethereum key that is
  dropped and an old chain name that is replaced.
\<close>

definition store_ints :: "LocalStore \<Rightarrow> bool" where
  "store_ints s \<longleftrightarrow> int32 (ls_m s) \<and> int32 (ls_n s) \<and> int32 (ls_account s)"

definition CoinInfo_kept :: "CoinInfo \<Rightarrow> CoinInfo" where
  "CoinInfo_kept c = (if ci_chainID c = ''IdChain'' then \<lparr>ci_chainID = ''IDChain''\<rparr> else c)"

definition LocalStore_kept :: "LocalStore \<Rightarrow> LocalStore" where
  "LocalStore_kept s = s\<lparr>ls_ethscPrimaryPubKey := eth_key_kept (ls_ethscPrimaryPubKey s),
     ls_subWallets := map CoinInfo_kept (ls_subWallets s)\<rparr>"

definition store_ok :: "LocalStore \<Rightarrow> bool" where
  "store_ok s \<longleftrightarrow> store_ints s \<and> eth_key_kept (ls_ethscPrimaryPubKey s) = ls_ethscPrimaryPubKey s \<and>
     coins_ok (ls_subWallets s)"

lemma store_ok_kept: "store_ok s \<Longrightarrow> LocalStore_kept s = s"
  by (simp add: store_ok_def LocalStore_kept_def coins_ok_def CoinInfo_kept_def map_idI)

lemma eth_key_kept_twice: "eth_key_kept (eth_key_kept k) = eth_key_kept k"
  by (simp add: eth_key_kept_def Let_def)

lemma json_as_coins_kept [simp]:
  assumes "json_env_ok E"
  shows "json_as_coins E (je_coins E cs) = Ret (map CoinInfo_kept cs)"
proof -
  have "CoinInfo_FromJson E (CoinInfo_ToJson E c) = Ret (CoinInfo_kept c)" for c
    using assms by (simp add: CoinInfo_FromJson_def CoinInfo_ToJson_def CoinInfo_kept_def)
  then have "map_outcome (CoinInfo_FromJson E) (map (CoinInfo_ToJson E) cs) = Ret (map CoinInfo_kept cs)"
    by (intro map_outcome_made)
  then show ?thesis using assms by (simp add: json_as_coins_def je_coins_def)
qed

definition store_members :: "'j json_env \<Rightarrow> LocalStore \<Rightarrow> (string \<times> 'j) list" where
  "store_members E s =
    [(''xPrivKey'', je_str E (ls_xPrivKey s)), (''xPubKey'', je_str E (ls_xPubKey s)),
     (''xPubKeyHDPM'', je_str E (ls_xPubKeyHDPM s)), (''requestPrivKey'', je_str E (ls_requestPrivKey s)),
     (''requestPubKey'', je_str E (ls_requestPubKey s)), (''publicKeyRing'', je_rings E (ls_publicKeyRing s)),
     (''m'', je_num E (ls_m s)), (''n'', je_num E (ls_n s)),
     (''mnemonicHasPassphrase'', je_bool E (ls_hasPassphrase s)),
     (''derivationStrategy'', je_str E (ls_derivationStrategy s)), (''account'', je_num E (ls_account s)),
     (''mnemonic'', je_str E (ls_mnemonic s)), (''passphrase'', je_str E (ls_passphrase s)),
     (''ownerPubKey'', je_str E (ls_ownerPubKey s)), (''singleAddress'', je_bool E (ls_singleAddress s)),
     (''readonly'', je_bool E (ls_readonly s)), (''coinInfo'', je_coins E (ls_subWallets s)),
     (''seed'', je_str E (ls_seed s)), (''ethscPrimaryPubKey'', je_str E (ls_ethscPrimaryPubKey s)),
     (''ripplePrimaryPubKey'', je_str E (ls_ripplePrimaryPubKey s)),
     (''xPubKeyBitcoin'', je_str E (ls_xPubKeyBitcoin s)), (''SinglePrivateKey'', je_str E (ls_singlePrivateKey s))]"

lemma LocalStore_find:
  assumes "json_env_ok E"
  shows "je_find E (LocalStore_ToJson E s) k = map_of (store_members E s) k"
proof -
  have "LocalStore_ToJson E s = json_sets E (je_null E) (store_members E s)"
    by (simp add: LocalStore_ToJson_def store_members_def Let_def)
  moreover have "distinct (map fst (store_members E s))" by (simp add: store_members_def)
  ultimately show ?thesis using assms by (simp add: json_sets_find split: option.splits)
qed

lemma LocalStore_json:
  assumes "json_env_ok E" and "store_ints s"
  shows "LocalStore_FromJson lib E (LocalStore_ToJson E s) old = Ret ((LocalStore_kept s)\<lparr>ls_path := ls_path old\<rparr>)"
  using assms
  by (simp add: LocalStore_FromJson_def LocalStore_FromJson_new_def LocalStore_find store_members_def json_contains_def
      store_ints_def LocalStore_kept_def)

section \<open>Files\<close>

text \<open>The folder of a wallet with its two possible files, by name, and the folders below the data path.\<close>

record folder =
  fd_store :: "string option"
  fd_old :: "string option"

type_synonym files = "string \<rightharpoonup> folder"

definition LocalStore_Load :: "account_lib \<Rightarrow> 'j json_text \<Rightarrow> files \<Rightarrow> LocalStore \<Rightarrow> LocalStore outcome" where
  "LocalStore_Load lib T files s =
     (case files (ls_path s) of None \<Rightarrow> Throw E_MasterWalletNotExist
      | Some d \<Rightarrow>
          obind (case (fd_store d, fd_old d) of (Some t, _) \<Rightarrow> Ret t | (None, Some t) \<Rightarrow> Ret t
                 | (None, None) \<Rightarrow> Throw E_MasterWalletNotExist) (\<lambda>t.
          obind (json_parse T t) (\<lambda>j.
            if json_empty (jt_env T) j then Throw E_InvalidLocalStore else LocalStore_FromJson lib (jt_env T) j s)))"

text \<open>The file is opened, which empties it, before the library writes and may throw.\<close>

definition LocalStore_Save :: "'j json_text \<Rightarrow> LocalStore \<Rightarrow> files \<Rightarrow> files \<times> unit outcome" where
  "LocalStore_Save T s files =
     (let j = LocalStore_ToJson (jt_env T) s
      in if \<not> json_empty (jt_env T) j \<and> ls_path s \<noteq> []
         then (files(ls_path s \<mapsto>
                 (case files (ls_path s) of None \<Rightarrow> \<lparr>fd_store = Some (jt_written T j), fd_old = None\<rparr>
                  | Some d \<Rightarrow> d\<lparr>fd_store := Some (jt_written T j)\<rparr>)), omap (\<lambda>_. ()) (json_dump T j))
         else (files, Ret ()))"

definition LocalStore_Remove :: "LocalStore \<Rightarrow> files \<Rightarrow> files" where
  "LocalStore_Remove s files = files(ls_path s := None)"

definition LocalStore_SaveTo :: "'j json_text \<Rightarrow> string \<Rightarrow> LocalStore \<Rightarrow> files \<Rightarrow> LocalStore \<times> files \<times> unit outcome" where
  "LocalStore_SaveTo T path s files = (let s = s\<lparr>ls_path := path\<rparr> in (s, LocalStore_Save T s files))"

lemma LocalStore_ToJson_not_empty: "json_text_ok T \<Longrightarrow> \<not> json_empty (jt_env T) (LocalStore_ToJson (jt_env T) s)"
  using json_text_okD(1) [of T] by (simp add: LocalStore_ToJson_def Let_def)

text \<open>After a save that did not throw another object that is made for the path finds the store.\<close>

lemma LocalStore_saved:
  assumes "json_text_ok T" and "store_ints s" and "LocalStore_Save T s files = (files', Ret ())" and "ls_path s \<noteq> []"
  shows "LocalStore_Load lib T files' (LocalStore_of_path (ls_path s)) = Ret (LocalStore_kept s)"
proof -
  let ?j = "LocalStore_ToJson (jt_env T) s"
  obtain t where t: "json_dump T ?j = Ret t"
    using assms(3,4) LocalStore_ToJson_not_empty [OF assms(1)]
    by (auto simp: LocalStore_Save_def Let_def omap_def obind_eq_Ret)
  then have w: "jt_written T ?j = t"
    using json_text_okD(2) [OF assms(1), of ?j t] by (simp add: json_dump_def json_get_def split: option.splits)
  have f: "files' = files(ls_path s \<mapsto> (case files (ls_path s) of None \<Rightarrow> \<lparr>fd_store = Some t, fd_old = None\<rparr>
      | Some d \<Rightarrow> d\<lparr>fd_store := Some t\<rparr>))"
    using assms(3,4) LocalStore_ToJson_not_empty [OF assms(1)] w by (auto simp: LocalStore_Save_def Let_def)
  have "LocalStore_FromJson lib (jt_env T) ?j (LocalStore_of_path (ls_path s)) = Ret (LocalStore_kept s)"
    using LocalStore_json [OF json_text_okD(1) [OF assms(1)] assms(2)] by (simp add: LocalStore_of_path_def LocalStore_kept_def)
  then show ?thesis
    using t f json_parse_dump [OF assms(1) t] LocalStore_ToJson_not_empty [OF assms(1)]
    by (simp add: LocalStore_Load_def LocalStore_of_path_def split: option.splits)
qed

text \<open>A save touches no other folder.\<close>

lemma LocalStore_Save_elsewhere:
  "path \<noteq> ls_path s \<Longrightarrow> fst (LocalStore_Save T s files) path = files path"
  by (simp add: LocalStore_Save_def Let_def)

lemma LocalStore_Load_cong:
  "files (ls_path s) = files' (ls_path s) \<Longrightarrow> LocalStore_Load lib T files s = LocalStore_Load lib T files' s"
  by (simp add: LocalStore_Load_def)

section \<open>A store of files\<close>

text \<open>
  What the other parts rely on: a store that was saved is loaded from its path, and a save changes nothing elsewhere.
  \<open>kept\<close> is what of a store comes back.
\<close>

locale file_store =
  fixes save :: "'s \<Rightarrow> 'f \<Rightarrow> 'f \<times> unit outcome"
    and load :: "'p \<Rightarrow> 'f \<Rightarrow> 's outcome"
    and path :: "'s \<Rightarrow> 'p"
    and kept :: "'s \<Rightarrow> 's"
    and storable :: "'s \<Rightarrow> bool"
  assumes saved: "storable s \<Longrightarrow> save s f = (f', Ret ()) \<Longrightarrow> load (path s) f' = Ret (kept s)"
    and elsewhere: "p \<noteq> path s \<Longrightarrow> load p (fst (save s f)) = load p f"
begin

lemma loaded_later:
  assumes "path s \<notin> path ` set later" and "load (path s) f = Ret s'"
  shows "load (path s) (fold (\<lambda>s f. fst (save s f)) later f) = Ret s'"
  using assms
proof (induction later arbitrary: f)
  case (Cons t later)
  have "path s \<noteq> path t" using Cons.prems(1) by auto
  from elsewhere [OF this] show ?case using Cons by simp
qed simp

lemma saved_later:
  assumes "storable s" and "save s f = (f', Ret ())" and "path s \<notin> path ` set later"
  shows "load (path s) (fold (\<lambda>s f. fst (save s f)) later f') = Ret (kept s)"
  by (rule loaded_later [OF assms(3) saved [OF assms(1,2)]])

end

interpretation local_store: file_store "LocalStore_Save T" "\<lambda>p files. LocalStore_Load lib T files (LocalStore_of_path p)"
    ls_path LocalStore_kept "\<lambda>s. json_text_ok T \<and> store_ints s \<and> ls_path s \<noteq> []"
  for T :: "'j json_text" and lib :: account_lib
proof
  fix p :: string and s :: LocalStore and files :: files
  assume "p \<noteq> ls_path s"
  then show "LocalStore_Load lib T (fst (LocalStore_Save T s files)) (LocalStore_of_path p) =
      LocalStore_Load lib T files (LocalStore_of_path p)"
    by (intro LocalStore_Load_cong) (simp add: LocalStore_of_path_def LocalStore_Save_elsewhere)
qed (blast intro: LocalStore_saved)

end
