(* ===== verification/KeyStoreM.thy ===== *)
theory KeyStoreM
  imports StoreJson SeedAccountM
begin

text \<open>
  The backup of an account: \<open>SDK/WalletCore/KeyStore.cpp\<close> with the JSON classes it is made of
  (\<open>BitcoreWalletClientJson\<close>, \<open>ElaWebWalletJson\<close>, \<open>ElaNewWalletJson\<close>, \<open>SjclFile\<close>) and the cipher of \<open>AES.cpp\<close>
  with all its arguments.  What an export writes is read back, up to the members that are derived from the master key;
  an account made from a seed comes back as it was.
\<close>

section \<open>The cipher\<close>

text \<open>
  What OpenSSL computes: the key of a password with a salt and a count of rounds, and the sealing and opening of a text
  with a key of a size in bits, an initialisation vector and the data that is only authenticated.  \<open>None\<close> is a call that
  reports an error.
\<close>

record ccm_lib =
  cc_key :: "string \<Rightarrow> bytes \<Rightarrow> nat \<Rightarrow> bytes option"
  cc_seal :: "u32 \<Rightarrow> bytes \<Rightarrow> bytes \<Rightarrow> bytes \<Rightarrow> bytes \<Rightarrow> (bytes \<times> bytes) option"
  cc_open :: "u32 \<Rightarrow> bytes \<Rightarrow> bytes \<Rightarrow> bytes \<Rightarrow> bytes \<Rightarrow> bytes \<Rightarrow> bytes option"

definition AES_DEFAULT_ITER :: nat where "AES_DEFAULT_ITER = 10000"

definition AES_DEFAULT_KS :: u32 where "AES_DEFAULT_KS = 128"

definition AES_cipher :: "u32 \<Rightarrow> bool" where
  "AES_cipher ks \<longleftrightarrow> ks = 128 \<or> ks = 192 \<or> ks = 256"

definition AES_ivLen :: "nat \<Rightarrow> nat" where
  "AES_ivLen n = 13 - (if n \<ge> 2 ^ 16 then 1 else 0) - (if n \<ge> 2 ^ 24 then 1 else 0)"

text \<open>OpenSSL reads that many bytes of the vector, however long it is.  A key that cannot be made gives an empty result.\<close>

definition AES_Encrypt_bytes ::
    "ccm_lib \<Rightarrow> bytes \<Rightarrow> string \<Rightarrow> bytes \<Rightarrow> bytes \<Rightarrow> bytes \<Rightarrow> u32 \<Rightarrow> nat \<Rightarrow> bytes outcome" where
  "AES_Encrypt_bytes cc plaintext passwd salt iv aad ks iter =
     (if plaintext = [] then Ret []
      else case cc_key cc passwd salt iter of
             None \<Rightarrow> Ret []
           | Some key \<Rightarrow>
               let ivLen = AES_ivLen (length plaintext) in
               if \<not> AES_cipher ks then Throw E_EncryptError
               else if length iv < ivLen then Undef
               else case cc_seal cc ks key (take ivLen iv) aad plaintext of
                      None \<Rightarrow> Throw E_EncryptError
                    | Some (ciphertext, tag) \<Rightarrow> Ret (ciphertext @ tag))"

definition AES_Decrypt_bytes ::
    "ccm_lib \<Rightarrow> bytes \<Rightarrow> string \<Rightarrow> bytes \<Rightarrow> bytes \<Rightarrow> bytes \<Rightarrow> u32 \<Rightarrow> nat \<Rightarrow> bytes outcome" where
  "AES_Decrypt_bytes cc ciphertext passwd salt iv aad ks iter =
     (if ciphertext = [] then Ret []
      else case cc_key cc passwd salt iter of
             None \<Rightarrow> Ret []
           | Some key \<Rightarrow>
               if \<not> AES_cipher ks \<or> length ciphertext < 8 then Throw E_WrongPasswd
               else let n = length ciphertext - 8;
                        ivLen = AES_ivLen n
                    in if length iv < ivLen then Undef
                       else case cc_open cc ks key (take ivLen iv) aad (drop n ciphertext) (take n ciphertext) of
                              None \<Rightarrow> Throw E_WrongPasswd
                            | Some plaintext \<Rightarrow> Ret plaintext)"

definition AES_Encrypt_text ::
    "ccm_lib \<Rightarrow> bytes \<Rightarrow> string \<Rightarrow> string \<Rightarrow> string \<Rightarrow> string \<Rightarrow> u32 \<Rightarrow> nat \<Rightarrow> string outcome" where
  "AES_Encrypt_text cc plaintext passwd salt iv aad ks iter =
     obind (setBase64 salt) (\<lambda>saltBytes.
     obind (setBase64 iv) (\<lambda>ivBytes.
     obind (setBase64 aad) (\<lambda>aadBytes.
       omap getBase64 (AES_Encrypt_bytes cc plaintext passwd saltBytes ivBytes aadBytes ks iter))))"

definition AES_Decrypt_text ::
    "ccm_lib \<Rightarrow> string \<Rightarrow> string \<Rightarrow> string \<Rightarrow> string \<Rightarrow> string \<Rightarrow> u32 \<Rightarrow> nat \<Rightarrow> bytes outcome" where
  "AES_Decrypt_text cc ciphertext passwd salt iv aad ks iter =
     obind (setBase64 ciphertext) (\<lambda>ct.
     obind (setBase64 salt) (\<lambda>saltBytes.
     obind (setBase64 iv) (\<lambda>ivBytes.
     obind (setBase64 aad) (\<lambda>aadBytes.
       AES_Decrypt_bytes cc ct passwd saltBytes ivBytes aadBytes ks iter))))"

text \<open>
  What is documented of them: a key can be made, a text is sealed to one of its length with a tag of eight bytes, and
  the same arguments open it.
\<close>

definition ccm_ok :: "ccm_lib \<Rightarrow> bool" where
  "ccm_ok cc \<longleftrightarrow> (\<forall>passwd salt. cc_key cc passwd salt AES_DEFAULT_ITER \<noteq> None) \<and>
     (\<forall>ks key iv aad plaintext. \<exists>ciphertext tag. cc_seal cc ks key iv aad plaintext = Some (ciphertext, tag) \<and>
        length ciphertext = length plaintext \<and> length tag = 8 \<and> cc_open cc ks key iv aad tag ciphertext = Some plaintext)"

lemma setBase64_Nil: "setBase64 [] = Ret []"
  using setBase64_getBase64 [of "[]"] by simp

lemma AES_ivLen_bound: "AES_ivLen n \<le> 13"
  by (simp add: AES_ivLen_def)

lemma AES_text_roundtrip:
  assumes "ccm_ok cc" and "13 \<le> length iv"
  shows "\<exists>ct. AES_Encrypt_text cc p passwd (getBase64 salt) (getBase64 iv) [] AES_DEFAULT_KS AES_DEFAULT_ITER = Ret ct \<and>
    AES_Decrypt_text cc ct passwd (getBase64 salt) (getBase64 iv) [] AES_DEFAULT_KS AES_DEFAULT_ITER = Ret p"
proof (cases "p = []")
  case False
  let ?iv = "take (AES_ivLen (length p)) iv"
  obtain key where key: "cc_key cc passwd salt AES_DEFAULT_ITER = Some key"
    using assms(1) unfolding ccm_ok_def by (metis option.collapse)
  obtain ciphertext tag where s: "cc_seal cc AES_DEFAULT_KS key ?iv [] p = Some (ciphertext, tag)"
    "length ciphertext = length p" "length tag = 8" "cc_open cc AES_DEFAULT_KS key ?iv [] tag ciphertext = Some p"
    using assms(1) unfolding ccm_ok_def by metis
  have l: "\<not> length iv < AES_ivLen (length p)" using AES_ivLen_bound [of "length p"] assms(2) by simp
  have "AES_Encrypt_bytes cc p passwd salt iv [] AES_DEFAULT_KS AES_DEFAULT_ITER = Ret (ciphertext @ tag)"
    using key s(1) l False by (simp add: AES_Encrypt_bytes_def AES_cipher_def AES_DEFAULT_KS_def Let_def)
  moreover have "AES_Decrypt_bytes cc (ciphertext @ tag) passwd salt iv [] AES_DEFAULT_KS AES_DEFAULT_ITER = Ret p"
    using key s l False by (auto simp: AES_Decrypt_bytes_def AES_cipher_def AES_DEFAULT_KS_def Let_def)
  ultimately show ?thesis
    by (simp add: AES_Encrypt_text_def AES_Decrypt_text_def setBase64_getBase64 setBase64_Nil)
qed (simp add: AES_Encrypt_text_def AES_Decrypt_text_def AES_Encrypt_bytes_def AES_Decrypt_bytes_def
    setBase64_getBase64 setBase64_Nil)

section \<open>The file of the cipher\<close>

record SjclFile =
  sj_iv :: string
  sj_v :: u32
  sj_iter :: u32
  sj_ks :: u32
  sj_ts :: u32
  sj_mode :: string
  sj_adata :: string
  sj_cipher :: string
  sj_salt :: string
  sj_ct :: string

definition SjclFile_ToJson :: "'j json_env \<Rightarrow> SjclFile \<Rightarrow> 'j" where
  "SjclFile_ToJson E f =
     (let j = je_null E;
          j = je_set E j ''iv'' (je_str E (sj_iv f));
          j = je_set E j ''v'' (je_word E (sj_v f));
          j = je_set E j ''iter'' (je_word E (sj_iter f));
          j = je_set E j ''ks'' (je_word E (sj_ks f));
          j = je_set E j ''ts'' (je_word E (sj_ts f));
          j = je_set E j ''mode'' (je_str E (sj_mode f));
          j = je_set E j ''adata'' (je_str E (sj_adata f));
          j = je_set E j ''cipher'' (je_str E (sj_cipher f));
          j = je_set E j ''salt'' (je_str E (sj_salt f));
          j = je_set E j ''ct'' (je_str E (sj_ct f))
      in j)"

definition SjclFile_FromJson :: "'j json_env \<Rightarrow> 'j \<Rightarrow> SjclFile outcome" where
  "SjclFile_FromJson E j =
     obind (json_str E j ''iv'') (\<lambda>iv.
     obind (json_word E j ''v'') (\<lambda>v.
     obind (json_word E j ''iter'') (\<lambda>iter.
     obind (json_word E j ''ks'') (\<lambda>ks.
     obind (json_word E j ''ts'') (\<lambda>ts.
     obind (json_str E j ''mode'') (\<lambda>mode.
     obind (json_str E j ''adata'') (\<lambda>adata.
     obind (json_str E j ''cipher'') (\<lambda>cipher.
     obind (json_str E j ''salt'') (\<lambda>salt.
     obind (json_str E j ''ct'') (\<lambda>ct.
       Ret \<lparr>sj_iv = iv, sj_v = v, sj_iter = iter, sj_ks = ks, sj_ts = ts, sj_mode = mode, sj_adata = adata,
         sj_cipher = cipher, sj_salt = salt, sj_ct = ct\<rparr>))))))))))"

lemma SjclFile_json: "json_env_ok E \<Longrightarrow> SjclFile_FromJson E (SjclFile_ToJson E f) = Ret f"
  by (simp add: SjclFile_FromJson_def SjclFile_ToJson_def Let_def)

section \<open>The wallet in a key store\<close>

text \<open>\<open>ElaNewWalletJson\<close> with the members accounts neither set nor read.\<close>

record WalletJson = ElaNewWalletJson +
  js_coin :: string
  js_network :: string
  js_copayerId :: string
  js_walletId :: string
  js_walletName :: string
  js_walletPrivKey :: string
  js_personalEncryptingKey :: string
  js_sharedEncryptingKey :: string
  js_copayerName :: string
  js_entropySource :: string
  js_account :: int
  js_compliantDerivation :: bool
  js_addressType :: string

definition WalletJson_of :: "ElaNewWalletJson \<Rightarrow> WalletJson" where
  "WalletJson_of json = ElaNewWalletJson.extend json
     \<lparr>js_coin = [], js_network = [], js_copayerId = [], js_walletId = [], js_walletName = [], js_walletPrivKey = [],
      js_personalEncryptingKey = [], js_sharedEncryptingKey = [], js_copayerName = [], js_entropySource = [],
      js_account = 0, js_compliantDerivation = False, js_addressType = []\<rparr>"

definition ElaNewWalletJson_new :: WalletJson where
  "ElaNewWalletJson_new = WalletJson_of
     \<lparr>js_xPrivKey = [], js_mnemonic = [], js_requestPrivKey = [], js_seed = [], js_singlePrivateKey = [],
      js_xPubKeyBitcoin = [], js_xPubKey = [], js_requestPubKey = [], js_publicKeyRing = [], js_m = 0, js_n = 0,
      js_hasPassphrase = False, js_singleAddress = False, js_derivationStrategy = [], js_xPubKeyHDPM = [],
      js_ownerPubKey = [], js_coinInfoList = [], js_ethscPrimaryPubKey = [], js_ripplePrimaryPubKey = []\<rparr>"

primrec json_erase_all :: "'j json_text \<Rightarrow> string list \<Rightarrow> 'j \<Rightarrow> 'j" where
  "json_erase_all T [] j = j"
| "json_erase_all T (k # ks) j = json_erase_all T ks (jt_erase T j k)"

definition private_members :: "string list" where
  "private_members = [''xPrivKey'', ''requestPrivKey'', ''coin'', ''account'', ''derivationStrategy'', ''addressType'',
     ''copayerId'', ''copayerName'', ''entropySource'', ''personalEncryptingKey'', ''walletPrivKey'', ''walletName'',
     ''walletId'', ''sharedEncryptingKey'', ''compliantDerivation'']"

definition BitcoreWalletClientJson_ToJson :: "'j json_text \<Rightarrow> bool \<Rightarrow> WalletJson \<Rightarrow> 'j" where
  "BitcoreWalletClientJson_ToJson T withPrivKey w =
     (let E = jt_env T;
          j = je_null E;
          j = je_set E j ''xPrivKey'' (je_str E (js_xPrivKey w));
          j = je_set E j ''coin'' (je_str E (js_coin w));
          j = je_set E j ''network'' (je_str E (js_network w));
          j = je_set E j ''xPubKey'' (je_str E (js_xPubKey w));
          j = je_set E j ''requestPrivKey'' (je_str E (js_requestPrivKey w));
          j = je_set E j ''requestPubKey'' (je_str E (js_requestPubKey w));
          j = je_set E j ''copayerId'' (je_str E (js_copayerId w));
          j = je_set E j ''publicKeyRing'' (je_rings E (js_publicKeyRing w));
          j = je_set E j ''walletId'' (je_str E (js_walletId w));
          j = je_set E j ''walletName'' (je_str E (js_walletName w));
          j = je_set E j ''m'' (je_num E (js_m w));
          j = je_set E j ''n'' (je_num E (js_n w));
          j = je_set E j ''walletPrivKey'' (je_str E (js_walletPrivKey w));
          j = je_set E j ''personalEncryptingKey'' (je_str E (js_personalEncryptingKey w));
          j = je_set E j ''sharedEncryptingKey'' (je_str E (js_sharedEncryptingKey w));
          j = je_set E j ''copayerName'' (je_str E (js_copayerName w));
          j = je_set E j ''entropySource'' (je_str E (js_entropySource w));
          j = je_set E j ''mnemonicHasPassphrase'' (je_bool E (js_hasPassphrase w));
          j = je_set E j ''derivationStrategy'' (je_str E (js_derivationStrategy w));
          j = je_set E j ''account'' (je_num E (js_account w));
          j = je_set E j ''compliantDerivation'' (je_bool E (js_compliantDerivation w));
          j = je_set E j ''addressType'' (je_str E (js_addressType w))
      in if \<not> withPrivKey then json_erase_all T private_members j else j)"

definition ElaWebWalletJson_ToJson :: "'j json_text \<Rightarrow> bool \<Rightarrow> WalletJson \<Rightarrow> 'j" where
  "ElaWebWalletJson_ToJson T withPrivKey w =
     (let j = BitcoreWalletClientJson_ToJson T withPrivKey w
      in if withPrivKey then je_set (jt_env T) j ''mnemonic'' (je_str (jt_env T) (js_mnemonic w)) else j)"

definition ElaNewWalletJson_ToJsonCommon :: "'j json_env \<Rightarrow> WalletJson \<Rightarrow> 'j \<Rightarrow> 'j" where
  "ElaNewWalletJson_ToJsonCommon E w j =
     (let coinInfoList = json_pushed E (map (CoinInfo_ToJson E) (js_coinInfoList w));
          j = je_set E j ''CoinInfoList'' coinInfoList;
          j = je_set E j ''SingleAddress'' (je_bool E (js_singleAddress w));
          j = je_set E j ''OwnerPubKey'' (je_str E (js_ownerPubKey w));
          j = je_set E j ''xPubKeyHDPM'' (je_str E (js_xPubKeyHDPM w));
          j = je_set E j ''seed'' (je_str E (js_seed w));
          j = je_set E j ''ethscPrimaryPubKey'' (je_str E (js_ethscPrimaryPubKey w));
          j = je_set E j ''xPubKeyBitcoin'' (je_str E (js_xPubKeyBitcoin w));
          j = je_set E j ''singlePrivateKey'' (je_str E (js_singlePrivateKey w));
          j = je_set E j ''ripplePrimaryPubKey'' (je_str E (js_ripplePrimaryPubKey w))
      in j)"

definition ElaNewWalletJson_ToJson :: "'j json_text \<Rightarrow> bool \<Rightarrow> WalletJson \<Rightarrow> 'j" where
  "ElaNewWalletJson_ToJson T withPrivKey w =
     ElaNewWalletJson_ToJsonCommon (jt_env T) w (ElaWebWalletJson_ToJson T withPrivKey w)"

definition BitcoreWalletClientJson_FromJson :: "'j json_env \<Rightarrow> 'j \<Rightarrow> WalletJson \<Rightarrow> WalletJson outcome" where
  "BitcoreWalletClientJson_FromJson E j w =
     (let str = (\<lambda>k. json_or E j k [] (json_as_str E)) in
      obind (str ''coin'') (\<lambda>coin.
      obind (str ''network'') (\<lambda>network.
      obind (str ''xPrivKey'') (\<lambda>xPrivKey.
      obind (str ''xPubKey'') (\<lambda>xPubKey.
      obind (str ''requestPrivKey'') (\<lambda>requestPrivKey.
      obind (str ''requestPubKey'') (\<lambda>requestPubKey.
      obind (str ''copayerId'') (\<lambda>copayerId.
      obind (obind (json_index E j ''publicKeyRing'') (json_as_rings E)) (\<lambda>publicKeyRing.
      obind (str ''walletId'') (\<lambda>walletId.
      obind (str ''walletName'') (\<lambda>walletName.
      obind (json_or E j ''m'' 0 (json_as_int E)) (\<lambda>m.
      obind (json_or E j ''n'' 0 (json_as_int E)) (\<lambda>n.
      obind (str ''walletPrivKey'') (\<lambda>walletPrivKey.
      obind (str ''personalEncryptingKey'') (\<lambda>personalEncryptingKey.
      obind (str ''sharedEncryptingKey'') (\<lambda>sharedEncryptingKey.
      obind (str ''copayerName'') (\<lambda>copayerName.
      obind (str ''entropySource'') (\<lambda>entropySource.
      obind (json_or E j ''mnemonicHasPassphrase'' False (json_as_bool E)) (\<lambda>hasPassphrase.
      obind (str ''derivationStrategy'') (\<lambda>derivationStrategy.
      obind (json_or E j ''account'' 0 (json_as_int E)) (\<lambda>account.
      obind (json_or E j ''compliantDerivation'' False (json_as_bool E)) (\<lambda>compliantDerivation.
      obind (str ''addressType'') (\<lambda>addressType.
        Ret (w\<lparr>js_coin := coin, js_network := network, js_xPrivKey := xPrivKey, js_xPubKey := xPubKey,
          js_requestPrivKey := requestPrivKey, js_requestPubKey := requestPubKey, js_copayerId := copayerId,
          js_publicKeyRing := publicKeyRing, js_walletId := walletId, js_walletName := walletName, js_m := m, js_n := n,
          js_walletPrivKey := walletPrivKey, js_personalEncryptingKey := personalEncryptingKey,
          js_sharedEncryptingKey := sharedEncryptingKey, js_copayerName := copayerName,
          js_entropySource := entropySource, js_hasPassphrase := hasPassphrase,
          js_derivationStrategy := derivationStrategy, js_account := account,
          js_compliantDerivation := compliantDerivation, js_addressType := addressType\<rparr>))))))))))))))))))))))))"

definition ElaWebWalletJson_FromJson :: "'j json_env \<Rightarrow> 'j \<Rightarrow> WalletJson \<Rightarrow> WalletJson outcome" where
  "ElaWebWalletJson_FromJson E j w =
     obind (BitcoreWalletClientJson_FromJson E j w) (\<lambda>w.
     obind (json_or E j ''mnemonic'' (js_mnemonic w) (json_as_str E)) (\<lambda>mnemonic.
       Ret (w\<lparr>js_mnemonic := mnemonic\<rparr>)))"

text \<open>The members \<open>FromJsonCommon\<close> reads, with the pass phrase, which is not a member of the wallet.\<close>

definition old_multisign :: "'j json_env \<Rightarrow> 'j \<Rightarrow> unit outcome" where
  "old_multisign E j =
     obind (if json_contains E j ''CoSigners''
            then obind (json_index E j ''Type'') (\<lambda>v.
                   if je_get_str E v = Some ''MultiSign'' then Throw E_KeyStore else Ret ())
            else Ret ()) (\<lambda>_.
       if json_contains E j ''RequiredSignCount'' then Throw E_KeyStore else Ret ())"

definition ElaNewWalletJson_read :: "'j json_env \<Rightarrow> 'j \<Rightarrow> WalletJson \<Rightarrow> (WalletJson \<times> string) outcome" where
  "ElaNewWalletJson_read E j w =
     (let str = (\<lambda>k old. json_or E j k old (json_as_str E)) in
      obind (json_or E j ''CoinInfoList'' (js_coinInfoList w)
        (\<lambda>v. map_outcome (CoinInfo_FromJson E) (je_elems E v))) (\<lambda>coinInfoList.
      obind (json_or E j ''SingleAddress'' (js_singleAddress w) (json_as_bool E)) (\<lambda>singleAddress.
      obind (str ''OwnerPubKey'' (js_ownerPubKey w)) (\<lambda>ownerPubKey.
      obind (str ''xPubKeyHDPM'' (js_xPubKeyHDPM w)) (\<lambda>xPubKeyHDPM.
      obind (str ''ethscPrimaryPubKey'' (js_ethscPrimaryPubKey w)) (\<lambda>ethscPrimaryPubKey.
      obind (str ''ripplePrimaryPubKey'' (js_ripplePrimaryPubKey w)) (\<lambda>ripplePrimaryPubKey.
      obind (str ''xPubKeyBitcoin'' (js_xPubKeyBitcoin w)) (\<lambda>xPubKeyBitcoin.
      obind (old_multisign E j) (\<lambda>_.
      obind (str ''PhrasePassword'' []) (\<lambda>passphrase.
      obind (json_or E j ''IsSingleAddress'' singleAddress (json_as_bool E)) (\<lambda>singleAddress.
      obind (str ''seed'' (js_seed w)) (\<lambda>seed.
      obind (str ''singlePrivateKey'' (js_singlePrivateKey w)) (\<lambda>singlePrivateKey.
        Ret (w\<lparr>js_coinInfoList := coinInfoList, js_singleAddress := singleAddress, js_ownerPubKey := ownerPubKey,
               js_xPubKeyHDPM := xPubKeyHDPM, js_ethscPrimaryPubKey := ethscPrimaryPubKey,
               js_ripplePrimaryPubKey := ripplePrimaryPubKey, js_xPubKeyBitcoin := xPubKeyBitcoin,
               js_hasPassphrase := js_hasPassphrase w \<or> passphrase \<noteq> [], js_seed := seed,
               js_singlePrivateKey := singlePrivateKey\<rparr>, passphrase))))))))))))))"

text \<open>What it then computes: the seed from the words, the master key from the seed, and the keys from the two.\<close>

definition root_of_seed_text :: "account_lib \<Rightarrow> CoinType \<Rightarrow> string \<Rightarrow> HDKeychain outcome" where
  "root_of_seed_text lib type seed =
     obind (setHex seed) (\<lambda>seedBytes.
     obind (HDSeed_getExtendedKey (al_hd lib) (HDSeed_of (al_hd lib) seedBytes) type True)
       (HDKeychain_of_extkey (al_hd lib) type))"

definition renew_seed :: "account_lib \<Rightarrow> string \<Rightarrow> WalletJson \<Rightarrow> WalletJson outcome" where
  "renew_seed lib passphrase w =
     (if js_seed w = [] \<and> js_mnemonic w \<noteq> [] \<and> (\<not> js_hasPassphrase w \<or> js_hasPassphrase w \<and> passphrase \<noteq> [])
      then omap (\<lambda>seed. w\<lparr>js_seed := getHex0 (le_bytes 64 seed)\<rparr>)
             (Mnemonic_DeriveSeed (al_text lib) (js_mnemonic w) passphrase)
      else Ret w)"

definition renew_xPrivKey :: "account_lib \<Rightarrow> WalletJson \<Rightarrow> WalletJson outcome" where
  "renew_xPrivKey lib w =
     (if js_xPrivKey w = [] \<and> js_seed w \<noteq> []
      then omap (\<lambda>rootkey. w\<lparr>js_xPrivKey := Base58_CheckEncode (al_sha256_2 lib) (HDKeychain_extkey rootkey) []\<rparr>)
             (root_of_seed_text lib CTElastos (js_seed w))
      else Ret w)"

definition renew_keys :: "account_lib \<Rightarrow> WalletJson \<Rightarrow> WalletJson outcome" where
  "renew_keys lib w =
     (if js_xPrivKey w \<noteq> []
      then (case Base58_CheckDecode (al_sha256_2 lib) (js_xPrivKey w) of
              None \<Rightarrow> Throw E_Key
            | Some bytes \<Rightarrow>
                obind (HDKeychain_of_extkey (al_hd lib) CTElastos bytes) (\<lambda>rootkey.
                obind (hd_child lib rootkey ''44h/0h/1h/0/0'') (\<lambda>owner.
                obind (hd_public_text lib rootkey ''45h'') (\<lambda>xPubKeyHDPM.
                obind (hd_public_text lib rootkey ''44h/0h/0h'') (\<lambda>xPubKey.
                obind (hd_child lib rootkey ''1h/0'') (\<lambda>requestKey.
                  Ret (w\<lparr>js_ownerPubKey := getHex0 (hd_pubkey owner), js_xPubKeyHDPM := xPubKeyHDPM,
                         js_xPubKey := xPubKey, js_requestPrivKey := getHex0 (HDKeychain_privkey requestKey),
                         js_requestPubKey := getHex0 (hd_pubkey requestKey)\<rparr>)))))))
      else Ret w)"

definition renew_member ::
    "account_lib \<Rightarrow> string \<Rightarrow> string \<Rightarrow> (HDKeychain \<Rightarrow> string outcome) \<Rightarrow> string outcome" where
  "renew_member lib seed member compute =
     (if member = [] \<and> seed \<noteq> [] then obind (root_of_seed_text lib CTBitcoin seed) compute else Ret member)"

definition ElaNewWalletJson_renew :: "account_lib \<Rightarrow> string \<Rightarrow> WalletJson \<Rightarrow> WalletJson outcome" where
  "ElaNewWalletJson_renew lib passphrase w =
     obind (renew_seed lib passphrase w) (\<lambda>w.
     obind (renew_xPrivKey lib w) (\<lambda>w.
     obind (renew_keys lib w) (\<lambda>w.
     obind (renew_member lib (js_seed w) (js_ethscPrimaryPubKey w)
       (\<lambda>rootkey. obind (hd_child lib rootkey ''44h/60h/0h/0/0'') (hd_uncompressed_text lib))) (\<lambda>eth.
     obind (renew_member lib (js_seed w) (js_ripplePrimaryPubKey w)
       (\<lambda>rootkey. omap (\<lambda>c. getHex0 (hd_pubkey c)) (hd_child lib rootkey ''44h/144h/0h/0/0''))) (\<lambda>ripple.
     obind (renew_member lib (js_seed w) (js_xPubKeyBitcoin w)
       (\<lambda>rootkey. hd_public_text lib rootkey ''44h/0h/0h'')) (\<lambda>btc.
       Ret (w\<lparr>js_ethscPrimaryPubKey := eth, js_ripplePrimaryPubKey := ripple, js_xPubKeyBitcoin := btc\<rparr>)))))))"

definition ElaNewWalletJson_FromJsonCommon ::
    "account_lib \<Rightarrow> 'j json_env \<Rightarrow> 'j \<Rightarrow> WalletJson \<Rightarrow> WalletJson outcome" where
  "ElaNewWalletJson_FromJsonCommon lib E j w =
     obind (ElaNewWalletJson_read E j w) (\<lambda>(w, passphrase). ElaNewWalletJson_renew lib passphrase w)"

definition ElaNewWalletJson_FromJson :: "account_lib \<Rightarrow> 'j json_env \<Rightarrow> 'j \<Rightarrow> WalletJson \<Rightarrow> WalletJson outcome" where
  "ElaNewWalletJson_FromJson lib E j w =
     obind (ElaWebWalletJson_FromJson E j w) (ElaNewWalletJson_FromJsonCommon lib E j)"

section \<open>Key stores\<close>

definition KeyStore_Export ::
    "ccm_lib \<Rightarrow> 'j json_text \<Rightarrow> WalletJson \<Rightarrow> string \<Rightarrow> bool \<Rightarrow> bytes \<Rightarrow> bytes \<Rightarrow> 'j outcome" where
  "KeyStore_Export cc T w passwd withPrivKey randomSalt randomIV =
     obind (json_dump T (ElaNewWalletJson_ToJson T withPrivKey w)) (\<lambda>plaintext.
     let salt = getBase64 randomSalt;
         iv = getBase64 randomIV
     in
     obind (AES_Encrypt_text cc (setCharsFromString plaintext) passwd salt iv [] AES_DEFAULT_KS AES_DEFAULT_ITER)
       (\<lambda>ciphertext.
         Ret (SjclFile_ToJson (jt_env T)
           \<lparr>sj_iv = iv, sj_v = 1, sj_iter = word_of_nat AES_DEFAULT_ITER, sj_ks = AES_DEFAULT_KS, sj_ts = 64,
            sj_mode = ''ccm'', sj_adata = [], sj_cipher = ''aes'', sj_salt = salt, sj_ct = ciphertext\<rparr>)))"

text \<open>The count of rounds in the file is read and not used.\<close>

definition KeyStore_Import ::
    "account_lib \<Rightarrow> ccm_lib \<Rightarrow> 'j json_text \<Rightarrow> 'j \<Rightarrow> string \<Rightarrow> WalletJson \<Rightarrow> WalletJson outcome" where
  "KeyStore_Import lib cc T json passwd w =
     obind (SjclFile_FromJson (jt_env T) json) (\<lambda>sjcl.
       if sj_mode sjcl \<noteq> ''ccm'' then Throw E_KeyStore
       else
         obind (AES_Decrypt_text cc (sj_ct sjcl) passwd (sj_salt sjcl) (sj_iv sjcl) (sj_adata sjcl) (sj_ks sjcl)
           AES_DEFAULT_ITER) (\<lambda>plaintext.
         obind (json_parse T (getCharsAsString plaintext)) (\<lambda>j.
           ElaNewWalletJson_FromJson lib (jt_env T) j w)))"

definition KeyStore_ImportReadonly ::
    "account_lib \<Rightarrow> 'j json_env \<Rightarrow> 'j \<Rightarrow> WalletJson \<Rightarrow> WalletJson outcome" where
  "KeyStore_ImportReadonly lib E j w = ElaNewWalletJson_FromJson lib E j w"

definition KeyStore_ExportReadonly :: "'j json_text \<Rightarrow> WalletJson \<Rightarrow> 'j" where
  "KeyStore_ExportReadonly T w = ElaNewWalletJson_ToJson T False w"

section \<open>What is written is read\<close>

definition wallet_ok :: "WalletJson \<Rightarrow> bool" where
  "wallet_ok w \<longleftrightarrow> int32 (js_m w) \<and> int32 (js_n w) \<and> int32 (js_account w) \<and> coins_ok (js_coinInfoList w)"

lemma CoinInfos_pushed:
  assumes "json_env_ok E" and "coins_ok cs"
  shows "map_outcome (CoinInfo_FromJson E) (je_elems E (json_pushed E (map (CoinInfo_ToJson E) cs))) = Ret cs"
  using assms by (simp add: map_outcome_same CoinInfo_json coins_ok_def)

text \<open>The members of a key store as a list.\<close>

definition wallet_members :: "'j json_env \<Rightarrow> WalletJson \<Rightarrow> (string \<times> 'j) list" where
  "wallet_members E w =
    [(''xPrivKey'', je_str E (js_xPrivKey w)), (''coin'', je_str E (js_coin w)),
     (''network'', je_str E (js_network w)), (''xPubKey'', je_str E (js_xPubKey w)),
     (''requestPrivKey'', je_str E (js_requestPrivKey w)), (''requestPubKey'', je_str E (js_requestPubKey w)),
     (''copayerId'', je_str E (js_copayerId w)), (''publicKeyRing'', je_rings E (js_publicKeyRing w)),
     (''walletId'', je_str E (js_walletId w)), (''walletName'', je_str E (js_walletName w)),
     (''m'', je_num E (js_m w)), (''n'', je_num E (js_n w)), (''walletPrivKey'', je_str E (js_walletPrivKey w)),
     (''personalEncryptingKey'', je_str E (js_personalEncryptingKey w)),
     (''sharedEncryptingKey'', je_str E (js_sharedEncryptingKey w)), (''copayerName'', je_str E (js_copayerName w)),
     (''entropySource'', je_str E (js_entropySource w)), (''mnemonicHasPassphrase'', je_bool E (js_hasPassphrase w)),
     (''derivationStrategy'', je_str E (js_derivationStrategy w)), (''account'', je_num E (js_account w)),
     (''compliantDerivation'', je_bool E (js_compliantDerivation w)), (''addressType'', je_str E (js_addressType w)),
     (''mnemonic'', je_str E (js_mnemonic w)),
     (''CoinInfoList'', json_pushed E (map (CoinInfo_ToJson E) (js_coinInfoList w))),
     (''SingleAddress'', je_bool E (js_singleAddress w)), (''OwnerPubKey'', je_str E (js_ownerPubKey w)),
     (''xPubKeyHDPM'', je_str E (js_xPubKeyHDPM w)), (''seed'', je_str E (js_seed w)),
     (''ethscPrimaryPubKey'', je_str E (js_ethscPrimaryPubKey w)),
     (''xPubKeyBitcoin'', je_str E (js_xPubKeyBitcoin w)), (''singlePrivateKey'', je_str E (js_singlePrivateKey w)),
     (''ripplePrimaryPubKey'', je_str E (js_ripplePrimaryPubKey w))]"

lemma WalletJson_find:
  assumes "json_env_ok (jt_env T)"
  shows "je_find (jt_env T) (ElaNewWalletJson_ToJson T True w) k = map_of (wallet_members (jt_env T) w) k"
proof -
  have "ElaNewWalletJson_ToJson T True w = json_sets (jt_env T) (je_null (jt_env T)) (wallet_members (jt_env T) w)"
    by (simp add: ElaNewWalletJson_ToJson_def ElaNewWalletJson_ToJsonCommon_def ElaWebWalletJson_ToJson_def
        BitcoreWalletClientJson_ToJson_def wallet_members_def Let_def)
  moreover have "distinct (map fst (wallet_members (jt_env T) w))" by (simp add: wallet_members_def)
  ultimately show ?thesis using assms by (simp add: json_sets_find split: option.splits)
qed

lemma WalletJson_bitcore:
  assumes "json_env_ok (jt_env T)" and "wallet_ok w"
  shows "BitcoreWalletClientJson_FromJson (jt_env T) (ElaNewWalletJson_ToJson T True w) w0 =
    Ret (w0\<lparr>js_coin := js_coin w, js_network := js_network w, js_xPrivKey := js_xPrivKey w, js_xPubKey := js_xPubKey w,
          js_requestPrivKey := js_requestPrivKey w, js_requestPubKey := js_requestPubKey w,
          js_copayerId := js_copayerId w, js_publicKeyRing := js_publicKeyRing w, js_walletId := js_walletId w,
          js_walletName := js_walletName w, js_m := js_m w, js_n := js_n w, js_walletPrivKey := js_walletPrivKey w,
          js_personalEncryptingKey := js_personalEncryptingKey w, js_sharedEncryptingKey := js_sharedEncryptingKey w,
          js_copayerName := js_copayerName w, js_entropySource := js_entropySource w,
          js_hasPassphrase := js_hasPassphrase w, js_derivationStrategy := js_derivationStrategy w,
          js_account := js_account w, js_compliantDerivation := js_compliantDerivation w,
          js_addressType := js_addressType w\<rparr>)"
  using assms
  by (simp add: BitcoreWalletClientJson_FromJson_def WalletJson_find wallet_members_def Let_def wallet_ok_def)

lemma WalletJson_read:
  assumes "json_env_ok (jt_env T)" and "wallet_ok w"
  shows "obind (ElaWebWalletJson_FromJson (jt_env T) (ElaNewWalletJson_ToJson T True w) w0)
    (ElaNewWalletJson_read (jt_env T) (ElaNewWalletJson_ToJson T True w)) = Ret (w, [])"
  using assms CoinInfos_pushed [OF assms(1), of "js_coinInfoList w"]
  by (simp add: ElaWebWalletJson_FromJson_def WalletJson_bitcore ElaNewWalletJson_read_def old_multisign_def
      json_contains_def WalletJson_find wallet_members_def Let_def wallet_ok_def)

text \<open>Without a pass phrase: the keys that are derived are derived again, and once is enough.\<close>

lemma WalletJson_reread:
  assumes "json_env_ok (jt_env T)" and "wallet_ok w"
  shows "ElaNewWalletJson_FromJson lib (jt_env T) (ElaNewWalletJson_ToJson T True w) w0 = ElaNewWalletJson_renew lib [] w"
proof -
  have "ElaNewWalletJson_FromJson lib (jt_env T) (ElaNewWalletJson_ToJson T True w) w0 =
    obind (obind (ElaWebWalletJson_FromJson (jt_env T) (ElaNewWalletJson_ToJson T True w) w0)
      (ElaNewWalletJson_read (jt_env T) (ElaNewWalletJson_ToJson T True w)))
      (\<lambda>(w, passphrase). ElaNewWalletJson_renew lib passphrase w)"
    by (simp add: ElaNewWalletJson_FromJson_def ElaNewWalletJson_FromJsonCommon_def [abs_def] obind_assoc)
  also have "\<dots> = ElaNewWalletJson_renew lib [] w"
    by (simp add: WalletJson_read [OF assms])
  finally show ?thesis .
qed

text \<open>Each step leaves a wallet it does not change again, and the later ones do not touch what it reads.\<close>

lemma seed_text_nonempty [simp]: "getHex0 (le_bytes 64 seed) \<noteq> []"
  using length_le_bytes [of 64 seed] by (auto simp: getHex0_Nil_iff simp del: length_le_bytes)

definition seed_settled :: "WalletJson \<Rightarrow> bool" where
  "seed_settled w \<longleftrightarrow> js_seed w \<noteq> [] \<or> js_mnemonic w = [] \<or> js_hasPassphrase w"

definition root_settled :: "account_lib \<Rightarrow> WalletJson \<Rightarrow> bool" where
  "root_settled lib w \<longleftrightarrow> js_xPrivKey w \<noteq> [] \<or> js_seed w = [] \<or>
     (\<exists>rootkey. root_of_seed_text lib CTElastos (js_seed w) = Ret rootkey \<and>
       Base58_CheckEncode (al_sha256_2 lib) (HDKeychain_extkey rootkey) [] = [])"

lemma renew_seed_settled:
  assumes "renew_seed lib passphrase w = Ret w'"
  shows "seed_settled w'"
  using assms by (auto simp: renew_seed_def seed_settled_def omap_def obind_eq_Ret split: if_splits)

lemma settled_renew_seed: "seed_settled w \<Longrightarrow> renew_seed lib [] w = Ret w"
  by (auto simp: renew_seed_def seed_settled_def)

lemma renew_xPrivKey_settled:
  assumes "renew_xPrivKey lib w = Ret w'"
  shows "root_settled lib w'" and "seed_settled w' = seed_settled w"
  using assms by (auto simp: renew_xPrivKey_def root_settled_def seed_settled_def omap_def obind_eq_Ret split: if_splits)

lemma settled_renew_xPrivKey: "root_settled lib w \<Longrightarrow> renew_xPrivKey lib w = Ret w"
  by (auto simp: renew_xPrivKey_def root_settled_def)

definition keys_settled :: "account_lib \<Rightarrow> WalletJson \<Rightarrow> bool" where
  "keys_settled lib w \<longleftrightarrow> js_xPrivKey w = [] \<or>
     (\<exists>bytes rootkey owner request. Base58_CheckDecode (al_sha256_2 lib) (js_xPrivKey w) = Some bytes \<and>
        HDKeychain_of_extkey (al_hd lib) CTElastos bytes = Ret rootkey \<and>
        hd_child lib rootkey ''44h/0h/1h/0/0'' = Ret owner \<and> js_ownerPubKey w = getHex0 (hd_pubkey owner) \<and>
        hd_public_text lib rootkey ''45h'' = Ret (js_xPubKeyHDPM w) \<and>
        hd_public_text lib rootkey ''44h/0h/0h'' = Ret (js_xPubKey w) \<and> hd_child lib rootkey ''1h/0'' = Ret request \<and>
        js_requestPrivKey w = getHex0 (HDKeychain_privkey request) \<and> js_requestPubKey w = getHex0 (hd_pubkey request))"

lemma renew_keys_cases:
  assumes "renew_keys lib w = Ret w'"
  obtains "js_xPrivKey w = []" and "w' = w"
  | bytes rootkey owner hdpm xpub request where "js_xPrivKey w \<noteq> []"
    and "Base58_CheckDecode (al_sha256_2 lib) (js_xPrivKey w) = Some bytes"
    and "HDKeychain_of_extkey (al_hd lib) CTElastos bytes = Ret rootkey"
    and "hd_child lib rootkey ''44h/0h/1h/0/0'' = Ret owner" and "hd_public_text lib rootkey ''45h'' = Ret hdpm"
    and "hd_public_text lib rootkey ''44h/0h/0h'' = Ret xpub" and "hd_child lib rootkey ''1h/0'' = Ret request"
    and "w' = w\<lparr>js_ownerPubKey := getHex0 (hd_pubkey owner), js_xPubKeyHDPM := hdpm, js_xPubKey := xpub,
      js_requestPrivKey := getHex0 (HDKeychain_privkey request), js_requestPubKey := getHex0 (hd_pubkey request)\<rparr>"
  using assms unfolding renew_keys_def obind_eq_Ret by (simp add: obind_eq_Ret split: if_splits option.splits) blast+

lemma renew_keys_settled:
  assumes "renew_keys lib w = Ret w'"
  shows "root_settled lib w' = root_settled lib w" and "seed_settled w' = seed_settled w" and "keys_settled lib w'"
  using assms
  by (cases rule: renew_keys_cases; simp add: root_settled_def; fail)
    (cases rule: renew_keys_cases [OF assms]; simp add: seed_settled_def keys_settled_def; fail)+

lemma settled_renew_keys:
  assumes "keys_settled lib w"
  shows "renew_keys lib w = Ret w"
proof (cases "js_xPrivKey w = []")
  case False
  with assms show ?thesis unfolding keys_settled_def
    by (elim disjE exE conjE) (simp_all add: renew_keys_def WalletJson.equality)
qed (simp add: renew_keys_def)

lemma renew_member_twice: "renew_member lib seed m f = Ret m' \<Longrightarrow> renew_member lib seed m' f = Ret m'"
  by (auto simp: renew_member_def split: if_splits)

lemma ElaNewWalletJson_renew_twice:
  assumes "ElaNewWalletJson_renew lib passphrase w = Ret w'"
  shows "ElaNewWalletJson_renew lib [] w' = Ret w'"
proof -
  obtain w1 w2 w3 e r b where w1: "renew_seed lib passphrase w = Ret w1" and w2: "renew_xPrivKey lib w1 = Ret w2"
    and w3: "renew_keys lib w2 = Ret w3"
    and m: "renew_member lib (js_seed w3) (js_ethscPrimaryPubKey w3)
        (\<lambda>rootkey. obind (hd_child lib rootkey ''44h/60h/0h/0/0'') (hd_uncompressed_text lib)) = Ret e"
      "renew_member lib (js_seed w3) (js_ripplePrimaryPubKey w3)
        (\<lambda>rootkey. omap (\<lambda>c. getHex0 (hd_pubkey c)) (hd_child lib rootkey ''44h/144h/0h/0/0'')) = Ret r"
      "renew_member lib (js_seed w3) (js_xPubKeyBitcoin w3)
        (\<lambda>rootkey. hd_public_text lib rootkey ''44h/0h/0h'') = Ret b"
    and w': "w' = w3\<lparr>js_ethscPrimaryPubKey := e, js_ripplePrimaryPubKey := r, js_xPubKeyBitcoin := b\<rparr>"
    using assms unfolding ElaNewWalletJson_renew_def by (auto simp: obind_eq_Ret)
  note k = renew_keys_settled [OF w3]
  have "seed_settled w'" "root_settled lib w'" "keys_settled lib w'"
    using renew_seed_settled [OF w1] renew_xPrivKey_settled [OF w2] k w'
    by (simp_all add: seed_settled_def root_settled_def keys_settled_def)
  then show ?thesis
    using m [THEN renew_member_twice] w'
    by (simp add: ElaNewWalletJson_renew_def settled_renew_seed settled_renew_xPrivKey settled_renew_keys)
qed

text \<open>A key store that is exported and imported: what it holds, after the derivations.\<close>

lemma chars_of_chars [simp]: "getCharsAsString (setCharsFromString s) = s"
  by (simp add: getCharsAsString_def setCharsFromString_def comp_def)

lemma KeyStore_roundtrip:
  assumes T: "json_text_ok T" and cc: "ccm_ok cc" and w: "wallet_ok w" and iv: "13 \<le> length randomIV"
    and x: "KeyStore_Export cc T w passwd True randomSalt randomIV = Ret j"
  shows "KeyStore_Import lib cc T j passwd w0 = ElaNewWalletJson_renew lib [] w"
proof -
  note E = json_text_okD(1) [OF T]
  obtain plaintext ct where p: "json_dump T (ElaNewWalletJson_ToJson T True w) = Ret plaintext"
    and c: "AES_Encrypt_text cc (setCharsFromString plaintext) passwd (getBase64 randomSalt) (getBase64 randomIV) []
      AES_DEFAULT_KS AES_DEFAULT_ITER = Ret ct"
    and j: "j = SjclFile_ToJson (jt_env T)
      \<lparr>sj_iv = getBase64 randomIV, sj_v = 1, sj_iter = word_of_nat AES_DEFAULT_ITER, sj_ks = AES_DEFAULT_KS, sj_ts = 64,
       sj_mode = ''ccm'', sj_adata = [], sj_cipher = ''aes'', sj_salt = getBase64 randomSalt, sj_ct = ct\<rparr>"
    using x by (auto simp: KeyStore_Export_def Let_def obind_eq_Ret)
  have "AES_Decrypt_text cc ct passwd (getBase64 randomSalt) (getBase64 randomIV) [] AES_DEFAULT_KS AES_DEFAULT_ITER =
    Ret (setCharsFromString plaintext)"
    using AES_text_roundtrip [OF cc iv, of "setCharsFromString plaintext" passwd randomSalt] c by auto
  then show ?thesis
    by (simp add: KeyStore_Import_def j SjclFile_json [OF E] json_parse_dump [OF T p] WalletJson_reread [OF E w])
qed

lemma KeyStore_Export_returns:
  assumes "ccm_ok cc" and "13 \<le> length randomIV" and "is_Ret (json_dump T (ElaNewWalletJson_ToJson T withPrivKey w))"
  obtains j where "KeyStore_Export cc T w passwd withPrivKey randomSalt randomIV = Ret j"
proof -
  obtain t where t: "json_dump T (ElaNewWalletJson_ToJson T withPrivKey w) = Ret t" using is_RetD [OF assms(3)] by blast
  obtain ct where "AES_Encrypt_text cc (setCharsFromString t) passwd (getBase64 randomSalt) (getBase64 randomIV) []
      AES_DEFAULT_KS AES_DEFAULT_ITER = Ret ct"
    using AES_text_roundtrip [OF assms(1,2)] by metis
  then show thesis using that t by (simp add: KeyStore_Export_def Let_def)
qed

text \<open>The read-only form still holds the seed and the single private key.\<close>

lemma json_erase_all_open:
  assumes "json_text_ok T" and "je_is_object (jt_env T) j"
  shows "je_is_object (jt_env T) (json_erase_all T ks j)"
  using assms by (induction ks arbitrary: j) (simp_all add: json_text_okD(3))

lemma ExportReadonly_seed:
  assumes "json_text_ok T"
  shows "je_find (jt_env T) (KeyStore_ExportReadonly T w) ''seed'' = Some (je_str (jt_env T) (js_seed w))"
    and "je_find (jt_env T) (KeyStore_ExportReadonly T w) ''singlePrivateKey'' = Some (je_str (jt_env T) (js_singlePrivateKey w))"
proof -
  let ?E = "jt_env T"
  note E = json_text_okD(1) [OF assms]
  define j0 where "j0 = json_sets ?E (je_null ?E) (take 22 (wallet_members ?E w))"
  have "je_is_object ?E j0"
    unfolding j0_def by (rule json_sets_object [OF E]) (use E in \<open>simp_all add: wallet_members_def\<close>)
  then have o: "je_open ?E (json_erase_all T private_members j0)"
    by (simp add: json_erase_all_open [OF assms] je_open_def)
  have j: "KeyStore_ExportReadonly T w =
      json_sets ?E (json_erase_all T private_members j0) (drop 23 (wallet_members ?E w))"
    by (simp add: KeyStore_ExportReadonly_def ElaNewWalletJson_ToJson_def ElaNewWalletJson_ToJsonCommon_def
        ElaWebWalletJson_ToJson_def BitcoreWalletClientJson_ToJson_def wallet_members_def j0_def Let_def)
  have d: "distinct (map fst (drop 23 (wallet_members ?E w)))" by (simp add: wallet_members_def)
  note find = json_sets_find [OF E o d]
  show "je_find ?E (KeyStore_ExportReadonly T w) ''seed'' = Some (je_str ?E (js_seed w))"
    "je_find ?E (KeyStore_ExportReadonly T w) ''singlePrivateKey'' = Some (je_str ?E (js_singlePrivateKey w))"
    unfolding j find by (simp_all add: wallet_members_def)
qed

section \<open>The backup of an account that was made from a seed\<close>

text \<open>
  What such a store is: the secrets decrypt to what the seed gives, and the public members are derived from it.  Changes
  of the password and of the list of chains keep that.
\<close>

definition from_seed :: "account_lib \<Rightarrow> uint512 \<Rightarrow> HDKeychain \<Rightarrow> HDKeychain \<Rightarrow> string \<Rightarrow> LocalStore \<Rightarrow> bool" where
  "from_seed lib seed root std passwd s \<longleftrightarrow>
     \<not> ls_readonly s \<and> AES_DecryptCCM lib (ls_xPrivKey s) passwd = Ret (HDKeychain_extkey root) \<and>
     AES_DecryptCCM lib (ls_seed s) passwd = Ret (le_bytes 64 seed) \<and>
     (\<exists>mnemonic. AES_DecryptCCM lib (ls_mnemonic s) passwd = Ret mnemonic) \<and>
     (\<exists>owner request eth ripple.
        hd_child lib root ''44h/0h/1h/0/0'' = Ret owner \<and> ls_ownerPubKey s = getHex0 (hd_pubkey owner) \<and>
        hd_public_text lib root ''45h'' = Ret (ls_xPubKeyHDPM s) \<and>
        hd_public_text lib root ''44h/0h/0h'' = Ret (ls_xPubKey s) \<and>
        hd_child lib root ''1h/0'' = Ret request \<and> ls_requestPubKey s = getHex0 (hd_pubkey request) \<and>
        AES_DecryptCCM lib (ls_requestPrivKey s) passwd = Ret (HDKeychain_privkey request) \<and>
        hd_child lib std ''44h/60h/0h/0/0'' = Ret eth \<and> hd_uncompressed_text lib eth = Ret (ls_ethscPrimaryPubKey s) \<and>
        AES_DecryptCCM lib (ls_singlePrivateKey s) passwd = Ret (HDKeychain_privkey eth) \<and>
        hd_child lib std ''44h/144h/0h/0/0'' = Ret ripple \<and> ls_ripplePrimaryPubKey s = getHex0 (hd_pubkey ripple) \<and>
        hd_public_text lib std ''44h/0h/0h'' = Ret (ls_xPubKeyBitcoin s)) \<and>
     root_of_seed lib CTElastos seed = Ret root \<and> root_of_seed lib CTBitcoin seed = Ret std"

lemma AES_decrypts:
  assumes "aes_ok lib" and "AES_EncryptCCM lib p passwd = Ret ct"
  shows "AES_DecryptCCM lib ct passwd = Ret p"
  using AES_roundtrip [OF assms(1), of p passwd] assms(2) by auto

lemma Account_of_seed_from_seed:
  assumes aes: "aes_ok lib" and a: "Account_of_seed lib path seed passwd single mnemonic passphrase = Ret a"
  obtains root std where "from_seed lib seed root std passwd (acc_localstore a)"
proof -
  obtain root std s xpub hdpm request enc owner where r: "root_of_seed lib CTElastos seed = Ret root"
    "root_of_seed lib CTBitcoin seed = Ret std"
    and s: "seed_store lib path root std seed mnemonic passphrase passwd = Ret s"
    and k: "hd_public_text lib root ''44h/0h/0h'' = Ret xpub" "hd_public_text lib root ''45h'' = Ret hdpm"
      "hd_child lib root ''1h/0'' = Ret request" "AES_EncryptCCM lib (HDKeychain_privkey request) passwd = Ret enc"
      "hd_child lib root ''44h/0h/1h/0/0'' = Ret owner"
    and i: "Account_Init lib (Account_raw (single_store s single (hd_pubkey request) xpub hdpm enc (hd_pubkey owner))) = Ret a"
    using a unfolding Account_of_seed_def single_store_def by (auto simp: obind_eq_Ret)
  have l: "acc_localstore a = single_store s single (hd_pubkey request) xpub hdpm enc (hd_pubkey owner)"
    using Account_Init_signers [OF i] by (simp add: Account_raw_def)
  have "from_seed lib seed root std passwd (acc_localstore a)"
    using s r k unfolding l seed_store_def
    by (auto simp: obind_eq_Ret from_seed_def single_store_def AES_decrypts [OF aes])
  then show thesis by (rule that)
qed

lemma root_of_seed_as_text: "root_of_seed_text lib t (getHex0 (le_bytes 64 seed)) = root_of_seed lib t seed"
  by (simp add: root_of_seed_text_def root_of_seed_def setHex_getHex)

text \<open>The exported wallet is one the derivations leave alone.\<close>

lemma from_seed_export:
  assumes lib: "hd_lib_ok (al_hd lib)" and s: "from_seed lib seed root std passwd (acc_localstore a)"
    and nz: "some_nonzero (HDKeychain_extkey root)"
  obtains json where "Account_ExportKeystore lib passwd a = Ret (json, a)"
    and "ElaNewWalletJson_renew lib [] (WalletJson_of json) = Ret (WalletJson_of json)"
    and "js_m json = ls_m (acc_localstore a)" "js_n json = ls_n (acc_localstore a)"
    and "js_coinInfoList json = ls_subWallets (acc_localstore a)"
proof -
  let ?s = "acc_localstore a"
  obtain m owner request eth ripple where rw: "\<not> ls_readonly ?s"
    and d: "AES_DecryptCCM lib (ls_xPrivKey ?s) passwd = Ret (HDKeychain_extkey root)"
      "AES_DecryptCCM lib (ls_seed ?s) passwd = Ret (le_bytes 64 seed)" "AES_DecryptCCM lib (ls_mnemonic ?s) passwd = Ret m"
      "AES_DecryptCCM lib (ls_requestPrivKey ?s) passwd = Ret (HDKeychain_privkey request)"
      "AES_DecryptCCM lib (ls_singlePrivateKey ?s) passwd = Ret (HDKeychain_privkey eth)"
    and o: "hd_child lib root ''44h/0h/1h/0/0'' = Ret owner" "ls_ownerPubKey ?s = getHex0 (hd_pubkey owner)"
      "hd_public_text lib root ''45h'' = Ret (ls_xPubKeyHDPM ?s)"
      "hd_public_text lib root ''44h/0h/0h'' = Ret (ls_xPubKey ?s)"
      "hd_child lib root ''1h/0'' = Ret request" "ls_requestPubKey ?s = getHex0 (hd_pubkey request)"
    and e: "hd_child lib std ''44h/60h/0h/0/0'' = Ret eth" "hd_uncompressed_text lib eth = Ret (ls_ethscPrimaryPubKey ?s)"
      "hd_child lib std ''44h/144h/0h/0/0'' = Ret ripple" "ls_ripplePrimaryPubKey ?s = getHex0 (hd_pubkey ripple)"
      "hd_public_text lib std ''44h/0h/0h'' = Ret (ls_xPubKeyBitcoin ?s)"
    and r: "root_of_seed lib CTElastos seed = Ret root" "root_of_seed lib CTBitcoin seed = Ret std"
    using s unfolding from_seed_def by blast
  note wr = root_of_seed_wf [OF lib r(1)] and ws = root_of_seed_wf [OF lib r(2)]
  have btc: "ls_xPubKeyBitcoin ?s \<noteq> []" using hd_public_text_read [OF lib ws(1) _ e(5)] ws(3) by force
  have ext: "HDKeychain_of_extkey (al_hd lib) CTElastos (HDKeychain_extkey root) = Ret root"
    using HDKeychain_extkey_roundtrip [OF wr(1)] wr(3) by simp
  have x: "HDKeychain_extkey root \<noteq> []" using nz by (auto simp: some_nonzero_def)
  define json where "json = keystore_of ?s (Base58_CheckEncode (al_sha256_2 lib) (HDKeychain_extkey root) [],
    getCharsAsString m, getHex0 (HDKeychain_privkey request), getHex0 (le_bytes 64 seed), getHex0 (HDKeychain_privkey eth))"
  define w where "w = WalletJson_of json"
  have f: "js_seed w = getHex0 (le_bytes 64 seed)"
    "js_xPrivKey w = Base58_CheckEncode (al_sha256_2 lib) (HDKeychain_extkey root) []"
    "js_ownerPubKey w = ls_ownerPubKey ?s" "js_xPubKeyHDPM w = ls_xPubKeyHDPM ?s" "js_xPubKey w = ls_xPubKey ?s"
    "js_requestPrivKey w = getHex0 (HDKeychain_privkey request)" "js_requestPubKey w = ls_requestPubKey ?s"
    "js_ethscPrimaryPubKey w = ls_ethscPrimaryPubKey ?s" "js_ripplePrimaryPubKey w = ls_ripplePrimaryPubKey ?s"
    "js_xPubKeyBitcoin w = ls_xPubKeyBitcoin ?s"
    by (simp_all add: w_def json_def WalletJson_of_def keystore_of_def ElaNewWalletJson.extend_def)
  note b = Base58_text_nonempty [OF nz, of "al_sha256_2 lib"]
  have settled: "seed_settled w" "root_settled lib w" "keys_settled lib w"
    using b o ext by (simp_all add: seed_settled_def root_settled_def keys_settled_def f)
  have m: "renew_member lib (js_seed w) (js_ethscPrimaryPubKey w)
      (\<lambda>rootkey. obind (hd_child lib rootkey ''44h/60h/0h/0/0'') (hd_uncompressed_text lib)) = Ret (js_ethscPrimaryPubKey w)"
    "renew_member lib (js_seed w) (js_ripplePrimaryPubKey w)
      (\<lambda>rootkey. omap (\<lambda>c. getHex0 (hd_pubkey c)) (hd_child lib rootkey ''44h/144h/0h/0/0'')) = Ret (js_ripplePrimaryPubKey w)"
    "renew_member lib (js_seed w) (js_xPubKeyBitcoin w)
      (\<lambda>rootkey. hd_public_text lib rootkey ''44h/0h/0h'') = Ret (js_xPubKeyBitcoin w)"
    using e r(2) by (simp_all add: renew_member_def f root_of_seed_as_text)
  show thesis
  proof (rule that)
    show "Account_ExportKeystore lib passwd a = Ret (json, a)"
      using d rw btc x by (simp add: Account_ExportKeystore_def Account_refresh_def export_secrets_def json_def)
    show "ElaNewWalletJson_renew lib [] (WalletJson_of json) = Ret (WalletJson_of json)"
      using m by (simp add: ElaNewWalletJson_renew_def settled settled_renew_seed settled_renew_xPrivKey settled_renew_keys
          flip: w_def)
  qed (simp_all add: json_def keystore_of_def)
qed

lemma truncate_WalletJson [simp]: "ElaNewWalletJson.truncate (WalletJson_of json) = json"
  by (simp add: WalletJson_of_def ElaNewWalletJson.defs)

text \<open>\<open>from_seed\<close> sees the secrets through the password and the public members.\<close>

lemma from_seed_cong:
  assumes s: "from_seed lib seed root std passwd s"
    and secrets: "LocalStore_secrets lib passwd' s' = LocalStore_secrets lib passwd s"
    and public: "LocalStore_public s' =
      (LocalStore_public s)\<lparr>ls_path := path, ls_account := n, ls_passphrase := p, ls_subWallets := cs\<rparr>"
  shows "from_seed lib seed root std passwd' s'"
proof -
  have "ls_readonly s' = ls_readonly s" "ls_ownerPubKey s' = ls_ownerPubKey s" "ls_xPubKeyHDPM s' = ls_xPubKeyHDPM s"
    "ls_xPubKey s' = ls_xPubKey s" "ls_requestPubKey s' = ls_requestPubKey s"
    "ls_ethscPrimaryPubKey s' = ls_ethscPrimaryPubKey s" "ls_ripplePrimaryPubKey s' = ls_ripplePrimaryPubKey s"
    "ls_xPubKeyBitcoin s' = ls_xPubKeyBitcoin s"
    using public
    by (auto simp: LocalStore_public_def dest: arg_cong [of _ _ ls_readonly] arg_cong [of _ _ ls_ownerPubKey]
        arg_cong [of _ _ ls_xPubKeyHDPM] arg_cong [of _ _ ls_xPubKey] arg_cong [of _ _ ls_requestPubKey]
        arg_cong [of _ _ ls_ethscPrimaryPubKey] arg_cong [of _ _ ls_ripplePrimaryPubKey]
        arg_cong [of _ _ ls_xPubKeyBitcoin])
  then show ?thesis using s secrets unfolding from_seed_def LocalStore_secrets_def by simp
qed

lemma backup_of_seed_account:
  assumes lib: "hd_lib_ok (al_hd lib)" and aes: "aes_ok lib" and T: "json_text_ok T" and cc: "ccm_ok cc"
    and iv: "13 \<le> length randomIV"
    and s: "from_seed lib seed root std passwd (acc_localstore a)" and nz: "some_nonzero (HDKeychain_extkey root)"
    and n: "int32 (ls_m (acc_localstore a))" "int32 (ls_n (acc_localstore a))" "coins_ok (ls_subWallets (acc_localstore a))"
    and x: "Account_ExportKeystore lib passwd a = Ret (json, a')"
      "KeyStore_Export cc T (WalletJson_of json) backup True randomSalt randomIV = Ret file"
  shows "a' = a"
    and "KeyStore_Import lib cc T file backup ElaNewWalletJson_new = Ret (WalletJson_of json)"
    and "\<exists>s. keystore_store lib path json passwd' = Ret s \<and> from_seed lib seed root std passwd' s \<and>
      LocalStore_public s = (LocalStore_public (acc_localstore a))\<lparr>ls_path := path, ls_account := 0, ls_passphrase := []\<rparr>"
proof -
  let ?s = "acc_localstore a"
  from from_seed_export [OF lib s nz] x(1) show "a' = a" by (metis outcome.inject(1) prod.inject)
  have renew: "ElaNewWalletJson_renew lib [] (WalletJson_of json) = Ret (WalletJson_of json)"
    and j: "js_m json = ls_m ?s" "js_n json = ls_n ?s" "js_coinInfoList json = ls_subWallets ?s"
    using from_seed_export [OF lib s nz] x(1) by (metis outcome.inject(1) prod.inject)+
  have "wallet_ok (WalletJson_of json)"
    using n j by (simp add: wallet_ok_def WalletJson_of_def ElaNewWalletJson.extend_def int32_def)
  from KeyStore_roundtrip [OF T cc this iv x(2)]
  show "KeyStore_Import lib cc T file backup ElaNewWalletJson_new = Ret (WalletJson_of json)" by (simp add: renew)
  obtain m r k where d: "LocalStore_secrets lib passwd ?s = [Ret m, Ret (HDKeychain_extkey root), Ret r, Ret (le_bytes 64 seed), Ret k]"
    using s unfolding from_seed_def LocalStore_secrets_def by auto
  have e: "HDKeychain_extkey root \<noteq> []" using nz by (auto simp: some_nonzero_def)
  have r: "root_of_seed lib CTElastos seed = Ret root" "root_of_seed lib CTBitcoin seed = Ret std"
    and btc: "hd_public_text lib std ''44h/0h/0h'' = Ret (ls_xPubKeyBitcoin ?s)" and rw: "\<not> ls_readonly ?s"
    using s unfolding from_seed_def by blast+
  note wr = root_of_seed_wf [OF lib r(1)] and ws = root_of_seed_wf [OF lib r(2)]
  have b: "ls_xPubKeyBitcoin ?s \<noteq> []" using hd_public_text_read [OF lib ws(1) _ btc] ws(3) by force
  have "is_Ret (HDKeychain_of_extkey (al_hd lib) CTElastos (HDKeychain_extkey root))"
    using HDKeychain_extkey_roundtrip [OF wr(1)] wr(3) by (simp add: is_Ret_def)
  with keystore_roundtrip [OF aes rw b d] nz e
  obtain json' s' where "Account_ExportKeystore lib passwd a = Ret (json', a)"
    and s': "keystore_store lib path json' passwd' = Ret s'"
    and secrets: "LocalStore_secrets lib passwd' s' = LocalStore_secrets lib passwd ?s"
    and public: "LocalStore_public s' = (LocalStore_public ?s)\<lparr>ls_path := path, ls_account := 0, ls_passphrase := []\<rparr>"
    by blast
  moreover have "json' = json" using calculation(1) x(1) by simp
  moreover have "from_seed lib seed root std passwd' s'"
    by (rule from_seed_cong [OF s secrets, where path = path and n = 0 and p = "[]" and cs = "ls_subWallets ?s"])
      (use public in \<open>simp add: LocalStore_public_def\<close>)
  ultimately show "\<exists>s. keystore_store lib path json passwd' = Ret s \<and> from_seed lib seed root std passwd' s \<and>
      LocalStore_public s = (LocalStore_public ?s)\<lparr>ls_path := path, ls_account := 0, ls_passphrase := []\<rparr>"
    by blast
qed

end
