(* ===== verification/MasterWalletM.thy ===== *)
theory MasterWalletM
  imports KeyStoreM
begin

text \<open>
  Master wallets and their manager: \<open>SDK/Implement/MasterWallet.cpp\<close>, \<open>SDK/Implement/MasterWalletManager.cpp\<close> and
  \<open>SDK/SpvService/Config.cpp\<close>.  A master wallet is an account with the sub-wallets that are open; the manager holds the
  wallets of a data path by name, those that are not loaded as none.  Operations take and return the state they change,
  the folders included, and their result beside it, so that what an exception leaves behind is there.  The sub-wallets are
  a parameter: what the constructor of a chain gives for an account.  Logging, the lock and the network
  parameters of the Ethereum library are left out.
\<close>

section \<open>Maps\<close>

text \<open>A \<open>std::map\<close> is the list of its entries in the order of the keys.\<close>

primrec std_map_assign :: "'k::linorder \<Rightarrow> 'v \<Rightarrow> ('k \<times> 'v) list \<Rightarrow> ('k \<times> 'v) list" where
  "std_map_assign k v [] = [(k, v)]"
| "std_map_assign k v (m # ms) =
     (if k = fst m then (k, v) # ms else if k < fst m then (k, v) # m # ms else m # std_map_assign k v ms)"

definition std_map_erase :: "'k \<Rightarrow> ('k \<times> 'v) list \<Rightarrow> ('k \<times> 'v) list" where
  "std_map_erase k ms = filter (\<lambda>m. fst m \<noteq> k) ms"

definition std_map_ok :: "('k::linorder \<times> 'v) list \<Rightarrow> bool" where
  "std_map_ok ms \<longleftrightarrow> sorted_wrt (<) (map fst ms)"

lemma std_map_assign_find [simp]: "map_of (std_map_assign k v ms) = (map_of ms)(k \<mapsto> v)"
  by (induction ms) auto

lemma std_map_erase_find [simp]: "map_of (std_map_erase k ms) = (map_of ms)(k := None)"
  by (induction ms) (auto simp: std_map_erase_def)

lemma set_std_map_assign: "set (map fst (std_map_assign k v ms)) = insert k (set (map fst ms))"
  by (induction ms) auto

lemma std_map_assign_ok: "std_map_ok ms \<Longrightarrow> std_map_ok (std_map_assign k v ms)"
proof (induction ms)
  case (Cons m ms)
  then show ?case using set_std_map_assign [of k v ms] by (auto simp: std_map_ok_def)
qed (simp add: std_map_ok_def)

lemma std_map_erase_ok: "std_map_ok ms \<Longrightarrow> std_map_ok (std_map_erase k ms)"
  by (induction ms) (auto simp: std_map_ok_def std_map_erase_def)

lemma std_map_distinct: "std_map_ok ms \<Longrightarrow> distinct (map fst ms)"
  by (simp add: std_map_ok_def strict_sorted_iff)

section \<open>Configuration\<close>

record ChainConfig =
  chc_name :: string
  chc_chainId :: int
  chc_networkId :: int

record Config =
  cfg_netType :: string
  cfg_chains :: "(string \<times> ChainConfig) list"

definition has_substring :: "string \<Rightarrow> string \<Rightarrow> bool" where
  "has_substring p s \<longleftrightarrow> list_ex (\<lambda>n. take (length p) (drop n s) = p) [0..<Suc (length s)]"

definition ChainConfig_of :: "'j json_env \<Rightarrow> string \<Rightarrow> string \<Rightarrow> 'j \<Rightarrow> ChainConfig outcome" where
  "ChainConfig_of E netType chainID v =
     (if has_substring ''ETH'' chainID
      then obind (obind (json_at E v ''ChainID'') (json_as_int E)) (\<lambda>chainId.
           obind (obind (json_at E v ''NetworkID'') (json_as_int E)) (\<lambda>networkId.
             Ret \<lparr>chc_name = chainID @ ''-'' @ netType, chc_chainId = chainId, chc_networkId = networkId\<rparr>))
      else Ret \<lparr>chc_name = [], chc_chainId = 0, chc_networkId = 0\<rparr>)"

text \<open>An entry that throws ends the loop; the chains before it stay.\<close>

primrec Config_loop :: "'j json_env \<Rightarrow> (string \<times> 'j) list \<Rightarrow> Config \<Rightarrow> Config \<times> bool" where
  "Config_loop E [] c = (c, True)"
| "Config_loop E (m # ms) c =
     (if fst m = ''NetType'' then Config_loop E ms c
      else case ChainConfig_of E (cfg_netType c) (fst m) (snd m) of
             Ret chain \<Rightarrow> Config_loop E ms (c\<lparr>cfg_chains := std_map_assign (fst m) chain (cfg_chains c)\<rparr>)
           | _ \<Rightarrow> (c, False))"

text \<open>The keys of anything but an object cannot be asked for.\<close>

definition Config_FromJSON :: "'j json_env \<Rightarrow> 'j \<Rightarrow> Config \<Rightarrow> Config \<times> bool" where
  "Config_FromJSON E j c =
     (if je_is_object E j then Config_loop E (je_members E j) c else (c, je_elems E j = []))"

definition Config_of :: "'j json_env \<Rightarrow> string \<Rightarrow> 'j \<Rightarrow> Config" where
  "Config_of E netType config = fst (Config_FromJSON E config \<lparr>cfg_netType = netType, cfg_chains = []\<rparr>)"

definition Config_GetChainConfig :: "Config \<Rightarrow> string \<Rightarrow> ChainConfig option" where
  "Config_GetChainConfig c chainID = map_of (cfg_chains c) chainID"

definition Config_GetAllChainIDs :: "Config \<Rightarrow> string list" where
  "Config_GetAllChainIDs c = map fst (cfg_chains c)"

lemma Config_loop_chains:
  "std_map_ok (cfg_chains c) \<Longrightarrow> std_map_ok (cfg_chains (fst (Config_loop E ms c)))"
  by (induction ms arbitrary: c) (auto simp: std_map_assign_ok split: outcome.splits)

section \<open>Master wallets\<close>

datatype SubWalletKind = MainchainKind | IDChainKind | BTCKind | EthSidechainKind

record ('j, 'w) wallet_env =
  we_lib :: account_lib
  we_ccm :: ccm_lib
  we_text :: "'j json_text"
  we_new :: "SubWalletKind \<Rightarrow> CoinInfo \<Rightarrow> ChainConfig \<Rightarrow> Account \<Rightarrow> string \<Rightarrow> 'w outcome"

abbreviation we_json :: "('j, 'w) wallet_env \<Rightarrow> 'j json_env" where
  "we_json W \<equiv> jt_env (we_text W)"

record 'w MasterWallet =
  mw_id :: string
  mw_account :: Account
  mw_createdWallets :: "(string \<times> 'w) list"
  mw_config :: Config

definition wallet_path :: "string \<Rightarrow> string \<Rightarrow> string" where
  "wallet_path dataPath masterID = dataPath @ ''/'' @ masterID"

definition MasterWallet_of :: "string \<Rightarrow> Account \<Rightarrow> Config \<Rightarrow> 'w MasterWallet" where
  "MasterWallet_of masterID a config =
     \<lparr>mw_id = masterID, mw_account = a, mw_createdWallets = [], mw_config = config\<rparr>"

definition MasterWallet_load ::
    "('j, 'w) wallet_env \<Rightarrow> string \<Rightarrow> Config \<Rightarrow> string \<Rightarrow> files \<Rightarrow> 'w MasterWallet outcome" where
  "MasterWallet_load W masterID config dataPath files =
     obind (LocalStore_Load (we_lib W) (we_text W) files (LocalStore_of_path (wallet_path dataPath masterID))) (\<lambda>s.
       omap (\<lambda>a. MasterWallet_of masterID a config) (Account_of_store (we_lib W) s))"

text \<open>The other constructors make the account and save it.\<close>

definition MasterWallet_saved ::
    "('j, 'w) wallet_env \<Rightarrow> string \<Rightarrow> Config \<Rightarrow> Account outcome \<Rightarrow> files \<Rightarrow> files \<times> 'w MasterWallet outcome" where
  "MasterWallet_saved W masterID config made files =
     (case made of
        Ret a \<Rightarrow> let (files', r) = LocalStore_Save (we_text W) (acc_localstore a) files
                 in (files', omap (\<lambda>_. MasterWallet_of masterID (Account_Save a) config) r)
      | Throw e \<Rightarrow> (files, Throw e)
      | Undef \<Rightarrow> (files, Undef))"

definition MasterWallet_Account_of_mnemonic ::
    "('j, 'w) wallet_env \<Rightarrow> string \<Rightarrow> string \<Rightarrow> string \<Rightarrow> string \<Rightarrow> bool \<Rightarrow> string \<Rightarrow> Account outcome" where
  "MasterWallet_Account_of_mnemonic W masterID mnemonic passphrase passwd singleAddress dataPath =
     Account_of_mnemonic (we_lib W) (wallet_path dataPath masterID) mnemonic passphrase passwd singleAddress"

definition MasterWallet_Account_of_seed ::
    "('j, 'w) wallet_env \<Rightarrow> string \<Rightarrow> uint512 \<Rightarrow> string \<Rightarrow> bool \<Rightarrow> string \<Rightarrow> string \<Rightarrow> string \<Rightarrow> Account outcome" where
  "MasterWallet_Account_of_seed W masterID seed payPasswd singleAddress mnemonic passphrase dataPath =
     Account_of_seed (we_lib W) (wallet_path dataPath masterID) seed payPasswd singleAddress mnemonic passphrase"

definition MasterWallet_Account_of_single_key ::
    "('j, 'w) wallet_env \<Rightarrow> string \<Rightarrow> string \<Rightarrow> string \<Rightarrow> string \<Rightarrow> Account outcome" where
  "MasterWallet_Account_of_single_key W masterID singlePrivateKey passwd dataPath =
     Account_of_single_key (we_lib W) (wallet_path dataPath masterID) singlePrivateKey passwd"

definition MasterWallet_Account_of_keystore ::
    "('j, 'w) wallet_env \<Rightarrow> string \<Rightarrow> 'j \<Rightarrow> string \<Rightarrow> string \<Rightarrow> string \<Rightarrow> Account outcome" where
  "MasterWallet_Account_of_keystore W masterID keystoreContent backupPassword payPasswd dataPath =
     obind (KeyStore_Import (we_lib W) (we_ccm W) (we_text W) keystoreContent backupPassword ElaNewWalletJson_new) (\<lambda>w.
       Account_of_keystore (we_lib W) (wallet_path dataPath masterID) (ElaNewWalletJson.truncate w) payPasswd)"

definition MasterWallet_Account_of_cosigners ::
    "('j, 'w) wallet_env \<Rightarrow> string \<Rightarrow> PublicKeyRing list \<Rightarrow> u32 \<Rightarrow> string \<Rightarrow> bool \<Rightarrow> bool \<Rightarrow> Account outcome" where
  "MasterWallet_Account_of_cosigners W masterID pubKeyRings m dataPath singleAddress compatible =
     (if length pubKeyRings < unat m then Throw E_InvalidArgument
      else Account_of_cosigners (we_lib W) (wallet_path dataPath masterID) pubKeyRings (sint m) singleAddress compatible)"

definition MasterWallet_Account_of_xprv ::
    "('j, 'w) wallet_env \<Rightarrow> string \<Rightarrow> string \<Rightarrow> string \<Rightarrow> PublicKeyRing list \<Rightarrow> u32 \<Rightarrow> string \<Rightarrow> bool \<Rightarrow> bool \<Rightarrow>
     Account outcome" where
  "MasterWallet_Account_of_xprv W masterID xprv payPassword cosigners m dataPath singleAddress compatible =
     (if length cosigners + 1 < unat m then Throw E_InvalidArgument
      else Account_of_xprv (we_lib W) (wallet_path dataPath masterID) xprv payPassword cosigners (sint m) singleAddress
             compatible)"

definition MasterWallet_Account_of_mnemonic_cosigner ::
    "('j, 'w) wallet_env \<Rightarrow> string \<Rightarrow> string \<Rightarrow> string \<Rightarrow> string \<Rightarrow> PublicKeyRing list \<Rightarrow> u32 \<Rightarrow> string \<Rightarrow> bool \<Rightarrow>
     bool \<Rightarrow> Account outcome" where
  "MasterWallet_Account_of_mnemonic_cosigner W masterID mnemonic passphrase payPasswd cosigners m dataPath singleAddress
       compatible =
     (if length cosigners + 1 < unat m then Throw E_InvalidArgument
      else Account_of_mnemonic_cosigner (we_lib W) (wallet_path dataPath masterID) mnemonic passphrase payPasswd cosigners
             (sint m) singleAddress compatible)"

section \<open>Sub-wallets\<close>

definition SubWalletFactoryMethod ::
    "('j, 'w) wallet_env \<Rightarrow> CoinInfo \<Rightarrow> ChainConfig \<Rightarrow> 'w MasterWallet \<Rightarrow> 'w outcome" where
  "SubWalletFactoryMethod W info config parent =
     (let make = (\<lambda>kind. we_new W kind info config (mw_account parent) (cfg_netType (mw_config parent))) in
      if ci_chainID info = ''ELA'' then make MainchainKind
      else if ci_chainID info = ''IDChain'' then make IDChainKind
      else if ci_chainID info = ''BTC'' then make BTCKind
      else if has_substring ''ETH'' (ci_chainID info) then make EthSidechainKind
      else Throw E_InvalidChainID)"

primrec MasterWallet_Init_loop ::
    "('j, 'w) wallet_env \<Rightarrow> CoinInfo list \<Rightarrow> 'w MasterWallet \<Rightarrow> 'w MasterWallet \<times> unit outcome" where
  "MasterWallet_Init_loop W [] mw = (mw, Ret ())"
| "MasterWallet_Init_loop W (info # infos) mw =
     (case Config_GetChainConfig (mw_config mw) (ci_chainID info) of
        None \<Rightarrow> MasterWallet_Init_loop W infos mw
      | Some config \<Rightarrow>
          (case SubWalletFactoryMethod W info config mw of
             Ret sub \<Rightarrow> MasterWallet_Init_loop W infos
               (mw\<lparr>mw_createdWallets := std_map_assign (ci_chainID info) sub (mw_createdWallets mw)\<rparr>)
           | Throw e \<Rightarrow> (mw, Throw e)
           | Undef \<Rightarrow> (mw, Undef)))"

definition MasterWallet_InitSubWallets ::
    "('j, 'w) wallet_env \<Rightarrow> 'w MasterWallet \<Rightarrow> 'w MasterWallet \<times> unit outcome" where
  "MasterWallet_InitSubWallets W mw = MasterWallet_Init_loop W (ls_subWallets (acc_localstore (mw_account mw))) mw"

text \<open>\<open>AddSubWalletInfoList\<close> and \<open>RemoveSubWalletInfo\<close> of the account, each with the save that follows.\<close>

definition Account_AddSubWalletInfoList :: "CoinInfo \<Rightarrow> Account \<Rightarrow> Account" where
  "Account_AddSubWalletInfoList info a = a\<lparr>acc_localstore := LocalStore_AddSubWalletInfoList info (acc_localstore a)\<rparr>"

definition Account_RemoveSubWalletInfo :: "string \<Rightarrow> Account \<Rightarrow> Account" where
  "Account_RemoveSubWalletInfo chainID a = a\<lparr>acc_localstore := LocalStore_RemoveSubWalletInfo chainID (acc_localstore a)\<rparr>"

definition MasterWallet_CreateSubWallet ::
    "('j, 'w) wallet_env \<Rightarrow> string \<Rightarrow> 'w MasterWallet \<Rightarrow> files \<Rightarrow> 'w MasterWallet \<times> files \<times> 'w outcome" where
  "MasterWallet_CreateSubWallet W chainID mw files =
     (if chainID = [] then (mw, files, Throw E_InvalidArgument)
      else if length chainID > 128 then (mw, files, Throw E_InvalidArgument)
      else case map_of (mw_createdWallets mw) chainID of
        Some sub \<Rightarrow> (mw, files, Ret sub)
      | None \<Rightarrow>
          (case Config_GetChainConfig (mw_config mw) chainID of
             None \<Rightarrow> (mw, files, Throw E_InvalidArgument)
           | Some config \<Rightarrow>
               let info = \<lparr>ci_chainID = chainID\<rparr> in
               (case SubWalletFactoryMethod W info config mw of
                  Ret sub \<Rightarrow>
                    let a = Account_AddSubWalletInfoList info (mw_account mw);
                        mw1 = mw\<lparr>mw_createdWallets := std_map_assign chainID sub (mw_createdWallets mw),
                                 mw_account := Account_Save a\<rparr>;
                        (files', r) = LocalStore_Save (we_text W) (acc_localstore a) files
                    in (mw1, files', omap (\<lambda>_. sub) r)
                | Throw e \<Rightarrow> (mw, files, Throw e)
                | Undef \<Rightarrow> (mw, files, Undef))))"

definition MasterWallet_GetSubWallet :: "string \<Rightarrow> 'w MasterWallet \<Rightarrow> 'w option" where
  "MasterWallet_GetSubWallet chainID mw = map_of (mw_createdWallets mw) chainID"

definition MasterWallet_GetAllSubWallets :: "'w MasterWallet \<Rightarrow> 'w list" where
  "MasterWallet_GetAllSubWallets mw = map snd (mw_createdWallets mw)"

definition MasterWallet_DestroyWallet ::
    "('j, 'w) wallet_env \<Rightarrow> string \<Rightarrow> 'w MasterWallet \<Rightarrow> files \<Rightarrow> 'w MasterWallet \<times> files \<times> unit outcome" where
  "MasterWallet_DestroyWallet W chainID mw files =
     (case map_of (mw_createdWallets mw) chainID of
        None \<Rightarrow> (mw, files, Throw E_InvalidArgument)
      | Some sub \<Rightarrow>
          let a = Account_RemoveSubWalletInfo chainID (mw_account mw);
              mw1 = mw\<lparr>mw_account := Account_Save a\<rparr>;
              (files', r) = LocalStore_Save (we_text W) (acc_localstore a) files
          in (if r = Ret () then mw1\<lparr>mw_createdWallets := std_map_erase chainID (mw_createdWallets mw)\<rparr> else mw1,
              files', r))"

definition MasterWallet_CloseAllSubWallets :: "'w MasterWallet \<Rightarrow> 'w MasterWallet" where
  "MasterWallet_CloseAllSubWallets mw = mw\<lparr>mw_createdWallets := []\<rparr>"

definition MasterWallet_RemoveLocalStore :: "'w MasterWallet \<Rightarrow> files \<Rightarrow> files" where
  "MasterWallet_RemoveLocalStore mw files = LocalStore_Remove (acc_localstore (mw_account mw)) files"

definition MasterWallet_IsEqual :: "'w MasterWallet \<Rightarrow> 'w MasterWallet \<Rightarrow> bool outcome" where
  "MasterWallet_IsEqual mw mw' = Account_Equal (mw_account mw) (mw_account mw')"

text \<open>
  The two changes of the password, each with the save at its end; a read-only account is left alone.  What an exception
  in the middle leaves of the account is not modelled.
\<close>

definition account_saved ::
    "('j, 'w) wallet_env \<Rightarrow> Account outcome \<Rightarrow> 'w MasterWallet \<Rightarrow> files \<Rightarrow> 'w MasterWallet \<times> files \<times> unit outcome" where
  "account_saved W changed mw files =
     (case changed of
        Ret a \<Rightarrow>
          if ls_readonly (acc_localstore (mw_account mw)) then (mw, files, Ret ())
          else (let (files', r) = LocalStore_Save (we_text W) (acc_localstore a) files
                in (mw\<lparr>mw_account := a\<rparr>, files', r))
      | Throw e \<Rightarrow> (mw, files, Throw e)
      | Undef \<Rightarrow> (mw, files, Undef))"

definition MasterWallet_ChangePassword ::
    "('j, 'w) wallet_env \<Rightarrow> string \<Rightarrow> string \<Rightarrow> 'w MasterWallet \<Rightarrow> files \<Rightarrow>
     'w MasterWallet \<times> files \<times> unit outcome" where
  "MasterWallet_ChangePassword W oldPassword newPassword mw =
     account_saved W (Account_ChangePassword (we_lib W) oldPassword newPassword (mw_account mw)) mw"

definition MasterWallet_ResetPassword ::
    "('j, 'w) wallet_env \<Rightarrow> string \<Rightarrow> string \<Rightarrow> string \<Rightarrow> 'w MasterWallet \<Rightarrow> files \<Rightarrow>
     'w MasterWallet \<times> files \<times> unit outcome" where
  "MasterWallet_ResetPassword W mnemonic passphrase newPassword mw =
     account_saved W (Account_ResetPassword (we_lib W) mnemonic passphrase newPassword (mw_account mw)) mw"

text \<open>
  \<open>ExportKeystore\<close> saves the account and writes its key store under the backup password; the random bytes of the two
  are arguments.
\<close>

definition MasterWallet_ExportKeystore ::
    "('j, 'w) wallet_env \<Rightarrow> string \<Rightarrow> string \<Rightarrow> bytes \<Rightarrow> bytes \<Rightarrow> 'w MasterWallet \<Rightarrow> ('j \<times> 'w MasterWallet) outcome" where
  "MasterWallet_ExportKeystore W backupPassword payPassword randomSalt randomIV mw =
     obind (CheckPassword backupPassword) (\<lambda>_.
     obind (Account_ExportKeystore (we_lib W) payPassword (Account_Save (mw_account mw))) (\<lambda>(json, a).
     obind (KeyStore_Export (we_ccm W) (we_text W) (WalletJson_of json) backupPassword True randomSalt randomIV) (\<lambda>j.
       Ret (j, mw\<lparr>mw_account := a\<rparr>))))"

end
