(* ===== verification/MasterManagerM.thy ===== *)
theory MasterManagerM
  imports MasterWalletM
begin

text \<open>
  The manager of master wallets: \<open>SDK/Implement/MasterWalletManager.cpp\<close>.  Its state is the map of the wallets with the
  folders below the data path; a pointer to a wallet is its name, or none for a null pointer.  The invariant of the states
  that can be reached, and what a manager finds that is started on what another one left.
\<close>

section \<open>The state\<close>

record 'w MasterWalletManager =
  mm_rootPath :: string
  mm_dataPath :: string
  mm_config :: Config
  mm_masterWalletMap :: "(string \<times> 'w MasterWallet option) list"
  mm_files :: files

text \<open>\<open>LoadMasterWalletID\<close> goes through the folders the data path has, in whatever order the system lists them.\<close>

definition lists_folders :: "string \<Rightarrow> files \<Rightarrow> string list \<Rightarrow> bool" where
  "lists_folders dataPath files names \<longleftrightarrow> set names = {n. files (wallet_path dataPath n) \<noteq> None}"

definition has_store :: "string \<Rightarrow> files \<Rightarrow> string \<Rightarrow> bool" where
  "has_store dataPath files name =
     (case files (wallet_path dataPath name) of None \<Rightarrow> False | Some d \<Rightarrow> fd_store d \<noteq> None \<or> fd_old d \<noteq> None)"

definition MasterWalletManager_LoadMasterWalletID ::
    "string list \<Rightarrow> 'w MasterWalletManager \<Rightarrow> 'w MasterWalletManager" where
  "MasterWalletManager_LoadMasterWalletID names m =
     m\<lparr>mm_masterWalletMap := fold (\<lambda>name ms. std_map_assign name None ms)
         (filter (has_store (mm_dataPath m) (mm_files m)) names) (mm_masterWalletMap m)\<rparr>"

text \<open>
  The constructor; \<open>exists\<close> says which paths are there.  The folder of a test network is made when it is not; it has no
  wallets then.
\<close>

definition MasterWalletManager_new ::
    "('j, 'w) wallet_env \<Rightarrow> (string \<Rightarrow> bool) \<Rightarrow> string list \<Rightarrow> string \<Rightarrow> string \<Rightarrow> 'j \<Rightarrow> string \<Rightarrow> files \<Rightarrow>
     'w MasterWalletManager outcome" where
  "MasterWalletManager_new W exists names rootPath netType config dataPath files =
     (let dataPath = (if dataPath = [] then rootPath else dataPath) in
      if \<not> exists rootPath then Throw E_PathNotExist
      else if \<not> exists dataPath then Throw E_PathNotExist
      else if netType \<noteq> ''MainNet'' \<and> netType \<noteq> ''TestNet'' \<and> netType \<noteq> ''RegTest'' \<and> netType \<noteq> ''PrvNet''
      then Throw E_InvalidArgument
      else let cfg = Config_of (we_json W) netType config;
               dataPath = (if cfg_netType cfg = ''MainNet'' then dataPath else dataPath @ ''/'' @ cfg_netType cfg)
           in Ret (MasterWalletManager_LoadMasterWalletID names
                \<lparr>mm_rootPath = rootPath, mm_dataPath = dataPath, mm_config = cfg, mm_masterWalletMap = [],
                 mm_files = files\<rparr>))"

section \<open>Loading and looking up\<close>

text \<open>Every standard exception is caught, and the wallet is null; what undefined behaviour gives stays undefined.\<close>

definition MasterWalletManager_LoadMasterWallet ::
    "('j, 'w) wallet_env \<Rightarrow> string \<Rightarrow> 'w MasterWalletManager \<Rightarrow> 'w MasterWalletManager \<times> string option outcome" where
  "MasterWalletManager_LoadMasterWallet W masterWalletID m =
     (if \<not> has_store (mm_dataPath m) (mm_files m) masterWalletID then (m, Ret None)
      else case MasterWallet_load W masterWalletID (mm_config m) (mm_dataPath m) (mm_files m) of
             Throw e \<Rightarrow> (m, Ret None)
           | Undef \<Rightarrow> (m, Undef)
           | Ret mw \<Rightarrow>
               (case MasterWallet_InitSubWallets W mw of
                  (mw', Ret _) \<Rightarrow>
                    (m\<lparr>mm_masterWalletMap := std_map_assign masterWalletID (Some mw') (mm_masterWalletMap m)\<rparr>,
                     Ret (Some masterWalletID))
                | (mw', Throw e) \<Rightarrow> (m, Ret None)
                | (mw', Undef) \<Rightarrow> (m, Undef)))"

definition MasterWalletManager_GetMasterWallet ::
    "('j, 'w) wallet_env \<Rightarrow> string \<Rightarrow> 'w MasterWalletManager \<Rightarrow> 'w MasterWalletManager \<times> string option outcome" where
  "MasterWalletManager_GetMasterWallet W masterWalletID m =
     (case map_of (mm_masterWalletMap m) masterWalletID of
        Some (Some mw) \<Rightarrow> (m, Ret (Some masterWalletID))
      | _ \<Rightarrow> MasterWalletManager_LoadMasterWallet W masterWalletID m)"

primrec GetAll_loop ::
    "('j, 'w) wallet_env \<Rightarrow> (string \<times> 'w MasterWallet option) list \<Rightarrow> 'w MasterWalletManager \<Rightarrow>
     'w MasterWalletManager \<times> string option list outcome" where
  "GetAll_loop W [] m = (m, Ret [])"
| "GetAll_loop W (e # es) m =
     (let (m1, r) = (if snd e \<noteq> None then (m, Ret (Some (fst e)))
                     else MasterWalletManager_LoadMasterWallet W (fst e) m)
      in case r of
           Ret p \<Rightarrow> (let (m2, rs) = GetAll_loop W es m1 in (m2, omap (Cons p) rs))
         | Throw x \<Rightarrow> (m1, Throw x)
         | Undef \<Rightarrow> (m1, Undef))"

text \<open>The loop assigns to entries the map has, so it meets the entries the map had when it began.\<close>

definition MasterWalletManager_GetAllMasterWallets ::
    "('j, 'w) wallet_env \<Rightarrow> 'w MasterWalletManager \<Rightarrow> 'w MasterWalletManager \<times> string option list outcome" where
  "MasterWalletManager_GetAllMasterWallets W m = GetAll_loop W (mm_masterWalletMap m) m"

definition MasterWalletManager_GetAllMasterWalletID :: "'w MasterWalletManager \<Rightarrow> string list" where
  "MasterWalletManager_GetAllMasterWalletID m = map fst (mm_masterWalletMap m)"

definition MasterWalletManager_WalletLoaded :: "string \<Rightarrow> 'w MasterWalletManager \<Rightarrow> bool" where
  "MasterWalletManager_WalletLoaded masterWalletID m =
     (case map_of (mm_masterWalletMap m) masterWalletID of None \<Rightarrow> False | Some w \<Rightarrow> w \<noteq> None)"

definition MasterWalletManager_DestroyWallet :: "string \<Rightarrow> 'w MasterWalletManager \<Rightarrow> 'w MasterWalletManager" where
  "MasterWalletManager_DestroyWallet masterWalletID m =
     (case map_of (mm_masterWalletMap m) masterWalletID of
        Some (Some mw) \<Rightarrow>
          m\<lparr>mm_files := MasterWallet_RemoveLocalStore mw (mm_files m),
            mm_masterWalletMap := std_map_erase (mw_id mw) (mm_masterWalletMap m)\<rparr>
      | _ \<Rightarrow> m)"

section \<open>Making wallets\<close>

text \<open>A new wallet is compared with the wallets that are loaded.\<close>

primrec is_redundant :: "'w MasterWallet \<Rightarrow> (string \<times> 'w MasterWallet option) list \<Rightarrow> bool outcome" where
  "is_redundant mw [] = Ret False"
| "is_redundant mw (e # es) =
     (case snd e of
        None \<Rightarrow> is_redundant mw es
      | Some created \<Rightarrow> obind (MasterWallet_IsEqual mw created) (\<lambda>same. if same then Ret True else is_redundant mw es))"

definition MasterWalletManager_checkRedundant ::
    "'w MasterWallet \<Rightarrow> 'w MasterWalletManager \<Rightarrow> 'w MasterWalletManager \<times> unit outcome" where
  "MasterWalletManager_checkRedundant mw m =
     (case is_redundant mw (mm_masterWalletMap m) of
        Ret hasRedundant \<Rightarrow>
          if hasRedundant
          then (m\<lparr>mm_files := MasterWallet_RemoveLocalStore mw (mm_files m)\<rparr>, Throw E_CreateMasterWalletError)
          else (m, Ret ())
      | Throw e \<Rightarrow> (m, Throw e)
      | Undef \<Rightarrow> (m, Undef))"

text \<open>
  What the methods do behind their checks: an entry that is there is returned, loaded or not; otherwise the account is
  made and saved, the wallet compared and entered.
\<close>

definition add_wallet ::
    "('j, 'w) wallet_env \<Rightarrow> string \<Rightarrow> Account outcome \<Rightarrow> 'w MasterWalletManager \<Rightarrow>
     'w MasterWalletManager \<times> string option outcome" where
  "add_wallet W masterWalletID made m =
     (case MasterWallet_saved W masterWalletID (mm_config m) made (mm_files m) of
        (files', Ret mw) \<Rightarrow>
          (case MasterWalletManager_checkRedundant mw (m\<lparr>mm_files := files'\<rparr>) of
             (m', Ret _) \<Rightarrow>
               (m'\<lparr>mm_masterWalletMap := std_map_assign masterWalletID (Some mw) (mm_masterWalletMap m')\<rparr>,
                Ret (Some masterWalletID))
           | (m', Throw e) \<Rightarrow> (m', Throw e)
           | (m', Undef) \<Rightarrow> (m', Undef))
      | (files', Throw e) \<Rightarrow> (m\<lparr>mm_files := files'\<rparr>, Throw e)
      | (files', Undef) \<Rightarrow> (m\<lparr>mm_files := files'\<rparr>, Undef))"

definition unless_entered ::
    "string \<Rightarrow> 'w MasterWalletManager \<Rightarrow> ('w MasterWalletManager \<Rightarrow> 'w MasterWalletManager \<times> string option outcome) \<Rightarrow>
     'w MasterWalletManager \<times> string option outcome" where
  "unless_entered masterWalletID m k =
     (case map_of (mm_masterWalletMap m) masterWalletID of
        Some w \<Rightarrow> (m, Ret (if w = None then None else Some masterWalletID))
      | None \<Rightarrow> k m)"

text \<open>A check that throws leaves the manager as it is.\<close>

definition checked ::
    "'a outcome \<Rightarrow> 'w MasterWalletManager \<Rightarrow> ('a \<Rightarrow> 'w MasterWalletManager \<times> 'b outcome) \<Rightarrow>
     'w MasterWalletManager \<times> 'b outcome" where
  "checked check m k = (case check of Ret x \<Rightarrow> k x | Throw e \<Rightarrow> (m, Throw e) | Undef \<Rightarrow> (m, Undef))"

definition CheckParamNotEmpty :: "string \<Rightarrow> unit outcome" where
  "CheckParamNotEmpty argument = (if argument = [] then Throw E_InvalidArgument else Ret ())"

definition CheckPasswordWithNullLegal :: "string \<Rightarrow> unit outcome" where
  "CheckPasswordWithNullLegal password = (if password = [] then Ret () else CheckPassword password)"

definition check_that :: "bool \<Rightarrow> error_code \<Rightarrow> unit outcome" where
  "check_that ok e = (if ok then Ret () else Throw e)"

definition check_mnemonic :: "account_lib \<Rightarrow> string \<Rightarrow> unit outcome" where
  "check_mnemonic lib mnemonic = obind (Mnemonic_Validate_text (al_text lib) mnemonic) (\<lambda>valid. check_that valid E_Mnemonic)"

definition MasterWalletManager_CreateMasterWallet ::
    "('j, 'w) wallet_env \<Rightarrow> string \<Rightarrow> string \<Rightarrow> string \<Rightarrow> string \<Rightarrow> bool \<Rightarrow> 'w MasterWalletManager \<Rightarrow>
     'w MasterWalletManager \<times> string option outcome" where
  "MasterWalletManager_CreateMasterWallet W masterWalletID mnemonic passphrase passwd singleAddress m =
     checked (CheckParamNotEmpty masterWalletID) m (\<lambda>_.
     checked (CheckParamNotEmpty mnemonic) m (\<lambda>_.
     checked (CheckPassword passwd) m (\<lambda>_.
     checked (CheckPasswordWithNullLegal passphrase) m (\<lambda>_.
     unless_entered masterWalletID m (\<lambda>m.
     checked (check_mnemonic (we_lib W) mnemonic) m (\<lambda>_.
       add_wallet W masterWalletID
         (MasterWallet_Account_of_mnemonic W masterWalletID mnemonic passphrase passwd singleAddress (mm_dataPath m)) m))))))"

definition MasterWalletManager_CreateMasterWallet_single ::
    "('j, 'w) wallet_env \<Rightarrow> string \<Rightarrow> string \<Rightarrow> string \<Rightarrow> 'w MasterWalletManager \<Rightarrow>
     'w MasterWalletManager \<times> string option outcome" where
  "MasterWalletManager_CreateMasterWallet_single W masterWalletID singlePrivateKey passwd m =
     checked (CheckParamNotEmpty masterWalletID) m (\<lambda>_.
     checked (CheckPassword passwd) m (\<lambda>_.
     unless_entered masterWalletID m (\<lambda>m.
       add_wallet W masterWalletID
         (MasterWallet_Account_of_single_key W masterWalletID singlePrivateKey passwd (mm_dataPath m)) m)))"

text \<open>The extended keys of the cosigners, of which no two may be the same text; \<open>also\<close> is the further check of one method.\<close>

primrec cosigner_rings ::
    "'j json_env \<Rightarrow> (string \<Rightarrow> bool) \<Rightarrow> 'j list \<Rightarrow> PublicKeyRing list \<Rightarrow> PublicKeyRing list outcome" where
  "cosigner_rings E valid [] rings = Ret rings"
| "cosigner_rings E valid (v # vs) rings =
     (case je_get_str E v of
        None \<Rightarrow> Throw E_PubKeyFormat
      | Some xpub \<Rightarrow>
          if \<not> valid xpub then Throw E_PubKeyFormat
          else if list_ex (\<lambda>r. pkr_xPubKey r = xpub) rings then Throw E_PubKeyFormat
          else cosigner_rings E valid vs (rings @ [PublicKeyRing_of [] xpub]))"

definition MasterWalletManager_CreateMultiSignMasterWallet ::
    "('j, 'w) wallet_env \<Rightarrow> string \<Rightarrow> 'j \<Rightarrow> u32 \<Rightarrow> bool \<Rightarrow> bool \<Rightarrow> 'w MasterWalletManager \<Rightarrow>
     'w MasterWalletManager \<times> string option outcome" where
  "MasterWalletManager_CreateMultiSignMasterWallet W masterWalletID cosigners n singleAddress compatible m =
     checked (CheckParamNotEmpty masterWalletID) m (\<lambda>_.
     checked (check_that (je_is_array (we_json W) cosigners) E_PubKeyFormat) m (\<lambda>_.
     checked (check_that (length (je_elems (we_json W) cosigners) \<ge> 2) E_PubKeyFormat) m (\<lambda>_.
     checked (check_that (n \<ge> 1) E_InvalidArgument) m (\<lambda>_.
     checked (cosigner_rings (we_json W) (\<lambda>_. True) (je_elems (we_json W) cosigners) []) m (\<lambda>pubKeyRing.
     unless_entered masterWalletID m (\<lambda>m.
       add_wallet W masterWalletID
         (MasterWallet_Account_of_cosigners W masterWalletID pubKeyRing n (mm_dataPath m) singleAddress compatible) m))))))"

definition MasterWalletManager_CreateMultiSignMasterWallet_xprv ::
    "('j, 'w) wallet_env \<Rightarrow> string \<Rightarrow> string \<Rightarrow> string \<Rightarrow> 'j \<Rightarrow> u32 \<Rightarrow> bool \<Rightarrow> bool \<Rightarrow> 'w MasterWalletManager \<Rightarrow>
     'w MasterWalletManager \<times> string option outcome" where
  "MasterWalletManager_CreateMultiSignMasterWallet_xprv W masterWalletID xprv payPassword cosigners n singleAddress
       compatible m =
     checked (CheckParamNotEmpty masterWalletID) m (\<lambda>_.
     checked (CheckPassword payPassword) m (\<lambda>_.
     checked (check_that (je_is_array (we_json W) cosigners) E_PubKeyFormat) m (\<lambda>_.
     checked (check_that (je_elems (we_json W) cosigners \<noteq> []) E_PubKeyFormat) m (\<lambda>_.
     checked (check_that (n \<ge> 1) E_InvalidArgument) m (\<lambda>_.
     checked (cosigner_rings (we_json W) (\<lambda>_. True) (je_elems (we_json W) cosigners) []) m (\<lambda>pubKeyRing.
     unless_entered masterWalletID m (\<lambda>m.
       add_wallet W masterWalletID
         (MasterWallet_Account_of_xprv W masterWalletID xprv payPassword pubKeyRing n (mm_dataPath m) singleAddress
            compatible) m)))))))"

definition MasterWalletManager_CreateMultiSignMasterWallet_mnemonic ::
    "('j, 'w) wallet_env \<Rightarrow> string \<Rightarrow> string \<Rightarrow> string \<Rightarrow> string \<Rightarrow> 'j \<Rightarrow> u32 \<Rightarrow> bool \<Rightarrow> bool \<Rightarrow>
     'w MasterWalletManager \<Rightarrow> 'w MasterWalletManager \<times> string option outcome" where
  "MasterWalletManager_CreateMultiSignMasterWallet_mnemonic W masterWalletID mnemonic passphrase payPassword cosigners n
       singleAddress compatible m =
     checked (CheckParamNotEmpty masterWalletID) m (\<lambda>_.
     checked (CheckParamNotEmpty mnemonic) m (\<lambda>_.
     checked (CheckPassword payPassword) m (\<lambda>_.
     checked (CheckPasswordWithNullLegal passphrase) m (\<lambda>_.
     checked (check_that (je_is_array (we_json W) cosigners) E_PubKeyFormat) m (\<lambda>_.
     checked (check_that (n \<ge> 1) E_InvalidArgument) m (\<lambda>_.
     unless_entered masterWalletID m (\<lambda>m.
     checked (cosigner_rings (we_json W) (\<lambda>xpub. Base58_CheckDecode (al_sha256_2 (we_lib W)) xpub \<noteq> None)
         (je_elems (we_json W) cosigners) []) m (\<lambda>pubKeyRing.
       add_wallet W masterWalletID
         (MasterWallet_Account_of_mnemonic_cosigner W masterWalletID mnemonic passphrase payPassword pubKeyRing n
            (mm_dataPath m) singleAddress compatible) m))))))))"

text \<open>The wallet of a key store is entered before its sub-wallets are opened; when that throws it stays.\<close>

definition MasterWalletManager_ImportWalletWithKeystore ::
    "('j, 'w) wallet_env \<Rightarrow> string \<Rightarrow> 'j \<Rightarrow> string \<Rightarrow> string \<Rightarrow> 'w MasterWalletManager \<Rightarrow>
     'w MasterWalletManager \<times> string option outcome" where
  "MasterWalletManager_ImportWalletWithKeystore W masterWalletID keystoreContent backupPassword payPassword m =
     checked (CheckParamNotEmpty masterWalletID) m (\<lambda>_.
     checked (check_that (je_is_object (we_json W) keystoreContent) E_KeyStore) m (\<lambda>_.
     checked (CheckPassword backupPassword) m (\<lambda>_.
     unless_entered masterWalletID m (\<lambda>m.
       case add_wallet W masterWalletID
              (MasterWallet_Account_of_keystore W masterWalletID keystoreContent backupPassword payPassword (mm_dataPath m)) m of
         (m', Ret p) \<Rightarrow>
           (case map_of (mm_masterWalletMap m') masterWalletID of
              Some (Some mw) \<Rightarrow>
                (let (mw', r) = MasterWallet_InitSubWallets W mw
                 in (m'\<lparr>mm_masterWalletMap := std_map_assign masterWalletID (Some mw') (mm_masterWalletMap m')\<rparr>,
                     omap (\<lambda>_. p) r))
            | _ \<Rightarrow> (m', Undef))
       | (m', Throw e) \<Rightarrow> (m', Throw e)
       | (m', Undef) \<Rightarrow> (m', Undef)))))"

definition MasterWalletManager_ImportWalletWithMnemonic ::
    "('j, 'w) wallet_env \<Rightarrow> string \<Rightarrow> string \<Rightarrow> string \<Rightarrow> string \<Rightarrow> bool \<Rightarrow> 'w MasterWalletManager \<Rightarrow>
     'w MasterWalletManager \<times> string option outcome" where
  "MasterWalletManager_ImportWalletWithMnemonic W masterWalletID mnemonic phrasePassword payPassword singleAddress m =
     checked (CheckParamNotEmpty masterWalletID) m (\<lambda>_.
     checked (CheckParamNotEmpty mnemonic) m (\<lambda>_.
     checked (CheckPasswordWithNullLegal phrasePassword) m (\<lambda>_.
     checked (CheckPassword payPassword) m (\<lambda>_.
     unless_entered masterWalletID m (\<lambda>m.
     checked (check_mnemonic (we_lib W) mnemonic) m (\<lambda>_.
       add_wallet W masterWalletID
         (MasterWallet_Account_of_mnemonic W masterWalletID mnemonic phrasePassword payPassword singleAddress
            (mm_dataPath m)) m))))))"

definition seed_and_mnemonic :: "account_lib \<Rightarrow> string \<Rightarrow> string \<Rightarrow> string \<Rightarrow> uint512 outcome" where
  "seed_and_mnemonic lib seed mnemonic passphrase =
     obind (setHex seed) (\<lambda>seedBytes.
     let s = uint512_of_bytes seedBytes in
     if mnemonic \<noteq> []
     then obind (check_mnemonic lib mnemonic) (\<lambda>_.
          obind (Mnemonic_DeriveSeed (al_text lib) mnemonic passphrase) (\<lambda>stmp.
            if s \<noteq> stmp then Throw E_Mnemonic else Ret s))
     else Ret s)"

definition MasterWalletManager_ImportWalletWithSeed ::
    "('j, 'w) wallet_env \<Rightarrow> string \<Rightarrow> string \<Rightarrow> string \<Rightarrow> bool \<Rightarrow> string \<Rightarrow> string \<Rightarrow> 'w MasterWalletManager \<Rightarrow>
     'w MasterWalletManager \<times> string option outcome" where
  "MasterWalletManager_ImportWalletWithSeed W masterWalletID seed payPassword singleAddress mnemonic passphrase m =
     checked (CheckParamNotEmpty masterWalletID) m (\<lambda>_.
     checked (CheckPassword payPassword) m (\<lambda>_.
     checked (seed_and_mnemonic (we_lib W) seed mnemonic passphrase) m (\<lambda>s.
     unless_entered masterWalletID m (\<lambda>m.
       add_wallet W masterWalletID
         (MasterWallet_Account_of_seed W masterWalletID s payPassword singleAddress mnemonic passphrase (mm_dataPath m)) m))))"

section \<open>Operations on a loaded wallet\<close>

definition on_wallet ::
    "string \<Rightarrow> ('w MasterWallet \<Rightarrow> files \<Rightarrow> 'w MasterWallet \<times> files \<times> 'a outcome) \<Rightarrow> 'w MasterWalletManager \<Rightarrow>
     'w MasterWalletManager \<times> 'a outcome" where
  "on_wallet masterWalletID f m =
     (case map_of (mm_masterWalletMap m) masterWalletID of
        Some (Some mw) \<Rightarrow>
          (let (mw', files', r) = f mw (mm_files m)
           in (m\<lparr>mm_masterWalletMap := std_map_assign masterWalletID (Some mw') (mm_masterWalletMap m),
                 mm_files := files'\<rparr>, r))
      | _ \<Rightarrow> (m, Undef))"

end
