(* ===== verification/MasterInvariant.thy ===== *)
theory MasterInvariant
  imports MasterManagerM
begin

text \<open>
  The states the manager of \<open>MasterManagerM\<close> can reach, as an inductive relation with one rule for every operation,
  and their invariant: each loaded wallet is entered under its own name, its account is what \<open>Init\<close> makes of its
  store, the store is on disk as far as it can be written, and the chains that are open are listed in it.
\<close>

section \<open>Accounts and their stores\<close>

text \<open>\<open>Init\<close> reads these members of a store only.\<close>

definition same_keys :: "LocalStore \<Rightarrow> LocalStore \<Rightarrow> bool" where
  "same_keys s s' \<longleftrightarrow> ls_ownerPubKey s = ls_ownerPubKey s' \<and> ls_requestPubKey s = ls_requestPubKey s' \<and>
     ls_publicKeyRing s = ls_publicKeyRing s' \<and> ls_xPubKey s = ls_xPubKey s' \<and>
     ls_xPubKeyBitcoin s = ls_xPubKeyBitcoin s' \<and> ls_xPubKeyHDPM s = ls_xPubKeyHDPM s' \<and> ls_n s = ls_n s' \<and>
     ls_derivationStrategy s = ls_derivationStrategy s'"

lemma omap_obind: "omap f (obind m k) = obind m (\<lambda>x. omap f (k x))"
  by (cases m) (simp_all add: omap_def)

lemma obind_omap: "obind (omap f m) k = obind m (\<lambda>x. k (f x))"
  by (cases m) (simp_all add: omap_def)

lemma omap_if: "omap f (if b then m else m') = (if b then omap f m else omap f m')"
  by simp

lemma omap_fails [simp]: "omap f (Throw e) = Throw e" "omap f Undef = Undef"
  by (simp_all add: omap_def)

text \<open>The update of the store goes outside the others.\<close>

lemma store_last:
  "a\<lparr>acc_localstore := s, acc_cosignerIndex := j\<rparr> = a\<lparr>acc_cosignerIndex := j, acc_localstore := s\<rparr>"
  "a\<lparr>acc_localstore := s, acc_ownerPubKey := ow\<rparr> = a\<lparr>acc_ownerPubKey := ow, acc_localstore := s\<rparr>"
  "a\<lparr>acc_localstore := s, acc_requestPubKey := rq\<rparr> = a\<lparr>acc_requestPubKey := rq, acc_localstore := s\<rparr>"
  "a\<lparr>acc_localstore := s, acc_xpub := x\<rparr> = a\<lparr>acc_xpub := x, acc_localstore := s\<rparr>"
  "a\<lparr>acc_localstore := s, acc_btcMasterPubKey := bt\<rparr> = a\<lparr>acc_btcMasterPubKey := bt, acc_localstore := s\<rparr>"
  "a\<lparr>acc_localstore := s, acc_curMultiSigner := cur\<rparr> = a\<lparr>acc_curMultiSigner := cur, acc_localstore := s\<rparr>"
  "a\<lparr>acc_localstore := s, acc_allMultiSigners := ks\<rparr> = a\<lparr>acc_allMultiSigners := ks, acc_localstore := s\<rparr>"
  by simp_all

lemma bip45_loop_store:
  "bip45_loop lib ss i (a\<lparr>acc_localstore := s\<rparr>) = omap (\<lambda>b. b\<lparr>acc_localstore := s\<rparr>) (bip45_loop lib ss i a)"
proof (induction ss arbitrary: i a)
  case (Cons k ss)
  let ?mine = "case acc_curMultiSigner a of Some cur \<Rightarrow> acc_cosignerIndex a = - 1 \<and> HDKeychain_eq cur k | None \<Rightarrow> False"
  have c: "(case acc_curMultiSigner (a\<lparr>acc_localstore := s\<rparr>) of
      Some cur \<Rightarrow> acc_cosignerIndex (a\<lparr>acc_localstore := s\<rparr>) = - 1 \<and> HDKeychain_eq cur k | None \<Rightarrow> False) = ?mine"
    by (simp split: option.split)
  show ?case
    unfolding bip45_loop.simps c by (cases ?mine) (simp_all add: Let_def omap_obind omap_if store_last Cons.IH)
qed simp

lemma Account_Init_signers_store:
  assumes "same_keys (acc_localstore a) s"
  shows "Account_Init_signers lib (a\<lparr>acc_localstore := s\<rparr>) =
    omap (\<lambda>b. b\<lparr>acc_localstore := s\<rparr>) (Account_Init_signers lib a)"
proof -
  have f: "ls_n (acc_localstore a) = ls_n s" "ls_derivationStrategy (acc_localstore a) = ls_derivationStrategy s"
    "ls_publicKeyRing (acc_localstore a) = ls_publicKeyRing s"
    using assms by (simp_all add: same_keys_def)
  have o: "omap (\<lambda>b. b\<lparr>acc_localstore := s\<rparr>) (omap (\<lambda>ks. a\<lparr>acc_curMultiSigner := acc_xpub a,
      acc_allMultiSigners := acc_allMultiSigners a @ ks\<rparr>) m) =
    omap (\<lambda>ks. a\<lparr>acc_curMultiSigner := acc_xpub a, acc_allMultiSigners := acc_allMultiSigners a @ ks,
      acc_localstore := s\<rparr>) m" for m
    by (cases m) simp_all
  show ?thesis
    by (simp add: Account_Init_signers_def Let_def f o store_last bip45_loop_store omap_obind cong: if_cong)
qed

lemma Account_Init_store:
  assumes "same_keys (acc_localstore a) s"
  shows "Account_Init lib (a\<lparr>acc_localstore := s\<rparr>) = omap (\<lambda>b. b\<lparr>acc_localstore := s\<rparr>) (Account_Init lib a)"
proof -
  have f: "ls_ownerPubKey (acc_localstore a) = ls_ownerPubKey s" "ls_requestPubKey (acc_localstore a) = ls_requestPubKey s"
    "ls_publicKeyRing (acc_localstore a) = ls_publicKeyRing s" "ls_xPubKey (acc_localstore a) = ls_xPubKey s"
    "ls_xPubKeyBitcoin (acc_localstore a) = ls_xPubKeyBitcoin s" "ls_xPubKeyHDPM (acc_localstore a) = ls_xPubKeyHDPM s"
    using assms by (simp_all add: same_keys_def)
  show ?thesis
    using assms by (simp add: Account_Init_def Let_def f omap_obind omap_if store_last Account_Init_signers_store cong: if_cong)
qed

lemma Account_of_store_same:
  assumes "same_keys s s'" and "Account_of_store lib s = Ret a"
  shows "Account_of_store lib s' = Ret (a\<lparr>acc_localstore := s'\<rparr>)"
proof -
  have "Account_raw s' = (Account_raw s)\<lparr>acc_localstore := s'\<rparr>" by (simp add: Account_raw_def)
  then show ?thesis
    using Account_Init_store [of "Account_raw s" s' lib] assms by (simp add: Account_of_store_def Account_raw_def)
qed

lemma bip45_loop_disk: "bip45_loop lib ss i a = Ret b \<Longrightarrow> acc_disk b = acc_disk a"
  by (induction ss arbitrary: i a) (auto simp: obind_eq_Ret Let_def split: if_splits)

lemma Account_Init_keeps:
  assumes "Account_Init lib a = Ret b"
  shows "acc_localstore b = acc_localstore a" and "acc_disk b = acc_disk a"
proof -
  show "acc_localstore b = acc_localstore a" using Account_Init_signers [OF assms] by blast
  show "acc_disk b = acc_disk a"
    using assms by (auto simp: Account_Init_def Account_Init_signers_def Let_def obind_eq_Ret omap_def
        dest!: bip45_loop_disk split: if_splits)
qed

text \<open>What every constructor of an account gives: \<open>Init\<close> of the store it has made for its path.\<close>

definition account_made :: "account_lib \<Rightarrow> string \<Rightarrow> Account \<Rightarrow> bool" where
  "account_made lib path a \<longleftrightarrow> Account_of_store lib (acc_localstore a) = Ret a \<and>
     ls_path (acc_localstore a) = path \<and> store_ints (acc_localstore a)"

lemma account_madeI:
  assumes "Account_Init lib (Account_raw s) = Ret a" and "ls_path s = path" and "store_ints s"
  shows "account_made lib path a"
  using assms Account_Init_keeps(1) [OF assms(1)]
  by (simp add: account_made_def Account_of_store_def Account_raw_def)

lemma int32_small [simp]: "int32 0" "int32 1" "int32 (int n) \<longleftrightarrow> n < 2 ^ 31" "int32 (int n + 1) \<longleftrightarrow> n < 2 ^ 31 - 1"
  by (simp_all add: int32_def)

lemma int32_sint [simp]: "int32 (sint (w :: u32))"
  using sint_range_size [of w] by (simp add: int32_def word_size)

lemma json_as_int_range: "json_as_int E v = Ret n \<Longrightarrow> int32 n"
  by (auto simp: json_as_int_def omap_def obind_eq_Ret)

lemma cosigners_made:
  "Account_of_cosigners lib path cosigners (sint (m :: u32)) single compatible = Ret a \<Longrightarrow> account_made lib path a"
  by (auto simp: Account_of_cosigners_def store_ints_def LocalStore_of_path_def MAX_MULTISIGN_COSIGNERS_def
      intro!: account_madeI split: if_splits)

lemma cosigner_store_made:
  assumes "cosigner_store lib rootkey cosigners (sint (m :: u32)) single compatible xpub pub enc s = Ret s'"
    and "length cosigners + 1 \<le> MAX_MULTISIGN_COSIGNERS" and "int32 (ls_account s)"
  shows "ls_path s' = ls_path s" and "store_ints s'"
  using assms
  by (auto simp: cosigner_store_def store_ints_def LocalStore_AddPublicKeyRing_def MAX_MULTISIGN_COSIGNERS_def Let_def
      obind_eq_Ret split: if_splits)

lemma xprv_made:
  assumes "Account_of_xprv lib path xprv passwd cosigners (sint (m :: u32)) single compatible = Ret a"
  shows "account_made lib path a"
proof -
  obtain rootkey xpub pub enc encPrv s where
    s: "cosigner_store lib rootkey cosigners (sint m) single compatible xpub pub enc
      ((LocalStore_of_path path)\<lparr>ls_xPrivKey := encPrv\<rparr>) = Ret s"
    and i: "Account_Init lib (Account_raw s) = Ret a" and l: "length cosigners + 1 \<le> MAX_MULTISIGN_COSIGNERS"
    using assms by (auto simp: Account_of_xprv_def obind_eq_Ret not_less split: if_splits option.splits)
  show ?thesis
    by (rule account_madeI [OF i]) (use cosigner_store_made [OF s l] in \<open>simp_all add: LocalStore_of_path_def\<close>)
qed

lemma seed_store_made:
  assumes "seed_store lib path root std seed mnemonic passphrase passwd = Ret s"
  shows "ls_path s = path" and "ls_account s = 0"
  using assms by (auto simp: seed_store_def obind_eq_Ret LocalStore_of_path_def)

lemma mnemonic_cosigner_made:
  assumes "Account_of_mnemonic_cosigner lib path mnemonic passphrase passwd cosigners (sint (m :: u32)) single compatible = Ret a"
  shows "account_made lib path a"
proof -
  obtain rootkey std seed xpub pub enc s0 s where
    s0: "seed_store lib path rootkey std seed mnemonic passphrase passwd = Ret s0"
    and s: "cosigner_store lib rootkey cosigners (sint m) single compatible xpub pub enc s0 = Ret s"
    and i: "Account_Init lib (Account_raw s) = Ret a" and l: "length cosigners + 1 \<le> MAX_MULTISIGN_COSIGNERS"
    using assms by (auto simp: Account_of_mnemonic_cosigner_def obind_eq_Ret not_less split: if_splits)
  show ?thesis
    by (rule account_madeI [OF i]) (use cosigner_store_made [OF s l] seed_store_made [OF s0] in simp_all)
qed

lemma seed_made:
  assumes "Account_of_seed lib path seed passwd single mnemonic passphrase = Ret a"
  shows "account_made lib path a"
proof -
  obtain root std s request xpub hdpm enc owner where s: "seed_store lib path root std seed mnemonic passphrase passwd = Ret s"
    and i: "Account_Init lib (Account_raw (single_store s single request xpub hdpm enc owner)) = Ret a"
    using assms unfolding Account_of_seed_def single_store_def by (auto simp: obind_eq_Ret)
  show ?thesis
    by (rule account_madeI [OF i]) (use seed_store_made [OF s] in \<open>simp_all add: single_store_def store_ints_def\<close>)
qed

lemma mnemonic_made:
  "Account_of_mnemonic lib path mnemonic passphrase passwd single = Ret a \<Longrightarrow> account_made lib path a"
  by (auto simp: Account_of_mnemonic_def obind_eq_Ret intro: seed_made)

lemma single_key_made: "Account_of_single_key lib path key passwd = Ret a \<Longrightarrow> account_made lib path a"
  by (auto simp: Account_of_single_key_def obind_eq_Ret store_ints_def LocalStore_of_path_def intro!: account_madeI)

lemma keystore_made:
  assumes "Account_of_keystore lib path json passwd = Ret a" and "int32 (js_m json)" and "int32 (js_n json)"
  shows "account_made lib path a"
  using assms
  by (auto simp: Account_of_keystore_def keystore_store_def obind_eq_Ret store_ints_def LocalStore_of_path_def
      intro!: account_madeI)

text \<open>The numbers of a key store are read into an \<open>int\<close>.\<close>

definition wallet_ints :: "WalletJson \<Rightarrow> bool" where
  "wallet_ints w \<longleftrightarrow> int32 (js_m w) \<and> int32 (js_n w)"

lemma json_or_int: "json_or E j k 0 (json_as_int E) = Ret n \<Longrightarrow> int32 n"
  by (auto simp: json_or_def obind_eq_Ret json_as_int_range split: if_splits)

lemma bitcore_ints: "BitcoreWalletClientJson_FromJson E j w = Ret w' \<Longrightarrow> wallet_ints w'"
  by (auto simp: BitcoreWalletClientJson_FromJson_def Let_def obind_eq_Ret wallet_ints_def dest: json_or_int)

lemma renew_ints:
  "renew_seed lib p w = Ret w' \<Longrightarrow> wallet_ints w' = wallet_ints w"
  "renew_xPrivKey lib w = Ret w' \<Longrightarrow> wallet_ints w' = wallet_ints w"
  by (auto simp: renew_seed_def renew_xPrivKey_def omap_def obind_eq_Ret wallet_ints_def split: if_splits)

lemma renew_keys_ints:
  assumes "renew_keys lib w = Ret w'"
  shows "wallet_ints w' = wallet_ints w"
  using assms by (cases rule: renew_keys_cases) (simp_all add: wallet_ints_def)

lemma ElaNewWalletJson_renew_ints:
  assumes "ElaNewWalletJson_renew lib p w = Ret w'"
  shows "wallet_ints w' = wallet_ints w"
proof -
  obtain w1 w2 w3 e r b where "renew_seed lib p w = Ret w1" "renew_xPrivKey lib w1 = Ret w2" "renew_keys lib w2 = Ret w3"
    and "w' = w3\<lparr>js_ethscPrimaryPubKey := e, js_ripplePrimaryPubKey := r, js_xPubKeyBitcoin := b\<rparr>"
    using assms unfolding ElaNewWalletJson_renew_def by (auto simp: obind_eq_Ret)
  then show ?thesis using renew_ints renew_keys_ints by (simp add: wallet_ints_def)
qed

lemma ElaNewWalletJson_read_ints: "ElaNewWalletJson_read E j w = Ret (w', p) \<Longrightarrow> wallet_ints w' = wallet_ints w"
  by (auto simp: ElaNewWalletJson_read_def Let_def obind_eq_Ret wallet_ints_def)

lemma ElaNewWalletJson_FromJson_ints:
  assumes "ElaNewWalletJson_FromJson lib E j w = Ret w'"
  shows "wallet_ints w'"
proof -
  obtain w0 m w2 p where "BitcoreWalletClientJson_FromJson E j w = Ret w0"
    and "ElaNewWalletJson_read E j (w0\<lparr>js_mnemonic := m\<rparr>) = Ret (w2, p)" and "ElaNewWalletJson_renew lib p w2 = Ret w'"
    using assms
    by (auto simp: ElaNewWalletJson_FromJson_def ElaWebWalletJson_FromJson_def ElaNewWalletJson_FromJsonCommon_def
        obind_eq_Ret)
  moreover have "wallet_ints (w0\<lparr>js_mnemonic := m\<rparr>) = wallet_ints w0" by (simp add: wallet_ints_def)
  ultimately show ?thesis
    using bitcore_ints ElaNewWalletJson_read_ints ElaNewWalletJson_renew_ints by metis
qed

lemma KeyStore_Import_ints: "KeyStore_Import lib cc T json passwd w = Ret w' \<Longrightarrow> wallet_ints w'"
  by (auto simp: KeyStore_Import_def obind_eq_Ret intro: ElaNewWalletJson_FromJson_ints split: if_splits)

section \<open>Stores on disk\<close>

lemma eth_key_kept_Nil [simp]: "eth_key_kept [] = []"
  by (simp add: eth_key_kept_def)

lemma CoinInfo_kept_twice [simp]: "CoinInfo_kept (CoinInfo_kept c) = CoinInfo_kept c"
  by (simp add: CoinInfo_kept_def)

lemma CoinInfo_read_kept: "CoinInfo_FromJson E j = Ret c \<Longrightarrow> CoinInfo_kept c = c"
  by (auto simp: CoinInfo_FromJson_def CoinInfo_kept_def obind_eq_Ret split: if_splits)

lemma map_outcome_all: "map_outcome f xs = Ret ys \<Longrightarrow> (\<And>x y. f x = Ret y \<Longrightarrow> P y) \<Longrightarrow> \<forall>y \<in> set ys. P y"
  by (induction xs arbitrary: ys) (auto simp: omap_def obind_eq_Ret)

lemma json_as_coins_read_kept:
  assumes "json_as_coins E v = Ret cs"
  shows "map CoinInfo_kept cs = cs"
proof -
  obtain xs where "map_outcome (CoinInfo_FromJson E) xs = Ret cs"
    using assms by (auto simp: json_as_coins_def obind_eq_Ret)
  then have "\<forall>c \<in> set cs. CoinInfo_kept c = c" by (rule map_outcome_all) (rule CoinInfo_read_kept)
  then show ?thesis by (simp add: map_idI)
qed

lemma json_or_eth:
  "json_or E j k [] (\<lambda>v. omap eth_key_kept (json_as_str E v)) = Ret e \<Longrightarrow> eth_key_kept e = e"
  by (auto simp: json_or_def omap_def obind_eq_Ret eth_key_kept_twice split: if_splits)

lemma FromJson_new_kept:
  assumes "LocalStore_FromJson_new E j s = Ret s'"
  shows "LocalStore_kept s' = s' \<and> store_ints s' \<and> ls_path s' = ls_path s"
proof -
  obtain m n acc eth coins where "json_int E j ''m'' = Ret m" "json_int E j ''n'' = Ret n"
    "json_int E j ''account'' = Ret acc"
    "json_or E j ''ethscPrimaryPubKey'' [] (\<lambda>v. omap eth_key_kept (json_as_str E v)) = Ret eth"
    "obind (json_index E j ''coinInfo'') (json_as_coins E) = Ret coins"
    and "ls_m s' = m" "ls_n s' = n" "ls_account s' = acc" "ls_ethscPrimaryPubKey s' = eth" "ls_subWallets s' = coins"
    and "ls_path s' = ls_path s"
    using assms unfolding LocalStore_FromJson_new_def by (auto simp: obind_eq_Ret)
  then show ?thesis
    by (auto simp: LocalStore_kept_def store_ints_def obind_eq_Ret json_or_eth
        dest: json_as_int_range json_as_coins_read_kept)
qed

lemma obind_RetE:
  assumes "obind m f = Ret y"
  obtains x where "m = Ret x" and "f x = Ret y"
  using assms by (auto simp: obind_eq_Ret)

lemma if_Throw_RetE: "(if b then Throw e else m) = Ret y \<Longrightarrow> (\<not> b \<Longrightarrow> m = Ret y \<Longrightarrow> P) \<Longrightarrow> P"
  by (simp split: if_splits)

lemma FromJson_old_kept:
  assumes "LocalStore_FromJson_old lib E j (LocalStore_of_path path) = Ret s'"
  shows "LocalStore_kept s' = s' \<and> store_ints s' \<and> ls_path s' = path"
proof -
  obtain coins where c: "json_or E j ''SubWallets'' [] (json_as_coins E) = Ret coins"
    and "ls_m s' = 1" "ls_n s' = 1" "ls_account s' = 0" "ls_ethscPrimaryPubKey s' = []" "ls_subWallets s' = coins"
    and "ls_path s' = path"
    using assms unfolding LocalStore_FromJson_old_def Let_def
    by (elim obind_RetE if_Throw_RetE) (rule that, auto simp: LocalStore_of_path_def)
  moreover have "map CoinInfo_kept coins = coins"
    using c by (auto simp: json_or_def obind_eq_Ret json_as_coins_read_kept split: if_splits)
  ultimately show ?thesis by (simp add: LocalStore_kept_def store_ints_def)
qed

lemma LocalStore_Load_kept:
  assumes "LocalStore_Load lib T files (LocalStore_of_path path) = Ret s"
  shows "LocalStore_kept s = s" and "store_ints s" and "ls_path s = path"
proof -
  obtain j where "LocalStore_FromJson lib (jt_env T) j (LocalStore_of_path path) = Ret s"
    using assms by (auto simp: LocalStore_Load_def obind_eq_Ret split: option.splits if_splits)
  then have "LocalStore_kept s = s \<and> store_ints s \<and> ls_path s = path"
    using FromJson_new_kept [of "jt_env T" j "LocalStore_of_path path" s] FromJson_old_kept [of lib "jt_env T" j path s]
    by (auto simp: LocalStore_FromJson_def LocalStore_of_path_def split: if_splits)
  then show "LocalStore_kept s = s" and "store_ints s" and "ls_path s = path" by simp_all
qed

text \<open>A store that can be written is what its folder gives back.\<close>

definition on_disk :: "('j, 'w) wallet_env \<Rightarrow> files \<Rightarrow> LocalStore \<Rightarrow> bool" where
  "on_disk W files s \<longleftrightarrow>
     (\<forall>t. json_dump (we_text W) (LocalStore_ToJson (we_json W) s) = Ret t \<longrightarrow>
        LocalStore_Load (we_lib W) (we_text W) files (LocalStore_of_path (ls_path s)) = Ret (LocalStore_kept s))"

lemma on_disk_saved:
  assumes T: "json_text_ok (we_text W)" and s: "store_ints s" "ls_path s \<noteq> []"
    and f: "LocalStore_Save (we_text W) s files = (files', r)"
  shows "on_disk W files' s"
  unfolding on_disk_def
proof (intro allI impI)
  fix t
  assume "json_dump (we_text W) (LocalStore_ToJson (we_json W) s) = Ret t"
  then have "r = Ret ()"
    using f by (auto simp: LocalStore_Save_def Let_def split: if_splits)
  then show "LocalStore_Load (we_lib W) (we_text W) files' (LocalStore_of_path (ls_path s)) = Ret (LocalStore_kept s)"
    using local_store.saved [of "we_text W" s files files' "we_lib W"] T s f by simp
qed

lemma on_disk_elsewhere: "files (ls_path s) = files' (ls_path s) \<Longrightarrow> on_disk W files s = on_disk W files' s"
  by (simp add: on_disk_def LocalStore_Load_def LocalStore_of_path_def)

section \<open>Loaded wallets\<close>

definition wallet_good :: "('j, 'w) wallet_env \<Rightarrow> files \<Rightarrow> string \<Rightarrow> Config \<Rightarrow> string \<Rightarrow> 'w MasterWallet \<Rightarrow> bool" where
  "wallet_good W files dataPath cfg n mw \<longleftrightarrow>
     mw_id mw = n \<and> mw_config mw = cfg \<and> ls_path (acc_localstore (mw_account mw)) = wallet_path dataPath n \<and>
     store_ints (acc_localstore (mw_account mw)) \<and>
     Account_of_store (we_lib W) (acc_localstore (mw_account mw)) = Ret ((mw_account mw)\<lparr>acc_disk := None\<rparr>) \<and>
     on_disk W files (acc_localstore (mw_account mw)) \<and> std_map_ok (mw_createdWallets mw) \<and>
     (\<forall>c \<in> set (map fst (mw_createdWallets mw)). Config_GetChainConfig cfg c \<noteq> None \<and>
        c \<in> set (map ci_chainID (ls_subWallets (acc_localstore (mw_account mw)))))"

lemma wallet_path_nonempty [simp]: "wallet_path dataPath n \<noteq> []"
  by (simp add: wallet_path_def)

lemma wallet_path_inject [simp]: "wallet_path dataPath n = wallet_path dataPath n' \<longleftrightarrow> n = n'"
  by (simp add: wallet_path_def)

lemma wallet_good_elsewhere:
  assumes "wallet_good W files dataPath cfg n mw"
    and "files' (wallet_path dataPath n) = files (wallet_path dataPath n)"
  shows "wallet_good W files' dataPath cfg n mw"
proof -
  let ?s = "acc_localstore (mw_account mw)"
  have "on_disk W files ?s = on_disk W files' ?s" by (rule on_disk_elsewhere) (use assms in \<open>simp add: wallet_good_def\<close>)
  then show ?thesis using assms(1) by (simp add: wallet_good_def)
qed

lemma disk_raw [simp]: "Account_of_store lib s = Ret a \<Longrightarrow> a\<lparr>acc_disk := None\<rparr> = a"
  using Account_Init_keeps(2) [of lib "Account_raw s" a] by (simp add: Account_of_store_def Account_raw_def)

lemma Account_Save_store [simp]: "acc_localstore (Account_Save a) = acc_localstore a"
  by (simp add: Account_Save_def)

lemma Account_Save_disk [simp]: "(Account_Save a)\<lparr>acc_disk := None\<rparr> = a\<lparr>acc_disk := None\<rparr>"
  by (simp add: Account_Save_def)

lemma wallet_good_made:
  assumes T: "json_text_ok (we_text W)"
    and made: "\<And>a. made = Ret a \<Longrightarrow> account_made (we_lib W) (wallet_path dataPath n) a"
    and mw: "MasterWallet_saved W n cfg made files = (files', Ret mw)"
  shows "wallet_good W files' dataPath cfg n mw"
proof -
  obtain a where a: "made = Ret a" "LocalStore_Save (we_text W) (acc_localstore a) files = (files', Ret ())"
    "mw = MasterWallet_of n (Account_Save a) cfg"
    using mw by (auto simp: MasterWallet_saved_def omap_def obind_eq_Ret split: outcome.splits prod.splits)
  note m = made [OF a(1)]
  have "on_disk W files' (acc_localstore a)"
    using m by (intro on_disk_saved [OF T _ _ a(2)]) (auto simp: account_made_def)
  moreover have "a\<lparr>acc_disk := None\<rparr> = a" using m by (auto simp: account_made_def intro: disk_raw)
  ultimately show ?thesis
    using m a(3) by (simp add: wallet_good_def account_made_def MasterWallet_of_def std_map_ok_def)
qed

lemma MasterWallet_saved_elsewhere:
  assumes "\<And>a. made = Ret a \<Longrightarrow> account_made (we_lib W) path a" and "path' \<noteq> path"
  shows "fst (MasterWallet_saved W n cfg made files) path' = files path'"
proof (cases made)
  case (Ret a)
  then have "ls_path (acc_localstore a) = path" using assms(1) by (simp add: account_made_def)
  then show ?thesis
    using LocalStore_Save_elsewhere [of path' "acc_localstore a" "we_text W" files] Ret assms(2)
    by (cases "LocalStore_Save (we_text W) (acc_localstore a) files") (simp add: MasterWallet_saved_def)
qed (simp_all add: MasterWallet_saved_def)

lemma wallet_good_load:
  assumes "MasterWallet_load W n cfg dataPath files = Ret mw"
  shows "wallet_good W files dataPath cfg n mw"
proof -
  obtain s a where s: "LocalStore_Load (we_lib W) (we_text W) files (LocalStore_of_path (wallet_path dataPath n)) = Ret s"
    and a: "Account_of_store (we_lib W) s = Ret a" and mw: "mw = MasterWallet_of n a cfg"
    using assms by (auto simp: MasterWallet_load_def omap_def obind_eq_Ret)
  note k = LocalStore_Load_kept [OF s]
  have "acc_localstore a = s" using a Account_Init_keeps(1) [of "we_lib W" "Account_raw s" a]
    by (simp add: Account_of_store_def Account_raw_def)
  then show ?thesis
    using s a k mw by (simp add: wallet_good_def MasterWallet_of_def on_disk_def std_map_ok_def)
qed

text \<open>\<open>InitSubWallets\<close> opens chains of the list.\<close>

lemma Init_loop_good:
  assumes "wallet_good W files dataPath cfg n mw"
    and "set infos \<subseteq> set (ls_subWallets (acc_localstore (mw_account mw)))"
  shows "wallet_good W files dataPath cfg n (fst (MasterWallet_Init_loop W infos mw))"
  using assms
proof (induction infos arbitrary: mw)
  case (Cons info infos)
  show ?case
  proof (cases "Config_GetChainConfig (mw_config mw) (ci_chainID info)")
    case (Some config)
    show ?thesis
    proof (cases "SubWalletFactoryMethod W info config mw")
      case (Ret sub)
      let ?mw = "mw\<lparr>mw_createdWallets := std_map_assign (ci_chainID info) sub (mw_createdWallets mw)\<rparr>"
      have "wallet_good W files dataPath cfg n ?mw"
        using Cons.prems Some set_std_map_assign [of "ci_chainID info" sub "mw_createdWallets mw"]
        by (auto simp: wallet_good_def std_map_assign_ok)
      then show ?thesis using Cons.IH [of ?mw] Cons.prems(2) Some Ret by simp
    qed (use Cons.prems(1) Some in simp_all)
  qed (use Cons in simp)
qed simp

lemma InitSubWallets_good:
  "wallet_good W files dataPath cfg n mw \<Longrightarrow> wallet_good W files dataPath cfg n (fst (MasterWallet_InitSubWallets W mw))"
  unfolding MasterWallet_InitSubWallets_def by (rule Init_loop_good) simp_all

text \<open>A change of what \<open>Init\<close> does not read, with a save, keeps a wallet good.\<close>

lemma same_keys_subWallets [simp]: "same_keys s (s\<lparr>ls_subWallets := cs\<rparr>)"
  by (simp add: same_keys_def)

lemma wallet_good_saved:
  assumes T: "json_text_ok (we_text W)" and g: "wallet_good W files dataPath cfg n mw"
    and s: "same_keys (acc_localstore (mw_account mw)) (acc_localstore a)"
      "ls_path (acc_localstore a) = ls_path (acc_localstore (mw_account mw))" "store_ints (acc_localstore a)"
    and a: "a\<lparr>acc_disk := None\<rparr> = (mw_account mw)\<lparr>acc_localstore := acc_localstore a, acc_disk := None\<rparr>"
    and f: "LocalStore_Save (we_text W) (acc_localstore a) files = (files', r)"
    and c: "\<forall>c \<in> set (map fst created). Config_GetChainConfig cfg c \<noteq> None \<and>
        c \<in> set (map ci_chainID (ls_subWallets (acc_localstore a)))"
      "std_map_ok created"
  shows "wallet_good W files' dataPath cfg n (mw\<lparr>mw_account := Account_Save a, mw_createdWallets := created\<rparr>)"
proof -
  let ?s = "acc_localstore (mw_account mw)"
  have "Account_of_store (we_lib W) (acc_localstore a) = Ret (((mw_account mw)\<lparr>acc_disk := None\<rparr>)\<lparr>acc_localstore := acc_localstore a\<rparr>)"
    by (rule Account_of_store_same [OF s(1)]) (use g in \<open>simp add: wallet_good_def\<close>)
  moreover have "on_disk W files' (acc_localstore a)"
    by (rule on_disk_saved [OF T s(3) _ f]) (use g s(2) in \<open>simp add: wallet_good_def\<close>)
  ultimately show ?thesis using g s a c by (simp add: wallet_good_def)
qed

lemma wallet_good_subWallets:
  assumes T: "json_text_ok (we_text W)" and g: "wallet_good W files dataPath cfg n mw"
    and a: "acc_localstore a = (acc_localstore (mw_account mw))\<lparr>ls_subWallets := cs\<rparr>"
      "a\<lparr>acc_disk := None\<rparr> = (mw_account mw)\<lparr>acc_localstore := acc_localstore a, acc_disk := None\<rparr>"
    and f: "LocalStore_Save (we_text W) (acc_localstore a) files = (files', r)"
    and c: "\<forall>c \<in> set (map fst created). Config_GetChainConfig cfg c \<noteq> None \<and> c \<in> set (map ci_chainID cs)"
      "std_map_ok created"
  shows "wallet_good W files' dataPath cfg n (mw\<lparr>mw_account := Account_Save a, mw_createdWallets := created\<rparr>)"
  by (rule wallet_good_saved [OF T g _ _ _ a(2) f _ c(2)]) (use g a(1) c(1) in \<open>simp_all add: wallet_good_def store_ints_def\<close>)

lemma CreateSubWallet_good:
  assumes T: "json_text_ok (we_text W)" and g: "wallet_good W files dataPath cfg n mw"
    and s: "MasterWallet_CreateSubWallet W chainID mw files = (mw', files', r)"
  shows "wallet_good W files' dataPath cfg n mw'"
proof -
  let ?info = "\<lparr>ci_chainID = chainID\<rparr>"
  consider "mw' = mw" "files' = files"
    | config sub r' where "Config_GetChainConfig (mw_config mw) chainID = Some config"
      and "LocalStore_Save (we_text W) (acc_localstore (Account_AddSubWalletInfoList ?info (mw_account mw))) files = (files', r')"
      and "mw' = mw\<lparr>mw_createdWallets := std_map_assign chainID sub (mw_createdWallets mw),
        mw_account := Account_Save (Account_AddSubWalletInfoList ?info (mw_account mw))\<rparr>"
  proof (cases "chainID = [] \<or> length chainID > 128 \<or> map_of (mw_createdWallets mw) chainID \<noteq> None \<or>
      Config_GetChainConfig (mw_config mw) chainID = None")
    case True
    then show thesis using s that(1) by (auto simp: MasterWallet_CreateSubWallet_def split: if_splits option.splits)
  next
    case False
    then obtain config where c: "Config_GetChainConfig (mw_config mw) chainID = Some config" by blast
    obtain f r0 where f: "LocalStore_Save (we_text W) (acc_localstore (Account_AddSubWalletInfoList ?info (mw_account mw))) files = (f, r0)"
      by fastforce
    have "(mw' = mw \<and> files' = files) \<or> f = files' \<and> (\<exists>sub. mw' = mw\<lparr>mw_createdWallets := std_map_assign chainID sub
        (mw_createdWallets mw), mw_account := Account_Save (Account_AddSubWalletInfoList ?info (mw_account mw))\<rparr>)"
      by (cases "SubWalletFactoryMethod W ?info config mw")
        (use s False c f in \<open>auto simp: MasterWallet_CreateSubWallet_def Let_def\<close>)
    then show thesis using that c f by blast
  qed
  then show ?thesis
  proof cases
    case 2
    let ?a = "Account_AddSubWalletInfoList \<lparr>ci_chainID = chainID\<rparr> (mw_account mw)"
    let ?created = "std_map_assign chainID sub (mw_createdWallets mw)"
    have "wallet_good W files' dataPath cfg n (mw\<lparr>mw_account := Account_Save ?a, mw_createdWallets := ?created\<rparr>)"
    proof (rule wallet_good_subWallets [OF T g _ _ 2(2)])
      show "acc_localstore ?a = (acc_localstore (mw_account mw))
          \<lparr>ls_subWallets := ls_subWallets (acc_localstore (mw_account mw)) @ [\<lparr>ci_chainID = chainID\<rparr>]\<rparr>"
        by (simp add: Account_AddSubWalletInfoList_def LocalStore_AddSubWalletInfoList_def)
      show "\<forall>c \<in> set (map fst ?created). Config_GetChainConfig cfg c \<noteq> None \<and>
          c \<in> set (map ci_chainID (ls_subWallets (acc_localstore (mw_account mw)) @ [\<lparr>ci_chainID = chainID\<rparr>]))"
        using g 2(1) set_std_map_assign [of chainID sub "mw_createdWallets mw"] by (auto simp: wallet_good_def)
    qed (use g in \<open>simp_all add: Account_AddSubWalletInfoList_def wallet_good_def std_map_assign_ok\<close>)
    moreover have "mw\<lparr>mw_account := Account_Save ?a, mw_createdWallets := ?created\<rparr> = mw'" using 2(3) by simp
    ultimately show ?thesis by simp
  qed (use g in simp)
qed

lemma remove_first_others: "P' x \<Longrightarrow> (\<And>y. P y \<Longrightarrow> \<not> P' y) \<Longrightarrow> x \<in> set xs \<Longrightarrow> x \<in> set (remove_first P xs)"
  by (induction xs) auto

lemma DestroySubWallet_good:
  assumes T: "json_text_ok (we_text W)" and g: "wallet_good W files dataPath cfg n mw"
    and ok: "snd (snd (MasterWallet_DestroyWallet W chainID mw files)) = Ret ()"
    and s: "MasterWallet_DestroyWallet W chainID mw files = (mw', files', r)"
  shows "wallet_good W files' dataPath cfg n mw'"
proof -
  let ?a = "Account_RemoveSubWalletInfo chainID (mw_account mw)"
  let ?created = "std_map_erase chainID (mw_createdWallets mw)"
  let ?cs = "remove_first (\<lambda>c. chainID = ci_chainID c) (ls_subWallets (acc_localstore (mw_account mw)))"
  have f: "LocalStore_Save (we_text W) (acc_localstore ?a) files = (files', Ret ())"
    and m: "mw' = mw\<lparr>mw_account := Account_Save ?a, mw_createdWallets := ?created\<rparr>"
    using s ok by (auto simp: MasterWallet_DestroyWallet_def Let_def split: option.splits prod.splits)
  show ?thesis unfolding m
  proof (rule wallet_good_subWallets [OF T g _ _ f])
    show "acc_localstore ?a = (acc_localstore (mw_account mw))\<lparr>ls_subWallets := ?cs\<rparr>"
      by (simp add: Account_RemoveSubWalletInfo_def LocalStore_RemoveSubWalletInfo_def)
    show "\<forall>c \<in> set (map fst ?created). Config_GetChainConfig cfg c \<noteq> None \<and> c \<in> set (map ci_chainID ?cs)"
    proof
      fix c
      assume c: "c \<in> set (map fst ?created)"
      then have o: "c \<in> set (map fst (mw_createdWallets mw))" "c \<noteq> chainID" by (auto simp: std_map_erase_def)
      then obtain x where "x \<in> set (ls_subWallets (acc_localstore (mw_account mw)))" "ci_chainID x = c"
        using g by (auto simp: wallet_good_def)
      then have "x \<in> set ?cs" using o(2) by (intro remove_first_others [where P' = "\<lambda>y. ci_chainID y = c"]) auto
      then show "Config_GetChainConfig cfg c \<noteq> None \<and> c \<in> set (map ci_chainID ?cs)"
        using g o(1) \<open>ci_chainID x = c\<close> by (auto simp: wallet_good_def)
    qed
  qed (use g in \<open>simp_all add: Account_RemoveSubWalletInfo_def wallet_good_def std_map_erase_ok\<close>)
qed

text \<open>The password: a change leaves everything \<open>Init\<close> reads as it is.\<close>

definition repassworded :: "Account \<Rightarrow> Account \<Rightarrow> bool" where
  "repassworded a a' \<longleftrightarrow> (\<exists>m x r d k. a' = Account_Save (a\<lparr>acc_localstore := (acc_localstore a)
     \<lparr>ls_seed := d, ls_mnemonic := m, ls_xPrivKey := x, ls_requestPrivKey := r, ls_singlePrivateKey := k\<rparr>\<rparr>))"

lemma ChangePassword_repassworded:
  assumes "Account_ChangePassword lib old new a = Ret a'" and "\<not> ls_readonly (acc_localstore a)"
    and "ls_xPubKeyBitcoin (acc_localstore a) \<noteq> []"
  shows "repassworded a a'"
proof -
  obtain s where s: "LocalStore_ChangePasswd lib old new (acc_localstore a) = Ret s"
    and a': "a' = Account_Save (a\<lparr>acc_localstore := s\<rparr>)"
    using assms by (auto simp: Account_ChangePassword_def Account_refresh_def obind_eq_Ret)
  obtain m x r d k where "s = (acc_localstore a)
      \<lparr>ls_mnemonic := m, ls_xPrivKey := x, ls_requestPrivKey := r, ls_seed := d, ls_singlePrivateKey := k\<rparr>"
    using s unfolding LocalStore_ChangePasswd_def Let_def
    by (elim obind_RetE) (rule that, simp only: outcome.inject, erule sym)
  then have "s = (acc_localstore a)
      \<lparr>ls_seed := d, ls_mnemonic := m, ls_xPrivKey := x, ls_requestPrivKey := r, ls_singlePrivateKey := k\<rparr>" by simp
  then show ?thesis using a' unfolding repassworded_def by blast
qed

lemma ResetPassword_repassworded:
  assumes "Account_ResetPassword lib mnemonic passphrase new a = Ret a'" and "\<not> ls_readonly (acc_localstore a)"
  shows "repassworded a a'"
  using assms unfolding Account_ResetPassword_def repassworded_def
  by (simp only: if_False) (elim obind_RetE if_Throw_RetE, simp, blast)

lemma wallet_good_repassworded:
  assumes T: "json_text_ok (we_text W)" and g: "wallet_good W files dataPath cfg n mw" and r: "repassworded (mw_account mw) a"
    and f: "LocalStore_Save (we_text W) (acc_localstore a) files = (files', u)"
  shows "wallet_good W files' dataPath cfg n (mw\<lparr>mw_account := a\<rparr>)"
proof -
  obtain m x r d k where "a = Account_Save ((mw_account mw)\<lparr>acc_localstore := (acc_localstore (mw_account mw))
     \<lparr>ls_seed := d, ls_mnemonic := m, ls_xPrivKey := x, ls_requestPrivKey := r, ls_singlePrivateKey := k\<rparr>\<rparr>)"
    using assms(3) unfolding repassworded_def by blast
  then obtain b where a: "a = Account_Save b" and b: "acc_localstore b = (acc_localstore (mw_account mw))
     \<lparr>ls_seed := d, ls_mnemonic := m, ls_xPrivKey := x, ls_requestPrivKey := r, ls_singlePrivateKey := k\<rparr>"
     "b\<lparr>acc_disk := None\<rparr> = (mw_account mw)\<lparr>acc_localstore := acc_localstore b, acc_disk := None\<rparr>"
    by simp
  have "wallet_good W files' dataPath cfg n
      (mw\<lparr>mw_account := Account_Save b, mw_createdWallets := mw_createdWallets mw\<rparr>)"
    by (rule wallet_good_saved [OF T g _ _ _ b(2) f [unfolded a Account_Save_store]])
      (use g b(1) in \<open>simp_all add: wallet_good_def same_keys_def store_ints_def\<close>)
  then show ?thesis using a by simp
qed

lemma account_saved_good:
  assumes T: "json_text_ok (we_text W)" and g: "wallet_good W files dataPath cfg n mw"
    and s: "account_saved W changed mw files = (mw', files', r)"
    and c: "\<And>a. changed = Ret a \<Longrightarrow> \<not> ls_readonly (acc_localstore (mw_account mw)) \<Longrightarrow> repassworded (mw_account mw) a"
  shows "wallet_good W files' dataPath cfg n mw'"
proof (cases changed)
  case (Ret a)
  show ?thesis
  proof (cases "ls_readonly (acc_localstore (mw_account mw))")
    case False
    obtain f u where f: "LocalStore_Save (we_text W) (acc_localstore a) files = (f, u)" by fastforce
    from wallet_good_repassworded [OF T g c [OF Ret False] f] show ?thesis
      using s Ret False f by (simp add: account_saved_def)
  qed (use s Ret g in \<open>simp add: account_saved_def\<close>)
qed (use s g in \<open>simp_all add: account_saved_def\<close>)

section \<open>The manager\<close>

definition manager_inv :: "('j, 'w) wallet_env \<Rightarrow> 'w MasterWalletManager \<Rightarrow> bool" where
  "manager_inv W m \<longleftrightarrow> std_map_ok (mm_masterWalletMap m) \<and>
     (\<forall>n mw. map_of (mm_masterWalletMap m) n = Some (Some mw) \<longrightarrow>
        wallet_good W (mm_files m) (mm_dataPath m) (mm_config m) n mw)"

named_theorems manager_intros \<open>rules that keep the invariant of the manager\<close>

lemma manager_invD:
  "manager_inv W m \<Longrightarrow> map_of (mm_masterWalletMap m) n = Some (Some mw) \<Longrightarrow>
   wallet_good W (mm_files m) (mm_dataPath m) (mm_config m) n mw"
  by (simp add: manager_inv_def)

text \<open>A wallet is entered, the folders of the others staying as they are.\<close>

lemma manager_inv_enter:
  assumes "manager_inv W m" and "wallet_good W files (mm_dataPath m) (mm_config m) n mw"
    and "\<And>n'. n' \<noteq> n \<Longrightarrow> files (wallet_path (mm_dataPath m) n') = mm_files m (wallet_path (mm_dataPath m) n')"
  shows "manager_inv W (m\<lparr>mm_masterWalletMap := std_map_assign n (Some mw) (mm_masterWalletMap m), mm_files := files\<rparr>)"
proof -
  have "wallet_good W files (mm_dataPath m) (mm_config m) n' mw'"
    if "map_of (mm_masterWalletMap m) n' = Some (Some mw')" "n' \<noteq> n" for n' mw'
    by (rule wallet_good_elsewhere [OF manager_invD [OF assms(1) that(1)]]) (rule assms(3) [OF that(2)])
  then show ?thesis using assms(1,2) by (auto simp: manager_inv_def std_map_assign_ok)
qed

lemma manager_inv_files:
  assumes "manager_inv W m" and "map_of (mm_masterWalletMap m) n = None"
    and "\<And>n'. n' \<noteq> n \<Longrightarrow> files (wallet_path (mm_dataPath m) n') = mm_files m (wallet_path (mm_dataPath m) n')"
  shows "manager_inv W (m\<lparr>mm_files := files\<rparr>)"
proof -
  have "wallet_good W files (mm_dataPath m) (mm_config m) n' mw"
    if "map_of (mm_masterWalletMap m) n' = Some (Some mw)" for n' mw
  proof -
    have "n' \<noteq> n" using assms(2) that by auto
    from assms(3) [OF this] show ?thesis by (rule wallet_good_elsewhere [OF manager_invD [OF assms(1) that]])
  qed
  then show ?thesis using assms(1) by (simp add: manager_inv_def)
qed

lemma inv_checked [manager_intros]:
  "manager_inv W m \<Longrightarrow> (\<And>x. check = Ret x \<Longrightarrow> manager_inv W (fst (k x))) \<Longrightarrow> manager_inv W (fst (checked check m k))"
  by (cases check) (simp_all add: checked_def)

lemma inv_unless [manager_intros]:
  "manager_inv W m \<Longrightarrow> (map_of (mm_masterWalletMap m) n = None \<Longrightarrow> manager_inv W (fst (k m))) \<Longrightarrow>
   manager_inv W (fst (unless_entered n m k))"
  by (simp add: unless_entered_def split: option.split)

lemma add_wallet_cases:
  assumes "add_wallet W n made m = (m', r)"
  obtains files mw where "MasterWallet_saved W n (mm_config m) made (mm_files m) = (files, Ret mw)" and "r = Ret (Some n)"
    and "m' = m\<lparr>mm_masterWalletMap := std_map_assign n (Some mw) (mm_masterWalletMap m), mm_files := files\<rparr>"
  | files where "m' = m\<lparr>mm_files := files\<rparr>" and "\<And>p. r \<noteq> Ret p"
    and "files = fst (MasterWallet_saved W n (mm_config m) made (mm_files m)) \<or>
      (\<exists>mw. snd (MasterWallet_saved W n (mm_config m) made (mm_files m)) = Ret mw \<and>
        files = MasterWallet_RemoveLocalStore mw (fst (MasterWallet_saved W n (mm_config m) made (mm_files m))))"
proof -
  obtain files r0 where s: "MasterWallet_saved W n (mm_config m) made (mm_files m) = (files, r0)" by fastforce
  show thesis
  proof (cases r0)
    case (Ret mw)
    show thesis
    proof (cases "is_redundant mw (mm_masterWalletMap m)")
      case (Ret b)
      then show thesis
        using assms s \<open>r0 = Ret mw\<close> that
        by (cases b) (auto simp: add_wallet_def MasterWalletManager_checkRedundant_def)
    qed (use assms s Ret that(2) in \<open>auto simp: add_wallet_def MasterWalletManager_checkRedundant_def\<close>)
  qed (use assms s that(2) in \<open>auto simp: add_wallet_def\<close>)
qed

lemma inv_add_wallet:
  assumes T: "json_text_ok (we_text W)" and m: "manager_inv W m" and n: "map_of (mm_masterWalletMap m) n = None"
    and made: "\<And>a. made = Ret a \<Longrightarrow> account_made (we_lib W) (wallet_path (mm_dataPath m) n) a"
  shows "manager_inv W (fst (add_wallet W n made m))"
proof -
  note e = MasterWallet_saved_elsewhere [where W = W and made = made and n = n and cfg = "mm_config m" and files = "mm_files m", OF made]
  obtain m' r where x: "add_wallet W n made m = (m', r)" by fastforce
  then show ?thesis
  proof (cases rule: add_wallet_cases)
    case (1 files mw)
    have "files (wallet_path (mm_dataPath m) n') = mm_files m (wallet_path (mm_dataPath m) n')" if "n' \<noteq> n" for n'
      using e [where path' = "wallet_path (mm_dataPath m) n'"] 1(1) that by simp
    then show ?thesis
      using manager_inv_enter [OF m wallet_good_made [OF T made 1(1)]] x 1(3) by simp
  next
    case (2 files)
    have p: "ls_path (acc_localstore (mw_account mw)) = wallet_path (mm_dataPath m) n"
      if s: "snd (MasterWallet_saved W n (mm_config m) made (mm_files m)) = Ret mw" for mw
    proof -
      have "MasterWallet_saved W n (mm_config m) made (mm_files m) =
        (fst (MasterWallet_saved W n (mm_config m) made (mm_files m)), Ret mw)" using s by (simp add: prod_eq_iff)
      from wallet_good_made [OF T made this] show ?thesis by (simp add: wallet_good_def)
    qed
    have "files (wallet_path (mm_dataPath m) n') = mm_files m (wallet_path (mm_dataPath m) n')" if "n' \<noteq> n" for n'
      using e [where path' = "wallet_path (mm_dataPath m) n'"] 2(3) that
      by (auto simp: MasterWallet_RemoveLocalStore_def LocalStore_Remove_def p)
    then show ?thesis using manager_inv_files [OF m n] x 2(1) by simp
  qed
qed

lemma inv_Load [manager_intros]:
  assumes "manager_inv W m"
  shows "manager_inv W (fst (MasterWalletManager_LoadMasterWallet W n m))"
proof (cases "has_store (mm_dataPath m) (mm_files m) n")
  case True
  show ?thesis
  proof (cases "MasterWallet_load W n (mm_config m) (mm_dataPath m) (mm_files m)")
    case (Ret mw)
    obtain mw' r where i: "MasterWallet_InitSubWallets W mw = (mw', r)" by fastforce
    have "wallet_good W (mm_files m) (mm_dataPath m) (mm_config m) n mw'"
      using InitSubWallets_good [OF wallet_good_load [OF Ret]] i by simp
    from manager_inv_enter [OF assms this]
    show ?thesis using assms True Ret i by (simp add: MasterWalletManager_LoadMasterWallet_def split: outcome.split)
  qed (use assms True in \<open>simp_all add: MasterWalletManager_LoadMasterWallet_def\<close>)
qed (use assms in \<open>simp add: MasterWalletManager_LoadMasterWallet_def\<close>)

lemma inv_Get [manager_intros]:
  "manager_inv W m \<Longrightarrow> manager_inv W (fst (MasterWalletManager_GetMasterWallet W n m))"
  using inv_Load [of W m n] by (simp add: MasterWalletManager_GetMasterWallet_def split: option.split)

lemma inv_GetAll_loop: "manager_inv W m \<Longrightarrow> manager_inv W (fst (GetAll_loop W es m))"
proof (induction es arbitrary: m)
  case (Cons e es)
  obtain m1 r where m1: "(if snd e \<noteq> None then (m, Ret (Some (fst e)))
      else MasterWalletManager_LoadMasterWallet W (fst e) m) = (m1, r)" by fastforce
  then have "manager_inv W m1" using Cons.prems inv_Load [of W m "fst e"] by (auto split: if_splits)
  then show ?case
    using m1 Cons.IH [of m1] by (cases "GetAll_loop W es m1") (simp add: Let_def split: outcome.split)
qed simp

lemma inv_GetAll [manager_intros]:
  "manager_inv W m \<Longrightarrow> manager_inv W (fst (MasterWalletManager_GetAllMasterWallets W m))"
  by (simp add: MasterWalletManager_GetAllMasterWallets_def inv_GetAll_loop)

lemma inv_Destroy [manager_intros]:
  assumes "manager_inv W m"
  shows "manager_inv W (MasterWalletManager_DestroyWallet n m)"
proof (cases "map_of (mm_masterWalletMap m) n")
  case (Some w)
  show ?thesis
  proof (cases w)
    case mw: (Some mw)
    let ?files = "MasterWallet_RemoveLocalStore mw (mm_files m)"
    note g = manager_invD [OF assms Some [unfolded mw]]
    have "wallet_good W ?files (mm_dataPath m) (mm_config m) n' mw'"
      if "map_of (mm_masterWalletMap m) n' = Some (Some mw')" "n' \<noteq> n" for n' mw'
      by (rule wallet_good_elsewhere [OF manager_invD [OF assms that(1)]])
        (use g that(2) in \<open>simp add: MasterWallet_RemoveLocalStore_def LocalStore_Remove_def wallet_good_def\<close>)
    then show ?thesis
      using assms Some mw g
      by (auto simp: MasterWalletManager_DestroyWallet_def manager_inv_def std_map_erase_ok wallet_good_def split: if_splits)
  qed (use assms Some in \<open>simp add: MasterWalletManager_DestroyWallet_def\<close>)
qed (use assms in \<open>simp add: MasterWalletManager_DestroyWallet_def\<close>)

text \<open>The methods that make a wallet.\<close>

lemma accounts_made:
  "MasterWallet_Account_of_mnemonic W n mn pp pw single dp = Ret a \<Longrightarrow> account_made (we_lib W) (wallet_path dp n) a"
  "MasterWallet_Account_of_seed W n seed pw single mn pp dp = Ret a \<Longrightarrow> account_made (we_lib W) (wallet_path dp n) a"
  "MasterWallet_Account_of_single_key W n key pw dp = Ret a \<Longrightarrow> account_made (we_lib W) (wallet_path dp n) a"
  "MasterWallet_Account_of_cosigners W n rings k dp single cmp = Ret a \<Longrightarrow> account_made (we_lib W) (wallet_path dp n) a"
  "MasterWallet_Account_of_xprv W n xprv pw rings k dp single cmp = Ret a \<Longrightarrow> account_made (we_lib W) (wallet_path dp n) a"
  "MasterWallet_Account_of_mnemonic_cosigner W n mn pp pw rings k dp single cmp = Ret a \<Longrightarrow>
     account_made (we_lib W) (wallet_path dp n) a"
  by (auto simp: MasterWallet_Account_of_mnemonic_def MasterWallet_Account_of_seed_def MasterWallet_Account_of_single_key_def
      MasterWallet_Account_of_cosigners_def MasterWallet_Account_of_xprv_def MasterWallet_Account_of_mnemonic_cosigner_def
      intro: mnemonic_made seed_made single_key_made cosigners_made xprv_made mnemonic_cosigner_made split: if_splits)

lemma account_of_keystore_made:
  assumes "MasterWallet_Account_of_keystore W n json backup pw dp = Ret a"
  shows "account_made (we_lib W) (wallet_path dp n) a"
proof -
  obtain w where w: "KeyStore_Import (we_lib W) (we_ccm W) (we_text W) json backup ElaNewWalletJson_new = Ret w"
    and a: "Account_of_keystore (we_lib W) (wallet_path dp n) (ElaNewWalletJson.truncate w) pw = Ret a"
    using assms by (auto simp: MasterWallet_Account_of_keystore_def obind_eq_Ret)
  show ?thesis
    by (rule keystore_made [OF a]) (use KeyStore_Import_ints [OF w] in \<open>simp_all add: wallet_ints_def ElaNewWalletJson.defs\<close>)
qed

lemmas manager_ops = MasterWalletManager_CreateMasterWallet_def MasterWalletManager_CreateMasterWallet_single_def
  MasterWalletManager_CreateMultiSignMasterWallet_def MasterWalletManager_CreateMultiSignMasterWallet_xprv_def
  MasterWalletManager_CreateMultiSignMasterWallet_mnemonic_def MasterWalletManager_ImportWalletWithMnemonic_def
  MasterWalletManager_ImportWalletWithSeed_def

lemma inv_making [manager_intros]:
  assumes "json_text_ok (we_text W)" and "manager_inv W m"
  shows "manager_inv W (fst (MasterWalletManager_CreateMasterWallet W n mn pp pw single m))"
    and "manager_inv W (fst (MasterWalletManager_CreateMasterWallet_single W n key pw m))"
    and "manager_inv W (fst (MasterWalletManager_CreateMultiSignMasterWallet W n js k single cmp m))"
    and "manager_inv W (fst (MasterWalletManager_CreateMultiSignMasterWallet_xprv W n xprv pw js k single cmp m))"
    and "manager_inv W (fst (MasterWalletManager_CreateMultiSignMasterWallet_mnemonic W n mn pp pw js k single cmp m))"
    and "manager_inv W (fst (MasterWalletManager_ImportWalletWithMnemonic W n mn pp pw single m))"
    and "manager_inv W (fst (MasterWalletManager_ImportWalletWithSeed W n seed pw single mn pp m))"
  unfolding manager_ops by - (intro manager_intros assms inv_add_wallet; (assumption | erule accounts_made))+

lemma inv_keystore [manager_intros]:
  assumes T: "json_text_ok (we_text W)" and m: "manager_inv W m"
  shows "manager_inv W (fst (MasterWalletManager_ImportWalletWithKeystore W n json backup pw m))"
  unfolding MasterWalletManager_ImportWalletWithKeystore_def
proof (intro manager_intros m)
  assume new: "map_of (mm_masterWalletMap m) n = None"
  obtain m1 r where a: "add_wallet W n (MasterWallet_Account_of_keystore W n json backup pw (mm_dataPath m)) m = (m1, r)"
    by fastforce
  have i: "manager_inv W m1"
  proof -
    have "manager_inv W (fst (add_wallet W n (MasterWallet_Account_of_keystore W n json backup pw (mm_dataPath m)) m))"
      by (rule inv_add_wallet [OF T m new]) (rule account_of_keystore_made)
    then show ?thesis using a by simp
  qed
  show "manager_inv W (fst (case add_wallet W n (MasterWallet_Account_of_keystore W n json backup pw (mm_dataPath m)) m of
      (m', Ret p) \<Rightarrow>
        (case map_of (mm_masterWalletMap m') n of
           Some (Some mw) \<Rightarrow>
             (let (mw', r) = MasterWallet_InitSubWallets W mw
              in (m'\<lparr>mm_masterWalletMap := std_map_assign n (Some mw') (mm_masterWalletMap m')\<rparr>, omap (\<lambda>_. p) r))
         | _ \<Rightarrow> (m', Undef))
    | (m', Throw e) \<Rightarrow> (m', Throw e) | (m', Undef) \<Rightarrow> (m', Undef)))"
  proof (cases "\<exists>p mw. r = Ret p \<and> map_of (mm_masterWalletMap m1) n = Some (Some mw)")
    case True
    then obtain p mw where p: "r = Ret p" "map_of (mm_masterWalletMap m1) n = Some (Some mw)" by blast
    obtain mw' r' where s: "MasterWallet_InitSubWallets W mw = (mw', r')" by fastforce
    have "wallet_good W (mm_files m1) (mm_dataPath m1) (mm_config m1) n mw'"
      using InitSubWallets_good [OF manager_invD [OF i p(2)]] s by simp
    from manager_inv_enter [OF i this] show ?thesis using a p s by simp
  qed (use a i in \<open>auto split: outcome.split option.split\<close>)
qed

text \<open>The operations on the chains of a loaded wallet.\<close>

lemma MasterWallet_files_elsewhere:
  assumes "wallet_good W files dataPath cfg n mw" and "n' \<noteq> n"
  shows "fst (snd (MasterWallet_CreateSubWallet W c mw files)) (wallet_path dataPath n') = files (wallet_path dataPath n')"
    and "fst (snd (MasterWallet_DestroyWallet W c mw files)) (wallet_path dataPath n') = files (wallet_path dataPath n')"
proof -
  have e: "fst (LocalStore_Save T s files) (wallet_path dataPath n') = files (wallet_path dataPath n')"
    if "ls_path s = wallet_path dataPath n" for T s
    by (rule LocalStore_Save_elsewhere) (use that assms(2) in simp)
  have p: "ls_path (acc_localstore (Account_AddSubWalletInfoList info (mw_account mw))) = wallet_path dataPath n"
    "ls_path (acc_localstore (Account_RemoveSubWalletInfo c (mw_account mw))) = wallet_path dataPath n" for info
    using assms(1) by (simp_all add: wallet_good_def Account_AddSubWalletInfoList_def Account_RemoveSubWalletInfo_def
        LocalStore_AddSubWalletInfoList_def LocalStore_RemoveSubWalletInfo_def)
  show "fst (snd (MasterWallet_CreateSubWallet W c mw files)) (wallet_path dataPath n') = files (wallet_path dataPath n')"
    using e [OF p(1), of "we_text W" "\<lparr>ci_chainID = c\<rparr>"]
    by (cases "LocalStore_Save (we_text W) (acc_localstore (Account_AddSubWalletInfoList \<lparr>ci_chainID = c\<rparr> (mw_account mw))) files")
      (simp add: MasterWallet_CreateSubWallet_def Let_def split: option.split outcome.split)
  show "fst (snd (MasterWallet_DestroyWallet W c mw files)) (wallet_path dataPath n') = files (wallet_path dataPath n')"
    using e [OF p(2), of "we_text W"]
    by (cases "LocalStore_Save (we_text W) (acc_localstore (Account_RemoveSubWalletInfo c (mw_account mw))) files")
      (simp add: MasterWallet_DestroyWallet_def Let_def split: option.split)
qed

lemma account_saved_elsewhere:
  assumes "wallet_good W files dataPath cfg n mw" and "n' \<noteq> n"
    and c: "\<And>a. changed = Ret a \<Longrightarrow> \<not> ls_readonly (acc_localstore (mw_account mw)) \<Longrightarrow> repassworded (mw_account mw) a"
  shows "fst (snd (account_saved W changed mw files)) (wallet_path dataPath n') = files (wallet_path dataPath n')"
proof (cases changed)
  case (Ret a)
  show ?thesis
  proof (cases "ls_readonly (acc_localstore (mw_account mw))")
    case False
    have "ls_path (acc_localstore a) = wallet_path dataPath n"
      using c [OF Ret False] assms(1) by (auto simp: repassworded_def wallet_good_def)
    then show ?thesis
      using LocalStore_Save_elsewhere [of "wallet_path dataPath n'" "acc_localstore a" "we_text W" files] assms(2) Ret False
      by (cases "LocalStore_Save (we_text W) (acc_localstore a) files") (simp add: account_saved_def)
  qed (use Ret in \<open>simp add: account_saved_def\<close>)
qed (simp_all add: account_saved_def)

section \<open>What can be reached\<close>

text \<open>
  One step for every call of the manager and for the calls of a loaded wallet that change it; what it returns does
  not matter, but for \<open>DestroyWallet\<close> of a chain, whose save must not throw: the chain would stay open when it is no longer
  listed.  A change of the password is a step when it does not throw and the Bitcoin key is there; without it \<open>Init\<close> runs
  on the account again.
\<close>

inductive manager_step :: "('j, 'w) wallet_env \<Rightarrow> 'w MasterWalletManager \<Rightarrow> 'w MasterWalletManager \<Rightarrow> bool"
    for W :: "('j, 'w) wallet_env" where
  create: "MasterWalletManager_CreateMasterWallet W n mn pp pw single m = (m', r) \<Longrightarrow> manager_step W m m'"
| create_single: "MasterWalletManager_CreateMasterWallet_single W n key pw m = (m', r) \<Longrightarrow> manager_step W m m'"
| multi: "MasterWalletManager_CreateMultiSignMasterWallet W n js k single cmp m = (m', r) \<Longrightarrow> manager_step W m m'"
| multi_xprv:
    "MasterWalletManager_CreateMultiSignMasterWallet_xprv W n xprv pw js k single cmp m = (m', r) \<Longrightarrow> manager_step W m m'"
| multi_mnemonic:
    "MasterWalletManager_CreateMultiSignMasterWallet_mnemonic W n mn pp pw js k single cmp m = (m', r) \<Longrightarrow>
     manager_step W m m'"
| import_keystore: "MasterWalletManager_ImportWalletWithKeystore W n js backup pw m = (m', r) \<Longrightarrow> manager_step W m m'"
| import_mnemonic: "MasterWalletManager_ImportWalletWithMnemonic W n mn pp pw single m = (m', r) \<Longrightarrow> manager_step W m m'"
| import_seed: "MasterWalletManager_ImportWalletWithSeed W n seed pw single mn pp m = (m', r) \<Longrightarrow> manager_step W m m'"
| get: "MasterWalletManager_GetMasterWallet W n m = (m', r) \<Longrightarrow> manager_step W m m'"
| get_all: "MasterWalletManager_GetAllMasterWallets W m = (m', rs) \<Longrightarrow> manager_step W m m'"
| destroy: "MasterWalletManager_DestroyWallet n m = m' \<Longrightarrow> manager_step W m m'"
| create_sub: "on_wallet n (MasterWallet_CreateSubWallet W c) m = (m', sub) \<Longrightarrow> manager_step W m m'"
| destroy_sub: "on_wallet n (MasterWallet_DestroyWallet W c) m = (m', u) \<Longrightarrow> u \<noteq> Throw E_Json \<Longrightarrow> manager_step W m m'"
| change_password: "on_wallet n (MasterWallet_ChangePassword W old new) m = (m', Ret u) \<Longrightarrow>
    map_of (mm_masterWalletMap m) n = Some (Some mw) \<Longrightarrow> ls_xPubKeyBitcoin (acc_localstore (mw_account mw)) \<noteq> [] \<Longrightarrow>
    manager_step W m m'"
| reset_password: "on_wallet n (MasterWallet_ResetPassword W mnemonic passphrase new) m = (m', Ret u) \<Longrightarrow> manager_step W m m'"

inductive manager_reachable :: "('j, 'w) wallet_env \<Rightarrow> 'w MasterWalletManager \<Rightarrow> bool"
    for W :: "('j, 'w) wallet_env" where
  start: "MasterWalletManager_new W there names rootPath netType config dataPath files = Ret m \<Longrightarrow>
    lists_folders (mm_dataPath m) files names \<Longrightarrow> manager_reachable W m"
| step: "manager_reachable W m \<Longrightarrow> manager_step W m m' \<Longrightarrow> manager_reachable W m'"

lemma fold_assign_None:
  "std_map_ok ms \<Longrightarrow> (\<And>k v. map_of ms k = Some v \<Longrightarrow> v = None) \<Longrightarrow>
   std_map_ok (fold (\<lambda>n ms. std_map_assign n None ms) names ms) \<and>
   (\<forall>k v. map_of (fold (\<lambda>n ms. std_map_assign n None ms) names ms) k = Some v \<longrightarrow> v = None)"
proof (induction names arbitrary: ms)
  case (Cons n names)
  have "std_map_ok (std_map_assign n None ms)" "\<And>k v. map_of (std_map_assign n None ms) k = Some v \<Longrightarrow> v = None"
    using Cons.prems std_map_assign_ok by (auto split: if_splits)
  then show ?case using Cons.IH [of "std_map_assign n None ms"] by simp
qed simp

lemma new_map:
  assumes "MasterWalletManager_new W there names rootPath netType config dataPath files = Ret m"
  shows "std_map_ok (mm_masterWalletMap m)" and "map_of (mm_masterWalletMap m) n = Some w \<Longrightarrow> w = None"
    and "mm_files m = files"
proof -
  have m: "mm_masterWalletMap m = fold (\<lambda>n ms. std_map_assign n None ms) (filter (has_store (mm_dataPath m) files) names) []"
    "mm_files m = files"
    using assms
    by (auto simp: MasterWalletManager_new_def MasterWalletManager_LoadMasterWalletID_def Let_def split: if_splits)
  have "std_map_ok (mm_masterWalletMap m) \<and> (\<forall>k v. map_of (mm_masterWalletMap m) k = Some v \<longrightarrow> v = None)"
    unfolding m(1) by (rule fold_assign_None) (simp_all add: std_map_ok_def)
  then show "std_map_ok (mm_masterWalletMap m)" and "map_of (mm_masterWalletMap m) n = Some w \<Longrightarrow> w = None"
    and "mm_files m = files" using m(2) by simp_all
qed

lemma inv_new: "MasterWalletManager_new W there names rootPath netType config dataPath files = Ret m \<Longrightarrow> manager_inv W m"
  using new_map by (fastforce simp: manager_inv_def)

lemma inv_on_wallet:
  assumes m: "manager_inv W m" and o: "on_wallet n f m = (m', r)"
    and good: "\<And>mw mw' files. map_of (mm_masterWalletMap m) n = Some (Some mw) \<Longrightarrow> f mw (mm_files m) = (mw', files, r) \<Longrightarrow>
      wallet_good W files (mm_dataPath m) (mm_config m) n mw'"
    and files: "\<And>mw n'. map_of (mm_masterWalletMap m) n = Some (Some mw) \<Longrightarrow> n' \<noteq> n \<Longrightarrow>
      fst (snd (f mw (mm_files m))) (wallet_path (mm_dataPath m) n') = mm_files m (wallet_path (mm_dataPath m) n')"
  shows "manager_inv W m'"
proof (cases "map_of (mm_masterWalletMap m) n")
  case (Some w)
  show ?thesis
  proof (cases w)
    case mw: (Some mw)
    obtain mw' files' r' where x: "f mw (mm_files m) = (mw', files', r')" by (metis prod_cases3)
    then have "r' = r" using o Some mw by (simp add: on_wallet_def)
    have "files' (wallet_path (mm_dataPath m) n') = mm_files m (wallet_path (mm_dataPath m) n')" if "n' \<noteq> n" for n'
      using files [OF _ that] Some mw x by simp
    from manager_inv_enter [OF m good this] show ?thesis
      using o Some mw x \<open>r' = r\<close> by (auto simp: on_wallet_def)
  qed (use m o Some in \<open>simp add: on_wallet_def\<close>)
qed (use m o in \<open>simp add: on_wallet_def\<close>)

lemma DestroyWallet_unless_save:
  assumes "MasterWallet_DestroyWallet W c mw files = (mw', files', r)" and "r \<noteq> Throw E_Json"
  shows "r = Ret () \<or> mw' = mw \<and> files' = files"
  using assms
  by (auto simp: MasterWallet_DestroyWallet_def LocalStore_Save_def json_dump_def json_get_def Let_def
      split: option.splits if_splits)

lemma inv_of_pair: "x = (m', r) \<Longrightarrow> manager_inv W (fst x) \<Longrightarrow> manager_inv W m'"
  by simp

lemma manager_step_inv:
  assumes T: "json_text_ok (we_text W)" and "manager_step W m m'" and m: "manager_inv W m"
  shows "manager_inv W m'"
  using assms(2)
proof cases
  case (create_sub n c sub)
  show ?thesis
    by (rule inv_on_wallet [OF m create_sub])
      (erule CreateSubWallet_good [OF T manager_invD [OF m]], assumption,
       erule MasterWallet_files_elsewhere(1) [OF manager_invD [OF m]], assumption)
next
  case (destroy_sub n c u)
  show ?thesis
  proof (rule inv_on_wallet [OF m destroy_sub(1)])
    fix mw mw' files
    assume w: "map_of (mm_masterWalletMap m) n = Some (Some mw)"
      and d: "MasterWallet_DestroyWallet W c mw (mm_files m) = (mw', files, u)"
    note g = manager_invD [OF m w]
    from DestroyWallet_unless_save [OF d destroy_sub(2)]
    show "wallet_good W files (mm_dataPath m) (mm_config m) n mw'"
    proof
      assume "u = Ret ()"
      then show ?thesis by (intro DestroySubWallet_good [OF T g _ d]) (simp add: d)
    qed (use g in simp)
  qed (erule MasterWallet_files_elsewhere(2) [OF manager_invD [OF m]], assumption)
next
  case (change_password n old new u mw)
  have p: "repassworded (mw_account mw) a"
    if "Account_ChangePassword (we_lib W) old new (mw_account mw) = Ret a" "\<not> ls_readonly (acc_localstore (mw_account mw))"
    for a by (rule ChangePassword_repassworded [OF that change_password(3)])
  show ?thesis
  proof (rule inv_on_wallet [OF m change_password(1)])
    fix mw0 mw' files
    assume w: "map_of (mm_masterWalletMap m) n = Some (Some mw0)"
      and s: "MasterWallet_ChangePassword W old new mw0 (mm_files m) = (mw', files, Ret u)"
    then have "mw0 = mw" using change_password(2) by simp
    then show "wallet_good W files (mm_dataPath m) (mm_config m) n mw'"
      using account_saved_good [OF T manager_invD [OF m w]] s p unfolding MasterWallet_ChangePassword_def by blast
  next
    fix mw0 n'
    assume w: "map_of (mm_masterWalletMap m) n = Some (Some mw0)" and "n' \<noteq> n"
    then have e: "mw0 = mw" using change_password(2) by simp
    show "fst (snd (MasterWallet_ChangePassword W old new mw0 (mm_files m))) (wallet_path (mm_dataPath m) n') =
        mm_files m (wallet_path (mm_dataPath m) n')"
      unfolding MasterWallet_ChangePassword_def
      by (rule account_saved_elsewhere [OF manager_invD [OF m w] \<open>n' \<noteq> n\<close>]) (simp add: p e)
  qed
next
  case (reset_password n mnemonic passphrase new u)
  show ?thesis
    by (rule inv_on_wallet [OF m reset_password]; unfold MasterWallet_ResetPassword_def)
      (erule account_saved_good [OF T manager_invD [OF m]], assumption, erule ResetPassword_repassworded, assumption,
       erule account_saved_elsewhere [OF manager_invD [OF m]], assumption, erule ResetPassword_repassworded, assumption)
next
  case (destroy n)
  then show ?thesis using inv_Destroy [OF m, of n] by simp
qed (rule inv_of_pair, assumption, intro manager_intros T m)+

lemma manager_reachable_inv:
  assumes "json_text_ok (we_text W)" and "manager_reachable W m"
  shows "manager_inv W m"
  using assms(2)
proof induction
  case (start there names rootPath netType config dataPath files m)
  from inv_new [OF start(1)] show ?case .
next
  case (step m m')
  from manager_step_inv [OF assms(1) step(2,3)] show ?case .
qed

section \<open>A new manager on the folders of another\<close>

lemma Init_loop_all:
  assumes "\<And>info config. info \<in> set infos \<Longrightarrow> Config_GetChainConfig (mw_config mw) (ci_chainID info) = Some config \<Longrightarrow>
      is_Ret (SubWalletFactoryMethod W info config mw)"
  shows "\<exists>created. MasterWallet_Init_loop W infos mw = (mw\<lparr>mw_createdWallets := created\<rparr>, Ret ()) \<and>
    set (map fst created) = set (map fst (mw_createdWallets mw)) \<union>
      {c \<in> ci_chainID ` set infos. Config_GetChainConfig (mw_config mw) c \<noteq> None}"
  using assms
proof (induction infos arbitrary: mw)
  case Nil
  show ?case by (rule exI [of _ "mw_createdWallets mw"]) simp
next
  case (Cons info infos)
  have parent: "SubWalletFactoryMethod W i c (mw\<lparr>mw_createdWallets := ws\<rparr>) = SubWalletFactoryMethod W i c mw" for i c ws
    by (simp add: SubWalletFactoryMethod_def)
  show ?case
  proof (cases "Config_GetChainConfig (mw_config mw) (ci_chainID info)")
    case None
    have "\<And>i c. i \<in> set infos \<Longrightarrow> Config_GetChainConfig (mw_config mw) (ci_chainID i) = Some c \<Longrightarrow>
      is_Ret (SubWalletFactoryMethod W i c mw)" by (rule Cons.prems) simp_all
    from Cons.IH [OF this] obtain created where
      "MasterWallet_Init_loop W infos mw = (mw\<lparr>mw_createdWallets := created\<rparr>, Ret ())"
      "set (map fst created) = set (map fst (mw_createdWallets mw)) \<union>
        {c \<in> ci_chainID ` set infos. Config_GetChainConfig (mw_config mw) c \<noteq> None}" by blast
    then show ?thesis using None by (intro exI [of _ created]) auto
  next
    case (Some config)
    obtain sub where sub: "SubWalletFactoryMethod W info config mw = Ret sub"
      using is_RetD [OF Cons.prems [OF _ Some]] by auto
    let ?mw = "mw\<lparr>mw_createdWallets := std_map_assign (ci_chainID info) sub (mw_createdWallets mw)\<rparr>"
    have "is_Ret (SubWalletFactoryMethod W i c ?mw)"
      if "i \<in> set infos" "Config_GetChainConfig (mw_config ?mw) (ci_chainID i) = Some c" for i c
      using Cons.prems [of i c] that by (simp add: parent)
    from Cons.IH [OF this] obtain created where
      c: "MasterWallet_Init_loop W infos ?mw = (?mw\<lparr>mw_createdWallets := created\<rparr>, Ret ())"
      "set (map fst created) = set (map fst (mw_createdWallets ?mw)) \<union>
        {c \<in> ci_chainID ` set infos. Config_GetChainConfig (mw_config ?mw) c \<noteq> None}" by blast
    show ?thesis
    proof (intro exI conjI)
      show "MasterWallet_Init_loop W (info # infos) mw = (mw\<lparr>mw_createdWallets := created\<rparr>, Ret ())"
        using c(1) Some sub by simp
      show "set (map fst created) = set (map fst (mw_createdWallets mw)) \<union>
          {c \<in> ci_chainID ` set (info # infos). Config_GetChainConfig (mw_config mw) c \<noteq> None}"
        unfolding c(2) using set_std_map_assign [of "ci_chainID info" sub "mw_createdWallets mw"] Some by auto
    qed
  qed
qed

lemma manager_restart:
  fixes mw :: "'w MasterWallet"
  assumes m: "manager_inv W m" and w: "map_of (mm_masterWalletMap m) n = Some (Some mw)"
    and ok: "store_ok (acc_localstore (mw_account mw))"
    and dump: "json_dump (we_text W) (LocalStore_ToJson (we_json W) (acc_localstore (mw_account mw))) = Ret t"
    and new: "MasterWalletManager_new W there names rootPath netType config dataPath (mm_files m) = Ret m0"
    and same: "mm_dataPath m0 = mm_dataPath m" "mm_config m0 = mm_config m"
    and subs: "\<And>info config. info \<in> set (ls_subWallets (acc_localstore (mw_account mw))) \<Longrightarrow>
      Config_GetChainConfig (mm_config m) (ci_chainID info) = Some config \<Longrightarrow>
      is_Ret (SubWalletFactoryMethod W info config (mw\<lparr>mw_account := (mw_account mw)\<lparr>acc_disk := None\<rparr>\<rparr>))"
  shows "\<exists>mw'. MasterWalletManager_GetMasterWallet W n m0 =
      (m0\<lparr>mm_masterWalletMap := std_map_assign n (Some mw') (mm_masterWalletMap m0)\<rparr>, Ret (Some n)) \<and>
    mw_account mw' = (mw_account mw)\<lparr>acc_disk := None\<rparr> \<and>
    set (map fst (mw_createdWallets mw)) \<subseteq> set (map fst (mw_createdWallets mw'))"
proof -
  let ?a = "(mw_account mw)\<lparr>acc_disk := None\<rparr>"
  let ?s = "acc_localstore (mw_account mw)"
  note g = manager_invD [OF m w]
  note files = new_map(3) [OF new]
  have l: "LocalStore_Load (we_lib W) (we_text W) (mm_files m0) (LocalStore_of_path (wallet_path (mm_dataPath m0) n)) = Ret ?s"
    using g dump store_ok_kept [OF ok] files same by (auto simp: wallet_good_def on_disk_def)
  then have store: "has_store (mm_dataPath m0) (mm_files m0) n"
    by (auto simp: has_store_def LocalStore_Load_def LocalStore_of_path_def obind_eq_Ret split: option.splits)
  have a: "Account_of_store (we_lib W) ?s = Ret ?a" using g by (simp add: wallet_good_def)
  let ?mw = "MasterWallet_of n ?a (mm_config m0) :: 'w MasterWallet"
  have load: "MasterWallet_load W n (mm_config m0) (mm_dataPath m0) (mm_files m0) = Ret ?mw"
    by (simp add: MasterWallet_load_def l a)
  have factory: "SubWalletFactoryMethod W i c ?mw = SubWalletFactoryMethod W i c (mw\<lparr>mw_account := ?a\<rparr>)" for i c
    using g same by (simp add: SubWalletFactoryMethod_def MasterWallet_of_def wallet_good_def)
  have ret: "is_Ret (SubWalletFactoryMethod W info config ?mw)"
    if "info \<in> set (ls_subWallets ?s)" "Config_GetChainConfig (mw_config ?mw) (ci_chainID info) = Some config" for info config
    unfolding factory by (rule subs) (use that same in \<open>simp_all add: MasterWallet_of_def\<close>)
  have "\<exists>created. MasterWallet_Init_loop W (ls_subWallets ?s) ?mw = (?mw\<lparr>mw_createdWallets := created\<rparr>, Ret ()) \<and>
    set (map fst created) = set (map fst (mw_createdWallets ?mw)) \<union>
      {c \<in> ci_chainID ` set (ls_subWallets ?s). Config_GetChainConfig (mw_config ?mw) c \<noteq> None}"
    by (rule Init_loop_all) (rule ret)
  then obtain created where
    c: "MasterWallet_Init_loop W (ls_subWallets ?s) ?mw = (?mw\<lparr>mw_createdWallets := created\<rparr>, Ret ())"
    "set (map fst created) = set (map fst (mw_createdWallets ?mw)) \<union>
      {c \<in> ci_chainID ` set (ls_subWallets ?s). Config_GetChainConfig (mw_config ?mw) c \<noteq> None}" by blast
  let ?mw' = "?mw\<lparr>mw_createdWallets := created\<rparr>"
  have i: "MasterWallet_InitSubWallets W ?mw = (?mw', Ret ())"
    using c(1) by (simp add: MasterWallet_InitSubWallets_def MasterWallet_of_def)
  have "MasterWalletManager_LoadMasterWallet W n m0 =
      (m0\<lparr>mm_masterWalletMap := std_map_assign n (Some ?mw') (mm_masterWalletMap m0)\<rparr>, Ret (Some n))"
    using store load i by (simp add: MasterWalletManager_LoadMasterWallet_def)
  moreover have "map_of (mm_masterWalletMap m0) n \<noteq> Some (Some mw'')" for mw'' using new_map(2) [OF new] by force
  ultimately have "MasterWalletManager_GetMasterWallet W n m0 =
      (m0\<lparr>mm_masterWalletMap := std_map_assign n (Some ?mw') (mm_masterWalletMap m0)\<rparr>, Ret (Some n))"
    by (auto simp: MasterWalletManager_GetMasterWallet_def split: option.split)
  moreover have "set (map fst (mw_createdWallets mw)) \<subseteq> set (map fst created)"
    unfolding c(2) using g same by (auto simp: wallet_good_def MasterWallet_of_def)
  ultimately show ?thesis by (intro exI [of _ ?mw']) (simp add: MasterWallet_of_def)
qed

text \<open>What a new manager has listed is not loaded, and most calls do nothing for it.\<close>

lemma fold_assign_keys:
  "fst ` set (fold (\<lambda>n ms. std_map_assign n None ms) names ms) = fst ` set ms \<union> set names"
proof (induction names arbitrary: ms)
  case (Cons n names)
  have "fst ` set (std_map_assign n None ms) = insert n (fst ` set ms)" using set_std_map_assign [of n None ms] by simp
  then show ?case using Cons.IH [of "std_map_assign n None ms"] by auto
qed simp

lemma new_lists:
  assumes "MasterWalletManager_new W there names rootPath netType config dataPath files = Ret m"
    and "lists_folders (mm_dataPath m) files names" and "has_store (mm_dataPath m) files n"
  shows "map_of (mm_masterWalletMap m) n = Some None"
proof -
  have m: "mm_masterWalletMap m = fold (\<lambda>n ms. std_map_assign n None ms) (filter (has_store (mm_dataPath m) files) names) []"
    using assms(1)
    by (auto simp: MasterWalletManager_new_def MasterWalletManager_LoadMasterWalletID_def Let_def split: if_splits)
  have "n \<in> set names" using assms(2,3) by (auto simp: lists_folders_def has_store_def split: option.splits)
  then have "n \<in> fst ` set (mm_masterWalletMap m)" using assms(3) by (simp add: m fold_assign_keys)
  then obtain w where "map_of (mm_masterWalletMap m) n = Some w" by (metis map_of_eq_None_iff option.exhaust)
  then show ?thesis using new_map(2) [OF assms(1)] by auto
qed

lemma unloaded_calls:
  assumes "map_of (mm_masterWalletMap m) n = Some None"
  shows "MasterWalletManager_DestroyWallet n m = m" and "\<not> MasterWalletManager_WalletLoaded n m"
    and "unless_entered n m k = (m, Ret None)"
  using assms by (simp_all add: MasterWalletManager_DestroyWallet_def MasterWalletManager_WalletLoaded_def unless_entered_def)

text \<open>A call that does nothing: the manager is as it was, and if anything is returned, it is a null pointer.\<close>

definition does_nothing :: "'w MasterWalletManager \<Rightarrow> 'w MasterWalletManager \<times> string option outcome \<Rightarrow> bool" where
  "does_nothing m x \<longleftrightarrow> fst x = m \<and> (\<forall>p. snd x = Ret p \<longrightarrow> p = None)"

lemma nothing_checked: "(\<And>x. does_nothing m (k x)) \<Longrightarrow> does_nothing m (checked check m k)"
  by (cases check) (simp_all add: does_nothing_def checked_def)

lemma nothing_unloaded: "map_of (mm_masterWalletMap m) n = Some None \<Longrightarrow> does_nothing m (unless_entered n m k)"
  by (simp add: does_nothing_def unless_entered_def)

lemma nothing_made:
  assumes "map_of (mm_masterWalletMap m) n = Some None"
  shows "does_nothing m (MasterWalletManager_CreateMasterWallet W n mn pp pw single m)"
    "does_nothing m (MasterWalletManager_CreateMasterWallet_single W n key pw m)"
    "does_nothing m (MasterWalletManager_CreateMultiSignMasterWallet W n js k single old m)"
    "does_nothing m (MasterWalletManager_CreateMultiSignMasterWallet_xprv W n xprv pw js k single old m)"
    "does_nothing m (MasterWalletManager_CreateMultiSignMasterWallet_mnemonic W n mn pp pw js k single old m)"
    "does_nothing m (MasterWalletManager_ImportWalletWithKeystore W n keystore backup pw m)"
    "does_nothing m (MasterWalletManager_ImportWalletWithMnemonic W n mn pp pw single m)"
    "does_nothing m (MasterWalletManager_ImportWalletWithSeed W n seed pw single mn pp m)"
  unfolding manager_ops MasterWalletManager_ImportWalletWithKeystore_def
  by (intro nothing_checked nothing_unloaded assms)+

section \<open>Two multi-sign wallets\<close>

text \<open>
  A read-only multi-sign account has no extended key of its own, and two accounts without one are compared by their
  Ethereum key, which neither has.
\<close>

lemma bip45_loop_xpub: "bip45_loop lib ss i a = Ret b \<Longrightarrow> acc_xpub b = acc_xpub a"
  by (induction ss arbitrary: i a) (auto simp: obind_eq_Ret Let_def split: if_splits)

lemma Account_Init_no_xpub:
  assumes "Account_Init lib a = Ret b" and "ls_xPubKey (acc_localstore a) = []"
  shows "acc_xpub b = None"
  using assms by (auto simp: Account_Init_def Account_Init_signers_def read_xpub_option_def Let_def obind_eq_Ret omap_def
      dest!: bip45_loop_xpub split: if_splits)

lemma cosigners_equal:
  assumes "Account_of_cosigners lib p rings k single cmp = Ret a" and "2 \<le> length rings"
    and "Account_of_cosigners lib p' rings' k' single' cmp' = Ret b" and "2 \<le> length rings'"
  shows "Account_Equal (Account_Save a) (Account_Save b) = Ret True"
proof -
  have d: "acc_xpub x = None \<and> ls_n (acc_localstore x) > 1 \<and> ls_ethscPrimaryPubKey (acc_localstore x) = []"
    if x: "Account_of_cosigners lib p rings k single cmp = Ret x" "2 \<le> length rings" for p rings k single cmp x
  proof -
    obtain s where i: "Account_Init lib (Account_raw s) = Ret x" and s: "ls_xPubKey s = []" "ls_n s = int (length rings)"
      "ls_ethscPrimaryPubKey s = []"
      using x(1) by (auto simp: Account_of_cosigners_def LocalStore_of_path_def split: if_splits)
    then show ?thesis
      using Account_Init_no_xpub [OF i] Account_Init_keeps(1) [OF i] x(2)
      by (simp add: Account_raw_def)
  qed
  have "setHex [] = Ret []" using setHex_getHex [of "[]"] by simp
  then show ?thesis
    using d [OF assms(1,2)] d [OF assms(3,4)]
    by (simp add: Account_Equal_def Account_GetETHSCPubKey_def Account_GetSignType_def Account_Save_def)
qed

lemma is_redundant_equal:
  "map_of ws n = Some (Some w) \<Longrightarrow> MasterWallet_IsEqual mw w = Ret True \<Longrightarrow> is_redundant mw ws \<noteq> Ret False"
  by (induction ws) (auto simp: obind_eq_Ret split: if_splits option.splits)

lemma add_wallet_not_redundant:
  assumes "add_wallet W n made m = (m', Ret p)"
  obtains files mw where "MasterWallet_saved W n (mm_config m) made (mm_files m) = (files, Ret mw)"
    and "is_redundant mw (mm_masterWalletMap m) = Ret False"
    and "map_of (mm_masterWalletMap m') n = Some (Some mw)"
proof -
  obtain files r where s: "MasterWallet_saved W n (mm_config m) made (mm_files m) = (files, r)" by fastforce
  then obtain mw where "r = Ret mw" using assms by (cases r) (auto simp: add_wallet_def)
  then show thesis
    using assms s that
    by (auto simp: add_wallet_def MasterWalletManager_checkRedundant_def split: outcome.splits if_splits)
qed

lemma MasterWallet_saved_account:
  assumes "MasterWallet_saved W n cfg made files = (files', Ret mw)"
  obtains a where "made = Ret a" and "mw_account mw = Account_Save a"
  using assms by (auto simp: MasterWallet_saved_def MasterWallet_of_def omap_def obind_eq_Ret split: outcome.splits prod.splits)

lemma checked_Ret: "checked check m k = (m', Ret p) \<Longrightarrow> (\<And>x. check = Ret x \<Longrightarrow> k x = (m', Ret p) \<Longrightarrow> P) \<Longrightarrow> P"
  by (cases check) (simp_all add: checked_def)

lemma cosigner_rings_length:
  "cosigner_rings E valid vs rings = Ret rings' \<Longrightarrow> length rings' = length rings + length vs"
  by (induction vs arbitrary: rings) (auto split: option.splits if_splits)

lemma multisign_added:
  assumes "MasterWalletManager_CreateMultiSignMasterWallet W n js k single old m = (m', Ret p)"
    and "map_of (mm_masterWalletMap m) n = None"
  obtains rings where "2 \<le> length rings"
    and "add_wallet W n (MasterWallet_Account_of_cosigners W n rings k (mm_dataPath m) single old) m = (m', Ret p)"
proof -
  obtain rings where "cosigner_rings (we_json W) (\<lambda>_. True) (je_elems (we_json W) js) [] = Ret rings"
    and l: "2 \<le> length (je_elems (we_json W) js)"
    and "add_wallet W n (MasterWallet_Account_of_cosigners W n rings k (mm_dataPath m) single old) m = (m', Ret p)"
    using assms unfolding MasterWalletManager_CreateMultiSignMasterWallet_def
    by (elim checked_Ret) (auto simp: unless_entered_def check_that_def split: if_splits)
  then show thesis using cosigner_rings_length [of "we_json W" "\<lambda>_. True" "je_elems (we_json W) js" "[]" rings] by (intro that) simp_all
qed

section \<open>Backups\<close>

lemma wallet_backup:
  assumes lib: "hd_lib_ok (al_hd (we_lib W))" and aes: "aes_ok (we_lib W)" and T: "json_text_ok (we_text W)"
    and cc: "ccm_ok (we_ccm W)" and iv: "13 \<le> length randomIV"
    and g: "wallet_good W files dataPath cfg n mw"
    and s: "from_seed (we_lib W) seed root std passwd (acc_localstore (mw_account mw))"
    and nz: "some_nonzero (HDKeychain_extkey root)" and coins: "coins_ok (ls_subWallets (acc_localstore (mw_account mw)))"
    and x: "MasterWallet_ExportKeystore W backup passwd randomSalt randomIV mw = Ret (j, mw')"
  shows "\<exists>a. MasterWallet_Account_of_keystore W n' j backup passwd' dataPath' = Ret a \<and>
    from_seed (we_lib W) seed root std passwd' (acc_localstore a) \<and>
    acc_xpub a = acc_xpub (mw_account mw) \<and> acc_ownerPubKey a = acc_ownerPubKey (mw_account mw) \<and>
    ls_subWallets (acc_localstore a) = ls_subWallets (acc_localstore (mw_account mw)) \<and>
    ls_path (acc_localstore a) = wallet_path dataPath' n'"
proof -
  let ?a = "Account_Save (mw_account mw)" and ?s = "acc_localstore (mw_account mw)"
  obtain json a' where e: "Account_ExportKeystore (we_lib W) passwd ?a = Ret (json, a')"
    and f: "KeyStore_Export (we_ccm W) (we_text W) (WalletJson_of json) backup True randomSalt randomIV = Ret j"
    using x by (auto simp: MasterWallet_ExportKeystore_def obind_eq_Ret)
  have i: "int32 (ls_m (acc_localstore ?a))" "int32 (ls_n (acc_localstore ?a))" "coins_ok (ls_subWallets (acc_localstore ?a))"
    using g coins by (simp_all add: wallet_good_def store_ints_def)
  have s': "from_seed (we_lib W) seed root std passwd (acc_localstore ?a)" using s by simp
  note b = backup_of_seed_account [OF lib aes T cc iv s' nz i e f]
  obtain s2 where s2: "keystore_store (we_lib W) (wallet_path dataPath' n') json passwd' = Ret s2"
    "from_seed (we_lib W) seed root std passwd' s2"
    "LocalStore_public s2 = (LocalStore_public ?s)\<lparr>ls_path := wallet_path dataPath' n', ls_account := 0, ls_passphrase := []\<rparr>"
    using b(3) [of "wallet_path dataPath' n'" passwd'] by auto
  have p: "ls_path s2 = wallet_path dataPath' n'" "ls_subWallets s2 = ls_subWallets ?s"
    using arg_cong [OF s2(3), of ls_path] arg_cong [OF s2(3), of ls_subWallets] by (simp_all add: LocalStore_public_def)
  have same: "same_keys ?s s2"
    unfolding same_keys_def
    using arg_cong [OF s2(3), of ls_ownerPubKey] arg_cong [OF s2(3), of ls_requestPubKey]
      arg_cong [OF s2(3), of ls_publicKeyRing] arg_cong [OF s2(3), of ls_xPubKey]
      arg_cong [OF s2(3), of ls_xPubKeyBitcoin] arg_cong [OF s2(3), of ls_xPubKeyHDPM]
      arg_cong [OF s2(3), of ls_n] arg_cong [OF s2(3), of ls_derivationStrategy]
    by (simp add: LocalStore_public_def)
  have "Account_of_store (we_lib W) s2 = Ret ((mw_account mw)\<lparr>acc_disk := None, acc_localstore := s2\<rparr>)"
    using Account_of_store_same [OF same] g by (simp add: wallet_good_def)
  then have "MasterWallet_Account_of_keystore W n' j backup passwd' dataPath' =
      Ret ((mw_account mw)\<lparr>acc_disk := None, acc_localstore := s2\<rparr>)"
    using b(2) s2(1) by (simp add: MasterWallet_Account_of_keystore_def Account_of_keystore_def Account_of_store_def)
  then show ?thesis using s2(2) p by simp
qed

text \<open>A key store that was imported is exported and imported as it is.\<close>

lemma keystore_again:
  assumes "json_text_ok T" and "ccm_ok cc" and "13 \<le> length randomIV"
    and "KeyStore_Import lib cc T file passwd w0 = Ret w" and "wallet_ok w"
    and "KeyStore_Export cc T w passwd' True randomSalt randomIV = Ret file'"
  shows "KeyStore_Import lib cc T file' passwd' w0' = Ret w"
proof -
  obtain p w1 where "ElaNewWalletJson_renew lib p w1 = Ret w"
    using assms(4)
    by (auto simp: KeyStore_Import_def ElaNewWalletJson_FromJson_def ElaNewWalletJson_FromJsonCommon_def obind_eq_Ret
        split: if_splits)
  from ElaNewWalletJson_renew_twice [OF this] show ?thesis
    using KeyStore_roundtrip [OF assms(1,2,5,3,6)] by simp
qed

end
