(* ===== verification/StoreSampleM.thy ===== *)
theory StoreSampleM
  imports JsonSampleM MasterInvariant
begin

text \<open>
  Texts of the JSON values of \<open>JsonSampleM\<close>, with a parser that reads what was printed, a cipher that keeps its laws, and
  a master wallet with them: what the theorems on stores, key stores and managers are applied to.
\<close>

section \<open>Texts of values\<close>

definition print_string :: "string \<Rightarrow> string" where
  "print_string s = concat (map (\<lambda>c. [CHR ''c'', c]) s) @ ''e''"

definition print_num :: "int \<Rightarrow> string" where
  "print_num n = (if n < 0 then ''m'' else ''d'') @ dec_text (nat \<bar>n\<bar>) @ ''e''"

primrec print_val :: "jval \<Rightarrow> string"
  and print_vals :: "jval list \<Rightarrow> string"
  and print_members :: "(string \<times> jval) list \<Rightarrow> string"
  and print_member :: "string \<times> jval \<Rightarrow> string" where
  "print_val JNull = ''n''"
| "print_val (JStr s) = ''s'' @ print_string s"
| "print_val (JNum n) = print_num n"
| "print_val (JBool b) = (if b then ''t'' else ''f'')"
| "print_val (JArr xs) = ''['' @ print_vals xs"
| "print_val (JObj ms) = ''{'' @ print_members ms"
| "print_vals [] = '']''"
| "print_vals (x # xs) = print_val x @ print_vals xs"
| "print_members [] = ''}''"
| "print_members (m # ms) = print_member m @ print_members ms"
| "print_member (k, v) = print_string k @ print_val v"

fun parse_string :: "string \<Rightarrow> (string \<times> string) option" where
  "parse_string (e # c # r) =
     (if e = CHR ''c'' then map_option (\<lambda>(s, r). (c # s, r)) (parse_string r)
      else if e = CHR ''e'' then Some ([], c # r) else None)"
| "parse_string [e] = (if e = CHR ''e'' then Some ([], []) else None)"
| "parse_string [] = None"

definition parse_nat :: "string \<Rightarrow> (int \<times> string) option" where
  "parse_nat t = Some (int (digits_value 0 (takeWhile is_digit t)), drop 1 (dropWhile is_digit t))"

text \<open>The fuel is spent one for each value or end of a list; the length of the text is enough.\<close>

fun parse_val :: "nat \<Rightarrow> string \<Rightarrow> (jval \<times> string) option"
  and parse_vals :: "nat \<Rightarrow> string \<Rightarrow> (jval list \<times> string) option"
  and parse_members :: "nat \<Rightarrow> string \<Rightarrow> ((string \<times> jval) list \<times> string) option" where
  "parse_val (Suc n) (c # r) =
     (if c = CHR ''n'' then Some (JNull, r)
      else if c = CHR ''s'' then map_option (\<lambda>(s, r). (JStr s, r)) (parse_string r)
      else if c = CHR ''d'' then map_option (\<lambda>(i, r). (JNum i, r)) (parse_nat r)
      else if c = CHR ''m'' then map_option (\<lambda>(i, r). (JNum (- i), r)) (parse_nat r)
      else if c = CHR ''t'' then Some (JBool True, r)
      else if c = CHR ''f'' then Some (JBool False, r)
      else if c = CHR ''['' then map_option (\<lambda>(xs, r). (JArr xs, r)) (parse_vals n r)
      else if c = CHR ''{'' then map_option (\<lambda>(ms, r). (JObj ms, r)) (parse_members n r)
      else None)"
| "parse_val n t = None"
| "parse_vals (Suc n) t =
     (if t = [] then None
      else if hd t = CHR '']'' then Some ([], tl t)
      else case parse_val n t of None \<Rightarrow> None
        | Some (x, r) \<Rightarrow> map_option (\<lambda>(xs, r). (x # xs, r)) (parse_vals n r))"
| "parse_vals 0 t = None"
| "parse_members (Suc n) t =
     (if t = [] then None
      else if hd t = CHR ''}'' then Some ([], tl t)
      else case parse_string t of None \<Rightarrow> None
        | Some (k, r) \<Rightarrow> (case parse_val n r of None \<Rightarrow> None
          | Some (v, r) \<Rightarrow> map_option (\<lambda>(ms, r). ((k, v) # ms, r)) (parse_members n r)))"
| "parse_members 0 t = None"

definition parse_json :: "string \<Rightarrow> jval option" where
  "parse_json t = (case parse_val (length t) t of Some (j, []) \<Rightarrow> Some j | _ \<Rightarrow> None)"

lemma parse_print_string [simp]: "parse_string (print_string s @ r) = Some (s, r)"
proof (induction s)
  case Nil
  show ?case by (cases r) (simp_all add: print_string_def)
qed (simp add: print_string_def)

lemma parse_print_nat: "parse_nat (dec_text n @ CHR ''e'' # r) = Some (int n, r)"
proof -
  have "\<not> is_digit CHR ''e''" by code_simp
  then have "takeWhile is_digit (dec_text n @ CHR ''e'' # r) = dec_text n" "dropWhile is_digit (dec_text n @ CHR ''e'' # r) = CHR ''e'' # r"
    using dec_text_digits [of n] by (simp_all add: takeWhile_append dropWhile_append list_all_iff)
  then show ?thesis using dec_text_digits [of n] by (simp add: parse_nat_def)
qed

lemma print_string_head: "print_string s \<noteq> [] \<and> hd (print_string s) \<noteq> CHR ''}''"
  by (cases s) (simp_all add: print_string_def)

lemma print_val_head: "print_val j \<noteq> [] \<and> hd (print_val j) \<noteq> CHR '']''"
  by (cases j) (simp_all add: print_num_def)

lemma print_val_length: "1 \<le> length (print_val j)"
  using print_val_head [of j] by (cases "print_val j") simp_all

definition prints :: "jval \<Rightarrow> bool" where
  "prints j \<longleftrightarrow> (\<forall>n r. length (print_val j) \<le> n \<longrightarrow> parse_val n (print_val j @ r) = Some (j, r))"

lemma printsD: "prints j \<Longrightarrow> length (print_val j) \<le> n \<Longrightarrow> parse_val n (print_val j @ r) = Some (j, r)"
  by (simp add: prints_def)

lemma print_vals_length: "1 \<le> length (print_vals xs)"
proof (cases xs)
  case (Cons x ys)
  then show ?thesis using print_val_length [of x] by simp
qed simp

lemma parse_print_vals:
  "\<forall>x \<in> set xs. prints x \<Longrightarrow> length (print_vals xs) \<le> n \<Longrightarrow> parse_vals n (print_vals xs @ r) = Some (xs, r)"
proof (induction xs arbitrary: n)
  case Nil
  then show ?case by (cases n) simp_all
next
  case (Cons x xs)
  obtain k where n: "n = Suc k" using Cons.prems(2) print_val_length [of x] by (cases n) auto
  have "parse_val k (print_val x @ print_vals xs @ r) = Some (x, print_vals xs @ r)"
    by (rule printsD) (use Cons.prems n print_vals_length [of xs] in auto)
  moreover have "parse_vals k (print_vals xs @ r) = Some (xs, r)"
    by (rule Cons.IH) (use Cons.prems n print_val_length [of x] in auto)
  ultimately show ?case using n print_val_head [of x] by (auto simp: hd_append)
qed

lemma print_string_length: "1 \<le> length (print_string s)"
  by (simp add: print_string_def)

lemma parse_print_members:
  "\<forall>m \<in> set ms. prints (snd m) \<Longrightarrow> length (print_members ms) \<le> n \<Longrightarrow>
   parse_members n (print_members ms @ r) = Some (ms, r)"
proof (induction ms arbitrary: n)
  case Nil
  then show ?case by (cases n) simp_all
next
  case (Cons m ms)
  obtain key v where m: "m = (key, v)" by (cases m)
  obtain k where n: "n = Suc k" using Cons.prems(2) print_string_length [of key] m by (cases n) auto
  have "parse_val k (print_val v @ print_members ms @ r) = Some (v, print_members ms @ r)"
    by (rule printsD) (use Cons.prems n m print_string_length [of key] in auto)
  moreover have "parse_members k (print_members ms @ r) = Some (ms, r)"
    by (rule Cons.IH) (use Cons.prems n m print_string_length [of key] in auto)
  ultimately show ?case using n m print_string_head [of key] by (auto simp: hd_append)
qed

lemma parse_print: "prints j"
proof (induction j)
  case (JNum i)
  show ?case unfolding prints_def
  proof (intro allI impI)
    fix n r
    assume "length (print_val (JNum i)) \<le> n"
    then obtain k where "n = Suc k" by (cases n) (auto simp: print_num_def)
    then show "parse_val n (print_val (JNum i) @ r) = Some (JNum i, r)" by (simp add: print_num_def parse_print_nat)
  qed
next
  case (JArr xs)
  show ?case unfolding prints_def
  proof (intro allI impI)
    fix n r
    assume "length (print_val (JArr xs)) \<le> n"
    then obtain k where "n = Suc k" "length (print_vals xs) \<le> k" by (cases n) auto
    then show "parse_val n (print_val (JArr xs) @ r) = Some (JArr xs, r)"
      using JArr parse_print_vals by simp
  qed
next
  case (JObj ms)
  have "\<forall>m \<in> set ms. prints (snd m)" using JObj by (auto intro: snds.intros)
  note p = parse_print_members [OF this]
  show ?case unfolding prints_def
  proof (intro allI impI)
    fix n r
    assume "length (print_val (JObj ms)) \<le> n"
    then obtain k where "n = Suc k" "length (print_members ms) \<le> k" by (cases n) auto
    then show "parse_val n (print_val (JObj ms) @ r) = Some (JObj ms, r)" using p by simp
  qed
qed (auto simp: prints_def Suc_le_eq less_eq_Suc_le [symmetric] dest!: less_imp_Suc_add)

lemma parse_json_print: "parse_json (print_val j) = Some j"
  using printsD [OF parse_print, of j "length (print_val j)" "[]"] by (simp add: parse_json_def)

definition jval_text :: "jval json_env \<Rightarrow> jval json_text" where
  "jval_text E = \<lparr>jt_env = E, jt_dump = \<lambda>j. Some (print_val j), jt_written = print_val, jt_parse = parse_json,
     jt_erase = \<lambda>j k. case j of JObj ms \<Rightarrow> JObj (filter (\<lambda>m. fst m \<noteq> k) ms) | _ \<Rightarrow> j\<rparr>"

lemma jval_text_ok:
  assumes "hd (checksum_of sha256_2 (uint168_bytes 0)) \<noteq> 0"
  shows "json_text_ok (jval_text (jval_env sha256_2))"
proof -
  have f: "map_of (filter (\<lambda>m. fst m \<noteq> k) ms) k' = (if k' = k then None else map_of ms k')" for ms :: "(string \<times> jval) list" and k k'
    by (induction ms) auto
  show ?thesis
    using jval_env_ok [OF assms]
    by (auto simp: json_text_ok_def jval_text_def parse_json_print f jval_env_def je_open_def split: jval.splits)
qed

definition sample_texts :: "jval json_text" where
  "sample_texts = jval_text sample_json"

lemma sample_texts_ok: "json_text_ok sample_texts"
  unfolding sample_texts_def sample_json_def by (rule jval_text_ok) code_simp

definition sample_ccm :: ccm_lib where
  "sample_ccm = \<lparr>cc_key = \<lambda>pw salt iter. Some [], cc_seal = \<lambda>ks key iv aad p. Some (p, replicate 8 0),
     cc_open = \<lambda>ks key iv aad tag c. Some c\<rparr>"

lemma sample_ccm_ok: "ccm_ok sample_ccm"
  by (simp add: ccm_ok_def sample_ccm_def)

section \<open>A manager\<close>

definition sample_env :: "(jval, unit) wallet_env" where
  "sample_env = \<lparr>we_lib = sample_lib, we_ccm = sample_ccm, we_text = sample_texts,
     we_new = \<lambda>kind info config a net. Ret ()\<rparr>"

lemma sample_env_simps [simp]:
  "we_lib sample_env = sample_lib" "we_text sample_env = sample_texts" "we_ccm sample_env = sample_ccm"
  "jt_env sample_texts = sample_json"
  by (simp_all add: sample_env_def sample_texts_def jval_text_def)

definition sample_config :: Config where
  "sample_config = \<lparr>cfg_netType = ''MainNet'', cfg_chains = [(''ELA'', \<lparr>chc_name = [], chc_chainId = 0, chc_networkId = 0\<rparr>)]\<rparr>"

lemma sample_config_of: "Config_of sample_json ''MainNet'' (JObj [(''ELA'', JNull)]) = sample_config"
  by (simp add: Config_of_def Config_FromJSON_def sample_json_def jval_env_def ChainConfig_of_def has_substring_def
      sample_config_def upt_rec)

lemma sample_new:
  "MasterWalletManager_new sample_env (\<lambda>p. True) names ''root'' ''MainNet'' (JObj [(''ELA'', JNull)]) [] files =
   Ret (MasterWalletManager_LoadMasterWalletID names
     \<lparr>mm_rootPath = ''root'', mm_dataPath = ''root'', mm_config = sample_config, mm_masterWalletMap = [], mm_files = files\<rparr>)"
  using sample_config_of by (simp add: MasterWalletManager_new_def sample_config_def Let_def)

lemma sample_dump: "json_dump sample_texts j = Ret (print_val j)"
  by (simp add: json_dump_def sample_texts_def jval_text_def)

lemma sample_save:
  assumes "ls_path s \<noteq> []"
  shows "\<exists>files'. LocalStore_Save sample_texts s files = (files', Ret ()) \<and> dom files' = insert (ls_path s) (dom files)"
  using assms LocalStore_ToJson_not_empty [OF sample_texts_ok, of s]
  by (auto simp: LocalStore_Save_def Let_def sample_dump)

text \<open>A wallet made from a seed, with the main chain open.\<close>

definition sample_master :: "Account \<Rightarrow> unit MasterWallet" where
  "sample_master a = \<lparr>mw_id = ''w'', mw_account = Account_Save (Account_AddSubWalletInfoList \<lparr>ci_chainID = ''ELA''\<rparr> (Account_Save a)),
     mw_createdWallets = [(''ELA'', ())], mw_config = sample_config\<rparr>"

lemma sample_seed_account:
  obtains a where "Account_of_seed sample_lib ''root/w'' 0 sample_passwd True [] [] = Ret a"
    "ls_path (acc_localstore a) = ''root/w''" "ls_subWallets (acc_localstore a) = []" "store_ints (acc_localstore a)"
proof -
  obtain root std account p where d: "root_of_seed sample_lib CTElastos 0 = Ret root"
    "root_of_seed sample_lib CTBitcoin 0 = Ret std" "seed_derives sample_lib root std"
    using sample_derives by metis
  have lib: "hd_lib_ok (al_hd sample_lib)" by (simp add: sample_hd_ok)
  obtain a where a: "Account_of_seed sample_lib ''root/w'' 0 sample_passwd True [] [] = Ret a"
    using Account_of_seed_returns [OF lib sample_aes_ok d, of "''root/w''" sample_passwd True "[]" "[]"] by metis
  have "ls_subWallets (acc_localstore a) = []"
    using a Account_Init_keeps(1)
    by (fastforce simp: Account_of_seed_def seed_store_def obind_eq_Ret LocalStore_of_path_def Account_raw_def)
  then show ?thesis using that a seed_made [OF a] by (simp add: account_made_def)
qed

lemma sample_manager:
  assumes a: "Account_of_seed sample_lib ''root/w'' 0 sample_passwd True [] [] = Ret a"
    "ls_path (acc_localstore a) = ''root/w''" "ls_subWallets (acc_localstore a) = []"
  obtains m where "manager_reachable sample_env m" "mm_masterWalletMap m = [(''w'', Some (sample_master a))]"
    "mm_dataPath m = ''root''" "mm_config m = sample_config" "dom (mm_files m) = {''root/w''}"
proof -
  define m0 where "m0 = \<lparr>mm_rootPath = ''root'', mm_dataPath = ''root'', mm_config = sample_config,
    mm_masterWalletMap = ([] :: (string \<times> unit MasterWallet option) list), mm_files = Map.empty\<rparr>"
  have "MasterWalletManager_new sample_env (\<lambda>p. True) [] ''root'' ''MainNet'' (JObj [(''ELA'', JNull)]) [] Map.empty = Ret m0"
    by (simp add: sample_new m0_def MasterWalletManager_LoadMasterWalletID_def)
  then have r0: "manager_reachable sample_env m0"
    by (rule manager_reachable.start) (simp add: lists_folders_def)
  let ?seed = "getHex0 (le_bytes 64 (0 :: uint512))"
  have seed: "setHex ?seed = Ret (le_bytes 64 (0 :: uint512))" by (rule setHex_getHex)
  have z: "uint512_of_bytes (le_bytes 64 (0 :: uint512)) = 0"
    by (simp add: uint512_of_bytes_def of_le_le_bytes)
  obtain f1 where f1: "LocalStore_Save sample_texts (acc_localstore a) Map.empty = (f1, Ret ())" "dom f1 = {''root/w''}"
    using sample_save [of "acc_localstore a" Map.empty] a(2) by auto
  define m1 where "m1 = m0\<lparr>mm_masterWalletMap := [(''w'', Some (MasterWallet_of ''w'' (Account_Save a) sample_config))],
    mm_files := f1\<rparr>"
  have "MasterWalletManager_ImportWalletWithSeed sample_env ''w'' ?seed sample_passwd True [] [] m0 = (m1, Ret (Some ''w''))"
    using a(1) f1(1) seed z
    by (simp add: MasterWalletManager_ImportWalletWithSeed_def checked_def CheckParamNotEmpty_def CheckPassword_def
        seed_and_mnemonic_def unless_entered_def add_wallet_def MasterWallet_saved_def m0_def wallet_path_def
        MasterWallet_Account_of_seed_def MasterWalletManager_checkRedundant_def sample_passwd_def m1_def Let_def)
  then have r1: "manager_reachable sample_env m1" by (intro manager_reachable.step [OF r0] manager_step.import_seed)
  let ?a = "Account_AddSubWalletInfoList \<lparr>ci_chainID = ''ELA''\<rparr> (Account_Save a)"
  have p: "ls_path (acc_localstore ?a) = ''root/w''"
    using a(2) by (simp add: Account_AddSubWalletInfoList_def LocalStore_AddSubWalletInfoList_def)
  obtain f2 where f2: "LocalStore_Save sample_texts (acc_localstore ?a) f1 = (f2, Ret ())" "dom f2 = {''root/w''}"
    using sample_save [of "acc_localstore ?a" f1] p f1(2) by auto
  define m2 where "m2 = m1\<lparr>mm_masterWalletMap := [(''w'', Some (sample_master a))], mm_files := f2\<rparr>"
  have "on_wallet ''w'' (MasterWallet_CreateSubWallet sample_env ''ELA'') m1 = (m2, Ret ())"
    using f2(1)
    by (simp add: on_wallet_def m1_def m2_def MasterWallet_CreateSubWallet_def MasterWallet_of_def Config_GetChainConfig_def
        sample_config_def SubWalletFactoryMethod_def sample_env_def sample_master_def Let_def)
  then have r2: "manager_reachable sample_env m2" by (intro manager_reachable.step [OF r1] manager_step.create_sub)
  show thesis by (rule that [OF r2]) (use f2(2) in \<open>simp_all add: m2_def m1_def m0_def\<close>)
qed

section \<open>Keys of it\<close>

lemma sample_eth_key:
  assumes "Account_of_seed sample_lib path 0 passwd single [] [] = Ret a"
  shows "eth_key_kept (ls_ethscPrimaryPubKey (acc_localstore a)) = ls_ethscPrimaryPubKey (acc_localstore a)"
proof -
  obtain root std where s: "from_seed sample_lib 0 root std passwd (acc_localstore a)"
    using Account_of_seed_from_seed [OF sample_aes_ok assms] by blast
  then obtain eth where eth: "hd_child sample_lib std ''44h/60h/0h/0/0'' = Ret eth"
    "hd_uncompressed_text sample_lib eth = Ret (ls_ethscPrimaryPubKey (acc_localstore a))"
    and r: "root_of_seed sample_lib CTBitcoin 0 = Ret std"
    unfolding from_seed_def by blast
  have std: "key_value std = 2 ^ 32" "sample_good std" using sample_root [of CTBitcoin] r by auto
  have "path_sum [0x8000002C, 0x8000003C, 0x80000000, 0, 0] \<le> 5 * 2 ^ 33"
    using path_sum_bound [of "[0x8000002C, 0x8000003C, 0x80000000, 0, 0]"] by simp
  then have "key_value std + path_sum [0x8000002C, 0x8000003C, 0x80000000, 0, 0] < 2 ^ 255" using std(1) by simp
  from sample_hd_child [OF std(2) sample_path_texts(5) _ this]
  have "sample_good eth" using eth(1) by auto
  then have "ls_ethscPrimaryPubKey (acc_localstore a) = getHex0 (4 # 2 # be_pad 32 (key_value eth))"
    using eth(2) by (auto simp: hd_uncompressed_text_def sample_key_def sample_good_def)
  moreover have "hex_byte 4 = ''04''" "hex_byte 2 = ''02''" by code_simp+
  then have "getHex0 (4 # 2 # bs) = ''0402'' @ getHex0 bs" for bs by (simp add: getHex0_concat)
  ultimately show ?thesis by (simp add: eth_key_kept_def)
qed

lemma nonzero_key:
  assumes "key_value k \<noteq> 0"
  shows "some_nonzero (HDKeychain_extkey k)"
proof (rule ccontr)
  assume "\<not> some_nonzero (HDKeychain_extkey k)"
  then have "\<forall>b \<in> set (rev (drop 1 (hd_key k))). b = 0"
    by (auto simp: some_nonzero_def HDKeychain_extkey_def dest: in_set_dropD)
  moreover have "\<forall>b \<in> set bs. b = 0 \<Longrightarrow> nat_of_le bs = 0" for bs by (induction bs) simp_all
  ultimately show False using assms by (simp add: key_value_def BigInt_setBytes_def)
qed

lemma be_pad_inj: "be_pad 32 i = be_pad 32 j \<Longrightarrow> 0 \<le> i \<Longrightarrow> 0 \<le> j \<Longrightarrow> i = j"
  using BigInt_setBytes_pad [of i 32] BigInt_setBytes_pad [of j 32] by metis

lemma sample_two_xpubs:
  obtains x1 x2 p1 p2 where "x1 \<noteq> x2" "read_xpub sample_lib CTElastos x1 = Ret p1" "read_xpub sample_lib CTElastos x2 = Ret p2"
proof -
  have lib: "hd_lib_ok (al_hd sample_lib)" by (simp add: sample_hd_ok)
  obtain root where root: "key_value root = 2 ^ 32" "sample_good root" "hd_type root = CTElastos"
    using sample_root [of CTElastos] by auto
  have wf: "hd_wf (al_hd sample_lib) root" using root(2) by (simp add: sample_good_def)
  have t: "\<exists>x p. read_xpub sample_lib CTElastos x = Ret p \<and> hd_pubkey p = 2 # be_pad 32 (2 ^ 32 + path_sum ns)"
    if path: "hd_path path = path_text ns" "ns \<noteq> []" "2 ^ 32 + path_sum ns < 2 ^ 255" for path ns
  proof -
    obtain c where c: "hd_child sample_lib root path = Ret c" "key_value c = 2 ^ 32 + path_sum ns" "sample_good c"
      using sample_hd_child [OF root(2) path(1,2)] path(3) root(1) by auto
    obtain q where q: "HDKeychain_getPublic sample_hd c = Ret q"
      using c(3) by (simp add: HDKeychain_getPublic_def hd_wf_def sample_good_def)
    have "hd_public_text sample_lib root path = Ret (Base58_CheckEncode (al_sha256_2 sample_lib) (HDKeychain_extkey q) [])"
      using c(1) q by (simp add: hd_public_text_def)
    from hd_public_text_read [OF lib wf _ this] root(3) c(1) q
    have "read_xpub sample_lib CTElastos (Base58_CheckEncode (al_sha256_2 sample_lib) (HDKeychain_extkey q) []) = Ret q"
      by force
    moreover have "hd_pubkey q = hd_pubkey c"
      using q c(3) by (auto simp: HDKeychain_getPublic_def sample_good_def hd_wf_def split: if_splits)
    ultimately show ?thesis using c(2,3) by (auto simp: sample_good_def)
  qed
  obtain x1 p1 where 1: "read_xpub sample_lib CTElastos x1 = Ret p1"
    "hd_pubkey p1 = 2 # be_pad 32 (2 ^ 32 + path_sum [0x8000002C, 0x80000000, 0x80000000])"
    using t [OF sample_path_texts(1)] by (auto simp: path_sum_simps)
  obtain x2 p2 where 2: "read_xpub sample_lib CTElastos x2 = Ret p2" "hd_pubkey p2 = 2 # be_pad 32 (2 ^ 32 + path_sum [0x8000002D])"
    using t [OF sample_path_texts(2)] by (auto simp: path_sum_simps)
  have "x1 \<noteq> x2"
  proof
    assume "x1 = x2"
    then have "be_pad 32 (2 ^ 32 + path_sum [0x8000002C, 0x80000000, 0x80000000]) = be_pad 32 (2 ^ 32 + path_sum [0x8000002D])"
      using 1 2 by simp
    then have "2 ^ 32 + path_sum [0x8000002C, 0x80000000, 0x80000000] = 2 ^ 32 + path_sum [0x8000002D]"
      by (rule be_pad_inj) (simp_all add: path_sum_simps)
    then show False by (simp add: path_sum_simps)
  qed
  with that 1(1) 2(1) show thesis by blast
qed

end
