(* ===== verification/Spec2Isabelle.thy ===== *)
theory Spec2Isabelle
  imports TransactionM CRCProposal Payload TxOutput Program Base58 AddressM KeyM MnemonicM Base64M HDKeychainM
    KeySignM AccountM SubAccountM SigningM SeedAccountM WalletM Uint256M SubWalletM UtxoBook WalletSteps SampleM
    TransactionJson CRCProposalJson MainchainRequests ProposalStages MainSampleM StoreSampleM
begin

text \<open>
  The wallet core of the Elastos SPV SDK (\<open>src/SDK\<close>): what a wallet is made of, from bytes to signed
  transactions, as executable functions, and the theorems that make it correct.

  The program.  A master wallet keeps an \<open>Account\<close> (encrypted secrets in a \<open>LocalStore\<close>, extended public keys in
  the clear).  A \<open>SubAccount\<close> derives the addresses of the account along two chains with \<open>HDKeychain\<close> and keeps
  them.  A \<open>Wallet\<close> turns unspent outputs into a \<open>Transaction\<close> and lets the sub-account sign it; an
  \<open>ElastosBaseSubWallet\<close> does the same for requests that come as JSON and hands transactions out as Base64
  text.  A \<open>MasterWallet\<close> holds an account and the sub-wallets that are open on it, a
  \<open>MasterWalletManager\<close> the wallets of a data folder, which it makes, imports, loads and destroys; what has to last is
  the \<open>LocalStore\<close> in the folder of each wallet, and a key store is the form in which one is backed up.
  A transaction is a list of attributes, inputs, outputs and programs around a payload; all of them go
  through \<open>ByteStream\<close> to bytes and back, and the digest of the unsigned bytes is what a program signs.

  Outcomes.  Each operation is a function to \<open>outcome\<close>: \<open>Ret\<close> a value, \<open>Throw\<close> an error code of
  \<open>ErrorChecker\<close>, or \<open>Undef\<close> where the C++ leaves the language (a null pointer, a read outside a
  buffer).  Readers over a stream end with \<open>ROk\<close>, \<open>RFail\<close> (the \<open>false\<close> of the code, with the stream
  where it was left) or \<open>RUndef\<close>.  Objects are records, the virtual classes are datatypes, machine integers are
  words of their width, and an operation that changes an object returns it; after an exception the object is not
  looked at any more.

  Theories.
  \<^item> SPV\_Prelude: types, outcomes, little-endian bytes.  ByteStream: \<open>Common/ByteStream.cpp\<close>.  Codec: the
    contract of a writer and a reader as the locales \<open>codec\<close>, \<open>item_codec\<close> and \<open>versioned_codec\<close>, with
    totality, round trip, truncation, prefix freedom and size proved once inside them.  Every serialised class is
    an interpretation.
  \<^item> UcharVector, Base64M: \<open>Common/uchar_vector.cpp\<close>.  BigIntM: \<open>Common/BigInt.cpp\<close>.  Uint256M, AddressM: the hash
    types of \<open>Common/uint256\<close> and \<open>WalletCore/Address.cpp\<close>.  Base58: \<open>WalletCore/Base58.cpp\<close>.
  \<^item> TxItems, TxOutput, Program, TransactionM: \<open>Plugin/Transaction\<close>.  ChainPayloads, DPoSPayloads, StakePayloads,
    CRPayloads, CRCProposal, Payload: the payload classes and the pointer to one of them.
  \<^item> KeyM, KeySignM: \<open>WalletCore/Key.cpp\<close>.  HDKeychainM: \<open>WalletCore/HDKeychain.cpp\<close>.  MnemonicM:
    \<open>WalletCore/Mnemonic.cpp\<close>.
  \<^item> AccountM: \<open>Account/Account.cpp\<close>, the store of \<open>SpvService/LocalStore.cpp\<close> and the text forms of
    \<open>WalletCore/AES.cpp\<close>.  SubAccountM: \<open>Account/SubAccount.cpp\<close>.  WalletM: \<open>Wallet/UTXO.cpp\<close> and
    \<open>Wallet/Wallet.cpp\<close>.  SubWalletM: \<open>Implement/ElastosBaseSubWallet.cpp\<close> for the main chain.
  \<^item> SigningM: from private keys to a signed transaction.  SeedAccountM: what the constructor from a seed promises.
    UtxoBook: the set of unspent outputs as a finite map, which the list of \<open>UTXOSet\<close> refines.  WalletSteps: the
    methods of a wallet as a step relation, and what holds in every state.
  \<^item> JsonM: JSON values, and the locale \<open>json_form\<close> of a class that is read back from its JSON form.  TxItemsJson,
    PayloadJson, CRCProposalJson, TransactionJson: \<open>ToJson\<close> and \<open>FromJson\<close> of the transaction classes, one
    interpretation for each.
  \<^item> MainchainM, MainchainProposal: \<open>Implement/MainchainSubWallet.cpp\<close>, first everything but the proposals.
    MainchainRequests: its transaction-creating methods as one type, and what they have in common.  ProposalStages: the
    locale \<open>staged_proposal\<close> of the owner and the council stage, with the six kinds of proposal that keep to it.
    WriterLaws: writers that only append, and writers that return.
  \<^item> StoreJson: the JSON form and the files of \<open>SpvService/LocalStore.cpp\<close>, and the locale \<open>file_store\<close> of what is saved
    and loaded.  KeyStoreM: \<open>WalletCore/KeyStore.cpp\<close> with the classes of its JSON form, the cipher of
    \<open>WalletCore/AES.cpp\<close> with its arguments.  MasterWalletM: \<open>SpvService/Config.cpp\<close> and
    \<open>Implement/MasterWallet.cpp\<close>.  MasterManagerM: \<open>Implement/MasterWalletManager.cpp\<close>.  MasterInvariant: the calls
    of a manager as a step relation with its invariant, a manager that is started again, backups.
  \<^item> SampleM, JsonSampleM, MainSampleM, StoreSampleM: libraries that keep the laws, a wallet and requests to it, a
    manager, for the witnesses.

  What is a parameter.  OpenSSL and the other libraries outside the repository: the digests, the curve
  (\<open>hd_lib\<close>, \<open>key_lib\<close>), the cipher (\<open>account_lib\<close>), Unicode normalisation and splitting (\<open>text_lib\<close>),
  JSON values (\<open>json_env\<close>) and their texts (\<open>json_text\<close>), the sealing of key stores (\<open>ccm_lib\<close>), the
  construction of a sub-wallet as the master wallet calls it (\<open>wallet_env\<close>), \<open>BN_dec2bn\<close>, the random numbers.
  Their laws are the named hypotheses
  \<open>hd_lib_ok\<close> (lengths, and that adding a point is adding the number behind it), \<open>key_lib_ok\<close> (a signature of a
  private key passes its public key), \<open>aes_ok\<close> (decryption undoes encryption), \<open>json_env_ok\<close> (a member that
  was set is found, a value that was put in comes out), \<open>json_text_ok\<close> (what was dumped parses as the same value) and
  \<open>ccm_ok\<close> (what was sealed is opened); the samples show that they can hold.  The word lists are a
  parameter of the mnemonic functions, of which the theorems ask that they have 2048 different words.

  What the lemmas show.  Per class: the reader gives back what the writer wrote, whatever follows; no prefix of
  an encoding is accepted; the estimate of the size against the bytes written; \<open>Equal\<close> accepts what was read.
  Per script: the signers that were put in come out, a multi-signature is checked soundly and completely.  Per
  key: derivation keeps keychains well formed, private and public derivation commute, texts and 78-byte forms are
  read back.  Per account: what a password opens, what a change of it keeps, what export and import keep.  Per
  manager of wallets: the invariant of every state it reaches, with the files; what another manager finds on them; what
  a backup restores.  Per wallet: invariants of every reachable state, balance of created transactions, signing.
  Per request of the main chain: what it spends and pays, what was checked before it is answered, and which answers can be read at all.

  Bounds and loops.  Buffers are taken to be below \<open>2 ^ 63\<close> bytes where a theorem says so.  The loops over the
  rest of a stream carry the number of bytes left plus one as fuel, which is enough because each round that goes
  on consumes a byte; the other loops recurse on their data or have a termination proof by a measure.

  Not modelled.  The database (SQLite); the two payloads of the ID chain; read-only key stores on the way in; the
  sub-wallets of other chains, thin layers over the vendored breadwallet-core; \<open>BloomFilter\<close>, which does not compile
  against the stream it uses; logging; locks, as every operation is taken as a whole.  Of the file system a folder has
  the two store files of a wallet; that a folder cannot be made or written is not modelled.
\<close>
section \<open>Samples the witnesses are run on\<close>

text \<open>
  A payment in the new format with one input, one output and one program; the curve accepts every
  key and takes every signature whose first half is all ones for good.
\<close>

definition sample_out :: TransactionOutput where
  "sample_out =
     TransactionOutput_of 100 (Address_of_hash 0x21) GetELAAssetID OutputType_Default None"

definition sample_tx :: Transaction where
  "sample_tx = Transaction_new\<lparr>tx_version := TxVersion_V09, tx_inputs := [TransactionInput_of 7 1],
     tx_outputs := [sample_out], tx_programs := [Program_of [1, 2] [3]]\<rparr>"

definition sample_hash :: "bytes \<Rightarrow> uint256" where
  "sample_hash bs = word_of_nat (Suc (length bs))"

definition sample_keys :: "bytes list" where
  "sample_keys = [replicate 33 2, replicate 33 3]"

definition sample_sig :: bytes where
  "sample_sig = replicate 64 1"

definition sample_ecdsa :: ecdsa_check where
  "sample_ecdsa key digest r s \<longleftrightarrow> r = replicate 32 1"

lemmas writer_defs =
  WriteUint8_def WriteUint16_def WriteUint32_def WriteUint64_def WriteUint128_def WriteUint160_def
  WriteUint168_def WriteUint256_def WriteBytes_def WriteBytesPtr_def WriteVarBytes_def
  WriteVarUint_def VarUint_bytes_def WriteVarString_def bytes_from_ptr_def write_items_def
  wseq.simps empty_stream_def

lemmas sample_defs =
  sample_tx_def sample_out_def Transaction_new_def Transaction_of_def Transaction_InitPayload_def
  TransactionOutput_of_def TxVersion_V09_def TxVersion_Default_def DEFAULT_PAYLOAD_TYPE_def
  TransactionOutput_GeneratePayload_def TransactionInput_of_def Program_of_def tx_types

lemmas sample_writers =
  Transaction_Serialize_def Transaction_SerializeUnsigned_def TransferAsset_Serialize_def
  TransactionInput_Serialize_def TransactionOutput_Serialize_def Program_Serialize_def writer_defs

lemma sample_tx_fits: "Transaction_fits sample_tx"
  by (simp add: Transaction_fits_def TransactionOutput_fits_def sample_defs)

lemma sample_tx_bytes:
  "\<exists>s. Transaction_Serialize sample_tx empty_stream = Ret s \<and> length (buf s) = 120"
  by (simp add: sample_writers sample_defs)


section \<open>Transactions on the wire\<close>

text \<open>C7: a transaction that fits the format is written without an error, and whatever follows its
  bytes in the buffer the reader gives the transaction back and stands behind it.  What comes back is
  \<open>Transaction_canon\<close>: every field that travels, the others as the reader leaves them.\<close>

theorem transaction_roundtrip:
  assumes "Transaction_fits t"
  shows "\<exists>s. Transaction_Serialize t empty_stream = Ret s \<and>
    (length (buf s) + length q < 2 ^ 63 \<longrightarrow>
     Transaction_Deserialize sha256_2 o1 (stream_of (buf s @ q)) =
       ROk (Transaction_canon sha256_2 o1 t) (advance (length (buf s)) (stream_of (buf s @ q))))"
  using transaction.total [OF assms, of empty_stream] transaction.roundtrip [OF assms] by metis

theorem transaction_roundtrip_witness:
  "\<exists>s. Transaction_Serialize sample_tx empty_stream = Ret s \<and>
     Transaction_Deserialize sample_hash Transaction_new (stream_of (buf s @ [1, 2, 3])) =
       ROk (Transaction_canon sample_hash Transaction_new sample_tx)
         (advance (length (buf s)) (stream_of (buf s @ [1, 2, 3])))"
  using transaction_roundtrip [OF sample_tx_fits, of "[1, 2, 3]" sample_hash Transaction_new]
    sample_tx_bytes by auto

text \<open>C33: a transaction that is cut short anywhere is never taken for a transaction.\<close>

theorem transaction_truncated:
  assumes "Transaction_fits t" and "Transaction_Serialize t empty_stream = Ret s"
    and "length (buf s) < 2 ^ 63" and "strict_prefix p (buf s)"
  shows "Transaction_Deserialize sha256_2 o1 (stream_of p) \<noteq> ROk t' s'"
  using assms by (rule transaction.truncated)

theorem transaction_truncated_witness:
  "\<exists>s. Transaction_Serialize sample_tx empty_stream = Ret s \<and>
     (\<forall>t s'. Transaction_Deserialize sample_hash Transaction_new (stream_of (take 119 (buf s))) \<noteq> ROk t s')"
proof -
  obtain s where s: "Transaction_Serialize sample_tx empty_stream = Ret s" "length (buf s) = 120"
    using sample_tx_bytes by blast
  then have "strict_prefix (take 119 (buf s)) (buf s)"
    by (simp add: strict_prefix_def take_is_prefix)
  then show ?thesis
    using transaction_truncated [OF sample_tx_fits s(1)] s by auto
qed



section \<open>Hashes and signatures of a transaction\<close>

text \<open>A fresh reader agrees with the sender on the hash: what is read back into an object without
  a cached hash hashes to what the sender's object hashes to.\<close>

lemma transaction_hash_agrees:
  assumes "Transaction_fits t" and "tx_txHash t = 0" and "tx_txHash o1 = 0"
    and "Transaction_Serialize t empty_stream = Ret s" and "length (buf s) < 2 ^ 63"
    and "Transaction_Deserialize sha256_2 o1 (stream_of (buf s)) = ROk t' s'"
  shows "omap fst (Transaction_GetHash sha256_2 t') = omap fst (Transaction_GetHash sha256_2 t)"
proof -
  have "t' = Transaction_canon sha256_2 o1 t"
    using transaction.roundtrip [OF assms(1,4), of "[]" sha256_2 o1] assms(5,6) by simp
  then show ?thesis using Transaction_GetHash_read [OF assms(1,3,2)] by simp
qed

text \<open>A reader that has answered \<open>GetHash\<close> before keeps its answer: whatever transaction is read
  into it, its hash stays the old one, since neither \<open>Reinit\<close> nor \<open>Deserialize\<close> resets it.\<close>

lemma transaction_hash_stale:
  assumes "Transaction_fits t" and "tx_txHash o1 \<noteq> 0"
    and "Transaction_Serialize t empty_stream = Ret s" and "length (buf s) < 2 ^ 63"
    and "Transaction_Deserialize sha256_2 o1 (stream_of (buf s)) = ROk t' s'"
  shows "Transaction_GetHash sha256_2 t' = Ret (tx_txHash o1, t')"
proof -
  have "t' = Transaction_canon sha256_2 o1 t"
    using transaction.roundtrip [OF assms(1,3), of "[]" sha256_2 o1] assms(4,5) by simp
  then show ?thesis using Transaction_GetHash_stale [OF assms(2)] by simp
qed




section \<open>Programs and their scripts\<close>

text \<open>C12: a multi-signature program that verifies holds at least as many signatures as its script
  asks for, and each of them was verified by one of the keys of the script.\<close>

theorem multisig_sound:
  assumes "Program_VerifySignature keyValid ecdsa md p = Ret True"
    and "last (prog_code p) = SignTypeMultiSign"
  shows "\<exists>keys sigs t. Program_DecodePublicKey p = Ret (SignTypeMultiSign, keys) \<and>
    read_while (Suc (length (prog_parameter p))) ReadVarBytes (stream_of (prog_parameter p)) = ROk sigs t \<and>
    prog_code p ! 0 - OP_1 + 1 \<le> word_of_nat (length sigs) \<and>
    (\<forall>sig \<in> set sigs. \<exists>key \<in> set keys. PubKey_Verify keyValid ecdsa key md sig = Ret True)"
  using assms by (rule Program_VerifySignature_multi)

lemma sample_code:
  obtains code where "Address_GenerateCode PrefixMultiSign sample_keys 2 False = Ret code"
  by (simp add: Address_GenerateCode_def sample_keys_def Let_def)

lemma sample_sign_type: "Address_PrefixToSignType PrefixMultiSign = SignTypeMultiSign"
  by (simp add: Address_PrefixToSignType_def prefixes)

lemma sample_keys_ok: "pubkeys33 sample_keys" "1 < length sample_keys" "length sample_keys < 0xaf"
  by (simp_all add: sample_keys_def pubkeys33_def)

theorem multisig_sound_witness:
  "\<exists>code keys sigs t. Address_GenerateCode PrefixMultiSign sample_keys 2 False = Ret code \<and>
    Program_DecodePublicKey (Program_of code (pushed_sigs [sample_sig, sample_sig])) = Ret (SignTypeMultiSign, keys) \<and>
    read_while (Suc (length (pushed_sigs [sample_sig, sample_sig]))) ReadVarBytes
      (stream_of (pushed_sigs [sample_sig, sample_sig])) = ROk sigs t \<and> 2 \<le> (word_of_nat (length sigs) :: u8)"
proof -
  obtain code where code: "Address_GenerateCode PrefixMultiSign sample_keys 2 False = Ret code"
    by (rule sample_code)
  note dec = Program_DecodePublicKey_multi [OF code sample_keys_ok disjI1 [OF sample_sign_type]]
  have "Program_VerifySignature (\<lambda>k. True) sample_ecdsa 7 (Program_of code (pushed_sigs [sample_sig, sample_sig])) =
      Ret True"
    by (rule Program_VerifySignature_complete [OF code sample_sign_type])
      (auto simp: sample_sig_def sample_ecdsa_def sample_keys_def pubkeys33_def)
  moreover have "last (prog_code (Program_of code (pushed_sigs [sample_sig, sample_sig]))) = SignTypeMultiSign"
    using dec(4) sample_sign_type by (simp add: Program_of_def)
  ultimately show ?thesis
    using multisig_sound [of "\<lambda>k. True" sample_ecdsa 7 "Program_of code (pushed_sigs [sample_sig, sample_sig])"]
      code dec(2) by (simp add: Program_of_def) blast
qed

text \<open>C20: a script made for its signers and at least \<open>m\<close> signatures by signers of it make a program
  that verifies, in whatever order the signatures come.\<close>

theorem multisig_complete:
  assumes "Address_GenerateCode pfx keys m did = Ret code"
    and "Address_PrefixToSignType pfx = SignTypeMultiSign"
    and "\<forall>k \<in> set keys. length k = 33 \<and> keyValid k" and "1 < length keys" "length keys < 0xaf"
    and "\<forall>sig \<in> set sigs. length sig = 64 \<and> (\<exists>k \<in> set keys. ecdsa k md (take 32 sig) (drop 32 sig))"
    and "unat m \<le> length sigs" "length sigs < 256"
  shows "Program_VerifySignature keyValid ecdsa md (Program_of code (pushed_sigs sigs)) = Ret True"
  using assms by (intro Program_VerifySignature_complete [of pfx keys m did]) (auto simp: pubkeys33_def)

theorem multisig_complete_witness:
  "\<exists>code. Address_GenerateCode PrefixMultiSign sample_keys 2 False = Ret code \<and>
    Program_VerifySignature (\<lambda>k. True) sample_ecdsa 7 (Program_of code (pushed_sigs (replicate 3 sample_sig))) = Ret True"
proof -
  obtain code where code: "Address_GenerateCode PrefixMultiSign sample_keys 2 False = Ret code"
    by (rule sample_code)
  have "Program_VerifySignature (\<lambda>k. True) sample_ecdsa 7 (Program_of code (pushed_sigs (replicate 3 sample_sig))) = Ret True"
    by (rule multisig_complete [OF code sample_sign_type])
      (auto simp: sample_keys_def sample_sig_def sample_ecdsa_def)
  then show ?thesis using code by blast
qed



text \<open>C35: the reader of a script finds the signers it was made for, in the order of the script, and
  the two counts of the script are the ones it was made with.\<close>

theorem script_signers:
  assumes "Address_GenerateCode pfx keys m did = Ret code"
    and "\<forall>k \<in> set keys. length k = 33" and "1 < length keys" "length keys < 0xaf"
    and "Address_PrefixToSignType pfx \<in> {SignTypeMultiSign, SignTypeCrossChain}"
  shows "Program_DecodePublicKey (Program_of code parameter) =
      Ret (Address_PrefixToSignType pfx, sort_key getHex0 keys) \<and>
    code ! 0 - OP_1 + 1 = m \<and> unat (code ! (length code - 2) - OP_1 + 1) = length keys"
  using Program_DecodePublicKey_multi(1) [of pfx keys m did code parameter]
    Program_DecodePublicKey_multi(2,3) [of pfx keys m did code] assms
  by (auto simp: pubkeys33_def)

theorem script_signers_witness:
  "\<exists>code. Address_GenerateCode PrefixMultiSign sample_keys 2 False = Ret code \<and>
    Program_DecodePublicKey (Program_of code []) = Ret (SignTypeMultiSign, sort_key getHex0 sample_keys)"
proof -
  obtain code where code: "Address_GenerateCode PrefixMultiSign sample_keys 2 False = Ret code"
    by (rule sample_code)
  then show ?thesis
    using script_signers [OF code, of "[]"] sample_sign_type by (auto simp: sample_keys_def)
qed

text \<open>The address of a group of signers does not depend on the order they are listed in, and
  it carries the prefix it was made with.\<close>

lemma address_of_signers:
  assumes "Address_of_pubkeys hash160 pfx keys m did = Ret a" and "keys \<noteq> []" and "mset keys = mset keys'"
  shows "Address_of_pubkeys hash160 pfx keys' m did = Ret a \<and>
    uint168_prefix (addr_programHash a) = pfx \<and> addr_isValid a = valid_prefix pfx"
proof -
  have "length keys = length keys'" using assms(3) by (rule mset_eq_length)
  then have "Address_of_pubkeys hash160 pfx keys' m did = Address_of_pubkeys hash160 pfx keys m did"
    by (simp add: Address_of_pubkeys_def Address_GenerateCode_perm [OF assms(3)])
  then show ?thesis using assms(1) Address_of_pubkeys_prefix [OF assms(1,2)] by simp
qed

text \<open>C36: the text of an address names its program hash: read back, it is the address of that hash.
  The zero hash is the exception when the checksum begins with a zero byte too.\<close>

theorem address_text:
  assumes "addr_programHash a \<noteq> 0 \<or> hd (checksum_of sha256_2 (uint168_bytes 0)) \<noteq> 0"
  shows "Address_of_string sha256_2 (Address_String sha256_2 a) = Address_of_hash (addr_programHash a)"
  using assms by (rule Address_of_string_String)

theorem address_text_witness:
  "Address_of_string sample_hash (Address_String sample_hash (Address_of_hash 0x21)) = Address_of_hash 0x21"
  using address_text [of "Address_of_hash 0x21" sample_hash] by simp

text \<open>A text is taken for an address whenever its checksum is right, of whatever length the
  payload is: a payload that is not 21 bytes long becomes the zero hash, which passes for valid.\<close>

lemma address_wrong_length:
  assumes "Base58_CheckDecode sha256_2 text = Some payload" and "length payload \<noteq> 21" and "text \<noteq> []"
  shows "addr_programHash (Address_of_string sha256_2 text) = 0 \<and>
    addr_isValid (Address_of_string sha256_2 text)"
  using assms
  by (simp add: Address_of_string_def uint168_of_bytes_def uint168_prefix_0 valid_prefix_def prefixes)

text \<open>Two addresses that were checked are equal exactly when their program hashes are, and
  \<open>operator!=\<close> is the opposite of \<open>operator==\<close> on them.\<close>

lemma address_equality:
  assumes "Address_consistent a" "Address_consistent b"
  shows "(Address_eq a b \<longleftrightarrow> addr_programHash a = addr_programHash b) \<and> (Address_neq a b \<longleftrightarrow> \<not> Address_eq a b)"
  using Address_eq_consistent [OF assms] by (simp add: Address_neq_def uint168_eq_iff)

section \<open>What the reader of a transaction refuses, and what it trips over\<close>

text \<open>A transaction of a type \<open>InitPayload\<close> has no class for is refused after its third byte:
  votes, stakes, claims and appropriations can be written, and never read back.\<close>

lemma transaction_type_refused:
  assumes "wf_stream s" and "remaining s = ver # ty # pv # q" and "TxVersion_V09 \<le> ver"
    and "ty \<in> {Tx_crcAppropriation, Tx_DposV2ClaimReward, Tx_DposV2ClaimRewardRealWithdraw, Tx_Stake,
               Tx_Voting, Tx_CancelVotes, Tx_Unstake, Tx_UnstakeRealWithdraw}"
  shows "Transaction_Deserialize sha256_2 o1 s = RFail (advance 3 s)"
  using assms by (intro Transaction_Deserialize_refuses [where ver = ver and ty = ty and pv = pv and q = q]
      Transaction_InitPayload_None)

text \<open>The first byte decides between the two formats: an old-format transaction of a type of 9 or
  more is read with its type for the version and its payload version for the type.\<close>

lemma transaction_version_confusion:
  assumes "wf_stream s" and "remaining s = ty # pv # q" and "TxVersion_V09 \<le> ty"
    and "Transaction_Deserialize sha256_2 o1 s = ROk t s'"
  shows "tx_version t = ty \<and> tx_type t = pv"
  using Transaction_Deserialize_version [OF assms] by simp

text \<open>An output of a type without a payload class makes the reader call through a null pointer:
  a new-format output whose type byte is not one of the three known ones is undefined behaviour.\<close>

lemma output_null_payload:
  assumes "TxVersion_V09 \<le> txVersion" and "OutputType_CrossChain < ty \<or> ty = OutputType_Mapping"
    and "wf_stream s" and "remaining s = le_bytes 32 GetELAAssetID @ le_bytes 8 (amount :: u64) @
      le_bytes 4 (lock :: u32) @ le_bytes 21 (hash :: uint168) @ ty # q"
  shows "TransactionOutput_Deserialize txVersion o1 s = RUndef"
  using assms by (intro TransactionOutput_null_payload) auto

text \<open>An output is a faithful copy of what it was assigned from, and equal to it, as long as its
  payload is of the class its type asks for.\<close>

lemma output_copy:
  assumes "OutputPayload_typed src"
  shows "TransactionOutput_assign this src = Ret src \<and> TransactionOutput_eq src src = Ret True"
  using TransactionOutput_assign_copies [OF assms, of src] TransactionOutput_assign_copies [OF assms, of this]
    TransactionOutput_eq_copy [OF assms, of src src] by simp

text \<open>The estimate of a transaction is the size of its bytes but for the payload, whose own
  estimate counts, and for what a new-format output adds: its type byte and its payload are written
  and never counted.\<close>

lemma transaction_estimate:
  assumes "Transaction_fits t" and "Transaction_short t" and "tx_payload t = Some p"
    and "wsize (Payload_Serialize (tx_payloadVersion t) p) n"
  shows "\<exists>size total. Transaction_EstimateSize t = Ret size \<and> wsize (Transaction_Serialize t) total \<and>
    total + Payload_EstimateSize (tx_payloadVersion t) p = size + n + Transaction_uncounted t"
proof -
  obtain size where size: "Transaction_EstimateSize t = Ret size"
    "wsize (Transaction_Serialize t)
      (size - Payload_EstimateSize (tx_payloadVersion t) p + n + Transaction_uncounted t)"
    using Transaction_size [OF assms] by blast
  moreover have "Payload_EstimateSize (tx_payloadVersion t) p \<le> size"
    using size(1) assms(3) by (auto simp: Transaction_EstimateSize_def obind_eq_Ret)
  ultimately show ?thesis by fastforce
qed

text \<open>Programs added through \<open>AddUniqueProgram\<close> never share a script.\<close>

lemma unique_programs:
  assumes "distinct (map prog_code (tx_programs t))"
  shows "distinct (map prog_code (tx_programs (fold (\<lambda>p t. snd (Transaction_AddUniqueProgram p t)) ps t)))"
  using assms by (induction ps arbitrary: t) (simp_all add: Transaction_AddUniqueProgram_distinct)

text \<open>A confirmed transaction counts the blocks from its own to the last one, both included, and
  one above the last block the wallet knows counts none; the sum does not wrap.\<close>

lemma confirms:
  assumes "tx_blockHeight t \<noteq> TX_UNCONFIRMED" and "unat h < 2 ^ 32 - 1"
  shows "unat (Transaction_GetConfirms h t) =
    (if unat (tx_blockHeight t) \<le> unat h then unat h - unat (tx_blockHeight t) + 1 else 0)"
  using assms by (rule Transaction_GetConfirms_count)

section \<open>Payloads\<close>

text \<open>C23: every payload the writer can express is read back by a fresh object of its class, under any
  version, as a payload its own \<open>Equal\<close> accepts; read and written again it has the same bytes.\<close>

theorem payload_roundtrip:
  assumes "Payload_fits v p" and "Payload_Serialize v p empty_stream = Ret s"
    and "length (buf s) + length q < 2 ^ 63"
  shows "\<exists>p' s'. Payload_Deserialize sha256_2 v (Payload_fresh p) (stream_of (buf s @ q)) = ROk p' s' \<and>
    rpos s' = word_of_nat (length (buf s)) \<and>
    Payload_Equal v p p' \<and> Payload_Serialize v p' = Payload_Serialize v p"
proof -
  have "appends (Payload_Serialize v p) (buf s)"
    using transfers_appends [OF Payload_transfers [OF assms(1)]] assms(2) by (auto simp: appends_def empty_stream_def)
  then have "decodes (Payload_Deserialize sha256_2 v (Payload_fresh p)) (buf s) (Payload_canon sha256_2 v p)"
    by (rule transfers_decodes [OF Payload_transfers [OF assms(1)]])
  then have "Payload_Deserialize sha256_2 v (Payload_fresh p) (stream_of (buf s @ q)) =
      ROk (Payload_canon sha256_2 v p) (advance (length (buf s)) (stream_of (buf s @ q)))"
    using assms(3) by (intro decodesD) simp_all
  then show ?thesis
    using Payload_equal_canon [OF assms(1)] Payload_Serialize_canon [OF assms(1)]
    by (simp add: advance_def stream_of_def)
qed

theorem payload_roundtrip_witness:
  "\<exists>s p' s'. Payload_Serialize 0 (PL_CancelProducer \<lparr>cancelp_publicKey = [1, 2], cancelp_signature = [3]\<rparr>) empty_stream = Ret s \<and>
    Payload_Deserialize sample_hash 0 (PL_CancelProducer CancelProducer_new) (stream_of (buf s)) = ROk p' s' \<and>
    Payload_Equal 0 (PL_CancelProducer \<lparr>cancelp_publicKey = [1, 2], cancelp_signature = [3]\<rparr>) p'"
proof -
  let ?p = "PL_CancelProducer \<lparr>cancelp_publicKey = [1, 2], cancelp_signature = [3]\<rparr>"
  obtain s where s: "Payload_Serialize 0 ?p empty_stream = Ret s" "length (buf s) = 5"
    by (simp add: CancelProducer_Serialize_def CancelProducer_SerializeUnsigned_def writer_defs)
  then show ?thesis
    using payload_roundtrip [of 0 ?p s "[]" sample_hash] by auto
qed

section \<open>Wallets\<close>

text \<open>C2: a created transaction spends exactly what it was given, pays the requested outputs first, and
  loses nothing: the outputs and the fee add up to the inputs; at most one output is added, a positive
  amount of the chain's own asset to a valid address.\<close>

theorem wallet_conserves:
  assumes "Wallet_CreateTransaction lib random type payload utxos outputs memo fee back w = Ret (tx, w')"
  shows "sum_list (map out_amount (tx_outputs tx)) + fee = sum_list (map utxo_amount utxos) \<and>
    tx_inputs tx = map utxo_input utxos \<and> tx_type tx = type \<and> tx_payload tx = payload \<and>
    (\<exists>change. tx_outputs tx = outputs @ change \<and> length change \<le> 1 \<and>
      (\<forall>c \<in> set change. 0 < out_amount c \<and> addr_isValid (out_address c) \<and> out_assetID c = GetELAAssetID))"
  using Wallet_CreateTransaction_balanced [OF assms] by blast

theorem wallet_conserves_witness:
  "\<exists>addr w tx w'. Wallet_CreateTransaction sample_lib 7 Tx_transferAsset (Some (PL_TransferAsset TransferAsset_new))
     [sample_utxo addr] [sample_payment addr] ''hi'' 1 True w = Ret (tx, w') \<and>
     sum_list (map out_amount (tx_outputs tx)) = 9"
proof -
  obtain addr w tx w' where c: "Wallet_CreateTransaction sample_lib 7 Tx_transferAsset
      (Some (PL_TransferAsset TransferAsset_new)) [sample_utxo addr] [sample_payment addr] ''hi'' 1 True w = Ret (tx, w')"
    using sample_spend by metis
  then show ?thesis
    using wallet_conserves [OF c] by (auto simp: sample_utxo_def UTXO_of_def)
qed










section \<open>Sub-wallets\<close>





text \<open>A text that begins outside the alphabet of the encoding takes the reader outside its memory: four
  bytes come off the three that were put in.  The text comes in with the request.\<close>

lemma decode_junk:
  assumes "base64_find c = None" and "tj_Algorithm j = Has ''base64''" and "tj_ChainID j = Has CHAINID_MAINCHAIN"
    and "tj_Data j = Has (c # cs)" and "tj_Fee j \<noteq> Wrong_type"
  shows "DecodeTx sha256_2 j = Undef"
  using assms setBase64_junk [OF assms(1), of cs] by (cases "tj_Fee j") (simp_all add: DecodeTx_def)

section \<open>Accounts\<close>







text \<open>An account with several signers and neither seed nor mnemonic goes through \<open>Init\<close> again at every call that
  wants the root key, and each time the signers are appended to the ones that are there: the list a multi-signature
  address is made from grows by the whole ring.\<close>

lemma signers_pile_up:
  assumes "Account_RootKey lib payPasswd a = Ret (key, a')" and "no_seed (acc_localstore a)"
  shows "no_seed (acc_localstore a') \<and>
    length (acc_allMultiSigners a) + length (ls_publicKeyRing (acc_localstore a)) \<le> length (acc_allMultiSigners a')"
  using Account_RootKey_signers [OF assms] by blast

section \<open>Keys\<close>

text \<open>C19: a watching wallet derives the public keys the owner does: along every path without hardened steps, what the
  public part of a keychain derives is the public part of what the keychain derives, and one fails where the other
  fails.\<close>

theorem watch_only_path:
  assumes "hd_lib_ok lib" and "hd_wf lib k" and "HDKeychain_isPrivate k" and "hd_type k \<noteq> CTUnknown"
    and "list_all (\<lambda>i. 0x80000000 AND i = 0) ns"
  shows "obind (getChild_loop lib ns k) (HDKeychain_getPublic lib) =
    obind (HDKeychain_getPublic lib k) (getChild_loop lib ns)"
  using assms by (rule getChild_loop_getPublic)

theorem watch_only_path_witness:
  "\<exists>k p c. HDKeychain_isPrivate k \<and> HDKeychain_getPublic sample_hd k = Ret p \<and>
     getChild_loop sample_hd [0, 3] p = obind (getChild_loop sample_hd [0, 3] k) (HDKeychain_getPublic sample_hd) \<and>
     getChild_loop sample_hd [0, 3] k = Ret c"
proof -
  obtain k where k: "sample_good k" "key_value k = 2 ^ 32" using sample_root [of CTElastos] by auto
  then have k': "hd_wf sample_hd k" "HDKeychain_isPrivate k" "hd_type k \<noteq> CTUnknown" "hd_pubkey k = 2 # be_pad 32 (key_value k)"
    by (simp_all add: sample_good_def)
  have "key_value k + path_sum [0, 3] < 2 ^ 255" using k(2) by (simp add: path_sum_simps)
  then obtain c where c: "getChild_loop sample_hd [0, 3] k = Ret c" using sample_loop [OF k'] by blast
  obtain p where p: "HDKeychain_getPublic sample_hd k = Ret p"
    using k'(1) by (simp add: HDKeychain_getPublic_def hd_wf_def)
  have "list_all (\<lambda>i :: u32. 0x80000000 AND i = 0) [0, 3]" by code_simp
  from watch_only_path [OF sample_hd_ok k'(1-3) this] show ?thesis using c p k'(2) by auto
qed

text \<open>C39: the 78 bytes of a keychain give the keychain back, the private and the public one, with the public key
  computed again.\<close>

theorem extkey_roundtrip:
  assumes "hd_wf lib k"
  shows "HDKeychain_of_extkey lib (hd_type k) (HDKeychain_extkey k) = Ret k"
  using assms by (rule HDKeychain_extkey_roundtrip)

theorem extkey_roundtrip_witness:
  "\<exists>k. HDKeychain_isPrivate k \<and> HDKeychain_of_extkey sample_hd CTBitcoin (HDKeychain_extkey k) = Ret k"
  using sample_root [of CTBitcoin] extkey_roundtrip by (fastforce simp: sample_good_def)

text \<open>The text of a path, decimals with a mark behind the hardened steps, leads where its steps lead one by one,
  whatever the 32 bits of each step are.\<close>

lemma hd_path_text:
  assumes "hd_wf lib k" and "ns \<noteq> []"
  shows "HDKeychain_getChild_path lib k (path_text ns) = getChild_loop lib ns k"
proof -
  have "path_text ns \<noteq> []" using path_text_digit [OF assms(2)] by auto
  then show ?thesis using getChild_path_eq [OF assms(1)] path_loop_text [OF assms(2), of "[]"] by simp
qed

section \<open>Mnemonics\<close>

text \<open>C24: the words that spell an entropy give the entropy back, in number three for every four bytes; entropy beyond
  the 1024 bytes the checksum covers is left out.\<close>

theorem mnemonic_roundtrip:
  assumes "length lexicon = DictionarySize" and "distinct lexicon"
    and "length e = 4 * k" and "length (sha256 e) = 32" and "k \<le> 256"
  shows "\<exists>words. Mnemonic_Create sha256 e lexicon = Ret words \<and> length words = 3 * k \<and>
    Mnemonic_Entropy words lexicon = e"
proof -
  obtain words where c: "Mnemonic_Create sha256 e lexicon = Ret words"
    using Mnemonic_Create_words [where ?sha256.0 = sha256, OF assms(3-5), of lexicon] by blast
  then show ?thesis using Mnemonic_Entropy_Create [where ?sha256.0 = sha256, OF assms c] by blast
qed

definition sample_lexicon :: Dictionary where
  "sample_lexicon = map (\<lambda>n. replicate n CHR ''a'') [0..<2048]"

lemma sample_lexicon: "length sample_lexicon = DictionarySize" "distinct sample_lexicon"
  by (auto simp: sample_lexicon_def DictionarySize_def distinct_map inj_on_def dest: arg_cong [where f = length])

definition sample_sha :: "bytes \<Rightarrow> bytes" where
  "sample_sha bs = take 32 (bs @ replicate 32 0)"

lemma length_sample_sha [simp]: "length (sample_sha bs) = 32"
  by (simp add: sample_sha_def)

theorem mnemonic_roundtrip_witness:
  "\<exists>words. Mnemonic_Create sample_sha (replicate 16 5) sample_lexicon = Ret words \<and> length words = 12 \<and>
     Mnemonic_Entropy words sample_lexicon = replicate 16 5"
  using mnemonic_roundtrip [OF sample_lexicon, of "replicate 16 5" 4 sample_sha] by simp

text \<open>C25: of up to 768 words exactly those are taken for a mnemonic that spell some entropy of a multiple of
  four bytes: the checksum is right, every word is in the list, and the number of words is a multiple of three.\<close>

theorem mnemonic_valid:
  assumes "length lexicon = DictionarySize" and "distinct lexicon" and "\<And>x. length (sha256 x) = 32"
    and "length words \<le> 768"
  shows "Mnemonic_Validate sha256 words lexicon = Ret True \<longleftrightarrow>
    (\<exists>k e. 0 < k \<and> length e = 4 * k \<and> Mnemonic_Create sha256 e lexicon = Ret words)"
  using assms by (rule Mnemonic_Validate_spelled)

theorem mnemonic_valid_witness:
  "\<exists>words. length words = 12 \<and> Mnemonic_Validate sample_sha words sample_lexicon = Ret True"
proof -
  have e: "length (replicate 16 5 :: bytes) = 4 * 4" "0 < (4 :: nat)" by simp_all
  obtain words where w: "Mnemonic_Create sample_sha (replicate 16 5) sample_lexicon = Ret words" "length words = 12"
    using Mnemonic_Create_words [where ?sha256.0 = sample_sha, OF e(1), of sample_lexicon] by auto
  then have "Mnemonic_Validate sample_sha words sample_lexicon = Ret True"
    using e by (subst mnemonic_valid [OF sample_lexicon]) (simp, simp, blast)
  then show ?thesis using w(2) by blast
qed

section \<open>Requests and the book of outputs\<close>

text \<open>C4: reading a request is entering its items, each read on its own, into a book of outputs where the first entry
  of an outpoint stays: the set the code keeps holds every outpoint of the request once, with the first item that
  named it.  A request fails where reading one of its items fails.\<close>

theorem utxo_request_refines:
  "UTXOFromJson sha256_2 dec2bn js [] = omap (\<lambda>vs. fold UTXOSet_insert vs []) (map_outcome (UTXO_read sha256_2 dec2bn) js) \<and>
   utxo_book (fold UTXOSet_insert vs []) = (\<lambda>k. find (\<lambda>v. outpoint v = k) vs) \<and> UTXOSet_ok (fold UTXOSet_insert vs [])"
  using UTXOFromJson_reads [of sha256_2 dec2bn js "[]"] utxos.entered_first [of vs] utxos.fold_ok [OF utxos.empty_ok, of vs]
  by (auto simp: omap_def)

text \<open>C3: a transaction made from a request spends every output the request names, and none of them twice, however
  often the request names it.\<close>

theorem inputs_once:
  assumes "UTXOFromJson sha256_2 dec2bn js [] = Ret us"
    and "Wallet_CreateTransaction lib random type payload us outputs memo fee back w = Ret (tx, w')"
  shows "\<exists>vs. map_outcome (UTXO_read sha256_2 dec2bn) js = Ret vs \<and>
    distinct (map (\<lambda>i. Outpoint (in_txHash i) (in_index i)) (tx_inputs tx)) \<and>
    (\<lambda>i. Outpoint (in_txHash i) (in_index i)) ` set (tx_inputs tx) = outpoint ` set vs"
proof -
  obtain vs where vs: "map_outcome (UTXO_read sha256_2 dec2bn) js = Ret vs" "us = fold UTXOSet_insert vs []"
    using assms(1) by (auto simp: UTXOFromJson_reads obind_eq_Ret)
  have "outpoint ` set us = outpoint ` set vs"
    using utxos.dom_fold [OF utxos.empty_ok, of vs] vs(2) by (simp add: dom_utxo_book)
  moreover have "distinct (map outpoint us)"
    using utxos.fold_ok [OF utxos.empty_ok, of vs] vs(2) by (simp add: UTXOSet_ok_distinct)
  moreover have in_us: "map (\<lambda>i. Outpoint (in_txHash i) (in_index i)) (tx_inputs tx) = map outpoint us"
    using Wallet_CreateTransaction_balanced(2) [OF assms(2)] inputs_of_outpoints [of us] by simp
  moreover have "(\<lambda>i. Outpoint (in_txHash i) (in_index i)) ` set (tx_inputs tx) = outpoint ` set us"
    using in_us by (metis list.set_map)
  ultimately show ?thesis using vs(1) by auto
qed

definition sample_item :: "Address \<Rightarrow> UTXOJson" where
  "sample_item addr = \<lparr>uj_TxHash = Has (uint256_GetHex 1), uj_Index = Has 0,
     uj_Address = Has (Address_String sample_hash addr), uj_Amount = Has ''10''\<rparr>"

lemma sample_item_read:
  assumes "uint168_prefix (addr_programHash addr) = PrefixStandard"
  shows "UTXO_read sample_hash (\<lambda>_. Some 10) (sample_item addr) = Ret (sample_utxo (Address_of_hash (addr_programHash addr)))"
    and "addr_isValid (Address_of_hash (addr_programHash addr))"
proof -
  have "uint168_prefix 0 \<noteq> PrefixStandard" by code_simp
  then have "addr_programHash addr \<noteq> 0" using assms by auto
  then have t: "Address_of_string sample_hash (Address_String sample_hash addr) = Address_of_hash (addr_programHash addr)"
    by (intro Address_of_string_String) simp
  show v: "addr_isValid (Address_of_hash (addr_programHash addr))"
    using assms by (simp add: Address_of_hash_def Address_CheckValid_def valid_prefix_def)
  show "UTXO_read sample_hash (\<lambda>_. Some 10) (sample_item addr) = Ret (sample_utxo (Address_of_hash (addr_programHash addr)))"
    using t v by (simp add: UTXO_read_def sample_item_def member_get_def BigInt_setDec_def uint256_SetHex_GetHex sample_utxo_def)
qed

theorem inputs_once_witness:
  "\<exists>addr us w tx w'. UTXOFromJson sample_hash (\<lambda>_. Some 10) [sample_item addr, sample_item addr] [] = Ret us \<and>
     Wallet_CreateTransaction sample_lib 7 Tx_transferAsset (Some (PL_TransferAsset TransferAsset_new)) us
       [sample_payment addr] ''hi'' 1 True w = Ret (tx, w') \<and>
     distinct (map (\<lambda>i. Outpoint (in_txHash i) (in_index i)) (tx_inputs tx))"
proof -
  obtain a addr where a: "sa_pubkey sample_lib a False 0 = Ret sample_pubkey" "sa_address sample_lib a False 0 = Ret addr"
    "addr_isValid addr" "uint168_prefix (addr_programHash addr) = PrefixStandard"
    "acc_ownerPubKey a = 2 # be_pad 32 (account_value + 2 ^ 33 + 1)"
    using sample_address by metis
  let ?addr = "Address_of_hash (addr_programHash addr)"
  let ?w = "sample_wallet a addr"
  have same: "addr_programHash ?addr = addr_programHash addr" "addr_isValid ?addr = addr_isValid addr"
    using a(3) sample_item_read(2) [OF a(4)] by (simp_all add: Address_of_hash_def)
  have "\<not> addr_isValid Address_new" "uint168_eq (addr_programHash addr) (addr_programHash addr)"
    using Address_eq_refl [of addr] by (simp_all add: Address_new_def Address_eq_def)
  then have "SubAccount_GetCode sample_lib ?addr (w_subAccount ?w) = Ret (Some (addr_code addr))"
    by (simp add: SubAccount_GetCode_def SubAccount_IsProducerDepositAddress_def SubAccount_IsOwnerAddress_def
        SubAccount_IsCRDepositAddress_def Address_eq_def same a(3) sample_wallet_def Wallet_of_def Let_def)
  then obtain tx w' where c: "Wallet_CreateTransaction sample_lib 7 Tx_transferAsset (Some (PL_TransferAsset TransferAsset_new))
      [sample_utxo ?addr] [sample_payment ?addr] ''hi'' 1 True ?w = Ret (tx, w')"
    using sample_create [of ?addr ?w] a(3) same(2) by auto
  have u: "UTXOFromJson sample_hash (\<lambda>_. Some 10) [sample_item ?addr, sample_item ?addr] [] = Ret [sample_utxo ?addr]"
    using sample_item_read [of ?addr] a(4) same(1) by (simp add: UTXOFromJson_reads UTXOCompare_outpoint)
  from inputs_once [OF u c] show ?thesis using u c by blast
qed

section \<open>Loops and keychains\<close>



text \<open>C37: what is derived from a well-formed keychain along any path is a well-formed keychain of the same curve, on
  the same side: a valid 33-byte key, a 32-byte chain code, and the public key that belongs to the key.\<close>

theorem derived_keychain:
  assumes "hd_lib_ok lib" and "hd_wf lib k" and "hd_type k \<noteq> CTUnknown" and "getChild_loop lib path k = Ret c"
  shows "hd_wf lib c \<and> HDKeychain_isPrivate c = HDKeychain_isPrivate k \<and> hd_type c = hd_type k"
  using assms by (rule getChild_loop_wf)

theorem derived_keychain_witness:
  "\<exists>k c. getChild_loop sample_hd [0, 3] k = Ret c \<and> hd_wf sample_hd c \<and> HDKeychain_isPrivate c"
proof -
  obtain k where k: "sample_good k" "key_value k = 2 ^ 32" using sample_root [of CTElastos] by auto
  then have k': "hd_wf sample_hd k" "HDKeychain_isPrivate k" "hd_type k \<noteq> CTUnknown" "hd_pubkey k = 2 # be_pad 32 (key_value k)"
    by (simp_all add: sample_good_def)
  have "key_value k + path_sum [0, 3] < 2 ^ 255" using k(2) by (simp add: path_sum_simps)
  then obtain c where c: "getChild_loop sample_hd [0, 3] k = Ret c" using sample_loop [OF k'] by blast
  from derived_keychain [OF sample_hd_ok k'(1,3) c] show ?thesis using c k'(2) by blast
qed

section \<open>JSON\<close>

text \<open>C8: a transaction whose payload passes the checks of its reader and whose outputs carry the payload of their type
  goes through JSON unharmed: what is read back is written to the same bytes, carries the hash the first one has, and
  keeps the fee, the height, the time and the mark the bytes do not have.\<close>

theorem transaction_json_roundtrip:
  assumes "json_env_ok E" and "Transaction_fits t" and "Transaction_json_ok E t"
  shows "\<exists>h j t1 t'. Transaction_GetHash (je_sha256_2 E) t = Ret (h, t1) \<and> Transaction_ToJson E t = Ret (j, t1) \<and>
    Transaction_FromJson E j old = Ret t' \<and> Transaction_Serialize t' = Transaction_Serialize t \<and> tx_txHash t' = h \<and>
    tx_fee t' = tx_fee t \<and> tx_blockHeight t' = tx_blockHeight t \<and> tx_timestamp t' = tx_timestamp t \<and>
    tx_isRegistered t' = tx_isRegistered t"
proof -
  obtain h t1 where h: "Transaction_GetHash (je_sha256_2 E) t = Ret (h, t1)"
    using Transaction_rehash_canon [OF assms(2) refl, of "je_sha256_2 E"]
    by (cases "tx_txHash t = 0") (simp_all add: Transaction_GetHash_def)
  then show ?thesis using Transaction_json [OF assms(1,3) h, of old] by blast
qed

theorem transaction_json_roundtrip_witness:
  "\<exists>j t1 t'. Transaction_ToJson sample_json sample_tx = Ret (j, t1) \<and>
    Transaction_FromJson sample_json j Transaction_new = Ret t' \<and>
    Transaction_Serialize t' = Transaction_Serialize sample_tx \<and> tx_fee t' = tx_fee sample_tx"
proof -
  have "Transaction_json_ok sample_json sample_tx"
    by (simp add: Transaction_json_ok_def sample_defs OutputPayload_typed_def)
  from transaction_json_roundtrip [OF sample_json_ok sample_tx_fits this, of Transaction_new] show ?thesis by blast
qed

section \<open>Requests of the main chain\<close>

text \<open>C5: whatever a request of the main chain is for, the transaction in its reply spends the outputs that were named,
  each once, has the type of the request, and pays out in outputs and fee exactly what it spends.\<close>

theorem mainchain_conserves:
  assumes "mainchain_create M random inputs fee memo w rq = Ret (j, w')"
  shows "\<exists>utxos tx. mainchain_inputs M inputs = Ret utxos \<and> distinct (map outpoint utxos) \<and>
    EncodeTx (mc_sha256_2 M) CHAINID_MAINCHAIN tx = Ret j \<and> tx_inputs tx = map utxo_input utxos \<and>
    tx_type tx = request_type rq \<and>
    sum_list (map out_amount (tx_outputs tx)) + mainchain_dec M fee = sum_list (map utxo_amount utxos)"
proof -
  obtain utxos tx where t: "mainchain_inputs M inputs = Ret utxos" "EncodeTx (mc_sha256_2 M) CHAINID_MAINCHAIN tx = Ret j"
    "tx_inputs tx = map utxo_input utxos" "tx_type tx = request_type rq"
    "sum_list (map out_amount (tx_outputs tx)) + mainchain_dec M fee = sum_list (map utxo_amount utxos)"
    using mainchain_create_spends [OF assms] by blast
  have "UTXOSet_ok utxos"
    using UTXOFromJson_ok [OF t(1) [unfolded mainchain_inputs_def]] by (simp add: UTXOSet_ok_def)
  with t show ?thesis using UTXOSet_ok_distinct by blast
qed

theorem mainchain_conserves_witness:
  "\<exists>inputs w j w' tx. mainchain_create sample_mc 7 inputs ''1'' ''hi'' w (RQ_TerminateProposal sample_end_payload) = Ret (j, w') \<and>
    EncodeTx (al_sha256_2 sample_lib) CHAINID_MAINCHAIN tx = Ret j \<and> tx_type tx = Tx_crcProposal \<and>
    sum_list (map out_amount (tx_outputs tx)) + 1 = 10"
proof -
  obtain inputs a w j w' where r: "mainchain_create sample_mc 7 inputs ''1'' ''hi'' w (RQ_TerminateProposal sample_end_payload) =
      Ret (j, w')" "mainchain_inputs sample_mc inputs = Ret [UTXO_of 1 0 a 10]"
    using sample_end_created by blast
  have "mainchain_dec sample_mc ''1'' = 1"
    by (simp add: mainchain_dec_def BigInt_setDec_def) code_simp
  with mainchain_conserves [OF r(1)] r show ?thesis by (fastforce simp: UTXO_of_def simp del: mainchain_create.simps)
qed





text \<open>C22: a producer is registered with a deposit of 5000 ELA or more, the amount that was asked for, in the first
  output of the transaction, which is locked to the deposit address of the owner key in its payload.\<close>

theorem producer_deposit:
  assumes "MainchainSubWallet_CreateRegisterProducerTransaction M random inputs payload amount fee memo w = Ret (j, w')"
  shows "\<exists>tx out change p addr. EncodeTx (mc_sha256_2 M) CHAINID_MAINCHAIN tx = Ret j \<and> tx_outputs tx = out # change \<and>
    length change \<le> 1 \<and> tx_payload tx = Some (PL_ProducerInfo p) \<and>
    500000000000 \<le> out_amount out \<and> out_amount out = mainchain_dec M amount \<and>
    Address_of_pubkey (mc_hash160 M) PrefixDeposit (prod_ownerPublicKey p) False = Ret addr \<and> out_address out = addr"
  using assms by (rule register_producer_deposits)

theorem producer_deposit_witness:
  "\<exists>inputs w j w' tx. MainchainSubWallet_CreateRegisterProducerTransaction sample_mc 7 inputs sample_producer_payload
      (dec_text 500000000000) ''1'' ''hi'' w = Ret (j, w') \<and>
    EncodeTx (al_sha256_2 sample_lib) CHAINID_MAINCHAIN tx = Ret j \<and> 500000000000 \<le> out_amount (hd (tx_outputs tx))"
proof -
  obtain inputs w j w' where r: "MainchainSubWallet_CreateRegisterProducerTransaction sample_mc 7 inputs sample_producer_payload
      (dec_text 500000000000) ''1'' ''hi'' w = Ret (j, w')"
    using sample_producer_created by blast
  from producer_deposit [OF r] r show ?thesis by fastforce
qed

text \<open>C28: what the wallet replies to a request to stake, to vote with a stake, to claim a reward, to cancel votes or to
  unstake can be read by nobody, the wallet itself included: the reader of transactions does not know the type.\<close>

theorem unreadable_replies:
  assumes "mainchain_create M random inputs fee memo w rq = Ret (j, w')"
    and "request_type rq \<in> {Tx_Stake, Tx_Voting, Tx_DposV2ClaimReward, Tx_CancelVotes}"
    and "w_chainID w = CHAINID_MAINCHAIN"
  shows "DecodeTx (mc_sha256_2 M) j = Throw E_InvalidArgument"
  using assms by (rule unread_reply)

theorem unreadable_replies_witness:
  "\<exists>inputs w j w'. mainchain_create sample_mc 7 inputs ''1'' ''hi'' w
    (RQ_CancelVotes (CancelVotes_ToJson sample_json 0 CancelVotes_new)) = Ret (j, w') \<and>
    DecodeTx (al_sha256_2 sample_lib) j = Throw E_InvalidArgument"
proof -
  obtain inputs w j w' where r: "mainchain_create sample_mc 7 inputs ''1'' ''hi'' w
      (RQ_CancelVotes (CancelVotes_ToJson sample_json 0 CancelVotes_new)) = Ret (j, w')" "w_chainID w = CHAINID_MAINCHAIN"
    using sample_cancel_created by blast
  from unreadable_replies [OF r(1) _ r(2)] r show ?thesis by fastforce
qed

section \<open>Master wallets and their files\<close>







text \<open>C27: a key store that was imported is exported under a new password to a file that imports as the same wallet.\<close>

theorem keystore_stable:
  assumes "json_text_ok T" and "ccm_ok cc" and "13 \<le> length randomIV"
    and "KeyStore_Import lib cc T saved passwd w0 = Ret w" and "wallet_ok w"
    and "KeyStore_Export cc T w passwd' True randomSalt randomIV = Ret saved'"
  shows "KeyStore_Import lib cc T saved' passwd' w0' = Ret w"
  using assms by (rule keystore_again)

theorem keystore_stable_witness:
  "\<exists>saved w saved'. KeyStore_Import sample_lib sample_ccm sample_texts saved ''old'' ElaNewWalletJson_new = Ret w \<and>
     KeyStore_Export sample_ccm sample_texts w ''new'' True (replicate 8 1) (replicate 16 2) = Ret saved' \<and>
     KeyStore_Import sample_lib sample_ccm sample_texts saved' ''new'' ElaNewWalletJson_new = Ret w"
proof -
  obtain a where a: "Account_of_seed sample_lib ''root/w'' 0 sample_passwd True [] [] = Ret a"
    "ls_subWallets (acc_localstore a) = []" "store_ints (acc_localstore a)"
    using sample_seed_account by metis
  obtain root std where f: "from_seed sample_lib 0 root std sample_passwd (acc_localstore a)"
    using Account_of_seed_from_seed [OF sample_aes_ok a(1)] by blast
  have "key_value root \<noteq> 0" using sample_root [of CTElastos] f by (auto simp: from_seed_def)
  note nz = nonzero_key [OF this]
  have lib: "hd_lib_ok (al_hd sample_lib)" by (simp add: sample_hd_ok)
  obtain json where json: "Account_ExportKeystore sample_lib sample_passwd a = Ret (json, a)"
    "js_m json = ls_m (acc_localstore a)" "js_n json = ls_n (acc_localstore a)"
    "js_coinInfoList json = ls_subWallets (acc_localstore a)"
    using from_seed_export [OF lib f nz] by metis
  let ?w = "WalletJson_of json"
  have i: "int32 (ls_m (acc_localstore a))" "int32 (ls_n (acc_localstore a))" "coins_ok (ls_subWallets (acc_localstore a))"
    using a by (simp_all add: store_ints_def coins_ok_def)
  have iv: "(13 :: nat) \<le> length (replicate 16 2 :: bytes)" by simp
  have d: "is_Ret (json_dump sample_texts (ElaNewWalletJson_ToJson sample_texts True ?w))" by (simp add: sample_dump is_Ret_def)
  obtain saved where saved: "KeyStore_Export sample_ccm sample_texts ?w ''old'' True (replicate 8 1) (replicate 16 2) = Ret saved"
    using KeyStore_Export_returns [OF sample_ccm_ok iv d] by blast
  obtain saved' where saved': "KeyStore_Export sample_ccm sample_texts ?w ''new'' True (replicate 8 1) (replicate 16 2) = Ret saved'"
    using KeyStore_Export_returns [OF sample_ccm_ok iv d] by blast
  have k: "KeyStore_Import sample_lib sample_ccm sample_texts saved ''old'' ElaNewWalletJson_new = Ret ?w"
    by (rule backup_of_seed_account(2) [OF lib sample_aes_ok sample_texts_ok sample_ccm_ok iv f nz i json(1) saved])
  have "wallet_ok ?w" using json i by (simp add: wallet_ok_def WalletJson_of_def ElaNewWalletJson.extend_def int32_def)
  from keystore_stable [OF sample_texts_ok sample_ccm_ok iv k this saved', of ElaNewWalletJson_new] k saved'
  show ?thesis by blast
qed



text \<open>C29: a wallet that has a store on disk is listed by a manager that was just started, but it is not loaded, and
  until it is, destroying it does nothing and no wallet of its name can be made.\<close>

theorem unloaded_wallets:
  assumes "MasterWalletManager_new W there names rootPath netType config dataPath files = Ret m"
    and "lists_folders (mm_dataPath m) files names" and "has_store (mm_dataPath m) files n"
  shows "n \<in> set (MasterWalletManager_GetAllMasterWalletID m) \<and> \<not> MasterWalletManager_WalletLoaded n m \<and>
    MasterWalletManager_DestroyWallet n m = m \<and>
    (\<forall>x \<in> {MasterWalletManager_CreateMasterWallet W n mnemonic passphrase passwd single m,
        MasterWalletManager_CreateMasterWallet_single W n key passwd m,
        MasterWalletManager_CreateMultiSignMasterWallet W n cosigners k single old m,
        MasterWalletManager_CreateMultiSignMasterWallet_xprv W n xprv passwd cosigners k single old m,
        MasterWalletManager_CreateMultiSignMasterWallet_mnemonic W n mnemonic passphrase passwd cosigners k single old m,
        MasterWalletManager_ImportWalletWithKeystore W n keystore backup passwd m,
        MasterWalletManager_ImportWalletWithMnemonic W n mnemonic passphrase passwd single m,
        MasterWalletManager_ImportWalletWithSeed W n seed passwd single mnemonic passphrase m}.
      does_nothing m x)"
proof -
  have l: "map_of (mm_masterWalletMap m) n = Some None" by (rule new_lists [OF assms])
  have "n \<in> set (MasterWalletManager_GetAllMasterWalletID m)"
    using map_of_SomeD [OF l] by (force simp: MasterWalletManager_GetAllMasterWalletID_def)
  then show ?thesis using unloaded_calls(1,2) [OF l] by (simp add: nothing_made [OF l])
qed

theorem unloaded_wallets_witness:
  "\<exists>(files :: files) m. has_store (mm_dataPath m) files ''w'' \<and>
     MasterWalletManager_GetAllMasterWalletID m = [''w''] \<and> \<not> MasterWalletManager_WalletLoaded ''w'' m \<and>
     MasterWalletManager_DestroyWallet ''w'' m = (m :: unit MasterWalletManager)"
proof -
  define files :: files where "files = [''root/w'' \<mapsto> \<lparr>fd_store = Some ''{}'', fd_old = None\<rparr>]"
  define m :: "unit MasterWalletManager" where "m = MasterWalletManager_LoadMasterWalletID [''w'']
     \<lparr>mm_rootPath = ''root'', mm_dataPath = ''root'', mm_config = sample_config, mm_masterWalletMap = [], mm_files = files\<rparr>"
  have new: "MasterWalletManager_new sample_env (\<lambda>p. True) [''w''] ''root'' ''MainNet'' (JObj [(''ELA'', JNull)]) []
      files = Ret m"
    by (simp add: sample_new m_def)
  have p: "mm_dataPath m = ''root''" by (simp add: m_def MasterWalletManager_LoadMasterWalletID_def)
  have "lists_folders (mm_dataPath m) files [''w'']" "has_store (mm_dataPath m) files ''w''"
    unfolding p by (auto simp: lists_folders_def files_def wallet_path_def has_store_def)
  from unloaded_wallets [OF new this] this(2)
  have "has_store (mm_dataPath m) files ''w''" "\<not> MasterWalletManager_WalletLoaded ''w'' m"
    "MasterWalletManager_DestroyWallet ''w'' m = m" by auto
  moreover have "MasterWalletManager_GetAllMasterWalletID m = [''w'']"
    by (simp add: m_def files_def MasterWalletManager_LoadMasterWalletID_def has_store_def wallet_path_def
        MasterWalletManager_GetAllMasterWalletID_def)
  ultimately show ?thesis by blast
qed

end
